(* ===== verification/Prelude.thy ===== *)
theory Prelude
  imports Main "HOL-Library.Word"
begin

text \<open>
  Shared vocabulary of the development: the primitive integer types of
  \<open>Common/Types/Primitive.hpp\<close>, the error values that stand for the C++
  exceptions the emulator throws, sequencing of computations that may throw,
  and the little-endian lanes of a machine word (the unions of the register
  classes), with the lemmas about lanes every component uses.
\<close>

unbundle bit_operations_syntax

section \<open>Primitive types\<close>

type_synonym ubyte = "8 word"
type_synonym uhword = "16 word"
type_synonym uword = "32 word"
type_synonym udword = "64 word"
type_synonym uqword = "128 word"
type_synonym uptr = "32 word"

section \<open>Exceptions as values\<close>

text \<open>
  A C++ exception ends the run of the emulator (\<open>Core::run\<close> logs and rethrows it),
  so a computation that throws has no further state.  \<open>Runtime_error\<close> is a
  \<open>std::runtime_error\<close>, \<open>Bad_optional_access\<close> the exception of
  \<open>std::optional::value\<close> on an empty optional, \<open>Invalid_offset\<close> the debug build's
  bounds check of a register or memory access (undefined behaviour in a release
  build), \<open>Out_of_bounds\<close> an array access outside its bounds that no build checks, \<open>Null_object\<close> a call through a null pointer, \<open>Undefined_shift\<close> a shift by the width of its operand or more,
  \<open>Arithmetic_fault\<close> an integer division the processor traps on, \<open>Undefined_conversion\<close> a float
  converted to an integer type that cannot hold it, \<open>Endless_loop\<close> a loop that is never left.
\<close>

datatype emu_error =
    Runtime_error
  | Bad_optional_access
  | Invalid_offset
  | Out_of_bounds
  | Arithmetic_fault
  | Null_object
  | Undefined_shift
  | Undefined_conversion
  | Endless_loop

type_synonym 'a res = "emu_error + 'a"

definition bind_res :: "'a res \<Rightarrow> ('a \<Rightarrow> 'b res) \<Rightarrow> 'b res" where
  "bind_res m f = (case m of Inl e \<Rightarrow> Inl e | Inr a \<Rightarrow> f a)"

lemma bind_res_simps [simp]:
  "bind_res (Inl e) f = Inl e"
  "bind_res (Inr a) f = f a"
  by (simp_all add: bind_res_def)

lemma bind_res_eq_Inr [simp]:
  "bind_res m f = Inr b \<longleftrightarrow> (\<exists>a. m = Inr a \<and> f a = Inr b)"
  by (cases m) simp_all

lemma bind_res_eq_Inl:
  "bind_res m f = Inl e \<longleftrightarrow> m = Inl e \<or> (\<exists>a. m = Inr a \<and> f a = Inl e)"
  by (cases m) simp_all

lemma bind_res_assoc: "bind_res (bind_res m f) g = bind_res m (\<lambda>a. bind_res (f a) g)"
  by (cases m) simp_all

text \<open>The normal outcomes of a computation satisfy a predicate.\<close>

definition ok_res :: "('a \<Rightarrow> bool) \<Rightarrow> 'a res \<Rightarrow> bool" where
  "ok_res P m \<longleftrightarrow> (case m of Inl e \<Rightarrow> True | Inr a \<Rightarrow> P a)"

lemma ok_res_simps [simp]:
  "ok_res P (Inl e)"
  "ok_res P (Inr a) = P a"
  by (simp_all add: ok_res_def)

lemma ok_res_bind [intro]:
  "ok_res P m \<Longrightarrow> (\<And>a. P a \<Longrightarrow> ok_res Q (f a)) \<Longrightarrow> ok_res Q (bind_res m f)"
  by (cases m) simp_all

lemma ok_resD: "ok_res P m \<Longrightarrow> m = Inr a \<Longrightarrow> P a"
  by simp

section \<open>Collections of rules\<close>

text \<open>
  \<open>word_defs\<close>: the definitions a word computation unfolds to; \<open>frame\<close>: which fields
  an operation leaves alone.
\<close>

named_theorems word_defs
named_theorems frame

section \<open>Little-endian lanes\<close>

text \<open>
  The register classes keep their value in a union of arrays of bytes, hwords,
  words and dwords.  On the little-endian hosts the emulator supports, element
  \<open>i\<close> of the array of \<open>'b\<close> is the bits from \<open>i * LENGTH('b)\<close> on.
\<close>

definition get_lane :: "nat \<Rightarrow> 'a::len word \<Rightarrow> 'b::len word" where
  "get_lane i w = ucast (drop_bit (i * LENGTH('b)) w)"

definition lane_mask :: "'b::len itself \<Rightarrow> nat \<Rightarrow> 'a::len word" where
  "lane_mask t i = push_bit (i * LENGTH('b)) (mask LENGTH('b))"

definition put_lane :: "nat \<Rightarrow> 'b::len word \<Rightarrow> 'a::len word \<Rightarrow> 'a word" where
  "put_lane i v w =
     (w AND NOT (lane_mask TYPE('b) i)) OR push_bit (i * LENGTH('b)) (ucast v)"

lemma bit_get_lane [simp]:
  "bit (get_lane i (w :: 'a::len word) :: 'b::len word) n
     \<longleftrightarrow> n < LENGTH('b) \<and> bit w (i * LENGTH('b) + n)"
  by (auto simp: get_lane_def bit_simps dest: bit_imp_le_length)

lemma bit_put_lane:
  "bit (put_lane i (v :: 'b::len word) (w :: 'a::len word)) n \<longleftrightarrow>
     n < LENGTH('a) \<and>
     (if i * LENGTH('b) \<le> n \<and> n < i * LENGTH('b) + LENGTH('b)
      then bit v (n - i * LENGTH('b)) else bit w n)"
  by (auto simp: put_lane_def lane_mask_def bit_simps dest: bit_imp_le_length)

lemma lane_ranges_disjoint:
  fixes i j n l :: nat
  assumes "i \<noteq> j" and "n < l" and "j * l \<le> i * l + n"
  shows "\<not> i * l + n < j * l + l"
proof
  assume "i * l + n < j * l + l"
  then have "i * l < Suc j * l" by simp
  moreover have "j * l < Suc i * l" using assms by simp
  ultimately show False using assms(1) by (simp only: mult_less_cancel2) linarith
qed

lemma get_put_lane_same [simp]:
  "(Suc i) * LENGTH('b::len) \<le> LENGTH('a::len) \<Longrightarrow>
   get_lane i (put_lane i (v :: 'b word) (w :: 'a word)) = v"
  by (rule bit_word_eqI) (auto simp: bit_put_lane)

lemma get_put_lane_other:
  assumes "i \<noteq> j" and "(Suc i) * LENGTH('b::len) \<le> LENGTH('a::len)"
  shows "(get_lane i (put_lane j (v :: 'b word) (w :: 'a word)) :: 'b word) = get_lane i w"
  using assms by (intro bit_word_eqI) (auto simp: bit_put_lane dest: lane_ranges_disjoint)

lemma put_put_lane_same [simp]:
  "put_lane i (v :: 'b::len word) (put_lane i (u :: 'b word) (w :: 'a::len word)) = put_lane i v w"
  by (rule bit_word_eqI) (auto simp: bit_put_lane)

lemma put_get_lane_id [simp]:
  "put_lane i (get_lane i (w :: 'a::len word) :: 'b::len word) w = w"
  by (rule bit_word_eqI) (auto simp: bit_put_lane)

text \<open>A word is determined by its lanes when they tile it.\<close>

lemma lanes_eqI:
  fixes v w :: "'a::len word"
  assumes "\<And>i. i < k \<Longrightarrow> (get_lane i v :: 'b::len word) = get_lane i w"
    and "LENGTH('a) \<le> k * LENGTH('b)"
  shows "v = w"
proof (rule bit_word_eqI)
  fix n assume n: "n < LENGTH('a)"
  let ?i = "n div LENGTH('b)" and ?r = "n mod LENGTH('b)"
  from n assms(2) have i: "?i < k" by (simp add: less_mult_imp_div_less)
  have "bit (get_lane ?i v :: 'b word) ?r = bit (get_lane ?i w :: 'b word) ?r"
    using assms(1)[OF i] by simp
  then show "bit v n = bit w n" by (simp add: mult.commute)
qed

text \<open>Writing every lane of a word, lowest first (the interpreter's store loops).\<close>

fun put_lanes :: "nat \<Rightarrow> 'b::len word list \<Rightarrow> 'a::len word \<Rightarrow> 'a word" where
  "put_lanes i [] w = w"
| "put_lanes i (v # vs) w = put_lanes (Suc i) vs (put_lane i v w)"

lemma get_put_lanes:
  "(j + 1) * LENGTH('b::len) \<le> LENGTH('a::len) \<Longrightarrow>
   (get_lane j (put_lanes i (vs :: 'b word list) (w :: 'a word)) :: 'b word) =
     (if i \<le> j \<and> j < i + length vs then vs ! (j - i) else get_lane j w)"
proof (induction i vs w rule: put_lanes.induct)
  case (1 i w)
  then show ?case by auto
next
  case (2 i v vs w)
  then show ?case
    by (cases "j = i") (auto simp: get_put_lane_other nth_Cons' Suc_le_eq)
qed

text \<open>Reading all lanes.\<close>

definition lanes :: "nat \<Rightarrow> 'a::len word \<Rightarrow> 'b::len word list" where
  "lanes k w = map (\<lambda>i. get_lane i w) [0..<k]"

lemma length_lanes [simp]: "length (lanes k w) = k"
  by (simp add: lanes_def)

lemma nth_lanes [simp]: "i < k \<Longrightarrow> lanes k w ! i = get_lane i w"
  by (simp add: lanes_def)

end
