(* ===== verification/Bitfield.thy ===== *)
theory Bitfield
  imports Prelude
begin

text \<open>
  \<open>Common/Types/Bitfield.hpp\<close>: a bit range of a primitive value, with extraction and
  insertion, and the interface of the registers that offer \<open>extract_field\<close> and
  \<open>insert_field\<close> on top of a read and a write.
\<close>

section \<open>Bit ranges\<close>

record bitfield =
  bf_start :: nat
  bf_length :: nat

definition Bitfield_new :: "int \<Rightarrow> int \<Rightarrow> bitfield res" where
  "Bitfield_new st len =
     (if st < 0 then Inl Runtime_error
      else if len < 0 then Inl Runtime_error
      else Inr \<lparr>bf_start = nat st, bf_length = nat len\<rparr>)"

text \<open>The constant fields of the register classes, whose arguments are literals.\<close>

abbreviation BF :: "nat \<Rightarrow> nat \<Rightarrow> bitfield" where
  "BF st len \<equiv> \<lparr>bf_start = st, bf_length = len\<rparr>"

definition unshifted_mask :: "bitfield \<Rightarrow> 'a::len word" where
  "unshifted_mask f = push_bit (bf_length f) 1 - 1"

definition shifted_mask :: "bitfield \<Rightarrow> 'a::len word" where
  "shifted_mask f = push_bit (bf_start f) (unshifted_mask f)"

definition extract_from :: "bitfield \<Rightarrow> 'a::len word \<Rightarrow> 'a word" where
  "extract_from f v = drop_bit (bf_start f) (v AND shifted_mask f)"

definition insert_into :: "bitfield \<Rightarrow> 'a::len word \<Rightarrow> 'a word \<Rightarrow> 'a word" where
  "insert_into f v fv =
     (v AND NOT (shifted_mask f)) OR push_bit (bf_start f) (fv AND unshifted_mask f)"

text \<open>
  C++ leaves a shift by the width of the type undefined; a field lies inside its
  value when it ends at or before the top bit.
\<close>

definition bf_within :: "bitfield \<Rightarrow> nat \<Rightarrow> bool" where
  "bf_within f w \<longleftrightarrow> bf_start f + bf_length f \<le> w"

definition bf_disjoint :: "bitfield \<Rightarrow> bitfield \<Rightarrow> bool" where
  "bf_disjoint f g \<longleftrightarrow>
     bf_start f + bf_length f \<le> bf_start g \<or> bf_start g + bf_length g \<le> bf_start f"

section \<open>Reading the operations bit by bit\<close>

lemma unshifted_mask_eq: "unshifted_mask f = mask (bf_length f)"
  by (simp add: unshifted_mask_def mask_eq_exp_minus_1 push_bit_eq_mult)

lemma bit_unshifted_mask:
  "bit (unshifted_mask f :: 'a::len word) n \<longleftrightarrow> n < LENGTH('a) \<and> n < bf_length f"
  by (auto simp: unshifted_mask_eq bit_simps)

lemma bit_shifted_mask:
  "bit (shifted_mask f :: 'a::len word) n \<longleftrightarrow>
     n < LENGTH('a) \<and> bf_start f \<le> n \<and> n < bf_start f + bf_length f"
  by (auto simp: shifted_mask_def bit_simps bit_unshifted_mask)

lemma bit_extract_from:
  "bit (extract_from f (v :: 'a::len word)) n \<longleftrightarrow> n < bf_length f \<and> bit v (bf_start f + n)"
  by (auto simp: extract_from_def bit_simps bit_shifted_mask dest: bit_imp_le_length)

lemma bit_insert_into:
  "bit (insert_into f (v :: 'a::len word) x) n \<longleftrightarrow>
     n < LENGTH('a) \<and>
     (if bf_start f \<le> n \<and> n < bf_start f + bf_length f
      then bit x (n - bf_start f) else bit v n)"
  by (auto simp: insert_into_def bit_simps bit_shifted_mask bit_unshifted_mask
      dest: bit_imp_le_length)

lemma extract_from_eq: "extract_from f v = take_bit (bf_length f) (drop_bit (bf_start f) v)"
  by (rule bit_word_eqI) (auto simp: bit_extract_from bit_simps)

section \<open>Laws\<close>

lemma extract_insert_same:
  "bf_within f LENGTH('a) \<Longrightarrow>
   extract_from f (insert_into f (v :: 'a::len word) x) = take_bit (bf_length f) x"
  by (rule bit_word_eqI)
    (auto simp: bit_extract_from bit_insert_into bit_simps bf_within_def)

lemma extract_insert_other:
  "bf_disjoint f g \<Longrightarrow> extract_from f (insert_into g v x) = extract_from f v"
  by (rule bit_word_eqI)
    (auto simp: bit_extract_from bit_insert_into bf_disjoint_def dest: bit_imp_le_length)

lemma insert_extract_id [simp]: "insert_into f v (extract_from f v) = v"
  by (rule bit_word_eqI) (auto simp: bit_insert_into bit_extract_from)

lemma insert_insert_same [simp]: "insert_into f (insert_into f v x) y = insert_into f v y"
  by (rule bit_word_eqI) (auto simp: bit_insert_into)

lemma insert_into_commute:
  "bf_disjoint f g \<Longrightarrow>
   insert_into f (insert_into g v x) y = insert_into g (insert_into f v y) x"
  by (rule bit_word_eqI) (simp add: bit_insert_into bf_disjoint_def, linarith)

lemma extract_from_less: "uint (extract_from f (v :: 'a::len word)) < 2 ^ bf_length f"
proof -
  have "extract_from f v = take_bit (bf_length f) (extract_from f v)"
    by (simp add: extract_from_eq)
  then have "uint (extract_from f v) = take_bit (bf_length f) (uint (extract_from f v))"
    by (metis unsigned_take_bit_eq)
  then show ?thesis by (metis take_bit_int_less_exp)
qed

lemma unat_extract_from_less: "unat (extract_from f (v :: 'a::len word)) < 2 ^ bf_length f"
proof -
  have "nat (uint (extract_from f v)) < nat (2 ^ bf_length f)"
    using extract_from_less[of f v] by (subst nat_mono_iff) simp_all
  then show ?thesis by (simp only: nat_uint_eq nat_power_eq) (simp add: nat_power_eq)
qed

lemma extract_zero_length: "bf_length f = 0 \<Longrightarrow> extract_from f v = 0"
  by (rule bit_word_eqI) (simp add: bit_extract_from)

lemma insert_zero_length: "bf_length f = 0 \<Longrightarrow> insert_into f v x = v"
  by (rule bit_word_eqI) (auto simp: bit_insert_into)

section \<open>The interface of a register with fields\<close>

text \<open>
  Every register class offers \<open>extract_field\<close> and \<open>insert_field\<close>, written once over
  its virtual read and write.  The client lemmas hold for any register whose read
  returns what the last write stored, as long as the register accepts writes.
\<close>

definition reg_extract :: "('s \<Rightarrow> 'a::len word) \<Rightarrow> bitfield \<Rightarrow> 's \<Rightarrow> 'a word" where
  "reg_extract rd f s = extract_from f (rd s)"

definition reg_insert ::
    "('s \<Rightarrow> 'a::len word) \<Rightarrow> ('a word \<Rightarrow> 's \<Rightarrow> 's) \<Rightarrow> bitfield \<Rightarrow> 'a word \<Rightarrow> 's \<Rightarrow> 's" where
  "reg_insert rd wr f v s = wr (insert_into f (rd s) v) s"

locale field_register =
  fixes rd :: "'s \<Rightarrow> 'a::len word"
    and wr :: "'a word \<Rightarrow> 's \<Rightarrow> 's"
    and accepts :: "'s \<Rightarrow> bool"
  assumes rd_wr: "accepts s \<Longrightarrow> rd (wr v s) = v"
    and accepts_wr: "accepts s \<Longrightarrow> accepts (wr v s)"
begin

lemma extract_insert_field:
  "accepts s \<Longrightarrow> bf_within f LENGTH('a) \<Longrightarrow>
   reg_extract rd f (reg_insert rd wr f v s) = take_bit (bf_length f) v"
  by (simp add: reg_extract_def reg_insert_def rd_wr extract_insert_same)

lemma extract_insert_field_other:
  "accepts s \<Longrightarrow> bf_disjoint f g \<Longrightarrow>
   reg_extract rd f (reg_insert rd wr g v s) = reg_extract rd f s"
  by (simp add: reg_extract_def reg_insert_def rd_wr extract_insert_other)

lemma insert_field_read:
  "accepts s \<Longrightarrow> rd (reg_insert rd wr f v s) = insert_into f (rd s) v"
  by (simp add: reg_insert_def rd_wr)

lemma insert_field_accepts: "accepts s \<Longrightarrow> accepts (reg_insert rd wr f v s)"
  by (simp add: reg_insert_def accepts_wr)

end

end
