(* ===== verification/Registers.thy ===== *)
theory Registers
  imports Bitfield
begin

text \<open>
  \<open>Common/Types/Register/*.hpp\<close>: the sized registers (a value kept in a union of arrays,
  an initial value and a read-only flag under which writes are silently dropped), their
  field access through the \<open>field_register\<close> interface, the hword-to-word mapper, and the
  MIPS helper types of \<open>Common/Types/Mips\<close>: instruction fields and the branch delay slot.
\<close>

section \<open>Sized registers\<close>

record 'a sized_register =
  reg_val :: 'a
  reg_initial :: 'a
  reg_read_only :: bool

definition SizedRegister_new :: "'a \<Rightarrow> bool \<Rightarrow> 'a sized_register" where
  "SizedRegister_new init ro = \<lparr>reg_val = init, reg_initial = init, reg_read_only = ro\<rparr>"

definition reg_initialize :: "'a sized_register \<Rightarrow> 'a sized_register" where
  "reg_initialize r = r\<lparr>reg_val := reg_initial r\<rparr>"

definition reg_read :: "'a sized_register \<Rightarrow> 'a" where
  "reg_read r = reg_val r"

definition reg_write :: "'a \<Rightarrow> 'a sized_register \<Rightarrow> 'a sized_register" where
  "reg_write v r = (if reg_read_only r then r else r\<lparr>reg_val := v\<rparr>)"

definition reg_read_lane :: "nat \<Rightarrow> ('a::len word) sized_register \<Rightarrow> 'b::len word" where
  "reg_read_lane i r = get_lane i (reg_val r)"

definition reg_write_lane ::
    "nat \<Rightarrow> 'b::len word \<Rightarrow> ('a::len word) sized_register \<Rightarrow> 'a word sized_register" where
  "reg_write_lane i v r =
     (if reg_read_only r then r else r\<lparr>reg_val := put_lane i v (reg_val r)\<rparr>)"

type_synonym byte_register = "ubyte sized_register"
type_synonym hword_register = "uhword sized_register"
type_synonym word_register = "uword sized_register"
type_synonym dword_register = "udword sized_register"
type_synonym qword_register = "uqword sized_register"

subsection \<open>Quadword registers\<close>

definition q_read_ubyte :: "nat \<Rightarrow> qword_register \<Rightarrow> ubyte" where
  "q_read_ubyte i r = reg_read_lane i r"
definition q_write_ubyte :: "nat \<Rightarrow> ubyte \<Rightarrow> qword_register \<Rightarrow> qword_register" where
  "q_write_ubyte i v r = reg_write_lane i v r"
definition q_read_uhword :: "nat \<Rightarrow> qword_register \<Rightarrow> uhword" where
  "q_read_uhword i r = reg_read_lane i r"
definition q_write_uhword :: "nat \<Rightarrow> uhword \<Rightarrow> qword_register \<Rightarrow> qword_register" where
  "q_write_uhword i v r = reg_write_lane i v r"
definition q_read_uword :: "nat \<Rightarrow> qword_register \<Rightarrow> uword" where
  "q_read_uword i r = reg_read_lane i r"
definition q_write_uword :: "nat \<Rightarrow> uword \<Rightarrow> qword_register \<Rightarrow> qword_register" where
  "q_write_uword i v r = reg_write_lane i v r"
definition q_read_udword :: "nat \<Rightarrow> qword_register \<Rightarrow> udword" where
  "q_read_udword i r = reg_read_lane i r"
definition q_write_udword :: "nat \<Rightarrow> udword \<Rightarrow> qword_register \<Rightarrow> qword_register" where
  "q_write_udword i v r = reg_write_lane i v r"
definition q_read_uqword :: "qword_register \<Rightarrow> uqword" where
  "q_read_uqword r = reg_read r"
definition q_write_uqword :: "uqword \<Rightarrow> qword_register \<Rightarrow> qword_register" where
  "q_write_uqword v r = reg_write v r"

lemmas q_defs =
  q_read_ubyte_def q_write_ubyte_def q_read_uhword_def q_write_uhword_def
  q_read_uword_def q_write_uword_def q_read_udword_def q_write_udword_def
  q_read_uqword_def q_write_uqword_def

text \<open>
  The debug build bounds-checks the offset and throws.  The check of the dword accessors
  compares with the number of words.
\<close>

definition q_write_uword_checked :: "nat \<Rightarrow> uword \<Rightarrow> qword_register \<Rightarrow> qword_register res" where
  "q_write_uword_checked i v r = (if i \<ge> 4 then Inl Invalid_offset else Inr (q_write_uword i v r))"

definition q_read_udword_checked :: "nat \<Rightarrow> qword_register \<Rightarrow> udword res" where
  "q_read_udword_checked i r =
     (if i \<ge> 4 then Inl Invalid_offset
      else if i \<ge> 2 then Inl Out_of_bounds
      else Inr (q_read_udword i r))"

definition q_write_udword_checked :: "nat \<Rightarrow> udword \<Rightarrow> qword_register \<Rightarrow> qword_register res" where
  "q_write_udword_checked i v r =
     (if i \<ge> 4 then Inl Invalid_offset
      else if i \<ge> 2 then (if reg_read_only r then Inr r else Inl Out_of_bounds)
      else Inr (q_write_udword i v r))"

subsection \<open>Word registers\<close>

definition w_read_ubyte :: "nat \<Rightarrow> word_register \<Rightarrow> ubyte" where
  "w_read_ubyte i r = reg_read_lane i r"
definition w_write_ubyte :: "nat \<Rightarrow> ubyte \<Rightarrow> word_register \<Rightarrow> word_register" where
  "w_write_ubyte i v r = reg_write_lane i v r"
definition w_read_uhword :: "nat \<Rightarrow> word_register \<Rightarrow> uhword" where
  "w_read_uhword i r = reg_read_lane i r"
definition w_write_uhword :: "nat \<Rightarrow> uhword \<Rightarrow> word_register \<Rightarrow> word_register" where
  "w_write_uhword i v r = reg_write_lane i v r"
definition w_read_uword :: "word_register \<Rightarrow> uword" where
  "w_read_uword r = reg_read r"
definition w_write_uword :: "uword \<Rightarrow> word_register \<Rightarrow> word_register" where
  "w_write_uword v r = reg_write v r"

definition w_extract_field :: "bitfield \<Rightarrow> word_register \<Rightarrow> uword" where
  "w_extract_field f r = reg_extract w_read_uword f r"
definition w_insert_field :: "bitfield \<Rightarrow> uword \<Rightarrow> word_register \<Rightarrow> word_register" where
  "w_insert_field f v r = reg_insert w_read_uword w_write_uword f v r"
definition w_offset :: "uword \<Rightarrow> word_register \<Rightarrow> word_register" where
  "w_offset v r = w_write_uword (w_read_uword r + v) r"

lemmas w_defs =
  w_read_ubyte_def w_write_ubyte_def w_read_uhword_def w_write_uhword_def
  w_read_uword_def w_write_uword_def

subsection \<open>Doubleword, hword and byte registers\<close>

definition d_read_uword :: "nat \<Rightarrow> dword_register \<Rightarrow> uword" where
  "d_read_uword i r = reg_read_lane i r"
definition d_write_uword :: "nat \<Rightarrow> uword \<Rightarrow> dword_register \<Rightarrow> dword_register" where
  "d_write_uword i v r = reg_write_lane i v r"
definition d_read_udword :: "dword_register \<Rightarrow> udword" where
  "d_read_udword r = reg_read r"
definition d_write_udword :: "udword \<Rightarrow> dword_register \<Rightarrow> dword_register" where
  "d_write_udword v r = reg_write v r"

definition h_read_ubyte :: "nat \<Rightarrow> hword_register \<Rightarrow> ubyte" where
  "h_read_ubyte i r = reg_read_lane i r"
definition h_write_ubyte :: "nat \<Rightarrow> ubyte \<Rightarrow> hword_register \<Rightarrow> hword_register" where
  "h_write_ubyte i v r = reg_write_lane i v r"
definition h_read_uhword :: "hword_register \<Rightarrow> uhword" where
  "h_read_uhword r = reg_read r"
definition h_write_uhword :: "uhword \<Rightarrow> hword_register \<Rightarrow> hword_register" where
  "h_write_uhword v r = reg_write v r"

definition b_read_ubyte :: "byte_register \<Rightarrow> ubyte" where
  "b_read_ubyte r = reg_read r"
definition b_write_ubyte :: "ubyte \<Rightarrow> byte_register \<Rightarrow> byte_register" where
  "b_write_ubyte v r = reg_write v r"

lemmas dhb_defs =
  d_read_uword_def d_write_uword_def d_read_udword_def d_write_udword_def
  h_read_ubyte_def h_write_ubyte_def h_read_uhword_def h_write_uhword_def
  b_read_ubyte_def b_write_ubyte_def

text \<open>\<open>MapperHwordWordRegister\<close>: a hword register seen as a word register.\<close>

definition mapper_read_uword :: "hword_register \<Rightarrow> uword" where
  "mapper_read_uword h = ucast (h_read_uhword h)"
definition mapper_write_uword :: "uword \<Rightarrow> hword_register \<Rightarrow> hword_register" where
  "mapper_write_uword v h = h_write_uhword (ucast v) h"

subsection \<open>Laws\<close>

lemma reg_read_write [simp]: "\<not> reg_read_only r \<Longrightarrow> reg_read (reg_write v r) = v"
  by (simp add: reg_read_def reg_write_def)

lemma reg_write_read_only [simp]: "reg_read_only r \<Longrightarrow> reg_write v r = r"
  by (simp add: reg_write_def)

lemma reg_write_lane_read_only [simp]: "reg_read_only r \<Longrightarrow> reg_write_lane i v r = r"
  by (simp add: reg_write_lane_def)

lemma reg_read_only_write [simp]:
  "reg_read_only (reg_write v r) = reg_read_only r"
  "reg_read_only (reg_write_lane i x r) = reg_read_only r"
  by (simp_all add: reg_write_def reg_write_lane_def)

lemma reg_initial_write [simp]:
  "reg_initial (reg_write v r) = reg_initial r"
  "reg_initial (reg_write_lane i x r) = reg_initial r"
  by (simp_all add: reg_write_def reg_write_lane_def)

lemma reg_val_write [simp]:
  "\<not> reg_read_only r \<Longrightarrow> reg_val (reg_write v r) = v"
  "\<not> reg_read_only r \<Longrightarrow> reg_val (reg_write_lane i x r) = put_lane i x (reg_val r)"
  by (simp_all add: reg_write_def reg_write_lane_def)

interpretation word_reg: field_register w_read_uword w_write_uword "\<lambda>r. \<not> reg_read_only r"
  by unfold_locales (simp_all add: w_defs)

interpretation dword_reg: field_register d_read_udword d_write_udword "\<lambda>r. \<not> reg_read_only r"
  by unfold_locales (simp_all add: dhb_defs)

interpretation hword_reg: field_register h_read_uhword h_write_uhword "\<lambda>r. \<not> reg_read_only r"
  by unfold_locales (simp_all add: dhb_defs)

lemma mapper_read_write:
  "\<not> reg_read_only h \<Longrightarrow> mapper_read_uword (mapper_write_uword v h) = take_bit 16 v"
  by (rule bit_word_eqI) (simp add: mapper_read_uword_def mapper_write_uword_def dhb_defs bit_simps)

lemma w_insert_field_val:
  "\<not> reg_read_only r \<Longrightarrow> reg_val (w_insert_field f v r) = insert_into f (reg_val r) v"
  by (simp add: w_insert_field_def reg_insert_def w_defs reg_read_def)

lemma w_insert_field_ro [simp]: "reg_read_only (w_insert_field f v r) = reg_read_only r"
  by (simp add: w_insert_field_def reg_insert_def w_defs)

section \<open>Instruction fields\<close>

text \<open>\<open>MipsInstruction\<close>: the raw value and the accessors of its fields.\<close>

type_synonym instruction = uword

definition inst_opcode :: "instruction \<Rightarrow> nat" where
  "inst_opcode i = unat (extract_from (BF 26 6) i)"
definition inst_rs :: "instruction \<Rightarrow> nat" where
  "inst_rs i = unat (extract_from (BF 21 5) i)"
definition inst_rt :: "instruction \<Rightarrow> nat" where
  "inst_rt i = unat (extract_from (BF 16 5) i)"
definition inst_rd :: "instruction \<Rightarrow> nat" where
  "inst_rd i = unat (extract_from (BF 11 5) i)"
definition inst_shamt :: "instruction \<Rightarrow> nat" where
  "inst_shamt i = unat (extract_from (BF 6 5) i)"
definition inst_funct :: "instruction \<Rightarrow> nat" where
  "inst_funct i = unat (extract_from (BF 0 6) i)"
definition inst_u_imm :: "instruction \<Rightarrow> uhword" where
  "inst_u_imm i = ucast (extract_from (BF 0 16) i)"
definition inst_s_imm :: "instruction \<Rightarrow> uhword" where
  "inst_s_imm i = inst_u_imm i"
definition inst_addr :: "instruction \<Rightarrow> uptr" where
  "inst_addr i = extract_from (BF 0 26) i"

lemmas inst_defs =
  inst_opcode_def inst_rs_def inst_rt_def inst_rd_def inst_shamt_def inst_funct_def
  inst_u_imm_def inst_s_imm_def inst_addr_def

lemma inst_field_bounds [simp]:
  "inst_opcode i < 64" "inst_rs i < 32" "inst_rt i < 32" "inst_rd i < 32"
  "inst_shamt i < 32" "inst_funct i < 64"
  using unat_extract_from_less[of "BF 26 6" i] unat_extract_from_less[of "BF 21 5" i]
    unat_extract_from_less[of "BF 16 5" i] unat_extract_from_less[of "BF 11 5" i]
    unat_extract_from_less[of "BF 6 5" i] unat_extract_from_less[of "BF 0 6" i]
  by (simp_all add: inst_defs)

section \<open>The branch delay slot\<close>

record branch_delay_slot =
  current_slot :: nat
  branch_pc :: uptr

definition BranchDelaySlot_new :: branch_delay_slot where
  "BranchDelaySlot_new = \<lparr>current_slot = 0, branch_pc = 0\<rparr>"

definition set_branch_direct :: "nat \<Rightarrow> uptr \<Rightarrow> branch_delay_slot \<Rightarrow> branch_delay_slot" where
  "set_branch_direct slots address b = b\<lparr>current_slot := slots + 1, branch_pc := address\<rparr>"

definition set_branch_itype ::
    "nat \<Rightarrow> word_register \<Rightarrow> uhword \<Rightarrow> branch_delay_slot \<Rightarrow> branch_delay_slot" where
  "set_branch_itype slots pc imm b =
     b\<lparr>current_slot := slots + 1,
       branch_pc := (w_read_uword pc + 4) + push_bit 2 (scast imm)\<rparr>"

definition set_branch_jtype ::
    "nat \<Rightarrow> word_register \<Rightarrow> uptr \<Rightarrow> branch_delay_slot \<Rightarrow> branch_delay_slot" where
  "set_branch_jtype slots pc j_region_addr b =
     b\<lparr>current_slot := slots + 1,
       branch_pc := ((w_read_uword pc + 4) AND 0xF0000000) OR push_bit 2 j_region_addr\<rparr>"

definition advance_pc ::
    "branch_delay_slot \<times> word_register \<Rightarrow> branch_delay_slot \<times> word_register" where
  "advance_pc s =
     (let (b, pc) = s in
      if current_slot b \<noteq> 0 then
        let b' = b\<lparr>current_slot := current_slot b - 1\<rparr> in
        if current_slot b' = 0 then (b', w_write_uword (branch_pc b') pc)
        else (b', w_offset 4 pc)
      else (b, w_offset 4 pc))"

definition stop_branch :: "branch_delay_slot \<Rightarrow> branch_delay_slot" where
  "stop_branch b = b\<lparr>current_slot := 0\<rparr>"

definition is_branch_pending :: "branch_delay_slot \<Rightarrow> bool" where
  "is_branch_pending b \<longleftrightarrow> current_slot b > 0"

lemmas bdelay_defs =
  set_branch_direct_def set_branch_itype_def set_branch_jtype_def advance_pc_def
  stop_branch_def is_branch_pending_def

lemma w_offset_val [simp]:
  "\<not> reg_read_only pc \<Longrightarrow> reg_val (w_offset v pc) = reg_val pc + v"
  by (simp add: w_offset_def w_defs reg_read_def)

lemma w_offset_ro [simp]: "reg_read_only (w_offset v pc) = reg_read_only pc"
  by (simp add: w_offset_def w_defs)

lemma advance_pc_ro [simp]: "reg_read_only (snd (advance_pc (b, pc))) = reg_read_only pc"
  by (simp add: advance_pc_def Let_def w_defs)

lemma advance_pc_counting:
  assumes "\<not> reg_read_only pc" and "k \<le> n"
  shows "(advance_pc ^^ k) (b\<lparr>current_slot := Suc n\<rparr>, pc) =
           (b\<lparr>current_slot := Suc n - k\<rparr>, pc\<lparr>reg_val := reg_val pc + 4 * of_nat k\<rparr>)"
  using assms(2)
proof (induction k)
  case 0
  then show ?case by simp
next
  case (Suc k)
  then show ?case
    using assms(1)
    by (simp add: advance_pc_def Let_def w_offset_def w_defs reg_read_def reg_write_def
        algebra_simps)
qed

lemma delay_slots_then_branch:
  assumes "\<not> reg_read_only pc" and "current_slot b = Suc n"
  shows "(advance_pc ^^ Suc n) (b, pc) = (b\<lparr>current_slot := 0\<rparr>, pc\<lparr>reg_val := branch_pc b\<rparr>)"
proof -
  have b: "b = b\<lparr>current_slot := Suc n\<rparr>" using assms(2) by simp
  have "(advance_pc ^^ n) (b, pc) =
      (b\<lparr>current_slot := Suc n - n\<rparr>, pc\<lparr>reg_val := reg_val pc + 4 * of_nat n\<rparr>)"
    using advance_pc_counting[OF assms(1), of n n b] b by simp
  then show ?thesis
    using assms(1) by (simp add: advance_pc_def Let_def w_defs reg_write_def)
qed

end
