(* ===== verification/Memory.thy ===== *)
theory Memory
  imports Registers
begin

text \<open>
  The byte storage of the emulator: \<open>Common/Types/Memory/ArrayByteMemory.hpp\<close> (an array of
  bytes accessed at every primitive width, little endian) and the byte queues of
  \<open>Common/Types/FifoQueue/*.hpp\<close>, seen from one thread.  The storage of a queue is a library's;
  here a queue is what it is to its users, a bounded list, and the theory Queues shows that the
  classes as written, over any storage that keeps the library's promise, answer as this list does.
\<close>

section \<open>Values as bytes\<close>

fun join_bytes :: "ubyte list \<Rightarrow> 'a::len word" where
  "join_bytes [] = 0"
| "join_bytes (b # bs) = ucast b OR push_bit 8 (join_bytes bs)"

definition split_bytes :: "nat \<Rightarrow> 'a::len word \<Rightarrow> ubyte list" where
  "split_bytes n w = lanes n w"

lemma length_split_bytes [simp]: "length (split_bytes n w) = n"
  by (simp add: split_bytes_def)

lemma bit_join_bytes:
  "bit (join_bytes bs :: 'a::len word) n \<longleftrightarrow>
     n < LENGTH('a) \<and> n < 8 * length bs \<and> bit (bs ! (n div 8)) (n mod 8)"
proof (induction bs arbitrary: n)
  case (Cons b bs)
  show ?case
  proof (cases "n < 8")
    case True
    then show ?thesis by (auto simp: bit_simps)
  next
    case False
    then obtain m where "n = m + 8" by (metis add.commute le_Suc_ex not_less)
    moreover have "(m + 8) div 8 = Suc (m div 8)" by simp
    ultimately show ?thesis
      using Cons.IH[of m] by (auto simp: bit_simps simp del: div_add_self2 dest: bit_imp_le_length)
  qed
qed simp

lemma join_split_bytes [simp]:
  assumes "LENGTH('a) \<le> 8 * n"
  shows "join_bytes (split_bytes n (w :: 'a::len word)) = w"
proof (rule bit_word_eqI)
  fix k assume k: "k < LENGTH('a)"
  have "k div 8 * 8 + k mod 8 = k" by simp
  then show "bit (join_bytes (split_bytes n w) :: 'a word) k = bit w k"
    using assms k by (simp add: bit_join_bytes split_bytes_def)
qed

lemma split_join_bytes [simp]:
  assumes "8 * length bs \<le> LENGTH('a)"
  shows "split_bytes (length bs) (join_bytes bs :: 'a::len word) = bs"
proof (rule nth_equalityI)
  fix i assume i: "i < length (split_bytes (length bs) (join_bytes bs :: 'a word))"
  show "split_bytes (length bs) (join_bytes bs :: 'a word) ! i = bs ! i"
  proof (rule bit_word_eqI)
    fix k assume "k < LENGTH(8)"
    then show "bit (split_bytes (length bs) (join_bytes bs :: 'a word) ! i) k = bit (bs ! i) k"
      using i assms by (auto simp: split_bytes_def bit_join_bytes)
  qed
qed simp

section \<open>Array memory\<close>

record byte_memory =
  mem_bytes :: "ubyte list"
  mem_initial :: ubyte
  mem_read_only :: bool

definition ArrayByteMemory_new :: "nat \<Rightarrow> ubyte \<Rightarrow> bool \<Rightarrow> byte_memory" where
  "ArrayByteMemory_new sz init ro =
     \<lparr>mem_bytes = replicate sz init, mem_initial = init, mem_read_only = ro\<rparr>"

definition mem_size :: "byte_memory \<Rightarrow> nat" where
  "mem_size m = length (mem_bytes m)"

definition mem_initialize :: "byte_memory \<Rightarrow> byte_memory" where
  "mem_initialize m = m\<lparr>mem_bytes := replicate (mem_size m) (mem_initial m)\<rparr>"

text \<open>
  An access of \<open>n\<close> bytes.  The check of the debug build looks at the first byte only; the
  rest of the access can still leave the array.
\<close>

definition mem_access :: "nat \<Rightarrow> nat \<Rightarrow> byte_memory \<Rightarrow> emu_error option" where
  "mem_access n off m =
     (if off \<ge> mem_size m then Some Invalid_offset
      else if off + n > mem_size m then Some Out_of_bounds
      else None)"

definition mem_read :: "nat \<Rightarrow> nat \<Rightarrow> byte_memory \<Rightarrow> 'a::len word res" where
  "mem_read n off m =
     (case mem_access n off m of
        Some e \<Rightarrow> Inl e
      | None \<Rightarrow> Inr (join_bytes (take n (drop off (mem_bytes m)))))"

definition mem_write :: "nat \<Rightarrow> nat \<Rightarrow> 'a::len word \<Rightarrow> byte_memory \<Rightarrow> byte_memory res" where
  "mem_write n off v m =
     (if off \<ge> mem_size m then Inl Invalid_offset
      else if mem_read_only m then Inr m
      else if off + n > mem_size m then Inl Out_of_bounds
      else Inr (m\<lparr>mem_bytes :=
             take off (mem_bytes m) @ split_bytes n v @ drop (off + n) (mem_bytes m)\<rparr>))"

definition mem_read_ubyte :: "nat \<Rightarrow> byte_memory \<Rightarrow> ubyte res" where
  "mem_read_ubyte off m = mem_read 1 off m"
definition mem_read_uhword :: "nat \<Rightarrow> byte_memory \<Rightarrow> uhword res" where
  "mem_read_uhword off m = mem_read 2 off m"
definition mem_read_uword :: "nat \<Rightarrow> byte_memory \<Rightarrow> uword res" where
  "mem_read_uword off m = mem_read 4 off m"
definition mem_read_udword :: "nat \<Rightarrow> byte_memory \<Rightarrow> udword res" where
  "mem_read_udword off m = mem_read 8 off m"
definition mem_read_uqword :: "nat \<Rightarrow> byte_memory \<Rightarrow> uqword res" where
  "mem_read_uqword off m = mem_read 16 off m"

definition mem_write_ubyte :: "nat \<Rightarrow> ubyte \<Rightarrow> byte_memory \<Rightarrow> byte_memory res" where
  "mem_write_ubyte off v m = mem_write 1 off v m"
definition mem_write_uhword :: "nat \<Rightarrow> uhword \<Rightarrow> byte_memory \<Rightarrow> byte_memory res" where
  "mem_write_uhword off v m = mem_write 2 off v m"
definition mem_write_uword :: "nat \<Rightarrow> uword \<Rightarrow> byte_memory \<Rightarrow> byte_memory res" where
  "mem_write_uword off v m = mem_write 4 off v m"
definition mem_write_udword :: "nat \<Rightarrow> udword \<Rightarrow> byte_memory \<Rightarrow> byte_memory res" where
  "mem_write_udword off v m = mem_write 8 off v m"
definition mem_write_uqword :: "nat \<Rightarrow> uqword \<Rightarrow> byte_memory \<Rightarrow> byte_memory res" where
  "mem_write_uqword off v m = mem_write 16 off v m"

lemmas mem_defs =
  mem_read_ubyte_def mem_read_uhword_def mem_read_uword_def mem_read_udword_def
  mem_read_uqword_def mem_write_ubyte_def mem_write_uhword_def mem_write_uword_def
  mem_write_udword_def mem_write_uqword_def

lemma mem_write_size: "mem_write n off v m = Inr m' \<Longrightarrow> mem_size m' = mem_size m"
  by (auto simp: mem_write_def mem_size_def split: if_splits)

lemma mem_write_read_only: "mem_write n off v m = Inr m' \<Longrightarrow> mem_read_only m' = mem_read_only m"
  by (auto simp: mem_write_def split: if_splits)

lemma mem_write_initial: "mem_write n off v m = Inr m' \<Longrightarrow> mem_initial m' = mem_initial m"
  by (auto simp: mem_write_def split: if_splits)

lemma mem_read_write_same:
  assumes "mem_write n off (v :: 'a::len word) m = Inr m'" and "\<not> mem_read_only m"
    and "LENGTH('a) \<le> 8 * n"
  shows "mem_read n off m' = Inr v"
  using assms
  by (auto simp: mem_write_def mem_read_def mem_access_def mem_size_def min_def split: if_splits)

lemma nth_mem_write:
  assumes "mem_write n off v m = Inr m'" and "\<not> mem_read_only m" and "i < mem_size m"
  shows "mem_bytes m' ! i =
    (if off \<le> i \<and> i < off + n then split_bytes n v ! (i - off) else mem_bytes m ! i)"
  using assms
  by (auto simp: mem_write_def mem_size_def nth_append min_def split: if_splits)

lemma mem_read_write_other:
  assumes w: "mem_write n off v m = Inr m'" and d: "off' + k \<le> off \<or> off + n \<le> off'"
  shows "mem_read k off' m' = mem_read k off' m"
proof (cases "mem_read_only m \<or> mem_access k off' m \<noteq> None")
  case True
  then show ?thesis
    using w mem_write_size[OF w]
    by (auto simp: mem_write_def mem_read_def mem_access_def split: if_splits)
next
  case False
  have "take k (drop off' (mem_bytes m')) = take k (drop off' (mem_bytes m))"
  proof (rule nth_equalityI)
    show "length (take k (drop off' (mem_bytes m'))) = length (take k (drop off' (mem_bytes m)))"
      using mem_write_size[OF w] by (simp add: mem_size_def)
    fix i assume "i < length (take k (drop off' (mem_bytes m')))"
    then show "take k (drop off' (mem_bytes m')) ! i = take k (drop off' (mem_bytes m)) ! i"
      using False d mem_write_size[OF w] nth_mem_write[OF w, of "off' + i"]
      by (auto simp: mem_size_def)
  qed
  then show ?thesis
    using mem_write_size[OF w] by (simp add: mem_read_def mem_access_def)
qed

section \<open>FIFO queues\<close>

text \<open>The specification of a bounded queue.\<close>

record 'a bounded_queue =
  q_items :: "'a list"
  q_capacity :: nat

definition queue_new :: "nat \<Rightarrow> 'a bounded_queue" where
  "queue_new cap = \<lparr>q_items = [], q_capacity = cap\<rparr>"

definition queue_reset :: "'a bounded_queue \<Rightarrow> 'a bounded_queue" where
  "queue_reset q = q\<lparr>q_items := []\<rparr>"

definition has_read_available :: "nat \<Rightarrow> 'a bounded_queue \<Rightarrow> bool" where
  "has_read_available n q \<longleftrightarrow> length (q_items q) \<ge> n"

definition has_write_available :: "nat \<Rightarrow> 'a bounded_queue \<Rightarrow> bool" where
  "has_write_available n q \<longleftrightarrow> q_capacity q - length (q_items q) \<ge> n"

definition queue_is_empty :: "'a bounded_queue \<Rightarrow> bool" where
  "queue_is_empty q \<longleftrightarrow> \<not> has_read_available 1 q"

definition queue_is_full :: "'a bounded_queue \<Rightarrow> bool" where
  "queue_is_full q \<longleftrightarrow> \<not> has_write_available 1 q"

definition queue_try_pop :: "'a bounded_queue \<Rightarrow> ('a \<times> 'a bounded_queue) option" where
  "queue_try_pop q =
     (if queue_is_empty q then None else Some (hd (q_items q), q\<lparr>q_items := tl (q_items q)\<rparr>))"

definition queue_try_push :: "'a \<Rightarrow> 'a bounded_queue \<Rightarrow> 'a bounded_queue option" where
  "queue_try_push x q =
     (if queue_is_full q then None else Some (q\<lparr>q_items := q_items q @ [x]\<rparr>))"

text \<open>\<open>DmaFifoQueue\<close> and the loops of \<open>FifoQueue\<close> over it.\<close>

type_synonym dma_fifo = "ubyte bounded_queue"

definition DmaFifoQueue_new :: dma_fifo where
  "DmaFifoQueue_new = queue_new 1024"

definition fifo_read_ubyte :: "dma_fifo \<Rightarrow> (ubyte \<times> dma_fifo) res" where
  "fifo_read_ubyte q = (case queue_try_pop q of None \<Rightarrow> Inl Runtime_error | Some r \<Rightarrow> Inr r)"

definition fifo_write_ubyte :: "ubyte \<Rightarrow> dma_fifo \<Rightarrow> dma_fifo res" where
  "fifo_write_ubyte b q = (case queue_try_push b q of None \<Rightarrow> Inl Runtime_error | Some q' \<Rightarrow> Inr q')"

fun fifo_read :: "nat \<Rightarrow> dma_fifo \<Rightarrow> (ubyte list \<times> dma_fifo) res" where
  "fifo_read 0 q = Inr ([], q)"
| "fifo_read (Suc n) q =
     bind_res (fifo_read_ubyte q) (\<lambda>(b, q1).
       bind_res (fifo_read n q1) (\<lambda>(bs, q2). Inr (b # bs, q2)))"

fun fifo_write :: "ubyte list \<Rightarrow> dma_fifo \<Rightarrow> dma_fifo res" where
  "fifo_write [] q = Inr q"
| "fifo_write (b # bs) q = bind_res (fifo_write_ubyte b q) (fifo_write bs)"

lemmas queue_defs =
  has_read_available_def has_write_available_def queue_is_empty_def queue_is_full_def
  queue_try_pop_def queue_try_push_def fifo_read_ubyte_def fifo_write_ubyte_def

lemma fifo_write_eq:
  "fifo_write bs q =
     (if bs = [] \<or> length (q_items q) + length bs \<le> q_capacity q
      then Inr (q\<lparr>q_items := q_items q @ bs\<rparr>) else Inl Runtime_error)"
proof (induction bs arbitrary: q)
  case (Cons b bs)
  then show ?case
    by (cases "bs = []") (auto simp: queue_defs split: option.splits)
qed simp

lemma fifo_read_eq:
  "fifo_read n q =
     (if n \<le> length (q_items q)
      then Inr (take n (q_items q), q\<lparr>q_items := drop n (q_items q)\<rparr>) else Inl Runtime_error)"
proof (induction n arbitrary: q)
  case (Suc n)
  then show ?case
    by (cases "q_items q") (auto simp: queue_defs)
qed simp

text \<open>Bytes leave the queue in the order they entered.\<close>

lemma fifo_order:
  assumes "fifo_write bs q = Inr q'"
  shows "fifo_read (length (q_items q) + length bs) q' = Inr (q_items q @ bs, q\<lparr>q_items := []\<rparr>)"
  using assms by (auto simp: fifo_write_eq fifo_read_eq split: if_splits)

lemma fifo_write_available:
  "has_write_available (length bs) q \<Longrightarrow> \<exists>q'. fifo_write bs q = Inr q'"
  by (cases bs) (auto simp: fifo_write_eq has_write_available_def)

end
