(* ===== verification/Utilities.thy ===== *)
theory Utilities
  imports Prelude "HOL-Library.Word"
begin

text \<open>
  \<open>Utilities/Utilities.cpp\<close> and \<open>Utilities.hpp\<close>: bit counting, saturation, the
  overflow tests of the trapping instructions, sign extension of short fields and
  the conversion of an IEEE 754 bit pattern into the range of PS2 floats.  The printf
  helper is host I/O and is left out.
\<close>

section \<open>Numeric limits\<close>

abbreviation VALUE_SHWORD_MAX :: int where "VALUE_SHWORD_MAX \<equiv> 32767"
abbreviation VALUE_SHWORD_MIN :: int where "VALUE_SHWORD_MIN \<equiv> - 32768"
abbreviation VALUE_SWORD_MAX :: int where "VALUE_SWORD_MAX \<equiv> 2147483647"
abbreviation VALUE_SWORD_MIN :: int where "VALUE_SWORD_MIN \<equiv> - 2147483648"
abbreviation VALUE_SDWORD_MAX :: int where "VALUE_SDWORD_MAX \<equiv> 9223372036854775807"
abbreviation VALUE_SDWORD_MIN :: int where "VALUE_SDWORD_MIN \<equiv> - 9223372036854775808"

lemma sint_uword_range: "VALUE_SWORD_MIN \<le> sint (x :: uword) \<and> sint x \<le> VALUE_SWORD_MAX"
  using sint_range_size[of x] by (simp add: word_size)

lemma sint_udword_range: "VALUE_SDWORD_MIN \<le> sint (x :: udword) \<and> sint x \<le> VALUE_SDWORD_MAX"
  using sint_range_size[of x] by (simp add: word_size)

lemma sint_uhword_range: "VALUE_SHWORD_MIN \<le> sint (x :: uhword) \<and> sint x \<le> VALUE_SHWORD_MAX"
  using sint_range_size[of x] by (simp add: word_size)

lemma sint_word_of_int_id:
  "- (2 ^ (LENGTH('a::len) - 1)) \<le> k \<Longrightarrow> k < 2 ^ (LENGTH('a) - 1) \<Longrightarrow>
   sint (word_of_int k :: 'a word) = k"
  by (simp add: signed_of_int signed_take_bit_int_eq_self)

section \<open>Bit counting\<close>

text \<open>The loop of \<open>count_leading_bits\<close> for \<open>i\<close> from its first argument down to 1.\<close>

fun clb_loop :: "nat \<Rightarrow> uword \<Rightarrow> nat" where
  "clb_loop 0 v = 0"
| "clb_loop (Suc i) v = (if v AND push_bit i 1 = 0 then Suc (clb_loop i v) else 0)"

definition count_leading_bits :: "uword \<Rightarrow> nat" where
  "count_leading_bits v =
     (if v = 0 then 32
      else let conditioned = (if sint v < 0 then NOT v else v) in clb_loop 32 conditioned)"

text \<open>The loop of \<open>count_trailing_zeros\<close>: \<open>n\<close> iterations left, counter \<open>i\<close>.\<close>

fun ctz_loop :: "nat \<Rightarrow> nat \<Rightarrow> uword \<Rightarrow> nat" where
  "ctz_loop 0 i v = 0"
| "ctz_loop (Suc n) i v = (if v AND push_bit i 1 = 0 then Suc (ctz_loop n (Suc i) v) else 0)"

definition count_trailing_zeros :: "uword \<Rightarrow> nat" where
  "count_trailing_zeros v = (if v = 0 then 32 else ctz_loop 32 0 v)"

lemma and_exp_eq_0 [simp]: "(v :: 'a::len word) AND 2 ^ i = 0 \<longleftrightarrow> \<not> bit v i"
  by (simp add: bit_iff_and_push_bit_not_eq_0)

lemma clb_loop_le: "clb_loop n v \<le> n"
  by (induction n v rule: clb_loop.induct) auto

lemma clb_loop_zeros:
  "n \<le> 32 \<Longrightarrow> n - clb_loop n v \<le> j \<Longrightarrow> j < n \<Longrightarrow> \<not> bit v j"
proof (induction n v arbitrary: j rule: clb_loop.induct)
  case (2 i v)
  then show ?case
    by (cases "j = i") (auto split: if_splits)
qed simp

lemma clb_loop_stop:
  "n \<le> 32 \<Longrightarrow> clb_loop n v < n \<Longrightarrow> bit v (n - Suc (clb_loop n v))"
  by (induction n v rule: clb_loop.induct) auto

lemma sint_neg_iff_bit: "sint (v :: uword) < 0 \<longleftrightarrow> bit v 31"
  using bit_last_iff[of v] by simp

lemma count_leading_bits_run:
  assumes "v \<noteq> 0"
  shows "count_leading_bits v \<le> 32"
    and "32 - count_leading_bits v \<le> j \<Longrightarrow> j < 32 \<Longrightarrow> bit v j = bit v 31"
    and "count_leading_bits v < 32 \<Longrightarrow> bit v (31 - count_leading_bits v) \<noteq> bit v 31"
proof -
  let ?c = "if sint v < 0 then NOT v else v"
  have e: "count_leading_bits v = clb_loop 32 ?c"
    using assms by (simp add: count_leading_bits_def)
  have b: "bit ?c k \<longleftrightarrow> bit v k \<noteq> bit v 31" if "k < 32" for k
    using that by (auto simp: sint_neg_iff_bit bit_not_iff)
  show "count_leading_bits v \<le> 32" unfolding e by (rule clb_loop_le)
  show "bit v j = bit v 31" if "32 - count_leading_bits v \<le> j" and "j < 32"
    using clb_loop_zeros[of 32 ?c j] that b[of j] by (simp add: e)
  show "bit v (31 - count_leading_bits v) \<noteq> bit v 31" if "count_leading_bits v < 32"
    using clb_loop_stop[of 32 ?c] that b[of "31 - count_leading_bits v"] by (simp add: e)
qed

lemma count_leading_bits_pos: "0 < count_leading_bits v"
proof (cases "v = 0")
  case False
  show ?thesis
  proof (rule ccontr)
    assume "\<not> 0 < count_leading_bits v"
    then have "count_leading_bits v = 0" by simp
    then show False using count_leading_bits_run(3)[OF False] by simp
  qed
qed (simp add: count_leading_bits_def)

lemma ctz_loop_le: "ctz_loop n i v \<le> n"
  by (induction n i v rule: ctz_loop.induct) auto

lemma ctz_loop_zeros:
  "n + i \<le> 32 \<Longrightarrow> i \<le> j \<Longrightarrow> j < i + ctz_loop n i v \<Longrightarrow> \<not> bit v j"
proof (induction n i v rule: ctz_loop.induct)
  case (2 n i v)
  then show ?case
    by (cases "j = i") (auto split: if_splits)
qed simp

lemma ctz_loop_stop:
  "n + i \<le> 32 \<Longrightarrow> ctz_loop n i v < n \<Longrightarrow> bit v (i + ctz_loop n i v)"
  by (induction n i v rule: ctz_loop.induct) auto

lemma count_trailing_zeros_le: "count_trailing_zeros v \<le> 32"
  by (simp add: count_trailing_zeros_def ctz_loop_le)

lemma count_trailing_zeros_zeros: "j < count_trailing_zeros v \<Longrightarrow> \<not> bit v j"
  using ctz_loop_zeros[of 32 0 j v] by (auto simp: count_trailing_zeros_def split: if_splits)

lemma count_trailing_zeros_bit:
  assumes "v \<noteq> 0"
  shows "count_trailing_zeros v < 32 \<and> bit v (count_trailing_zeros v)"
proof -
  have "\<not> ctz_loop 32 0 v = 32"
  proof
    assume "ctz_loop 32 0 v = 32"
    then have "\<not> bit v j" if "j < 32" for j
      using ctz_loop_zeros[of 32 0 j v] that by simp
    then have "v = 0" by (intro bit_word_eqI) simp
    with assms show False by simp
  qed
  with ctz_loop_le[of 32 0 v] have "ctz_loop 32 0 v < 32" by simp
  with ctz_loop_stop[of 32 0 v] assms show ?thesis
    by (simp add: count_trailing_zeros_def)
qed

lemma push_drop_trailing_zeros:
  assumes "n \<le> count_trailing_zeros v"
  shows "push_bit n (drop_bit n v) = v"
proof (rule bit_word_eqI)
  fix k assume "k < LENGTH(32)"
  then show "bit (push_bit n (drop_bit n v)) k = bit v k"
    using assms count_trailing_zeros_zeros[of k v] by (cases "n \<le> k") (auto simp: bit_simps)
qed

section \<open>Saturation\<close>

definition saturate_word_to_hword :: "uword \<Rightarrow> uhword" where
  "saturate_word_to_hword v =
     (if sint v > VALUE_SHWORD_MAX then word_of_int VALUE_SHWORD_MAX
      else if sint v < VALUE_SHWORD_MIN then word_of_int VALUE_SHWORD_MIN
      else scast v)"

definition saturate_dword_to_word :: "udword \<Rightarrow> uword" where
  "saturate_dword_to_word v =
     (if sint v > VALUE_SWORD_MAX then word_of_int VALUE_SWORD_MAX
      else if sint v < VALUE_SWORD_MIN then word_of_int VALUE_SWORD_MIN
      else scast v)"

definition clamp_int :: "int \<Rightarrow> int \<Rightarrow> int \<Rightarrow> int" where
  "clamp_int lo hi x = max lo (min hi x)"

lemma scast_word_of_sint: "(scast v :: 'b::len word) = word_of_int (sint (v :: 'a::len word))"
  by simp

lemma sint_saturate_word_to_hword:
  "sint (saturate_word_to_hword v) = clamp_int VALUE_SHWORD_MIN VALUE_SHWORD_MAX (sint v)"
  by (auto simp: saturate_word_to_hword_def clamp_int_def scast_word_of_sint
      sint_word_of_int_id simp del: of_int_sint)

lemma sint_saturate_dword_to_word:
  "sint (saturate_dword_to_word v) = clamp_int VALUE_SWORD_MIN VALUE_SWORD_MAX (sint v)"
  by (auto simp: saturate_dword_to_word_def clamp_int_def scast_word_of_sint
      sint_word_of_int_id simp del: of_int_sint)

section \<open>Overflow tests\<close>

definition test_over_or_underflow_32 :: "uword \<Rightarrow> uword \<Rightarrow> bool" where
  "test_over_or_underflow_32 x y \<longleftrightarrow>
     (sint x > 0 \<and> sint y > VALUE_SWORD_MAX - sint x) \<or>
     (sint x < 0 \<and> sint y < VALUE_SWORD_MIN - sint x)"

definition test_over_or_underflow_64 :: "udword \<Rightarrow> udword \<Rightarrow> bool" where
  "test_over_or_underflow_64 x y \<longleftrightarrow>
     (sint x > 0 \<and> sint y > VALUE_SDWORD_MAX - sint x) \<or>
     (sint x < 0 \<and> sint y < VALUE_SDWORD_MIN - sint x)"

lemma test_over_or_underflow_32_iff:
  "test_over_or_underflow_32 x y \<longleftrightarrow>
     \<not> (VALUE_SWORD_MIN \<le> sint x + sint y \<and> sint x + sint y \<le> VALUE_SWORD_MAX)"
  using sint_uword_range[of x] sint_uword_range[of y]
  by (auto simp: test_over_or_underflow_32_def)

lemma test_over_or_underflow_64_iff:
  "test_over_or_underflow_64 x y \<longleftrightarrow>
     \<not> (VALUE_SDWORD_MIN \<le> sint x + sint y \<and> sint x + sint y \<le> VALUE_SDWORD_MAX)"
  using sint_udword_range[of x] sint_udword_range[of y]
  by (auto simp: test_over_or_underflow_64_def)

lemma sint_add_exact:
  assumes "- (2 ^ (LENGTH('a::len) - 1)) \<le> sint x + sint y"
    and "sint x + sint y < 2 ^ (LENGTH('a) - 1)"
  shows "sint (x + y) = sint (x :: 'a word) + sint y"
proof -
  have "x + y = word_of_int (sint x + sint y)" by simp
  then show ?thesis using sint_word_of_int_id[OF assms] by metis
qed

lemma no_overflow_32_sum:
  "\<not> test_over_or_underflow_32 x y \<Longrightarrow> sint (x + y) = sint x + sint y"
  by (rule sint_add_exact) (auto simp: test_over_or_underflow_32_iff)

lemma no_overflow_64_sum:
  "\<not> test_over_or_underflow_64 x y \<Longrightarrow> sint (x + y) = sint x + sint y"
  by (rule sint_add_exact) (auto simp: test_over_or_underflow_64_iff)

section \<open>Sign extension of short fields\<close>

text \<open>
  \<open>extend_integer<T, U, N>\<close>: the cast to \<open>T\<close> is zero-extending, as every use has an
  unsigned \<open>U\<close>.
\<close>

definition extend_integer :: "nat \<Rightarrow> 'u::len word \<Rightarrow> 't::len word" where
  "extend_integer N source =
     (let value_mask = push_bit (N - 1) 1 - 1;
          non_value_mask = (- 1) XOR value_mask;
          sgn = drop_bit (N - 1) (ucast source :: 't word) AND 1;
          val = (ucast source :: 't word) AND value_mask
      in if sgn = 0 then val else non_value_mask OR val)"

lemma extend_integer_eq:
  fixes x :: "'u::len word"
  assumes "0 < N" and "N \<le> LENGTH('t::len)"
  shows "(extend_integer N x :: 't word) = signed_take_bit (N - 1) (ucast x)"
proof -
  let ?y = "ucast x :: 't word"
  have m: "push_bit (N - 1) 1 - 1 = (mask (N - 1) :: 't word)"
    by (simp add: mask_eq_exp_minus_1 push_bit_eq_mult)
  have s: "drop_bit (N - 1) ?y AND 1 = 0 \<longleftrightarrow> \<not> bit ?y (N - 1)"
    by (simp add: and_one_eq bit_iff_odd_drop_bit even_iff_mod_2_eq_zero)
  have n: "(- 1) XOR mask (N - 1) = NOT (mask (N - 1) :: 't word)"
    by (rule bit_word_eqI) (simp add: bit_simps)
  have "bit (if \<not> bit ?y (N - 1) then ?y AND mask (N - 1)
             else NOT (mask (N - 1)) OR (?y AND mask (N - 1))) k =
        bit (signed_take_bit (N - 1) ?y) k" if "k < LENGTH('t)" for k
    using that assms
    by (cases "k < N - 1"; cases "k = N - 1")
      (auto simp: bit_and_iff bit_or_iff bit_not_iff bit_mask_iff bit_signed_take_bit_iff min_def)
  then have "(if \<not> bit ?y (N - 1) then ?y AND mask (N - 1)
             else NOT (mask (N - 1)) OR (?y AND mask (N - 1))) = signed_take_bit (N - 1) ?y"
    by (rule bit_word_eqI)
  then show ?thesis by (simp only: extend_integer_def Let_def m n s not_not if_not_P)
qed

section \<open>PS2 floats\<close>

text \<open>
  \<open>to_ps2_float\<close> on the bit pattern of its argument.  \<open>std::fpclassify\<close> reads the
  exponent (bits 23 to 30) and the fraction (bits 0 to 22); \<open>value < 0.0f\<close> is false for
  a NaN and for a zero of either sign.
\<close>

definition f32_exponent :: "uword \<Rightarrow> uword" where
  "f32_exponent v = take_bit 8 (drop_bit 23 v)"

definition f32_fraction :: "uword \<Rightarrow> uword" where
  "f32_fraction v = take_bit 23 v"

datatype fpclass = FP_INFINITE | FP_NAN | FP_SUBNORMAL | FP_ZERO | FP_NORMAL

definition fpclassify :: "uword \<Rightarrow> fpclass" where
  "fpclassify v =
     (if f32_exponent v = 255 then if f32_fraction v = 0 then FP_INFINITE else FP_NAN
      else if f32_exponent v = 0 then if f32_fraction v = 0 then FP_ZERO else FP_SUBNORMAL
      else FP_NORMAL)"

definition f32_less_zero :: "uword \<Rightarrow> bool" where
  "f32_less_zero v \<longleftrightarrow> bit v 31 \<and> fpclassify v \<noteq> FP_NAN \<and> fpclassify v \<noteq> FP_ZERO"

record FpuFlags =
  ZF :: bool
  SF :: bool
  UF :: bool
  OF :: bool

definition FMAX_POS :: uword where "FMAX_POS = 0x7F7FFFFF"
definition FMAX_NEG :: uword where "FMAX_NEG = 0xFF7FFFFF"
definition ZERO_POS :: uword where "ZERO_POS = 0x00000000"
definition ZERO_NEG :: uword where "ZERO_NEG = 0x80000000"

definition to_ps2_float :: "uword \<Rightarrow> uword \<times> FpuFlags" where
  "to_ps2_float v =
     (let flags = \<lparr>ZF = False, SF = f32_less_zero v, UF = False, OF = False\<rparr>
      in case fpclassify v of
           FP_INFINITE \<Rightarrow> (if SF flags then FMAX_NEG else FMAX_POS, flags\<lparr>OF := True\<rparr>)
         | FP_NAN \<Rightarrow> (if SF flags then FMAX_NEG else FMAX_POS, flags\<lparr>OF := True\<rparr>)
         | FP_SUBNORMAL \<Rightarrow> (if SF flags then ZERO_NEG else ZERO_POS, flags\<lparr>UF := True\<rparr>)
         | FP_ZERO \<Rightarrow> (v, flags\<lparr>ZF := True\<rparr>)
         | FP_NORMAL \<Rightarrow> (v, flags))"

text \<open>The floats the PS2 can represent: no NaN, no infinity, no denormal.\<close>

definition ps2_float :: "uword \<Rightarrow> bool" where
  "ps2_float v \<longleftrightarrow> fpclassify v = FP_ZERO \<or> fpclassify v = FP_NORMAL"

lemmas f32_defs = fpclassify_def f32_exponent_def f32_fraction_def

lemma fpclassify_constants:
  "fpclassify FMAX_POS = FP_NORMAL" "fpclassify FMAX_NEG = FP_NORMAL"
  "fpclassify ZERO_POS = FP_ZERO" "fpclassify ZERO_NEG = FP_ZERO"
  by (simp_all add: f32_defs FMAX_POS_def FMAX_NEG_def ZERO_POS_def ZERO_NEG_def)

lemma to_ps2_float_range: "ps2_float (fst (to_ps2_float v))"
  by (simp add: to_ps2_float_def ps2_float_def Let_def fpclassify_constants split: fpclass.splits)

lemma to_ps2_float_id: "ps2_float v \<Longrightarrow> fst (to_ps2_float v) = v"
  by (auto simp: to_ps2_float_def ps2_float_def Let_def)

lemma to_ps2_float_idem:
  "fst (to_ps2_float (fst (to_ps2_float v))) = fst (to_ps2_float v)"
  by (rule to_ps2_float_id [OF to_ps2_float_range])

section \<open>Ordering of floats\<close>

text \<open>
  C++ compares \<open>f32\<close> values as IEEE 754 prescribes: the bit patterns of one sign are ordered
  as integers, the two zeros are equal, and a NaN is unordered with everything.
\<close>

definition f32_is_nan :: "uword \<Rightarrow> bool" where
  "f32_is_nan v \<longleftrightarrow> v AND 0x7FFFFFFF > 0x7F800000"

definition f32_key :: "uword \<Rightarrow> int" where
  "f32_key v = (if bit v 31 then - uint (v AND 0x7FFFFFFF) else uint (v AND 0x7FFFFFFF))"

definition f32_eq :: "uword \<Rightarrow> uword \<Rightarrow> bool" where
  "f32_eq a b \<longleftrightarrow> \<not> f32_is_nan a \<and> \<not> f32_is_nan b \<and> f32_key a = f32_key b"
definition f32_less :: "uword \<Rightarrow> uword \<Rightarrow> bool" where
  "f32_less a b \<longleftrightarrow> \<not> f32_is_nan a \<and> \<not> f32_is_nan b \<and> f32_key a < f32_key b"
definition f32_le :: "uword \<Rightarrow> uword \<Rightarrow> bool" where
  "f32_le a b \<longleftrightarrow> \<not> f32_is_nan a \<and> \<not> f32_is_nan b \<and> f32_key a \<le> f32_key b"

end
