(* ===== verification/Bus.thy ===== *)
theory Bus
  imports Memory Utilities
begin

text \<open>
  The byte buses (\<open>Common/Types/Bus/*.hpp\<close>): a two level page table from addresses to mapped
  objects, its construction by \<open>map\<close> and \<open>optimise\<close>, the lookup, and the accesses, which
  dispatch to the object with the offset from its base address.  The mapped objects live in
  a store; the page tables hold their indices, as the code's hold pointers.  Objects are
  memories, FIFO queues and the plain registers of each width.
\<close>

section \<open>Mappable objects\<close>

datatype bus_object =
    Memory_obj byte_memory
  | Fifo_obj dma_fifo
  | Byte_obj byte_register
  | Hword_obj hword_register
  | Word_obj word_register
  | Mapper_obj hword_register
  | Dword_obj dword_register
  | Qword_obj qword_register

fun byte_bus_map_size :: "bus_object \<Rightarrow> nat" where
  "byte_bus_map_size (Memory_obj m) = mem_size m"
| "byte_bus_map_size (Fifo_obj q) = 1"
| "byte_bus_map_size (Byte_obj r) = 1"
| "byte_bus_map_size (Hword_obj r) = 2"
| "byte_bus_map_size (Word_obj r) = 4"
| "byte_bus_map_size (Mapper_obj r) = 4"
| "byte_bus_map_size (Dword_obj r) = 8"
| "byte_bus_map_size (Qword_obj r) = 16"

definition same_obj :: "bus_object \<Rightarrow> 'v res \<Rightarrow> ('v \<times> bus_object) res" where
  "same_obj obj m = bind_res m (\<lambda>v. Inr (v, obj))"

definition wrap_obj :: "('r \<Rightarrow> bus_object) \<Rightarrow> 'r res \<Rightarrow> bus_object res" where
  "wrap_obj c m = bind_res m (\<lambda>r. Inr (c r))"

text \<open>The lanes of a register behind the debug build's offset check.\<close>

definition lane_read :: "nat \<Rightarrow> nat \<Rightarrow> ('a::len word) sized_register \<Rightarrow> 'b::len word res" where
  "lane_read k i r = (if i \<ge> k then Inl Invalid_offset else Inr (reg_read_lane i r))"

definition lane_write ::
    "nat \<Rightarrow> nat \<Rightarrow> 'b::len word \<Rightarrow> ('a::len word) sized_register \<Rightarrow> 'a word sized_register res" where
  "lane_write k i v r = (if i \<ge> k then Inl Invalid_offset else Inr (reg_write_lane i v r))"

definition fifo_read_value :: "nat \<Rightarrow> dma_fifo \<Rightarrow> ('a::len word \<times> bus_object) res" where
  "fifo_read_value n q = bind_res (fifo_read n q) (\<lambda>(bs, q'). Inr (join_bytes bs, Fifo_obj q'))"

fun byte_bus_read_ubyte :: "nat \<Rightarrow> bus_object \<Rightarrow> (ubyte \<times> bus_object) res" where
  "byte_bus_read_ubyte off (Memory_obj m) = same_obj (Memory_obj m) (mem_read_ubyte off m)"
| "byte_bus_read_ubyte off (Fifo_obj q) =
     bind_res (fifo_read_ubyte q) (\<lambda>(b, q'). Inr (b, Fifo_obj q'))"
| "byte_bus_read_ubyte off (Byte_obj r) = Inr (b_read_ubyte r, Byte_obj r)"
| "byte_bus_read_ubyte off (Hword_obj r) = same_obj (Hword_obj r) (lane_read 2 off r)"
| "byte_bus_read_ubyte off (Word_obj r) = same_obj (Word_obj r) (lane_read 4 off r)"
| "byte_bus_read_ubyte off (Mapper_obj r) = Inl Runtime_error"
| "byte_bus_read_ubyte off (Dword_obj r) = same_obj (Dword_obj r) (lane_read 8 off r)"
| "byte_bus_read_ubyte off (Qword_obj r) = same_obj (Qword_obj r) (lane_read 16 off r)"

fun byte_bus_read_uhword :: "nat \<Rightarrow> bus_object \<Rightarrow> (uhword \<times> bus_object) res" where
  "byte_bus_read_uhword off (Memory_obj m) = same_obj (Memory_obj m) (mem_read_uhword off m)"
| "byte_bus_read_uhword off (Fifo_obj q) = fifo_read_value 2 q"
| "byte_bus_read_uhword off (Hword_obj r) = Inr (h_read_uhword r, Hword_obj r)"
| "byte_bus_read_uhword off (Word_obj r) = same_obj (Word_obj r) (lane_read 2 (off div 2) r)"
| "byte_bus_read_uhword off (Mapper_obj r) = Inl Runtime_error"
| "byte_bus_read_uhword off (Dword_obj r) = same_obj (Dword_obj r) (lane_read 4 (off div 2) r)"
| "byte_bus_read_uhword off (Qword_obj r) = same_obj (Qword_obj r) (lane_read 8 (off div 2) r)"
| "byte_bus_read_uhword off (Byte_obj r) = Inl Runtime_error"

fun byte_bus_read_uword :: "nat \<Rightarrow> bus_object \<Rightarrow> (uword \<times> bus_object) res" where
  "byte_bus_read_uword off (Memory_obj m) = same_obj (Memory_obj m) (mem_read_uword off m)"
| "byte_bus_read_uword off (Fifo_obj q) = fifo_read_value 4 q"
| "byte_bus_read_uword off (Word_obj r) = Inr (w_read_uword r, Word_obj r)"
| "byte_bus_read_uword off (Mapper_obj r) = Inr (mapper_read_uword r, Mapper_obj r)"
| "byte_bus_read_uword off (Dword_obj r) = same_obj (Dword_obj r) (lane_read 2 (off div 4) r)"
| "byte_bus_read_uword off (Qword_obj r) = same_obj (Qword_obj r) (lane_read 4 (off div 4) r)"
| "byte_bus_read_uword off (Byte_obj r) = Inl Runtime_error"
| "byte_bus_read_uword off (Hword_obj r) = Inl Runtime_error"

fun byte_bus_read_udword :: "nat \<Rightarrow> bus_object \<Rightarrow> (udword \<times> bus_object) res" where
  "byte_bus_read_udword off (Memory_obj m) = same_obj (Memory_obj m) (mem_read_udword off m)"
| "byte_bus_read_udword off (Fifo_obj q) = fifo_read_value 8 q"
| "byte_bus_read_udword off (Dword_obj r) = Inr (d_read_udword r, Dword_obj r)"
| "byte_bus_read_udword off (Qword_obj r) =
     same_obj (Qword_obj r) (q_read_udword_checked (off div 8) r)"
| "byte_bus_read_udword off (Byte_obj r) = Inl Runtime_error"
| "byte_bus_read_udword off (Hword_obj r) = Inl Runtime_error"
| "byte_bus_read_udword off (Word_obj r) = Inl Runtime_error"
| "byte_bus_read_udword off (Mapper_obj r) = Inl Runtime_error"

fun byte_bus_read_uqword :: "nat \<Rightarrow> bus_object \<Rightarrow> (uqword \<times> bus_object) res" where
  "byte_bus_read_uqword off (Memory_obj m) = same_obj (Memory_obj m) (mem_read_uqword off m)"
| "byte_bus_read_uqword off (Fifo_obj q) = fifo_read_value 16 q"
| "byte_bus_read_uqword off (Qword_obj r) = Inr (q_read_uqword r, Qword_obj r)"
| "byte_bus_read_uqword off (Byte_obj r) = Inl Runtime_error"
| "byte_bus_read_uqword off (Hword_obj r) = Inl Runtime_error"
| "byte_bus_read_uqword off (Word_obj r) = Inl Runtime_error"
| "byte_bus_read_uqword off (Mapper_obj r) = Inl Runtime_error"
| "byte_bus_read_uqword off (Dword_obj r) = Inl Runtime_error"

fun byte_bus_write_ubyte :: "nat \<Rightarrow> ubyte \<Rightarrow> bus_object \<Rightarrow> bus_object res" where
  "byte_bus_write_ubyte off v (Memory_obj m) = wrap_obj Memory_obj (mem_write_ubyte off v m)"
| "byte_bus_write_ubyte off v (Fifo_obj q) = wrap_obj Fifo_obj (fifo_write_ubyte v q)"
| "byte_bus_write_ubyte off v (Byte_obj r) = Inr (Byte_obj (b_write_ubyte v r))"
| "byte_bus_write_ubyte off v (Hword_obj r) = wrap_obj Hword_obj (lane_write 2 off v r)"
| "byte_bus_write_ubyte off v (Word_obj r) = wrap_obj Word_obj (lane_write 4 off v r)"
| "byte_bus_write_ubyte off v (Mapper_obj r) = Inl Runtime_error"
| "byte_bus_write_ubyte off v (Dword_obj r) = wrap_obj Dword_obj (lane_write 8 off v r)"
| "byte_bus_write_ubyte off v (Qword_obj r) = wrap_obj Qword_obj (lane_write 16 off v r)"

fun byte_bus_write_uhword :: "nat \<Rightarrow> uhword \<Rightarrow> bus_object \<Rightarrow> bus_object res" where
  "byte_bus_write_uhword off v (Memory_obj m) = wrap_obj Memory_obj (mem_write_uhword off v m)"
| "byte_bus_write_uhword off v (Fifo_obj q) = wrap_obj Fifo_obj (fifo_write (split_bytes 2 v) q)"
| "byte_bus_write_uhword off v (Hword_obj r) = Inr (Hword_obj (h_write_uhword v r))"
| "byte_bus_write_uhword off v (Word_obj r) = wrap_obj Word_obj (lane_write 2 (off div 2) v r)"
| "byte_bus_write_uhword off v (Mapper_obj r) = Inl Runtime_error"
| "byte_bus_write_uhword off v (Dword_obj r) = wrap_obj Dword_obj (lane_write 4 (off div 2) v r)"
| "byte_bus_write_uhword off v (Qword_obj r) = wrap_obj Qword_obj (lane_write 8 (off div 2) v r)"
| "byte_bus_write_uhword off v (Byte_obj r) = Inl Runtime_error"

fun byte_bus_write_uword :: "nat \<Rightarrow> uword \<Rightarrow> bus_object \<Rightarrow> bus_object res" where
  "byte_bus_write_uword off v (Memory_obj m) = wrap_obj Memory_obj (mem_write_uword off v m)"
| "byte_bus_write_uword off v (Fifo_obj q) = wrap_obj Fifo_obj (fifo_write (split_bytes 4 v) q)"
| "byte_bus_write_uword off v (Word_obj r) = Inr (Word_obj (w_write_uword v r))"
| "byte_bus_write_uword off v (Mapper_obj r) = Inr (Mapper_obj (mapper_write_uword v r))"
| "byte_bus_write_uword off v (Dword_obj r) = wrap_obj Dword_obj (lane_write 2 (off div 4) v r)"
| "byte_bus_write_uword off v (Qword_obj r) =
     wrap_obj Qword_obj (q_write_uword_checked (off div 4) v r)"
| "byte_bus_write_uword off v (Byte_obj r) = Inl Runtime_error"
| "byte_bus_write_uword off v (Hword_obj r) = Inl Runtime_error"

fun byte_bus_write_udword :: "nat \<Rightarrow> udword \<Rightarrow> bus_object \<Rightarrow> bus_object res" where
  "byte_bus_write_udword off v (Memory_obj m) = wrap_obj Memory_obj (mem_write_udword off v m)"
| "byte_bus_write_udword off v (Fifo_obj q) = wrap_obj Fifo_obj (fifo_write (split_bytes 8 v) q)"
| "byte_bus_write_udword off v (Dword_obj r) = Inr (Dword_obj (d_write_udword v r))"
| "byte_bus_write_udword off v (Qword_obj r) =
     wrap_obj Qword_obj (q_write_udword_checked (off div 8) v r)"
| "byte_bus_write_udword off v (Byte_obj r) = Inl Runtime_error"
| "byte_bus_write_udword off v (Hword_obj r) = Inl Runtime_error"
| "byte_bus_write_udword off v (Word_obj r) = Inl Runtime_error"
| "byte_bus_write_udword off v (Mapper_obj r) = Inl Runtime_error"

fun byte_bus_write_uqword :: "nat \<Rightarrow> uqword \<Rightarrow> bus_object \<Rightarrow> bus_object res" where
  "byte_bus_write_uqword off v (Memory_obj m) = wrap_obj Memory_obj (mem_write_uqword off v m)"
| "byte_bus_write_uqword off v (Fifo_obj q) = wrap_obj Fifo_obj (fifo_write (split_bytes 16 v) q)"
| "byte_bus_write_uqword off v (Qword_obj r) = Inr (Qword_obj (q_write_uqword v r))"
| "byte_bus_write_uqword off v (Byte_obj r) = Inl Runtime_error"
| "byte_bus_write_uqword off v (Hword_obj r) = Inl Runtime_error"
| "byte_bus_write_uqword off v (Word_obj r) = Inl Runtime_error"
| "byte_bus_write_uqword off v (Mapper_obj r) = Inl Runtime_error"
| "byte_bus_write_uqword off v (Dword_obj r) = Inl Runtime_error"

section \<open>Page tables\<close>

record 'w page =
  base_address :: 'w
  page_object :: "nat option"

record 'w directory =
  page_mask :: bitfield
  optimal_alignment :: nat
  page_table :: "'w page list"

record 'w byte_bus =
  directory_mask :: bitfield
  bus_table :: "'w directory list"
  bus_objects :: "bus_object list"

definition empty_page :: "('a::len word) page" where
  "empty_page = \<lparr>base_address = 0, page_object = None\<rparr>"

definition ByteBus_new :: "nat \<Rightarrow> bus_object list \<Rightarrow> ('a::len word) byte_bus" where
  "ByteBus_new dir_len objs =
     \<lparr>directory_mask = BF (LENGTH('a) - dir_len) dir_len,
      bus_table = replicate (2 ^ dir_len)
        \<lparr>page_mask = BF 0 (LENGTH('a) - dir_len),
         optimal_alignment = LENGTH('a) - dir_len,
         page_table = []\<rparr>,
      bus_objects = objs\<rparr>"

definition get_vdn :: "'a::len word \<Rightarrow> 'a word byte_bus \<Rightarrow> nat" where
  "get_vdn a b = unat (extract_from (directory_mask b) a)"

text \<open>
  \<open>std::vector::resize\<close>: the elements beyond the new size are dropped, the missing ones
  are value-initialised.
\<close>

definition vec_resize :: "nat \<Rightarrow> 'x \<Rightarrow> 'x list \<Rightarrow> 'x list" where
  "vec_resize n d xs = take n xs @ replicate (n - length xs) d"

text \<open>
  The inner loop over the pages of a directory: the number of pages left in it, the page
  index, the bytes mapped so far; it tells whether the whole object is mapped.
\<close>

fun map_pages ::
    "'a::len word \<Rightarrow> nat \<Rightarrow> nat \<Rightarrow> nat \<Rightarrow> nat \<Rightarrow> nat \<Rightarrow> nat \<Rightarrow> 'a word page list \<Rightarrow> ('a word page list \<times> nat \<times> bool) res"
where
  "map_pages address object page_size max_map_size 0 page_index map_size pages =
     Inr (pages, map_size, False)"
| "map_pages address object page_size max_map_size (Suc n) page_index map_size pages =
     (if page_object (pages ! page_index) \<noteq> None then Inl Runtime_error
      else
        let pages' = pages[page_index := \<lparr>base_address = address, page_object = Some object\<rparr>];
            map_size' = map_size + page_size
        in if map_size' \<ge> max_map_size then Inr (pages', map_size', True)
           else map_pages address object page_size max_map_size n (Suc page_index) map_size' pages')"

text \<open>One directory: the alignment check, the resize, the alignment bound, the pages.\<close>

definition map_directory ::
    "'a::len word \<Rightarrow> nat \<Rightarrow> nat \<Rightarrow> nat \<Rightarrow> 'a word directory \<Rightarrow> ('a word directory \<times> nat \<times> bool) res" where
  "map_directory address object max_map_size map_size d =
     (let alignment = count_trailing_zeros (ucast address) in
      if alignment < bf_start (page_mask d) then Inl Runtime_error
      else
        let pages = vec_resize (2 ^ bf_length (page_mask d)) empty_page (page_table d);
            page_index = unat (extract_from (page_mask d) (address + of_nat map_size))
        in bind_res
             (map_pages address object (2 ^ bf_start (page_mask d)) max_map_size
                (length pages - page_index) page_index map_size pages)
             (\<lambda>(pages', map_size', finished).
                Inr (d\<lparr>optimal_alignment := min (optimal_alignment d) alignment,
                       page_table := pages'\<rparr>, map_size', finished)))"

text \<open>The outer loop over the directories, which leaves the table when it runs out of them.\<close>

fun map_directories ::
    "'a::len word \<Rightarrow> nat \<Rightarrow> nat \<Rightarrow> nat \<Rightarrow> 'a word directory list \<Rightarrow> 'a word directory list res" where
  "map_directories address object max_map_size map_size [] = Inl Out_of_bounds"
| "map_directories address object max_map_size map_size (d # ds) =
     bind_res (map_directory address object max_map_size map_size d)
       (\<lambda>(d', map_size', finished).
          if finished then Inr (d' # ds)
          else bind_res (map_directories address object max_map_size map_size' ds)
                 (\<lambda>ds'. Inr (d' # ds')))"

definition bus_map :: "'a::len word \<Rightarrow> nat \<Rightarrow> 'a word byte_bus \<Rightarrow> 'a word byte_bus res" where
  "bus_map address object b =
     (let max_map_size = byte_bus_map_size (bus_objects b ! object) in
      if max_map_size = 0 then Inl Runtime_error
      else if get_vdn (address + of_nat max_map_size) b \<ge> length (bus_table b) then Inl Runtime_error
      else
        let i = get_vdn address b
        in bind_res (map_directories address object max_map_size 0 (drop i (bus_table b)))
             (\<lambda>ds. Inr (b\<lparr>bus_table := take i (bus_table b) @ ds\<rparr>)))"

definition optimise_directory :: "nat \<Rightarrow> ('a::len word) directory \<Rightarrow> 'a word directory" where
  "optimise_directory dir_bits d =
     (if bf_start (page_mask d) \<noteq> optimal_alignment d then
        let mask' = BF (optimal_alignment d) (LENGTH('a) - dir_bits - optimal_alignment d);
            index_offset = 2 ^ optimal_alignment d;
            n = (length (page_table d) + index_offset - 1) div index_offset;
            new_table = fold (\<lambda>k t. t[k := page_table d ! (k * index_offset)]) [0..<n]
                          (replicate (2 ^ bf_length mask') empty_page)
        in d\<lparr>page_table := new_table, page_mask := mask'\<rparr>
      else d)"

definition optimise :: "('a::len word) byte_bus \<Rightarrow> 'a word byte_bus" where
  "optimise b = b\<lparr>bus_table := map (optimise_directory (bf_length (directory_mask b))) (bus_table b)\<rparr>"

text \<open>
  The lookup.  The run-time checks are compiled out, so a missing directory or page is an
  access outside the table and an unmapped page a call through a null pointer.
\<close>

definition get_page :: "'a::len word \<Rightarrow> 'a word byte_bus \<Rightarrow> 'a word page res" where
  "get_page a b =
     (let vdn = get_vdn a b in
      if vdn < length (bus_table b) then
        let d = bus_table b ! vdn;
            page_index = unat (extract_from (page_mask d) a)
        in if page_index < length (page_table d) then Inr (page_table d ! page_index)
           else Inl Out_of_bounds
      else Inl Out_of_bounds)"

text \<open>Dispatching an access to the object of the page.\<close>

definition bus_locate :: "'a::len word \<Rightarrow> 'a word byte_bus \<Rightarrow> (nat \<times> nat) res" where
  "bus_locate a b =
     bind_res (get_page a b) (\<lambda>p.
       case page_object p of
         None \<Rightarrow> Inl Null_object
       | Some i \<Rightarrow> (if i < length (bus_objects b) then Inr (i, unat (a - base_address p))
                   else Inl Out_of_bounds))"

definition bus_read_with ::
    "(nat \<Rightarrow> bus_object \<Rightarrow> ('v \<times> bus_object) res) \<Rightarrow> 'a::len word \<Rightarrow> 'a word byte_bus \<Rightarrow> ('v \<times> 'a word byte_bus) res"
where
  "bus_read_with rd a b =
     bind_res (bus_locate a b) (\<lambda>(i, off).
       bind_res (rd off (bus_objects b ! i)) (\<lambda>(v, obj).
         Inr (v, b\<lparr>bus_objects := (bus_objects b)[i := obj]\<rparr>)))"

definition bus_write_with ::
    "(nat \<Rightarrow> bus_object \<Rightarrow> bus_object res) \<Rightarrow> 'a::len word \<Rightarrow> 'a word byte_bus \<Rightarrow> 'a word byte_bus res"
where
  "bus_write_with wr a b =
     bind_res (bus_locate a b) (\<lambda>(i, off).
       bind_res (wr off (bus_objects b ! i)) (\<lambda>obj.
         Inr (b\<lparr>bus_objects := (bus_objects b)[i := obj]\<rparr>)))"

definition bus_read_ubyte :: "'a::len word \<Rightarrow> 'a word byte_bus \<Rightarrow> (ubyte \<times> 'a word byte_bus) res" where
  "bus_read_ubyte = bus_read_with byte_bus_read_ubyte"
definition bus_read_uhword :: "'a::len word \<Rightarrow> 'a word byte_bus \<Rightarrow> (uhword \<times> 'a word byte_bus) res" where
  "bus_read_uhword = bus_read_with byte_bus_read_uhword"
definition bus_read_uword :: "'a::len word \<Rightarrow> 'a word byte_bus \<Rightarrow> (uword \<times> 'a word byte_bus) res" where
  "bus_read_uword = bus_read_with byte_bus_read_uword"
definition bus_read_udword :: "'a::len word \<Rightarrow> 'a word byte_bus \<Rightarrow> (udword \<times> 'a word byte_bus) res" where
  "bus_read_udword = bus_read_with byte_bus_read_udword"
definition bus_read_uqword :: "'a::len word \<Rightarrow> 'a word byte_bus \<Rightarrow> (uqword \<times> 'a word byte_bus) res" where
  "bus_read_uqword = bus_read_with byte_bus_read_uqword"

definition bus_write_ubyte :: "'a::len word \<Rightarrow> ubyte \<Rightarrow> 'a word byte_bus \<Rightarrow> 'a word byte_bus res" where
  "bus_write_ubyte a v = bus_write_with (\<lambda>off. byte_bus_write_ubyte off v) a"
definition bus_write_uhword :: "'a::len word \<Rightarrow> uhword \<Rightarrow> 'a word byte_bus \<Rightarrow> 'a word byte_bus res" where
  "bus_write_uhword a v = bus_write_with (\<lambda>off. byte_bus_write_uhword off v) a"
definition bus_write_uword :: "'a::len word \<Rightarrow> uword \<Rightarrow> 'a word byte_bus \<Rightarrow> 'a word byte_bus res" where
  "bus_write_uword a v = bus_write_with (\<lambda>off. byte_bus_write_uword off v) a"
definition bus_write_udword :: "'a::len word \<Rightarrow> udword \<Rightarrow> 'a word byte_bus \<Rightarrow> 'a word byte_bus res" where
  "bus_write_udword a v = bus_write_with (\<lambda>off. byte_bus_write_udword off v) a"
definition bus_write_uqword :: "'a::len word \<Rightarrow> uqword \<Rightarrow> 'a word byte_bus \<Rightarrow> 'a word byte_bus res" where
  "bus_write_uqword a v = bus_write_with (\<lambda>off. byte_bus_write_uqword off v) a"

lemmas bus_defs =
  bus_read_ubyte_def bus_read_uhword_def bus_read_uword_def bus_read_udword_def
  bus_read_uqword_def bus_write_ubyte_def bus_write_uhword_def bus_write_uword_def
  bus_write_udword_def bus_write_uqword_def

end
