(* ===== verification/BusMap.thy ===== *)
theory BusMap
  imports Bus
begin

text \<open>
  What the construction of a bus guarantees.  The two-level table is abstracted to one page per
  byte address; \<open>map\<close> is then a range update that refuses an occupied range, and \<open>optimise\<close>,
  which makes the pages coarser, keeps every mapped address where it was.  Reads and writes
  go to the object of the page, for every access width alike.
\<close>

section \<open>Directories before they are optimised\<close>

definition dir_page :: "uptr directory \<Rightarrow> nat \<Rightarrow> uptr page" where
  "dir_page d j = (if j < length (page_table d) then page_table d ! j else empty_page)"

abbreviation mapped :: "uptr page \<Rightarrow> bool" where
  "mapped p \<equiv> page_object p \<noteq> None"

abbreviation floor_to :: "nat \<Rightarrow> nat \<Rightarrow> nat" where
  "floor_to oa j \<equiv> j div 2 ^ oa * 2 ^ oa"

text \<open>
  A directory of byte-sized pages whose mapped pages fill aligned blocks from their start on,
  up to the alignment the directory has collected.
\<close>

definition fresh_directory :: "nat \<Rightarrow> uptr directory \<Rightarrow> bool" where
  "fresh_directory P d \<longleftrightarrow>
     page_mask d = BF 0 P \<and> (page_table d = [] \<or> length (page_table d) = 2 ^ P) \<and>
     optimal_alignment d \<le> P \<and>
     (\<forall>j k. mapped (dir_page d j) \<and> floor_to (optimal_alignment d) j \<le> k \<and> k \<le> j \<longrightarrow>
        dir_page d k = dir_page d j)"

lemma unmapped_empty [simp]: "page_object (empty_page :: uptr page) = None"
  by (simp add: empty_page_def)

lemma dir_page_length: "dir_page d j \<noteq> empty_page \<Longrightarrow> j < length (page_table d)"
  by (simp add: dir_page_def split: if_splits)

lemma floor_to_mono: "a \<le> b \<Longrightarrow> floor_to b j \<le> floor_to a j"
proof -
  assume "a \<le> b"
  then obtain c where c: "b = a + c" using le_Suc_ex by blast
  have "j div 2 ^ b * 2 ^ b = (j div 2 ^ a) div 2 ^ c * 2 ^ c * 2 ^ a"
    by (simp add: c power_add div_mult2_eq)
  also have "\<dots> \<le> j div 2 ^ a * 2 ^ a"
    by (intro mult_le_mono1) simp
  finally show ?thesis .
qed

lemma floor_to_dvd: "2 ^ oa dvd r \<Longrightarrow> r \<le> j \<Longrightarrow> r \<le> floor_to oa j"
  by (metis div_le_mono dvd_div_mult_self mult_le_mono1)

section \<open>Mapping into a directory\<close>

lemma map_pages_spec:
  assumes "map_size < max_map_size" and "page_index + n \<le> length pages"
  shows "map_pages address object (Suc 0) max_map_size n page_index map_size pages =
    (let k = min n (max_map_size - map_size) in
     if \<exists>j<k. page_object (pages ! (page_index + j)) \<noteq> None then Inl Runtime_error
     else Inr (take page_index pages @ replicate k \<lparr>base_address = address, page_object = Some object\<rparr> @
                 drop (page_index + k) pages, map_size + k, max_map_size - map_size \<le> n))"
  using assms
proof (induction n arbitrary: page_index map_size pages)
  case 0
  then show ?case by simp
next
  case (Suc n)
  let ?new = "\<lparr>base_address = address, page_object = Some object\<rparr>"
  let ?pages = "pages[page_index := ?new]"
  show ?case
  proof (cases "page_object (pages ! page_index) \<noteq> None")
    case True
    have "0 < min (Suc n) (max_map_size - map_size)" using Suc.prems(1) by simp
    then have "\<exists>j<min (Suc n) (max_map_size - map_size). page_object (pages ! (page_index + j)) \<noteq> None"
      using True by (intro exI[of _ 0]) simp
    then show ?thesis using True by (simp only: map_pages.simps Let_def if_P not_False_eq_True if_True)
  next
    case free: False
    show ?thesis
    proof (cases "max_map_size \<le> Suc map_size")
      case True
      then have "min (Suc n) (max_map_size - map_size) = Suc 0" using Suc.prems(1) by simp
      then show ?thesis using True free Suc.prems by (simp add: upd_conv_take_nth_drop)
    next
      case False
      let ?k = "min n (max_map_size - Suc map_size)"
      have k: "min (Suc n) (max_map_size - map_size) = Suc ?k" using False by simp
      have ih: "map_pages address object (Suc 0) max_map_size n (Suc page_index) (Suc map_size) ?pages =
          (if \<exists>j<?k. page_object (?pages ! (Suc page_index + j)) \<noteq> None then Inl Runtime_error
           else Inr (take (Suc page_index) ?pages @ replicate ?k ?new @ drop (Suc page_index + ?k) ?pages,
             Suc map_size + ?k, max_map_size - Suc map_size \<le> n))"
        using Suc.IH[of "Suc map_size" "Suc page_index" ?pages] Suc.prems False by (simp add: Let_def)
      have ex: "(\<exists>j<?k. page_object (?pages ! (Suc page_index + j)) \<noteq> None) \<longleftrightarrow>
          (\<exists>j<Suc ?k. page_object (pages ! (page_index + j)) \<noteq> None)" (is "?L \<longleftrightarrow> ?R")
      proof
        assume ?L
        then obtain j where "j < ?k" "page_object (pages ! (page_index + Suc j)) \<noteq> None" by auto
        then show ?R by (intro exI[of _ "Suc j"]) simp
      next
        assume ?R
        then obtain j where "j < Suc ?k" "page_object (pages ! (page_index + j)) \<noteq> None" by auto
        then show ?L using free by (cases j) auto
      qed
      have t: "take (Suc page_index) ?pages @ replicate ?k ?new @ drop (Suc page_index + ?k) ?pages =
          take page_index pages @ replicate (Suc ?k) ?new @ drop (page_index + Suc ?k) pages"
        using Suc.prems by (simp add: upd_conv_take_nth_drop add.commute)
      have u: "map_pages address object (Suc 0) max_map_size (Suc n) page_index map_size pages =
          map_pages address object (Suc 0) max_map_size n (Suc page_index) (Suc map_size) ?pages"
        using free False by (simp add: Let_def)
      have e: "Suc map_size + ?k = map_size + Suc ?k"
        "(max_map_size - Suc map_size \<le> n) = (max_map_size - map_size \<le> Suc n)"
        using Suc.prems(1) by auto
      show ?thesis unfolding u ih ex t e k Let_def ..
    qed
  qed
qed

lemma length_vec_resize_fresh:
  "fresh_directory P d \<Longrightarrow> length (vec_resize (2 ^ P) empty_page (page_table d)) = 2 ^ P"
  by (auto simp: vec_resize_def fresh_directory_def)

lemma nth_vec_resize_fresh:
  "fresh_directory P d \<Longrightarrow> j < 2 ^ P \<Longrightarrow> vec_resize (2 ^ P) empty_page (page_table d) ! j = dir_page d j"
  by (auto simp: vec_resize_def fresh_directory_def dir_page_def)

lemma map_directory_spec:
  assumes fresh: "fresh_directory P d" and ms: "map_size < max_map_size"
    and r: "r = unat (extract_from (BF 0 P) (address + of_nat map_size))"
    and al: "al = count_trailing_zeros address"
    and aligned: "2 ^ min (optimal_alignment d) al dvd r"
    and k: "k = min (2 ^ P - r) (max_map_size - map_size)"
  shows "if \<exists>j<k. mapped (dir_page d (r + j))
    then map_directory address object max_map_size map_size d = Inl Runtime_error
    else \<exists>d'. map_directory address object max_map_size map_size d =
        Inr (d', map_size + k, max_map_size - map_size \<le> 2 ^ P - r) \<and> fresh_directory P d' \<and>
      optimal_alignment d' = min (optimal_alignment d) al \<and>
      (\<forall>j<2 ^ P. dir_page d' j =
         (if r \<le> j \<and> j < r + k then \<lparr>base_address = address, page_object = Some object\<rparr> else dir_page d j))"
proof -
  let ?new = "\<lparr>base_address = address, page_object = Some object\<rparr>"
  let ?pages = "vec_resize (2 ^ P) empty_page (page_table d)"
  note len = length_vec_resize_fresh[OF fresh] and nth = nth_vec_resize_fresh[OF fresh]
  have pm: "page_mask d = BF 0 P" using fresh by (simp add: fresh_directory_def)
  have rP: "r < 2 ^ P" using unat_extract_from_less[of "BF 0 P"] by (simp add: r)
  have rk: "r + k \<le> 2 ^ P" using rP k by simp
  have occ: "(\<exists>j<k. mapped (?pages ! (r + j))) \<longleftrightarrow> (\<exists>j<k. mapped (dir_page d (r + j)))"
    using nth rk by auto
  let ?pt = "take r ?pages @ replicate k ?new @ drop (r + k) ?pages"
  let ?d = "d\<lparr>optimal_alignment := min (optimal_alignment d) al, page_table := ?pt\<rparr>"
  have m: "map_directory address object max_map_size map_size d =
      (if \<exists>j<k. mapped (dir_page d (r + j)) then Inl Runtime_error
       else Inr (?d, map_size + k, max_map_size - map_size \<le> 2 ^ P - r))"
    using map_pages_spec[OF ms, of r "2 ^ P - r" ?pages address object] len rP occ
    by (simp add: map_directory_def Let_def pm al r[symmetric] k[symmetric])
  show ?thesis
  proof (cases "\<exists>j<k. mapped (dir_page d (r + j))")
    case True
    then show ?thesis using m by simp
  next
    case free: False
    have plen: "length ?pt = 2 ^ P" using len rP rk by simp
    have pt: "page_table ?d = ?pt" by simp
    have pages: "dir_page ?d j = (if r \<le> j \<and> j < r + k then ?new else dir_page d j)" if "j < 2 ^ P" for j
    proof -
      have "dir_page ?d j = ?pt ! j"
        unfolding dir_page_def pt plen using that by (rule if_P)
      also have "\<dots> = (if r \<le> j \<and> j < r + k then ?new else ?pages ! j)"
        using that rk by (auto simp: nth_append len)
      finally show ?thesis by (simp only: nth[OF that])
    qed
    have fresh': "fresh_directory P ?d"
      unfolding fresh_directory_def
    proof (intro conjI allI impI)
      show "page_mask ?d = BF 0 P" using pm by simp
      show "page_table ?d = [] \<or> length (page_table ?d) = 2 ^ P" using plen by simp
      show "optimal_alignment ?d \<le> P" using fresh by (simp add: fresh_directory_def min.coboundedI1)
      fix j i
      assume a: "mapped (dir_page ?d j) \<and> floor_to (optimal_alignment ?d) j \<le> i \<and> i \<le> j"
      then have "dir_page ?d j \<noteq> empty_page" by auto
      then have "j < length (page_table ?d)" by (rule dir_page_length)
      then have jP: "j < 2 ^ P" unfolding pt plen .
      then have iP: "i < 2 ^ P" using a by simp
      show "dir_page ?d i = dir_page ?d j"
      proof (cases "r \<le> j \<and> j < r + k")
        case True
        have "r \<le> floor_to (optimal_alignment ?d) j"
          using floor_to_dvd[of "optimal_alignment ?d" r j] aligned True by simp
        then show ?thesis using a True by (simp add: pages jP iP)
      next
        case False
        have "dir_page ?d j = dir_page d j" unfolding pages[OF jP] using False by (rule if_not_P)
        then have mj: "mapped (dir_page d j)" using a by (simp only: simp_thms)
        have "floor_to (optimal_alignment d) j \<le> i"
          using a floor_to_mono[of "optimal_alignment ?d" "optimal_alignment d" j] by simp
        then have e: "dir_page d i = dir_page d j"
          using fresh mj a unfolding fresh_directory_def by blast
        then have "\<not> (r \<le> i \<and> i < r + k)" using free mj
          by (metis le_add_diff_inverse nat_add_left_cancel_less)
        then show ?thesis using e False by (simp only: pages[OF jP] pages[OF iP] if_False)
      qed
    qed
    show ?thesis using free m fresh' pages by auto
  qed
qed

section \<open>Mapping across directories\<close>

text \<open>One page per address; addresses count from the first directory of the list.\<close>

definition flat_page :: "nat \<Rightarrow> uptr directory list \<Rightarrow> nat \<Rightarrow> uptr page" where
  "flat_page P ds n = dir_page (ds ! (n div 2 ^ P)) (n mod 2 ^ P)"

lemma flat_page_Cons:
  "n < 2 ^ P \<Longrightarrow> flat_page P (d # ds) n = dir_page d n"
  "2 ^ P \<le> n \<Longrightarrow> flat_page P (d # ds) n = flat_page P ds (n - 2 ^ P)"
  by (simp_all add: flat_page_def le_div_geq le_mod_geq)

lemma flat_range_Cons:
  assumes "r < 2 ^ P"
  shows "flat_page P (d # ds) (r + j) =
    (if j < 2 ^ P - r then dir_page d (r + j) else flat_page P ds (j - (2 ^ P - r)))"
proof (cases "j < 2 ^ P - r")
  case True
  then show ?thesis by (simp add: flat_page_Cons)
next
  case False
  then have "2 ^ P \<le> r + j" "r + j - 2 ^ P = j - (2 ^ P - r)" using assms by linarith+
  then show ?thesis using False by (simp only: flat_page_Cons if_False)
qed

lemma flat_occupied_Cons:
  assumes "r < 2 ^ P"
  shows "(\<exists>j<(2 ^ P - r) + m. mapped (flat_page P (d # ds) (r + j))) \<longleftrightarrow>
    (\<exists>j<2 ^ P - r. mapped (dir_page d (r + j))) \<or> (\<exists>j<m. mapped (flat_page P ds j))"
    (is "?L \<longleftrightarrow> ?A \<or> ?B")
proof
  assume ?L
  then obtain j where j: "j < (2 ^ P - r) + m" "mapped (flat_page P (d # ds) (r + j))" by blast
  show "?A \<or> ?B"
  proof (cases "j < 2 ^ P - r")
    case True
    then have "mapped (dir_page d (r + j))" using j(2) by (simp only: flat_range_Cons[OF assms] if_True simp_thms)
    then show ?thesis using True by blast
  next
    case False
    then have "mapped (flat_page P ds (j - (2 ^ P - r)))"
      using j(2) by (simp only: flat_range_Cons[OF assms] if_False simp_thms)
    moreover have "j - (2 ^ P - r) < m" using j(1) False by linarith
    ultimately show ?thesis by blast
  qed
next
  assume "?A \<or> ?B"
  then show ?L
  proof
    assume ?A
    then obtain j where j: "j < 2 ^ P - r" "mapped (dir_page d (r + j))" by blast
    then have "mapped (flat_page P (d # ds) (r + j))" by (simp only: flat_range_Cons[OF assms] if_True simp_thms)
    then show ?L using j(1) trans_less_add1 by blast
  next
    assume ?B
    then obtain j where j: "j < m" "mapped (flat_page P ds j)" by blast
    then have "mapped (flat_page P (d # ds) (r + ((2 ^ P - r) + j)))"
      by (simp only: flat_range_Cons[OF assms]) simp
    then show ?L using j(1) by (meson nat_add_left_cancel_less)
  qed
qed

lemma low_bits_position:
  assumes "P \<le> 32" and "unat address + map_size < 2 ^ 32"
  shows "unat (extract_from (BF 0 P) (address + of_nat map_size :: uptr)) = (unat address + map_size) mod 2 ^ P"
proof -
  have "unat (address + of_nat map_size :: uptr) = unat address + map_size"
    using assms(2) by (simp add: unat_word_ariths unat_of_nat)
  then show ?thesis
    by (simp only: extract_from_eq bitfield.simps drop_bit_0 id_apply unsigned_take_bit_eq) (simp only: take_bit_eq_mod)
qed

lemma ctz_dvd: "2 ^ count_trailing_zeros v dvd unat v"
proof -
  have "take_bit (count_trailing_zeros v) v = 0"
    by (rule bit_word_eqI) (auto simp: bit_simps dest: count_trailing_zeros_zeros)
  then have "take_bit (count_trailing_zeros v) (unat v) = 0"
    by (metis unsigned_0 unsigned_take_bit_eq)
  then show ?thesis by (simp add: take_bit_eq_0_iff)
qed

lemma map_directories_spec:
  assumes "\<forall>d\<in>set ds. fresh_directory P d" and "P \<le> 32"
    and "map_size < max_map_size" and "unat address + max_map_size \<le> 2 ^ 32"
    and "r = (unat address + map_size) mod 2 ^ P" and "r + (max_map_size - map_size) \<le> length ds * 2 ^ P"
    and "map_size = 0 \<or> r = 0"
  shows "if \<exists>j<max_map_size - map_size. mapped (flat_page P ds (r + j))
    then map_directories address object max_map_size map_size ds = Inl Runtime_error
    else \<exists>ds'. map_directories address object max_map_size map_size ds = Inr ds' \<and>
      length ds' = length ds \<and> (\<forall>d\<in>set ds'. fresh_directory P d) \<and>
      (\<forall>n<length ds * 2 ^ P. flat_page P ds' n =
         (if r \<le> n \<and> n < r + (max_map_size - map_size)
          then \<lparr>base_address = address, page_object = Some object\<rparr> else flat_page P ds n))"
  using assms
proof (induction ds arbitrary: map_size r)
  case Nil
  then show ?case by simp
next
  case (Cons d ds)
  let ?new = "\<lparr>base_address = address, page_object = Some object\<rparr>"
  let ?al = "count_trailing_zeros address"
  let ?k = "min (2 ^ P - r) (max_map_size - map_size)"
  have fresh: "fresh_directory P d" using Cons.prems(1) by simp
  have rP: "r < 2 ^ P" using Cons.prems(5) by simp
  have r: "r = unat (extract_from (BF 0 P) (address + of_nat map_size))"
    using low_bits_position[of P address map_size] Cons.prems(2-5) by simp
  have dvd: "2 ^ min (optimal_alignment d) ?al dvd r"
  proof (cases "r = 0")
    case False
    then have r0: "r = unat address mod 2 ^ P" using Cons.prems(5,7) by simp
    have "2 ^ min (optimal_alignment d) ?al dvd (2 :: nat) ^ P"
      using fresh by (intro le_imp_power_dvd) (simp add: fresh_directory_def min.coboundedI1)
    moreover have "2 ^ min (optimal_alignment d) ?al dvd unat address"
      using ctz_dvd[of address] by (meson dvd_trans le_imp_power_dvd min.cobounded2)
    ultimately show ?thesis unfolding r0 by (metis dvd_mod)
  qed simp
  note step = map_directory_spec[OF fresh Cons.prems(3) r refl dvd refl, of object]
  show ?case
  proof (cases "max_map_size - map_size \<le> 2 ^ P - r")
    case True
    then have k: "?k = max_map_size - map_size" by simp
    have fp: "flat_page P (d # ds) (r + j) = dir_page d (r + j)" if "j < max_map_size - map_size" for j
      using that True rP by (intro flat_page_Cons) simp
    show ?thesis
    proof (cases "\<exists>j<max_map_size - map_size. mapped (dir_page d (r + j))")
      case occ: True
      then have occ': "\<exists>j<max_map_size - map_size. mapped (flat_page P (d # ds) (r + j))"
        by (metis fp)
      have "map_directory address object max_map_size map_size d = Inl Runtime_error"
        using step occ unfolding k by (simp only: if_True)
      then show ?thesis unfolding if_P[OF occ'] by simp
    next
      case free: False
      then obtain d' where d': "map_directory address object max_map_size map_size d =
            Inr (d', map_size + (max_map_size - map_size), True)" "fresh_directory P d'"
          "\<forall>j<2 ^ P. dir_page d' j = (if r \<le> j \<and> j < r + (max_map_size - map_size) then ?new else dir_page d j)"
        using step True unfolding k if_not_P[OF free] by auto
      have "flat_page P (d' # ds) n =
          (if r \<le> n \<and> n < r + (max_map_size - map_size) then ?new else flat_page P (d # ds) n)" for n
      proof (cases "n < 2 ^ P")
        case True
        then show ?thesis using d'(3) by (simp only: flat_page_Cons(1))
      next
        case False
        then have "2 ^ P \<le> n" "\<not> n < r + (max_map_size - map_size)"
          using \<open>max_map_size - map_size \<le> 2 ^ P - r\<close> rP by linarith+
        then show ?thesis by (simp only: flat_page_Cons(2) simp_thms if_False)
      qed
      moreover have nocc: "\<not> (\<exists>j<max_map_size - map_size. mapped (flat_page P (d # ds) (r + j)))"
        using free fp by metis
      ultimately show ?thesis
        unfolding if_not_P[OF nocc]
        using d'(1,2) Cons.prems(1) by (intro exI[of _ "d' # ds"]) simp
    qed
  next
    case False
    then have k: "?k = 2 ^ P - r" by simp
    let ?ms = "map_size + (2 ^ P - r)"
    have ms: "?ms < max_map_size" "max_map_size - map_size = (2 ^ P - r) + (max_map_size - ?ms)"
      using False by simp_all
    have r': "(unat address + ?ms) mod 2 ^ P = 0"
    proof -
      have "unat address + map_size = (unat address + map_size) div 2 ^ P * 2 ^ P + r"
        unfolding Cons.prems(5) by (simp only: div_mult_mod_eq)
      then have "unat address + ?ms = Suc ((unat address + map_size) div 2 ^ P) * 2 ^ P"
        using rP unfolding mult_Suc by linarith
      then show ?thesis by (metis mod_mult_self2_is_0)
    qed
    have occ: "(\<exists>j<max_map_size - map_size. mapped (flat_page P (d # ds) (r + j))) \<longleftrightarrow>
        (\<exists>j<2 ^ P - r. mapped (dir_page d (r + j))) \<or>
        (\<exists>j<max_map_size - ?ms. mapped (flat_page P ds (0 + j)))"
      unfolding ms(2) add_0 by (rule flat_occupied_Cons[OF rP])
    have ih: "if \<exists>j<max_map_size - ?ms. mapped (flat_page P ds (0 + j))
      then map_directories address object max_map_size ?ms ds = Inl Runtime_error
      else \<exists>ds'. map_directories address object max_map_size ?ms ds = Inr ds' \<and>
        length ds' = length ds \<and> (\<forall>d\<in>set ds'. fresh_directory P d) \<and>
        (\<forall>n<length ds * 2 ^ P. flat_page P ds' n =
           (if 0 \<le> n \<and> n < 0 + (max_map_size - ?ms) then ?new else flat_page P ds n))"
    proof (rule Cons.IH)
      show "\<forall>d\<in>set ds. fresh_directory P d" using Cons.prems(1) by simp
      have "r + (max_map_size - map_size) \<le> 2 ^ P + length ds * 2 ^ P"
        using Cons.prems(6) by simp
      then show "0 + (max_map_size - ?ms) \<le> length ds * 2 ^ P"
        using ms(2) rP by linarith
      show "0 = (unat address + ?ms) mod 2 ^ P" by (rule r'[symmetric])
      show "?ms = 0 \<or> 0 = (0 :: nat)" by simp
    qed (fact ms(1) Cons.prems(2) Cons.prems(4))+
    show ?thesis
    proof (cases "\<exists>j<2 ^ P - r. mapped (dir_page d (r + j))")
      case True
      then show ?thesis using step occ by (simp add: k)
    next
      case free: False
      then obtain d' where d': "map_directory address object max_map_size map_size d = Inr (d', ?ms, False)"
          "fresh_directory P d'"
          "\<forall>j<2 ^ P. dir_page d' j = (if r \<le> j \<and> j < 2 ^ P then ?new else dir_page d j)"
        using step False rP unfolding k if_not_P[OF free] by auto
      show ?thesis
      proof (cases "\<exists>j<max_map_size - ?ms. mapped (flat_page P ds (0 + j))")
        case True
        then show ?thesis using ih occ d'(1) by simp
      next
        case free': False
        then obtain ds' where ds': "map_directories address object max_map_size ?ms ds = Inr ds'"
          "length ds' = length ds" "\<forall>d\<in>set ds'. fresh_directory P d"
          "\<forall>n<length ds * 2 ^ P. flat_page P ds' n =
             (if n < max_map_size - ?ms then ?new else flat_page P ds n)"
          using ih unfolding if_not_P[OF free'] by auto
        have pages: "flat_page P (d' # ds') n =
            (if r \<le> n \<and> n < r + (max_map_size - map_size) then ?new else flat_page P (d # ds) n)"
          if n: "n < length (d # ds) * 2 ^ P" for n
        proof (cases "n < 2 ^ P")
          case True
          then have "n < r + (max_map_size - map_size)" using ms(2) rP by linarith
          then show ?thesis using d'(3) True by (simp add: flat_page_Cons(1))
        next
          case False
          then have le: "2 ^ P \<le> n" by simp
          have "n - 2 ^ P < length ds * 2 ^ P" using n le by simp
          moreover have "n - 2 ^ P < max_map_size - ?ms \<longleftrightarrow> n < r + (max_map_size - map_size)"
            using ms(2) rP le by linarith
          moreover have "r \<le> n" using rP le by simp
          ultimately show ?thesis using ds'(4) by (simp only: flat_page_Cons(2)[OF le] simp_thms)
        qed
        have nocc: "\<not> (\<exists>j<max_map_size - map_size. mapped (flat_page P (d # ds) (r + j)))"
          using occ free free' by blast
        have m: "map_directories address object max_map_size map_size (d # ds) = Inr (d' # ds')"
          using d'(1) ds'(1) by simp
        show ?thesis
          unfolding if_not_P[OF nocc]
        proof (intro exI[of _ "d' # ds'"] conjI m allI impI)
          show "length (d' # ds') = length (d # ds)" using ds'(2) by simp
          show "\<forall>d\<in>set (d' # ds'). fresh_directory P d" using d'(2) ds'(3) by simp
        qed (rule pages)
      qed
    qed
  qed
qed

section \<open>The bus as one page per address\<close>

definition bus_fresh :: "nat \<Rightarrow> uptr byte_bus \<Rightarrow> bool" where
  "bus_fresh D b \<longleftrightarrow>
     D \<le> 32 \<and> directory_mask b = BF (32 - D) D \<and> length (bus_table b) = 2 ^ D \<and>
     (\<forall>d\<in>set (bus_table b). fresh_directory (32 - D) d)"

definition bus_page :: "uptr byte_bus \<Rightarrow> nat \<Rightarrow> uptr page" where
  "bus_page b n = flat_page (bf_start (directory_mask b)) (bus_table b) n"

definition object_range :: "uptr byte_bus \<Rightarrow> uptr \<Rightarrow> nat \<Rightarrow> nat \<Rightarrow> bool" where
  "object_range b address object n \<longleftrightarrow>
     unat address \<le> n \<and> n < unat address + byte_bus_map_size (bus_objects b ! object)"

lemma unat_extract_high:
  assumes "D \<le> 32"
  shows "unat (extract_from (BF (32 - D) D) (a :: uptr)) = unat a div 2 ^ (32 - D)"
proof -
  have p: "(2 :: nat) ^ 32 = 2 ^ D * 2 ^ (32 - D)" using assms by (simp flip: power_add)
  have a: "unat a < 2 ^ 32" using unsigned_less[of a] by simp
  then have "unat a div 2 ^ (32 - D) < 2 ^ D" unfolding p by (rule less_mult_imp_div_less)
  then show ?thesis using a
    by (simp only: extract_from_eq bitfield.simps id_apply unsigned_take_bit_eq unsigned_drop_bit_eq)
      (simp add: take_bit_eq_mod drop_bit_eq_div)
qed

lemma unat_extract_low: "P \<le> 32 \<Longrightarrow> unat (extract_from (BF 0 P) (a :: uptr)) = unat a mod 2 ^ P"
  using low_bits_position[of P a 0] unsigned_less[of a] by simp

lemma bus_fresh_new: "D \<le> 32 \<Longrightarrow> bus_fresh D (ByteBus_new D objs)"
  by (auto simp: bus_fresh_def ByteBus_new_def fresh_directory_def dir_page_def)

lemma bus_page_new: "D \<le> 32 \<Longrightarrow> n < 2 ^ 32 \<Longrightarrow> bus_page (ByteBus_new D objs) n = empty_page"
proof -
  assume D: "D \<le> 32" and n: "n < 2 ^ 32"
  have "(2 :: nat) ^ 32 = 2 ^ D * 2 ^ (32 - D)" using D by (simp flip: power_add)
  then have "n div 2 ^ (32 - D) < 2 ^ D" using n by (metis less_mult_imp_div_less)
  then show ?thesis by (simp add: bus_page_def flat_page_def ByteBus_new_def dir_page_def)
qed

text \<open>\<open>map\<close> is a range update that refuses an occupied range.\<close>

lemma bus_map_spec:
  assumes fresh: "bus_fresh D b" and pos: "0 < byte_bus_map_size (bus_objects b ! object)"
    and range: "unat address + byte_bus_map_size (bus_objects b ! object) \<le> 2 ^ 32"
  shows "if \<exists>n. object_range b address object n \<and> mapped (bus_page b n)
    then bus_map address object b = Inl Runtime_error
    else \<exists>b'. bus_map address object b = Inr b' \<and> bus_fresh D b' \<and> bus_objects b' = bus_objects b \<and>
      (\<forall>n<2 ^ 32. bus_page b' n =
         (if object_range b address object n
          then \<lparr>base_address = address, page_object = Some object\<rparr> else bus_page b n))"
proof -
  let ?M = "byte_bus_map_size (bus_objects b ! object)" and ?P = "32 - D"
  let ?i = "get_vdn address b" and ?r = "unat address mod 2 ^ ?P"
  let ?ds = "drop ?i (bus_table b)"
  let ?new = "\<lparr>base_address = address, page_object = Some object\<rparr>"
  have D: "D \<le> 32" and dm: "directory_mask b = BF ?P D" and len: "length (bus_table b) = 2 ^ D"
    and fd: "\<forall>d\<in>set (bus_table b). fresh_directory ?P d"
    using fresh by (simp_all add: bus_fresh_def)
  have p: "(2 :: nat) ^ 32 = 2 ^ D * 2 ^ ?P" using D by (simp flip: power_add)
  have vdn: "get_vdn a b < length (bus_table b)" for a
    using unat_extract_from_less[of "BF ?P D" a] by (simp add: get_vdn_def dm len)
  have i: "?i = unat address div 2 ^ ?P" by (simp only: get_vdn_def dm unat_extract_high[OF D])
  have a: "unat address = ?i * 2 ^ ?P + ?r" unfolding i by (rule div_mult_mod_eq[symmetric])
  have lds: "length ?ds * 2 ^ ?P + ?i * 2 ^ ?P = 2 ^ 32"
    using vdn[of address] unfolding p by (simp add: len flip: add_mult_distrib)
  have fp: "flat_page ?P ?ds n = bus_page b (?i * 2 ^ ?P + n)" for n
    using vdn[of address] by (simp add: flat_page_def bus_page_def dm add.commute)
  have rng: "object_range b address object (?i * 2 ^ ?P + n) \<longleftrightarrow> ?r \<le> n \<and> n < ?r + ?M" for n
    unfolding object_range_def using a by linarith
  have occ: "(\<exists>j<?M - 0. mapped (flat_page ?P ?ds (?r + j))) \<longleftrightarrow>
      (\<exists>n. object_range b address object n \<and> mapped (bus_page b n))"
  proof
    assume "\<exists>j<?M - 0. mapped (flat_page ?P ?ds (?r + j))"
    then obtain j where j: "j < ?M" "mapped (bus_page b (?i * 2 ^ ?P + (?r + j)))" unfolding fp by auto
    then show "\<exists>n. object_range b address object n \<and> mapped (bus_page b n)"
      by (intro exI conjI) (rule rng[THEN iffD2], auto)
  next
    assume "\<exists>n. object_range b address object n \<and> mapped (bus_page b n)"
    then obtain n where n: "object_range b address object n" "mapped (bus_page b n)" by blast
    then obtain j where j: "n = unat address + j" "j < ?M"
      unfolding object_range_def by (metis le_Suc_ex nat_add_left_cancel_less)
    then show "\<exists>j<?M - 0. mapped (flat_page ?P ?ds (?r + j))"
      using n(2) a unfolding fp by (metis add.assoc minus_nat.diff_0)
  qed
  have step: "if \<exists>j<?M - 0. mapped (flat_page ?P ?ds (?r + j))
    then map_directories address object ?M 0 ?ds = Inl Runtime_error
    else \<exists>ds'. map_directories address object ?M 0 ?ds = Inr ds' \<and>
      length ds' = length ?ds \<and> (\<forall>d\<in>set ds'. fresh_directory ?P d) \<and>
      (\<forall>n<length ?ds * 2 ^ ?P. flat_page ?P ds' n =
         (if ?r \<le> n \<and> n < ?r + (?M - 0) then ?new else flat_page ?P ?ds n))"
  proof (rule map_directories_spec)
    show "\<forall>d\<in>set ?ds. fresh_directory ?P d" using fd by (meson in_set_dropD)
    show "?r + (?M - 0) \<le> length ?ds * 2 ^ ?P" using lds a range by linarith
  qed (use pos range in simp_all)
  have m: "bus_map address object b = bind_res (map_directories address object ?M 0 ?ds)
      (\<lambda>ds. Inr (b\<lparr>bus_table := take ?i (bus_table b) @ ds\<rparr>))"
    using pos by (simp add: bus_map_def Let_def not_le[THEN iffD2, OF vdn])
  show ?thesis
  proof (cases "\<exists>n. object_range b address object n \<and> mapped (bus_page b n)")
    case True
    then show ?thesis using step m unfolding occ by (simp only: if_True bind_res_simps)
  next
    case False
    then obtain ds' where ds': "map_directories address object ?M 0 ?ds = Inr ds'"
        "length ds' = length ?ds" "\<forall>d\<in>set ds'. fresh_directory ?P d"
        "\<forall>n<length ?ds * 2 ^ ?P. flat_page ?P ds' n =
           (if ?r \<le> n \<and> n < ?r + ?M then ?new else flat_page ?P ?ds n)"
      using step unfolding occ if_not_P[OF False] by auto
    let ?b = "b\<lparr>bus_table := take ?i (bus_table b) @ ds'\<rparr>"
    have "bus_fresh D ?b"
      using D dm len fd ds'(2,3) vdn[of address] by (auto simp: bus_fresh_def dest: in_set_takeD)
    moreover have "bus_page ?b n = (if object_range b address object n then ?new else bus_page b n)"
      if n: "n < 2 ^ 32" for n
    proof (cases "n < ?i * 2 ^ ?P")
      case True
      then have "n div 2 ^ ?P < ?i" by (rule less_mult_imp_div_less)
      moreover have "\<not> object_range b address object n" using True a by (simp add: object_range_def)
      ultimately show ?thesis
        using vdn[of address] by (simp add: bus_page_def flat_page_def dm nth_append)
    next
      case False
      then obtain k where k: "n = ?i * 2 ^ ?P + k" by (metis le_Suc_ex not_less)
      then have "k < length ?ds * 2 ^ ?P" using n lds by linarith
      moreover have "bus_page ?b n = flat_page ?P ds' k"
        using vdn[of address] by (simp add: bus_page_def flat_page_def dm nth_append k add.commute)
      ultimately show ?thesis using ds'(4) unfolding k rng fp by simp
    qed
    ultimately show ?thesis using False m ds'(1) by simp
  qed
qed

text \<open>The lookup before and after \<open>optimise\<close>.\<close>

lemma get_page_fresh:
  assumes fresh: "bus_fresh D b" and m: "mapped (bus_page b (unat a))"
  shows "get_page a b = Inr (bus_page b (unat a))"
proof -
  let ?P = "32 - D"
  have D: "D \<le> 32" and dm: "directory_mask b = BF ?P D" and len: "length (bus_table b) = 2 ^ D"
    and fd: "\<forall>d\<in>set (bus_table b). fresh_directory ?P d"
    using fresh by (simp_all add: bus_fresh_def)
  let ?d = "bus_table b ! get_vdn a b"
  have vdn: "get_vdn a b < length (bus_table b)"
    using unat_extract_from_less[of "BF ?P D" a] by (simp add: get_vdn_def dm len)
  have v: "get_vdn a b = unat a div 2 ^ ?P" by (simp only: get_vdn_def dm unat_extract_high[OF D])
  have pm: "page_mask ?d = BF 0 ?P" using fd vdn by (simp add: fresh_directory_def)
  have e: "bus_page b (unat a) = dir_page ?d (unat a mod 2 ^ ?P)"
    by (simp add: bus_page_def flat_page_def dm v)
  then have "dir_page ?d (unat a mod 2 ^ ?P) \<noteq> empty_page" using m by auto
  then have "unat a mod 2 ^ ?P < length (page_table ?d)" by (rule dir_page_length)
  then show ?thesis
    using vdn unfolding e by (simp add: get_page_def Let_def pm unat_extract_low dir_page_def)
qed

lemma fold_list_update:
  "n \<le> length t \<Longrightarrow> length (fold (\<lambda>k t. t[k := f k]) [0..<n] t) = length t \<and>
     (\<forall>k<n. fold (\<lambda>k t. t[k := f k]) [0..<n] t ! k = f k)"
  by (induction n) (auto simp: less_Suc_eq)

lemma optimise_directory_spec:
  assumes fresh: "fresh_directory P d" and D: "D + P = 32" and m: "mapped (dir_page d (unat a mod 2 ^ P))"
  shows "unat (extract_from (page_mask (optimise_directory D d)) (a :: uptr)) < length (page_table (optimise_directory D d)) \<and>
    page_table (optimise_directory D d) ! unat (extract_from (page_mask (optimise_directory D d)) a) =
      dir_page d (unat a mod 2 ^ P)"
proof -
  let ?oa = "optimal_alignment d" and ?j = "unat a mod 2 ^ P"
  have pm: "page_mask d = BF 0 P" and oa: "?oa \<le> P"
    and blocks: "\<forall>j k. mapped (dir_page d j) \<and> floor_to ?oa j \<le> k \<and> k \<le> j \<longrightarrow> dir_page d k = dir_page d j"
    using fresh by (simp_all add: fresh_directory_def)
  have P: "P \<le> 32" using D by simp
  have "dir_page d ?j \<noteq> empty_page" using m by auto
  then have j: "?j < length (page_table d)" by (rule dir_page_length)
  then have len: "length (page_table d) = 2 ^ P" using fresh by (auto simp: fresh_directory_def)
  show ?thesis
  proof (cases "?oa = 0")
    case True
    then have "optimise_directory D d = d" by (simp add: optimise_directory_def pm)
    then show ?thesis using j by (simp add: pm unat_extract_low[OF P] dir_page_def)
  next
    case False
    let ?n = "2 ^ (P - ?oa) :: nat"
    have p: "2 ^ P = ?n * 2 ^ ?oa" using oa by (simp flip: power_add)
    let ?t = "fold (\<lambda>k t. t[k := page_table d ! (k * 2 ^ ?oa)]) [0..<?n] (replicate ?n empty_page)"
    have nn: "(2 ^ P + 2 ^ ?oa - 1) div 2 ^ ?oa = ?n"
    proof -
      have "2 ^ P + 2 ^ ?oa - 1 = (2 ^ ?oa - 1) + ?n * 2 ^ ?oa" unfolding p by simp
      then show ?thesis by (simp only: div_mult_self1 power_not_zero zero_neq_numeral[symmetric] simp_thms) simp
    qed
    have D': "32 - D - ?oa = P - ?oa" using D by simp
    have o: "optimise_directory D d = d\<lparr>page_table := ?t, page_mask := BF ?oa (P - ?oa)\<rparr>"
      using False unfolding optimise_directory_def pm Let_def len nn D'[symmetric] by simp
    have x: "unat (extract_from (BF ?oa (P - ?oa)) a) = ?j div 2 ^ ?oa"
    proof -
      have "extract_from (BF ?oa (P - ?oa)) a = drop_bit ?oa (extract_from (BF 0 P) a)"
        by (rule bit_word_eqI) (use oa in \<open>auto simp: bit_extract_from bit_drop_bit_eq\<close>)
      moreover have "unat (extract_from (BF 0 P) a) < 2 ^ 32"
        using unsigned_less[of "extract_from (BF 0 P) a"] by simp
      ultimately show ?thesis
        by (simp only: unsigned_drop_bit_eq) (simp add: drop_bit_eq_div take_bit_eq_mod unat_extract_low[OF P])
    qed
    have k: "?j div 2 ^ ?oa < ?n" using mod_less_divisor[of "2 ^ P" "unat a"] unfolding p
      by (intro less_mult_imp_div_less) simp
    have fl: "floor_to ?oa ?j < length (page_table d)" using j by (meson div_times_less_eq_dividend le_less_trans)
    have "?t ! (?j div 2 ^ ?oa) = page_table d ! (floor_to ?oa ?j)" "length ?t = ?n"
      using fold_list_update[of ?n "replicate ?n empty_page" "\<lambda>k. page_table d ! (k * 2 ^ ?oa)"] k by simp_all
    moreover have "page_table d ! (floor_to ?oa ?j) = dir_page d (floor_to ?oa ?j)"
      using fl by (simp add: dir_page_def)
    moreover have "dir_page d (floor_to ?oa ?j) = dir_page d ?j" using blocks m by simp
    ultimately show ?thesis using k unfolding o by (simp add: x)
  qed
qed

text \<open>\<open>optimise\<close> keeps every mapped address where it was.\<close>

lemma get_page_optimise:
  assumes fresh: "bus_fresh D b" and m: "mapped (bus_page b (unat a))"
  shows "get_page a (optimise b) = Inr (bus_page b (unat a))"
proof -
  let ?P = "32 - D"
  have D: "D \<le> 32" and dm: "directory_mask b = BF ?P D" and len: "length (bus_table b) = 2 ^ D"
    and fd: "\<forall>d\<in>set (bus_table b). fresh_directory ?P d"
    using fresh by (simp_all add: bus_fresh_def)
  let ?d = "bus_table b ! get_vdn a b"
  have vdn: "get_vdn a b < length (bus_table b)"
    using unat_extract_from_less[of "BF ?P D" a] by (simp add: get_vdn_def dm len)
  have v: "get_vdn a b = unat a div 2 ^ ?P" by (simp only: get_vdn_def dm unat_extract_high[OF D])
  have e: "bus_page b (unat a) = dir_page ?d (unat a mod 2 ^ ?P)"
    by (simp add: bus_page_def flat_page_def dm v)
  have v': "get_vdn a (optimise b) = get_vdn a b" by (simp add: get_vdn_def optimise_def)
  have t: "bus_table (optimise b) ! get_vdn a b = optimise_directory D ?d"
    "length (bus_table (optimise b)) = length (bus_table b)"
    using vdn by (simp_all add: optimise_def dm)
  have "fresh_directory ?P ?d" using fd vdn by simp
  from optimise_directory_spec[OF this, of D a] show ?thesis
    using D m vdn unfolding e by (simp add: get_page_def Let_def v' t)
qed

section \<open>Building a bus\<close>

text \<open>
  The wiring of \<open>RResources.cpp\<close>: a sequence of \<open>map\<close> calls, then \<open>optimise\<close>.  If no call
  throws, every address of every mapped range is dispatched to its object with the offset
  from the start of the range.
\<close>

fun bus_map_all :: "(uptr \<times> nat) list \<Rightarrow> uptr byte_bus \<Rightarrow> uptr byte_bus res" where
  "bus_map_all [] b = Inr b"
| "bus_map_all ((address, object) # ms) b = bind_res (bus_map address object b) (bus_map_all ms)"

definition bus_build :: "(uptr \<times> nat) list \<Rightarrow> uptr byte_bus \<Rightarrow> uptr byte_bus res" where
  "bus_build ms b = bind_res (bus_map_all ms b) (\<lambda>b. Inr (optimise b))"

definition mappable :: "uptr byte_bus \<Rightarrow> uptr \<times> nat \<Rightarrow> bool" where
  "mappable b m \<longleftrightarrow>
     0 < byte_bus_map_size (bus_objects b ! snd m) \<and>
     unat (fst m) + byte_bus_map_size (bus_objects b ! snd m) \<le> 2 ^ 32 \<and> snd m < length (bus_objects b)"

lemma mappable_cong:
  "bus_objects b' = bus_objects b \<Longrightarrow> mappable b' = mappable b"
  "bus_objects b' = bus_objects b \<Longrightarrow> object_range b' = object_range b"
  by (auto simp: mappable_def object_range_def fun_eq_iff)

lemma bus_map_all_keeps:
  assumes "bus_fresh D b" and "\<forall>m\<in>set ms. mappable b m" and "bus_map_all ms b = Inr b'"
  shows "bus_fresh D b' \<and> bus_objects b' = bus_objects b \<and>
    (\<forall>n<2 ^ 32. mapped (bus_page b n) \<longrightarrow> bus_page b' n = bus_page b n) \<and>
    (\<forall>m\<in>set ms. \<forall>n<2 ^ 32. object_range b (fst m) (snd m) n \<longrightarrow>
       bus_page b' n = \<lparr>base_address = fst m, page_object = Some (snd m)\<rparr>)"
  using assms
proof (induction ms arbitrary: b)
  case Nil
  then show ?case by simp
next
  case (Cons m ms)
  obtain address object where m: "m = (address, object)" by fastforce
  obtain b1 where b1: "bus_map address object b = Inr b1" "bus_map_all ms b1 = Inr b'"
    using Cons.prems(3) by (auto simp: m)
  have ok: "0 < byte_bus_map_size (bus_objects b ! object)"
    "unat address + byte_bus_map_size (bus_objects b ! object) \<le> 2 ^ 32"
    using Cons.prems(2) by (simp_all add: m mappable_def)
  note spec = bus_map_spec[OF Cons.prems(1) ok]
  have free: "\<not> (\<exists>n. object_range b address object n \<and> mapped (bus_page b n))"
  proof
    assume "\<exists>n. object_range b address object n \<and> mapped (bus_page b n)"
    then show False using spec b1(1) by (simp only: if_True) simp
  qed
  have s1: "bus_fresh D b1" "bus_objects b1 = bus_objects b"
    "\<And>n. n < 2 ^ 32 \<Longrightarrow> bus_page b1 n =
       (if object_range b address object n then \<lparr>base_address = address, page_object = Some object\<rparr>
        else bus_page b n)"
    using spec b1(1) unfolding if_not_P[OF free] by auto
  have ih: "bus_fresh D b' \<and> bus_objects b' = bus_objects b1 \<and>
    (\<forall>n<2 ^ 32. mapped (bus_page b1 n) \<longrightarrow> bus_page b' n = bus_page b1 n) \<and>
    (\<forall>m\<in>set ms. \<forall>n<2 ^ 32. object_range b1 (fst m) (snd m) n \<longrightarrow>
       bus_page b' n = \<lparr>base_address = fst m, page_object = Some (snd m)\<rparr>)"
    by (rule Cons.IH[OF s1(1) _ b1(2)]) (use Cons.prems(2) mappable_cong(1)[OF s1(2)] in simp)
  have old: "bus_page b' n = bus_page b n" if n: "n < 2 ^ 32" "mapped (bus_page b n)" for n
  proof -
    have "bus_page b1 n = bus_page b n" using s1(3)[OF n(1)] free n(2) by metis
    then show ?thesis using ih n by metis
  qed
  have new: "bus_page b' n = \<lparr>base_address = address, page_object = Some object\<rparr>"
    if n: "n < 2 ^ 32" "object_range b address object n" for n
  proof -
    have e: "bus_page b1 n = \<lparr>base_address = address, page_object = Some object\<rparr>"
      using s1(3)[OF n(1)] n(2) by (simp only: if_True)
    then have "mapped (bus_page b1 n)" by simp
    then show ?thesis using ih n(1) e by metis
  qed
  show ?case
    using ih old new s1(2) mappable_cong(2)[OF s1(2)] by (simp add: m)
qed

lemma bus_build_locate:
  assumes D: "D \<le> 32" and ms: "\<forall>m\<in>set ms. mappable (ByteBus_new D objs) m"
    and b: "bus_build ms (ByteBus_new D objs) = Inr b"
    and m: "(address, object) \<in> set ms" and a: "object_range (ByteBus_new D objs) address object (unat a)"
  shows "bus_locate a b = Inr (object, unat a - unat address) \<and> bus_objects b = objs"
proof -
  let ?b0 = "ByteBus_new D objs :: uptr byte_bus"
  obtain b1 where b1: "bus_map_all ms ?b0 = Inr b1" "b = optimise b1"
    using b by (auto simp: bus_build_def)
  note k = bus_map_all_keeps[OF bus_fresh_new[OF D] ms b1(1)]
  have n: "unat a < 2 ^ 32" using unsigned_less[of a] by simp
  have p: "bus_page b1 (unat a) = \<lparr>base_address = address, page_object = Some object\<rparr>"
    using k m a n by fastforce
  then have "get_page a b = Inr \<lparr>base_address = address, page_object = Some object\<rparr>"
    using get_page_optimise[of D b1 a] k b1(2) by simp
  moreover have "object < length objs" using ms m by (auto simp: mappable_def ByteBus_new_def)
  moreover have "bus_objects b = objs" using k b1(2) by (simp add: optimise_def ByteBus_new_def)
  moreover have "unat (a - address) = unat a - unat address"
    using a by (simp add: object_range_def unat_sub word_le_nat_alt)
  ultimately show ?thesis by (simp add: bus_locate_def)
qed

text \<open>No call throws when the ranges are pairwise disjoint.\<close>

definition ranges_disjoint :: "uptr byte_bus \<Rightarrow> uptr \<times> nat \<Rightarrow> uptr \<times> nat \<Rightarrow> bool" where
  "ranges_disjoint b m m' \<longleftrightarrow>
     unat (fst m) + byte_bus_map_size (bus_objects b ! snd m) \<le> unat (fst m') \<or>
     unat (fst m') + byte_bus_map_size (bus_objects b ! snd m') \<le> unat (fst m)"

lemma ranges_disjoint_cong: "bus_objects b' = bus_objects b \<Longrightarrow> ranges_disjoint b' = ranges_disjoint b"
  by (simp add: ranges_disjoint_def fun_eq_iff)

lemma bus_map_all_total:
  assumes "bus_fresh D b" and "\<forall>m\<in>set ms. mappable b m" and "sorted_wrt (ranges_disjoint b) ms"
    and "\<forall>m\<in>set ms. \<forall>n. object_range b (fst m) (snd m) n \<longrightarrow> \<not> mapped (bus_page b n)"
  shows "\<exists>b'. bus_map_all ms b = Inr b'"
  using assms
proof (induction ms arbitrary: b)
  case Nil
  then show ?case by simp
next
  case (Cons m ms)
  obtain address object where m: "m = (address, object)" by fastforce
  have ok: "0 < byte_bus_map_size (bus_objects b ! object)"
    "unat address + byte_bus_map_size (bus_objects b ! object) \<le> 2 ^ 32"
    using Cons.prems(2) by (simp_all add: m mappable_def)
  have free: "\<not> (\<exists>n. object_range b address object n \<and> mapped (bus_page b n))"
    using Cons.prems(4) by (simp add: m)
  obtain b1 where b1: "bus_map address object b = Inr b1" "bus_fresh D b1" "bus_objects b1 = bus_objects b"
    "\<And>n. n < 2 ^ 32 \<Longrightarrow> bus_page b1 n =
       (if object_range b address object n then \<lparr>base_address = address, page_object = Some object\<rparr>
        else bus_page b n)"
    using bus_map_spec[OF Cons.prems(1) ok] unfolding if_not_P[OF free] by auto
  have "\<exists>b'. bus_map_all ms b1 = Inr b'"
  proof (rule Cons.IH[OF b1(2)])
    show "\<forall>m\<in>set ms. mappable b1 m" using Cons.prems(2) mappable_cong(1)[OF b1(3)] by simp
    show "sorted_wrt (ranges_disjoint b1) ms"
      using Cons.prems(3) ranges_disjoint_cong[OF b1(3)] by simp
    show "\<forall>m'\<in>set ms. \<forall>n. object_range b1 (fst m') (snd m') n \<longrightarrow> \<not> mapped (bus_page b1 n)"
    proof (intro ballI allI impI)
      fix m' n assume m': "m' \<in> set ms" and n: "object_range b1 (fst m') (snd m') n"
      have r: "object_range b (fst m') (snd m') n" using n mappable_cong(2)[OF b1(3)] by simp
      have "unat (fst m') + byte_bus_map_size (bus_objects b ! snd m') \<le> 2 ^ 32"
        using Cons.prems(2) m' by (auto simp: mappable_def)
      then have n32: "n < 2 ^ 32" using r by (simp add: object_range_def)
      have "ranges_disjoint b m m'" using Cons.prems(3) m' by simp
      then have "\<not> object_range b address object n"
        using r by (auto simp: ranges_disjoint_def object_range_def m)
      then show "\<not> mapped (bus_page b1 n)" using b1(4)[OF n32] Cons.prems(4) m' r by simp
    qed
  qed
  then show ?case using b1(1) by (simp add: m)
qed

lemma bus_build_total:
  assumes "D \<le> 32" and "\<forall>m\<in>set ms. mappable (ByteBus_new D objs) m"
    and "sorted_wrt (ranges_disjoint (ByteBus_new D objs)) ms"
  shows "\<exists>b. bus_build ms (ByteBus_new D objs) = Inr b"
proof -
  have "\<exists>b'. bus_map_all ms (ByteBus_new D objs) = Inr b'"
  proof (rule bus_map_all_total[OF bus_fresh_new[OF assms(1)] assms(2,3)], intro ballI allI impI)
    fix m n
    assume "m \<in> set ms" "object_range (ByteBus_new D objs) (fst m) (snd m) n"
    then have "n < 2 ^ 32" using assms(2) by (fastforce simp: mappable_def object_range_def)
    then show "\<not> mapped (bus_page (ByteBus_new D objs) n)" using bus_page_new[OF assms(1)] by simp
  qed
  then show ?thesis by (auto simp: bus_build_def)
qed

section \<open>Reads and writes of memory\<close>

text \<open>
  What an access width promises of memory objects: reads do not change them, a write leaves
  size and protection alone, a read returns what was written and disjoint bytes are kept.
\<close>

locale memory_access =
  fixes rd :: "nat \<Rightarrow> bus_object \<Rightarrow> ('v \<times> bus_object) res"
    and wr :: "nat \<Rightarrow> 'v \<Rightarrow> bus_object \<Rightarrow> bus_object res"
    and width :: nat
  assumes read_pure: "rd off (Memory_obj m) = Inr (v, obj) \<Longrightarrow> obj = Memory_obj m"
    and write_memory: "wr off v (Memory_obj m) = Inr obj \<Longrightarrow>
      \<exists>m'. obj = Memory_obj m' \<and> mem_size m' = mem_size m \<and> mem_read_only m' = mem_read_only m"
    and read_written: "wr off v (Memory_obj m) = Inr obj \<Longrightarrow> \<not> mem_read_only m \<Longrightarrow>
      rd off obj = Inr (v, obj)"
    and read_disjoint: "wr off v (Memory_obj m) = Inr (Memory_obj m') \<Longrightarrow>
      off' + width \<le> off \<or> off + width \<le> off' \<Longrightarrow>
      map_sum id fst (rd off' (Memory_obj m')) = map_sum id fst (rd off' (Memory_obj m))"
begin

lemma bus_locate_objects:
  "length objs = length (bus_objects b) \<Longrightarrow> bus_locate a (b\<lparr>bus_objects := objs\<rparr>) = bus_locate a b"
  by (simp add: bus_locate_def get_page_def get_vdn_def Let_def split: option.split)

lemma bus_read_written:
  assumes w: "bus_write_with (\<lambda>off. wr off v) a b = Inr b'"
    and l: "bus_locate a b = Inr (i, off)" and m: "bus_objects b ! i = Memory_obj m" "\<not> mem_read_only m"
    and i: "i < length (bus_objects b)"
  shows "bus_read_with rd a b' = Inr (v, b')"
proof -
  obtain obj where o: "wr off v (Memory_obj m) = Inr obj"
    "b' = b\<lparr>bus_objects := (bus_objects b)[i := obj]\<rparr>"
    using w l m(1) by (auto simp: bus_write_with_def)
  have "bus_locate a b' = Inr (i, off)" using l by (simp add: o(2) bus_locate_objects)
  then show ?thesis
    using i read_written[OF o(1) m(2)] by (simp add: bus_read_with_def o(2))
qed

lemma bus_read_disjoint:
  assumes w: "bus_write_with (\<lambda>off. wr off v) a b = Inr b'"
    and l: "bus_locate a b = Inr (i, off)" and l': "bus_locate a' b = Inr (j, off')"
    and m: "bus_objects b ! i = Memory_obj m" and i: "i < length (bus_objects b)"
    and d: "j \<noteq> i \<or> off' + width \<le> off \<or> off + width \<le> off'"
  shows "map_sum id fst (bus_read_with rd a' b') = map_sum id fst (bus_read_with rd a' b)"
proof -
  obtain obj where o: "wr off v (Memory_obj m) = Inr obj"
    "b' = b\<lparr>bus_objects := (bus_objects b)[i := obj]\<rparr>"
    using w l m(1) by (auto simp: bus_write_with_def)
  obtain m' where m': "obj = Memory_obj m'" using write_memory[OF o(1)] by blast
  have l'': "bus_locate a' b' = Inr (j, off')" using l' by (simp add: o(2) bus_locate_objects)
  have f: "map_sum id fst (bus_read_with rd a' c) = map_sum id fst (rd off' (bus_objects c ! j))"
    if "bus_locate a' c = Inr (j, off')" for c :: "'a word byte_bus"
    using that by (cases "rd off' (bus_objects c ! j)") (auto simp: bus_read_with_def)
  show ?thesis
  proof (cases "j = i")
    case True
    then show ?thesis
      using read_disjoint[OF o(1)[unfolded m'], of off'] d i m
      by (simp add: f[OF l''] f[OF l']) (simp add: o(2) m')
  next
    case False
    then show ?thesis by (simp add: f[OF l''] f[OF l']) (simp add: o(2))
  qed
qed

end

lemma mem_read_same_obj:
  "map_sum id fst (same_obj obj r) = r"
  by (cases r) (simp_all add: same_obj_def)

lemma same_obj_Inr: "same_obj obj r = Inr (v, x) \<longleftrightarrow> r = Inr v \<and> x = obj"
  by (cases r) (auto simp: same_obj_def)

lemma wrap_obj_Inr: "wrap_obj c r = Inr x \<longleftrightarrow> (\<exists>y. r = Inr y \<and> x = c y)"
  by (cases r) (auto simp: wrap_obj_def)

lemmas access_simps = same_obj_Inr wrap_obj_Inr mem_read_same_obj mem_defs

interpretation access_ubyte: memory_access byte_bus_read_ubyte byte_bus_write_ubyte 1
  by unfold_locales
    (auto simp: access_simps mem_write_size mem_write_read_only mem_read_write_same mem_read_write_other)

interpretation access_uhword: memory_access byte_bus_read_uhword byte_bus_write_uhword 2
  by unfold_locales
    (auto simp: access_simps mem_write_size mem_write_read_only mem_read_write_same mem_read_write_other)

interpretation access_uword: memory_access byte_bus_read_uword byte_bus_write_uword 4
  by unfold_locales
    (auto simp: access_simps mem_write_size mem_write_read_only mem_read_write_same mem_read_write_other)

interpretation access_udword: memory_access byte_bus_read_udword byte_bus_write_udword 8
  by unfold_locales
    (auto simp: access_simps mem_write_size mem_write_read_only mem_read_write_same mem_read_write_other)

interpretation access_uqword: memory_access byte_bus_read_uqword byte_bus_write_uqword 16
  by unfold_locales
    (auto simp: access_simps mem_write_size mem_write_read_only mem_read_write_same mem_read_write_other)

section \<open>Every width is bytes\<close>

text \<open>
  What a read of \<open>n\<close> bytes at offset \<open>off\<close> of object \<open>i\<close> should give: a value whose lanes are what
  byte reads of the same places give, on an unchanged bus.  And a write: a bus on which a byte
  read gives the lane of the value at the places written, and what it gave before anywhere else.
\<close>

definition bytes_read ::
    "nat \<Rightarrow> nat \<Rightarrow> nat \<Rightarrow> 'a::len word byte_bus \<Rightarrow> ('v::len word \<times> 'a word byte_bus) res \<Rightarrow> bool" where
  "bytes_read n i off b r \<longleftrightarrow>
     (\<exists>v. r = Inr (v, b) \<and>
       (\<forall>a k. k < n \<and> bus_locate a b = Inr (i, off + k) \<longrightarrow> bus_read_ubyte a b = Inr (get_lane k v, b)))"

definition bytes_written ::
    "nat \<Rightarrow> nat \<Rightarrow> nat \<Rightarrow> 'v::len word \<Rightarrow> 'a::len word byte_bus \<Rightarrow> 'a word byte_bus res \<Rightarrow> bool" where
  "bytes_written n i off v b r \<longleftrightarrow>
     (\<exists>b'. r = Inr b' \<and>
       (\<forall>a j p. bus_locate a b = Inr (j, p) \<longrightarrow> map_sum id fst (bus_read_ubyte a b') =
          (if j = i \<and> off \<le> p \<and> p < off + n then Inr (get_lane (p - off) v)
           else map_sum id fst (bus_read_ubyte a b))))"

lemma bus_read_with_value:
  "bus_locate a b = Inr (j, p) \<Longrightarrow>
   map_sum id fst (bus_read_with rd a b) = map_sum id fst (rd p (bus_objects b ! j))"
  by (cases "rd p (bus_objects b ! j)") (auto simp: bus_read_with_def)

lemma read_ubyte_memory:
  "p < mem_size m \<Longrightarrow> mem_read_ubyte p m = Inr (mem_bytes m ! p)"
  by (simp add: mem_read_ubyte_def mem_read_def mem_access_def mem_size_def take_Suc_conv_app_nth
      Cons_nth_drop_Suc[symmetric])

locale byte_access =
  fixes rd :: "nat \<Rightarrow> bus_object \<Rightarrow> ('w::len word \<times> bus_object) res"
    and wr :: "nat \<Rightarrow> 'w word \<Rightarrow> bus_object \<Rightarrow> bus_object res"
    and width :: nat
  assumes reads_bytes: "off + width \<le> mem_size m \<Longrightarrow>
      \<exists>v. rd off (Memory_obj m) = Inr (v, Memory_obj m) \<and> (\<forall>k<width. get_lane k v = mem_bytes m ! (off + k))"
    and writes_bytes: "off + width \<le> mem_size m \<Longrightarrow> \<not> mem_read_only m \<Longrightarrow>
      \<exists>m'. wr off v (Memory_obj m) = Inr (Memory_obj m') \<and> mem_size m' = mem_size m \<and>
        (\<forall>p<mem_size m. mem_bytes m' ! p =
          (if off \<le> p \<and> p < off + width then get_lane (p - off) v else mem_bytes m ! p))"
begin

lemma bus_bytes_read:
  assumes l: "bus_locate a b = Inr (i, off)" and m: "bus_objects b ! i = Memory_obj m"
    and n: "off + width \<le> mem_size m"
  shows "bytes_read width i off b (bus_read_with rd a b)"
proof -
  obtain v where v: "rd off (Memory_obj m) = Inr (v, Memory_obj m)"
    "\<forall>k<width. get_lane k v = mem_bytes m ! (off + k)"
    using reads_bytes[OF n] by blast
  have keep: "b\<lparr>bus_objects := (bus_objects b)[i := Memory_obj m]\<rparr> = b"
    using list_update_id[of "bus_objects b" i] m by simp
  have "bus_read_ubyte a' b = Inr (get_lane k v, b)" if "k < width" "bus_locate a' b = Inr (i, off + k)" for a' k
    using that n v(2) keep by (simp add: bus_read_ubyte_def bus_read_with_def m same_obj_def read_ubyte_memory)
  then show ?thesis
    using l v(1) keep by (auto simp: bytes_read_def bus_read_with_def m)
qed

lemma bus_bytes_written:
  assumes l: "bus_locate a b = Inr (i, off)" and i: "i < length (bus_objects b)"
    and m: "bus_objects b ! i = Memory_obj m" "\<not> mem_read_only m" and n: "off + width \<le> mem_size m"
  shows "bytes_written width i off v b (bus_write_with (\<lambda>off. wr off v) a b)"
proof -
  obtain m' where m': "wr off v (Memory_obj m) = Inr (Memory_obj m')" "mem_size m' = mem_size m"
    "\<forall>p<mem_size m. mem_bytes m' ! p =
      (if off \<le> p \<and> p < off + width then get_lane (p - off) v else mem_bytes m ! p)"
    using writes_bytes[OF n m(2)] by blast
  let ?b' = "b\<lparr>bus_objects := (bus_objects b)[i := Memory_obj m']\<rparr>"
  have w: "bus_write_with (\<lambda>off. wr off v) a b = Inr ?b'" using l m'(1) by (simp add: bus_write_with_def m)
  have "map_sum id fst (bus_read_ubyte a' ?b') =
      (if j = i \<and> off \<le> p \<and> p < off + width then Inr (get_lane (p - off) v)
       else map_sum id fst (bus_read_ubyte a' b))" if l': "bus_locate a' b = Inr (j, p)" for a' j p
  proof -
    have l'': "bus_locate a' ?b' = Inr (j, p)"
      using l' by (simp add: access_ubyte.bus_locate_objects)
    note f = bus_read_with_value[OF l'', of byte_bus_read_ubyte] bus_read_with_value[OF l', of byte_bus_read_ubyte]
    show ?thesis
    proof (cases "j = i")
      case True
      have "map_sum id fst (byte_bus_read_ubyte p (Memory_obj m')) =
          (if off \<le> p \<and> p < off + width then Inr (get_lane (p - off) v)
           else map_sum id fst (byte_bus_read_ubyte p (Memory_obj m)))"
      proof (cases "p < mem_size m")
        case True
        then show ?thesis using m'(2,3) by (simp add: same_obj_def read_ubyte_memory)
      next
        case False
        then show ?thesis using n m'(2) by (simp add: same_obj_def mem_read_ubyte_def mem_read_def mem_access_def)
      qed
      then show ?thesis using f i True by (simp add: bus_read_ubyte_def m)
    next
      case False
      then show ?thesis using f by (simp add: bus_read_ubyte_def)
    qed
  qed
  then show ?thesis unfolding bytes_written_def using w by blast
qed

end

lemma mem_read_bytes:
  assumes "off + n \<le> mem_size m" and "0 < n" and "8 * n = LENGTH('v::len)"
  shows "\<exists>v :: 'v word. mem_read n off m = Inr v \<and> (\<forall>k<n. get_lane k v = mem_bytes m ! (off + k))"
proof -
  let ?bs = "take n (drop off (mem_bytes m))"
  have l: "length ?bs = n" using assms(1) by (simp add: mem_size_def)
  have "split_bytes n (join_bytes ?bs :: 'v word) = ?bs"
    using split_join_bytes[of ?bs, where 'a='v] assms(3) l by simp
  then have "get_lane k (join_bytes ?bs :: 'v word) = mem_bytes m ! (off + k)" if "k < n" for k
    using that assms(1) by (metis (no_types, lifting) l mem_size_def nth_drop nth_take nth_lanes split_bytes_def
        add_leD1)
  then show ?thesis using assms by (auto simp: mem_read_def mem_access_def)
qed

lemma mem_write_bytes:
  assumes "off + n \<le> mem_size m" and "0 < n" and "\<not> mem_read_only m"
  shows "\<exists>m'. mem_write n off (v :: 'v::len word) m = Inr m' \<and> mem_size m' = mem_size m \<and>
    (\<forall>p<mem_size m. mem_bytes m' ! p =
      (if off \<le> p \<and> p < off + n then get_lane (p - off) v else mem_bytes m ! p))"
proof -
  obtain m' where m': "mem_write n off v m = Inr m'" using assms by (auto simp: mem_write_def)
  moreover have "split_bytes n v ! (p - off) = get_lane (p - off) v" if "off \<le> p" "p < off + n" for p
    using that by (simp add: split_bytes_def)
  ultimately show ?thesis
    using mem_write_size[OF m'] nth_mem_write[OF m' assms(3)] by auto
qed

lemma same_obj_bytes:
  "(\<exists>v. same_obj x r = Inr (v, x) \<and> P v) \<longleftrightarrow> (\<exists>v. r = Inr v \<and> P v)"
  by (auto simp: same_obj_Inr)

lemma wrap_obj_bytes:
  "(\<exists>m'. wrap_obj Memory_obj r = Inr (Memory_obj m') \<and> P m') \<longleftrightarrow> (\<exists>m'. r = Inr m' \<and> P m')"
  by (auto simp: wrap_obj_Inr)

lemmas byte_simps = same_obj_bytes wrap_obj_bytes mem_defs

interpretation bytes_ubyte: byte_access byte_bus_read_ubyte byte_bus_write_ubyte 1
  by unfold_locales
    (simp_all only: byte_bus_read_ubyte.simps byte_bus_write_ubyte.simps byte_simps,
      (rule mem_read_bytes mem_write_bytes; simp)+)

interpretation bytes_uhword: byte_access byte_bus_read_uhword byte_bus_write_uhword 2
  by unfold_locales
    (simp_all only: byte_bus_read_uhword.simps byte_bus_write_uhword.simps byte_simps,
      (rule mem_read_bytes mem_write_bytes; simp)+)

interpretation bytes_uword: byte_access byte_bus_read_uword byte_bus_write_uword 4
  by unfold_locales
    (simp_all only: byte_bus_read_uword.simps byte_bus_write_uword.simps byte_simps,
      (rule mem_read_bytes mem_write_bytes; simp)+)

interpretation bytes_udword: byte_access byte_bus_read_udword byte_bus_write_udword 8
  by unfold_locales
    (simp_all only: byte_bus_read_udword.simps byte_bus_write_udword.simps byte_simps,
      (rule mem_read_bytes mem_write_bytes; simp)+)

interpretation bytes_uqword: byte_access byte_bus_read_uqword byte_bus_write_uqword 16
  by unfold_locales
    (simp_all only: byte_bus_read_uqword.simps byte_bus_write_uqword.simps byte_simps,
      (rule mem_read_bytes mem_write_bytes; simp)+)

end
