(* ===== verification/EeCop0.thy ===== *)
theory EeCop0
  imports Registers Utilities
begin

text \<open>
  The system control coprocessor of the EE Core (\<open>Resources/Ee/Core/EeCoreCop0*.cpp\<close>) and
  the control registers of its FPU.  \<open>registers[n]\<close> of the code is the register of number
  \<open>n\<close>; the registers the code keeps outside that array have the numbers its comments give
  them (32 to 39).  Status, Cause, Compare and PRId override the plain word register: Status
  caches what its bits imply, Cause substitutes the interrupt lines into what is read,
  PRId ignores writes, Compare forwards a write to Cause.
\<close>

section \<open>Registers and fields\<close>

datatype operating_context = Kernel | Supervisor | User

abbreviation (input) C0_INDEX :: nat where "C0_INDEX \<equiv> 0"
abbreviation (input) C0_RANDOM :: nat where "C0_RANDOM \<equiv> 1"
abbreviation (input) C0_ENTRYLO0 :: nat where "C0_ENTRYLO0 \<equiv> 2"
abbreviation (input) C0_ENTRYLO1 :: nat where "C0_ENTRYLO1 \<equiv> 3"
abbreviation (input) C0_CONTEXT :: nat where "C0_CONTEXT \<equiv> 4"
abbreviation (input) C0_PAGEMASK :: nat where "C0_PAGEMASK \<equiv> 5"
abbreviation (input) C0_BADVADDR :: nat where "C0_BADVADDR \<equiv> 8"
abbreviation (input) C0_COUNT :: nat where "C0_COUNT \<equiv> 9"
abbreviation (input) C0_ENTRYHI :: nat where "C0_ENTRYHI \<equiv> 10"
abbreviation (input) C0_COMPARE :: nat where "C0_COMPARE \<equiv> 11"
abbreviation (input) C0_STATUS :: nat where "C0_STATUS \<equiv> 12"
abbreviation (input) C0_CAUSE :: nat where "C0_CAUSE \<equiv> 13"
abbreviation (input) C0_EPC :: nat where "C0_EPC \<equiv> 14"
abbreviation (input) C0_PRID :: nat where "C0_PRID \<equiv> 15"
abbreviation (input) C0_CONFIG :: nat where "C0_CONFIG \<equiv> 16"
abbreviation (input) C0_BPC :: nat where "C0_BPC \<equiv> 24"
abbreviation (input) C0_PCCR :: nat where "C0_PCCR \<equiv> 25"
abbreviation (input) C0_ERROREPC :: nat where "C0_ERROREPC \<equiv> 30"
abbreviation (input) C0_IAB :: nat where "C0_IAB \<equiv> 32"
abbreviation (input) C0_IABM :: nat where "C0_IABM \<equiv> 33"
abbreviation (input) C0_DAB :: nat where "C0_DAB \<equiv> 34"
abbreviation (input) C0_DABM :: nat where "C0_DABM \<equiv> 35"
abbreviation (input) C0_DVB :: nat where "C0_DVB \<equiv> 36"
abbreviation (input) C0_DVBM :: nat where "C0_DVBM \<equiv> 37"
abbreviation (input) C0_PCR0 :: nat where "C0_PCR0 \<equiv> 38"

definition STATUS_IE :: bitfield where [word_defs]: "STATUS_IE = BF 0 1"
definition STATUS_EXL :: bitfield where [word_defs]: "STATUS_EXL = BF 1 1"
definition STATUS_ERL :: bitfield where [word_defs]: "STATUS_ERL = BF 2 1"
definition STATUS_KSU :: bitfield where [word_defs]: "STATUS_KSU = BF 3 2"
definition STATUS_IM :: bitfield where [word_defs]: "STATUS_IM = BF 8 8"
definition STATUS_EIE :: bitfield where [word_defs]: "STATUS_EIE = BF 16 1"
definition STATUS_EDI :: bitfield where [word_defs]: "STATUS_EDI = BF 17 1"
definition STATUS_BEV :: bitfield where [word_defs]: "STATUS_BEV = BF 22 1"
definition STATUS_DEV :: bitfield where [word_defs]: "STATUS_DEV = BF 23 1"
definition STATUS_CU :: bitfield where [word_defs]: "STATUS_CU = BF 28 4"

definition CAUSE_EXCCODE :: bitfield where [word_defs]: "CAUSE_EXCCODE = BF 2 5"
definition CAUSE_IP :: bitfield where [word_defs]: "CAUSE_IP = BF 8 8"
definition CAUSE_EXC2 :: bitfield where [word_defs]: "CAUSE_EXC2 = BF 16 3"
definition CAUSE_CE :: bitfield where [word_defs]: "CAUSE_CE = BF 28 2"
definition CAUSE_BD2 :: bitfield where [word_defs]: "CAUSE_BD2 = BF 30 1"
definition CAUSE_BD :: bitfield where [word_defs]: "CAUSE_BD = BF 31 1"

record ee_cop0 =
  c0_reg :: "nat \<Rightarrow> word_register"
  c0_interrupts_masked :: bool
  c0_operating_context :: operating_context
  c0_count_interrupts_enabled :: bool
  c0_irq_lines :: "bool list"

definition EeCoreCop0_new :: ee_cop0 where
  "EeCoreCop0_new =
     \<lparr>c0_reg = (\<lambda>n. if n = C0_RANDOM then SizedRegister_new 47 False
                    else if n = C0_STATUS then SizedRegister_new 0x00400004 False
                    else if n = C0_PRID then SizedRegister_new 0x00002E20 True
                    else if n = C0_CONFIG then SizedRegister_new 0x00000440 False
                    else SizedRegister_new 0 False),
      c0_interrupts_masked = True,
      c0_operating_context = Kernel,
      c0_count_interrupts_enabled = False,
      c0_irq_lines = replicate 8 False\<rparr>"

text \<open>The plain accesses of the base class.\<close>

definition c0_raw :: "nat \<Rightarrow> ee_cop0 \<Rightarrow> uword" where
  "c0_raw n c = w_read_uword (c0_reg c n)"

definition c0_raw_write :: "nat \<Rightarrow> uword \<Rightarrow> ee_cop0 \<Rightarrow> ee_cop0" where
  "c0_raw_write n v c = c\<lparr>c0_reg := (c0_reg c)(n := w_write_uword v (c0_reg c n))\<rparr>"

section \<open>Status\<close>

definition status_field :: "bitfield \<Rightarrow> ee_cop0 \<Rightarrow> uword" where
  "status_field f c = extract_from f (c0_raw C0_STATUS c)"

definition handle_interrupts_masked_update :: "ee_cop0 \<Rightarrow> ee_cop0" where
  "handle_interrupts_masked_update c =
     c\<lparr>c0_interrupts_masked :=
        \<not> (status_field STATUS_ERL c = 0 \<and> status_field STATUS_EXL c = 0 \<and>
            status_field STATUS_IE c > 0 \<and> status_field STATUS_EIE c > 0)\<rparr>"

definition handle_operating_context_update :: "ee_cop0 \<Rightarrow> ee_cop0 res" where
  "handle_operating_context_update c =
     (let KSU = status_field STATUS_KSU c;
          ERL = status_field STATUS_ERL c;
          EXL = status_field STATUS_EXL c
      in if KSU = 2 \<and> ERL = 0 \<and> EXL = 0 then Inr (c\<lparr>c0_operating_context := User\<rparr>)
         else if KSU = 0 \<or> ERL = 1 \<or> EXL = 1 then Inr (c\<lparr>c0_operating_context := Kernel\<rparr>)
         else if KSU = 1 \<and> ERL = 0 \<and> EXL = 0 then Inr (c\<lparr>c0_operating_context := Supervisor\<rparr>)
         else Inl Runtime_error)"

definition handle_count_interrupt_state_update :: "ee_cop0 \<Rightarrow> ee_cop0" where
  "handle_count_interrupt_state_update c =
     c\<lparr>c0_count_interrupts_enabled :=
        \<not> c0_interrupts_masked c \<and> c0_raw C0_STATUS c AND 0x8000 \<noteq> 0\<rparr>"

definition status_write_uword :: "uword \<Rightarrow> ee_cop0 \<Rightarrow> ee_cop0 res" where
  "status_write_uword v c =
     (let c1 = handle_interrupts_masked_update (c0_raw_write C0_STATUS v c)
      in bind_res (handle_operating_context_update c1)
           (\<lambda>c2. Inr (handle_count_interrupt_state_update c2)))"

definition status_insert_field :: "bitfield \<Rightarrow> uword \<Rightarrow> ee_cop0 \<Rightarrow> ee_cop0 res" where
  "status_insert_field f v c = status_write_uword (insert_into f (c0_raw C0_STATUS c) v) c"

section \<open>Cause, Compare and the other registers\<close>

definition cause_clear_all_irq :: "ee_cop0 \<Rightarrow> ee_cop0" where
  "cause_clear_all_irq c = c\<lparr>c0_irq_lines := map (\<lambda>line. False) (c0_irq_lines c)\<rparr>"

definition cause_set_irq_line :: "nat \<Rightarrow> ee_cop0 \<Rightarrow> ee_cop0 res" where
  "cause_set_irq_line irq c =
     (if irq < length (c0_irq_lines c)
      then Inr (c\<lparr>c0_irq_lines := (c0_irq_lines c)[irq := True]\<rparr>) else Inl Out_of_bounds)"

definition cause_clear_irq_line :: "nat \<Rightarrow> ee_cop0 \<Rightarrow> ee_cop0 res" where
  "cause_clear_irq_line irq c =
     (if irq < length (c0_irq_lines c)
      then Inr (c\<lparr>c0_irq_lines := (c0_irq_lines c)[irq := False]\<rparr>) else Inl Out_of_bounds)"

text \<open>The loop over the lines that builds the IP bits.\<close>

fun irq_bits :: "nat \<Rightarrow> bool list \<Rightarrow> uword" where
  "irq_bits i [] = 0"
| "irq_bits i (line # ls) = (if line then push_bit i 1 else 0) OR irq_bits (Suc i) ls"

definition cause_read_uword :: "ee_cop0 \<Rightarrow> uword \<times> ee_cop0" where
  "cause_read_uword c =
     (let v = insert_into CAUSE_IP (c0_raw C0_CAUSE c) (irq_bits 0 (c0_irq_lines c))
      in (v, c0_raw_write C0_CAUSE v c))"

definition cause_extract_field :: "bitfield \<Rightarrow> ee_cop0 \<Rightarrow> uword \<times> ee_cop0" where
  "cause_extract_field f c = (let (v, c') = cause_read_uword c in (extract_from f v, c'))"

definition cause_insert_field :: "bitfield \<Rightarrow> uword \<Rightarrow> ee_cop0 \<Rightarrow> ee_cop0" where
  "cause_insert_field f x c =
     (let (v, c') = cause_read_uword c in c0_raw_write C0_CAUSE (insert_into f v x) c')"

definition compare_write_uword :: "uword \<Rightarrow> ee_cop0 \<Rightarrow> ee_cop0 res" where
  "compare_write_uword v c = cause_clear_irq_line 8 c"

text \<open>The virtual \<open>read_uword\<close> and \<open>write_uword\<close> of register \<open>n\<close>.\<close>

definition cop0_read_uword :: "nat \<Rightarrow> ee_cop0 \<Rightarrow> uword \<times> ee_cop0" where
  "cop0_read_uword n c = (if n = C0_CAUSE then cause_read_uword c else (c0_raw n c, c))"

definition cop0_write_uword :: "nat \<Rightarrow> uword \<Rightarrow> ee_cop0 \<Rightarrow> ee_cop0 res" where
  "cop0_write_uword n v c =
     (if n = C0_STATUS then status_write_uword v c
      else if n = C0_COMPARE then compare_write_uword v c
      else Inr (c0_raw_write n v c))"

text \<open>\<open>insert_field\<close> of the registers that do not override reads or writes.\<close>

definition c0_insert_field :: "nat \<Rightarrow> bitfield \<Rightarrow> uword \<Rightarrow> ee_cop0 \<Rightarrow> ee_cop0" where
  "c0_insert_field n f v c = c0_raw_write n (insert_into f (c0_raw n c) v) c"

definition c0_extract_field :: "nat \<Rightarrow> bitfield \<Rightarrow> ee_cop0 \<Rightarrow> uword" where
  "c0_extract_field n f c = extract_from f (c0_raw n c)"

definition cop0_is_usable :: "ee_cop0 \<Rightarrow> bool" where
  "cop0_is_usable c =
     (if c0_operating_context c = Kernel then True
      else if status_field STATUS_CU c AND 0x1 > 0 then True
      else False)"

definition fpu_is_usable :: "ee_cop0 \<Rightarrow> bool" where
  "fpu_is_usable c = (if status_field STATUS_CU c AND 0x2 > 0 then True else False)"

section \<open>The cached Status state\<close>

text \<open>What the Status bits say, and the invariant that the cached fields agree with it.\<close>

definition status_masked :: "uword \<Rightarrow> bool" where
  "status_masked v \<longleftrightarrow> bit v 1 \<or> bit v 2 \<or> \<not> bit v 0 \<or> \<not> bit v 16"

definition status_context :: "uword \<Rightarrow> operating_context option" where
  "status_context v =
     (if bit v 1 \<or> bit v 2 then Some Kernel
      else if bit v 3 then if bit v 4 then None else Some Supervisor
      else if bit v 4 then Some User else Some Kernel)"

definition cop0_inv :: "ee_cop0 \<Rightarrow> bool" where
  "cop0_inv c \<longleftrightarrow>
     c0_interrupts_masked c = status_masked (c0_raw C0_STATUS c) \<and>
     status_context (c0_raw C0_STATUS c) = Some (c0_operating_context c) \<and>
     c0_count_interrupts_enabled c =
       (\<not> status_masked (c0_raw C0_STATUS c) \<and> bit (c0_raw C0_STATUS c) 15) \<and>
     length (c0_irq_lines c) = 8 \<and>
     (\<forall>n. reg_read_only (c0_reg c n) \<longleftrightarrow> n = C0_PRID)"

lemma extract_1_eq: "extract_from (BF n (Suc 0)) (v :: uword) = of_bool (bit v n)"
  by (simp add: extract_from_eq bit_iff_odd_drop_bit odd_iff_mod_2_eq_one take_bit_Suc
      mod2_eq_if)

lemma extract_2_eq:
  "extract_from (BF n 2) (v :: uword) = of_bool (bit v n) + 2 * of_bool (bit v (Suc n))"
proof (rule bit_word_eqI)
  fix k assume "k < LENGTH(32)"
  then show "bit (extract_from (BF n 2) v) k =
      bit (of_bool (bit v n) + 2 * of_bool (bit v (Suc n)) :: uword) k"
    by (cases "bit v n"; cases "bit v (Suc n)"; cases k rule: nat.exhaust)
      (auto simp: bit_extract_from bit_1_iff bit_numeral_rec less_Suc_eq numeral_2_eq_2 split: nat.splits)
qed

lemma c0_raw_write_same: "\<not> reg_read_only (c0_reg c n) \<Longrightarrow> c0_raw n (c0_raw_write n v c) = v"
  by (simp add: c0_raw_def c0_raw_write_def w_defs)

lemma c0_raw_write_other: "m \<noteq> n \<Longrightarrow> c0_raw m (c0_raw_write n v c) = c0_raw m c"
  by (simp add: c0_raw_def c0_raw_write_def)

lemma c0_raw_write_fields [simp, frame]:
  "c0_interrupts_masked (c0_raw_write n v c) = c0_interrupts_masked c"
  "c0_operating_context (c0_raw_write n v c) = c0_operating_context c"
  "c0_count_interrupts_enabled (c0_raw_write n v c) = c0_count_interrupts_enabled c"
  "c0_irq_lines (c0_raw_write n v c) = c0_irq_lines c"
  "reg_read_only (c0_reg (c0_raw_write n v c) m) = reg_read_only (c0_reg c m)"
  by (simp_all add: c0_raw_write_def w_defs)

lemma cop0_inv_init: "cop0_inv EeCoreCop0_new"
  by (simp add: cop0_inv_def EeCoreCop0_new_def c0_raw_def w_defs reg_read_def
      SizedRegister_new_def status_masked_def status_context_def bit_numeral_rec)

lemma status_write_spec:
  assumes "length (c0_irq_lines c) = 8" and "\<forall>n. reg_read_only (c0_reg c n) \<longleftrightarrow> n = C0_PRID"
  shows "status_write_uword v c =
    (case status_context v of None \<Rightarrow> Inl Runtime_error
     | Some ctx \<Rightarrow> Inr ((c0_raw_write C0_STATUS v c)
         \<lparr>c0_interrupts_masked := status_masked v, c0_operating_context := ctx,
          c0_count_interrupts_enabled := \<not> status_masked v \<and> bit v 15\<rparr>))"
proof -
  have r: "w_read_uword (w_write_uword v (c0_reg c C0_STATUS)) = v"
    using assms(2) by (simp add: w_defs)
  have b: "v AND 0x8000 \<noteq> 0 \<longleftrightarrow> bit v 15"
    using and_exp_eq_0[of v 15] by simp
  have k: "extract_from (BF 3 2) v = of_bool (bit v 3) + 2 * of_bool (bit v 4)"
    using extract_2_eq[of 3 v] by simp
  show ?thesis
    by (simp add: status_write_uword_def handle_interrupts_masked_update_def
        handle_operating_context_update_def handle_count_interrupt_state_update_def Let_def
        status_field_def c0_raw_def c0_raw_write_def r b k word_defs
        extract_1_eq status_context_def status_masked_def)
qed

lemma status_write_inv:
  assumes "cop0_inv c" and "status_write_uword v c = Inr c'"
  shows "cop0_inv c' \<and> c0_raw C0_STATUS c' = v"
proof -
  have a: "length (c0_irq_lines c) = 8" "\<forall>n. reg_read_only (c0_reg c n) \<longleftrightarrow> n = C0_PRID"
    using assms(1) by (simp_all add: cop0_inv_def)
  have s: "c0_raw C0_STATUS (c0_raw_write C0_STATUS v c) = v"
    using a(2) by (simp add: c0_raw_write_same)
  obtain ctx where ctx: "status_context v = Some ctx"
    using assms(2) status_write_spec[OF a, of v] by (cases "status_context v") auto
  then have c': "c' = (c0_raw_write C0_STATUS v c)
         \<lparr>c0_interrupts_masked := status_masked v, c0_operating_context := ctx,
          c0_count_interrupts_enabled := \<not> status_masked v \<and> bit v 15\<rparr>"
    using assms(2) status_write_spec[OF a, of v] by simp
  then have "c0_raw C0_STATUS c' = v" using s by (simp add: c0_raw_def)
  then show ?thesis using a ctx c' by (simp add: cop0_inv_def)
qed

lemma status_write_ok [intro]: "cop0_inv c \<Longrightarrow> ok_res cop0_inv (status_write_uword v c)"
  by (cases "status_write_uword v c") (auto dest: status_write_inv)

lemma status_insert_ok [intro]: "cop0_inv c \<Longrightarrow> ok_res cop0_inv (status_insert_field f v c)"
  by (auto simp: status_insert_field_def)

lemma cop0_inv_raw_write [intro]: "cop0_inv c \<Longrightarrow> n \<noteq> C0_STATUS \<Longrightarrow> cop0_inv (c0_raw_write n v c)"
  by (simp add: cop0_inv_def c0_raw_write_other)

lemma cop0_inv_insert [intro]: "cop0_inv c \<Longrightarrow> n \<noteq> C0_STATUS \<Longrightarrow> cop0_inv (c0_insert_field n f v c)"
  by (auto simp: c0_insert_field_def)

lemma cop0_inv_irq [intro]:
  assumes "cop0_inv c"
  shows "cop0_inv (cause_clear_all_irq c)" "ok_res cop0_inv (cause_set_irq_line i c)"
    "ok_res cop0_inv (cause_clear_irq_line i c)"
  using assms
  by (simp_all add: cop0_inv_def cause_clear_all_irq_def cause_set_irq_line_def
      cause_clear_irq_line_def c0_raw_def)

lemma cop0_inv_cause_read [intro]: "cop0_inv c \<Longrightarrow> cop0_inv (snd (cause_read_uword c))"
  by (auto simp: cause_read_uword_def Let_def)

lemma cop0_inv_cause [intro]:
  assumes "cop0_inv c"
  shows "cop0_inv (snd (cause_extract_field f c))" "cop0_inv (cause_insert_field f v c)"
  using cop0_inv_cause_read[OF assms]
  by (auto simp: cause_extract_field_def cause_insert_field_def split: prod.splits)

lemma cop0_inv_read [intro]: "cop0_inv c \<Longrightarrow> cop0_inv (snd (cop0_read_uword n c))"
  by (auto simp: cop0_read_uword_def)

lemma cop0_inv_write [intro]: "cop0_inv c \<Longrightarrow> ok_res cop0_inv (cop0_write_uword n v c)"
  by (auto simp: cop0_write_uword_def compare_write_uword_def)

text \<open>What the operations leave alone, and what a successful field write to Status does.\<close>

lemma cause_frame [simp, frame]:
  "n \<noteq> C0_CAUSE \<Longrightarrow> c0_raw n (snd (cause_read_uword c)) = c0_raw n c"
  "n \<noteq> C0_CAUSE \<Longrightarrow> c0_raw n (snd (cause_extract_field f c)) = c0_raw n c"
  "n \<noteq> C0_CAUSE \<Longrightarrow> c0_raw n (cause_insert_field f v c) = c0_raw n c"
  by (auto simp: cause_read_uword_def cause_extract_field_def cause_insert_field_def Let_def
      c0_raw_write_other split: prod.splits)

lemma cause_irq_lines [simp, frame]:
  "c0_irq_lines (snd (cause_read_uword c)) = c0_irq_lines c"
  "c0_irq_lines (snd (cause_extract_field f c)) = c0_irq_lines c"
  "c0_irq_lines (cause_insert_field f v c) = c0_irq_lines c"
  by (auto simp: cause_read_uword_def cause_extract_field_def cause_insert_field_def Let_def
      split: prod.splits)

lemma cause_cached [simp, frame]:
  "c0_operating_context (snd (cause_extract_field f c)) = c0_operating_context c"
  "c0_operating_context (cause_insert_field f v c) = c0_operating_context c"
  "c0_interrupts_masked (snd (cause_extract_field f c)) = c0_interrupts_masked c"
  "c0_interrupts_masked (cause_insert_field f v c) = c0_interrupts_masked c"
  by (auto simp: cause_read_uword_def cause_extract_field_def cause_insert_field_def Let_def
      split: prod.splits)

lemma status_field_frame [simp, frame]:
  "n \<noteq> C0_STATUS \<Longrightarrow> status_field f (c0_raw_write n v c) = status_field f c"
  "status_field f (cause_insert_field g v c) = status_field f c"
  "status_field f (snd (cause_extract_field g c)) = status_field f c"
  by (simp_all add: status_field_def c0_raw_write_other)

lemma c0_raw_write_get:
  "cop0_inv c \<Longrightarrow> c0_raw m (c0_raw_write n v c) = (if m = n \<and> n \<noteq> C0_PRID then v else c0_raw m c)"
  by (auto simp: cop0_inv_def c0_raw_write_same c0_raw_write_other c0_raw_def c0_raw_write_def w_defs)

lemma cause_insert_raw:
  assumes "cop0_inv c"
  shows "c0_raw C0_CAUSE (cause_insert_field f v c) = insert_into f (fst (cause_read_uword c)) v"
  using assms cop0_inv_cause_read[OF assms]
  by (auto simp: cause_insert_field_def c0_raw_write_get split: prod.splits)

lemma status_insert_spec:
  assumes inv: "cop0_inv c" and ctx: "status_context (insert_into f (c0_raw C0_STATUS c) v) = Some ctx"
  obtains c' where "status_insert_field f v c = Inr c'" "cop0_inv c'"
    "c0_raw C0_STATUS c' = insert_into f (c0_raw C0_STATUS c) v" "c0_operating_context c' = ctx"
    "\<And>n. n \<noteq> C0_STATUS \<Longrightarrow> c0_raw n c' = c0_raw n c" "c0_irq_lines c' = c0_irq_lines c"
proof -
  let ?v = "insert_into f (c0_raw C0_STATUS c) v"
  let ?c = "(c0_raw_write C0_STATUS ?v c)
         \<lparr>c0_interrupts_masked := status_masked ?v, c0_operating_context := ctx,
          c0_count_interrupts_enabled := \<not> status_masked ?v \<and> bit ?v 15\<rparr>"
  have e: "status_insert_field f v c = Inr ?c"
    using inv ctx by (simp add: status_insert_field_def cop0_inv_def status_write_spec)
  then have "cop0_inv ?c \<and> c0_raw C0_STATUS ?c = ?v"
    using status_write_inv[OF inv] by (simp add: status_insert_field_def)
  moreover have "c0_raw n ?c = c0_raw n c" if "n \<noteq> C0_STATUS" for n
    using c0_raw_write_other[OF that, of ?v c] by (simp add: c0_raw_def)
  ultimately show ?thesis using that[OF e] by simp
qed

text \<open>Compare can never be written: the line its write clears does not exist.\<close>

lemma compare_write_throws: "cop0_inv c \<Longrightarrow> cop0_write_uword C0_COMPARE v c = Inl Out_of_bounds"
  by (simp add: cop0_write_uword_def compare_write_uword_def cause_clear_irq_line_def cop0_inv_def)

text \<open>What a read of Cause shows: the interrupt lines in IP, the rest as stored.\<close>

lemma bit_irq_bits:
  "bit (irq_bits i ls) n \<longleftrightarrow> i \<le> n \<and> n < i + length ls \<and> n < 32 \<and> ls ! (n - i)"
proof (induction ls arbitrary: i)
  case (Cons l ls)
  then show ?case
    by (cases "n = i") (auto simp: bit_simps nth_Cons' bit_1_iff)
qed simp

lemma cause_read_bits:
  assumes "cop0_inv c"
  shows "bit (fst (cause_read_uword c)) n \<longleftrightarrow>
    (if 8 \<le> n \<and> n < 16 then c0_irq_lines c ! (n - 8) else bit (c0_raw C0_CAUSE c) n)"
  using assms
  by (auto simp: cause_read_uword_def Let_def bit_insert_into CAUSE_IP_def bit_irq_bits
      cop0_inv_def dest: bit_imp_le_length)

lemma cause_raw_ip_write:
  assumes "cop0_inv c"
  shows "c0_raw C0_CAUSE (snd (cause_read_uword c)) = fst (cause_read_uword c)"
  using assms by (simp add: cause_read_uword_def Let_def c0_raw_write_same cop0_inv_def)

section \<open>The FPU control registers\<close>

definition CSR_SU :: bitfield where [word_defs]: "CSR_SU = BF 3 1"
definition CSR_SO :: bitfield where [word_defs]: "CSR_SO = BF 4 1"
definition CSR_SD :: bitfield where [word_defs]: "CSR_SD = BF 5 1"
definition CSR_SI :: bitfield where [word_defs]: "CSR_SI = BF 6 1"
definition CSR_U :: bitfield where [word_defs]: "CSR_U = BF 14 1"
definition CSR_O :: bitfield where [word_defs]: "CSR_O = BF 15 1"
definition CSR_D :: bitfield where [word_defs]: "CSR_D = BF 16 1"
definition CSR_I :: bitfield where [word_defs]: "CSR_I = BF 17 1"
definition CSR_C :: bitfield where [word_defs]: "CSR_C = BF 23 1"

definition EeCoreFpuRegister_Irr_new :: word_register where
  "EeCoreFpuRegister_Irr_new = SizedRegister_new 0x00002E00 True"

definition set_u_flag_sticky :: "uword \<Rightarrow> word_register \<Rightarrow> word_register" where
  "set_u_flag_sticky v csr =
     (let su = w_extract_field CSR_SU csr
      in w_insert_field CSR_U v (w_insert_field CSR_SU (su OR v) csr))"

definition set_o_flag_sticky :: "uword \<Rightarrow> word_register \<Rightarrow> word_register" where
  "set_o_flag_sticky v csr =
     (let so = w_extract_field CSR_SO csr
      in w_insert_field CSR_O v (w_insert_field CSR_SO (so OR v) csr))"

definition set_d_flag_sticky :: "uword \<Rightarrow> word_register \<Rightarrow> word_register" where
  "set_d_flag_sticky v csr =
     (let sd = w_extract_field CSR_SD csr
      in w_insert_field CSR_D v (w_insert_field CSR_SD (sd OR v) csr))"

definition set_i_flag_sticky :: "uword \<Rightarrow> word_register \<Rightarrow> word_register" where
  "set_i_flag_sticky v csr =
     (let si = w_extract_field CSR_SI csr
      in w_insert_field CSR_I v (w_insert_field CSR_SI (si OR v) csr))"

definition fpu_update_result_flags :: "FpuFlags \<Rightarrow> word_register \<Rightarrow> word_register" where
  "fpu_update_result_flags flags csr =
     set_o_flag_sticky (if OF flags then 1 else 0)
       (set_u_flag_sticky (if UF flags then 1 else 0) csr)"

definition fpu_clear_flags :: "word_register \<Rightarrow> word_register" where
  "fpu_clear_flags csr =
     w_insert_field CSR_I 0 (w_insert_field CSR_D 0 (w_insert_field CSR_O 0 (w_insert_field CSR_U 0 csr)))"

lemmas csr_defs =
  set_u_flag_sticky_def set_o_flag_sticky_def set_d_flag_sticky_def set_i_flag_sticky_def
  fpu_update_result_flags_def fpu_clear_flags_def

text \<open>
  After an instruction: the result flags are those of this instruction, the sticky flags
  the old ones or the new ones, every other bit (the condition bit among them) as before.
\<close>

lemma fpu_update_result_flags_bits:
  assumes "\<not> reg_read_only csr"
  shows "bit (reg_val (fpu_update_result_flags fl csr)) n \<longleftrightarrow>
    (if n = 14 then UF fl else if n = 15 then OF fl
     else if n = 3 then bit (reg_val csr) 3 \<or> UF fl
     else if n = 4 then bit (reg_val csr) 4 \<or> OF fl
     else bit (reg_val csr) n)"
  using assms
  by (auto simp: csr_defs Let_def w_insert_field_val w_extract_field_def reg_extract_def
      w_read_uword_def reg_read_def bit_insert_into bit_extract_from word_defs bit_simps
      bit_1_iff dest: bit_imp_le_length)

lemma fpu_clear_flags_bits:
  assumes "\<not> reg_read_only csr"
  shows "bit (reg_val (fpu_clear_flags csr)) n \<longleftrightarrow> bit (reg_val csr) n \<and> n \<notin> {14, 15, 16, 17}"
  using assms
  by (auto simp: csr_defs w_insert_field_val bit_insert_into word_defs dest: bit_imp_le_length)

end
