(* ===== verification/EeTlb.thy ===== *)
theory EeTlb
  imports Bitfield
begin

text \<open>
  The TLB of the EE Core (\<open>Resources/Ee/Core/EeCoreTlb.*\<close>, \<open>EeCoreTlbEntry.hpp\<close>): the page
  mask with its derived masks, the entries, the match and the search in the order the
  code tries the slots.
\<close>

section \<open>Page masks\<close>

record tlb_mask =
  pagemask :: uword
  evenodd_mask :: uword
  vpn_mask :: uword

definition Mask_new :: "uword \<Rightarrow> tlb_mask res" where
  "Mask_new pm =
     bind_res
       (if pm AND 0xFFF = 0x0 then Inr (push_bit 12 1)
        else if pm AND 0xFFF = 0x3 then Inr (push_bit 14 1)
        else if pm AND 0xFFF = 0xF then Inr (push_bit 16 1)
        else if pm AND 0xFFF = 0x3F then Inr (push_bit 18 1)
        else if pm AND 0xFFF = 0xFF then Inr (push_bit 20 1)
        else if pm AND 0xFFF = 0x3FF then Inr (push_bit 22 1)
        else if pm AND 0xFFF = 0xFFF then Inr (push_bit 24 1)
        else Inl Runtime_error)
       (\<lambda>eo. Inr \<lparr>pagemask = pm, evenodd_mask = eo,
                 vpn_mask = 0xFE000000 OR push_bit 13 ((NOT pm) AND 0xFFF)\<rparr>)"

text \<open>The page sizes the masks stand for: a pair of pages of \<open>2 ^ n\<close> bytes each.\<close>

definition mask_shift :: "uword \<Rightarrow> nat option" where
  "mask_shift pm =
     (if pm AND 0xFFF = 0x0 then Some 12 else if pm AND 0xFFF = 0x3 then Some 14
      else if pm AND 0xFFF = 0xF then Some 16 else if pm AND 0xFFF = 0x3F then Some 18
      else if pm AND 0xFFF = 0xFF then Some 20 else if pm AND 0xFFF = 0x3FF then Some 22
      else if pm AND 0xFFF = 0xFFF then Some 24 else None)"

lemma mask_low_bits: "(NOT pm) AND 0xFFF = (0xFFF :: uword) XOR (pm AND 0xFFF)"
  by (rule bit_word_eqI) (auto simp: bit_simps)

lemma Mask_new_spec:
  "Mask_new pm =
     (case mask_shift pm of
        None \<Rightarrow> Inl Runtime_error
      | Some n \<Rightarrow> Inr \<lparr>pagemask = pm, evenodd_mask = 2 ^ n, vpn_mask = NOT (mask (Suc n))\<rparr>)"
  by (simp add: Mask_new_def mask_shift_def mask_low_bits push_bit_eq_mult mask_eq_exp_minus_1)

lemma Mask_new_vpn: "Mask_new pm = Inr m \<Longrightarrow> mask_shift pm = Some n \<Longrightarrow> vpn_mask m = NOT (mask (Suc n))"
  by (auto simp only: Mask_new_spec option.case sum.inject tlb_mask.simps)

section \<open>Entries\<close>

record tlb_physical_info =
  pi_pfn :: uword
  pi_c :: bool
  pi_d :: bool
  pi_v :: bool

record tlb_entry =
  te_mask :: tlb_mask
  te_vpn2 :: uword
  te_g :: bool
  te_asid :: ubyte
  te_s :: bool
  te_even :: tlb_physical_info
  te_odd :: tlb_physical_info

definition physical_info :: "tlb_entry \<Rightarrow> nat \<Rightarrow> tlb_physical_info" where
  "physical_info e i = (if i = 0 then te_even e else te_odd e)"

type_synonym ee_tlb = "tlb_entry list"

abbreviation (input) NUMBER_TLB_ENTRIES :: nat where "NUMBER_TLB_ENTRIES \<equiv> 48"

definition tlb_ok :: "ee_tlb \<Rightarrow> bool" where
  "tlb_ok t \<longleftrightarrow> length t = NUMBER_TLB_ENTRIES"

definition tlb_entry_at :: "nat \<Rightarrow> ee_tlb \<Rightarrow> tlb_entry res" where
  "tlb_entry_at i t = (if i < length t then Inr (t ! i) else Inl Out_of_bounds)"

definition set_tlb_entry_at :: "tlb_entry \<Rightarrow> nat \<Rightarrow> ee_tlb \<Rightarrow> ee_tlb res" where
  "set_tlb_entry_at e i t = (if i < length t then Inr (t[i := e]) else Inl Out_of_bounds)"

definition generate_new_tlb_index :: nat where
  "generate_new_tlb_index = 47"

definition entry_match :: "uptr \<Rightarrow> tlb_entry \<Rightarrow> bool" where
  "entry_match va e \<longleftrightarrow>
     te_s e \<and> drop_bit 14 va = drop_bit 1 (te_vpn2 e) \<or>
     drop_bit 13 (va AND vpn_mask (te_mask e)) = te_vpn2 e"

definition is_match :: "ee_tlb \<Rightarrow> uptr \<Rightarrow> nat \<Rightarrow> bool" where
  "is_match t va i = entry_match va (t ! i)"

text \<open>The loop \<open>for (i = a; i < b; i++) if (is_match(va, i)) return i;\<close>.\<close>

fun tlb_scan :: "ee_tlb \<Rightarrow> uptr \<Rightarrow> nat list \<Rightarrow> nat option" where
  "tlb_scan t va [] = None"
| "tlb_scan t va (i # is) = (if is_match t va i then Some i else tlb_scan t va is)"

definition find_tlb_entry_index :: "uptr \<Rightarrow> ee_tlb \<Rightarrow> int" where
  "find_tlb_entry_index va t =
     (if is_match t va 0 then 0
      else case tlb_scan t va [13..<31] of Some i \<Rightarrow> int i
      | None \<Rightarrow> (case tlb_scan t va [1..<13] of Some i \<Rightarrow> int i
      | None \<Rightarrow> (case tlb_scan t va [31..<38] of Some i \<Rightarrow> int i
      | None \<Rightarrow> (case tlb_scan t va [38..<47] of Some i \<Rightarrow> int i
      | None \<Rightarrow> -1))))"

section \<open>The search\<close>

lemma tlb_scan_Some: "tlb_scan t va is = Some i \<Longrightarrow> i \<in> set is \<and> is_match t va i"
  by (induction "is") (auto split: if_splits)

lemma tlb_scan_None: "tlb_scan t va is = None \<longleftrightarrow> (\<forall>i\<in>set is. \<not> is_match t va i)"
  by (induction "is") auto

lemma tlb_scan_append:
  "tlb_scan t va (is @ js) = (case tlb_scan t va is of Some i \<Rightarrow> Some i | None \<Rightarrow> tlb_scan t va js)"
  by (induction "is") auto

definition search_order :: "nat list" where
  "search_order = 0 # [13..<31] @ [1..<13] @ [31..<38] @ [38..<47]"

lemma set_search_order: "set search_order = {0..<47}"
  by (simp only: search_order_def set_append list.set set_upt) (auto simp: ivl_disj_un)

lemma find_tlb_entry_index_scan:
  "find_tlb_entry_index va t =
     (case tlb_scan t va search_order of Some i \<Rightarrow> int i | None \<Rightarrow> -1)"
  by (simp add: find_tlb_entry_index_def search_order_def tlb_scan_append split: option.split)

lemma find_tlb_hit:
  assumes "find_tlb_entry_index va t \<noteq> -1"
  shows "0 \<le> find_tlb_entry_index va t" "find_tlb_entry_index va t < 47"
    "is_match t va (nat (find_tlb_entry_index va t))"
  using assms tlb_scan_Some[of t va search_order] set_search_order
  by (auto simp: find_tlb_entry_index_scan split: option.splits)

lemma find_tlb_miss:
  "find_tlb_entry_index va t = -1 \<longleftrightarrow> (\<forall>i<47. \<not> is_match t va i)"
  using tlb_scan_None[of t va search_order] set_search_order
  by (auto simp: find_tlb_entry_index_scan split: option.splits)

lemma find_tlb_set_unsearched:
  assumes "tlb_ok t" and "set_tlb_entry_at e generate_new_tlb_index t = Inr t'"
  shows "find_tlb_entry_index va t' = find_tlb_entry_index va t"
proof -
  have t': "t' = t[47 := e]"
    using assms by (auto simp: set_tlb_entry_at_def generate_new_tlb_index_def tlb_ok_def)
  have "tlb_scan t' va is = tlb_scan t va is" if "set is \<subseteq> {0..<47}" for "is"
    using that by (induction "is") (auto simp: t' is_match_def)
  from this[of search_order] show ?thesis
    by (simp add: find_tlb_entry_index_scan set_search_order)
qed

lemma set_tlb_entry_ok: "tlb_ok t \<Longrightarrow> ok_res tlb_ok (set_tlb_entry_at e i t)"
  by (simp add: set_tlb_entry_at_def tlb_ok_def)

lemma tlb_entry_at_set:
  "set_tlb_entry_at e i t = Inr t' \<Longrightarrow> tlb_entry_at i t' = Inr e"
  by (auto simp: set_tlb_entry_at_def tlb_entry_at_def split: if_splits)

text \<open>A matching entry of a page pair: the address agrees with VPN2 above the pair.\<close>

lemma entry_match_iff:
  assumes "Mask_new pm = Inr (te_mask e)" and "mask_shift pm = Some n" and "\<not> te_s e"
  shows "entry_match va e \<longleftrightarrow>
    push_bit 13 (te_vpn2 e) = va AND NOT (mask (Suc n)) \<and> te_vpn2 e = take_bit 19 (te_vpn2 e)"
proof -
  have m: "vpn_mask (te_mask e) = NOT (mask (Suc n))"
    using assms(1,2) Mask_new_vpn by blast
  have n: "n \<ge> 12" using assms(2) by (auto simp: mask_shift_def split: if_splits)
  have "drop_bit 13 (va AND NOT (mask (Suc n))) = te_vpn2 e \<longleftrightarrow>
    push_bit 13 (te_vpn2 e) = va AND NOT (mask (Suc n)) \<and> te_vpn2 e = take_bit 19 (te_vpn2 e)"
    (is "?l \<longleftrightarrow> ?r")
  proof
    assume ?l
    then have v: "te_vpn2 e = drop_bit 13 (va AND NOT (mask (Suc n)))" by simp
    show ?r
    proof
      show "push_bit 13 (te_vpn2 e) = va AND NOT (mask (Suc n))"
        using n by (intro bit_word_eqI) (auto simp: v bit_simps)
      show "te_vpn2 e = take_bit 19 (te_vpn2 e)"
        by (intro bit_word_eqI) (auto simp: v bit_simps dest: bit_imp_le_length)
    qed
  next
    assume r: ?r
    show ?l
    proof (rule bit_word_eqI)
      fix k assume "k < LENGTH(32)"
      have "bit (drop_bit 13 (va AND NOT (mask (Suc n)))) k =
          bit (push_bit 13 (te_vpn2 e)) (13 + k)"
        using r by (simp add: bit_simps)
      also have "\<dots> = bit (take_bit 19 (te_vpn2 e)) k" by (auto simp: bit_simps)
      also have "\<dots> = bit (te_vpn2 e) k" using r by simp
      finally show "bit (drop_bit 13 (va AND NOT (mask (Suc n)))) k = bit (te_vpn2 e) k" .
    qed
  qed
  then show ?thesis using assms(3) m by (simp add: entry_match_def)
qed

end
