(* ===== verification/Caches.thy ===== *)
theory Caches
  imports Prelude
begin

text \<open>
  \<open>utilities/src/Caches.hpp\<close>: the fixed-size key/value caches, each an array of entries of
  which the first \<open>current_cache_size\<close> are in use, and the interface \<open>lookup_cache\<close> the
  translation cache relies on.  The access counter and the timestamps are 64-bit \<open>size_t\<close>
  values that wrap around; the number of entries in use is bounded by the array and a natural
  number.
\<close>

section \<open>Searching an array\<close>

text \<open>\<open>std::find_if\<close> as the position found, the length of the range if there is none.\<close>

definition find_if :: "('a \<Rightarrow> bool) \<Rightarrow> 'a list \<Rightarrow> nat" where
  "find_if P xs = length (takeWhile (\<lambda>x. \<not> P x) xs)"

text \<open>\<open>std::min_element\<close>: the position of the first least element.\<close>

fun min_element :: "('a \<Rightarrow> 'b::linorder) \<Rightarrow> 'a list \<Rightarrow> nat" where
  "min_element f [] = 0"
| "min_element f (x # xs) =
     (if xs = [] then 0
      else let j = min_element f xs in if f (xs ! j) < f x then Suc j else 0)"

lemma find_if_le: "find_if P xs \<le> length xs"
  by (simp add: find_if_def length_takeWhile_le)

lemma find_if_found: "find_if P xs < length xs \<Longrightarrow> P (xs ! find_if P xs)"
  unfolding find_if_def using nth_length_takeWhile[of "\<lambda>x. \<not> P x" xs] by simp

lemma find_if_none: "find_if P xs = length xs \<longleftrightarrow> (\<forall>x \<in> set xs. \<not> P x)"
proof
  assume "find_if P xs = length xs"
  then have "takeWhile (\<lambda>x. \<not> P x) xs = xs"
    by (metis find_if_def takeWhile_eq_take take_all_iff order_refl)
  then show "\<forall>x \<in> set xs. \<not> P x" by (metis set_takeWhileD)
next
  assume "\<forall>x \<in> set xs. \<not> P x"
  then show "find_if P xs = length xs" by (simp add: find_if_def takeWhile_eq_all_conv [THEN iffD2])
qed

lemma min_element_less: "xs \<noteq> [] \<Longrightarrow> min_element f xs < length xs"
  by (induction xs) (auto simp: Let_def)

lemma min_element_min:
  "xs \<noteq> [] \<Longrightarrow> x \<in> set xs \<Longrightarrow> f (xs ! min_element f xs) \<le> f x"
proof (induction xs)
  case (Cons y ys)
  then show ?case by (cases "ys = []") (fastforce simp: Let_def)+
qed simp

section \<open>Entries as a map\<close>

type_synonym ucount = "64 word"

type_synonym ('k, 'v) entry = "'k \<times> 'v \<times> ucount"

definition keys_of :: "('k, 'v) entry list \<Rightarrow> 'k list" where
  "keys_of es = map fst es"

definition view_of :: "('k, 'v) entry list \<Rightarrow> ('k \<rightharpoonup> 'v)" where
  "view_of es = map_of (map (\<lambda>e. (fst e, fst (snd e))) es)"

lemma view_of_Some:
  assumes "distinct (keys_of es)"
  shows "view_of es k = Some v \<longleftrightarrow> (\<exists>n. (k, v, n) \<in> set es)"
proof -
  have "distinct (map fst (map (\<lambda>e. (fst e, fst (snd e))) es))"
    using assms by (simp add: keys_of_def comp_def)
  then have "view_of es k = Some v \<longleftrightarrow> (k, v) \<in> (\<lambda>e. (fst e, fst (snd e))) ` set es"
    unfolding view_of_def by (subst map_of_eq_Some_iff) simp_all
  then show ?thesis by force
qed

lemma view_of_None: "view_of es k = None \<longleftrightarrow> k \<notin> set (keys_of es)"
  by (simp add: view_of_def keys_of_def map_of_eq_None_iff image_image)

lemma option_eqI: "(\<And>y. a = Some y \<longleftrightarrow> b = Some y) \<Longrightarrow> a = b"
  by (cases a; cases b) auto

lemma view_of_nth:
  "distinct (keys_of es) \<Longrightarrow> i < length es \<Longrightarrow> view_of es (fst (es ! i)) = Some (fst (snd (es ! i)))"
  by (auto simp: view_of_Some) (metis nth_mem prod.collapse)

text \<open>Updating the counter of an entry does not change the map.\<close>

lemma keys_of_touch: "i < length es \<Longrightarrow> keys_of (es[i := (fst (es ! i), v, n)]) = keys_of es"
  by (simp add: keys_of_def map_update) (metis length_map list_update_id nth_map)

lemma view_of_touch:
  assumes "i < length es"
  shows "view_of (es[i := (fst (es ! i), fst (snd (es ! i)), n)]) = view_of es"
proof -
  let ?g = "\<lambda>e. (fst e, fst (snd e))"
  have "map ?g (es[i := (fst (es ! i), fst (snd (es ! i)), n)]) = map ?g es"
    using assms by (simp add: map_update case_prod_beta list_update_same_conv)
  then show ?thesis by (simp add: view_of_def)
qed

text \<open>Overwriting an entry with a new key forgets the old one and nothing else.\<close>

lemma keys_of_replace:
  "distinct (keys_of es) \<Longrightarrow> k \<notin> set (keys_of es) \<Longrightarrow> distinct (keys_of (es[i := (k, v, n)]))"
  by (cases "i < length es") (auto simp: keys_of_def map_update distinct_list_update)

lemma view_of_replace:
  assumes "distinct (keys_of es)" and "k \<notin> set (keys_of es)" and "i < length es"
  shows "view_of (es[i := (k, v, n)]) = (view_of es)(fst (es ! i) := None, k \<mapsto> v)"
proof
  fix x
  let ?es = "es[i := (k, v, n)]"
  have d: "distinct (keys_of ?es)" by (rule keys_of_replace[OF assms(1,2)])
  have ki: "fst (es ! i) \<in> set (keys_of es)" using assms(3) by (simp add: keys_of_def)
  show "view_of ?es x = ((view_of es)(fst (es ! i) := None, k \<mapsto> v)) x"
  proof (cases "x = k")
    case True
    have "?es ! i = (k, v, n)" using assms(3) by simp
    then show ?thesis using view_of_nth[OF d, of i] assms(3) True by simp
  next
    case False
    have "(x, y, m) \<in> set ?es \<longleftrightarrow> x \<noteq> fst (es ! i) \<and> (x, y, m) \<in> set es" for y m
    proof -
      have "(x, y, m) \<in> set ?es \<longleftrightarrow> (\<exists>j < length es. j \<noteq> i \<and> es ! j = (x, y, m))"
        using False assms(3) by (auto simp: in_set_conv_nth nth_list_update)
      also have "\<dots> \<longleftrightarrow> x \<noteq> fst (es ! i) \<and> (x, y, m) \<in> set es"
      proof
        assume "\<exists>j < length es. j \<noteq> i \<and> es ! j = (x, y, m)"
        then obtain j where j: "j < length es" "j \<noteq> i" "es ! j = (x, y, m)" by blast
        have "keys_of es ! j \<noteq> keys_of es ! i"
          using assms(1,3) j(1,2) by (simp add: nth_eq_iff_index_eq keys_of_def del: nth_map)
        then show "x \<noteq> fst (es ! i) \<and> (x, y, m) \<in> set es"
          using j assms(3) by (auto simp: keys_of_def in_set_conv_nth)
      qed (auto simp: in_set_conv_nth)
      finally show ?thesis .
    qed
    then have "view_of ?es x = Some y \<longleftrightarrow> x \<noteq> fst (es ! i) \<and> view_of es x = Some y" for y
      using view_of_Some[OF d] view_of_Some[OF assms(1)] by simp
    then have "view_of ?es x = (if x = fst (es ! i) then None else view_of es x)"
      by (intro option_eqI) simp
    then show ?thesis using False by simp
  qed
qed

lemma view_of_snoc:
  "k \<notin> set (keys_of es) \<Longrightarrow> view_of (es @ [(k, v, n)]) = (view_of es)(k \<mapsto> v)"
  using view_of_None[of es k]
  by (intro ext) (auto simp: view_of_def map_add_def split: option.splits)

lemma view_of_cons: "view_of ((k, v, n) # es) = (view_of es)(k \<mapsto> v)"
  by (simp add: view_of_def)

section \<open>The interface the translation cache uses\<close>

text \<open>
  \<open>get\<close> answers from the map the cache stands for and may reorder or count; \<open>insert\<close> of
  a key that missed adds it and may drop others (eviction), and never fails.
\<close>

locale sound_cache =
  fixes empty :: "'c"
    and get :: "'k \<Rightarrow> 'c \<Rightarrow> 'v option \<times> 'c"
    and insert :: "'k \<Rightarrow> 'v \<Rightarrow> 'c \<Rightarrow> 'c res"
    and view :: "'c \<Rightarrow> ('k \<rightharpoonup> 'v)"
    and invar :: "'c \<Rightarrow> bool"
  assumes invar_empty: "invar empty"
    and view_empty: "view empty = Map.empty"
    and get_result: "invar c \<Longrightarrow> fst (get k c) = view c k"
    and get_view_le: "invar c \<Longrightarrow> view (snd (get k c)) \<subseteq>\<^sub>m view c"
    and get_invar: "invar c \<Longrightarrow> invar (snd (get k c))"
    and insert_ok: "invar c \<Longrightarrow> view c k = None \<Longrightarrow>
      \<exists>c'. insert k v c = Inr c' \<and> invar c' \<and>
        view c' k = Some v \<and> view c' \<subseteq>\<^sub>m (view c)(k \<mapsto> v)"
begin

text \<open>A predicate that holds of every cached pair is kept by lookups and by sound insertions.\<close>

definition all_sound :: "('k \<Rightarrow> 'v \<Rightarrow> bool) \<Rightarrow> 'c \<Rightarrow> bool" where
  "all_sound P c \<longleftrightarrow> invar c \<and> (\<forall>k v. view c k = Some v \<longrightarrow> P k v)"

lemma map_leD: "m \<subseteq>\<^sub>m m' \<Longrightarrow> m x = Some y \<Longrightarrow> m' x = Some y"
  by (metis domI map_le_def)

lemma all_sound_empty: "all_sound P empty"
  by (simp add: all_sound_def invar_empty view_empty)

lemma all_sound_get: "all_sound P c \<Longrightarrow> all_sound P (snd (get k c))"
  by (auto simp: all_sound_def get_invar dest: map_leD [OF get_view_le])

lemma all_sound_hit: "all_sound P c \<Longrightarrow> get k c = (Some v, c') \<Longrightarrow> P k v"
  using get_result[of c k] by (auto simp: all_sound_def)

lemma all_sound_insert:
  assumes "all_sound P c" and "view c k = None" and "P k v" and "insert k v c = Inr c'"
  shows "all_sound P c'"
proof -
  have i: "invar c'" and le: "view c' \<subseteq>\<^sub>m (view c)(k \<mapsto> v)"
    using insert_ok[of c k v] assms(1,2,4) by (auto simp: all_sound_def)
  have "P x y" if "view c' x = Some y" for x y
    using map_leD[OF le that] assms(1,3) by (auto simp: all_sound_def split: if_splits)
  with i show ?thesis by (simp add: all_sound_def)
qed

lemma insert_then_get:
  "invar c \<Longrightarrow> view c k = None \<Longrightarrow> insert k v c = Inr c' \<Longrightarrow> fst (get k c') = Some v"
  using insert_ok[of c k v] get_result[of c' k] by auto

lemma miss_insert_total: "invar c \<Longrightarrow> view c k = None \<Longrightarrow> \<exists>c'. insert k v c = Inr c'"
  using insert_ok[of c k v] by blast

end

text \<open>A cache whose lookups forget nothing.\<close>

locale lookup_cache = sound_cache +
  assumes get_view: "invar c \<Longrightarrow> view (snd (get k c)) = view c"
begin

lemma get_get: "invar c \<Longrightarrow> fst (get k (snd (get k' c))) = fst (get k c)"
  by (simp add: get_result get_invar get_view)

end

section \<open>The timestamp cache (least recently used)\<close>

record ('k, 'v) TimestampLruCache =
  ts_total_cache_access :: ucount
  ts_current_cache_size :: nat
  ts_cache :: "('k, 'v) entry list"

definition TimestampLruCache_new :: "nat \<Rightarrow> ('k::zero, 'v::zero) TimestampLruCache" where
  "TimestampLruCache_new sz =
     \<lparr>ts_total_cache_access = 0, ts_current_cache_size = 0, ts_cache = replicate sz (0, 0, 0)\<rparr>"

definition ts_used :: "('k, 'v) TimestampLruCache \<Rightarrow> ('k, 'v) entry list" where
  "ts_used c = take (ts_current_cache_size c) (ts_cache c)"

definition ts_get ::
    "'k \<Rightarrow> ('k, 'v) TimestampLruCache \<Rightarrow> 'v option \<times> ('k, 'v) TimestampLruCache" where
  "ts_get key c =
     (let it = find_if (\<lambda>e. fst e = key) (ts_used c) in
      if it \<noteq> ts_current_cache_size c then
        let (k, v, n) = ts_cache c ! it;
            total = ts_total_cache_access c + 1
        in (Some v, c\<lparr>ts_total_cache_access := total, ts_cache := (ts_cache c)[it := (k, v, total)]\<rparr>)
      else (None, c))"

definition ts_find_eviction_entry ::
    "('k, 'v) TimestampLruCache \<Rightarrow> (nat \<times> ('k, 'v) TimestampLruCache) res" where
  "ts_find_eviction_entry c =
     (if ts_current_cache_size c \<ge> length (ts_cache c) then
        let it = min_element (\<lambda>e. snd (snd e)) (ts_used c) in
        if it = ts_current_cache_size c then Inl Runtime_error else Inr (it, c)
      else
        Inr (ts_current_cache_size c, c\<lparr>ts_current_cache_size := ts_current_cache_size c + 1\<rparr>))"

definition ts_insert ::
    "'k \<Rightarrow> 'v \<Rightarrow> ('k, 'v) TimestampLruCache \<Rightarrow> ('k, 'v) TimestampLruCache res" where
  "ts_insert key val c =
     bind_res (ts_find_eviction_entry c) (\<lambda>(it, c').
       Inr (c'\<lparr>ts_cache := (ts_cache c')[it := (key, val, ts_total_cache_access c')]\<rparr>))"

definition ts_view :: "('k, 'v) TimestampLruCache \<Rightarrow> ('k \<rightharpoonup> 'v)" where
  "ts_view c = view_of (ts_used c)"

definition ts_invar :: "nat \<Rightarrow> ('k, 'v) TimestampLruCache \<Rightarrow> bool" where
  "ts_invar sz c \<longleftrightarrow>
     length (ts_cache c) = sz \<and> 0 < sz \<and> ts_current_cache_size c \<le> sz \<and>
     distinct (keys_of (ts_used c))"

text \<open>As long as the counter has not wrapped, no timestamp is ahead of it.  Nothing but the
  choice of the entry to evict depends on this.\<close>

definition ts_stamped :: "('k, 'v) TimestampLruCache \<Rightarrow> bool" where
  "ts_stamped c \<longleftrightarrow> (\<forall>e \<in> set (ts_used c). snd (snd e) \<le> ts_total_cache_access c)"

lemma ts_length_used: "ts_invar sz c \<Longrightarrow> length (ts_used c) = ts_current_cache_size c"
  by (simp add: ts_invar_def ts_used_def)

lemma ts_get_hit:
  assumes "ts_invar sz c" and "find_if (\<lambda>e. fst e = key) (ts_used c) = it"
    and "it < ts_current_cache_size c"
  shows "ts_get key c =
      (Some (fst (snd (ts_used c ! it))),
       c\<lparr>ts_total_cache_access := ts_total_cache_access c + 1,
         ts_cache := (ts_cache c)[it := (key, fst (snd (ts_used c ! it)), ts_total_cache_access c + 1)]\<rparr>)"
    and "fst (ts_used c ! it) = key"
proof -
  show k: "fst (ts_used c ! it) = key"
    using find_if_found[of "\<lambda>e. fst e = key" "ts_used c"] assms ts_length_used[OF assms(1)] by simp
  have "ts_used c ! it = ts_cache c ! it" using assms(3) by (simp add: ts_used_def)
  then show "ts_get key c =
      (Some (fst (snd (ts_used c ! it))),
       c\<lparr>ts_total_cache_access := ts_total_cache_access c + 1,
         ts_cache := (ts_cache c)[it := (key, fst (snd (ts_used c ! it)), ts_total_cache_access c + 1)]\<rparr>)"
    using assms(2,3) k by (simp add: ts_get_def Let_def case_prod_beta)
qed

lemma ts_get_miss:
  "ts_invar sz c \<Longrightarrow> ts_view c key = None \<Longrightarrow> ts_get key c = (None, c)"
proof -
  assume a: "ts_invar sz c" "ts_view c key = None"
  then have "\<forall>e \<in> set (ts_used c). fst e \<noteq> key"
    by (auto simp: ts_view_def view_of_None keys_of_def)
  then have "find_if (\<lambda>e. fst e = key) (ts_used c) = length (ts_used c)"
    by (simp add: find_if_none)
  then show ?thesis using ts_length_used[OF a(1)] by (simp add: ts_get_def)
qed

lemma ts_hit_index:
  assumes "ts_invar sz c" and "ts_view c key = Some v"
  shows "find_if (\<lambda>e. fst e = key) (ts_used c) < ts_current_cache_size c"
proof -
  have "key \<in> set (keys_of (ts_used c))"
    using assms(2) view_of_None[of "ts_used c" key] by (auto simp: ts_view_def)
  then have "find_if (\<lambda>e. fst e = key) (ts_used c) \<noteq> length (ts_used c)"
    by (auto simp: find_if_none keys_of_def)
  then show ?thesis
    using find_if_le[of "\<lambda>e. fst e = key" "ts_used c"] ts_length_used[OF assms(1)] by simp
qed

lemma ts_get_spec:
  assumes inv: "ts_invar sz c"
  shows "fst (ts_get k c) = ts_view c k \<and> ts_view (snd (ts_get k c)) = ts_view c \<and>
         ts_invar sz (snd (ts_get k c))"
proof (cases "ts_view c k")
  case None
  then show ?thesis using ts_get_miss[OF inv None] inv by simp
next
  case (Some v)
  define it where "it = find_if (\<lambda>e. fst e = k) (ts_used c)"
  have it: "it < ts_current_cache_size c" using ts_hit_index[OF inv Some] by (simp add: it_def)
  note hit = ts_get_hit[OF inv it_def[symmetric] it]
  have l: "it < length (ts_used c)" using it ts_length_used[OF inv] by simp
  let ?e = "(fst (ts_used c ! it), fst (snd (ts_used c ! it)), ts_total_cache_access c + 1)"
  have used: "ts_used (snd (ts_get k c)) = (ts_used c)[it := ?e]"
    using hit it by (simp add: ts_used_def take_update_swap)
  have "ts_view c k = Some (fst (snd (ts_used c ! it)))"
    using view_of_nth[of "ts_used c" it] l inv hit(2) by (simp add: ts_invar_def ts_view_def)
  moreover have "ts_view (snd (ts_get k c)) = ts_view c"
    using view_of_touch[OF l] by (simp add: ts_view_def used)
  moreover have "ts_invar sz (snd (ts_get k c))"
    using inv hit(1) used keys_of_touch[OF l] by (simp add: ts_invar_def)
  ultimately show ?thesis using hit(1) by simp
qed

text \<open>Inserting into a cache with room appends to the used prefix; into a full one it replaces
  an entry with the least timestamp.\<close>

lemma ts_insert_room:
  assumes "ts_invar sz c" and "ts_current_cache_size c < sz"
  shows "\<exists>c'. ts_insert k v c = Inr c' \<and>
    ts_used c' = ts_used c @ [(k, v, ts_total_cache_access c)] \<and>
    length (ts_cache c') = sz \<and> ts_current_cache_size c' = ts_current_cache_size c + 1 \<and>
    ts_total_cache_access c' = ts_total_cache_access c"
proof -
  let ?n = "ts_current_cache_size c"
  have "ts_find_eviction_entry c = Inr (?n, c\<lparr>ts_current_cache_size := ?n + 1\<rparr>)"
    using assms by (simp add: ts_find_eviction_entry_def ts_invar_def)
  moreover have "take (Suc ?n) ((ts_cache c)[?n := (k, v, ts_total_cache_access c)]) =
      take ?n (ts_cache c) @ [(k, v, ts_total_cache_access c)]"
    using assms by (simp add: ts_invar_def take_Suc_conv_app_nth)
  ultimately show ?thesis
    using assms by (auto simp: ts_insert_def ts_used_def ts_invar_def)
qed

lemma ts_insert_full:
  assumes "ts_invar sz c" and "ts_current_cache_size c = sz"
  shows "\<exists>it c'. ts_insert k v c = Inr c' \<and> it < sz \<and>
    (\<forall>e \<in> set (ts_used c). snd (snd (ts_used c ! it)) \<le> snd (snd e)) \<and>
    ts_used c' = (ts_used c)[it := (k, v, ts_total_cache_access c)] \<and>
    length (ts_cache c') = sz \<and> ts_current_cache_size c' = sz \<and>
    ts_total_cache_access c' = ts_total_cache_access c"
proof -
  define it where "it = min_element (\<lambda>e. snd (snd e)) (ts_used c)"
  have l: "length (ts_used c) = sz" "0 < sz" "length (ts_cache c) = sz"
    using assms ts_length_used[OF assms(1)] by (simp_all add: ts_invar_def)
  then have ne: "ts_used c \<noteq> []" by auto
  have it: "it < sz" using min_element_less[OF ne] l by (simp add: it_def)
  have mi: "\<forall>e \<in> set (ts_used c). snd (snd (ts_used c ! it)) \<le> snd (snd e)"
    unfolding it_def by (intro ballI min_element_min[OF ne])
  have "ts_find_eviction_entry c = Inr (it, c)"
    using assms l it by (simp add: ts_find_eviction_entry_def it_def [symmetric])
  then show ?thesis
    using assms(2) l it mi by (auto simp: ts_insert_def ts_used_def)
qed

lemma ts_insert_spec:
  assumes inv: "ts_invar sz c" and miss: "ts_view c k = None"
  shows "\<exists>c'. ts_insert k v c = Inr c' \<and> ts_invar sz c' \<and>
           ts_view c' k = Some v \<and> ts_view c' \<subseteq>\<^sub>m (ts_view c)(k \<mapsto> v)"
proof (cases "ts_current_cache_size c < sz")
  case True
  have k: "k \<notin> set (keys_of (ts_used c))" using miss by (simp add: ts_view_def view_of_None)
  show ?thesis using ts_insert_room[OF inv True, of k v] inv k True
    by (auto simp: ts_invar_def ts_view_def view_of_snoc keys_of_def)
next
  case False
  then have full: "ts_current_cache_size c = sz" using inv by (simp add: ts_invar_def)
  have k: "k \<notin> set (keys_of (ts_used c))" and d: "distinct (keys_of (ts_used c))"
    using miss inv by (simp_all add: ts_view_def view_of_None ts_invar_def)
  obtain it c' where c': "ts_insert k v c = Inr c'" "it < sz"
      "ts_used c' = (ts_used c)[it := (k, v, ts_total_cache_access c)]"
      "length (ts_cache c') = sz" "ts_current_cache_size c' = sz"
      "ts_total_cache_access c' = ts_total_cache_access c"
    using ts_insert_full[OF inv full] by blast
  have l: "it < length (ts_used c)" using c'(2) full ts_length_used[OF inv] by simp
  have "ts_view c' = (ts_view c)(fst (ts_used c ! it) := None, k \<mapsto> v)"
    using view_of_replace[OF d k l] c'(3) by (simp add: ts_view_def)
  moreover have "ts_invar sz c'"
    using c' inv keys_of_replace[OF d k]
      set_update_subset_insert[of "ts_used c" it "(k, v, ts_total_cache_access c)"]
    by (fastforce simp: ts_invar_def)
  ultimately show ?thesis using c'(1) by (auto simp: map_le_def)
qed

interpretation ts_lru: lookup_cache
  "TimestampLruCache_new (Suc n) :: ('k::zero, 'v::zero) TimestampLruCache"
  ts_get ts_insert ts_view "ts_invar (Suc n)"
proof (unfold_locales, goal_cases)
  case 1
  show ?case by (simp add: ts_invar_def TimestampLruCache_new_def ts_used_def keys_of_def)
next
  case 2
  show ?case by (simp add: ts_view_def TimestampLruCache_new_def ts_used_def view_of_def)
next
  case (6 c k v)
  then show ?case by (rule ts_insert_spec)
qed (simp_all add: ts_get_spec)

text \<open>Below the wrap, the timestamps stay behind the counter.\<close>

lemma count_up: "(n :: ucount) < - 1 \<Longrightarrow> n < n + 1"
  by (simp add: word_less_nat_alt unat_word_ariths unsigned_minus_1_eq_mask mask_eq_exp_minus_1)

lemma ts_stamped_get:
  assumes inv: "ts_invar sz c" and st: "ts_stamped c" and nw: "ts_total_cache_access c < - 1"
  shows "ts_stamped (snd (ts_get k c))"
proof (cases "ts_view c k")
  case None
  then show ?thesis using ts_get_miss[OF inv None] st by simp
next
  case (Some v)
  define it where "it = find_if (\<lambda>e. fst e = k) (ts_used c)"
  have it: "it < ts_current_cache_size c" using ts_hit_index[OF inv Some] by (simp add: it_def)
  note hit = ts_get_hit[OF inv it_def[symmetric] it]
  let ?e = "(k, fst (snd (ts_used c ! it)), ts_total_cache_access c + 1)"
  have "snd (snd e) \<le> ts_total_cache_access c + 1" if "e \<in> set ((ts_used c)[it := ?e])" for e
    using that set_update_subset_insert[of "ts_used c" it ?e] st count_up[OF nw]
    by (auto simp: ts_stamped_def dest!: subsetD bspec)
  then show ?thesis
    using hit(1) it by (simp add: ts_stamped_def ts_used_def take_update_swap)
qed

lemma ts_stamped_insert:
  assumes inv: "ts_invar sz c" and st: "ts_stamped c" and ins: "ts_insert k v c = Inr c'"
  shows "ts_stamped c'"
proof (cases "ts_current_cache_size c < sz")
  case True
  then show ?thesis using ts_insert_room[OF inv True, of k v] ins st by (auto simp: ts_stamped_def)
next
  case False
  then have "ts_current_cache_size c = sz" using inv by (simp add: ts_invar_def)
  from ts_insert_full[OF inv this, of k v] show ?thesis
    using ins st by (fastforce simp: ts_stamped_def dest!: subsetD[OF set_update_subset_insert])
qed

text \<open>The entry that was hit last survives the next eviction.\<close>

lemma ts_hit_survives:
  assumes inv: "ts_invar sz c" and hit: "ts_view c k = Some v" and two: "1 < ts_current_cache_size c"
    and st: "ts_stamped c" and nw: "ts_total_cache_access c < - 1"
    and k': "ts_view c k' = None" and ins: "ts_insert k' v' (snd (ts_get k c)) = Inr c'"
  shows "ts_view c' k = Some v"
proof -
  let ?c = "snd (ts_get k c)"
  have inv': "ts_invar sz ?c" and v': "ts_view ?c = ts_view c" using ts_get_spec[OF inv] by simp_all
  define it where "it = find_if (\<lambda>e. fst e = k) (ts_used c)"
  have it: "it < ts_current_cache_size c" using ts_hit_index[OF inv hit] by (simp add: it_def)
  note h = ts_get_hit[OF inv it_def[symmetric] it]
  let ?e = "(k, fst (snd (ts_used c ! it)), ts_total_cache_access c + 1)"
  have used: "ts_used ?c = (ts_used c)[it := ?e]"
    using h it by (simp add: ts_used_def take_update_swap)
  have l: "length (ts_used c) = ts_current_cache_size c" by (rule ts_length_used[OF inv])
  have d: "distinct (keys_of (ts_used ?c))" and kn: "k' \<notin> set (keys_of (ts_used ?c))"
    using inv' k' v' by (simp_all add: ts_invar_def ts_view_def view_of_None[symmetric])
  have size: "ts_current_cache_size ?c = ts_current_cache_size c" using h(1) by simp
  show ?thesis
  proof (cases "ts_current_cache_size c < sz")
    case True
    then show ?thesis
      using ts_insert_room[OF inv', of k' v'] ins kn hit v' size k'
      by (auto simp: ts_view_def view_of_snoc)
  next
    case False
    then have full: "ts_current_cache_size ?c = sz" using inv size by (simp add: ts_invar_def)
    obtain j where j: "j < sz" "ts_used c' = (ts_used ?c)[j := (k', v', ts_total_cache_access ?c)]"
        "\<forall>e \<in> set (ts_used ?c). snd (snd (ts_used ?c ! j)) \<le> snd (snd e)"
      using ts_insert_full[OF inv' full, of k' v'] ins by auto
    obtain i where i: "i < ts_current_cache_size c" "i \<noteq> it" using two it
      by (metis One_nat_def less_trans zero_less_one nat_neq_iff)
    have "j \<noteq> it"
    proof
      assume "j = it"
      moreover have "ts_used ?c ! i \<in> set (ts_used ?c)" using i(1) l used by simp
      ultimately have "ts_total_cache_access c + 1 \<le> snd (snd (ts_used ?c ! i))"
        using j(3) it l used by (metis fst_conv snd_conv nth_list_update_eq)
      moreover have "snd (snd (ts_used ?c ! i)) \<le> ts_total_cache_access c"
        using i l st by (simp add: used ts_stamped_def)
      ultimately show False using count_up[OF nw] by simp
    qed
    then have "fst (ts_used ?c ! j) \<noteq> fst (ts_used ?c ! it)"
      using d j(1) it full size l inv
      by (metis (no_types, lifting) keys_of_def length_list_update length_map nth_eq_iff_index_eq nth_map used)
    then have "fst (ts_used ?c ! j) \<noteq> k" using it l by (simp add: used)
    moreover have "j < length (ts_used ?c)" using j(1) full size l by (simp add: used)
    ultimately have "ts_view c' k = ts_view ?c k"
      using view_of_replace[OF d kn, of j v'] j(2) k' hit by (auto simp: ts_view_def)
    then show ?thesis using v' hit by simp
  qed
qed

end
