(* ===== verification/EeState.thy ===== *)
theory EeState
  imports EeCop0 EeTlb Bus Caches
begin

text \<open>
  The state of the EE Core (\<open>Resources/Ee/Core/EeCoreR5900.hpp\<close>, \<open>EeCoreFpu.hpp\<close>,
  \<open>REeCore.hpp\<close>) together with what its controller adds (the two translation caches) and the bus
  it accesses; the translation cache \<open>Common/Types/TranslationCache/TranslationCache.hpp\<close>;
  access to the registers as the instructions use it; the well-formedness of the state.
\<close>

section \<open>The translation cache\<close>

datatype MmuRwAccess = READ | WRITE

type_synonym trans_cache = "(uptr, uptr) TimestampLruCache"

definition TC_SIZE :: nat where "TC_SIZE = 6"

definition TranslationCache_new :: trans_cache where
  "TranslationCache_new = TimestampLruCache_new TC_SIZE"

definition cache_mask :: uptr where
  "cache_mask = 0xFFF"

text \<open>
  \<open>lookup\<close> and \<open>handle_fallback\<close>, for a cache kept in a larger state (\<open>cache\<close> reads it,
  \<open>set_cache\<close> replaces it) that the fallback function may change.
\<close>

definition handle_fallback ::
    "('s \<Rightarrow> trans_cache) \<Rightarrow> (trans_cache \<Rightarrow> 's \<Rightarrow> 's) \<Rightarrow>
     (uptr \<Rightarrow> MmuRwAccess \<Rightarrow> 's \<Rightarrow> (uptr option \<times> 's) res) \<Rightarrow>
     uptr \<Rightarrow> MmuRwAccess \<Rightarrow> 's \<Rightarrow> (uptr option \<times> 's) res" where
  "handle_fallback cache set_cache fallback_fn key rw s =
     bind_res (fallback_fn key rw s) (\<lambda>(result, s1).
       case result of
         None \<Rightarrow> Inr (None, s1)
       | Some pa \<Rightarrow> bind_res (ts_insert key pa (cache s1)) (\<lambda>c. Inr (Some pa, set_cache c s1)))"

definition tc_lookup ::
    "('s \<Rightarrow> trans_cache) \<Rightarrow> (trans_cache \<Rightarrow> 's \<Rightarrow> 's) \<Rightarrow>
     (uptr \<Rightarrow> MmuRwAccess \<Rightarrow> 's \<Rightarrow> (uptr option \<times> 's) res) \<Rightarrow>
     uptr \<Rightarrow> MmuRwAccess \<Rightarrow> 's \<Rightarrow> (uptr option \<times> 's) res" where
  "tc_lookup cache set_cache fallback_fn virtual_address rw s =
     (let key = virtual_address AND NOT cache_mask;
          (result, c) = ts_get key (cache s);
          s1 = set_cache c s
      in bind_res
           (case result of
              Some pa \<Rightarrow> Inr (Some pa, s1)
            | None \<Rightarrow> handle_fallback cache set_cache fallback_fn key rw s1)
           (\<lambda>(result', s2).
              Inr (map_option (\<lambda>pa. pa OR (virtual_address AND cache_mask)) result', s2)))"

text \<open>
  A cached translation in a state with an invariant: the full lookup keeps the invariant and,
  when it answers, the state; the invariant covers the cache.  Then a lookup through the cache
  keeps it too.
\<close>

locale cached_translation =
  fixes ok :: "'s \<Rightarrow> bool" and cache :: "'s \<Rightarrow> trans_cache" and set_cache :: "trans_cache \<Rightarrow> 's \<Rightarrow> 's"
    and fb :: "uptr \<Rightarrow> MmuRwAccess \<Rightarrow> 's \<Rightarrow> (uptr option \<times> 's) res"
  assumes fallback_ok: "ok s \<Longrightarrow> ok_res (\<lambda>(v, s). ok s) (fb va rw s)"
    and fallback_hit: "fb va rw s = Inr (Some pa, s') \<Longrightarrow> s' = s"
    and cache_ok: "ok s \<Longrightarrow> ts_invar TC_SIZE (cache s)"
    and set_cache_ok: "ok s \<Longrightarrow> ts_invar TC_SIZE c \<Longrightarrow> ok (set_cache c s)"
    and cache_set_cache: "cache (set_cache c s) = c"
begin

lemma miss_ok:
  assumes c: "ts_invar TC_SIZE c" and s: "ok (set_cache c s)" and miss: "ts_view c k = None"
  shows "ok_res (\<lambda>(v, s). ok s) (handle_fallback cache set_cache fb k rw (set_cache c s))"
proof -
  have "ok_res (\<lambda>(v, s). ok s) (case result of
       None \<Rightarrow> Inr (None, s2)
     | Some pa \<Rightarrow> bind_res (ts_insert k pa (cache s2)) (\<lambda>c. Inr (Some pa, set_cache c s2)))"
    if f: "fb k rw (set_cache c s) = Inr (result, s2)" for result s2
  proof (cases result)
    case None
    then show ?thesis using fallback_ok[OF s, of k rw] f by simp
  next
    case (Some pa)
    then have "s2 = set_cache c s" using fallback_hit f by simp
    then show ?thesis using Some ts_insert_spec[OF c miss, of pa] s
      by (auto simp: cache_set_cache intro: set_cache_ok)
  qed
  then show ?thesis
    unfolding handle_fallback_def by (cases "fb k rw (set_cache c s)") (auto split: prod.splits)
qed

lemma lookup_ok:
  assumes "ok s"
  shows "ok_res (\<lambda>(v, s). ok s) (tc_lookup cache set_cache fb va rw s)"
proof -
  let ?k = "va AND NOT cache_mask"
  obtain r c where g: "ts_get ?k (cache s) = (r, c)" by fastforce
  have c: "ts_invar TC_SIZE c" and r: "r = ts_view c ?k"
    using ts_get_spec[OF cache_ok[OF assms], of ?k] g by auto
  note s1 = set_cache_ok[OF assms c]
  have "ok_res (\<lambda>(v, s). ok s) (case r of Some pa \<Rightarrow> Inr (Some pa, set_cache c s)
      | None \<Rightarrow> handle_fallback cache set_cache fb ?k rw (set_cache c s))"
    using s1 miss_ok[OF c s1] r by (auto split: option.split)
  then show ?thesis
    unfolding tc_lookup_def Let_def g
    by (cases "case r of Some pa \<Rightarrow> Inr (Some pa, set_cache c s)
      | None \<Rightarrow> handle_fallback cache set_cache fb ?k rw (set_cache c s)") auto
qed

end

section \<open>The state\<close>

record ee_state =
  e_pc :: word_register
  e_bdelay :: branch_delay_slot
  e_gpr :: "nat \<Rightarrow> qword_register"
  e_hi :: qword_register
  e_lo :: qword_register
  e_sa :: word_register
  e_cop0 :: ee_cop0
  e_fpr :: "nat \<Rightarrow> word_register"
  e_acc :: word_register
  e_csr :: word_register
  e_irr :: word_register
  e_tlb :: ee_tlb
  e_tcd :: trans_cache
  e_tci :: trans_cache
  e_bus :: "uptr byte_bus"

text \<open>
  Reset: the PC at the reset vector, \<open>gpr[0]\<close> a read-only zero, the TLB (which the
  constructor leaves uninitialised) and the bus as given.
\<close>

definition EeCoreR5900_gpr_new :: "nat \<Rightarrow> qword_register" where
  "EeCoreR5900_gpr_new n = SizedRegister_new 0 (n = 0)"

definition ee_state_new :: "ee_tlb \<Rightarrow> uptr byte_bus \<Rightarrow> ee_state" where
  "ee_state_new t b =
     \<lparr>e_pc = SizedRegister_new 0xBFC00000 False, e_bdelay = BranchDelaySlot_new,
      e_gpr = EeCoreR5900_gpr_new,
      e_hi = SizedRegister_new 0 False, e_lo = SizedRegister_new 0 False,
      e_sa = SizedRegister_new 0 False, e_cop0 = EeCoreCop0_new,
      e_fpr = (\<lambda>n. SizedRegister_new 0 False), e_acc = SizedRegister_new 0 False,
      e_csr = SizedRegister_new 0 False, e_irr = EeCoreFpuRegister_Irr_new,
      e_tlb = t, e_tcd = TranslationCache_new, e_tci = TranslationCache_new, e_bus = b\<rparr>"

section \<open>Register access\<close>

definition gpr_upd :: "nat \<Rightarrow> (qword_register \<Rightarrow> qword_register) \<Rightarrow> ee_state \<Rightarrow> ee_state" where
  "gpr_upd n f s = s\<lparr>e_gpr := (e_gpr s)(n := f (e_gpr s n))\<rparr>"

definition fpr_upd :: "nat \<Rightarrow> (word_register \<Rightarrow> word_register) \<Rightarrow> ee_state \<Rightarrow> ee_state" where
  "fpr_upd n f s = s\<lparr>e_fpr := (e_fpr s)(n := f (e_fpr s n))\<rparr>"

definition cop0_upd :: "(ee_cop0 \<Rightarrow> ee_cop0) \<Rightarrow> ee_state \<Rightarrow> ee_state" where
  "cop0_upd f s = s\<lparr>e_cop0 := f (e_cop0 s)\<rparr>"

definition cop0_res :: "(ee_cop0 \<Rightarrow> ee_cop0 res) \<Rightarrow> ee_state \<Rightarrow> ee_state res" where
  "cop0_res f s = bind_res (f (e_cop0 s)) (\<lambda>c. Inr (s\<lparr>e_cop0 := c\<rparr>))"

definition pc_upd :: "(word_register \<Rightarrow> word_register) \<Rightarrow> ee_state \<Rightarrow> ee_state" where
  "pc_upd f s = s\<lparr>e_pc := f (e_pc s)\<rparr>"

abbreviation pc_val :: "ee_state \<Rightarrow> uptr" where
  "pc_val s \<equiv> w_read_uword (e_pc s)"

abbreviation gpr_q :: "nat \<Rightarrow> ee_state \<Rightarrow> uqword" where
  "gpr_q n s \<equiv> q_read_uqword (e_gpr s n)"
abbreviation gpr_d :: "nat \<Rightarrow> ee_state \<Rightarrow> udword" where
  "gpr_d n s \<equiv> q_read_udword 0 (e_gpr s n)"
abbreviation gpr_w :: "nat \<Rightarrow> ee_state \<Rightarrow> uword" where
  "gpr_w n s \<equiv> q_read_uword 0 (e_gpr s n)"

lemmas upd_defs = gpr_upd_def fpr_upd_def cop0_upd_def cop0_res_def pc_upd_def

lemma upd_frame [simp, frame]:
  "e_pc (gpr_upd n f s) = e_pc s" "e_bdelay (gpr_upd n f s) = e_bdelay s"
  "e_hi (gpr_upd n f s) = e_hi s" "e_lo (gpr_upd n f s) = e_lo s"
  "e_sa (gpr_upd n f s) = e_sa s" "e_cop0 (gpr_upd n f s) = e_cop0 s"
  "e_fpr (gpr_upd n f s) = e_fpr s" "e_acc (gpr_upd n f s) = e_acc s"
  "e_csr (gpr_upd n f s) = e_csr s" "e_irr (gpr_upd n f s) = e_irr s"
  "e_tlb (gpr_upd n f s) = e_tlb s" "e_tcd (gpr_upd n f s) = e_tcd s"
  "e_tci (gpr_upd n f s) = e_tci s" "e_bus (gpr_upd n f s) = e_bus s"
  by (simp_all add: gpr_upd_def)

lemma cop0_upd_frame [simp, frame]:
  "e_cop0 (cop0_upd g s) = g (e_cop0 s)" "e_pc (cop0_upd g s) = e_pc s"
  "e_bdelay (cop0_upd g s) = e_bdelay s" "e_gpr (cop0_upd g s) = e_gpr s"
  "e_hi (cop0_upd g s) = e_hi s" "e_lo (cop0_upd g s) = e_lo s"
  "e_tlb (cop0_upd g s) = e_tlb s" "e_bus (cop0_upd g s) = e_bus s"
  "e_tcd (cop0_upd g s) = e_tcd s" "e_tci (cop0_upd g s) = e_tci s"
  by (simp_all add: cop0_upd_def)

lemma pc_upd_frame [simp, frame]:
  "e_cop0 (pc_upd h s) = e_cop0 s" "e_pc (pc_upd h s) = h (e_pc s)"
  "e_bdelay (pc_upd h s) = e_bdelay s" "e_gpr (pc_upd h s) = e_gpr s"
  "e_hi (pc_upd h s) = e_hi s" "e_lo (pc_upd h s) = e_lo s"
  "e_tlb (pc_upd h s) = e_tlb s" "e_bus (pc_upd h s) = e_bus s"
  by (simp_all add: pc_upd_def)

lemma gpr_upd_read:
  "e_gpr (gpr_upd n f s) m = (if m = n then f (e_gpr s n) else e_gpr s m)"
  by (simp add: gpr_upd_def)

section \<open>Well-formed states\<close>

text \<open>
  Register 0 is a read-only zero and no other register is read-only (but IRR); the TLB
  has its entries, the caches are consistent, and so is COP0.
\<close>

definition gpr_ok :: "(nat \<Rightarrow> qword_register) \<Rightarrow> bool" where
  "gpr_ok g \<longleftrightarrow> (\<forall>n. reg_read_only (g n) \<longleftrightarrow> n = 0) \<and> reg_val (g 0) = 0"

definition ee_ok :: "ee_state \<Rightarrow> bool" where
  "ee_ok s \<longleftrightarrow>
     gpr_ok (e_gpr s) \<and>
     (\<forall>n. \<not> reg_read_only (e_fpr s n)) \<and>
     \<not> reg_read_only (e_pc s) \<and> \<not> reg_read_only (e_hi s) \<and> \<not> reg_read_only (e_lo s) \<and>
     \<not> reg_read_only (e_sa s) \<and> \<not> reg_read_only (e_acc s) \<and> \<not> reg_read_only (e_csr s) \<and>
     reg_read_only (e_irr s) \<and>
     cop0_inv (e_cop0 s) \<and> tlb_ok (e_tlb s) \<and>
     ts_invar TC_SIZE (e_tcd s) \<and> ts_invar TC_SIZE (e_tci s)"

definition q_writer :: "(qword_register \<Rightarrow> qword_register) \<Rightarrow> bool" where
  "q_writer f \<longleftrightarrow> (\<forall>r. reg_read_only (f r) = reg_read_only r) \<and> (\<forall>r. reg_read_only r \<longrightarrow> f r = r)"

lemma q_writers [simp, intro]:
  "q_writer (q_write_ubyte i b)" "q_writer (q_write_uhword i h)" "q_writer (q_write_uword i w)"
  "q_writer (q_write_udword i d)" "q_writer (q_write_uqword q)" "q_writer (\<lambda>r. r)"
  by (simp_all add: q_writer_def q_defs)

lemma q_writer_comp [intro]:
  "q_writer f \<Longrightarrow> q_writer g \<Longrightarrow> q_writer (\<lambda>r. f (g r))"
  by (auto simp: q_writer_def)

lemma gpr_ok_upd: "gpr_ok (e_gpr s) \<Longrightarrow> q_writer f \<Longrightarrow> gpr_ok (e_gpr (gpr_upd n f s))"
  by (auto simp: gpr_ok_def q_writer_def gpr_upd_def)

lemma ee_ok_gpr_upd [intro]: "ee_ok s \<Longrightarrow> q_writer f \<Longrightarrow> ee_ok (gpr_upd n f s)"
  using gpr_ok_upd[of s f n] by (simp add: ee_ok_def)

lemma TC_SIZE_pos: "TC_SIZE = Suc 5"
  by (simp add: TC_SIZE_def)

lemma tc_new_invar [simp]: "ts_invar TC_SIZE TranslationCache_new"
  using ts_lru.invar_empty[of 5] by (simp add: TranslationCache_new_def TC_SIZE_pos)

lemma ee_ok_new: "tlb_ok t \<Longrightarrow> ee_ok (ee_state_new t b)"
  by (simp add: ee_ok_def ee_state_new_def cop0_inv_init gpr_ok_def EeCoreR5900_gpr_new_def
      SizedRegister_new_def EeCoreFpuRegister_Irr_new_def)

lemma ee_ok_upd [intro]:
  assumes "ee_ok s"
  shows "reg_read_only r = False \<Longrightarrow> ee_ok (s\<lparr>e_pc := r\<rparr>)"
    "reg_read_only q = False \<Longrightarrow> ee_ok (s\<lparr>e_hi := q\<rparr>)"
    "reg_read_only q = False \<Longrightarrow> ee_ok (s\<lparr>e_lo := q\<rparr>)"
    "reg_read_only r = False \<Longrightarrow> ee_ok (s\<lparr>e_sa := r\<rparr>)"
    "reg_read_only r = False \<Longrightarrow> ee_ok (s\<lparr>e_acc := r\<rparr>)"
    "reg_read_only r = False \<Longrightarrow> ee_ok (s\<lparr>e_csr := r\<rparr>)"
    "reg_read_only r = False \<Longrightarrow> ee_ok (fpr_upd n (\<lambda>x. r) s)"
    "cop0_inv c \<Longrightarrow> ee_ok (s\<lparr>e_cop0 := c\<rparr>)"
    "ee_ok (s\<lparr>e_bdelay := b\<rparr>)" "ee_ok (s\<lparr>e_bus := bus\<rparr>)"
    "tlb_ok t \<Longrightarrow> ee_ok (s\<lparr>e_tlb := t\<rparr>)"
    "ts_invar TC_SIZE tc \<Longrightarrow> ee_ok (s\<lparr>e_tcd := tc\<rparr>)"
    "ts_invar TC_SIZE tc \<Longrightarrow> ee_ok (s\<lparr>e_tci := tc\<rparr>)"
  using assms by (simp_all add: ee_ok_def fpr_upd_def)

lemma ee_ok_cop0_upd [intro]: "ee_ok s \<Longrightarrow> cop0_inv (f (e_cop0 s)) \<Longrightarrow> ee_ok (cop0_upd f s)"
  by (simp add: cop0_upd_def ee_ok_upd)

lemma ee_ok_cop0_res [intro]:
  "ee_ok s \<Longrightarrow> ok_res cop0_inv (f (e_cop0 s)) \<Longrightarrow> ok_res ee_ok (cop0_res f s)"
  by (cases "f (e_cop0 s)") (simp_all add: cop0_res_def ee_ok_upd)

lemma ee_okD:
  assumes "ee_ok s"
  shows "cop0_inv (e_cop0 s)" "tlb_ok (e_tlb s)" "\<not> reg_read_only (e_pc s)"
    "\<not> reg_read_only (e_hi s)" "\<not> reg_read_only (e_lo s)" "\<not> reg_read_only (e_sa s)"
    "\<not> reg_read_only (e_acc s)" "\<not> reg_read_only (e_csr s)"
    "ts_invar TC_SIZE (e_tcd s)" "ts_invar TC_SIZE (e_tci s)"
  using assms by (simp_all add: ee_ok_def)

lemma ee_ok_gpr:
  assumes "ee_ok s"
  shows "reg_read_only (e_gpr s n) \<longleftrightarrow> n = 0" "reg_val (e_gpr s 0) = 0"
  using assms by (simp_all add: ee_ok_def gpr_ok_def)

lemma ee_ok_fpr: "ee_ok s \<Longrightarrow> \<not> reg_read_only (e_fpr s n)"
  by (simp add: ee_ok_def)

lemma ee_ok_pc_upd [intro]:
  "ee_ok s \<Longrightarrow> reg_read_only (f (e_pc s)) = reg_read_only (e_pc s) \<Longrightarrow> ee_ok (pc_upd f s)"
  by (simp add: ee_ok_def pc_upd_def)

end
