(* ===== verification/EeCore.thy ===== *)
theory EeCore
  imports EeState
begin

text \<open>
  The controller of the EE Core (\<open>Controller/Ee/Core/CEeCore.cpp\<close>): exception entry, the
  interrupt and count checks, the usability and overflow checks of the instructions, and
  virtual address translation.
\<close>

section \<open>Exceptions\<close>

datatype EeCoreException =
    EX_INTERRUPT
  | EX_TLB_MODIFIED
  | EX_TLB_REFILL_INVALID_INSTRUCTION_FETCH_LOAD
  | EX_TLB_REFILL_INVALID_STORE
  | EX_ADDRESS_ERROR_INSTRUCTION_FETCH_LOAD
  | EX_ADDRESS_ERROR_STORE
  | EX_BUS_ERROR_INSTRUCTION_FETCH
  | EX_BUS_ERROR_LOAD_STORE
  | EX_SYSTEMCALL
  | EX_BREAK
  | EX_RESERVED_INSTRUCTION
  | EX_COPROCESSOR_UNUSABLE
  | EX_OVERFLOW
  | EX_TRAP
  | EX_RESET
  | EX_NMI
  | EX_PERFORMANCE_COUNTER
  | EX_DEBUG

fun exception_code :: "EeCoreException \<Rightarrow> nat" where
  "exception_code EX_INTERRUPT = 0"
| "exception_code EX_TLB_MODIFIED = 1"
| "exception_code EX_TLB_REFILL_INVALID_INSTRUCTION_FETCH_LOAD = 2"
| "exception_code EX_TLB_REFILL_INVALID_STORE = 3"
| "exception_code EX_ADDRESS_ERROR_INSTRUCTION_FETCH_LOAD = 4"
| "exception_code EX_ADDRESS_ERROR_STORE = 5"
| "exception_code EX_BUS_ERROR_INSTRUCTION_FETCH = 6"
| "exception_code EX_BUS_ERROR_LOAD_STORE = 7"
| "exception_code EX_SYSTEMCALL = 8"
| "exception_code EX_BREAK = 9"
| "exception_code EX_RESERVED_INSTRUCTION = 10"
| "exception_code EX_COPROCESSOR_UNUSABLE = 11"
| "exception_code EX_OVERFLOW = 12"
| "exception_code EX_TRAP = 13"
| "exception_code EX_RESET = 100"
| "exception_code EX_NMI = 101"
| "exception_code EX_PERFORMANCE_COUNTER = 102"
| "exception_code EX_DEBUG = 104"

definition is_level2 :: "EeCoreException \<Rightarrow> bool" where
  "is_level2 ex \<longleftrightarrow> exception_code ex \<ge> 100"

definition exccode :: "EeCoreException \<Rightarrow> uword" where
  "exccode ex = (if is_level2 ex then of_nat (exception_code ex) - 100 else of_nat (exception_code ex))"

definition set_error_address :: "EeCoreException \<Rightarrow> ee_state \<Rightarrow> ee_state" where
  "set_error_address ex s =
     (let epc = (if is_level2 ex then C0_ERROREPC else C0_EPC);
          bd = (if is_level2 ex then CAUSE_BD2 else CAUSE_BD)
      in if is_branch_pending (e_bdelay s) then
           let pc_address = pc_val s - 4;
               s1 = cop0_upd (c0_raw_write epc pc_address) s;
               s2 = cop0_upd (cause_insert_field bd 1) s1
           in s2\<lparr>e_bdelay := stop_branch (e_bdelay s2)\<rparr>
         else
           let pc_address = pc_val s;
               s1 = cop0_upd (c0_raw_write epc pc_address) s
           in cop0_upd (cause_insert_field bd 0) s1)"

definition exception_vector_base :: "ee_state \<Rightarrow> uptr" where
  "exception_vector_base s =
     (if status_field STATUS_DEV (e_cop0 s) \<noteq> 0 \<or> status_field STATUS_BEV (e_cop0 s) \<noteq> 0
      then 0xBFC00200 else 0x80000000)"

definition exception_vector_offset :: "EeCoreException \<Rightarrow> uptr" where
  "exception_vector_offset ex =
     (if ex = EX_TLB_REFILL_INVALID_INSTRUCTION_FETCH_LOAD \<or> ex = EX_TLB_REFILL_INVALID_STORE
      then 0x00000000
      else if ex = EX_INTERRUPT then 0x00000200
      else if ex = EX_PERFORMANCE_COUNTER then 0x00000080
      else if ex = EX_DEBUG then 0x00000100
      else 0x00000180)"

definition flush_translation_caches :: "ee_state \<Rightarrow> ee_state" where
  "flush_translation_caches s = s\<lparr>e_tcd := TranslationCache_new, e_tci := TranslationCache_new\<rparr>"

text \<open>
  The common end of the handler, from the vector base on: the error context unless one is
  already being handled, the vector, the adjustment of the PC, the flush of the caches.
\<close>

definition enter_handler :: "EeCoreException \<Rightarrow> uptr \<Rightarrow> ee_state \<Rightarrow> ee_state res" where
  "enter_handler ex base s =
     bind_res
       (if status_field STATUS_EXL (e_cop0 s) \<noteq> 0 then Inr (0x00000180, s)
        else bind_res (cop0_res (status_insert_field STATUS_EXL 1) (set_error_address ex s))
               (\<lambda>s1. Inr (exception_vector_offset ex, s1)))
       (\<lambda>(offset, s2).
          let s3 = pc_upd (w_write_uword (base + offset)) s2;
              s4 = (if ex \<noteq> EX_INTERRUPT then pc_upd (w_offset (-4)) s3 else s3)
          in Inr (flush_translation_caches s4))"

definition handle_exception :: "EeCoreException \<Rightarrow> ee_state \<Rightarrow> ee_state res" where
  "handle_exception ex s =
     bind_res (cop0_res (status_insert_field STATUS_ERL (if is_level2 ex then 1 else 0)) s) (\<lambda>s1.
       let s2 = cop0_upd (cause_insert_field (if is_level2 ex then CAUSE_EXC2 else CAUSE_EXCCODE)
                            (exccode ex)) s1
       in if ex = EX_RESET \<or> ex = EX_NMI then
            Inr (pc_upd (w_write_uword 0xBFC00000) (set_error_address ex s2))
          else enter_handler ex (exception_vector_base s2) s2)"

section \<open>Interrupts and the count register\<close>

definition handle_interrupt_check :: "ee_state \<Rightarrow> ee_state res" where
  "handle_interrupt_check s =
     (if \<not> c0_interrupts_masked (e_cop0 s) then
        let (ip_cause, c1) = cause_extract_field CAUSE_IP (e_cop0 s);
            im_status = status_field STATUS_IM c1;
            s1 = s\<lparr>e_cop0 := c1\<rparr>
        in if ip_cause AND im_status \<noteq> 0 then handle_exception EX_INTERRUPT s1 else Inr s1
      else Inr s)"

definition handle_count_update :: "uword \<Rightarrow> ee_state \<Rightarrow> ee_state res" where
  "handle_count_update cpi s =
     (let s1 = cop0_upd (\<lambda>c. c0_raw_write C0_COUNT (c0_raw C0_COUNT c + cpi) c) s in
      if c0_count_interrupts_enabled (e_cop0 s1) then
        let count_value = c0_raw C0_COUNT (e_cop0 s1);
            compare_value = c0_raw C0_COMPARE (e_cop0 s1)
        in if count_value \<ge> compare_value then cop0_res (cause_set_irq_line 7) s1 else Inr s1
      else Inr s1)"

section \<open>Checks of the instructions\<close>

text \<open>Each returns whether the instruction may proceed, and the state.\<close>

definition coprocessor_unusable :: "uword \<Rightarrow> ee_state \<Rightarrow> (bool \<times> ee_state) res" where
  "coprocessor_unusable ce s =
     bind_res (handle_exception EX_COPROCESSOR_UNUSABLE (cop0_upd (cause_insert_field CAUSE_CE ce) s))
       (\<lambda>s1. Inr (False, s1))"

definition handle_cop0_usable :: "ee_state \<Rightarrow> (bool \<times> ee_state) res" where
  "handle_cop0_usable s =
     (if \<not> cop0_is_usable (e_cop0 s) then coprocessor_unusable 0 s else Inr (True, s))"

definition handle_cop1_usable :: "ee_state \<Rightarrow> (bool \<times> ee_state) res" where
  "handle_cop1_usable s =
     (if \<not> fpu_is_usable (e_cop0 s) then coprocessor_unusable 1 s else Inr (True, s))"

definition handle_no_over_or_underflow_32_check ::
    "uword \<Rightarrow> uword \<Rightarrow> ee_state \<Rightarrow> (bool \<times> ee_state) res" where
  "handle_no_over_or_underflow_32_check x y s =
     (if test_over_or_underflow_32 x y then
        bind_res (handle_exception EX_OVERFLOW s) (\<lambda>s1. Inr (False, s1))
      else Inr (True, s))"

definition handle_no_over_or_underflow_64_check ::
    "udword \<Rightarrow> udword \<Rightarrow> ee_state \<Rightarrow> (bool \<times> ee_state) res" where
  "handle_no_over_or_underflow_64_check x y s =
     (if test_over_or_underflow_64 x y then
        bind_res (handle_exception EX_OVERFLOW s) (\<lambda>s1. Inr (False, s1))
      else Inr (True, s))"

text \<open>\<open>if (!check()) return; body\<close>.\<close>

definition guarded ::
    "(ee_state \<Rightarrow> (bool \<times> ee_state) res) \<Rightarrow> (ee_state \<Rightarrow> ee_state res) \<Rightarrow> ee_state \<Rightarrow> ee_state res" where
  "guarded check body s = bind_res (check s) (\<lambda>(ok, s1). if \<not> ok then Inr s1 else body s1)"

section \<open>Address translation\<close>

definition BADVPN2 :: bitfield where [word_defs]: "BADVPN2 = BF 4 19"
definition ENTRYHI_VPN2 :: bitfield where [word_defs]: "ENTRYHI_VPN2 = BF 13 19"
definition ENTRYHI_ASID :: bitfield where [word_defs]: "ENTRYHI_ASID = BF 0 8"
definition RANDOM_RANDOM :: bitfield where [word_defs]: "RANDOM_RANDOM = BF 0 6"

definition handle_mmu_error :: "uptr \<Rightarrow> EeCoreException \<Rightarrow> int \<Rightarrow> ee_state \<Rightarrow> ee_state res" where
  "handle_mmu_error address ex tlb_entry_index s =
     (let high_19 = BF 13 19;
          c1 = c0_raw_write C0_BADVADDR address (e_cop0 s);
          c2 = c0_insert_field C0_CONTEXT BADVPN2 (extract_from high_19 address) c1;
          c3 = c0_insert_field C0_ENTRYHI ENTRYHI_VPN2 (extract_from high_19 address) c2;
          c4 = c0_insert_field C0_RANDOM RANDOM_RANDOM (of_nat generate_new_tlb_index) c3
      in bind_res
           (if tlb_entry_index > 0 then
              bind_res (tlb_entry_at (nat tlb_entry_index) (e_tlb s))
                (\<lambda>e. Inr (c0_insert_field C0_ENTRYHI ENTRYHI_ASID (ucast (te_asid e)) c4))
            else Inr c4)
           (\<lambda>c5. handle_exception ex (s\<lparr>e_cop0 := c5\<rparr>)))"

definition address_error :: "MmuRwAccess \<Rightarrow> EeCoreException" where
  "address_error rw =
     (if rw = READ then EX_ADDRESS_ERROR_INSTRUCTION_FETCH_LOAD else EX_ADDRESS_ERROR_STORE)"

definition refill_error :: "MmuRwAccess \<Rightarrow> EeCoreException" where
  "refill_error rw =
     (if rw = READ then EX_TLB_REFILL_INVALID_INSTRUCTION_FETCH_LOAD else EX_TLB_REFILL_INVALID_STORE)"

text \<open>
  The decision of the four stages, without its effects: an address, or the exception to
  raise.
\<close>

definition context_allows :: "operating_context \<Rightarrow> uptr \<Rightarrow> bool" where
  "context_allows ctx va =
     (if ctx = User then va \<le> 0x7FFFFFFF
      else if ctx = Supervisor then (va \<ge> 0xC0000000 \<and> va \<le> 0x7FFFFFFF) \<or> va \<le> 0xDFFFFFFF
      else True)"

definition unmapped_address :: "ee_state \<Rightarrow> uptr \<Rightarrow> uptr option" where
  "unmapped_address s va =
     (if c0_operating_context (e_cop0 s) = Kernel then
        if va \<ge> 0x80000000 \<and> va \<le> 0x9FFFFFFF then Some (va - 0x80000000)
        else if va \<ge> 0xA0000000 \<and> va \<le> 0xBFFFFFFF then Some (va - 0xA0000000)
        else if status_field STATUS_ERL (e_cop0 s) = 1 \<and> va \<le> 0x7FFFFFFF then Some va
        else None
      else None)"

definition entry_translate ::
    "uword \<Rightarrow> tlb_entry \<Rightarrow> uptr \<Rightarrow> MmuRwAccess \<Rightarrow> EeCoreException + uptr" where
  "entry_translate asid e va rw =
     (if \<not> te_g e \<and> asid \<noteq> ucast (te_asid e) then Inl (refill_error rw)
      else
        let i = (if va AND evenodd_mask (te_mask e) \<noteq> 0 then 1 else 0);
            pi = physical_info e i
        in if \<not> pi_v pi then Inl (refill_error rw)
           else if \<not> pi_d pi \<and> rw = WRITE then Inl EX_TLB_MODIFIED
           else if te_s e then Inr (0x70000000 + (va AND 0x3FFF))
           else
             let offset_mask = push_bit 12 (pagemask (te_mask e)) OR 0xFFF
             in Inr (push_bit 12 (pi_pfn pi) OR (va AND offset_mask)))"

definition translate_address_fallback ::
    "uptr \<Rightarrow> MmuRwAccess \<Rightarrow> ee_state \<Rightarrow> (uptr option \<times> ee_state) res" where
  "translate_address_fallback va rw s =
     (let mmu_error = (\<lambda>ex. bind_res (handle_mmu_error va ex (-1) s) (\<lambda>s1. Inr (None, s1))) in
      if \<not> context_allows (c0_operating_context (e_cop0 s)) va then mmu_error (address_error rw)
      else case unmapped_address s va of
        Some pa \<Rightarrow> Inr (Some pa, s)
      | None \<Rightarrow>
          (let tlb_index = find_tlb_entry_index va (e_tlb s) in
           if tlb_index = -1 then mmu_error (refill_error rw)
           else bind_res (tlb_entry_at (nat tlb_index) (e_tlb s)) (\<lambda>e.
             case entry_translate (c0_extract_field C0_ENTRYHI ENTRYHI_ASID (e_cop0 s)) e va rw of
               Inl ex \<Rightarrow> mmu_error ex
             | Inr pa \<Rightarrow> Inr (Some pa, s))))"

definition translate_address_data ::
    "uptr \<Rightarrow> MmuRwAccess \<Rightarrow> ee_state \<Rightarrow> (uptr option \<times> ee_state) res" where
  "translate_address_data va rw s =
     tc_lookup e_tcd (\<lambda>c s. s\<lparr>e_tcd := c\<rparr>) translate_address_fallback va rw s"

definition translate_address_inst :: "uptr \<Rightarrow> ee_state \<Rightarrow> (uptr option \<times> ee_state) res" where
  "translate_address_inst va s =
     tc_lookup e_tci (\<lambda>c s. s\<lparr>e_tci := c\<rparr>) translate_address_fallback va READ s"

section \<open>Every operation keeps the state well-formed\<close>

lemma ee_ok_set_error_address [intro]: "ee_ok s \<Longrightarrow> ee_ok (set_error_address ex s)"
  unfolding set_error_address_def Let_def
  by (auto intro!: ee_ok_upd(9) ee_ok_cop0_upd cop0_inv_cause(2) cop0_inv_raw_write dest: ee_okD(1))

lemma ee_ok_pc_write [intro]: "ee_ok s \<Longrightarrow> ee_ok (pc_upd (w_write_uword v) s)"
  by (rule ee_ok_pc_upd) (simp_all add: w_defs)

lemma ee_ok_pc_offset [intro]: "ee_ok s \<Longrightarrow> ee_ok (pc_upd (w_offset v) s)"
  by (rule ee_ok_pc_upd) simp_all

lemma ee_ok_flush [intro]: "ee_ok s \<Longrightarrow> ee_ok (flush_translation_caches s)"
  by (simp add: ee_ok_def flush_translation_caches_def)

lemma ee_ok_cause_upd [intro]: "ee_ok s \<Longrightarrow> ee_ok (cop0_upd (cause_insert_field f v) s)"
  by (auto intro!: ee_ok_cop0_upd dest: ee_okD)

lemma ee_ok_status_insert [intro]: "ee_ok s \<Longrightarrow> ok_res ee_ok (cop0_res (status_insert_field f v) s)"
  by (auto intro!: ee_ok_cop0_res dest: ee_okD)

lemma ok_enter_handler [intro]:
  assumes "ee_ok s"
  shows "ok_res ee_ok (enter_handler ex base s)"
  unfolding enter_handler_def
proof (rule ok_res_bind[where P = "\<lambda>(off, s). ee_ok s"])
  have "ok_res ee_ok (cop0_res (status_insert_field STATUS_EXL 1) (set_error_address ex s))"
    using assms by (intro ee_ok_status_insert ee_ok_set_error_address)
  then show "ok_res (\<lambda>(off, s). ee_ok s)
      (if status_field STATUS_EXL (e_cop0 s) \<noteq> 0 then Inr (0x00000180, s)
       else bind_res (cop0_res (status_insert_field STATUS_EXL 1) (set_error_address ex s))
              (\<lambda>s1. Inr (exception_vector_offset ex, s1)))"
    using assms by (cases "cop0_res (status_insert_field STATUS_EXL 1) (set_error_address ex s)") auto
qed (auto simp: Let_def intro!: ee_ok_flush ee_ok_pc_write ee_ok_pc_offset)

lemma ok_handle_exception [intro]:
  assumes "ee_ok s"
  shows "ok_res ee_ok (handle_exception ex s)"
  unfolding handle_exception_def
proof (rule ok_res_bind)
  show "ok_res ee_ok (cop0_res (status_insert_field STATUS_ERL (if is_level2 ex then 1 else 0)) s)"
    using assms by (rule ee_ok_status_insert)
qed (simp add: Let_def ee_ok_cause_upd ee_ok_set_error_address ee_ok_pc_write ok_enter_handler)

lemma ok_handle_interrupt_check [intro]:
  assumes "ee_ok s" shows "ok_res ee_ok (handle_interrupt_check s)"
proof -
  obtain ip c1 where c1: "cause_extract_field CAUSE_IP (e_cop0 s) = (ip, c1)" by fastforce
  then have "cop0_inv c1" using cop0_inv_cause(1)[OF ee_okD(1)[OF assms], of CAUSE_IP] by simp
  then have "ee_ok (s\<lparr>e_cop0 := c1\<rparr>)" by (rule ee_ok_upd(8)[OF assms])
  then show ?thesis
    using assms by (simp add: handle_interrupt_check_def c1 Let_def ok_handle_exception)
qed

lemma ok_handle_count_update [intro]: "ee_ok s \<Longrightarrow> ok_res ee_ok (handle_count_update cpi s)"
proof -
  assume a: "ee_ok s"
  then have "ee_ok (cop0_upd (\<lambda>c. c0_raw_write C0_COUNT (c0_raw C0_COUNT c + cpi) c) s)"
    by (auto intro!: ee_ok_cop0_upd cop0_inv_raw_write dest: ee_okD)
  then show ?thesis
    by (auto simp: handle_count_update_def Let_def intro!: ee_ok_cop0_res dest: ee_okD)
qed

text \<open>Well-formed after a computation that also returns a value.\<close>

abbreviation ok_snd :: "('v \<times> ee_state) res \<Rightarrow> bool" where
  "ok_snd m \<equiv> ok_res (\<lambda>(v, s). ee_ok s) m"

lemma ok_with_value: "ok_res ee_ok m \<Longrightarrow> ok_snd (bind_res m (\<lambda>s. Inr (v, s)))"
  by (cases m) simp_all

lemma ok_checks [intro]:
  assumes "ee_ok s"
  shows "ok_snd (handle_cop0_usable s)" "ok_snd (handle_cop1_usable s)"
    "ok_snd (handle_no_over_or_underflow_32_check x y s)"
    "ok_snd (handle_no_over_or_underflow_64_check x' y' s)"
  using assms
  by (auto simp: handle_cop0_usable_def handle_cop1_usable_def coprocessor_unusable_def
      handle_no_over_or_underflow_32_check_def handle_no_over_or_underflow_64_check_def
      intro!: ok_with_value)

lemma ok_guarded [intro]:
  assumes "ok_snd (check s)" and "\<And>s1. ee_ok s1 \<Longrightarrow> ok_res ee_ok (body s1)"
  shows "ok_res ee_ok (guarded check body s)"
  unfolding guarded_def using assms by (cases "check s") auto

lemma ok_handle_mmu_error [intro]:
  assumes "ee_ok s" shows "ok_res ee_ok (handle_mmu_error va ex i s)"
proof -
  have c: "cop0_inv (e_cop0 s)" using assms by (rule ee_okD)
  show ?thesis
    unfolding handle_mmu_error_def Let_def
    by (rule ok_res_bind[where P = cop0_inv])
      (use assms c in \<open>simp_all add: cop0_inv_insert cop0_inv_raw_write ok_handle_exception
        ee_ok_upd(8) tlb_entry_at_def\<close>)
qed

lemma ok_translate_fallback [intro]:
  assumes "ee_ok s" shows "ok_snd (translate_address_fallback va rw s)"
proof -
  have m: "ok_snd (bind_res (handle_mmu_error va ex (-1) s) (\<lambda>s1. Inr (v :: uptr option, s1)))" for ex v
    using assms by (intro ok_with_value ok_handle_mmu_error)
  show ?thesis
    unfolding translate_address_fallback_def Let_def
    using m assms by (auto simp: tlb_entry_at_def split: option.split sum.split)
qed

lemma fallback_hit_state:
  "translate_address_fallback va rw s = Inr (Some pa, s') \<Longrightarrow> s' = s"
  by (cases "tlb_entry_at (nat (find_tlb_entry_index va (e_tlb s))) (e_tlb s)")
    (auto simp: translate_address_fallback_def Let_def split: if_splits option.splits sum.splits)

interpretation ee_data: cached_translation ee_ok e_tcd "\<lambda>c s. s\<lparr>e_tcd := c\<rparr>" translate_address_fallback
  by unfold_locales (auto dest: fallback_hit_state ee_okD(9) intro: ee_ok_upd(12))

interpretation ee_inst: cached_translation ee_ok e_tci "\<lambda>c s. s\<lparr>e_tci := c\<rparr>" translate_address_fallback
  by unfold_locales (auto dest: fallback_hit_state ee_okD(10) intro: ee_ok_upd(13))

lemma ok_translate_data [intro]: "ee_ok s \<Longrightarrow> ok_snd (translate_address_data va rw s)"
  unfolding translate_address_data_def by (rule ee_data.lookup_ok)

lemma ok_translate_inst [intro]: "ee_ok s \<Longrightarrow> ok_snd (translate_address_inst va s)"
  unfolding translate_address_inst_def by (rule ee_inst.lookup_ok)

section \<open>What exception entry does\<close>

lemma bit_status_field:
  "status_field STATUS_EXL c \<noteq> 0 \<longleftrightarrow> bit (c0_raw C0_STATUS c) 1"
  "status_field STATUS_ERL c = 1 \<longleftrightarrow> bit (c0_raw C0_STATUS c) 2"
  "status_field STATUS_DEV c \<noteq> 0 \<longleftrightarrow> bit (c0_raw C0_STATUS c) 23"
  "status_field STATUS_BEV c \<noteq> 0 \<longleftrightarrow> bit (c0_raw C0_STATUS c) 22"
  by (simp_all add: status_field_def word_defs extract_1_eq)

definition vector_base_of :: "uword \<Rightarrow> uptr" where
  "vector_base_of st = (if bit st 23 \<or> bit st 22 then 0xBFC00200 else 0x80000000)"

lemma exception_vector_base_eq: "exception_vector_base s = vector_base_of (c0_raw C0_STATUS (e_cop0 s))"
  by (simp add: exception_vector_base_def vector_base_of_def bit_status_field)

lemma bit_cause_insert:
  assumes "cop0_inv c"
  shows "bit (c0_raw C0_CAUSE (cause_insert_field f v c)) n \<longleftrightarrow> n < 32 \<and>
    (if bf_start f \<le> n \<and> n < bf_start f + bf_length f then bit v (n - bf_start f)
     else if 8 \<le> n \<and> n < 16 then c0_irq_lines c ! (n - 8) else bit (c0_raw C0_CAUSE c) n)"
  using assms by (auto simp: cause_insert_raw bit_insert_into cause_read_bits)

definition error_pc :: "ee_state \<Rightarrow> uptr" where
  "error_pc s = (if is_branch_pending (e_bdelay s) then pc_val s - 4 else pc_val s)"

lemma set_error_address_cop0:
  "e_cop0 (set_error_address ex s) =
     cause_insert_field (if is_level2 ex then CAUSE_BD2 else CAUSE_BD)
       (if is_branch_pending (e_bdelay s) then 1 else 0)
       (c0_raw_write (if is_level2 ex then C0_ERROREPC else C0_EPC) (error_pc s) (e_cop0 s))"
  by (simp add: set_error_address_def Let_def error_pc_def)

lemma set_error_address_frame [simp]:
  "e_pc (set_error_address ex s) = e_pc s" "e_gpr (set_error_address ex s) = e_gpr s"
  "e_bus (set_error_address ex s) = e_bus s" "e_tlb (set_error_address ex s) = e_tlb s"
  "e_hi (set_error_address ex s) = e_hi s" "e_lo (set_error_address ex s) = e_lo s"
  "is_branch_pending (e_bdelay (set_error_address ex s)) = False"
  by (simp_all add: set_error_address_def Let_def is_branch_pending_def stop_branch_def)

lemma set_error_address_raw:
  assumes "ee_ok s"
  shows "c0_raw C0_STATUS (e_cop0 (set_error_address ex s)) = c0_raw C0_STATUS (e_cop0 s)"
    "c0_raw (if is_level2 ex then C0_ERROREPC else C0_EPC) (e_cop0 (set_error_address ex s)) = error_pc s"
    "\<not> is_level2 ex \<Longrightarrow> bit (c0_raw C0_CAUSE (e_cop0 (set_error_address ex s))) n \<longleftrightarrow>
      (if n = 31 then is_branch_pending (e_bdelay s)
       else if 8 \<le> n \<and> n < 16 then c0_irq_lines (e_cop0 s) ! (n - 8)
       else bit (c0_raw C0_CAUSE (e_cop0 s)) n)"
    "c0_irq_lines (e_cop0 (set_error_address ex s)) = c0_irq_lines (e_cop0 s)"
proof -
  have i: "cop0_inv (e_cop0 s)" using assms by (rule ee_okD)
  have j: "cop0_inv (c0_raw_write (if is_level2 ex then C0_ERROREPC else C0_EPC) (error_pc s) (e_cop0 s))"
    using i by (intro cop0_inv_raw_write) simp_all
  show "c0_raw C0_STATUS (e_cop0 (set_error_address ex s)) = c0_raw C0_STATUS (e_cop0 s)"
    "c0_irq_lines (e_cop0 (set_error_address ex s)) = c0_irq_lines (e_cop0 s)"
    by (simp_all add: set_error_address_cop0 c0_raw_write_other)
  show "c0_raw (if is_level2 ex then C0_ERROREPC else C0_EPC) (e_cop0 (set_error_address ex s)) = error_pc s"
    using i by (simp add: set_error_address_cop0 c0_raw_write_get)
  show "bit (c0_raw C0_CAUSE (e_cop0 (set_error_address ex s))) n \<longleftrightarrow>
      (if n = 31 then is_branch_pending (e_bdelay s)
       else if 8 \<le> n \<and> n < 16 then c0_irq_lines (e_cop0 s) ! (n - 8)
       else bit (c0_raw C0_CAUSE (e_cop0 s)) n)" if "\<not> is_level2 ex"
    using that i j
    by (auto simp: set_error_address_cop0 bit_cause_insert word_defs c0_raw_write_other
        dest: bit_imp_le_length)
qed

lemma status_context_Some:
  "\<not> (bit v 3 \<and> bit v 4) \<or> bit v 1 \<or> bit v 2 \<Longrightarrow> \<exists>ctx. status_context v = Some ctx"
  by (auto simp: status_context_def)

text \<open>
  The first two writes of the handler: the error level and the code.  They succeed unless
  KSU holds the value no context has.
\<close>

lemma handler_prologue:
  assumes ok: "ee_ok s" and ksu: "\<not> (bit (c0_raw C0_STATUS (e_cop0 s)) 3 \<and> bit (c0_raw C0_STATUS (e_cop0 s)) 4)"
  obtains s2 where
    "handle_exception ex s =
       (if ex = EX_RESET \<or> ex = EX_NMI then Inr (pc_upd (w_write_uword 0xBFC00000) (set_error_address ex s2))
        else enter_handler ex (exception_vector_base s2) s2)"
    "ee_ok s2"
    "\<And>n. bit (c0_raw C0_STATUS (e_cop0 s2)) n \<longleftrightarrow>
      (if n = 2 then is_level2 ex else bit (c0_raw C0_STATUS (e_cop0 s)) n)"
    "\<And>n. n \<noteq> C0_STATUS \<Longrightarrow> n \<noteq> C0_CAUSE \<Longrightarrow> c0_raw n (e_cop0 s2) = c0_raw n (e_cop0 s)"
    "\<And>n. \<not> is_level2 ex \<Longrightarrow> bit (c0_raw C0_CAUSE (e_cop0 s2)) n \<longleftrightarrow>
      (if 2 \<le> n \<and> n < 7 then bit (exccode ex) (n - 2)
       else if 8 \<le> n \<and> n < 16 then c0_irq_lines (e_cop0 s) ! (n - 8)
       else bit (c0_raw C0_CAUSE (e_cop0 s)) n)"
    "c0_irq_lines (e_cop0 s2) = c0_irq_lines (e_cop0 s)"
    "e_pc s2 = e_pc s" "e_bdelay s2 = e_bdelay s" "e_gpr s2 = e_gpr s" "e_bus s2 = e_bus s"
    "e_hi s2 = e_hi s" "e_lo s2 = e_lo s"
proof -
  let ?v = "if is_level2 ex then 1 else 0 :: uword"
  let ?st = "insert_into STATUS_ERL (c0_raw C0_STATUS (e_cop0 s)) ?v"
  have b: "bit ?st n \<longleftrightarrow> (if n = 2 then is_level2 ex else bit (c0_raw C0_STATUS (e_cop0 s)) n)" for n
    by (auto simp: bit_insert_into word_defs dest: bit_imp_le_length)
  then obtain ctx where ctx: "status_context ?st = Some ctx"
    using status_context_Some[of ?st] ksu by auto
  obtain c' where c': "status_insert_field STATUS_ERL ?v (e_cop0 s) = Inr c'" "cop0_inv c'"
    "c0_raw C0_STATUS c' = ?st" "\<And>n. n \<noteq> C0_STATUS \<Longrightarrow> c0_raw n c' = c0_raw n (e_cop0 s)"
    "c0_irq_lines c' = c0_irq_lines (e_cop0 s)"
    using status_insert_spec[OF ee_okD(1)[OF ok] ctx] by metis
  let ?f = "if is_level2 ex then CAUSE_EXC2 else CAUSE_EXCCODE"
  let ?s2 = "cop0_upd (cause_insert_field ?f (exccode ex)) (s\<lparr>e_cop0 := c'\<rparr>)"
  show ?thesis
  proof (rule that[of ?s2])
    show "handle_exception ex s =
       (if ex = EX_RESET \<or> ex = EX_NMI then Inr (pc_upd (w_write_uword 0xBFC00000) (set_error_address ex ?s2))
        else enter_handler ex (exception_vector_base ?s2) ?s2)"
      by (simp add: handle_exception_def cop0_res_def c'(1) Let_def)
    show "ee_ok ?s2" using ee_ok_upd(8)[OF ok c'(2)] by (rule ee_ok_cause_upd)
    show "bit (c0_raw C0_CAUSE (e_cop0 ?s2)) n \<longleftrightarrow>
      (if 2 \<le> n \<and> n < 7 then bit (exccode ex) (n - 2)
       else if 8 \<le> n \<and> n < 16 then c0_irq_lines (e_cop0 s) ! (n - 8)
       else bit (c0_raw C0_CAUSE (e_cop0 s)) n)" if "\<not> is_level2 ex" for n
      using that c' by (auto simp: bit_cause_insert word_defs dest: bit_imp_le_length)
  qed (use b c' in simp_all)
qed

text \<open>The handler proper, outside and inside another handler.\<close>

lemma enter_handler_fresh:
  assumes ok: "ee_ok s" and exl: "\<not> bit (c0_raw C0_STATUS (e_cop0 s)) 1"
    and ex: "ex \<noteq> EX_INTERRUPT \<Longrightarrow> adj = -4" "ex = EX_INTERRUPT \<Longrightarrow> adj = 0"
  obtains s' where "enter_handler ex base s = Inr s'"
    "\<And>n. bit (c0_raw C0_STATUS (e_cop0 s')) n \<longleftrightarrow> n = 1 \<or> bit (c0_raw C0_STATUS (e_cop0 s)) n"
    "c0_operating_context (e_cop0 s') = Kernel" "c0_interrupts_masked (e_cop0 s')"
    "c0_raw (if is_level2 ex then C0_ERROREPC else C0_EPC) (e_cop0 s') = error_pc s"
    "c0_raw C0_CAUSE (e_cop0 s') = c0_raw C0_CAUSE (e_cop0 (set_error_address ex s))"
    "pc_val s' = base + exception_vector_offset ex + adj"
    "e_tcd s' = TranslationCache_new" "e_tci s' = TranslationCache_new"
    "\<not> is_branch_pending (e_bdelay s')" "e_gpr s' = e_gpr s" "e_bus s' = e_bus s" "ee_ok s'"
proof -
  let ?s1 = "set_error_address ex s"
  let ?st = "insert_into STATUS_EXL (c0_raw C0_STATUS (e_cop0 ?s1)) 1"
  have ok1: "ee_ok ?s1" using ok by (rule ee_ok_set_error_address)
  have b: "bit ?st k \<longleftrightarrow> k = 1 \<or> bit (c0_raw C0_STATUS (e_cop0 s)) k" for k
    using set_error_address_raw(1)[OF ok, of ex]
    by (auto simp: bit_insert_into word_defs dest: bit_imp_le_length)
  then have ctx: "status_context ?st = Some Kernel" by (simp add: status_context_def)
  obtain c' where c': "status_insert_field STATUS_EXL 1 (e_cop0 ?s1) = Inr c'" "cop0_inv c'"
    "c0_raw C0_STATUS c' = ?st" "c0_operating_context c' = Kernel"
    "\<And>n. n \<noteq> C0_STATUS \<Longrightarrow> c0_raw n c' = c0_raw n (e_cop0 ?s1)"
    using status_insert_spec[OF ee_okD(1)[OF ok1] ctx] by metis
  have m: "c0_interrupts_masked c'"
    using c'(2,3) b by (simp add: cop0_inv_def status_masked_def)
  let ?s2 = "pc_upd (w_write_uword (base + exception_vector_offset ex)) (?s1\<lparr>e_cop0 := c'\<rparr>)"
  let ?s' = "flush_translation_caches (if ex \<noteq> EX_INTERRUPT then pc_upd (w_offset (-4)) ?s2 else ?s2)"
  have e: "enter_handler ex base s = Inr ?s'"
    using exl by (simp add: enter_handler_def bit_status_field cop0_res_def c'(1) Let_def)
  have ro: "\<not> reg_read_only (e_pc s)" using ok by (rule ee_okD)
  show ?thesis
  proof (rule that[OF e])
    show "c0_raw (if is_level2 ex then C0_ERROREPC else C0_EPC) (e_cop0 ?s') = error_pc s"
      using set_error_address_raw(2)[OF ok, of ex] c'(5)
      by (auto simp: flush_translation_caches_def split: if_splits)
    show "pc_val ?s' = base + exception_vector_offset ex + adj"
      using ex ro by (auto simp: flush_translation_caches_def w_offset_def w_defs)
    show "ee_ok ?s'"
      using ok_enter_handler[OF ok, of ex base] e by simp
  qed (use c' m b in \<open>auto simp: flush_translation_caches_def\<close>)
qed

lemma enter_handler_nested:
  assumes ok: "ee_ok s" and exl: "bit (c0_raw C0_STATUS (e_cop0 s)) 1"
  shows "enter_handler ex base s =
    Inr (flush_translation_caches (pc_upd (w_write_uword
          (if ex = EX_INTERRUPT then base + 0x180 else base + 0x180 - 4)) s))"
  using exl ee_okD(3)[OF ok]
  by (auto simp: enter_handler_def bit_status_field Let_def pc_upd_def w_offset_def w_defs
      reg_write_def reg_read_def)

text \<open>
  The contract of exception entry at level 1, from a state not already in a handler: the
  saved PC and BD bit, the code, the new mode, the vector.
\<close>

definition level1_entry :: "EeCoreException \<Rightarrow> ee_state \<Rightarrow> ee_state \<Rightarrow> bool" where
  "level1_entry ex s s' \<longleftrightarrow>
     c0_raw C0_EPC (e_cop0 s') = error_pc s \<and>
     (bit (c0_raw C0_CAUSE (e_cop0 s')) 31 \<longleftrightarrow> is_branch_pending (e_bdelay s)) \<and>
     extract_from CAUSE_EXCCODE (c0_raw C0_CAUSE (e_cop0 s')) = exccode ex \<and>
     (\<forall>n. bit (c0_raw C0_STATUS (e_cop0 s')) n \<longleftrightarrow>
        n = 1 \<or> n \<noteq> 2 \<and> bit (c0_raw C0_STATUS (e_cop0 s)) n) \<and>
     c0_operating_context (e_cop0 s') = Kernel \<and> c0_interrupts_masked (e_cop0 s') \<and>
     \<not> is_branch_pending (e_bdelay s') \<and>
     pc_val s' + (if ex = EX_INTERRUPT then 0 else 4) =
       vector_base_of (c0_raw C0_STATUS (e_cop0 s)) + exception_vector_offset ex \<and>
     e_tcd s' = TranslationCache_new \<and> e_tci s' = TranslationCache_new \<and>
     e_gpr s' = e_gpr s \<and> e_bus s' = e_bus s"

lemma exccode_level1: "\<not> is_level2 ex \<Longrightarrow> exccode ex < 16"
  by (cases ex) (simp_all add: exccode_def is_level2_def)

lemma extract_exccode_eqI:
  assumes "v < (16 :: uword)" and "\<And>n. 2 \<le> n \<Longrightarrow> n < 7 \<Longrightarrow> bit w n \<longleftrightarrow> bit v (n - 2)"
  shows "extract_from CAUSE_EXCCODE w = v"
proof (rule bit_word_eqI)
  have t: "take_bit 4 v = v" using assms(1)
    by (simp add: word_less_nat_alt take_bit_nat_eq_self unsigned_take_bit_eq word_unat_eq_iff)
  fix n assume "n < LENGTH(32)"
  have "n < 4" if "bit v n" using that t by (metis bit_take_bit_iff)
  then show "bit (extract_from CAUSE_EXCCODE w) n = bit v n"
    using assms(2)[of "2 + n"] by (auto simp: bit_extract_from word_defs)
qed

lemma handle_exception_level1_fresh:
  assumes ok: "ee_ok s" and l1: "\<not> is_level2 ex"
    and exl: "\<not> bit (c0_raw C0_STATUS (e_cop0 s)) 1"
    and ksu: "\<not> (bit (c0_raw C0_STATUS (e_cop0 s)) 3 \<and> bit (c0_raw C0_STATUS (e_cop0 s)) 4)"
  shows "\<exists>s'. handle_exception ex s = Inr s' \<and> level1_entry ex s s' \<and> ee_ok s'"
proof -
  obtain s2 where s2: "handle_exception ex s =
       (if ex = EX_RESET \<or> ex = EX_NMI then Inr (pc_upd (w_write_uword 0xBFC00000) (set_error_address ex s2))
        else enter_handler ex (exception_vector_base s2) s2)"
    "ee_ok s2"
    "\<And>n. bit (c0_raw C0_STATUS (e_cop0 s2)) n \<longleftrightarrow>
      (if n = 2 then is_level2 ex else bit (c0_raw C0_STATUS (e_cop0 s)) n)"
    "\<And>n. bit (c0_raw C0_CAUSE (e_cop0 s2)) n \<longleftrightarrow>
      (if 2 \<le> n \<and> n < 7 then bit (exccode ex) (n - 2)
       else if 8 \<le> n \<and> n < 16 then c0_irq_lines (e_cop0 s) ! (n - 8)
       else bit (c0_raw C0_CAUSE (e_cop0 s)) n)"
    "e_pc s2 = e_pc s" "e_bdelay s2 = e_bdelay s" "e_gpr s2 = e_gpr s" "e_bus s2 = e_bus s"
    by (rule handler_prologue[OF ok ksu, of ex], rule that) (assumption | simp only: l1 simp_thms)+
  let ?base = "exception_vector_base s2"
  let ?adj = "if ex = EX_INTERRUPT then 0 else -4"
  have exl2: "\<not> bit (c0_raw C0_STATUS (e_cop0 s2)) 1" using exl s2(3)[of 1] by simp
  have base: "?base = vector_base_of (c0_raw C0_STATUS (e_cop0 s))"
    using s2(3) by (simp add: exception_vector_base_eq vector_base_of_def)
  have h: "handle_exception ex s = enter_handler ex ?base s2"
    using s2(1) l1 by (auto simp: is_level2_def)
  obtain s' where s': "enter_handler ex ?base s2 = Inr s'" "ee_ok s'"
    "c0_operating_context (e_cop0 s') = Kernel" "c0_interrupts_masked (e_cop0 s')"
    "c0_raw C0_EPC (e_cop0 s') = error_pc s2"
    "c0_raw C0_CAUSE (e_cop0 s') = c0_raw C0_CAUSE (e_cop0 (set_error_address ex s2))"
    "pc_val s' = ?base + exception_vector_offset ex + ?adj"
    "e_tcd s' = TranslationCache_new" "e_tci s' = TranslationCache_new"
    "\<not> is_branch_pending (e_bdelay s')" "e_gpr s' = e_gpr s2" "e_bus s' = e_bus s2"
    "\<And>n. bit (c0_raw C0_STATUS (e_cop0 s')) n \<longleftrightarrow> n = 1 \<or> bit (c0_raw C0_STATUS (e_cop0 s2)) n"
    by (rule enter_handler_fresh[OF s2(2) exl2, of ex ?adj ?base]; (rule that)?)
      (assumption | simp add: l1)+
  have cause: "bit (c0_raw C0_CAUSE (e_cop0 s')) n \<longleftrightarrow>
      (if n = 31 then is_branch_pending (e_bdelay s)
       else if 8 \<le> n \<and> n < 16 then c0_irq_lines (e_cop0 s2) ! (n - 8)
       else bit (c0_raw C0_CAUSE (e_cop0 s2)) n)" for n
    using set_error_address_raw(3)[OF s2(2) l1, of n] s'(6) s2(6) by simp
  have code: "extract_from CAUSE_EXCCODE (c0_raw C0_CAUSE (e_cop0 s')) = exccode ex"
    using exccode_level1[OF l1] by (rule extract_exccode_eqI) (simp add: cause s2(4))
  have "level1_entry ex s s'"
    unfolding level1_entry_def
    using s' s2 l1 code cause[of 31] base by (simp add: error_pc_def)
  then show ?thesis using h s' by auto
qed

end
