(* ===== verification/Translation.thy ===== *)
theory Translation
  imports EeState
begin

text \<open>
  Translation through a cache of 4 KB pages: the arithmetic of pages, and the locale of full
  lookups that treat the bytes of a page alike, where a cached lookup answers what the full
  lookup does.  The EE core and the I/O processor both instantiate it.
\<close>

section \<open>Page arithmetic\<close>

abbreviation page_of :: "uptr \<Rightarrow> uptr" where
  "page_of va \<equiv> va AND NOT cache_mask"

lemma cache_mask_eq: "cache_mask = mask 12"
  by (simp add: cache_mask_def mask_eq_exp_minus_1)

lemma bit_cache_mask: "bit cache_mask n \<longleftrightarrow> n < 12"
  by (simp only: cache_mask_eq bit_mask_iff) auto

lemma bit_not_cache_mask: "bit (NOT cache_mask) n \<longleftrightarrow> n < 32 \<and> 12 \<le> n"
  by (auto simp: bit_not_iff bit_cache_mask dest: bit_imp_le_length)

lemma bit_page_of: "bit (page_of va) n \<longleftrightarrow> 12 \<le> n \<and> bit va n"
  by (auto simp: bit_simps bit_cache_mask dest: bit_imp_le_length)

lemma unat_page_of: "unat (page_of va) = unat va div 4096 * 4096"
proof -
  have "page_of va = push_bit 12 (drop_bit 12 va)"
    by (rule bit_word_eqI) (auto simp: bit_page_of bit_simps bit_cache_mask)
  also have "\<dots> = drop_bit 12 va * 4096" by (simp add: push_bit_eq_mult)
  finally have p: "page_of va = drop_bit 12 va * 4096" .
  have d: "unat (drop_bit 12 va) = unat va div 4096"
    by (simp add: drop_bit_eq_div unat_div)
  have "unat va < 2 ^ 32" using unsigned_less[of va] by simp
  then have "unat (drop_bit 12 va) * unat (4096 :: uptr) < 2 ^ LENGTH(32)"
    using times_div_less_eq_dividend[of 4096 "unat va"] by (simp add: d mult.commute)
  then have "unat (drop_bit 12 va * 4096) = unat (drop_bit 12 va) * unat (4096 :: uptr)"
    by (simp only: unat_mult_lem)
  then show ?thesis by (simp add: p d)
qed

lemma div_floor_le:
  fixes a b d :: nat
  assumes "b mod d = d - 1" and "0 < d"
  shows "a div d * d \<le> b \<longleftrightarrow> a \<le> b"
proof
  assume "a div d * d \<le> b"
  then have "a div d \<le> b div d" using assms(2) by (simp add: less_eq_div_iff_mult_less_eq)
  then have "a div d * d \<le> b div d * d" by (rule mult_le_mono1)
  moreover have "a mod d \<le> b mod d" using assms mod_less_divisor[of d a] by linarith
  ultimately show "a \<le> b" by (metis add_mono div_mult_mod_eq)
qed (metis div_times_less_eq_dividend le_trans)

lemma div_floor_ge:
  fixes a b d :: nat
  assumes "b mod d = 0"
  shows "b \<le> a div d * d \<longleftrightarrow> b \<le> a"
proof
  assume "b \<le> a"
  then have "b div d * d \<le> a div d * d" by (intro mult_le_mono1 div_le_mono)
  then show "b \<le> a div d * d" using assms by (metis add.right_neutral div_mult_mod_eq)
qed (metis div_times_less_eq_dividend le_trans)

lemma page_of_le: "unat b mod 4096 = 4095 \<Longrightarrow> page_of va \<le> b \<longleftrightarrow> va \<le> b"
  by (simp only: word_le_nat_alt unat_page_of) (rule div_floor_le, simp_all)

lemma page_of_ge: "unat b mod 4096 = 0 \<Longrightarrow> b \<le> page_of va \<longleftrightarrow> b \<le> va"
  by (simp only: word_le_nat_alt unat_page_of) (rule div_floor_ge)

lemma page_or_low: "page_of va OR (va AND cache_mask) = va"
  by (rule bit_word_eqI) (auto simp: bit_simps)

lemma page_minus_or_low:
  assumes "take_bit 12 b = 0"
  shows "(page_of va - b) OR (va AND cache_mask) = va - b"
proof -
  have b: "push_bit 12 (drop_bit 12 b) = b"
  proof (rule bit_word_eqI)
    fix n
    have "\<not> bit b n" if "n < 12"
      using assms that by (metis bit_0_eq bit_take_bit_iff bot_apply bot_bool_def)
    then show "bit (push_bit 12 (drop_bit 12 b)) n = bit b n"
      by (cases "n < 12") (auto simp: bit_simps dest: bit_imp_le_length)
  qed
  have k: "push_bit 12 (drop_bit 12 va) = page_of va"
    by (rule bit_word_eqI) (auto simp: bit_page_of bit_simps bit_cache_mask)
  have "push_bit 12 (drop_bit 12 va - drop_bit 12 b) = page_of va - b"
    using b k by (simp add: push_bit_eq_mult left_diff_distrib)
  then have t: "\<not> bit (page_of va - b) n" if "n < 12" for n
    using that by (metis bit_push_bit_iff not_le)
  have d: "(page_of va - b) AND (va AND cache_mask) = 0"
  proof (rule bit_word_eqI)
    fix n assume "n < LENGTH(32)"
    show "bit ((page_of va - b) AND (va AND cache_mask)) n = bit 0 n"
      using t by (auto simp: bit_simps bit_cache_mask)
  qed
  have p: "page_of va AND (va AND cache_mask) = 0"
    by (rule bit_word_eqI) (auto simp: bit_simps)
  have "va = page_of va + (va AND cache_mask)"
    using page_or_low[of va] p by (metis disjunctive_add_eq_or)
  moreover have "(page_of va - b) OR (va AND cache_mask) = (page_of va - b) + (va AND cache_mask)"
    using d by (metis disjunctive_add_eq_or)
  ultimately show ?thesis by (metis add_diff_eq diff_add_eq)
qed

section \<open>Cached lookups agree with full lookups\<close>

text \<open>Every cached translation is one the full lookup gives for a read of that page.\<close>

definition cache_sound :: "('s \<Rightarrow> trans_cache) \<Rightarrow> (uptr \<Rightarrow> MmuRwAccess \<Rightarrow> 's \<Rightarrow> (uptr option \<times> 's) res) \<Rightarrow>
    's \<Rightarrow> bool" where
  "cache_sound cache fb s \<longleftrightarrow>
     (\<forall>key pa. ts_view (cache s) key = Some pa \<longrightarrow> page_of key = key \<and> fb key READ s = Inr (Some pa, s))"

lemma page_of_page_of [simp]: "page_of (page_of va) = page_of va"
  by (rule bit_word_eqI) (simp add: bit_page_of)

lemma tc_new_view: "ts_view TranslationCache_new = Map.empty"
  unfolding TranslationCache_new_def TC_SIZE_pos by (rule ts_lru.view_empty)

lemma cache_sound_flushed: "cache s = TranslationCache_new \<Longrightarrow> cache_sound cache fb s"
  by (simp add: cache_sound_def tc_new_view)

locale paged_translation = cached_translation ok cache set_cache fb
  for ok :: "'s \<Rightarrow> bool" and cache :: "'s \<Rightarrow> trans_cache" and set_cache :: "trans_cache \<Rightarrow> 's \<Rightarrow> 's"
    and fb :: "uptr \<Rightarrow> MmuRwAccess \<Rightarrow> 's \<Rightarrow> (uptr option \<times> 's) res" +
  fixes wf :: "'s \<Rightarrow> bool"
  assumes page: "wf s \<Longrightarrow> fb (page_of va) rw s = Inr (Some pa, s') \<Longrightarrow>
      fb va rw s = Inr (Some (pa OR (va AND cache_mask)), s)"
    and read_if: "fb va rw s = Inr (Some pa, s') \<Longrightarrow> fb va READ s = Inr (Some pa, s)"
    and indep: "fb va rw s = Inr (Some pa, s) \<longleftrightarrow>
      fb va rw (set_cache c s) = Inr (Some pa, set_cache c s)"
    and set_cache_twice: "set_cache c' (set_cache c s) = set_cache c' s"
begin

lemma sound_upd:
  assumes "\<And>key pa. ts_view c key = Some pa \<Longrightarrow> page_of key = key \<and> fb key READ s = Inr (Some pa, s)"
  shows "cache_sound cache fb (set_cache c s)"
  using assms indep[of _ READ s] by (simp add: cache_sound_def cache_set_cache)

text \<open>
  A hit answers with the full lookup's address for a read, a miss with the full lookup's page
  and the offset in it; either leaves the cache sound.
\<close>

lemma hit:
  assumes ok: "ok s" and wf: "wf s" and sound: "cache_sound cache fb s"
    and hit: "ts_view (cache s) (page_of va) = Some pa"
  shows "\<exists>c. tc_lookup cache set_cache fb va rw s = Inr (Some (pa OR (va AND cache_mask)), set_cache c s) \<and>
    fb va READ s = Inr (Some (pa OR (va AND cache_mask)), s) \<and> cache_sound cache fb (set_cache c s)"
proof -
  obtain r c where g: "ts_get (page_of va) (cache s) = (r, c)" by fastforce
  have r: "r = Some pa" and v: "ts_view c = ts_view (cache s)"
    using ts_get_spec[OF cache_ok[OF ok], of "page_of va"] g hit by auto
  have t: "tc_lookup cache set_cache fb va rw s = Inr (Some (pa OR (va AND cache_mask)), set_cache c s)"
    by (simp add: tc_lookup_def g r)
  have "fb (page_of va) READ s = Inr (Some pa, s)" using sound hit by (simp add: cache_sound_def)
  note f = page[OF wf this]
  have "cache_sound cache fb (set_cache c s)"
    by (rule sound_upd) (use sound v in \<open>simp add: cache_sound_def\<close>)
  with t f show ?thesis by blast
qed

lemma miss:
  assumes ok: "ok s" and wf: "wf s" and sound: "cache_sound cache fb s"
    and miss: "ts_view (cache s) (page_of va) = None"
    and fb: "fb (page_of va) rw s = Inr (Some pa, s)"
  shows "\<exists>c. tc_lookup cache set_cache fb va rw s = Inr (Some (pa OR (va AND cache_mask)), set_cache c s) \<and>
    fb va READ s = Inr (Some (pa OR (va AND cache_mask)), s) \<and> cache_sound cache fb (set_cache c s)"
proof -
  let ?k = "page_of va"
  obtain r c where g: "ts_get ?k (cache s) = (r, c)" by fastforce
  have r: "r = None" and v: "ts_view c = ts_view (cache s)" and i: "ts_invar TC_SIZE c"
    using ts_get_spec[OF cache_ok[OF ok], of ?k] g miss by auto
  obtain c' where c': "ts_insert ?k pa c = Inr c'" "ts_view c' \<subseteq>\<^sub>m (ts_view c)(?k \<mapsto> pa)"
    using ts_insert_spec[OF i, of ?k pa] v miss by auto
  have f: "fb ?k rw (set_cache c s) = Inr (Some pa, set_cache c s)" using fb indep by simp
  have t: "tc_lookup cache set_cache fb va rw s = Inr (Some (pa OR (va AND cache_mask)), set_cache c' s)"
    by (simp add: tc_lookup_def g r handle_fallback_def f cache_set_cache c'(1) set_cache_twice)
  have "cache_sound cache fb (set_cache c' s)"
  proof (rule sound_upd)
    fix key pa'
    assume "ts_view c' key = Some pa'"
    then have "((ts_view (cache s))(?k \<mapsto> pa)) key = Some pa'"
      using c'(2) v by (auto simp: map_le_def dom_def)
    then show "page_of key = key \<and> fb key READ s = Inr (Some pa', s)"
      using sound read_if[OF fb] by (auto simp: cache_sound_def split: if_splits)
  qed
  with t page[OF wf read_if[OF fb]] show ?thesis by blast
qed

end

end
