(* ===== verification/EeTranslate.thy ===== *)
theory EeTranslate
  imports EeCore Translation
begin

text \<open>
  What address translation guarantees: the full lookup treats the bytes of a 4 KB page alike,
  so the page-granular translation cache returns for a read what the full lookup returns,
  as long as every cached translation is one the full lookup would give.
\<close>

section \<open>The full lookup is page-granular\<close>

definition tlb_wf :: "ee_tlb \<Rightarrow> bool" where
  "tlb_wf t \<longleftrightarrow> (\<forall>e \<in> set t. \<exists>pm. Mask_new pm = Inr (te_mask e))"

lemma context_allows_page: "context_allows ctx (page_of va) = context_allows ctx va"
  by (simp add: context_allows_def page_of_le page_of_ge)

lemma unmapped_page:
  "unmapped_address s (page_of va) = Some pa \<Longrightarrow>
   unmapped_address s va = Some (pa OR (va AND cache_mask))"
  "unmapped_address s (page_of va) = None \<Longrightarrow> unmapped_address s va = None"
  by (auto simp: unmapped_address_def page_of_le page_of_ge page_minus_or_low page_or_low
      split: if_splits)

lemma entry_match_page: "entry_match (page_of va) e = entry_match va e"
proof -
  have "drop_bit 14 (page_of va) = drop_bit 14 va"
    by (rule bit_word_eqI) (auto simp: bit_simps bit_cache_mask dest: bit_imp_le_length)
  moreover have "drop_bit 13 (page_of va AND m) = drop_bit 13 (va AND m)" for m
    by (rule bit_word_eqI) (auto simp: bit_simps bit_cache_mask dest: bit_imp_le_length)
  ultimately show ?thesis by (simp add: entry_match_def)
qed

lemma find_tlb_page: "find_tlb_entry_index (page_of va) t = find_tlb_entry_index va t"
proof -
  have "is_match t (page_of va) = is_match t va"
    by (rule ext) (simp add: is_match_def entry_match_page)
  then have "tlb_scan t (page_of va) is = tlb_scan t va is" for "is"
    by (induction "is") simp_all
  then show ?thesis by (simp add: find_tlb_entry_index_scan)
qed

lemma Mask_new_fields:
  assumes "Mask_new pm = Inr m"
  obtains n where "12 \<le> n" "n < 32" "evenodd_mask m = 2 ^ n" "pagemask m = pm"
proof (cases "mask_shift pm")
  case None
  then show ?thesis using assms by (simp only: Mask_new_spec option.case) simp
next
  case (Some n)
  then have m: "m = \<lparr>pagemask = pm, evenodd_mask = 2 ^ n, vpn_mask = NOT (mask (Suc n))\<rparr>"
    using assms by (simp only: Mask_new_spec option.case sum.inject)
  have "12 \<le> n \<and> n < 32" using Some by (auto simp: mask_shift_def split: if_splits)
  then show ?thesis using that[of n] m by simp
qed

lemma and_power_page: "12 \<le> n \<Longrightarrow> n < 32 \<Longrightarrow> page_of va AND 2 ^ n \<noteq> 0 \<longleftrightarrow> va AND 2 ^ n \<noteq> (0 :: uptr)"
  by (simp only: and_exp_eq_0 bit_page_of simp_thms)

lemma scratchpad_page:
  "(0x70000000 + (page_of va AND 0x3FFF)) OR (va AND cache_mask) = (0x70000000 :: uptr) + (va AND 0x3FFF)"
proof -
  have m: "(0x3FFF :: uptr) = mask 14" by (simp add: mask_eq_exp_minus_1)
  have p: "(0x70000000 :: uptr) = push_bit 28 7" by (simp add: push_bit_eq_mult)
  have z: "push_bit 28 7 AND (w AND mask 14) = (0 :: uptr)" for w
    by (rule bit_word_eqI) (simp only: bit_and_iff bit_push_bit_iff bit_mask_iff, auto)
  have "push_bit 28 7 + (w AND mask 14) = (push_bit 28 7 :: uptr) OR (w AND mask 14)" for w
    using z by (metis disjunctive_add_eq_or)
  then show ?thesis
    unfolding m p
    by (intro bit_word_eqI)
      (simp only: bit_or_iff bit_and_iff bit_mask_iff bit_not_cache_mask bit_cache_mask, auto)
qed

lemma frame_page:
  "(push_bit 12 pfn OR (page_of va AND (pm12 OR 0xFFF))) OR (va AND cache_mask) =
      push_bit 12 pfn OR (va AND (pm12 OR (0xFFF :: uptr)))"
proof -
  have m: "(0xFFF :: uptr) = cache_mask" by (simp only: cache_mask_def)
  show ?thesis
    unfolding m
    by (intro bit_word_eqI)
      (simp only: bit_or_iff bit_and_iff bit_not_cache_mask bit_cache_mask, auto)
qed

lemma entry_translate_page:
  assumes "Mask_new pm = Inr (te_mask e)"
  shows "entry_translate asid e va rw =
    (case entry_translate asid e (page_of va) rw of
       Inl ex \<Rightarrow> Inl ex | Inr pa \<Rightarrow> Inr (pa OR (va AND cache_mask)))"
proof -
  obtain n where n: "12 \<le> n" "n < 32" "evenodd_mask (te_mask e) = 2 ^ n"
    using Mask_new_fields[OF assms] by metis
  have eo: "page_of va AND evenodd_mask (te_mask e) \<noteq> 0 \<longleftrightarrow> va AND evenodd_mask (te_mask e) \<noteq> 0"
    using n and_power_page by simp
  show ?thesis
    unfolding entry_translate_def Let_def eo
    by (simp only: scratchpad_page frame_page sum.case if_distrib[of "case_sum _ _"] cong: if_cong)
qed

lemma tlb_wf_entry:
  "tlb_wf t \<Longrightarrow> tlb_entry_at i t = Inr e \<Longrightarrow> \<exists>pm. Mask_new pm = Inr (te_mask e)"
  by (auto simp: tlb_wf_def tlb_entry_at_def split: if_splits)

lemma fallback_page:
  assumes wf: "tlb_wf (e_tlb s)"
    and hit: "translate_address_fallback (page_of va) rw s = Inr (Some pa, s')"
  shows "translate_address_fallback va rw s = Inr (Some (pa OR (va AND cache_mask)), s)"
proof (cases "unmapped_address s (page_of va)")
  case (Some pa')
  then show ?thesis
    using hit unmapped_page(1)[OF Some]
    by (simp add: translate_address_fallback_def Let_def context_allows_page split: if_splits)
next
  case None
  then have "context_allows (c0_operating_context (e_cop0 s)) va"
    and "find_tlb_entry_index va (e_tlb s) \<noteq> -1"
    using hit by (auto simp: translate_address_fallback_def Let_def context_allows_page
        find_tlb_page split: if_splits)
  moreover obtain e where e: "tlb_entry_at (nat (find_tlb_entry_index va (e_tlb s))) (e_tlb s) = Inr e"
    and t: "entry_translate (c0_extract_field C0_ENTRYHI ENTRYHI_ASID (e_cop0 s)) e (page_of va) rw = Inr pa"
    using hit None calculation
    by (cases "tlb_entry_at (nat (find_tlb_entry_index va (e_tlb s))) (e_tlb s)")
      (auto simp: translate_address_fallback_def Let_def context_allows_page find_tlb_page
        split: if_splits sum.splits)
  moreover obtain pm where "Mask_new pm = Inr (te_mask e)" using tlb_wf_entry[OF wf e] by blast
  ultimately show ?thesis
    using unmapped_page(2)[OF None] entry_translate_page[of pm e _ va rw]
    by (simp add: translate_address_fallback_def Let_def)
qed

section \<open>The cached lookup agrees with the full lookup\<close>

definition data_cache_sound :: "ee_state \<Rightarrow> bool" where
  "data_cache_sound s \<longleftrightarrow> cache_sound e_tcd translate_address_fallback s"

lemma fallback_read_if:
  "translate_address_fallback va rw s = Inr (Some pa, s') \<Longrightarrow>
   translate_address_fallback va READ s = Inr (Some pa, s)"
proof -
  assume a: "translate_address_fallback va rw s = Inr (Some pa, s')"
  have e: "entry_translate asid e va READ = Inr pa" if "entry_translate asid e va rw = Inr pa" for asid e
    using that by (auto simp: entry_translate_def Let_def split: if_splits)
  show ?thesis
    using a e
    by (cases "tlb_entry_at (nat (find_tlb_entry_index va (e_tlb s))) (e_tlb s)")
      (auto simp: translate_address_fallback_def Let_def split: if_splits option.splits sum.splits)
qed

lemma fallback_tcd:
  "translate_address_fallback va rw s = Inr (Some pa, s) \<longleftrightarrow>
   translate_address_fallback va rw (s\<lparr>e_tcd := c\<rparr>) = Inr (Some pa, s\<lparr>e_tcd := c\<rparr>)"
  by (cases "tlb_entry_at (nat (find_tlb_entry_index va (e_tlb s))) (e_tlb s)")
    (auto simp: translate_address_fallback_def Let_def unmapped_address_def
      split: if_splits option.splits sum.splits)

lemma data_cache_sound_flushed: "e_tcd s = TranslationCache_new \<Longrightarrow> data_cache_sound s"
  unfolding data_cache_sound_def by (rule cache_sound_flushed)

interpretation ee_paged: paged_translation ee_ok e_tcd "\<lambda>c s. s\<lparr>e_tcd := c\<rparr>" translate_address_fallback
    "\<lambda>s. tlb_wf (e_tlb s)"
  by unfold_locales (auto dest: fallback_page fallback_read_if simp: fallback_tcd[symmetric])

lemmas translate_data_hit = ee_paged.hit[folded data_cache_sound_def translate_address_data_def]
lemmas translate_data_miss = ee_paged.miss[folded data_cache_sound_def translate_address_data_def]

text \<open>The page as a whole translates exactly when one of its bytes does.\<close>

lemma entry_translate_page_ok:
  assumes "Mask_new pm = Inr (te_mask e)" and "entry_translate asid e va rw = Inr pa"
  shows "\<exists>pa'. entry_translate asid e (page_of va) rw = Inr pa'"
  using assms entry_translate_page[OF assms(1), of asid va rw]
  by (cases "entry_translate asid e (page_of va) rw") auto

lemma unmapped_page_iff: "unmapped_address s (page_of va) = None \<longleftrightarrow> unmapped_address s va = None"
  using unmapped_page[of s va] by (cases "unmapped_address s (page_of va)") auto

lemma fallback_page_ok:
  assumes wf: "tlb_wf (e_tlb s)" and hit: "translate_address_fallback va rw s = Inr (Some pa, s')"
  shows "\<exists>pa'. translate_address_fallback (page_of va) rw s = Inr (Some pa', s)"
proof (cases "unmapped_address s va")
  case (Some x)
  then obtain pa' where "unmapped_address s (page_of va) = Some pa'"
    using unmapped_page_iff[of s va] by (cases "unmapped_address s (page_of va)") auto
  then show ?thesis
    using hit by (simp add: translate_address_fallback_def Let_def context_allows_page split: if_splits)
next
  case None
  then have c: "context_allows (c0_operating_context (e_cop0 s)) va"
    and i: "find_tlb_entry_index va (e_tlb s) \<noteq> -1"
    using hit by (auto simp: translate_address_fallback_def Let_def split: if_splits)
  obtain e where e: "tlb_entry_at (nat (find_tlb_entry_index va (e_tlb s))) (e_tlb s) = Inr e"
    and t: "entry_translate (c0_extract_field C0_ENTRYHI ENTRYHI_ASID (e_cop0 s)) e va rw = Inr pa"
    using hit None c i
    by (cases "tlb_entry_at (nat (find_tlb_entry_index va (e_tlb s))) (e_tlb s)")
      (auto simp: translate_address_fallback_def Let_def split: if_splits sum.splits)
  obtain pm where "Mask_new pm = Inr (te_mask e)" using tlb_wf_entry[OF wf e] by blast
  then obtain pa' where
      "entry_translate (c0_extract_field C0_ENTRYHI ENTRYHI_ASID (e_cop0 s)) e (page_of va) rw = Inr pa'"
    using entry_translate_page_ok t by blast
  then show ?thesis
    using None c i e unmapped_page_iff[of s va]
    by (simp add: translate_address_fallback_def Let_def context_allows_page find_tlb_page)
qed

end
