(* ===== verification/EeLanes.thy ===== *)
theory EeLanes
  imports EeCore
begin

text \<open>
  What the instruction groups of the interpreter share: reading the lanes of a source
  register, the loops that write a computed array into the lanes of the destination, the
  clamps of the saturating instructions, and the collection \<open>op_ok\<close> of the facts that an
  instruction keeps the state well-formed.
\<close>

named_theorems op_ok
named_theorems op_defs

section \<open>Source lanes\<close>

abbreviation src_b :: "nat \<Rightarrow> nat \<Rightarrow> ee_state \<Rightarrow> ubyte" where
  "src_b n i s \<equiv> q_read_ubyte i (e_gpr s n)"
abbreviation src_h :: "nat \<Rightarrow> nat \<Rightarrow> ee_state \<Rightarrow> uhword" where
  "src_h n i s \<equiv> q_read_uhword i (e_gpr s n)"
abbreviation src_w :: "nat \<Rightarrow> nat \<Rightarrow> ee_state \<Rightarrow> uword" where
  "src_w n i s \<equiv> q_read_uword i (e_gpr s n)"
abbreviation src_d :: "nat \<Rightarrow> nat \<Rightarrow> ee_state \<Rightarrow> udword" where
  "src_d n i s \<equiv> q_read_udword i (e_gpr s n)"

section \<open>Destination loops\<close>

text \<open>\<open>for (i = 0; i < N; i++) reg_dest.write(i, value[i])\<close>.\<close>

definition q_write_ubytes :: "(nat \<Rightarrow> ubyte) \<Rightarrow> qword_register \<Rightarrow> qword_register" where
  "q_write_ubytes val r = fold (\<lambda>i. q_write_ubyte i (val i)) [0..<16] r"
definition q_write_uhwords :: "(nat \<Rightarrow> uhword) \<Rightarrow> qword_register \<Rightarrow> qword_register" where
  "q_write_uhwords val r = fold (\<lambda>i. q_write_uhword i (val i)) [0..<8] r"
definition q_write_uwords :: "(nat \<Rightarrow> uword) \<Rightarrow> qword_register \<Rightarrow> qword_register" where
  "q_write_uwords val r = fold (\<lambda>i. q_write_uword i (val i)) [0..<4] r"
definition q_write_udwords :: "(nat \<Rightarrow> udword) \<Rightarrow> qword_register \<Rightarrow> qword_register" where
  "q_write_udwords val r = fold (\<lambda>i. q_write_udword i (val i)) [0..<2] r"

text \<open>The destination of an instruction is a general purpose register.\<close>

abbreviation dest_d :: "nat \<Rightarrow> udword \<Rightarrow> ee_state \<Rightarrow> ee_state" where
  "dest_d n v s \<equiv> gpr_upd n (q_write_udword 0 v) s"
abbreviation dest_bytes :: "nat \<Rightarrow> (nat \<Rightarrow> ubyte) \<Rightarrow> ee_state \<Rightarrow> ee_state" where
  "dest_bytes n val s \<equiv> gpr_upd n (q_write_ubytes val) s"
abbreviation dest_hwords :: "nat \<Rightarrow> (nat \<Rightarrow> uhword) \<Rightarrow> ee_state \<Rightarrow> ee_state" where
  "dest_hwords n val s \<equiv> gpr_upd n (q_write_uhwords val) s"
abbreviation dest_words :: "nat \<Rightarrow> (nat \<Rightarrow> uword) \<Rightarrow> ee_state \<Rightarrow> ee_state" where
  "dest_words n val s \<equiv> gpr_upd n (q_write_uwords val) s"
abbreviation dest_dwords :: "nat \<Rightarrow> (nat \<Rightarrow> udword) \<Rightarrow> ee_state \<Rightarrow> ee_state" where
  "dest_dwords n val s \<equiv> gpr_upd n (q_write_udwords val) s"

lemma q_writer_fold:
  "(\<And>i. q_writer (f i)) \<Longrightarrow> q_writer (\<lambda>r. fold f is r)"
  by (induction "is") (auto simp: q_writer_def)

lemma q_writer_loops [simp, intro]:
  "q_writer (q_write_ubytes val_b)" "q_writer (q_write_uhwords val_h)"
  "q_writer (q_write_uwords val_w)" "q_writer (q_write_udwords val_d)"
  unfolding q_write_ubytes_def [abs_def] q_write_uhwords_def [abs_def]
    q_write_uwords_def [abs_def] q_write_udwords_def [abs_def]
  by (rule q_writer_fold, simp)+

text \<open>The generic loop over lanes and what it leaves in each of them.\<close>

lemma fold_write_lane_ro:
  "reg_read_only (fold (\<lambda>i. reg_write_lane i (val i)) js r) = reg_read_only r"
  by (induction js arbitrary: r) simp_all

lemma fold_write_lane_get:
  fixes val :: "nat \<Rightarrow> 'b::len word" and r :: "('a::len word) sized_register"
  assumes "\<not> reg_read_only r" and "distinct js" and "\<forall>i\<in>set js. Suc i * LENGTH('b) \<le> LENGTH('a)"
    and "Suc j * LENGTH('b) \<le> LENGTH('a)"
  shows "reg_read_lane j (fold (\<lambda>i. reg_write_lane i (val i)) js r) =
    (if j \<in> set js then val j else reg_read_lane j r)"
  using assms
proof (induction js arbitrary: r)
  case (Cons i js)
  have "get_lane j (put_lane i (val i) (reg_val r)) =
      (if j = i then val i else (get_lane j (reg_val r) :: 'b word))"
    using Cons.prems by (simp add: get_put_lane_other del: mult_Suc)
  then show ?case
    using Cons by (auto simp: reg_read_lane_def reg_val_write)
qed simp

lemma q_write_loops_get:
  assumes "\<not> reg_read_only r"
  shows "i < 16 \<Longrightarrow> q_read_ubyte i (q_write_ubytes val_b r) = val_b i"
    "i < 8 \<Longrightarrow> q_read_uhword i (q_write_uhwords val_h r) = val_h i"
    "i < 4 \<Longrightarrow> q_read_uword i (q_write_uwords val_w r) = val_w i"
    "i < 2 \<Longrightarrow> q_read_udword i (q_write_udwords val_d r) = val_d i"
  using fold_write_lane_get[OF assms, where j = i and val = val_b and js = "[0..<16]"]
    fold_write_lane_get[OF assms, where j = i and val = val_h and js = "[0..<8]"]
    fold_write_lane_get[OF assms, where j = i and val = val_w and js = "[0..<4]"]
    fold_write_lane_get[OF assms, where j = i and val = val_d and js = "[0..<2]"]
  by (auto simp: q_defs [abs_def] q_write_ubytes_def q_write_uhwords_def q_write_uwords_def
      q_write_udwords_def simp del: upt_Suc upt_rec_numeral)

lemma dest_get:
  assumes "ee_ok s" and "n \<noteq> 0"
  shows "i < 16 \<Longrightarrow> src_b n i (dest_bytes n val_b s) = val_b i"
    "i < 8 \<Longrightarrow> src_h n i (dest_hwords n val_h s) = val_h i"
    "i < 4 \<Longrightarrow> src_w n i (dest_words n val_w s) = val_w i"
    "i < 2 \<Longrightarrow> src_d n i (dest_dwords n val_d s) = val_d i"
    "src_d n 0 (dest_d n v s) = v"
    "src_d n (Suc 0) (dest_d n v s) = src_d n (Suc 0) s"
proof -
  have ro: "\<not> reg_read_only (e_gpr s n)" using assms ee_ok_gpr(1)[OF assms(1), of n] by simp
  show "i < 16 \<Longrightarrow> src_b n i (dest_bytes n val_b s) = val_b i"
    "i < 8 \<Longrightarrow> src_h n i (dest_hwords n val_h s) = val_h i"
    "i < 4 \<Longrightarrow> src_w n i (dest_words n val_w s) = val_w i"
    "i < 2 \<Longrightarrow> src_d n i (dest_dwords n val_d s) = val_d i"
    by (simp_all add: gpr_upd_read q_write_loops_get[OF ro])
  show "src_d n 0 (dest_d n v s) = v" "src_d n (Suc 0) (dest_d n v s) = src_d n (Suc 0) s"
    using ro by (simp_all add: gpr_upd_read q_defs reg_read_lane_def get_put_lane_other)
qed

lemma q_writer_pair [simp, intro]:
  "q_writer (\<lambda>r. q_write_udword i x (q_write_udword j y r))"
  by (simp add: q_writer_def q_defs)

lemma dest_pair_get:
  assumes "ee_ok s" and "n \<noteq> 0"
  shows "i < 2 \<Longrightarrow> src_d n i (gpr_upd n (\<lambda>r. q_write_udword 1 v1 (q_write_udword 0 v0 r)) s) =
    (if i = 0 then v0 else v1)"
  using ee_ok_gpr(1)[OF assms(1), of n] assms(2)
  by (auto simp: gpr_upd_read q_defs reg_read_lane_def get_put_lane_other less_2_cases_iff)

lemma dest_zero:
  assumes "ee_ok s" and "q_writer f"
  shows "gpr_upd 0 f s = s"
proof -
  have "f (e_gpr s 0) = e_gpr s 0"
    using assms ee_ok_gpr(1)[OF assms(1), of 0] by (simp add: q_writer_def)
  then show ?thesis by (simp add: gpr_upd_def)
qed

lemma dest_other: "m \<noteq> n \<Longrightarrow> e_gpr (gpr_upd n f s) m = e_gpr s m"
  by (simp add: gpr_upd_read)

section \<open>Clamps\<close>

text \<open>\<open>if (v > hi) v = hi; else if (v < lo) v = lo;\<close> on a signed or an unsigned variable.\<close>

definition clamp_s :: "int \<Rightarrow> int \<Rightarrow> 'a::len word \<Rightarrow> 'a word" where
  "clamp_s lo hi v =
     (if sint v > hi then word_of_int hi else if sint v < lo then word_of_int lo else v)"

definition clamp_u :: "int \<Rightarrow> 'a::len word \<Rightarrow> 'a word" where
  "clamp_u hi v = (if uint v > hi then word_of_int hi else v)"

definition clamp_0 :: "'a::len word \<Rightarrow> 'a word" where
  "clamp_0 v = (if sint v < 0 then 0 else v)"

lemma sint_clamp_s:
  assumes "- (2 ^ (LENGTH('a::len) - 1)) \<le> lo" "lo \<le> hi" "hi < 2 ^ (LENGTH('a) - 1)"
  shows "sint (clamp_s lo hi (v :: 'a word)) = clamp_int lo hi (sint v)"
  using assms by (auto simp: clamp_s_def clamp_int_def sint_word_of_int_id)

lemma uint_clamp_u:
  assumes "0 \<le> hi" "hi < 2 ^ LENGTH('a::len)"
  shows "uint (clamp_u hi (v :: 'a word)) = min hi (uint v)"
  using assms by (auto simp: clamp_u_def unsigned_of_int take_bit_int_eq_self)

lemma sint_clamp_0: "sint (clamp_0 v) = max 0 (sint v)"
  by (simp add: clamp_0_def)

text \<open>The saturating idiom on a value computed in a wider type.\<close>

lemma sint_bounds: "- (2 ^ (LENGTH('a::len) - 1)) \<le> sint (x :: 'a word) \<and> sint x < 2 ^ (LENGTH('a) - 1)"
  using sint_range_size[of x] by (auto simp: word_size)

lemma sint_scast_sum:
  fixes a b :: "'n::len word"
  assumes "LENGTH('n) < LENGTH('w::len)"
  shows "sint (scast a + scast b :: 'w word) = sint a + sint b"
    and "sint (scast a - scast b :: 'w word) = sint a - sint b"
proof -
  have p: "2 * 2 ^ (LENGTH('n) - 1) \<le> (2 ^ (LENGTH('w) - 1) :: int)"
    using assms power_increasing[of "LENGTH('n)" "LENGTH('w) - 1" "2 :: int"]
    by (simp flip: power_Suc)
  have w: "(scast x :: 'w word) = word_of_int (sint x)" for x :: "'n word"
    by simp
  have e: "scast a + scast b = (word_of_int (sint a + sint b) :: 'w word)"
    "scast a - scast b = (word_of_int (sint a - sint b) :: 'w word)"
    by (simp_all only: w wi_hom_syms)
  note r = sint_bounds[of a] sint_bounds[of b] p
  show "sint (scast a + scast b :: 'w word) = sint a + sint b"
    unfolding e by (rule sint_word_of_int_id) (use r in linarith)+
  show "sint (scast a - scast b :: 'w word) = sint a - sint b"
    unfolding e by (rule sint_word_of_int_id) (use r in linarith)+
qed

lemma sint_saturated:
  fixes v :: "'w::len word"
  assumes "LENGTH('n::len) \<le> LENGTH('w)" and "lo = - (2 ^ (LENGTH('n) - 1))" and "hi = 2 ^ (LENGTH('n) - 1) - 1"
  shows "sint (scast (clamp_s lo hi v) :: 'n word) = clamp_int lo hi (sint v)"
proof -
  have p: "(2 ^ (LENGTH('n) - 1) :: int) \<le> 2 ^ (LENGTH('w) - 1)"
    using assms(1) by (intro power_increasing) auto
  have "(0 :: int) < 2 ^ (LENGTH('n) - 1)" by simp
  then have c: "sint (clamp_s lo hi v) = clamp_int lo hi (sint v)"
    by (intro sint_clamp_s) (use assms p in linarith)+
  have b: "lo \<le> clamp_int lo hi (sint v)" "clamp_int lo hi (sint v) \<le> hi"
    using assms(2,3) by (auto simp: clamp_int_def)
  have "(scast (clamp_s lo hi v) :: 'n word) = word_of_int (sint (clamp_s lo hi v))" by simp
  also have "\<dots> = word_of_int (clamp_int lo hi (sint v))" by (simp only: c)
  finally have e: "scast (clamp_s lo hi v) = (word_of_int (clamp_int lo hi (sint v)) :: 'n word)" .
  show ?thesis unfolding e by (rule sint_word_of_int_id) (use b assms in linarith)+
qed


lemma ucast_sum_wide:
  fixes a b :: "'n::len word"
  assumes "LENGTH('n) < LENGTH('w::len)"
  shows "uint (ucast a + ucast b :: 'w word) = uint a + uint b"
    and "sint (ucast a - ucast b :: 'w word) = uint a - uint b"
    and "\<not> uint a < uint b \<Longrightarrow> uint (ucast a - ucast b :: 'w word) = uint a - uint b"
proof -
  have p: "2 * 2 ^ LENGTH('n) \<le> (2 ^ LENGTH('w) :: int)"
    using assms power_increasing[of "Suc (LENGTH('n))" "LENGTH('w)" "2 :: int"] by simp
  have q: "2 ^ LENGTH('n) \<le> (2 ^ (LENGTH('w) - 1) :: int)"
    using assms by (intro power_increasing) auto
  have w: "(ucast x :: 'w word) = word_of_int (uint x)" for x :: "'n word"
    by simp
  have e: "ucast a + ucast b = (word_of_int (uint a + uint b) :: 'w word)"
    "ucast a - ucast b = (word_of_int (uint a - uint b) :: 'w word)"
    by (simp_all only: w wi_hom_syms)
  note r = uint_lt2p[of a] uint_lt2p[of b] uint_ge_0[of a] uint_ge_0[of b] p q
  show "uint (ucast a + ucast b :: 'w word) = uint a + uint b"
    unfolding e uint_word_of_int by (rule mod_pos_pos_trivial) (use r in linarith)+
  show "sint (ucast a - ucast b :: 'w word) = uint a - uint b"
    unfolding e by (rule sint_word_of_int_id) (use r in linarith)+
  show "uint (ucast a - ucast b :: 'w word) = uint a - uint b" if "\<not> uint a < uint b"
    unfolding e uint_word_of_int by (rule mod_pos_pos_trivial) (use r that in linarith)+
qed

lemma uint_ucast_down:
  "uint (y :: 'w::len word) < 2 ^ LENGTH('n::len) \<Longrightarrow> uint (ucast y :: 'n word) = uint y"
  by (simp add: unsigned_ucast_eq take_bit_int_eq_self)

lemma uint_saturated_sum:
  fixes a b :: "'n::len word"
  assumes "LENGTH('n) < LENGTH('w::len)" and h: "hi = 2 ^ LENGTH('n) - 1"
  shows "uint (ucast (clamp_u hi (ucast a + ucast b :: 'w word)) :: 'n word) = min hi (uint a + uint b)"
proof -
  have q: "2 ^ LENGTH('n) \<le> (2 ^ LENGTH('w) :: int)"
    using assms by (intro power_increasing) auto
  have h1: "(1 :: int) \<le> 2 ^ LENGTH('n)" by simp
  have h0: "(0 :: int) \<le> hi" "hi < 2 ^ LENGTH('w)"
    using h q h1 by linarith+
  have c: "uint (clamp_u hi (ucast a + ucast b :: 'w word)) = min hi (uint a + uint b)"
    using uint_clamp_u[OF h0, of "ucast a + ucast b"] by (simp only: ucast_sum_wide(1)[OF assms(1)])
  have "uint (clamp_u hi (ucast a + ucast b :: 'w word)) < 2 ^ LENGTH('n)"
    unfolding c using h by linarith
  from uint_ucast_down[OF this] show ?thesis by (simp only: c)
qed

lemma uint_saturated_difference:
  fixes a b :: "'n::len word"
  assumes "LENGTH('n) < LENGTH('w::len)"
  shows "uint (ucast (clamp_0 (ucast a - ucast b :: 'w word)) :: 'n word) = max 0 (uint a - uint b)"
proof (cases "uint a < uint b")
  case True
  then have "clamp_0 (ucast a - ucast b :: 'w word) = 0"
    unfolding clamp_0_def ucast_sum_wide(2)[OF assms] by simp
  then show ?thesis using True by simp
next
  case False
  then have c: "clamp_0 (ucast a - ucast b :: 'w word) = ucast a - ucast b"
    unfolding clamp_0_def ucast_sum_wide(2)[OF assms] by simp
  have d: "uint (ucast a - ucast b :: 'w word) = uint a - uint b"
    using False by (rule ucast_sum_wide(3)[OF assms])
  have "uint (ucast a - ucast b :: 'w word) < 2 ^ LENGTH('n)"
    unfolding d using uint_lt2p[of a] uint_ge_0[of b] by linarith
  from uint_ucast_down[OF this] show ?thesis unfolding c d using False by linarith
qed

end
