(* ===== verification/EeAddSub.thy ===== *)
theory EeAddSub
  imports EeLanes
begin

text \<open>
  \<open>CEeCoreInterpreter_INTEGER_ADD_SUB.cpp\<close>: the scalar additions and subtractions, with and
  without overflow trap, and the parallel ones, with and without saturation.  A 32-bit C++
  \<open>int\<close> sum that overflows is undefined; it is modelled as the wrapped sum the processor
  computes (the trapping instructions discard it).
\<close>

section \<open>Scalar instructions\<close>

definition ADD :: "instruction \<Rightarrow> ee_state \<Rightarrow> ee_state res" where
  "ADD inst s =
     (let val_source1 = src_w (inst_rs inst) 0 s;
          val_source2 = src_w (inst_rt inst) 0 s;
          result = scast (val_source1 + val_source2)
      in guarded (handle_no_over_or_underflow_32_check val_source1 val_source2)
           (\<lambda>s1. Inr (dest_d (inst_rd inst) result s1)) s)"

definition ADDI :: "instruction \<Rightarrow> ee_state \<Rightarrow> ee_state res" where
  "ADDI inst s =
     (let val_source1 = src_w (inst_rs inst) 0 s;
          val_source2 = scast (inst_s_imm inst);
          result = scast (val_source1 + val_source2)
      in guarded (handle_no_over_or_underflow_32_check val_source1 val_source2)
           (\<lambda>s1. Inr (dest_d (inst_rt inst) result s1)) s)"

definition ADDIU :: "instruction \<Rightarrow> ee_state \<Rightarrow> ee_state" where
  "ADDIU inst s =
     (let val_source1 = src_w (inst_rs inst) 0 s;
          val_source2 = scast (inst_s_imm inst);
          result = scast (val_source1 + val_source2)
      in dest_d (inst_rt inst) result s)"

definition ADDU :: "instruction \<Rightarrow> ee_state \<Rightarrow> ee_state" where
  "ADDU inst s =
     (let val_source1 = src_w (inst_rs inst) 0 s;
          val_source2 = src_w (inst_rt inst) 0 s;
          result = scast (val_source1 + val_source2)
      in dest_d (inst_rd inst) result s)"

definition DADD :: "instruction \<Rightarrow> ee_state \<Rightarrow> ee_state res" where
  "DADD inst s =
     (let val_source1 = src_d (inst_rs inst) 0 s;
          val_source2 = src_d (inst_rt inst) 0 s;
          result = val_source1 + val_source2
      in guarded (handle_no_over_or_underflow_64_check val_source1 val_source2)
           (\<lambda>s1. Inr (dest_d (inst_rd inst) result s1)) s)"

definition DADDI :: "instruction \<Rightarrow> ee_state \<Rightarrow> ee_state res" where
  "DADDI inst s =
     (let val_source1 = src_d (inst_rs inst) 0 s;
          val_source2 = scast (inst_s_imm inst);
          result = val_source1 + val_source2
      in guarded (handle_no_over_or_underflow_64_check val_source1 val_source2)
           (\<lambda>s1. Inr (dest_d (inst_rt inst) result s1)) s)"

definition DADDIU :: "instruction \<Rightarrow> ee_state \<Rightarrow> ee_state" where
  "DADDIU inst s =
     (let val_source1 = src_d (inst_rs inst) 0 s;
          val_source2 = scast (inst_s_imm inst);
          result = val_source1 + val_source2
      in dest_d (inst_rt inst) result s)"

definition DADDU :: "instruction \<Rightarrow> ee_state \<Rightarrow> ee_state" where
  "DADDU inst s =
     (let val_source1 = src_d (inst_rs inst) 0 s;
          val_source2 = src_d (inst_rt inst) 0 s;
          result = val_source1 + val_source2
      in dest_d (inst_rd inst) result s)"

definition DSUB :: "instruction \<Rightarrow> ee_state \<Rightarrow> ee_state res" where
  "DSUB inst s =
     (let val_source1 = src_d (inst_rs inst) 0 s;
          val_source2 = src_d (inst_rt inst) 0 s;
          result = val_source1 - val_source2
      in guarded (handle_no_over_or_underflow_64_check val_source1 val_source2)
           (\<lambda>s1. Inr (dest_d (inst_rd inst) result s1)) s)"

definition DSUBU :: "instruction \<Rightarrow> ee_state \<Rightarrow> ee_state" where
  "DSUBU inst s =
     (let val_source1 = src_d (inst_rs inst) 0 s;
          val_source2 = src_d (inst_rt inst) 0 s;
          result = val_source1 - val_source2
      in dest_d (inst_rd inst) result s)"

definition SUB :: "instruction \<Rightarrow> ee_state \<Rightarrow> ee_state res" where
  "SUB inst s =
     (let val_source1 = src_w (inst_rs inst) 0 s;
          val_source2 = src_w (inst_rt inst) 0 s;
          result = scast (val_source1 - val_source2)
      in guarded (handle_no_over_or_underflow_32_check val_source1 val_source2)
           (\<lambda>s1. Inr (dest_d (inst_rd inst) result s1)) s)"

definition SUBU :: "instruction \<Rightarrow> ee_state \<Rightarrow> ee_state" where
  "SUBU inst s =
     (let val_source1 = src_w (inst_rs inst) 0 s;
          val_source2 = src_w (inst_rt inst) 0 s;
          result = scast (val_source1 - val_source2)
      in dest_d (inst_rd inst) result s)"

section \<open>Parallel instructions\<close>

definition PADDB :: "instruction \<Rightarrow> ee_state \<Rightarrow> ee_state" where
  "PADDB inst s =
     dest_bytes (inst_rd inst)
       (\<lambda>i. src_b (inst_rs inst) i s + src_b (inst_rt inst) i s) s"

definition PADDH :: "instruction \<Rightarrow> ee_state \<Rightarrow> ee_state" where
  "PADDH inst s =
     dest_hwords (inst_rd inst)
       (\<lambda>i. src_h (inst_rs inst) i s + src_h (inst_rt inst) i s) s"

definition PADDSB :: "instruction \<Rightarrow> ee_state \<Rightarrow> ee_state" where
  "PADDSB inst s =
     dest_bytes (inst_rd inst)
       (\<lambda>i. scast (clamp_s (- 128) 127 (scast (src_b (inst_rs inst) i s) + scast (src_b (inst_rt inst) i s) :: uhword))) s"

definition PADDSH :: "instruction \<Rightarrow> ee_state \<Rightarrow> ee_state" where
  "PADDSH inst s =
     dest_hwords (inst_rd inst)
       (\<lambda>i. scast (clamp_s (- 32768) 32767 (scast (src_h (inst_rs inst) i s) + scast (src_h (inst_rt inst) i s) :: uword))) s"

definition PADDSW :: "instruction \<Rightarrow> ee_state \<Rightarrow> ee_state" where
  "PADDSW inst s =
     dest_words (inst_rd inst)
       (\<lambda>i. scast (clamp_s (- 2147483648) 2147483647 (scast (src_w (inst_rs inst) i s) + scast (src_w (inst_rt inst) i s) :: udword))) s"

definition PADDUB :: "instruction \<Rightarrow> ee_state \<Rightarrow> ee_state" where
  "PADDUB inst s =
     dest_bytes (inst_rd inst)
       (\<lambda>i. ucast (clamp_u 255 (ucast (src_b (inst_rs inst) i s) + ucast (src_b (inst_rt inst) i s) :: uhword))) s"

definition PADDUH :: "instruction \<Rightarrow> ee_state \<Rightarrow> ee_state" where
  "PADDUH inst s =
     dest_hwords (inst_rd inst)
       (\<lambda>i. ucast (clamp_u 65535 (ucast (src_h (inst_rs inst) i s) + ucast (src_h (inst_rt inst) i s) :: uword))) s"

definition PADDUW :: "instruction \<Rightarrow> ee_state \<Rightarrow> ee_state" where
  "PADDUW inst s =
     dest_words (inst_rd inst)
       (\<lambda>i. ucast (clamp_u 4294967295 (ucast (src_w (inst_rs inst) i s) + ucast (src_w (inst_rt inst) i s) :: udword))) s"

definition PADDW :: "instruction \<Rightarrow> ee_state \<Rightarrow> ee_state" where
  "PADDW inst s =
     dest_words (inst_rd inst)
       (\<lambda>i. src_w (inst_rs inst) i s + src_w (inst_rt inst) i s) s"

definition PADSBH :: "instruction \<Rightarrow> ee_state \<Rightarrow> ee_state" where
  "PADSBH inst s =
     dest_hwords (inst_rd inst)
       (\<lambda>i. if i < 4 then src_h (inst_rs inst) i s - src_h (inst_rt inst) i s
            else src_h (inst_rs inst) i s + src_h (inst_rt inst) i s) s"

definition PSUBB :: "instruction \<Rightarrow> ee_state \<Rightarrow> ee_state" where
  "PSUBB inst s =
     dest_bytes (inst_rd inst)
       (\<lambda>i. src_b (inst_rs inst) i s - src_b (inst_rt inst) i s) s"

definition PSUBH :: "instruction \<Rightarrow> ee_state \<Rightarrow> ee_state" where
  "PSUBH inst s =
     dest_hwords (inst_rd inst)
       (\<lambda>i. src_h (inst_rs inst) i s - src_h (inst_rt inst) i s) s"

definition PSUBSB :: "instruction \<Rightarrow> ee_state \<Rightarrow> ee_state" where
  "PSUBSB inst s =
     dest_bytes (inst_rd inst)
       (\<lambda>i. scast (clamp_s (- 128) 127 (scast (src_b (inst_rs inst) i s) - scast (src_b (inst_rt inst) i s) :: uhword))) s"

definition PSUBSH :: "instruction \<Rightarrow> ee_state \<Rightarrow> ee_state" where
  "PSUBSH inst s =
     dest_hwords (inst_rd inst)
       (\<lambda>i. scast (clamp_s (- 32768) 32767 (scast (src_h (inst_rs inst) i s) - scast (src_h (inst_rt inst) i s) :: uword))) s"

definition PSUBSW :: "instruction \<Rightarrow> ee_state \<Rightarrow> ee_state" where
  "PSUBSW inst s =
     dest_words (inst_rd inst)
       (\<lambda>i. scast (clamp_s (- 2147483648) 2147483647 (scast (src_w (inst_rs inst) i s) - scast (src_w (inst_rt inst) i s) :: udword))) s"

definition PSUBUB :: "instruction \<Rightarrow> ee_state \<Rightarrow> ee_state" where
  "PSUBUB inst s =
     dest_bytes (inst_rd inst)
       (\<lambda>i. ucast (clamp_0 (ucast (src_b (inst_rs inst) i s) - ucast (src_b (inst_rt inst) i s) :: uhword))) s"

definition PSUBUH :: "instruction \<Rightarrow> ee_state \<Rightarrow> ee_state" where
  "PSUBUH inst s =
     dest_hwords (inst_rd inst)
       (\<lambda>i. ucast (clamp_0 (ucast (src_h (inst_rs inst) i s) - ucast (src_h (inst_rt inst) i s) :: uword))) s"

definition PSUBUW :: "instruction \<Rightarrow> ee_state \<Rightarrow> ee_state" where
  "PSUBUW inst s =
     dest_words (inst_rd inst)
       (\<lambda>i. ucast (clamp_0 (ucast (src_w (inst_rs inst) i s) - ucast (src_w (inst_rt inst) i s) :: udword))) s"

definition PSUBW :: "instruction \<Rightarrow> ee_state \<Rightarrow> ee_state" where
  "PSUBW inst s =
     dest_words (inst_rd inst)
       (\<lambda>i. src_w (inst_rs inst) i s - src_w (inst_rt inst) i s) s"

lemmas add_sub_defs [op_defs] =
  ADD_def ADDI_def ADDIU_def ADDU_def DADD_def DADDI_def DADDIU_def DADDU_def DSUB_def
  DSUBU_def SUB_def SUBU_def PADDB_def PADDH_def PADDSB_def PADDSH_def PADDSW_def PADDUB_def
  PADDUH_def PADDUW_def PADDW_def PADSBH_def PSUBB_def PSUBH_def PSUBSB_def PSUBSH_def
  PSUBSW_def PSUBUB_def PSUBUH_def PSUBUW_def PSUBW_def

section \<open>Well-formedness\<close>

lemma add_sub_ok [op_ok]:
  assumes "ee_ok s"
  shows "ok_res ee_ok (ADD inst s)"
    "ok_res ee_ok (ADDI inst s)"
    "ee_ok (ADDIU inst s)"
    "ee_ok (ADDU inst s)"
    "ok_res ee_ok (DADD inst s)"
    "ok_res ee_ok (DADDI inst s)"
    "ee_ok (DADDIU inst s)"
    "ee_ok (DADDU inst s)"
    "ok_res ee_ok (DSUB inst s)"
    "ee_ok (DSUBU inst s)"
    "ok_res ee_ok (SUB inst s)"
    "ee_ok (SUBU inst s)"
    "ee_ok (PADDB inst s)"
    "ee_ok (PADDH inst s)"
    "ee_ok (PADDSB inst s)"
    "ee_ok (PADDSH inst s)"
    "ee_ok (PADDSW inst s)"
    "ee_ok (PADDUB inst s)"
    "ee_ok (PADDUH inst s)"
    "ee_ok (PADDUW inst s)"
    "ee_ok (PADDW inst s)"
    "ee_ok (PADSBH inst s)"
    "ee_ok (PSUBB inst s)"
    "ee_ok (PSUBH inst s)"
    "ee_ok (PSUBSB inst s)"
    "ee_ok (PSUBSH inst s)"
    "ee_ok (PSUBSW inst s)"
    "ee_ok (PSUBUB inst s)"
    "ee_ok (PSUBUH inst s)"
    "ee_ok (PSUBUW inst s)"
    "ee_ok (PSUBW inst s)"
  using assms
  by (auto simp: add_sub_defs Let_def intro!: ok_guarded ok_checks ee_ok_gpr_upd)

section \<open>What the instructions compute\<close>

lemma guarded_32:
  assumes "no_ovf = (\<not> test_over_or_underflow_32 x y)"
  shows "guarded (handle_no_over_or_underflow_32_check x y) body s =
    (if no_ovf then body s else handle_exception EX_OVERFLOW s)"
  using assms
  by (cases "handle_exception EX_OVERFLOW s")
    (simp_all add: guarded_def handle_no_over_or_underflow_32_check_def)

text \<open>The trapping addition: the exact sum, or the overflow exception and nothing else.\<close>

lemma ADD_exact_or_trap:
  assumes "ee_ok s" and "inst_rd inst \<noteq> 0"
  shows "let x = sint (src_w (inst_rs inst) 0 s); y = sint (src_w (inst_rt inst) 0 s) in
    (if VALUE_SWORD_MIN \<le> x + y \<and> x + y \<le> VALUE_SWORD_MAX
     then \<exists>s'. ADD inst s = Inr s' \<and> sint (src_d (inst_rd inst) 0 s') = x + y \<and>
            src_d (inst_rd inst) 1 s' = src_d (inst_rd inst) 1 s \<and>
            (\<forall>n. n \<noteq> inst_rd inst \<longrightarrow> e_gpr s' n = e_gpr s n)
     else ADD inst s = handle_exception EX_OVERFLOW s)"
proof -
  let ?a = "src_w (inst_rs inst) 0 s" and ?b = "src_w (inst_rt inst) 0 s"
  show ?thesis
  proof (cases "VALUE_SWORD_MIN \<le> sint ?a + sint ?b \<and> sint ?a + sint ?b \<le> VALUE_SWORD_MAX")
    case True
    then have t: "\<not> test_over_or_underflow_32 ?a ?b"
      by (auto simp: test_over_or_underflow_32_iff)
    let ?s = "dest_d (inst_rd inst) (scast (?a + ?b)) s"
    have "sint (scast (?a + ?b) :: udword) = sint ?a + sint ?b"
      using sint_add_exact[of ?a ?b] True by (simp add: sint_up_scast is_up)
    then have "ADD inst s = Inr ?s \<and> sint (src_d (inst_rd inst) 0 ?s) = sint ?a + sint ?b"
      using t assms by (simp add: ADD_def Let_def guarded_32 dest_get)
    then show ?thesis
      using True assms by (auto simp: dest_get dest_other)
  next
    case False
    then have t: "test_over_or_underflow_32 ?a ?b"
      by (auto simp: test_over_or_underflow_32_iff)
    then have "ADD inst s = handle_exception EX_OVERFLOW s"
      by (simp add: ADD_def Let_def guarded_32)
    then show ?thesis using False by (simp only: Let_def if_False)
  qed
qed

text \<open>The saturating parallel instructions, lane by lane.\<close>

lemma parallel_signed_saturation:
  assumes "ee_ok s" and "inst_rd inst \<noteq> 0"
  shows "i < 16 \<Longrightarrow> sint (src_b (inst_rd inst) i (PADDSB inst s)) =
      clamp_int (-128) 127 (sint (src_b (inst_rs inst) i s) + sint (src_b (inst_rt inst) i s))"
    "i < 8 \<Longrightarrow> sint (src_h (inst_rd inst) i (PADDSH inst s)) =
      clamp_int (-32768) 32767 (sint (src_h (inst_rs inst) i s) + sint (src_h (inst_rt inst) i s))"
    "i < 4 \<Longrightarrow> sint (src_w (inst_rd inst) i (PADDSW inst s)) =
      clamp_int (-2147483648) 2147483647 (sint (src_w (inst_rs inst) i s) + sint (src_w (inst_rt inst) i s))"
    "i < 16 \<Longrightarrow> sint (src_b (inst_rd inst) i (PSUBSB inst s)) =
      clamp_int (-128) 127 (sint (src_b (inst_rs inst) i s) - sint (src_b (inst_rt inst) i s))"
    "i < 8 \<Longrightarrow> sint (src_h (inst_rd inst) i (PSUBSH inst s)) =
      clamp_int (-32768) 32767 (sint (src_h (inst_rs inst) i s) - sint (src_h (inst_rt inst) i s))"
    "i < 4 \<Longrightarrow> sint (src_w (inst_rd inst) i (PSUBSW inst s)) =
      clamp_int (-2147483648) 2147483647 (sint (src_w (inst_rs inst) i s) - sint (src_w (inst_rt inst) i s))"
  unfolding PADDSB_def PADDSH_def PADDSW_def PSUBSB_def PSUBSH_def PSUBSW_def
  by (simp_all only: dest_get[OF assms])
    (subst sint_saturated; simp add: sint_scast_sum)+

lemma parallel_unsigned_saturation:
  assumes "ee_ok s" and "inst_rd inst \<noteq> 0"
  shows "i < 16 \<Longrightarrow> uint (src_b (inst_rd inst) i (PADDUB inst s)) =
      min 255 (uint (src_b (inst_rs inst) i s) + uint (src_b (inst_rt inst) i s))"
    "i < 8 \<Longrightarrow> uint (src_h (inst_rd inst) i (PADDUH inst s)) =
      min 65535 (uint (src_h (inst_rs inst) i s) + uint (src_h (inst_rt inst) i s))"
    "i < 4 \<Longrightarrow> uint (src_w (inst_rd inst) i (PADDUW inst s)) =
      min 4294967295 (uint (src_w (inst_rs inst) i s) + uint (src_w (inst_rt inst) i s))"
    "i < 16 \<Longrightarrow> uint (src_b (inst_rd inst) i (PSUBUB inst s)) =
      max 0 (uint (src_b (inst_rs inst) i s) - uint (src_b (inst_rt inst) i s))"
    "i < 8 \<Longrightarrow> uint (src_h (inst_rd inst) i (PSUBUH inst s)) =
      max 0 (uint (src_h (inst_rs inst) i s) - uint (src_h (inst_rt inst) i s))"
    "i < 4 \<Longrightarrow> uint (src_w (inst_rd inst) i (PSUBUW inst s)) =
      max 0 (uint (src_w (inst_rs inst) i s) - uint (src_w (inst_rt inst) i s))"
  unfolding PADDUB_def PADDUH_def PADDUW_def PSUBUB_def PSUBUH_def PSUBUW_def
  by (simp_all only: dest_get[OF assms])
    ((subst uint_saturated_sum; simp)+, (subst uint_saturated_difference; simp)+)

text \<open>
  The subtraction shares the addition's test: it traps exactly when the sum overflows.
\<close>

lemma SUB_traps_on_sum:
  "SUB inst s =
     (let x = src_w (inst_rs inst) 0 s; y = src_w (inst_rt inst) 0 s in
      if VALUE_SWORD_MIN \<le> sint x + sint y \<and> sint x + sint y \<le> VALUE_SWORD_MAX
      then Inr (dest_d (inst_rd inst) (scast (x - y)) s)
      else handle_exception EX_OVERFLOW s)"
proof -
  let ?a = "src_w (inst_rs inst) 0 s" and ?b = "src_w (inst_rt inst) 0 s"
  show ?thesis
    by (auto simp: SUB_def Let_def guarded_32[OF refl] test_over_or_underflow_32_iff)
qed

end
