(* ===== verification/EeLogicShift.thy ===== *)
theory EeLogicShift
  imports EeLanes
begin

text \<open>
  \<open>CEeCoreInterpreter_LOGICAL.cpp\<close> and \<open>CEeCoreInterpreter_SHIFT.cpp\<close>: the bitwise
  instructions on the low doubleword and on whole registers, the shifts by the instruction's
  amount or a register's, the parallel shifts and the funnel shift.  The instructions named
  after a bit operation carry the suffix \<open>inst\<close>.
\<close>

section \<open>Logical instructions\<close>

definition AND_inst :: "instruction \<Rightarrow> ee_state \<Rightarrow> ee_state" where
  "AND_inst inst s =
     dest_d (inst_rd inst) (src_d (inst_rs inst) 0 s AND src_d (inst_rt inst) 0 s) s"

definition ANDI :: "instruction \<Rightarrow> ee_state \<Rightarrow> ee_state" where
  "ANDI inst s =
     dest_d (inst_rt inst) (src_d (inst_rs inst) 0 s AND ucast (inst_u_imm inst)) s"

definition NOR :: "instruction \<Rightarrow> ee_state \<Rightarrow> ee_state" where
  "NOR inst s =
     dest_d (inst_rd inst) (NOT (src_d (inst_rs inst) 0 s OR src_d (inst_rt inst) 0 s)) s"

definition OR_inst :: "instruction \<Rightarrow> ee_state \<Rightarrow> ee_state" where
  "OR_inst inst s =
     dest_d (inst_rd inst) (src_d (inst_rs inst) 0 s OR src_d (inst_rt inst) 0 s) s"

definition ORI :: "instruction \<Rightarrow> ee_state \<Rightarrow> ee_state" where
  "ORI inst s =
     dest_d (inst_rt inst) (src_d (inst_rs inst) 0 s OR ucast (inst_u_imm inst)) s"

definition XOR_inst :: "instruction \<Rightarrow> ee_state \<Rightarrow> ee_state" where
  "XOR_inst inst s =
     dest_d (inst_rd inst) (src_d (inst_rs inst) 0 s XOR src_d (inst_rt inst) 0 s) s"

definition XORI :: "instruction \<Rightarrow> ee_state \<Rightarrow> ee_state" where
  "XORI inst s =
     dest_d (inst_rt inst) (src_d (inst_rs inst) 0 s XOR ucast (inst_u_imm inst)) s"

definition PAND :: "instruction \<Rightarrow> ee_state \<Rightarrow> ee_state" where
  "PAND inst s =
     (let value0 = src_d (inst_rs inst) 0 s AND src_d (inst_rt inst) 0 s;
          value1 = src_d (inst_rs inst) 1 s AND src_d (inst_rt inst) 1 s
      in gpr_upd (inst_rd inst) (\<lambda>r. q_write_udword 1 value1 (q_write_udword 0 value0 r)) s)"

definition PNOR :: "instruction \<Rightarrow> ee_state \<Rightarrow> ee_state" where
  "PNOR inst s =
     (let value0 = NOT (src_d (inst_rs inst) 0 s OR src_d (inst_rt inst) 0 s);
          value1 = NOT (src_d (inst_rs inst) 1 s OR src_d (inst_rt inst) 1 s)
      in gpr_upd (inst_rd inst) (\<lambda>r. q_write_udword 1 value1 (q_write_udword 0 value0 r)) s)"

definition POR :: "instruction \<Rightarrow> ee_state \<Rightarrow> ee_state" where
  "POR inst s =
     (let value0 = src_d (inst_rs inst) 0 s OR src_d (inst_rt inst) 0 s;
          value1 = src_d (inst_rs inst) 1 s OR src_d (inst_rt inst) 1 s
      in gpr_upd (inst_rd inst) (\<lambda>r. q_write_udword 1 value1 (q_write_udword 0 value0 r)) s)"

definition PXOR :: "instruction \<Rightarrow> ee_state \<Rightarrow> ee_state" where
  "PXOR inst s =
     (let value0 = src_d (inst_rs inst) 0 s XOR src_d (inst_rt inst) 0 s;
          value1 = src_d (inst_rs inst) 1 s XOR src_d (inst_rt inst) 1 s
      in gpr_upd (inst_rd inst) (\<lambda>r. q_write_udword 1 value1 (q_write_udword 0 value0 r)) s)"

section \<open>Shifts\<close>

definition DSRA :: "instruction \<Rightarrow> ee_state \<Rightarrow> ee_state" where
  "DSRA inst s =
     (let shamt = inst_shamt inst in dest_d (inst_rd inst) (signed_drop_bit shamt (src_d (inst_rt inst) 0 s)) s)"

definition DSLL :: "instruction \<Rightarrow> ee_state \<Rightarrow> ee_state" where
  "DSLL inst s =
     (let shamt = inst_shamt inst in dest_d (inst_rd inst) (push_bit shamt (src_d (inst_rt inst) 0 s)) s)"

definition DSLL32 :: "instruction \<Rightarrow> ee_state \<Rightarrow> ee_state" where
  "DSLL32 inst s =
     (let shamt = inst_shamt inst + 32 in dest_d (inst_rd inst) (push_bit shamt (src_d (inst_rt inst) 0 s)) s)"

definition DSLLV :: "instruction \<Rightarrow> ee_state \<Rightarrow> ee_state" where
  "DSLLV inst s =
     (let shamt = unat (src_b (inst_rs inst) 0 s AND 0x3F) in dest_d (inst_rd inst) (push_bit shamt (src_d (inst_rt inst) 0 s)) s)"

definition DSRA32 :: "instruction \<Rightarrow> ee_state \<Rightarrow> ee_state" where
  "DSRA32 inst s =
     (let shamt = inst_shamt inst + 32 in dest_d (inst_rd inst) (signed_drop_bit shamt (src_d (inst_rt inst) 0 s)) s)"

definition DSRAV :: "instruction \<Rightarrow> ee_state \<Rightarrow> ee_state" where
  "DSRAV inst s =
     (let shamt = unat (src_b (inst_rs inst) 0 s AND 0x3F) in dest_d (inst_rd inst) (signed_drop_bit shamt (src_d (inst_rt inst) 0 s)) s)"

definition DSRL :: "instruction \<Rightarrow> ee_state \<Rightarrow> ee_state" where
  "DSRL inst s =
     (let shamt = inst_shamt inst in dest_d (inst_rd inst) (drop_bit shamt (src_d (inst_rt inst) 0 s)) s)"

definition DSRL32 :: "instruction \<Rightarrow> ee_state \<Rightarrow> ee_state" where
  "DSRL32 inst s =
     (let shamt = inst_shamt inst + 32 in dest_d (inst_rd inst) (drop_bit shamt (src_d (inst_rt inst) 0 s)) s)"

definition DSRLV :: "instruction \<Rightarrow> ee_state \<Rightarrow> ee_state" where
  "DSRLV inst s =
     (let shamt = unat (src_b (inst_rs inst) 0 s AND 0x3F) in dest_d (inst_rd inst) (drop_bit shamt (src_d (inst_rt inst) 0 s)) s)"

definition SLL :: "instruction \<Rightarrow> ee_state \<Rightarrow> ee_state" where
  "SLL inst s =
     (let shamt = inst_shamt inst in dest_d (inst_rd inst) (scast (push_bit shamt (src_w (inst_rt inst) 0 s))) s)"

definition SLLV :: "instruction \<Rightarrow> ee_state \<Rightarrow> ee_state" where
  "SLLV inst s =
     (let shamt = unat (src_b (inst_rs inst) 0 s AND 0x1F) in dest_d (inst_rd inst) (scast (push_bit shamt (src_w (inst_rt inst) 0 s))) s)"

definition SRA :: "instruction \<Rightarrow> ee_state \<Rightarrow> ee_state" where
  "SRA inst s =
     (let shamt = inst_shamt inst in dest_d (inst_rd inst) (scast (signed_drop_bit shamt (src_w (inst_rt inst) 0 s))) s)"

definition SRAV :: "instruction \<Rightarrow> ee_state \<Rightarrow> ee_state" where
  "SRAV inst s =
     (let shamt = unat (src_b (inst_rs inst) 0 s AND 0x1F) in dest_d (inst_rd inst) (scast (signed_drop_bit shamt (src_w (inst_rt inst) 0 s))) s)"

definition SRL :: "instruction \<Rightarrow> ee_state \<Rightarrow> ee_state" where
  "SRL inst s =
     (let shamt = inst_shamt inst in dest_d (inst_rd inst) (scast (drop_bit shamt (src_w (inst_rt inst) 0 s))) s)"

definition SRLV :: "instruction \<Rightarrow> ee_state \<Rightarrow> ee_state" where
  "SRLV inst s =
     (let shamt = unat (src_b (inst_rs inst) 0 s AND 0x1F) in dest_d (inst_rd inst) (scast (drop_bit shamt (src_w (inst_rt inst) 0 s))) s)"

definition PSLLH :: "instruction \<Rightarrow> ee_state \<Rightarrow> ee_state" where
  "PSLLH inst s =
     (let shamt = inst_shamt inst mod 16
      in dest_hwords (inst_rd inst) (\<lambda>i. push_bit shamt (src_h (inst_rt inst) i s)) s)"

definition PSLLVW :: "instruction \<Rightarrow> ee_state \<Rightarrow> ee_state" where
  "PSLLVW inst s =
     (let value0 = scast (push_bit (unat (src_w (inst_rs inst) 0 s AND 0x1F)) (src_w (inst_rt inst) 0 s));
          value1 = scast (push_bit (unat (src_w (inst_rs inst) 2 s AND 0x1F)) (src_w (inst_rt inst) 2 s))
      in gpr_upd (inst_rd inst) (\<lambda>r. q_write_udword 1 value1 (q_write_udword 0 value0 r)) s)"

definition PSLLW :: "instruction \<Rightarrow> ee_state \<Rightarrow> ee_state" where
  "PSLLW inst s =
     (let shamt = inst_shamt inst
      in dest_words (inst_rd inst) (\<lambda>i. push_bit shamt (src_w (inst_rt inst) i s)) s)"

definition PSRAH :: "instruction \<Rightarrow> ee_state \<Rightarrow> ee_state" where
  "PSRAH inst s =
     (let shamt = inst_shamt inst mod 16
      in dest_hwords (inst_rd inst) (\<lambda>i. signed_drop_bit shamt (src_h (inst_rt inst) i s)) s)"

definition PSRAVW :: "instruction \<Rightarrow> ee_state \<Rightarrow> ee_state" where
  "PSRAVW inst s =
     (let value0 = scast (signed_drop_bit (unat (src_w (inst_rs inst) 0 s AND 0x1F)) (src_w (inst_rt inst) 0 s));
          value1 = scast (signed_drop_bit (unat (src_w (inst_rs inst) 2 s AND 0x1F)) (src_w (inst_rt inst) 2 s))
      in gpr_upd (inst_rd inst) (\<lambda>r. q_write_udword 1 value1 (q_write_udword 0 value0 r)) s)"

definition PSRAW :: "instruction \<Rightarrow> ee_state \<Rightarrow> ee_state" where
  "PSRAW inst s =
     (let shamt = inst_shamt inst
      in dest_words (inst_rd inst) (\<lambda>i. signed_drop_bit shamt (src_w (inst_rt inst) i s)) s)"

definition PSRLH :: "instruction \<Rightarrow> ee_state \<Rightarrow> ee_state" where
  "PSRLH inst s =
     (let shamt = inst_shamt inst mod 16
      in dest_hwords (inst_rd inst) (\<lambda>i. drop_bit shamt (src_h (inst_rt inst) i s)) s)"

definition PSRLVW :: "instruction \<Rightarrow> ee_state \<Rightarrow> ee_state" where
  "PSRLVW inst s =
     (let value0 = scast (drop_bit (unat (src_w (inst_rs inst) 0 s AND 0x1F)) (src_w (inst_rt inst) 0 s));
          value1 = scast (drop_bit (unat (src_w (inst_rs inst) 2 s AND 0x1F)) (src_w (inst_rt inst) 2 s))
      in gpr_upd (inst_rd inst) (\<lambda>r. q_write_udword 1 value1 (q_write_udword 0 value0 r)) s)"

definition PSRLW :: "instruction \<Rightarrow> ee_state \<Rightarrow> ee_state" where
  "PSRLW inst s =
     (let shamt = inst_shamt inst
      in dest_words (inst_rd inst) (\<lambda>i. drop_bit shamt (src_w (inst_rt inst) i s)) s)"

text \<open>The 256-bit value of the funnel shift, built by shifting in one doubleword after the other.\<close>

definition funnel_value :: "qword_register \<Rightarrow> qword_register \<Rightarrow> 256 word" where
  "funnel_value source1 source2 =
     (let r1 = push_bit 64 (ucast (q_read_udword 0 source1));
          r2 = push_bit 64 (r1 OR ucast (q_read_udword 1 source1));
          r3 = push_bit 64 (r2 OR ucast (q_read_udword 0 source2))
      in r3 OR ucast (q_read_udword 1 source2))"

definition QFSRV :: "instruction \<Rightarrow> ee_state \<Rightarrow> ee_state" where
  "QFSRV inst s =
     (let shamt = unat (w_read_uword (e_sa s));
          result = drop_bit shamt (funnel_value (e_gpr s (inst_rt inst)) (e_gpr s (inst_rs inst)))
      in dest_dwords (inst_rd inst) (\<lambda>i. ucast (drop_bit (64 * i) result)) s)"

lemmas logic_shift_defs [op_defs] =
  AND_inst_def ANDI_def NOR_def OR_inst_def ORI_def XOR_inst_def XORI_def PAND_def PNOR_def
  POR_def PXOR_def DSRA_def DSLL_def DSLL32_def DSLLV_def DSRA32_def DSRAV_def DSRL_def
  DSRL32_def DSRLV_def SLL_def SLLV_def SRA_def SRAV_def SRL_def SRLV_def PSLLH_def PSLLVW_def
  PSLLW_def PSRAH_def PSRAVW_def PSRAW_def PSRLH_def PSRLVW_def PSRLW_def QFSRV_def

section \<open>Well-formedness\<close>

lemma logic_shift_ok [op_ok]:
  assumes "ee_ok s"
  shows "ee_ok (AND_inst inst s)"
    "ee_ok (ANDI inst s)"
    "ee_ok (NOR inst s)"
    "ee_ok (OR_inst inst s)"
    "ee_ok (ORI inst s)"
    "ee_ok (XOR_inst inst s)"
    "ee_ok (XORI inst s)"
    "ee_ok (PAND inst s)"
    "ee_ok (PNOR inst s)"
    "ee_ok (POR inst s)"
    "ee_ok (PXOR inst s)"
    "ee_ok (DSRA inst s)"
    "ee_ok (DSLL inst s)"
    "ee_ok (DSLL32 inst s)"
    "ee_ok (DSLLV inst s)"
    "ee_ok (DSRA32 inst s)"
    "ee_ok (DSRAV inst s)"
    "ee_ok (DSRL inst s)"
    "ee_ok (DSRL32 inst s)"
    "ee_ok (DSRLV inst s)"
    "ee_ok (SLL inst s)"
    "ee_ok (SLLV inst s)"
    "ee_ok (SRA inst s)"
    "ee_ok (SRAV inst s)"
    "ee_ok (SRL inst s)"
    "ee_ok (SRLV inst s)"
    "ee_ok (PSLLH inst s)"
    "ee_ok (PSLLVW inst s)"
    "ee_ok (PSLLW inst s)"
    "ee_ok (PSRAH inst s)"
    "ee_ok (PSRAVW inst s)"
    "ee_ok (PSRAW inst s)"
    "ee_ok (PSRLH inst s)"
    "ee_ok (PSRLVW inst s)"
    "ee_ok (PSRLW inst s)"
    "ee_ok (QFSRV inst s)"
  using assms
  by (simp_all add: logic_shift_defs Let_def ee_ok_gpr_upd)

section \<open>What the instructions compute\<close>

text \<open>The parallel logical instructions act on the register as one 128-bit value.\<close>

lemma qword_eq_dwords:
  assumes "\<And>i. i < 2 \<Longrightarrow> (get_lane i v :: udword) = get_lane i w"
  shows "v = (w :: uqword)"
  using assms by (rule lanes_eqI[of 2]) simp_all

lemma get_lane_bitwise:
  "(get_lane i (v AND w) :: 'b::len word) = get_lane i v AND get_lane i w"
  "(get_lane i (v OR w) :: 'b word) = get_lane i v OR get_lane i w"
  "(get_lane i (v XOR w) :: 'b word) = get_lane i v XOR get_lane i w"
  by (rule bit_word_eqI, simp add: bit_simps)+

lemma get_lane_not:
  "(Suc i) * LENGTH('b::len) \<le> LENGTH('a::len) \<Longrightarrow>
   (get_lane i (NOT (v :: 'a word)) :: 'b word) = NOT (get_lane i v)"
  by (rule bit_word_eqI) (auto simp: bit_simps)

lemma parallel_logic_128:
  assumes "ee_ok s" and "inst_rd inst \<noteq> 0"
  shows "gpr_q (inst_rd inst) (PAND inst s) = gpr_q (inst_rs inst) s AND gpr_q (inst_rt inst) s"
    "gpr_q (inst_rd inst) (PNOR inst s) = NOT (gpr_q (inst_rs inst) s OR gpr_q (inst_rt inst) s)"
    "gpr_q (inst_rd inst) (POR inst s) = gpr_q (inst_rs inst) s OR gpr_q (inst_rt inst) s"
    "gpr_q (inst_rd inst) (PXOR inst s) = gpr_q (inst_rs inst) s XOR gpr_q (inst_rt inst) s"
proof -
  have q: "gpr_q (inst_rd inst) (gpr_upd (inst_rd inst)
        (\<lambda>r. q_write_udword 1 v1 (q_write_udword 0 v0 r)) s) = w"
    if "get_lane 0 w = v0" "get_lane 1 w = v1" for v0 v1 w
    using that dest_pair_get[OF assms, of _ v1 v0]
    by (intro qword_eq_dwords)
      (auto simp: q_defs reg_read_def reg_read_lane_def less_2_cases_iff)
  have g: "get_lane i (gpr_q n s) = src_d n i s" for n i
    by (simp add: q_defs reg_read_def reg_read_lane_def)
  show "gpr_q (inst_rd inst) (PAND inst s) = gpr_q (inst_rs inst) s AND gpr_q (inst_rt inst) s"
    unfolding PAND_def Let_def by (rule q; simp add: get_lane_bitwise g)
  show "gpr_q (inst_rd inst) (PNOR inst s) = NOT (gpr_q (inst_rs inst) s OR gpr_q (inst_rt inst) s)"
    unfolding PNOR_def Let_def by (rule q; simp add: get_lane_bitwise get_lane_not g)
  show "gpr_q (inst_rd inst) (POR inst s) = gpr_q (inst_rs inst) s OR gpr_q (inst_rt inst) s"
    unfolding POR_def Let_def by (rule q; simp add: get_lane_bitwise g)
  show "gpr_q (inst_rd inst) (PXOR inst s) = gpr_q (inst_rs inst) s XOR gpr_q (inst_rt inst) s"
    unfolding PXOR_def Let_def by (rule q; simp add: get_lane_bitwise g)
qed

text \<open>
  The funnel shift by nothing: the low half of the concatenation it builds is Rs with its
  doublewords exchanged.
\<close>

lemma QFSRV_unshifted:
  assumes "ee_ok s" and "inst_rd inst \<noteq> 0" and "w_read_uword (e_sa s) = 0"
  shows "src_d (inst_rd inst) 0 (QFSRV inst s) = src_d (inst_rs inst) 1 s"
    "src_d (inst_rd inst) 1 (QFSRV inst s) = src_d (inst_rs inst) 0 s"
proof -
  let ?v = "funnel_value (e_gpr s (inst_rt inst)) (e_gpr s (inst_rs inst))"
  have "(ucast ?v :: udword) = src_d (inst_rs inst) 1 s"
    by (rule bit_word_eqI) (auto simp: funnel_value_def Let_def bit_simps)
  moreover have "(ucast (drop_bit 64 ?v) :: udword) = src_d (inst_rs inst) 0 s"
    by (rule bit_word_eqI) (auto simp: funnel_value_def Let_def bit_simps dest: bit_imp_le_length)
  ultimately show "src_d (inst_rd inst) 0 (QFSRV inst s) = src_d (inst_rs inst) 1 s"
    "src_d (inst_rd inst) 1 (QFSRV inst s) = src_d (inst_rs inst) 0 s"
    using assms(3) by (simp_all add: QFSRV_def Let_def dest_get[OF assms(1,2)] del: One_nat_def)
qed

end
