(* ===== verification/EeCompare.thy ===== *)
theory EeCompare
  imports EeLanes
begin

text \<open>
  \<open>CEeCoreInterpreter_COMPARE.cpp\<close> and \<open>CEeCoreInterpreter_MIN_MAX.cpp\<close>: set-on-less-than,
  the parallel comparisons and extrema, and the FPU comparisons and extrema, over the
  ordering of IEEE single precision bit patterns.
\<close>

section \<open>Set on less than\<close>

definition SLT :: "instruction \<Rightarrow> ee_state \<Rightarrow> ee_state" where
  "SLT inst s =
     (let result = (if sint (src_d (inst_rs inst) 0 s) < sint (src_d (inst_rt inst) 0 s) then 1 else 0)
      in dest_d (inst_rd inst) result s)"

definition SLTI :: "instruction \<Rightarrow> ee_state \<Rightarrow> ee_state" where
  "SLTI inst s =
     (let result = (if sint (src_d (inst_rs inst) 0 s) < sint (scast (inst_s_imm inst) :: udword) then 1 else 0)
      in dest_d (inst_rt inst) result s)"

definition SLTIU :: "instruction \<Rightarrow> ee_state \<Rightarrow> ee_state" where
  "SLTIU inst s =
     (let result = (if src_d (inst_rs inst) 0 s < scast (inst_s_imm inst) then 1 else 0)
      in dest_d (inst_rt inst) result s)"

definition SLTU :: "instruction \<Rightarrow> ee_state \<Rightarrow> ee_state" where
  "SLTU inst s =
     (let result = (if src_d (inst_rs inst) 0 s < src_d (inst_rt inst) 0 s then 1 else 0)
      in dest_d (inst_rd inst) result s)"

section \<open>Parallel comparisons\<close>

text \<open>
  These write each lane of the destination in the loop that reads the sources.  A lane is read
  before it is written, so it does not matter when the destination is also a source.
\<close>

definition PCEQB :: "instruction \<Rightarrow> ee_state \<Rightarrow> ee_state" where
  "PCEQB inst s =
     fold (\<lambda>i s.
        let val_source1 = src_b (inst_rs inst) i s;
            val_source2 = src_b (inst_rt inst) i s;
            result = (if val_source1 = val_source2 then 0xFF else 0)
        in gpr_upd (inst_rd inst) (q_write_ubyte i result) s) [0..<16] s"

definition PCEQH :: "instruction \<Rightarrow> ee_state \<Rightarrow> ee_state" where
  "PCEQH inst s =
     fold (\<lambda>i s.
        let val_source1 = src_h (inst_rs inst) i s;
            val_source2 = src_h (inst_rt inst) i s;
            result = (if val_source1 = val_source2 then 0xFFFF else 0)
        in gpr_upd (inst_rd inst) (q_write_uhword i result) s) [0..<8] s"

definition PCEQW :: "instruction \<Rightarrow> ee_state \<Rightarrow> ee_state" where
  "PCEQW inst s =
     fold (\<lambda>i s.
        let val_source1 = src_w (inst_rs inst) i s;
            val_source2 = src_w (inst_rt inst) i s;
            result = (if val_source1 = val_source2 then 0xFFFFFFFF else 0)
        in gpr_upd (inst_rd inst) (q_write_uword i result) s) [0..<4] s"

definition PCGTB :: "instruction \<Rightarrow> ee_state \<Rightarrow> ee_state" where
  "PCGTB inst s =
     fold (\<lambda>i s.
        let val_source1 = src_b (inst_rs inst) i s;
            val_source2 = src_b (inst_rt inst) i s;
            result = (if val_source1 > val_source2 then 0xFF else 0)
        in gpr_upd (inst_rd inst) (q_write_ubyte i result) s) [0..<16] s"

definition PCGTH :: "instruction \<Rightarrow> ee_state \<Rightarrow> ee_state" where
  "PCGTH inst s =
     fold (\<lambda>i s.
        let val_source1 = src_h (inst_rs inst) i s;
            val_source2 = src_h (inst_rt inst) i s;
            result = (if val_source1 > val_source2 then 0xFFFF else 0)
        in gpr_upd (inst_rd inst) (q_write_uhword i result) s) [0..<8] s"

definition PCGTW :: "instruction \<Rightarrow> ee_state \<Rightarrow> ee_state" where
  "PCGTW inst s =
     fold (\<lambda>i s.
        let val_source1 = src_w (inst_rs inst) i s;
            val_source2 = src_w (inst_rt inst) i s;
            result = (if val_source1 > val_source2 then 0xFFFFFFFF else 0)
        in gpr_upd (inst_rd inst) (q_write_uword i result) s) [0..<4] s"

section \<open>Parallel extrema\<close>

text \<open>The signed copies of the arguments are computed and not used.\<close>

definition PMAXH :: "instruction \<Rightarrow> ee_state \<Rightarrow> ee_state" where
  "PMAXH inst s =
     dest_hwords (inst_rd inst)
       (\<lambda>i. max (src_h (inst_rs inst) i s) (src_h (inst_rt inst) i s)) s"

definition PMAXW :: "instruction \<Rightarrow> ee_state \<Rightarrow> ee_state" where
  "PMAXW inst s =
     dest_words (inst_rd inst)
       (\<lambda>i. max (src_w (inst_rs inst) i s) (src_w (inst_rt inst) i s)) s"

definition PMINH :: "instruction \<Rightarrow> ee_state \<Rightarrow> ee_state" where
  "PMINH inst s =
     dest_hwords (inst_rd inst)
       (\<lambda>i. min (src_h (inst_rs inst) i s) (src_h (inst_rt inst) i s)) s"

definition PMINW :: "instruction \<Rightarrow> ee_state \<Rightarrow> ee_state" where
  "PMINW inst s =
     dest_words (inst_rd inst)
       (\<lambda>i. min (src_w (inst_rs inst) i s) (src_w (inst_rt inst) i s)) s"

section \<open>FPU comparisons and extrema\<close>

definition csr_insert_C :: "uword \<Rightarrow> ee_state \<Rightarrow> ee_state" where
  "csr_insert_C v s = s\<lparr>e_csr := w_insert_field CSR_C v (e_csr s)\<rparr>"

definition C_EQ_S :: "instruction \<Rightarrow> ee_state \<Rightarrow> ee_state res" where
  "C_EQ_S inst s =
     guarded handle_cop1_usable (\<lambda>s.
       let val_source1 = w_read_uword (e_fpr s (inst_rd inst));
           val_source2 = w_read_uword (e_fpr s (inst_rt inst))
       in if f32_eq val_source1 val_source2 then Inr (csr_insert_C 1 s) else Inr (csr_insert_C 0 s)) s"

definition C_F_S :: "instruction \<Rightarrow> ee_state \<Rightarrow> ee_state res" where
  "C_F_S inst s =
     guarded handle_cop1_usable (\<lambda>s. Inr (csr_insert_C 0 s)) s"

definition C_LE_S :: "instruction \<Rightarrow> ee_state \<Rightarrow> ee_state res" where
  "C_LE_S inst s =
     guarded handle_cop1_usable (\<lambda>s.
       let val_source1 = w_read_uword (e_fpr s (inst_rd inst));
           val_source2 = w_read_uword (e_fpr s (inst_rt inst))
       in if f32_le val_source1 val_source2 then Inr (csr_insert_C 1 s) else Inr (csr_insert_C 0 s)) s"

definition C_LT_S :: "instruction \<Rightarrow> ee_state \<Rightarrow> ee_state res" where
  "C_LT_S inst s =
     guarded handle_cop1_usable (\<lambda>s.
       let val_source1 = w_read_uword (e_fpr s (inst_rd inst));
           val_source2 = w_read_uword (e_fpr s (inst_rt inst))
       in if f32_less val_source1 val_source2 then Inr (csr_insert_C 1 s) else Inr (csr_insert_C 0 s)) s"

definition MAX_S :: "instruction \<Rightarrow> ee_state \<Rightarrow> ee_state res" where
  "MAX_S inst s =
     guarded handle_cop1_usable (\<lambda>s.
       let s1 = s\<lparr>e_csr := fpu_clear_flags (e_csr s)\<rparr>;
           val_source1 = w_read_uword (e_fpr s1 (inst_rd inst));
           val_source2 = w_read_uword (e_fpr s1 (inst_rt inst));
           result = (if f32_le val_source2 val_source1 then val_source1 else val_source2)
       in Inr (fpr_upd (inst_shamt inst) (w_write_uword result) s1)) s"

definition MIN_S :: "instruction \<Rightarrow> ee_state \<Rightarrow> ee_state res" where
  "MIN_S inst s =
     guarded handle_cop1_usable (\<lambda>s.
       let s1 = s\<lparr>e_csr := fpu_clear_flags (e_csr s)\<rparr>;
           val_source1 = w_read_uword (e_fpr s1 (inst_rd inst));
           val_source2 = w_read_uword (e_fpr s1 (inst_rt inst));
           result = (if f32_le val_source1 val_source2 then val_source1 else val_source2)
       in Inr (fpr_upd (inst_shamt inst) (w_write_uword result) s1)) s"

lemmas compare_defs [op_defs] =
  SLT_def SLTI_def SLTIU_def SLTU_def PCEQB_def PCEQH_def PCEQW_def PCGTB_def PCGTH_def
  PCGTW_def PMAXH_def PMAXW_def PMINH_def PMINW_def C_EQ_S_def C_F_S_def C_LE_S_def C_LT_S_def
  MAX_S_def MIN_S_def

section \<open>Well-formedness\<close>

lemma ee_ok_fold [intro]:
  "ee_ok s \<Longrightarrow> (\<And>i s. ee_ok s \<Longrightarrow> ee_ok (f i s)) \<Longrightarrow> ee_ok (fold f is s)"
  by (induction "is" arbitrary: s) simp_all

lemma ee_ok_csr [intro]: "ee_ok s \<Longrightarrow> reg_read_only c = reg_read_only (e_csr s) \<Longrightarrow> ee_ok (s\<lparr>e_csr := c\<rparr>)"
  using ee_okD(8)[of s] by (simp add: ee_ok_upd)

lemma csr_ops_ro [simp]:
  "reg_read_only (fpu_clear_flags c) = reg_read_only c"
  "reg_read_only (fpu_update_result_flags fl c) = reg_read_only c"
  "reg_read_only (set_d_flag_sticky v c) = reg_read_only c"
  "reg_read_only (set_i_flag_sticky v c) = reg_read_only c"
  by (simp_all add: csr_defs Let_def)

lemma ee_ok_csr_insert_C [intro]: "ee_ok s \<Longrightarrow> ee_ok (csr_insert_C v s)"
  by (auto simp: csr_insert_C_def)

lemma ee_ok_fpr_write [intro]: "ee_ok s \<Longrightarrow> ee_ok (fpr_upd n (w_write_uword v) s)"
  by (auto simp: ee_ok_def fpr_upd_def w_defs)

lemma compare_ok [op_ok]:
  assumes "ee_ok s"
  shows "ee_ok (SLT inst s)"
    "ee_ok (SLTI inst s)"
    "ee_ok (SLTIU inst s)"
    "ee_ok (SLTU inst s)"
    "ee_ok (PCEQB inst s)"
    "ee_ok (PCEQH inst s)"
    "ee_ok (PCEQW inst s)"
    "ee_ok (PCGTB inst s)"
    "ee_ok (PCGTH inst s)"
    "ee_ok (PCGTW inst s)"
    "ee_ok (PMAXH inst s)"
    "ee_ok (PMAXW inst s)"
    "ee_ok (PMINH inst s)"
    "ee_ok (PMINW inst s)"
    "ok_res ee_ok (C_EQ_S inst s)"
    "ok_res ee_ok (C_F_S inst s)"
    "ok_res ee_ok (C_LE_S inst s)"
    "ok_res ee_ok (C_LT_S inst s)"
    "ok_res ee_ok (MAX_S inst s)"
    "ok_res ee_ok (MIN_S inst s)"
  using assms
  by (auto simp: compare_defs Let_def ee_ok_gpr_upd intro!: ok_guarded ok_checks ee_ok_fold ee_ok_fpr_write ee_ok_csr)

section \<open>What the instructions compute\<close>

text \<open>A loop that writes lane by lane what it reads from the same lanes.\<close>

lemma lane_loop_get:
  fixes f :: "uhword \<Rightarrow> uhword \<Rightarrow> uhword"
  assumes ok: "ee_ok s" and n: "n \<noteq> 0" and k: "k \<le> 8"
  shows "ee_ok (fold (\<lambda>i s. gpr_upd n (q_write_uhword i (f (src_h a i s) (src_h b i s))) s) [0..<k] s) \<and>
    (\<forall>m i. i < 8 \<longrightarrow>
      src_h m i (fold (\<lambda>i s. gpr_upd n (q_write_uhword i (f (src_h a i s) (src_h b i s))) s) [0..<k] s) =
      (if m = n \<and> i < k then f (src_h a i s) (src_h b i s) else src_h m i s))"
  using k
proof (induction k)
  case 0
  then show ?case using ok by simp
next
  case (Suc k)
  let ?t = "fold (\<lambda>i s. gpr_upd n (q_write_uhword i (f (src_h a i s) (src_h b i s))) s) [0..<k] s"
  have t: "ee_ok ?t" "\<And>m i. i < 8 \<Longrightarrow> src_h m i ?t =
      (if m = n \<and> i < k then f (src_h a i s) (src_h b i s) else src_h m i s)"
    using Suc by auto
  have ro: "\<not> reg_read_only (e_gpr ?t n)" using ee_ok_gpr(1)[OF t(1)] n by simp
  have w: "src_h n i (gpr_upd n (q_write_uhword k v) ?t) = (if i = k then v else src_h n i ?t)"
    if "i < 8" for i v
    using ro that Suc.prems
    by (auto simp: gpr_upd_read q_defs reg_read_lane_def get_put_lane_other)
  have "src_h m i (gpr_upd n (q_write_uhword k (f (src_h a k ?t) (src_h b k ?t))) ?t) =
      (if m = n \<and> i < Suc k then f (src_h a i s) (src_h b i s) else src_h m i s)"
    if "i < 8" for m i
    using that w[OF that] t(2) Suc.prems
    by (cases "m = n") (auto simp: less_Suc_eq dest_other)
  moreover have "ee_ok (gpr_upd n (q_write_uhword k v) ?t)" for v
    using t(1) by auto
  ultimately show ?case by simp
qed

text \<open>The comparison of hwords is of unsigned values.\<close>

lemma PCGTH_lanes:
  assumes "ee_ok s" and "inst_rd inst \<noteq> 0" and "i < 8"
  shows "src_h (inst_rd inst) i (PCGTH inst s) =
    (if uint (src_h (inst_rs inst) i s) > uint (src_h (inst_rt inst) i s) then 0xFFFF else 0)"
  using lane_loop_get[OF assms(1,2) order_refl,
      of "\<lambda>x y. if x > y then 0xFFFF else 0" "inst_rs inst" "inst_rt inst"] assms(3)
  by (simp add: PCGTH_def Let_def word_less_def del: upt_Suc)

lemma PCEQH_lanes:
  assumes "ee_ok s" and "inst_rd inst \<noteq> 0" and "i < 8"
  shows "src_h (inst_rd inst) i (PCEQH inst s) =
    (if src_h (inst_rs inst) i s = src_h (inst_rt inst) i s then 0xFFFF else 0)"
  using lane_loop_get[OF assms(1,2) order_refl,
      of "\<lambda>x y. if x = y then 0xFFFF else 0" "inst_rs inst" "inst_rt inst"] assms(3)
  by (simp add: PCEQH_def Let_def del: upt_Suc)

lemma PMAXH_lanes:
  assumes "ee_ok s" and "inst_rd inst \<noteq> 0" and "i < 8"
  shows "uint (src_h (inst_rd inst) i (PMAXH inst s)) =
    max (uint (src_h (inst_rs inst) i s)) (uint (src_h (inst_rt inst) i s))"
  using assms by (simp add: PMAXH_def dest_get max_def word_le_def)

end
