(* ===== verification/EeBranch.thy ===== *)
theory EeBranch
  imports EeLanes
begin

text \<open>
  \<open>CEeCoreInterpreter_COND_BRANCH_JUMP.cpp\<close>, \<open>CEeCoreInterpreter_CALL.cpp\<close> and
  \<open>CEeCoreInterpreter_BREAK_TRAP.cpp\<close>: branches and jumps through the branch delay slot,
  the linking variants, traps, system calls and the return from an exception.
\<close>

section \<open>Branching\<close>

definition branch_itype :: "instruction \<Rightarrow> ee_state \<Rightarrow> ee_state" where
  "branch_itype inst s = s\<lparr>e_bdelay := set_branch_itype 1 (e_pc s) (inst_s_imm inst) (e_bdelay s)\<rparr>"

definition ee_advance_pc :: "ee_state \<Rightarrow> ee_state" where
  "ee_advance_pc s =
     (let (b, pc) = advance_pc (e_bdelay s, e_pc s) in s\<lparr>e_bdelay := b, e_pc := pc\<rparr>)"

definition link :: "nat \<Rightarrow> ee_state \<Rightarrow> ee_state" where
  "link n s = dest_d n (ucast (pc_val s + 4 * 2)) s"

section \<open>Conditional branches\<close>

definition BEQ :: "instruction \<Rightarrow> ee_state \<Rightarrow> ee_state" where
  "BEQ inst s =
     (if src_d (inst_rt inst) 0 s = src_d (inst_rs inst) 0 s then branch_itype inst s else s)"

definition BEQL :: "instruction \<Rightarrow> ee_state \<Rightarrow> ee_state" where
  "BEQL inst s =
     (if src_d (inst_rt inst) 0 s = src_d (inst_rs inst) 0 s then branch_itype inst s else ee_advance_pc s)"

definition BGEZ :: "instruction \<Rightarrow> ee_state \<Rightarrow> ee_state" where
  "BGEZ inst s =
     (if sint (src_d (inst_rs inst) 0 s) \<ge> 0 then branch_itype inst s else s)"

definition BGEZL :: "instruction \<Rightarrow> ee_state \<Rightarrow> ee_state" where
  "BGEZL inst s =
     (if sint (src_d (inst_rs inst) 0 s) \<ge> 0 then branch_itype inst s else ee_advance_pc s)"

definition BGTZ :: "instruction \<Rightarrow> ee_state \<Rightarrow> ee_state" where
  "BGTZ inst s =
     (if sint (src_d (inst_rs inst) 0 s) > 0 then branch_itype inst s else s)"

definition BGTZL :: "instruction \<Rightarrow> ee_state \<Rightarrow> ee_state" where
  "BGTZL inst s =
     (if sint (src_d (inst_rs inst) 0 s) > 0 then branch_itype inst s else ee_advance_pc s)"

definition BLEZ :: "instruction \<Rightarrow> ee_state \<Rightarrow> ee_state" where
  "BLEZ inst s =
     (if sint (src_d (inst_rs inst) 0 s) \<le> 0 then branch_itype inst s else s)"

definition BLEZL :: "instruction \<Rightarrow> ee_state \<Rightarrow> ee_state" where
  "BLEZL inst s =
     (if sint (src_d (inst_rs inst) 0 s) \<le> 0 then branch_itype inst s else ee_advance_pc s)"

definition BLTZ :: "instruction \<Rightarrow> ee_state \<Rightarrow> ee_state" where
  "BLTZ inst s =
     (if sint (src_d (inst_rs inst) 0 s) < 0 then branch_itype inst s else s)"

definition BLTZL :: "instruction \<Rightarrow> ee_state \<Rightarrow> ee_state" where
  "BLTZL inst s =
     (if sint (src_d (inst_rs inst) 0 s) < 0 then branch_itype inst s else ee_advance_pc s)"

definition BNE :: "instruction \<Rightarrow> ee_state \<Rightarrow> ee_state" where
  "BNE inst s =
     (if src_d (inst_rt inst) 0 s \<noteq> src_d (inst_rs inst) 0 s then branch_itype inst s else s)"

definition BNEL :: "instruction \<Rightarrow> ee_state \<Rightarrow> ee_state" where
  "BNEL inst s =
     (if src_d (inst_rt inst) 0 s \<noteq> src_d (inst_rs inst) 0 s then branch_itype inst s else ee_advance_pc s)"

text \<open>
  The branches on the COP0 condition are not implemented: a release build throws (a debug
  build logs and goes on).
\<close>

definition BC0F :: "instruction \<Rightarrow> ee_state \<Rightarrow> ee_state res" where
  "BC0F inst s =
     guarded handle_cop0_usable (\<lambda>s. Inl Runtime_error) s"

definition BC0FL :: "instruction \<Rightarrow> ee_state \<Rightarrow> ee_state res" where
  "BC0FL inst s =
     guarded handle_cop0_usable (\<lambda>s. Inl Runtime_error) s"

definition BC0T :: "instruction \<Rightarrow> ee_state \<Rightarrow> ee_state res" where
  "BC0T inst s =
     guarded handle_cop0_usable (\<lambda>s. Inl Runtime_error) s"

definition BC0TL :: "instruction \<Rightarrow> ee_state \<Rightarrow> ee_state res" where
  "BC0TL inst s =
     guarded handle_cop0_usable (\<lambda>s. Inl Runtime_error) s"

definition BC1F :: "instruction \<Rightarrow> ee_state \<Rightarrow> ee_state res" where
  "BC1F inst s =
     guarded handle_cop1_usable (\<lambda>s.
       if w_extract_field CSR_C (e_csr s) = 0 then Inr (branch_itype inst s) else Inr (s)) s"

definition BC1FL :: "instruction \<Rightarrow> ee_state \<Rightarrow> ee_state res" where
  "BC1FL inst s =
     guarded handle_cop1_usable (\<lambda>s.
       if w_extract_field CSR_C (e_csr s) = 0 then Inr (branch_itype inst s) else Inr (ee_advance_pc s)) s"

definition BC1T :: "instruction \<Rightarrow> ee_state \<Rightarrow> ee_state res" where
  "BC1T inst s =
     guarded handle_cop1_usable (\<lambda>s.
       if w_extract_field CSR_C (e_csr s) = 1 then Inr (branch_itype inst s) else Inr (s)) s"

definition BC1TL :: "instruction \<Rightarrow> ee_state \<Rightarrow> ee_state res" where
  "BC1TL inst s =
     guarded handle_cop1_usable (\<lambda>s.
       if w_extract_field CSR_C (e_csr s) = 1 then Inr (branch_itype inst s) else Inr (ee_advance_pc s)) s"

section \<open>Jumps and calls\<close>

definition J :: "instruction \<Rightarrow> ee_state \<Rightarrow> ee_state" where
  "J inst s =
     s\<lparr>e_bdelay := set_branch_jtype 1 (e_pc s) (inst_addr inst) (e_bdelay s)\<rparr>"

definition JR :: "instruction \<Rightarrow> ee_state \<Rightarrow> ee_state" where
  "JR inst s =
     s\<lparr>e_bdelay := set_branch_direct 1 (src_w (inst_rs inst) 0 s) (e_bdelay s)\<rparr>"

definition BGEZAL :: "instruction \<Rightarrow> ee_state \<Rightarrow> ee_state" where
  "BGEZAL inst s =
     (if sint (src_d (inst_rs inst) 0 s) \<ge> 0 then branch_itype inst (link 31 s) else s)"

definition BGEZALL :: "instruction \<Rightarrow> ee_state \<Rightarrow> ee_state" where
  "BGEZALL inst s =
     (if sint (src_d (inst_rs inst) 0 s) \<ge> 0 then branch_itype inst (link 31 s) else ee_advance_pc s)"

definition BLTZAL :: "instruction \<Rightarrow> ee_state \<Rightarrow> ee_state" where
  "BLTZAL inst s =
     (if sint (src_d (inst_rs inst) 0 s) < 0 then branch_itype inst (link 31 s) else s)"

definition BLTZALL :: "instruction \<Rightarrow> ee_state \<Rightarrow> ee_state" where
  "BLTZALL inst s =
     (if sint (src_d (inst_rs inst) 0 s) < 0 then branch_itype inst (link 31 s) else ee_advance_pc s)"

definition JAL :: "instruction \<Rightarrow> ee_state \<Rightarrow> ee_state" where
  "JAL inst s =
     (let s1 = link 31 s
      in s1\<lparr>e_bdelay := set_branch_jtype 1 (e_pc s1) (inst_addr inst) (e_bdelay s1)\<rparr>)"

definition JALR :: "instruction \<Rightarrow> ee_state \<Rightarrow> ee_state" where
  "JALR inst s =
     (let s1 = link (inst_rd inst) s
      in s1\<lparr>e_bdelay := set_branch_direct 1 (src_w (inst_rs inst) 0 s1) (e_bdelay s1)\<rparr>)"

section \<open>Traps and the return from exceptions\<close>

definition BREAK :: "instruction \<Rightarrow> ee_state \<Rightarrow> ee_state res" where
  "BREAK inst s =
     handle_exception EX_BREAK s"

definition SYSCALL :: "instruction \<Rightarrow> ee_state \<Rightarrow> ee_state res" where
  "SYSCALL inst s =
     handle_exception EX_SYSTEMCALL s"

definition TEQ :: "instruction \<Rightarrow> ee_state \<Rightarrow> ee_state res" where
  "TEQ inst s =
     (if sint (src_d (inst_rs inst) 0 s) = sint (src_d (inst_rt inst) 0 s) then handle_exception EX_TRAP s else Inr s)"

definition TGE :: "instruction \<Rightarrow> ee_state \<Rightarrow> ee_state res" where
  "TGE inst s =
     (if sint (src_d (inst_rs inst) 0 s) \<ge> sint (src_d (inst_rt inst) 0 s) then handle_exception EX_TRAP s else Inr s)"

definition TGEU :: "instruction \<Rightarrow> ee_state \<Rightarrow> ee_state res" where
  "TGEU inst s =
     (if src_d (inst_rs inst) 0 s \<ge> src_d (inst_rt inst) 0 s then handle_exception EX_TRAP s else Inr s)"

definition TLT :: "instruction \<Rightarrow> ee_state \<Rightarrow> ee_state res" where
  "TLT inst s =
     (if sint (src_d (inst_rs inst) 0 s) < sint (src_d (inst_rt inst) 0 s) then handle_exception EX_TRAP s else Inr s)"

definition TLTU :: "instruction \<Rightarrow> ee_state \<Rightarrow> ee_state res" where
  "TLTU inst s =
     (if src_d (inst_rs inst) 0 s < src_d (inst_rt inst) 0 s then handle_exception EX_TRAP s else Inr s)"

definition TNE :: "instruction \<Rightarrow> ee_state \<Rightarrow> ee_state res" where
  "TNE inst s =
     (if sint (src_d (inst_rs inst) 0 s) \<noteq> sint (src_d (inst_rt inst) 0 s) then handle_exception EX_TRAP s else Inr s)"

definition TEQI :: "instruction \<Rightarrow> ee_state \<Rightarrow> ee_state res" where
  "TEQI inst s =
     (if sint (src_d (inst_rs inst) 0 s) = sint ((scast (inst_s_imm inst) :: udword)) then handle_exception EX_TRAP s else Inr s)"

definition TGEI :: "instruction \<Rightarrow> ee_state \<Rightarrow> ee_state res" where
  "TGEI inst s =
     (if sint (src_d (inst_rs inst) 0 s) \<ge> sint ((scast (inst_s_imm inst) :: udword)) then handle_exception EX_TRAP s else Inr s)"

definition TGEIU :: "instruction \<Rightarrow> ee_state \<Rightarrow> ee_state res" where
  "TGEIU inst s =
     (if src_d (inst_rs inst) 0 s \<ge> (scast (inst_s_imm inst) :: udword) then handle_exception EX_TRAP s else Inr s)"

definition TLTI :: "instruction \<Rightarrow> ee_state \<Rightarrow> ee_state res" where
  "TLTI inst s =
     (if sint (src_d (inst_rs inst) 0 s) < sint ((scast (inst_s_imm inst) :: udword)) then handle_exception EX_TRAP s else Inr s)"

definition TLTIU :: "instruction \<Rightarrow> ee_state \<Rightarrow> ee_state res" where
  "TLTIU inst s =
     (if src_d (inst_rs inst) 0 s < (scast (inst_s_imm inst) :: udword) then handle_exception EX_TRAP s else Inr s)"

definition TNEI :: "instruction \<Rightarrow> ee_state \<Rightarrow> ee_state res" where
  "TNEI inst s =
     (if sint (src_d (inst_rs inst) 0 s) \<noteq> sint ((scast (inst_s_imm inst) :: udword)) then handle_exception EX_TRAP s else Inr s)"

definition ERET :: "instruction \<Rightarrow> ee_state \<Rightarrow> ee_state res" where
  "ERET inst s =
     bind_res
       (if status_field STATUS_ERL (e_cop0 s) > 0 then
          cop0_res (status_insert_field STATUS_ERL 0)
            (pc_upd (w_write_uword (c0_raw C0_ERROREPC (e_cop0 s) - 4)) s)
        else
          cop0_res (status_insert_field STATUS_EXL 0)
            (pc_upd (w_write_uword (c0_raw C0_EPC (e_cop0 s) - 4)) s))
       (\<lambda>s1. Inr (flush_translation_caches (cop0_upd cause_clear_all_irq s1)))"

lemmas branch_defs [op_defs] =
  BEQ_def BEQL_def BGEZ_def BGEZL_def BGTZ_def BGTZL_def BLEZ_def BLEZL_def BLTZ_def BLTZL_def
  BNE_def BNEL_def BC0F_def BC0FL_def BC0T_def BC0TL_def BC1F_def BC1FL_def BC1T_def BC1TL_def
  J_def JR_def BGEZAL_def BGEZALL_def BLTZAL_def BLTZALL_def JAL_def JALR_def BREAK_def
  SYSCALL_def TEQ_def TGE_def TGEU_def TLT_def TLTU_def TNE_def TEQI_def TGEI_def TGEIU_def
  TLTI_def TLTIU_def TNEI_def ERET_def

section \<open>Well-formedness\<close>

lemma ee_ok_branch_itype [intro]: "ee_ok s \<Longrightarrow> ee_ok (branch_itype inst s)"
  by (simp add: branch_itype_def ee_ok_upd)

lemma ee_ok_advance_pc [intro]:
  assumes "ee_ok s" shows "ee_ok (ee_advance_pc s)"
proof -
  obtain b pc where a: "advance_pc (e_bdelay s, e_pc s) = (b, pc)" by fastforce
  then have "reg_read_only pc = reg_read_only (e_pc s)"
    using advance_pc_ro[of "e_bdelay s" "e_pc s"] by simp
  then have "reg_read_only pc = False" using ee_okD(3)[OF assms] by simp
  then have "ee_ok (s\<lparr>e_bdelay := b\<rparr>\<lparr>e_pc := pc\<rparr>)"
    by (intro ee_ok_upd(1) ee_ok_upd(9) assms)
  then show ?thesis using a by (simp add: ee_advance_pc_def)
qed

lemma ee_ok_link [intro]: "ee_ok s \<Longrightarrow> ee_ok (link n s)"
  by (auto simp: link_def)

lemma ok_ERET: "ee_ok s \<Longrightarrow> ok_res ee_ok (ERET inst s)"
  unfolding ERET_def
  by (rule ok_res_bind[where P = ee_ok])
    (auto intro!: ee_ok_status_insert ee_ok_pc_write ee_ok_flush ee_ok_cop0_upd cop0_inv_irq dest: ee_okD)

lemma branch_ok [op_ok]:
  assumes "ee_ok s"
  shows "ee_ok (BEQ inst s)"
    "ee_ok (BEQL inst s)"
    "ee_ok (BGEZ inst s)"
    "ee_ok (BGEZL inst s)"
    "ee_ok (BGTZ inst s)"
    "ee_ok (BGTZL inst s)"
    "ee_ok (BLEZ inst s)"
    "ee_ok (BLEZL inst s)"
    "ee_ok (BLTZ inst s)"
    "ee_ok (BLTZL inst s)"
    "ee_ok (BNE inst s)"
    "ee_ok (BNEL inst s)"
    "ok_res ee_ok (BC0F inst s)"
    "ok_res ee_ok (BC0FL inst s)"
    "ok_res ee_ok (BC0T inst s)"
    "ok_res ee_ok (BC0TL inst s)"
    "ok_res ee_ok (BC1F inst s)"
    "ok_res ee_ok (BC1FL inst s)"
    "ok_res ee_ok (BC1T inst s)"
    "ok_res ee_ok (BC1TL inst s)"
    "ee_ok (J inst s)"
    "ee_ok (JR inst s)"
    "ee_ok (BGEZAL inst s)"
    "ee_ok (BGEZALL inst s)"
    "ee_ok (BLTZAL inst s)"
    "ee_ok (BLTZALL inst s)"
    "ee_ok (JAL inst s)"
    "ee_ok (JALR inst s)"
    "ok_res ee_ok (BREAK inst s)"
    "ok_res ee_ok (SYSCALL inst s)"
    "ok_res ee_ok (TEQ inst s)"
    "ok_res ee_ok (TGE inst s)"
    "ok_res ee_ok (TGEU inst s)"
    "ok_res ee_ok (TLT inst s)"
    "ok_res ee_ok (TLTU inst s)"
    "ok_res ee_ok (TNE inst s)"
    "ok_res ee_ok (TEQI inst s)"
    "ok_res ee_ok (TGEI inst s)"
    "ok_res ee_ok (TGEIU inst s)"
    "ok_res ee_ok (TLTI inst s)"
    "ok_res ee_ok (TLTIU inst s)"
    "ok_res ee_ok (TNEI inst s)"
    "ok_res ee_ok (ERET inst s)"
  using assms ok_ERET[OF assms]
  by (auto simp: BEQ_def BEQL_def BGEZ_def BGEZL_def BGTZ_def BGTZL_def BLEZ_def BLEZL_def
      BLTZ_def BLTZL_def BNE_def BNEL_def BC0F_def BC0FL_def BC0T_def BC0TL_def BC1F_def
      BC1FL_def BC1T_def BC1TL_def J_def JR_def BGEZAL_def BGEZALL_def BLTZAL_def BLTZALL_def
      JAL_def JALR_def BREAK_def SYSCALL_def TEQ_def TGE_def TGEU_def TLT_def TLTU_def TNE_def
      TEQI_def TGEI_def TGEIU_def TLTI_def TLTIU_def TNEI_def Let_def
      intro!: ok_guarded ok_checks ee_ok_upd(9) ok_handle_exception)

section \<open>What the instructions do\<close>

text \<open>
  A branch that is taken, followed by the two advances of the PC that end the branch itself
  and its delay slot: the target.  One that is not taken moves on by one instruction, and
  a likely one that is not taken skips its delay slot.
\<close>

definition branch_target :: "instruction \<Rightarrow> uptr \<Rightarrow> uptr" where
  "branch_target inst pc = pc + 4 + 4 * scast (inst_s_imm inst)"

lemma pc_val_advance:
  assumes "ee_ok s"
  shows "current_slot (e_bdelay s) = 0 \<Longrightarrow> pc_val (ee_advance_pc s) = pc_val s + 4"
    "current_slot (e_bdelay s) = 1 \<Longrightarrow> pc_val (ee_advance_pc s) = branch_pc (e_bdelay s)"
    "current_slot (e_bdelay s) = 2 \<Longrightarrow> pc_val (ee_advance_pc s) = pc_val s + 4"
    "current_slot (e_bdelay (ee_advance_pc s)) = current_slot (e_bdelay s) - 1"
    "branch_pc (e_bdelay (ee_advance_pc s)) = branch_pc (e_bdelay s)"
  using ee_okD(3)[OF assms]
  by (auto simp: ee_advance_pc_def advance_pc_def Let_def w_offset_def w_defs split: prod.splits)

lemma branch_taken:
  assumes "ee_ok s"
  shows "pc_val (ee_advance_pc (branch_itype inst s)) = pc_val s + 4"
    "pc_val (ee_advance_pc (ee_advance_pc (branch_itype inst s))) = branch_target inst (pc_val s)"
    "is_branch_pending (e_bdelay (ee_advance_pc (branch_itype inst s)))"
    "\<not> is_branch_pending (e_bdelay (ee_advance_pc (ee_advance_pc (branch_itype inst s))))"
proof -
  let ?b = "branch_itype inst s"
  have b: "current_slot (e_bdelay ?b) = 2" "branch_pc (e_bdelay ?b) = branch_target inst (pc_val s)"
    "pc_val ?b = pc_val s"
    by (simp_all add: branch_itype_def set_branch_itype_def branch_target_def push_bit_eq_mult
        mult.commute)
  have ok: "ee_ok ?b" "ee_ok (ee_advance_pc ?b)" using assms by auto
  show "pc_val (ee_advance_pc ?b) = pc_val s + 4"
    "pc_val (ee_advance_pc (ee_advance_pc ?b)) = branch_target inst (pc_val s)"
    "is_branch_pending (e_bdelay (ee_advance_pc ?b))"
    "\<not> is_branch_pending (e_bdelay (ee_advance_pc (ee_advance_pc ?b)))"
    using b pc_val_advance[OF ok(1)] pc_val_advance[OF ok(2)]
    by (simp_all add: is_branch_pending_def)
qed

lemma advance_no_branch:
  assumes "ee_ok s" and "\<not> is_branch_pending (e_bdelay s)"
  shows "pc_val (ee_advance_pc s) = pc_val s + 4"
    "pc_val (ee_advance_pc (ee_advance_pc s)) = pc_val s + 8"
proof -
  have c: "current_slot (e_bdelay s) = 0" using assms(2) by (simp add: is_branch_pending_def)
  show "pc_val (ee_advance_pc s) = pc_val s + 4"
    using pc_val_advance(1)[OF assms(1) c] .
  moreover have "current_slot (e_bdelay (ee_advance_pc s)) = 0"
    using pc_val_advance(4)[OF assms(1)] c by simp
  ultimately show "pc_val (ee_advance_pc (ee_advance_pc s)) = pc_val s + 8"
    using pc_val_advance(1)[OF ee_ok_advance_pc[OF assms(1)]] by simp
qed

text \<open>
  The return from an exception undoes its entry: with the error level clear, the PC is
  set so that the advance that ends ERET lands on the saved address.
\<close>

lemma ERET_level1:
  assumes ok: "ee_ok s" and erl: "\<not> bit (c0_raw C0_STATUS (e_cop0 s)) 2"
    and ksu: "\<not> (bit (c0_raw C0_STATUS (e_cop0 s)) 3 \<and> bit (c0_raw C0_STATUS (e_cop0 s)) 4)"
    and nb: "\<not> is_branch_pending (e_bdelay s)"
  shows "\<exists>s'. ERET inst s = Inr s' \<and> ee_ok s' \<and>
    pc_val (ee_advance_pc s') = c0_raw C0_EPC (e_cop0 s) \<and>
    (\<forall>n. bit (c0_raw C0_STATUS (e_cop0 s')) n \<longleftrightarrow> n \<noteq> 1 \<and> bit (c0_raw C0_STATUS (e_cop0 s)) n) \<and>
    c0_irq_lines (e_cop0 s') = replicate 8 False \<and> e_gpr s' = e_gpr s"
proof -
  let ?c = "e_cop0 s"
  let ?st = "insert_into STATUS_EXL (c0_raw C0_STATUS ?c) 0"
  have b: "bit ?st n \<longleftrightarrow> n \<noteq> 1 \<and> bit (c0_raw C0_STATUS ?c) n" for n
    by (auto simp: bit_insert_into word_defs dest: bit_imp_le_length)
  obtain ctx where ctx: "status_context ?st = Some ctx"
    using status_context_Some[of ?st] b ksu by auto
  obtain c' where c': "status_insert_field STATUS_EXL 0 ?c = Inr c'" "cop0_inv c'"
    "c0_raw C0_STATUS c' = ?st" "c0_irq_lines c' = c0_irq_lines ?c"
    using status_insert_spec[OF ee_okD(1)[OF ok] ctx] by metis
  let ?s1 = "(pc_upd (w_write_uword (c0_raw C0_EPC ?c - 4)) s)\<lparr>e_cop0 := c'\<rparr>"
  let ?s' = "flush_translation_caches (cop0_upd cause_clear_all_irq ?s1)"
  have "status_field STATUS_ERL ?c = 0"
    using erl by (simp add: status_field_def word_defs extract_1_eq)
  then have e: "ERET inst s = Inr ?s'"
    by (simp add: ERET_def cop0_res_def c'(1))
  have ok': "ee_ok ?s'" using ok_ERET[OF ok, of inst] e by simp
  have "pc_val ?s' = c0_raw C0_EPC ?c - 4"
    using ee_okD(3)[OF ok] by (simp add: flush_translation_caches_def w_defs)
  moreover have "\<not> is_branch_pending (e_bdelay ?s')"
    using nb by (simp add: flush_translation_caches_def)
  ultimately have "pc_val (ee_advance_pc ?s') = c0_raw C0_EPC ?c"
    using advance_no_branch(1)[OF ok'] by simp
  moreover have "c0_irq_lines (e_cop0 ?s') = replicate 8 False"
    using c'(4) ee_okD(1)[OF ok]
    by (simp add: flush_translation_caches_def cause_clear_all_irq_def cop0_inv_def map_replicate_const)
  moreover have "c0_raw C0_STATUS (e_cop0 ?s') = ?st"
    using c'(3) by (simp add: flush_translation_caches_def cause_clear_all_irq_def c0_raw_def)
  ultimately show ?thesis using e ok' b by (simp add: flush_translation_caches_def)
qed

text \<open>Exception entry at level 1 followed by ERET: back at the instruction.\<close>

lemma exception_then_ERET:
  assumes ok: "ee_ok s" and l1: "\<not> is_level2 ex"
    and exl: "\<not> bit (c0_raw C0_STATUS (e_cop0 s)) 1"
    and ksu: "\<not> (bit (c0_raw C0_STATUS (e_cop0 s)) 3 \<and> bit (c0_raw C0_STATUS (e_cop0 s)) 4)"
  shows "\<exists>s1 s2. handle_exception ex s = Inr s1 \<and> ERET inst s1 = Inr s2 \<and>
    pc_val (ee_advance_pc s2) = error_pc s \<and> e_gpr s2 = e_gpr s"
proof -
  obtain s1 where s1: "handle_exception ex s = Inr s1" "level1_entry ex s s1" "ee_ok s1"
    using handle_exception_level1_fresh[OF ok l1 exl ksu] by blast
  have "\<not> (bit (c0_raw C0_STATUS (e_cop0 s1)) 3 \<and> bit (c0_raw C0_STATUS (e_cop0 s1)) 4)"
    using s1(2) ksu by (simp add: level1_entry_def)
  moreover have "\<not> bit (c0_raw C0_STATUS (e_cop0 s1)) 2" "\<not> is_branch_pending (e_bdelay s1)"
    "c0_raw C0_EPC (e_cop0 s1) = error_pc s" "e_gpr s1 = e_gpr s"
    using s1(2) by (simp_all add: level1_entry_def)
  ultimately show ?thesis
    using ERET_level1[OF s1(3), of inst] s1(1) by force
qed

end
