(* ===== verification/EeMultDiv.thy ===== *)
theory EeMultDiv
  imports EeLanes "HOL-Library.Signed_Division"
begin

text \<open>
  \<open>CEeCoreInterpreter_INTEGER_MULT_DIV.cpp\<close> and \<open>CEeCoreInterpreter_INTEGER_MULT_ADD.cpp\<close>:
  multiplication, division and multiply-accumulate into HI and LO.  C++ division
  truncates towards zero (\<open>sdiv\<close>, \<open>smod\<close>); the signed products the code computes in too
  narrow a type wrap, as they do on the hosts the emulator runs on.
\<close>

section \<open>HI and LO\<close>

definition lo_upd :: "(qword_register \<Rightarrow> qword_register) \<Rightarrow> ee_state \<Rightarrow> ee_state" where
  "lo_upd f s = s\<lparr>e_lo := f (e_lo s)\<rparr>"
definition hi_upd :: "(qword_register \<Rightarrow> qword_register) \<Rightarrow> ee_state \<Rightarrow> ee_state" where
  "hi_upd f s = s\<lparr>e_hi := f (e_hi s)\<rparr>"

definition q_put_words :: "uword \<Rightarrow> uword \<Rightarrow> uword \<Rightarrow> uword \<Rightarrow> qword_register \<Rightarrow> qword_register" where
  "q_put_words v0 v1 v2 v3 r =
     q_write_uword 3 v3 (q_write_uword 2 v2 (q_write_uword 1 v1 (q_write_uword 0 v0 r)))"
definition q_put_dwords :: "udword \<Rightarrow> udword \<Rightarrow> qword_register \<Rightarrow> qword_register" where
  "q_put_dwords v0 v1 r = q_write_udword 1 v1 (q_write_udword 0 v0 r)"

text \<open>\<open>static_cast<sdword>(static_cast<sword>(x & 0xFFFFFFFF))\<close> and the same of \<open>x >> 32\<close>.\<close>

definition low_sext :: "udword \<Rightarrow> udword" where
  "low_sext v = scast (ucast v :: uword)"
definition high_sext :: "udword \<Rightarrow> udword" where
  "high_sext v = scast (ucast (signed_drop_bit 32 v) :: uword)"
definition high_sext_u :: "udword \<Rightarrow> udword" where
  "high_sext_u v = scast (ucast (drop_bit 32 v) :: uword)"

section \<open>Division\<close>

definition c_div :: "'a::len word \<Rightarrow> 'a word \<Rightarrow> 'a word" where
  "c_div a b = word_of_int (sint a sdiv sint b)"
definition c_mod :: "'a::len word \<Rightarrow> 'a word \<Rightarrow> 'a word" where
  "c_mod a b = word_of_int (sint a smod sint b)"

definition DIV :: "instruction \<Rightarrow> ee_state \<Rightarrow> ee_state" where
  "DIV inst s =
     (let val_source1 = src_w (inst_rs inst) 0 s;
          val_source2 = src_w (inst_rt inst) 0 s
      in if sint val_source1 = VALUE_SWORD_MIN \<and> sint val_source2 = -1 then
           hi_upd (q_write_udword 0 0) (lo_upd (q_write_udword 0 (word_of_int VALUE_SWORD_MIN)) s)
         else if val_source2 = 0 then s
         else
           let resultQ = c_div val_source1 val_source2;
               resultR = c_mod val_source1 val_source2
           in hi_upd (q_write_udword 0 (scast resultR)) (lo_upd (q_write_udword 0 (scast resultQ)) s))"

definition DIV1 :: "instruction \<Rightarrow> ee_state \<Rightarrow> ee_state" where
  "DIV1 inst s =
     DIV inst s"

definition DIVU :: "instruction \<Rightarrow> ee_state \<Rightarrow> ee_state" where
  "DIVU inst s =
     (let val_source1 = src_w (inst_rs inst) 0 s;
          val_source2 = src_w (inst_rt inst) 0 s
      in if val_source2 = 0 then s
         else
           let resultQ = val_source1 div val_source2;
               resultR = val_source1 mod val_source2
           in hi_upd (q_write_udword 0 (scast resultR)) (lo_upd (q_write_udword 0 (scast resultQ)) s))"

definition DIVU1 :: "instruction \<Rightarrow> ee_state \<Rightarrow> ee_state" where
  "DIVU1 inst s =
     DIVU inst s"

definition PDIVBW_div :: "uhword \<Rightarrow> uword \<Rightarrow> uword \<times> uword" where
  "PDIVBW_div divisor a =
     (if sint a = VALUE_SWORD_MIN \<and> sint divisor = -1 then (word_of_int VALUE_SWORD_MIN, 0)
      else if divisor = 0 then (0, 0)
      else (c_div a (scast divisor), c_mod a (scast divisor)))"

definition PDIVBW :: "instruction \<Rightarrow> ee_state \<Rightarrow> ee_state" where
  "PDIVBW inst s =
     (let divisor = src_h (inst_rt inst) 0 s;
          (q0, r0) = PDIVBW_div divisor (src_w (inst_rs inst) 0 s);
          (q1, r1) = PDIVBW_div divisor (src_w (inst_rs inst) 1 s);
          (q2, r2) = PDIVBW_div divisor (src_w (inst_rs inst) 2 s);
          (q3, r3) = PDIVBW_div divisor (src_w (inst_rs inst) 3 s)
      in hi_upd (q_put_words r0 r1 r2 r3) (lo_upd (q_put_words q0 q1 q2 q3) s))"

definition PDIVUW_div :: "uword \<Rightarrow> uword \<Rightarrow> udword \<times> udword" where
  "PDIVUW_div a b = (if b = 0 then (0, 0) else (scast (a div b), scast (a mod b)))"

definition PDIVW_div :: "uword \<Rightarrow> uword \<Rightarrow> udword \<times> udword" where
  "PDIVW_div a b =
     (if a = word_of_int VALUE_SWORD_MIN \<and> b = -1 then (word_of_int VALUE_SWORD_MIN, 0)
      else if b = 0 then (0, 0)
      else (scast (c_div a b), scast (c_mod a b)))"

definition PDIVUW :: "instruction \<Rightarrow> ee_state \<Rightarrow> ee_state" where
  "PDIVUW inst s =
     (let (q0, r0) = PDIVUW_div (src_w (inst_rs inst) 0 s) (src_w (inst_rt inst) 0 s);
          (q1, r1) = PDIVUW_div (src_w (inst_rs inst) 2 s) (src_w (inst_rt inst) 2 s)
      in hi_upd (q_put_dwords r0 r1) (lo_upd (q_put_dwords q0 q1) s))"

definition PDIVW :: "instruction \<Rightarrow> ee_state \<Rightarrow> ee_state" where
  "PDIVW inst s =
     (let (q0, r0) = PDIVW_div (src_w (inst_rs inst) 0 s) (src_w (inst_rt inst) 0 s);
          (q1, r1) = PDIVW_div (src_w (inst_rs inst) 2 s) (src_w (inst_rt inst) 2 s)
      in hi_upd (q_put_dwords r0 r1) (lo_upd (q_put_dwords q0 q1) s))"

section \<open>Multiplication\<close>

definition MULT :: "instruction \<Rightarrow> ee_state \<Rightarrow> ee_state" where
  "MULT inst s =
     (let val_source1 = scast (src_w (inst_rs inst) 0 s);
          val_source2 = scast (src_w (inst_rt inst) 0 s);
          result = val_source1 * val_source2
      in hi_upd (q_write_udword 0 (high_sext result))
           (lo_upd (q_write_udword 0 (low_sext result)) (dest_d (inst_rd inst) (low_sext result) s)))"

definition MULT1 :: "instruction \<Rightarrow> ee_state \<Rightarrow> ee_state" where
  "MULT1 inst s =
     MULT inst s"

definition MULTU :: "instruction \<Rightarrow> ee_state \<Rightarrow> ee_state" where
  "MULTU inst s =
     (let val_source1 = ucast (src_w (inst_rs inst) 0 s);
          val_source2 = ucast (src_w (inst_rt inst) 0 s);
          result = val_source1 * val_source2
      in hi_upd (q_write_udword 0 (high_sext_u result))
           (lo_upd (q_write_udword 0 (low_sext result)) (dest_d (inst_rd inst) (low_sext result) s)))"

definition MULTU1 :: "instruction \<Rightarrow> ee_state \<Rightarrow> ee_state" where
  "MULTU1 inst s =
     MULTU inst s"

definition PMULTH_mult :: "uhword \<Rightarrow> uhword \<Rightarrow> uword" where
  "PMULTH_mult a b = scast a * scast b"

definition PMULTH :: "instruction \<Rightarrow> ee_state \<Rightarrow> ee_state" where
  "PMULTH inst s =
     (let val = (\<lambda>i. PMULTH_mult (src_h (inst_rs inst) i s) (src_h (inst_rt inst) i s));
          s1 = gpr_upd (inst_rd inst) (q_put_words (val 0) (val 2) (val 4) (val 6)) s;
          s2 = lo_upd (q_put_words (val 0) (val 1) (val 4) (val 5)) s1
      in hi_upd (q_put_words (val 2) (val 3) (val 6) (val 7)) s2)"

text \<open>Both factors of these two come from the first source register.\<close>

definition PMULTUW_mult :: "uword \<Rightarrow> uword \<Rightarrow> udword \<times> udword \<times> udword" where
  "PMULTUW_mult a b = (let result = ucast a * ucast b in (result, low_sext result, high_sext_u result))"

definition PMULTW_mult :: "uword \<Rightarrow> uword \<Rightarrow> udword \<times> udword \<times> udword" where
  "PMULTW_mult a b = (let result = scast a * scast b in (result, low_sext result, high_sext result))"

definition PMULTUW :: "instruction \<Rightarrow> ee_state \<Rightarrow> ee_state" where
  "PMULTUW inst s =
     (let (value0, lo0, hi0) = PMULTUW_mult (src_w (inst_rs inst) 0 s) (src_w (inst_rs inst) 0 s);
          (value1, lo1, hi1) = PMULTUW_mult (src_w (inst_rs inst) 2 s) (src_w (inst_rs inst) 2 s);
          s1 = gpr_upd (inst_rd inst) (q_put_dwords value0 value1) s
      in hi_upd (q_put_dwords hi0 hi1) (lo_upd (q_put_dwords lo0 lo1) s1))"

definition PMULTW :: "instruction \<Rightarrow> ee_state \<Rightarrow> ee_state" where
  "PMULTW inst s =
     (let (value0, lo0, hi0) = PMULTW_mult (src_w (inst_rs inst) 0 s) (src_w (inst_rs inst) 0 s);
          (value1, lo1, hi1) = PMULTW_mult (src_w (inst_rs inst) 2 s) (src_w (inst_rs inst) 2 s);
          s1 = gpr_upd (inst_rd inst) (q_put_dwords value0 value1) s
      in hi_upd (q_put_dwords hi0 hi1) (lo_upd (q_put_dwords lo0 lo1) s1))"

section \<open>Multiply-accumulate\<close>

text \<open>
  \<open>MADD\<close>: the low half is sign-extended before it is combined with the high half, and the
  product is computed in 32 bits.  \<open>MADDU\<close> keeps its result in 32 bits and then shifts it
  right by 32, which C++ leaves undefined.
\<close>

definition MADD :: "instruction \<Rightarrow> ee_state \<Rightarrow> ee_state" where
  "MADD inst s =
     (let val_source1 = src_w (inst_rs inst) 0 s;
          val_source2 = src_w (inst_rt inst) 0 s;
          val_lo = scast (q_read_uword 0 (e_lo s)) :: udword;
          val_hi = scast (q_read_uword 0 (e_hi s)) :: udword;
          result = (push_bit 32 val_hi OR val_lo) + scast (val_source1 * val_source2)
      in dest_d (inst_rd inst) (low_sext result)
           (hi_upd (q_write_udword 0 (high_sext result)) (lo_upd (q_write_udword 0 (low_sext result)) s)))"

definition MADD1 :: "instruction \<Rightarrow> ee_state \<Rightarrow> ee_state" where
  "MADD1 inst s =
     MADD inst s"

definition MADDU :: "instruction \<Rightarrow> ee_state \<Rightarrow> ee_state res" where
  "MADDU inst s =
     Inl Undefined_shift"

definition MADDU1 :: "instruction \<Rightarrow> ee_state \<Rightarrow> ee_state res" where
  "MADDU1 inst s =
     MADDU inst s"

definition PHMADH_madd :: "uhword \<Rightarrow> uhword \<Rightarrow> uhword \<Rightarrow> uhword \<Rightarrow> uword" where
  "PHMADH_madd a0 b0 a1 b1 = scast a1 * scast b1 + scast a0 * scast b0"

definition PHMSBH_madd :: "uhword \<Rightarrow> uhword \<Rightarrow> uhword \<Rightarrow> uhword \<Rightarrow> uword" where
  "PHMSBH_madd a0 b0 a1 b1 = scast a1 * scast b1 - scast a0 * scast b0"

definition PHMADH :: "instruction \<Rightarrow> ee_state \<Rightarrow> ee_state" where
  "PHMADH inst s =
     (let val = (\<lambda>i. PHMADH_madd
             (src_h (inst_rs inst) (2 * i) s) (src_h (inst_rt inst) (2 * i) s)
             (src_h (inst_rs inst) (2 * i + 1) s) (src_h (inst_rt inst) (2 * i + 1) s));
          s1 = gpr_upd (inst_rd inst) (q_put_words (val 0) (val 1) (val 2) (val 3)) s;
          s2 = lo_upd (\<lambda>r. q_write_uword 2 (val 2) (q_write_uword 0 (val 0) r)) s1
      in hi_upd (\<lambda>r. q_write_uword 2 (val 3) (q_write_uword 0 (val 1) r)) s2)"

definition PHMSBH :: "instruction \<Rightarrow> ee_state \<Rightarrow> ee_state" where
  "PHMSBH inst s =
     (let val = (\<lambda>i. PHMSBH_madd
             (src_h (inst_rs inst) (2 * i) s) (src_h (inst_rt inst) (2 * i) s)
             (src_h (inst_rs inst) (2 * i + 1) s) (src_h (inst_rt inst) (2 * i + 1) s));
          s1 = gpr_upd (inst_rd inst) (q_put_words (val 0) (val 1) (val 2) (val 3)) s;
          s2 = lo_upd (\<lambda>r. q_write_uword 2 (val 2) (q_write_uword 0 (val 0) r)) s1
      in hi_upd (\<lambda>r. q_write_uword 2 (val 3) (q_write_uword 0 (val 1) r)) s2)"

definition PMADDH_madd :: "uhword \<Rightarrow> uhword \<Rightarrow> uword \<Rightarrow> uword" where
  "PMADDH_madd a b c = scast a * scast b + c"

definition PMSUBH_madd :: "uhword \<Rightarrow> uhword \<Rightarrow> uword \<Rightarrow> uword" where
  "PMSUBH_madd a b c = c - scast a * scast b"

definition acc_word :: "ee_state \<Rightarrow> nat \<Rightarrow> uword" where
  "acc_word s i =
     (if i < 2 then q_read_uword i (e_lo s) else if i < 4 then q_read_uword (i - 2) (e_hi s)
      else if i < 6 then q_read_uword (i - 2) (e_lo s) else q_read_uword (i - 4) (e_hi s))"

definition PMADDH :: "instruction \<Rightarrow> ee_state \<Rightarrow> ee_state" where
  "PMADDH inst s =
     (let val = (\<lambda>i. PMADDH_madd (src_h (inst_rs inst) i s) (src_h (inst_rt inst) i s) (acc_word s i));
          s1 = lo_upd (q_put_words (val 0) (val 1) (val 4) (val 5)) s;
          s2 = hi_upd (q_put_words (val 2) (val 3) (val 6) (val 7)) s1
      in gpr_upd (inst_rd inst) (q_put_words (val 0) (val 2) (val 4) (val 5)) s2)"

definition PMSUBH :: "instruction \<Rightarrow> ee_state \<Rightarrow> ee_state" where
  "PMSUBH inst s =
     (let val = (\<lambda>i. PMSUBH_madd (src_h (inst_rs inst) i s) (src_h (inst_rt inst) i s) (acc_word s i));
          s1 = lo_upd (q_put_words (val 0) (val 1) (val 4) (val 5)) s;
          s2 = hi_upd (q_put_words (val 2) (val 3) (val 6) (val 7)) s1
      in gpr_upd (inst_rd inst) (q_put_words (val 0) (val 2) (val 4) (val 5)) s2)"

definition PMADDUW_madd :: "uword \<Rightarrow> uword \<Rightarrow> uword \<Rightarrow> uword \<Rightarrow> udword \<times> udword \<times> udword" where
  "PMADDUW_madd a b c0 c1 =
     (let result = (push_bit 32 (ucast c1) OR ucast c0) + ucast a * ucast b
      in (result, low_sext result, high_sext_u result))"

definition PMADDW_madd :: "uword \<Rightarrow> uword \<Rightarrow> uword \<Rightarrow> uword \<Rightarrow> udword \<times> udword \<times> udword" where
  "PMADDW_madd a b c0 c1 =
     (let result = (push_bit 32 (scast c1) OR scast c0) + scast a * scast b
      in (result, low_sext result, high_sext result))"

definition PMSUBW_madd :: "uword \<Rightarrow> uword \<Rightarrow> uword \<Rightarrow> uword \<Rightarrow> udword \<times> udword \<times> udword" where
  "PMSUBW_madd a b c0 c1 =
     (let result = (push_bit 32 (scast c1) OR scast c0) - scast a * scast b
      in (result, low_sext result, high_sext result))"

definition PMADDUW :: "instruction \<Rightarrow> ee_state \<Rightarrow> ee_state" where
  "PMADDUW inst s =
     (let (value0, lo0, hi0) = PMADDUW_madd (src_w (inst_rs inst) 0 s) (src_w (inst_rt inst) 0 s)
             (q_read_uword 0 (e_lo s)) (q_read_uword 0 (e_hi s));
          (value1, lo1, hi1) = PMADDUW_madd (src_w (inst_rs inst) 2 s) (src_w (inst_rt inst) 2 s)
             (q_read_uword 2 (e_lo s)) (q_read_uword 2 (e_hi s));
          s1 = gpr_upd (inst_rd inst) (q_put_dwords value0 value1) s
      in hi_upd (q_put_dwords hi0 hi1) (lo_upd (q_put_dwords lo0 lo1) s1))"

definition PMADDW :: "instruction \<Rightarrow> ee_state \<Rightarrow> ee_state" where
  "PMADDW inst s =
     (let (value0, lo0, hi0) = PMADDW_madd (src_w (inst_rs inst) 0 s) (src_w (inst_rt inst) 0 s)
             (q_read_uword 0 (e_lo s)) (q_read_uword 0 (e_hi s));
          (value1, lo1, hi1) = PMADDW_madd (src_w (inst_rs inst) 2 s) (src_w (inst_rt inst) 2 s)
             (q_read_uword 2 (e_lo s)) (q_read_uword 2 (e_hi s));
          s1 = gpr_upd (inst_rd inst) (q_put_dwords value0 value1) s
      in hi_upd (q_put_dwords hi0 hi1) (lo_upd (q_put_dwords lo0 lo1) s1))"

definition PMSUBW :: "instruction \<Rightarrow> ee_state \<Rightarrow> ee_state" where
  "PMSUBW inst s =
     (let (value0, lo0, hi0) = PMSUBW_madd (src_w (inst_rs inst) 0 s) (src_w (inst_rt inst) 0 s)
             (q_read_uword 0 (e_lo s)) (q_read_uword 0 (e_hi s));
          (value1, lo1, hi1) = PMSUBW_madd (src_w (inst_rs inst) 2 s) (src_w (inst_rt inst) 2 s)
             (q_read_uword 2 (e_lo s)) (q_read_uword 2 (e_hi s));
          s1 = gpr_upd (inst_rd inst) (q_put_dwords value0 value1) s
      in hi_upd (q_put_dwords hi0 hi1) (lo_upd (q_put_dwords lo0 lo1) s1))"

lemmas mult_div_defs [op_defs] =
  DIV_def DIV1_def DIVU_def DIVU1_def PDIVBW_def PDIVUW_def PDIVW_def MULT_def MULT1_def
  MULTU_def MULTU1_def PMULTH_def PMULTUW_def PMULTW_def MADD_def MADD1_def MADDU_def
  MADDU1_def PHMADH_def PHMSBH_def PMADDH_def PMSUBH_def PMADDUW_def PMADDW_def PMSUBW_def

section \<open>Well-formedness\<close>

lemma q_writer_more [simp, intro]:
  "q_writer (q_put_words v0 v1 v2 v3)" "q_writer (q_put_dwords d0 d1)"
  "q_writer (\<lambda>r. q_write_uword i x (q_write_uword j y r))"
  by (simp_all add: q_writer_def q_put_words_def q_put_dwords_def q_defs)

lemma ee_ok_hi_lo [intro]:
  assumes "ee_ok s" and "q_writer f"
  shows "ee_ok (lo_upd f s)" "ee_ok (hi_upd f s)"
  using assms by (simp_all add: ee_ok_def lo_upd_def hi_upd_def q_writer_def)

lemma mult_div_ok [op_ok]:
  assumes "ee_ok s"
  shows "ee_ok (DIV inst s)"
    "ee_ok (DIV1 inst s)"
    "ee_ok (DIVU inst s)"
    "ee_ok (DIVU1 inst s)"
    "ee_ok (PDIVBW inst s)"
    "ee_ok (PDIVUW inst s)"
    "ee_ok (PDIVW inst s)"
    "ee_ok (MULT inst s)"
    "ee_ok (MULT1 inst s)"
    "ee_ok (MULTU inst s)"
    "ee_ok (MULTU1 inst s)"
    "ee_ok (PMULTH inst s)"
    "ee_ok (PMULTUW inst s)"
    "ee_ok (PMULTW inst s)"
    "ee_ok (MADD inst s)"
    "ee_ok (MADD1 inst s)"
    "ok_res ee_ok (MADDU inst s)"
    "ok_res ee_ok (MADDU1 inst s)"
    "ee_ok (PHMADH inst s)"
    "ee_ok (PHMSBH inst s)"
    "ee_ok (PMADDH inst s)"
    "ee_ok (PMSUBH inst s)"
    "ee_ok (PMADDUW inst s)"
    "ee_ok (PMADDW inst s)"
    "ee_ok (PMSUBW inst s)"
  using assms
  by (simp_all add: mult_div_defs Let_def ee_ok_gpr_upd ee_ok_hi_lo split_beta)

section \<open>What the instructions compute\<close>

lemma hi_lo_get:
  assumes "ee_ok s"
  shows "q_read_udword 0 (e_lo (lo_upd (q_write_udword 0 v) s)) = v"
    "q_read_udword 0 (e_hi (hi_upd (q_write_udword 0 v) s)) = v"
    "e_lo (hi_upd f s) = e_lo s" "e_hi (lo_upd f s) = e_hi s"
    "e_gpr (hi_upd f s) = e_gpr s" "e_gpr (lo_upd f s) = e_gpr s"
  using ee_okD(4,5)[OF assms]
  by (simp_all add: lo_upd_def hi_upd_def q_defs reg_read_lane_def)

text \<open>Signed division: the quotient truncates and the remainder has the sign of the dividend.\<close>

lemma sint_c_div:
  fixes a b :: uword
  assumes "\<not> (sint a = VALUE_SWORD_MIN \<and> sint b = -1)"
  shows "sint (c_div a b) = sint a sdiv sint b"
proof -
  note r = sint_uword_range[of a] sdiv_int_range[of "sint a" "sint b"]
  have "sint a sdiv sint b \<noteq> 2147483648"
  proof
    assume q: "sint a sdiv sint b = 2147483648"
    then have "sint a = VALUE_SWORD_MIN" using r by auto
    then show False using q assms int_sdiv_negated_is_minus1[of "sint a" "sint b"] by simp
  qed
  then show ?thesis
    unfolding c_div_def by (intro sint_word_of_int_id) (use r in auto)
qed

lemma sint_c_mod:
  fixes a b :: uword
  assumes "b \<noteq> 0"
  shows "sint (c_mod a b) = sint a smod sint b"
proof -
  have "sint b \<noteq> 0" using assms by (simp add: signed_eq_0_iff)
  from smod_int_range[OF this, of "sint a"] show ?thesis
    unfolding c_mod_def by (intro sint_word_of_int_id) (use sint_uword_range[of b] in auto)
qed

lemma sint_scast_dword: "sint (scast (a :: uword) :: udword) = sint a"
  by (simp add: sint_up_scast is_up)

lemma DIV_spec:
  assumes ok: "ee_ok s" and nz: "src_w (inst_rt inst) 0 s \<noteq> 0"
  shows "let x = sint (src_w (inst_rs inst) 0 s); y = sint (src_w (inst_rt inst) 0 s) in
    sint (q_read_udword 0 (e_lo (DIV inst s))) =
      (if x = VALUE_SWORD_MIN \<and> y = -1 then VALUE_SWORD_MIN else x sdiv y) \<and>
    sint (q_read_udword 0 (e_hi (DIV inst s))) = x smod y"
proof -
  let ?a = "src_w (inst_rs inst) 0 s" and ?b = "src_w (inst_rt inst) 0 s"
  have l: "ee_ok (lo_upd (q_write_udword 0 v) s)" for v using ok by auto
  show ?thesis
  proof (cases "sint ?a = VALUE_SWORD_MIN \<and> sint ?b = -1")
    case True
    then show ?thesis
      using hi_lo_get[OF ok] hi_lo_get[OF l] by (simp add: DIV_def Let_def smod_int_alt_def)
  next
    case False
    then have d: "DIV inst s = hi_upd (q_write_udword 0 (scast (c_mod ?a ?b)))
        (lo_upd (q_write_udword 0 (scast (c_div ?a ?b))) s)"
      using nz by (simp only: DIV_def Let_def if_not_P if_False)
    have "sint (q_read_udword 0 (e_lo (DIV inst s))) = sint ?a sdiv sint ?b"
      unfolding d hi_lo_get(3)[OF l] hi_lo_get(1)[OF ok] sint_scast_dword
      using False by (rule sint_c_div)
    moreover have "sint (q_read_udword 0 (e_hi (DIV inst s))) = sint ?a smod sint ?b"
      unfolding d hi_lo_get(2)[OF l] sint_scast_dword
      using nz by (rule sint_c_mod)
    ultimately show ?thesis using False by (simp only: Let_def if_not_P simp_thms)
  qed
qed

text \<open>
  The 64-bit product of MULT, split into HI and LO: the words recombine to it.
\<close>

lemma MULT_spec:
  assumes ok: "ee_ok s" and rd: "inst_rd inst \<noteq> 0"
  shows "sint (push_bit 32 (q_read_udword 0 (e_hi (MULT inst s))) OR
            take_bit 32 (q_read_udword 0 (e_lo (MULT inst s)))) =
      sint (src_w (inst_rs inst) 0 s) * sint (src_w (inst_rt inst) 0 s)"
    "src_d (inst_rd inst) 0 (MULT inst s) = q_read_udword 0 (e_lo (MULT inst s))"
proof -
  let ?a = "src_w (inst_rs inst) 0 s" and ?b = "src_w (inst_rt inst) 0 s"
  let ?r = "scast ?a * scast ?b :: udword"
  let ?s1 = "dest_d (inst_rd inst) (low_sext ?r) s"
  have ok1: "ee_ok ?s1" using ok by auto
  have ok2: "ee_ok (lo_upd (q_write_udword 0 (low_sext ?r)) ?s1)" using ok1 by auto
  have e: "MULT inst s = hi_upd (q_write_udword 0 (high_sext ?r))
      (lo_upd (q_write_udword 0 (low_sext ?r)) ?s1)"
    by (simp add: MULT_def Let_def)
  have lo: "q_read_udword 0 (e_lo (MULT inst s)) = low_sext ?r"
    unfolding e by (simp only: hi_lo_get[OF ok1] hi_lo_get[OF ok2])
  have hi: "q_read_udword 0 (e_hi (MULT inst s)) = high_sext ?r"
    unfolding e by (simp only: hi_lo_get[OF ok2])
  have c: "push_bit 32 (high_sext v) OR take_bit 32 (low_sext v) = v" for v :: udword
  proof (rule bit_word_eqI)
    fix n assume "n < LENGTH(64)"
    then consider "n < 31" | "n = 31" | "32 \<le> n" "n < 63" | "n = 63" by fastforce
    then show "bit (push_bit 32 (high_sext v) OR take_bit 32 (low_sext v)) n = bit v n"
      by cases (auto simp: bit_simps low_sext_def high_sext_def min_def)
  qed
  have "sint ?r = sint ?a * sint ?b"
  proof -
    have "?r = word_of_int (sint ?a * sint ?b)" by (simp add: of_int_mult)
    moreover have "\<bar>sint ?a * sint ?b\<bar> \<le> 2147483648 * 2147483648"
      unfolding abs_mult using sint_uword_range[of ?a] sint_uword_range[of ?b]
      by (intro mult_mono) auto
    ultimately show ?thesis by (simp only:) (rule sint_word_of_int_id, auto)
  qed
  then show "sint (push_bit 32 (q_read_udword 0 (e_hi (MULT inst s))) OR
      take_bit 32 (q_read_udword 0 (e_lo (MULT inst s)))) = sint ?a * sint ?b"
    by (simp only: lo hi c)
  show "src_d (inst_rd inst) 0 (MULT inst s) = q_read_udword 0 (e_lo (MULT inst s))"
    unfolding lo unfolding e by (simp only: hi_lo_get[OF ok2] hi_lo_get[OF ok1] dest_get[OF ok rd])
qed

text \<open>The parallel word multiplications square the first source.\<close>

lemma PMULTW_squares:
  assumes ok: "ee_ok s" and rd: "inst_rd inst \<noteq> 0"
  shows "src_d (inst_rd inst) 0 (PMULTW inst s) =
    scast (src_w (inst_rs inst) 0 s) * scast (src_w (inst_rs inst) 0 s)"
proof -
  have "src_d n 0 (gpr_upd n (q_put_dwords v0 v1) s) = v0" if "n \<noteq> 0" for n v0 v1
    using ee_ok_gpr(1)[OF ok, of n] that
    by (simp add: gpr_upd_read q_put_dwords_def q_defs reg_read_lane_def get_put_lane_other)
  from this[OF rd] show ?thesis
    by (simp add: PMULTW_def PMULTW_mult_def Let_def hi_upd_def lo_upd_def)
qed

end
