(* ===== verification/EeTransfer.thy ===== *)
theory EeTransfer
  imports EeMultDiv EeCompare
begin

text \<open>
  \<open>CEeCoreInterpreter_REG_TRANSFER.cpp\<close> and \<open>CEeCoreInterpreter_SPECIAL_TRANSFER.cpp\<close>: moves
  between the general purpose registers, HI and LO, the shift amount register, the
  floating point registers and the control registers of the coprocessors.
\<close>

section \<open>HI, LO and conditional moves\<close>

definition MFHI :: "instruction \<Rightarrow> ee_state \<Rightarrow> ee_state" where
  "MFHI inst s =
     dest_d (inst_rd inst) (q_read_udword 0 (e_hi s)) s"

definition MFLO :: "instruction \<Rightarrow> ee_state \<Rightarrow> ee_state" where
  "MFLO inst s =
     dest_d (inst_rd inst) (q_read_udword 0 (e_lo s)) s"

definition MOVN :: "instruction \<Rightarrow> ee_state \<Rightarrow> ee_state" where
  "MOVN inst s =
     (if src_d (inst_rt inst) 0 s \<noteq> 0 then dest_d (inst_rd inst) (src_d (inst_rs inst) 0 s) s else s)"

definition MOVZ :: "instruction \<Rightarrow> ee_state \<Rightarrow> ee_state" where
  "MOVZ inst s =
     (if src_d (inst_rt inst) 0 s = 0 then dest_d (inst_rd inst) (src_d (inst_rs inst) 0 s) s else s)"

text \<open>The moves to HI and LO read the register of the \<open>rd\<close> field.\<close>

definition MTHI :: "instruction \<Rightarrow> ee_state \<Rightarrow> ee_state" where
  "MTHI inst s =
     hi_upd (q_write_udword 0 (src_d (inst_rd inst) 0 s)) s"

definition MTLO :: "instruction \<Rightarrow> ee_state \<Rightarrow> ee_state" where
  "MTLO inst s =
     lo_upd (q_write_udword 0 (src_d (inst_rd inst) 0 s)) s"

definition MFHI1 :: "instruction \<Rightarrow> ee_state \<Rightarrow> ee_state" where
  "MFHI1 inst s =
     dest_d (inst_rd inst) (q_read_udword 1 (e_hi s)) s"

definition MFLO1 :: "instruction \<Rightarrow> ee_state \<Rightarrow> ee_state" where
  "MFLO1 inst s =
     dest_d (inst_rd inst) (q_read_udword 1 (e_lo s)) s"

definition MTHI1 :: "instruction \<Rightarrow> ee_state \<Rightarrow> ee_state" where
  "MTHI1 inst s =
     hi_upd (q_write_udword 1 (src_d (inst_rd inst) 0 s)) s"

definition MTLO1 :: "instruction \<Rightarrow> ee_state \<Rightarrow> ee_state" where
  "MTLO1 inst s =
     lo_upd (q_write_udword 1 (src_d (inst_rd inst) 0 s)) s"

section \<open>Parallel moves\<close>

definition PMFHI :: "instruction \<Rightarrow> ee_state \<Rightarrow> ee_state" where
  "PMFHI inst s =
     gpr_upd (inst_rd inst) (q_put_dwords (q_read_udword 0 (e_hi s)) (q_read_udword 1 (e_hi s))) s"

definition PMFHL_LH :: "instruction \<Rightarrow> ee_state \<Rightarrow> ee_state" where
  "PMFHL_LH inst s =
     dest_hwords (inst_rd inst)
       ((!) [q_read_uhword 0 (e_lo s), q_read_uhword 2 (e_lo s), q_read_uhword 0 (e_hi s), q_read_uhword 2 (e_hi s),
          q_read_uhword 4 (e_lo s), q_read_uhword 6 (e_lo s), q_read_uhword 4 (e_hi s), q_read_uhword 6 (e_hi s)]) s"

definition PMFHL_LW :: "instruction \<Rightarrow> ee_state \<Rightarrow> ee_state" where
  "PMFHL_LW inst s =
     dest_words (inst_rd inst)
       ((!) [q_read_uword 0 (e_lo s), q_read_uword 0 (e_hi s), q_read_uword 2 (e_lo s), q_read_uword 2 (e_hi s)]) s"

definition PMFHL_SH :: "instruction \<Rightarrow> ee_state \<Rightarrow> ee_state" where
  "PMFHL_SH inst s =
     dest_hwords (inst_rd inst)
       ((!) [saturate_word_to_hword (q_read_uword 0 (e_lo s)), saturate_word_to_hword (q_read_uword 1 (e_lo s)),
          saturate_word_to_hword (q_read_uword 0 (e_hi s)), saturate_word_to_hword (q_read_uword 1 (e_hi s)),
          saturate_word_to_hword (q_read_uword 2 (e_lo s)), saturate_word_to_hword (q_read_uword 3 (e_lo s)),
          saturate_word_to_hword (q_read_uword 2 (e_hi s)), saturate_word_to_hword (q_read_uword 3 (e_hi s))]) s"

text \<open>The lambda clamps the union of the two unshifted words, zero-extended.\<close>

definition PMFHL_SLW_clamp :: "uword \<Rightarrow> uword \<Rightarrow> udword" where
  "PMFHL_SLW_clamp l h = scast (saturate_dword_to_word (ucast (h OR l)))"

definition PMFHL_SLW :: "instruction \<Rightarrow> ee_state \<Rightarrow> ee_state" where
  "PMFHL_SLW inst s =
     gpr_upd (inst_rd inst)
       (q_put_dwords (PMFHL_SLW_clamp (q_read_uword 0 (e_lo s)) (q_read_uword 0 (e_hi s)))
          (PMFHL_SLW_clamp (q_read_uword 2 (e_lo s)) (q_read_uword 2 (e_hi s)))) s"

definition PMFHL_UW :: "instruction \<Rightarrow> ee_state \<Rightarrow> ee_state" where
  "PMFHL_UW inst s =
     gpr_upd (inst_rd inst)
       (q_put_words (q_read_uword 1 (e_lo s)) (q_read_uword 1 (e_hi s))
          (q_read_uword 3 (e_lo s)) (q_read_uword 3 (e_hi s))) s"

definition PMFHL :: "instruction \<Rightarrow> ee_state \<Rightarrow> ee_state" where
  "PMFHL inst s =
     (let shamt = inst_shamt inst
      in if shamt = 0x0 then PMFHL_LW inst s
         else if shamt = 0x1 then PMFHL_UW inst s
         else if shamt = 0x2 then PMFHL_SLW inst s
         else if shamt = 0x3 then PMFHL_LH inst s
         else if shamt = 0x4 then PMFHL_SH inst s
         else s)"

definition PMFLO :: "instruction \<Rightarrow> ee_state \<Rightarrow> ee_state" where
  "PMFLO inst s =
     gpr_upd (inst_rd inst) (q_put_dwords (q_read_udword 0 (e_lo s)) (q_read_udword 1 (e_lo s))) s"

definition PMTHI :: "instruction \<Rightarrow> ee_state \<Rightarrow> ee_state" where
  "PMTHI inst s =
     hi_upd (q_put_dwords (src_d (inst_rs inst) 0 s) (src_d (inst_rs inst) 1 s)) s"

definition PMTHL_LW :: "instruction \<Rightarrow> ee_state \<Rightarrow> ee_state" where
  "PMTHL_LW inst s =
     (let s1 = lo_upd (\<lambda>r. q_write_uword 2 (src_w (inst_rs inst) 2 s) (q_write_uword 0 (src_w (inst_rs inst) 0 s) r)) s
      in hi_upd (\<lambda>r. q_write_uword 2 (src_w (inst_rs inst) 3 s) (q_write_uword 0 (src_w (inst_rs inst) 1 s) r)) s1)"

definition PMTLO :: "instruction \<Rightarrow> ee_state \<Rightarrow> ee_state" where
  "PMTLO inst s =
     lo_upd (q_put_dwords (src_d (inst_rs inst) 0 s) (src_d (inst_rs inst) 1 s)) s"

section \<open>Floating point registers\<close>

definition MFC1 :: "instruction \<Rightarrow> ee_state \<Rightarrow> ee_state res" where
  "MFC1 inst s =
     guarded handle_cop1_usable (\<lambda>s.
       let v = w_read_uword (e_fpr s (inst_rd inst));
           ext = (if f32_less v 0 then 0xFFFFFFFF else 0)
       in Inr (gpr_upd (inst_rt inst) (q_put_words v ext ext ext) s)) s"

definition MOV_S :: "instruction \<Rightarrow> ee_state \<Rightarrow> ee_state res" where
  "MOV_S inst s =
     guarded handle_cop1_usable (\<lambda>s.
       Inr (fpr_upd (inst_shamt inst) (w_write_uword (w_read_uword (e_fpr s (inst_rd inst)))) s)) s"

definition MTC1 :: "instruction \<Rightarrow> ee_state \<Rightarrow> ee_state res" where
  "MTC1 inst s =
     guarded handle_cop1_usable (\<lambda>s.
       Inr (fpr_upd (inst_rd inst) (w_write_uword (src_w (inst_rt inst) 0 s)) s)) s"

section \<open>The shift amount\<close>

text \<open>\<open>imm\<close> is a signed hword promoted to \<open>int\<close>; the mask leaves its low bits.\<close>

definition MFSA :: "instruction \<Rightarrow> ee_state \<Rightarrow> ee_state" where
  "MFSA inst s =
     dest_d (inst_rd inst) (ucast (w_read_uword (e_sa s))) s"

definition MTSA :: "instruction \<Rightarrow> ee_state \<Rightarrow> ee_state" where
  "MTSA inst s =
     s\<lparr>e_sa := w_write_uword (src_w (inst_rs inst) 0 s) (e_sa s)\<rparr>"

definition MTSAB :: "instruction \<Rightarrow> ee_state \<Rightarrow> ee_state" where
  "MTSAB inst s =
     s\<lparr>e_sa := w_write_uword
       (((src_w (inst_rs inst) 0 s AND 0xF) XOR (scast (inst_s_imm inst) AND 0xF)) * 8) (e_sa s)\<rparr>"

definition MTSAH :: "instruction \<Rightarrow> ee_state \<Rightarrow> ee_state" where
  "MTSAH inst s =
     s\<lparr>e_sa := w_write_uword
       (((src_w (inst_rs inst) 0 s AND 0x7) XOR (scast (inst_s_imm inst) AND 0x7)) * 16) (e_sa s)\<rparr>"

section \<open>Control registers\<close>

definition MFBPC :: "instruction \<Rightarrow> ee_state \<Rightarrow> ee_state res" where
  "MFBPC inst s =
     guarded handle_cop0_usable (\<lambda>s.
       Inr (dest_d (inst_rt inst) (ucast (c0_raw C0_BPC (e_cop0 s))) s)) s"

definition MTBPC :: "instruction \<Rightarrow> ee_state \<Rightarrow> ee_state res" where
  "MTBPC inst s =
     guarded handle_cop0_usable (\<lambda>s.
       Inr (cop0_upd (c0_raw_write C0_BPC (src_w (inst_rt inst) 0 s)) s)) s"

definition MFDAB :: "instruction \<Rightarrow> ee_state \<Rightarrow> ee_state res" where
  "MFDAB inst s =
     guarded handle_cop0_usable (\<lambda>s.
       Inr (dest_d (inst_rt inst) (ucast (c0_raw C0_DAB (e_cop0 s))) s)) s"

definition MTDAB :: "instruction \<Rightarrow> ee_state \<Rightarrow> ee_state res" where
  "MTDAB inst s =
     guarded handle_cop0_usable (\<lambda>s.
       Inr (cop0_upd (c0_raw_write C0_DAB (src_w (inst_rt inst) 0 s)) s)) s"

definition MFDABM :: "instruction \<Rightarrow> ee_state \<Rightarrow> ee_state res" where
  "MFDABM inst s =
     guarded handle_cop0_usable (\<lambda>s.
       Inr (dest_d (inst_rt inst) (ucast (c0_raw C0_DABM (e_cop0 s))) s)) s"

definition MTDABM :: "instruction \<Rightarrow> ee_state \<Rightarrow> ee_state res" where
  "MTDABM inst s =
     guarded handle_cop0_usable (\<lambda>s.
       Inr (cop0_upd (c0_raw_write C0_DABM (src_w (inst_rt inst) 0 s)) s)) s"

definition MFDVB :: "instruction \<Rightarrow> ee_state \<Rightarrow> ee_state res" where
  "MFDVB inst s =
     guarded handle_cop0_usable (\<lambda>s.
       Inr (dest_d (inst_rt inst) (ucast (c0_raw C0_DVB (e_cop0 s))) s)) s"

definition MTDVB :: "instruction \<Rightarrow> ee_state \<Rightarrow> ee_state res" where
  "MTDVB inst s =
     guarded handle_cop0_usable (\<lambda>s.
       Inr (cop0_upd (c0_raw_write C0_DVB (src_w (inst_rt inst) 0 s)) s)) s"

definition MFDVBM :: "instruction \<Rightarrow> ee_state \<Rightarrow> ee_state res" where
  "MFDVBM inst s =
     guarded handle_cop0_usable (\<lambda>s.
       Inr (dest_d (inst_rt inst) (ucast (c0_raw C0_DVBM (e_cop0 s))) s)) s"

definition MTDVBM :: "instruction \<Rightarrow> ee_state \<Rightarrow> ee_state res" where
  "MTDVBM inst s =
     guarded handle_cop0_usable (\<lambda>s.
       Inr (cop0_upd (c0_raw_write C0_DVBM (src_w (inst_rt inst) 0 s)) s)) s"

definition MFIAB :: "instruction \<Rightarrow> ee_state \<Rightarrow> ee_state res" where
  "MFIAB inst s =
     guarded handle_cop0_usable (\<lambda>s.
       Inr (dest_d (inst_rt inst) (ucast (c0_raw C0_IAB (e_cop0 s))) s)) s"

definition MTIAB :: "instruction \<Rightarrow> ee_state \<Rightarrow> ee_state res" where
  "MTIAB inst s =
     guarded handle_cop0_usable (\<lambda>s.
       Inr (cop0_upd (c0_raw_write C0_IAB (src_w (inst_rt inst) 0 s)) s)) s"

definition MFIABM :: "instruction \<Rightarrow> ee_state \<Rightarrow> ee_state res" where
  "MFIABM inst s =
     guarded handle_cop0_usable (\<lambda>s.
       Inr (dest_d (inst_rt inst) (ucast (c0_raw C0_IABM (e_cop0 s))) s)) s"

definition MTIABM :: "instruction \<Rightarrow> ee_state \<Rightarrow> ee_state res" where
  "MTIABM inst s =
     guarded handle_cop0_usable (\<lambda>s.
       Inr (cop0_upd (c0_raw_write C0_IABM (src_w (inst_rt inst) 0 s)) s)) s"

definition MFPS :: "instruction \<Rightarrow> ee_state \<Rightarrow> ee_state res" where
  "MFPS inst s =
     guarded handle_cop0_usable (\<lambda>s.
       Inr (dest_d (inst_rt inst) (ucast (c0_raw C0_PCCR (e_cop0 s))) s)) s"

definition MTPS :: "instruction \<Rightarrow> ee_state \<Rightarrow> ee_state res" where
  "MTPS inst s =
     guarded handle_cop0_usable (\<lambda>s.
       Inr (cop0_upd (c0_raw_write C0_PCCR (src_w (inst_rt inst) 0 s)) s)) s"

text \<open>\<open>registers[rd]\<close> is the register of that number, accessed through its virtual methods.\<close>

definition MFC0 :: "instruction \<Rightarrow> ee_state \<Rightarrow> ee_state res" where
  "MFC0 inst s =
     guarded handle_cop0_usable (\<lambda>s.
       let (v, c) = cop0_read_uword (inst_rd inst) (e_cop0 s)
       in Inr (dest_d (inst_rt inst) (ucast v) (s\<lparr>e_cop0 := c\<rparr>))) s"

definition MTC0 :: "instruction \<Rightarrow> ee_state \<Rightarrow> ee_state res" where
  "MTC0 inst s =
     guarded handle_cop0_usable (\<lambda>s.
       cop0_res (cop0_write_uword (inst_rd inst) (src_w (inst_rt inst) 0 s)) s) s"

text \<open>The performance counters: the index is \<open>funct & 0x3E\<close>, not shifted, into two registers.\<close>

definition pcr_index :: "instruction \<Rightarrow> nat res" where
  "pcr_index inst =
     (let index = unat (of_nat (inst_funct inst) AND 0x3E :: ubyte)
      in if index < 2 then Inr index else Inl Out_of_bounds)"

definition MFPC :: "instruction \<Rightarrow> ee_state \<Rightarrow> ee_state res" where
  "MFPC inst s =
     guarded handle_cop0_usable (\<lambda>s.
       bind_res (pcr_index inst) (\<lambda>i.
         Inr (dest_d (inst_rt inst) (ucast (c0_raw (C0_PCR0 + i) (e_cop0 s))) s))) s"

definition MTPC :: "instruction \<Rightarrow> ee_state \<Rightarrow> ee_state res" where
  "MTPC inst s =
     guarded handle_cop0_usable (\<lambda>s.
       bind_res (pcr_index inst) (\<lambda>i.
         Inr (cop0_upd (c0_raw_write (C0_PCR0 + i) (src_w (inst_rt inst) 0 s)) s))) s"

text \<open>\<open>fcr\<close> holds the IRR at 0, the CSR at 31 and null pointers between them.\<close>

definition CFC1 :: "instruction \<Rightarrow> ee_state \<Rightarrow> ee_state res" where
  "CFC1 inst s =
     guarded handle_cop1_usable (\<lambda>s.
       if inst_rd inst = 0 then Inr (dest_d (inst_rt inst) (ucast (w_read_uword (e_irr s))) s)
       else if inst_rd inst = 31 then Inr (dest_d (inst_rt inst) (ucast (w_read_uword (e_csr s))) s)
       else Inl Null_object) s"

definition CTC1 :: "instruction \<Rightarrow> ee_state \<Rightarrow> ee_state res" where
  "CTC1 inst s =
     guarded handle_cop1_usable (\<lambda>s.
       if inst_rd inst = 0 then Inr (s\<lparr>e_irr := w_write_uword (src_w (inst_rt inst) 0 s) (e_irr s)\<rparr>)
       else if inst_rd inst = 31 then Inr (s\<lparr>e_csr := w_write_uword (src_w (inst_rt inst) 0 s) (e_csr s)\<rparr>)
       else Inl Null_object) s"

lemmas transfer_defs [op_defs] =
  MFHI_def MFLO_def MOVN_def MOVZ_def MTHI_def MTLO_def MFHI1_def MFLO1_def MTHI1_def MTLO1_def
  PMFHI_def PMFHL_LH_def PMFHL_LW_def PMFHL_SH_def PMFHL_SLW_def PMFHL_UW_def PMFHL_def
  PMFLO_def PMTHI_def PMTHL_LW_def PMTLO_def MFC1_def MOV_S_def MTC1_def MFSA_def MTSA_def
  MTSAB_def MTSAH_def MFBPC_def MTBPC_def MFDAB_def MTDAB_def MFDABM_def MTDABM_def MFDVB_def
  MTDVB_def MFDVBM_def MTDVBM_def MFIAB_def MTIAB_def MFIABM_def MTIABM_def MFPS_def MTPS_def
  MFC0_def MTC0_def MFPC_def MTPC_def CFC1_def CTC1_def

section \<open>Well-formedness\<close>

lemma ee_ok_word_writes:
  assumes "ee_ok s"
  shows "ee_ok (s\<lparr>e_sa := w_write_uword v (e_sa s)\<rparr>)" "ee_ok (s\<lparr>e_csr := w_write_uword v (e_csr s)\<rparr>)"
    "ee_ok (s\<lparr>e_irr := w_write_uword v (e_irr s)\<rparr>)"
  using assms by (simp_all add: ee_ok_def w_defs)

lemma ok_cop0_access:
  assumes "ee_ok s"
  shows "ok_res ee_ok (cop0_res (cop0_write_uword n v) s)"
    "ee_ok (s\<lparr>e_cop0 := snd (cop0_read_uword n (e_cop0 s))\<rparr>)"
    "n \<noteq> C0_STATUS \<Longrightarrow> ee_ok (cop0_upd (c0_raw_write n v) s)"
  using assms ee_okD(1)[OF assms] by auto

lemma transfer_ok [op_ok]:
  assumes "ee_ok s"
  shows "ee_ok (MFHI inst s)"
    "ee_ok (MFLO inst s)"
    "ee_ok (MOVN inst s)"
    "ee_ok (MOVZ inst s)"
    "ee_ok (MTHI inst s)"
    "ee_ok (MTLO inst s)"
    "ee_ok (MFHI1 inst s)"
    "ee_ok (MFLO1 inst s)"
    "ee_ok (MTHI1 inst s)"
    "ee_ok (MTLO1 inst s)"
    "ee_ok (PMFHI inst s)"
    "ee_ok (PMFHL_LH inst s)"
    "ee_ok (PMFHL_LW inst s)"
    "ee_ok (PMFHL_SH inst s)"
    "ee_ok (PMFHL_SLW inst s)"
    "ee_ok (PMFHL_UW inst s)"
    "ee_ok (PMFHL inst s)"
    "ee_ok (PMFLO inst s)"
    "ee_ok (PMTHI inst s)"
    "ee_ok (PMTHL_LW inst s)"
    "ee_ok (PMTLO inst s)"
    "ok_res ee_ok (MFC1 inst s)"
    "ok_res ee_ok (MOV_S inst s)"
    "ok_res ee_ok (MTC1 inst s)"
    "ee_ok (MFSA inst s)"
    "ee_ok (MTSA inst s)"
    "ee_ok (MTSAB inst s)"
    "ee_ok (MTSAH inst s)"
    "ok_res ee_ok (MFBPC inst s)"
    "ok_res ee_ok (MTBPC inst s)"
    "ok_res ee_ok (MFDAB inst s)"
    "ok_res ee_ok (MTDAB inst s)"
    "ok_res ee_ok (MFDABM inst s)"
    "ok_res ee_ok (MTDABM inst s)"
    "ok_res ee_ok (MFDVB inst s)"
    "ok_res ee_ok (MTDVB inst s)"
    "ok_res ee_ok (MFDVBM inst s)"
    "ok_res ee_ok (MTDVBM inst s)"
    "ok_res ee_ok (MFIAB inst s)"
    "ok_res ee_ok (MTIAB inst s)"
    "ok_res ee_ok (MFIABM inst s)"
    "ok_res ee_ok (MTIABM inst s)"
    "ok_res ee_ok (MFPS inst s)"
    "ok_res ee_ok (MTPS inst s)"
    "ok_res ee_ok (MFC0 inst s)"
    "ok_res ee_ok (MTC0 inst s)"
    "ok_res ee_ok (MFPC inst s)"
    "ok_res ee_ok (MTPC inst s)"
    "ok_res ee_ok (CFC1 inst s)"
    "ok_res ee_ok (CTC1 inst s)"
  using assms
  by (auto simp: transfer_defs Let_def pcr_index_def ee_ok_gpr_upd ee_ok_hi_lo ee_ok_csr split_beta
      ok_cop0_access ee_ok_word_writes intro!: ok_guarded ok_checks ee_ok_fpr_write ee_ok_gpr_upd)

section \<open>What the instructions compute\<close>

lemma q_put_dwords_get:
  assumes "\<not> reg_read_only r"
  shows "q_read_udword 0 (q_put_dwords x y r) = x" "q_read_udword (Suc 0) (q_put_dwords x y r) = y"
  using assms by (simp_all add: q_put_dwords_def q_defs reg_read_lane_def get_put_lane_other)

lemma hi_lo_frame [simp, frame]:
  "e_hi (hi_upd f s) = f (e_hi s)" "e_lo (lo_upd f s) = f (e_lo s)"
  "e_lo (hi_upd f s) = e_lo s" "e_hi (lo_upd f s) = e_hi s"
  "e_gpr (hi_upd f s) = e_gpr s" "e_gpr (lo_upd f s) = e_gpr s"
  by (simp_all add: hi_upd_def lo_upd_def)

text \<open>Saving HI and LO to registers and restoring them.\<close>

lemma PMTHI_then_PMFHI:
  assumes ok: "ee_ok s" and rd: "inst_rd j \<noteq> 0"
  shows "src_d (inst_rd j) 0 (PMFHI j (PMTHI i s)) = src_d (inst_rs i) 0 s"
    "src_d (inst_rd j) (Suc 0) (PMFHI j (PMTHI i s)) = src_d (inst_rs i) (Suc 0) s"
    "src_d (inst_rd j) 0 (PMFLO j (PMTLO i s)) = src_d (inst_rs i) 0 s"
    "src_d (inst_rd j) (Suc 0) (PMFLO j (PMTLO i s)) = src_d (inst_rs i) (Suc 0) s"
  using ee_okD(4,5)[OF ok] ee_ok_gpr(1)[OF ok, of "inst_rd j"] rd
  by (simp_all add: PMFHI_def PMTHI_def PMFLO_def PMTLO_def gpr_upd_read q_put_dwords_get)

text \<open>The packed form: the words of the source come back in their places.\<close>

lemma q_put_words_pair_get:
  assumes "\<not> reg_read_only r"
  shows "q_read_uword 0 (q_write_uword 2 y (q_write_uword 0 x r)) = x"
    "q_read_uword 2 (q_write_uword 2 y (q_write_uword 0 x r)) = y"
  using assms by (simp_all add: q_defs reg_read_lane_def get_put_lane_other)

lemma PMTHL_then_PMFHL_LW:
  assumes ok: "ee_ok s" and rd: "inst_rd j \<noteq> 0" and k: "k < 4"
  shows "src_w (inst_rd j) k (PMFHL_LW j (PMTHL_LW i s)) = src_w (inst_rs i) k s"
proof -
  let ?s = "PMTHL_LW i s"
  have ok': "ee_ok ?s" using ok by (rule transfer_ok)
  have "src_w (inst_rd j) k (PMFHL_LW j ?s) =
      [q_read_uword 0 (e_lo ?s), q_read_uword 0 (e_hi ?s), q_read_uword 2 (e_lo ?s), q_read_uword 2 (e_hi ?s)] ! k"
    unfolding PMFHL_LW_def by (rule dest_get(3)[OF ok' rd k])
  moreover have "k \<in> {0, 1, 2, 3}" using k by auto
  ultimately show ?thesis
    using ee_okD(4,5)[OF ok] by (auto simp: PMTHL_LW_def Let_def q_put_words_pair_get)
qed

text \<open>The byte and hword alignments the funnel shift takes.\<close>

lemma MTSAB_range:
  assumes "ee_ok s"
  shows "8 dvd unat (w_read_uword (e_sa (MTSAB inst s))) \<and> unat (w_read_uword (e_sa (MTSAB inst s))) \<le> 120"
    "16 dvd unat (w_read_uword (e_sa (MTSAH inst s))) \<and> unat (w_read_uword (e_sa (MTSAH inst s))) \<le> 112"
proof -
  have m: "\<exists>k. ((a AND mask n) XOR (b AND mask n) :: uword) * 2 ^ m = of_nat (k * 2 ^ m) \<and> k < 2 ^ n"
    for a b n m
  proof -
    have e: "((a AND mask n) XOR (b AND mask n)) = take_bit n (a XOR b)"
      by (rule bit_word_eqI) (auto simp: bit_simps)
    have "unat (take_bit n x) < 2 ^ n" for x :: uword
      by (simp add: unsigned_take_bit_eq)
    from this[of "a XOR b"] show ?thesis unfolding e
      by (intro exI[of _ "unat (take_bit n (a XOR b))"]) simp
  qed
  have r: "\<not> reg_read_only (e_sa s)" using assms by (rule ee_okD)
  obtain k where k: "((src_w (inst_rs inst) 0 s AND 0xF) XOR (scast (inst_s_imm inst) AND 0xF)) * 8 =
      (of_nat (k * 8) :: uword)" "k < 16"
    using m[of "src_w (inst_rs inst) 0 s" 4 "scast (inst_s_imm inst)" 3]
    by (auto simp: mask_eq_exp_minus_1)
  then show "8 dvd unat (w_read_uword (e_sa (MTSAB inst s))) \<and> unat (w_read_uword (e_sa (MTSAB inst s))) \<le> 120"
    using r by (auto simp: MTSAB_def w_defs unat_of_nat take_bit_eq_mod simp del: of_nat_mult)
  obtain k where k: "((src_w (inst_rs inst) 0 s AND 0x7) XOR (scast (inst_s_imm inst) AND 0x7)) * 16 =
      (of_nat (k * 16) :: uword)" "k < 8"
    using m[of "src_w (inst_rs inst) 0 s" 3 "scast (inst_s_imm inst)" 4]
    by (auto simp: mask_eq_exp_minus_1)
  then show "16 dvd unat (w_read_uword (e_sa (MTSAH inst s))) \<and> unat (w_read_uword (e_sa (MTSAH inst s))) \<le> 112"
    using r by (auto simp: MTSAH_def w_defs unat_of_nat take_bit_eq_mod simp del: of_nat_mult)
qed

text \<open>
  The saturated move drops the sign: the clamped value is the smaller of the union of the
  words and the largest positive word.
\<close>

lemma PMFHL_SLW_clamp_spec: "uint (PMFHL_SLW_clamp l h) = min VALUE_SWORD_MAX (uint (h OR l))"
proof -
  have s: "sint (ucast (h OR l) :: udword) = uint (h OR l)"
  proof -
    have "(ucast (h OR l) :: udword) = word_of_int (uint (h OR l))" by simp
    then show ?thesis
      by (simp only:) (rule sint_word_of_int_id, use uint_lt2p[of "h OR l"] in \<open>auto intro: order_trans[OF _ uint_ge_0]\<close>)
  qed
  have c: "sint (saturate_dword_to_word (ucast (h OR l))) = min VALUE_SWORD_MAX (uint (h OR l))"
    unfolding sint_saturate_dword_to_word s clamp_int_def
    by (rule max_absorb2) (auto intro: order_trans[OF _ uint_ge_0])
  have e: "PMFHL_SLW_clamp l h = word_of_int (min VALUE_SWORD_MAX (uint (h OR l)))"
    unfolding PMFHL_SLW_clamp_def c[symmetric] by simp
  show ?thesis
    unfolding e by (simp add: unsigned_of_int take_bit_int_eq_self)
qed

end
