(* ===== verification/EeReorder.thy ===== *)
theory EeReorder
  imports EeTransfer
begin

text \<open>
  \<open>CEeCoreInterpreter_REORDERING.cpp\<close>, the colour conversions of
  \<open>CEeCoreInterpreter_DFC.cpp\<close> and the integer and sign operations of
  \<open>CEeCoreInterpreter_ALU_OTHERS.cpp\<close>.  A reordering reads all the lanes it needs before it
  writes, so the destination may be one of its sources.
\<close>

section \<open>Reordering\<close>

definition PCPYH :: "instruction \<Rightarrow> ee_state \<Rightarrow> ee_state" where
  "PCPYH inst s =
     dest_hwords (inst_rd inst)
       ((!) [src_h (inst_rt inst) 0 s, src_h (inst_rt inst) 0 s, src_h (inst_rt inst) 0 s, src_h (inst_rt inst) 0 s,
          src_h (inst_rt inst) 4 s, src_h (inst_rt inst) 4 s, src_h (inst_rt inst) 4 s, src_h (inst_rt inst) 4 s]) s"

definition PCPYLD :: "instruction \<Rightarrow> ee_state \<Rightarrow> ee_state" where
  "PCPYLD inst s =
     gpr_upd (inst_rd inst) (q_put_dwords (src_d (inst_rt inst) 0 s) (src_d (inst_rs inst) 0 s)) s"

definition PCPYUD :: "instruction \<Rightarrow> ee_state \<Rightarrow> ee_state" where
  "PCPYUD inst s =
     gpr_upd (inst_rd inst) (q_put_dwords (src_d (inst_rs inst) 1 s) (src_d (inst_rt inst) 1 s)) s"

definition PEXCH :: "instruction \<Rightarrow> ee_state \<Rightarrow> ee_state" where
  "PEXCH inst s =
     dest_hwords (inst_rd inst)
       ((!) [src_h (inst_rt inst) 0 s, src_h (inst_rt inst) 2 s, src_h (inst_rt inst) 1 s, src_h (inst_rt inst) 3 s,
          src_h (inst_rt inst) 4 s, src_h (inst_rt inst) 6 s, src_h (inst_rt inst) 5 s, src_h (inst_rt inst) 7 s]) s"

definition PEXCW :: "instruction \<Rightarrow> ee_state \<Rightarrow> ee_state" where
  "PEXCW inst s =
     dest_words (inst_rd inst)
       ((!) [src_w (inst_rt inst) 0 s, src_w (inst_rt inst) 2 s, src_w (inst_rt inst) 1 s, src_w (inst_rt inst) 3 s]) s"

definition PEXEH :: "instruction \<Rightarrow> ee_state \<Rightarrow> ee_state" where
  "PEXEH inst s =
     dest_hwords (inst_rd inst)
       ((!) [src_h (inst_rt inst) 2 s, src_h (inst_rt inst) 1 s, src_h (inst_rt inst) 0 s, src_h (inst_rt inst) 3 s,
          src_h (inst_rt inst) 6 s, src_h (inst_rt inst) 5 s, src_h (inst_rt inst) 4 s, src_h (inst_rt inst) 7 s]) s"

definition PEXEW :: "instruction \<Rightarrow> ee_state \<Rightarrow> ee_state" where
  "PEXEW inst s =
     dest_words (inst_rd inst)
       ((!) [src_w (inst_rt inst) 2 s, src_w (inst_rt inst) 1 s, src_w (inst_rt inst) 0 s, src_w (inst_rt inst) 3 s]) s"

definition PEXTLB :: "instruction \<Rightarrow> ee_state \<Rightarrow> ee_state" where
  "PEXTLB inst s =
     dest_bytes (inst_rd inst)
       ((!) [src_b (inst_rt inst) 0 s, src_b (inst_rs inst) 0 s, src_b (inst_rt inst) 1 s, src_b (inst_rs inst) 1 s,
          src_b (inst_rt inst) 2 s, src_b (inst_rs inst) 2 s, src_b (inst_rt inst) 3 s, src_b (inst_rs inst) 3 s,
          src_b (inst_rt inst) 4 s, src_b (inst_rs inst) 4 s, src_b (inst_rt inst) 5 s, src_b (inst_rs inst) 5 s,
          src_b (inst_rt inst) 6 s, src_b (inst_rs inst) 6 s, src_b (inst_rt inst) 7 s, src_b (inst_rs inst) 7 s]) s"

definition PEXTLH :: "instruction \<Rightarrow> ee_state \<Rightarrow> ee_state" where
  "PEXTLH inst s =
     dest_hwords (inst_rd inst)
       ((!) [src_h (inst_rt inst) 0 s, src_h (inst_rs inst) 0 s, src_h (inst_rt inst) 1 s, src_h (inst_rs inst) 1 s,
          src_h (inst_rt inst) 2 s, src_h (inst_rs inst) 2 s, src_h (inst_rt inst) 3 s, src_h (inst_rs inst) 3 s]) s"

definition PEXTLW :: "instruction \<Rightarrow> ee_state \<Rightarrow> ee_state" where
  "PEXTLW inst s =
     dest_words (inst_rd inst)
       ((!) [src_w (inst_rt inst) 0 s, src_w (inst_rs inst) 0 s, src_w (inst_rt inst) 1 s, src_w (inst_rs inst) 1 s]) s"

definition PEXTUB :: "instruction \<Rightarrow> ee_state \<Rightarrow> ee_state" where
  "PEXTUB inst s =
     dest_bytes (inst_rd inst)
       ((!) [src_b (inst_rt inst) 8 s, src_b (inst_rs inst) 8 s, src_b (inst_rt inst) 9 s, src_b (inst_rs inst) 9 s,
          src_b (inst_rt inst) 10 s, src_b (inst_rs inst) 10 s, src_b (inst_rt inst) 11 s, src_b (inst_rs inst) 11 s,
          src_b (inst_rt inst) 12 s, src_b (inst_rs inst) 12 s, src_b (inst_rt inst) 13 s, src_b (inst_rs inst) 13 s,
          src_b (inst_rt inst) 14 s, src_b (inst_rs inst) 14 s, src_b (inst_rt inst) 15 s, src_b (inst_rs inst) 15 s]) s"

definition PEXTUH :: "instruction \<Rightarrow> ee_state \<Rightarrow> ee_state" where
  "PEXTUH inst s =
     dest_hwords (inst_rd inst)
       ((!) [src_h (inst_rt inst) 4 s, src_h (inst_rs inst) 4 s, src_h (inst_rt inst) 5 s, src_h (inst_rs inst) 5 s,
          src_h (inst_rt inst) 6 s, src_h (inst_rs inst) 6 s, src_h (inst_rt inst) 7 s, src_h (inst_rs inst) 7 s]) s"

definition PEXTUW :: "instruction \<Rightarrow> ee_state \<Rightarrow> ee_state" where
  "PEXTUW inst s =
     dest_words (inst_rd inst)
       ((!) [src_w (inst_rt inst) 2 s, src_w (inst_rs inst) 2 s, src_w (inst_rt inst) 3 s, src_w (inst_rs inst) 3 s]) s"

definition PINTEH :: "instruction \<Rightarrow> ee_state \<Rightarrow> ee_state" where
  "PINTEH inst s =
     dest_hwords (inst_rd inst)
       ((!) [src_h (inst_rt inst) 0 s, src_h (inst_rs inst) 0 s, src_h (inst_rt inst) 2 s, src_h (inst_rs inst) 2 s,
          src_h (inst_rt inst) 4 s, src_h (inst_rs inst) 4 s, src_h (inst_rt inst) 6 s, src_h (inst_rs inst) 6 s]) s"

definition PINTH :: "instruction \<Rightarrow> ee_state \<Rightarrow> ee_state" where
  "PINTH inst s =
     dest_hwords (inst_rd inst)
       ((!) [src_h (inst_rt inst) 0 s, src_h (inst_rs inst) 4 s, src_h (inst_rt inst) 1 s, src_h (inst_rs inst) 5 s,
          src_h (inst_rt inst) 2 s, src_h (inst_rs inst) 6 s, src_h (inst_rt inst) 3 s, src_h (inst_rs inst) 7 s]) s"

definition PPACB :: "instruction \<Rightarrow> ee_state \<Rightarrow> ee_state" where
  "PPACB inst s =
     dest_bytes (inst_rd inst)
       ((!) [src_b (inst_rt inst) 0 s, src_b (inst_rt inst) 2 s, src_b (inst_rt inst) 4 s, src_b (inst_rt inst) 6 s,
          src_b (inst_rt inst) 8 s, src_b (inst_rt inst) 10 s, src_b (inst_rt inst) 12 s, src_b (inst_rt inst) 14 s,
          src_b (inst_rs inst) 0 s, src_b (inst_rs inst) 2 s, src_b (inst_rs inst) 4 s, src_b (inst_rs inst) 6 s,
          src_b (inst_rs inst) 8 s, src_b (inst_rs inst) 10 s, src_b (inst_rs inst) 12 s, src_b (inst_rs inst) 14 s]) s"

definition PPACH :: "instruction \<Rightarrow> ee_state \<Rightarrow> ee_state" where
  "PPACH inst s =
     dest_hwords (inst_rd inst)
       ((!) [src_h (inst_rt inst) 0 s, src_h (inst_rt inst) 2 s, src_h (inst_rt inst) 4 s, src_h (inst_rt inst) 6 s,
          src_h (inst_rs inst) 0 s, src_h (inst_rs inst) 2 s, src_h (inst_rs inst) 4 s, src_h (inst_rs inst) 6 s]) s"

definition PPACW :: "instruction \<Rightarrow> ee_state \<Rightarrow> ee_state" where
  "PPACW inst s =
     dest_words (inst_rd inst)
       ((!) [src_w (inst_rt inst) 0 s, src_w (inst_rt inst) 2 s, src_w (inst_rs inst) 0 s, src_w (inst_rs inst) 2 s]) s"

definition PREVH :: "instruction \<Rightarrow> ee_state \<Rightarrow> ee_state" where
  "PREVH inst s =
     dest_hwords (inst_rd inst)
       ((!) [src_h (inst_rt inst) 3 s, src_h (inst_rt inst) 2 s, src_h (inst_rt inst) 1 s, src_h (inst_rt inst) 0 s,
          src_h (inst_rt inst) 7 s, src_h (inst_rt inst) 6 s, src_h (inst_rt inst) 5 s, src_h (inst_rt inst) 4 s]) s"

definition PROT3W :: "instruction \<Rightarrow> ee_state \<Rightarrow> ee_state" where
  "PROT3W inst s =
     dest_words (inst_rd inst)
       ((!) [src_w (inst_rt inst) 1 s, src_w (inst_rt inst) 2 s, src_w (inst_rt inst) 0 s, src_w (inst_rt inst) 3 s]) s"

section \<open>Colour conversion\<close>

text \<open>
  The alpha bit of \<open>unpack\<close> is shifted out (\<open>>> 16\<close> of a 16 bit value) before it is moved to
  bit 31.  \<open>PPAC5\<close> writes the words of index 0, 2, 4 and 6 of a register that has four.
\<close>

definition PEXT5_unpack :: "uhword \<Rightarrow> uword" where
  "PEXT5_unpack value =
     (let v = ucast value;
          temp0 = push_bit 3 (v AND 0x1F);
          temp1 = push_bit 11 (drop_bit 5 (v AND 0x3E0));
          temp2 = push_bit 19 (drop_bit 10 (v AND 0x7C00));
          temp3 = push_bit 31 (drop_bit 16 (v AND 0x8000))
      in temp3 OR temp2 OR temp1 OR temp0)"

definition PPAC5_pack :: "uword \<Rightarrow> uhword" where
  "PPAC5_pack value =
     (let temp0 = ucast (drop_bit 3 (value AND 0xF8));
          temp1 = ucast (push_bit 5 (drop_bit 11 (value AND 0xF800)));
          temp2 = ucast (push_bit 10 (drop_bit 19 (value AND 0xF80000)));
          temp3 = ucast (push_bit 15 (drop_bit 31 (value AND 0x80000000)))
      in temp3 OR temp2 OR temp1 OR temp0)"

definition PEXT5 :: "instruction \<Rightarrow> ee_state \<Rightarrow> ee_state" where
  "PEXT5 inst s =
     gpr_upd (inst_rd inst)
       (q_put_words (PEXT5_unpack (src_h (inst_rt inst) 0 s)) (PEXT5_unpack (src_h (inst_rt inst) 2 s))
          (PEXT5_unpack (src_h (inst_rt inst) 4 s)) (PEXT5_unpack (src_h (inst_rt inst) 6 s))) s"

definition PPAC5 :: "instruction \<Rightarrow> ee_state \<Rightarrow> ee_state res" where
  "PPAC5 inst s =
     (let val = (\<lambda>i. ucast (PPAC5_pack (src_w (inst_rt inst) i s)));
          r0 = e_gpr s (inst_rd inst)
      in bind_res (q_write_uword_checked 0 (val 0) r0) (\<lambda>r1.
         bind_res (q_write_uword_checked 2 (val 1) r1) (\<lambda>r2.
         bind_res (q_write_uword_checked 4 (val 2) r2) (\<lambda>r3.
         bind_res (q_write_uword_checked 6 (val 3) r3) (\<lambda>r4.
           Inr (gpr_upd (inst_rd inst) (\<lambda>r. r4) s))))))"

section \<open>Absolute values, leading bits and signs\<close>

definition PABSH_abs :: "uhword \<Rightarrow> uhword" where
  "PABSH_abs v =
     (if sint v = VALUE_SHWORD_MIN then word_of_int VALUE_SHWORD_MAX else word_of_int \<bar>sint v\<bar>)"

text \<open>The test of the four words is on the first of them; \<open>std::abs\<close> of the minimum wraps.\<close>

definition PABSW_abs :: "uword \<Rightarrow> uword \<Rightarrow> uword" where
  "PABSW_abs value0 v =
     (if sint value0 = VALUE_SWORD_MIN then word_of_int VALUE_SWORD_MAX else word_of_int \<bar>sint v\<bar>)"

definition PABSH :: "instruction \<Rightarrow> ee_state \<Rightarrow> ee_state" where
  "PABSH inst s =
     dest_hwords (inst_rd inst) (\<lambda>i. PABSH_abs (src_h (inst_rt inst) i s)) s"

definition PABSW :: "instruction \<Rightarrow> ee_state \<Rightarrow> ee_state" where
  "PABSW inst s =
     dest_words (inst_rd inst) (\<lambda>i. PABSW_abs (src_w (inst_rt inst) 0 s) (src_w (inst_rt inst) i s)) s"

definition PLZCW :: "instruction \<Rightarrow> ee_state \<Rightarrow> ee_state" where
  "PLZCW inst s =
     gpr_upd (inst_rd inst) (\<lambda>r.
       q_write_uword 1 (of_nat (count_leading_bits (src_w (inst_rs inst) 1 s)) - 1)
         (q_write_uword 0 (of_nat (count_leading_bits (src_w (inst_rs inst) 0 s)) - 1) r)) s"

text \<open>\<open>std::abs\<close> and the negation of a float clear and flip its sign bit.\<close>

definition ABS_S :: "instruction \<Rightarrow> ee_state \<Rightarrow> ee_state res" where
  "ABS_S inst s =
     guarded handle_cop1_usable (\<lambda>s.
       let s1 = s\<lparr>e_csr := fpu_clear_flags (e_csr s)\<rparr>
       in Inr (fpr_upd (inst_shamt inst)
            (w_write_uword (w_read_uword (e_fpr s1 (inst_rd inst)) AND 0x7FFFFFFF)) s1)) s"

definition NEG_S :: "instruction \<Rightarrow> ee_state \<Rightarrow> ee_state res" where
  "NEG_S inst s =
     guarded handle_cop1_usable (\<lambda>s.
       let s1 = s\<lparr>e_csr := fpu_clear_flags (e_csr s)\<rparr>
       in Inr (fpr_upd (inst_shamt inst)
            (w_write_uword (w_read_uword (e_fpr s1 (inst_rd inst)) XOR 0x80000000)) s1)) s"

lemma PPAC5_throws: "PPAC5 inst s = Inl Invalid_offset"
  by (simp add: PPAC5_def q_write_uword_checked_def Let_def)

lemmas reorder_defs [op_defs] =
  PCPYH_def PCPYLD_def PCPYUD_def PEXCH_def PEXCW_def PEXEH_def PEXEW_def PEXTLB_def PEXTLH_def
  PEXTLW_def PEXTUB_def PEXTUH_def PEXTUW_def PINTEH_def PINTH_def PPACB_def PPACH_def
  PPACW_def PREVH_def PROT3W_def PEXT5_def PABSH_def PABSW_def PLZCW_def ABS_S_def NEG_S_def PPAC5_throws

section \<open>Well-formedness\<close>

lemma reorder_ok [op_ok]:
  assumes "ee_ok s"
  shows "ee_ok (PCPYH inst s)"
    "ee_ok (PCPYLD inst s)"
    "ee_ok (PCPYUD inst s)"
    "ee_ok (PEXCH inst s)"
    "ee_ok (PEXCW inst s)"
    "ee_ok (PEXEH inst s)"
    "ee_ok (PEXEW inst s)"
    "ee_ok (PEXTLB inst s)"
    "ee_ok (PEXTLH inst s)"
    "ee_ok (PEXTLW inst s)"
    "ee_ok (PEXTUB inst s)"
    "ee_ok (PEXTUH inst s)"
    "ee_ok (PEXTUW inst s)"
    "ee_ok (PINTEH inst s)"
    "ee_ok (PINTH inst s)"
    "ee_ok (PPACB inst s)"
    "ee_ok (PPACH inst s)"
    "ee_ok (PPACW inst s)"
    "ee_ok (PREVH inst s)"
    "ee_ok (PROT3W inst s)"
    "ee_ok (PEXT5 inst s)"
    "ok_res ee_ok (PPAC5 inst s)"
    "ee_ok (PABSH inst s)"
    "ee_ok (PABSW inst s)"
    "ee_ok (PLZCW inst s)"
    "ok_res ee_ok (ABS_S inst s)"
    "ok_res ee_ok (NEG_S inst s)"
  using assms
  by (auto simp: reorder_defs Let_def ee_ok_gpr_upd
      intro!: ok_guarded ok_checks ee_ok_fpr_write ee_ok_csr)

section \<open>What the instructions compute\<close>

lemma less_16_cases: "i < (16 :: nat) \<Longrightarrow> i \<in> {0, 1, 2, 3, 4, 5, 6, 7, 8, 9, 10, 11, 12, 13, 14, 15}"
  by (simp only: insert_iff empty_iff) presburger

text \<open>Interleaving the lower and the upper bytes of two registers and packing the even ones.\<close>

lemma PPACB_of_PEXT:
  assumes ok: "ee_ok s"
    and l: "inst_rd il \<noteq> 0" "inst_rd il \<noteq> inst_rs iu" "inst_rd il \<noteq> inst_rt iu"
    and u: "inst_rd iu \<noteq> 0" "inst_rd iu \<noteq> inst_rd il" "inst_rt iu = inst_rt il"
    and p: "inst_rd ip \<noteq> 0" "inst_rt ip = inst_rd il" "inst_rs ip = inst_rd iu" and i: "i < 16"
  shows "src_b (inst_rd ip) i (PPACB ip (PEXTUB iu (PEXTLB il s))) = src_b (inst_rt il) i s"
proof -
  let ?s1 = "PEXTLB il s" let ?s2 = "PEXTUB iu ?s1"
  have ok1: "ee_ok ?s1" and ok2: "ee_ok ?s2" using ok by (auto intro: reorder_ok)
  have lo: "src_b (inst_rd il) (2 * k) ?s2 = src_b (inst_rt il) k s" if "k < 8" for k
  proof -
    have "src_b (inst_rd il) (2 * k) ?s2 = src_b (inst_rd il) (2 * k) ?s1"
      using u(2) by (simp add: PEXTUB_def dest_other)
    also have "\<dots> = src_b (inst_rt il) k s"
      using that less_16_cases[of k] unfolding PEXTLB_def by (subst dest_get(1)[OF ok l(1)]) auto
    finally show ?thesis .
  qed
  have hi: "src_b (inst_rd iu) (2 * k) ?s2 = src_b (inst_rt il) (8 + k) s" if "k < 8" for k
  proof -
    have "src_b (inst_rd iu) (2 * k) ?s2 = src_b (inst_rt iu) (8 + k) ?s1"
      using that less_16_cases[of k] unfolding PEXTUB_def by (subst dest_get(1)[OF ok1 u(1)]) auto
    then show ?thesis using l(3) u(3) by (simp add: PEXTLB_def dest_other)
  qed
  show ?thesis
    unfolding PPACB_def
    using less_16_cases[OF i] p lo[of 0] lo[of 1] lo[of 2] lo[of 3] lo[of 4] lo[of 5] lo[of 6] lo[of 7]
      hi[of 0] hi[of 1] hi[of 2] hi[of 3] hi[of 4] hi[of 5] hi[of 6] hi[of 7]
    by (subst dest_get(1)[OF ok2 p(1) i]) auto
qed

text \<open>Reversal is an involution; three rotations give the register back.\<close>

lemma PREVH_twice:
  assumes ok: "ee_ok s" and "inst_rd i \<noteq> 0" "inst_rd j \<noteq> 0" "inst_rt j = inst_rd i" and k: "k < 8"
  shows "src_h (inst_rd j) k (PREVH j (PREVH i s)) = src_h (inst_rt i) k s"
proof -
  have ok1: "ee_ok (PREVH i s)" using ok by (rule reorder_ok)
  have a: "src_h (inst_rd i) m (PREVH i s) = src_h (inst_rt i) ([3, 2, 1, 0, 7, 6, 5, 4] ! m) s"
    if "m < 8" for m
    using that less_16_cases[of m] unfolding PREVH_def by (subst dest_get(2)[OF ok assms(2)]) auto
  show ?thesis
    unfolding PREVH_def[of j] assms(4)
    using k less_16_cases[of k] by (subst dest_get(2)[OF ok1 assms(3) k]) (auto simp: a)
qed

lemma PROT3W_lane:
  assumes "ee_ok s" "inst_rd i \<noteq> 0" "k < 4"
  shows "src_w (inst_rd i) k (PROT3W i s) = src_w (inst_rt i) ([1, 2, 0, 3] ! k) s"
  using assms(3) less_16_cases[of k] unfolding PROT3W_def by (subst dest_get(3)[OF assms]) auto

lemma PROT3W_thrice:
  assumes ok: "ee_ok s" and rd: "inst_rd i \<noteq> 0" and rt: "inst_rt i = inst_rd i" and k: "k < 4"
  shows "src_w (inst_rd i) k (PROT3W i (PROT3W i (PROT3W i s))) = src_w (inst_rd i) k s"
proof -
  have ok1: "ee_ok (PROT3W i s)" and ok2: "ee_ok (PROT3W i (PROT3W i s))"
    using ok by (auto intro: reorder_ok)
  note l = PROT3W_lane[OF ok rd] PROT3W_lane[OF ok1 rd] PROT3W_lane[OF ok2 rd]
  have "k \<in> {0, 1, 2, 3}" using k by auto
  then show ?thesis using rt by (elim insertE) (simp_all add: l)
qed

text \<open>Packing what was unpacked gives the colour back without its alpha bit.\<close>

lemma pack_unpack: "PPAC5_pack (PEXT5_unpack v) = v AND 0x7FFF"
proof (rule bit_word_eqI)
  fix n assume "n < LENGTH(16)"
  then have "n \<in> {0, 1, 2, 3, 4, 5, 6, 7, 8, 9, 10, 11, 12, 13, 14, 15}"
    using less_16_cases[of n] by simp
  then show "bit (PPAC5_pack (PEXT5_unpack v)) n = bit (v AND 0x7FFF) n"
    by (elim insertE) (simp_all add: PPAC5_pack_def PEXT5_unpack_def Let_def bit_simps bit_numeral_rec)
qed

lemma PABSH_lane:
  assumes "ee_ok s" and "inst_rd inst \<noteq> 0" and "i < 8"
  shows "sint (src_h (inst_rd inst) i (PABSH inst s)) = min VALUE_SHWORD_MAX \<bar>sint (src_h (inst_rt inst) i s)\<bar>"
proof -
  let ?v = "src_h (inst_rt inst) i s"
  have b: "- 32768 \<le> sint ?v" "sint ?v \<le> 32767" using sint_bounds[of ?v] by auto
  have "sint (PABSH_abs ?v) = min VALUE_SHWORD_MAX \<bar>sint ?v\<bar>"
  proof (cases "sint ?v = VALUE_SHWORD_MIN")
    case False
    then have "sint (word_of_int \<bar>sint ?v\<bar> :: uhword) = \<bar>sint ?v\<bar>"
      by (intro sint_word_of_int_id) (use b in auto)
    then show ?thesis using False b by (simp add: PABSH_abs_def min_def) linarith
  qed (simp add: PABSH_abs_def sint_word_of_int_id)
  then show ?thesis unfolding PABSH_def using dest_get(2)[OF assms(1,2), of i] assms(3) by simp
qed

text \<open>A first word equal to the minimum saturates every word of the result.\<close>

lemma PABSW_saturates_all:
  assumes "ee_ok s" and "inst_rd inst \<noteq> 0" and "i < 4"
    and "sint (src_w (inst_rt inst) 0 s) = VALUE_SWORD_MIN"
  shows "sint (src_w (inst_rd inst) i (PABSW inst s)) = VALUE_SWORD_MAX"
  unfolding PABSW_def using dest_get(3)[OF assms(1,2), of i] assms(3,4)
  by (simp add: PABSW_abs_def sint_word_of_int_id)

end
