(* ===== verification/EeMemory.thy ===== *)
theory EeMemory
  imports EeTranslate EeCompare BusMap
begin

text \<open>
  \<open>CEeCoreInterpreter_LOAD_MEM.cpp\<close> and \<open>CEeCoreInterpreter_STORE_MEM.cpp\<close>: every access
  computes its address from the base register and the signed immediate, translates it (which
  may raise a CPU exception and end the instruction there) and goes to the bus.  The
  unaligned forms merge an aligned word or dword with a register; the unaligned stores
  translate twice, for the read and for the write.  The loads and stores of the vector unit
  (\<open>LQC2\<close>, \<open>SQC2\<close>) are left out with it.
\<close>

section \<open>Accessing memory\<close>

definition effective_address :: "instruction \<Rightarrow> ee_state \<Rightarrow> uptr" where
  "effective_address inst s = src_w (inst_rs inst) 0 s + scast (inst_s_imm inst)"

definition with_address ::
    "uptr \<Rightarrow> MmuRwAccess \<Rightarrow> (uptr \<Rightarrow> ee_state \<Rightarrow> ee_state res) \<Rightarrow> ee_state \<Rightarrow> ee_state res" where
  "with_address va rw body s =
     bind_res (translate_address_data va rw s) (\<lambda>(physical_address, s1).
       case physical_address of None \<Rightarrow> Inr s1 | Some pa \<Rightarrow> body pa s1)"

definition ee_read ::
    "(uptr \<Rightarrow> uptr byte_bus \<Rightarrow> ('v \<times> uptr byte_bus) res) \<Rightarrow> uptr \<Rightarrow> ('v \<Rightarrow> ee_state \<Rightarrow> ee_state res) \<Rightarrow>
     ee_state \<Rightarrow> ee_state res" where
  "ee_read rd pa k s = bind_res (rd pa (e_bus s)) (\<lambda>(v, b). k v (s\<lparr>e_bus := b\<rparr>))"

definition ee_write :: "(uptr byte_bus \<Rightarrow> uptr byte_bus res) \<Rightarrow> ee_state \<Rightarrow> ee_state res" where
  "ee_write wr s = bind_res (wr (e_bus s)) (\<lambda>b. Inr (s\<lparr>e_bus := b\<rparr>))"

section \<open>Loads\<close>

definition LB :: "instruction \<Rightarrow> ee_state \<Rightarrow> ee_state res" where
  "LB inst s =
     with_address (effective_address inst s) READ (\<lambda>pa. ee_read bus_read_ubyte pa (\<lambda>v s.
       Inr (dest_d (inst_rt inst) (scast v) s))) s"

definition LBU :: "instruction \<Rightarrow> ee_state \<Rightarrow> ee_state res" where
  "LBU inst s =
     with_address (effective_address inst s) READ (\<lambda>pa. ee_read bus_read_ubyte pa (\<lambda>v s.
       Inr (dest_d (inst_rt inst) (ucast v) s))) s"

definition LD :: "instruction \<Rightarrow> ee_state \<Rightarrow> ee_state res" where
  "LD inst s =
     with_address (effective_address inst s) READ (\<lambda>pa. ee_read bus_read_udword pa (\<lambda>v s.
       Inr (dest_d (inst_rt inst) (v) s))) s"

definition LH :: "instruction \<Rightarrow> ee_state \<Rightarrow> ee_state res" where
  "LH inst s =
     with_address (effective_address inst s) READ (\<lambda>pa. ee_read bus_read_uhword pa (\<lambda>v s.
       Inr (dest_d (inst_rt inst) (scast v) s))) s"

definition LHU :: "instruction \<Rightarrow> ee_state \<Rightarrow> ee_state res" where
  "LHU inst s =
     with_address (effective_address inst s) READ (\<lambda>pa. ee_read bus_read_uhword pa (\<lambda>v s.
       Inr (dest_d (inst_rt inst) (ucast v) s))) s"

definition LUI :: "instruction \<Rightarrow> ee_state \<Rightarrow> ee_state" where
  "LUI inst s =
     dest_d (inst_rt inst) (scast (push_bit 16 (scast (inst_s_imm inst)) :: uword)) s"

definition LW :: "instruction \<Rightarrow> ee_state \<Rightarrow> ee_state res" where
  "LW inst s =
     with_address (effective_address inst s) READ (\<lambda>pa. ee_read bus_read_uword pa (\<lambda>v s.
       Inr (dest_d (inst_rt inst) (scast v) s))) s"

definition LWU :: "instruction \<Rightarrow> ee_state \<Rightarrow> ee_state res" where
  "LWU inst s =
     with_address (effective_address inst s) READ (\<lambda>pa. ee_read bus_read_uword pa (\<lambda>v s.
       Inr (dest_d (inst_rt inst) (ucast v) s))) s"

definition LQ :: "instruction \<Rightarrow> ee_state \<Rightarrow> ee_state res" where
  "LQ inst s =
     with_address (effective_address inst s) READ (\<lambda>pa. ee_read bus_read_uqword pa (\<lambda>v s.
       Inr (gpr_upd (inst_rt inst) (q_write_uqword v) s))) s"

definition LWC1 :: "instruction \<Rightarrow> ee_state \<Rightarrow> ee_state res" where
  "LWC1 inst s =
     guarded handle_cop1_usable (\<lambda>s.
       with_address (effective_address inst s) READ (\<lambda>pa. ee_read bus_read_uword pa (\<lambda>v s.
         Inr (fpr_upd (inst_rt inst) (w_write_uword v) s))) s) s"

section \<open>Unaligned loads\<close>

text \<open>How the loaded word or dword is merged with the register: the shift counts bits.\<close>

definition LWL_merge :: "nat \<Rightarrow> uword \<Rightarrow> uword \<Rightarrow> uword" where
  "LWL_merge shift reg value = (reg AND drop_bit shift 0x00FFFFFF) OR push_bit (24 - shift) value"
definition LWR_merge :: "nat \<Rightarrow> uword \<Rightarrow> uword \<Rightarrow> uword" where
  "LWR_merge shift reg value = (reg AND push_bit (24 - shift) 0xFFFFFF00) OR drop_bit shift value"
definition LDL_merge :: "nat \<Rightarrow> udword \<Rightarrow> udword \<Rightarrow> udword" where
  "LDL_merge shift reg value = (reg AND drop_bit shift 0x00FFFFFFFFFFFFFF) OR push_bit (56 - shift) value"
definition LDR_merge :: "nat \<Rightarrow> udword \<Rightarrow> udword \<Rightarrow> udword" where
  "LDR_merge shift reg value = (reg AND push_bit (56 - shift) 0xFFFFFFFFFFFFFF00) OR drop_bit shift value"

definition word_shift :: "uptr \<Rightarrow> nat" where
  "word_shift va = unat (push_bit 3 (va AND 3))"
definition dword_shift :: "uptr \<Rightarrow> nat" where
  "dword_shift va = unat (push_bit 3 (va AND 7))"

definition LDL :: "instruction \<Rightarrow> ee_state \<Rightarrow> ee_state res" where
  "LDL inst s =
     (let virtual_address = effective_address inst s;
          shift = dword_shift virtual_address
      in with_address (virtual_address AND 0xFFFFFFF8) READ (\<lambda>pa. ee_read bus_read_udword pa (\<lambda>v s.
           Inr (dest_d (inst_rt inst) (LDL_merge shift (src_d (inst_rt inst) 0 s) v) s))) s)"

definition LDR :: "instruction \<Rightarrow> ee_state \<Rightarrow> ee_state res" where
  "LDR inst s =
     (let virtual_address = effective_address inst s;
          shift = dword_shift virtual_address
      in with_address (virtual_address AND 0xFFFFFFF8) READ (\<lambda>pa. ee_read bus_read_udword pa (\<lambda>v s.
           Inr (dest_d (inst_rt inst) (LDR_merge shift (src_d (inst_rt inst) 0 s) v) s))) s)"

definition LWL :: "instruction \<Rightarrow> ee_state \<Rightarrow> ee_state res" where
  "LWL inst s =
     (let virtual_address = effective_address inst s;
          shift = word_shift virtual_address
      in with_address (virtual_address AND 0xFFFFFFFC) READ (\<lambda>pa. ee_read bus_read_uword pa (\<lambda>v s.
           Inr (dest_d (inst_rt inst) (scast (LWL_merge shift (src_w (inst_rt inst) 0 s) v)) s))) s)"

definition LWR :: "instruction \<Rightarrow> ee_state \<Rightarrow> ee_state res" where
  "LWR inst s =
     (let virtual_address = effective_address inst s;
          shift = word_shift virtual_address
      in with_address (virtual_address AND 0xFFFFFFFC) READ (\<lambda>pa. ee_read bus_read_uword pa (\<lambda>v s.
           Inr (dest_d (inst_rt inst) (scast (LWR_merge shift (src_w (inst_rt inst) 0 s) v)) s))) s)"

section \<open>Stores\<close>

definition SB :: "instruction \<Rightarrow> ee_state \<Rightarrow> ee_state res" where
  "SB inst s =
     with_address (effective_address inst s) WRITE (\<lambda>pa s.
       ee_write (bus_write_ubyte pa (src_b (inst_rt inst) 0 s)) s) s"

definition SD :: "instruction \<Rightarrow> ee_state \<Rightarrow> ee_state res" where
  "SD inst s =
     with_address (effective_address inst s) WRITE (\<lambda>pa s.
       ee_write (bus_write_udword pa (src_d (inst_rt inst) 0 s)) s) s"

definition SH :: "instruction \<Rightarrow> ee_state \<Rightarrow> ee_state res" where
  "SH inst s =
     with_address (effective_address inst s) WRITE (\<lambda>pa s.
       ee_write (bus_write_uhword pa (src_h (inst_rt inst) 0 s)) s) s"

definition SW :: "instruction \<Rightarrow> ee_state \<Rightarrow> ee_state res" where
  "SW inst s =
     with_address (effective_address inst s) WRITE (\<lambda>pa s.
       ee_write (bus_write_uword pa (src_w (inst_rt inst) 0 s)) s) s"

definition SQ :: "instruction \<Rightarrow> ee_state \<Rightarrow> ee_state res" where
  "SQ inst s =
     with_address (effective_address inst s) WRITE (\<lambda>pa s.
       ee_write (bus_write_uqword pa (gpr_q (inst_rt inst) s)) s) s"

definition SWC1 :: "instruction \<Rightarrow> ee_state \<Rightarrow> ee_state res" where
  "SWC1 inst s =
     guarded handle_cop1_usable (\<lambda>s.
       with_address (effective_address inst s) WRITE (\<lambda>pa s.
         ee_write (bus_write_uword pa (w_read_uword (e_fpr s (inst_rt inst)))) s) s) s"

section \<open>Unaligned stores\<close>

definition SWL_merge :: "nat \<Rightarrow> uword \<Rightarrow> uword \<Rightarrow> uword" where
  "SWL_merge shift reg value = drop_bit (24 - shift) reg OR (value AND push_bit shift 0xFFFFFF00)"
definition SWR_merge :: "nat \<Rightarrow> uword \<Rightarrow> uword \<Rightarrow> uword" where
  "SWR_merge shift reg value = push_bit shift reg OR (value AND drop_bit (24 - shift) 0x00FFFFFF)"
definition SDL_merge :: "nat \<Rightarrow> udword \<Rightarrow> udword \<Rightarrow> udword" where
  "SDL_merge shift reg value = drop_bit (56 - shift) reg OR (value AND push_bit shift 0xFFFFFFFFFFFFFF00)"
definition SDR_merge :: "nat \<Rightarrow> udword \<Rightarrow> udword \<Rightarrow> udword" where
  "SDR_merge shift reg value = push_bit shift reg OR (value AND drop_bit (56 - shift) 0x00FFFFFFFFFFFFFF)"

definition SDL :: "instruction \<Rightarrow> ee_state \<Rightarrow> ee_state res" where
  "SDL inst s =
     (let virtual_address = effective_address inst s;
          shift = dword_shift virtual_address;
          aligned = virtual_address AND 0xFFFFFFF8
      in with_address aligned READ (\<lambda>pa. ee_read bus_read_udword pa (\<lambda>v.
           with_address aligned WRITE (\<lambda>pa s.
             ee_write (bus_write_udword pa (SDL_merge shift (src_d (inst_rt inst) 0 s) v)) s))) s)"

definition SDR :: "instruction \<Rightarrow> ee_state \<Rightarrow> ee_state res" where
  "SDR inst s =
     (let virtual_address = effective_address inst s;
          shift = dword_shift virtual_address;
          aligned = virtual_address AND 0xFFFFFFF8
      in with_address aligned READ (\<lambda>pa. ee_read bus_read_udword pa (\<lambda>v.
           with_address aligned WRITE (\<lambda>pa s.
             ee_write (bus_write_udword pa (SDR_merge shift (src_d (inst_rt inst) 0 s) v)) s))) s)"

definition SWL :: "instruction \<Rightarrow> ee_state \<Rightarrow> ee_state res" where
  "SWL inst s =
     (let virtual_address = effective_address inst s;
          shift = word_shift virtual_address;
          aligned = virtual_address AND 0xFFFFFFFC
      in with_address aligned READ (\<lambda>pa. ee_read bus_read_uword pa (\<lambda>v.
           with_address aligned WRITE (\<lambda>pa s.
             ee_write (bus_write_uword pa (SWL_merge shift (src_w (inst_rt inst) 0 s) v)) s))) s)"

definition SWR :: "instruction \<Rightarrow> ee_state \<Rightarrow> ee_state res" where
  "SWR inst s =
     (let virtual_address = effective_address inst s;
          shift = word_shift virtual_address;
          aligned = virtual_address AND 0xFFFFFFFC
      in with_address aligned READ (\<lambda>pa. ee_read bus_read_uword pa (\<lambda>v.
           with_address aligned WRITE (\<lambda>pa s.
             ee_write (bus_write_uword pa (SWR_merge shift (src_w (inst_rt inst) 0 s) v)) s))) s)"

lemmas memory_defs [op_defs] =
  LB_def LBU_def LD_def LH_def LHU_def LW_def LWU_def LQ_def LWC1_def LDL_def LDR_def LWL_def
  LWR_def SB_def SD_def SH_def SW_def SQ_def SWC1_def SDL_def SDR_def SWL_def SWR_def LUI_def

section \<open>Well-formedness\<close>

lemma ok_with_address:
  assumes "ee_ok s" and "\<And>pa s. ee_ok s \<Longrightarrow> ok_res ee_ok (body pa s)"
  shows "ok_res ee_ok (with_address va rw body s)"
  using ok_translate_data[OF assms(1), of va rw] assms(2)
  unfolding with_address_def by (cases "translate_address_data va rw s") (auto split: option.split)

lemma ok_ee_read:
  assumes "ee_ok s" and "\<And>v s. ee_ok s \<Longrightarrow> ok_res ee_ok (k v s)"
  shows "ok_res ee_ok (ee_read rd pa k s)"
  unfolding ee_read_def using assms by (cases "rd pa (e_bus s)") (auto intro!: assms(2) ee_ok_upd(10))

lemma ok_ee_write: "ee_ok s \<Longrightarrow> ok_res ee_ok (ee_write wr s)"
  unfolding ee_write_def by (cases "wr (e_bus s)") (auto intro: ee_ok_upd(10))

lemma memory_ok [op_ok]:
  assumes "ee_ok s"
  shows "ok_res ee_ok (LB inst s)"
    "ok_res ee_ok (LBU inst s)"
    "ok_res ee_ok (LD inst s)"
    "ok_res ee_ok (LH inst s)"
    "ok_res ee_ok (LHU inst s)"
    "ok_res ee_ok (LW inst s)"
    "ok_res ee_ok (LWU inst s)"
    "ok_res ee_ok (LQ inst s)"
    "ok_res ee_ok (LWC1 inst s)"
    "ok_res ee_ok (LDL inst s)"
    "ok_res ee_ok (LDR inst s)"
    "ok_res ee_ok (LWL inst s)"
    "ok_res ee_ok (LWR inst s)"
    "ok_res ee_ok (SB inst s)"
    "ok_res ee_ok (SD inst s)"
    "ok_res ee_ok (SH inst s)"
    "ok_res ee_ok (SW inst s)"
    "ok_res ee_ok (SQ inst s)"
    "ok_res ee_ok (SWC1 inst s)"
    "ok_res ee_ok (SDL inst s)"
    "ok_res ee_ok (SDR inst s)"
    "ok_res ee_ok (SWL inst s)"
    "ok_res ee_ok (SWR inst s)"
  using assms
  by (auto simp: memory_defs Let_def ee_ok_gpr_upd
      intro!: ok_guarded ok_checks ok_with_address ok_ee_read ok_ee_write ee_ok_fpr_write)

lemma LUI_ok [op_ok]: "ee_ok s \<Longrightarrow> ee_ok (LUI inst s)"
  by (auto simp: LUI_def)

section \<open>Unaligned accesses\<close>

text \<open>The masks of the merges, bit by bit.\<close>

lemma merge_masks:
  "(0x00FFFFFF :: uword) = mask 24" "(0xFFFFFF00 :: uword) = push_bit 8 (mask 24)"
  "(0x00FFFFFFFFFFFFFF :: udword) = mask 56" "(0xFFFFFFFFFFFFFF00 :: udword) = push_bit 8 (mask 56)"
  by (simp_all add: mask_eq_exp_minus_1 push_bit_eq_mult)

lemma bit_LW_merge:
  "shift \<le> 24 \<Longrightarrow> b < 32 \<Longrightarrow> bit (LWL_merge shift r v) b = (if b < 24 - shift then bit r b else bit v (b - (24 - shift)))"
  "shift \<le> 24 \<Longrightarrow> b < 32 \<Longrightarrow> bit (LWR_merge shift r v) b = (if b < 32 - shift then bit v (b + shift) else bit r b)"
  unfolding LWL_merge_def LWR_merge_def merge_masks
  by (auto simp: bit_simps add.commute dest: bit_imp_le_length)

lemma bit_LD_merge:
  "shift \<le> 56 \<Longrightarrow> b < 64 \<Longrightarrow> bit (LDL_merge shift r v) b = (if b < 56 - shift then bit r b else bit v (b - (56 - shift)))"
  "shift \<le> 56 \<Longrightarrow> b < 64 \<Longrightarrow> bit (LDR_merge shift r v) b = (if b < 64 - shift then bit v (b + shift) else bit r b)"
  unfolding LDL_merge_def LDR_merge_def merge_masks
  by (auto simp: bit_simps add.commute dest: bit_imp_le_length)

lemma bit_mem_read:
  assumes "mem_read n off m = Inr (w :: 'a::len word)"
  shows "bit w b \<longleftrightarrow> b < LENGTH('a) \<and> b < 8 * n \<and> bit (mem_bytes m ! (off + b div 8)) (b mod 8)"
    "off + n \<le> mem_size m" "off < mem_size m"
proof -
  have a: "mem_access n off m = None" and w: "w = join_bytes (take n (drop off (mem_bytes m)))"
    using assms by (auto simp: mem_read_def split: option.splits)
  show s: "off + n \<le> mem_size m" "off < mem_size m"
    using a by (auto simp: mem_access_def split: if_splits)
  then show "bit w b \<longleftrightarrow> b < LENGTH('a) \<and> b < 8 * n \<and> bit (mem_bytes m ! (off + b div 8)) (b mod 8)"
    by (auto simp: w bit_join_bytes mem_size_def)
qed

lemma mem_read_ex:
  assumes "off + n \<le> mem_size m" and "off < mem_size m"
  shows "\<exists>w. mem_read n off m = Inr (w :: 'a::len word)"
  using assms by (auto simp: mem_read_def mem_access_def)

text \<open>
  Loading an unaligned value: the right part from the aligned word or dword the address lies in,
  then the left part from the next one, is a read of the bytes at the address.
\<close>

lemma unaligned_load_word:
  assumes r: "mem_read_uword a m = Inr w0" "mem_read_uword (a + 4) m = Inr w1" and k: "0 < k" "k < 4"
  shows "mem_read_uword (a + k) m = Inr (LWL_merge (8 * (k - 1)) (LWR_merge (8 * k) r w0) w1)"
proof -
  note r0 = bit_mem_read[OF r(1)[unfolded mem_read_uword_def]]
    and r1 = bit_mem_read[OF r(2)[unfolded mem_read_uword_def]]
  obtain w :: uword where w: "mem_read 4 (a + k) m = Inr w"
    using mem_read_ex[of "a + k" 4 m] r1(2,3) k by auto
  note rw = bit_mem_read[OF w]
  have "w = LWL_merge (8 * (k - 1)) (LWR_merge (8 * k) r w0) w1"
  proof (rule bit_word_eqI)
    fix b assume "b < LENGTH(32)"
    then have b: "b < 32" by simp
    have d: "(b + 8 * k) div 8 = b div 8 + k" "(b + 8 * k) mod 8 = b mod 8" by simp_all
    have bits: "bit (LWL_merge (8 * (k - 1)) (LWR_merge (8 * k) r w0) w1) b =
        (if b < 32 - 8 * k then bit w0 (b + 8 * k) else bit w1 (b - (32 - 8 * k)))"
    proof -
      have e: "24 - 8 * (k - 1) = 32 - 8 * k" "8 * (k - 1) \<le> 24" "8 * k \<le> 24" using k by simp_all
      show ?thesis
        unfolding bit_LW_merge(1)[OF e(2) b] bit_LW_merge(2)[OF e(3) b] e(1)
        by (cases "b < 32 - 8 * k") (simp_all only: if_True if_False)
    qed
    show "bit w b = bit (LWL_merge (8 * (k - 1)) (LWR_merge (8 * k) r w0) w1) b"
    proof (cases "b < 32 - 8 * k")
      case True
      have "bit w b = bit w0 (b + 8 * k)"
      proof -
        have "b + 8 * k < LENGTH(32)" "b + 8 * k < 8 * 4" "b < LENGTH(32)" "b < 8 * 4" using True b by simp_all
        moreover have "a + (b div 8 + k) = a + k + b div 8" by simp
        ultimately show ?thesis unfolding rw(1) r0(1) d by (simp only: simp_thms)
      qed
      then show ?thesis unfolding bits using True by (simp only: if_True)
    next
      case False
      define c where "c = b - (32 - 8 * k)"
      have c: "c + 32 = b + 8 * k" using False k by (simp add: c_def)
      have "(c + 32) div 8 = c div 8 + 4" "(c + 32) mod 8 = c mod 8" by (simp, presburger)
      then have e: "c div 8 + 4 = b div 8 + k" "c mod 8 = b mod 8" unfolding c d by simp_all
      have "bit w b = bit w1 c"
      proof -
        have "c < LENGTH(32)" "c < 8 * 4" "b < LENGTH(32)" "b < 8 * 4"
          using False b k by (simp_all add: c_def)
        moreover have "a + 4 + c div 8 = a + k + b div 8" using e(1) by simp
        ultimately show ?thesis unfolding rw(1) r1(1) e(2) by (simp only: simp_thms)
      qed
      then show ?thesis unfolding bits c_def using False by (simp only: if_False)
    qed
  qed
  then show ?thesis using w by (simp add: mem_read_uword_def)
qed

lemma unaligned_load_dword:
  assumes r: "mem_read_udword a m = Inr w0" "mem_read_udword (a + 8) m = Inr w1" and k: "0 < k" "k < 8"
  shows "mem_read_udword (a + k) m = Inr (LDL_merge (8 * (k - 1)) (LDR_merge (8 * k) r w0) w1)"
proof -
  note r0 = bit_mem_read[OF r(1)[unfolded mem_read_udword_def]]
    and r1 = bit_mem_read[OF r(2)[unfolded mem_read_udword_def]]
  obtain w :: udword where w: "mem_read 8 (a + k) m = Inr w"
    using mem_read_ex[of "a + k" 8 m] r1(2,3) k by auto
  note rw = bit_mem_read[OF w]
  have "w = LDL_merge (8 * (k - 1)) (LDR_merge (8 * k) r w0) w1"
  proof (rule bit_word_eqI)
    fix b assume "b < LENGTH(64)"
    then have b: "b < 64" by simp
    have d: "(b + 8 * k) div 8 = b div 8 + k" "(b + 8 * k) mod 8 = b mod 8" by simp_all
    have bits: "bit (LDL_merge (8 * (k - 1)) (LDR_merge (8 * k) r w0) w1) b =
        (if b < 64 - 8 * k then bit w0 (b + 8 * k) else bit w1 (b - (64 - 8 * k)))"
    proof -
      have e: "56 - 8 * (k - 1) = 64 - 8 * k" "8 * (k - 1) \<le> 56" "8 * k \<le> 56" using k by simp_all
      show ?thesis
        unfolding bit_LD_merge(1)[OF e(2) b] bit_LD_merge(2)[OF e(3) b] e(1)
        by (cases "b < 64 - 8 * k") (simp_all only: if_True if_False)
    qed
    show "bit w b = bit (LDL_merge (8 * (k - 1)) (LDR_merge (8 * k) r w0) w1) b"
    proof (cases "b < 64 - 8 * k")
      case True
      have "bit w b = bit w0 (b + 8 * k)"
      proof -
        have "b + 8 * k < LENGTH(64)" "b + 8 * k < 8 * 8" "b < LENGTH(64)" "b < 8 * 8" using True b by simp_all
        moreover have "a + (b div 8 + k) = a + k + b div 8" by simp
        ultimately show ?thesis unfolding rw(1) r0(1) d by (simp only: simp_thms)
      qed
      then show ?thesis unfolding bits using True by (simp only: if_True)
    next
      case False
      define c where "c = b - (64 - 8 * k)"
      have c: "c + 64 = b + 8 * k" using False k by (simp add: c_def)
      have "(c + 64) div 8 = c div 8 + 8" "(c + 64) mod 8 = c mod 8" by (simp, presburger)
      then have e: "c div 8 + 8 = b div 8 + k" "c mod 8 = b mod 8" unfolding c d by simp_all
      have "bit w b = bit w1 c"
      proof -
        have "c < LENGTH(64)" "c < 8 * 8" "b < LENGTH(64)" "b < 8 * 8"
          using False b k by (simp_all add: c_def)
        moreover have "a + 8 + c div 8 = a + k + b div 8" using e(1) by simp
        ultimately show ?thesis unfolding rw(1) r1(1) e(2) by (simp only: simp_thms)
      qed
      then show ?thesis unfolding bits c_def using False by (simp only: if_False)
    qed
  qed
  then show ?thesis using w by (simp add: mem_read_udword_def)
qed

section \<open>Storing and loading back\<close>

text \<open>
  A successful translation fills the translation cache, so the next access to the page is
  translated to the same address whatever the kind of access; only the cache changes.
\<close>

lemma translate_hit_view:
  assumes "ts_invar TC_SIZE (e_tcd t)" and "ts_view (e_tcd t) (page_of va) = Some pa0"
  shows "\<exists>c. translate_address_data va rw t = Inr (Some (pa0 OR (va AND cache_mask)), t\<lparr>e_tcd := c\<rparr>) \<and>
    ts_invar TC_SIZE c"
proof -
  obtain r c where g: "ts_get (page_of va) (e_tcd t) = (r, c)" by fastforce
  then have "r = Some pa0" "ts_invar TC_SIZE c"
    using ts_get_spec[OF assms(1), of "page_of va"] assms(2) by auto
  then show ?thesis using g by (auto simp: translate_address_data_def tc_lookup_def)
qed

lemma translate_fills:
  assumes ok: "ts_invar TC_SIZE (e_tcd s)" and t: "translate_address_data va rw s = Inr (Some pa, s')"
  shows "\<exists>c pa0. s' = s\<lparr>e_tcd := c\<rparr> \<and> ts_invar TC_SIZE c \<and> ts_view c (page_of va) = Some pa0 \<and>
    pa = pa0 OR (va AND cache_mask)"
proof -
  obtain r c where g: "ts_get (page_of va) (e_tcd s) = (r, c)" by fastforce
  have c: "ts_invar TC_SIZE c" "r = ts_view (e_tcd s) (page_of va)" "ts_view c = ts_view (e_tcd s)"
    using ts_get_spec[OF ok, of "page_of va"] g by auto
  show ?thesis
  proof (cases r)
    case (Some pa0)
    then show ?thesis using t g c by (auto simp: translate_address_data_def tc_lookup_def)
  next
    case None
    let ?s1 = "s\<lparr>e_tcd := c\<rparr>"
    obtain pa0 s2 where f: "translate_address_fallback (page_of va) rw ?s1 = Inr (Some pa0, s2)"
      using t None g
      by (auto simp: translate_address_data_def tc_lookup_def handle_fallback_def Let_def split: option.splits)
    then have s2: "s2 = ?s1" by (rule fallback_hit_state)
    obtain c' where c': "ts_insert (page_of va) pa0 c = Inr c'" "ts_invar TC_SIZE c'"
        "ts_view c' (page_of va) = Some pa0"
      using ts_insert_spec[OF c(1), of "page_of va" pa0] None c(2,3) by auto
    then have "s' = s\<lparr>e_tcd := c'\<rparr> \<and> pa = pa0 OR (va AND cache_mask)"
      using t None g f s2 by (auto simp: translate_address_data_def tc_lookup_def handle_fallback_def)
    then show ?thesis using c' by blast
  qed
qed

lemma SW_then_LW:
  assumes ok: "ee_ok s"
    and t: "translate_address_data (effective_address i s) WRITE s = Inr (Some pa, s0)"
    and l: "bus_locate pa (e_bus s) = Inr (n, off)" "n < length (bus_objects (e_bus s))"
    and m: "bus_objects (e_bus s) ! n = Memory_obj m" "\<not> mem_read_only m" "off + 4 \<le> mem_size m"
    and j: "inst_rs j = inst_rs i" "inst_s_imm j = inst_s_imm i" "inst_rt j \<noteq> 0"
  shows "\<exists>s1 s2. SW i s = Inr s1 \<and> LW j s1 = Inr s2 \<and>
    src_d (inst_rt j) 0 s2 = scast (src_w (inst_rt i) 0 s)"
proof -
  let ?va = "effective_address i s" and ?v = "src_w (inst_rt i) 0 s"
  obtain c pa0 where s0: "s0 = s\<lparr>e_tcd := c\<rparr>" and c: "ts_invar TC_SIZE c"
    and view: "ts_view c (page_of ?va) = Some pa0" and pa: "pa = pa0 OR (?va AND cache_mask)"
    using translate_fills[OF ee_okD(9)[OF ok] t] by blast
  obtain m' where m': "mem_write_uword off ?v m = Inr m'"
    using m(2,3) by (auto simp: mem_write_uword_def mem_write_def)
  let ?b = "(e_bus s)\<lparr>bus_objects := (bus_objects (e_bus s))[n := Memory_obj m']\<rparr>"
  have w: "bus_write_uword pa ?v (e_bus s) = Inr ?b"
    using l m(1) m' by (simp add: bus_write_uword_def bus_write_with_def wrap_obj_def)
  have r: "bus_read_uword pa ?b = Inr (?v, ?b)"
    using access_uword.bus_read_written[OF w[unfolded bus_write_uword_def] l(1) m(1,2) l(2)]
    by (simp add: bus_read_uword_def)
  let ?s1 = "s\<lparr>e_tcd := c, e_bus := ?b\<rparr>"
  have sw: "SW i s = Inr ?s1"
    using t w by (simp add: SW_def with_address_def ee_write_def s0)
  have ea: "effective_address j ?s1 = ?va"
    using j(1,2) by (simp add: effective_address_def)
  obtain c' where t1: "translate_address_data ?va READ ?s1 = Inr (Some pa, ?s1\<lparr>e_tcd := c'\<rparr>)"
    and c': "ts_invar TC_SIZE c'"
    using translate_hit_view[of ?s1 ?va pa0 READ] c view by (auto simp: pa)
  let ?s2 = "s\<lparr>e_tcd := c', e_bus := ?b\<rparr>"
  have lw: "LW j ?s1 = Inr (dest_d (inst_rt j) (scast ?v) ?s2)"
    using t1 r by (simp add: LW_def ea with_address_def ee_read_def)
  have ok2: "ee_ok ?s2" using ok c' by (auto intro: ee_ok_upd)
  show ?thesis
    using sw lw dest_get(5)[OF ok2 j(3), of "scast ?v"] by (intro exI conjI)
qed

end
