(* ===== verification/Float32.thy ===== *)
theory Float32
  imports Utilities
begin

text \<open>
  The host's single precision arithmetic (C++ \<open>float\<close> under IEEE 754, rounding to nearest
  even) on bit patterns.  A finite value is a significand times a power of two; an operation
  computes the exact result (with a sticky bit where it is not a binary fraction) and rounds
  once.  NaNs follow the x86 convention: a NaN operand is passed on with its quiet bit set, an
  invalid operation gives the default NaN.
\<close>

section \<open>Bit lengths and integer square roots\<close>

fun bit_len :: "nat \<Rightarrow> nat" where
  "bit_len n = (if n = 0 then 0 else Suc (bit_len (n div 2)))"

declare bit_len.simps [simp del]

lemma bit_len_bounds: "n < 2 ^ bit_len n \<and> (0 < n \<longrightarrow> 2 ^ (bit_len n - 1) \<le> n)"
proof (induction n rule: bit_len.induct)
  case (1 n)
  show ?case
  proof (cases "n = 0")
    case False
    define k where "k = bit_len (n div 2)"
    have b: "bit_len n = Suc k" using False by (simp add: bit_len.simps[of n] k_def)
    have ih: "n div 2 < 2 ^ k" "0 < n div 2 \<longrightarrow> 2 ^ (k - 1) \<le> n div 2"
      using 1[OF False] by (simp_all add: k_def)
    have "n < 2 ^ Suc k" using ih(1) by simp
    moreover have "2 ^ k \<le> n"
    proof (cases k)
      case 0
      then show ?thesis using False by simp
    next
      case (Suc j)
      then have "0 < n div 2" using k_def by (cases "n div 2 = 0") (simp_all add: bit_len.simps)
      then have "2 ^ j \<le> n div 2" using ih(2) Suc by simp
      then show ?thesis using Suc by simp
    qed
    ultimately show ?thesis by (simp add: b)
  qed (simp add: bit_len.simps)
qed

lemma bit_len_unique:
  assumes "2 ^ k \<le> n" and "n < 2 ^ Suc k"
  shows "bit_len n = Suc k"
proof -
  have p: "0 < n" using assms(1) by (metis gr0I not_le zero_less_numeral zero_less_power)
  have b: "n < 2 ^ bit_len n" "2 ^ (bit_len n - 1) \<le> n"
    using bit_len_bounds[of n] p by simp_all
  have "k < bit_len n"
    using le_less_trans[OF assms(1) b(1)] by (simp only: power_strict_increasing_iff)
  moreover have "bit_len n - 1 < Suc k"
    using le_less_trans[OF b(2) assms(2)] by (simp only: power_strict_increasing_iff)
  ultimately show ?thesis by simp
qed

lemma bit_len_le: "n < 2 ^ k \<Longrightarrow> bit_len n \<le> k"
proof (cases "n = 0")
  case False
  assume n: "n < 2 ^ k"
  have "2 ^ (bit_len n - 1) \<le> n" using bit_len_bounds[of n] False by simp
  then have "(2::nat) ^ (bit_len n - 1) < 2 ^ k" using n by (rule le_less_trans)
  then have "bit_len n - 1 < k" by (simp only: power_strict_increasing_iff)
  then show ?thesis by simp
qed (simp add: bit_len.simps)

lemma bit_len_shift:
  assumes "0 < n"
  shows "bit_len (n * 2 ^ k) = bit_len n + k"
proof -
  obtain j where j: "bit_len n = Suc j"
    using assms by (metis bit_len.elims not_gr_zero)
  have "n < 2 ^ Suc j" "2 ^ j \<le> n"
    using bit_len_bounds[of n] assms j by simp_all
  then have "2 ^ (j + k) \<le> n * 2 ^ k" "n * 2 ^ k < 2 ^ Suc (j + k)"
    by (simp_all add: power_add)
  then show ?thesis using bit_len_unique[of "j + k"] j by simp
qed

fun isqrt :: "nat \<Rightarrow> nat" where
  "isqrt n =
     (if n = 0 then 0
      else let r = 2 * isqrt (n div 4) in if (r + 1) * (r + 1) \<le> n then r + 1 else r)"

declare isqrt.simps [simp del]

lemma isqrt_spec: "isqrt n * isqrt n \<le> n \<and> n < (isqrt n + 1) * (isqrt n + 1)"
proof (induction n rule: isqrt.induct)
  case (1 n)
  show ?case
  proof (cases "n = 0")
    case False
    define s where "s = isqrt (n div 4)"
    have ih: "s * s \<le> n div 4" "n div 4 < (s + 1) * (s + 1)"
      using 1[OF False] by (simp_all add: s_def)
    have lo: "2 * s * (2 * s) \<le> n" using ih(1) by simp
    have "n < 4 * ((s + 1) * (s + 1))" using ih(2) by (simp add: less_eq_div_iff_mult_less_eq)
    then have hi: "n < (2 * s + 2) * (2 * s + 2)" by (simp add: algebra_simps)
    show ?thesis
      using lo hi by (simp add: isqrt.simps[of n] False Let_def s_def[symmetric] algebra_simps)
  qed (simp add: isqrt.simps)
qed

section \<open>Rounding\<close>

text \<open>\<open>m / 2 ^ k\<close> rounded to the nearest integer, ties to even.\<close>

definition rne :: "nat \<Rightarrow> nat \<Rightarrow> nat" where
  "rne m k =
     (let q = m div 2 ^ k; r = m mod 2 ^ k
      in if 2 * r > 2 ^ k \<or> 2 * r = 2 ^ k \<and> odd q then q + 1 else q)"

lemma rne_error: "2 * \<bar>int (rne m k) * 2 ^ k - int m\<bar> \<le> 2 ^ k"
proof -
  have "m = m div 2 ^ k * 2 ^ k + m mod 2 ^ k" by (simp only: div_mult_mod_eq)
  then have "int m = int (m div 2 ^ k * 2 ^ k + m mod 2 ^ k)" by (rule arg_cong)
  then have m: "int m = int (m div 2 ^ k) * 2 ^ k + int (m mod 2 ^ k)" by simp
  have "m mod 2 ^ k < 2 ^ k" by simp
  then have "int (m mod 2 ^ k) < int (2 ^ k)" by (simp only: of_nat_less_iff)
  then have r: "int (m mod 2 ^ k) < 2 ^ k" by simp
  have "int (2 ^ k) < int (2 * (m mod 2 ^ k)) \<longleftrightarrow> 2 ^ k < 2 * (m mod 2 ^ k)"
    and "int (2 * (m mod 2 ^ k)) = int (2 ^ k) \<longleftrightarrow> 2 * (m mod 2 ^ k) = 2 ^ k"
    by (simp_all only: of_nat_less_iff of_nat_eq_iff)
  then have c: "2 * (m mod 2 ^ k) > 2 ^ k \<longleftrightarrow> 2 * int (m mod 2 ^ k) > 2 ^ k"
    "2 * (m mod 2 ^ k) = 2 ^ k \<longleftrightarrow> 2 * int (m mod 2 ^ k) = 2 ^ k"
    by simp_all
  define q where "q = int (m div 2 ^ k) * 2 ^ k"
  define t where "t = int (m mod 2 ^ k)"
  have e: "int (rne m k) * 2 ^ k = q + (if 2 * t > 2 ^ k \<or> 2 * t = 2 ^ k \<and> odd (m div 2 ^ k) then 2 ^ k else 0)"
    by (simp add: rne_def Let_def c q_def t_def algebra_simps)
  have "int m = q + t" "0 \<le> t" "t < 2 ^ k" using m r by (simp_all add: q_def t_def)
  then show ?thesis by (auto simp: e)
qed

lemma rne_0: "rne m 0 = m"
  by (simp add: rne_def Let_def)

lemma rne_exact: "rne (m * 2 ^ k) k = m"
  by (simp add: rne_def Let_def)

lemma rne_shift: "rne (m * 2 ^ j) (k + j) = rne m k"
proof -
  have "m * 2 ^ j div 2 ^ (k + j) = m div 2 ^ k" and "m * 2 ^ j mod 2 ^ (k + j) = (m mod 2 ^ k) * 2 ^ j"
    by (simp_all add: power_add mult_mod_left)
  then show ?thesis by (simp add: rne_def Let_def power_add)
qed

text \<open>The float of sign \<open>neg\<close> nearest to \<open>m * 2 ^ e\<close>.\<close>

definition f32_sign :: "bool \<Rightarrow> uword" where
  "f32_sign neg = (if neg then 0x80000000 else 0)"

definition f32_inf :: "bool \<Rightarrow> uword" where
  "f32_inf neg = f32_sign neg + 0x7F800000"

definition f32_round :: "bool \<Rightarrow> nat \<Rightarrow> int \<Rightarrow> uword" where
  "f32_round neg m e =
     (if m = 0 then f32_sign neg
      else
        let q = max (e + int (bit_len m) - 24) (- 149);
            r = (if q \<le> e then m * 2 ^ nat (e - q) else rne m (nat (q - e)));
            n = (if r < 2 ^ 23 then r else nat (q + 150) * 2 ^ 23 + (r - 2 ^ 23))
        in if n \<ge> 0x7F800000 then f32_inf neg else f32_sign neg + of_nat n)"

lemma f32_round_shift: "f32_round neg (m * 2 ^ k) (e - int k) = f32_round neg m e"
proof (cases "m = 0")
  case False
  define q where "q = max (e + int (bit_len m) - 24) (- 149)"
  have q': "max (e - int k + int (bit_len (m * 2 ^ k)) - 24) (- 149) = q"
    using False by (simp add: q_def bit_len_shift)
  have r: "(if q \<le> e - int k then m * 2 ^ k * 2 ^ nat (e - int k - q) else rne (m * 2 ^ k) (nat (q - (e - int k)))) =
      (if q \<le> e then m * 2 ^ nat (e - q) else rne m (nat (q - e)))"
  proof (cases "q \<le> e - int k")
    case True
    then have "nat (e - q) = k + nat (e - int k - q)" by (simp add: nat_add_distrib[symmetric])
    then show ?thesis using True by (simp add: power_add)
  next
    case gt: False
    show ?thesis
    proof (cases "q \<le> e")
      case True
      define i where "i = nat (e - q)"
      define j where "j = nat (q - (e - int k))"
      have "k = i + j" using True gt by (simp add: i_def j_def)
      then have m: "m * 2 ^ k = m * 2 ^ i * 2 ^ j" by (simp add: power_add)
      have "rne (m * 2 ^ k) j = m * 2 ^ i" by (simp only: m rne_exact)
      then show ?thesis using True gt by (simp add: i_def j_def)
    next
      case False
      then have "nat (q - (e - int k)) = nat (q - e) + k" by simp
      then show ?thesis using False gt rne_shift[of m k "nat (q - e)"] by simp
    qed
  qed
  have nz: "m * 2 ^ k \<noteq> 0" using False by simp
  show ?thesis
    by (simp only: f32_round_def if_not_P[OF nz] if_not_P[OF False] q' q_def[symmetric] r Let_def)
qed (simp add: f32_round_def)

section \<open>Operations\<close>

text \<open>Significand and exponent of a finite float.\<close>

definition f32_significand :: "uword \<Rightarrow> nat" where
  "f32_significand v =
     (if f32_exponent v = 0 then unat (f32_fraction v) else unat (f32_fraction v) + 2 ^ 23)"

definition f32_scale :: "uword \<Rightarrow> int" where
  "f32_scale v = (if f32_exponent v = 0 then - 149 else int (unat (f32_exponent v)) - 150)"

definition f32_negative :: "uword \<Rightarrow> bool" where
  "f32_negative v = bit v 31"

definition f32_negate :: "uword \<Rightarrow> uword" where
  "f32_negate v = v XOR 0x80000000"

definition f32_abs :: "uword \<Rightarrow> uword" where
  "f32_abs v = v AND 0x7FFFFFFF"

abbreviation f32_nan :: "uword \<Rightarrow> bool" where
  "f32_nan v \<equiv> fpclassify v = FP_NAN"
abbreviation f32_infinite :: "uword \<Rightarrow> bool" where
  "f32_infinite v \<equiv> fpclassify v = FP_INFINITE"
abbreviation f32_zero :: "uword \<Rightarrow> bool" where
  "f32_zero v \<equiv> fpclassify v = FP_ZERO"

definition f32_default_nan :: uword where
  "f32_default_nan = 0xFFC00000"

definition f32_pass_nan :: "uword \<Rightarrow> uword \<Rightarrow> uword" where
  "f32_pass_nan a b = (if f32_nan a then a OR 0x00400000 else b OR 0x00400000)"

definition f32_add :: "uword \<Rightarrow> uword \<Rightarrow> uword" where
  "f32_add a b =
     (if f32_nan a \<or> f32_nan b then f32_pass_nan a b
      else if f32_infinite a then (if f32_infinite b \<and> a \<noteq> b then f32_default_nan else a)
      else if f32_infinite b then b
      else
        let e = min (f32_scale a) (f32_scale b);
            x = int (f32_significand a * 2 ^ nat (f32_scale a - e));
            y = int (f32_significand b * 2 ^ nat (f32_scale b - e));
            t = (if f32_negative a then - x else x) + (if f32_negative b then - y else y)
        in if t = 0 then f32_sign (f32_negative a \<and> f32_negative b)
           else f32_round (t < 0) (nat \<bar>t\<bar>) e)"

definition f32_sub :: "uword \<Rightarrow> uword \<Rightarrow> uword" where
  "f32_sub a b = (if f32_nan a \<or> f32_nan b then f32_pass_nan a b else f32_add a (f32_negate b))"

definition f32_mul :: "uword \<Rightarrow> uword \<Rightarrow> uword" where
  "f32_mul a b =
     (let neg = (f32_negative a \<noteq> f32_negative b)
      in if f32_nan a \<or> f32_nan b then f32_pass_nan a b
         else if f32_infinite a \<and> f32_zero b \<or> f32_zero a \<and> f32_infinite b then f32_default_nan
         else if f32_infinite a \<or> f32_infinite b then f32_inf neg
         else f32_round neg (f32_significand a * f32_significand b) (f32_scale a + f32_scale b))"

text \<open>The quotient to at least 26 bits, and a last bit that is set when there is a remainder.\<close>

definition f32_div :: "uword \<Rightarrow> uword \<Rightarrow> uword" where
  "f32_div a b =
     (let neg = (f32_negative a \<noteq> f32_negative b)
      in if f32_nan a \<or> f32_nan b then f32_pass_nan a b
         else if f32_infinite a \<and> f32_infinite b \<or> f32_zero a \<and> f32_zero b then f32_default_nan
         else if f32_infinite a \<or> f32_zero b then f32_inf neg
         else if f32_infinite b then f32_sign neg
         else
           let x = f32_significand a * 2 ^ 50; y = f32_significand b
           in f32_round neg (2 * (x div y) + (if x mod y = 0 then 0 else 1))
                (f32_scale a - f32_scale b - 51))"

definition f32_sqrt :: "uword \<Rightarrow> uword" where
  "f32_sqrt a =
     (if f32_nan a then a OR 0x00400000
      else if f32_zero a then a
      else if f32_negative a then f32_default_nan
      else if f32_infinite a then a
      else
        let k = (if even (f32_scale a) then 60 else 61);
            x = f32_significand a * 2 ^ k;
            r = isqrt x
        in f32_round False (2 * r + (if r * r = x then 0 else 1)) ((f32_scale a - int k) div 2 - 1))"

text \<open>Conversions from and to the unsigned word.\<close>

definition f32_of_uword :: "uword \<Rightarrow> uword" where
  "f32_of_uword u = f32_round False (unat u) 0"

definition uword_of_f32 :: "uword \<Rightarrow> uword res" where
  "uword_of_f32 v =
     (if f32_nan v \<or> f32_infinite v then Inl Undefined_conversion
      else
        let t = (if f32_scale v \<ge> 0 then f32_significand v * 2 ^ nat (f32_scale v)
                 else f32_significand v div 2 ^ nat (- f32_scale v))
        in if t \<ge> 2 ^ 32 \<or> f32_negative v \<and> t > 0 then Inl Undefined_conversion
           else Inr (of_nat t))"

section \<open>Laws\<close>

lemma unat_drop_bit: "unat (drop_bit n v) = unat (v :: uword) div 2 ^ n"
proof -
  have "take_bit 32 (unat v) = unat v" using unsigned_less[of v] by (intro take_bit_nat_eq_self) simp
  moreover have "unat (drop_bit n v) = drop_bit n (take_bit LENGTH(32) (unat v))"
    by (rule unsigned_drop_bit_eq)
  ultimately show ?thesis by (simp only: drop_bit_eq_div len_num1 len_bit0) simp
qed

lemma unat_fields:
  "unat (f32_exponent v) = unat v div 2 ^ 23 mod 2 ^ 8" "unat (f32_fraction v) = unat v mod 2 ^ 23"
  by (simp_all only: f32_exponent_def f32_fraction_def unsigned_take_bit_eq unat_drop_bit
      take_bit_eq_mod[where 'a = nat])

lemma f32_fields:
  "unat (v :: uword) = (if bit v 31 then 2147483648 else 0) + unat (f32_exponent v) * 8388608 + unat (f32_fraction v)"
proof -
  have b: "bit v 31 \<longleftrightarrow> odd (unat v div 2 ^ 31)"
    using bit_iff_odd[of "unat v" 31] by (simp add: bit_unsigned_iff)
  define n where "n = unat v"
  define h where "h = n div 8388608"
  have "n < 4294967296" using unsigned_less[of v] by (simp add: n_def)
  then have "h < 512" by (simp add: h_def less_mult_imp_div_less)
  then have "h div 256 < 2" by (simp add: less_mult_imp_div_less)
  then have o: "(if odd (h div 256) then 2147483648 else 0) = h div 256 * 2147483648"
    by (cases "h div 256 = 0") (auto simp: less_2_cases_iff)
  have "n div 2147483648 = n div 8388608 div 256" by (simp only: div_mult2_eq[symmetric]) simp
  then have "bit v 31 \<longleftrightarrow> odd (h div 256)" using b by (simp add: n_def h_def)
  then have s: "(if bit v 31 then 2147483648 else 0) = h div 256 * 2147483648" using o by simp
  have "n = h * 8388608 + n mod 8388608" by (simp add: h_def)
  moreover have "h = h div 256 * 256 + h mod 256" by simp
  ultimately have "n = (h div 256) * 2147483648 + (h mod 256) * 8388608 + n mod 8388608"
    by linarith
  then have "n = (if bit v 31 then 2147483648 else 0) + (n div 8388608 mod 256) * 8388608 + n mod 8388608"
    by (simp only: s) (simp only: h_def)
  then show ?thesis by (simp add: unat_fields n_def split del: if_split)
qed

lemma f32_bounds: "unat (f32_exponent v) < 256" "unat (f32_fraction v) < 2 ^ 23"
  by (simp_all add: unat_fields)

text \<open>Rounding what is already a float does nothing.\<close>

lemma fpclassify_finite:
  "fpclassify v \<noteq> FP_NAN \<and> fpclassify v \<noteq> FP_INFINITE \<longleftrightarrow> f32_exponent v \<noteq> 255"
  by (simp add: fpclassify_def)

lemma fpclassify_zero: "f32_zero v \<longleftrightarrow> f32_significand v = 0"
  by (auto simp: fpclassify_def f32_significand_def unat_eq_0)

lemma f32_exponent_unat: "f32_exponent v = 255 \<longleftrightarrow> unat (f32_exponent v) = 255" "f32_exponent v = 0 \<longleftrightarrow> unat (f32_exponent v) = 0"
  unfolding word_unat_eq_iff by simp_all

lemma f32_word_eq: "unat v = (if b then 2147483648 else 0) + n \<Longrightarrow> v = f32_sign b + of_nat n"
proof -
  assume "unat v = (if b then 2147483648 else 0) + n"
  then have "of_nat (unat v) = (of_nat ((if b then 2147483648 else 0) + n) :: uword)" by (rule arg_cong)
  then show ?thesis by (simp add: f32_sign_def)
qed

lemma f32_round_decode:
  assumes "\<not> f32_nan v" and "\<not> f32_infinite v"
  shows "f32_round (f32_negative v) (f32_significand v) (f32_scale v) = v"
proof -
  define x where "x = unat (f32_exponent v)"
  define f where "f = unat (f32_fraction v)"
  have x: "x < 255"
    using assms fpclassify_finite[of v] f32_bounds(1)[of v] f32_exponent_unat(1)[of v] by (simp add: x_def)
  have f: "f < 8388608" using f32_bounds(2)[of v] by (simp add: f_def)
  have v: "v = f32_sign (bit v 31) + of_nat (x * 8388608 + f)"
    using f32_fields[of v] by (intro f32_word_eq) (simp add: x_def f_def)
  show ?thesis
  proof (cases "x = 0")
    case True
    then have "f32_exponent v = 0" using f32_exponent_unat(2)[of v] by (simp add: x_def)
    then have sc: "f32_significand v = f" "f32_scale v = - 149"
      by (simp_all add: f32_significand_def f32_scale_def f_def)
    have q: "max (int (bit_len f) - 173) (- 149) = - 149"
      using bit_len_le[of f 23] f by simp
    have "f32_round b f (- 149) = f32_sign b + of_nat f" for b
      using f by (simp add: f32_round_def q)
    then show ?thesis using v True by (simp add: sc f32_negative_def)
  next
    case False
    then have "f32_exponent v \<noteq> 0" using f32_exponent_unat(2)[of v] by (simp add: x_def)
    then have sc: "f32_significand v = f + 8388608" "f32_scale v = int x - 150"
      by (simp_all add: f32_significand_def f32_scale_def f_def x_def)
    have l: "bit_len (f + 8388608) = 24" using bit_len_unique[of 23 "f + 8388608"] f by simp
    have q: "max (int x - 150) (- 149) = int x - 150" using False by simp
    have "f32_round b (f + 8388608) (int x - 150) = f32_sign b + of_nat (x * 8388608 + f)" for b
      using f x False by (simp add: f32_round_def l q)
    then show ?thesis using v by (simp add: sc f32_negative_def)
  qed
qed

lemma f32_add_commute:
  assumes "\<not> f32_nan a" and "\<not> f32_nan b"
  shows "f32_add a b = f32_add b a"
proof (cases "f32_infinite a \<or> f32_infinite b")
  case True
  then show ?thesis using assms by (auto simp: f32_add_def)
next
  case False
  then show ?thesis
    using assms by (simp add: f32_add_def min.commute[of "f32_scale a"] Let_def conj_commute add.commute)
qed

lemma f32_mul_commute:
  assumes "\<not> f32_nan a" and "\<not> f32_nan b"
  shows "f32_mul a b = f32_mul b a"
  using assms
  by (cases "f32_negative a"; cases "f32_negative b") (auto simp: f32_mul_def mult.commute add.commute)

lemma f32_one: "f32_significand 0x3F800000 = 8388608" "f32_scale 0x3F800000 = - 23"
    "fpclassify 0x3F800000 = FP_NORMAL" "\<not> f32_negative 0x3F800000"
  by (simp_all add: f32_significand_def f32_scale_def fpclassify_def f32_exponent_def
      f32_fraction_def f32_negative_def bit_numeral_rec)

lemma f32_mul_one:
  assumes "\<not> f32_nan a"
  shows "f32_mul a 0x3F800000 = a"
proof (cases "f32_infinite a")
  case True
  then have x: "unat (f32_exponent a) = 255" "f32_fraction a = 0"
    by (auto simp: fpclassify_def split: if_splits)
  then have "unat a = (if bit a 31 then 2147483648 else 0) + 2139095040"
    using f32_fields[of a] by simp
  then have "a = f32_inf (f32_negative a)"
    using f32_word_eq[of a "bit a 31" 2139095040] by (simp add: f32_inf_def f32_negative_def)
  then show ?thesis using True by (simp add: f32_mul_def f32_one)
next
  case False
  have "f32_round neg (m * 2 ^ 23) (e - int 23) = f32_round neg m e" for neg m e
    by (rule f32_round_shift)
  then have "f32_round neg (m * 8388608) (e - 23) = f32_round neg m e" for neg m e by simp
  then show ?thesis
    using False assms f32_round_decode[of a] by (simp add: f32_mul_def f32_one)
qed

lemma f32_div_one:
  assumes "\<not> f32_nan a" and "\<not> f32_infinite a"
  shows "f32_div a 0x3F800000 = a"
proof -
  have "m * 2 ^ 50 = m * 2 ^ 27 * 8388608" for m :: nat by simp
  then have d: "m * 2 ^ 50 div 8388608 = m * 2 ^ 27" "m * 2 ^ 50 mod 8388608 = 0" for m :: nat
    by (simp_all only: nonzero_mult_div_cancel_right mod_mult_self2_is_0 zero_neq_numeral[symmetric] not_False_eq_True)
  have s: "f32_round neg (2 * (m * 2 ^ 27)) (e - 28) = f32_round neg m e" for neg m e
    using f32_round_shift[of neg m 28 e] by (simp add: mult.commute)
  show ?thesis
    using assms f32_round_decode[of a] s
    by (simp only: f32_div_def f32_one d Let_def) simp
qed

lemma f32_significand_negate [simp]:
  "f32_significand (f32_negate v) = f32_significand v" "f32_scale (f32_negate v) = f32_scale v"
  "fpclassify (f32_negate v) = fpclassify v" "f32_negative (f32_negate v) \<longleftrightarrow> \<not> f32_negative v"
proof -
  have e: "f32_exponent (f32_negate v) = f32_exponent v" "f32_fraction (f32_negate v) = f32_fraction v"
    by (rule bit_word_eqI; auto simp: f32_exponent_def f32_fraction_def f32_negate_def bit_simps)+
  show "f32_significand (f32_negate v) = f32_significand v" "f32_scale (f32_negate v) = f32_scale v"
    "fpclassify (f32_negate v) = fpclassify v"
    by (simp_all add: f32_significand_def f32_scale_def fpclassify_def e)
  show "f32_negative (f32_negate v) \<longleftrightarrow> \<not> f32_negative v"
    by (simp add: f32_negative_def f32_negate_def bit_simps)
qed

lemma f32_sub_self:
  assumes "\<not> f32_nan a" and "\<not> f32_infinite a"
  shows "f32_sub a a = 0"
  using assms by (simp add: f32_sub_def f32_add_def Let_def f32_sign_def)

lemma f32_add_zero:
  assumes "\<not> f32_nan a" and "\<not> f32_infinite a" and "\<not> f32_zero a" and "f32_zero z"
  shows "f32_add a z = a"
proof -
  define e where "e = min (f32_scale a) (f32_scale z)"
  define k where "k = nat (f32_scale a - e)"
  have e: "e = f32_scale a - int k" by (simp add: k_def e_def)
  have z: "f32_significand z = 0" using assms(4) by (simp add: fpclassify_zero)
  have a: "f32_significand a > 0" using assms(3) by (simp add: fpclassify_zero)
  have "f32_round (f32_negative a) (f32_significand a * 2 ^ k) e = a"
    unfolding e f32_round_shift using assms(1,2) by (rule f32_round_decode)
  moreover have "nat (int (f32_significand a) * 2 ^ k) = f32_significand a * 2 ^ k"
    by (simp add: nat_mult_distrib nat_power_eq)
  moreover have "\<not> int (f32_significand a) * 2 ^ k < 0" by (simp add: not_less)
  ultimately show ?thesis
    using assms a z by (auto simp: f32_add_def Let_def e_def[symmetric] k_def[symmetric])
qed

text \<open>The ordering of bit patterns agrees with the classes.\<close>

lemma f32_magnitude:
  "unat ((v :: uword) AND 0x7FFFFFFF) = 8388608 * unat (f32_exponent v) + unat (f32_fraction v)"
proof -
  have "v AND 0x7FFFFFFF = take_bit 31 v" by (simp add: take_bit_eq_mask mask_eq_exp_minus_1)
  then have "unat (v AND 0x7FFFFFFF) = unat v mod (2 ^ 23 * 2 ^ 8)"
    by (simp add: unsigned_take_bit_eq take_bit_eq_mod[where 'a = nat])
  then show ?thesis by (simp only: mod_mult2_eq unat_fields) simp
qed

lemma f32_is_nan_iff: "f32_is_nan v \<longleftrightarrow> f32_nan v"
  using f32_bounds[of v] f32_exponent_unat(1)[of v]
  by (auto simp: f32_is_nan_def word_less_nat_alt f32_magnitude fpclassify_def unat_eq_0 unat_gt_0)

lemma f32_eq_zero_iff: "f32_eq v 0 \<longleftrightarrow> f32_zero v"
proof -
  have "f32_key v = 0 \<longleftrightarrow> unat (v AND 0x7FFFFFFF) = 0"
    by (simp add: f32_key_def unat_eq_0 uint_0_iff)
  also have "\<dots> \<longleftrightarrow> f32_zero v"
    by (auto simp: f32_magnitude fpclassify_def unat_eq_0)
  finally have "f32_key v = 0 \<longleftrightarrow> f32_zero v" .
  moreover have "f32_key 0 = 0" "\<not> f32_is_nan 0" by (simp_all add: f32_key_def f32_is_nan_def)
  ultimately show ?thesis by (auto simp: f32_eq_def f32_is_nan_iff)
qed

end
