(* ===== verification/EeFloat.thy ===== *)
theory EeFloat
  imports EeCompare Float32
begin

text \<open>
  \<open>CEeCoreInterpreter_FLOAT.cpp\<close>, the square roots of \<open>CEeCoreInterpreter_ALU_OTHERS.cpp\<close> and
  the conversions of \<open>CEeCoreInterpreter_DFC.cpp\<close>: the host computes in IEEE single precision
  and \<open>to_ps2_float\<close> maps the result to the console's format.  Products are rounded before
  they are added.
\<close>

section \<open>Instructions\<close>

text \<open>Fs, Ft and the accumulator; the common end: flags, then the destination.\<close>

abbreviation fs_val :: "instruction \<Rightarrow> ee_state \<Rightarrow> uword" where
  "fs_val inst s \<equiv> w_read_uword (e_fpr s (inst_rd inst))"
abbreviation ft_val :: "instruction \<Rightarrow> ee_state \<Rightarrow> uword" where
  "ft_val inst s \<equiv> w_read_uword (e_fpr s (inst_rt inst))"
abbreviation acc_val :: "ee_state \<Rightarrow> uword" where
  "acc_val s \<equiv> w_read_uword (e_acc s)"

definition csr_upd :: "(word_register \<Rightarrow> word_register) \<Rightarrow> ee_state \<Rightarrow> ee_state" where
  "csr_upd f s = s\<lparr>e_csr := f (e_csr s)\<rparr>"

definition write_fd :: "instruction \<Rightarrow> uword \<Rightarrow> ee_state \<Rightarrow> ee_state" where
  "write_fd inst v s = fpr_upd (inst_shamt inst) (w_write_uword v) s"

definition write_acc :: "uword \<Rightarrow> ee_state \<Rightarrow> ee_state" where
  "write_acc v s = s\<lparr>e_acc := w_write_uword v (e_acc s)\<rparr>"

definition fpu_result :: "(uword \<Rightarrow> ee_state \<Rightarrow> ee_state) \<Rightarrow> uword \<Rightarrow> ee_state \<Rightarrow> ee_state res" where
  "fpu_result dest v s =
     (let (result, flags) = to_ps2_float v
      in Inr (dest result (csr_upd (\<lambda>csr. fpu_update_result_flags flags (fpu_clear_flags csr)) s)))"

definition ADD_S :: "instruction \<Rightarrow> ee_state \<Rightarrow> ee_state res" where
  "ADD_S inst s =
     guarded handle_cop1_usable (\<lambda>s.
       fpu_result (write_fd inst) (f32_add (fs_val inst s) (ft_val inst s)) s) s"

definition ADDA_S :: "instruction \<Rightarrow> ee_state \<Rightarrow> ee_state res" where
  "ADDA_S inst s =
     guarded handle_cop1_usable (\<lambda>s.
       fpu_result write_acc (f32_add (fs_val inst s) (ft_val inst s)) s) s"

definition MADD_S :: "instruction \<Rightarrow> ee_state \<Rightarrow> ee_state res" where
  "MADD_S inst s =
     guarded handle_cop1_usable (\<lambda>s.
       fpu_result (write_fd inst) (f32_add (acc_val s) (f32_mul (fs_val inst s) (ft_val inst s))) s) s"

definition MADDA_S :: "instruction \<Rightarrow> ee_state \<Rightarrow> ee_state res" where
  "MADDA_S inst s =
     guarded handle_cop1_usable (\<lambda>s.
       fpu_result write_acc (f32_add (acc_val s) (f32_mul (fs_val inst s) (ft_val inst s))) s) s"

definition MUL_S :: "instruction \<Rightarrow> ee_state \<Rightarrow> ee_state res" where
  "MUL_S inst s =
     guarded handle_cop1_usable (\<lambda>s.
       fpu_result (write_fd inst) (f32_mul (fs_val inst s) (ft_val inst s)) s) s"

definition MULA_S :: "instruction \<Rightarrow> ee_state \<Rightarrow> ee_state res" where
  "MULA_S inst s =
     guarded handle_cop1_usable (\<lambda>s.
       fpu_result write_acc (f32_mul (fs_val inst s) (ft_val inst s)) s) s"

definition MSUB_S :: "instruction \<Rightarrow> ee_state \<Rightarrow> ee_state res" where
  "MSUB_S inst s =
     guarded handle_cop1_usable (\<lambda>s.
       fpu_result (write_fd inst) (f32_sub (acc_val s) (f32_mul (fs_val inst s) (ft_val inst s))) s) s"

definition MSUBA_S :: "instruction \<Rightarrow> ee_state \<Rightarrow> ee_state res" where
  "MSUBA_S inst s =
     guarded handle_cop1_usable (\<lambda>s.
       fpu_result write_acc (f32_sub (acc_val s) (f32_mul (fs_val inst s) (ft_val inst s))) s) s"

definition SUB_S :: "instruction \<Rightarrow> ee_state \<Rightarrow> ee_state res" where
  "SUB_S inst s =
     guarded handle_cop1_usable (\<lambda>s.
       fpu_result (write_fd inst) (f32_sub (fs_val inst s) (ft_val inst s)) s) s"

definition SUBA_S :: "instruction \<Rightarrow> ee_state \<Rightarrow> ee_state res" where
  "SUBA_S inst s =
     guarded handle_cop1_usable (\<lambda>s.
       fpu_result write_acc (f32_sub (fs_val inst s) (ft_val inst s)) s) s"

definition DIV_S :: "instruction \<Rightarrow> ee_state \<Rightarrow> ee_state res" where
  "DIV_S inst s =
     guarded handle_cop1_usable (\<lambda>s.
       let x = fs_val inst s; y = ft_val inst s; s1 = csr_upd fpu_clear_flags s
       in if \<not> f32_eq x 0 \<and> f32_eq y 0 then
            Inr (write_fd inst FMAX_POS (csr_upd (set_d_flag_sticky 1) s1))
          else if f32_eq x 0 \<and> f32_eq y 0 then
            Inr (write_fd inst FMAX_POS (csr_upd (set_i_flag_sticky 1) s1))
          else
            let (result, flags) = to_ps2_float (f32_div x y)
            in Inr (write_fd inst result (csr_upd (fpu_update_result_flags flags) s1))) s"

definition RSQRT_S :: "instruction \<Rightarrow> ee_state \<Rightarrow> ee_state res" where
  "RSQRT_S inst s =
     guarded handle_cop1_usable (\<lambda>s.
       let x = fs_val inst s; y = ft_val inst s; s1 = csr_upd fpu_clear_flags s;
           (v, s2) =
             (if f32_eq y 0 then (FMAX_POS, csr_upd (set_d_flag_sticky 1) s1)
              else if f32_less y 0 then
                (f32_div x (f32_sqrt (f32_abs y)), csr_upd (set_i_flag_sticky 1) s1)
              else (f32_div x (f32_sqrt y), s1));
           (result, flags) = to_ps2_float v
       in Inr (write_fd inst result (csr_upd (fpu_update_result_flags flags) s2))) s"

definition SQRT_S :: "instruction \<Rightarrow> ee_state \<Rightarrow> ee_state res" where
  "SQRT_S inst s =
     guarded handle_cop1_usable (\<lambda>s.
       let y = ft_val inst s; s1 = csr_upd fpu_clear_flags s;
           (v, s2) =
             (if f32_eq y 0 \<and> f32_less y 0 then (0x80000000, s1)
              else if f32_less y 0 then (f32_sqrt (f32_abs y), csr_upd (set_i_flag_sticky 1) s1)
              else (f32_sqrt y, s1));
           (result, flags) = to_ps2_float v
       in Inr (write_fd inst result (csr_upd (fpu_update_result_flags flags) s2))) s"

definition CVT_S_W :: "instruction \<Rightarrow> ee_state \<Rightarrow> ee_state res" where
  "CVT_S_W inst s =
     guarded handle_cop1_usable (\<lambda>s.
       Inr (write_fd inst (f32_of_uword (fs_val inst s)) s)) s"

text \<open>
  \<open>std::frexp\<close> writes a value in \<open>[1/2, 1)\<close> times a power of two and \<open>get_float_exponent\<close>
  truncates the exponent to a byte (0 for a zero; the C library's 0 for an infinity or NaN).
\<close>

definition get_float_exponent :: "uword \<Rightarrow> ubyte" where
  "get_float_exponent v =
     (if f32_zero v \<or> f32_infinite v \<or> f32_nan v then 0
      else of_int (f32_scale v + int (bit_len (f32_significand v))))"

definition CVT_W_S :: "instruction \<Rightarrow> ee_state \<Rightarrow> ee_state res" where
  "CVT_W_S inst s =
     guarded handle_cop1_usable (\<lambda>s.
       let x = fs_val inst s
       in if get_float_exponent x \<le> 0x9D then
            bind_res (uword_of_f32 x) (\<lambda>v. Inr (write_fd inst v s))
          else if f32_less x 0 then Inr (write_fd inst 0x80000000 s)
          else Inr (write_fd inst 0x7FFFFFFF s)) s"

lemmas float_defs [op_defs] =
  ADD_S_def ADDA_S_def MADD_S_def MADDA_S_def MUL_S_def MULA_S_def
  MSUB_S_def MSUBA_S_def SUB_S_def SUBA_S_def DIV_S_def RSQRT_S_def
  SQRT_S_def CVT_S_W_def CVT_W_S_def

section \<open>Invariant\<close>

lemma ro_csr [simp]:
  "reg_read_only (fpu_clear_flags c) = reg_read_only c"
  "reg_read_only (fpu_update_result_flags fl c) = reg_read_only c"
  "reg_read_only (set_u_flag_sticky v c) = reg_read_only c"
  "reg_read_only (set_o_flag_sticky v c) = reg_read_only c"
  "reg_read_only (set_d_flag_sticky v c) = reg_read_only c"
  "reg_read_only (set_i_flag_sticky v c) = reg_read_only c"
  by (simp_all add: csr_defs Let_def)

lemma ee_ok_fpu_writes [intro]:
  "ee_ok s \<Longrightarrow> ee_ok (write_fd inst v s)" "ee_ok s \<Longrightarrow> ee_ok (write_acc v s)"
  "ee_ok s \<Longrightarrow> (\<And>c. reg_read_only (f c) = reg_read_only c) \<Longrightarrow> ee_ok (csr_upd f s)"
  by (auto simp: write_fd_def write_acc_def csr_upd_def ee_ok_def w_defs fpr_upd_def)

lemma ok_fpu_result [intro]:
  "ee_ok s \<Longrightarrow> ok_res ee_ok (fpu_result (write_fd inst) v s)"
  "ee_ok s \<Longrightarrow> ok_res ee_ok (fpu_result write_acc v s)"
  by (auto simp: fpu_result_def Let_def split_beta intro!: ee_ok_fpu_writes)

lemma ok_bind_any: "(\<And>a. ok_res P (f a)) \<Longrightarrow> ok_res P (bind_res m f)"
  by (cases m) simp_all

lemma float_ok [op_ok]:
  assumes "ee_ok s"
  shows "ok_res ee_ok (ADD_S inst s)"
    "ok_res ee_ok (ADDA_S inst s)"
    "ok_res ee_ok (MADD_S inst s)"
    "ok_res ee_ok (MADDA_S inst s)"
    "ok_res ee_ok (MUL_S inst s)"
    "ok_res ee_ok (MULA_S inst s)"
    "ok_res ee_ok (MSUB_S inst s)"
    "ok_res ee_ok (MSUBA_S inst s)"
    "ok_res ee_ok (SUB_S inst s)"
    "ok_res ee_ok (SUBA_S inst s)"
    "ok_res ee_ok (DIV_S inst s)"
    "ok_res ee_ok (RSQRT_S inst s)"
    "ok_res ee_ok (SQRT_S inst s)"
    "ok_res ee_ok (CVT_S_W inst s)"
    "ok_res ee_ok (CVT_W_S inst s)"
  using assms
  by (auto simp: float_defs Let_def split_beta intro!: ok_guarded ok_checks ok_fpu_result ok_bind_any ee_ok_fpu_writes)

section \<open>Results and flags\<close>

text \<open>
  What every arithmetic instruction leaves: the result in the console's format, the result
  flags of this operation, the sticky flags old or new, D and I clear, every other bit.
\<close>

definition fpu_flags_after :: "FpuFlags \<Rightarrow> uword \<Rightarrow> uword \<Rightarrow> bool" where
  "fpu_flags_after fl old new \<longleftrightarrow>
     (\<forall>n. bit new n \<longleftrightarrow>
        (if n = 14 then UF fl else if n = 15 then OF fl
         else if n = 3 then bit old 3 \<or> UF fl else if n = 4 then bit old 4 \<or> OF fl
         else n \<notin> {16, 17} \<and> bit old n))"

lemma fpu_flags_update:
  assumes "\<not> reg_read_only c"
  shows "fpu_flags_after fl (reg_val c) (reg_val (fpu_update_result_flags fl (fpu_clear_flags c)))"
proof -
  have ro: "\<not> reg_read_only (fpu_clear_flags c)" using assms by simp
  show ?thesis
    by (auto simp: fpu_flags_after_def fpu_update_result_flags_bits[OF ro] fpu_clear_flags_bits[OF assms])
qed

lemma fpu_result_spec:
  assumes "ee_ok s"
  shows "\<exists>s'. fpu_result (write_fd inst) v s = Inr s' \<and> ee_ok s' \<and>
    w_read_uword (e_fpr s' (inst_shamt inst)) = fst (to_ps2_float v) \<and>
    fpu_flags_after (snd (to_ps2_float v)) (reg_val (e_csr s)) (reg_val (e_csr s')) \<and>
    e_gpr s' = e_gpr s \<and> e_acc s' = e_acc s"
proof -
  have ro: "\<not> reg_read_only (e_csr s)" "\<not> reg_read_only (e_fpr s (inst_shamt inst))"
    using ee_okD(8)[OF assms] ee_ok_fpr[OF assms] by simp_all
  let ?s = "write_fd inst (fst (to_ps2_float v))
    (csr_upd (\<lambda>csr. fpu_update_result_flags (snd (to_ps2_float v)) (fpu_clear_flags csr)) s)"
  have "fpu_result (write_fd inst) v s = Inr ?s" by (simp add: fpu_result_def split_beta)
  moreover have "ee_ok ?s" using assms by (auto intro!: ee_ok_fpu_writes)
  moreover have "w_read_uword (e_fpr ?s (inst_shamt inst)) = fst (to_ps2_float v)" "e_csr ?s =
      fpu_update_result_flags (snd (to_ps2_float v)) (fpu_clear_flags (e_csr s))"
      "e_gpr ?s = e_gpr s" "e_acc ?s = e_acc s"
    using ro(2) by (simp_all add: write_fd_def csr_upd_def fpr_upd_def w_defs reg_read_def reg_write_def)
  ultimately show ?thesis using fpu_flags_update[OF ro(1)] by metis
qed

lemma usable_guarded: "fpu_is_usable (e_cop0 s) \<Longrightarrow> guarded handle_cop1_usable f s = f s"
  by (simp add: guarded_def handle_cop1_usable_def)

lemma MADD_S_spec:
  fixes inst :: instruction
  assumes "ee_ok s" and "fpu_is_usable (e_cop0 s)"
  defines "v \<equiv> f32_add (acc_val s) (f32_mul (fs_val inst s) (ft_val inst s))"
  shows "\<exists>s'. MADD_S inst s = Inr s' \<and> ee_ok s' \<and>
    w_read_uword (e_fpr s' (inst_shamt inst)) = fst (to_ps2_float v) \<and>
    ps2_float (w_read_uword (e_fpr s' (inst_shamt inst))) \<and>
    fpu_flags_after (snd (to_ps2_float v)) (reg_val (e_csr s)) (reg_val (e_csr s'))"
proof -
  obtain s' where "fpu_result (write_fd inst) v s = Inr s'" "ee_ok s'"
    "w_read_uword (e_fpr s' (inst_shamt inst)) = fst (to_ps2_float v)"
    "fpu_flags_after (snd (to_ps2_float v)) (reg_val (e_csr s)) (reg_val (e_csr s'))"
    using fpu_result_spec[OF assms(1), of inst v] by blast
  then show ?thesis
    using to_ps2_float_range[of v]
    by (intro exI[of _ s']) (simp add: MADD_S_def usable_guarded[OF assms(2)] v_def)
qed

text \<open>A subtraction of a register from itself and a product by one are exact.\<close>

lemma SUB_S_self:
  assumes "ee_ok s" and "fpu_is_usable (e_cop0 s)" and "inst_rd inst = inst_rt inst"
    and "ps2_float (fs_val inst s)"
  shows "\<exists>s'. SUB_S inst s = Inr s' \<and> w_read_uword (e_fpr s' (inst_shamt inst)) = 0"
proof -
  have "f32_sub (fs_val inst s) (ft_val inst s) = 0"
    using f32_sub_self[of "fs_val inst s"] assms(3,4) by (auto simp: ps2_float_def)
  moreover have "fst (to_ps2_float 0) = 0" by (simp add: to_ps2_float_def f32_defs f32_less_zero_def)
  ultimately show ?thesis
    using fpu_result_spec[OF assms(1), of inst 0] by (auto simp: SUB_S_def usable_guarded[OF assms(2)])
qed

text \<open>
  The exponent byte wraps for magnitudes below one half, so \<open>CVT.W.S\<close> clamps them to the
  largest integer instead of giving 0.
\<close>

lemma CVT_W_S_small:
  assumes "ee_ok s" and "fpu_is_usable (e_cop0 s)" and "fs_val inst s = 0x3E800000"
  shows "CVT_W_S inst s = Inr (write_fd inst 0x7FFFFFFF s)"
proof -
  have c: "fpclassify 0x3E800000 = FP_NORMAL" "f32_significand 0x3E800000 = 8388608" "f32_scale 0x3E800000 = - 25"
    by (simp_all add: f32_defs f32_significand_def f32_scale_def)
  have "bit_len 8388608 = 24" using bit_len_unique[of 23 8388608] by simp
  then have "get_float_exponent 0x3E800000 = 0xFF" by (simp add: get_float_exponent_def c)
  then show ?thesis
    using assms(3) by (simp add: CVT_W_S_def usable_guarded[OF assms(2)] f32_less_def f32_key_def bit_numeral_rec)
qed

end
