(* ===== verification/VuUnit.thy ===== *)
theory VuUnit
  imports Registers Float32 Bus
begin

text \<open>
  The vector units: \<open>VuUnits.hpp\<close> (the registers of a unit), \<open>VuUnitRegisters.cpp\<close> (the status,
  MAC and clipping flags), \<open>VuInstruction.hpp\<close> (the fields of an instruction word),
  \<open>VuVectorField.hpp\<close> and \<open>VuBranchDelaySlot.hpp\<close>, with the well-formedness of a unit and the
  laws of its four-lane operations.
\<close>

section \<open>Vector fields and instruction words\<close>

datatype vu_field = FX | FY | FZ | FW

definition VECTOR_FIELDS :: "vu_field list" where
  "VECTOR_FIELDS = [FX, FY, FZ, FW]"

fun field_index :: "vu_field \<Rightarrow> nat" where
  "field_index FX = 0"
| "field_index FY = 1"
| "field_index FZ = 2"
| "field_index FW = 3"

definition vu_dest :: "instruction \<Rightarrow> nat" where
  "vu_dest i = unat (extract_from (BF 21 4) i)"
definition vu_ft :: "instruction \<Rightarrow> nat" where
  "vu_ft i = unat (extract_from (BF 16 5) i)"
definition vu_it :: "instruction \<Rightarrow> nat" where
  "vu_it i = vu_ft i"
definition vu_fs :: "instruction \<Rightarrow> nat" where
  "vu_fs i = unat (extract_from (BF 11 5) i)"
definition vu_is :: "instruction \<Rightarrow> nat" where
  "vu_is i = vu_fs i"
definition vu_fd :: "instruction \<Rightarrow> nat" where
  "vu_fd i = unat (extract_from (BF 6 5) i)"

text \<open>\<open>id()\<close> is documented as another name of \<open>fd()\<close>; it returns \<open>fs()\<close>.\<close>

definition vu_id :: "instruction \<Rightarrow> nat" where
  "vu_id i = vu_fs i"
definition vu_ftf :: "instruction \<Rightarrow> nat" where
  "vu_ftf i = unat (extract_from (BF 23 2) i)"
definition vu_fsf :: "instruction \<Rightarrow> nat" where
  "vu_fsf i = unat (extract_from (BF 21 2) i)"
definition vu_imm5 :: "instruction \<Rightarrow> ubyte" where
  "vu_imm5 i = ucast (extract_from (BF 6 5) i)"
definition vu_imm11 :: "instruction \<Rightarrow> uhword" where
  "vu_imm11 i = ucast (extract_from (BF 0 11) i)"
definition vu_imm12 :: "instruction \<Rightarrow> uhword" where
  "vu_imm12 i = ucast (extract_from (BF 0 11) i OR push_bit 11 (extract_from (BF 21 4) i AND 1))"
definition vu_imm15 :: "instruction \<Rightarrow> uhword" where
  "vu_imm15 i = ucast (extract_from (BF 0 11) i OR push_bit 11 (extract_from (BF 21 4) i))"
definition vu_imm24 :: "instruction \<Rightarrow> uword" where
  "vu_imm24 i = extract_from (BF 0 24) i"

fun test_dest_field :: "instruction \<Rightarrow> vu_field \<Rightarrow> bool" where
  "test_dest_field i FX \<longleftrightarrow> extract_from (BF 24 1) i > 0"
| "test_dest_field i FY \<longleftrightarrow> extract_from (BF 23 1) i > 0"
| "test_dest_field i FZ \<longleftrightarrow> extract_from (BF 22 1) i > 0"
| "test_dest_field i FW \<longleftrightarrow> extract_from (BF 21 1) i > 0"

section \<open>The flag registers\<close>

definition VSTATUS_Z :: bitfield where [word_defs]: "VSTATUS_Z = BF 0 1"
definition VSTATUS_S :: bitfield where [word_defs]: "VSTATUS_S = BF 1 1"
definition VSTATUS_U :: bitfield where [word_defs]: "VSTATUS_U = BF 2 1"
definition VSTATUS_O :: bitfield where [word_defs]: "VSTATUS_O = BF 3 1"
definition VSTATUS_I :: bitfield where [word_defs]: "VSTATUS_I = BF 4 1"
definition VSTATUS_D :: bitfield where [word_defs]: "VSTATUS_D = BF 5 1"
definition VSTATUS_ZS :: bitfield where [word_defs]: "VSTATUS_ZS = BF 6 1"
definition VSTATUS_SS :: bitfield where [word_defs]: "VSTATUS_SS = BF 7 1"
definition VSTATUS_US :: bitfield where [word_defs]: "VSTATUS_US = BF 8 1"
definition VSTATUS_OS :: bitfield where [word_defs]: "VSTATUS_OS = BF 9 1"
definition VSTATUS_IS :: bitfield where [word_defs]: "VSTATUS_IS = BF 10 1"
definition VSTATUS_DS :: bitfield where [word_defs]: "VSTATUS_DS = BF 11 1"

definition VMAC_ZW :: bitfield where [word_defs]: "VMAC_ZW = BF 0 1"
definition VMAC_ZZ :: bitfield where [word_defs]: "VMAC_ZZ = BF 1 1"
definition VMAC_ZY :: bitfield where [word_defs]: "VMAC_ZY = BF 2 1"
definition VMAC_ZX :: bitfield where [word_defs]: "VMAC_ZX = BF 3 1"
definition VMAC_SW :: bitfield where [word_defs]: "VMAC_SW = BF 4 1"
definition VMAC_SZ :: bitfield where [word_defs]: "VMAC_SZ = BF 5 1"
definition VMAC_SY :: bitfield where [word_defs]: "VMAC_SY = BF 6 1"
definition VMAC_SX :: bitfield where [word_defs]: "VMAC_SX = BF 7 1"
definition VMAC_UW :: bitfield where [word_defs]: "VMAC_UW = BF 8 1"
definition VMAC_UZ :: bitfield where [word_defs]: "VMAC_UZ = BF 9 1"
definition VMAC_UY :: bitfield where [word_defs]: "VMAC_UY = BF 10 1"
definition VMAC_UX :: bitfield where [word_defs]: "VMAC_UX = BF 11 1"
definition VMAC_OW :: bitfield where [word_defs]: "VMAC_OW = BF 12 1"
definition VMAC_OZ :: bitfield where [word_defs]: "VMAC_OZ = BF 13 1"
definition VMAC_OY :: bitfield where [word_defs]: "VMAC_OY = BF 14 1"
definition VMAC_OX :: bitfield where [word_defs]: "VMAC_OX = BF 15 1"

definition VCLIP_NEGX_0 :: bitfield where [word_defs]: "VCLIP_NEGX_0 = BF 0 1"
definition VCLIP_POSX_0 :: bitfield where [word_defs]: "VCLIP_POSX_0 = BF 1 1"
definition VCLIP_NEGY_0 :: bitfield where [word_defs]: "VCLIP_NEGY_0 = BF 2 1"
definition VCLIP_POSY_0 :: bitfield where [word_defs]: "VCLIP_POSY_0 = BF 3 1"
definition VCLIP_NEGZ_0 :: bitfield where [word_defs]: "VCLIP_NEGZ_0 = BF 4 1"
definition VCLIP_POSZ_0 :: bitfield where [word_defs]: "VCLIP_POSZ_0 = BF 5 1"

definition set_vu_flag :: "bitfield \<Rightarrow> bitfield \<Rightarrow> uword \<Rightarrow> word_register \<Rightarrow> word_register" where
  "set_vu_flag sticky flag v r =
     (let old = w_extract_field sticky r
      in w_insert_field flag v (w_insert_field sticky (old OR v) r))"

definition vu_set_z_flag_sticky :: "uword \<Rightarrow> word_register \<Rightarrow> word_register" where
  "vu_set_z_flag_sticky = set_vu_flag VSTATUS_ZS VSTATUS_Z"
definition vu_set_s_flag_sticky :: "uword \<Rightarrow> word_register \<Rightarrow> word_register" where
  "vu_set_s_flag_sticky = set_vu_flag VSTATUS_SS VSTATUS_S"
definition vu_set_u_flag_sticky :: "uword \<Rightarrow> word_register \<Rightarrow> word_register" where
  "vu_set_u_flag_sticky = set_vu_flag VSTATUS_US VSTATUS_U"
definition vu_set_o_flag_sticky :: "uword \<Rightarrow> word_register \<Rightarrow> word_register" where
  "vu_set_o_flag_sticky = set_vu_flag VSTATUS_OS VSTATUS_O"
definition vu_set_i_flag_sticky :: "uword \<Rightarrow> word_register \<Rightarrow> word_register" where
  "vu_set_i_flag_sticky = set_vu_flag VSTATUS_IS VSTATUS_I"
definition vu_set_d_flag_sticky :: "uword \<Rightarrow> word_register \<Rightarrow> word_register" where
  "vu_set_d_flag_sticky = set_vu_flag VSTATUS_DS VSTATUS_D"

fun mac_flags :: "vu_field \<Rightarrow> bitfield list" where
  "mac_flags FX = [VMAC_ZX, VMAC_SX, VMAC_UX, VMAC_OX]"
| "mac_flags FY = [VMAC_ZY, VMAC_SY, VMAC_UY, VMAC_OY]"
| "mac_flags FZ = [VMAC_ZZ, VMAC_SZ, VMAC_UZ, VMAC_OZ]"
| "mac_flags FW = [VMAC_ZW, VMAC_SW, VMAC_UW, VMAC_OW]"

definition flag_values :: "FpuFlags \<Rightarrow> uword list" where
  "flag_values fl = map (\<lambda>b. if b then 1 else 0) [ZF fl, SF fl, UF fl, OF fl]"

text \<open>The MAC register and, through its pointer, the status register.\<close>

definition update_vector_field ::
    "vu_field \<Rightarrow> FpuFlags \<Rightarrow> word_register \<times> word_register \<Rightarrow> word_register \<times> word_register" where
  "update_vector_field field flags ms =
     (let (mac, status) = ms; values = flag_values flags
      in (fold (\<lambda>(f, v). w_insert_field f v) (zip (mac_flags field) values) mac,
          vu_set_o_flag_sticky (values ! 3) (vu_set_u_flag_sticky (values ! 2)
            (vu_set_s_flag_sticky (values ! 1) (vu_set_z_flag_sticky (values ! 0) status)))))"

definition clear_vector_field ::
    "vu_field \<Rightarrow> word_register \<times> word_register \<Rightarrow> word_register \<times> word_register" where
  "clear_vector_field field = update_vector_field field \<lparr>ZF = False, SF = False, UF = False, OF = False\<rparr>"

definition shift_judgement :: "word_register \<Rightarrow> word_register" where
  "shift_judgement r = w_write_uword (push_bit 6 (w_read_uword r) AND 0x00FFFFFF) r"

section \<open>The delay slot\<close>

text \<open>
  \<open>VuBranchDelaySlot<1>\<close>: a branch in the delay slot of another is kept as the second branch
  and runs after one instruction at the first target.
\<close>

record vu_delay_slot = branch_delay_slot +
  second_branch_pc :: uptr
  second_branch_pending :: bool

definition VuBranchDelaySlot_new :: vu_delay_slot where
  "VuBranchDelaySlot_new =
     \<lparr>current_slot = 0, branch_pc = 0, second_branch_pc = 0, second_branch_pending = False\<rparr>"

definition vu_is_branch_pending :: "vu_delay_slot \<Rightarrow> bool" where
  "vu_is_branch_pending b \<longleftrightarrow> current_slot b > 0"

definition vu_branch_to :: "uptr \<Rightarrow> vu_delay_slot \<Rightarrow> vu_delay_slot" where
  "vu_branch_to target b =
     (if vu_is_branch_pending b then b\<lparr>second_branch_pending := True, second_branch_pc := target\<rparr>
      else b\<lparr>current_slot := 2, branch_pc := target\<rparr>)"

definition vu_set_branch_itype :: "word_register \<Rightarrow> uhword \<Rightarrow> vu_delay_slot \<Rightarrow> vu_delay_slot" where
  "vu_set_branch_itype pc imm b =
     vu_branch_to ((w_read_uword pc + 8 + scast imm * 8) AND 0x3FFF) b"

definition vu_set_branch_jtype :: "uptr \<Rightarrow> vu_delay_slot \<Rightarrow> vu_delay_slot" where
  "vu_set_branch_jtype jump_to b = vu_branch_to ((jump_to * 8) AND 0x3FFF) b"

definition vu_advance_pc :: "vu_delay_slot \<times> word_register \<Rightarrow> vu_delay_slot \<times> word_register" where
  "vu_advance_pc s =
     (let (b, pc) = s in
      if current_slot b > 0 then
        let b1 = b\<lparr>current_slot := current_slot b - 1\<rparr> in
        if current_slot b1 = 0 then
          let pc1 = w_write_uword (branch_pc b1) pc in
          if second_branch_pending b1 then
            (b1\<lparr>second_branch_pending := False, branch_pc := second_branch_pc b1, current_slot := 1\<rparr>, pc1)
          else (b1, pc1)
        else (b1, w_offset 8 pc)
      else (b, w_offset 8 pc))"

section \<open>A unit\<close>

record vu_unit =
  u_core_id :: nat
  u_vf :: "nat \<Rightarrow> qword_register"
  u_vi :: "nat \<Rightarrow> hword_register"
  u_acc :: qword_register
  u_i :: word_register
  u_q :: word_register
  u_r :: word_register
  u_p :: word_register
  u_status :: word_register
  u_mac :: word_register
  u_clipping :: word_register
  u_pc :: word_register
  u_bdelay :: vu_delay_slot
  u_cmsar :: word_register
  u_bus :: "16 word byte_bus"

definition VuUnit_new :: "nat \<Rightarrow> bus_object list \<Rightarrow> vu_unit" where
  "VuUnit_new core_id objs =
     (let r = SizedRegister_new 0 False; q = SizedRegister_new 0 False in
      \<lparr>u_core_id = core_id, u_vf = (\<lambda>n. q), u_vi = (\<lambda>n. SizedRegister_new 0 (n = 0)), u_acc = q,
       u_i = r, u_q = r, u_r = r, u_p = r, u_status = r, u_mac = r, u_clipping = r, u_pc = r,
       u_bdelay = VuBranchDelaySlot_new, u_cmsar = r, u_bus = ByteBus_new 8 objs\<rparr>)"

text \<open>
  Register accesses.  An integer register number has five bits, the array 16 registers.
\<close>

definition vf_lane :: "nat \<Rightarrow> vu_field \<Rightarrow> vu_unit \<Rightarrow> uword" where
  "vf_lane n field u = q_read_uword (field_index field) (u_vf u n)"
definition vf_upd :: "nat \<Rightarrow> (qword_register \<Rightarrow> qword_register) \<Rightarrow> vu_unit \<Rightarrow> vu_unit" where
  "vf_upd n f u = u\<lparr>u_vf := (u_vf u)(n := f (u_vf u n))\<rparr>"
definition vf_put :: "nat \<Rightarrow> vu_field \<Rightarrow> uword \<Rightarrow> vu_unit \<Rightarrow> vu_unit" where
  "vf_put n field v = vf_upd n (q_write_uword (field_index field) v)"
definition acc_lane :: "vu_field \<Rightarrow> vu_unit \<Rightarrow> uword" where
  "acc_lane field u = q_read_uword (field_index field) (u_acc u)"
definition acc_put :: "vu_field \<Rightarrow> uword \<Rightarrow> vu_unit \<Rightarrow> vu_unit" where
  "acc_put field v u = u\<lparr>u_acc := q_write_uword (field_index field) v (u_acc u)\<rparr>"
definition vi_read :: "nat \<Rightarrow> vu_unit \<Rightarrow> uhword res" where
  "vi_read n u = (if n < 16 then Inr (h_read_uhword (u_vi u n)) else Inl Out_of_bounds)"
definition vi_write :: "nat \<Rightarrow> uhword \<Rightarrow> vu_unit \<Rightarrow> vu_unit res" where
  "vi_write n v u =
     (if n < 16 then Inr (u\<lparr>u_vi := (u_vi u)(n := h_write_uhword v (u_vi u n))\<rparr>) else Inl Out_of_bounds)"
definition status_upd :: "(word_register \<Rightarrow> word_register) \<Rightarrow> vu_unit \<Rightarrow> vu_unit" where
  "status_upd f u = u\<lparr>u_status := f (u_status u)\<rparr>"
definition mac_update :: "vu_field \<Rightarrow> FpuFlags \<Rightarrow> vu_unit \<Rightarrow> vu_unit" where
  "mac_update field flags u =
     (let (mac, status) = update_vector_field field flags (u_mac u, u_status u)
      in u\<lparr>u_mac := mac, u_status := status\<rparr>)"
definition mac_clear :: "vu_field \<Rightarrow> vu_unit \<Rightarrow> vu_unit" where
  "mac_clear field u =
     (let (mac, status) = clear_vector_field field (u_mac u, u_status u)
      in u\<lparr>u_mac := mac, u_status := status\<rparr>)"

text \<open>The loop over the vector fields, with what it does for a field of \<open>dest\<close> and another.\<close>

definition for_fields ::
    "instruction \<Rightarrow> (vu_field \<Rightarrow> vu_unit \<Rightarrow> vu_unit) \<Rightarrow> (vu_field \<Rightarrow> vu_unit \<Rightarrow> vu_unit) \<Rightarrow> vu_unit \<Rightarrow> vu_unit" where
  "for_fields inst body other =
     fold (\<lambda>field u. if test_dest_field inst field then body field u else other field u) VECTOR_FIELDS"

text \<open>
  The operands of the FMAC instructions: a lane of the field at hand, one fixed lane, or a
  scalar register; the destination is a vector register or the accumulator.
\<close>

datatype vu_operand = Of_vf nat | Of_lane nat vu_field | Of_i | Of_q
datatype vu_target = To_vf nat | To_acc

fun operand :: "vu_operand \<Rightarrow> vu_field \<Rightarrow> vu_unit \<Rightarrow> uword" where
  "operand (Of_vf n) field u = vf_lane n field u"
| "operand (Of_lane n bc) field u = vf_lane n bc u"
| "operand Of_i field u = w_read_uword (u_i u)"
| "operand Of_q field u = w_read_uword (u_q u)"

fun target_put :: "vu_target \<Rightarrow> vu_field \<Rightarrow> uword \<Rightarrow> vu_unit \<Rightarrow> vu_unit" where
  "target_put (To_vf n) = vf_put n"
| "target_put To_acc = acc_put"

text \<open>
  The loops of the FMAC instructions: \<open>fs\<close> with the operand; the same product, brought to
  the console's format, added to or subtracted from the accumulator; and a selection between
  the two that sets no flags.
\<close>

definition fmac :: "vu_target \<Rightarrow> vu_field \<Rightarrow> uword \<Rightarrow> vu_unit \<Rightarrow> vu_unit" where
  "fmac dest field v u =
     (let (result, flags) = to_ps2_float v in target_put dest field result (mac_update field flags u))"

definition fmac_loop ::
    "(uword \<Rightarrow> uword \<Rightarrow> uword) \<Rightarrow> vu_target \<Rightarrow> vu_operand \<Rightarrow> instruction \<Rightarrow> vu_unit \<Rightarrow> vu_unit" where
  "fmac_loop f dest source_2 inst =
     for_fields inst
       (\<lambda>field u.
          let a = vf_lane (vu_fs inst) field u; b = operand source_2 field u
          in fmac dest field (f a b) u)
       mac_clear"

definition fmac_acc_loop ::
    "(uword \<Rightarrow> uword \<Rightarrow> uword) \<Rightarrow> vu_target \<Rightarrow> vu_operand \<Rightarrow> instruction \<Rightarrow> vu_unit \<Rightarrow> vu_unit" where
  "fmac_acc_loop f dest source_2 inst =
     for_fields inst
       (\<lambda>field u.
          let a = vf_lane (vu_fs inst) field u; b = operand source_2 field u; c = acc_lane field u;
              (multiplied, flags) = to_ps2_float (f32_mul a b)
          in fmac dest field (f c multiplied) (mac_update field flags u))
       mac_clear"

definition select_loop ::
    "(uword \<Rightarrow> uword \<Rightarrow> uword) \<Rightarrow> vu_operand \<Rightarrow> instruction \<Rightarrow> vu_unit \<Rightarrow> vu_unit" where
  "select_loop f source_2 inst =
     for_fields inst
       (\<lambda>field u.
          let a = vf_lane (vu_fs inst) field u; b = operand source_2 field u
          in vf_put (vu_fd inst) field (f a b) u)
       (\<lambda>field u. u)"

section \<open>The flag bits\<close>

lemmas vu_flag_defs =
  vu_set_z_flag_sticky_def vu_set_s_flag_sticky_def vu_set_u_flag_sticky_def
  vu_set_o_flag_sticky_def vu_set_i_flag_sticky_def vu_set_d_flag_sticky_def

lemma set_vu_flag_ro [simp]: "reg_read_only (set_vu_flag st fl v r) = reg_read_only r"
  by (simp add: set_vu_flag_def)

lemma bit_insert_flag:
  assumes "\<not> reg_read_only r" and "k < 32"
  shows "bit (reg_val (w_insert_field (BF k (Suc 0)) v r)) n \<longleftrightarrow> (if n = k then bit v 0 else bit (reg_val r) n)"
  using assms by (auto simp: w_insert_field_val bit_insert_into dest: bit_imp_le_length)

lemma set_vu_flag_bits:
  assumes "\<not> reg_read_only r" and "a < 32" and "b < 32" and "a \<noteq> b"
  shows "bit (reg_val (set_vu_flag (BF a (Suc 0)) (BF b (Suc 0)) v r)) n \<longleftrightarrow>
    (if n = b then bit v 0 else if n = a then bit (reg_val r) a \<or> bit v 0 else bit (reg_val r) n)"
proof -
  have "bit (w_extract_field (BF a (Suc 0)) r) 0 \<longleftrightarrow> bit (reg_val r) a"
    by (simp add: w_extract_field_def reg_extract_def w_defs reg_read_def bit_extract_from)
  then show ?thesis using assms by (simp add: set_vu_flag_def Let_def bit_insert_flag bit_or_iff)
qed

lemma fold_insert_ro [simp]:
  "reg_read_only (fold (\<lambda>(f, v). w_insert_field f v) fvs r) = reg_read_only r"
proof (induction fvs arbitrary: r)
  case (Cons fv fvs)
  then show ?case by (cases fv) simp
qed simp

text \<open>The four MAC bits of a field, read back as flags, and the Status bits.\<close>

definition mac_field :: "vu_field \<Rightarrow> word_register \<Rightarrow> FpuFlags" where
  "mac_field field mac =
     (let v = reg_val mac; k = 3 - field_index field
      in \<lparr>ZF = bit v k, SF = bit v (k + 4), UF = bit v (k + 8), OF = bit v (k + 12)\<rparr>)"

definition flag_at :: "nat \<Rightarrow> FpuFlags \<Rightarrow> bool" where
  "flag_at k fl = [ZF fl, SF fl, UF fl, OF fl] ! k"

lemma update_vector_field_ro [simp]:
  "reg_read_only (fst (update_vector_field field fl (m, s))) = reg_read_only m"
  "reg_read_only (snd (update_vector_field field fl (m, s))) = reg_read_only s"
  by (simp_all add: update_vector_field_def vu_flag_defs Let_def)

lemma mac_field_update:
  assumes "\<not> reg_read_only m"
  shows "mac_field f (fst (update_vector_field g fl (m, s))) = (if f = g then fl else mac_field f m)"
proof -
  have "bit (reg_val (fst (update_vector_field g fl (m, s)))) n =
    (if n = 15 - field_index g then OF fl else if n = 11 - field_index g then UF fl
     else if n = 7 - field_index g then SF fl else if n = 3 - field_index g then ZF fl
     else bit (reg_val m) n)" for n
    using assms
    by (cases g) (simp_all add: update_vector_field_def flag_values_def Let_def bit_insert_flag word_defs)
  then show ?thesis by (cases f; cases g) (simp_all add: mac_field_def Let_def)
qed

lemma status_update:
  assumes "\<not> reg_read_only s"
  shows "bit (reg_val (snd (update_vector_field g fl (m, s)))) n \<longleftrightarrow>
    (if n < 4 then flag_at n fl
     else if 6 \<le> n \<and> n < 10 then bit (reg_val s) n \<or> flag_at (n - 6) fl
     else bit (reg_val s) n)"
proof -
  have n: "n < 4 \<longleftrightarrow> n = 0 \<or> n = 1 \<or> n = 2 \<or> n = 3" "6 \<le> n \<and> n < 10 \<longleftrightarrow> n = 6 \<or> n = 7 \<or> n = 8 \<or> n = 9"
    by auto
  show ?thesis
    unfolding n using assms
    by (simp add: update_vector_field_def flag_values_def vu_flag_defs word_defs set_vu_flag_bits)
      (auto simp: flag_at_def)
qed

section \<open>Well-formed units\<close>

definition vu_ok :: "vu_unit \<Rightarrow> bool" where
  "vu_ok u \<longleftrightarrow>
     (\<forall>n. \<not> reg_read_only (u_vf u n)) \<and>
     (\<forall>n. reg_read_only (u_vi u n) \<longleftrightarrow> n = 0) \<and> reg_val (u_vi u 0) = 0 \<and>
     \<not> reg_read_only (u_acc u) \<and>
     (\<forall>r\<in>{u_i u, u_q u, u_r u, u_p u, u_status u, u_mac u, u_clipping u, u_pc u, u_cmsar u}.
        \<not> reg_read_only r)"

named_theorems vu_frame

lemma vu_ok_new: "vu_ok (VuUnit_new n objs)"
  by (simp add: vu_ok_def VuUnit_new_def SizedRegister_new_def Let_def)

lemma vu_ok_upd [intro!, simp]:
  assumes "vu_ok u"
  shows "\<not> reg_read_only q \<Longrightarrow> vu_ok (u\<lparr>u_vf := (u_vf u)(n := q)\<rparr>)"
    "\<not> reg_read_only q \<Longrightarrow> vu_ok (u\<lparr>u_acc := q\<rparr>)"
    "\<not> reg_read_only r \<Longrightarrow> vu_ok (u\<lparr>u_i := r\<rparr>)" "\<not> reg_read_only r \<Longrightarrow> vu_ok (u\<lparr>u_q := r\<rparr>)"
    "\<not> reg_read_only r \<Longrightarrow> vu_ok (u\<lparr>u_r := r\<rparr>)" "\<not> reg_read_only r \<Longrightarrow> vu_ok (u\<lparr>u_p := r\<rparr>)"
    "\<not> reg_read_only r \<Longrightarrow> vu_ok (u\<lparr>u_status := r\<rparr>)" "\<not> reg_read_only r \<Longrightarrow> vu_ok (u\<lparr>u_clipping := r\<rparr>)"
    "\<not> reg_read_only r \<Longrightarrow> \<not> reg_read_only r' \<Longrightarrow> vu_ok (u\<lparr>u_mac := r, u_status := r'\<rparr>)"
    "\<not> reg_read_only r \<Longrightarrow> vu_ok (u\<lparr>u_pc := r\<rparr>)" "\<not> reg_read_only r \<Longrightarrow> vu_ok (u\<lparr>u_cmsar := r\<rparr>)"
    "vu_ok (u\<lparr>u_bdelay := b\<rparr>)" "vu_ok (u\<lparr>u_bus := bus\<rparr>)"
  using assms by (simp_all add: vu_ok_def)

lemma vu_okD:
  assumes "vu_ok u"
  shows "\<not> reg_read_only (u_vf u n)" "reg_read_only (u_vi u n) \<longleftrightarrow> n = 0" "\<not> reg_read_only (u_acc u)"
    "\<not> reg_read_only (u_status u)" "\<not> reg_read_only (u_mac u)" "\<not> reg_read_only (u_clipping u)"
    "\<not> reg_read_only (u_i u)" "\<not> reg_read_only (u_q u)" "\<not> reg_read_only (u_r u)" "\<not> reg_read_only (u_p u)"
    "\<not> reg_read_only (u_pc u)" "\<not> reg_read_only (u_cmsar u)"
  using assms by (simp_all add: vu_ok_def)

lemma vu_ok_writes [intro!, simp]:
  assumes "vu_ok u"
  shows "vu_ok (vf_put n field v u)" "vu_ok (acc_put field v u)" "vu_ok (target_put dest field v u)"
    "vu_ok (mac_update field flags u)" "vu_ok (mac_clear field u)"
proof -
  show vf: "vu_ok (vf_put n field v u)" and acc: "vu_ok (acc_put field v u)"
    using vu_okD[OF assms] assms by (simp_all add: vf_put_def vf_upd_def acc_put_def q_defs)
  show "vu_ok (target_put dest field v u)"
    using vu_okD[OF assms] assms by (cases dest) (simp_all add: vf_put_def vf_upd_def acc_put_def q_defs)
  show "vu_ok (mac_update field flags u)" "vu_ok (mac_clear field u)"
    using vu_okD[OF assms] assms by (simp_all add: mac_update_def mac_clear_def clear_vector_field_def split_beta)
qed

lemma vi_write_ok [intro]: "vu_ok u \<Longrightarrow> ok_res vu_ok (vi_write n v u)"
  by (simp add: vi_write_def vu_ok_def dhb_defs reg_write_def)

section \<open>Loops over the fields\<close>

text \<open>
  A loop whose step at a field changes only what is observed of that field, from sources no
  other step changes: running the steps one after the other gives what each gives alone.  An
  accumulated observation collects the results of all steps.
\<close>

locale field_loop =
  fixes ok :: "'s \<Rightarrow> bool" and step :: "vu_field \<Rightarrow> 's \<Rightarrow> 's" and obs result :: "vu_field \<Rightarrow> 's \<Rightarrow> 'v"
  assumes step_ok: "ok u \<Longrightarrow> ok (step f u)"
    and step_obs: "ok u \<Longrightarrow> obs f (step f u) = result f u"
    and obs_other: "ok u \<Longrightarrow> f \<noteq> g \<Longrightarrow> obs f (step g u) = obs f u"
    and result_other: "ok u \<Longrightarrow> f \<noteq> g \<Longrightarrow> result f (step g u) = result f u"
begin

lemma fold_ok: "ok u \<Longrightarrow> ok (fold step fs u)"
  by (induction fs arbitrary: u) (simp_all add: step_ok)

lemma fold_obs:
  "ok u \<Longrightarrow> distinct fs \<Longrightarrow> obs f (fold step fs u) = (if f \<in> set fs then result f u else obs f u)"
proof (induction fs arbitrary: u)
  case (Cons g fs)
  then show ?case
    using Cons.IH[OF step_ok[OF Cons.prems(1), of g]] step_obs[OF Cons.prems(1), of g]
      obs_other[OF Cons.prems(1), of f g] result_other[OF Cons.prems(1), of f g]
    by (cases "f = g") auto
qed simp

lemma all_fields: "f \<in> set VECTOR_FIELDS" "distinct VECTOR_FIELDS"
  by (cases f; simp add: VECTOR_FIELDS_def) (simp add: VECTOR_FIELDS_def)

lemma lanes: "ok u \<Longrightarrow> obs f (fold step VECTOR_FIELDS u) = result f u"
  using fold_obs[OF _ all_fields(2)] all_fields(1) by simp

lemma loop_ok: "ok u \<Longrightarrow> ok (fold step VECTOR_FIELDS u)"
  by (rule fold_ok)

end

locale collecting_loop = field_loop +
  fixes st :: "nat \<Rightarrow> 's \<Rightarrow> bool" and sel :: "nat \<Rightarrow> 'v \<Rightarrow> bool"
  assumes step_st: "ok u \<Longrightarrow> k < 4 \<Longrightarrow> st k (step f u) \<longleftrightarrow> st k u \<or> sel k (result f u)"
begin

lemma fold_st:
  "ok u \<Longrightarrow> k < 4 \<Longrightarrow> distinct fs \<Longrightarrow> st k (fold step fs u) \<longleftrightarrow> st k u \<or> (\<exists>f\<in>set fs. sel k (result f u))"
proof (induction fs arbitrary: u)
  case (Cons g fs)
  have "result f (step g u) = result f u" if "f \<in> set fs" for f
    using result_other[OF Cons.prems(1), of f g] that Cons.prems(3) by auto
  then show ?case
    using Cons.IH[OF step_ok[OF Cons.prems(1), of g]] Cons.prems step_st[OF Cons.prems(1,2), of g] by auto
qed simp

lemma collected: "ok u \<Longrightarrow> k < 4 \<Longrightarrow> st k (fold step VECTOR_FIELDS u) \<longleftrightarrow> st k u \<or> (\<exists>f. sel k (result f u))"
  using fold_st[OF _ _ all_fields(2)] all_fields(1) by auto

end

section \<open>The FMAC loops\<close>

fun target_lane :: "vu_target \<Rightarrow> vu_field \<Rightarrow> vu_unit \<Rightarrow> uword" where
  "target_lane (To_vf n) = vf_lane n"
| "target_lane To_acc = acc_lane"

fun independent :: "vu_target \<Rightarrow> vu_operand \<Rightarrow> bool" where
  "independent (To_vf n) (Of_lane m bc) \<longleftrightarrow> n \<noteq> m"
| "independent dest source \<longleftrightarrow> True"

definition status_bit :: "nat \<Rightarrow> vu_unit \<Rightarrow> bool" where
  "status_bit k u = bit (reg_val (u_status u)) k"

lemma lane_put:
  "\<not> reg_read_only r \<Longrightarrow> q_read_uword (field_index f) (q_write_uword (field_index g) v r) =
     (if f = g then v else q_read_uword (field_index f) r)"
  by (cases f; cases g) (simp_all add: q_defs reg_read_lane_def get_put_lane_other)

lemma vf_put_lane [vu_frame]:
  "vu_ok u \<Longrightarrow> vf_lane m f (vf_put n g v u) = (if m = n \<and> f = g then v else vf_lane m f u)"
  using vu_okD(1)[of u n] by (simp add: vf_lane_def vf_put_def vf_upd_def lane_put)

lemma acc_put_lane [vu_frame]:
  "vu_ok u \<Longrightarrow> acc_lane f (acc_put g v u) = (if f = g then v else acc_lane f u)"
  using vu_okD(3)[of u] by (simp add: acc_lane_def acc_put_def lane_put)

lemma put_frame [vu_frame]:
  "acc_lane f (vf_put n g v u) = acc_lane f u" "vf_lane m f (acc_put g v u) = vf_lane m f u"
  "u_i (vf_put n g v u) = u_i u" "u_i (acc_put g v u) = u_i u"
  "u_q (vf_put n g v u) = u_q u" "u_q (acc_put g v u) = u_q u"
  "u_mac (vf_put n g v u) = u_mac u" "u_mac (acc_put g v u) = u_mac u"
  "u_status (vf_put n g v u) = u_status u" "u_status (acc_put g v u) = u_status u"
  by (simp_all add: vf_put_def vf_upd_def acc_put_def acc_lane_def vf_lane_def)

lemma mac_frame [vu_frame]:
  "acc_lane f (mac_update g fl u) = acc_lane f u" "vf_lane m f (mac_update g fl u) = vf_lane m f u"
  "u_i (mac_update g fl u) = u_i u" "u_q (mac_update g fl u) = u_q u"
  by (simp_all add: mac_update_def split_beta acc_lane_def vf_lane_def)

definition no_flags :: FpuFlags where
  "no_flags = \<lparr>ZF = False, SF = False, UF = False, OF = False\<rparr>"

lemma mac_clear_eq: "mac_clear f u = mac_update f no_flags u"
  by (simp add: mac_clear_def mac_update_def clear_vector_field_def no_flags_def)

lemma mac_update_flags [vu_frame]:
  assumes "vu_ok u"
  shows "mac_field f (u_mac (mac_update g fl u)) = (if f = g then fl else mac_field f (u_mac u))"
    "k < 4 \<Longrightarrow> status_bit k (mac_update g fl u) = flag_at k fl"
    "k < 4 \<Longrightarrow> status_bit (k + 6) (mac_update g fl u) \<longleftrightarrow> status_bit (k + 6) u \<or> flag_at k fl"
  using mac_field_update[of "u_mac u" f g fl "u_status u"] status_update[of "u_status u" g fl "u_mac u"]
    vu_okD(4,5)[OF assms]
  by (simp_all add: mac_update_def split_beta status_bit_def)

lemma status_bit_put [vu_frame]: "status_bit k (target_put dest g v u) = status_bit k u"
  by (cases dest) (simp_all add: status_bit_def vu_frame)

lemma target_put_frame [vu_frame]:
  "u_mac (target_put dest g v u) = u_mac u" "u_status (target_put dest g v u) = u_status u"
  by (cases dest; simp add: vu_frame)+

lemma target_put_lane [vu_frame]:
  "vu_ok u \<Longrightarrow> target_lane dest f (target_put dest g v u) = (if f = g then v else target_lane dest f u)"
  "target_lane dest f (mac_update g fl u) = target_lane dest f u"
  by (cases dest; simp add: vu_frame)+

lemma operand_stable:
  "vu_ok u \<Longrightarrow> independent dest src \<Longrightarrow> f \<noteq> g \<Longrightarrow> operand src f (target_put dest g v u) = operand src f u"
  "operand src f (mac_update g fl u) = operand src f u"
  "vu_ok u \<Longrightarrow> f \<noteq> g \<Longrightarrow> vf_lane m f (target_put dest g v u) = vf_lane m f u"
  "vu_ok u \<Longrightarrow> f \<noteq> g \<Longrightarrow> acc_lane f (target_put dest g v u) = acc_lane f u"
  by (cases src; cases dest; auto simp: vu_frame; fail)+

end
