(* ===== verification/VuFloat.thy ===== *)
theory VuFloat
  imports VuUnit
begin

text \<open>
  \<open>CVuInterpreter_FLOAT.cpp\<close>: the float instructions of the vector units.  The FMAC families
  come in the same variants, by operand and destination; each is its own definition over the
  loops of VuUnit.  \<open>std::max\<close> and \<open>std::min\<close> return their first argument unless the second
  compares greater or less.
\<close>

definition f32_max :: "uword \<Rightarrow> uword \<Rightarrow> uword" where
  "f32_max a b = (if f32_less a b then b else a)"
definition f32_min :: "uword \<Rightarrow> uword \<Rightarrow> uword" where
  "f32_min a b = (if f32_less b a then b else a)"

section \<open>Instructions\<close>

definition VU_ADD :: "instruction \<Rightarrow> vu_unit \<Rightarrow> vu_unit" where
  "VU_ADD inst = fmac_loop f32_add (To_vf (vu_fd inst)) (Of_vf (vu_ft inst)) inst"

definition VU_ADDi :: "instruction \<Rightarrow> vu_unit \<Rightarrow> vu_unit" where
  "VU_ADDi inst = fmac_loop f32_add (To_vf (vu_fd inst)) Of_i inst"

definition VU_ADDq :: "instruction \<Rightarrow> vu_unit \<Rightarrow> vu_unit" where
  "VU_ADDq inst = fmac_loop f32_add (To_vf (vu_fd inst)) Of_q inst"

definition VU_ADDbc :: "instruction \<Rightarrow> vu_field \<Rightarrow> vu_unit \<Rightarrow> vu_unit" where
  "VU_ADDbc inst idx = fmac_loop f32_add (To_vf (vu_fd inst)) (Of_lane (vu_ft inst) idx) inst"

definition VU_ADDbc_0 :: "instruction \<Rightarrow> vu_unit \<Rightarrow> vu_unit" where
  "VU_ADDbc_0 inst = VU_ADDbc inst FX"

definition VU_ADDbc_1 :: "instruction \<Rightarrow> vu_unit \<Rightarrow> vu_unit" where
  "VU_ADDbc_1 inst = VU_ADDbc inst FY"

definition VU_ADDbc_2 :: "instruction \<Rightarrow> vu_unit \<Rightarrow> vu_unit" where
  "VU_ADDbc_2 inst = VU_ADDbc inst FZ"

definition VU_ADDbc_3 :: "instruction \<Rightarrow> vu_unit \<Rightarrow> vu_unit" where
  "VU_ADDbc_3 inst = VU_ADDbc inst FW"

definition VU_ADDA :: "instruction \<Rightarrow> vu_unit \<Rightarrow> vu_unit" where
  "VU_ADDA inst = fmac_loop f32_add To_acc (Of_vf (vu_ft inst)) inst"

definition VU_ADDAi :: "instruction \<Rightarrow> vu_unit \<Rightarrow> vu_unit" where
  "VU_ADDAi inst = fmac_loop f32_add To_acc Of_i inst"

definition VU_ADDAq :: "instruction \<Rightarrow> vu_unit \<Rightarrow> vu_unit" where
  "VU_ADDAq inst = fmac_loop f32_add To_acc Of_q inst"

definition VU_ADDAbc :: "instruction \<Rightarrow> vu_field \<Rightarrow> vu_unit \<Rightarrow> vu_unit" where
  "VU_ADDAbc inst idx = fmac_loop f32_add To_acc (Of_lane (vu_ft inst) idx) inst"

definition VU_ADDAbc_0 :: "instruction \<Rightarrow> vu_unit \<Rightarrow> vu_unit" where
  "VU_ADDAbc_0 inst = VU_ADDAbc inst FX"

definition VU_ADDAbc_1 :: "instruction \<Rightarrow> vu_unit \<Rightarrow> vu_unit" where
  "VU_ADDAbc_1 inst = VU_ADDAbc inst FY"

definition VU_ADDAbc_2 :: "instruction \<Rightarrow> vu_unit \<Rightarrow> vu_unit" where
  "VU_ADDAbc_2 inst = VU_ADDAbc inst FZ"

definition VU_ADDAbc_3 :: "instruction \<Rightarrow> vu_unit \<Rightarrow> vu_unit" where
  "VU_ADDAbc_3 inst = VU_ADDAbc inst FW"

definition VU_SUB :: "instruction \<Rightarrow> vu_unit \<Rightarrow> vu_unit" where
  "VU_SUB inst = fmac_loop f32_sub (To_vf (vu_fd inst)) (Of_vf (vu_ft inst)) inst"

definition VU_SUBi :: "instruction \<Rightarrow> vu_unit \<Rightarrow> vu_unit" where
  "VU_SUBi inst = fmac_loop f32_sub (To_vf (vu_fd inst)) Of_i inst"

definition VU_SUBq :: "instruction \<Rightarrow> vu_unit \<Rightarrow> vu_unit" where
  "VU_SUBq inst = fmac_loop f32_sub (To_vf (vu_fd inst)) Of_q inst"

definition VU_SUBbc :: "instruction \<Rightarrow> vu_field \<Rightarrow> vu_unit \<Rightarrow> vu_unit" where
  "VU_SUBbc inst idx = fmac_loop f32_sub (To_vf (vu_fd inst)) (Of_lane (vu_ft inst) idx) inst"

definition VU_SUBbc_0 :: "instruction \<Rightarrow> vu_unit \<Rightarrow> vu_unit" where
  "VU_SUBbc_0 inst = VU_SUBbc inst FX"

definition VU_SUBbc_1 :: "instruction \<Rightarrow> vu_unit \<Rightarrow> vu_unit" where
  "VU_SUBbc_1 inst = VU_SUBbc inst FY"

definition VU_SUBbc_2 :: "instruction \<Rightarrow> vu_unit \<Rightarrow> vu_unit" where
  "VU_SUBbc_2 inst = VU_SUBbc inst FZ"

definition VU_SUBbc_3 :: "instruction \<Rightarrow> vu_unit \<Rightarrow> vu_unit" where
  "VU_SUBbc_3 inst = VU_SUBbc inst FW"

definition VU_SUBA :: "instruction \<Rightarrow> vu_unit \<Rightarrow> vu_unit" where
  "VU_SUBA inst = fmac_loop f32_sub To_acc (Of_vf (vu_ft inst)) inst"

definition VU_SUBAi :: "instruction \<Rightarrow> vu_unit \<Rightarrow> vu_unit" where
  "VU_SUBAi inst = fmac_loop f32_sub To_acc Of_i inst"

definition VU_SUBAq :: "instruction \<Rightarrow> vu_unit \<Rightarrow> vu_unit" where
  "VU_SUBAq inst = fmac_loop f32_sub To_acc Of_q inst"

definition VU_SUBAbc :: "instruction \<Rightarrow> vu_field \<Rightarrow> vu_unit \<Rightarrow> vu_unit" where
  "VU_SUBAbc inst idx = fmac_loop f32_sub To_acc (Of_lane (vu_ft inst) idx) inst"

definition VU_SUBAbc_0 :: "instruction \<Rightarrow> vu_unit \<Rightarrow> vu_unit" where
  "VU_SUBAbc_0 inst = VU_SUBAbc inst FX"

definition VU_SUBAbc_1 :: "instruction \<Rightarrow> vu_unit \<Rightarrow> vu_unit" where
  "VU_SUBAbc_1 inst = VU_SUBAbc inst FY"

definition VU_SUBAbc_2 :: "instruction \<Rightarrow> vu_unit \<Rightarrow> vu_unit" where
  "VU_SUBAbc_2 inst = VU_SUBAbc inst FZ"

definition VU_SUBAbc_3 :: "instruction \<Rightarrow> vu_unit \<Rightarrow> vu_unit" where
  "VU_SUBAbc_3 inst = VU_SUBAbc inst FW"

definition VU_MUL :: "instruction \<Rightarrow> vu_unit \<Rightarrow> vu_unit" where
  "VU_MUL inst = fmac_loop f32_mul (To_vf (vu_fd inst)) (Of_vf (vu_ft inst)) inst"

definition VU_MULi :: "instruction \<Rightarrow> vu_unit \<Rightarrow> vu_unit" where
  "VU_MULi inst = fmac_loop f32_mul (To_vf (vu_fd inst)) Of_i inst"

definition VU_MULq :: "instruction \<Rightarrow> vu_unit \<Rightarrow> vu_unit" where
  "VU_MULq inst = fmac_loop f32_mul (To_vf (vu_fd inst)) Of_q inst"

definition VU_MULbc :: "instruction \<Rightarrow> vu_field \<Rightarrow> vu_unit \<Rightarrow> vu_unit" where
  "VU_MULbc inst idx = fmac_loop f32_mul (To_vf (vu_fd inst)) (Of_lane (vu_ft inst) idx) inst"

definition VU_MULbc_0 :: "instruction \<Rightarrow> vu_unit \<Rightarrow> vu_unit" where
  "VU_MULbc_0 inst = VU_MULbc inst FX"

definition VU_MULbc_1 :: "instruction \<Rightarrow> vu_unit \<Rightarrow> vu_unit" where
  "VU_MULbc_1 inst = VU_MULbc inst FY"

definition VU_MULbc_2 :: "instruction \<Rightarrow> vu_unit \<Rightarrow> vu_unit" where
  "VU_MULbc_2 inst = VU_MULbc inst FZ"

definition VU_MULbc_3 :: "instruction \<Rightarrow> vu_unit \<Rightarrow> vu_unit" where
  "VU_MULbc_3 inst = VU_MULbc inst FW"

definition VU_MULA :: "instruction \<Rightarrow> vu_unit \<Rightarrow> vu_unit" where
  "VU_MULA inst = fmac_loop f32_mul To_acc (Of_vf (vu_ft inst)) inst"

definition VU_MULAi :: "instruction \<Rightarrow> vu_unit \<Rightarrow> vu_unit" where
  "VU_MULAi inst = fmac_loop f32_mul To_acc Of_i inst"

definition VU_MULAq :: "instruction \<Rightarrow> vu_unit \<Rightarrow> vu_unit" where
  "VU_MULAq inst = fmac_loop f32_mul To_acc Of_q inst"

definition VU_MULAbc :: "instruction \<Rightarrow> vu_field \<Rightarrow> vu_unit \<Rightarrow> vu_unit" where
  "VU_MULAbc inst idx = fmac_loop f32_mul To_acc (Of_lane (vu_ft inst) idx) inst"

definition VU_MULAbc_0 :: "instruction \<Rightarrow> vu_unit \<Rightarrow> vu_unit" where
  "VU_MULAbc_0 inst = VU_MULAbc inst FX"

definition VU_MULAbc_1 :: "instruction \<Rightarrow> vu_unit \<Rightarrow> vu_unit" where
  "VU_MULAbc_1 inst = VU_MULAbc inst FY"

definition VU_MULAbc_2 :: "instruction \<Rightarrow> vu_unit \<Rightarrow> vu_unit" where
  "VU_MULAbc_2 inst = VU_MULAbc inst FZ"

definition VU_MULAbc_3 :: "instruction \<Rightarrow> vu_unit \<Rightarrow> vu_unit" where
  "VU_MULAbc_3 inst = VU_MULAbc inst FW"

definition VU_MADD :: "instruction \<Rightarrow> vu_unit \<Rightarrow> vu_unit" where
  "VU_MADD inst = fmac_acc_loop f32_add (To_vf (vu_fd inst)) (Of_vf (vu_ft inst)) inst"

definition VU_MADDi :: "instruction \<Rightarrow> vu_unit \<Rightarrow> vu_unit" where
  "VU_MADDi inst = fmac_acc_loop f32_add (To_vf (vu_fd inst)) Of_i inst"

definition VU_MADDq :: "instruction \<Rightarrow> vu_unit \<Rightarrow> vu_unit" where
  "VU_MADDq inst = fmac_acc_loop f32_add (To_vf (vu_fd inst)) Of_q inst"

definition VU_MADDbc :: "instruction \<Rightarrow> vu_field \<Rightarrow> vu_unit \<Rightarrow> vu_unit" where
  "VU_MADDbc inst idx = fmac_acc_loop f32_add (To_vf (vu_fd inst)) (Of_lane (vu_ft inst) idx) inst"

definition VU_MADDbc_0 :: "instruction \<Rightarrow> vu_unit \<Rightarrow> vu_unit" where
  "VU_MADDbc_0 inst = VU_MADDbc inst FX"

definition VU_MADDbc_1 :: "instruction \<Rightarrow> vu_unit \<Rightarrow> vu_unit" where
  "VU_MADDbc_1 inst = VU_MADDbc inst FY"

definition VU_MADDbc_2 :: "instruction \<Rightarrow> vu_unit \<Rightarrow> vu_unit" where
  "VU_MADDbc_2 inst = VU_MADDbc inst FZ"

definition VU_MADDbc_3 :: "instruction \<Rightarrow> vu_unit \<Rightarrow> vu_unit" where
  "VU_MADDbc_3 inst = VU_MADDbc inst FW"

definition VU_MADDA :: "instruction \<Rightarrow> vu_unit \<Rightarrow> vu_unit" where
  "VU_MADDA inst = fmac_acc_loop f32_add To_acc (Of_vf (vu_ft inst)) inst"

definition VU_MADDAi :: "instruction \<Rightarrow> vu_unit \<Rightarrow> vu_unit" where
  "VU_MADDAi inst = fmac_acc_loop f32_add To_acc Of_i inst"

definition VU_MADDAq :: "instruction \<Rightarrow> vu_unit \<Rightarrow> vu_unit" where
  "VU_MADDAq inst = fmac_acc_loop f32_add To_acc Of_q inst"

definition VU_MADDAbc :: "instruction \<Rightarrow> vu_field \<Rightarrow> vu_unit \<Rightarrow> vu_unit" where
  "VU_MADDAbc inst idx = fmac_acc_loop f32_add To_acc (Of_lane (vu_ft inst) idx) inst"

definition VU_MADDAbc_0 :: "instruction \<Rightarrow> vu_unit \<Rightarrow> vu_unit" where
  "VU_MADDAbc_0 inst = VU_MADDAbc inst FX"

definition VU_MADDAbc_1 :: "instruction \<Rightarrow> vu_unit \<Rightarrow> vu_unit" where
  "VU_MADDAbc_1 inst = VU_MADDAbc inst FY"

definition VU_MADDAbc_2 :: "instruction \<Rightarrow> vu_unit \<Rightarrow> vu_unit" where
  "VU_MADDAbc_2 inst = VU_MADDAbc inst FZ"

definition VU_MADDAbc_3 :: "instruction \<Rightarrow> vu_unit \<Rightarrow> vu_unit" where
  "VU_MADDAbc_3 inst = VU_MADDAbc inst FW"

definition VU_MSUB :: "instruction \<Rightarrow> vu_unit \<Rightarrow> vu_unit" where
  "VU_MSUB inst = fmac_acc_loop f32_sub (To_vf (vu_fd inst)) (Of_vf (vu_ft inst)) inst"

definition VU_MSUBi :: "instruction \<Rightarrow> vu_unit \<Rightarrow> vu_unit" where
  "VU_MSUBi inst = fmac_acc_loop f32_sub (To_vf (vu_fd inst)) Of_i inst"

definition VU_MSUBq :: "instruction \<Rightarrow> vu_unit \<Rightarrow> vu_unit" where
  "VU_MSUBq inst = fmac_acc_loop f32_sub (To_vf (vu_fd inst)) Of_q inst"

definition VU_MSUBbc :: "instruction \<Rightarrow> vu_field \<Rightarrow> vu_unit \<Rightarrow> vu_unit" where
  "VU_MSUBbc inst idx = fmac_acc_loop f32_sub (To_vf (vu_fd inst)) (Of_lane (vu_ft inst) idx) inst"

definition VU_MSUBbc_0 :: "instruction \<Rightarrow> vu_unit \<Rightarrow> vu_unit" where
  "VU_MSUBbc_0 inst = VU_MSUBbc inst FX"

definition VU_MSUBbc_1 :: "instruction \<Rightarrow> vu_unit \<Rightarrow> vu_unit" where
  "VU_MSUBbc_1 inst = VU_MSUBbc inst FY"

definition VU_MSUBbc_2 :: "instruction \<Rightarrow> vu_unit \<Rightarrow> vu_unit" where
  "VU_MSUBbc_2 inst = VU_MSUBbc inst FZ"

definition VU_MSUBbc_3 :: "instruction \<Rightarrow> vu_unit \<Rightarrow> vu_unit" where
  "VU_MSUBbc_3 inst = VU_MSUBbc inst FW"

definition VU_MSUBA :: "instruction \<Rightarrow> vu_unit \<Rightarrow> vu_unit" where
  "VU_MSUBA inst = fmac_acc_loop f32_sub To_acc (Of_vf (vu_ft inst)) inst"

definition VU_MSUBAi :: "instruction \<Rightarrow> vu_unit \<Rightarrow> vu_unit" where
  "VU_MSUBAi inst = fmac_acc_loop f32_sub To_acc Of_i inst"

definition VU_MSUBAq :: "instruction \<Rightarrow> vu_unit \<Rightarrow> vu_unit" where
  "VU_MSUBAq inst = fmac_acc_loop f32_sub To_acc Of_q inst"

definition VU_MSUBAbc :: "instruction \<Rightarrow> vu_field \<Rightarrow> vu_unit \<Rightarrow> vu_unit" where
  "VU_MSUBAbc inst idx = fmac_acc_loop f32_sub To_acc (Of_lane (vu_ft inst) idx) inst"

definition VU_MSUBAbc_0 :: "instruction \<Rightarrow> vu_unit \<Rightarrow> vu_unit" where
  "VU_MSUBAbc_0 inst = VU_MSUBAbc inst FX"

definition VU_MSUBAbc_1 :: "instruction \<Rightarrow> vu_unit \<Rightarrow> vu_unit" where
  "VU_MSUBAbc_1 inst = VU_MSUBAbc inst FY"

definition VU_MSUBAbc_2 :: "instruction \<Rightarrow> vu_unit \<Rightarrow> vu_unit" where
  "VU_MSUBAbc_2 inst = VU_MSUBAbc inst FZ"

definition VU_MSUBAbc_3 :: "instruction \<Rightarrow> vu_unit \<Rightarrow> vu_unit" where
  "VU_MSUBAbc_3 inst = VU_MSUBAbc inst FW"

definition VU_MAX :: "instruction \<Rightarrow> vu_unit \<Rightarrow> vu_unit" where
  "VU_MAX inst = select_loop f32_max (Of_vf (vu_ft inst)) inst"

definition VU_MAXi :: "instruction \<Rightarrow> vu_unit \<Rightarrow> vu_unit" where
  "VU_MAXi inst = select_loop f32_max Of_i inst"

definition VU_MAXbc :: "instruction \<Rightarrow> vu_field \<Rightarrow> vu_unit \<Rightarrow> vu_unit" where
  "VU_MAXbc inst idx = select_loop f32_max (Of_lane (vu_ft inst) idx) inst"

definition VU_MAXbc_0 :: "instruction \<Rightarrow> vu_unit \<Rightarrow> vu_unit" where
  "VU_MAXbc_0 inst = VU_MAXbc inst FX"

definition VU_MAXbc_1 :: "instruction \<Rightarrow> vu_unit \<Rightarrow> vu_unit" where
  "VU_MAXbc_1 inst = VU_MAXbc inst FY"

definition VU_MAXbc_2 :: "instruction \<Rightarrow> vu_unit \<Rightarrow> vu_unit" where
  "VU_MAXbc_2 inst = VU_MAXbc inst FZ"

definition VU_MAXbc_3 :: "instruction \<Rightarrow> vu_unit \<Rightarrow> vu_unit" where
  "VU_MAXbc_3 inst = VU_MAXbc inst FW"

definition VU_MINI :: "instruction \<Rightarrow> vu_unit \<Rightarrow> vu_unit" where
  "VU_MINI inst = select_loop f32_min (Of_vf (vu_ft inst)) inst"

definition VU_MINIi :: "instruction \<Rightarrow> vu_unit \<Rightarrow> vu_unit" where
  "VU_MINIi inst = select_loop f32_min Of_i inst"

definition VU_MINIbc :: "instruction \<Rightarrow> vu_field \<Rightarrow> vu_unit \<Rightarrow> vu_unit" where
  "VU_MINIbc inst idx = select_loop f32_min (Of_lane (vu_ft inst) idx) inst"

definition VU_MINIbc_0 :: "instruction \<Rightarrow> vu_unit \<Rightarrow> vu_unit" where
  "VU_MINIbc_0 inst = VU_MINIbc inst FX"

definition VU_MINIbc_1 :: "instruction \<Rightarrow> vu_unit \<Rightarrow> vu_unit" where
  "VU_MINIbc_1 inst = VU_MINIbc inst FY"

definition VU_MINIbc_2 :: "instruction \<Rightarrow> vu_unit \<Rightarrow> vu_unit" where
  "VU_MINIbc_2 inst = VU_MINIbc inst FZ"

definition VU_MINIbc_3 :: "instruction \<Rightarrow> vu_unit \<Rightarrow> vu_unit" where
  "VU_MINIbc_3 inst = VU_MINIbc inst FW"

definition VU_ABS :: "instruction \<Rightarrow> vu_unit \<Rightarrow> vu_unit" where
  "VU_ABS inst =
     for_fields inst
       (\<lambda>field u.
          let raw = vf_lane (vu_fs inst) field u AND 0x7FFFFFFF
          in vf_put (vu_ft inst) field raw u)
       (\<lambda>field u. u)"

text \<open>The outer products write the lanes one after the other and clear the flags of W.\<close>

definition outer_lane :: "vu_target \<Rightarrow> vu_field \<Rightarrow> uword \<Rightarrow> vu_unit \<Rightarrow> vu_unit" where
  "outer_lane dest field v u =
     (let (result, flags) = to_ps2_float v in mac_update field flags (target_put dest field result u))"

definition VU_OPMULA :: "instruction \<Rightarrow> vu_unit \<Rightarrow> vu_unit" where
  "VU_OPMULA inst u =
     (let fs = vf_lane (vu_fs inst); ft = vf_lane (vu_ft inst);
          u1 = outer_lane To_acc FX (f32_mul (fs FY u) (ft FZ u)) u;
          u2 = outer_lane To_acc FY (f32_mul (fs FZ u1) (ft FX u1)) u1;
          u3 = outer_lane To_acc FZ (f32_mul (fs FX u2) (ft FY u2)) u2
      in mac_clear FW u3)"

definition VU_OPMSUB :: "instruction \<Rightarrow> vu_unit \<Rightarrow> vu_unit" where
  "VU_OPMSUB inst u =
     (let fs = vf_lane (vu_fs inst); ft = vf_lane (vu_ft inst); fd = To_vf (vu_fd inst);
          u1 = outer_lane fd FX (f32_sub (acc_lane FX u) (f32_mul (fs FY u) (ft FZ u))) u;
          u2 = outer_lane fd FY (f32_sub (acc_lane FY u1) (f32_mul (fs FZ u1) (ft FX u1))) u1;
          u3 = outer_lane fd FZ (f32_sub (acc_lane FZ u2) (f32_mul (fs FX u2) (ft FY u2))) u2
      in mac_clear FW u3)"

text \<open>Division and the square roots write Q; the lane comes from the \<open>ftf\<close> and \<open>fsf\<close> fields.\<close>

definition vf_word :: "nat \<Rightarrow> nat \<Rightarrow> vu_unit \<Rightarrow> uword" where
  "vf_word n k u = q_read_uword k (u_vf u n)"
definition q_put :: "uword \<Rightarrow> vu_unit \<Rightarrow> vu_unit" where
  "q_put v u = u\<lparr>u_q := w_write_uword v (u_q u)\<rparr>"

definition VU_DIV :: "instruction \<Rightarrow> vu_unit \<Rightarrow> vu_unit" where
  "VU_DIV inst u =
     (let fs = vf_word (vu_fs inst) (vu_fsf inst); ft = vf_word (vu_ft inst) (vu_ftf inst);
          result = fst (to_ps2_float (f32_div (fs u) (ft u)));
          u1 = (if f32_eq (ft u) 0 then
                  if f32_eq (fs u) 0 then status_upd (vu_set_i_flag_sticky 1) u
                  else status_upd (vu_set_d_flag_sticky 1) u
                else u)
      in q_put result u1)"

definition VU_SQRT :: "instruction \<Rightarrow> vu_unit \<Rightarrow> vu_unit" where
  "VU_SQRT inst u =
     (let ft = vf_word (vu_ft inst) (vu_ftf inst) u;
          result = f32_sqrt (f32_abs ft);
          u1 = (if drop_bit 31 ft AND 1 = 1 then status_upd (vu_set_i_flag_sticky 1) u else u)
      in q_put result (status_upd (vu_set_d_flag_sticky 0) u1))"

definition VU_RSQRT :: "instruction \<Rightarrow> vu_unit \<Rightarrow> vu_unit" where
  "VU_RSQRT inst u =
     (let ft = vf_word (vu_ft inst) (vu_ftf inst) u; fs = vf_word (vu_fs inst) (vu_fsf inst) u;
          result = f32_sqrt (f32_abs ft);
          u1 = (if drop_bit 31 ft AND 1 = 1 then status_upd (vu_set_i_flag_sticky 1) u else u);
          u2 = (if f32_eq ft 0 then status_upd (vu_set_d_flag_sticky 1) u1 else u1)
      in q_put (fst (to_ps2_float (f32_div fs result))) u2)"

section \<open>The loops give every lane its own result\<close>

lemmas vu_fmac_defs =
  VU_ADD_def VU_ADDi_def VU_ADDq_def VU_ADDbc_def VU_ADDbc_0_def VU_ADDbc_1_def VU_ADDbc_2_def
  VU_ADDbc_3_def VU_ADDA_def VU_ADDAi_def VU_ADDAq_def VU_ADDAbc_def VU_ADDAbc_0_def
  VU_ADDAbc_1_def VU_ADDAbc_2_def VU_ADDAbc_3_def VU_SUB_def VU_SUBi_def VU_SUBq_def
  VU_SUBbc_def VU_SUBbc_0_def VU_SUBbc_1_def VU_SUBbc_2_def VU_SUBbc_3_def VU_SUBA_def
  VU_SUBAi_def VU_SUBAq_def VU_SUBAbc_def VU_SUBAbc_0_def VU_SUBAbc_1_def VU_SUBAbc_2_def
  VU_SUBAbc_3_def VU_MUL_def VU_MULi_def VU_MULq_def VU_MULbc_def VU_MULbc_0_def VU_MULbc_1_def
  VU_MULbc_2_def VU_MULbc_3_def VU_MULA_def VU_MULAi_def VU_MULAq_def VU_MULAbc_def
  VU_MULAbc_0_def VU_MULAbc_1_def VU_MULAbc_2_def VU_MULAbc_3_def VU_MADD_def VU_MADDi_def
  VU_MADDq_def VU_MADDbc_def VU_MADDbc_0_def VU_MADDbc_1_def VU_MADDbc_2_def VU_MADDbc_3_def
  VU_MADDA_def VU_MADDAi_def VU_MADDAq_def VU_MADDAbc_def VU_MADDAbc_0_def VU_MADDAbc_1_def
  VU_MADDAbc_2_def VU_MADDAbc_3_def VU_MSUB_def VU_MSUBi_def VU_MSUBq_def VU_MSUBbc_def
  VU_MSUBbc_0_def VU_MSUBbc_1_def VU_MSUBbc_2_def VU_MSUBbc_3_def VU_MSUBA_def VU_MSUBAi_def
  VU_MSUBAq_def VU_MSUBAbc_def VU_MSUBAbc_0_def VU_MSUBAbc_1_def VU_MSUBAbc_2_def
  VU_MSUBAbc_3_def

lemmas vu_select_defs =
  VU_MAX_def VU_MAXi_def VU_MAXbc_def VU_MAXbc_0_def VU_MAXbc_1_def VU_MAXbc_2_def
  VU_MAXbc_3_def VU_MINI_def VU_MINIi_def VU_MINIbc_def VU_MINIbc_0_def VU_MINIbc_1_def
  VU_MINIbc_2_def VU_MINIbc_3_def

definition fmac_result :: "(uword \<Rightarrow> uword \<Rightarrow> uword) \<Rightarrow> vu_target \<Rightarrow> vu_operand \<Rightarrow> instruction \<Rightarrow>
    vu_field \<Rightarrow> vu_unit \<Rightarrow> uword \<times> FpuFlags" where
  "fmac_result g dest src inst f u =
     (if test_dest_field inst f then to_ps2_float (g (vf_lane (vu_fs inst) f u) (operand src f u))
      else (target_lane dest f u, no_flags))"

definition fmac_acc_result :: "(uword \<Rightarrow> uword \<Rightarrow> uword) \<Rightarrow> vu_target \<Rightarrow> vu_operand \<Rightarrow> instruction \<Rightarrow>
    vu_field \<Rightarrow> vu_unit \<Rightarrow> uword \<times> FpuFlags" where
  "fmac_acc_result g dest src inst f u =
     (if test_dest_field inst f then
        to_ps2_float (g (acc_lane f u)
          (fst (to_ps2_float (f32_mul (vf_lane (vu_fs inst) f u) (operand src f u)))))
      else (target_lane dest f u, no_flags))"

definition lane_and_flags :: "vu_target \<Rightarrow> vu_field \<Rightarrow> vu_unit \<Rightarrow> uword \<times> FpuFlags" where
  "lane_and_flags dest f u = (target_lane dest f u, mac_field f (u_mac u))"

lemmas fmac_loop_simps =
  fmac_def mac_clear_eq fmac_result_def fmac_acc_result_def lane_and_flags_def split_beta vu_frame
  operand_stable

interpretation fmac: collecting_loop
  "\<lambda>u. vu_ok u \<and> independent dest src"
  "\<lambda>f u. if test_dest_field inst f
     then fmac dest f (g (vf_lane (vu_fs inst) f u) (operand src f u)) u else mac_clear f u"
  "lane_and_flags dest" "fmac_result g dest src inst"
  "\<lambda>k. status_bit (k + 6)" "\<lambda>k r. flag_at k (snd r)"
  for g dest src inst
  by unfold_locales (auto simp: fmac_loop_simps)

interpretation fmac_acc: field_loop
  "\<lambda>u. vu_ok u \<and> independent dest src"
  "\<lambda>f u. if test_dest_field inst f
     then (case to_ps2_float (f32_mul (vf_lane (vu_fs inst) f u) (operand src f u)) of
       (multiplied, flags) \<Rightarrow> fmac dest f (g (acc_lane f u) multiplied) (mac_update f flags u))
     else mac_clear f u"
  "lane_and_flags dest" "fmac_acc_result g dest src inst"
  for g dest src inst
  by unfold_locales (auto simp: fmac_loop_simps)

interpretation select: field_loop
  "\<lambda>u. vu_ok u \<and> independent (To_vf (vu_fd inst)) src"
  "\<lambda>f u. if test_dest_field inst f
     then vf_put (vu_fd inst) f (g (vf_lane (vu_fs inst) f u) (operand src f u)) u else u"
  "vf_lane (vu_fd inst)"
  "\<lambda>f u. if test_dest_field inst f then g (vf_lane (vu_fs inst) f u) (operand src f u)
     else vf_lane (vu_fd inst) f u"
  for g src inst
  using operand_stable(1)[of _ "To_vf (vu_fd inst)"]
  by unfold_locales (auto simp: vu_frame)

lemma fmac_loop_fold:
  "fmac_loop g dest src inst u = fold (\<lambda>f u. if test_dest_field inst f
     then fmac dest f (g (vf_lane (vu_fs inst) f u) (operand src f u)) u else mac_clear f u) VECTOR_FIELDS u"
  by (simp add: fmac_loop_def for_fields_def Let_def)

lemma fmac_loop_spec:
  fixes inst :: instruction and g :: "uword \<Rightarrow> uword \<Rightarrow> uword"
  assumes "vu_ok u" and "independent dest src"
  defines "u' \<equiv> fmac_loop g dest src inst u"
  shows "vu_ok u'" "lane_and_flags dest f u' = fmac_result g dest src inst f u"
    "k < 4 \<Longrightarrow> status_bit (k + 6) u' \<longleftrightarrow>
       status_bit (k + 6) u \<or> (\<exists>f. flag_at k (snd (fmac_result g dest src inst f u)))"
  using assms fmac.loop_ok[of u dest src inst g] fmac.lanes[of u dest src f inst g]
    fmac.collected[of u dest src k inst g]
  by (simp_all add: fmac_loop_fold)

lemma fmac_loop_status:
  fixes inst :: instruction and g :: "uword \<Rightarrow> uword \<Rightarrow> uword"
  assumes "vu_ok u" and "independent dest src" and "k < 4"
  defines "u' \<equiv> fmac_loop g dest src inst u"
  shows "status_bit k u' = flag_at k (mac_field FW (u_mac u'))"
proof -
  define step where "step f u = (if test_dest_field inst f
     then fmac dest f (g (vf_lane (vu_fs inst) f u) (operand src f u)) u else mac_clear f u)" for f u
  have "status_bit k (step FW v) = flag_at k (mac_field FW (u_mac (step FW v)))" if "vu_ok v" for v
    using that assms(3) by (simp add: step_def fmac_loop_simps)
  moreover have "vu_ok (step f v)" if "vu_ok v" for f v
    using that by (simp add: step_def fmac_def split_beta)
  moreover have "u' = step FW (step FZ (step FY (step FX u)))"
    by (simp add: u'_def fmac_loop_fold VECTOR_FIELDS_def step_def)
  ultimately show ?thesis using assms(1) by simp
qed

lemma fmac_acc_loop_spec:
  fixes inst :: instruction and g :: "uword \<Rightarrow> uword \<Rightarrow> uword"
  assumes "vu_ok u" and "independent dest src"
  defines "u' \<equiv> fmac_acc_loop g dest src inst u"
  shows "vu_ok u'" "lane_and_flags dest f u' = fmac_acc_result g dest src inst f u"
  using assms fmac_acc.loop_ok[of u dest src inst g] fmac_acc.lanes[of u dest src f inst g]
  by (simp_all add: fmac_acc_loop_def for_fields_def Let_def)

lemma select_loop_spec:
  fixes inst :: instruction and g :: "uword \<Rightarrow> uword \<Rightarrow> uword"
  assumes "vu_ok u" and "independent (To_vf (vu_fd inst)) src"
  defines "u' \<equiv> select_loop g src inst u"
  shows "vu_ok u'" "vf_lane (vu_fd inst) f u' =
    (if test_dest_field inst f then g (vf_lane (vu_fs inst) f u) (operand src f u) else vf_lane (vu_fd inst) f u)"
  using assms select.loop_ok[of u inst src g] select.lanes[of u inst src f g]
  by (simp_all add: select_loop_def for_fields_def Let_def)

section \<open>Every instruction keeps the unit well-formed\<close>

named_theorems vu_op_ok

lemma for_fields_ok:
  assumes "vu_ok u" and "\<And>f u. vu_ok u \<Longrightarrow> vu_ok (body f u)" and "\<And>f u. vu_ok u \<Longrightarrow> vu_ok (other f u)"
  shows "vu_ok (for_fields inst body other u)"
proof -
  have "vu_ok v \<Longrightarrow> vu_ok (fold (\<lambda>f u. if test_dest_field inst f then body f u else other f u) fs v)" for v fs
    using assms(2,3) by (induction fs arbitrary: v) simp_all
  then show ?thesis using assms(1) by (simp add: for_fields_def)
qed

lemma loops_ok:
  assumes "vu_ok u"
  shows "vu_ok (fmac_loop g dest src inst u)" "vu_ok (fmac_acc_loop g dest src inst u)"
    "vu_ok (select_loop g src inst u)"
  unfolding fmac_loop_def fmac_acc_loop_def select_loop_def fmac_def Let_def
  using assms by (auto intro!: for_fields_ok split: prod.splits)

lemma vu_ok_q_status:
  assumes "vu_ok u"
  shows "vu_ok (q_put v u)" "vu_ok (status_upd (set_vu_flag st fl x) u)"
  using assms vu_okD[OF assms] by (simp_all add: q_put_def status_upd_def w_defs)

lemma outer_lane_ok: "vu_ok u \<Longrightarrow> vu_ok (outer_lane dest f v u)"
  by (simp add: outer_lane_def split_beta)

lemma vu_float_ok [vu_op_ok]:
  assumes "vu_ok u"
  shows "vu_ok (VU_ADD inst u)"
    "vu_ok (VU_ADDi inst u)"
    "vu_ok (VU_ADDq inst u)"
    "vu_ok (VU_ADDbc_0 inst u)"
    "vu_ok (VU_ADDbc_1 inst u)"
    "vu_ok (VU_ADDbc_2 inst u)"
    "vu_ok (VU_ADDbc_3 inst u)"
    "vu_ok (VU_ADDA inst u)"
    "vu_ok (VU_ADDAi inst u)"
    "vu_ok (VU_ADDAq inst u)"
    "vu_ok (VU_ADDAbc_0 inst u)"
    "vu_ok (VU_ADDAbc_1 inst u)"
    "vu_ok (VU_ADDAbc_2 inst u)"
    "vu_ok (VU_ADDAbc_3 inst u)"
    "vu_ok (VU_SUB inst u)"
    "vu_ok (VU_SUBi inst u)"
    "vu_ok (VU_SUBq inst u)"
    "vu_ok (VU_SUBbc_0 inst u)"
    "vu_ok (VU_SUBbc_1 inst u)"
    "vu_ok (VU_SUBbc_2 inst u)"
    "vu_ok (VU_SUBbc_3 inst u)"
    "vu_ok (VU_SUBA inst u)"
    "vu_ok (VU_SUBAi inst u)"
    "vu_ok (VU_SUBAq inst u)"
    "vu_ok (VU_SUBAbc_0 inst u)"
    "vu_ok (VU_SUBAbc_1 inst u)"
    "vu_ok (VU_SUBAbc_2 inst u)"
    "vu_ok (VU_SUBAbc_3 inst u)"
    "vu_ok (VU_MUL inst u)"
    "vu_ok (VU_MULi inst u)"
    "vu_ok (VU_MULq inst u)"
    "vu_ok (VU_MULbc_0 inst u)"
    "vu_ok (VU_MULbc_1 inst u)"
    "vu_ok (VU_MULbc_2 inst u)"
    "vu_ok (VU_MULbc_3 inst u)"
    "vu_ok (VU_MULA inst u)"
    "vu_ok (VU_MULAi inst u)"
    "vu_ok (VU_MULAq inst u)"
    "vu_ok (VU_MULAbc_0 inst u)"
    "vu_ok (VU_MULAbc_1 inst u)"
    "vu_ok (VU_MULAbc_2 inst u)"
    "vu_ok (VU_MULAbc_3 inst u)"
    "vu_ok (VU_MADD inst u)"
    "vu_ok (VU_MADDi inst u)"
    "vu_ok (VU_MADDq inst u)"
    "vu_ok (VU_MADDbc_0 inst u)"
    "vu_ok (VU_MADDbc_1 inst u)"
    "vu_ok (VU_MADDbc_2 inst u)"
    "vu_ok (VU_MADDbc_3 inst u)"
    "vu_ok (VU_MADDA inst u)"
    "vu_ok (VU_MADDAi inst u)"
    "vu_ok (VU_MADDAq inst u)"
    "vu_ok (VU_MADDAbc_0 inst u)"
    "vu_ok (VU_MADDAbc_1 inst u)"
    "vu_ok (VU_MADDAbc_2 inst u)"
    "vu_ok (VU_MADDAbc_3 inst u)"
    "vu_ok (VU_MSUB inst u)"
    "vu_ok (VU_MSUBi inst u)"
    "vu_ok (VU_MSUBq inst u)"
    "vu_ok (VU_MSUBbc_0 inst u)"
    "vu_ok (VU_MSUBbc_1 inst u)"
    "vu_ok (VU_MSUBbc_2 inst u)"
    "vu_ok (VU_MSUBbc_3 inst u)"
    "vu_ok (VU_MSUBA inst u)"
    "vu_ok (VU_MSUBAi inst u)"
    "vu_ok (VU_MSUBAq inst u)"
    "vu_ok (VU_MSUBAbc_0 inst u)"
    "vu_ok (VU_MSUBAbc_1 inst u)"
    "vu_ok (VU_MSUBAbc_2 inst u)"
    "vu_ok (VU_MSUBAbc_3 inst u)"
    "vu_ok (VU_MAX inst u)"
    "vu_ok (VU_MAXi inst u)"
    "vu_ok (VU_MAXbc_0 inst u)"
    "vu_ok (VU_MAXbc_1 inst u)"
    "vu_ok (VU_MAXbc_2 inst u)"
    "vu_ok (VU_MAXbc_3 inst u)"
    "vu_ok (VU_MINI inst u)"
    "vu_ok (VU_MINIi inst u)"
    "vu_ok (VU_MINIbc_0 inst u)"
    "vu_ok (VU_MINIbc_1 inst u)"
    "vu_ok (VU_MINIbc_2 inst u)"
    "vu_ok (VU_MINIbc_3 inst u)"
    "vu_ok (VU_ABS inst u)" "vu_ok (VU_OPMULA inst u)" "vu_ok (VU_OPMSUB inst u)"
    "vu_ok (VU_DIV inst u)" "vu_ok (VU_SQRT inst u)" "vu_ok (VU_RSQRT inst u)"
  using assms
  by (simp_all add: vu_fmac_defs vu_select_defs loops_ok VU_ABS_def VU_OPMULA_def VU_OPMSUB_def VU_DIV_def
      VU_SQRT_def VU_RSQRT_def for_fields_ok outer_lane_ok vu_ok_q_status vu_flag_defs Let_def)

section \<open>Behaviour\<close>

text \<open>
  A broadcast instruction whose destination is its second source reads the broadcast lane
  again after having overwritten it.
\<close>

lemma ADDbc_overwrites_source:
  assumes "vu_ok u" and "vu_fd inst = vu_ft inst" and "vu_fs inst \<noteq> vu_ft inst"
    and "test_dest_field inst FX" and "test_dest_field inst FW"
  defines "x \<equiv> fst (to_ps2_float (f32_add (vf_lane (vu_fs inst) FX u) (vf_lane (vu_ft inst) FX u)))"
  shows "vf_lane (vu_fd inst) FX (VU_ADDbc_0 inst u) = x"
    "vf_lane (vu_fd inst) FW (VU_ADDbc_0 inst u) = fst (to_ps2_float (f32_add (vf_lane (vu_fs inst) FW u) x))"
  using assms(1-5)
  by (simp_all add: x_def VU_ADDbc_0_def VU_ADDbc_def fmac_loop_fold VECTOR_FIELDS_def fmac_def split_beta
      vu_frame mac_clear_eq)

text \<open>Division by zero saturates and raises D, zero by zero raises I.\<close>

lemma status_upd_bit:
  assumes "vu_ok u" and "a < 32" and "b < 32" and "a \<noteq> b"
  shows "status_bit k (status_upd (set_vu_flag (BF a (Suc 0)) (BF b (Suc 0)) v) u) \<longleftrightarrow>
    (if k = b then bit v 0 else if k = a then status_bit a u \<or> bit v 0 else status_bit k u)"
  using set_vu_flag_bits[OF vu_okD(4)[OF assms(1)] assms(2-)] by (simp add: status_bit_def status_upd_def)

lemma q_put_simps:
  "status_bit k (q_put v u) = status_bit k u" "vu_ok u \<Longrightarrow> w_read_uword (u_q (q_put v u)) = v"
  "vu_ok u \<Longrightarrow> w_read_uword (u_q (q_put v (status_upd g u))) = v"
  using vu_okD(8)[of u] by (simp_all add: q_put_def status_bit_def status_upd_def w_defs)

lemma VU_DIV_by_zero:
  assumes "vu_ok u" and "f32_zero (vf_word (vu_ft inst) (vu_ftf inst) u)"
    and "\<not> f32_nan (vf_word (vu_fs inst) (vu_fsf inst) u)"
  shows "w_read_uword (u_q (VU_DIV inst u)) \<in> {FMAX_POS, FMAX_NEG}"
    "status_bit 5 (VU_DIV inst u) \<longleftrightarrow>
       status_bit 5 u \<or> \<not> f32_zero (vf_word (vu_fs inst) (vu_fsf inst) u)"
    "status_bit 4 (VU_DIV inst u) \<longleftrightarrow>
       status_bit 4 u \<or> f32_zero (vf_word (vu_fs inst) (vu_fsf inst) u)"
proof -
  have "fpclassify (f32_inf neg) = FP_INFINITE" "fpclassify f32_default_nan = FP_NAN" for neg
    by (simp_all add: f32_inf_def f32_sign_def f32_default_nan_def f32_defs)
  then have "fst (to_ps2_float (f32_div x y)) \<in> {FMAX_POS, FMAX_NEG}" if "f32_zero y" "\<not> f32_nan x" for x y
    using that by (auto simp: f32_div_def Let_def to_ps2_float_def)
  then show "w_read_uword (u_q (VU_DIV inst u)) \<in> {FMAX_POS, FMAX_NEG}"
    using assms by (simp add: VU_DIV_def Let_def f32_eq_zero_iff q_put_simps)
  show "status_bit 5 (VU_DIV inst u) \<longleftrightarrow> status_bit 5 u \<or> \<not> f32_zero (vf_word (vu_fs inst) (vu_fsf inst) u)"
    "status_bit 4 (VU_DIV inst u) \<longleftrightarrow> status_bit 4 u \<or> f32_zero (vf_word (vu_fs inst) (vu_fsf inst) u)"
    using assms(1,2)
    by (simp_all add: VU_DIV_def Let_def f32_eq_zero_iff q_put_simps vu_flag_defs word_defs status_upd_bit)
qed

end
