(* ===== verification/VuOther.thy ===== *)
theory VuOther
  imports VuFloat
begin

text \<open>
  The other instructions of the vector units: \<open>CVuInterpreter_CONVERT.cpp\<close>, \<open>_EFU.cpp\<close>,
  \<open>_FLAG.cpp\<close>, \<open>_INTEGER.cpp\<close>, \<open>_OTHER.cpp\<close> and \<open>_TRANSFER.cpp\<close>.  An instruction fails on an
  integer register number above 15, on a float no \<open>uword\<close> can hold, and where the bus fails.
  The mathematical functions of the C library whose results the standard does not fix (sine,
  arc tangent, exponential) are parameters.
\<close>

definition for_fields_res ::
    "instruction \<Rightarrow> (vu_field \<Rightarrow> vu_unit \<Rightarrow> vu_unit res) \<Rightarrow> vu_unit \<Rightarrow> vu_unit res" where
  "for_fields_res inst body u =
     fold (\<lambda>field m. bind_res m (\<lambda>u. if test_dest_field inst field then body field u else Inr u))
       VECTOR_FIELDS (Inr u)"

section \<open>Conversions\<close>

definition ftoi :: "uword \<Rightarrow> instruction \<Rightarrow> vu_unit \<Rightarrow> vu_unit res" where
  "ftoi scale inst =
     for_fields_res inst (\<lambda>field u.
       bind_res (uword_of_f32 (f32_mul (vf_lane (vu_fs inst) field u) scale)) (\<lambda>result.
         Inr (vf_put (vu_ft inst) field result u)))"

definition VU_FTOI0 :: "instruction \<Rightarrow> vu_unit \<Rightarrow> vu_unit res" where
  "VU_FTOI0 inst =
     for_fields_res inst (\<lambda>field u.
       bind_res (uword_of_f32 (vf_lane (vu_fs inst) field u)) (\<lambda>result.
         Inr (vf_put (vu_ft inst) field result u)))"
definition VU_FTOI4 :: "instruction \<Rightarrow> vu_unit \<Rightarrow> vu_unit res" where
  "VU_FTOI4 = ftoi 0x41800000"
definition VU_FTOI12 :: "instruction \<Rightarrow> vu_unit \<Rightarrow> vu_unit res" where
  "VU_FTOI12 = ftoi 0x45800000"
definition VU_FTOI15 :: "instruction \<Rightarrow> vu_unit \<Rightarrow> vu_unit res" where
  "VU_FTOI15 = ftoi 0x47000000"

definition itof :: "uword \<Rightarrow> instruction \<Rightarrow> vu_unit \<Rightarrow> vu_unit" where
  "itof multiplier inst =
     for_fields inst
       (\<lambda>field u. vf_put (vu_ft inst) field (f32_mul (f32_of_uword (vf_lane (vu_fs inst) field u)) multiplier) u)
       (\<lambda>field u. u)"

definition VU_ITOF0 :: "instruction \<Rightarrow> vu_unit \<Rightarrow> vu_unit" where
  "VU_ITOF0 inst =
     for_fields inst
       (\<lambda>field u. vf_put (vu_ft inst) field (f32_of_uword (vf_lane (vu_fs inst) field u)) u)
       (\<lambda>field u. u)"
definition VU_ITOF4 :: "instruction \<Rightarrow> vu_unit \<Rightarrow> vu_unit" where
  "VU_ITOF4 = itof 0x3D800000"
definition VU_ITOF12 :: "instruction \<Rightarrow> vu_unit \<Rightarrow> vu_unit" where
  "VU_ITOF12 = itof 0x39800000"
definition VU_ITOF15 :: "instruction \<Rightarrow> vu_unit \<Rightarrow> vu_unit" where
  "VU_ITOF15 = itof 0x38000000"

section \<open>The elementary function unit\<close>

definition p_put :: "uword \<Rightarrow> vu_unit \<Rightarrow> vu_unit" where
  "p_put v u = u\<lparr>u_p := w_write_uword v (u_p u)\<rparr>"

definition square_sum :: "instruction \<Rightarrow> vu_unit \<Rightarrow> uword" where
  "square_sum inst u =
     (let a = vf_lane (vu_fs inst) FX u; b = vf_lane (vu_fs inst) FY u; c = vf_lane (vu_fs inst) FZ u
      in f32_add (f32_add (f32_mul a a) (f32_mul b b)) (f32_mul c c))"

abbreviation f32_one_bits :: uword where "f32_one_bits \<equiv> 0x3F800000"

definition VU_ESADD :: "instruction \<Rightarrow> vu_unit \<Rightarrow> vu_unit" where
  "VU_ESADD inst u = p_put (square_sum inst u) u"
definition VU_ERSADD :: "instruction \<Rightarrow> vu_unit \<Rightarrow> vu_unit" where
  "VU_ERSADD inst u = p_put (f32_div f32_one_bits (square_sum inst u)) u"
definition VU_ELENG :: "instruction \<Rightarrow> vu_unit \<Rightarrow> vu_unit" where
  "VU_ELENG inst u = p_put (f32_sqrt (square_sum inst u)) u"
definition VU_ERLENG :: "instruction \<Rightarrow> vu_unit \<Rightarrow> vu_unit" where
  "VU_ERLENG inst u = p_put (f32_div f32_one_bits (f32_sqrt (square_sum inst u))) u"
definition VU_EATANxy :: "(uword \<Rightarrow> uword) \<Rightarrow> instruction \<Rightarrow> vu_unit \<Rightarrow> vu_unit" where
  "VU_EATANxy c_atan inst u =
     p_put (c_atan (f32_div (vf_lane (vu_fs inst) FY u) (vf_lane (vu_fs inst) FX u))) u"
definition VU_EATANxz :: "(uword \<Rightarrow> uword) \<Rightarrow> instruction \<Rightarrow> vu_unit \<Rightarrow> vu_unit" where
  "VU_EATANxz c_atan inst u =
     p_put (c_atan (f32_div (vf_lane (vu_fs inst) FZ u) (vf_lane (vu_fs inst) FX u))) u"
definition VU_ESUM :: "instruction \<Rightarrow> vu_unit \<Rightarrow> vu_unit" where
  "VU_ESUM inst u =
     (let v = vf_lane (vu_fs inst)
      in p_put (f32_add (f32_add (f32_add (v FX u) (v FY u)) (v FZ u)) (v FW u)) u)"
definition VU_ERCPR :: "instruction \<Rightarrow> vu_unit \<Rightarrow> vu_unit" where
  "VU_ERCPR inst u = p_put (f32_div f32_one_bits (vf_word (vu_fs inst) (vu_fsf inst) u)) u"
definition VU_ESQRT :: "instruction \<Rightarrow> vu_unit \<Rightarrow> vu_unit" where
  "VU_ESQRT inst u = p_put (f32_sqrt (vf_word (vu_fs inst) (vu_fsf inst) u)) u"
definition VU_ERSQRT :: "instruction \<Rightarrow> vu_unit \<Rightarrow> vu_unit" where
  "VU_ERSQRT inst u = p_put (f32_div f32_one_bits (f32_sqrt (vf_word (vu_fs inst) (vu_fsf inst) u))) u"
definition VU_ESIN :: "(uword \<Rightarrow> uword) \<Rightarrow> instruction \<Rightarrow> vu_unit \<Rightarrow> vu_unit" where
  "VU_ESIN c_sin inst u = p_put (c_sin (vf_word (vu_fs inst) (vu_fsf inst) u)) u"
definition VU_EATAN :: "(uword \<Rightarrow> uword) \<Rightarrow> instruction \<Rightarrow> vu_unit \<Rightarrow> vu_unit" where
  "VU_EATAN c_atan inst u = p_put (c_atan (vf_word (vu_fs inst) (vu_fsf inst) u)) u"
definition VU_EEXP :: "(uword \<Rightarrow> uword) \<Rightarrow> instruction \<Rightarrow> vu_unit \<Rightarrow> vu_unit" where
  "VU_EEXP c_exp inst u = p_put (c_exp (f32_negate (vf_word (vu_fs inst) (vu_fsf inst) u))) u"

section \<open>Flags\<close>

abbreviation truth :: "bool \<Rightarrow> 'a::len word" where
  "truth b \<equiv> (if b then 1 else 0)"

definition VU_FSAND :: "instruction \<Rightarrow> vu_unit \<Rightarrow> vu_unit res" where
  "VU_FSAND inst u = vi_write (vu_it inst) (ucast (w_read_uword (u_status u) AND ucast (vu_imm12 inst))) u"
definition VU_FSEQ :: "instruction \<Rightarrow> vu_unit \<Rightarrow> vu_unit res" where
  "VU_FSEQ inst u = vi_write (vu_it inst) (truth (w_read_uword (u_status u) = ucast (vu_imm12 inst))) u"
definition VU_FSOR :: "instruction \<Rightarrow> vu_unit \<Rightarrow> vu_unit res" where
  "VU_FSOR inst u = vi_write (vu_it inst) (ucast (w_read_uword (u_status u) OR ucast (vu_imm12 inst))) u"
definition VU_FSSET :: "instruction \<Rightarrow> vu_unit \<Rightarrow> vu_unit" where
  "VU_FSSET inst =
     status_upd (\<lambda>status. w_write_uhword 0 (w_read_uhword 0 status OR (vu_imm12 inst AND 0xFC0)) status)"
definition VU_FMAND :: "instruction \<Rightarrow> vu_unit \<Rightarrow> vu_unit res" where
  "VU_FMAND inst u =
     bind_res (vi_read (vu_is inst) u) (\<lambda>is.
       vi_write (vu_it inst) (ucast (w_read_uword (u_mac u) AND ucast is)) u)"
definition VU_FMEQ :: "instruction \<Rightarrow> vu_unit \<Rightarrow> vu_unit res" where
  "VU_FMEQ inst u =
     bind_res (vi_read (vu_is inst) u) (\<lambda>is.
       vi_write (vu_it inst) (truth (w_read_uword (u_mac u) = ucast is)) u)"
definition VU_FMOR :: "instruction \<Rightarrow> vu_unit \<Rightarrow> vu_unit res" where
  "VU_FMOR inst u =
     bind_res (vi_read (vu_is inst) u) (\<lambda>is.
       vi_write (vu_it inst) (ucast (w_read_uword (u_mac u) OR ucast is)) u)"
definition VU_FCAND :: "instruction \<Rightarrow> vu_unit \<Rightarrow> vu_unit res" where
  "VU_FCAND inst u = vi_write 1 (truth (w_read_uword (u_clipping u) AND vu_imm24 inst > 0)) u"
definition VU_FCEQ :: "instruction \<Rightarrow> vu_unit \<Rightarrow> vu_unit res" where
  "VU_FCEQ inst u = vi_write 1 (truth (w_read_uword (u_clipping u) = vu_imm24 inst)) u"
definition VU_FCOR :: "instruction \<Rightarrow> vu_unit \<Rightarrow> vu_unit res" where
  "VU_FCOR inst u = vi_write 1 (truth (w_read_uword (u_clipping u) OR vu_imm24 inst = 0xFFFFFF)) u"
definition VU_FCSET :: "instruction \<Rightarrow> vu_unit \<Rightarrow> vu_unit" where
  "VU_FCSET inst u = u\<lparr>u_clipping := w_write_uword (vu_imm24 inst) (u_clipping u)\<rparr>"
definition VU_FCGET :: "instruction \<Rightarrow> vu_unit \<Rightarrow> vu_unit res" where
  "VU_FCGET inst u = vi_write (vu_it inst) (ucast (w_read_uword (u_clipping u)) AND 0xFFF) u"

section \<open>Integers\<close>

definition vi_binary ::
    "(uhword \<Rightarrow> uhword \<Rightarrow> uhword) \<Rightarrow> instruction \<Rightarrow> vu_unit \<Rightarrow> vu_unit res" where
  "vi_binary f inst u =
     bind_res (vi_read (vu_is inst) u) (\<lambda>a.
       bind_res (vi_read (vu_it inst) u) (\<lambda>b.
         vi_write (vu_id inst) (f a b) u))"

definition VU_IADD :: "instruction \<Rightarrow> vu_unit \<Rightarrow> vu_unit res" where
  "VU_IADD = vi_binary (+)"
definition VU_ISUB :: "instruction \<Rightarrow> vu_unit \<Rightarrow> vu_unit res" where
  "VU_ISUB = vi_binary (-)"
definition VU_IAND :: "instruction \<Rightarrow> vu_unit \<Rightarrow> vu_unit res" where
  "VU_IAND = vi_binary (AND)"
definition VU_IOR :: "instruction \<Rightarrow> vu_unit \<Rightarrow> vu_unit res" where
  "VU_IOR = vi_binary (OR)"
definition VU_IADDI :: "instruction \<Rightarrow> vu_unit \<Rightarrow> vu_unit res" where
  "VU_IADDI inst u =
     bind_res (vi_read (vu_is inst) u) (\<lambda>a.
       vi_write (vu_it inst) (a + extend_integer 5 (vu_imm5 inst)) u)"
definition VU_IADDIU :: "instruction \<Rightarrow> vu_unit \<Rightarrow> vu_unit res" where
  "VU_IADDIU inst u =
     bind_res (vi_read (vu_is inst) u) (\<lambda>a. vi_write (vu_it inst) (a + vu_imm15 inst) u)"
definition VU_ISUBIU :: "instruction \<Rightarrow> vu_unit \<Rightarrow> vu_unit res" where
  "VU_ISUBIU inst u =
     bind_res (vi_read (vu_is inst) u) (\<lambda>a. vi_write (vu_it inst) (a - vu_imm15 inst) u)"

section \<open>Clipping and random numbers\<close>

definition VU_NOP :: "instruction \<Rightarrow> vu_unit \<Rightarrow> vu_unit" where
  "VU_NOP inst u = u"

definition clip_insert :: "bitfield \<Rightarrow> bool \<Rightarrow> vu_unit \<Rightarrow> vu_unit" where
  "clip_insert f b u = u\<lparr>u_clipping := w_insert_field f (truth b) (u_clipping u)\<rparr>"

definition VU_CLIP :: "instruction \<Rightarrow> vu_unit \<Rightarrow> vu_unit" where
  "VU_CLIP inst u =
     (let fs = (\<lambda>field. vf_lane (vu_fs inst) field u);
          ft = f32_abs (vf_lane (vu_ft inst) FW u)
      in clip_insert VCLIP_NEGZ_0 (f32_less (fs FZ) (f32_negate ft))
          (clip_insert VCLIP_POSZ_0 (f32_less ft (fs FZ))
          (clip_insert VCLIP_NEGY_0 (f32_less (fs FY) (f32_negate ft))
          (clip_insert VCLIP_POSY_0 (f32_less ft (fs FY))
          (clip_insert VCLIP_NEGX_0 (f32_less (fs FX) (f32_negate ft))
          (clip_insert VCLIP_POSX_0 (f32_less ft (fs FX))
          (u\<lparr>u_clipping := shift_judgement (u_clipping u)\<rparr>)))))))"

definition r_put :: "uword \<Rightarrow> vu_unit \<Rightarrow> vu_unit" where
  "r_put v u = u\<lparr>u_r := w_write_uword v (u_r u)\<rparr>"

definition VU_RINIT :: "instruction \<Rightarrow> vu_unit \<Rightarrow> vu_unit" where
  "VU_RINIT inst u =
     (let append = push_bit 23 0x7F;
          fsf = (vf_word (vu_fs inst) (vu_fsf inst) u AND 0x7FFFFF) OR append
      in r_put fsf u)"

definition VU_RGET :: "instruction \<Rightarrow> vu_unit \<Rightarrow> vu_unit" where
  "VU_RGET inst =
     for_fields inst (\<lambda>field u. vf_put (vu_ft inst) field (w_read_uword (u_r u)) u) (\<lambda>field u. u)"

definition VU_RNEXT :: "instruction \<Rightarrow> vu_unit \<Rightarrow> vu_unit" where
  "VU_RNEXT inst u =
     (let R = w_read_uword (u_r u);
          x = drop_bit 4 R AND 1;
          y = drop_bit 22 R AND 1;
          u1 = r_put ((push_bit 1 R XOR (x XOR y)) AND 0x7FFFFF) u
      in r_put (w_read_uword (u_r u1) OR push_bit 23 0x7F) u1)"

definition VU_RXOR :: "instruction \<Rightarrow> vu_unit \<Rightarrow> vu_unit" where
  "VU_RXOR inst u =
     (let a = w_read_uword (u_r u);
          b = vf_word (vu_ft inst) (vu_fsf inst) u AND 0x7FFFFF
      in r_put (a XOR b) u)"

definition VU_WAITQ :: "instruction \<Rightarrow> vu_unit \<Rightarrow> vu_unit" where
  "VU_WAITQ inst u = u"
definition VU_WAITP :: "instruction \<Rightarrow> vu_unit \<Rightarrow> vu_unit" where
  "VU_WAITP inst u = u"

section \<open>Branches\<close>

definition vu_branch :: "instruction \<Rightarrow> vu_unit \<Rightarrow> vu_unit" where
  "vu_branch inst u =
     u\<lparr>u_bdelay := vu_set_branch_itype (u_pc u) (extend_integer 11 (vu_imm11 inst)) (u_bdelay u)\<rparr>"

definition vu_branch_if :: "(uhword \<Rightarrow> bool) \<Rightarrow> instruction \<Rightarrow> vu_unit \<Rightarrow> vu_unit res" where
  "vu_branch_if c inst u =
     bind_res (vi_read (vu_is inst) u) (\<lambda>a. Inr (if c a then vu_branch inst u else u))"

definition VU_IBEQ :: "instruction \<Rightarrow> vu_unit \<Rightarrow> vu_unit res" where
  "VU_IBEQ inst u =
     bind_res (vi_read (vu_it inst) u) (\<lambda>b. vu_branch_if (\<lambda>a. a = b) inst u)"
definition VU_IBNE :: "instruction \<Rightarrow> vu_unit \<Rightarrow> vu_unit res" where
  "VU_IBNE inst u =
     bind_res (vi_read (vu_it inst) u) (\<lambda>b. vu_branch_if (\<lambda>a. a \<noteq> b) inst u)"

text \<open>The comparisons with zero promote an unsigned hword.\<close>

definition VU_IBGEZ :: "instruction \<Rightarrow> vu_unit \<Rightarrow> vu_unit res" where
  "VU_IBGEZ = vu_branch_if (\<lambda>a. uint a \<ge> 0)"
definition VU_IBGTZ :: "instruction \<Rightarrow> vu_unit \<Rightarrow> vu_unit res" where
  "VU_IBGTZ = vu_branch_if (\<lambda>a. uint a > 0)"
definition VU_IBLEZ :: "instruction \<Rightarrow> vu_unit \<Rightarrow> vu_unit res" where
  "VU_IBLEZ = vu_branch_if (\<lambda>a. uint a \<le> 0)"
definition VU_IBLTZ :: "instruction \<Rightarrow> vu_unit \<Rightarrow> vu_unit res" where
  "VU_IBLTZ = vu_branch_if (\<lambda>a. uint a < 0)"

definition VU_B :: "instruction \<Rightarrow> vu_unit \<Rightarrow> vu_unit" where
  "VU_B = vu_branch"

definition vu_link :: "instruction \<Rightarrow> vu_unit \<Rightarrow> vu_unit res" where
  "vu_link inst u =
     vi_write (vu_it inst)
       (if vu_is_branch_pending (u_bdelay u) then ucast ((branch_pc (u_bdelay u) + 8) div 8)
        else ucast ((w_read_uword (u_pc u) + 2 * 8) div 8)) u"

definition VU_BAL :: "instruction \<Rightarrow> vu_unit \<Rightarrow> vu_unit res" where
  "VU_BAL inst u = bind_res (vu_link inst u) (\<lambda>u. Inr (vu_branch inst u))"

definition vu_jump :: "instruction \<Rightarrow> vu_unit \<Rightarrow> vu_unit res" where
  "vu_jump inst u =
     bind_res (vi_read (vu_is inst) u) (\<lambda>a.
       Inr (u\<lparr>u_bdelay := vu_set_branch_jtype (ucast a) (u_bdelay u)\<rparr>))"

definition VU_JR :: "instruction \<Rightarrow> vu_unit \<Rightarrow> vu_unit res" where
  "VU_JR = vu_jump"
definition VU_JALR :: "instruction \<Rightarrow> vu_unit \<Rightarrow> vu_unit res" where
  "VU_JALR inst u =
     bind_res (vi_read (vu_is inst) u) (\<lambda>_. bind_res (vu_link inst u) (vu_jump inst))"

text \<open>
  The debug build only logs \<open>XGKICK\<close>.  \<open>XTOP\<close> and \<open>XITOP\<close> read registers of the VIF unit,
  given by their values.
\<close>

definition VU_XGKICK :: "instruction \<Rightarrow> vu_unit \<Rightarrow> vu_unit" where
  "VU_XGKICK inst u = u"
definition VU_XTOP :: "uword \<Rightarrow> instruction \<Rightarrow> vu_unit \<Rightarrow> vu_unit res" where
  "VU_XTOP vif_top inst u = vi_write (vu_it inst) (ucast vif_top) u"
definition VU_XITOP :: "uword \<Rightarrow> instruction \<Rightarrow> vu_unit \<Rightarrow> vu_unit res" where
  "VU_XITOP vif_itop inst u = vi_write (vu_it inst) (ucast vif_itop) u"

section \<open>Transfers\<close>

text \<open>
  \<open>MOVE\<close>, \<open>MFIR\<close>, \<open>MR32\<close> and \<open>MFP\<close> pass the value as the offset and the field as the value.
\<close>

definition vf_write_at :: "nat \<Rightarrow> uword \<Rightarrow> vu_field \<Rightarrow> vu_unit \<Rightarrow> vu_unit res" where
  "vf_write_at n offset field u =
     bind_res (q_write_uword_checked (unat offset) (of_nat (field_index field)) (u_vf u n)) (\<lambda>r.
       Inr (vf_upd n (\<lambda>_. r) u))"

definition VU_MOVE :: "instruction \<Rightarrow> vu_unit \<Rightarrow> vu_unit res" where
  "VU_MOVE inst =
     for_fields_res inst (\<lambda>field u. vf_write_at (vu_ft inst) (vf_lane (vu_fs inst) field u) field u)"
definition VU_MFIR :: "instruction \<Rightarrow> vu_unit \<Rightarrow> vu_unit res" where
  "VU_MFIR inst u =
     bind_res (vi_read (vu_is inst) u) (\<lambda>v.
       for_fields_res inst (\<lambda>field u. vf_write_at (vu_ft inst) (ucast v) field u) u)"
definition VU_MTIR :: "instruction \<Rightarrow> vu_unit \<Rightarrow> vu_unit res" where
  "VU_MTIR inst u =
     vi_write (vu_it inst) (ucast (vf_word (vu_fs inst) (vu_fsf inst) u AND 0xFFFF)) u"
definition VU_MR32 :: "instruction \<Rightarrow> vu_unit \<Rightarrow> vu_unit res" where
  "VU_MR32 inst u =
     (let move = (\<lambda>from to u. vf_write_at (vu_ft inst) (vf_lane (vu_fs inst) from u) to u)
      in bind_res (move FW FX u) (\<lambda>u. bind_res (move FX FY u) (\<lambda>u.
           bind_res (move FY FZ u) (move FZ FW))))"
definition VU_MFP :: "instruction \<Rightarrow> vu_unit \<Rightarrow> vu_unit res" where
  "VU_MFP inst =
     for_fields_res inst (\<lambda>field u. vf_write_at (vu_ft inst) (w_read_uword (u_p u)) field u)"
definition VU_LOI :: "instruction \<Rightarrow> vu_unit \<Rightarrow> vu_unit" where
  "VU_LOI inst u = u\<lparr>u_i := w_write_uword inst (u_i u)\<rparr>"

text \<open>Memory accesses: quadword addresses, truncated to the 16 bits of the bus.\<close>

definition vu_bus_read :: "uword \<Rightarrow> vu_unit \<Rightarrow> (uqword \<times> vu_unit) res" where
  "vu_bus_read address u =
     bind_res (bus_read_uqword (ucast address) (u_bus u)) (\<lambda>(v, b). Inr (v, u\<lparr>u_bus := b\<rparr>))"

definition vu_bus_write :: "uword \<Rightarrow> uword \<Rightarrow> vu_unit \<Rightarrow> vu_unit res" where
  "vu_bus_write address v u =
     bind_res (bus_write_uword (ucast address) v (u_bus u)) (\<lambda>b. Inr (u\<lparr>u_bus := b\<rparr>))"

definition load_fields :: "instruction \<Rightarrow> uqword \<Rightarrow> vu_unit \<Rightarrow> vu_unit" where
  "load_fields inst source =
     for_fields inst (\<lambda>field u. vf_put (vu_ft inst) field (get_lane (field_index field) source) u) (\<lambda>field u. u)"

definition store_fields ::
    "instruction \<Rightarrow> uword \<Rightarrow> (vu_field \<Rightarrow> vu_unit \<Rightarrow> uword) \<Rightarrow> vu_unit \<Rightarrow> vu_unit res" where
  "store_fields inst address value =
     for_fields_res inst (\<lambda>field u. vu_bus_write (address + 4 * of_nat (field_index field)) (value field u) u)"

definition VU_LQ :: "instruction \<Rightarrow> vu_unit \<Rightarrow> vu_unit res" where
  "VU_LQ inst u =
     bind_res (vi_read (vu_is inst) u) (\<lambda>v.
       bind_res (vu_bus_read ((ucast (vu_imm11 inst) + ucast v) * 16) u) (\<lambda>(source, u).
         Inr (load_fields inst source u)))"
definition VU_LQD :: "instruction \<Rightarrow> vu_unit \<Rightarrow> vu_unit res" where
  "VU_LQD inst u =
     bind_res (vi_read (vu_is inst) u) (\<lambda>v.
       bind_res (vi_write (vu_is inst) (v - 1) u) (\<lambda>u.
         bind_res (vi_read (vu_is inst) u) (\<lambda>v.
           bind_res (vu_bus_read (ucast v * 16) u) (\<lambda>(source, u).
             Inr (load_fields inst source u)))))"
definition VU_LQI :: "instruction \<Rightarrow> vu_unit \<Rightarrow> vu_unit res" where
  "VU_LQI inst u =
     bind_res (vi_read (vu_is inst) u) (\<lambda>v.
       bind_res (vu_bus_read (ucast v * 16) u) (\<lambda>(source, u).
         vi_write (vu_is inst) (v + 1) (load_fields inst source u)))"
definition VU_SQ :: "instruction \<Rightarrow> vu_unit \<Rightarrow> vu_unit res" where
  "VU_SQ inst u =
     bind_res (vi_read (vu_it inst) u) (\<lambda>v.
       store_fields inst ((ucast (vu_imm11 inst) + ucast v) * 16) (vf_lane (vu_fs inst)) u)"
definition VU_SQD :: "instruction \<Rightarrow> vu_unit \<Rightarrow> vu_unit res" where
  "VU_SQD inst u =
     bind_res (vi_read (vu_it inst) u) (\<lambda>v.
       bind_res (vi_write (vu_it inst) (v - 1) u) (\<lambda>u.
         bind_res (vi_read (vu_it inst) u) (\<lambda>v.
           store_fields inst (ucast v * 16) (vf_lane (vu_fs inst)) u)))"
definition VU_SQI :: "instruction \<Rightarrow> vu_unit \<Rightarrow> vu_unit res" where
  "VU_SQI inst u =
     bind_res (vi_read (vu_ft inst) u) (\<lambda>v.
       bind_res (store_fields inst (ucast v * 16) (vf_lane (vu_fs inst)) u)
         (vi_write (vu_ft inst) (v + 1)))"

definition load_integer :: "instruction \<Rightarrow> uword \<Rightarrow> vu_unit \<Rightarrow> vu_unit res" where
  "load_integer inst address u =
     bind_res (vu_bus_read address u) (\<lambda>(source, u).
       if vu_dest inst < 4 then vi_write (vu_it inst) (ucast (get_lane (vu_dest inst) source :: uword)) u
       else Inl Out_of_bounds)"

definition VU_ILW :: "instruction \<Rightarrow> vu_unit \<Rightarrow> vu_unit res" where
  "VU_ILW inst u =
     bind_res (vi_read (vu_is inst) u) (\<lambda>v. load_integer inst ((ucast (vu_imm15 inst) + ucast v) * 16) u)"
definition VU_ILWR :: "instruction \<Rightarrow> vu_unit \<Rightarrow> vu_unit res" where
  "VU_ILWR inst u =
     bind_res (vi_read (vu_is inst) u) (\<lambda>v. load_integer inst (ucast v * 16) u)"
definition VU_ISW :: "instruction \<Rightarrow> vu_unit \<Rightarrow> vu_unit res" where
  "VU_ISW inst u =
     bind_res (vi_read (vu_it inst) u) (\<lambda>w. bind_res (vi_read (vu_is inst) u) (\<lambda>v.
       store_fields inst ((ucast (vu_imm15 inst) + ucast v) * 16) (\<lambda>field u. ucast w) u))"
definition VU_ISWR :: "instruction \<Rightarrow> vu_unit \<Rightarrow> vu_unit res" where
  "VU_ISWR inst u =
     bind_res (vi_read (vu_it inst) u) (\<lambda>w. bind_res (vi_read (vu_is inst) u) (\<lambda>v.
       store_fields inst (ucast v * 16) (\<lambda>field u. ucast w) u))"

section \<open>Every instruction keeps the unit well-formed\<close>

lemmas vu_total_defs =
  VU_ITOF0_def VU_ITOF4_def VU_ITOF12_def VU_ITOF15_def VU_ESADD_def VU_ERSADD_def VU_ELENG_def
  VU_ERLENG_def VU_EATANxy_def VU_EATANxz_def VU_ESUM_def VU_ERCPR_def VU_ESQRT_def
  VU_ERSQRT_def VU_ESIN_def VU_EATAN_def VU_EEXP_def VU_FSSET_def VU_FCSET_def VU_NOP_def
  VU_CLIP_def VU_RINIT_def VU_RGET_def VU_RNEXT_def VU_RXOR_def VU_WAITQ_def VU_WAITP_def
  VU_B_def VU_XGKICK_def VU_LOI_def

lemmas vu_partial_defs =
  VU_FTOI0_def VU_FTOI4_def VU_FTOI12_def VU_FTOI15_def VU_FSAND_def VU_FSEQ_def VU_FSOR_def
  VU_FMAND_def VU_FMEQ_def VU_FMOR_def VU_FCAND_def VU_FCEQ_def VU_FCOR_def VU_FCGET_def
  VU_IADD_def VU_ISUB_def VU_IAND_def VU_IOR_def VU_IADDI_def VU_IADDIU_def VU_ISUBIU_def
  VU_IBEQ_def VU_IBNE_def VU_IBGEZ_def VU_IBGTZ_def VU_IBLEZ_def VU_IBLTZ_def VU_BAL_def
  VU_JR_def VU_JALR_def VU_XTOP_def VU_XITOP_def VU_MOVE_def VU_MFIR_def VU_MTIR_def
  VU_MR32_def VU_MFP_def VU_LQ_def VU_LQD_def VU_LQI_def VU_SQ_def VU_SQD_def VU_SQI_def
  VU_ILW_def VU_ILWR_def VU_ISW_def VU_ISWR_def

lemma for_fields_res_ok:
  assumes "vu_ok u" and "\<And>f u. vu_ok u \<Longrightarrow> ok_res vu_ok (body f u)"
  shows "ok_res vu_ok (for_fields_res inst body u)"
proof -
  have "ok_res vu_ok m \<Longrightarrow> ok_res vu_ok (fold (\<lambda>field m. bind_res m (\<lambda>u.
      if test_dest_field inst field then body field u else Inr u)) fs m)" for m fs
  proof (induction fs arbitrary: m)
    case (Cons f fs)
    have "ok_res vu_ok (bind_res m (\<lambda>u. if test_dest_field inst f then body f u else Inr u))"
      using Cons.prems assms(2) by (auto intro: ok_res_bind)
    then show ?case using Cons.IH by simp
  qed simp
  then show ?thesis using assms(1) by (simp add: for_fields_res_def)
qed

lemma put_ok:
  assumes "vu_ok u"
  shows "vu_ok (p_put v u)" "vu_ok (r_put v u)" "vu_ok (clip_insert f b u)" "vu_ok (vu_branch inst u)"
    "vu_ok (u\<lparr>u_clipping := shift_judgement (u_clipping u)\<rparr>)" "vu_ok (load_fields inst source u)"
    "vu_ok (itof m inst u)" "vu_ok (vf_upd n (q_write_uword k w) u)"
  using assms vu_okD[OF assms]
  by (simp_all add: p_put_def r_put_def clip_insert_def vu_branch_def shift_judgement_def w_defs load_fields_def
      itof_def for_fields_ok vf_upd_def q_defs)

lemma vu_access_ok:
  assumes "vu_ok u"
  shows "ok_res vu_ok (vi_write n h u)" "ok_res vu_ok (vf_write_at n x field u)" "ok_res vu_ok (vu_bus_write a w u)"
    "ok_res (\<lambda>(v, u'). vu_ok u') (vu_bus_read a u)" "ok_res vu_ok (vu_link inst u)"
    "ok_res vu_ok (vu_jump inst u)" "ok_res vu_ok (vu_branch_if c inst u)" "ok_res vu_ok (vi_binary g inst u)"
    "ok_res vu_ok (ftoi x inst u)"
proof -
  show "ok_res vu_ok (vf_write_at n x field u)"
    using put_ok(8)[OF assms, of n "unat x" "of_nat (field_index field)"]
    by (simp add: vf_write_at_def q_write_uword_checked_def vf_upd_def)
  show "ok_res vu_ok (vu_bus_write a w u)" "ok_res (\<lambda>(v, u'). vu_ok u') (vu_bus_read a u)"
    using assms by (auto simp: vu_bus_write_def vu_bus_read_def bind_res_def split: sum.splits)
  show "ok_res vu_ok (vu_jump inst u)" "ok_res vu_ok (vu_branch_if c inst u)"
    using assms by (auto simp: vu_jump_def vu_branch_if_def bind_res_def put_ok split: sum.splits)
  show "ok_res vu_ok (vi_binary g inst u)"
    using assms by (auto simp: vi_binary_def bind_res_def split: sum.splits)
  show "ok_res vu_ok (ftoi x inst u)"
    unfolding ftoi_def using assms by (rule for_fields_res_ok) (auto simp: bind_res_def split: sum.splits)
qed (use assms in \<open>auto simp: vu_link_def\<close>)

lemma vu_store_ok: "vu_ok u \<Longrightarrow> ok_res vu_ok (store_fields inst a value u)"
  unfolding store_fields_def by (rule for_fields_res_ok) (simp_all add: vu_access_ok)

lemma vu_load_ok:
  assumes "vu_ok u"
  shows "ok_res vu_ok (load_integer inst a u)"
    "(\<And>source u'. vu_ok u' \<Longrightarrow> ok_res vu_ok (k source u')) \<Longrightarrow>
       ok_res vu_ok (bind_res (vu_bus_read a u) (\<lambda>(source, u'). k source u'))"
  using vu_access_ok(4)[OF assms, of a]
  by (auto simp: load_integer_def bind_res_def vu_access_ok split: sum.splits)

lemma value_bind_ok:
  assumes "\<And>v. ok_res vu_ok (k v)"
  shows "ok_res vu_ok (bind_res (vi_read n u) k)"
  using assms by (simp add: vi_read_def)

lemma conversion_bind_ok:
  assumes "\<And>v. ok_res vu_ok (k v)"
  shows "ok_res vu_ok (bind_res (uword_of_f32 x) k)"
  using assms by (cases "uword_of_f32 x") simp_all

lemma vu_total_ok [vu_op_ok]:
  assumes "vu_ok u"
  shows "vu_ok (VU_ITOF0 inst u)" "vu_ok (VU_ITOF4 inst u)" "vu_ok (VU_ITOF12 inst u)"
    "vu_ok (VU_ITOF15 inst u)" "vu_ok (VU_ESADD inst u)" "vu_ok (VU_ERSADD inst u)"
    "vu_ok (VU_ELENG inst u)" "vu_ok (VU_ERLENG inst u)" "vu_ok (VU_EATANxy lib inst u)"
    "vu_ok (VU_EATANxz lib inst u)" "vu_ok (VU_ESUM inst u)" "vu_ok (VU_ERCPR inst u)"
    "vu_ok (VU_ESQRT inst u)" "vu_ok (VU_ERSQRT inst u)" "vu_ok (VU_ESIN lib inst u)"
    "vu_ok (VU_EATAN lib inst u)" "vu_ok (VU_EEXP lib inst u)" "vu_ok (VU_FSSET inst u)"
    "vu_ok (VU_FCSET inst u)" "vu_ok (VU_NOP inst u)" "vu_ok (VU_CLIP inst u)"
    "vu_ok (VU_RINIT inst u)" "vu_ok (VU_RGET inst u)" "vu_ok (VU_RNEXT inst u)"
    "vu_ok (VU_RXOR inst u)" "vu_ok (VU_WAITQ inst u)" "vu_ok (VU_WAITP inst u)"
    "vu_ok (VU_B inst u)" "vu_ok (VU_XGKICK inst u)" "vu_ok (VU_LOI inst u)"
  using assms vu_okD[OF assms]
  by (simp_all add: vu_total_defs put_ok for_fields_ok Let_def status_upd_def w_defs)

lemma vu_partial_ok [vu_op_ok]:
  assumes "vu_ok u"
  shows "ok_res vu_ok (VU_FTOI0 inst u)" "ok_res vu_ok (VU_FTOI4 inst u)"
    "ok_res vu_ok (VU_FTOI12 inst u)" "ok_res vu_ok (VU_FTOI15 inst u)"
    "ok_res vu_ok (VU_FSAND inst u)" "ok_res vu_ok (VU_FSEQ inst u)"
    "ok_res vu_ok (VU_FSOR inst u)" "ok_res vu_ok (VU_FMAND inst u)"
    "ok_res vu_ok (VU_FMEQ inst u)" "ok_res vu_ok (VU_FMOR inst u)"
    "ok_res vu_ok (VU_FCAND inst u)" "ok_res vu_ok (VU_FCEQ inst u)"
    "ok_res vu_ok (VU_FCOR inst u)" "ok_res vu_ok (VU_FCGET inst u)"
    "ok_res vu_ok (VU_IADD inst u)" "ok_res vu_ok (VU_ISUB inst u)"
    "ok_res vu_ok (VU_IAND inst u)" "ok_res vu_ok (VU_IOR inst u)"
    "ok_res vu_ok (VU_IADDI inst u)" "ok_res vu_ok (VU_IADDIU inst u)"
    "ok_res vu_ok (VU_ISUBIU inst u)" "ok_res vu_ok (VU_IBEQ inst u)"
    "ok_res vu_ok (VU_IBNE inst u)" "ok_res vu_ok (VU_IBGEZ inst u)"
    "ok_res vu_ok (VU_IBGTZ inst u)" "ok_res vu_ok (VU_IBLEZ inst u)"
    "ok_res vu_ok (VU_IBLTZ inst u)" "ok_res vu_ok (VU_BAL inst u)" "ok_res vu_ok (VU_JR inst u)"
    "ok_res vu_ok (VU_JALR inst u)" "ok_res vu_ok (VU_XTOP v inst u)"
    "ok_res vu_ok (VU_XITOP v inst u)" "ok_res vu_ok (VU_MOVE inst u)"
    "ok_res vu_ok (VU_MFIR inst u)" "ok_res vu_ok (VU_MTIR inst u)"
    "ok_res vu_ok (VU_MR32 inst u)" "ok_res vu_ok (VU_MFP inst u)" "ok_res vu_ok (VU_LQ inst u)"
    "ok_res vu_ok (VU_LQD inst u)" "ok_res vu_ok (VU_LQI inst u)" "ok_res vu_ok (VU_SQ inst u)"
    "ok_res vu_ok (VU_SQD inst u)" "ok_res vu_ok (VU_SQI inst u)" "ok_res vu_ok (VU_ILW inst u)"
    "ok_res vu_ok (VU_ILWR inst u)" "ok_res vu_ok (VU_ISW inst u)" "ok_res vu_ok (VU_ISWR inst u)"
  unfolding vu_partial_defs Let_def using assms
  by (auto intro!: for_fields_res_ok value_bind_ok conversion_bind_ok ok_res_bind[OF vu_access_ok(1)] vu_load_ok(2) ok_res_bind[OF vu_store_ok] ok_res_bind[OF vu_access_ok(2)]
      ok_res_bind[OF vu_access_ok(5)] simp: vu_access_ok vu_store_ok vu_load_ok put_ok split: sum.splits)

section \<open>Behaviour\<close>

text \<open>
  A taken branch runs one more instruction; a branch in that slot runs one instruction at the
  first target and goes on at the second.
\<close>

lemma vu_branch_runs:
  fixes pc :: word_register
  assumes "\<not> reg_read_only pc" and "\<not> vu_is_branch_pending b" and "\<not> second_branch_pending b"
  shows "\<exists>b'. (vu_advance_pc ^^ 2) (vu_branch_to target b, pc) = (b', pc\<lparr>reg_val := target\<rparr>) \<and>
    \<not> vu_is_branch_pending b' \<and> \<not> second_branch_pending b'"
  using assms
  by (simp add: vu_branch_to_def vu_is_branch_pending_def vu_advance_pc_def numeral_2_eq_2 w_offset_def
      w_defs reg_write_def reg_read_def)

lemma vu_branch_in_slot:
  fixes pc :: word_register
  assumes "\<not> reg_read_only pc" and "\<not> vu_is_branch_pending b" and "\<not> second_branch_pending b"
    and "vu_advance_pc (vu_branch_to t1 b, pc) = (b1, pc1)"
  shows "reg_val pc1 = reg_val pc + 8"
    "\<exists>b2. vu_advance_pc (vu_branch_to t2 b1, pc1) = (b2, pc\<lparr>reg_val := t1\<rparr>) \<and>
       vu_advance_pc (b2, pc\<lparr>reg_val := t1\<rparr>) = (b2\<lparr>current_slot := 0\<rparr>, pc\<lparr>reg_val := t2\<rparr>)"
  using assms
  by (auto simp: vu_branch_to_def vu_is_branch_pending_def vu_advance_pc_def w_offset_def
      w_defs reg_write_def reg_read_def)

text \<open>The signed branches compare an unsigned value with zero.\<close>

lemma vu_sign_branches:
  assumes "vu_is inst < 16"
  shows "VU_IBGEZ inst u = Inr (vu_branch inst u)" "VU_IBLTZ inst u = Inr u"
    "VU_IBLEZ inst u = Inr (if h_read_uhword (u_vi u (vu_is inst)) = 0 then vu_branch inst u else u)"
  using assms
  by (auto simp: VU_IBGEZ_def VU_IBLTZ_def VU_IBLEZ_def vu_branch_if_def vi_read_def uint_0_iff
      uint_ge_0 not_less)

text \<open>The judgement of \<open>CLIP\<close>, and the three before it.\<close>

definition clip_bits :: "instruction \<Rightarrow> vu_unit \<Rightarrow> bool list" where
  "clip_bits inst u =
     (let ft = f32_abs (vf_lane (vu_ft inst) FW u); v = (\<lambda>field. vf_lane (vu_fs inst) field u)
      in concat (map (\<lambda>field. [f32_less (v field) (f32_negate ft), f32_less ft (v field)]) [FX, FY, FZ]))"

lemma clip_insert_bit:
  assumes "vu_ok u" and "k < 32"
  shows "bit (reg_val (u_clipping (clip_insert (BF k (Suc 0)) b u))) n \<longleftrightarrow>
    (if n = k then b else bit (reg_val (u_clipping u)) n)"
  using bit_insert_flag[OF vu_okD(6)[OF assms(1)] assms(2), of "truth b" n]
  by (simp add: clip_insert_def)

lemma shift_judgement_bit:
  assumes "\<not> reg_read_only r"
  shows "bit (reg_val (shift_judgement r)) n \<longleftrightarrow> 6 \<le> n \<and> n < 24 \<and> bit (reg_val r) (n - 6)"
proof -
  have m: "(0x00FFFFFF :: uword) = mask 24" by (simp add: mask_eq_exp_minus_1)
  have "reg_val (shift_judgement r) = push_bit 6 (reg_val r) AND mask 24"
    unfolding m[symmetric] using assms by (simp add: shift_judgement_def w_defs reg_read_def)
  then show ?thesis by (auto simp: bit_simps)
qed

lemma VU_CLIP_spec:
  assumes "vu_ok u"
  shows "bit (reg_val (u_clipping (VU_CLIP inst u))) n \<longleftrightarrow>
    (if n < 6 then clip_bits inst u ! n else n < 24 \<and> bit (reg_val (u_clipping u)) (n - 6))"
proof -
  have bits: "bit (reg_val (u_clipping (VU_CLIP inst u))) n \<longleftrightarrow>
    (if n = 4 then clip_bits inst u ! 4 else if n = 5 then clip_bits inst u ! 5
     else if n = 2 then clip_bits inst u ! 2 else if n = 3 then clip_bits inst u ! 3
     else if n = 0 then clip_bits inst u ! 0 else if n = 1 then clip_bits inst u ! 1
     else bit (reg_val (shift_judgement (u_clipping u))) n)"
    using assms by (simp add: VU_CLIP_def Let_def word_defs clip_insert_bit put_ok clip_bits_def)
  show ?thesis
  proof (cases "n < 6")
    case True
    then consider "n = 0" | "n = 1" | "n = 2" | "n = 3" | "n = 4" | "n = 5" by linarith
    then show ?thesis by cases (use bits in simp_all)
  next
    case False
    then show ?thesis using shift_judgement_bit[OF vu_okD(6)[OF assms]] by (simp add: bits)
  qed
qed

text \<open>The random register always holds a float in [1, 2); \<open>RNEXT\<close> leaves the destination alone.\<close>

lemma VU_RNEXT_spec:
  assumes "vu_ok u"
  shows "drop_bit 23 (reg_val (u_r (VU_RNEXT inst u))) = 0x7F"
    "drop_bit 23 (reg_val (u_r (VU_RINIT inst u))) = 0x7F"
    "u_vf (VU_RNEXT inst u) = u_vf u"
proof -
  have m: "(0x7FFFFF :: uword) = mask 23" by (simp add: mask_eq_exp_minus_1)
  have d: "drop_bit 23 ((x AND 0x7FFFFF) OR push_bit 23 0x7F) = (0x7F :: uword)" for x
    unfolding m by (rule bit_word_eqI) (auto simp: bit_simps)
  show "drop_bit 23 (reg_val (u_r (VU_RNEXT inst u))) = 0x7F"
    "drop_bit 23 (reg_val (u_r (VU_RINIT inst u))) = 0x7F" "u_vf (VU_RNEXT inst u) = u_vf u"
    using vu_okD(9)[OF assms] d
    by (simp_all add: VU_RNEXT_def VU_RINIT_def r_put_def Let_def w_defs reg_read_def)
qed

text \<open>
  \<open>MOVE\<close> takes the value for the offset: a lane above 3 in the first field of \<open>dest\<close> is an
  invalid offset, and a small one stores the field's number at that offset.
\<close>

lemma VU_MOVE_X:
  assumes "test_dest_field inst FX"
  shows "unat (vf_lane (vu_fs inst) FX u) \<ge> 4 \<Longrightarrow> VU_MOVE inst u = Inl Invalid_offset"
  using assms
  by (simp add: VU_MOVE_def for_fields_res_def VECTOR_FIELDS_def vf_write_at_def q_write_uword_checked_def)

text \<open>\<open>IADD\<close> and its kin write their first source.\<close>

lemma VU_IADD_spec:
  assumes "vu_is inst < 16" and "vu_it inst < 16"
  shows "VU_IADD inst u = vi_write (vu_is inst)
    (h_read_uhword (u_vi u (vu_is inst)) + h_read_uhword (u_vi u (vu_it inst))) u"
  using assms by (simp add: VU_IADD_def vi_binary_def vi_read_def vu_id_def vu_is_def)

end
