(* ===== verification/EeOthers.thy ===== *)
theory EeOthers
  imports EeTranslate EeLanes
begin

text \<open>
  \<open>CEeCoreInterpreter_OTHERS.cpp\<close>: synchronisation and cache hints (nothing to do in an
  emulator), the interrupt enable, and the instructions that probe, read and write the TLB.
\<close>

definition INDEX_INDEX :: bitfield where [word_defs]: "INDEX_INDEX = BF 0 6"
definition PAGEMASK_MASK :: bitfield where [word_defs]: "PAGEMASK_MASK = BF 13 12"
definition ENTRYLO_G :: bitfield where [word_defs]: "ENTRYLO_G = BF 0 1"
definition ENTRYLO_V :: bitfield where [word_defs]: "ENTRYLO_V = BF 1 1"
definition ENTRYLO_D :: bitfield where [word_defs]: "ENTRYLO_D = BF 2 1"
definition ENTRYLO_C :: bitfield where [word_defs]: "ENTRYLO_C = BF 3 3"
definition ENTRYLO_PFN :: bitfield where [word_defs]: "ENTRYLO_PFN = BF 6 20"
definition ENTRYLO0_S :: bitfield where [word_defs]: "ENTRYLO0_S = BF 31 1"

section \<open>Instructions\<close>

definition SYNC_STYPE :: "instruction \<Rightarrow> ee_state \<Rightarrow> ee_state" where
  "SYNC_STYPE inst s = s"
definition PREF :: "instruction \<Rightarrow> ee_state \<Rightarrow> ee_state" where
  "PREF inst s = s"
definition CACHE :: "instruction \<Rightarrow> ee_state \<Rightarrow> ee_state" where
  "CACHE inst s = s"

definition interrupt_enable_allowed :: "ee_cop0 \<Rightarrow> bool" where
  "interrupt_enable_allowed c \<longleftrightarrow>
     status_field STATUS_EDI c = 1 \<or> status_field STATUS_EXL c = 1 \<or>
     status_field STATUS_ERL c = 1 \<or> status_field STATUS_KSU c = 0"

definition DI :: "instruction \<Rightarrow> ee_state \<Rightarrow> ee_state res" where
  "DI inst s =
     (if interrupt_enable_allowed (e_cop0 s) then cop0_res (status_insert_field STATUS_EIE 0) s else Inr s)"

definition EI :: "instruction \<Rightarrow> ee_state \<Rightarrow> ee_state res" where
  "EI inst s =
     (if interrupt_enable_allowed (e_cop0 s) then cop0_res (status_insert_field STATUS_EIE 1) s else Inr s)"

definition TLBP :: "instruction \<Rightarrow> ee_state \<Rightarrow> ee_state res" where
  "TLBP inst s =
     guarded handle_cop0_usable (\<lambda>s.
       let c = e_cop0 s;
           searchVpn2 = push_bit 13 (c0_extract_field C0_ENTRYHI ENTRYHI_VPN2 c);
           tlb_index = find_tlb_entry_index searchVpn2 (e_tlb s)
       in if tlb_index = -1 then
            Inr (cop0_upd (c0_insert_field C0_INDEX INDEX_INDEX 0x80000000) s)
          else bind_res (tlb_entry_at (nat tlb_index) (e_tlb s)) (\<lambda>e.
            if ucast (te_asid e) = c0_extract_field C0_ENTRYHI ENTRYHI_ASID c \<or> te_g e
            then Inr (cop0_upd (c0_insert_field C0_INDEX INDEX_INDEX (of_int tlb_index)) s)
            else Inr s)) s"

abbreviation flag_word :: "bool \<Rightarrow> uword" where
  "flag_word b \<equiv> (if b then 1 else 0)"

definition entry_lo :: "tlb_entry \<Rightarrow> tlb_physical_info \<Rightarrow> nat \<Rightarrow> ee_cop0 \<Rightarrow> ee_cop0" where
  "entry_lo e info n c =
     c0_insert_field n ENTRYLO_G (flag_word (te_g e))
       (c0_insert_field n ENTRYLO_V (flag_word (pi_v info))
         (c0_insert_field n ENTRYLO_D (flag_word (pi_d info))
           (c0_insert_field n ENTRYLO_C (flag_word (pi_c info))
             (c0_insert_field n ENTRYLO_PFN (pi_pfn info) c))))"

definition read_entry :: "tlb_entry \<Rightarrow> ee_cop0 \<Rightarrow> ee_cop0" where
  "read_entry e c =
     (let c1 = c0_insert_field C0_PAGEMASK PAGEMASK_MASK (pagemask (te_mask e)) c;
          c2 = c0_insert_field C0_ENTRYHI ENTRYHI_ASID (ucast (te_asid e)) c1;
          c3 = c0_insert_field C0_ENTRYHI ENTRYHI_VPN2 (te_vpn2 e) c2;
          c4 = c0_insert_field C0_ENTRYLO0 ENTRYLO0_S (flag_word (te_s e)) c3;
          c5 = entry_lo e (physical_info e 0) C0_ENTRYLO0 c4
      in entry_lo e (physical_info e 1) C0_ENTRYLO1 c5)"

definition TLBR :: "instruction \<Rightarrow> ee_state \<Rightarrow> ee_state res" where
  "TLBR inst s =
     guarded handle_cop0_usable (\<lambda>s.
       bind_res (tlb_entry_at (unat (c0_extract_field C0_INDEX INDEX_INDEX (e_cop0 s))) (e_tlb s)) (\<lambda>e.
         Inr (cop0_upd (read_entry e) s))) s"

definition lo_info :: "nat \<Rightarrow> ee_cop0 \<Rightarrow> tlb_physical_info" where
  "lo_info n c =
     \<lparr>pi_pfn = c0_extract_field n ENTRYLO_PFN c, pi_c = c0_extract_field n ENTRYLO_C c > 0,
      pi_d = c0_extract_field n ENTRYLO_D c > 0, pi_v = c0_extract_field n ENTRYLO_V c > 0\<rparr>"

definition cop0_entry :: "ee_cop0 \<Rightarrow> tlb_entry res" where
  "cop0_entry c =
     bind_res (Mask_new (c0_extract_field C0_PAGEMASK PAGEMASK_MASK c)) (\<lambda>m.
       Inr \<lparr>te_mask = m,
            te_vpn2 = c0_extract_field C0_ENTRYHI ENTRYHI_VPN2 c,
            te_g = (c0_extract_field C0_ENTRYLO0 ENTRYLO_G c AND c0_extract_field C0_ENTRYLO1 ENTRYLO_G c > 0),
            te_asid = ucast (c0_extract_field C0_ENTRYHI ENTRYHI_ASID c),
            te_s = (c0_extract_field C0_ENTRYLO0 ENTRYLO0_S c > 0),
            te_even = lo_info C0_ENTRYLO0 c, te_odd = lo_info C0_ENTRYLO1 c\<rparr>)"

definition write_entry :: "nat \<Rightarrow> ee_state \<Rightarrow> ee_state res" where
  "write_entry i s =
     bind_res (cop0_entry (e_cop0 s)) (\<lambda>e.
       bind_res (set_tlb_entry_at e i (e_tlb s)) (\<lambda>t.
         Inr (flush_translation_caches (s\<lparr>e_tlb := t\<rparr>))))"

definition TLBWI :: "instruction \<Rightarrow> ee_state \<Rightarrow> ee_state res" where
  "TLBWI inst s =
     guarded handle_cop0_usable (\<lambda>s.
       write_entry (unat (c0_extract_field C0_INDEX INDEX_INDEX (e_cop0 s))) s) s"

definition TLBWR :: "instruction \<Rightarrow> ee_state \<Rightarrow> ee_state res" where
  "TLBWR inst s =
     guarded handle_cop0_usable (\<lambda>s.
       write_entry (unat (c0_extract_field C0_RANDOM RANDOM_RANDOM (e_cop0 s))) s) s"

lemmas tlb_op_defs = TLBP_def TLBR_def TLBWI_def TLBWR_def

section \<open>Well-formedness\<close>

lemma cop0_inv_entry_lo: "cop0_inv c \<Longrightarrow> n \<noteq> C0_STATUS \<Longrightarrow> cop0_inv (entry_lo e info n c)"
  by (auto simp: entry_lo_def intro!: cop0_inv_insert)

lemma cop0_inv_read_entry: "cop0_inv c \<Longrightarrow> cop0_inv (read_entry e c)"
  by (auto simp: read_entry_def Let_def intro!: cop0_inv_insert cop0_inv_entry_lo)

lemma write_entry_ok: "ee_ok s \<Longrightarrow> ok_res ee_ok (write_entry i s)"
  using set_tlb_entry_ok[OF ee_okD(2), of s]
  by (auto simp: write_entry_def bind_res_def intro!: ee_ok_flush ee_ok_upd dest: ok_resD split: sum.splits)

lemma tlb_ops_ok:
  assumes "ee_ok s"
  shows "ee_ok (SYNC_STYPE inst s)" "ee_ok (PREF inst s)" "ee_ok (CACHE inst s)"
    "ok_res ee_ok (DI inst s)" "ok_res ee_ok (EI inst s)" "ok_res ee_ok (TLBP inst s)"
    "ok_res ee_ok (TLBR inst s)" "ok_res ee_ok (TLBWI inst s)" "ok_res ee_ok (TLBWR inst s)"
proof -
  have i: "cop0_inv (c0_insert_field C0_INDEX f v (e_cop0 s1))" "cop0_inv (read_entry e (e_cop0 s1))"
    if "ee_ok s1" for s1 f v e
    using ee_okD(1)[OF that] by (auto intro: cop0_inv_insert cop0_inv_read_entry)
  show "ok_res ee_ok (TLBP inst s)" "ok_res ee_ok (TLBR inst s)"
    using assms unfolding TLBP_def TLBR_def Let_def
    by (auto intro!: ok_guarded ok_checks simp: bind_res_def i ee_ok_cop0_upd split: sum.splits)
  show "ok_res ee_ok (TLBWI inst s)" "ok_res ee_ok (TLBWR inst s)"
    using assms unfolding TLBWI_def TLBWR_def by (auto intro!: ok_guarded ok_checks write_entry_ok)
  show "ok_res ee_ok (DI inst s)" "ok_res ee_ok (EI inst s)"
    using assms ee_okD(1)[OF assms] by (auto simp: DI_def EI_def)
qed (use assms in \<open>simp_all add: SYNC_STYPE_def PREF_def CACHE_def\<close>)

text \<open>A TLB write keeps the entries' masks valid and leaves no stale translation behind.\<close>

lemma write_entry_sound:
  assumes "tlb_wf (e_tlb s)" and "write_entry i s = Inr s'"
  shows "tlb_wf (e_tlb s')" "data_cache_sound s'"
proof -
  obtain e where e: "cop0_entry (e_cop0 s) = Inr e" and i: "i < length (e_tlb s)"
    and s': "s' = flush_translation_caches (s\<lparr>e_tlb := (e_tlb s)[i := e]\<rparr>)"
    using assms(2) by (auto simp: write_entry_def set_tlb_entry_at_def split: if_splits)
  have "\<exists>pm. Mask_new pm = Inr (te_mask e)" using e by (auto simp: cop0_entry_def)
  then show "tlb_wf (e_tlb s')"
    using assms(1) subsetD[OF set_update_subset_insert[of "e_tlb s" i e]]
    by (fastforce simp: tlb_wf_def s' flush_translation_caches_def)
  show "data_cache_sound s'"
    by (rule data_cache_sound_flushed) (simp add: s' flush_translation_caches_def)
qed

section \<open>Writing, reading back and probing an entry\<close>

lemma c0_insert_same: "c0_insert_field n f (c0_extract_field n f c) c = c"
proof -
  have "c0_raw_write n (c0_raw n c) c = c"
    by (cases "reg_read_only (c0_reg c n)")
      (simp_all add: c0_raw_write_def c0_raw_def w_defs reg_read_def reg_write_def)
  then show ?thesis by (simp add: c0_insert_field_def c0_extract_field_def)
qed

lemma word_le_1: "(v :: uword) \<le> 1 \<longleftrightarrow> v = 0 \<or> v = 1"
proof
  assume "v \<le> 1"
  then have "unat v = 0 \<or> unat v = 1" by (simp add: word_le_nat_alt le_Suc_eq)
  moreover have "v = of_nat (unat v)" by simp
  ultimately show "v = 0 \<or> v = 1" using of_nat_0 of_nat_1 by fastforce
next
  assume "v = 0 \<or> v = 1"
  then show "v \<le> 1" by (elim disjE) simp_all
qed

lemma flag_word_extract:
  assumes "bf_length f = 1"
  shows "flag_word (c0_extract_field n f c > 0) = c0_extract_field n f c"
proof -
  have "unat (c0_extract_field n f c) < 2"
    using unat_extract_from_less[of f "c0_raw n c"] assms by (simp add: c0_extract_field_def)
  then have "c0_extract_field n f c \<le> 1" by (simp add: word_le_nat_alt)
  then show ?thesis by (auto simp: word_le_1)
qed

lemma asid_field:
  "ucast (ucast (c0_extract_field C0_ENTRYHI ENTRYHI_ASID c) :: ubyte) = c0_extract_field C0_ENTRYHI ENTRYHI_ASID c"
proof -
  have "take_bit 8 (c0_extract_field C0_ENTRYHI ENTRYHI_ASID c) = c0_extract_field C0_ENTRYHI ENTRYHI_ASID c"
    by (simp add: c0_extract_field_def extract_from_eq ENTRYHI_ASID_def)
  moreover have "ucast (ucast (w :: uword) :: ubyte) = take_bit 8 w" for w
    by (rule bit_word_eqI) (auto simp: bit_simps)
  ultimately show ?thesis by simp
qed

lemma Mask_new_pagemask: "Mask_new pm = Inr m \<Longrightarrow> pagemask m = pm"
  by (auto simp: Mask_new_def split: if_splits)

text \<open>
  A probe that finds nothing clears the index field and leaves the probe-failure bit P as it
  was: the value it inserts has P set, but the field has six bits.
\<close>

lemma TLBP_not_found:
  assumes "cop0_is_usable (e_cop0 s)"
    and "\<forall>i<47. \<not> is_match (e_tlb s) (push_bit 13 (c0_extract_field C0_ENTRYHI ENTRYHI_VPN2 (e_cop0 s))) i"
    and "\<not> reg_read_only (c0_reg (e_cop0 s) C0_INDEX)"
  shows "\<exists>s'. TLBP inst s = Inr s' \<and>
    (\<forall>n. bit (c0_raw C0_INDEX (e_cop0 s')) n \<longleftrightarrow> n \<ge> 6 \<and> bit (c0_raw C0_INDEX (e_cop0 s)) n)"
proof -
  let ?s = "cop0_upd (c0_insert_field C0_INDEX INDEX_INDEX 0x80000000) s"
  have "TLBP inst s = Inr ?s"
    using assms(1,2) find_tlb_miss
    by (simp add: TLBP_def guarded_def handle_cop0_usable_def)
  moreover have "bit (c0_raw C0_INDEX (e_cop0 ?s)) n \<longleftrightarrow> n \<ge> 6 \<and> bit (c0_raw C0_INDEX (e_cop0 s)) n" for n
  proof -
    have p: "(0x80000000 :: uword) = push_bit 31 1" by simp
    have "c0_raw C0_INDEX (e_cop0 ?s) = insert_into (BF 0 6) (c0_raw C0_INDEX (e_cop0 s)) (push_bit 31 1)"
      unfolding p using assms(3)
      by (simp only: cop0_upd_frame c0_insert_field_def INDEX_INDEX_def c0_raw_write_same[OF assms(3)])
    moreover have "\<not> bit (push_bit 31 (1 :: uword)) k" if "k < 6" for k
      using that by (simp only: bit_push_bit_iff) simp
    ultimately show ?thesis by (auto simp only: bit_insert_into bitfield.simps dest: bit_imp_le_length split: if_splits)
  qed
  ultimately show ?thesis by blast
qed

lemma find_tlb_unique:
  assumes "i < 47" and "is_match t va i" and "\<And>j. j < 47 \<Longrightarrow> is_match t va j \<Longrightarrow> j = i"
  shows "find_tlb_entry_index va t = int i"
proof -
  have "find_tlb_entry_index va t \<noteq> -1" using assms(1,2) find_tlb_miss by blast
  from find_tlb_hit[OF this] show ?thesis using assms(3)[of "nat (find_tlb_entry_index va t)"] by simp
qed

lemma page_field:
  "drop_bit 13 (push_bit 13 (take_bit 19 (v :: uword)) AND NOT (mask (Suc 12))) = take_bit 19 v"
  by (rule bit_word_eqI) (auto simp: bit_and_iff bit_not_iff bit_mask_iff bit_drop_bit_eq bit_push_bit_iff bit_take_bit_iff)

text \<open>An entry written for a 4 KB page pair that no other searched entry matches is found.\<close>

lemma written_entry_found:
  assumes e: "cop0_entry c = Inr e" and pm: "c0_extract_field C0_PAGEMASK PAGEMASK_MASK c = 0"
    and len: "i < length t" and i: "i < 47"
    and free: "\<And>j. j < 47 \<Longrightarrow> is_match t (push_bit 13 (c0_extract_field C0_ENTRYHI ENTRYHI_VPN2 c)) j \<Longrightarrow> j = i"
  shows "find_tlb_entry_index (push_bit 13 (c0_extract_field C0_ENTRYHI ENTRYHI_VPN2 c)) (t[i := e]) = int i"
proof -
  let ?va = "push_bit 13 (c0_extract_field C0_ENTRYHI ENTRYHI_VPN2 c)"
  have v: "te_vpn2 e = c0_extract_field C0_ENTRYHI ENTRYHI_VPN2 c" and mk: "Mask_new 0 = Inr (te_mask e)"
    using e pm by (auto simp: cop0_entry_def)
  have m: "vpn_mask (te_mask e) = NOT (mask (Suc 12))"
    by (rule Mask_new_vpn[OF mk]) (simp add: mask_shift_def)
  have "drop_bit 13 (?va AND NOT (mask (Suc 12))) = te_vpn2 e"
    unfolding v c0_extract_field_def ENTRYHI_VPN2_def by (simp only: extract_from_eq bitfield.simps page_field)
  then have "is_match (t[i := e]) ?va i"
    by (simp only: is_match_def entry_match_def m nth_list_update_eq[OF len] simp_thms)
  moreover have "j = i" if "j < 47" "is_match (t[i := e]) ?va j" for j
  proof (rule ccontr)
    assume "j \<noteq> i"
    then have "is_match t ?va j" using that(2) by (simp only: is_match_def nth_list_update_neq not_sym)
    then show False using free[OF that(1)] \<open>j \<noteq> i\<close> by blast
  qed
  ultimately show ?thesis using i by (intro find_tlb_unique)
qed

end
