(* ===== verification/EeCop2.thy ===== *)
theory EeCop2
  imports EeMemory EeOthers VuOther
begin

text \<open>
  \<open>CEeCoreInterpreter_COP2.cpp\<close> and the COP2 loads and stores: the EE core together with VU0,
  its second coprocessor.  The state joins the core, VU0 and the registers of the VPU that the
  control register array of VU0 points at.  The mapped objects are shared: an access of VU0
  through its own bus goes to the objects of the EE bus.
\<close>

section \<open>The core and its vector unit\<close>

record ee_sys =
  sys_ee :: ee_state
  sys_vu0 :: vu_unit
  sys_fbrst :: word_register
  sys_vpu_stat :: word_register
  sys_cmsar1 :: word_register

definition vu0_is_usable :: "ee_cop0 \<Rightarrow> bool" where
  "vu0_is_usable c \<longleftrightarrow> status_field STATUS_CU c AND 0x4 > 0"

definition handle_cop2_usable :: "ee_state \<Rightarrow> (bool \<times> ee_state) res" where
  "handle_cop2_usable s =
     (if \<not> vu0_is_usable (e_cop0 s) then coprocessor_unusable 2 s else Inr (True, s))"

definition on_ee :: "(ee_state \<Rightarrow> ee_state res) \<Rightarrow> ee_sys \<Rightarrow> ee_sys res" where
  "on_ee f s = bind_res (f (sys_ee s)) (\<lambda>e. Inr (s\<lparr>sys_ee := e\<rparr>))"

definition cop2_guarded :: "(ee_sys \<Rightarrow> ee_sys res) \<Rightarrow> ee_sys \<Rightarrow> ee_sys res" where
  "cop2_guarded body s =
     bind_res (handle_cop2_usable (sys_ee s)) (\<lambda>(ok, e).
       let s1 = s\<lparr>sys_ee := e\<rparr> in if \<not> ok then Inr s1 else body s1)"

text \<open>VU0 at work on the shared objects.\<close>

definition lend_objects :: "ee_sys \<Rightarrow> vu_unit" where
  "lend_objects s =
     (let u = sys_vu0 s in u\<lparr>u_bus := (u_bus u)\<lparr>bus_objects := bus_objects (e_bus (sys_ee s))\<rparr>\<rparr>)"

definition return_objects :: "vu_unit \<Rightarrow> ee_sys \<Rightarrow> ee_sys" where
  "return_objects u s =
     (let e = sys_ee s
      in s\<lparr>sys_vu0 := u, sys_ee := e\<lparr>e_bus := (e_bus e)\<lparr>bus_objects := bus_objects (u_bus u)\<rparr>\<rparr>\<rparr>)"

definition vu0_partial :: "(vu_unit \<Rightarrow> vu_unit res) \<Rightarrow> ee_sys \<Rightarrow> ee_sys res" where
  "vu0_partial f =
     cop2_guarded (\<lambda>s. bind_res (f (lend_objects s)) (\<lambda>u. Inr (return_objects u s)))"

definition vu0_total :: "(vu_unit \<Rightarrow> vu_unit) \<Rightarrow> ee_sys \<Rightarrow> ee_sys res" where
  "vu0_total f = cop2_guarded (\<lambda>s. Inr (return_objects (f (lend_objects s)) s))"

section \<open>Control registers\<close>

text \<open>
  The array \<open>ccr\<close> of VU0, as \<open>RResources.cpp\<close> fills it: the integer registers through their
  mappers, then the flag, scalar and control registers; the other entries are null.
\<close>

definition ccr_read :: "nat \<Rightarrow> ee_sys \<Rightarrow> uword res" where
  "ccr_read n s =
     (let u = sys_vu0 s in
      if n < 16 then Inr (mapper_read_uword (u_vi u n))
      else if n = 16 then Inr (w_read_uword (u_status u))
      else if n = 17 then Inr (w_read_uword (u_mac u))
      else if n = 18 then Inr (w_read_uword (u_clipping u))
      else if n = 20 then Inr (w_read_uword (u_r u))
      else if n = 21 then Inr (w_read_uword (u_i u))
      else if n = 22 then Inr (w_read_uword (u_q u))
      else if n = 26 then Inr (w_read_uword (u_pc u))
      else if n = 27 then Inr (w_read_uword (u_cmsar u))
      else if n = 28 then Inr (w_read_uword (sys_fbrst s))
      else if n = 29 then Inr (w_read_uword (sys_vpu_stat s))
      else if n = 31 then Inr (w_read_uword (sys_cmsar1 s))
      else Inl Null_object)"

definition ccr_write :: "nat \<Rightarrow> uword \<Rightarrow> ee_sys \<Rightarrow> ee_sys res" where
  "ccr_write n v s =
     (let u = sys_vu0 s; w = w_write_uword v; vu = (\<lambda>u'. Inr (s\<lparr>sys_vu0 := u'\<rparr>)) in
      if n < 16 then vu (u\<lparr>u_vi := (u_vi u)(n := mapper_write_uword v (u_vi u n))\<rparr>)
      else if n = 16 then vu (u\<lparr>u_status := w (u_status u)\<rparr>)
      else if n = 17 then vu (u\<lparr>u_mac := w (u_mac u)\<rparr>)
      else if n = 18 then vu (u\<lparr>u_clipping := w (u_clipping u)\<rparr>)
      else if n = 20 then vu (u\<lparr>u_r := w (u_r u)\<rparr>)
      else if n = 21 then vu (u\<lparr>u_i := w (u_i u)\<rparr>)
      else if n = 22 then vu (u\<lparr>u_q := w (u_q u)\<rparr>)
      else if n = 26 then vu (u\<lparr>u_pc := w (u_pc u)\<rparr>)
      else if n = 27 then vu (u\<lparr>u_cmsar := w (u_cmsar u)\<rparr>)
      else if n = 28 then Inr (s\<lparr>sys_fbrst := w (sys_fbrst s)\<rparr>)
      else if n = 29 then Inr (s\<lparr>sys_vpu_stat := w (sys_vpu_stat s)\<rparr>)
      else if n = 31 then Inr (s\<lparr>sys_cmsar1 := w (sys_cmsar1 s)\<rparr>)
      else Inl Null_object)"

section \<open>Transfers\<close>

definition inst_i :: "instruction \<Rightarrow> nat" where
  "inst_i i = unat (extract_from (BF 0 1) i)"

definition interlock_free :: "instruction \<Rightarrow> (ee_sys \<Rightarrow> ee_sys res) \<Rightarrow> ee_sys \<Rightarrow> ee_sys res" where
  "interlock_free inst body s = (if inst_i inst > 0 then Inl Runtime_error else body s)"

definition QMFC2 :: "instruction \<Rightarrow> ee_sys \<Rightarrow> ee_sys res" where
  "QMFC2 inst =
     cop2_guarded (interlock_free inst (\<lambda>s.
       let src = u_vf (sys_vu0 s) (inst_rd inst)
       in on_ee (\<lambda>e. Inr (gpr_upd (inst_rt inst) (\<lambda>r.
            q_write_udword 1 (q_read_udword 1 src) (q_write_udword 0 (q_read_udword 0 src) r)) e)) s))"

definition QMTC2 :: "instruction \<Rightarrow> ee_sys \<Rightarrow> ee_sys res" where
  "QMTC2 inst =
     cop2_guarded (interlock_free inst (\<lambda>s.
       let src = e_gpr (sys_ee s) (inst_rt inst)
       in Inr (s\<lparr>sys_vu0 := vf_upd (inst_rd inst) (\<lambda>r.
            q_write_udword 1 (q_read_udword 1 src) (q_write_udword 0 (q_read_udword 0 src) r)) (sys_vu0 s)\<rparr>)))"

definition CFC2 :: "instruction \<Rightarrow> ee_sys \<Rightarrow> ee_sys res" where
  "CFC2 inst =
     cop2_guarded (interlock_free inst (\<lambda>s.
       bind_res (ccr_read (inst_rd inst) s) (\<lambda>v.
         on_ee (\<lambda>e. Inr (gpr_upd (inst_rt inst) (q_write_udword 0 (ucast v)) e)) s)))"

definition CTC2 :: "instruction \<Rightarrow> ee_sys \<Rightarrow> ee_sys res" where
  "CTC2 inst =
     cop2_guarded (interlock_free inst (\<lambda>s.
       ccr_write (inst_rd inst) (gpr_w (inst_rt inst) (sys_ee s)) s))"

definition LQC2 :: "instruction \<Rightarrow> ee_sys \<Rightarrow> ee_sys res" where
  "LQC2 inst =
     cop2_guarded (\<lambda>s.
       bind_res (translate_address_data (effective_address inst (sys_ee s)) READ (sys_ee s)) (\<lambda>(physical_address, e).
         case physical_address of
           None \<Rightarrow> Inr (s\<lparr>sys_ee := e\<rparr>)
         | Some pa \<Rightarrow> bind_res (bus_read_uqword pa (e_bus e)) (\<lambda>(v, b).
             Inr (s\<lparr>sys_ee := e\<lparr>e_bus := b\<rparr>,
                    sys_vu0 := vf_upd (inst_rt inst) (q_write_uqword v) (sys_vu0 s)\<rparr>))))"

definition SQC2 :: "instruction \<Rightarrow> ee_sys \<Rightarrow> ee_sys res" where
  "SQC2 inst =
     cop2_guarded (\<lambda>s.
       on_ee (with_address (effective_address inst (sys_ee s)) WRITE (\<lambda>pa.
         ee_write (bus_write_uqword pa (q_read_uqword (u_vf (sys_vu0 s) (inst_rt inst)))))) s)"

section \<open>Branches and macro instructions\<close>

text \<open>
  The debug build logs the branches and calls, which are not implemented, and goes on; the
  macro instructions run the instruction of the VU0 interpreter.
\<close>

definition BC2F :: "instruction \<Rightarrow> ee_sys \<Rightarrow> ee_sys res" where
  "BC2F inst = cop2_guarded Inr"

definition BC2FL :: "instruction \<Rightarrow> ee_sys \<Rightarrow> ee_sys res" where
  "BC2FL inst = cop2_guarded Inr"

definition BC2T :: "instruction \<Rightarrow> ee_sys \<Rightarrow> ee_sys res" where
  "BC2T inst = cop2_guarded Inr"

definition BC2TL :: "instruction \<Rightarrow> ee_sys \<Rightarrow> ee_sys res" where
  "BC2TL inst = cop2_guarded Inr"

definition VCALLMS :: "instruction \<Rightarrow> ee_sys \<Rightarrow> ee_sys res" where
  "VCALLMS inst = cop2_guarded Inr"

definition VCALLMSR :: "instruction \<Rightarrow> ee_sys \<Rightarrow> ee_sys res" where
  "VCALLMSR inst = cop2_guarded Inr"

definition VABS :: "instruction \<Rightarrow> ee_sys \<Rightarrow> ee_sys res" where
  "VABS inst = vu0_total (VU_ABS inst)"

definition VADD :: "instruction \<Rightarrow> ee_sys \<Rightarrow> ee_sys res" where
  "VADD inst = vu0_total (VU_ADD inst)"

definition VADDi :: "instruction \<Rightarrow> ee_sys \<Rightarrow> ee_sys res" where
  "VADDi inst = vu0_total (VU_ADDi inst)"

definition VADDq :: "instruction \<Rightarrow> ee_sys \<Rightarrow> ee_sys res" where
  "VADDq inst = vu0_total (VU_ADDq inst)"

definition VADDbc_0 :: "instruction \<Rightarrow> ee_sys \<Rightarrow> ee_sys res" where
  "VADDbc_0 inst = vu0_total (VU_ADDbc_0 inst)"

definition VADDbc_1 :: "instruction \<Rightarrow> ee_sys \<Rightarrow> ee_sys res" where
  "VADDbc_1 inst = vu0_total (VU_ADDbc_1 inst)"

definition VADDbc_2 :: "instruction \<Rightarrow> ee_sys \<Rightarrow> ee_sys res" where
  "VADDbc_2 inst = vu0_total (VU_ADDbc_2 inst)"

definition VADDbc_3 :: "instruction \<Rightarrow> ee_sys \<Rightarrow> ee_sys res" where
  "VADDbc_3 inst = vu0_total (VU_ADDbc_3 inst)"

definition VADDA :: "instruction \<Rightarrow> ee_sys \<Rightarrow> ee_sys res" where
  "VADDA inst = vu0_total (VU_ADDA inst)"

definition VADDAi :: "instruction \<Rightarrow> ee_sys \<Rightarrow> ee_sys res" where
  "VADDAi inst = vu0_total (VU_ADDAi inst)"

definition VADDAq :: "instruction \<Rightarrow> ee_sys \<Rightarrow> ee_sys res" where
  "VADDAq inst = vu0_total (VU_ADDAq inst)"

definition VADDAbc_0 :: "instruction \<Rightarrow> ee_sys \<Rightarrow> ee_sys res" where
  "VADDAbc_0 inst = vu0_total (VU_ADDAbc_0 inst)"

definition VADDAbc_1 :: "instruction \<Rightarrow> ee_sys \<Rightarrow> ee_sys res" where
  "VADDAbc_1 inst = vu0_total (VU_ADDAbc_1 inst)"

definition VADDAbc_2 :: "instruction \<Rightarrow> ee_sys \<Rightarrow> ee_sys res" where
  "VADDAbc_2 inst = vu0_total (VU_ADDAbc_2 inst)"

definition VADDAbc_3 :: "instruction \<Rightarrow> ee_sys \<Rightarrow> ee_sys res" where
  "VADDAbc_3 inst = vu0_total (VU_ADDAbc_3 inst)"

definition VSUB :: "instruction \<Rightarrow> ee_sys \<Rightarrow> ee_sys res" where
  "VSUB inst = vu0_total (VU_SUB inst)"

definition VSUBi :: "instruction \<Rightarrow> ee_sys \<Rightarrow> ee_sys res" where
  "VSUBi inst = vu0_total (VU_SUBi inst)"

definition VSUBq :: "instruction \<Rightarrow> ee_sys \<Rightarrow> ee_sys res" where
  "VSUBq inst = vu0_total (VU_SUBq inst)"

definition VSUBbc_0 :: "instruction \<Rightarrow> ee_sys \<Rightarrow> ee_sys res" where
  "VSUBbc_0 inst = vu0_total (VU_SUBbc_0 inst)"

definition VSUBbc_1 :: "instruction \<Rightarrow> ee_sys \<Rightarrow> ee_sys res" where
  "VSUBbc_1 inst = vu0_total (VU_SUBbc_1 inst)"

definition VSUBbc_2 :: "instruction \<Rightarrow> ee_sys \<Rightarrow> ee_sys res" where
  "VSUBbc_2 inst = vu0_total (VU_SUBbc_2 inst)"

definition VSUBbc_3 :: "instruction \<Rightarrow> ee_sys \<Rightarrow> ee_sys res" where
  "VSUBbc_3 inst = vu0_total (VU_SUBbc_3 inst)"

definition VSUBA :: "instruction \<Rightarrow> ee_sys \<Rightarrow> ee_sys res" where
  "VSUBA inst = vu0_total (VU_SUBA inst)"

definition VSUBAi :: "instruction \<Rightarrow> ee_sys \<Rightarrow> ee_sys res" where
  "VSUBAi inst = vu0_total (VU_SUBAi inst)"

definition VSUBAq :: "instruction \<Rightarrow> ee_sys \<Rightarrow> ee_sys res" where
  "VSUBAq inst = vu0_total (VU_SUBAq inst)"

definition VSUBAbc_0 :: "instruction \<Rightarrow> ee_sys \<Rightarrow> ee_sys res" where
  "VSUBAbc_0 inst = vu0_total (VU_SUBAbc_0 inst)"

definition VSUBAbc_1 :: "instruction \<Rightarrow> ee_sys \<Rightarrow> ee_sys res" where
  "VSUBAbc_1 inst = vu0_total (VU_SUBAbc_1 inst)"

definition VSUBAbc_2 :: "instruction \<Rightarrow> ee_sys \<Rightarrow> ee_sys res" where
  "VSUBAbc_2 inst = vu0_total (VU_SUBAbc_2 inst)"

definition VSUBAbc_3 :: "instruction \<Rightarrow> ee_sys \<Rightarrow> ee_sys res" where
  "VSUBAbc_3 inst = vu0_total (VU_SUBAbc_3 inst)"

definition VMUL :: "instruction \<Rightarrow> ee_sys \<Rightarrow> ee_sys res" where
  "VMUL inst = vu0_total (VU_MUL inst)"

definition VMULi :: "instruction \<Rightarrow> ee_sys \<Rightarrow> ee_sys res" where
  "VMULi inst = vu0_total (VU_MULi inst)"

definition VMULq :: "instruction \<Rightarrow> ee_sys \<Rightarrow> ee_sys res" where
  "VMULq inst = vu0_total (VU_MULq inst)"

definition VMULbc_0 :: "instruction \<Rightarrow> ee_sys \<Rightarrow> ee_sys res" where
  "VMULbc_0 inst = vu0_total (VU_MULbc_0 inst)"

definition VMULbc_1 :: "instruction \<Rightarrow> ee_sys \<Rightarrow> ee_sys res" where
  "VMULbc_1 inst = vu0_total (VU_MULbc_1 inst)"

definition VMULbc_2 :: "instruction \<Rightarrow> ee_sys \<Rightarrow> ee_sys res" where
  "VMULbc_2 inst = vu0_total (VU_MULbc_2 inst)"

definition VMULbc_3 :: "instruction \<Rightarrow> ee_sys \<Rightarrow> ee_sys res" where
  "VMULbc_3 inst = vu0_total (VU_MULbc_3 inst)"

definition VMULA :: "instruction \<Rightarrow> ee_sys \<Rightarrow> ee_sys res" where
  "VMULA inst = vu0_total (VU_MULA inst)"

definition VMULAi :: "instruction \<Rightarrow> ee_sys \<Rightarrow> ee_sys res" where
  "VMULAi inst = vu0_total (VU_MULAi inst)"

definition VMULAq :: "instruction \<Rightarrow> ee_sys \<Rightarrow> ee_sys res" where
  "VMULAq inst = vu0_total (VU_MULAq inst)"

definition VMULAbc_0 :: "instruction \<Rightarrow> ee_sys \<Rightarrow> ee_sys res" where
  "VMULAbc_0 inst = vu0_total (VU_MULAbc_0 inst)"

definition VMULAbc_1 :: "instruction \<Rightarrow> ee_sys \<Rightarrow> ee_sys res" where
  "VMULAbc_1 inst = vu0_total (VU_MULAbc_1 inst)"

definition VMULAbc_2 :: "instruction \<Rightarrow> ee_sys \<Rightarrow> ee_sys res" where
  "VMULAbc_2 inst = vu0_total (VU_MULAbc_2 inst)"

definition VMULAbc_3 :: "instruction \<Rightarrow> ee_sys \<Rightarrow> ee_sys res" where
  "VMULAbc_3 inst = vu0_total (VU_MULAbc_3 inst)"

definition VMADD :: "instruction \<Rightarrow> ee_sys \<Rightarrow> ee_sys res" where
  "VMADD inst = vu0_total (VU_MADD inst)"

definition VMADDi :: "instruction \<Rightarrow> ee_sys \<Rightarrow> ee_sys res" where
  "VMADDi inst = vu0_total (VU_MADDi inst)"

definition VMADDq :: "instruction \<Rightarrow> ee_sys \<Rightarrow> ee_sys res" where
  "VMADDq inst = vu0_total (VU_MADDq inst)"

definition VMADDbc_0 :: "instruction \<Rightarrow> ee_sys \<Rightarrow> ee_sys res" where
  "VMADDbc_0 inst = vu0_total (VU_MADDbc_0 inst)"

definition VMADDbc_1 :: "instruction \<Rightarrow> ee_sys \<Rightarrow> ee_sys res" where
  "VMADDbc_1 inst = vu0_total (VU_MADDbc_1 inst)"

definition VMADDbc_2 :: "instruction \<Rightarrow> ee_sys \<Rightarrow> ee_sys res" where
  "VMADDbc_2 inst = vu0_total (VU_MADDbc_2 inst)"

definition VMADDbc_3 :: "instruction \<Rightarrow> ee_sys \<Rightarrow> ee_sys res" where
  "VMADDbc_3 inst = vu0_total (VU_MADDbc_3 inst)"

definition VMADDA :: "instruction \<Rightarrow> ee_sys \<Rightarrow> ee_sys res" where
  "VMADDA inst = vu0_total (VU_MADDA inst)"

definition VMADDAi :: "instruction \<Rightarrow> ee_sys \<Rightarrow> ee_sys res" where
  "VMADDAi inst = vu0_total (VU_MADDAi inst)"

definition VMADDAq :: "instruction \<Rightarrow> ee_sys \<Rightarrow> ee_sys res" where
  "VMADDAq inst = vu0_total (VU_MADDAq inst)"

definition VMADDAbc_0 :: "instruction \<Rightarrow> ee_sys \<Rightarrow> ee_sys res" where
  "VMADDAbc_0 inst = vu0_total (VU_MADDAbc_0 inst)"

definition VMADDAbc_1 :: "instruction \<Rightarrow> ee_sys \<Rightarrow> ee_sys res" where
  "VMADDAbc_1 inst = vu0_total (VU_MADDAbc_1 inst)"

definition VMADDAbc_2 :: "instruction \<Rightarrow> ee_sys \<Rightarrow> ee_sys res" where
  "VMADDAbc_2 inst = vu0_total (VU_MADDAbc_2 inst)"

definition VMADDAbc_3 :: "instruction \<Rightarrow> ee_sys \<Rightarrow> ee_sys res" where
  "VMADDAbc_3 inst = vu0_total (VU_MADDAbc_3 inst)"

definition VMSUB :: "instruction \<Rightarrow> ee_sys \<Rightarrow> ee_sys res" where
  "VMSUB inst = vu0_total (VU_MSUB inst)"

definition VMSUBi :: "instruction \<Rightarrow> ee_sys \<Rightarrow> ee_sys res" where
  "VMSUBi inst = vu0_total (VU_MSUBi inst)"

definition VMSUBq :: "instruction \<Rightarrow> ee_sys \<Rightarrow> ee_sys res" where
  "VMSUBq inst = vu0_total (VU_MSUBq inst)"

definition VMSUBbc_0 :: "instruction \<Rightarrow> ee_sys \<Rightarrow> ee_sys res" where
  "VMSUBbc_0 inst = vu0_total (VU_MSUBbc_0 inst)"

definition VMSUBbc_1 :: "instruction \<Rightarrow> ee_sys \<Rightarrow> ee_sys res" where
  "VMSUBbc_1 inst = vu0_total (VU_MSUBbc_1 inst)"

definition VMSUBbc_2 :: "instruction \<Rightarrow> ee_sys \<Rightarrow> ee_sys res" where
  "VMSUBbc_2 inst = vu0_total (VU_MSUBbc_2 inst)"

definition VMSUBbc_3 :: "instruction \<Rightarrow> ee_sys \<Rightarrow> ee_sys res" where
  "VMSUBbc_3 inst = vu0_total (VU_MSUBbc_3 inst)"

definition VMSUBA :: "instruction \<Rightarrow> ee_sys \<Rightarrow> ee_sys res" where
  "VMSUBA inst = vu0_total (VU_MSUBA inst)"

definition VMSUBAi :: "instruction \<Rightarrow> ee_sys \<Rightarrow> ee_sys res" where
  "VMSUBAi inst = vu0_total (VU_MSUBAi inst)"

definition VMSUBAq :: "instruction \<Rightarrow> ee_sys \<Rightarrow> ee_sys res" where
  "VMSUBAq inst = vu0_total (VU_MSUBAq inst)"

definition VMSUBAbc_0 :: "instruction \<Rightarrow> ee_sys \<Rightarrow> ee_sys res" where
  "VMSUBAbc_0 inst = vu0_total (VU_MSUBAbc_0 inst)"

definition VMSUBAbc_1 :: "instruction \<Rightarrow> ee_sys \<Rightarrow> ee_sys res" where
  "VMSUBAbc_1 inst = vu0_total (VU_MSUBAbc_1 inst)"

definition VMSUBAbc_2 :: "instruction \<Rightarrow> ee_sys \<Rightarrow> ee_sys res" where
  "VMSUBAbc_2 inst = vu0_total (VU_MSUBAbc_2 inst)"

definition VMSUBAbc_3 :: "instruction \<Rightarrow> ee_sys \<Rightarrow> ee_sys res" where
  "VMSUBAbc_3 inst = vu0_total (VU_MSUBAbc_3 inst)"

definition VMAX :: "instruction \<Rightarrow> ee_sys \<Rightarrow> ee_sys res" where
  "VMAX inst = vu0_total (VU_MAX inst)"

definition VMAXi :: "instruction \<Rightarrow> ee_sys \<Rightarrow> ee_sys res" where
  "VMAXi inst = vu0_total (VU_MAXi inst)"

definition VMAXbc_0 :: "instruction \<Rightarrow> ee_sys \<Rightarrow> ee_sys res" where
  "VMAXbc_0 inst = vu0_total (VU_MAXbc_0 inst)"

definition VMAXbc_1 :: "instruction \<Rightarrow> ee_sys \<Rightarrow> ee_sys res" where
  "VMAXbc_1 inst = vu0_total (VU_MAXbc_1 inst)"

definition VMAXbc_2 :: "instruction \<Rightarrow> ee_sys \<Rightarrow> ee_sys res" where
  "VMAXbc_2 inst = vu0_total (VU_MAXbc_2 inst)"

definition VMAXbc_3 :: "instruction \<Rightarrow> ee_sys \<Rightarrow> ee_sys res" where
  "VMAXbc_3 inst = vu0_total (VU_MAXbc_3 inst)"

definition VMINI :: "instruction \<Rightarrow> ee_sys \<Rightarrow> ee_sys res" where
  "VMINI inst = vu0_total (VU_MINI inst)"

definition VMINIi :: "instruction \<Rightarrow> ee_sys \<Rightarrow> ee_sys res" where
  "VMINIi inst = vu0_total (VU_MINIi inst)"

definition VMINIbc_0 :: "instruction \<Rightarrow> ee_sys \<Rightarrow> ee_sys res" where
  "VMINIbc_0 inst = vu0_total (VU_MINIbc_0 inst)"

definition VMINIbc_1 :: "instruction \<Rightarrow> ee_sys \<Rightarrow> ee_sys res" where
  "VMINIbc_1 inst = vu0_total (VU_MINIbc_1 inst)"

definition VMINIbc_2 :: "instruction \<Rightarrow> ee_sys \<Rightarrow> ee_sys res" where
  "VMINIbc_2 inst = vu0_total (VU_MINIbc_2 inst)"

definition VMINIbc_3 :: "instruction \<Rightarrow> ee_sys \<Rightarrow> ee_sys res" where
  "VMINIbc_3 inst = vu0_total (VU_MINIbc_3 inst)"

definition VOPMULA :: "instruction \<Rightarrow> ee_sys \<Rightarrow> ee_sys res" where
  "VOPMULA inst = vu0_total (VU_OPMULA inst)"

definition VOPMSUB :: "instruction \<Rightarrow> ee_sys \<Rightarrow> ee_sys res" where
  "VOPMSUB inst = vu0_total (VU_OPMSUB inst)"

definition VNOP :: "instruction \<Rightarrow> ee_sys \<Rightarrow> ee_sys res" where
  "VNOP inst = vu0_total (VU_NOP inst)"

definition VFTOI0 :: "instruction \<Rightarrow> ee_sys \<Rightarrow> ee_sys res" where
  "VFTOI0 inst = vu0_partial (VU_FTOI0 inst)"

definition VFTOI4 :: "instruction \<Rightarrow> ee_sys \<Rightarrow> ee_sys res" where
  "VFTOI4 inst = vu0_partial (VU_FTOI4 inst)"

definition VFTOI12 :: "instruction \<Rightarrow> ee_sys \<Rightarrow> ee_sys res" where
  "VFTOI12 inst = vu0_partial (VU_FTOI12 inst)"

definition VFTOI15 :: "instruction \<Rightarrow> ee_sys \<Rightarrow> ee_sys res" where
  "VFTOI15 inst = vu0_partial (VU_FTOI15 inst)"

definition VITOF0 :: "instruction \<Rightarrow> ee_sys \<Rightarrow> ee_sys res" where
  "VITOF0 inst = vu0_total (VU_ITOF0 inst)"

definition VITOF4 :: "instruction \<Rightarrow> ee_sys \<Rightarrow> ee_sys res" where
  "VITOF4 inst = vu0_total (VU_ITOF4 inst)"

definition VITOF12 :: "instruction \<Rightarrow> ee_sys \<Rightarrow> ee_sys res" where
  "VITOF12 inst = vu0_total (VU_ITOF12 inst)"

definition VITOF15 :: "instruction \<Rightarrow> ee_sys \<Rightarrow> ee_sys res" where
  "VITOF15 inst = vu0_total (VU_ITOF15 inst)"

definition VCLIP :: "instruction \<Rightarrow> ee_sys \<Rightarrow> ee_sys res" where
  "VCLIP inst = vu0_total (VU_CLIP inst)"

definition VDIV :: "instruction \<Rightarrow> ee_sys \<Rightarrow> ee_sys res" where
  "VDIV inst = vu0_total (VU_DIV inst)"

definition VSQRT :: "instruction \<Rightarrow> ee_sys \<Rightarrow> ee_sys res" where
  "VSQRT inst = vu0_total (VU_SQRT inst)"

definition VRSQRT :: "instruction \<Rightarrow> ee_sys \<Rightarrow> ee_sys res" where
  "VRSQRT inst = vu0_total (VU_RSQRT inst)"

definition VIADD :: "instruction \<Rightarrow> ee_sys \<Rightarrow> ee_sys res" where
  "VIADD inst = vu0_partial (VU_IADD inst)"

definition VIADDI :: "instruction \<Rightarrow> ee_sys \<Rightarrow> ee_sys res" where
  "VIADDI inst = vu0_partial (VU_IADDI inst)"

definition VIAND :: "instruction \<Rightarrow> ee_sys \<Rightarrow> ee_sys res" where
  "VIAND inst = vu0_partial (VU_IAND inst)"

definition VIOR :: "instruction \<Rightarrow> ee_sys \<Rightarrow> ee_sys res" where
  "VIOR inst = vu0_partial (VU_IOR inst)"

definition VISUB :: "instruction \<Rightarrow> ee_sys \<Rightarrow> ee_sys res" where
  "VISUB inst = vu0_partial (VU_ISUB inst)"

definition VMOVE :: "instruction \<Rightarrow> ee_sys \<Rightarrow> ee_sys res" where
  "VMOVE inst = vu0_partial (VU_MOVE inst)"

definition VMFIR :: "instruction \<Rightarrow> ee_sys \<Rightarrow> ee_sys res" where
  "VMFIR inst = vu0_partial (VU_MFIR inst)"

definition VMTIR :: "instruction \<Rightarrow> ee_sys \<Rightarrow> ee_sys res" where
  "VMTIR inst = vu0_partial (VU_MTIR inst)"

definition VMR32 :: "instruction \<Rightarrow> ee_sys \<Rightarrow> ee_sys res" where
  "VMR32 inst = vu0_partial (VU_MR32 inst)"

definition VLQD :: "instruction \<Rightarrow> ee_sys \<Rightarrow> ee_sys res" where
  "VLQD inst = vu0_partial (VU_LQD inst)"

definition VLQI :: "instruction \<Rightarrow> ee_sys \<Rightarrow> ee_sys res" where
  "VLQI inst = vu0_partial (VU_LQI inst)"

definition VSQD :: "instruction \<Rightarrow> ee_sys \<Rightarrow> ee_sys res" where
  "VSQD inst = vu0_partial (VU_SQD inst)"

definition VSQI :: "instruction \<Rightarrow> ee_sys \<Rightarrow> ee_sys res" where
  "VSQI inst = vu0_partial (VU_SQI inst)"

definition VILWR :: "instruction \<Rightarrow> ee_sys \<Rightarrow> ee_sys res" where
  "VILWR inst = vu0_partial (VU_ILWR inst)"

definition VISWR :: "instruction \<Rightarrow> ee_sys \<Rightarrow> ee_sys res" where
  "VISWR inst = vu0_partial (VU_ISWR inst)"

definition VRINIT :: "instruction \<Rightarrow> ee_sys \<Rightarrow> ee_sys res" where
  "VRINIT inst = vu0_total (VU_RINIT inst)"

definition VRGET :: "instruction \<Rightarrow> ee_sys \<Rightarrow> ee_sys res" where
  "VRGET inst = vu0_total (VU_RGET inst)"

definition VRNEXT :: "instruction \<Rightarrow> ee_sys \<Rightarrow> ee_sys res" where
  "VRNEXT inst = vu0_total (VU_RNEXT inst)"

definition VRXOR :: "instruction \<Rightarrow> ee_sys \<Rightarrow> ee_sys res" where
  "VRXOR inst = vu0_total (VU_RXOR inst)"

definition VWAITQ :: "instruction \<Rightarrow> ee_sys \<Rightarrow> ee_sys res" where
  "VWAITQ inst = vu0_total (VU_WAITQ inst)"

lemmas cop2_defs =
  QMFC2_def QMTC2_def CFC2_def CTC2_def LQC2_def SQC2_def BC2F_def BC2FL_def BC2T_def BC2TL_def
  VCALLMS_def VCALLMSR_def VABS_def VADD_def VADDi_def VADDq_def VADDbc_0_def VADDbc_1_def
  VADDbc_2_def VADDbc_3_def VADDA_def VADDAi_def VADDAq_def VADDAbc_0_def VADDAbc_1_def
  VADDAbc_2_def VADDAbc_3_def VSUB_def VSUBi_def VSUBq_def VSUBbc_0_def VSUBbc_1_def
  VSUBbc_2_def VSUBbc_3_def VSUBA_def VSUBAi_def VSUBAq_def VSUBAbc_0_def VSUBAbc_1_def
  VSUBAbc_2_def VSUBAbc_3_def VMUL_def VMULi_def VMULq_def VMULbc_0_def VMULbc_1_def
  VMULbc_2_def VMULbc_3_def VMULA_def VMULAi_def VMULAq_def VMULAbc_0_def VMULAbc_1_def
  VMULAbc_2_def VMULAbc_3_def VMADD_def VMADDi_def VMADDq_def VMADDbc_0_def VMADDbc_1_def
  VMADDbc_2_def VMADDbc_3_def VMADDA_def VMADDAi_def VMADDAq_def VMADDAbc_0_def VMADDAbc_1_def
  VMADDAbc_2_def VMADDAbc_3_def VMSUB_def VMSUBi_def VMSUBq_def VMSUBbc_0_def VMSUBbc_1_def
  VMSUBbc_2_def VMSUBbc_3_def VMSUBA_def VMSUBAi_def VMSUBAq_def VMSUBAbc_0_def VMSUBAbc_1_def
  VMSUBAbc_2_def VMSUBAbc_3_def VMAX_def VMAXi_def VMAXbc_0_def VMAXbc_1_def VMAXbc_2_def
  VMAXbc_3_def VMINI_def VMINIi_def VMINIbc_0_def VMINIbc_1_def VMINIbc_2_def VMINIbc_3_def
  VOPMULA_def VOPMSUB_def VNOP_def VFTOI0_def VFTOI4_def VFTOI12_def VFTOI15_def VITOF0_def
  VITOF4_def VITOF12_def VITOF15_def VCLIP_def VDIV_def VSQRT_def VRSQRT_def VIADD_def
  VIADDI_def VIAND_def VIOR_def VISUB_def VMOVE_def VMFIR_def VMTIR_def VMR32_def VLQD_def
  VLQI_def VSQD_def VSQI_def VILWR_def VISWR_def VRINIT_def VRGET_def VRNEXT_def VRXOR_def
  VWAITQ_def

section \<open>Well-formedness\<close>

definition sys_ok :: "ee_sys \<Rightarrow> bool" where
  "sys_ok s \<longleftrightarrow> ee_ok (sys_ee s) \<and> vu_ok (sys_vu0 s) \<and>
     \<not> reg_read_only (sys_fbrst s) \<and> \<not> reg_read_only (sys_vpu_stat s) \<and> \<not> reg_read_only (sys_cmsar1 s)"

lemma sys_ok_upd [intro]:
  assumes "sys_ok s"
  shows "ee_ok e \<Longrightarrow> sys_ok (s\<lparr>sys_ee := e\<rparr>)" "vu_ok u \<Longrightarrow> sys_ok (s\<lparr>sys_vu0 := u\<rparr>)"
    "ee_ok e \<Longrightarrow> vu_ok u \<Longrightarrow> sys_ok (s\<lparr>sys_ee := e, sys_vu0 := u\<rparr>)"
    "\<not> reg_read_only r \<Longrightarrow> sys_ok (s\<lparr>sys_fbrst := r\<rparr>)"
    "\<not> reg_read_only r \<Longrightarrow> sys_ok (s\<lparr>sys_vpu_stat := r\<rparr>)"
    "\<not> reg_read_only r \<Longrightarrow> sys_ok (s\<lparr>sys_cmsar1 := r\<rparr>)"
  using assms by (simp_all add: sys_ok_def)

lemma sys_okD: "sys_ok s \<Longrightarrow> ee_ok (sys_ee s)" "sys_ok s \<Longrightarrow> vu_ok (sys_vu0 s)"
  by (simp_all add: sys_ok_def)

lemma on_ee_ok:
  assumes "sys_ok s" and "\<And>e. ee_ok e \<Longrightarrow> ok_res ee_ok (f e)"
  shows "ok_res sys_ok (on_ee f s)"
  unfolding on_ee_def using assms(2)[OF sys_okD(1)[OF assms(1)]]
  by (rule ok_res_bind) (use assms(1) in auto)

lemma cop2_guarded_ok:
  assumes "sys_ok s" and "\<And>s. sys_ok s \<Longrightarrow> ok_res sys_ok (body s)"
  shows "ok_res sys_ok (cop2_guarded body s)"
proof -
  have "ok_snd (handle_cop2_usable (sys_ee s))"
    using sys_okD(1)[OF assms(1)]
    by (auto simp: handle_cop2_usable_def coprocessor_unusable_def intro!: ok_with_value)
  then have "sys_ok (s\<lparr>sys_ee := e\<rparr>)" if "handle_cop2_usable (sys_ee s) = Inr (ok, e)" for ok e
    using that sys_ok_upd(1)[OF assms(1), of e] by simp
  then show ?thesis
    unfolding cop2_guarded_def using assms(2) by (cases "handle_cop2_usable (sys_ee s)") (auto simp: Let_def)
qed

lemma objects_ok:
  assumes "sys_ok s"
  shows "vu_ok (lend_objects s)" "vu_ok u \<Longrightarrow> sys_ok (return_objects u s)"
  using assms sys_okD[OF assms] by (auto simp: lend_objects_def return_objects_def Let_def sys_ok_def)

lemma vu0_ok:
  assumes "sys_ok s"
  shows "(\<And>u. vu_ok u \<Longrightarrow> ok_res vu_ok (f u)) \<Longrightarrow> ok_res sys_ok (vu0_partial f s)"
    "(\<And>u. vu_ok u \<Longrightarrow> vu_ok (g u)) \<Longrightarrow> ok_res sys_ok (vu0_total g s)"
proof -
  show "ok_res sys_ok (vu0_partial f s)" if f: "\<And>u. vu_ok u \<Longrightarrow> ok_res vu_ok (f u)"
    unfolding vu0_partial_def using assms
  proof (rule cop2_guarded_ok)
    fix s assume "sys_ok s"
    then show "ok_res sys_ok (bind_res (f (lend_objects s)) (\<lambda>u. Inr (return_objects u s)))"
      using f[OF objects_ok(1)] by (auto intro!: ok_res_bind objects_ok(2))
  qed
  show "ok_res sys_ok (vu0_total g s)" if "\<And>u. vu_ok u \<Longrightarrow> vu_ok (g u)"
    unfolding vu0_total_def using assms by (rule cop2_guarded_ok) (simp add: objects_ok that)
qed

lemma vf_upd_ok:
  assumes "vu_ok u" and "q_writer f"
  shows "vu_ok (vf_upd n f u)"
  using assms vu_okD(1)[OF assms(1), of n] by (simp add: vf_upd_def q_writer_def)

lemma mapper_vi_ok:
  assumes "vu_ok u"
  shows "vu_ok (u\<lparr>u_vi := (u_vi u)(n := mapper_write_uword v (u_vi u n))\<rparr>)"
  using assms by (auto simp: vu_ok_def mapper_write_uword_def dhb_defs reg_write_def)

lemma mac_ok: "vu_ok u \<Longrightarrow> \<not> reg_read_only r \<Longrightarrow> vu_ok (u\<lparr>u_mac := r\<rparr>)"
  by (simp add: vu_ok_def)

lemma ccr_write_ok:
  assumes "sys_ok s"
  shows "ok_res sys_ok (ccr_write n v s)"
proof -
  have "\<not> reg_read_only (sys_fbrst s)" "\<not> reg_read_only (sys_vpu_stat s)" "\<not> reg_read_only (sys_cmsar1 s)"
    using assms by (simp_all add: sys_ok_def)
  then show ?thesis
    using vu_okD[OF sys_okD(2)[OF assms]] sys_okD(2)[OF assms]
    by (simp add: ccr_write_def Let_def sys_ok_upd[OF assms] mapper_vi_ok mac_ok w_defs)
qed

lemma interlock_ok: "(sys_ok s \<Longrightarrow> ok_res sys_ok (body s)) \<Longrightarrow> sys_ok s \<Longrightarrow> ok_res sys_ok (interlock_free inst body s)"
  by (simp add: interlock_free_def)

lemma ok_res_bind_value: "(\<And>v. ok_res P (k v)) \<Longrightarrow> ok_res P (bind_res m k)"
  by (cases m) simp_all

lemma transfer_2_ok:
  assumes "sys_ok s"
  shows "ok_res sys_ok (QMFC2 inst s)" "ok_res sys_ok (QMTC2 inst s)" "ok_res sys_ok (CFC2 inst s)"
    "ok_res sys_ok (CTC2 inst s)" "ok_res sys_ok (LQC2 inst s)" "ok_res sys_ok (SQC2 inst s)"
proof -
  have w: "q_writer (\<lambda>r. q_write_udword 1 x (q_write_udword 0 y r))" for x y by auto
  show "ok_res sys_ok (QMFC2 inst s)" "ok_res sys_ok (CFC2 inst s)" "ok_res sys_ok (CTC2 inst s)"
    "ok_res sys_ok (QMTC2 inst s)"
    unfolding QMFC2_def CFC2_def CTC2_def QMTC2_def Let_def using assms
    by (auto intro!: cop2_guarded_ok interlock_ok on_ee_ok ccr_write_ok ok_res_bind_value ee_ok_gpr_upd w sys_ok_upd vf_upd_ok
        simp del: One_nat_def dest: sys_okD)
  show "ok_res sys_ok (SQC2 inst s)"
    unfolding SQC2_def using assms by (auto intro!: cop2_guarded_ok on_ee_ok ok_with_address ok_ee_write)
  show "ok_res sys_ok (LQC2 inst s)"
    unfolding LQC2_def using assms
  proof (rule cop2_guarded_ok)
    fix s assume s: "sys_ok s"
    show "ok_res sys_ok (bind_res (translate_address_data (effective_address inst (sys_ee s)) READ (sys_ee s))
      (\<lambda>(physical_address, e). case physical_address of None \<Rightarrow> Inr (s\<lparr>sys_ee := e\<rparr>)
         | Some pa \<Rightarrow> bind_res (bus_read_uqword pa (e_bus e)) (\<lambda>(v, b).
             Inr (s\<lparr>sys_ee := e\<lparr>e_bus := b\<rparr>,
                    sys_vu0 := vf_upd (inst_rt inst) (q_write_uqword v) (sys_vu0 s)\<rparr>))))"
      using sys_okD[OF s]
      by (intro ok_res_bind[OF ok_translate_data])
        (auto simp: bind_res_def intro!: sys_ok_upd[OF s] vf_upd_ok split: option.splits sum.splits)
  qed
qed

lemma cop2_ok:
  assumes "sys_ok s"
  shows "ok_res sys_ok (QMFC2 inst s)" "ok_res sys_ok (QMTC2 inst s)" "ok_res sys_ok (CFC2 inst s)"
    "ok_res sys_ok (CTC2 inst s)" "ok_res sys_ok (LQC2 inst s)" "ok_res sys_ok (SQC2 inst s)"
    "ok_res sys_ok (BC2F inst s)" "ok_res sys_ok (BC2FL inst s)" "ok_res sys_ok (BC2T inst s)"
    "ok_res sys_ok (BC2TL inst s)" "ok_res sys_ok (VCALLMS inst s)"
    "ok_res sys_ok (VCALLMSR inst s)" "ok_res sys_ok (VABS inst s)" "ok_res sys_ok (VADD inst s)"
    "ok_res sys_ok (VADDi inst s)" "ok_res sys_ok (VADDq inst s)"
    "ok_res sys_ok (VADDbc_0 inst s)" "ok_res sys_ok (VADDbc_1 inst s)"
    "ok_res sys_ok (VADDbc_2 inst s)" "ok_res sys_ok (VADDbc_3 inst s)"
    "ok_res sys_ok (VADDA inst s)" "ok_res sys_ok (VADDAi inst s)" "ok_res sys_ok (VADDAq inst s)"
    "ok_res sys_ok (VADDAbc_0 inst s)" "ok_res sys_ok (VADDAbc_1 inst s)"
    "ok_res sys_ok (VADDAbc_2 inst s)" "ok_res sys_ok (VADDAbc_3 inst s)"
    "ok_res sys_ok (VSUB inst s)" "ok_res sys_ok (VSUBi inst s)" "ok_res sys_ok (VSUBq inst s)"
    "ok_res sys_ok (VSUBbc_0 inst s)" "ok_res sys_ok (VSUBbc_1 inst s)"
    "ok_res sys_ok (VSUBbc_2 inst s)" "ok_res sys_ok (VSUBbc_3 inst s)"
    "ok_res sys_ok (VSUBA inst s)" "ok_res sys_ok (VSUBAi inst s)" "ok_res sys_ok (VSUBAq inst s)"
    "ok_res sys_ok (VSUBAbc_0 inst s)" "ok_res sys_ok (VSUBAbc_1 inst s)"
    "ok_res sys_ok (VSUBAbc_2 inst s)" "ok_res sys_ok (VSUBAbc_3 inst s)"
    "ok_res sys_ok (VMUL inst s)" "ok_res sys_ok (VMULi inst s)" "ok_res sys_ok (VMULq inst s)"
    "ok_res sys_ok (VMULbc_0 inst s)" "ok_res sys_ok (VMULbc_1 inst s)"
    "ok_res sys_ok (VMULbc_2 inst s)" "ok_res sys_ok (VMULbc_3 inst s)"
    "ok_res sys_ok (VMULA inst s)" "ok_res sys_ok (VMULAi inst s)" "ok_res sys_ok (VMULAq inst s)"
    "ok_res sys_ok (VMULAbc_0 inst s)" "ok_res sys_ok (VMULAbc_1 inst s)"
    "ok_res sys_ok (VMULAbc_2 inst s)" "ok_res sys_ok (VMULAbc_3 inst s)"
    "ok_res sys_ok (VMADD inst s)" "ok_res sys_ok (VMADDi inst s)" "ok_res sys_ok (VMADDq inst s)"
    "ok_res sys_ok (VMADDbc_0 inst s)" "ok_res sys_ok (VMADDbc_1 inst s)"
    "ok_res sys_ok (VMADDbc_2 inst s)" "ok_res sys_ok (VMADDbc_3 inst s)"
    "ok_res sys_ok (VMADDA inst s)" "ok_res sys_ok (VMADDAi inst s)"
    "ok_res sys_ok (VMADDAq inst s)" "ok_res sys_ok (VMADDAbc_0 inst s)"
    "ok_res sys_ok (VMADDAbc_1 inst s)" "ok_res sys_ok (VMADDAbc_2 inst s)"
    "ok_res sys_ok (VMADDAbc_3 inst s)" "ok_res sys_ok (VMSUB inst s)"
    "ok_res sys_ok (VMSUBi inst s)" "ok_res sys_ok (VMSUBq inst s)"
    "ok_res sys_ok (VMSUBbc_0 inst s)" "ok_res sys_ok (VMSUBbc_1 inst s)"
    "ok_res sys_ok (VMSUBbc_2 inst s)" "ok_res sys_ok (VMSUBbc_3 inst s)"
    "ok_res sys_ok (VMSUBA inst s)" "ok_res sys_ok (VMSUBAi inst s)"
    "ok_res sys_ok (VMSUBAq inst s)" "ok_res sys_ok (VMSUBAbc_0 inst s)"
    "ok_res sys_ok (VMSUBAbc_1 inst s)" "ok_res sys_ok (VMSUBAbc_2 inst s)"
    "ok_res sys_ok (VMSUBAbc_3 inst s)" "ok_res sys_ok (VMAX inst s)"
    "ok_res sys_ok (VMAXi inst s)" "ok_res sys_ok (VMAXbc_0 inst s)"
    "ok_res sys_ok (VMAXbc_1 inst s)" "ok_res sys_ok (VMAXbc_2 inst s)"
    "ok_res sys_ok (VMAXbc_3 inst s)" "ok_res sys_ok (VMINI inst s)"
    "ok_res sys_ok (VMINIi inst s)" "ok_res sys_ok (VMINIbc_0 inst s)"
    "ok_res sys_ok (VMINIbc_1 inst s)" "ok_res sys_ok (VMINIbc_2 inst s)"
    "ok_res sys_ok (VMINIbc_3 inst s)" "ok_res sys_ok (VOPMULA inst s)"
    "ok_res sys_ok (VOPMSUB inst s)" "ok_res sys_ok (VNOP inst s)" "ok_res sys_ok (VFTOI0 inst s)"
    "ok_res sys_ok (VFTOI4 inst s)" "ok_res sys_ok (VFTOI12 inst s)"
    "ok_res sys_ok (VFTOI15 inst s)" "ok_res sys_ok (VITOF0 inst s)"
    "ok_res sys_ok (VITOF4 inst s)" "ok_res sys_ok (VITOF12 inst s)"
    "ok_res sys_ok (VITOF15 inst s)" "ok_res sys_ok (VCLIP inst s)" "ok_res sys_ok (VDIV inst s)"
    "ok_res sys_ok (VSQRT inst s)" "ok_res sys_ok (VRSQRT inst s)" "ok_res sys_ok (VIADD inst s)"
    "ok_res sys_ok (VIADDI inst s)" "ok_res sys_ok (VIAND inst s)" "ok_res sys_ok (VIOR inst s)"
    "ok_res sys_ok (VISUB inst s)" "ok_res sys_ok (VMOVE inst s)" "ok_res sys_ok (VMFIR inst s)"
    "ok_res sys_ok (VMTIR inst s)" "ok_res sys_ok (VMR32 inst s)" "ok_res sys_ok (VLQD inst s)"
    "ok_res sys_ok (VLQI inst s)" "ok_res sys_ok (VSQD inst s)" "ok_res sys_ok (VSQI inst s)"
    "ok_res sys_ok (VILWR inst s)" "ok_res sys_ok (VISWR inst s)" "ok_res sys_ok (VRINIT inst s)"
    "ok_res sys_ok (VRGET inst s)" "ok_res sys_ok (VRNEXT inst s)" "ok_res sys_ok (VRXOR inst s)"
    "ok_res sys_ok (VWAITQ inst s)"
  using assms
  by (simp_all add: transfer_2_ok)
   (simp_all add: cop2_defs vu0_ok cop2_guarded_ok vu_op_ok)

end
