(* ===== verification/Decode.thy ===== *)
theory Decode
  imports Registers
begin

text \<open>
  Decoding as both cores do it: a table of instruction descriptions, and \<open>lookup\<close>, nested
  switches over the fields of the word whose defaults throw, as a tree that is interpreted.
  The table of implementations is indexed by the descriptions; \<open>misnamed\<close> compares the two.
\<close>

section \<open>Descriptions and decoding trees\<close>

type_synonym instruction_info = "string \<times> nat \<times> int"

abbreviation mnemonic :: "instruction_info \<Rightarrow> string" where "mnemonic i \<equiv> fst i"
abbreviation impl_index :: "instruction_info \<Rightarrow> nat" where "impl_index i \<equiv> fst (snd i)"
abbreviation cpi :: "instruction_info \<Rightarrow> int" where "cpi i \<equiv> snd (snd i)"

definition inst_co :: "instruction \<Rightarrow> nat" where
  "inst_co i = unat (extract_from (BF 25 1) i)"
definition inst_dest :: "instruction \<Rightarrow> nat" where
  "inst_dest i = unat (extract_from (BF 21 4) i)"

text \<open>A switch over a field, its cases an entry of the table or another switch.\<close>

datatype inst_field = Opcode | Rs | Rt | Shamt | Funct | Co | Dest

fun field_of :: "inst_field \<Rightarrow> instruction \<Rightarrow> nat" where
  "field_of Opcode i = inst_opcode i"
| "field_of Rs i = inst_rs i"
| "field_of Rt i = inst_rt i"
| "field_of Shamt i = inst_shamt i"
| "field_of Funct i = inst_funct i"
| "field_of Co i = inst_co i"
| "field_of Dest i = inst_dest i"

datatype decode_tree =
    Entry nat
  | Switch inst_field "(nat \<times> decode_tree) list"

lemma map_of_size [termination_simp]:
  "map_of cs k = Some t \<Longrightarrow> size t < Suc (size_list (\<lambda>x. Suc (size (snd x))) cs)"
  by (induction cs) (auto split: if_splits)

fun decode :: "decode_tree \<Rightarrow> instruction \<Rightarrow> nat res" where
  "decode (Entry k) i = Inr k"
| "decode (Switch field cases) i =
     (case map_of cases (field_of field i) of None \<Rightarrow> Inl Runtime_error | Some t \<Rightarrow> decode t i)"

section \<open>Entries of a tree\<close>

fun entries :: "decode_tree \<Rightarrow> nat list" where
  "entries (Entry k) = [k]"
| "entries (Switch field cases) = concat (map (\<lambda>(v, t). entries t) cases)"

lemma decode_entry: "decode t i = Inr k \<Longrightarrow> k \<in> set (entries t)"
proof (induction t i rule: decode.induct)
  case (2 field cases i)
  then obtain t where "map_of cases (field_of field i) = Some t" "k \<in> set (entries t)"
    by (auto split: option.splits)
  then show ?case by (force dest: map_of_SomeD)
qed simp

lemma decode_error: "decode t i = Inl e \<Longrightarrow> e = Runtime_error"
  by (induction t i rule: decode.induct) (auto split: option.splits)

section \<open>Paths\<close>

text \<open>
  The paths of a tree: the values of fields that lead to each entry.  When no switch repeats a
  case, decoding follows exactly the path whose values the word has.
\<close>

fun paths :: "decode_tree \<Rightarrow> ((inst_field \<times> nat) list \<times> nat) list" where
  "paths (Entry k) = [([], k)]"
| "paths (Switch field cases) =
     concat (map (\<lambda>(v, t). map (\<lambda>(p, k). ((field, v) # p, k)) (paths t)) cases)"

fun distinct_cases :: "decode_tree \<Rightarrow> bool" where
  "distinct_cases (Entry k) \<longleftrightarrow> True"
| "distinct_cases (Switch field cases) \<longleftrightarrow>
     distinct (map fst cases) \<and> list_all (\<lambda>(v, t). distinct_cases t) cases"

definition follows :: "instruction \<Rightarrow> (inst_field \<times> nat) list \<Rightarrow> bool" where
  "follows i p \<longleftrightarrow> list_all (\<lambda>(f, v). field_of f i = v) p"

lemma decode_paths:
  "distinct_cases t \<Longrightarrow> decode t i = Inr k \<longleftrightarrow> (\<exists>p. (p, k) \<in> set (paths t) \<and> follows i p)"
proof (induction t arbitrary: k)
  case (Switch field cases)
  have m: "map_of cases v = Some t \<longleftrightarrow> (v, t) \<in> set cases" for v t
    using Switch.prems by simp
  have ih: "decode t i = Inr k \<longleftrightarrow> (\<exists>p. (p, k) \<in> set (paths t) \<and> follows i p)"
    if "(v, t) \<in> set cases" for v t k
    using Switch.IH[OF that, of t k] Switch.prems that by (auto simp: list_all_iff)
  have "decode (Switch field cases) i = Inr k \<longleftrightarrow>
      (\<exists>t. (field_of field i, t) \<in> set cases \<and> decode t i = Inr k)"
    unfolding m[symmetric] by (simp split: option.split)
  also have "\<dots> \<longleftrightarrow> (\<exists>p. (p, k) \<in> set (paths (Switch field cases)) \<and> follows i p)"
    by (fastforce simp: ih follows_def)
  finally show ?case .
qed (auto simp: follows_def)

text \<open>The entry at the end of one path.\<close>

fun tree_at :: "decode_tree \<Rightarrow> (inst_field \<times> nat) list \<Rightarrow> nat option" where
  "tree_at (Entry k) [] = Some k"
| "tree_at (Switch field cases) ((f, v) # p) =
     (if f = field then case map_of cases v of None \<Rightarrow> None | Some t \<Rightarrow> tree_at t p else None)"
| "tree_at t p = None"

lemma decode_at: "tree_at t p = Some k \<Longrightarrow> follows i p \<Longrightarrow> decode t i = Inr k"
  by (induction t p rule: tree_at.induct) (auto simp: follows_def split: if_splits option.splits)

lemma paths_entries: "map snd (paths t) = entries t"
proof (induction t)
  case (Switch field cases)
  have "snd \<circ> (\<lambda>(p, k). ((field, v) # p, k)) = (snd :: (inst_field \<times> nat) list \<times> nat \<Rightarrow> nat)" for v
    by (simp add: fun_eq_iff split_beta)
  then show ?case
    using Switch by (auto simp: map_concat intro!: arg_cong[of _ _ concat] map_cong[OF refl])
qed simp

text \<open>The paths to the implementations, for a table whose entries the tree names in order.\<close>

definition impl_paths :: "decode_tree \<Rightarrow> instruction_info list \<Rightarrow> ((inst_field \<times> nat) list \<times> nat) list" where
  "impl_paths t infos = zip (map fst (paths t)) (map impl_index infos)"

lemma decode_impl:
  assumes "distinct_cases t" and e: "entries t = [0..<length infos]"
  shows "(\<exists>k < length infos. decode t i = Inr k \<and> impl_index (infos ! k) = j) \<longleftrightarrow>
    (\<exists>p. (p, j) \<in> set (impl_paths t infos) \<and> follows i p)"
proof -
  have m: "map snd (paths t) = [0..<length infos]" using e by (simp add: paths_entries)
  then have l: "length (paths t) = length infos" by (metis length_map length_upt minus_nat.diff_0)
  have k: "paths t ! k = (fst (paths t ! k), k)" if "k < length infos" for k
    using arg_cong[OF m, of "\<lambda>xs. xs ! k"] that l by (simp add: prod_eq_iff)
  have z: "(p, j) \<in> set (impl_paths t infos) \<longleftrightarrow>
      (\<exists>k < length infos. (p, k) \<in> set (paths t) \<and> impl_index (infos ! k) = j)" for p
  proof
    assume "(p, j) \<in> set (impl_paths t infos)"
    then obtain k where "k < length infos" "fst (paths t ! k) = p" "impl_index (infos ! k) = j"
      using l by (auto simp: impl_paths_def set_zip)
    then show "\<exists>k < length infos. (p, k) \<in> set (paths t) \<and> impl_index (infos ! k) = j"
      using k l by (metis nth_mem)
  next
    assume "\<exists>k < length infos. (p, k) \<in> set (paths t) \<and> impl_index (infos ! k) = j"
    then obtain k n where "k < length infos" "impl_index (infos ! k) = j" and n: "n < length (paths t)" "paths t ! n = (p, k)"
      by (auto simp: in_set_conv_nth)
    moreover from this have "n = k" using k[of n] l by simp
    ultimately show "(p, j) \<in> set (impl_paths t infos)"
      using l by (auto simp: impl_paths_def set_zip intro!: exI[of _ k])
  qed
  show ?thesis unfolding z decode_paths[OF assms(1)] by blast
qed

section \<open>Descriptions against implementations\<close>

definition c_identifier :: "string \<Rightarrow> string" where
  "c_identifier = map (\<lambda>c. if c = CHR ''.'' then CHR ''_'' else c)"

definition misnamed :: "instruction_info list \<Rightarrow> (string \<times> 'h) list \<Rightarrow> (string \<times> string) list" where
  "misnamed infos handlers =
     filter (\<lambda>(m, h). c_identifier m \<noteq> h) (zip (map mnemonic infos) (map fst handlers))"

lemma misnamed_append:
  "length a = length b \<Longrightarrow> misnamed (a @ c) (b @ d) = misnamed a b @ misnamed c d"
  by (simp add: misnamed_def)

lemma map_nth_run: "b \<le> length xs \<Longrightarrow> map ((!) xs) [a..<b] = take (b - a) (drop a xs)"
  by (rule nth_equalityI) auto

end
