(* ===== verification/EeDecode.thy ===== *)
theory EeDecode
  imports Decode
begin

text \<open>
  \<open>EeCoreInstruction.cpp\<close>: the table of instructions (mnemonic, index of the implementation,
  cycles) and \<open>lookup\<close>, nested switches over instruction fields with an exception as every
  default.
\<close>

section \<open>The table\<close>

definition CPI_R5900_DEFAULT :: int where "CPI_R5900_DEFAULT = 9"
definition CPI_R5900_BRANCH :: int where "CPI_R5900_BRANCH = 11"
definition CPI_R5900_MULTIPLY :: int where "CPI_R5900_MULTIPLY = 16"
definition CPI_R5900_DIVIDE :: int where "CPI_R5900_DIVIDE = 112"
definition CPI_R5900_STORE :: int where "CPI_R5900_STORE = 14"
definition CPI_R5900_LOAD :: int where "CPI_R5900_LOAD = 14"
definition CPI_MMI_DEFAULT :: int where "CPI_MMI_DEFAULT = 14"
definition CPI_COP_DEFAULT :: int where "CPI_COP_DEFAULT = 11"
definition CPI_COP_BRANCH_DELAY :: int where "CPI_COP_BRANCH_DELAY = 10"
definition CPI_COP_BRANCH_DELAY_LIKELY :: int where "CPI_COP_BRANCH_DELAY_LIKELY = 10"

lemmas cpi_defs =
  CPI_R5900_DEFAULT_def CPI_R5900_BRANCH_def CPI_R5900_MULTIPLY_def CPI_R5900_DIVIDE_def
  CPI_R5900_STORE_def CPI_R5900_LOAD_def CPI_MMI_DEFAULT_def CPI_COP_DEFAULT_def
  CPI_COP_BRANCH_DELAY_def CPI_COP_BRANCH_DELAY_LIKELY_def

definition EE_CORE_INSTRUCTION_TABLE_48 :: "instruction_info list" where
  "EE_CORE_INSTRUCTION_TABLE_48 =
   [(''SLL'', 48, CPI_R5900_DEFAULT), (''SRL'', 49, CPI_R5900_DEFAULT),
    (''SRA'', 50, CPI_R5900_DEFAULT), (''SLLV'', 51, CPI_R5900_DEFAULT),
    (''SRLV'', 52, CPI_R5900_DEFAULT), (''SRAV'', 53, CPI_R5900_DEFAULT),
    (''JR'', 54, CPI_R5900_BRANCH), (''JALR'', 55, CPI_R5900_BRANCH),
    (''MOVZ'', 56, CPI_R5900_DEFAULT), (''MOVN'', 57, CPI_R5900_DEFAULT),
    (''SYSCALL'', 58, CPI_R5900_DEFAULT), (''BREAK'', 59, CPI_R5900_DEFAULT),
    (''SYNC'', 60, CPI_R5900_DEFAULT), (''MFHI'', 61, CPI_R5900_DEFAULT),
    (''MTHI'', 62, CPI_R5900_DEFAULT), (''MFLO'', 63, CPI_R5900_DEFAULT),
    (''MTLO'', 64, CPI_R5900_DEFAULT), (''DSLLV'', 65, CPI_R5900_DEFAULT),
    (''DSRLV'', 66, CPI_R5900_DEFAULT), (''DSRAV'', 67, CPI_R5900_DEFAULT),
    (''MULT'', 68, CPI_R5900_MULTIPLY), (''MULTU'', 69, CPI_R5900_MULTIPLY),
    (''DIV'', 70, CPI_R5900_DIVIDE), (''DIVU'', 71, CPI_R5900_DIVIDE),
    (''ADD'', 72, CPI_R5900_DEFAULT), (''ADDU'', 73, CPI_R5900_DEFAULT),
    (''SUB'', 74, CPI_R5900_DEFAULT), (''SUBU'', 75, CPI_R5900_DEFAULT),
    (''AND'', 76, CPI_R5900_DEFAULT), (''OR'', 77, CPI_R5900_DEFAULT),
    (''XOR'', 78, CPI_R5900_DEFAULT), (''NOR'', 79, CPI_R5900_DEFAULT),
    (''MFSA'', 80, CPI_R5900_DEFAULT), (''MTSA'', 81, CPI_R5900_DEFAULT),
    (''SLT'', 82, CPI_R5900_DEFAULT), (''SLTU'', 83, CPI_R5900_DEFAULT),
    (''DADD'', 84, CPI_R5900_DEFAULT), (''DADDU'', 85, CPI_R5900_DEFAULT),
    (''DSUB'', 86, CPI_R5900_DEFAULT), (''DSUBU'', 87, CPI_R5900_DEFAULT),
    (''TGE'', 88, CPI_R5900_BRANCH), (''TGEU'', 89, CPI_R5900_BRANCH),
    (''TLT'', 90, CPI_R5900_BRANCH), (''TLTU'', 91, CPI_R5900_BRANCH),
    (''TEQ'', 92, CPI_R5900_BRANCH), (''TNE'', 93, CPI_R5900_BRANCH),
    (''DSLL'', 94, CPI_R5900_DEFAULT), (''DSRL'', 95, CPI_R5900_DEFAULT),
    (''DSRA'', 96, CPI_R5900_DEFAULT), (''DSLL32'', 97, CPI_R5900_DEFAULT),
    (''DSRL32'', 98, CPI_R5900_DEFAULT), (''DSRA32'', 99, CPI_R5900_DEFAULT),
    (''BLTZ'', 100, CPI_R5900_BRANCH), (''BGEZ'', 101, CPI_R5900_BRANCH),
    (''BLTZL'', 102, CPI_R5900_BRANCH), (''BGEZL'', 103, CPI_R5900_BRANCH),
    (''TGEI'', 104, CPI_R5900_BRANCH), (''TGEIU'', 105, CPI_R5900_BRANCH),
    (''TLTI'', 106, CPI_R5900_BRANCH), (''TLTIU'', 107, CPI_R5900_BRANCH),
    (''TEQI'', 108, CPI_R5900_BRANCH), (''TNEI'', 109, CPI_R5900_BRANCH),
    (''BLTZAL'', 110, CPI_R5900_BRANCH), (''TGEZAL'', 111, CPI_R5900_BRANCH),
    (''BLTZALL'', 112, CPI_R5900_BRANCH), (''BGEZALL'', 113, CPI_R5900_BRANCH),
    (''MTSAB'', 114, CPI_R5900_BRANCH), (''MTSAH'', 115, CPI_R5900_BRANCH)]"

definition EE_CORE_INSTRUCTION_TABLE_137 :: "instruction_info list" where
  "EE_CORE_INSTRUCTION_TABLE_137 =
   [(''PADDW'', 137, CPI_MMI_DEFAULT), (''PSUBW'', 138, CPI_MMI_DEFAULT),
    (''PCGTW'', 139, CPI_MMI_DEFAULT), (''PMAXW'', 140, CPI_MMI_DEFAULT),
    (''PADDH'', 141, CPI_MMI_DEFAULT), (''PSUBH'', 142, CPI_MMI_DEFAULT),
    (''PCGTH'', 143, CPI_MMI_DEFAULT), (''PMAXH'', 144, CPI_MMI_DEFAULT),
    (''PADDB'', 145, CPI_MMI_DEFAULT), (''PSUBB'', 146, CPI_MMI_DEFAULT),
    (''PCGTB'', 147, CPI_MMI_DEFAULT), (''PADDSW'', 148, CPI_MMI_DEFAULT),
    (''PSUBSW'', 149, CPI_MMI_DEFAULT), (''PEXTLW'', 150, CPI_MMI_DEFAULT),
    (''PPACW'', 151, CPI_MMI_DEFAULT), (''PADDSH'', 152, CPI_MMI_DEFAULT),
    (''PSUBSH'', 153, CPI_MMI_DEFAULT), (''PEXTLH'', 154, CPI_MMI_DEFAULT),
    (''PPACH'', 155, CPI_MMI_DEFAULT), (''PADDSB'', 156, CPI_MMI_DEFAULT),
    (''PSUBSB'', 157, CPI_MMI_DEFAULT), (''PEXTLB'', 158, CPI_MMI_DEFAULT),
    (''PPACB'', 159, CPI_MMI_DEFAULT), (''PEXT5'', 160, CPI_MMI_DEFAULT),
    (''PPAC5'', 161, CPI_MMI_DEFAULT), (''PABSW'', 162, CPI_MMI_DEFAULT),
    (''PCEQW'', 163, CPI_MMI_DEFAULT), (''PMINW'', 164, CPI_MMI_DEFAULT),
    (''PADSBH'', 165, CPI_MMI_DEFAULT), (''PABSH'', 166, CPI_MMI_DEFAULT),
    (''PCEQH'', 167, CPI_MMI_DEFAULT), (''PMINH'', 168, CPI_MMI_DEFAULT),
    (''PCEQB'', 169, CPI_MMI_DEFAULT), (''PADDUW'', 170, CPI_MMI_DEFAULT),
    (''PSUBUW'', 171, CPI_MMI_DEFAULT), (''PEXTUW'', 172, CPI_MMI_DEFAULT),
    (''PADDUH'', 173, CPI_MMI_DEFAULT), (''PSUBUH'', 174, CPI_MMI_DEFAULT),
    (''PEXTUH'', 175, CPI_MMI_DEFAULT), (''PADDUB'', 176, CPI_MMI_DEFAULT),
    (''PSUBUB'', 177, CPI_MMI_DEFAULT), (''PEXTUB'', 178, CPI_MMI_DEFAULT),
    (''QFSRV'', 179, CPI_MMI_DEFAULT), (''PMADDW'', 180, CPI_MMI_DEFAULT),
    (''PSLLVW'', 181, CPI_MMI_DEFAULT), (''PSRLVW'', 182, CPI_MMI_DEFAULT),
    (''PMSUBW'', 183, CPI_MMI_DEFAULT), (''PMFHI'', 184, CPI_MMI_DEFAULT),
    (''PMFLO'', 185, CPI_MMI_DEFAULT), (''PINTH'', 186, CPI_MMI_DEFAULT),
    (''PMULTW'', 187, CPI_MMI_DEFAULT), (''PDIVW'', 188, CPI_MMI_DEFAULT),
    (''PCPYLD'', 189, CPI_MMI_DEFAULT), (''PMADDH'', 190, CPI_MMI_DEFAULT),
    (''PHMADH'', 191, CPI_MMI_DEFAULT), (''PAND'', 192, CPI_MMI_DEFAULT),
    (''PXOR'', 193, CPI_MMI_DEFAULT), (''PMSUBH'', 194, CPI_MMI_DEFAULT),
    (''PHMSBH'', 195, CPI_MMI_DEFAULT), (''PEXEH'', 196, CPI_MMI_DEFAULT),
    (''PREVH'', 197, CPI_MMI_DEFAULT), (''PMULTH'', 198, CPI_MMI_DEFAULT),
    (''PDIVBW'', 199, CPI_MMI_DEFAULT), (''PEXEW'', 200, CPI_MMI_DEFAULT),
    (''PROT3W'', 201, CPI_MMI_DEFAULT), (''PMADDUW'', 202, CPI_MMI_DEFAULT),
    (''PSRAVW'', 203, CPI_MMI_DEFAULT), (''PMTHI'', 204, CPI_MMI_DEFAULT),
    (''PMTLO'', 205, CPI_MMI_DEFAULT), (''PINTEH'', 206, CPI_MMI_DEFAULT),
    (''PMULTUW'', 207, CPI_MMI_DEFAULT), (''PDIVUW'', 208, CPI_MMI_DEFAULT),
    (''PCPYUD'', 209, CPI_MMI_DEFAULT), (''POR'', 210, CPI_MMI_DEFAULT),
    (''PNOR'', 211, CPI_MMI_DEFAULT), (''PEXCH'', 212, CPI_MMI_DEFAULT),
    (''PCPYH'', 213, CPI_MMI_DEFAULT), (''PEXCW'', 214, CPI_MMI_DEFAULT)]"

definition EE_CORE_INSTRUCTION_TABLE_116 :: "instruction_info list" where
  "EE_CORE_INSTRUCTION_TABLE_116 =
   [(''MADD'', 116, CPI_MMI_DEFAULT), (''MADDU'', 117, CPI_MMI_DEFAULT),
    (''PLZCW'', 118, CPI_MMI_DEFAULT), (''MFHI1'', 119, CPI_R5900_DEFAULT),
    (''MTHI1'', 120, CPI_R5900_DEFAULT), (''MFLO1'', 121, CPI_R5900_DEFAULT),
    (''MTLO1'', 122, CPI_R5900_DEFAULT), (''MULT1'', 123, CPI_R5900_MULTIPLY),
    (''MULTU1'', 124, CPI_R5900_MULTIPLY), (''DIV1'', 125, CPI_R5900_DIVIDE),
    (''DIVU1'', 126, CPI_R5900_DIVIDE), (''MADD1'', 127, CPI_MMI_DEFAULT),
    (''MADDU1'', 128, CPI_MMI_DEFAULT), (''PMFHL'', 129, CPI_MMI_DEFAULT),
    (''PMTHL'', 130, CPI_MMI_DEFAULT), (''PSLLH'', 131, CPI_MMI_DEFAULT),
    (''PSRLH'', 132, CPI_MMI_DEFAULT), (''PSRAH'', 133, CPI_MMI_DEFAULT),
    (''PSLLW'', 134, CPI_MMI_DEFAULT), (''PSRLW'', 135, CPI_MMI_DEFAULT),
    (''PSRAW'', 136, CPI_MMI_DEFAULT)]"

definition EE_CORE_INSTRUCTION_TABLE_217 :: "instruction_info list" where
  "EE_CORE_INSTRUCTION_TABLE_217 =
   [(''BC0F'', 217, CPI_COP_BRANCH_DELAY), (''BC0T'', 218, CPI_COP_BRANCH_DELAY),
    (''BC0FL'', 219, CPI_COP_BRANCH_DELAY_LIKELY),
    (''BC0TL'', 220, CPI_COP_BRANCH_DELAY_LIKELY), (''TLBR'', 221, CPI_COP_DEFAULT),
    (''TLBWI'', 222, CPI_COP_DEFAULT), (''TLBWR'', 223, CPI_COP_DEFAULT),
    (''TLBP'', 224, CPI_COP_DEFAULT), (''ERET'', 225, CPI_COP_DEFAULT),
    (''EI'', 226, CPI_COP_DEFAULT), (''DI'', 227, CPI_COP_DEFAULT)]"

definition EE_CORE_INSTRUCTION_TABLE_215 :: "instruction_info list" where
  "EE_CORE_INSTRUCTION_TABLE_215 =
   [(''MFC0'', 215, CPI_COP_DEFAULT), (''MTC0'', 216, CPI_COP_DEFAULT)]"

definition EE_CORE_INSTRUCTION_TABLE_232 :: "instruction_info list" where
  "EE_CORE_INSTRUCTION_TABLE_232 =
   [(''BC1F'', 232, CPI_COP_DEFAULT), (''BC1T'', 233, CPI_COP_BRANCH_DELAY),
    (''BC1FL'', 234, CPI_COP_BRANCH_DELAY), (''BC1TL'', 235, CPI_COP_BRANCH_DELAY_LIKELY),
    (''ADD_S'', 236, CPI_COP_DEFAULT), (''SUB_S'', 237, CPI_COP_DEFAULT),
    (''MUL_S'', 238, CPI_COP_DEFAULT), (''DIV_S'', 239, CPI_COP_DEFAULT),
    (''SQRT_S'', 240, CPI_COP_DEFAULT), (''ABS_S'', 241, CPI_COP_DEFAULT),
    (''MOV_S'', 242, CPI_COP_DEFAULT), (''NEG_S'', 243, CPI_COP_DEFAULT),
    (''RSQRT_S'', 244, CPI_COP_DEFAULT), (''ADDA_S'', 245, CPI_COP_DEFAULT),
    (''SUBA_S'', 246, CPI_COP_DEFAULT), (''MULA_S'', 247, CPI_COP_DEFAULT),
    (''MADD_S'', 248, CPI_COP_DEFAULT), (''MSUB_S'', 249, CPI_COP_DEFAULT),
    (''MADDA_S'', 250, CPI_COP_DEFAULT), (''MSUBA_S'', 251, CPI_COP_DEFAULT),
    (''CVTW_S'', 252, CPI_COP_DEFAULT), (''MAX_S'', 253, CPI_COP_DEFAULT),
    (''MIN_S'', 254, CPI_COP_DEFAULT), (''C.F_S'', 255, CPI_COP_DEFAULT),
    (''C.EQ_S'', 256, CPI_COP_DEFAULT), (''C.LT_S'', 257, CPI_COP_DEFAULT),
    (''C.LE_S'', 258, CPI_COP_DEFAULT), (''CVTS_S'', 259, CPI_COP_DEFAULT)]"

definition EE_CORE_INSTRUCTION_TABLE_228 :: "instruction_info list" where
  "EE_CORE_INSTRUCTION_TABLE_228 =
   [(''MFC1'', 228, CPI_COP_DEFAULT), (''CFC1'', 229, CPI_COP_DEFAULT),
    (''MTC1'', 230, CPI_COP_DEFAULT), (''CTC1'', 231, CPI_COP_DEFAULT)]"

definition EE_CORE_INSTRUCTION_TABLE_264 :: "instruction_info list" where
  "EE_CORE_INSTRUCTION_TABLE_264 =
   [(''BC2F'', 264, CPI_COP_DEFAULT), (''BC2T'', 265, CPI_COP_DEFAULT),
    (''BC2FL'', 266, CPI_COP_DEFAULT), (''BC2TL'', 267, CPI_COP_DEFAULT)]"

definition EE_CORE_INSTRUCTION_TABLE_260 :: "instruction_info list" where
  "EE_CORE_INSTRUCTION_TABLE_260 =
   [(''QMFC2'', 260, CPI_COP_DEFAULT), (''CFC2'', 261, CPI_COP_DEFAULT),
    (''QMTC2'', 262, CPI_COP_DEFAULT), (''CTC2'', 263, CPI_COP_DEFAULT)]"

definition EE_CORE_INSTRUCTION_TABLE_323 :: "instruction_info list" where
  "EE_CORE_INSTRUCTION_TABLE_323 =
   [(''VADDAbc.0'', 323, CPI_COP_DEFAULT), (''VSUBAbc.0'', 324, CPI_COP_DEFAULT),
    (''VMADDAbc.0'', 325, CPI_COP_DEFAULT), (''VMSUBAbc.0'', 326, CPI_COP_DEFAULT),
    (''VITOF0'', 327, CPI_COP_DEFAULT), (''VFTOI0'', 328, CPI_COP_DEFAULT),
    (''VMULAbc.0'', 329, CPI_COP_DEFAULT), (''VMULAq'', 330, CPI_COP_DEFAULT),
    (''VADDAq'', 331, CPI_COP_DEFAULT), (''VSUBAq'', 332, CPI_COP_DEFAULT),
    (''VADDA'', 333, CPI_COP_DEFAULT), (''VSUBA'', 334, CPI_COP_DEFAULT),
    (''VMOVE'', 335, CPI_COP_DEFAULT), (''VLQI'', 336, CPI_COP_DEFAULT),
    (''VDIV'', 337, CPI_COP_DEFAULT), (''VMTIR'', 338, CPI_COP_DEFAULT),
    (''VRNEXT'', 339, CPI_COP_DEFAULT), (''VADDAbc.1'', 340, CPI_COP_DEFAULT),
    (''VSUBAbc.1'', 341, CPI_COP_DEFAULT), (''VMADDAbc.1'', 342, CPI_COP_DEFAULT),
    (''VMSUBAbc.1'', 343, CPI_COP_DEFAULT), (''VITOF4'', 344, CPI_COP_DEFAULT),
    (''VFTIO4'', 345, CPI_COP_DEFAULT), (''VMULAbc.1'', 346, CPI_COP_DEFAULT),
    (''VABS'', 347, CPI_COP_DEFAULT), (''VMADDAq'', 348, CPI_COP_DEFAULT),
    (''VMSUBAq'', 349, CPI_COP_DEFAULT), (''VMADDA'', 350, CPI_COP_DEFAULT),
    (''VMSUBA'', 351, CPI_COP_DEFAULT), (''VMR32'', 352, CPI_COP_DEFAULT),
    (''VSQI'', 353, CPI_COP_DEFAULT), (''VSQRT'', 354, CPI_COP_DEFAULT),
    (''VMFIR'', 355, CPI_COP_DEFAULT), (''VRGET'', 356, CPI_COP_DEFAULT),
    (''VADDAbc.2'', 357, CPI_COP_DEFAULT), (''VSUBAbc.2'', 358, CPI_COP_DEFAULT),
    (''VMADDAbc.2'', 359, CPI_COP_DEFAULT), (''VMSUBAbc.2'', 360, CPI_COP_DEFAULT),
    (''VITOF12'', 361, CPI_COP_DEFAULT), (''VFTIO12'', 362, CPI_COP_DEFAULT),
    (''VMULAbc.2'', 363, CPI_COP_DEFAULT), (''VMULAi'', 364, CPI_COP_DEFAULT),
    (''VADDAi'', 365, CPI_COP_DEFAULT), (''VSUBAi'', 366, CPI_COP_DEFAULT),
    (''VMULA'', 367, CPI_COP_DEFAULT), (''VOPMULA'', 368, CPI_COP_DEFAULT),
    (''VLQD'', 369, CPI_COP_DEFAULT), (''VRSQRT'', 370, CPI_COP_DEFAULT),
    (''VILWR'', 371, CPI_COP_DEFAULT), (''VRINIT'', 372, CPI_COP_DEFAULT),
    (''VADDAbc.3'', 373, CPI_COP_DEFAULT), (''VSUBAbc.3'', 374, CPI_COP_DEFAULT),
    (''VMADDAbc.3'', 375, CPI_COP_DEFAULT), (''VMSUBAbc.3'', 376, CPI_COP_DEFAULT),
    (''VITOF15'', 377, CPI_COP_DEFAULT), (''VFTIO15'', 378, CPI_COP_DEFAULT),
    (''VMULAbc.3'', 379, CPI_COP_DEFAULT), (''VCLIP'', 380, CPI_COP_DEFAULT),
    (''VMADDAi'', 381, CPI_COP_DEFAULT), (''VMSUBAi'', 382, CPI_COP_DEFAULT),
    (''VNOP'', 383, CPI_COP_DEFAULT), (''VSQD'', 384, CPI_COP_DEFAULT),
    (''VWAITQ'', 385, CPI_COP_DEFAULT), (''VISWR'', 386, CPI_COP_DEFAULT),
    (''VRXOR'', 387, CPI_COP_DEFAULT)]"

definition EE_CORE_INSTRUCTION_TABLE_268 :: "instruction_info list" where
  "EE_CORE_INSTRUCTION_TABLE_268 =
   [(''VADDbc.0'', 268, CPI_COP_DEFAULT), (''VADDbc.1'', 269, CPI_COP_DEFAULT),
    (''VADDbc.2'', 270, CPI_COP_DEFAULT), (''VADDbc.3'', 271, CPI_COP_DEFAULT),
    (''VSUBbc.0'', 272, CPI_COP_DEFAULT), (''VSUBbc.1'', 273, CPI_COP_DEFAULT),
    (''VSUBbc.2'', 274, CPI_COP_DEFAULT), (''VSUBbc.3'', 275, CPI_COP_DEFAULT),
    (''VMADDbc.0'', 276, CPI_COP_DEFAULT), (''VMADDbc.1'', 277, CPI_COP_DEFAULT),
    (''VMADDbc.2'', 278, CPI_COP_DEFAULT), (''VMADDbc.3'', 279, CPI_COP_DEFAULT),
    (''VMSUBbc.0'', 280, CPI_COP_DEFAULT), (''VMSUBbc.1'', 281, CPI_COP_DEFAULT),
    (''VMSUBbc.2'', 282, CPI_COP_DEFAULT), (''VMSUBbc.3'', 283, CPI_COP_DEFAULT),
    (''VMAXbc.0'', 284, CPI_COP_DEFAULT), (''VMAXbc.1'', 285, CPI_COP_DEFAULT),
    (''VMAXbc.2'', 286, CPI_COP_DEFAULT), (''VMAXbc.3'', 287, CPI_COP_DEFAULT),
    (''VMINIbc.0'', 288, CPI_COP_DEFAULT), (''VMINIbc.1'', 289, CPI_COP_DEFAULT),
    (''VMINIbc.2'', 290, CPI_COP_DEFAULT), (''VMINIbc.3'', 291, CPI_COP_DEFAULT),
    (''VMULbc.0'', 292, CPI_COP_DEFAULT), (''VMULbc.1'', 293, CPI_COP_DEFAULT),
    (''VMULbc.2'', 294, CPI_COP_DEFAULT), (''VMULbc.3'', 295, CPI_COP_DEFAULT),
    (''VMULq'', 296, CPI_COP_DEFAULT), (''VMAXi'', 297, CPI_COP_DEFAULT),
    (''VMULi'', 298, CPI_COP_DEFAULT), (''VMINIi'', 299, CPI_COP_DEFAULT),
    (''VADDq'', 300, CPI_COP_DEFAULT), (''VMADDq'', 301, CPI_COP_DEFAULT),
    (''VADDi'', 302, CPI_COP_DEFAULT), (''VMADDi'', 303, CPI_COP_DEFAULT),
    (''VSUBq'', 304, CPI_COP_DEFAULT), (''VMSUBq'', 305, CPI_COP_DEFAULT),
    (''VSUBi'', 306, CPI_COP_DEFAULT), (''VMSUBi'', 307, CPI_COP_DEFAULT),
    (''VADD'', 308, CPI_COP_DEFAULT), (''VMADD'', 309, CPI_COP_DEFAULT),
    (''VMUL'', 310, CPI_COP_DEFAULT), (''VMAX'', 311, CPI_COP_DEFAULT),
    (''VSUB'', 312, CPI_COP_DEFAULT), (''VMSUB'', 313, CPI_COP_DEFAULT),
    (''VOPMSUB'', 314, CPI_COP_DEFAULT), (''VMINI'', 315, CPI_COP_DEFAULT),
    (''VIADD'', 316, CPI_COP_DEFAULT), (''VISUB'', 317, CPI_COP_DEFAULT),
    (''VIADDI'', 318, CPI_COP_DEFAULT), (''VIAND'', 319, CPI_COP_DEFAULT),
    (''VIOR'', 320, CPI_COP_DEFAULT), (''VCALLMS'', 321, CPI_COP_DEFAULT),
    (''VCALLMSR'', 322, CPI_COP_DEFAULT)]"

definition EE_CORE_INSTRUCTION_TABLE_1 :: "instruction_info list" where
  "EE_CORE_INSTRUCTION_TABLE_1 =
   [(''J'', 1, CPI_R5900_BRANCH), (''JAL'', 2, CPI_R5900_BRANCH),
    (''BEQ'', 3, CPI_R5900_BRANCH), (''BNE'', 4, CPI_R5900_BRANCH),
    (''BLEZ'', 5, CPI_R5900_BRANCH), (''BGTZ'', 6, CPI_R5900_BRANCH),
    (''ADDI'', 7, CPI_R5900_DEFAULT), (''ADDIU'', 8, CPI_R5900_DEFAULT),
    (''SLTI'', 9, CPI_R5900_DEFAULT), (''SLTIU'', 10, CPI_R5900_DEFAULT),
    (''ANDI'', 11, CPI_R5900_DEFAULT), (''ORI'', 12, CPI_R5900_DEFAULT),
    (''XORI'', 13, CPI_R5900_DEFAULT), (''LUI'', 14, CPI_R5900_DEFAULT),
    (''BEQL'', 15, CPI_R5900_BRANCH), (''BNEL'', 16, CPI_R5900_BRANCH),
    (''BLEZL'', 17, CPI_R5900_BRANCH), (''BGTZL'', 18, CPI_R5900_BRANCH),
    (''DADDI'', 19, CPI_R5900_DEFAULT), (''DADDIU'', 20, CPI_R5900_DEFAULT),
    (''LDL'', 21, CPI_R5900_LOAD), (''LDR'', 22, CPI_R5900_LOAD), (''LQ'', 23, CPI_R5900_LOAD),
    (''SQ'', 24, CPI_R5900_STORE), (''LB'', 25, CPI_R5900_LOAD), (''LH'', 26, CPI_R5900_LOAD),
    (''LWL'', 27, CPI_R5900_LOAD), (''LW'', 28, CPI_R5900_LOAD), (''LBU'', 29, CPI_R5900_LOAD),
    (''LHU'', 30, CPI_R5900_LOAD), (''LWR'', 31, CPI_R5900_LOAD), (''LWU'', 32, CPI_R5900_LOAD),
    (''SB'', 33, CPI_R5900_STORE), (''SH'', 34, CPI_R5900_STORE),
    (''SWL'', 35, CPI_R5900_STORE), (''SW'', 36, CPI_R5900_STORE),
    (''SDL'', 37, CPI_R5900_STORE), (''SDR'', 38, CPI_R5900_STORE),
    (''SWR'', 39, CPI_R5900_STORE), (''CACHE'', 40, CPI_R5900_DEFAULT),
    (''LWC1'', 41, CPI_R5900_LOAD), (''PREF'', 42, CPI_R5900_DEFAULT),
    (''LQC2'', 43, CPI_R5900_LOAD), (''LD'', 44, CPI_R5900_LOAD),
    (''SWC1'', 45, CPI_R5900_STORE), (''SQC2'', 46, CPI_R5900_STORE),
    (''SD'', 47, CPI_R5900_STORE)]"

definition EE_CORE_INSTRUCTION_TABLE :: "instruction_info list" where
  "EE_CORE_INSTRUCTION_TABLE =
     EE_CORE_INSTRUCTION_TABLE_48 @ EE_CORE_INSTRUCTION_TABLE_137 @
     EE_CORE_INSTRUCTION_TABLE_116 @ EE_CORE_INSTRUCTION_TABLE_217 @
     EE_CORE_INSTRUCTION_TABLE_215 @ EE_CORE_INSTRUCTION_TABLE_232 @
     EE_CORE_INSTRUCTION_TABLE_228 @ EE_CORE_INSTRUCTION_TABLE_264 @
     EE_CORE_INSTRUCTION_TABLE_260 @ EE_CORE_INSTRUCTION_TABLE_323 @
     EE_CORE_INSTRUCTION_TABLE_268 @ EE_CORE_INSTRUCTION_TABLE_1"

lemmas ee_segment_defs =
  EE_CORE_INSTRUCTION_TABLE_48_def EE_CORE_INSTRUCTION_TABLE_137_def
  EE_CORE_INSTRUCTION_TABLE_116_def EE_CORE_INSTRUCTION_TABLE_217_def
  EE_CORE_INSTRUCTION_TABLE_215_def EE_CORE_INSTRUCTION_TABLE_232_def
  EE_CORE_INSTRUCTION_TABLE_228_def EE_CORE_INSTRUCTION_TABLE_264_def
  EE_CORE_INSTRUCTION_TABLE_260_def EE_CORE_INSTRUCTION_TABLE_323_def
  EE_CORE_INSTRUCTION_TABLE_268_def EE_CORE_INSTRUCTION_TABLE_1_def

section \<open>The lookup\<close>

definition EE_LOOKUP_SPECIAL :: decode_tree where
  "EE_LOOKUP_SPECIAL = Switch Funct
   [(0, Entry 0), (2, Entry 1), (3, Entry 2), (4, Entry 3), (6, Entry 4), (7, Entry 5),
    (8, Entry 6), (9, Entry 7), (10, Entry 8), (11, Entry 9), (12, Entry 10), (13, Entry 11),
    (15, Entry 12), (16, Entry 13), (17, Entry 14), (18, Entry 15), (19, Entry 16),
    (20, Entry 17), (22, Entry 18), (23, Entry 19), (24, Entry 20), (25, Entry 21),
    (26, Entry 22), (27, Entry 23), (32, Entry 24), (33, Entry 25), (34, Entry 26),
    (35, Entry 27), (36, Entry 28), (37, Entry 29), (38, Entry 30), (39, Entry 31),
    (40, Entry 32), (41, Entry 33), (42, Entry 34), (43, Entry 35), (44, Entry 36),
    (45, Entry 37), (46, Entry 38), (47, Entry 39), (48, Entry 40), (49, Entry 41),
    (50, Entry 42), (51, Entry 43), (52, Entry 44), (54, Entry 45), (56, Entry 46),
    (58, Entry 47), (59, Entry 48), (60, Entry 49), (62, Entry 50), (63, Entry 51)]"

definition EE_LOOKUP_REGIMM :: decode_tree where
  "EE_LOOKUP_REGIMM = Switch Rt
   [(0, Entry 52), (1, Entry 53), (2, Entry 54), (3, Entry 55), (8, Entry 56), (9, Entry 57),
    (10, Entry 58), (11, Entry 59), (12, Entry 60), (14, Entry 61), (16, Entry 62),
    (17, Entry 63), (18, Entry 64), (19, Entry 65), (24, Entry 66), (25, Entry 67)]"

definition EE_LOOKUP_MMI_8 :: decode_tree where
  "EE_LOOKUP_MMI_8 = Switch Shamt
   [(0, Entry 68), (1, Entry 69), (2, Entry 70), (3, Entry 71), (4, Entry 72), (5, Entry 73),
    (6, Entry 74), (7, Entry 75), (8, Entry 76), (9, Entry 77), (10, Entry 78), (16, Entry 79),
    (17, Entry 80), (18, Entry 81), (19, Entry 82), (20, Entry 83), (21, Entry 84),
    (22, Entry 85), (23, Entry 86), (24, Entry 87), (25, Entry 88), (26, Entry 89),
    (27, Entry 90), (30, Entry 91), (31, Entry 92)]"

definition EE_LOOKUP_MMI_40 :: decode_tree where
  "EE_LOOKUP_MMI_40 = Switch Shamt
   [(1, Entry 93), (2, Entry 94), (3, Entry 95), (4, Entry 96), (5, Entry 97), (6, Entry 98),
    (7, Entry 99), (10, Entry 100), (16, Entry 101), (17, Entry 102), (18, Entry 103),
    (20, Entry 104), (21, Entry 105), (22, Entry 106), (24, Entry 107), (25, Entry 108),
    (26, Entry 109), (27, Entry 110)]"

definition EE_LOOKUP_MMI_9 :: decode_tree where
  "EE_LOOKUP_MMI_9 = Switch Shamt
   [(0, Entry 111), (2, Entry 112), (3, Entry 113), (4, Entry 114), (8, Entry 115),
    (9, Entry 116), (10, Entry 117), (12, Entry 118), (13, Entry 119), (14, Entry 120),
    (16, Entry 121), (17, Entry 122), (18, Entry 123), (19, Entry 124), (20, Entry 125),
    (21, Entry 126), (26, Entry 127), (27, Entry 128), (28, Entry 129), (29, Entry 130),
    (30, Entry 131), (31, Entry 132)]"

definition EE_LOOKUP_MMI_41 :: decode_tree where
  "EE_LOOKUP_MMI_41 = Switch Shamt
   [(0, Entry 133), (3, Entry 134), (8, Entry 135), (9, Entry 136), (10, Entry 137),
    (12, Entry 138), (13, Entry 139), (14, Entry 140), (18, Entry 141), (19, Entry 142),
    (26, Entry 143), (27, Entry 144), (30, Entry 145)]"

definition EE_LOOKUP_MMI :: decode_tree where
  "EE_LOOKUP_MMI = Switch Funct
   [(8, EE_LOOKUP_MMI_8), (40, EE_LOOKUP_MMI_40), (9, EE_LOOKUP_MMI_9), (41, EE_LOOKUP_MMI_41),
    (0, Entry 146), (1, Entry 147), (4, Entry 148), (16, Entry 149), (17, Entry 150),
    (18, Entry 151), (19, Entry 152), (24, Entry 153), (25, Entry 154), (26, Entry 155),
    (27, Entry 156), (32, Entry 157), (33, Entry 158), (48, Entry 159), (49, Entry 160),
    (52, Entry 161), (54, Entry 162), (55, Entry 163), (60, Entry 164), (62, Entry 165),
    (63, Entry 166)]"

definition EE_LOOKUP_COP0_8 :: decode_tree where
  "EE_LOOKUP_COP0_8 = Switch Rt
   [(0, Entry 167), (1, Entry 168), (2, Entry 169), (3, Entry 170)]"

definition EE_LOOKUP_COP0_16 :: decode_tree where
  "EE_LOOKUP_COP0_16 = Switch Funct
   [(1, Entry 171), (2, Entry 172), (6, Entry 173), (8, Entry 174), (24, Entry 175),
    (56, Entry 176), (57, Entry 177)]"

definition EE_LOOKUP_COP0 :: decode_tree where
  "EE_LOOKUP_COP0 = Switch Rs
   [(8, EE_LOOKUP_COP0_8), (16, EE_LOOKUP_COP0_16), (0, Entry 178), (4, Entry 179)]"

definition EE_LOOKUP_COP1_8 :: decode_tree where
  "EE_LOOKUP_COP1_8 = Switch Rt
   [(0, Entry 180), (1, Entry 181), (2, Entry 182), (3, Entry 183)]"

definition EE_LOOKUP_COP1_16 :: decode_tree where
  "EE_LOOKUP_COP1_16 = Switch Funct
   [(0, Entry 184), (1, Entry 185), (2, Entry 186), (3, Entry 187), (4, Entry 188),
    (5, Entry 189), (6, Entry 190), (7, Entry 191), (21, Entry 192), (23, Entry 193),
    (24, Entry 194), (25, Entry 195), (27, Entry 196), (28, Entry 197), (29, Entry 198),
    (30, Entry 199), (35, Entry 200), (39, Entry 201), (40, Entry 202), (47, Entry 203),
    (49, Entry 204), (51, Entry 205), (53, Entry 206)]"

definition EE_LOOKUP_COP1_20 :: decode_tree where
  "EE_LOOKUP_COP1_20 = Switch Funct
   [(32, Entry 207)]"

definition EE_LOOKUP_COP1 :: decode_tree where
  "EE_LOOKUP_COP1 = Switch Rs
   [(8, EE_LOOKUP_COP1_8), (16, EE_LOOKUP_COP1_16), (20, EE_LOOKUP_COP1_20), (0, Entry 208),
    (2, Entry 209), (4, Entry 210), (6, Entry 211)]"

definition EE_LOOKUP_COP2_0_8 :: decode_tree where
  "EE_LOOKUP_COP2_0_8 = Switch Rt
   [(0, Entry 212), (1, Entry 213), (2, Entry 214), (3, Entry 215)]"

definition EE_LOOKUP_COP2_0 :: decode_tree where
  "EE_LOOKUP_COP2_0 = Switch Dest
   [(8, EE_LOOKUP_COP2_0_8), (1, Entry 216), (2, Entry 217), (5, Entry 218), (6, Entry 219)]"

definition EE_LOOKUP_COP2_1_60 :: decode_tree where
  "EE_LOOKUP_COP2_1_60 = Switch Shamt
   [(0, Entry 220), (1, Entry 221), (2, Entry 222), (3, Entry 223), (4, Entry 224),
    (5, Entry 225), (6, Entry 226), (7, Entry 227), (8, Entry 228), (9, Entry 229),
    (10, Entry 230), (11, Entry 231), (12, Entry 232), (13, Entry 233), (14, Entry 234),
    (15, Entry 235), (16, Entry 236)]"

definition EE_LOOKUP_COP2_1_61 :: decode_tree where
  "EE_LOOKUP_COP2_1_61 = Switch Shamt
   [(0, Entry 237), (1, Entry 238), (2, Entry 239), (3, Entry 240), (4, Entry 241),
    (5, Entry 242), (6, Entry 243), (7, Entry 244), (8, Entry 245), (9, Entry 246),
    (10, Entry 247), (11, Entry 248), (12, Entry 249), (13, Entry 250), (14, Entry 251),
    (15, Entry 252), (16, Entry 253)]"

definition EE_LOOKUP_COP2_1_62 :: decode_tree where
  "EE_LOOKUP_COP2_1_62 = Switch Shamt
   [(0, Entry 254), (1, Entry 255), (2, Entry 256), (3, Entry 257), (4, Entry 258),
    (5, Entry 259), (6, Entry 260), (7, Entry 261), (8, Entry 262), (9, Entry 263),
    (10, Entry 264), (11, Entry 265), (13, Entry 266), (14, Entry 267), (15, Entry 268),
    (16, Entry 269)]"

definition EE_LOOKUP_COP2_1_63 :: decode_tree where
  "EE_LOOKUP_COP2_1_63 = Switch Shamt
   [(0, Entry 270), (1, Entry 271), (2, Entry 272), (3, Entry 273), (4, Entry 274),
    (5, Entry 275), (6, Entry 276), (7, Entry 277), (8, Entry 278), (9, Entry 279),
    (11, Entry 280), (13, Entry 281), (14, Entry 282), (15, Entry 283), (16, Entry 284)]"

definition EE_LOOKUP_COP2_1 :: decode_tree where
  "EE_LOOKUP_COP2_1 = Switch Funct
   [(60, EE_LOOKUP_COP2_1_60), (61, EE_LOOKUP_COP2_1_61), (62, EE_LOOKUP_COP2_1_62),
    (63, EE_LOOKUP_COP2_1_63), (0, Entry 285), (1, Entry 286), (2, Entry 287), (3, Entry 288),
    (4, Entry 289), (5, Entry 290), (6, Entry 291), (7, Entry 292), (8, Entry 293),
    (9, Entry 294), (10, Entry 295), (11, Entry 296), (12, Entry 297), (13, Entry 298),
    (14, Entry 299), (15, Entry 300), (16, Entry 301), (17, Entry 302), (18, Entry 303),
    (19, Entry 304), (20, Entry 305), (21, Entry 306), (22, Entry 307), (23, Entry 308),
    (24, Entry 309), (25, Entry 310), (26, Entry 311), (27, Entry 312), (28, Entry 313),
    (29, Entry 314), (30, Entry 315), (31, Entry 316), (32, Entry 317), (33, Entry 318),
    (34, Entry 319), (35, Entry 320), (36, Entry 321), (37, Entry 322), (38, Entry 323),
    (39, Entry 324), (40, Entry 325), (41, Entry 326), (42, Entry 327), (43, Entry 328),
    (44, Entry 329), (45, Entry 330), (46, Entry 331), (47, Entry 332), (48, Entry 333),
    (49, Entry 334), (50, Entry 335), (52, Entry 336), (53, Entry 337), (56, Entry 338),
    (57, Entry 339)]"

definition EE_LOOKUP_COP2 :: decode_tree where
  "EE_LOOKUP_COP2 = Switch Co
   [(0, EE_LOOKUP_COP2_0), (1, EE_LOOKUP_COP2_1)]"

definition EE_LOOKUP :: decode_tree where
  "EE_LOOKUP = Switch Opcode
   [(0, EE_LOOKUP_SPECIAL), (1, EE_LOOKUP_REGIMM), (28, EE_LOOKUP_MMI), (16, EE_LOOKUP_COP0),
    (17, EE_LOOKUP_COP1), (18, EE_LOOKUP_COP2), (2, Entry 340), (3, Entry 341), (4, Entry 342),
    (5, Entry 343), (6, Entry 344), (7, Entry 345), (8, Entry 346), (9, Entry 347),
    (10, Entry 348), (11, Entry 349), (12, Entry 350), (13, Entry 351), (14, Entry 352),
    (15, Entry 353), (20, Entry 354), (21, Entry 355), (22, Entry 356), (23, Entry 357),
    (24, Entry 358), (25, Entry 359), (26, Entry 360), (27, Entry 361), (30, Entry 362),
    (31, Entry 363), (32, Entry 364), (33, Entry 365), (34, Entry 366), (35, Entry 367),
    (36, Entry 368), (37, Entry 369), (38, Entry 370), (39, Entry 371), (40, Entry 372),
    (41, Entry 373), (42, Entry 374), (43, Entry 375), (44, Entry 376), (45, Entry 377),
    (46, Entry 378), (47, Entry 379), (49, Entry 380), (51, Entry 381), (54, Entry 382),
    (55, Entry 383), (57, Entry 384), (62, Entry 385), (63, Entry 386)]"

lemmas lookup_defs =
  EE_LOOKUP_SPECIAL_def EE_LOOKUP_REGIMM_def EE_LOOKUP_MMI_8_def EE_LOOKUP_MMI_40_def
  EE_LOOKUP_MMI_9_def EE_LOOKUP_MMI_41_def EE_LOOKUP_MMI_def EE_LOOKUP_COP0_8_def
  EE_LOOKUP_COP0_16_def EE_LOOKUP_COP0_def EE_LOOKUP_COP1_8_def EE_LOOKUP_COP1_16_def
  EE_LOOKUP_COP1_20_def EE_LOOKUP_COP1_def EE_LOOKUP_COP2_0_8_def EE_LOOKUP_COP2_0_def
  EE_LOOKUP_COP2_1_60_def EE_LOOKUP_COP2_1_61_def EE_LOOKUP_COP2_1_62_def
  EE_LOOKUP_COP2_1_63_def EE_LOOKUP_COP2_1_def EE_LOOKUP_COP2_def EE_LOOKUP_def

definition ee_lookup :: "instruction \<Rightarrow> instruction_info res" where
  "ee_lookup i = bind_res (decode EE_LOOKUP i) (\<lambda>k. Inr (EE_CORE_INSTRUCTION_TABLE ! k))"

section \<open>Every entry is decoded from one path\<close>

lemma entries_lookup: "entries EE_LOOKUP = [0..<387]"
  by code_simp

lemmas ee_table_defs = EE_CORE_INSTRUCTION_TABLE_def ee_segment_defs

lemma table_length: "length EE_CORE_INSTRUCTION_TABLE = 387"
  by (simp add: ee_table_defs)

lemma table_index_runs:
  "map impl_index EE_CORE_INSTRUCTION_TABLE =
     [48..<116] @ [137..<215] @ [116..<137] @ [217..<228] @ [215..<217] @
     [232..<260] @ [228..<232] @ [264..<268] @ [260..<264] @ [323..<388] @
     [268..<323] @ [1..<48]"
  by code_simp

lemma table_indices: "set (map impl_index EE_CORE_INSTRUCTION_TABLE) = {1..<388}"
proof -
  have eq: "({1..<48} \<union> {48..<116} \<union> {116..<137} \<union> {137..<215} \<union>
      {215..<217} \<union> {217..<228} \<union> {228..<232} \<union> {232..<260} \<union> {260..<264} \<union>
      {264..<268} \<union> {268..<323} \<union> {323..<388} :: nat set) = {1..<388}"
    by ((subst ivl_disj_un_two(3), simp, simp)+, rule refl)
  show ?thesis
    unfolding table_index_runs eq[symmetric] by (simp only: set_append set_upt Un_ac)
qed

lemma table_cpi: "list_all (\<lambda>e. 0 < cpi e) EE_CORE_INSTRUCTION_TABLE"
  by (simp add: ee_table_defs cpi_defs)

text \<open>What \<open>lookup\<close> returns is an entry of the table with an implementation and a positive cost.\<close>

lemma ee_lookup_entry:
  assumes "ee_lookup i = Inr e"
  shows "e \<in> set EE_CORE_INSTRUCTION_TABLE" "impl_index e \<in> {1..<388}" "0 < cpi e"
proof -
  obtain k where "decode EE_LOOKUP i = Inr k" and e: "e = EE_CORE_INSTRUCTION_TABLE ! k"
    using assms by (auto simp: ee_lookup_def)
  then have "k < 387" using decode_entry[of EE_LOOKUP i k] by (simp add: entries_lookup)
  then show m: "e \<in> set EE_CORE_INSTRUCTION_TABLE" by (simp add: e table_length)
  show "impl_index e \<in> {1..<388}" using m unfolding table_indices[symmetric] by simp
  show "0 < cpi e" using m table_cpi by (simp add: list_all_iff)
qed

lemma ee_lookup_error: "ee_lookup i = Inl e \<Longrightarrow> e = Runtime_error"
  by (auto simp: ee_lookup_def bind_res_eq_Inl dest: decode_error)

end
