(* ===== verification/TickLoop.thy ===== *)
theory TickLoop
  imports Prelude
begin

text \<open>
  The loop every controller runs on a time event: while ticks remain, take a step and subtract
  the ticks it used.  The step as a relation on ticks and states, and the locale of such loops:
  a run is the closure of the step.
\<close>

datatype 't controller_event = Time_event 't | HBlank_event int | VBlank_event int

datatype event_type = Time_type | HBlank_type | VBlank_type

text \<open>The counted loops of the timers: a body run a number of times, until it fails.\<close>

fun repeat_res :: "nat \<Rightarrow> ('s \<Rightarrow> 's res) \<Rightarrow> 's \<Rightarrow> 's res" where
  "repeat_res 0 f s = Inr s"
| "repeat_res (Suc n) f s = bind_res (f s) (repeat_res n f)"

lemma repeat_res_add: "repeat_res (m + n) f s = bind_res (repeat_res m f s) (repeat_res n f)"
proof (induction m arbitrary: s)
  case (Suc m)
  then show ?case by (cases "f s") simp_all
qed simp

lemma repeat_res_Suc_right: "repeat_res (Suc n) f s = bind_res (repeat_res n f s) f"
proof -
  have "bind_res (f a) Inr = f a" for a by (cases "f a") simp_all
  moreover have "repeat_res 0 f = Inr" by (intro ext) simp
  ultimately have "repeat_res (Suc 0) f = f" by (intro ext) simp
  then show ?thesis using repeat_res_add[of n "Suc 0" f s] by (simp del: repeat_res.simps)
qed

lemma repeat_res_keeps:
  assumes "P s" and "\<And>s. P s \<Longrightarrow> ok_res P (f s)"
  shows "ok_res P (repeat_res n f s)"
  using assms(1)
proof (induction n arbitrary: s)
  case (Suc n)
  then show ?case using assms(2)[OF Suc.prems] by (cases "f s") simp_all
qed simp

inductive slice_step :: "(int \<Rightarrow> 's \<Rightarrow> (int \<times> 's) res) \<Rightarrow> int \<times> 's \<Rightarrow> int \<times> 's \<Rightarrow> bool"
  for step :: "int \<Rightarrow> 's \<Rightarrow> (int \<times> 's) res" where
  slice_step: "0 < t \<Longrightarrow> step t s = Inr (n, s') \<Longrightarrow> slice_step step (t, s) (t - n, s')"

inductive_cases slice_stepE: "slice_step step (t, s) c"
inductive_simps slice_step_iff: "slice_step step (t, s) (t', s')"

lemma slice_step_deterministic: "slice_step step c c1 \<Longrightarrow> slice_step step c c2 \<Longrightarrow> c1 = c2"
  by (auto elim!: slice_step.cases)

text \<open>What every step keeps, every reachable state has.\<close>

lemma slice_reachable:
  assumes "(slice_step step)\<^sup>*\<^sup>* (t, s) (t', s')" and "P s"
    and "\<And>t s. P s \<Longrightarrow> ok_res (\<lambda>(n, s'). P s') (step t s)"
  shows "P s'"
  using assms(1)
proof (induction "(t', s')" arbitrary: t' s' rule: rtranclp_induct)
  case base
  then show ?case using assms(2) by simp
next
  case (step c)
  then obtain t1 s1 n where "c = (t1, s1)" "P s1" "step t1 s1 = Inr (n, s')"
    by (cases c) (auto simp: slice_step_iff)
  then show ?case using assms(3)[of s1 t1] by simp
qed

locale tick_loop =
  fixes step :: "int \<Rightarrow> 's \<Rightarrow> (int \<times> 's) res" and run :: "int \<Rightarrow> 's \<Rightarrow> 's res"
  assumes cost: "0 < t \<Longrightarrow> step t s = Inr (n, s') \<Longrightarrow> 0 < n"
    and run: "run t s =
      (if t > 0 then case step t s of Inl e \<Rightarrow> Inl e | Inr (n, s') \<Rightarrow> run (t - n) s' else Inr s)"
begin

lemma run_stop: "t \<le> 0 \<Longrightarrow> run t s = Inr s"
  by (subst run) simp

lemma run_step: "0 < t \<Longrightarrow> step t s = Inr (n, s') \<Longrightarrow> run t s = run (t - n) s'"
  by (subst run) simp

lemma run_fail: "0 < t \<Longrightarrow> step t s = Inl e \<Longrightarrow> run t s = Inl e"
  by (subst run) simp

lemma run_along: "(slice_step step)\<^sup>*\<^sup>* (t, s) (t', s') \<Longrightarrow> run t s = run t' s'"
  by (induction "(t, s)" arbitrary: t s rule: converse_rtranclp_induct)
    (auto simp: slice_step.simps run_step)

text \<open>Every run ends: it has used up its ticks or it failed in some step.\<close>

lemma run_ends:
  "\<exists>t' s'. (slice_step step)\<^sup>*\<^sup>* (t, s) (t', s') \<and>
     (t' \<le> 0 \<and> run t s = Inr s' \<or> 0 < t' \<and> (\<exists>e. step t' s' = Inl e \<and> run t s = Inl e))"
proof (induction "nat t" arbitrary: t s rule: less_induct)
  case less
  show ?case
  proof (cases "0 < t")
    case True
    show ?thesis
    proof (cases "step t s")
      case (Inl e)
      then show ?thesis using True run_fail by blast
    next
      case (Inr r)
      then obtain n s1 where s1: "step t s = Inr (n, s1)" by (cases r) auto
      have "nat (t - n) < nat t" using cost[OF True s1] True by simp
      from less[OF this, of s1] show ?thesis
        using slice_step[of t step s n s1, OF True s1] run_step[OF True s1]
        by (auto intro: converse_rtranclp_into_rtranclp)
    qed
  qed (auto simp: run_stop)
qed

lemma run_success: "run t s = Inr s' \<longleftrightarrow> (\<exists>t'\<le>0. (slice_step step)\<^sup>*\<^sup>* (t, s) (t', s'))"
proof
  assume "run t s = Inr s'"
  then show "\<exists>t'\<le>0. (slice_step step)\<^sup>*\<^sup>* (t, s) (t', s')" using run_ends[of t s] by auto
next
  assume "\<exists>t'\<le>0. (slice_step step)\<^sup>*\<^sup>* (t, s) (t', s')"
  then obtain t' where "t' \<le> 0" and "(slice_step step)\<^sup>*\<^sup>* (t, s) (t', s')" by blast
  from run_along[OF this(2)] run_stop[OF this(1)] show "run t s = Inr s'" by (rule trans)
qed

lemma run_failure:
  "run t s = Inl e \<longleftrightarrow> (\<exists>t' s'. (slice_step step)\<^sup>*\<^sup>* (t, s) (t', s') \<and> 0 < t' \<and> step t' s' = Inl e)"
proof
  assume "run t s = Inl e"
  then show "\<exists>t' s'. (slice_step step)\<^sup>*\<^sup>* (t, s) (t', s') \<and> 0 < t' \<and> step t' s' = Inl e"
    using run_ends[of t s] by auto
next
  assume "\<exists>t' s'. (slice_step step)\<^sup>*\<^sup>* (t, s) (t', s') \<and> 0 < t' \<and> step t' s' = Inl e"
  then obtain t' s' where "0 < t'" "step t' s' = Inl e" and r: "(slice_step step)\<^sup>*\<^sup>* (t, s) (t', s')" by blast
  from run_along[OF r] run_fail[OF this(1,2)] show "run t s = Inl e" by (rule trans)
qed

lemma run_keeps:
  assumes "P s" and "\<And>t s. P s \<Longrightarrow> ok_res (\<lambda>(n, s'). P s') (step t s)"
  shows "ok_res P (run t s)"
proof (cases "run t s")
  case (Inr s')
  then obtain t' where "(slice_step step)\<^sup>*\<^sup>* (t, s) (t', s')" using run_success by blast
  from slice_reachable[OF this assms] Inr show ?thesis by simp
qed simp

text \<open>A step whose effect does not depend on the ticks and is idempotent has its effect once.\<close>

lemma run_idempotent:
  assumes "0 < t" and "P s"
    and "\<And>t s. P s \<Longrightarrow> \<exists>n. step t s = Inr (n, g s)"
    and "\<And>s. P s \<Longrightarrow> P (g s) \<and> g (g s) = g s"
  shows "run t s = Inr (g s)"
  using assms(1,2)
proof (induction "nat t" arbitrary: t s rule: less_induct)
  case less
  obtain n where n: "step t s = Inr (n, g s)" using assms(3)[OF less.prems(2)] by blast
  show ?case
  proof (cases "0 < t - n")
    case True
    then have "run (t - n) (g s) = Inr (g (g s))"
      using less.hyps[of "t - n" "g s"] cost[OF less.prems(1) n] assms(4)[OF less.prems(2)] by simp
    then show ?thesis using run_step[OF less.prems(1) n] assms(4)[OF less.prems(2)] by simp
  qed (use run_step[OF less.prems(1) n] run_stop[of "t - n"] in simp)
qed

end

text \<open>When every step takes the same number of ticks, the number of steps is known beforehand.\<close>

locale fixed_tick_loop = tick_loop step run
  for step :: "int \<Rightarrow> 's \<Rightarrow> (int \<times> 's) res" and run :: "int \<Rightarrow> 's \<Rightarrow> 's res" +
  fixes c :: int
  assumes c: "0 < c" and fixed: "step t s = Inr (n, s') \<Longrightarrow> n = c"
begin

abbreviation steps :: "int \<Rightarrow> nat" where
  "steps t \<equiv> nat ((t + (c - 1)) div c)"

lemma steps_Suc: "0 < t \<Longrightarrow> steps t = Suc (steps (t - c))"
  using c div_add_self2[of c "t - 1"] by (simp add: algebra_simps Suc_nat_eq_nat_zadd1 pos_imp_zdiv_nonneg_iff)

lemma steps_stop: "t \<le> 0 \<Longrightarrow> steps t = 0"
  using zdiv_mono1[of "t + (c - 1)" "c - 1" c] c by simp

lemma step_c: "slice_step step (t, s) d \<longleftrightarrow> (\<exists>s'. 0 < t \<and> step t s = Inr (c, s') \<and> d = (t - c, s'))"
  by (auto simp: slice_step.simps dest: fixed)

lemma run_steps: "run t s = Inr s' \<longleftrightarrow> (slice_step step ^^ steps t) (t, s) (t - c * int (steps t), s')"
proof (induction "steps t" arbitrary: t s)
  case 0
  then have "t \<le> 0" using steps_Suc[of t] by (auto intro: ccontr)
  then show ?case by (auto simp: run_stop steps_stop)
next
  case (Suc k)
  have t: "0 < t" using steps_stop[of t] Suc.hyps(2) by (auto intro: ccontr)
  then have k: "k = steps (t - c)" using steps_Suc[OF t] Suc.hyps(2) by simp
  show ?case
  proof (cases "step t s")
    case (Inl e)
    then show ?thesis
      by (simp add: run_fail[OF t] steps_Suc[OF t] relcompp_apply step_c flip: relpowp_commute)
  next
    case (Inr r)
    then obtain s1 where s1: "step t s = Inr (c, s1)" by (cases r) (auto dest: fixed)
    define m where "m = steps (t - c)"
    have "steps t = Suc m" and "t - c * int (Suc m) = t - c - c * int m"
      using steps_Suc[OF t] by (simp_all add: m_def algebra_simps)
    then show ?thesis
      unfolding run_step[OF t s1] Suc.hyps(1)[OF k] m_def[symmetric]
      by (simp only:) (simp add: relcompp_apply step_c s1 t flip: relpowp_commute)
  qed
qed

end

end
