(* ===== verification/EeInterpreter.thy ===== *)
theory EeInterpreter
  imports EeDecode TickLoop EeAddSub EeLogicShift EeCompare EeBranch EeMultDiv EeTransfer EeReorder EeMemory
    EeFloat EeCop2
begin

text \<open>
  The interpreter as a whole: the table of implementations of \<open>CEeCoreInterpreter.hpp\<close> with the
  names of its members, one step (\<open>CEeCoreInterpreter::time_step\<close>), the loop of
  \<open>CEeCore::handle_event\<close>, and the step relation with its invariant.
\<close>

section \<open>The table of implementations\<close>

type_synonym ee_handler = "instruction \<Rightarrow> ee_sys \<Rightarrow> ee_sys res"

definition lift_total :: "(instruction \<Rightarrow> ee_state \<Rightarrow> ee_state) \<Rightarrow> ee_handler" where
  "lift_total f inst s = Inr (s\<lparr>sys_ee := f inst (sys_ee s)\<rparr>)"
definition lift_partial :: "(instruction \<Rightarrow> ee_state \<Rightarrow> ee_state res) \<Rightarrow> ee_handler" where
  "lift_partial f inst = on_ee (f inst)"

definition INSTRUCTION_UNKNOWN :: ee_handler where
  "INSTRUCTION_UNKNOWN inst s = Inr s"

definition EECORE_INSTRUCTION_TABLE_0 :: "(string \<times> ee_handler) list" where
  "EECORE_INSTRUCTION_TABLE_0 =
   [(''INSTRUCTION_UNKNOWN'', INSTRUCTION_UNKNOWN)]"

definition EECORE_INSTRUCTION_TABLE_1 :: "(string \<times> ee_handler) list" where
  "EECORE_INSTRUCTION_TABLE_1 =
   [(''J'', lift_total J), (''JAL'', lift_total JAL), (''BEQ'', lift_total BEQ),
    (''BNE'', lift_total BNE), (''BLEZ'', lift_total BLEZ), (''BGTZ'', lift_total BGTZ),
    (''ADDI'', lift_partial ADDI), (''ADDIU'', lift_total ADDIU), (''SLTI'', lift_total SLTI),
    (''SLTIU'', lift_total SLTIU), (''ANDI'', lift_total ANDI), (''ORI'', lift_total ORI),
    (''XORI'', lift_total XORI), (''LUI'', lift_total LUI), (''BEQL'', lift_total BEQL),
    (''BNEL'', lift_total BNEL), (''BLEZL'', lift_total BLEZL), (''BGTZL'', lift_total BGTZL),
    (''DADDI'', lift_partial DADDI), (''DADDIU'', lift_total DADDIU),
    (''LDL'', lift_partial LDL), (''LDR'', lift_partial LDR), (''LQ'', lift_partial LQ),
    (''SQ'', lift_partial SQ), (''LB'', lift_partial LB), (''LH'', lift_partial LH),
    (''LWL'', lift_partial LWL), (''LW'', lift_partial LW), (''LBU'', lift_partial LBU),
    (''LHU'', lift_partial LHU), (''LWR'', lift_partial LWR), (''LWU'', lift_partial LWU),
    (''SB'', lift_partial SB), (''SH'', lift_partial SH), (''SWL'', lift_partial SWL),
    (''SW'', lift_partial SW), (''SDL'', lift_partial SDL), (''SDR'', lift_partial SDR),
    (''SWR'', lift_partial SWR), (''CACHE'', lift_total CACHE), (''LWC1'', lift_partial LWC1),
    (''PREF'', lift_total PREF), (''LQC2'', LQC2), (''LD'', lift_partial LD),
    (''SWC1'', lift_partial SWC1), (''LQC2'', LQC2), (''SD'', lift_partial SD)]"

definition EECORE_INSTRUCTION_TABLE_48 :: "(string \<times> ee_handler) list" where
  "EECORE_INSTRUCTION_TABLE_48 =
   [(''SLL'', lift_total SLL), (''SRL'', lift_total SRL), (''SRA'', lift_total SRA),
    (''SLLV'', lift_total SLLV), (''SRLV'', lift_total SRLV), (''SRAV'', lift_total SRAV),
    (''JR'', lift_total JR), (''JALR'', lift_total JALR), (''MOVZ'', lift_total MOVZ),
    (''MOVN'', lift_total MOVN), (''SYSCALL'', lift_partial SYSCALL),
    (''BREAK'', lift_partial BREAK), (''SYNC_STYPE'', lift_total SYNC_STYPE),
    (''MFHI'', lift_total MFHI), (''MTHI'', lift_total MTHI), (''MFLO'', lift_total MFLO),
    (''MTLO'', lift_total MTLO), (''DSLLV'', lift_total DSLLV), (''DSRLV'', lift_total DSRLV),
    (''DSRAV'', lift_total DSRAV), (''MULT'', lift_total MULT), (''MULTU'', lift_total MULTU),
    (''DIV'', lift_total DIV), (''DIVU'', lift_total DIVU), (''ADD'', lift_partial ADD),
    (''ADDU'', lift_total ADDU), (''SUB'', lift_partial SUB), (''SUBU'', lift_total SUBU),
    (''AND'', lift_total AND_inst), (''OR'', lift_total OR_inst),
    (''XOR'', lift_total XOR_inst), (''NOR'', lift_total NOR), (''MFSA'', lift_total MFSA),
    (''MTSA'', lift_total MTSA), (''SLT'', lift_total SLT), (''SLTU'', lift_total SLTU),
    (''DADD'', lift_partial DADD), (''DADDU'', lift_total DADDU), (''DSUB'', lift_partial DSUB),
    (''DSUBU'', lift_total DSUBU), (''TGE'', lift_partial TGE), (''TGEU'', lift_partial TGEU),
    (''TLT'', lift_partial TLT), (''TLTU'', lift_partial TLTU), (''TEQ'', lift_partial TEQ),
    (''TNE'', lift_partial TNE), (''DSLL'', lift_total DSLL), (''DSRL'', lift_total DSRL),
    (''DSRA'', lift_total DSRA), (''DSLL32'', lift_total DSLL32),
    (''DSRL32'', lift_total DSRL32), (''DSRA32'', lift_total DSRA32),
    (''BLTZ'', lift_total BLTZ), (''BGEZ'', lift_total BGEZ), (''BLTZL'', lift_total BLTZL),
    (''BGEZL'', lift_total BGEZL), (''TGEI'', lift_partial TGEI),
    (''TGEIU'', lift_partial TGEIU), (''TLTI'', lift_partial TLTI),
    (''TLTIU'', lift_partial TLTIU), (''TEQI'', lift_partial TEQI),
    (''TNEI'', lift_partial TNEI), (''BLTZAL'', lift_total BLTZAL),
    (''BGEZAL'', lift_total BGEZAL), (''BLTZALL'', lift_total BLTZALL),
    (''BGEZALL'', lift_total BGEZALL), (''MTSAB'', lift_total MTSAB),
    (''MTSAH'', lift_total MTSAH)]"

definition EECORE_INSTRUCTION_TABLE_116 :: "(string \<times> ee_handler) list" where
  "EECORE_INSTRUCTION_TABLE_116 =
   [(''MADD'', lift_total MADD), (''MADDU'', lift_partial MADDU), (''PLZCW'', lift_total PLZCW),
    (''MFHI1'', lift_total MFHI1), (''MTHI1'', lift_total MTHI1), (''MFLO1'', lift_total MFLO1),
    (''MTLO1'', lift_total MTLO1), (''MULT1'', lift_total MULT1),
    (''MULTU1'', lift_total MULTU1), (''DIV1'', lift_total DIV1), (''DIVU1'', lift_total DIVU1),
    (''MADD1'', lift_total MADD1), (''MADDU1'', lift_partial MADDU1),
    (''PMFHL'', lift_total PMFHL), (''PMTHL_LW'', lift_total PMTHL_LW),
    (''PSLLH'', lift_total PSLLH), (''PSRLH'', lift_total PSRLH), (''PSRAH'', lift_total PSRAH),
    (''PSLLW'', lift_total PSLLW), (''PSRLW'', lift_total PSRLW), (''PSRAW'', lift_total PSRAW)]"

definition EECORE_INSTRUCTION_TABLE_137 :: "(string \<times> ee_handler) list" where
  "EECORE_INSTRUCTION_TABLE_137 =
   [(''PADDW'', lift_total PADDW), (''PSUBW'', lift_total PSUBW), (''PCGTW'', lift_total PCGTW),
    (''PMAXW'', lift_total PMAXW), (''PADDH'', lift_total PADDH), (''PSUBH'', lift_total PSUBH),
    (''PCGTH'', lift_total PCGTH), (''PMAXH'', lift_total PMAXH), (''PADDB'', lift_total PADDB),
    (''PSUBB'', lift_total PSUBB), (''PCGTB'', lift_total PCGTB),
    (''PADDSW'', lift_total PADDSW), (''PSUBSW'', lift_total PSUBSW),
    (''PEXTLW'', lift_total PEXTLW), (''PPACW'', lift_total PPACW),
    (''PADDSH'', lift_total PADDSH), (''PSUBSH'', lift_total PSUBSH),
    (''PEXTLH'', lift_total PEXTLH), (''PPACH'', lift_total PPACH),
    (''PADDSB'', lift_total PADDSB), (''PSUBSB'', lift_total PSUBSB),
    (''PEXTLB'', lift_total PEXTLB), (''PPACB'', lift_total PPACB),
    (''PEXT5'', lift_total PEXT5), (''PPAC5'', lift_partial PPAC5),
    (''PABSW'', lift_total PABSW), (''PCEQW'', lift_total PCEQW), (''PMINW'', lift_total PMINW),
    (''PADSBH'', lift_total PADSBH), (''PABSH'', lift_total PABSH),
    (''PCEQH'', lift_total PCEQH), (''PMINH'', lift_total PMINH), (''PCEQB'', lift_total PCEQB),
    (''PADDUW'', lift_total PADDUW), (''PSUBUW'', lift_total PSUBUW),
    (''PEXTUW'', lift_total PEXTUW), (''PADDUH'', lift_total PADDUH),
    (''PSUBUH'', lift_total PSUBUH), (''PEXTUH'', lift_total PEXTUH),
    (''PADDUB'', lift_total PADDUB), (''PSUBUB'', lift_total PSUBUB),
    (''PEXTUB'', lift_total PEXTUB), (''QFSRV'', lift_total QFSRV),
    (''PMADDW'', lift_total PMADDW), (''PSLLVW'', lift_total PSLLVW),
    (''PSRLVW'', lift_total PSRLVW), (''PMSUBW'', lift_total PMSUBW),
    (''PMFHI'', lift_total PMFHI), (''PMFLO'', lift_total PMFLO), (''PINTH'', lift_total PINTH),
    (''PMULTW'', lift_total PMULTW), (''PDIVW'', lift_total PDIVW),
    (''PCPYLD'', lift_total PCPYLD), (''PMADDH'', lift_total PMADDH),
    (''PHMADH'', lift_total PHMADH), (''PAND'', lift_total PAND), (''PXOR'', lift_total PXOR),
    (''PMSUBH'', lift_total PMSUBH), (''PHMSBH'', lift_total PHMSBH),
    (''PEXEH'', lift_total PEXEH), (''PREVH'', lift_total PREVH),
    (''PMULTH'', lift_total PMULTH), (''PDIVBW'', lift_total PDIVBW),
    (''PEXEW'', lift_total PEXEW), (''PROT3W'', lift_total PROT3W),
    (''PMADDUW'', lift_total PMADDUW), (''PSRAVW'', lift_total PSRAVW),
    (''PMTHI'', lift_total PMTHI), (''PMTLO'', lift_total PMTLO),
    (''PINTEH'', lift_total PINTEH), (''PMULTUW'', lift_total PMULTUW),
    (''PDIVUW'', lift_total PDIVUW), (''PCPYUD'', lift_total PCPYUD), (''POR'', lift_total POR),
    (''PNOR'', lift_total PNOR), (''PEXCH'', lift_total PEXCH), (''PCPYH'', lift_total PCPYH),
    (''PEXCW'', lift_total PEXCW)]"

definition EECORE_INSTRUCTION_TABLE_215 :: "(string \<times> ee_handler) list" where
  "EECORE_INSTRUCTION_TABLE_215 =
   [(''MFC0'', lift_partial MFC0), (''MTC0'', lift_partial MTC0)]"

definition EECORE_INSTRUCTION_TABLE_217 :: "(string \<times> ee_handler) list" where
  "EECORE_INSTRUCTION_TABLE_217 =
   [(''BC0F'', lift_partial BC0F), (''BC0T'', lift_partial BC0T),
    (''BC0FL'', lift_partial BC0FL), (''BC0TL'', lift_partial BC0TL),
    (''TLBR'', lift_partial TLBR), (''TLBWI'', lift_partial TLBWI),
    (''TLBWR'', lift_partial TLBWR), (''TLBP'', lift_partial TLBP),
    (''ERET'', lift_partial ERET), (''EI'', lift_partial EI), (''DI'', lift_partial DI)]"

definition EECORE_INSTRUCTION_TABLE_228 :: "(string \<times> ee_handler) list" where
  "EECORE_INSTRUCTION_TABLE_228 =
   [(''MFC1'', lift_partial MFC1), (''CFC1'', lift_partial CFC1), (''MTC1'', lift_partial MTC1),
    (''CTC1'', lift_partial CTC1)]"

definition EECORE_INSTRUCTION_TABLE_232 :: "(string \<times> ee_handler) list" where
  "EECORE_INSTRUCTION_TABLE_232 =
   [(''BC1F'', lift_partial BC1F), (''BC1T'', lift_partial BC1T),
    (''BC1FL'', lift_partial BC1FL), (''BC1TL'', lift_partial BC1TL),
    (''ADD_S'', lift_partial ADD_S), (''SUB_S'', lift_partial SUB_S),
    (''MUL_S'', lift_partial MUL_S), (''DIV_S'', lift_partial DIV_S),
    (''SQRT_S'', lift_partial SQRT_S), (''ABS_S'', lift_partial ABS_S),
    (''MOV_S'', lift_partial MOV_S), (''NEG_S'', lift_partial NEG_S),
    (''RSQRT_S'', lift_partial RSQRT_S), (''ADDA_S'', lift_partial ADDA_S),
    (''SUBA_S'', lift_partial SUBA_S), (''MULA_S'', lift_partial MULA_S),
    (''MADD_S'', lift_partial MADD_S), (''MSUB_S'', lift_partial MSUB_S),
    (''MADDA_S'', lift_partial MADDA_S), (''MSUBA_S'', lift_partial MSUBA_S),
    (''CVT_W_S'', lift_partial CVT_W_S), (''MAX_S'', lift_partial MAX_S),
    (''MIN_S'', lift_partial MIN_S), (''C_F_S'', lift_partial C_F_S),
    (''C_EQ_S'', lift_partial C_EQ_S), (''C_LT_S'', lift_partial C_LT_S),
    (''C_LE_S'', lift_partial C_LE_S), (''CVT_S_W'', lift_partial CVT_S_W)]"

definition EECORE_INSTRUCTION_TABLE_260 :: "(string \<times> ee_handler) list" where
  "EECORE_INSTRUCTION_TABLE_260 =
   [(''QMFC2'', QMFC2), (''CFC2'', CFC2), (''QMTC2'', QMTC2), (''CTC2'', CTC2)]"

definition EECORE_INSTRUCTION_TABLE_264 :: "(string \<times> ee_handler) list" where
  "EECORE_INSTRUCTION_TABLE_264 =
   [(''BC2F'', BC2F), (''BC2T'', BC2T), (''BC2FL'', BC2FL), (''BC2TL'', BC2TL)]"

definition EECORE_INSTRUCTION_TABLE_268 :: "(string \<times> ee_handler) list" where
  "EECORE_INSTRUCTION_TABLE_268 =
   [(''VADDbc_0'', VADDbc_0), (''VADDbc_1'', VADDbc_1), (''VADDbc_2'', VADDbc_2),
    (''VADDbc_3'', VADDbc_3), (''VSUBbc_0'', VSUBbc_0), (''VSUBbc_1'', VSUBbc_1),
    (''VSUBbc_2'', VSUBbc_2), (''VSUBbc_3'', VSUBbc_3), (''VMADDbc_0'', VMADDbc_0),
    (''VMADDbc_1'', VMADDbc_1), (''VMADDbc_2'', VMADDbc_2), (''VMADDbc_3'', VMADDbc_3),
    (''VMSUBbc_0'', VMSUBbc_0), (''VMSUBbc_1'', VMSUBbc_1), (''VMSUBbc_2'', VMSUBbc_2),
    (''VMSUBbc_3'', VMSUBbc_3), (''VMAXbc_0'', VMAXbc_0), (''VMAXbc_1'', VMAXbc_1),
    (''VMAXbc_2'', VMAXbc_2), (''VMAXbc_3'', VMAXbc_3), (''VMINIbc_0'', VMINIbc_0),
    (''VMINIbc_1'', VMINIbc_1), (''VMINIbc_2'', VMINIbc_2), (''VMINIbc_3'', VMINIbc_3),
    (''VMULbc_0'', VMULbc_0), (''VMULbc_1'', VMULbc_1), (''VMULbc_2'', VMULbc_2),
    (''VMULbc_3'', VMULbc_3), (''VMULq'', VMULq), (''VMAXi'', VMAXi), (''VMULi'', VMULi),
    (''VMINIi'', VMINIi), (''VADDq'', VADDq), (''VMADDq'', VMADDq), (''VADDi'', VADDi),
    (''VMADDi'', VMADDi), (''VSUBq'', VSUBq), (''VMSUBq'', VMSUBq), (''VSUBi'', VSUBi),
    (''VMSUBi'', VMSUBi), (''VADD'', VADD), (''VMADD'', VMADD), (''VMUL'', VMUL),
    (''VMAX'', VMAX), (''VSUB'', VSUB), (''VMSUB'', VMSUB), (''VOPMSUB'', VOPMSUB),
    (''VMINI'', VMINI), (''VIADD'', VIADD), (''VISUB'', VISUB), (''VIADDI'', VIADDI),
    (''VIAND'', VIAND), (''VIOR'', VIOR), (''VCALLMS'', VCALLMS), (''VCALLMSR'', VCALLMSR)]"

definition EECORE_INSTRUCTION_TABLE_323 :: "(string \<times> ee_handler) list" where
  "EECORE_INSTRUCTION_TABLE_323 =
   [(''VADDAbc_0'', VADDAbc_0), (''VSUBAbc_0'', VSUBAbc_0), (''VMADDAbc_0'', VMADDAbc_0),
    (''VMSUBAbc_0'', VMSUBAbc_0), (''VITOF0'', VITOF0), (''VFTOI0'', VFTOI0),
    (''VMULAbc_0'', VMULAbc_0), (''VMULAq'', VMULAq), (''VADDAq'', VADDAq),
    (''VSUBAq'', VSUBAq), (''VADDA'', VADDA), (''VSUBA'', VSUBA), (''VMOVE'', VMOVE),
    (''VLQI'', VLQI), (''VDIV'', VDIV), (''VMTIR'', VMTIR), (''VRNEXT'', VRNEXT),
    (''VADDAbc_1'', VADDAbc_1), (''VSUBAbc_1'', VSUBAbc_1), (''VMADDAbc_1'', VMADDAbc_1),
    (''VMSUBAbc_1'', VMSUBAbc_1), (''VITOF4'', VITOF4), (''VFTOI4'', VFTOI4),
    (''VMULAbc_1'', VMULAbc_1), (''VABS'', VABS), (''VMADDAq'', VMADDAq),
    (''VMSUBAq'', VMSUBAq), (''VMADDA'', VMADDA), (''VMSUBA'', VMSUBA), (''VMR32'', VMR32),
    (''VSQI'', VSQI), (''VSQRT'', VSQRT), (''VMFIR'', VMFIR), (''VRGET'', VRGET),
    (''VADDAbc_2'', VADDAbc_2), (''VSUBAbc_2'', VSUBAbc_2), (''VMADDAbc_2'', VMADDAbc_2),
    (''VMSUBAbc_2'', VMSUBAbc_2), (''VITOF12'', VITOF12), (''VFTOI12'', VFTOI12),
    (''VMULAbc_2'', VMULAbc_2), (''VMULAi'', VMULAi), (''VADDAi'', VADDAi),
    (''VSUBAi'', VSUBAi), (''VMULA'', VMULA), (''VOPMULA'', VOPMULA), (''VLQD'', VLQD),
    (''VRSQRT'', VRSQRT), (''VILWR'', VILWR), (''VRINIT'', VRINIT), (''VADDAbc_3'', VADDAbc_3),
    (''VSUBAbc_3'', VSUBAbc_3), (''VMADDAbc_3'', VMADDAbc_3), (''VMSUBAbc_3'', VMSUBAbc_3),
    (''VITOF15'', VITOF15), (''VFTOI15'', VFTOI15), (''VMULAbc_3'', VMULAbc_3),
    (''VCLIP'', VCLIP), (''VMADDAi'', VMADDAi), (''VMSUBAi'', VMSUBAi), (''VNOP'', VNOP),
    (''VSQD'', VSQD), (''VWAITQ'', VWAITQ), (''VISWR'', VISWR), (''VRXOR'', VRXOR)]"

definition EECORE_INSTRUCTION_TABLE :: "(string \<times> ee_handler) list" where
  "EECORE_INSTRUCTION_TABLE =
     EECORE_INSTRUCTION_TABLE_0 @ EECORE_INSTRUCTION_TABLE_1 @ EECORE_INSTRUCTION_TABLE_48 @
     EECORE_INSTRUCTION_TABLE_116 @ EECORE_INSTRUCTION_TABLE_137 @
     EECORE_INSTRUCTION_TABLE_215 @ EECORE_INSTRUCTION_TABLE_217 @
     EECORE_INSTRUCTION_TABLE_228 @ EECORE_INSTRUCTION_TABLE_232 @
     EECORE_INSTRUCTION_TABLE_260 @ EECORE_INSTRUCTION_TABLE_264 @
     EECORE_INSTRUCTION_TABLE_268 @ EECORE_INSTRUCTION_TABLE_323"

lemmas handler_segment_defs =
  EECORE_INSTRUCTION_TABLE_0_def EECORE_INSTRUCTION_TABLE_1_def EECORE_INSTRUCTION_TABLE_48_def
  EECORE_INSTRUCTION_TABLE_116_def EECORE_INSTRUCTION_TABLE_137_def
  EECORE_INSTRUCTION_TABLE_215_def EECORE_INSTRUCTION_TABLE_217_def
  EECORE_INSTRUCTION_TABLE_228_def EECORE_INSTRUCTION_TABLE_232_def
  EECORE_INSTRUCTION_TABLE_260_def EECORE_INSTRUCTION_TABLE_264_def
  EECORE_INSTRUCTION_TABLE_268_def EECORE_INSTRUCTION_TABLE_323_def

section \<open>One step and the loop\<close>

text \<open>
  The interrupt check and the count update happen when the remaining ticks are a multiple of
  16.  A failed translation of the PC is an empty optional, whose \<open>value()\<close> throws.
\<close>

definition execute :: "instruction_info \<Rightarrow> instruction \<Rightarrow> ee_sys \<Rightarrow> ee_sys res" where
  "execute info inst = snd (EECORE_INSTRUCTION_TABLE ! impl_index info) inst"

definition fetch :: "ee_sys \<Rightarrow> (instruction \<times> ee_sys) res" where
  "fetch s =
     bind_res (translate_address_inst (pc_val (sys_ee s)) (sys_ee s)) (\<lambda>(physical_address, e).
       case physical_address of
         None \<Rightarrow> Inl Bad_optional_access
       | Some pa \<Rightarrow> bind_res (bus_read_uword pa (e_bus e)) (\<lambda>(raw_inst, b).
           Inr (raw_inst, s\<lparr>sys_ee := e\<lparr>e_bus := b\<rparr>\<rparr>)))"

definition time_step :: "int \<Rightarrow> ee_sys \<Rightarrow> (int \<times> ee_sys) res" where
  "time_step ticks_available s =
     bind_res (if ticks_available mod 16 = 0 then on_ee handle_interrupt_check s else Inr s) (\<lambda>s1.
     bind_res (fetch s1) (\<lambda>(inst, s2).
     bind_res (ee_lookup inst) (\<lambda>info.
     bind_res (execute info inst s2) (\<lambda>s3.
       let s4 = s3\<lparr>sys_ee := ee_advance_pc (sys_ee s3)\<rparr> in
     bind_res (if ticks_available mod 16 = 0 then on_ee (handle_count_update (of_int (cpi info * 16))) s4
               else Inr s4) (\<lambda>s5.
       Inr (3, s5))))))"

lemma time_step_cost: "time_step t s = Inr (n, s') \<Longrightarrow> n = 3"
  by (auto simp: time_step_def Let_def)

function ee_run :: "int \<Rightarrow> ee_sys \<Rightarrow> ee_sys res" where
  "ee_run ticks_remaining s =
     (if ticks_remaining > 0 then
        case time_step ticks_remaining s of
          Inl e \<Rightarrow> Inl e
        | Inr (n, s') \<Rightarrow> ee_run (ticks_remaining - n) s'
      else Inr s)"
  by pat_completeness auto

termination
  by (relation "measure (\<lambda>(t, s). nat t)") (auto dest: time_step_cost)

declare ee_run.simps [simp del]

text \<open>A time event carries a duration; the conversion to ticks is floating point on the host.\<close>

fun ee_handle_event :: "('t \<Rightarrow> int) \<Rightarrow> 't controller_event \<Rightarrow> ee_sys \<Rightarrow> ee_sys res" where
  "ee_handle_event time_to_ticks (Time_event t) s = ee_run (time_to_ticks t) s"
| "ee_handle_event time_to_ticks event s = Inl Runtime_error"

section \<open>Every implementation keeps the system well-formed\<close>

definition keeps :: "ee_handler \<Rightarrow> bool" where
  "keeps h \<longleftrightarrow> (\<forall>inst s. sys_ok s \<longrightarrow> ok_res sys_ok (h inst s))"

lemma keeps_total: "(\<And>inst s. ee_ok s \<Longrightarrow> ee_ok (f inst s)) \<Longrightarrow> keeps (lift_total f)"
  by (auto simp: keeps_def lift_total_def dest: sys_okD)

lemma keeps_partial: "(\<And>inst s. ee_ok s \<Longrightarrow> ok_res ee_ok (f inst s)) \<Longrightarrow> keeps (lift_partial f)"
  by (auto simp: keeps_def lift_partial_def intro!: on_ee_ok)

lemma keeps_sys: "(\<And>inst s. sys_ok s \<Longrightarrow> ok_res sys_ok (h inst s)) \<Longrightarrow> keeps h"
  by (simp add: keeps_def)

lemmas ee_handler_defs = EECORE_INSTRUCTION_TABLE_def handler_segment_defs

lemma keeps_instructions: "list_all (\<lambda>p. keeps (snd p)) EECORE_INSTRUCTION_TABLE"
  unfolding ee_handler_defs
  by (simp add: keeps_total keeps_partial keeps_sys op_ok tlb_ops_ok cop2_ok INSTRUCTION_UNKNOWN_def)

lemma handlers_length: "length EECORE_INSTRUCTION_TABLE = 388"
  by (simp add: ee_handler_defs)

lemma execute_ok:
  assumes "sys_ok s" and "ee_lookup inst = Inr info"
  shows "ok_res sys_ok (execute info inst s)"
proof -
  have "impl_index info < length EECORE_INSTRUCTION_TABLE"
    using ee_lookup_entry(2)[OF assms(2)] by (simp add: handlers_length)
  then have "EECORE_INSTRUCTION_TABLE ! impl_index info \<in> set EECORE_INSTRUCTION_TABLE" by simp
  then show ?thesis using assms(1) keeps_instructions by (auto simp: list_all_iff keeps_def execute_def)
qed

end
