(* ===== verification/EeStep.thy ===== *)
theory EeStep
  imports EeInterpreter
begin

text \<open>
  The interpreter as a transition system: which implementation a decoded word runs, one step as
  a relation on ticks and machine states, the loop of the controller as its closure, and the
  invariant of every reachable state.
\<close>

section \<open>The two tables agree\<close>

lemma segment_lengths:
  "length EECORE_INSTRUCTION_TABLE_0 = 1"
  "length EECORE_INSTRUCTION_TABLE_1 = 47"
  "length EECORE_INSTRUCTION_TABLE_48 = 68"
  "length EECORE_INSTRUCTION_TABLE_116 = 21"
  "length EECORE_INSTRUCTION_TABLE_137 = 78"
  "length EECORE_INSTRUCTION_TABLE_215 = 2"
  "length EECORE_INSTRUCTION_TABLE_217 = 11"
  "length EECORE_INSTRUCTION_TABLE_228 = 4"
  "length EECORE_INSTRUCTION_TABLE_232 = 28"
  "length EECORE_INSTRUCTION_TABLE_260 = 4"
  "length EECORE_INSTRUCTION_TABLE_264 = 4"
  "length EECORE_INSTRUCTION_TABLE_268 = 55"
  "length EECORE_INSTRUCTION_TABLE_323 = 65"
  "length EE_CORE_INSTRUCTION_TABLE_48 = 68"
  "length EE_CORE_INSTRUCTION_TABLE_137 = 78"
  "length EE_CORE_INSTRUCTION_TABLE_116 = 21"
  "length EE_CORE_INSTRUCTION_TABLE_217 = 11"
  "length EE_CORE_INSTRUCTION_TABLE_215 = 2"
  "length EE_CORE_INSTRUCTION_TABLE_232 = 28"
  "length EE_CORE_INSTRUCTION_TABLE_228 = 4"
  "length EE_CORE_INSTRUCTION_TABLE_264 = 4"
  "length EE_CORE_INSTRUCTION_TABLE_260 = 4"
  "length EE_CORE_INSTRUCTION_TABLE_323 = 65"
  "length EE_CORE_INSTRUCTION_TABLE_268 = 55"
  "length EE_CORE_INSTRUCTION_TABLE_1 = 47"
  by (simp_all add: ee_segment_defs handler_segment_defs)

lemma handler_runs:
  "map ((!) EECORE_INSTRUCTION_TABLE) [1..<48] = EECORE_INSTRUCTION_TABLE_1"
  "map ((!) EECORE_INSTRUCTION_TABLE) [48..<116] = EECORE_INSTRUCTION_TABLE_48"
  "map ((!) EECORE_INSTRUCTION_TABLE) [116..<137] = EECORE_INSTRUCTION_TABLE_116"
  "map ((!) EECORE_INSTRUCTION_TABLE) [137..<215] = EECORE_INSTRUCTION_TABLE_137"
  "map ((!) EECORE_INSTRUCTION_TABLE) [215..<217] = EECORE_INSTRUCTION_TABLE_215"
  "map ((!) EECORE_INSTRUCTION_TABLE) [217..<228] = EECORE_INSTRUCTION_TABLE_217"
  "map ((!) EECORE_INSTRUCTION_TABLE) [228..<232] = EECORE_INSTRUCTION_TABLE_228"
  "map ((!) EECORE_INSTRUCTION_TABLE) [232..<260] = EECORE_INSTRUCTION_TABLE_232"
  "map ((!) EECORE_INSTRUCTION_TABLE) [260..<264] = EECORE_INSTRUCTION_TABLE_260"
  "map ((!) EECORE_INSTRUCTION_TABLE) [264..<268] = EECORE_INSTRUCTION_TABLE_264"
  "map ((!) EECORE_INSTRUCTION_TABLE) [268..<323] = EECORE_INSTRUCTION_TABLE_268"
  "map ((!) EECORE_INSTRUCTION_TABLE) [323..<388] = EECORE_INSTRUCTION_TABLE_323"
  by (simp_all add: map_nth_run handlers_length EECORE_INSTRUCTION_TABLE_def segment_lengths
      del: upt_rec_numeral)

lemma misnamed_segments:
  "misnamed EE_CORE_INSTRUCTION_TABLE_48 EECORE_INSTRUCTION_TABLE_48 =
     [(''SYNC'', ''SYNC_STYPE''), (''TGEZAL'', ''BGEZAL'')]"
  "misnamed EE_CORE_INSTRUCTION_TABLE_137 EECORE_INSTRUCTION_TABLE_137 =
     []"
  "misnamed EE_CORE_INSTRUCTION_TABLE_116 EECORE_INSTRUCTION_TABLE_116 =
     [(''PMTHL'', ''PMTHL_LW'')]"
  "misnamed EE_CORE_INSTRUCTION_TABLE_217 EECORE_INSTRUCTION_TABLE_217 =
     []"
  "misnamed EE_CORE_INSTRUCTION_TABLE_215 EECORE_INSTRUCTION_TABLE_215 =
     []"
  "misnamed EE_CORE_INSTRUCTION_TABLE_232 EECORE_INSTRUCTION_TABLE_232 =
     [(''CVTW_S'', ''CVT_W_S''), (''CVTS_S'', ''CVT_S_W'')]"
  "misnamed EE_CORE_INSTRUCTION_TABLE_228 EECORE_INSTRUCTION_TABLE_228 =
     []"
  "misnamed EE_CORE_INSTRUCTION_TABLE_264 EECORE_INSTRUCTION_TABLE_264 =
     []"
  "misnamed EE_CORE_INSTRUCTION_TABLE_260 EECORE_INSTRUCTION_TABLE_260 =
     []"
  "misnamed EE_CORE_INSTRUCTION_TABLE_323 EECORE_INSTRUCTION_TABLE_323 =
     [(''VFTIO4'', ''VFTOI4''), (''VFTIO12'', ''VFTOI12''), (''VFTIO15'', ''VFTOI15'')]"
  "misnamed EE_CORE_INSTRUCTION_TABLE_268 EECORE_INSTRUCTION_TABLE_268 =
     []"
  "misnamed EE_CORE_INSTRUCTION_TABLE_1 EECORE_INSTRUCTION_TABLE_1 =
     [(''SQC2'', ''LQC2'')]"
  by (simp_all add: misnamed_def ee_segment_defs handler_segment_defs c_identifier_def)

text \<open>
  The mnemonics of the decoder against the members of the dispatch table: eight rows differ in
  spelling (\<open>PMTHL_LW\<close> is the only form of \<open>PMTHL\<close>, \<open>TGEZAL\<close> a misprint of the table), but
  \<open>SQC2\<close> runs \<open>LQC2\<close>.
\<close>

lemma dispatch_names:
  "misnamed EE_CORE_INSTRUCTION_TABLE
     (map (\<lambda>e. EECORE_INSTRUCTION_TABLE ! impl_index e) EE_CORE_INSTRUCTION_TABLE) =
   [(''SYNC'', ''SYNC_STYPE''), (''TGEZAL'', ''BGEZAL''), (''PMTHL'', ''PMTHL_LW''),
    (''CVTW_S'', ''CVT_W_S''), (''CVTS_S'', ''CVT_S_W''), (''VFTIO4'', ''VFTOI4''),
    (''VFTIO12'', ''VFTOI12''), (''VFTIO15'', ''VFTOI15''), (''SQC2'', ''LQC2'')]"
proof -
  have "map (\<lambda>e. EECORE_INSTRUCTION_TABLE ! impl_index e) EE_CORE_INSTRUCTION_TABLE =
      map ((!) EECORE_INSTRUCTION_TABLE) (map impl_index EE_CORE_INSTRUCTION_TABLE)"
    by simp
  then show ?thesis
    unfolding table_index_runs map_append handler_runs
    by (simp add: EE_CORE_INSTRUCTION_TABLE_def misnamed_append segment_lengths misnamed_segments)
qed

text \<open>What a word of the store opcode 62 runs.\<close>

lemma table_385: "EE_CORE_INSTRUCTION_TABLE ! 385 = (''SQC2'', 46, CPI_R5900_STORE)"
  by (simp add: EE_CORE_INSTRUCTION_TABLE_def nth_append segment_lengths EE_CORE_INSTRUCTION_TABLE_1_def)

lemma handler_46: "EECORE_INSTRUCTION_TABLE ! 46 = (''LQC2'', LQC2)"
  by (simp add: EECORE_INSTRUCTION_TABLE_def nth_append segment_lengths EECORE_INSTRUCTION_TABLE_1_def)

lemma SQC2_runs_LQC2:
  assumes "inst_opcode inst = 62"
  shows "\<exists>info. ee_lookup inst = Inr info \<and> mnemonic info = ''SQC2'' \<and> execute info inst = LQC2 inst"
proof -
  have "ee_lookup inst = Inr (''SQC2'', 46, CPI_R5900_STORE)"
    by (simp add: ee_lookup_def EE_LOOKUP_def assms table_385)
  then show ?thesis by (simp add: execute_def handler_46)
qed

section \<open>One step keeps the system well-formed\<close>

lemma fetch_ok:
  assumes "sys_ok s"
  shows "ok_res (\<lambda>(inst, s'). sys_ok s') (fetch s)"
  unfolding fetch_def
proof (rule ok_res_bind[OF ok_translate_inst[OF sys_okD(1)[OF assms]]])
  fix r :: "uptr option \<times> ee_state" assume "case r of (v, e) \<Rightarrow> ee_ok e"
  then show "ok_res (\<lambda>(inst, s'). sys_ok s')
      ((\<lambda>(physical_address, e). case physical_address of
          None \<Rightarrow> Inl Bad_optional_access
        | Some pa \<Rightarrow> bind_res (bus_read_uword pa (e_bus e)) (\<lambda>(raw_inst, b).
            Inr (raw_inst, s\<lparr>sys_ee := e\<lparr>e_bus := b\<rparr>\<rparr>))) r)"
    using assms by (auto simp: bind_res_def intro!: sys_ok_upd ee_ok_upd split: option.split sum.split)
qed

lemma ee_ok_advance [intro]: "sys_ok s \<Longrightarrow> sys_ok (s\<lparr>sys_ee := ee_advance_pc (sys_ee s)\<rparr>)"
  by (auto dest: sys_okD)

lemma checked_ok:
  assumes "sys_ok s" and "\<And>e. ee_ok e \<Longrightarrow> ok_res ee_ok (f e)"
  shows "ok_res sys_ok (if c then on_ee f s else Inr s)"
  using assms by (auto intro: on_ee_ok)

lemma time_step_ok:
  assumes "sys_ok s"
  shows "ok_res (\<lambda>(n, s'). sys_ok s') (time_step t s)"
  unfolding time_step_def Let_def
proof (rule ok_res_bind[OF checked_ok[OF assms ok_handle_interrupt_check]], assumption, rule ok_res_bind[OF fetch_ok], assumption)
  fix r :: "instruction \<times> ee_sys" assume "case r of (inst, s') \<Rightarrow> sys_ok s'"
  then obtain inst s2 where r: "r = (inst, s2)" and s2: "sys_ok s2" by auto
  have "ok_res (\<lambda>(n, s'). sys_ok s')
      (bind_res (execute info inst s2) (\<lambda>s3. bind_res
        (if t mod 16 = 0 then on_ee (handle_count_update (of_int (cpi info * 16)))
           (s3\<lparr>sys_ee := ee_advance_pc (sys_ee s3)\<rparr>)
         else Inr (s3\<lparr>sys_ee := ee_advance_pc (sys_ee s3)\<rparr>)) (\<lambda>s5. Inr (3, s5))))"
    if "ee_lookup inst = Inr info" for info
    by (rule ok_res_bind[OF execute_ok[OF s2 that]], rule ok_res_bind[OF checked_ok[OF ee_ok_advance ok_handle_count_update]]) auto
  then show "ok_res (\<lambda>(n, s'). sys_ok s')
      ((\<lambda>(inst, s2). bind_res (ee_lookup inst) (\<lambda>info. bind_res (execute info inst s2) (\<lambda>s3. bind_res
        (if t mod 16 = 0 then on_ee (handle_count_update (of_int (cpi info * 16)))
           (s3\<lparr>sys_ee := ee_advance_pc (sys_ee s3)\<rparr>)
         else Inr (s3\<lparr>sys_ee := ee_advance_pc (sys_ee s3)\<rparr>)) (\<lambda>s5. Inr (3, s5))))) r)"
    by (cases "ee_lookup inst") (simp_all add: r)
qed

section \<open>The step relation and the loop\<close>

abbreviation ee_step :: "int \<times> ee_sys \<Rightarrow> int \<times> ee_sys \<Rightarrow> bool" where
  "ee_step \<equiv> slice_step time_step"

text \<open>Every step takes three ticks, so the number of steps of a slice is known beforehand.\<close>

abbreviation ee_steps :: "int \<Rightarrow> nat" where
  "ee_steps t \<equiv> nat ((t + 2) div 3)"

interpretation ee_loop: fixed_tick_loop time_step ee_run 3
  by unfold_locales (auto dest: time_step_cost simp: ee_run.simps)

lemmas ee_step_3 = ee_loop.step_c
lemmas ee_run_failure = ee_loop.run_failure

lemma ee_run_steps:
  "ee_run t s = Inr s' \<longleftrightarrow> (ee_step ^^ ee_steps t) (t, s) (t - 3 * int (ee_steps t), s')"
  using ee_loop.run_steps[of t s s'] by simp

lemma reachable_ok: "ee_step\<^sup>*\<^sup>* (t, s) (t', s') \<Longrightarrow> sys_ok s \<Longrightarrow> sys_ok s'"
  by (erule slice_reachable) (auto intro: time_step_ok)

lemma ee_run_ok: "sys_ok s \<Longrightarrow> ok_res sys_ok (ee_run t s)"
  by (erule ee_loop.run_keeps) (rule time_step_ok)

text \<open>General register 0 reads as zero in every reachable state.\<close>

lemma reachable_zero:
  assumes "ee_step\<^sup>*\<^sup>* (t, s) (t', s')" and "sys_ok s"
  shows "q_read_uqword (e_gpr (sys_ee s') 0) = 0"
  using ee_ok_gpr(2)[OF sys_okD(1)[OF reachable_ok[OF assms]]]
  by (simp add: q_read_uqword_def reg_read_def)

section \<open>A whole step\<close>

lemma fetch_frame:
  assumes "fetch s = Inr (inst, s1)"
  shows "\<exists>c b. s1 = s\<lparr>sys_ee := (sys_ee s)\<lparr>e_tci := c, e_bus := b\<rparr>\<rparr>"
proof -
  obtain pa e b where t: "translate_address_inst (pc_val (sys_ee s)) (sys_ee s) = Inr (Some pa, e)"
    and s1: "s1 = s\<lparr>sys_ee := e\<lparr>e_bus := b\<rparr>\<rparr>"
    using assms by (auto simp: fetch_def split: option.splits)
  obtain c where "e = (sys_ee s)\<lparr>e_tci := c\<rparr>"
    using t by (auto simp: translate_address_inst_def tc_lookup_def handle_fallback_def split_beta Let_def
        split: option.splits dest!: fallback_hit_state)
  from arg_cong[OF this, of "\<lambda>e. s\<lparr>sys_ee := e\<lparr>e_bus := b\<rparr>\<rparr>"]
  show ?thesis unfolding s1 by blast
qed

text \<open>An instruction fetch that does not translate throws instead of taking the exception.\<close>

lemma fetch_miss_throws:
  assumes "t mod 16 \<noteq> 0" and "translate_address_inst (pc_val (sys_ee s)) (sys_ee s) = Inr (None, e)"
  shows "time_step t s = Inl Bad_optional_access"
  using assms by (simp add: time_step_def fetch_def)

lemma time_step_quiet:
  assumes "t mod 16 \<noteq> 0" and "fetch s = Inr (inst, s1)" and "ee_lookup inst = Inr info"
    and "execute info inst s1 = Inr s2"
  shows "time_step t s = Inr (3, s2\<lparr>sys_ee := ee_advance_pc (sys_ee s2)\<rparr>)"
  using assms by (simp add: time_step_def Let_def)

lemma ADDIU_lookup:
  assumes "inst_opcode inst = 9"
  shows "\<exists>info. ee_lookup inst = Inr info \<and> execute info inst = lift_total ADDIU inst"
proof -
  have "EE_CORE_INSTRUCTION_TABLE ! 347 = (''ADDIU'', 8, CPI_R5900_DEFAULT)"
    by (simp add: EE_CORE_INSTRUCTION_TABLE_def nth_append segment_lengths EE_CORE_INSTRUCTION_TABLE_1_def)
  moreover have "EECORE_INSTRUCTION_TABLE ! 8 = (''ADDIU'', lift_total ADDIU)"
    by (simp add: EECORE_INSTRUCTION_TABLE_def nth_append segment_lengths EECORE_INSTRUCTION_TABLE_1_def)
  ultimately show ?thesis by (simp add: ee_lookup_def EE_LOOKUP_def assms execute_def)
qed

lemma src_d_advance: "src_d n i (ee_advance_pc s) = src_d n i s"
  by (simp add: ee_advance_pc_def split_beta)

lemma ADDIU_step:
  assumes "sys_ok s" and "t mod 16 \<noteq> 0" and "fetch s = Inr (inst, s1)"
    and "inst_opcode inst = 9" and "inst_rt inst \<noteq> 0" and "\<not> is_branch_pending (e_bdelay (sys_ee s))"
  shows "\<exists>s'. time_step t s = Inr (3, s') \<and> sys_ok s' \<and> pc_val (sys_ee s') = pc_val (sys_ee s) + 4 \<and>
    src_d (inst_rt inst) 0 (sys_ee s') =
      scast (src_w (inst_rs inst) 0 (sys_ee s) + scast (inst_s_imm inst))"
proof -
  obtain c b where s1: "s1 = s\<lparr>sys_ee := (sys_ee s)\<lparr>e_tci := c, e_bus := b\<rparr>\<rparr>"
    using fetch_frame[OF assms(3)] by blast
  have ok1: "ee_ok (sys_ee s1)" using fetch_ok[OF assms(1)] assms(3) by (auto dest: sys_okD)
  let ?e = "ADDIU inst (sys_ee s1)"
  have t: "time_step t s = Inr (3, s1\<lparr>sys_ee := ee_advance_pc ?e\<rparr>)"
    using ADDIU_lookup[OF assms(4)] time_step_quiet[OF assms(2,3)] by (auto simp: lift_total_def)
  have "ee_ok ?e" using ok1 by (simp add: op_ok)
  then show ?thesis
    using t time_step_ok[OF assms(1), of t] assms(5,6) ok1
    by (simp add: s1 advance_no_branch ADDIU_def Let_def dest_get src_d_advance)
qed

end
