(* ===== verification/IopDecode.thy ===== *)
theory IopDecode
  imports Decode
begin

text \<open>
  \<open>IopCoreInstruction.cpp\<close>: the table of the I/O processor's instructions and its \<open>lookup\<close>.
\<close>

section \<open>The table\<close>

definition IOP_CPI_R3000_DEFAULT :: int where "IOP_CPI_R3000_DEFAULT = 9"
definition IOP_CPI_R3000_BRANCH :: int where "IOP_CPI_R3000_BRANCH = 11"
definition IOP_CPI_R3000_MULTIPLY :: int where "IOP_CPI_R3000_MULTIPLY = 16"
definition IOP_CPI_R3000_DIVIDE :: int where "IOP_CPI_R3000_DIVIDE = 112"
definition IOP_CPI_R3000_STORE :: int where "IOP_CPI_R3000_STORE = 14"
definition IOP_CPI_R3000_LOAD :: int where "IOP_CPI_R3000_LOAD = 14"
definition IOP_CPI_COP_DEFAULT :: int where "IOP_CPI_COP_DEFAULT = 11"
definition IOP_CPI_COP_BRANCH_DELAY :: int where "IOP_CPI_COP_BRANCH_DELAY = 20"

lemmas iop_cpi_defs =
  IOP_CPI_R3000_DEFAULT_def IOP_CPI_R3000_BRANCH_def IOP_CPI_R3000_MULTIPLY_def
  IOP_CPI_R3000_DIVIDE_def IOP_CPI_R3000_STORE_def IOP_CPI_R3000_LOAD_def
  IOP_CPI_COP_DEFAULT_def IOP_CPI_COP_BRANCH_DELAY_def

definition IOP_CORE_INSTRUCTION_TABLE_29 :: "instruction_info list" where
  "IOP_CORE_INSTRUCTION_TABLE_29 =
   [(''SLL'', 29, IOP_CPI_R3000_DEFAULT), (''SRL'', 30, IOP_CPI_R3000_DEFAULT),
    (''SRA'', 31, IOP_CPI_R3000_DEFAULT), (''SLLV'', 32, IOP_CPI_R3000_DEFAULT),
    (''SRLV'', 33, IOP_CPI_R3000_DEFAULT), (''SRAV'', 34, IOP_CPI_R3000_DEFAULT),
    (''JR'', 35, IOP_CPI_R3000_BRANCH), (''JALR'', 36, IOP_CPI_R3000_BRANCH),
    (''SYSCALL'', 37, IOP_CPI_R3000_DEFAULT), (''BREAK'', 38, IOP_CPI_R3000_DEFAULT),
    (''MFHI'', 39, IOP_CPI_R3000_DEFAULT), (''MTHI'', 40, IOP_CPI_R3000_DEFAULT),
    (''MFLO'', 41, IOP_CPI_R3000_DEFAULT), (''MTLO'', 42, IOP_CPI_R3000_DEFAULT),
    (''MULT'', 43, IOP_CPI_R3000_MULTIPLY), (''MULTU'', 44, IOP_CPI_R3000_MULTIPLY),
    (''DIV'', 45, IOP_CPI_R3000_DIVIDE), (''DIVU'', 46, IOP_CPI_R3000_DIVIDE),
    (''ADD'', 47, IOP_CPI_R3000_DEFAULT), (''ADDU'', 48, IOP_CPI_R3000_DEFAULT),
    (''SUB'', 49, IOP_CPI_R3000_DEFAULT), (''SUBU'', 50, IOP_CPI_R3000_DEFAULT),
    (''AND'', 51, IOP_CPI_R3000_DEFAULT), (''OR'', 52, IOP_CPI_R3000_DEFAULT),
    (''XOR'', 53, IOP_CPI_R3000_DEFAULT), (''NOR'', 54, IOP_CPI_R3000_DEFAULT),
    (''SLT'', 55, IOP_CPI_R3000_DEFAULT), (''SLTU'', 56, IOP_CPI_R3000_DEFAULT),
    (''BLTZ'', 57, IOP_CPI_R3000_BRANCH), (''BGEZ'', 58, IOP_CPI_R3000_BRANCH),
    (''BLTZAL'', 59, IOP_CPI_R3000_BRANCH), (''BGEZAL'', 60, IOP_CPI_R3000_BRANCH),
    (''MFC0'', 61, IOP_CPI_COP_DEFAULT), (''CFC0'', 62, IOP_CPI_COP_DEFAULT),
    (''MTC0'', 63, IOP_CPI_COP_DEFAULT), (''CTC0'', 64, IOP_CPI_COP_DEFAULT),
    (''RFE'', 65, IOP_CPI_COP_DEFAULT)]"

definition IOP_CORE_INSTRUCTION_TABLE_87 :: "instruction_info list" where
  "IOP_CORE_INSTRUCTION_TABLE_87 =
   [(''MFC2'', 87, IOP_CPI_COP_DEFAULT), (''CFC2'', 88, IOP_CPI_COP_DEFAULT),
    (''MTC2'', 89, IOP_CPI_COP_DEFAULT), (''CTC2'', 90, IOP_CPI_COP_DEFAULT)]"

definition IOP_CORE_INSTRUCTION_TABLE_66 :: "instruction_info list" where
  "IOP_CORE_INSTRUCTION_TABLE_66 =
   [(''RTPS'', 66, IOP_CPI_COP_DEFAULT), (''NCLIP'', 67, IOP_CPI_COP_DEFAULT),
    (''OP'', 68, IOP_CPI_COP_DEFAULT), (''DPCS'', 69, IOP_CPI_COP_DEFAULT),
    (''INTPL'', 70, IOP_CPI_COP_DEFAULT), (''MVMVA'', 71, IOP_CPI_COP_DEFAULT),
    (''NCDS'', 72, IOP_CPI_COP_DEFAULT), (''CDP'', 73, IOP_CPI_COP_DEFAULT),
    (''NCDT'', 74, IOP_CPI_COP_DEFAULT), (''NCCS'', 75, IOP_CPI_COP_DEFAULT),
    (''CC'', 76, IOP_CPI_COP_DEFAULT), (''NCS'', 77, IOP_CPI_COP_DEFAULT),
    (''NCT'', 78, IOP_CPI_COP_DEFAULT), (''SQR'', 79, IOP_CPI_COP_DEFAULT),
    (''DCPL'', 80, IOP_CPI_COP_DEFAULT), (''DPCT'', 81, IOP_CPI_COP_DEFAULT),
    (''AVSZ3'', 82, IOP_CPI_COP_DEFAULT), (''AVSZ4'', 83, IOP_CPI_COP_DEFAULT),
    (''RTPT'', 84, IOP_CPI_COP_DEFAULT), (''GPF'', 85, IOP_CPI_COP_DEFAULT),
    (''GPL'', 86, IOP_CPI_COP_DEFAULT)]"

definition IOP_CORE_INSTRUCTION_TABLE_1 :: "instruction_info list" where
  "IOP_CORE_INSTRUCTION_TABLE_1 =
   [(''J'', 1, IOP_CPI_R3000_BRANCH), (''JAL'', 2, IOP_CPI_R3000_BRANCH),
    (''BEQ'', 3, IOP_CPI_R3000_BRANCH), (''BNE'', 4, IOP_CPI_R3000_BRANCH),
    (''BLEZ'', 5, IOP_CPI_R3000_BRANCH), (''BGTZ'', 6, IOP_CPI_R3000_BRANCH),
    (''ADDI'', 7, IOP_CPI_R3000_DEFAULT), (''ADDIU'', 8, IOP_CPI_R3000_DEFAULT),
    (''SLTI'', 9, IOP_CPI_R3000_DEFAULT), (''SLTIU'', 10, IOP_CPI_R3000_DEFAULT),
    (''ANDI'', 11, IOP_CPI_R3000_DEFAULT), (''ORI'', 12, IOP_CPI_R3000_DEFAULT),
    (''XORI'', 13, IOP_CPI_R3000_DEFAULT), (''LUI'', 14, IOP_CPI_R3000_DEFAULT),
    (''LB'', 15, IOP_CPI_R3000_LOAD), (''LH'', 16, IOP_CPI_R3000_LOAD),
    (''LWL'', 17, IOP_CPI_R3000_LOAD), (''LW'', 18, IOP_CPI_R3000_LOAD),
    (''LBU'', 19, IOP_CPI_R3000_LOAD), (''LHU'', 20, IOP_CPI_R3000_LOAD),
    (''LWR'', 21, IOP_CPI_R3000_LOAD), (''SB'', 22, IOP_CPI_R3000_STORE),
    (''SH'', 23, IOP_CPI_R3000_STORE), (''SWL'', 24, IOP_CPI_R3000_STORE),
    (''SW'', 25, IOP_CPI_R3000_STORE), (''SWR'', 26, IOP_CPI_R3000_STORE),
    (''LWC2'', 27, IOP_CPI_R3000_LOAD), (''SWC2'', 28, IOP_CPI_R3000_STORE)]"

definition IOP_CORE_INSTRUCTION_TABLE :: "instruction_info list" where
  "IOP_CORE_INSTRUCTION_TABLE =
     IOP_CORE_INSTRUCTION_TABLE_29 @ IOP_CORE_INSTRUCTION_TABLE_87 @
     IOP_CORE_INSTRUCTION_TABLE_66 @ IOP_CORE_INSTRUCTION_TABLE_1"

lemmas iop_segment_defs =
  IOP_CORE_INSTRUCTION_TABLE_29_def IOP_CORE_INSTRUCTION_TABLE_87_def
  IOP_CORE_INSTRUCTION_TABLE_66_def IOP_CORE_INSTRUCTION_TABLE_1_def

section \<open>The lookup\<close>

definition IOP_LOOKUP_SPECIAL :: decode_tree where
  "IOP_LOOKUP_SPECIAL = Switch Funct
   [(0, Entry 0), (2, Entry 1), (3, Entry 2), (4, Entry 3), (6, Entry 4), (7, Entry 5),
    (8, Entry 6), (9, Entry 7), (12, Entry 8), (13, Entry 9), (16, Entry 10), (17, Entry 11),
    (18, Entry 12), (19, Entry 13), (24, Entry 14), (25, Entry 15), (26, Entry 16),
    (27, Entry 17), (32, Entry 18), (33, Entry 19), (34, Entry 20), (35, Entry 21),
    (36, Entry 22), (37, Entry 23), (38, Entry 24), (39, Entry 25), (42, Entry 26),
    (43, Entry 27)]"

definition IOP_LOOKUP_REGIMM :: decode_tree where
  "IOP_LOOKUP_REGIMM = Switch Rt
   [(0, Entry 28), (1, Entry 29), (15, Entry 30), (16, Entry 31)]"

definition IOP_LOOKUP_COP0 :: decode_tree where
  "IOP_LOOKUP_COP0 = Switch Rs
   [(0, Entry 32), (2, Entry 33), (4, Entry 34), (6, Entry 35), (16, Entry 36)]"

definition IOP_LOOKUP_COP2_0 :: decode_tree where
  "IOP_LOOKUP_COP2_0 = Switch Rs
   [(0, Entry 37), (2, Entry 38), (4, Entry 39), (6, Entry 40)]"

definition IOP_LOOKUP_COP2 :: decode_tree where
  "IOP_LOOKUP_COP2 = Switch Funct
   [(0, IOP_LOOKUP_COP2_0), (1, Entry 41), (6, Entry 42), (12, Entry 43), (16, Entry 44),
    (17, Entry 45), (18, Entry 46), (19, Entry 47), (20, Entry 48), (21, Entry 49),
    (27, Entry 50), (28, Entry 51), (30, Entry 52), (32, Entry 53), (40, Entry 54),
    (41, Entry 55), (42, Entry 56), (45, Entry 57), (46, Entry 58), (48, Entry 59),
    (61, Entry 60), (62, Entry 61)]"

definition IOP_LOOKUP :: decode_tree where
  "IOP_LOOKUP = Switch Opcode
   [(0, IOP_LOOKUP_SPECIAL), (1, IOP_LOOKUP_REGIMM), (16, IOP_LOOKUP_COP0),
    (18, IOP_LOOKUP_COP2), (2, Entry 62), (3, Entry 63), (4, Entry 64), (5, Entry 65),
    (6, Entry 66), (7, Entry 67), (8, Entry 68), (9, Entry 69), (10, Entry 70), (11, Entry 71),
    (12, Entry 72), (13, Entry 73), (14, Entry 74), (15, Entry 75), (32, Entry 76),
    (33, Entry 77), (34, Entry 78), (35, Entry 79), (36, Entry 80), (37, Entry 81),
    (38, Entry 82), (40, Entry 83), (41, Entry 84), (42, Entry 85), (43, Entry 86),
    (46, Entry 87), (50, Entry 88), (58, Entry 89)]"

lemmas iop_lookup_defs =
  IOP_LOOKUP_SPECIAL_def IOP_LOOKUP_REGIMM_def IOP_LOOKUP_COP0_def IOP_LOOKUP_COP2_0_def
  IOP_LOOKUP_COP2_def IOP_LOOKUP_def

definition iop_lookup :: "instruction \<Rightarrow> instruction_info res" where
  "iop_lookup i = bind_res (decode IOP_LOOKUP i) (\<lambda>k. Inr (IOP_CORE_INSTRUCTION_TABLE ! k))"

section \<open>Every entry is decoded from one path\<close>

lemma iop_entries_lookup: "entries IOP_LOOKUP = [0..<90]"
  by code_simp

lemma iop_table_length: "length IOP_CORE_INSTRUCTION_TABLE = 90"
  by (simp add: IOP_CORE_INSTRUCTION_TABLE_def iop_segment_defs)

lemma iop_index_runs:
  "map impl_index IOP_CORE_INSTRUCTION_TABLE = [29..<66] @ [87..<91] @ [66..<87] @ [1..<29]"
  by code_simp

lemma iop_table_indices: "set (map impl_index IOP_CORE_INSTRUCTION_TABLE) = {1..<91}"
proof -
  have eq: "({1..<29} \<union> {29..<66} \<union> {66..<87} \<union> {87..<91} :: nat set) = {1..<91}"
    by ((subst ivl_disj_un_two(3), simp, simp)+, rule refl)
  show ?thesis
    unfolding iop_index_runs eq[symmetric] by (simp only: set_append set_upt Un_ac)
qed

lemma iop_lookup_entry:
  assumes "iop_lookup i = Inr e"
  shows "e \<in> set IOP_CORE_INSTRUCTION_TABLE" "impl_index e \<in> {1..<91}"
proof -
  obtain k where "decode IOP_LOOKUP i = Inr k" and e: "e = IOP_CORE_INSTRUCTION_TABLE ! k"
    using assms by (auto simp: iop_lookup_def)
  then have "k < 90" using decode_entry[of IOP_LOOKUP i k] by (simp add: iop_entries_lookup)
  then show m: "e \<in> set IOP_CORE_INSTRUCTION_TABLE" by (simp add: e iop_table_length)
  show "impl_index e \<in> {1..<91}" using m unfolding iop_table_indices[symmetric] by simp
qed

lemma iop_lookup_error: "iop_lookup i = Inl e \<Longrightarrow> e = Runtime_error"
  by (auto simp: iop_lookup_def bind_res_eq_Inl dest: decode_error)

end
