(* ===== verification/IopCore.thy ===== *)
theory IopCore
  imports Translation
begin

text \<open>
  The core of the I/O processor, a MIPS R3000 without a TLB: its COP0
  (\<open>IopCoreCop0Registers.cpp\<close>), its registers (\<open>RIopCore.hpp\<close>), and exceptions, interrupts and
  the segment translation of \<open>CIopCore.cpp\<close>.  The debug build's hook that prints kernel messages
  is left out.
\<close>

section \<open>COP0\<close>

record iop_cop0 =
  i0_reg :: "nat \<Rightarrow> word_register"
  i0_interrupts_masked :: bool
  i0_operating_context :: operating_context
  i0_irq_lines :: "bool list"

text \<open>The array of 32 registers; entries 17 to 31 are null.\<close>

abbreviation "I0_STATUS \<equiv> (12::nat)"
abbreviation "I0_CAUSE \<equiv> (13::nat)"
abbreviation "I0_EPC \<equiv> (14::nat)"
abbreviation "I0_PRID \<equiv> (15::nat)"

definition ISTATUS_IEC :: bitfield where [word_defs]: "ISTATUS_IEC = BF 0 1"
definition ISTATUS_KUC :: bitfield where [word_defs]: "ISTATUS_KUC = BF 1 1"
definition ISTATUS_IM :: bitfield where [word_defs]: "ISTATUS_IM = BF 8 8"
definition ISTATUS_ISC :: bitfield where [word_defs]: "ISTATUS_ISC = BF 16 1"
definition ISTATUS_BEV :: bitfield where [word_defs]: "ISTATUS_BEV = BF 22 1"
definition ISTATUS_CU :: bitfield where [word_defs]: "ISTATUS_CU = BF 28 4"
definition ICAUSE_EXCCODE :: bitfield where [word_defs]: "ICAUSE_EXCCODE = BF 2 5"
definition ICAUSE_IP :: bitfield where [word_defs]: "ICAUSE_IP = BF 8 8"
definition ICAUSE_CE :: bitfield where [word_defs]: "ICAUSE_CE = BF 28 2"
definition ICAUSE_BD :: bitfield where [word_defs]: "ICAUSE_BD = BF 31 1"

definition IopCoreCop0_new :: iop_cop0 where
  "IopCoreCop0_new =
     \<lparr>i0_reg = (\<lambda>n. if n = I0_STATUS then SizedRegister_new 0x00400000 False
                    else if n = I0_PRID then SizedRegister_new 0x1F True
                    else SizedRegister_new 0 False),
      i0_interrupts_masked = True, i0_operating_context = Kernel, i0_irq_lines = replicate 8 False\<rparr>"

definition i0_raw :: "nat \<Rightarrow> iop_cop0 \<Rightarrow> uword" where
  "i0_raw n c = w_read_uword (i0_reg c n)"
definition i0_raw_write :: "nat \<Rightarrow> uword \<Rightarrow> iop_cop0 \<Rightarrow> iop_cop0" where
  "i0_raw_write n v c = c\<lparr>i0_reg := (i0_reg c)(n := w_write_uword v (i0_reg c n))\<rparr>"

definition istatus_field :: "bitfield \<Rightarrow> iop_cop0 \<Rightarrow> uword" where
  "istatus_field f c = extract_from f (i0_raw I0_STATUS c)"

definition iop_interrupts_masked_update :: "iop_cop0 \<Rightarrow> iop_cop0" where
  "iop_interrupts_masked_update c = c\<lparr>i0_interrupts_masked := \<not> (istatus_field ISTATUS_IEC c > 0)\<rparr>"

definition iop_operating_context_update :: "iop_cop0 \<Rightarrow> iop_cop0 res" where
  "iop_operating_context_update c =
     (let KUc = istatus_field ISTATUS_KUC c
      in if KUc = 1 then Inr (c\<lparr>i0_operating_context := User\<rparr>)
         else if KUc = 0 then Inr (c\<lparr>i0_operating_context := Kernel\<rparr>)
         else Inl Runtime_error)"

definition istatus_write_uword :: "uword \<Rightarrow> iop_cop0 \<Rightarrow> iop_cop0 res" where
  "istatus_write_uword v c =
     iop_operating_context_update (iop_interrupts_masked_update (i0_raw_write I0_STATUS v c))"

definition push_exception_stack :: "iop_cop0 \<Rightarrow> iop_cop0 res" where
  "push_exception_stack c =
     (let v = i0_raw I0_STATUS c
      in istatus_write_uword ((v AND NOT 0x3F) OR push_bit 2 (v AND 0xF)) c)"

definition pop_exception_stack :: "iop_cop0 \<Rightarrow> iop_cop0 res" where
  "pop_exception_stack c =
     (let v = i0_raw I0_STATUS c
      in istatus_write_uword ((v AND NOT 0xF) OR drop_bit 2 (v AND 0x3C)) c)"

definition icause_clear_all_irq :: "iop_cop0 \<Rightarrow> iop_cop0" where
  "icause_clear_all_irq c = c\<lparr>i0_irq_lines := map (\<lambda>line. False) (i0_irq_lines c)\<rparr>"

definition icause_set_irq_line :: "nat \<Rightarrow> iop_cop0 \<Rightarrow> iop_cop0 res" where
  "icause_set_irq_line irq c =
     (if irq < length (i0_irq_lines c)
      then Inr (c\<lparr>i0_irq_lines := (i0_irq_lines c)[irq := True]\<rparr>) else Inl Out_of_bounds)"

definition icause_clear_irq_line :: "nat \<Rightarrow> iop_cop0 \<Rightarrow> iop_cop0 res" where
  "icause_clear_irq_line irq c =
     (if irq < length (i0_irq_lines c)
      then Inr (c\<lparr>i0_irq_lines := (i0_irq_lines c)[irq := False]\<rparr>) else Inl Out_of_bounds)"

definition icause_read_uword :: "iop_cop0 \<Rightarrow> uword \<times> iop_cop0" where
  "icause_read_uword c =
     (let v = insert_into ICAUSE_IP (i0_raw I0_CAUSE c) (irq_bits 0 (i0_irq_lines c))
      in (v, i0_raw_write I0_CAUSE v c))"

definition icause_insert_field :: "bitfield \<Rightarrow> uword \<Rightarrow> iop_cop0 \<Rightarrow> iop_cop0" where
  "icause_insert_field f x c =
     (let (v, c') = icause_read_uword c in i0_raw_write I0_CAUSE (insert_into f v x) c')"

text \<open>The virtual reads and writes through the array of registers.\<close>

definition iop_cop0_read_uword :: "nat \<Rightarrow> iop_cop0 \<Rightarrow> (uword \<times> iop_cop0) res" where
  "iop_cop0_read_uword n c =
     (if n > 16 then Inl Null_object
      else if n = I0_CAUSE then Inr (icause_read_uword c) else Inr (i0_raw n c, c))"

definition iop_cop0_write_uword :: "nat \<Rightarrow> uword \<Rightarrow> iop_cop0 \<Rightarrow> iop_cop0 res" where
  "iop_cop0_write_uword n v c =
     (if n > 16 then Inl Null_object
      else if n = I0_STATUS then istatus_write_uword v c else Inr (i0_raw_write n v c))"

definition iop_cop0_is_usable :: "iop_cop0 \<Rightarrow> bool" where
  "iop_cop0_is_usable c =
     (if istatus_field ISTATUS_CU c AND 0x1 > 0 then True
      else if i0_operating_context c = Kernel then True
      else False)"

text \<open>The cached state follows Status, and only the identification is read-only.\<close>

definition iop_cop0_inv :: "iop_cop0 \<Rightarrow> bool" where
  "iop_cop0_inv c \<longleftrightarrow>
     i0_interrupts_masked c = (\<not> bit (i0_raw I0_STATUS c) 0) \<and>
     i0_operating_context c = (if bit (i0_raw I0_STATUS c) 1 then User else Kernel) \<and>
     length (i0_irq_lines c) = 8 \<and> (\<forall>n. reg_read_only (i0_reg c n) \<longleftrightarrow> n = I0_PRID)"

lemma iop_cop0_inv_new: "iop_cop0_inv IopCoreCop0_new"
  by (simp add: iop_cop0_inv_def IopCoreCop0_new_def i0_raw_def SizedRegister_new_def w_defs reg_read_def)

lemma iop_cop0_invD:
  assumes "iop_cop0_inv c"
  shows "i0_interrupts_masked c = (\<not> bit (i0_raw I0_STATUS c) 0)"
    "i0_operating_context c = (if bit (i0_raw I0_STATUS c) 1 then User else Kernel)"
    "length (i0_irq_lines c) = 8" "reg_read_only (i0_reg c n) \<longleftrightarrow> n = I0_PRID"
  using assms by (simp_all add: iop_cop0_inv_def)

lemma i0_raw_frame [simp]:
  "i0_raw n (c\<lparr>i0_interrupts_masked := b\<rparr>) = i0_raw n c"
  "i0_raw n (c\<lparr>i0_operating_context := ctx\<rparr>) = i0_raw n c"
  "i0_raw n (c\<lparr>i0_irq_lines := ls\<rparr>) = i0_raw n c"
  by (simp_all add: i0_raw_def)

lemma i0_raw_write_frame [simp]:
  "i0_interrupts_masked (i0_raw_write n v c) = i0_interrupts_masked c"
  "i0_operating_context (i0_raw_write n v c) = i0_operating_context c"
  "i0_irq_lines (i0_raw_write n v c) = i0_irq_lines c"
  "reg_read_only (i0_reg (i0_raw_write n v c) m) = reg_read_only (i0_reg c m)"
  by (simp_all add: i0_raw_write_def w_defs)

lemma i0_raw_write_get:
  "iop_cop0_inv c \<Longrightarrow> i0_raw m (i0_raw_write n v c) = (if m = n \<and> n \<noteq> I0_PRID then v else i0_raw m c)"
  by (drule iop_cop0_invD(4)[where n = n])
    (simp add: i0_raw_def i0_raw_write_def w_read_uword_def w_write_uword_def reg_write_def reg_read_def)

lemma iop_cop0_inv_raw_write:
  "iop_cop0_inv c \<Longrightarrow> n \<noteq> I0_STATUS \<Longrightarrow> iop_cop0_inv (i0_raw_write n v c)"
  using i0_raw_write_get[of c I0_STATUS n v] by (simp add: iop_cop0_inv_def)

lemma extract_bit: "extract_from (BF n (Suc 0)) (v :: uword) = of_bool (bit v n)"
  by (simp add: extract_1_eq)

lemma istatus_write_spec:
  assumes "iop_cop0_inv c"
  shows "istatus_write_uword v c = Inr ((i0_raw_write I0_STATUS v c)
    \<lparr>i0_interrupts_masked := \<not> bit v 0, i0_operating_context := (if bit v 1 then User else Kernel)\<rparr>)"
  using i0_raw_write_get[OF assms, of I0_STATUS I0_STATUS v]
  by (simp add: istatus_write_uword_def iop_operating_context_update_def iop_interrupts_masked_update_def
      istatus_field_def word_defs extract_bit)

lemma istatus_write_inv:
  assumes "iop_cop0_inv c"
  shows "\<exists>c'. istatus_write_uword v c = Inr c' \<and> iop_cop0_inv c' \<and> i0_irq_lines c' = i0_irq_lines c \<and>
    (\<forall>n. i0_raw n c' = (if n = I0_STATUS then v else i0_raw n c))"
  using assms i0_raw_write_get[OF assms]
  by (auto simp: istatus_write_spec iop_cop0_inv_def)

section \<open>The core\<close>

record iop_state =
  i_pc :: word_register
  i_bdelay :: branch_delay_slot
  i_gpr :: "nat \<Rightarrow> word_register"
  i_hi :: word_register
  i_lo :: word_register
  i_cop0 :: iop_cop0
  i_tcd :: trans_cache
  i_tci :: trans_cache
  i_bus :: "uptr byte_bus"

definition IopCoreR3000_gpr_new :: "nat \<Rightarrow> word_register" where
  "IopCoreR3000_gpr_new n = SizedRegister_new 0 (n = 0)"

definition iop_state_new :: "uptr byte_bus \<Rightarrow> iop_state" where
  "iop_state_new bus =
     \<lparr>i_pc = SizedRegister_new 0xBFC00000 False, i_bdelay = BranchDelaySlot_new,
      i_gpr = IopCoreR3000_gpr_new, i_hi = SizedRegister_new 0 False, i_lo = SizedRegister_new 0 False,
      i_cop0 = IopCoreCop0_new, i_tcd = TranslationCache_new, i_tci = TranslationCache_new, i_bus = bus\<rparr>"

definition iop_gpr_read :: "nat \<Rightarrow> iop_state \<Rightarrow> uword" where
  "iop_gpr_read n s = w_read_uword (i_gpr s n)"
definition iop_gpr_write :: "nat \<Rightarrow> uword \<Rightarrow> iop_state \<Rightarrow> iop_state" where
  "iop_gpr_write n v s = s\<lparr>i_gpr := (i_gpr s)(n := w_write_uword v (i_gpr s n))\<rparr>"

abbreviation iop_pc :: "iop_state \<Rightarrow> uword" where
  "iop_pc s \<equiv> w_read_uword (i_pc s)"

definition iop_advance_pc :: "iop_state \<Rightarrow> iop_state" where
  "iop_advance_pc s = (let (b, pc) = advance_pc (i_bdelay s, i_pc s) in s\<lparr>i_bdelay := b, i_pc := pc\<rparr>)"

section \<open>Exceptions\<close>

datatype IopCoreException =
    IEX_INTERRUPT
  | IEX_TLB_MODIFIED
  | IEX_TLB_REFILL_INSTRUCTION_FETCH_LOAD
  | IEX_TLB_REFILL_STORE
  | IEX_ADDRESS_ERROR_INSTRUCTION_FETCH_LOAD
  | IEX_ADDRESS_ERROR_STORE
  | IEX_BUS_ERROR_INSTRUCTION_FETCH
  | IEX_BUS_ERROR_LOAD_STORE
  | IEX_SYSTEMCALL
  | IEX_BREAK
  | IEX_RESERVED_INSTRUCTION
  | IEX_COPROCESSOR_UNUSABLE
  | IEX_OVERFLOW
  | IEX_RESET

fun iop_exception_code :: "IopCoreException \<Rightarrow> uword" where
  "iop_exception_code IEX_INTERRUPT = 0"
| "iop_exception_code IEX_TLB_MODIFIED = 1"
| "iop_exception_code IEX_TLB_REFILL_INSTRUCTION_FETCH_LOAD = 2"
| "iop_exception_code IEX_TLB_REFILL_STORE = 3"
| "iop_exception_code IEX_ADDRESS_ERROR_INSTRUCTION_FETCH_LOAD = 4"
| "iop_exception_code IEX_ADDRESS_ERROR_STORE = 5"
| "iop_exception_code IEX_BUS_ERROR_INSTRUCTION_FETCH = 6"
| "iop_exception_code IEX_BUS_ERROR_LOAD_STORE = 7"
| "iop_exception_code IEX_SYSTEMCALL = 8"
| "iop_exception_code IEX_BREAK = 9"
| "iop_exception_code IEX_RESERVED_INSTRUCTION = 10"
| "iop_exception_code IEX_COPROCESSOR_UNUSABLE = 11"
| "iop_exception_code IEX_OVERFLOW = 12"
| "iop_exception_code IEX_RESET = 13"

definition iop_set_epc :: "iop_state \<Rightarrow> iop_state" where
  "iop_set_epc s =
     (let c = i_cop0 s in
      if is_branch_pending (i_bdelay s) then
        s\<lparr>i_cop0 := icause_insert_field ICAUSE_BD 1 (i0_raw_write I0_EPC (iop_pc s - 4) c),
          i_bdelay := stop_branch (i_bdelay s)\<rparr>
      else s\<lparr>i_cop0 := icause_insert_field ICAUSE_BD 0 (i0_raw_write I0_EPC (iop_pc s) c)\<rparr>)"

definition iop_vector :: "IopCoreException \<Rightarrow> iop_cop0 \<Rightarrow> uword" where
  "iop_vector ex c =
     (let ex_vector_offset =
        (if ex = IEX_TLB_REFILL_INSTRUCTION_FETCH_LOAD \<or> ex = IEX_TLB_REFILL_STORE then 0x0 else 0x80)
      in (if istatus_field ISTATUS_BEV c = 1 then 0xBFC00100 else 0x80000000) + ex_vector_offset)"

definition iop_flush :: "iop_state \<Rightarrow> iop_state" where
  "iop_flush s = s\<lparr>i_tcd := TranslationCache_new, i_tci := TranslationCache_new\<rparr>"

definition iop_handle_exception :: "IopCoreException \<Rightarrow> iop_state \<Rightarrow> iop_state res" where
  "iop_handle_exception ex s =
     (if ex = IEX_RESET then Inl Runtime_error
      else
        let s1 = s\<lparr>i_cop0 := icause_insert_field ICAUSE_EXCCODE (iop_exception_code ex) (i_cop0 s)\<rparr>;
            s2 = iop_set_epc s1;
            s3 = s2\<lparr>i_pc := w_write_uword (iop_vector ex (i_cop0 s2)) (i_pc s2)\<rparr>
        in bind_res (push_exception_stack (i_cop0 s3)) (\<lambda>c.
             let s4 = s3\<lparr>i_cop0 := c\<rparr>;
                 s5 = (if ex \<noteq> IEX_INTERRUPT then s4\<lparr>i_pc := w_offset (- 4) (i_pc s4)\<rparr> else s4)
             in Inr (iop_flush s5)))"

definition iop_handle_interrupt_check :: "iop_state \<Rightarrow> iop_state res" where
  "iop_handle_interrupt_check s =
     (if \<not> i0_interrupts_masked (i_cop0 s) then
        let (cause, c) = icause_read_uword (i_cop0 s);
            s1 = s\<lparr>i_cop0 := c\<rparr>;
            ip_cause = extract_from ICAUSE_IP cause;
            im_status = istatus_field ISTATUS_IM c
        in if ip_cause AND im_status \<noteq> 0 then iop_handle_exception IEX_INTERRUPT s1 else Inr s1
      else Inr s)"

definition iop_handle_cop0_usable :: "iop_state \<Rightarrow> (bool \<times> iop_state) res" where
  "iop_handle_cop0_usable s =
     (if \<not> iop_cop0_is_usable (i_cop0 s) then
        bind_res (iop_handle_exception IEX_COPROCESSOR_UNUSABLE
          (s\<lparr>i_cop0 := icause_insert_field ICAUSE_CE 0 (i_cop0 s)\<rparr>)) (\<lambda>s1. Inr (False, s1))
      else Inr (True, s))"

definition iop_no_over_or_underflow_32_check :: "uword \<Rightarrow> uword \<Rightarrow> iop_state \<Rightarrow> (bool \<times> iop_state) res" where
  "iop_no_over_or_underflow_32_check x y s =
     (if test_over_or_underflow_32 x y then
        bind_res (iop_handle_exception IEX_OVERFLOW s) (\<lambda>s1. Inr (False, s1))
      else Inr (True, s))"

definition iop_guarded :: "(iop_state \<Rightarrow> (bool \<times> iop_state) res) \<Rightarrow> (iop_state \<Rightarrow> iop_state res) \<Rightarrow>
    iop_state \<Rightarrow> iop_state res" where
  "iop_guarded check body s = bind_res (check s) (\<lambda>(ok, s1). if \<not> ok then Inr s1 else body s1)"

section \<open>Address translation\<close>

definition iop_translate_address_fallback :: "uptr \<Rightarrow> MmuRwAccess \<Rightarrow> iop_state \<Rightarrow> (uptr option \<times> iop_state) res" where
  "iop_translate_address_fallback va rw s =
     (if i0_operating_context (i_cop0 s) = Kernel then
        if va \<ge> 0x80000000 \<and> va \<le> 0x9FFFFFFF then Inr (Some (va - 0x80000000), s)
        else if va \<ge> 0xA0000000 \<and> va \<le> 0xBFFFFFFF then Inr (Some (va - 0xA0000000), s)
        else if va \<ge> 0xFFC00000 then Inr (Some va, s)
        else if va \<le> 0x001FFFFF then
          if istatus_field ISTATUS_ISC (i_cop0 s) \<noteq> 0 \<and> rw = WRITE then Inr (None, s)
          else Inr (Some va, s)
        else Inl Runtime_error
      else Inl Runtime_error)"

definition iop_translate_address_data :: "uptr \<Rightarrow> MmuRwAccess \<Rightarrow> iop_state \<Rightarrow> (uptr option \<times> iop_state) res" where
  "iop_translate_address_data va rw s =
     (if rw = WRITE \<and> istatus_field ISTATUS_ISC (i_cop0 s) \<noteq> 0
      then iop_translate_address_fallback va rw s
      else tc_lookup i_tcd (\<lambda>c s. s\<lparr>i_tcd := c\<rparr>) iop_translate_address_fallback va rw s)"

definition iop_translate_address_inst :: "uptr \<Rightarrow> iop_state \<Rightarrow> (uptr option \<times> iop_state) res" where
  "iop_translate_address_inst va s =
     tc_lookup i_tci (\<lambda>c s. s\<lparr>i_tci := c\<rparr>) iop_translate_address_fallback va READ s"

section \<open>Well-formed states\<close>

definition iop_ok :: "iop_state \<Rightarrow> bool" where
  "iop_ok s \<longleftrightarrow>
     (\<forall>n. reg_read_only (i_gpr s n) \<longleftrightarrow> n = 0) \<and> reg_val (i_gpr s 0) = 0 \<and>
     \<not> reg_read_only (i_pc s) \<and> \<not> reg_read_only (i_hi s) \<and> \<not> reg_read_only (i_lo s) \<and>
     iop_cop0_inv (i_cop0 s) \<and> ts_invar TC_SIZE (i_tcd s) \<and> ts_invar TC_SIZE (i_tci s)"

lemma iop_ok_new: "iop_ok (iop_state_new b)"
  by (simp add: iop_ok_def iop_state_new_def iop_cop0_inv_new IopCoreR3000_gpr_new_def SizedRegister_new_def)

lemma iop_okD:
  assumes "iop_ok s"
  shows "iop_cop0_inv (i_cop0 s)" "\<not> reg_read_only (i_pc s)" "\<not> reg_read_only (i_hi s)"
    "\<not> reg_read_only (i_lo s)" "ts_invar TC_SIZE (i_tcd s)" "ts_invar TC_SIZE (i_tci s)"
    "reg_read_only (i_gpr s n) \<longleftrightarrow> n = 0" "iop_gpr_read 0 s = 0"
  using assms by (simp_all add: iop_ok_def iop_gpr_read_def w_defs reg_read_def)

lemma iop_ok_upd [intro]:
  assumes "iop_ok s"
  shows "reg_read_only r = False \<Longrightarrow> iop_ok (s\<lparr>i_pc := r\<rparr>)"
    "reg_read_only r = False \<Longrightarrow> iop_ok (s\<lparr>i_hi := r\<rparr>)"
    "reg_read_only r = False \<Longrightarrow> iop_ok (s\<lparr>i_lo := r\<rparr>)"
    "iop_cop0_inv c \<Longrightarrow> iop_ok (s\<lparr>i_cop0 := c\<rparr>)"
    "iop_ok (s\<lparr>i_bdelay := b\<rparr>)" "iop_ok (s\<lparr>i_bus := bus\<rparr>)"
    "ts_invar TC_SIZE tc \<Longrightarrow> iop_ok (s\<lparr>i_tcd := tc\<rparr>)"
    "ts_invar TC_SIZE tc \<Longrightarrow> iop_ok (s\<lparr>i_tci := tc\<rparr>)"
  using assms by (simp_all add: iop_ok_def)

lemma w_write_ro [simp]:
  "reg_read_only (w_write_uword v r) = reg_read_only r" "reg_read_only (w_offset v r) = reg_read_only r"
  by (simp_all add: w_offset_def w_defs)

lemma w_read_write: "w_read_uword (w_write_uword v r) = (if reg_read_only r then w_read_uword r else v)"
  by (simp add: w_read_uword_def w_write_uword_def reg_write_def reg_read_def)

lemma iop_ok_gpr_write [intro]: "iop_ok s \<Longrightarrow> iop_ok (iop_gpr_write n v s)"
  by (simp add: iop_ok_def iop_gpr_write_def w_defs)

lemma iop_gpr_read_write:
  "iop_ok s \<Longrightarrow> iop_gpr_read m (iop_gpr_write n v s) = (if m = n \<and> n \<noteq> 0 then v else iop_gpr_read m s)"
  by (simp add: iop_gpr_read_def iop_gpr_write_def w_read_write iop_okD(7))

lemma iop_gpr_write_frame [simp]:
  "i_pc (iop_gpr_write n v s) = i_pc s" "i_bdelay (iop_gpr_write n v s) = i_bdelay s"
  "i_hi (iop_gpr_write n v s) = i_hi s" "i_lo (iop_gpr_write n v s) = i_lo s"
  "i_cop0 (iop_gpr_write n v s) = i_cop0 s" "i_tcd (iop_gpr_write n v s) = i_tcd s"
  "i_tci (iop_gpr_write n v s) = i_tci s" "i_bus (iop_gpr_write n v s) = i_bus s"
  by (simp_all add: iop_gpr_write_def)

lemma iop_ok_advance [intro]: "iop_ok s \<Longrightarrow> iop_ok (iop_advance_pc s)"
  using advance_pc_ro[of "i_bdelay s" "i_pc s"]
  by (simp add: iop_ok_def iop_advance_pc_def split_beta)

section \<open>Exception entry\<close>

lemma iop_cop0_inv_cause:
  "iop_cop0_inv c \<Longrightarrow> iop_cop0_inv (snd (icause_read_uword c))"
  "iop_cop0_inv c \<Longrightarrow> iop_cop0_inv (icause_insert_field f x c)"
  by (simp_all add: icause_read_uword_def icause_insert_field_def Let_def iop_cop0_inv_raw_write)

lemma icause_insert_raw:
  assumes "iop_cop0_inv c"
  shows "i0_raw n (icause_insert_field f x c) =
     (if n = I0_CAUSE then insert_into f (insert_into ICAUSE_IP (i0_raw I0_CAUSE c) (irq_bits 0 (i0_irq_lines c))) x
      else i0_raw n c)"
  using i0_raw_write_get[OF iop_cop0_inv_raw_write[OF assms], of I0_CAUSE]
  by (simp add: icause_insert_field_def icause_read_uword_def Let_def i0_raw_write_get[OF assms])

lemma icause_insert_frame [simp]:
  "i0_interrupts_masked (icause_insert_field f x c) = i0_interrupts_masked c"
  "i0_operating_context (icause_insert_field f x c) = i0_operating_context c"
  "i0_irq_lines (icause_insert_field f x c) = i0_irq_lines c"
  by (simp_all add: icause_insert_field_def icause_read_uword_def Let_def)

text \<open>The words the push and the pop write, bit by bit.\<close>

abbreviation pushed_status :: "uword \<Rightarrow> uword" where
  "pushed_status v \<equiv> (v AND NOT 0x3F) OR push_bit 2 (v AND 0xF)"
abbreviation popped_status :: "uword \<Rightarrow> uword" where
  "popped_status v \<equiv> (v AND NOT 0xF) OR drop_bit 2 (v AND 0x3C)"

lemma status_masks: "(0x3F :: uword) = mask 6" "(0xF :: uword) = mask 4" "(0x3C :: uword) = push_bit 2 (mask 4)"
  by (simp_all add: mask_eq_exp_minus_1 push_bit_eq_mult)

lemma bit_pushed_status:
  "bit (pushed_status v) n \<longleftrightarrow> n < 32 \<and> (if n < 6 then 2 \<le> n \<and> bit v (n - 2) else bit v n)"
  unfolding status_masks by (auto simp: bit_simps dest: bit_imp_le_length)

lemma bit_popped_status:
  "bit (popped_status v) n \<longleftrightarrow> n < 32 \<and> (if n < 4 then bit v (n + 2) else bit v n)"
  unfolding status_masks by (auto simp: bit_simps add.commute dest: bit_imp_le_length)

text \<open>Popping what was pushed restores the two inner levels of the stack; the outer one is copied.\<close>

lemma pop_push_status:
  "bit (popped_status (pushed_status v)) n \<longleftrightarrow>
     n < 32 \<and> (if n = 4 \<or> n = 5 then bit v (n - 2) else bit v n)"
proof -
  have "n = 4 \<or> n = 5 \<or> n < 4 \<or> 6 \<le> n" by linarith
  then show ?thesis unfolding bit_popped_status bit_pushed_status by auto
qed

definition iop_error_pc :: "iop_state \<Rightarrow> uptr" where
  "iop_error_pc s = (if is_branch_pending (i_bdelay s) then iop_pc s - 4 else iop_pc s)"

lemma iop_set_epc_cop0:
  "i_cop0 (iop_set_epc s) = icause_insert_field ICAUSE_BD (if is_branch_pending (i_bdelay s) then 1 else 0)
     (i0_raw_write I0_EPC (iop_error_pc s) (i_cop0 s))"
  by (simp add: iop_set_epc_def Let_def iop_error_pc_def)

lemma iop_set_epc_frame [simp]:
  "i_pc (iop_set_epc s) = i_pc s" "i_gpr (iop_set_epc s) = i_gpr s" "i_bus (iop_set_epc s) = i_bus s"
  "i_hi (iop_set_epc s) = i_hi s" "i_lo (iop_set_epc s) = i_lo s"
  "is_branch_pending (i_bdelay (iop_set_epc s)) = False"
  by (simp_all add: iop_set_epc_def Let_def is_branch_pending_def stop_branch_def)

definition iop_entry :: "IopCoreException \<Rightarrow> iop_state \<Rightarrow> iop_state \<Rightarrow> bool" where
  "iop_entry ex s s' \<longleftrightarrow>
     i0_raw I0_EPC (i_cop0 s') = iop_error_pc s \<and>
     (bit (i0_raw I0_CAUSE (i_cop0 s')) 31 \<longleftrightarrow> is_branch_pending (i_bdelay s)) \<and>
     extract_from ICAUSE_EXCCODE (i0_raw I0_CAUSE (i_cop0 s')) = iop_exception_code ex \<and>
     i0_raw I0_STATUS (i_cop0 s') = pushed_status (i0_raw I0_STATUS (i_cop0 s)) \<and>
     i0_operating_context (i_cop0 s') = Kernel \<and> i0_interrupts_masked (i_cop0 s') \<and>
     \<not> is_branch_pending (i_bdelay s') \<and>
     iop_pc s' + (if ex = IEX_INTERRUPT then 0 else 4) = iop_vector ex (i_cop0 s) \<and>
     i_tcd s' = TranslationCache_new \<and> i_tci s' = TranslationCache_new \<and>
     i_gpr s' = i_gpr s \<and> i_hi s' = i_hi s \<and> i_lo s' = i_lo s \<and> i_bus s' = i_bus s"

lemma iop_code_bits: "take_bit 5 (iop_exception_code ex) = iop_exception_code ex"
  by (cases ex) simp_all

lemma iop_prologue_raw:
  fixes ex :: IopCoreException
  assumes "iop_ok s"
  defines "c \<equiv> i_cop0 (iop_set_epc (s\<lparr>i_cop0 := icause_insert_field ICAUSE_EXCCODE (iop_exception_code ex) (i_cop0 s)\<rparr>))"
  shows "iop_cop0_inv c" "i0_raw I0_EPC c = iop_error_pc s"
    "i0_raw I0_STATUS c = i0_raw I0_STATUS (i_cop0 s)"
    "bit (i0_raw I0_CAUSE c) 31 \<longleftrightarrow> is_branch_pending (i_bdelay s)"
    "extract_from ICAUSE_EXCCODE (i0_raw I0_CAUSE c) = iop_exception_code ex"
proof -
  note i = iop_okD(1)[OF assms(1)]
  let ?c1 = "icause_insert_field ICAUSE_EXCCODE (iop_exception_code ex) (i_cop0 s)"
  let ?c2 = "i0_raw_write I0_EPC (iop_error_pc s) ?c1"
  have c: "c = icause_insert_field ICAUSE_BD (if is_branch_pending (i_bdelay s) then 1 else 0) ?c2"
    by (simp add: c_def iop_set_epc_cop0 iop_error_pc_def)
  have i1: "iop_cop0_inv ?c1" using i by (rule iop_cop0_inv_cause)
  have i2: "iop_cop0_inv ?c2" using i1 by (rule iop_cop0_inv_raw_write) simp
  show "iop_cop0_inv c" unfolding c using i2 by (rule iop_cop0_inv_cause)
  note raw = icause_insert_raw[OF i2] i0_raw_write_get[OF i1] icause_insert_raw[OF i]
  show "i0_raw I0_EPC c = iop_error_pc s" "i0_raw I0_STATUS c = i0_raw I0_STATUS (i_cop0 s)"
    by (simp_all add: c raw)
  show "bit (i0_raw I0_CAUSE c) 31 \<longleftrightarrow> is_branch_pending (i_bdelay s)"
    by (simp add: c raw bit_insert_into ICAUSE_BD_def)
  have "extract_from ICAUSE_EXCCODE (i0_raw I0_CAUSE c) =
      extract_from ICAUSE_EXCCODE (insert_into ICAUSE_EXCCODE (i0_raw I0_CAUSE (i_cop0 s)) (iop_exception_code ex))"
    unfolding c raw by (rule bit_word_eqI) (simp add: raw bit_extract_from bit_insert_into word_defs)
  also have "\<dots> = iop_exception_code ex"
    by (subst extract_insert_same) (simp_all add: bf_within_def ICAUSE_EXCCODE_def iop_code_bits)
  finally show "extract_from ICAUSE_EXCCODE (i0_raw I0_CAUSE c) = iop_exception_code ex" .
qed

lemma iop_handle_exception_entry:
  assumes ok: "iop_ok s" and ex: "ex \<noteq> IEX_RESET"
  shows "\<exists>s'. iop_handle_exception ex s = Inr s' \<and> iop_entry ex s s' \<and> iop_ok s'"
proof -
  let ?s1 = "s\<lparr>i_cop0 := icause_insert_field ICAUSE_EXCCODE (iop_exception_code ex) (i_cop0 s)\<rparr>"
  let ?s2 = "iop_set_epc ?s1"
  note c = iop_prologue_raw[OF ok, of ex]
  obtain c' where c': "push_exception_stack (i_cop0 ?s2) = Inr c'" "iop_cop0_inv c'"
    "\<And>n. i0_raw n c' = (if n = I0_STATUS then pushed_status (i0_raw I0_STATUS (i_cop0 s)) else i0_raw n (i_cop0 ?s2))"
    using istatus_write_inv[OF c(1)] unfolding push_exception_stack_def Let_def c(3) by metis
  have st: "i0_raw I0_STATUS c' = pushed_status (i0_raw I0_STATUS (i_cop0 s))" using c'(3) by simp
  have km: "i0_operating_context c' = Kernel" "i0_interrupts_masked c'"
    using iop_cop0_invD(1,2)[OF c'(2)] unfolding st bit_pushed_status by simp_all
  have v: "iop_vector ex (i_cop0 ?s2) = iop_vector ex (i_cop0 s)"
    by (simp add: iop_vector_def istatus_field_def c(3))
  have ro: "\<not> reg_read_only (i_pc s)" using ok by (rule iop_okD)
  let ?s4 = "?s2\<lparr>i_pc := w_write_uword (iop_vector ex (i_cop0 s)) (i_pc ?s2), i_cop0 := c'\<rparr>"
  let ?s' = "iop_flush (if ex \<noteq> IEX_INTERRUPT then ?s4\<lparr>i_pc := w_offset (- 4) (i_pc ?s4)\<rparr> else ?s4)"
  have h: "iop_handle_exception ex s = Inr ?s'"
    using ex c'(1) unfolding iop_handle_exception_def Let_def v[symmetric] by (simp add: if_distrib cong: if_cong)
  have "iop_entry ex s ?s'"
    unfolding iop_entry_def using c c' st km ro
    by (auto simp: iop_flush_def w_offset_def w_read_write)
  moreover have "iop_ok ?s'"
    using ok c'(2) by (auto simp: iop_ok_def iop_flush_def)
  ultimately show ?thesis using h by blast
qed

abbreviation iop_ok_snd :: "('v \<times> iop_state) res \<Rightarrow> bool" where
  "iop_ok_snd m \<equiv> ok_res (\<lambda>(v, s). iop_ok s) m"

lemma iop_ok_exception [intro]: "iop_ok s \<Longrightarrow> ok_res iop_ok (iop_handle_exception ex s)"
  using iop_handle_exception_entry[of s ex]
  by (cases "ex = IEX_RESET") (auto simp: iop_handle_exception_def)

lemma iop_ok_interrupt_check: "iop_ok s \<Longrightarrow> ok_res iop_ok (iop_handle_interrupt_check s)"
  using iop_cop0_inv_cause(1)[OF iop_okD(1), of s]
  by (auto simp: iop_handle_interrupt_check_def split_beta Let_def)

lemma iop_ok_with_value: "ok_res iop_ok m \<Longrightarrow> iop_ok_snd (bind_res m (\<lambda>s. Inr (v, s)))"
  by (cases m) simp_all

lemma iop_ok_checks:
  assumes "iop_ok s"
  shows "iop_ok_snd (iop_handle_cop0_usable s)" "iop_ok_snd (iop_no_over_or_underflow_32_check x y s)"
  using assms iop_cop0_inv_cause(2)[OF iop_okD(1)[OF assms]]
  by (auto simp: iop_handle_cop0_usable_def iop_no_over_or_underflow_32_check_def intro!: iop_ok_with_value)

lemma iop_ok_guarded:
  "iop_ok_snd (check s) \<Longrightarrow> (\<And>s. iop_ok s \<Longrightarrow> ok_res iop_ok (body s)) \<Longrightarrow> ok_res iop_ok (iop_guarded check body s)"
  unfolding iop_guarded_def by (erule ok_res_bind) auto

section \<open>Translation\<close>

text \<open>The segments, and that a cached translation answers as the uncached one does.\<close>

lemma iop_fallback_state: "iop_translate_address_fallback va rw s = Inr (r, s') \<Longrightarrow> s' = s"
  by (auto simp: iop_translate_address_fallback_def split: if_splits)

lemma iop_fallback_ok: "iop_ok s \<Longrightarrow> iop_ok_snd (iop_translate_address_fallback va rw s)"
  by (cases "iop_translate_address_fallback va rw s") (auto dest: iop_fallback_state)

interpretation iop_data: cached_translation iop_ok i_tcd "\<lambda>c s. s\<lparr>i_tcd := c\<rparr>" iop_translate_address_fallback
  by unfold_locales (auto dest: iop_fallback_state iop_okD(5) intro: iop_fallback_ok)

interpretation iop_inst: cached_translation iop_ok i_tci "\<lambda>c s. s\<lparr>i_tci := c\<rparr>" iop_translate_address_fallback
  by unfold_locales (auto dest: iop_fallback_state iop_okD(6) intro: iop_fallback_ok)

lemma iop_ok_translate_data: "iop_ok s \<Longrightarrow> iop_ok_snd (iop_translate_address_data va rw s)"
  by (simp add: iop_translate_address_data_def iop_fallback_ok iop_data.lookup_ok)

lemma iop_ok_translate_inst: "iop_ok s \<Longrightarrow> iop_ok_snd (iop_translate_address_inst va s)"
  unfolding iop_translate_address_inst_def by (rule iop_inst.lookup_ok)

text \<open>
  The segments are unions of pages, so the cached lookup answers what the full lookup does.
\<close>

lemma iop_fallback_page:
  assumes "iop_translate_address_fallback (page_of va) rw s = Inr (Some pa, s')"
  shows "iop_translate_address_fallback va rw s = Inr (Some (pa OR (va AND cache_mask)), s)"
  using assms
  by (auto simp: iop_translate_address_fallback_def page_of_le page_of_ge page_minus_or_low page_or_low
      split: if_splits)

lemma iop_fallback_read_if:
  "iop_translate_address_fallback va rw s = Inr (Some pa, s') \<Longrightarrow>
   iop_translate_address_fallback va READ s = Inr (Some pa, s)"
  by (auto simp: iop_translate_address_fallback_def split: if_splits)

interpretation iop_data_paged: paged_translation iop_ok i_tcd "\<lambda>c s. s\<lparr>i_tcd := c\<rparr>"
    iop_translate_address_fallback "\<lambda>s. True"
  by unfold_locales
    (erule iop_fallback_page iop_fallback_read_if | simp add: iop_translate_address_fallback_def)+

interpretation iop_inst_paged: paged_translation iop_ok i_tci "\<lambda>c s. s\<lparr>i_tci := c\<rparr>"
    iop_translate_address_fallback "\<lambda>s. True"
  by unfold_locales
    (erule iop_fallback_page iop_fallback_read_if | simp add: iop_translate_address_fallback_def)+

section \<open>Interrupts\<close>

definition iop_interrupt_pending :: "iop_state \<Rightarrow> bool" where
  "iop_interrupt_pending s \<longleftrightarrow>
     bit (i0_raw I0_STATUS (i_cop0 s)) 0 \<and>
     (\<exists>k<8. i0_irq_lines (i_cop0 s) ! k \<and> bit (i0_raw I0_STATUS (i_cop0 s)) (8 + k))"

lemma icause_read_raw:
  assumes "iop_cop0_inv c" and "icause_read_uword c = (v, c')"
  shows "\<And>n. i0_raw n c' = (if n = I0_CAUSE then v else i0_raw n c)" "iop_cop0_inv c'"
    "i0_irq_lines c' = i0_irq_lines c" "i0_interrupts_masked c' = i0_interrupts_masked c"
    "\<And>n. bit v n \<longleftrightarrow> n < 32 \<and> (if 8 \<le> n \<and> n < 16 then i0_irq_lines c ! (n - 8) else bit (i0_raw I0_CAUSE c) n)"
  using assms iop_cop0_inv_cause(1)[OF assms(1)] iop_cop0_invD(3)[OF assms(1)]
  by (auto simp: icause_read_uword_def Let_def i0_raw_write_get bit_insert_into ICAUSE_IP_def
      bit_irq_bits dest: bit_imp_le_length)

lemma iop_entry_sync:
  assumes "iop_entry ex (s\<lparr>i_cop0 := c\<rparr>) s'" and "i0_raw I0_STATUS c = i0_raw I0_STATUS (i_cop0 s)"
  shows "iop_entry ex s s'"
  using assms by (simp add: iop_entry_def iop_error_pc_def iop_vector_def istatus_field_def)

text \<open>
  An interrupt is taken exactly when IEc is set and a raised line is unmasked; otherwise only
  the cause register is brought up to date.
\<close>

lemma iop_interrupt_check_spec:
  assumes ok: "iop_ok s"
  shows "\<exists>s'. iop_handle_interrupt_check s = Inr s' \<and> iop_ok s' \<and>
    (if iop_interrupt_pending s then iop_entry IEX_INTERRUPT s s'
     else \<exists>c. s' = s\<lparr>i_cop0 := c\<rparr> \<and> (\<forall>n. n \<noteq> I0_CAUSE \<longrightarrow> i0_raw n c = i0_raw n (i_cop0 s)))"
proof (cases "bit (i0_raw I0_STATUS (i_cop0 s)) 0")
  case False
  then have "iop_handle_interrupt_check s = Inr s"
    using iop_cop0_invD(1)[OF iop_okD(1)[OF ok]] by (simp add: iop_handle_interrupt_check_def)
  moreover have "\<exists>c. s = s\<lparr>i_cop0 := c\<rparr> \<and> (\<forall>n. n \<noteq> I0_CAUSE \<longrightarrow> i0_raw n c = i0_raw n (i_cop0 s))"
    by (rule exI[of _ "i_cop0 s"]) simp
  ultimately show ?thesis using ok False by (simp add: iop_interrupt_pending_def)
next
  case True
  obtain v c where c: "icause_read_uword (i_cop0 s) = (v, c)" by fastforce
  note r = icause_read_raw[OF iop_okD(1)[OF ok] c]
  let ?s1 = "s\<lparr>i_cop0 := c\<rparr>"
  have ok1: "iop_ok ?s1" using ok r(2) by (rule iop_ok_upd(4))
  have st: "i0_raw I0_STATUS c = i0_raw I0_STATUS (i_cop0 s)" by (simp add: r(1))
  have b: "bit (extract_from ICAUSE_IP v AND istatus_field ISTATUS_IM c) k \<longleftrightarrow>
      k < 8 \<and> i0_irq_lines (i_cop0 s) ! k \<and> bit (i0_raw I0_STATUS (i_cop0 s)) (8 + k)" for k
    by (auto simp: istatus_field_def bit_extract_from bit_and_iff r(5) st word_defs)
  have p: "extract_from ICAUSE_IP v AND istatus_field ISTATUS_IM c \<noteq> 0 \<longleftrightarrow> iop_interrupt_pending s"
    using True b unfolding iop_interrupt_pending_def by (metis bit_0_eq bot_apply bot_bool_def bit_word_eqI)
  have h: "iop_handle_interrupt_check s =
      (if iop_interrupt_pending s then iop_handle_exception IEX_INTERRUPT ?s1 else Inr ?s1)"
    using True iop_cop0_invD(1)[OF iop_okD(1)[OF ok]] c p
    by (simp add: iop_handle_interrupt_check_def Let_def)
  show ?thesis
  proof (cases "iop_interrupt_pending s")
    case True
    then show ?thesis
      using iop_handle_exception_entry[OF ok1, of IEX_INTERRUPT] iop_entry_sync[OF _ st] h by auto
  next
    case False
    then show ?thesis using h ok1 r(1) by auto
  qed
qed

end
