(* ===== verification/IopInstructions.thy ===== *)
theory IopInstructions
  imports IopCore EeMultDiv EeMemory
begin

text \<open>
  The instructions of the I/O processor (\<open>Controller/Iop/Core/Interpreter/CIopCoreInterpreter_*.cpp\<close>),
  one definition each, named \<open>IOP_\<close> and the source's name.  Total instructions map states to
  states; those that translate an address, raise an exception or throw return a result.
\<close>

section \<open>Registers and addresses\<close>

definition iop_rd :: "instruction \<Rightarrow> uword \<Rightarrow> iop_state \<Rightarrow> iop_state" where
  "iop_rd inst v s = iop_gpr_write (inst_rd inst) v s"
definition iop_rt :: "instruction \<Rightarrow> uword \<Rightarrow> iop_state \<Rightarrow> iop_state" where
  "iop_rt inst v s = iop_gpr_write (inst_rt inst) v s"

abbreviation iop_rs_val :: "instruction \<Rightarrow> iop_state \<Rightarrow> uword" where
  "iop_rs_val inst s \<equiv> iop_gpr_read (inst_rs inst) s"
abbreviation iop_rt_val :: "instruction \<Rightarrow> iop_state \<Rightarrow> uword" where
  "iop_rt_val inst s \<equiv> iop_gpr_read (inst_rt inst) s"

abbreviation iop_s_imm :: "instruction \<Rightarrow> uword" where
  "iop_s_imm inst \<equiv> scast (inst_s_imm inst)"
abbreviation iop_u_imm :: "instruction \<Rightarrow> uword" where
  "iop_u_imm inst \<equiv> ucast (inst_u_imm inst)"

text \<open>\<open>read_ubyte(0) & 0x1F\<close> of the register with the shift amount.\<close>

definition iop_shift_amount :: "instruction \<Rightarrow> iop_state \<Rightarrow> nat" where
  "iop_shift_amount inst s = unat (w_read_ubyte 0 (i_gpr s (inst_rs inst)) AND 0x1F)"

definition iop_branch_itype :: "instruction \<Rightarrow> iop_state \<Rightarrow> iop_state" where
  "iop_branch_itype inst s = s\<lparr>i_bdelay := set_branch_itype 1 (i_pc s) (inst_s_imm inst) (i_bdelay s)\<rparr>"

definition iop_link :: "iop_state \<Rightarrow> iop_state" where
  "iop_link s = iop_gpr_write 31 (iop_pc s + 4 * 2) s"

definition iop_effective_address :: "instruction \<Rightarrow> iop_state \<Rightarrow> uptr" where
  "iop_effective_address inst s = iop_rs_val inst s + iop_s_imm inst"

definition iop_with_address ::
    "uptr \<Rightarrow> MmuRwAccess \<Rightarrow> (uptr \<Rightarrow> iop_state \<Rightarrow> iop_state res) \<Rightarrow> iop_state \<Rightarrow> iop_state res" where
  "iop_with_address va rw body s =
     bind_res (iop_translate_address_data va rw s) (\<lambda>(physical_address, s1).
       case physical_address of None \<Rightarrow> Inr s1 | Some pa \<Rightarrow> body pa s1)"

definition iop_read ::
    "(uptr \<Rightarrow> uptr byte_bus \<Rightarrow> ('v \<times> uptr byte_bus) res) \<Rightarrow> uptr \<Rightarrow> ('v \<Rightarrow> iop_state \<Rightarrow> iop_state res) \<Rightarrow>
     iop_state \<Rightarrow> iop_state res" where
  "iop_read rd pa k s = bind_res (rd pa (i_bus s)) (\<lambda>(v, b). k v (s\<lparr>i_bus := b\<rparr>))"

definition iop_write :: "(uptr byte_bus \<Rightarrow> uptr byte_bus res) \<Rightarrow> iop_state \<Rightarrow> iop_state res" where
  "iop_write wr s = bind_res (wr (i_bus s)) (\<lambda>b. Inr (s\<lparr>i_bus := b\<rparr>))"

section \<open>Arithmetic\<close>

definition IOP_ADD :: "instruction \<Rightarrow> iop_state \<Rightarrow> iop_state res" where
  "IOP_ADD inst s =
     (let val_source1 = iop_rs_val inst s;
          val_source2 = iop_rt_val inst s;
          result = val_source1 + val_source2
      in iop_guarded (iop_no_over_or_underflow_32_check val_source1 val_source2)
           (\<lambda>s. Inr (iop_rd inst result s)) s)"

definition IOP_ADDI :: "instruction \<Rightarrow> iop_state \<Rightarrow> iop_state res" where
  "IOP_ADDI inst s =
     (let val_source1 = iop_rs_val inst s;
          val_source2 = iop_s_imm inst;
          result = val_source1 + val_source2
      in iop_guarded (iop_no_over_or_underflow_32_check val_source1 val_source2)
           (\<lambda>s. Inr (iop_rt inst result s)) s)"

definition IOP_ADDIU :: "instruction \<Rightarrow> iop_state \<Rightarrow> iop_state" where
  "IOP_ADDIU inst s =
     iop_rt inst (iop_rs_val inst s + iop_s_imm inst) s"

definition IOP_ADDU :: "instruction \<Rightarrow> iop_state \<Rightarrow> iop_state" where
  "IOP_ADDU inst s =
     iop_rd inst (iop_rs_val inst s + iop_rt_val inst s) s"

definition IOP_SUB :: "instruction \<Rightarrow> iop_state \<Rightarrow> iop_state res" where
  "IOP_SUB inst s =
     (let val_source1 = iop_rs_val inst s;
          val_source2 = iop_rt_val inst s;
          result = val_source1 - val_source2
      in iop_guarded (iop_no_over_or_underflow_32_check val_source1 val_source2)
           (\<lambda>s. Inr (iop_rd inst result s)) s)"

definition IOP_SUBU :: "instruction \<Rightarrow> iop_state \<Rightarrow> iop_state" where
  "IOP_SUBU inst s =
     iop_rd inst (iop_rs_val inst s - iop_rt_val inst s) s"

definition IOP_DIV :: "instruction \<Rightarrow> iop_state \<Rightarrow> iop_state" where
  "IOP_DIV inst s =
     (let val_source1 = iop_rs_val inst s;
          val_source2 = iop_rt_val inst s
      in if sint val_source1 = VALUE_SWORD_MIN \<and> sint val_source2 = -1 then
           s\<lparr>i_lo := w_write_uword (word_of_int VALUE_SWORD_MIN) (i_lo s), i_hi := w_write_uword 0 (i_hi s)\<rparr>
         else if val_source2 = 0 then s
         else
           let resultQ = c_div val_source1 val_source2;
               resultR = c_mod val_source1 val_source2
           in s\<lparr>i_lo := w_write_uword resultQ (i_lo s), i_hi := w_write_uword resultR (i_hi s)\<rparr>)"

definition IOP_DIVU :: "instruction \<Rightarrow> iop_state \<Rightarrow> iop_state" where
  "IOP_DIVU inst s =
     (let val_source1 = iop_rs_val inst s;
          val_source2 = iop_rt_val inst s
      in if val_source2 = 0 then s
         else
           let resultQ = val_source1 div val_source2;
               resultR = val_source1 mod val_source2
           in s\<lparr>i_lo := w_write_uword resultQ (i_lo s), i_hi := w_write_uword resultR (i_hi s)\<rparr>)"

definition IOP_MULT :: "instruction \<Rightarrow> iop_state \<Rightarrow> iop_state" where
  "IOP_MULT inst s =
     (let val_source1 = scast (iop_rs_val inst s) :: udword;
          val_source2 = scast (iop_rt_val inst s) :: udword;
          result = val_source1 * val_source2
      in s\<lparr>i_lo := w_write_uword (ucast (result AND 0xFFFFFFFF)) (i_lo s),
           i_hi := w_write_uword (ucast (signed_drop_bit 32 result AND 0xFFFFFFFF)) (i_hi s)\<rparr>)"

definition IOP_MULTU :: "instruction \<Rightarrow> iop_state \<Rightarrow> iop_state" where
  "IOP_MULTU inst s =
     (let val_source1 = ucast (iop_rs_val inst s) :: udword;
          val_source2 = ucast (iop_rt_val inst s) :: udword;
          result = val_source1 * val_source2
      in s\<lparr>i_lo := w_write_uword (ucast (result AND 0xFFFFFFFF)) (i_lo s),
           i_hi := w_write_uword (ucast (drop_bit 32 result AND 0xFFFFFFFF)) (i_hi s)\<rparr>)"

section \<open>Shifts and logic\<close>

definition IOP_SLL :: "instruction \<Rightarrow> iop_state \<Rightarrow> iop_state" where
  "IOP_SLL inst s =
     iop_rd inst (push_bit (inst_shamt inst) (iop_rt_val inst s)) s"

definition IOP_SLLV :: "instruction \<Rightarrow> iop_state \<Rightarrow> iop_state" where
  "IOP_SLLV inst s =
     iop_rd inst (push_bit (iop_shift_amount inst s) (iop_rt_val inst s)) s"

definition IOP_SRA :: "instruction \<Rightarrow> iop_state \<Rightarrow> iop_state" where
  "IOP_SRA inst s =
     iop_rd inst (signed_drop_bit (inst_shamt inst) (iop_rt_val inst s)) s"

definition IOP_SRAV :: "instruction \<Rightarrow> iop_state \<Rightarrow> iop_state" where
  "IOP_SRAV inst s =
     iop_rd inst (signed_drop_bit (iop_shift_amount inst s) (iop_rt_val inst s)) s"

definition IOP_SRL :: "instruction \<Rightarrow> iop_state \<Rightarrow> iop_state" where
  "IOP_SRL inst s =
     iop_rd inst (drop_bit (inst_shamt inst) (iop_rt_val inst s)) s"

definition IOP_SRLV :: "instruction \<Rightarrow> iop_state \<Rightarrow> iop_state" where
  "IOP_SRLV inst s =
     iop_rd inst (drop_bit (iop_shift_amount inst s) (iop_rt_val inst s)) s"

definition IOP_AND :: "instruction \<Rightarrow> iop_state \<Rightarrow> iop_state" where
  "IOP_AND inst s =
     iop_rd inst (iop_rs_val inst s AND iop_rt_val inst s) s"

definition IOP_ANDI :: "instruction \<Rightarrow> iop_state \<Rightarrow> iop_state" where
  "IOP_ANDI inst s =
     iop_rt inst (iop_rs_val inst s AND iop_u_imm inst) s"

definition IOP_OR :: "instruction \<Rightarrow> iop_state \<Rightarrow> iop_state" where
  "IOP_OR inst s =
     iop_rd inst (iop_rs_val inst s OR iop_rt_val inst s) s"

definition IOP_ORI :: "instruction \<Rightarrow> iop_state \<Rightarrow> iop_state" where
  "IOP_ORI inst s =
     iop_rt inst (iop_rs_val inst s OR iop_u_imm inst) s"

definition IOP_XOR :: "instruction \<Rightarrow> iop_state \<Rightarrow> iop_state" where
  "IOP_XOR inst s =
     iop_rd inst (iop_rs_val inst s XOR iop_rt_val inst s) s"

definition IOP_XORI :: "instruction \<Rightarrow> iop_state \<Rightarrow> iop_state" where
  "IOP_XORI inst s =
     iop_rt inst (iop_rs_val inst s XOR iop_u_imm inst) s"

definition IOP_NOR :: "instruction \<Rightarrow> iop_state \<Rightarrow> iop_state" where
  "IOP_NOR inst s =
     iop_rd inst (NOT (iop_rs_val inst s OR iop_rt_val inst s)) s"

definition IOP_SLT :: "instruction \<Rightarrow> iop_state \<Rightarrow> iop_state" where
  "IOP_SLT inst s =
     iop_rd inst (if sint (iop_rs_val inst s) < sint (iop_rt_val inst s) then 1 else 0) s"

definition IOP_SLTI :: "instruction \<Rightarrow> iop_state \<Rightarrow> iop_state" where
  "IOP_SLTI inst s =
     iop_rt inst (if sint (iop_rs_val inst s) < sint (iop_s_imm inst) then 1 else 0) s"

definition IOP_SLTIU :: "instruction \<Rightarrow> iop_state \<Rightarrow> iop_state" where
  "IOP_SLTIU inst s =
     iop_rt inst (if iop_rs_val inst s < iop_s_imm inst then 1 else 0) s"

definition IOP_SLTU :: "instruction \<Rightarrow> iop_state \<Rightarrow> iop_state" where
  "IOP_SLTU inst s =
     iop_rd inst (if iop_rs_val inst s < iop_rt_val inst s then 1 else 0) s"

section \<open>Branches and jumps\<close>

definition IOP_BEQ :: "instruction \<Rightarrow> iop_state \<Rightarrow> iop_state" where
  "IOP_BEQ inst s =
     (if iop_rt_val inst s = iop_rs_val inst s then iop_branch_itype inst s else s)"

definition IOP_BGEZ :: "instruction \<Rightarrow> iop_state \<Rightarrow> iop_state" where
  "IOP_BGEZ inst s =
     (if sint (iop_rs_val inst s) \<ge> 0 then iop_branch_itype inst s else s)"

definition IOP_BGEZAL :: "instruction \<Rightarrow> iop_state \<Rightarrow> iop_state" where
  "IOP_BGEZAL inst s =
     (if sint (iop_rs_val inst s) \<ge> 0 then iop_branch_itype inst (iop_link s) else s)"

definition IOP_BGTZ :: "instruction \<Rightarrow> iop_state \<Rightarrow> iop_state" where
  "IOP_BGTZ inst s =
     (if sint (iop_rs_val inst s) > 0 then iop_branch_itype inst s else s)"

definition IOP_BLEZ :: "instruction \<Rightarrow> iop_state \<Rightarrow> iop_state" where
  "IOP_BLEZ inst s =
     (if sint (iop_rs_val inst s) \<le> 0 then iop_branch_itype inst s else s)"

definition IOP_BLTZ :: "instruction \<Rightarrow> iop_state \<Rightarrow> iop_state" where
  "IOP_BLTZ inst s =
     (if sint (iop_rs_val inst s) < 0 then iop_branch_itype inst s else s)"

definition IOP_BLTZAL :: "instruction \<Rightarrow> iop_state \<Rightarrow> iop_state" where
  "IOP_BLTZAL inst s =
     (if sint (iop_rs_val inst s) < 0 then iop_branch_itype inst (iop_link s) else s)"

definition IOP_BNE :: "instruction \<Rightarrow> iop_state \<Rightarrow> iop_state" where
  "IOP_BNE inst s =
     (if iop_rt_val inst s \<noteq> iop_rs_val inst s then iop_branch_itype inst s else s)"

definition IOP_J :: "instruction \<Rightarrow> iop_state \<Rightarrow> iop_state" where
  "IOP_J inst s =
     s\<lparr>i_bdelay := set_branch_jtype 1 (i_pc s) (inst_addr inst) (i_bdelay s)\<rparr>"

definition IOP_JR :: "instruction \<Rightarrow> iop_state \<Rightarrow> iop_state" where
  "IOP_JR inst s =
     s\<lparr>i_bdelay := set_branch_direct 1 (iop_rs_val inst s) (i_bdelay s)\<rparr>"

definition IOP_JAL :: "instruction \<Rightarrow> iop_state \<Rightarrow> iop_state" where
  "IOP_JAL inst s =
     (let s1 = iop_link s
      in s1\<lparr>i_bdelay := set_branch_jtype 1 (i_pc s1) (inst_addr inst) (i_bdelay s1)\<rparr>)"

definition IOP_JALR :: "instruction \<Rightarrow> iop_state \<Rightarrow> iop_state" where
  "IOP_JALR inst s =
     (let s1 = iop_rd inst (iop_pc s + 4 * 2) s
      in s1\<lparr>i_bdelay := set_branch_direct 1 (iop_rs_val inst s1) (i_bdelay s1)\<rparr>)"

section \<open>Transfers\<close>

definition IOP_MFC0 :: "instruction \<Rightarrow> iop_state \<Rightarrow> iop_state res" where
  "IOP_MFC0 inst s =
     iop_guarded iop_handle_cop0_usable (\<lambda>s.
       bind_res (iop_cop0_read_uword (inst_rd inst) (i_cop0 s)) (\<lambda>(v, c).
         Inr (iop_rt inst v (s\<lparr>i_cop0 := c\<rparr>)))) s"

definition IOP_MTC0 :: "instruction \<Rightarrow> iop_state \<Rightarrow> iop_state res" where
  "IOP_MTC0 inst s =
     iop_guarded iop_handle_cop0_usable (\<lambda>s.
       bind_res (iop_cop0_write_uword (inst_rd inst) (iop_rt_val inst s) (i_cop0 s)) (\<lambda>c.
         Inr (s\<lparr>i_cop0 := c\<rparr>))) s"

definition IOP_MFHI :: "instruction \<Rightarrow> iop_state \<Rightarrow> iop_state" where
  "IOP_MFHI inst s =
     iop_rd inst (w_read_uword (i_hi s)) s"

definition IOP_MFLO :: "instruction \<Rightarrow> iop_state \<Rightarrow> iop_state" where
  "IOP_MFLO inst s =
     iop_rd inst (w_read_uword (i_lo s)) s"

definition IOP_MTHI :: "instruction \<Rightarrow> iop_state \<Rightarrow> iop_state" where
  "IOP_MTHI inst s =
     s\<lparr>i_hi := w_write_uword (iop_gpr_read (inst_rd inst) s) (i_hi s)\<rparr>"

definition IOP_MTLO :: "instruction \<Rightarrow> iop_state \<Rightarrow> iop_state" where
  "IOP_MTLO inst s =
     s\<lparr>i_lo := w_write_uword (iop_gpr_read (inst_rd inst) s) (i_lo s)\<rparr>"

section \<open>Loads and stores\<close>

definition IOP_LB :: "instruction \<Rightarrow> iop_state \<Rightarrow> iop_state res" where
  "IOP_LB inst s =
     iop_with_address (iop_effective_address inst s) READ (\<lambda>pa. iop_read bus_read_ubyte pa (\<lambda>v s.
       Inr (iop_rt inst (scast v) s))) s"

definition IOP_LBU :: "instruction \<Rightarrow> iop_state \<Rightarrow> iop_state res" where
  "IOP_LBU inst s =
     iop_with_address (iop_effective_address inst s) READ (\<lambda>pa. iop_read bus_read_ubyte pa (\<lambda>v s.
       Inr (iop_rt inst (ucast v) s))) s"

definition IOP_LH :: "instruction \<Rightarrow> iop_state \<Rightarrow> iop_state res" where
  "IOP_LH inst s =
     iop_with_address (iop_effective_address inst s) READ (\<lambda>pa. iop_read bus_read_uhword pa (\<lambda>v s.
       Inr (iop_rt inst (scast v) s))) s"

definition IOP_LHU :: "instruction \<Rightarrow> iop_state \<Rightarrow> iop_state res" where
  "IOP_LHU inst s =
     iop_with_address (iop_effective_address inst s) READ (\<lambda>pa. iop_read bus_read_uhword pa (\<lambda>v s.
       Inr (iop_rt inst (ucast v) s))) s"

definition IOP_LUI :: "instruction \<Rightarrow> iop_state \<Rightarrow> iop_state" where
  "IOP_LUI inst s =
     iop_rt inst (push_bit 16 (iop_s_imm inst)) s"

definition IOP_LW :: "instruction \<Rightarrow> iop_state \<Rightarrow> iop_state res" where
  "IOP_LW inst s =
     iop_with_address (iop_effective_address inst s) READ (\<lambda>pa. iop_read bus_read_uword pa (\<lambda>v s.
       Inr (iop_rt inst (v) s))) s"

definition IOP_LWL :: "instruction \<Rightarrow> iop_state \<Rightarrow> iop_state res" where
  "IOP_LWL inst s =
     (let virtual_address = iop_effective_address inst s;
          shift = word_shift virtual_address;
          word_address = virtual_address AND 0xFFFFFFFC
      in iop_with_address word_address READ (\<lambda>pa. iop_read bus_read_uword pa (\<lambda>v s.
           Inr (iop_rt inst (LWL_merge shift (iop_rt_val inst s) v) s))) s)"

definition IOP_LWR :: "instruction \<Rightarrow> iop_state \<Rightarrow> iop_state res" where
  "IOP_LWR inst s =
     (let virtual_address = iop_effective_address inst s;
          shift = word_shift virtual_address;
          word_address = virtual_address AND 0xFFFFFFFC
      in iop_with_address word_address READ (\<lambda>pa. iop_read bus_read_uword pa (\<lambda>v s.
           Inr (iop_rt inst (LWR_merge shift (iop_rt_val inst s) v) s))) s)"

definition IOP_SB :: "instruction \<Rightarrow> iop_state \<Rightarrow> iop_state res" where
  "IOP_SB inst s =
     iop_with_address (iop_effective_address inst s) WRITE (\<lambda>pa s.
       iop_write (bus_write_ubyte pa (w_read_ubyte 0 (i_gpr s (inst_rt inst)))) s) s"

definition IOP_SH :: "instruction \<Rightarrow> iop_state \<Rightarrow> iop_state res" where
  "IOP_SH inst s =
     iop_with_address (iop_effective_address inst s) WRITE (\<lambda>pa s.
       iop_write (bus_write_uhword pa (w_read_uhword 0 (i_gpr s (inst_rt inst)))) s) s"

definition IOP_SW :: "instruction \<Rightarrow> iop_state \<Rightarrow> iop_state res" where
  "IOP_SW inst s =
     iop_with_address (iop_effective_address inst s) WRITE (\<lambda>pa s.
       iop_write (bus_write_uword pa (iop_rt_val inst s)) s) s"

definition IOP_SWL :: "instruction \<Rightarrow> iop_state \<Rightarrow> iop_state res" where
  "IOP_SWL inst s =
     (let virtual_address = iop_effective_address inst s;
          shift = word_shift virtual_address;
          word_address = virtual_address AND 0xFFFFFFFC
      in iop_with_address word_address READ (\<lambda>pa. iop_read bus_read_uword pa (\<lambda>v.
           iop_with_address word_address WRITE (\<lambda>pa s.
             iop_write (bus_write_uword pa (SWL_merge shift (iop_rt_val inst s) v)) s))) s)"

definition IOP_SWR :: "instruction \<Rightarrow> iop_state \<Rightarrow> iop_state res" where
  "IOP_SWR inst s =
     (let virtual_address = iop_effective_address inst s;
          shift = word_shift virtual_address;
          word_address = virtual_address AND 0xFFFFFFFC
      in iop_with_address word_address READ (\<lambda>pa. iop_read bus_read_uword pa (\<lambda>v.
           iop_with_address word_address WRITE (\<lambda>pa s.
             iop_write (bus_write_uword pa (SWR_merge shift (iop_rt_val inst s) v)) s))) s)"

section \<open>The rest\<close>

text \<open>The TLB instructions throw; the coprocessor-2 instructions and the geometry engine only log.\<close>

definition IOP_BREAK :: "instruction \<Rightarrow> iop_state \<Rightarrow> iop_state res" where
  "IOP_BREAK inst s =
     iop_handle_exception IEX_BREAK s"

definition IOP_SYSCALL :: "instruction \<Rightarrow> iop_state \<Rightarrow> iop_state res" where
  "IOP_SYSCALL inst s =
     iop_handle_exception IEX_SYSTEMCALL s"

definition IOP_TLBP :: "instruction \<Rightarrow> iop_state \<Rightarrow> iop_state res" where
  "IOP_TLBP inst s =
     Inl Runtime_error"

definition IOP_TLBR :: "instruction \<Rightarrow> iop_state \<Rightarrow> iop_state res" where
  "IOP_TLBR inst s =
     Inl Runtime_error"

definition IOP_TLBWI :: "instruction \<Rightarrow> iop_state \<Rightarrow> iop_state res" where
  "IOP_TLBWI inst s =
     Inl Runtime_error"

definition IOP_TLBWR :: "instruction \<Rightarrow> iop_state \<Rightarrow> iop_state res" where
  "IOP_TLBWR inst s =
     Inl Runtime_error"

definition IOP_RFE :: "instruction \<Rightarrow> iop_state \<Rightarrow> iop_state res" where
  "IOP_RFE inst s =
     bind_res (pop_exception_stack (i_cop0 s)) (\<lambda>c.
       Inr (iop_flush (s\<lparr>i_cop0 := icause_clear_all_irq c\<rparr>)))"

definition IOP_LWC2 :: "instruction \<Rightarrow> iop_state \<Rightarrow> iop_state" where
  "IOP_LWC2 inst s =
     s"

definition IOP_SWC2 :: "instruction \<Rightarrow> iop_state \<Rightarrow> iop_state" where
  "IOP_SWC2 inst s =
     s"

definition IOP_CFC0 :: "instruction \<Rightarrow> iop_state \<Rightarrow> iop_state" where
  "IOP_CFC0 inst s =
     s"

definition IOP_CTC0 :: "instruction \<Rightarrow> iop_state \<Rightarrow> iop_state" where
  "IOP_CTC0 inst s =
     s"

definition IOP_RTPS :: "instruction \<Rightarrow> iop_state \<Rightarrow> iop_state" where
  "IOP_RTPS inst s =
     s"

definition IOP_NCLIP :: "instruction \<Rightarrow> iop_state \<Rightarrow> iop_state" where
  "IOP_NCLIP inst s =
     s"

definition IOP_OP :: "instruction \<Rightarrow> iop_state \<Rightarrow> iop_state" where
  "IOP_OP inst s =
     s"

definition IOP_DPCS :: "instruction \<Rightarrow> iop_state \<Rightarrow> iop_state" where
  "IOP_DPCS inst s =
     s"

definition IOP_INTPL :: "instruction \<Rightarrow> iop_state \<Rightarrow> iop_state" where
  "IOP_INTPL inst s =
     s"

definition IOP_MVMVA :: "instruction \<Rightarrow> iop_state \<Rightarrow> iop_state" where
  "IOP_MVMVA inst s =
     s"

definition IOP_NCDS :: "instruction \<Rightarrow> iop_state \<Rightarrow> iop_state" where
  "IOP_NCDS inst s =
     s"

definition IOP_CDP :: "instruction \<Rightarrow> iop_state \<Rightarrow> iop_state" where
  "IOP_CDP inst s =
     s"

definition IOP_NCDT :: "instruction \<Rightarrow> iop_state \<Rightarrow> iop_state" where
  "IOP_NCDT inst s =
     s"

definition IOP_NCCS :: "instruction \<Rightarrow> iop_state \<Rightarrow> iop_state" where
  "IOP_NCCS inst s =
     s"

definition IOP_CC :: "instruction \<Rightarrow> iop_state \<Rightarrow> iop_state" where
  "IOP_CC inst s =
     s"

definition IOP_NCS :: "instruction \<Rightarrow> iop_state \<Rightarrow> iop_state" where
  "IOP_NCS inst s =
     s"

definition IOP_NCT :: "instruction \<Rightarrow> iop_state \<Rightarrow> iop_state" where
  "IOP_NCT inst s =
     s"

definition IOP_SQR :: "instruction \<Rightarrow> iop_state \<Rightarrow> iop_state" where
  "IOP_SQR inst s =
     s"

definition IOP_DCPL :: "instruction \<Rightarrow> iop_state \<Rightarrow> iop_state" where
  "IOP_DCPL inst s =
     s"

definition IOP_DPCT :: "instruction \<Rightarrow> iop_state \<Rightarrow> iop_state" where
  "IOP_DPCT inst s =
     s"

definition IOP_AVSZ3 :: "instruction \<Rightarrow> iop_state \<Rightarrow> iop_state" where
  "IOP_AVSZ3 inst s =
     s"

definition IOP_AVSZ4 :: "instruction \<Rightarrow> iop_state \<Rightarrow> iop_state" where
  "IOP_AVSZ4 inst s =
     s"

definition IOP_RTPT :: "instruction \<Rightarrow> iop_state \<Rightarrow> iop_state" where
  "IOP_RTPT inst s =
     s"

definition IOP_GPF :: "instruction \<Rightarrow> iop_state \<Rightarrow> iop_state" where
  "IOP_GPF inst s =
     s"

definition IOP_GPL :: "instruction \<Rightarrow> iop_state \<Rightarrow> iop_state" where
  "IOP_GPL inst s =
     s"

definition IOP_MFC2 :: "instruction \<Rightarrow> iop_state \<Rightarrow> iop_state" where
  "IOP_MFC2 inst s =
     s"

definition IOP_CFC2 :: "instruction \<Rightarrow> iop_state \<Rightarrow> iop_state" where
  "IOP_CFC2 inst s =
     s"

definition IOP_MTC2 :: "instruction \<Rightarrow> iop_state \<Rightarrow> iop_state" where
  "IOP_MTC2 inst s =
     s"

definition IOP_CTC2 :: "instruction \<Rightarrow> iop_state \<Rightarrow> iop_state" where
  "IOP_CTC2 inst s =
     s"

definition IOP_INSTRUCTION_UNKNOWN :: "instruction \<Rightarrow> iop_state \<Rightarrow> iop_state" where
  "IOP_INSTRUCTION_UNKNOWN inst s =
     s"

lemmas iop_helper_defs = iop_rd_def iop_rt_def iop_branch_itype_def iop_link_def

lemmas iop_total_defs =
  IOP_ADDIU_def IOP_ADDU_def IOP_SUBU_def IOP_DIV_def IOP_DIVU_def IOP_MULT_def IOP_MULTU_def
  IOP_SLL_def IOP_SLLV_def IOP_SRA_def IOP_SRAV_def IOP_SRL_def IOP_SRLV_def IOP_AND_def
  IOP_ANDI_def IOP_OR_def IOP_ORI_def IOP_XOR_def IOP_XORI_def IOP_NOR_def IOP_SLT_def IOP_SLTI_def
  IOP_SLTIU_def IOP_SLTU_def IOP_BEQ_def IOP_BGEZ_def IOP_BGEZAL_def IOP_BGTZ_def IOP_BLEZ_def
  IOP_BLTZ_def IOP_BLTZAL_def IOP_BNE_def IOP_J_def IOP_JR_def IOP_JAL_def IOP_JALR_def IOP_MFHI_def
  IOP_MFLO_def IOP_MTHI_def IOP_MTLO_def IOP_LUI_def IOP_LWC2_def IOP_SWC2_def IOP_CFC0_def
  IOP_CTC0_def IOP_RTPS_def IOP_NCLIP_def IOP_OP_def IOP_DPCS_def IOP_INTPL_def IOP_MVMVA_def
  IOP_NCDS_def IOP_CDP_def IOP_NCDT_def IOP_NCCS_def IOP_CC_def IOP_NCS_def IOP_NCT_def IOP_SQR_def
  IOP_DCPL_def IOP_DPCT_def IOP_AVSZ3_def IOP_AVSZ4_def IOP_RTPT_def IOP_GPF_def IOP_GPL_def
  IOP_MFC2_def IOP_CFC2_def IOP_MTC2_def IOP_CTC2_def IOP_INSTRUCTION_UNKNOWN_def

lemmas iop_partial_defs =
  IOP_ADD_def IOP_ADDI_def IOP_SUB_def IOP_MFC0_def IOP_MTC0_def IOP_LB_def IOP_LBU_def IOP_LH_def
  IOP_LHU_def IOP_LW_def IOP_LWL_def IOP_LWR_def IOP_SB_def IOP_SH_def IOP_SW_def IOP_SWL_def
  IOP_SWR_def IOP_BREAK_def IOP_SYSCALL_def IOP_TLBP_def IOP_TLBR_def IOP_TLBWI_def IOP_TLBWR_def
  IOP_RFE_def

section \<open>Well-formedness\<close>

lemma iop_ok_helpers:
  assumes "iop_ok s"
  shows "iop_ok (iop_rd inst v s)" "iop_ok (iop_rt inst v s)" "iop_ok (iop_branch_itype inst s)"
    "iop_ok (iop_link s)" "iop_ok (iop_flush s)"
  using assms by (auto simp: iop_helper_defs iop_flush_def intro!: iop_ok_upd)

lemma iop_total_ok:
  assumes "iop_ok s"
  shows
    "iop_ok (IOP_ADDIU inst s)"
    "iop_ok (IOP_ADDU inst s)"
    "iop_ok (IOP_SUBU inst s)"
    "iop_ok (IOP_DIV inst s)"
    "iop_ok (IOP_DIVU inst s)"
    "iop_ok (IOP_MULT inst s)"
    "iop_ok (IOP_MULTU inst s)"
    "iop_ok (IOP_SLL inst s)"
    "iop_ok (IOP_SLLV inst s)"
    "iop_ok (IOP_SRA inst s)"
    "iop_ok (IOP_SRAV inst s)"
    "iop_ok (IOP_SRL inst s)"
    "iop_ok (IOP_SRLV inst s)"
    "iop_ok (IOP_AND inst s)"
    "iop_ok (IOP_ANDI inst s)"
    "iop_ok (IOP_OR inst s)"
    "iop_ok (IOP_ORI inst s)"
    "iop_ok (IOP_XOR inst s)"
    "iop_ok (IOP_XORI inst s)"
    "iop_ok (IOP_NOR inst s)"
    "iop_ok (IOP_SLT inst s)"
    "iop_ok (IOP_SLTI inst s)"
    "iop_ok (IOP_SLTIU inst s)"
    "iop_ok (IOP_SLTU inst s)"
    "iop_ok (IOP_BEQ inst s)"
    "iop_ok (IOP_BGEZ inst s)"
    "iop_ok (IOP_BGEZAL inst s)"
    "iop_ok (IOP_BGTZ inst s)"
    "iop_ok (IOP_BLEZ inst s)"
    "iop_ok (IOP_BLTZ inst s)"
    "iop_ok (IOP_BLTZAL inst s)"
    "iop_ok (IOP_BNE inst s)"
    "iop_ok (IOP_J inst s)"
    "iop_ok (IOP_JR inst s)"
    "iop_ok (IOP_JAL inst s)"
    "iop_ok (IOP_JALR inst s)"
    "iop_ok (IOP_MFHI inst s)"
    "iop_ok (IOP_MFLO inst s)"
    "iop_ok (IOP_MTHI inst s)"
    "iop_ok (IOP_MTLO inst s)"
    "iop_ok (IOP_LUI inst s)"
    "iop_ok (IOP_LWC2 inst s)"
    "iop_ok (IOP_SWC2 inst s)"
    "iop_ok (IOP_CFC0 inst s)"
    "iop_ok (IOP_CTC0 inst s)"
    "iop_ok (IOP_RTPS inst s)"
    "iop_ok (IOP_NCLIP inst s)"
    "iop_ok (IOP_OP inst s)"
    "iop_ok (IOP_DPCS inst s)"
    "iop_ok (IOP_INTPL inst s)"
    "iop_ok (IOP_MVMVA inst s)"
    "iop_ok (IOP_NCDS inst s)"
    "iop_ok (IOP_CDP inst s)"
    "iop_ok (IOP_NCDT inst s)"
    "iop_ok (IOP_NCCS inst s)"
    "iop_ok (IOP_CC inst s)"
    "iop_ok (IOP_NCS inst s)"
    "iop_ok (IOP_NCT inst s)"
    "iop_ok (IOP_SQR inst s)"
    "iop_ok (IOP_DCPL inst s)"
    "iop_ok (IOP_DPCT inst s)"
    "iop_ok (IOP_AVSZ3 inst s)"
    "iop_ok (IOP_AVSZ4 inst s)"
    "iop_ok (IOP_RTPT inst s)"
    "iop_ok (IOP_GPF inst s)"
    "iop_ok (IOP_GPL inst s)"
    "iop_ok (IOP_MFC2 inst s)"
    "iop_ok (IOP_CFC2 inst s)"
    "iop_ok (IOP_MTC2 inst s)"
    "iop_ok (IOP_CTC2 inst s)"
    "iop_ok (IOP_INSTRUCTION_UNKNOWN inst s)"
  using assms iop_okD(2-4)[OF assms]
  by (simp_all add: iop_total_defs Let_def iop_ok_helpers iop_ok_upd)

lemma iop_ok_with_address:
  assumes "iop_ok s" and "\<And>pa s. iop_ok s \<Longrightarrow> ok_res iop_ok (body pa s)"
  shows "ok_res iop_ok (iop_with_address va rw body s)"
  unfolding iop_with_address_def
  by (rule ok_res_bind[OF iop_ok_translate_data[OF assms(1)]]) (auto intro: assms(2) split: option.split)

lemma iop_ok_read:
  assumes "iop_ok s" and "\<And>v s. iop_ok s \<Longrightarrow> ok_res iop_ok (k v s)"
  shows "ok_res iop_ok (iop_read rd pa k s)"
  unfolding iop_read_def using assms by (cases "rd pa (i_bus s)") (auto intro!: assms(2) iop_ok_upd(6))

lemma iop_ok_write: "iop_ok s \<Longrightarrow> ok_res iop_ok (iop_write wr s)"
  unfolding iop_write_def by (cases "wr (i_bus s)") (auto intro: iop_ok_upd(6))

lemma iop_cop0_ok:
  assumes "iop_cop0_inv c"
  shows "ok_res (\<lambda>(v, c). iop_cop0_inv c) (iop_cop0_read_uword n c)"
    "ok_res iop_cop0_inv (iop_cop0_write_uword n v c)" "ok_res iop_cop0_inv (pop_exception_stack c)"
  using assms istatus_write_inv[OF assms, of v] istatus_write_inv[OF assms, of "popped_status (i0_raw I0_STATUS c)"]
    iop_cop0_inv_cause(1)[OF assms]
  by (auto simp: iop_cop0_read_uword_def iop_cop0_write_uword_def pop_exception_stack_def Let_def
      iop_cop0_inv_raw_write split_beta)

lemma iop_ok_cop0_upd: "iop_ok s \<Longrightarrow> iop_cop0_inv c \<Longrightarrow> iop_ok (s\<lparr>i_cop0 := c\<rparr>)"
  by (rule iop_ok_upd(4))

lemma iop_transfer_ok:
  assumes "iop_ok s"
  shows "ok_res iop_ok (IOP_MFC0 inst s)" "ok_res iop_ok (IOP_MTC0 inst s)" "ok_res iop_ok (IOP_RFE inst s)"
proof -
  show "ok_res iop_ok (IOP_MFC0 inst s)"
    unfolding IOP_MFC0_def
  proof (rule iop_ok_guarded, rule iop_ok_checks(1)[OF assms])
    fix s assume s: "iop_ok s"
    show "ok_res iop_ok (bind_res (iop_cop0_read_uword (inst_rd inst) (i_cop0 s)) (\<lambda>(v, c).
        Inr (iop_rt inst v (s\<lparr>i_cop0 := c\<rparr>))))"
      by (rule ok_res_bind[OF iop_cop0_ok(1)[OF iop_okD(1)[OF s]]]) (auto intro!: iop_ok_helpers(2) iop_ok_cop0_upd s)
  qed
  show "ok_res iop_ok (IOP_MTC0 inst s)"
    unfolding IOP_MTC0_def
  proof (rule iop_ok_guarded, rule iop_ok_checks(1)[OF assms])
    fix s assume s: "iop_ok s"
    show "ok_res iop_ok (bind_res (iop_cop0_write_uword (inst_rd inst) (iop_rt_val inst s) (i_cop0 s))
        (\<lambda>c. Inr (s\<lparr>i_cop0 := c\<rparr>)))"
      by (rule ok_res_bind[OF iop_cop0_ok(2)[OF iop_okD(1)[OF s]]]) (auto intro: iop_ok_cop0_upd s)
  qed
  have "iop_cop0_inv (icause_clear_all_irq c)" if "iop_cop0_inv c" for c
    using that by (simp add: iop_cop0_inv_def icause_clear_all_irq_def)
  then show "ok_res iop_ok (IOP_RFE inst s)"
    unfolding IOP_RFE_def
    by (intro ok_res_bind[OF iop_cop0_ok(3)[OF iop_okD(1)[OF assms]]])
      (auto intro: iop_ok_helpers iop_ok_cop0_upd assms)
qed

lemma iop_partial_ok:
  assumes "iop_ok s"
  shows
    "ok_res iop_ok (IOP_ADD inst s)"
    "ok_res iop_ok (IOP_ADDI inst s)"
    "ok_res iop_ok (IOP_SUB inst s)"
    "ok_res iop_ok (IOP_LB inst s)"
    "ok_res iop_ok (IOP_LBU inst s)"
    "ok_res iop_ok (IOP_LH inst s)"
    "ok_res iop_ok (IOP_LHU inst s)"
    "ok_res iop_ok (IOP_LW inst s)"
    "ok_res iop_ok (IOP_LWL inst s)"
    "ok_res iop_ok (IOP_LWR inst s)"
    "ok_res iop_ok (IOP_SB inst s)"
    "ok_res iop_ok (IOP_SH inst s)"
    "ok_res iop_ok (IOP_SW inst s)"
    "ok_res iop_ok (IOP_SWL inst s)"
    "ok_res iop_ok (IOP_SWR inst s)"
    "ok_res iop_ok (IOP_BREAK inst s)"
    "ok_res iop_ok (IOP_SYSCALL inst s)"
    "ok_res iop_ok (IOP_TLBP inst s)"
    "ok_res iop_ok (IOP_TLBR inst s)"
    "ok_res iop_ok (IOP_TLBWI inst s)"
    "ok_res iop_ok (IOP_TLBWR inst s)"
  using assms
  by (simp_all add: iop_partial_defs Let_def iop_ok_guarded iop_ok_checks iop_ok_with_address iop_ok_read
      iop_ok_write iop_ok_helpers iop_ok_exception)

section \<open>Exceptions and their return\<close>

text \<open>
  RFE pops the stack an exception pushed: the interrupt enable and the mode are those before
  the exception, the other bits of Status too, except that the third level of the stack keeps a
  copy of the second.  EPC still holds where to go on.
\<close>

lemma exception_then_RFE:
  assumes ok: "iop_ok s" and ex: "ex \<noteq> IEX_RESET"
  shows "\<exists>s'. bind_res (iop_handle_exception ex s) (IOP_RFE inst) = Inr s' \<and> iop_ok s' \<and>
    i0_interrupts_masked (i_cop0 s') = i0_interrupts_masked (i_cop0 s) \<and>
    i0_operating_context (i_cop0 s') = i0_operating_context (i_cop0 s) \<and>
    (\<forall>n. n \<noteq> 4 \<and> n \<noteq> 5 \<longrightarrow>
       bit (i0_raw I0_STATUS (i_cop0 s')) n = bit (i0_raw I0_STATUS (i_cop0 s)) n) \<and>
    i0_raw I0_EPC (i_cop0 s') = iop_error_pc s \<and> i0_irq_lines (i_cop0 s') = replicate 8 False"
proof -
  obtain s1 where s1: "iop_handle_exception ex s = Inr s1" "iop_entry ex s s1" "iop_ok s1"
    using iop_handle_exception_entry[OF ok ex] by blast
  let ?v = "i0_raw I0_STATUS (i_cop0 s)"
  have st: "i0_raw I0_STATUS (i_cop0 s1) = pushed_status ?v" using s1(2) by (simp add: iop_entry_def)
  obtain c where c: "pop_exception_stack (i_cop0 s1) = Inr c" "iop_cop0_inv c"
    "i0_irq_lines c = i0_irq_lines (i_cop0 s1)"
    "\<And>n. i0_raw n c = (if n = I0_STATUS then popped_status (pushed_status ?v) else i0_raw n (i_cop0 s1))"
    using istatus_write_inv[OF iop_okD(1)[OF s1(3)]] unfolding pop_exception_stack_def Let_def st by metis
  have b: "bit (i0_raw I0_STATUS c) n = bit ?v n" if "n \<noteq> 4" "n \<noteq> 5" for n
    using pop_push_status[of ?v n] c(4)[of I0_STATUS] that by (auto dest: bit_imp_le_length)
  let ?s' = "iop_flush (s1\<lparr>i_cop0 := icause_clear_all_irq c\<rparr>)"
  have r: "IOP_RFE inst s1 = Inr ?s'" by (simp add: IOP_RFE_def c(1))
  have raw: "i0_raw n (i_cop0 ?s') = i0_raw n c" for n by (simp add: iop_flush_def icause_clear_all_irq_def)
  have "iop_ok ?s'" using iop_transfer_ok(3)[OF s1(3), of inst] r by simp
  moreover have "i0_interrupts_masked (i_cop0 ?s') = i0_interrupts_masked (i_cop0 s)"
    "i0_operating_context (i_cop0 ?s') = i0_operating_context (i_cop0 s)"
    using iop_cop0_invD(1,2)[OF c(2)] iop_cop0_invD(1,2)[OF iop_okD(1)[OF ok]] b[of 0] b[of 1]
    by (simp_all add: iop_flush_def icause_clear_all_irq_def)
  moreover have "i0_irq_lines (i_cop0 ?s') = replicate 8 False"
    using iop_cop0_invD(3)[OF c(2)] by (simp add: iop_flush_def icause_clear_all_irq_def map_replicate_const)
  moreover have "i0_raw I0_EPC (i_cop0 ?s') = iop_error_pc s"
    using s1(2) raw[of I0_EPC] c(4)[of I0_EPC] by (simp add: iop_entry_def)
  ultimately show ?thesis using s1(1) r raw[of I0_STATUS] b by simp
qed

section \<open>Source slips\<close>

text \<open>\<open>SUB\<close> tests the sum for overflow, so it raises an exception on a difference that fits.\<close>

lemma IOP_SUB_checks_the_sum:
  "IOP_SUB inst s =
    (if VALUE_SWORD_MIN \<le> sint (iop_rs_val inst s) + sint (iop_rt_val inst s) \<and>
        sint (iop_rs_val inst s) + sint (iop_rt_val inst s) \<le> VALUE_SWORD_MAX
     then Inr (iop_rd inst (iop_rs_val inst s - iop_rt_val inst s) s)
     else iop_handle_exception IEX_OVERFLOW s)"
  by (auto simp: IOP_SUB_def Let_def iop_guarded_def iop_no_over_or_underflow_32_check_def
      test_over_or_underflow_32_iff bind_res_def split: sum.split)

text \<open>\<open>MTHI\<close> and \<open>MTLO\<close> read the register of the rd field, which is 0 in their encoding.\<close>

lemma IOP_MTHI_encoded:
  assumes "iop_ok s" and "inst_rd inst = 0"
  shows "w_read_uword (i_hi (IOP_MTHI inst s)) = 0" "w_read_uword (i_lo (IOP_MTLO inst s)) = 0"
  using assms iop_okD[OF assms(1)] by (simp_all add: IOP_MTHI_def IOP_MTLO_def w_read_write)

end
