(* ===== verification/IopStep.thy ===== *)
theory IopStep
  imports IopDecode IopInstructions TickLoop
begin

text \<open>
  The I/O processor as a transition system: the table of implementations
  (\<open>CIopCoreInterpreter.hpp\<close>), one step (\<open>CIopCoreInterpreter::time_step\<close>), the loop of
  \<open>CIopCore::handle_event\<close>, and the invariant of every reachable state.
\<close>

section \<open>The table of implementations\<close>

type_synonym iop_handler = "instruction \<Rightarrow> iop_state \<Rightarrow> iop_state res"

definition iop_total :: "(instruction \<Rightarrow> iop_state \<Rightarrow> iop_state) \<Rightarrow> iop_handler" where
  "iop_total f inst s = Inr (f inst s)"

definition IOP_INSTRUCTION_TABLE_0 :: "(string \<times> iop_handler) list" where
  "IOP_INSTRUCTION_TABLE_0 =
   [(''INSTRUCTION_UNKNOWN'', iop_total IOP_INSTRUCTION_UNKNOWN)]"

definition IOP_INSTRUCTION_TABLE_1 :: "(string \<times> iop_handler) list" where
  "IOP_INSTRUCTION_TABLE_1 =
   [(''J'', iop_total IOP_J), (''JAL'', iop_total IOP_JAL), (''BEQ'', iop_total IOP_BEQ),
    (''BNE'', iop_total IOP_BNE), (''BLEZ'', iop_total IOP_BLEZ),
    (''BGTZ'', iop_total IOP_BGTZ), (''ADDI'', IOP_ADDI), (''ADDIU'', iop_total IOP_ADDIU),
    (''SLTI'', iop_total IOP_SLTI), (''SLTIU'', iop_total IOP_SLTIU),
    (''ANDI'', iop_total IOP_ANDI), (''ORI'', iop_total IOP_ORI),
    (''XORI'', iop_total IOP_XORI), (''LUI'', iop_total IOP_LUI), (''LB'', IOP_LB),
    (''LH'', IOP_LH), (''LWL'', IOP_LWL), (''LW'', IOP_LW), (''LBU'', IOP_LBU),
    (''LHU'', IOP_LHU), (''LWR'', IOP_LWR), (''SB'', IOP_SB), (''SH'', IOP_SH),
    (''SWL'', IOP_SWL), (''SW'', IOP_SW), (''SWR'', IOP_SWR), (''LWC2'', iop_total IOP_LWC2),
    (''SWC2'', iop_total IOP_SWC2)]"

definition IOP_INSTRUCTION_TABLE_29 :: "(string \<times> iop_handler) list" where
  "IOP_INSTRUCTION_TABLE_29 =
   [(''SLL'', iop_total IOP_SLL), (''SRL'', iop_total IOP_SRL), (''SRA'', iop_total IOP_SRA),
    (''SLLV'', iop_total IOP_SLLV), (''SRLV'', iop_total IOP_SRLV),
    (''SRAV'', iop_total IOP_SRAV), (''JR'', iop_total IOP_JR), (''JALR'', iop_total IOP_JALR),
    (''SYSCALL'', IOP_SYSCALL), (''BREAK'', IOP_BREAK), (''MFHI'', iop_total IOP_MFHI),
    (''MTHI'', iop_total IOP_MTHI), (''MFLO'', iop_total IOP_MFLO),
    (''MTLO'', iop_total IOP_MTLO), (''MULT'', iop_total IOP_MULT),
    (''MULTU'', iop_total IOP_MULTU), (''DIV'', iop_total IOP_DIV),
    (''DIVU'', iop_total IOP_DIVU), (''ADD'', IOP_ADD), (''ADDU'', iop_total IOP_ADDU),
    (''SUB'', IOP_SUB), (''SUBU'', iop_total IOP_SUBU), (''AND'', iop_total IOP_AND),
    (''OR'', iop_total IOP_OR), (''XOR'', iop_total IOP_XOR), (''NOR'', iop_total IOP_NOR),
    (''SLT'', iop_total IOP_SLT), (''SLTU'', iop_total IOP_SLTU),
    (''BLTZ'', iop_total IOP_BLTZ), (''BGEZ'', iop_total IOP_BGEZ),
    (''BLTZAL'', iop_total IOP_BLTZAL), (''BGEZAL'', iop_total IOP_BGEZAL),
    (''MFC0'', IOP_MFC0), (''CFC0'', iop_total IOP_CFC0), (''MTC0'', IOP_MTC0),
    (''CTC0'', iop_total IOP_CTC0), (''RFE'', IOP_RFE)]"

definition IOP_INSTRUCTION_TABLE_66 :: "(string \<times> iop_handler) list" where
  "IOP_INSTRUCTION_TABLE_66 =
   [(''RTPS'', iop_total IOP_RTPS), (''NCLIP'', iop_total IOP_NCLIP),
    (''OP'', iop_total IOP_OP), (''DPCS'', iop_total IOP_DPCS),
    (''INTPL'', iop_total IOP_INTPL), (''MVMVA'', iop_total IOP_MVMVA),
    (''NCDS'', iop_total IOP_NCDS), (''CDP'', iop_total IOP_CDP),
    (''NCDT'', iop_total IOP_NCDT), (''NCCS'', iop_total IOP_NCCS), (''CC'', iop_total IOP_CC),
    (''NCS'', iop_total IOP_NCS), (''NCT'', iop_total IOP_NCT), (''SQR'', iop_total IOP_SQR),
    (''DCPL'', iop_total IOP_DCPL), (''DPCT'', iop_total IOP_DPCT),
    (''AVSZ3'', iop_total IOP_AVSZ3), (''AVSZ4'', iop_total IOP_AVSZ4),
    (''RTPT'', iop_total IOP_RTPT), (''GPF'', iop_total IOP_GPF), (''GPL'', iop_total IOP_GPL)]"

definition IOP_INSTRUCTION_TABLE_87 :: "(string \<times> iop_handler) list" where
  "IOP_INSTRUCTION_TABLE_87 =
   [(''MFC2'', iop_total IOP_MFC2), (''CFC2'', iop_total IOP_CFC2),
    (''MTC2'', iop_total IOP_MTC2), (''CTC2'', iop_total IOP_CTC2)]"

definition IOP_INSTRUCTION_TABLE :: "(string \<times> iop_handler) list" where
  "IOP_INSTRUCTION_TABLE =
     IOP_INSTRUCTION_TABLE_0 @ IOP_INSTRUCTION_TABLE_1 @ IOP_INSTRUCTION_TABLE_29 @
     IOP_INSTRUCTION_TABLE_66 @ IOP_INSTRUCTION_TABLE_87"

lemmas iop_handler_segment_defs =
  IOP_INSTRUCTION_TABLE_0_def IOP_INSTRUCTION_TABLE_1_def IOP_INSTRUCTION_TABLE_29_def
  IOP_INSTRUCTION_TABLE_66_def IOP_INSTRUCTION_TABLE_87_def

lemmas iop_handler_defs = IOP_INSTRUCTION_TABLE_def iop_handler_segment_defs

lemma iop_handlers_length: "length IOP_INSTRUCTION_TABLE = 91"
  by (simp add: iop_handler_defs)

section \<open>The two tables agree\<close>

lemma iop_segment_lengths:
  "length IOP_INSTRUCTION_TABLE_0 = 1"
  "length IOP_INSTRUCTION_TABLE_1 = 28"
  "length IOP_INSTRUCTION_TABLE_29 = 37"
  "length IOP_INSTRUCTION_TABLE_66 = 21"
  "length IOP_INSTRUCTION_TABLE_87 = 4"
  "length IOP_CORE_INSTRUCTION_TABLE_29 = 37"
  "length IOP_CORE_INSTRUCTION_TABLE_87 = 4"
  "length IOP_CORE_INSTRUCTION_TABLE_66 = 21"
  "length IOP_CORE_INSTRUCTION_TABLE_1 = 28"
  by (simp_all add: iop_segment_defs iop_handler_segment_defs)

lemma iop_handler_runs:
  "map ((!) IOP_INSTRUCTION_TABLE) [1..<29] = IOP_INSTRUCTION_TABLE_1"
  "map ((!) IOP_INSTRUCTION_TABLE) [29..<66] = IOP_INSTRUCTION_TABLE_29"
  "map ((!) IOP_INSTRUCTION_TABLE) [66..<87] = IOP_INSTRUCTION_TABLE_66"
  "map ((!) IOP_INSTRUCTION_TABLE) [87..<91] = IOP_INSTRUCTION_TABLE_87"
  by (simp_all add: map_nth_run iop_handlers_length IOP_INSTRUCTION_TABLE_def iop_segment_lengths
      del: upt_rec_numeral)

lemma iop_misnamed_segments:
  "misnamed IOP_CORE_INSTRUCTION_TABLE_29 IOP_INSTRUCTION_TABLE_29 = []"
  "misnamed IOP_CORE_INSTRUCTION_TABLE_87 IOP_INSTRUCTION_TABLE_87 = []"
  "misnamed IOP_CORE_INSTRUCTION_TABLE_66 IOP_INSTRUCTION_TABLE_66 = []"
  "misnamed IOP_CORE_INSTRUCTION_TABLE_1 IOP_INSTRUCTION_TABLE_1 = []"
  by (simp_all add: misnamed_def iop_segment_defs iop_handler_segment_defs c_identifier_def)

lemma iop_dispatch_names:
  "misnamed IOP_CORE_INSTRUCTION_TABLE
     (map (\<lambda>e. IOP_INSTRUCTION_TABLE ! impl_index e) IOP_CORE_INSTRUCTION_TABLE) = []"
proof -
  have "map (\<lambda>e. IOP_INSTRUCTION_TABLE ! impl_index e) IOP_CORE_INSTRUCTION_TABLE =
      map ((!) IOP_INSTRUCTION_TABLE) (map impl_index IOP_CORE_INSTRUCTION_TABLE)"
    by simp
  then show ?thesis
    unfolding iop_index_runs map_append iop_handler_runs
    by (simp add: IOP_CORE_INSTRUCTION_TABLE_def misnamed_append iop_segment_lengths iop_misnamed_segments)
qed

section \<open>One step and the loop\<close>

definition iop_execute :: "instruction_info \<Rightarrow> instruction \<Rightarrow> iop_state \<Rightarrow> iop_state res" where
  "iop_execute info inst = snd (IOP_INSTRUCTION_TABLE ! impl_index info) inst"

definition iop_fetch :: "iop_state \<Rightarrow> (instruction \<times> iop_state) res" where
  "iop_fetch s =
     bind_res (iop_translate_address_inst (iop_pc s) s) (\<lambda>(physical_address, s1).
       case physical_address of
         None \<Rightarrow> Inl Bad_optional_access
       | Some pa \<Rightarrow> bind_res (bus_read_uword pa (i_bus s1)) (\<lambda>(raw_inst, b).
           Inr (raw_inst, s1\<lparr>i_bus := b\<rparr>)))"

definition iop_time_step :: "int \<Rightarrow> iop_state \<Rightarrow> (int \<times> iop_state) res" where
  "iop_time_step ticks_available s =
     bind_res (iop_handle_interrupt_check s) (\<lambda>s1.
     bind_res (iop_fetch s1) (\<lambda>(inst, s2).
     bind_res (iop_lookup inst) (\<lambda>info.
     bind_res (iop_execute info inst s2) (\<lambda>s3.
       Inr (3, iop_advance_pc s3)))))"

lemma iop_time_step_cost: "iop_time_step t s = Inr (n, s') \<Longrightarrow> n = 3"
  by (auto simp: iop_time_step_def)

function iop_run :: "int \<Rightarrow> iop_state \<Rightarrow> iop_state res" where
  "iop_run ticks_remaining s =
     (if ticks_remaining > 0 then
        case iop_time_step ticks_remaining s of
          Inl e \<Rightarrow> Inl e
        | Inr (n, s') \<Rightarrow> iop_run (ticks_remaining - n) s'
      else Inr s)"
  by pat_completeness auto

termination
  by (relation "measure (\<lambda>(t, s). nat t)") (auto dest: iop_time_step_cost)

declare iop_run.simps [simp del]

fun iop_handle_event :: "('t \<Rightarrow> int) \<Rightarrow> 't controller_event \<Rightarrow> iop_state \<Rightarrow> iop_state res" where
  "iop_handle_event time_to_ticks (Time_event t) s = iop_run (time_to_ticks t) s"
| "iop_handle_event time_to_ticks event s = Inl Runtime_error"

abbreviation iop_step :: "int \<times> iop_state \<Rightarrow> int \<times> iop_state \<Rightarrow> bool" where
  "iop_step \<equiv> slice_step iop_time_step"

interpretation iop_loop: fixed_tick_loop iop_time_step iop_run 3
  by unfold_locales (auto dest: iop_time_step_cost simp: iop_run.simps)

section \<open>Every step keeps the processor well-formed\<close>

definition iop_keeps :: "iop_handler \<Rightarrow> bool" where
  "iop_keeps h \<longleftrightarrow> (\<forall>inst s. iop_ok s \<longrightarrow> ok_res iop_ok (h inst s))"

lemma iop_keeps_intros:
  "(\<And>inst s. iop_ok s \<Longrightarrow> iop_ok (f inst s)) \<Longrightarrow> iop_keeps (iop_total f)"
  "(\<And>inst s. iop_ok s \<Longrightarrow> ok_res iop_ok (h inst s)) \<Longrightarrow> iop_keeps h"
  by (simp_all add: iop_keeps_def iop_total_def)

lemma iop_keeps_instructions: "list_all (\<lambda>p. iop_keeps (snd p)) IOP_INSTRUCTION_TABLE"
  unfolding iop_handler_defs
  by (simp add: iop_keeps_intros iop_total_ok iop_partial_ok iop_transfer_ok)

lemma iop_execute_ok:
  assumes "iop_ok s" and "iop_lookup inst = Inr info"
  shows "ok_res iop_ok (iop_execute info inst s)"
proof -
  have "impl_index info < length IOP_INSTRUCTION_TABLE"
    using iop_lookup_entry(2)[OF assms(2)] by (simp add: iop_handlers_length)
  then have "IOP_INSTRUCTION_TABLE ! impl_index info \<in> set IOP_INSTRUCTION_TABLE" by simp
  then show ?thesis
    using assms(1) iop_keeps_instructions by (auto simp: list_all_iff iop_keeps_def iop_execute_def)
qed

lemma iop_fetch_ok: "iop_ok s \<Longrightarrow> ok_res (\<lambda>(inst, s'). iop_ok s') (iop_fetch s)"
  unfolding iop_fetch_def
  by (rule ok_res_bind[OF iop_ok_translate_inst], assumption)
    (auto simp: bind_res_def intro: iop_ok_upd split: option.split sum.split)

lemma iop_time_step_ok:
  assumes "iop_ok s"
  shows "ok_res (\<lambda>(n, s'). iop_ok s') (iop_time_step t s)"
  unfolding iop_time_step_def
proof (rule ok_res_bind[OF iop_ok_interrupt_check[OF assms]], rule ok_res_bind[OF iop_fetch_ok], assumption)
  fix r :: "instruction \<times> iop_state" assume "case r of (inst, s') \<Rightarrow> iop_ok s'"
  then obtain inst s2 where r: "r = (inst, s2)" and s2: "iop_ok s2" by auto
  have "ok_res (\<lambda>(n, s'). iop_ok s') (bind_res (iop_execute info inst s2) (\<lambda>s3. Inr (3, iop_advance_pc s3)))"
    if "iop_lookup inst = Inr info" for info
    by (rule ok_res_bind[OF iop_execute_ok[OF s2 that]]) (simp add: iop_ok_advance)
  then show "ok_res (\<lambda>(n, s'). iop_ok s') (case r of (inst, s2) \<Rightarrow>
      bind_res (iop_lookup inst) (\<lambda>info. bind_res (iop_execute info inst s2) (\<lambda>s3. Inr (3, iop_advance_pc s3))))"
    by (cases "iop_lookup inst") (simp_all add: r)
qed

lemma iop_reachable_ok: "iop_step\<^sup>*\<^sup>* (t, s) (t', s') \<Longrightarrow> iop_ok s \<Longrightarrow> iop_ok s'"
  by (erule slice_reachable) (auto intro: iop_time_step_ok)

lemma iop_run_ok: "iop_ok s \<Longrightarrow> ok_res iop_ok (iop_run t s)"
  by (erule iop_loop.run_keeps) (rule iop_time_step_ok)

text \<open>
  The words of BLTZAL and BGEZAL (rt 16 and 17) decode one off: 16 runs BGEZAL and 17 throws.
\<close>

lemma iop_link_branches_misdecoded:
  assumes "inst_opcode inst = 1"
  shows "inst_rt inst = 16 \<Longrightarrow> \<exists>info. iop_lookup inst = Inr info \<and> mnemonic info = ''BGEZAL''"
    "inst_rt inst = 17 \<Longrightarrow> iop_lookup inst = Inl Runtime_error"
proof -
  have "IOP_CORE_INSTRUCTION_TABLE ! 31 = (''BGEZAL'', 60, IOP_CPI_R3000_BRANCH)"
    by (simp add: IOP_CORE_INSTRUCTION_TABLE_def nth_append iop_segment_lengths iop_segment_defs)
  then show "inst_rt inst = 16 \<Longrightarrow> \<exists>info. iop_lookup inst = Inr info \<and> mnemonic info = ''BGEZAL''"
    by (simp add: iop_lookup_def IOP_LOOKUP_def IOP_LOOKUP_REGIMM_def assms)
  show "inst_rt inst = 17 \<Longrightarrow> iop_lookup inst = Inl Runtime_error"
    by (simp add: iop_lookup_def IOP_LOOKUP_def IOP_LOOKUP_REGIMM_def assms)
qed

end
