(* ===== verification/CoreAgreement.thy ===== *)
theory CoreAgreement
  imports EeStep IopStep
begin

text \<open>
  The two MIPS cores against each other.  The R5900 of the EE keeps 32-bit values sign-extended
  in its 64-bit registers; read that way, a word of a shared instruction decodes to the same
  mnemonic on both cores and takes related states to related states.  Left out are the
  instructions that differ: the linking jumps (the EE zero-extends the return address), the
  multiplications (the EE writes a third operand), and those that raise exceptions or access
  memory.
\<close>

section \<open>Sign-extended words\<close>

abbreviation sext :: "uword \<Rightarrow> udword" where
  "sext \<equiv> scast"

lemma bit_sext: "bit (sext w) n \<longleftrightarrow> n < 64 \<and> bit w (if n < 32 then n else 31)"
proof -
  have "min n 31 = (if n < 32 then n else 31)" by auto
  then show ?thesis by (simp add: bit_signed_iff)
qed

lemma sext_eq_iff: "sext a = sext b \<longleftrightarrow> a = b"
proof
  assume e: "sext a = sext b"
  show "a = b"
  proof (rule bit_word_eqI)
    fix n assume "n < LENGTH(32)"
    then show "bit a n = bit b n" using arg_cong[OF e, of "\<lambda>w. bit w n"] by (simp add: bit_sext)
  qed
qed simp

lemma sext_logic:
  "sext a AND sext b = sext (a AND b)" "sext a OR sext b = sext (a OR b)"
  "sext a XOR sext b = sext (a XOR b)" "NOT (sext a) = sext (NOT a)"
  by (rule bit_word_eqI; simp add: bit_sext bit_and_iff bit_or_iff bit_xor_iff bit_not_iff)+

lemma sext_half: "ucast (h :: uhword) = sext (ucast h)"
proof (rule bit_word_eqI)
  fix n
  have "\<not> bit h n" "\<not> bit h 31" if "\<not> n < 32" using that by (auto dest: bit_imp_le_length)
  then show "bit (ucast h :: udword) n = bit (sext (ucast h)) n"
    if "n < LENGTH(64)" using that by (cases "n < 32") (simp_all add: bit_sext bit_unsigned_iff)
qed

lemma mod_int_neg: "- m \<le> x \<Longrightarrow> x < m \<Longrightarrow> x mod m = (if x < 0 then x + m else (x :: int))"
  using mod_pos_pos_trivial[of x m] mod_pos_pos_trivial[of "x + m" m] mod_add_self2[of x m] by auto

lemma sext_less: "sext a < sext b \<longleftrightarrow> a < b"
proof -
  have u64: "uint (sext w) = (if sint w < 0 then sint w + 2 ^ 64 else sint w)" for w
    using sint_uword_range[of w] by (simp add: uint_sint sint_scast_dword take_bit_eq_mod mod_pos_pos_trivial mod_int_neg)
  have u32: "uint w = (if sint w < 0 then sint w + 2 ^ 32 else sint w)" for w :: uword
    using sint_uword_range[of w] by (simp add: uint_sint take_bit_eq_mod mod_int_neg)
  show ?thesis
    using sint_uword_range[of a] sint_uword_range[of b]
    unfolding word_less_def u64 u32 by auto
qed

lemma sext_of_bool: "(if c then 1 else 0) = sext (if c then 1 else 0)"
  by simp

lemma sext_imm: "scast (h :: uhword) = sext (scast h)"
  by (simp add: scast_up_scast is_up)

lemma low_of_sext: "ucast (sext w) = w"
  by (rule bit_word_eqI) (auto simp: bit_sext bit_simps)

lemma low_word: "q_read_uword 0 r = ucast (q_read_udword 0 r)"
  by (rule bit_word_eqI) (auto simp: q_defs reg_read_lane_def get_lane_def bit_simps)

lemma low_byte: "q_read_ubyte 0 r = ucast (q_read_udword 0 r)"
  by (rule bit_word_eqI) (auto simp: q_defs reg_read_lane_def get_lane_def bit_simps)

lemma w_low_byte: "w_read_ubyte 0 r = ucast (w_read_uword r)"
  by (rule bit_word_eqI) (auto simp: w_defs reg_read_lane_def reg_read_def get_lane_def bit_simps)

lemma byte_of_sext: "(ucast (sext w) :: ubyte) = ucast w"
  by (rule bit_word_eqI) (auto simp: bit_sext bit_simps)

section \<open>Related states\<close>

definition cores_agree :: "iop_state \<Rightarrow> ee_state \<Rightarrow> bool" where
  "cores_agree s e \<longleftrightarrow>
     iop_ok s \<and> ee_ok e \<and> (\<forall>n. src_d n 0 e = sext (iop_gpr_read n s)) \<and>
     q_read_udword 0 (e_hi e) = sext (w_read_uword (i_hi s)) \<and>
     q_read_udword 0 (e_lo e) = sext (w_read_uword (i_lo s)) \<and>
     pc_val e = iop_pc s \<and> e_bdelay e = i_bdelay s"

lemma cores_agreeD:
  assumes "cores_agree s e"
  shows "iop_ok s" "ee_ok e" "src_d n 0 e = sext (iop_gpr_read n s)"
    "q_read_udword 0 (e_hi e) = sext (w_read_uword (i_hi s))"
    "q_read_udword 0 (e_lo e) = sext (w_read_uword (i_lo s))" "pc_val e = iop_pc s" "e_bdelay e = i_bdelay s"
  using assms by (auto simp: cores_agree_def)

lemma agree_reads:
  assumes "cores_agree s e"
  shows "src_w n 0 e = iop_gpr_read n s"
    "unat (src_b (inst_rs inst) 0 e AND 0x1F) = iop_shift_amount inst s"
  using cores_agreeD(3)[OF assms]
  by (simp_all add: low_word low_byte low_of_sext byte_of_sext iop_shift_amount_def w_low_byte iop_gpr_read_def)

lemma agree_gpr:
  assumes a: "cores_agree s e" and v: "v' = sext v"
  shows "cores_agree (iop_gpr_write n v s) (dest_d n v' e)"
proof -
  note d = cores_agreeD[OF a]
  have "src_d m 0 (dest_d n v' e) = sext (iop_gpr_read m (iop_gpr_write n v s))" for m
    using dest_zero[OF d(2), of "q_write_udword 0 v'"] dest_get(5)[OF d(2), of n v'] d(3)[of m]
    by (cases "n = 0"; cases "m = n") (simp_all add: iop_gpr_read_write[OF d(1)] dest_other v)
  moreover have "ee_ok (dest_d n v' e)" using d(2) by (rule ee_ok_gpr_upd) simp
  ultimately show ?thesis
    using d iop_ok_gpr_write[OF d(1)] by (simp add: cores_agree_def)
qed

lemma agree_hi:
  assumes a: "cores_agree s e" and v: "v' = sext v"
  shows "cores_agree (s\<lparr>i_hi := w_write_uword v (i_hi s)\<rparr>) (hi_upd (q_write_udword 0 v') e)"
  using a iop_okD(3)[OF cores_agreeD(1)[OF a]] ee_okD(4)[OF cores_agreeD(2)[OF a]]
  by (auto simp: cores_agree_def hi_upd_def w_read_write q_defs reg_read_lane_def v iop_gpr_read_def
      intro!: iop_ok_upd ee_ok_upd)

lemma agree_lo:
  assumes a: "cores_agree s e" and v: "v' = sext v"
  shows "cores_agree (s\<lparr>i_lo := w_write_uword v (i_lo s)\<rparr>) (lo_upd (q_write_udword 0 v') e)"
  using a iop_okD(4)[OF cores_agreeD(1)[OF a]] ee_okD(5)[OF cores_agreeD(2)[OF a]]
  by (auto simp: cores_agree_def lo_upd_def w_read_write q_defs reg_read_lane_def v iop_gpr_read_def
      intro!: iop_ok_upd ee_ok_upd)

lemma agree_bdelay:
  assumes "cores_agree s e"
  shows "cores_agree (s\<lparr>i_bdelay := b\<rparr>) (e\<lparr>e_bdelay := b\<rparr>)"
  using assms by (auto simp: cores_agree_def iop_gpr_read_def intro!: iop_ok_upd ee_ok_upd)

lemma agree_branch:
  assumes a: "cores_agree s e"
  shows "cores_agree (iop_branch_itype inst s) (branch_itype inst e)"
    "cores_agree (IOP_J inst s) (J inst e)" "cores_agree (IOP_JR inst s) (JR inst e)"
  using agree_bdelay[OF a] agree_reads(1)[OF a] cores_agreeD(6,7)[OF a]
  by (simp_all add: iop_branch_itype_def branch_itype_def IOP_J_def J_def IOP_JR_def JR_def
      set_branch_itype_def set_branch_jtype_def w_read_uword_def)

lemma agree_advance:
  assumes a: "cores_agree s e"
  shows "cores_agree (iop_advance_pc s) (ee_advance_pc e)"
  using a iop_okD(2)[OF cores_agreeD(1)[OF a]] ee_okD(3)[OF cores_agreeD(2)[OF a]]
  by (auto simp: cores_agree_def iop_gpr_read_def iop_ok_advance iop_advance_pc_def ee_advance_pc_def
      advance_pc_def Let_def w_offset_def w_read_write split: prod.splits)

section \<open>The shared instructions\<close>

lemma agree_arith:
  assumes a: "cores_agree s e"
  shows
    "cores_agree (IOP_ADDIU inst s) (ADDIU inst e)" "cores_agree (IOP_ADDU inst s) (ADDU inst e)"
    "cores_agree (IOP_SUBU inst s) (SUBU inst e)"
    "cores_agree (IOP_SLL inst s) (SLL inst e)" "cores_agree (IOP_SLLV inst s) (SLLV inst e)"
    "cores_agree (IOP_SRA inst s) (SRA inst e)" "cores_agree (IOP_SRAV inst s) (SRAV inst e)"
    "cores_agree (IOP_SRL inst s) (SRL inst e)" "cores_agree (IOP_SRLV inst s) (SRLV inst e)"
    "cores_agree (IOP_LUI inst s) (LUI inst e)"
  by (simp_all add: iop_total_defs iop_helper_defs agree_gpr[OF a] agree_reads[OF a] Let_def
      ADDIU_def ADDU_def SUBU_def SLL_def SLLV_def SRA_def SRAV_def SRL_def SRLV_def LUI_def)

lemma agree_logic:
  assumes a: "cores_agree s e"
  shows
    "cores_agree (IOP_AND inst s) (AND_inst inst e)" "cores_agree (IOP_ANDI inst s) (ANDI inst e)"
    "cores_agree (IOP_OR inst s) (OR_inst inst e)" "cores_agree (IOP_ORI inst s) (ORI inst e)"
    "cores_agree (IOP_XOR inst s) (XOR_inst inst e)" "cores_agree (IOP_XORI inst s) (XORI inst e)"
    "cores_agree (IOP_NOR inst s) (NOR inst e)"
  unfolding iop_total_defs iop_helper_defs AND_inst_def ANDI_def OR_inst_def ORI_def XOR_inst_def
    XORI_def NOR_def cores_agreeD(3)[OF a]
  by (rule agree_gpr[OF a], simp add: sext_logic sext_half)+

lemma agree_compare:
  assumes a: "cores_agree s e"
  shows
    "cores_agree (IOP_SLT inst s) (SLT inst e)" "cores_agree (IOP_SLTI inst s) (SLTI inst e)"
    "cores_agree (IOP_SLTU inst s) (SLTU inst e)" "cores_agree (IOP_SLTIU inst s) (SLTIU inst e)"
  unfolding iop_total_defs iop_helper_defs SLT_def SLTI_def SLTU_def SLTIU_def cores_agreeD(3)[OF a] Let_def
  by (rule agree_gpr[OF a], simp add: sint_scast_dword sext_less sext_imm)+

lemma agree_control:
  assumes a: "cores_agree s e"
  shows
    "cores_agree (IOP_BEQ inst s) (BEQ inst e)" "cores_agree (IOP_BNE inst s) (BNE inst e)"
    "cores_agree (IOP_BGEZ inst s) (BGEZ inst e)" "cores_agree (IOP_BLTZ inst s) (BLTZ inst e)"
    "cores_agree (IOP_BGTZ inst s) (BGTZ inst e)" "cores_agree (IOP_BLEZ inst s) (BLEZ inst e)"
  using a unfolding IOP_BEQ_def IOP_BNE_def IOP_BGEZ_def IOP_BLTZ_def IOP_BGTZ_def IOP_BLEZ_def
    BEQ_def BNE_def BGEZ_def BLTZ_def BGTZ_def BLEZ_def cores_agreeD(3)[OF a]
  by (simp_all add: sint_scast_dword sext_eq_iff agree_branch)

lemma agree_hilo:
  assumes a: "cores_agree s e"
  shows
    "cores_agree (IOP_MFHI inst s) (MFHI inst e)" "cores_agree (IOP_MFLO inst s) (MFLO inst e)"
    "cores_agree (IOP_MTHI inst s) (MTHI inst e)" "cores_agree (IOP_MTLO inst s) (MTLO inst e)"
    "cores_agree (IOP_DIV inst s) (DIV inst e)" "cores_agree (IOP_DIVU inst s) (DIVU inst e)"
proof -
  note d = cores_agreeD[OF a]
  show "cores_agree (IOP_MFHI inst s) (MFHI inst e)" "cores_agree (IOP_MFLO inst s) (MFLO inst e)"
    "cores_agree (IOP_MTHI inst s) (MTHI inst e)" "cores_agree (IOP_MTLO inst s) (MTLO inst e)"
    by (simp_all add: iop_total_defs iop_helper_defs MFHI_def MFLO_def MTHI_def MTLO_def
        agree_gpr[OF a] agree_hi[OF a] agree_lo[OF a] d)
  have both: "cores_agree (s\<lparr>i_lo := w_write_uword q (i_lo s), i_hi := w_write_uword r (i_hi s)\<rparr>)
      (hi_upd (q_write_udword 0 r') (lo_upd (q_write_udword 0 q') e))"
    if "r' = sext r" "q' = sext q" for q r q' r'
    using agree_hi[OF agree_lo[OF a that(2)] that(1)] by simp
  show "cores_agree (IOP_DIV inst s) (DIV inst e)" "cores_agree (IOP_DIVU inst s) (DIVU inst e)"
    unfolding IOP_DIV_def DIV_def IOP_DIVU_def DIVU_def Let_def agree_reads(1)[OF a]
    by (auto simp: both a)
qed

section \<open>Handlers\<close>

definition lifts_agree :: "iop_handler \<Rightarrow> ee_handler \<Rightarrow> bool" where
  "lifts_agree h g \<longleftrightarrow>
     (\<forall>inst s S. cores_agree s (sys_ee S) \<longrightarrow>
        (\<exists>s' e'. h inst s = Inr s' \<and> g inst S = Inr (S\<lparr>sys_ee := e'\<rparr>) \<and> cores_agree s' e'))"

lemma lifts_agreeI:
  "(\<And>inst s e. cores_agree s e \<Longrightarrow> cores_agree (f inst s) (g inst e)) \<Longrightarrow>
   lifts_agree (iop_total f) (lift_total g)"
  by (auto simp: lifts_agree_def iop_total_def lift_total_def)

lemmas shared_agree =
  lifts_agreeI[OF agree_arith(1)] lifts_agreeI[OF agree_arith(2)] lifts_agreeI[OF agree_arith(3)]
  lifts_agreeI[OF agree_arith(4)] lifts_agreeI[OF agree_arith(5)] lifts_agreeI[OF agree_arith(6)]
  lifts_agreeI[OF agree_arith(7)] lifts_agreeI[OF agree_arith(8)] lifts_agreeI[OF agree_arith(9)]
  lifts_agreeI[OF agree_arith(10)]
  lifts_agreeI[OF agree_logic(1)] lifts_agreeI[OF agree_logic(2)] lifts_agreeI[OF agree_logic(3)]
  lifts_agreeI[OF agree_logic(4)] lifts_agreeI[OF agree_logic(5)] lifts_agreeI[OF agree_logic(6)]
  lifts_agreeI[OF agree_logic(7)]
  lifts_agreeI[OF agree_compare(1)] lifts_agreeI[OF agree_compare(2)] lifts_agreeI[OF agree_compare(3)]
  lifts_agreeI[OF agree_compare(4)]
  lifts_agreeI[OF agree_control(1)] lifts_agreeI[OF agree_control(2)] lifts_agreeI[OF agree_control(3)]
  lifts_agreeI[OF agree_control(4)] lifts_agreeI[OF agree_control(5)] lifts_agreeI[OF agree_control(6)]
  lifts_agreeI[OF agree_hilo(1)] lifts_agreeI[OF agree_hilo(2)] lifts_agreeI[OF agree_hilo(3)]
  lifts_agreeI[OF agree_hilo(4)] lifts_agreeI[OF agree_hilo(5)] lifts_agreeI[OF agree_hilo(6)]
  lifts_agreeI[OF agree_branch(2)] lifts_agreeI[OF agree_branch(3)]

section \<open>Words of shared instructions\<close>

text \<open>The indices of the implementations on either core.\<close>

definition shared_instructions :: "(nat \<times> nat) list" where
  "shared_instructions =
   [(29, 48), (30, 49), (31, 50), (32, 51), (33, 52), (34, 53), (35, 54), (39, 61), (40, 62),
    (41, 63), (42, 64), (45, 70), (46, 71), (48, 73), (50, 75), (51, 76), (52, 77), (53, 78),
    (54, 79), (55, 82), (56, 83), (57, 100), (58, 101), (1, 1), (3, 3), (4, 4), (5, 5), (6, 6),
    (8, 8), (9, 9), (10, 10), (11, 11), (12, 12), (13, 13), (14, 14)]"

lemma segment_impls:
  "map snd IOP_INSTRUCTION_TABLE_1 =
   [iop_total IOP_J, iop_total IOP_JAL, iop_total IOP_BEQ, iop_total IOP_BNE,
    iop_total IOP_BLEZ, iop_total IOP_BGTZ, IOP_ADDI, iop_total IOP_ADDIU, iop_total IOP_SLTI,
    iop_total IOP_SLTIU, iop_total IOP_ANDI, iop_total IOP_ORI, iop_total IOP_XORI,
    iop_total IOP_LUI, IOP_LB, IOP_LH, IOP_LWL, IOP_LW, IOP_LBU, IOP_LHU, IOP_LWR, IOP_SB,
    IOP_SH, IOP_SWL, IOP_SW, IOP_SWR, iop_total IOP_LWC2, iop_total IOP_SWC2]"
  "map snd IOP_INSTRUCTION_TABLE_29 =
   [iop_total IOP_SLL, iop_total IOP_SRL, iop_total IOP_SRA, iop_total IOP_SLLV,
    iop_total IOP_SRLV, iop_total IOP_SRAV, iop_total IOP_JR, iop_total IOP_JALR, IOP_SYSCALL,
    IOP_BREAK, iop_total IOP_MFHI, iop_total IOP_MTHI, iop_total IOP_MFLO, iop_total IOP_MTLO,
    iop_total IOP_MULT, iop_total IOP_MULTU, iop_total IOP_DIV, iop_total IOP_DIVU, IOP_ADD,
    iop_total IOP_ADDU, IOP_SUB, iop_total IOP_SUBU, iop_total IOP_AND, iop_total IOP_OR,
    iop_total IOP_XOR, iop_total IOP_NOR, iop_total IOP_SLT, iop_total IOP_SLTU,
    iop_total IOP_BLTZ, iop_total IOP_BGEZ, iop_total IOP_BLTZAL, iop_total IOP_BGEZAL,
    IOP_MFC0, iop_total IOP_CFC0, IOP_MTC0, iop_total IOP_CTC0, IOP_RFE]"
  "map snd EECORE_INSTRUCTION_TABLE_1 =
   [lift_total J, lift_total JAL, lift_total BEQ, lift_total BNE, lift_total BLEZ,
    lift_total BGTZ, lift_partial ADDI, lift_total ADDIU, lift_total SLTI, lift_total SLTIU,
    lift_total ANDI, lift_total ORI, lift_total XORI, lift_total LUI, lift_total BEQL,
    lift_total BNEL, lift_total BLEZL, lift_total BGTZL, lift_partial DADDI, lift_total DADDIU,
    lift_partial LDL, lift_partial LDR, lift_partial LQ, lift_partial SQ, lift_partial LB,
    lift_partial LH, lift_partial LWL, lift_partial LW, lift_partial LBU, lift_partial LHU,
    lift_partial LWR, lift_partial LWU, lift_partial SB, lift_partial SH, lift_partial SWL,
    lift_partial SW, lift_partial SDL, lift_partial SDR, lift_partial SWR, lift_total CACHE,
    lift_partial LWC1, lift_total PREF, LQC2, lift_partial LD, lift_partial SWC1, LQC2,
    lift_partial SD]"
  "map snd EECORE_INSTRUCTION_TABLE_48 =
   [lift_total SLL, lift_total SRL, lift_total SRA, lift_total SLLV, lift_total SRLV,
    lift_total SRAV, lift_total JR, lift_total JALR, lift_total MOVZ, lift_total MOVN,
    lift_partial SYSCALL, lift_partial BREAK, lift_total SYNC_STYPE, lift_total MFHI,
    lift_total MTHI, lift_total MFLO, lift_total MTLO, lift_total DSLLV, lift_total DSRLV,
    lift_total DSRAV, lift_total MULT, lift_total MULTU, lift_total DIV, lift_total DIVU,
    lift_partial ADD, lift_total ADDU, lift_partial SUB, lift_total SUBU, lift_total AND_inst,
    lift_total OR_inst, lift_total XOR_inst, lift_total NOR, lift_total MFSA, lift_total MTSA,
    lift_total SLT, lift_total SLTU, lift_partial DADD, lift_total DADDU, lift_partial DSUB,
    lift_total DSUBU, lift_partial TGE, lift_partial TGEU, lift_partial TLT, lift_partial TLTU,
    lift_partial TEQ, lift_partial TNE, lift_total DSLL, lift_total DSRL, lift_total DSRA,
    lift_total DSLL32, lift_total DSRL32, lift_total DSRA32, lift_total BLTZ, lift_total BGEZ,
    lift_total BLTZL, lift_total BGEZL, lift_partial TGEI, lift_partial TGEIU,
    lift_partial TLTI, lift_partial TLTIU, lift_partial TEQI, lift_partial TNEI,
    lift_total BLTZAL, lift_total BGEZAL, lift_total BLTZALL, lift_total BGEZALL,
    lift_total MTSAB, lift_total MTSAH]"
  by (simp_all add: iop_handler_segment_defs handler_segment_defs)

lemma impl_at:
  "1 \<le> i \<Longrightarrow> i < 29 \<Longrightarrow> snd (IOP_INSTRUCTION_TABLE ! i) = map snd IOP_INSTRUCTION_TABLE_1 ! (i - 1)"
  "29 \<le> i \<Longrightarrow> i < 66 \<Longrightarrow> snd (IOP_INSTRUCTION_TABLE ! i) = map snd IOP_INSTRUCTION_TABLE_29 ! (i - 29)"
  "1 \<le> i \<Longrightarrow> i < 48 \<Longrightarrow> snd (EECORE_INSTRUCTION_TABLE ! i) = map snd EECORE_INSTRUCTION_TABLE_1 ! (i - 1)"
  "48 \<le> i \<Longrightarrow> i < 116 \<Longrightarrow>
     snd (EECORE_INSTRUCTION_TABLE ! i) = map snd EECORE_INSTRUCTION_TABLE_48 ! (i - 48)"
  by (auto simp: IOP_INSTRUCTION_TABLE_def EECORE_INSTRUCTION_TABLE_def nth_append segment_lengths
      iop_segment_lengths)

lemma impls_agree:
  "list_all (\<lambda>(i, j). lifts_agree (snd (IOP_INSTRUCTION_TABLE ! i)) (snd (EECORE_INSTRUCTION_TABLE ! j)))
     shared_instructions"
  by (simp add: shared_instructions_def impl_at segment_impls shared_agree)

lemma lookups_distinct: "distinct_cases EE_LOOKUP" "distinct_cases IOP_LOOKUP"
  by code_simp+

text \<open>The paths of the I/O processor's decoder to these instructions; each is one of the EE's.\<close>

lemma iop_shared_paths:
  "filter (\<lambda>(p, i). i \<in> set (map fst shared_instructions)) (impl_paths IOP_LOOKUP IOP_CORE_INSTRUCTION_TABLE) =
   [([(Opcode, 0), (Funct, 0)], 29), ([(Opcode, 0), (Funct, 2)], 30),
    ([(Opcode, 0), (Funct, 3)], 31), ([(Opcode, 0), (Funct, 4)], 32),
    ([(Opcode, 0), (Funct, 6)], 33), ([(Opcode, 0), (Funct, 7)], 34),
    ([(Opcode, 0), (Funct, 8)], 35), ([(Opcode, 0), (Funct, 16)], 39),
    ([(Opcode, 0), (Funct, 17)], 40), ([(Opcode, 0), (Funct, 18)], 41),
    ([(Opcode, 0), (Funct, 19)], 42), ([(Opcode, 0), (Funct, 26)], 45),
    ([(Opcode, 0), (Funct, 27)], 46), ([(Opcode, 0), (Funct, 33)], 48),
    ([(Opcode, 0), (Funct, 35)], 50), ([(Opcode, 0), (Funct, 36)], 51),
    ([(Opcode, 0), (Funct, 37)], 52), ([(Opcode, 0), (Funct, 38)], 53),
    ([(Opcode, 0), (Funct, 39)], 54), ([(Opcode, 0), (Funct, 42)], 55),
    ([(Opcode, 0), (Funct, 43)], 56), ([(Opcode, 1), (Rt, 0)], 57),
    ([(Opcode, 1), (Rt, 1)], 58), ([(Opcode, 2)], 1), ([(Opcode, 4)], 3), ([(Opcode, 5)], 4),
    ([(Opcode, 6)], 5), ([(Opcode, 7)], 6), ([(Opcode, 9)], 8), ([(Opcode, 10)], 9),
    ([(Opcode, 11)], 10), ([(Opcode, 12)], 11), ([(Opcode, 13)], 12), ([(Opcode, 14)], 13),
    ([(Opcode, 15)], 14)]"
  unfolding impl_paths_def iop_index_runs by (simp add: iop_lookup_defs shared_instructions_def upt_rec[of "Suc 0" 29] flip: numeral_2_eq_2)

lemma ee_shared_paths:
  "list_all (\<lambda>(p, i). \<exists>k < 387. tree_at EE_LOOKUP p = Some k \<and>
       map_of shared_instructions i = Some (map impl_index EE_CORE_INSTRUCTION_TABLE ! k))
     (filter (\<lambda>(p, i). i \<in> set (map fst shared_instructions)) (impl_paths IOP_LOOKUP IOP_CORE_INSTRUCTION_TABLE))"
  unfolding iop_shared_paths table_index_runs
  by (simp add: lookup_defs shared_instructions_def nth_append del: upt_rec_numeral)

definition shared_word :: "instruction \<Rightarrow> bool" where
  "shared_word inst \<longleftrightarrow> (case iop_lookup inst of
     Inl e \<Rightarrow> False | Inr info \<Rightarrow> impl_index info \<in> fst ` set shared_instructions)"

lemma shared_functional: "distinct (map fst shared_instructions)"
  by code_simp

lemma shared_word_decodes:
  assumes "shared_word inst"
  obtains info info' where "iop_lookup inst = Inr info" "ee_lookup inst = Inr info'"
    "(impl_index info, impl_index info') \<in> set shared_instructions"
proof -
  obtain info j where info: "iop_lookup inst = Inr info" and j: "(impl_index info, j) \<in> set shared_instructions"
    using assms by (auto simp: shared_word_def split: sum.splits)
  obtain k where k: "decode IOP_LOOKUP inst = Inr k" and i: "info = IOP_CORE_INSTRUCTION_TABLE ! k"
    using info by (auto simp: iop_lookup_def)
  have "k < length IOP_CORE_INSTRUCTION_TABLE"
    using decode_entry[OF k] by (simp add: iop_entries_lookup iop_table_length)
  then obtain p where p: "(p, impl_index info) \<in> set (impl_paths IOP_LOOKUP IOP_CORE_INSTRUCTION_TABLE)"
    "follows inst p"
    using decode_impl[OF lookups_distinct(2), of IOP_CORE_INSTRUCTION_TABLE inst "impl_index info"] k i
    by (auto simp: iop_entries_lookup iop_table_length)
  have "map_of shared_instructions (impl_index info) = Some j"
    using map_of_is_SomeI[OF shared_functional j] .
  then obtain k' where k': "k' < 387" "tree_at EE_LOOKUP p = Some k'"
    "map impl_index EE_CORE_INSTRUCTION_TABLE ! k' = j"
    using ee_shared_paths p(1) j by (force simp: list_all_iff)
  then have "decode EE_LOOKUP inst = Inr k'" "impl_index (EE_CORE_INSTRUCTION_TABLE ! k') = j"
    using decode_at p(2) by (simp_all add: table_length)
  then show ?thesis using that[OF info] j by (simp add: ee_lookup_def)
qed

text \<open>One word on both cores, then the advance of the program counter.\<close>

lemma shared_word_agrees:
  assumes "shared_word inst" and "cores_agree s (sys_ee S)"
  shows "\<exists>info info' s' e'. iop_lookup inst = Inr info \<and> ee_lookup inst = Inr info' \<and>
    iop_execute info inst s = Inr s' \<and> execute info' inst S = Inr (S\<lparr>sys_ee := e'\<rparr>) \<and>
    cores_agree (iop_advance_pc s') (ee_advance_pc e')"
proof -
  obtain info info' where i: "iop_lookup inst = Inr info" "ee_lookup inst = Inr info'"
    and j: "(impl_index info, impl_index info') \<in> set shared_instructions"
    using shared_word_decodes[OF assms(1)] .
  have "lifts_agree (iop_execute info) (execute info')"
    using impls_agree j by (auto simp: list_all_iff iop_execute_def[abs_def] execute_def[abs_def])
  then show ?thesis
    using assms(2) i unfolding lifts_agree_def by (meson agree_advance)
qed

section \<open>Sequences of words\<close>

fun iop_exec :: "instruction list \<Rightarrow> iop_state \<Rightarrow> iop_state res" where
  "iop_exec [] s = Inr s"
| "iop_exec (w # ws) s =
     bind_res (iop_lookup w) (\<lambda>info. bind_res (iop_execute info w s) (\<lambda>s'. iop_exec ws (iop_advance_pc s')))"

fun ee_exec :: "instruction list \<Rightarrow> ee_sys \<Rightarrow> ee_sys res" where
  "ee_exec [] S = Inr S"
| "ee_exec (w # ws) S =
     bind_res (ee_lookup w) (\<lambda>info. bind_res (execute info w S) (\<lambda>S'.
       ee_exec ws (S'\<lparr>sys_ee := ee_advance_pc (sys_ee S')\<rparr>)))"

lemma sequences_agree:
  assumes "list_all shared_word ws" and "cores_agree s (sys_ee S)"
  shows "\<exists>s' e'. iop_exec ws s = Inr s' \<and> ee_exec ws S = Inr (S\<lparr>sys_ee := e'\<rparr>) \<and> cores_agree s' e'"
  using assms
proof (induction ws arbitrary: s S)
  case Nil
  have "S = S\<lparr>sys_ee := sys_ee S\<rparr>" by simp
  then show ?case using Nil.prems(2) by (intro exI[of _ s] exI[of _ "sys_ee S"]) simp
next
  case (Cons w ws)
  obtain info info' s1 e1 where w: "iop_lookup w = Inr info" "ee_lookup w = Inr info'"
    "iop_execute info w s = Inr s1" "execute info' w S = Inr (S\<lparr>sys_ee := e1\<rparr>)"
    "cores_agree (iop_advance_pc s1) (ee_advance_pc e1)"
    using shared_word_agrees[of w s S] Cons.prems by auto
  let ?S = "S\<lparr>sys_ee := ee_advance_pc e1\<rparr>"
  obtain s' e' where "iop_exec ws (iop_advance_pc s1) = Inr s'" "ee_exec ws ?S = Inr (?S\<lparr>sys_ee := e'\<rparr>)"
    "cores_agree s' e'"
    using Cons.IH[of "iop_advance_pc s1" ?S] Cons.prems(1) w(5) by auto
  then show ?case using w by (intro exI[of _ s'] exI[of _ e']) simp
qed

text \<open>The two cores agree on reset.\<close>

lemma reset_agrees: "tlb_ok t \<Longrightarrow> cores_agree (iop_state_new b) (ee_state_new t b')"
  by (simp add: cores_agree_def iop_ok_new ee_ok_new)
    (simp add: iop_state_new_def ee_state_new_def iop_gpr_read_def IopCoreR3000_gpr_new_def
      EeCoreR5900_gpr_new_def SizedRegister_new_def w_defs q_defs reg_read_def reg_read_lane_def get_lane_def)

text \<open>The return addresses the cores store differ in the upper half of the address space.\<close>

lemma link_agrees:
  assumes a: "cores_agree s e"
  shows "src_d 31 0 (link 31 e) = sext (iop_gpr_read 31 (iop_link s)) \<longleftrightarrow> iop_pc s + 8 < 2 ^ 31"
proof -
  note d = cores_agreeD[OF a]
  have "src_d 31 0 (link 31 e) = ucast (iop_pc s + 8)" "iop_gpr_read 31 (iop_link s) = iop_pc s + 8"
    using d(6) by (simp_all add: link_def dest_get(5)[OF d(2)] iop_link_def iop_gpr_read_write[OF d(1)])
  moreover have "ucast w = sext w \<longleftrightarrow> \<not> bit w 31" for w :: uword
  proof
    assume "ucast w = sext w"
    from arg_cong[OF this, of "\<lambda>v. bit v 32"] show "\<not> bit w 31"
      using bit_imp_le_length[of w 32] by (auto simp: bit_sext bit_unsigned_iff)
  next
    assume w: "\<not> bit w 31"
    show "ucast w = sext w"
      by (rule bit_word_eqI) (auto simp: bit_sext bit_unsigned_iff w dest: bit_imp_le_length)
  qed
  moreover have "\<not> bit w 31 \<longleftrightarrow> w < 2 ^ 31" for w :: uword
    using sint_uword_range[of w]
    by (simp flip: sint_neg_iff_bit add: word_less_def uint_sint take_bit_eq_mod mod_int_neg)
  ultimately show ?thesis by simp
qed

end
