(* ===== verification/Intc.thy ===== *)
theory Intc
  imports TickLoop EeCore IopCore
begin

text \<open>
  The two interrupt controllers: their status and mask registers with the behaviour of writes
  from each bus, and the controllers, which drive line 2 of the core they belong to.

  The registers of the peripherals are constructed without the read-only flag, so their state
  is the word they hold.
\<close>

datatype BusContext = Ee_context | Iop_context | Vu_context

section \<open>The EE interrupt controller\<close>

record ee_intc =
  intc_mask :: uword
  intc_stat :: uword

definition REeIntc_new :: ee_intc where
  "REeIntc_new = \<lparr>intc_mask = 0, intc_stat = 0\<rparr>"

definition EE_MNEMONICS :: "string list" where
  "EE_MNEMONICS =
    [''GS'', ''SBUS'', ''VBON'', ''VBOF'', ''VIF0'', ''VIF1'', ''VU0'', ''VIF1'', ''IPU'',
     ''TIM0'', ''TIM1'', ''TIM2'', ''TIM3'', ''SFIFO'', ''VU0WD'']"

definition EE_IRQ_KEYS :: "bitfield list" where
  "EE_IRQ_KEYS =
    [BF 0 1, BF 1 1, BF 2 1, BF 3 1, BF 4 1, BF 5 1, BF 6 1, BF 7 1, BF 8 1, BF 9 1, BF 10 1,
     BF 11 1, BF 12 1, BF 13 1, BF 14 1]"

definition EE_VIF_KEYS :: "bitfield list" where
  "EE_VIF_KEYS = [BF 4 1, BF 5 1]"

definition EE_VU_KEYS :: "bitfield list" where
  "EE_VU_KEYS = [BF 6 1, BF 7 1]"

definition EE_TIM_KEYS :: "bitfield list" where
  "EE_TIM_KEYS = [BF 9 1, BF 10 1, BF 11 1, BF 12 1]"

definition ee_stat_bus_write :: "BusContext \<Rightarrow> uword \<Rightarrow> ee_intc \<Rightarrow> ee_intc" where
  "ee_stat_bus_write context v r =
     r\<lparr>intc_stat := (if context = Ee_context then intc_stat r AND NOT v else v)\<rparr>"

definition ee_mask_bus_write :: "BusContext \<Rightarrow> uword \<Rightarrow> ee_intc \<Rightarrow> ee_intc" where
  "ee_mask_bus_write context v r =
     r\<lparr>intc_mask := (if context = Ee_context then intc_mask r XOR v else v)\<rparr>"

definition ee_stat_insert_field :: "bitfield \<Rightarrow> uword \<Rightarrow> ee_intc \<Rightarrow> ee_intc" where
  "ee_stat_insert_field f v r = r\<lparr>intc_stat := insert_into f (intc_stat r) v\<rparr>"

definition ee_intc_time_step :: "int \<Rightarrow> ee_intc \<times> ee_cop0 \<Rightarrow> (int \<times> ee_intc \<times> ee_cop0) res" where
  "ee_intc_time_step ticks_available s =
     (case s of (r, c) \<Rightarrow>
        bind_res (if intc_stat r AND intc_mask r \<noteq> 0 then cause_set_irq_line 2 c
                  else cause_clear_irq_line 2 c)
          (\<lambda>c'. Inr (1, r, c')))"

lemma ee_intc_step_cost: "ee_intc_time_step t s = Inr (n, s') \<Longrightarrow> n = 1"
  by (auto simp: ee_intc_time_step_def split: prod.splits)

function ee_intc_run :: "int \<Rightarrow> ee_intc \<times> ee_cop0 \<Rightarrow> (ee_intc \<times> ee_cop0) res" where
  "ee_intc_run ticks_remaining s =
     (if ticks_remaining > 0 then
        case ee_intc_time_step ticks_remaining s of
          Inl e \<Rightarrow> Inl e
        | Inr (n, s') \<Rightarrow> ee_intc_run (ticks_remaining - n) s'
      else Inr s)"
  by pat_completeness auto

termination
  by (relation "measure (\<lambda>(t, s). nat t)") (auto dest: ee_intc_step_cost)

declare ee_intc_run.simps [simp del]

fun ee_intc_handle_event ::
    "('t \<Rightarrow> int) \<Rightarrow> 't controller_event \<Rightarrow> ee_intc \<times> ee_cop0 \<Rightarrow> (ee_intc \<times> ee_cop0) res" where
  "ee_intc_handle_event time_to_ticks (Time_event t) s = ee_intc_run (time_to_ticks t) s"
| "ee_intc_handle_event time_to_ticks event s = Inl Runtime_error"

interpretation ee_intc_loop: fixed_tick_loop ee_intc_time_step ee_intc_run 1
  by unfold_locales (auto dest: ee_intc_step_cost simp: ee_intc_run.simps)

section \<open>The IOP interrupt controller\<close>

record iop_intc =
  iop_intc_ctrl :: uword
  iop_intc_mask :: uword
  iop_intc_stat :: uword

definition RIopIntc_new :: iop_intc where
  "RIopIntc_new = \<lparr>iop_intc_ctrl = 0, iop_intc_mask = 0, iop_intc_stat = 0\<rparr>"

definition IOP_MNEMONICS :: "string list" where
  "IOP_MNEMONICS =
    [''VBLANK'', ''GPU'', ''CDROM'', ''DMAC'', ''TMR0'', ''TMR1'', ''TMR2'', ''SIO0'', ''SIO1'',
     ''SPU'', ''PIO'', ''EVBLANK'', ''DVD'', ''PCMCIA'', ''TMR3'', ''TMR4'', ''TMR5'', ''SIO2'',
     ''HTR0'', ''HTR1'', ''HTR2'', ''HTR3'', ''USB'', ''EXTR'', ''FWRE'', ''FDMA'']"

definition IOP_IRQ_KEYS :: "bitfield list" where
  "IOP_IRQ_KEYS =
    [BF 0 1, BF 1 1, BF 2 1, BF 3 1, BF 4 1, BF 5 1, BF 6 1, BF 7 1, BF 8 1, BF 9 1, BF 10 1,
     BF 11 1, BF 12 1, BF 13 1, BF 14 1, BF 15 1, BF 16 1, BF 17 1, BF 18 1, BF 19 1, BF 20 1,
     BF 21 1, BF 22 1, BF 23 1, BF 24 1, BF 25 1]"

definition IOP_TMR_KEYS :: "bitfield list" where
  "IOP_TMR_KEYS = [BF 4 1, BF 5 1, BF 6 1, BF 14 1, BF 15 1, BF 16 1]"

definition iop_ctrl_bus_read :: "BusContext \<Rightarrow> iop_intc \<Rightarrow> uword \<times> iop_intc" where
  "iop_ctrl_bus_read context r =
     (iop_intc_ctrl r, if context = Iop_context then r\<lparr>iop_intc_ctrl := 0\<rparr> else r)"

definition iop_stat_bus_write :: "BusContext \<Rightarrow> uword \<Rightarrow> iop_intc \<Rightarrow> iop_intc" where
  "iop_stat_bus_write context v r =
     r\<lparr>iop_intc_stat := (if context = Iop_context then iop_intc_stat r AND v else v)\<rparr>"

definition iop_stat_insert_field :: "bitfield \<Rightarrow> uword \<Rightarrow> iop_intc \<Rightarrow> iop_intc" where
  "iop_stat_insert_field f v r = r\<lparr>iop_intc_stat := insert_into f (iop_intc_stat r) v\<rparr>"

definition iop_intc_time_step :: "int \<Rightarrow> iop_intc \<times> iop_cop0 \<Rightarrow> (int \<times> iop_intc \<times> iop_cop0) res" where
  "iop_intc_time_step ticks_available s =
     (case s of (r, c) \<Rightarrow>
        let interrupt = iop_intc_ctrl r > 0 \<and> iop_intc_stat r AND iop_intc_mask r \<noteq> 0
        in bind_res (if interrupt then icause_set_irq_line 2 c else icause_clear_irq_line 2 c)
             (\<lambda>c'. Inr (1, r, c')))"

lemma iop_intc_step_cost: "iop_intc_time_step t s = Inr (n, s') \<Longrightarrow> n = 1"
  by (auto simp: iop_intc_time_step_def Let_def split: prod.splits)

function iop_intc_run :: "int \<Rightarrow> iop_intc \<times> iop_cop0 \<Rightarrow> (iop_intc \<times> iop_cop0) res" where
  "iop_intc_run ticks_remaining s =
     (if ticks_remaining > 0 then
        case iop_intc_time_step ticks_remaining s of
          Inl e \<Rightarrow> Inl e
        | Inr (n, s') \<Rightarrow> iop_intc_run (ticks_remaining - n) s'
      else Inr s)"
  by pat_completeness auto

termination
  by (relation "measure (\<lambda>(t, s). nat t)") (auto dest: iop_intc_step_cost)

declare iop_intc_run.simps [simp del]

fun iop_intc_handle_event ::
    "('t \<Rightarrow> int) \<Rightarrow> 't controller_event \<Rightarrow> iop_intc \<times> iop_cop0 \<Rightarrow> (iop_intc \<times> iop_cop0) res" where
  "iop_intc_handle_event time_to_ticks (Time_event t) s = iop_intc_run (time_to_ticks t) s"
| "iop_intc_handle_event time_to_ticks event s = Inl Runtime_error"

interpretation iop_intc_loop: fixed_tick_loop iop_intc_time_step iop_intc_run 1
  by unfold_locales (auto dest: iop_intc_step_cost simp: iop_intc_run.simps)

section \<open>What a write of the status and mask registers does\<close>

text \<open>The keys of a controller are the single bits of its status register, in the order of the names.\<close>

lemma irq_keys:
  "EE_IRQ_KEYS = map (\<lambda>n. BF n 1) [0..<15]" "length EE_MNEMONICS = 15"
  "IOP_IRQ_KEYS = map (\<lambda>n. BF n 1) [0..<26]" "length IOP_MNEMONICS = 26"
  by (simp_all add: EE_IRQ_KEYS_def IOP_IRQ_KEYS_def EE_MNEMONICS_def IOP_MNEMONICS_def upt_rec)

text \<open>Two lines of the EE controller share a name: line 7 is VU1.\<close>

lemma ee_mnemonics_repeat: "EE_MNEMONICS ! 7 = EE_MNEMONICS ! 5" "distinct IOP_MNEMONICS"
  by (simp_all add: EE_MNEMONICS_def IOP_MNEMONICS_def)

text \<open>
  The EE acknowledges by writing ones, the IOP by writing zeros; the mask of the EE is toggled,
  so writing it twice restores it.
\<close>

lemma stat_write_bits:
  "bit (intc_stat (ee_stat_bus_write Ee_context v r)) n \<longleftrightarrow> bit (intc_stat r) n \<and> \<not> bit v n"
  "bit (iop_intc_stat (iop_stat_bus_write Iop_context v q)) n \<longleftrightarrow> bit (iop_intc_stat q) n \<and> bit v n"
  by (auto simp: ee_stat_bus_write_def iop_stat_bus_write_def bit_and_iff bit_not_iff_eq
      dest: bit_imp_le_length)

lemma mask_write_twice [simp]: "ee_mask_bus_write Ee_context v (ee_mask_bus_write Ee_context v r) = r"
  by (simp add: ee_mask_bus_write_def xor.assoc)

lemma bit_raise:
  "bit (insert_into (BF k (Suc 0)) (s :: uword) 1) n \<longleftrightarrow> n < 32 \<and> (n = k \<or> bit s n)"
  by (auto simp: bit_insert_into bit_1_iff)

text \<open>Acknowledging the line a controller raised gives back the register before, if it was low.\<close>

lemma raise_acknowledge:
  assumes "\<not> bit (intc_stat r) k" and "k < 32"
  shows "ee_stat_bus_write Ee_context (2 ^ k) (ee_stat_insert_field (BF k 1) 1 r) = r"
proof -
  have "insert_into (BF k 1) (intc_stat r) 1 AND NOT (2 ^ k) = intc_stat r"
    using assms by (intro bit_word_eqI) (auto simp: bit_raise bit_and_iff bit_not_iff_eq bit_exp_iff)
  then show ?thesis by (simp add: ee_stat_bus_write_def ee_stat_insert_field_def)
qed

section \<open>The line of the core follows the registers\<close>

definition ee_intc_pending :: "ee_intc \<Rightarrow> bool" where
  "ee_intc_pending r \<longleftrightarrow> (\<exists>k<32. bit (intc_stat r) k \<and> bit (intc_mask r) k)"

definition iop_intc_pending :: "iop_intc \<Rightarrow> bool" where
  "iop_intc_pending r \<longleftrightarrow>
     iop_intc_ctrl r \<noteq> 0 \<and> (\<exists>k<32. bit (iop_intc_stat r) k \<and> bit (iop_intc_mask r) k)"

lemma ee_intc_pending_iff: "intc_stat r AND intc_mask r \<noteq> 0 \<longleftrightarrow> ee_intc_pending r"
  by (auto simp: ee_intc_pending_def bit_eq_iff[of "_ AND _" 0] bit_and_iff dest: bit_imp_le_length)

lemma iop_intc_pending_iff:
  "iop_intc_ctrl r > 0 \<and> iop_intc_stat r AND iop_intc_mask r \<noteq> 0 \<longleftrightarrow> iop_intc_pending r"
  by (auto simp: iop_intc_pending_def bit_eq_iff[of "_ AND _" 0] bit_and_iff word_gt_0
      dest: bit_imp_le_length)

lemma ee_intc_step_spec:
  "length (c0_irq_lines c) = 8 \<Longrightarrow> ee_intc_time_step t (r, c) =
    Inr (1, r, c\<lparr>c0_irq_lines := (c0_irq_lines c)[2 := ee_intc_pending r]\<rparr>)"
  by (simp add: ee_intc_time_step_def cause_set_irq_line_def cause_clear_irq_line_def
      ee_intc_pending_iff)

lemma iop_intc_step_spec:
  "length (i0_irq_lines c) = 8 \<Longrightarrow> iop_intc_time_step t (r, c) =
    Inr (1, r, c\<lparr>i0_irq_lines := (i0_irq_lines c)[2 := iop_intc_pending r]\<rparr>)"
  by (simp add: iop_intc_time_step_def icause_set_irq_line_def icause_clear_irq_line_def
      iop_intc_pending_iff)

text \<open>A time slice does what one step does: the registers do not change meanwhile.\<close>

lemma ee_intc_run_spec:
  assumes "0 < t" and "length (c0_irq_lines c) = 8"
  shows "ee_intc_run t (r, c) = Inr (r, c\<lparr>c0_irq_lines := (c0_irq_lines c)[2 := ee_intc_pending r]\<rparr>)"
  using ee_intc_loop.run_idempotent[OF assms(1), of "\<lambda>s. length (c0_irq_lines (snd s)) = 8" "(r, c)"
      "\<lambda>(r, c). (r, c\<lparr>c0_irq_lines := (c0_irq_lines c)[2 := ee_intc_pending r]\<rparr>)"] assms(2)
  by (auto simp: ee_intc_step_spec)

lemma iop_intc_run_spec:
  assumes "0 < t" and "length (i0_irq_lines c) = 8"
  shows "iop_intc_run t (r, c) = Inr (r, c\<lparr>i0_irq_lines := (i0_irq_lines c)[2 := iop_intc_pending r]\<rparr>)"
  using iop_intc_loop.run_idempotent[OF assms(1), of "\<lambda>s. length (i0_irq_lines (snd s)) = 8" "(r, c)"
      "\<lambda>(r, c). (r, c\<lparr>i0_irq_lines := (i0_irq_lines c)[2 := iop_intc_pending r]\<rparr>)"] assms(2)
  by (auto simp: iop_intc_step_spec)

section \<open>From a status bit to the handler\<close>

text \<open>The interrupt check of the EE core, the counterpart of the one of the IOP.\<close>

definition ee_interrupt_pending :: "ee_state \<Rightarrow> bool" where
  "ee_interrupt_pending s \<longleftrightarrow>
     \<not> status_masked (c0_raw C0_STATUS (e_cop0 s)) \<and>
     (\<exists>k<8. c0_irq_lines (e_cop0 s) ! k \<and> bit (c0_raw C0_STATUS (e_cop0 s)) (8 + k))"

lemma level1_entry_sync:
  assumes "level1_entry ex (s\<lparr>e_cop0 := c\<rparr>) s'" and "c0_raw C0_STATUS c = c0_raw C0_STATUS (e_cop0 s)"
  shows "level1_entry ex s s'"
  using assms by (simp add: level1_entry_def error_pc_def)

lemma ee_interrupt_check_spec:
  assumes ok: "ee_ok s"
  shows "\<exists>s'. handle_interrupt_check s = Inr s' \<and> ee_ok s' \<and>
    (if ee_interrupt_pending s then level1_entry EX_INTERRUPT s s'
     else \<exists>c. s' = s\<lparr>e_cop0 := c\<rparr> \<and> (\<forall>n. n \<noteq> C0_CAUSE \<longrightarrow> c0_raw n c = c0_raw n (e_cop0 s)))"
proof (cases "status_masked (c0_raw C0_STATUS (e_cop0 s))")
  case True
  then have "handle_interrupt_check s = Inr s"
    using ee_okD(1)[OF ok] by (simp add: handle_interrupt_check_def cop0_inv_def)
  moreover have "\<exists>c. s = s\<lparr>e_cop0 := c\<rparr> \<and> (\<forall>n. n \<noteq> C0_CAUSE \<longrightarrow> c0_raw n c = c0_raw n (e_cop0 s))"
    by (rule exI[of _ "e_cop0 s"]) simp
  ultimately show ?thesis using ok True by (simp add: ee_interrupt_pending_def)
next
  case False
  note inv = ee_okD(1)[OF ok]
  define c where "c = snd (cause_read_uword (e_cop0 s))"
  define v where "v = fst (cause_read_uword (e_cop0 s))"
  let ?s1 = "s\<lparr>e_cop0 := c\<rparr>"
  have x: "cause_extract_field CAUSE_IP (e_cop0 s) = (extract_from CAUSE_IP v, c)"
    by (simp add: cause_extract_field_def c_def v_def split_beta)
  have other: "c0_raw n c = c0_raw n (e_cop0 s)" if "n \<noteq> C0_CAUSE" for n
    using that by (simp add: c_def)
  have ok1: "ee_ok ?s1" using ee_ok_upd(8)[OF ok] cop0_inv_cause_read[OF inv] by (simp add: c_def)
  have b: "bit (extract_from CAUSE_IP v AND status_field STATUS_IM c) k \<longleftrightarrow>
      k < 8 \<and> c0_irq_lines (e_cop0 s) ! k \<and> bit (c0_raw C0_STATUS (e_cop0 s)) (8 + k)" for k
    by (auto simp: status_field_def bit_extract_from bit_and_iff v_def cause_read_bits[OF inv] other word_defs)
  have p: "extract_from CAUSE_IP v AND status_field STATUS_IM c \<noteq> 0 \<longleftrightarrow> ee_interrupt_pending s"
    using False b unfolding ee_interrupt_pending_def by (metis bit_0_eq bot_apply bot_bool_def bit_word_eqI)
  have h: "handle_interrupt_check s =
      (if ee_interrupt_pending s then handle_exception EX_INTERRUPT ?s1 else Inr ?s1)"
    using False inv by (simp add: handle_interrupt_check_def x p cop0_inv_def)
  have "status_context (c0_raw C0_STATUS (e_cop0 s)) \<noteq> None" using inv by (simp add: cop0_inv_def)
  then have l1: "\<not> bit (c0_raw C0_STATUS (e_cop0 ?s1)) 1"
    "\<not> (bit (c0_raw C0_STATUS (e_cop0 ?s1)) 3 \<and> bit (c0_raw C0_STATUS (e_cop0 ?s1)) 4)"
    using False by (auto simp: other status_masked_def status_context_def split: if_splits)
  have "\<not> is_level2 EX_INTERRUPT" by (simp add: is_level2_def)
  from handle_exception_level1_fresh[OF ok1 this l1] show ?thesis
    using h ok1 other level1_entry_sync[where s = s and c = c and ex = EX_INTERRUPT] by (cases "ee_interrupt_pending s") auto
qed

lemma line2_update: "length ls = 8 \<Longrightarrow> k < 8 \<Longrightarrow> ls[2 := b] ! k = (if k = 2 then b else ls ! k)"
  by (simp add: nth_list_update)

text \<open>
  A time slice of the controller followed by the check of the core: the interrupt is taken
  exactly when the core accepts interrupts and an unmasked status bit meets its line's mask, or
  another line was raised.
\<close>

definition accepts_line :: "uword \<Rightarrow> bool list \<Rightarrow> bool \<Rightarrow> bool" where
  "accepts_line st irq_lines line2 \<longleftrightarrow>
     (\<exists>k<8. (if k = 2 then line2 else irq_lines ! k) \<and> bit st (8 + k))"

lemma ee_intc_delivery:
  assumes ok: "ee_ok s" and t: "0 < t"
  shows "\<exists>c s'. ee_intc_run t (r, e_cop0 s) = Inr (r, c) \<and>
    handle_interrupt_check (s\<lparr>e_cop0 := c\<rparr>) = Inr s' \<and> ee_ok s' \<and>
    (if \<not> status_masked (c0_raw C0_STATUS (e_cop0 s)) \<and>
        accepts_line (c0_raw C0_STATUS (e_cop0 s)) (c0_irq_lines (e_cop0 s)) (ee_intc_pending r)
     then level1_entry EX_INTERRUPT s s'
     else pc_val s' = pc_val s \<and> c0_raw C0_STATUS (e_cop0 s') = c0_raw C0_STATUS (e_cop0 s))"
proof -
  note inv = ee_okD(1)[OF ok]
  define c where "c = (e_cop0 s)\<lparr>c0_irq_lines := (c0_irq_lines (e_cop0 s))[2 := ee_intc_pending r]\<rparr>"
  have run: "ee_intc_run t (r, e_cop0 s) = Inr (r, c)"
    using ee_intc_run_spec[OF t] inv by (simp add: c_def cop0_inv_def)
  have raw: "c0_raw n c = c0_raw n (e_cop0 s)" for n by (simp add: c_def c0_raw_def)
  have "cop0_inv c" using inv by (simp add: cop0_inv_def c_def c0_raw_def)
  then have ok1: "ee_ok (s\<lparr>e_cop0 := c\<rparr>)" using ee_ok_upd(8)[OF ok] by simp
  have p: "ee_interrupt_pending (s\<lparr>e_cop0 := c\<rparr>) \<longleftrightarrow> \<not> status_masked (c0_raw C0_STATUS (e_cop0 s)) \<and>
      accepts_line (c0_raw C0_STATUS (e_cop0 s)) (c0_irq_lines (e_cop0 s)) (ee_intc_pending r)"
    using inv unfolding ee_interrupt_pending_def accepts_line_def cop0_inv_def
    by (simp add: raw) (simp add: c_def line2_update cong: conj_cong)
  obtain s' where s': "handle_interrupt_check (s\<lparr>e_cop0 := c\<rparr>) = Inr s'" "ee_ok s'"
    "if ee_interrupt_pending (s\<lparr>e_cop0 := c\<rparr>) then level1_entry EX_INTERRUPT (s\<lparr>e_cop0 := c\<rparr>) s'
     else \<exists>c'. s' = s\<lparr>e_cop0 := c\<rparr>\<lparr>e_cop0 := c'\<rparr> \<and>
       (\<forall>n. n \<noteq> C0_CAUSE \<longrightarrow> c0_raw n c' = c0_raw n (e_cop0 (s\<lparr>e_cop0 := c\<rparr>)))"
    using ee_interrupt_check_spec[OF ok1] by blast
  show ?thesis
  proof (intro exI conjI, rule run, rule s'(1), rule s'(2), cases "ee_interrupt_pending (s\<lparr>e_cop0 := c\<rparr>)")
    case True
    then show "if \<not> status_masked (c0_raw C0_STATUS (e_cop0 s)) \<and>
        accepts_line (c0_raw C0_STATUS (e_cop0 s)) (c0_irq_lines (e_cop0 s)) (ee_intc_pending r)
     then level1_entry EX_INTERRUPT s s'
     else pc_val s' = pc_val s \<and> c0_raw C0_STATUS (e_cop0 s') = c0_raw C0_STATUS (e_cop0 s)"
      using s'(3) p level1_entry_sync[where s = s and c = c and s' = s' and ex = EX_INTERRUPT] raw by simp
  qed (use s'(3) p raw in auto)
qed

lemma iop_intc_delivery:
  assumes ok: "iop_ok s" and t: "0 < t"
  shows "\<exists>c s'. iop_intc_run t (r, i_cop0 s) = Inr (r, c) \<and>
    iop_handle_interrupt_check (s\<lparr>i_cop0 := c\<rparr>) = Inr s' \<and> iop_ok s' \<and>
    (if bit (i0_raw I0_STATUS (i_cop0 s)) 0 \<and>
        accepts_line (i0_raw I0_STATUS (i_cop0 s)) (i0_irq_lines (i_cop0 s)) (iop_intc_pending r)
     then iop_entry IEX_INTERRUPT s s'
     else iop_pc s' = iop_pc s \<and> i0_raw I0_STATUS (i_cop0 s') = i0_raw I0_STATUS (i_cop0 s))"
proof -
  note inv = iop_okD(1)[OF ok]
  define c where "c = (i_cop0 s)\<lparr>i0_irq_lines := (i0_irq_lines (i_cop0 s))[2 := iop_intc_pending r]\<rparr>"
  have run: "iop_intc_run t (r, i_cop0 s) = Inr (r, c)"
    using iop_intc_run_spec[OF t] inv by (simp add: c_def iop_cop0_inv_def)
  have raw: "i0_raw n c = i0_raw n (i_cop0 s)" for n by (simp add: c_def i0_raw_def)
  have "iop_cop0_inv c" using inv by (simp add: iop_cop0_inv_def c_def i0_raw_def)
  then have ok1: "iop_ok (s\<lparr>i_cop0 := c\<rparr>)" by (rule iop_ok_upd(4)[OF ok])
  have p: "iop_interrupt_pending (s\<lparr>i_cop0 := c\<rparr>) \<longleftrightarrow> bit (i0_raw I0_STATUS (i_cop0 s)) 0 \<and>
      accepts_line (i0_raw I0_STATUS (i_cop0 s)) (i0_irq_lines (i_cop0 s)) (iop_intc_pending r)"
    using inv unfolding iop_interrupt_pending_def accepts_line_def iop_cop0_inv_def
    by (simp add: raw) (simp add: c_def line2_update cong: conj_cong)
  obtain s' where s': "iop_handle_interrupt_check (s\<lparr>i_cop0 := c\<rparr>) = Inr s'" "iop_ok s'"
    "if iop_interrupt_pending (s\<lparr>i_cop0 := c\<rparr>) then iop_entry IEX_INTERRUPT (s\<lparr>i_cop0 := c\<rparr>) s'
     else \<exists>c'. s' = s\<lparr>i_cop0 := c\<rparr>\<lparr>i_cop0 := c'\<rparr> \<and>
       (\<forall>n. n \<noteq> I0_CAUSE \<longrightarrow> i0_raw n c' = i0_raw n (i_cop0 (s\<lparr>i_cop0 := c\<rparr>)))"
    using iop_interrupt_check_spec[OF ok1] by blast
  show ?thesis
  proof (intro exI conjI, rule run, rule s'(1), rule s'(2), cases "iop_interrupt_pending (s\<lparr>i_cop0 := c\<rparr>)")
    case True
    then show "if bit (i0_raw I0_STATUS (i_cop0 s)) 0 \<and>
        accepts_line (i0_raw I0_STATUS (i_cop0 s)) (i0_irq_lines (i_cop0 s)) (iop_intc_pending r)
     then iop_entry IEX_INTERRUPT s s'
     else iop_pc s' = iop_pc s \<and> i0_raw I0_STATUS (i_cop0 s') = i0_raw I0_STATUS (i_cop0 s)"
      using s'(3) p iop_entry_sync[where s = s and c = c and s' = s' and ex = IEX_INTERRUPT] raw by simp
  qed (use s'(3) p raw in auto)
qed

end
