(* ===== verification/Counter.thy ===== *)
theory Counter
  imports TickLoop
begin

text \<open>
  The counting law the three timer counters share, as a locale: a counter goes up by one every
  \<open>target\<close> ticks, and after \<open>limit\<close> it continues at one and remembers that it overflowed.
\<close>

text \<open>What a counter started at zero shows after \<open>m\<close> steps.\<close>

definition wrapped :: "nat \<Rightarrow> nat \<Rightarrow> nat" where
  "wrapped limit m = (if m \<le> limit then m else (m - 1) mod limit + 1)"

lemma wrapped_Suc:
  "0 < limit \<Longrightarrow> wrapped limit (Suc m) = (if wrapped limit m = limit then 1 else wrapped limit m + 1)"
  by (cases m) (auto simp: wrapped_def mod_Suc less_Suc_eq_le not_less_eq_eq)

lemma wrapped_le: "0 < limit \<Longrightarrow> wrapped limit m \<le> limit"
  by (auto simp: wrapped_def Suc_le_eq)

lemma wrapped_0 [simp]: "wrapped limit 0 = 0"
  by (simp add: wrapped_def)

lemma wrapped_period: "0 < m \<Longrightarrow> 0 < limit \<Longrightarrow> wrapped limit (m + limit) = wrapped limit m"
proof -
  assume m: "0 < m" and l: "0 < limit"
  have "(m + limit - 1) mod limit = (m - 1 + limit) mod limit" using m by simp
  then have "(m + limit - 1) mod limit = (m - 1) mod limit" by simp
  moreover have "(m - 1) mod limit = m - 1" if "m \<le> limit" using that m by simp
  ultimately show ?thesis using m by (simp add: wrapped_def)
qed

lemma less_div_Suc: "l < n div p \<Longrightarrow> l < Suc n div p" for l n p :: nat
  by (erule less_le_trans) (rule div_le_mono, simp)

lemma le_Suc_mod: "0 < k \<Longrightarrow> k \<le> Suc n \<longleftrightarrow> k \<le> n \<or> Suc n mod k = 0" for k n :: nat
  by (metis dvd_imp_le le_SucE le_SucI mod_0_imp_dvd mod_self zero_less_Suc)

locale wrapping_counter =
  fixes inc :: "'c \<Rightarrow> 'c res"
    and counting :: "'c \<Rightarrow> bool"
    and count :: "'c \<Rightarrow> nat"
    and phase :: "'c \<Rightarrow> int"
    and target :: "'c \<Rightarrow> int"
    and overflowed :: "'c \<Rightarrow> bool"
    and limit :: nat
  assumes limit: "0 < limit"
    and counting: "counting c \<Longrightarrow> 0 \<le> phase c \<and> phase c < target c \<and> count c \<le> limit"
    and inc: "counting c \<Longrightarrow> \<exists>c'. inc c = Inr c' \<and> counting c' \<and> target c' = target c \<and>
      (if phase c + 1 < target c
       then phase c' = phase c + 1 \<and> count c' = count c \<and> overflowed c' = overflowed c
       else phase c' = 0 \<and> count c' = (if count c = limit then 1 else count c + 1) \<and>
         overflowed c' = (overflowed c \<or> count c = limit))"
begin

text \<open>
  The count and the phase as functions of the number of ticks: running freely, returning to zero
  at a value \<open>k\<close>, and returning to zero after the overflow.
\<close>

definition at_tick :: "nat \<Rightarrow> nat \<Rightarrow> nat \<Rightarrow> 'c \<Rightarrow> bool" where
  "at_tick p n v c \<longleftrightarrow>
     counting c \<and> target c = int p \<and> phase c = int (n mod p) \<and> count c = v"

lemma at_tick_pos: "at_tick p n v c \<Longrightarrow> 0 < p"
  using counting[of c] by (auto simp: at_tick_def)

lemma at_inc:
  assumes "at_tick p n v c"
  shows "\<exists>c'. inc c = Inr c' \<and>
    (if Suc n mod p = 0
     then at_tick p (Suc n) (if v = limit then 1 else v + 1) c' \<and> overflowed c' = (overflowed c \<or> v = limit)
     else at_tick p (Suc n) v c' \<and> overflowed c' = overflowed c)"
proof -
  have c: "counting c" "target c = int p" "phase c = int (n mod p)" "count c = v"
    using assms by (simp_all add: at_tick_def)
  have p: "0 < p" using assms by (rule at_tick_pos)
  have "int (n mod p) + 1 < int p \<longleftrightarrow> Suc n mod p \<noteq> 0"
    using mod_less_divisor[OF p, of n] by (auto simp: mod_Suc)
  then show ?thesis using inc[OF c(1)] c p by (auto simp: at_tick_def mod_Suc)
qed

lemma div_Suc_if: "Suc n div p = (if Suc n mod p = 0 then Suc (n div p) else n div p)"
  by (simp add: div_Suc)

lemma free_step:
  assumes "at_tick p n (wrapped limit (n div p)) c"
  shows "\<exists>c'. inc c = Inr c' \<and> at_tick p (Suc n) (wrapped limit (Suc n div p)) c' \<and>
    (limit < n div p \<or> overflowed c' \<longleftrightarrow> overflowed c \<or> limit < Suc n div p) \<and>
    (overflowed c \<longrightarrow> overflowed c')"
proof -
  have "wrapped limit (n div p) = limit \<Longrightarrow> limit \<le> n div p"
    by (rule ccontr) (simp add: wrapped_def)
  moreover have "wrapped limit limit = limit" by (simp add: wrapped_def)
  ultimately show ?thesis
    using at_inc[OF assms] wrapped_Suc[OF limit, of "n div p"]
    by (cases "n div p = limit") (auto simp: div_Suc_if split: if_splits)
qed

lemma return_step:
  assumes "at_tick p n (n div p mod k) c" and "0 < k" and "k \<le> limit"
  shows "\<exists>c'. inc c = Inr c' \<and> overflowed c' = overflowed c \<and>
    (if Suc n mod (p * k) = 0 then at_tick p (Suc n) k c'
     else at_tick p (Suc n) (Suc n div p mod k) c' \<and> Suc n div p mod k \<noteq> k)"
proof -
  have lt: "n div p mod k < k" "Suc n div p mod k < k" using assms(2) by simp_all
  have m: "Suc n mod (p * k) = 0 \<longleftrightarrow> Suc n mod p = 0 \<and> Suc n div p mod k = 0"
    using at_tick_pos[OF assms(1)] by (auto simp: mod_mult2_eq)
  have "n div p mod k \<noteq> limit" using lt(1) assms(3) by linarith
  then show ?thesis
    using at_inc[OF assms(1)] lt unfolding m
    by (auto simp: div_Suc_if mod_Suc split: if_splits)
qed

lemma full_step:
  assumes "at_tick p n (n div p mod Suc limit) c"
  shows "\<exists>c'. inc c = Inr c' \<and>
    (if Suc n mod (p * Suc limit) = 0 then at_tick p (Suc n) 1 c' \<and> overflowed c'
     else at_tick p (Suc n) (Suc n div p mod Suc limit) c' \<and> overflowed c' = overflowed c)"
proof -
  have "Suc n mod (p * Suc limit) = 0 \<longleftrightarrow> Suc n mod p = 0 \<and> Suc n div p mod Suc limit = 0"
    using at_tick_pos[OF assms(1)] unfolding mod_mult2_eq by auto
  then show ?thesis
    using at_inc[OF assms(1)]
    by (auto simp: div_Suc_if mod_Suc[of _ "Suc limit"] split: if_splits)
qed

lemma at_reset: "counting c \<Longrightarrow> count c = 0 \<Longrightarrow> phase c = 0 \<Longrightarrow> at_tick (nat (target c)) 0 0 c"
  using counting[of c] by (simp add: at_tick_def)

lemma counts:
  assumes "counting c" and "count c = 0" and "phase c = 0" and "\<not> overflowed c"
  shows "\<exists>c'. repeat_res n inc c = Inr c' \<and>
    at_tick (nat (target c)) n (wrapped limit (n div nat (target c))) c' \<and>
    (overflowed c' \<longleftrightarrow> limit < n div nat (target c))"
proof (induction n)
  case 0
  then show ?case using at_reset[OF assms(1-3)] assms(4) by simp
next
  case (Suc n)
  let ?p = "nat (target c)"
  obtain c1 where c1: "repeat_res n inc c = Inr c1" "at_tick ?p n (wrapped limit (n div ?p)) c1"
    "overflowed c1 \<longleftrightarrow> limit < n div ?p"
    using Suc by blast
  obtain c2 where c2: "inc c1 = Inr c2" "at_tick ?p (Suc n) (wrapped limit (Suc n div ?p)) c2"
    "limit < n div ?p \<or> overflowed c2 \<longleftrightarrow> overflowed c1 \<or> limit < Suc n div ?p" "overflowed c1 \<longrightarrow> overflowed c2"
    using free_step[OF c1(2)] by blast
  have "repeat_res (Suc n) inc c = Inr c2" using c1(1) c2(1) unfolding repeat_res_Suc_right by simp
  moreover have "overflowed c2 \<longleftrightarrow> limit < Suc n div ?p"
    using c1(3) c2(3,4) by (auto intro: less_div_Suc)
  ultimately show ?case using c2(2) by blast
qed

end

text \<open>
  A bank of timers that report to one status register.  A timer does not look at the register,
  so a tick of the bank is the tick of each, and the register collects the flags they raise.
\<close>

locale timer_bank =
  fixes tick :: "'u \<Rightarrow> 'r \<Rightarrow> ('u \<times> 'r) res"
    and tick_units :: "'u list \<Rightarrow> 'r \<Rightarrow> ('u list \<times> 'r) res"
    and key :: "'u \<Rightarrow> nat"
    and flag :: "'r \<Rightarrow> nat \<Rightarrow> bool"
    and rest :: "'r \<Rightarrow> 'f"
    and steady :: "'u \<Rightarrow> bool"
  assumes units: "tick_units [] r = Inr ([], r)"
      "tick_units (u # us) r = bind_res (tick u r) (\<lambda>(u', r1).
         bind_res (tick_units us r1) (\<lambda>(us', r2). Inr (u' # us', r2)))"
    and steady: "steady u \<Longrightarrow> \<exists>u' b. steady u' \<and> key u' = key u \<and>
      (\<forall>r. \<exists>r'. tick u r = Inr (u', r') \<and> rest r' = rest r \<and>
        (\<forall>k. flag r' k \<longleftrightarrow> flag r k \<or> b \<and> k = key u))"
begin

definition raised :: "nat set \<Rightarrow> 'r \<Rightarrow> 'r \<Rightarrow> bool" where
  "raised S r r' \<longleftrightarrow> rest r' = rest r \<and> (\<forall>k. flag r' k \<longleftrightarrow> flag r k \<or> k \<in> S)"

definition keys :: "'u \<Rightarrow> bool \<Rightarrow> nat set" where
  "keys u b = (if b then {key u} else {})"

lemma raised_trans: "raised S r r1 \<Longrightarrow> raised T r1 r2 \<Longrightarrow> raised (S \<union> T) r r2"
  by (auto simp: raised_def)

lemma bank_tick:
  assumes "steady u"
  obtains u' b where "\<And>r. \<exists>r'. tick u r = Inr (u', r') \<and> raised (keys u b) r r'" "steady u'" "key u' = key u"
proof -
  obtain u' b where u: "steady u'" "key u' = key u"
    "\<And>r. \<exists>r'. tick u r = Inr (u', r') \<and> rest r' = rest r \<and> (\<forall>k. flag r' k \<longleftrightarrow> flag r k \<or> b \<and> k = key u)"
    using steady[OF assms] by blast
  moreover have "k \<in> keys u b \<longleftrightarrow> b \<and> k = key u" for k by (simp add: keys_def)
  ultimately show ?thesis by (intro that[of u' b]) (simp_all add: raised_def)
qed

lemma bank_units:
  assumes "list_all steady us"
  obtains us' bs where "length us' = length us" "length bs = length us"
    "\<And>r. \<exists>r'. tick_units us r = Inr (us', r') \<and> raised (\<Union>i<length us. keys (us ! i) (bs ! i)) r r'"
    "\<And>i r. i < length us \<Longrightarrow> \<exists>r'. tick (us ! i) r = Inr (us' ! i, r') \<and> raised (keys (us ! i) (bs ! i)) r r'"
    "list_all steady us'" "map key us' = map key us"
  using assms
proof (induction us arbitrary: thesis)
  case Nil
  show ?case by (rule Nil(1)[of "[]" "[]"]) (simp_all add: units raised_def)
next
  case (Cons u us)
  have u: "steady u" and us: "list_all steady us" using Cons.prems(2) by simp_all
  obtain u' b where u': "\<And>r. \<exists>r'. tick u r = Inr (u', r') \<and> raised (keys u b) r r'"
    "steady u'" "key u' = key u"
    by (rule bank_tick[OF u]) (rule that)
  obtain us' bs where us': "length us' = length us" "length bs = length us"
    "\<And>r. \<exists>r'. tick_units us r = Inr (us', r') \<and> raised (\<Union>i<length us. keys (us ! i) (bs ! i)) r r'"
    "\<And>i r. i < length us \<Longrightarrow> \<exists>r'. tick (us ! i) r = Inr (us' ! i, r') \<and> raised (keys (us ! i) (bs ! i)) r r'"
    "list_all steady us'" "map key us' = map key us"
    by (rule Cons.IH[OF _ us]) (rule that)
  have un: "(\<Union>i<length (u # us). keys ((u # us) ! i) ((b # bs) ! i)) =
      keys u b \<union> (\<Union>i<length us. keys (us ! i) (bs ! i))"
    by (simp add: lessThan_Suc_eq_insert_0)
  show ?case
  proof (rule Cons.prems(1)[of "u' # us'" "b # bs"])
    fix r
    obtain r1 where r1: "tick u r = Inr (u', r1)" "raised (keys u b) r r1" using u'(1) by blast
    obtain r2 where r2: "tick_units us r1 = Inr (us', r2)"
      "raised (\<Union>i<length us. keys (us ! i) (bs ! i)) r1 r2" using us'(3) by blast
    show "\<exists>r'. tick_units (u # us) r = Inr (u' # us', r') \<and>
        raised (\<Union>i<length (u # us). keys ((u # us) ! i) ((b # bs) ! i)) r r'"
      unfolding un using r1 r2(1) raised_trans[OF r1(2) r2(2)] by (simp add: units)
  next
    fix i r assume "i < length (u # us)"
    then show "\<exists>r'. tick ((u # us) ! i) r = Inr ((u' # us') ! i, r') \<and>
        raised (keys ((u # us) ! i) ((b # bs) ! i)) r r'"
      using u'(1) us'(4) by (cases i) simp_all
  qed (use u' us' in simp_all)
qed

text \<open>Over a whole event every unit runs as it would alone, and its flag is set exactly when its own run sets it.\<close>

lemma bank_run:
  assumes "list_all steady us" and "distinct (map key us)"
  shows "\<exists>us' r'. repeat_res n (\<lambda>(us, r). tick_units us r) (us, r) = Inr (us', r') \<and> length us' = length us \<and>
    list_all steady us' \<and> map key us' = map key us \<and> rest r' = rest r \<and>
    (\<forall>i<length us. \<exists>r1. repeat_res n (\<lambda>(u, r). tick u r) (us ! i, r) = Inr (us' ! i, r1) \<and>
      flag r1 (key (us ! i)) = flag r' (key (us ! i)))"
proof (induction n)
  case 0
  then show ?case using assms by simp
next
  case (Suc n)
  obtain us1 r1 where 1: "repeat_res n (\<lambda>(us, r). tick_units us r) (us, r) = Inr (us1, r1)"
    "length us1 = length us" "list_all steady us1" "map key us1 = map key us" "rest r1 = rest r"
    "\<And>i. i < length us \<Longrightarrow> \<exists>q. repeat_res n (\<lambda>(u, r). tick u r) (us ! i, r) = Inr (us1 ! i, q) \<and>
      flag q (key (us ! i)) = flag r1 (key (us ! i))"
    using Suc by blast
  obtain us2 bs where 2: "length us2 = length us1" "length bs = length us1"
    "\<And>r. \<exists>r'. tick_units us1 r = Inr (us2, r') \<and> raised (\<Union>i<length us1. keys (us1 ! i) (bs ! i)) r r'"
    "\<And>i r. i < length us1 \<Longrightarrow> \<exists>r'. tick (us1 ! i) r = Inr (us2 ! i, r') \<and> raised (keys (us1 ! i) (bs ! i)) r r'"
    "list_all steady us2" "map key us2 = map key us1"
    by (rule bank_units[OF 1(3)]) (rule that)
  obtain r2 where r2: "tick_units us1 r1 = Inr (us2, r2)"
    "raised (\<Union>i<length us1. keys (us1 ! i) (bs ! i)) r1 r2" using 2(3) by blast
  have run: "repeat_res (Suc n) (\<lambda>(us, r). tick_units us r) (us, r) = Inr (us2, r2)"
    unfolding repeat_res_Suc_right using 1(1) r2(1) by simp
  have ids: "key (us1 ! i) = key (us ! i)" if "i < length us" for i
    using that 1(2,4) by (metis length_map nth_map)
  have "\<exists>q'. repeat_res (Suc n) (\<lambda>(u, r). tick u r) (us ! i, r) = Inr (us2 ! i, q') \<and>
      flag q' (key (us ! i)) = flag r2 (key (us ! i))" if i: "i < length us" for i
  proof -
    obtain q where q: "repeat_res n (\<lambda>(u, r). tick u r) (us ! i, r) = Inr (us1 ! i, q)"
      "flag q (key (us ! i)) = flag r1 (key (us ! i))" using 1(6)[OF i] by blast
    obtain q' where q': "tick (us1 ! i) q = Inr (us2 ! i, q')" "raised (keys (us1 ! i) (bs ! i)) q q'"
      using 2(4)[of i q] i 1(2) by auto
    have "key (us ! i) \<in> (\<Union>j<length us1. keys (us1 ! j) (bs ! j)) \<longleftrightarrow>
        key (us ! i) \<in> keys (us1 ! i) (bs ! i)"
      using i 1(2) ids assms(2) by (auto simp: keys_def distinct_conv_nth split: if_splits)
    then show ?thesis
      unfolding repeat_res_Suc_right using q q' r2(2) by (auto simp: raised_def)
  qed
  then show ?case
    using 1(2,4,5) 2(1,5,6) r2(2) unfolding raised_def by (intro exI[of _ us2] exI[of _ r2]) (simp add: run del: repeat_res.simps)
qed

end

end
