(* ===== verification/EeTimers.thy ===== *)
theory EeTimers
  imports Counter Intc
begin

text \<open>
  The four timers of the EE: the counter with its prescaler, the mode register with its write
  latch, and the controller, which ticks every unit on time and H-blank events and raises the
  timer's bit in the interrupt controller.
\<close>

section \<open>The registers of a unit\<close>

record timer_count =
  tc_val :: uword
  tc_overflowed :: bool
  tc_prescale_target :: int
  tc_prescale_count :: int

definition EeTimersUnitRegister_Count_new :: timer_count where
  "EeTimersUnitRegister_Count_new =
     \<lparr>tc_val = 0, tc_overflowed = False, tc_prescale_target = 1, tc_prescale_count = 0\<rparr>"

text \<open>The loop that turns prescale ticks into counts.\<close>

function prescale_loop :: "int \<Rightarrow> int \<Rightarrow> 'a::len word \<Rightarrow> (int \<times> 'a word) res" where
  "prescale_loop prescale_target prescale_count count =
     (if prescale_count < prescale_target then Inr (prescale_count, count)
      else if prescale_target \<le> 0 then Inl Endless_loop
      else prescale_loop prescale_target (prescale_count - prescale_target) (count + 1))"
  by pat_completeness auto

termination
  by (relation "measure (\<lambda>(t, p, c). nat (p + 1))") auto

declare prescale_loop.simps [simp del]

definition ee_count_increment :: "uhword \<Rightarrow> timer_count \<Rightarrow> timer_count res" where
  "ee_count_increment v c =
     (let prescale_count = tc_prescale_count c + uint v in
      if prescale_count \<ge> tc_prescale_target c then
        bind_res (prescale_loop (tc_prescale_target c) prescale_count (tc_val c)) (\<lambda>(p, count).
          Inr (if count > 0xFFFF
               then c\<lparr>tc_prescale_count := p, tc_val := count mod 0xFFFF, tc_overflowed := True\<rparr>
               else c\<lparr>tc_prescale_count := p, tc_val := count\<rparr>))
      else Inr (c\<lparr>tc_prescale_count := prescale_count\<rparr>))"

definition is_overflowed_and_reset :: "timer_count \<Rightarrow> bool \<times> timer_count" where
  "is_overflowed_and_reset c = (tc_overflowed c, c\<lparr>tc_overflowed := False\<rparr>)"

definition reset_prescale :: "int \<Rightarrow> timer_count \<Rightarrow> timer_count" where
  "reset_prescale prescale_target c =
     c\<lparr>tc_val := 0, tc_prescale_target := prescale_target, tc_prescale_count := 0\<rparr>"

record timer_mode =
  tm_val :: uword
  tm_write_latch :: bool

definition TIM_CLKS :: bitfield where [word_defs]: "TIM_CLKS = BF 0 2"
definition TIM_GATE :: bitfield where [word_defs]: "TIM_GATE = BF 2 1"
definition TIM_GATS :: bitfield where [word_defs]: "TIM_GATS = BF 3 1"
definition TIM_ZRET :: bitfield where [word_defs]: "TIM_ZRET = BF 6 1"
definition TIM_CUE :: bitfield where [word_defs]: "TIM_CUE = BF 7 1"
definition TIM_CMPE :: bitfield where [word_defs]: "TIM_CMPE = BF 8 1"
definition TIM_OVFE :: bitfield where [word_defs]: "TIM_OVFE = BF 9 1"

definition mode_field :: "bitfield \<Rightarrow> timer_mode \<Rightarrow> uword" where
  "mode_field f m = extract_from f (tm_val m)"

definition ee_mode_bus_write :: "BusContext \<Rightarrow> uword \<Rightarrow> timer_mode \<Rightarrow> timer_mode" where
  "ee_mode_bus_write context v m =
     (let reg_value = tm_val m;
          temp = (if context = Ee_context
                  then (reg_value AND 0xFFFFF3FF) OR ((reg_value AND 0xC00) AND NOT (v AND 0xC00))
                  else v)
      in m\<lparr>tm_val := temp, tm_write_latch := True\<rparr>)"

definition is_gate_hblnk_special :: "timer_mode \<Rightarrow> bool" where
  "is_gate_hblnk_special m \<longleftrightarrow> mode_field TIM_CLKS m = 3 \<and> mode_field TIM_GATS m = 0"

definition ee_get_properties :: "timer_mode \<Rightarrow> (int \<times> event_type) res" where
  "ee_get_properties m =
     (let source = mode_field TIM_CLKS m in
      if source = 0 then Inr (1, Time_type)
      else if source = 1 then Inr (16, Time_type)
      else if source = 2 then Inr (256, Time_type)
      else if source = 3 then Inr (1, HBlank_type)
      else Inl Runtime_error)"

record ee_timer =
  tu_id :: nat
  tu_count :: timer_count
  tu_mode :: timer_mode
  tu_compare :: uword

definition EeTimersUnit_new :: "nat \<Rightarrow> ee_timer" where
  "EeTimersUnit_new i =
     \<lparr>tu_id = i, tu_count = EeTimersUnitRegister_Count_new,
      tu_mode = \<lparr>tm_val = 0, tm_write_latch = False\<rparr>, tu_compare = 0\<rparr>"

definition REeTimers_new :: "ee_timer list" where
  "REeTimers_new = map EeTimersUnit_new [0, 1, 2, 3]"

section \<open>The controller\<close>

definition raise_tim :: "nat \<Rightarrow> ee_intc \<Rightarrow> ee_intc res" where
  "raise_tim i r =
     (if i < length EE_TIM_KEYS then Inr (ee_stat_insert_field (EE_TIM_KEYS ! i) 1 r)
      else Inl Out_of_bounds)"

definition handle_timer_interrupt :: "ee_timer \<Rightarrow> ee_intc \<Rightarrow> (ee_timer \<times> ee_intc) res" where
  "handle_timer_interrupt u r =
     (let compare_int = mode_field TIM_CMPE (tu_mode u) \<noteq> 0 \<and> tc_val (tu_count u) = tu_compare u;
          (overflow_int, c) = (if mode_field TIM_OVFE (tu_mode u) \<noteq> 0
                               then is_overflowed_and_reset (tu_count u)
                               else (False, tu_count u));
          u1 = u\<lparr>tu_count := c\<rparr>
      in if compare_int \<or> overflow_int
         then bind_res (raise_tim (tu_id u) r) (\<lambda>r1. Inr (u1, r1))
         else Inr (u1, r))"

definition handle_timer_zret :: "ee_timer \<Rightarrow> ee_timer" where
  "handle_timer_zret u =
     (if mode_field TIM_ZRET (tu_mode u) \<noteq> 0 \<and> tc_val (tu_count u) = tu_compare u
      then u\<lparr>tu_count := (tu_count u)\<lparr>tc_val := 0\<rparr>\<rparr> else u)"

definition ee_timer_reset :: "int \<Rightarrow> ee_timer \<Rightarrow> ee_timer" where
  "ee_timer_reset prescale u =
     (if tm_write_latch (tu_mode u)
      then u\<lparr>tu_count := reset_prescale prescale (tu_count u),
             tu_mode := (tu_mode u)\<lparr>tm_write_latch := False\<rparr>\<rparr>
      else u)"

definition ee_timer_tick :: "event_type \<Rightarrow> ee_timer \<Rightarrow> ee_intc \<Rightarrow> (ee_timer \<times> ee_intc) res" where
  "ee_timer_tick ce_type u r =
     bind_res (ee_get_properties (tu_mode u)) (\<lambda>(prescale, event_type).
       let u1 = ee_timer_reset prescale u in
       if mode_field TIM_CUE (tu_mode u1) = 0 \<or> ce_type \<noteq> event_type then Inr (u1, r)
       else if mode_field TIM_GATE (tu_mode u1) > 0 \<and> \<not> is_gate_hblnk_special (tu_mode u1)
       then Inl Runtime_error
       else
         bind_res (ee_count_increment 1 (tu_count u1)) (\<lambda>c.
         bind_res (handle_timer_interrupt (u1\<lparr>tu_count := c\<rparr>) r) (\<lambda>(u2, r1).
           Inr (handle_timer_zret u2, r1))))"

fun ee_tick_units :: "event_type \<Rightarrow> ee_timer list \<Rightarrow> ee_intc \<Rightarrow> (ee_timer list \<times> ee_intc) res" where
  "ee_tick_units ce_type [] r = Inr ([], r)"
| "ee_tick_units ce_type (u # us) r =
     bind_res (ee_timer_tick ce_type u r) (\<lambda>(u', r1).
     bind_res (ee_tick_units ce_type us r1) (\<lambda>(us', r2). Inr (u' # us', r2)))"

definition ee_tick_timer ::
    "event_type \<Rightarrow> ee_timer list \<times> ee_intc \<Rightarrow> (ee_timer list \<times> ee_intc) res" where
  "ee_tick_timer ce_type s = ee_tick_units ce_type (fst s) (snd s)"

fun ee_timers_handle_event ::
    "('t \<Rightarrow> int) \<Rightarrow> 't controller_event \<Rightarrow> ee_timer list \<times> ee_intc \<Rightarrow> (ee_timer list \<times> ee_intc) res"
where
  "ee_timers_handle_event time_to_ticks (Time_event t) s =
     repeat_res (nat (time_to_ticks t)) (ee_tick_timer Time_type) s"
| "ee_timers_handle_event time_to_ticks (HBlank_event n) s =
     repeat_res (nat n) (ee_tick_timer HBlank_type) s"
| "ee_timers_handle_event time_to_ticks (VBlank_event n) s = Inl Runtime_error"

section \<open>The counter\<close>

lemma prescale_loop_once:
  assumes "0 \<le> p" and "p < t"
  shows "prescale_loop t (p + 1) c = Inr (if p + 1 < t then (p + 1, c) else (0, c + 1))"
proof (cases "p + 1 < t")
  case False
  then have "p + 1 = t" using assms by simp
  then show ?thesis using assms by (simp add: prescale_loop.simps[of t t] prescale_loop.simps[of t 0])
qed (simp add: prescale_loop.simps)

definition ee_counting :: "timer_count \<Rightarrow> bool" where
  "ee_counting c \<longleftrightarrow>
     0 \<le> tc_prescale_count c \<and> tc_prescale_count c < tc_prescale_target c \<and> tc_val c \<le> 0xFFFF"

lemma count_step_16:
  assumes "(v :: uword) \<le> 0xFFFF"
  shows "v + 1 > 0xFFFF \<longleftrightarrow> unat v = 65535"
    "unat (if v + 1 > 0xFFFF then (v + 1) mod 0xFFFF else v + 1) =
       (if unat v = 65535 then 1 else unat v + 1)"
    "(if v + 1 > 0xFFFF then (v + 1) mod 0xFFFF else v + 1) \<le> 0xFFFF"
proof -
  have v: "unat v \<le> 65535" using assms by (simp add: word_le_nat_alt)
  then have s: "unat (v + 1) = unat v + 1" by (simp add: unat_word_ariths)
  then show a: "v + 1 > 0xFFFF \<longleftrightarrow> unat v = 65535" using v by (auto simp: word_less_nat_alt)
  show b: "unat (if v + 1 > 0xFFFF then (v + 1) mod 0xFFFF else v + 1) =
       (if unat v = 65535 then 1 else unat v + 1)"
    unfolding a by (simp add: s unat_mod)
  show "(if v + 1 > 0xFFFF then (v + 1) mod 0xFFFF else v + 1) \<le> 0xFFFF"
    unfolding word_le_nat_alt b using v by simp
qed

lemma ee_count_increment_1:
  assumes "ee_counting c"
  shows "ee_count_increment 1 c = Inr
    (if tc_prescale_count c + 1 < tc_prescale_target c
     then c\<lparr>tc_prescale_count := tc_prescale_count c + 1\<rparr>
     else c\<lparr>tc_prescale_count := 0,
            tc_val := (if tc_val c + 1 > 0xFFFF then (tc_val c + 1) mod 0xFFFF else tc_val c + 1),
            tc_overflowed := tc_overflowed c \<or> unat (tc_val c) = 65535\<rparr>)"
  using assms count_step_16(1)[of "tc_val c"]
  by (cases c) (auto simp: ee_count_increment_def ee_counting_def prescale_loop_once Let_def)

interpretation ee_counter: wrapping_counter "ee_count_increment 1" ee_counting "\<lambda>c. unat (tc_val c)"
  tc_prescale_count tc_prescale_target tc_overflowed 65535
proof
  fix c :: timer_count
  assume c: "ee_counting c"
  then show "0 \<le> tc_prescale_count c \<and> tc_prescale_count c < tc_prescale_target c \<and> unat (tc_val c) \<le> 65535"
    by (simp add: ee_counting_def word_le_nat_alt)
  show "\<exists>c'. ee_count_increment 1 c = Inr c' \<and> ee_counting c' \<and> tc_prescale_target c' = tc_prescale_target c \<and>
      (if tc_prescale_count c + 1 < tc_prescale_target c
       then tc_prescale_count c' = tc_prescale_count c + 1 \<and> unat (tc_val c') = unat (tc_val c) \<and>
         tc_overflowed c' = tc_overflowed c
       else tc_prescale_count c' = 0 \<and>
         unat (tc_val c') = (if unat (tc_val c) = 65535 then 1 else unat (tc_val c) + 1) \<and>
         tc_overflowed c' = (tc_overflowed c \<or> unat (tc_val c) = 65535))"
    unfolding ee_count_increment_1[OF c]
    using c count_step_16(2,3)[of "tc_val c"] by (auto simp: ee_counting_def)
qed simp

section \<open>One tick of a unit\<close>

definition ee_timer_ok :: "ee_timer \<Rightarrow> bool" where
  "ee_timer_ok u \<longleftrightarrow> tu_id u < 4 \<and> ee_counting (tu_count u)"

text \<open>A mode field as a bit, and the four sources.\<close>

lemma mode_bits:
  "mode_field TIM_GATE m > 0 \<longleftrightarrow> bit (tm_val m) 2" "mode_field TIM_GATS m = 0 \<longleftrightarrow> \<not> bit (tm_val m) 3"
  "mode_field TIM_ZRET m = 0 \<longleftrightarrow> \<not> bit (tm_val m) 6" "mode_field TIM_CUE m = 0 \<longleftrightarrow> \<not> bit (tm_val m) 7"
  "mode_field TIM_CMPE m = 0 \<longleftrightarrow> \<not> bit (tm_val m) 8" "mode_field TIM_OVFE m = 0 \<longleftrightarrow> \<not> bit (tm_val m) 9"
  by (simp_all add: mode_field_def word_defs extract_1_eq word_gt_0)

definition clock_source :: "uword \<Rightarrow> int \<times> event_type" where
  "clock_source v =
     (if bit v 1 then if bit v 0 then (1, HBlank_type) else (256, Time_type)
      else if bit v 0 then (16, Time_type) else (1, Time_type))"

lemma ee_get_properties_eq: "ee_get_properties m = Inr (clock_source (tm_val m))"
  using extract_2_eq[of 0 "tm_val m"]
  by (auto simp: ee_get_properties_def mode_field_def TIM_CLKS_def clock_source_def Let_def)

lemma gate_special_iff:
  "is_gate_hblnk_special m \<longleftrightarrow> bit (tm_val m) 0 \<and> bit (tm_val m) 1 \<and> \<not> bit (tm_val m) 3"
  using extract_2_eq[of 0 "tm_val m"]
  by (cases "bit (tm_val m) 0"; cases "bit (tm_val m) 1")
    (simp_all add: is_gate_hblnk_special_def mode_bits, simp_all add: mode_field_def TIM_CLKS_def)

lemma clock_source_pos: "0 < fst (clock_source v)"
  by (simp add: clock_source_def)

text \<open>Whether a tick makes a unit count, by its mode, and what it raises.\<close>

definition counts_on :: "event_type \<Rightarrow> uword \<Rightarrow> bool" where
  "counts_on ce v \<longleftrightarrow> bit v 7 \<and> snd (clock_source v) = ce"

definition gate_blocks :: "uword \<Rightarrow> bool" where
  "gate_blocks v \<longleftrightarrow> bit v 2 \<and> \<not> (bit v 0 \<and> bit v 1 \<and> \<not> bit v 3)"

definition tim_irq :: "ee_timer \<Rightarrow> bool" where
  "tim_irq u \<longleftrightarrow>
     bit (tm_val (tu_mode u)) 8 \<and> tc_val (tu_count u) = tu_compare u \<or>
     bit (tm_val (tu_mode u)) 9 \<and> tc_overflowed (tu_count u)"

definition after_irq :: "ee_timer \<Rightarrow> ee_timer" where
  "after_irq u =
     u\<lparr>tu_count := (tu_count u)
        \<lparr>tc_overflowed := tc_overflowed (tu_count u) \<and> \<not> bit (tm_val (tu_mode u)) 9\<rparr>\<rparr>"

lemma raise_tim_eq: "i < 4 \<Longrightarrow> raise_tim i r = Inr (ee_stat_insert_field (BF (9 + i) 1) 1 r)"
  by (auto simp: raise_tim_def EE_TIM_KEYS_def less_Suc_eq numeral_eq_Suc)

lemma handle_timer_interrupt_eq:
  "tu_id u < 4 \<Longrightarrow> handle_timer_interrupt u r =
     Inr (after_irq u, if tim_irq u then ee_stat_insert_field (BF (9 + tu_id u) 1) 1 r else r)"
  by (cases u; cases "tu_count u")
    (auto simp: handle_timer_interrupt_def raise_tim_eq tim_irq_def after_irq_def mode_bits
      is_overflowed_and_reset_def Let_def)

lemma ee_timer_reset_frame [simp]:
  "tu_id (ee_timer_reset p u) = tu_id u" "tm_val (tu_mode (ee_timer_reset p u)) = tm_val (tu_mode u)"
  "tu_compare (ee_timer_reset p u) = tu_compare u" "\<not> tm_write_latch (tu_mode (ee_timer_reset p u))"
  by (simp_all add: ee_timer_reset_def)

lemma ee_timer_reset_ok: "ee_timer_ok u \<Longrightarrow> 0 < p \<Longrightarrow> ee_timer_ok (ee_timer_reset p u)"
  by (simp add: ee_timer_ok_def ee_timer_reset_def reset_prescale_def ee_counting_def)

lemma ee_timer_tick_eq:
  assumes "ee_timer_ok u"
  defines "u1 \<equiv> ee_timer_reset (fst (clock_source (tm_val (tu_mode u)))) u"
  shows "ee_timer_tick ce u r =
    (if \<not> counts_on ce (tm_val (tu_mode u)) then Inr (u1, r)
     else if gate_blocks (tm_val (tu_mode u)) then Inl Runtime_error
     else bind_res (ee_count_increment 1 (tu_count u1)) (\<lambda>c.
       let u2 = u1\<lparr>tu_count := c\<rparr> in
       Inr (handle_timer_zret (after_irq u2),
            if tim_irq u2 then ee_stat_insert_field (BF (9 + tu_id u) 1) 1 r else r)))"
proof -
  have "tu_id u < 4" using assms by (simp add: ee_timer_ok_def)
  then show ?thesis
    by (cases "clock_source (tm_val (tu_mode u))")
      (auto simp: ee_timer_tick_def ee_get_properties_eq u1_def counts_on_def gate_blocks_def mode_bits
        gate_special_iff handle_timer_interrupt_eq Let_def bind_res_def split: sum.split)
qed

text \<open>Ticks keep a unit well-formed; the only error is the gate mode that is not implemented.\<close>

lemma after_irq_frame [simp]:
  "tu_id (after_irq u) = tu_id u" "tu_mode (after_irq u) = tu_mode u" "tu_compare (after_irq u) = tu_compare u"
  "tc_val (tu_count (after_irq u)) = tc_val (tu_count u)"
  "ee_counting (tu_count (after_irq u)) = ee_counting (tu_count u)"
  by (simp_all add: after_irq_def ee_counting_def)

lemma zret_frame [simp]:
  "tu_id (handle_timer_zret u) = tu_id u" "tu_mode (handle_timer_zret u) = tu_mode u"
  "tu_compare (handle_timer_zret u) = tu_compare u"
  "ee_counting (tu_count u) \<Longrightarrow> ee_counting (tu_count (handle_timer_zret u))"
  by (simp_all add: handle_timer_zret_def ee_counting_def)

lemma ee_timer_tick_cases:
  assumes "ee_timer_ok u"
  shows "(\<exists>u' r'. ee_timer_tick ce u r = Inr (u', r') \<and> ee_timer_ok u' \<and> tm_val (tu_mode u') = tm_val (tu_mode u) \<and>
      tu_id u' = tu_id u \<and> tu_compare u' = tu_compare u) \<or>
    ee_timer_tick ce u r = Inl Runtime_error \<and> counts_on ce (tm_val (tu_mode u)) \<and> gate_blocks (tm_val (tu_mode u))"
proof -
  let ?u1 = "ee_timer_reset (fst (clock_source (tm_val (tu_mode u)))) u"
  have ok: "ee_timer_ok ?u1" using assms clock_source_pos by (rule ee_timer_reset_ok)
  then obtain c where c: "ee_count_increment 1 (tu_count ?u1) = Inr c" "ee_counting c"
    using ee_counter.inc by (auto simp: ee_timer_ok_def)
  show ?thesis
    using ok c(2) by (simp add: ee_timer_tick_eq[OF assms] c(1) Let_def) (simp add: ee_timer_ok_def)
qed

section \<open>Runs of a unit\<close>

definition ee_unit_run :: "event_type \<Rightarrow> nat \<Rightarrow> ee_timer \<times> ee_intc \<Rightarrow> (ee_timer \<times> ee_intc) res" where
  "ee_unit_run ce n = repeat_res n (\<lambda>(u, r). ee_timer_tick ce u r)"

definition prescale_of :: "uword \<Rightarrow> nat" where
  "prescale_of v = nat (fst (clock_source v))"

text \<open>A unit in mode \<open>v\<close> that was reset \<open>n\<close> ticks ago and shows the count \<open>k\<close>.\<close>

definition unit_at :: "uword \<Rightarrow> nat \<Rightarrow> nat \<Rightarrow> ee_timer \<Rightarrow> bool" where
  "unit_at v n k u \<longleftrightarrow>
     tu_id u < 4 \<and> tu_mode u = \<lparr>tm_val = v, tm_write_latch = False\<rparr> \<and>
     ee_counter.at_tick (prescale_of v) n k (tu_count u)"

lemma unit_at_ok: "unit_at v n k u \<Longrightarrow> ee_timer_ok u"
  by (simp add: unit_at_def ee_timer_ok_def ee_counter.at_tick_def)

lemma unit_at_val: "unit_at v n k u \<Longrightarrow> unat (tc_val (tu_count u)) = k"
  by (simp add: unit_at_def ee_counter.at_tick_def)

lemma ee_timer_tick_running:
  assumes "unit_at v n k u" and "counts_on ce v" and "\<not> gate_blocks v"
    and "ee_count_increment 1 (tu_count u) = Inr c"
  shows "ee_timer_tick ce u r =
    Inr (handle_timer_zret (after_irq (u\<lparr>tu_count := c\<rparr>)),
         if tim_irq (u\<lparr>tu_count := c\<rparr>) then ee_stat_insert_field (BF (9 + tu_id u) 1) 1 r else r)"
proof -
  have m: "tu_mode u = \<lparr>tm_val = v, tm_write_latch = False\<rparr>" using assms(1) by (simp add: unit_at_def)
  show ?thesis
    using assms(2-4) by (simp add: ee_timer_tick_eq[OF unit_at_ok[OF assms(1)]] m ee_timer_reset_def)
qed

lemma ee_timer_tick_latched:
  assumes "ee_timer_ok u"
  shows "ee_timer_tick ce u r =
    ee_timer_tick ce (ee_timer_reset (fst (clock_source (tm_val (tu_mode u)))) u) r"
proof -
  let ?u1 = "ee_timer_reset (fst (clock_source (tm_val (tu_mode u)))) u"
  have "ee_timer_ok ?u1" using assms clock_source_pos by (rule ee_timer_reset_ok)
  moreover have "ee_timer_reset p ?u1 = ?u1" for p by (simp add: ee_timer_reset_def)
  ultimately show ?thesis by (simp add: ee_timer_tick_eq assms Let_def cong: if_cong)
qed

lemma unit_at_reset:
  assumes "ee_timer_ok u" and "tm_write_latch (tu_mode u)" and "tm_val (tu_mode u) = v"
  shows "unit_at v 0 0 (ee_timer_reset (fst (clock_source v)) u)"
  using assms clock_source_pos[of v]
  by (simp add: unit_at_def ee_timer_ok_def ee_counter.at_tick_def ee_timer_reset_def reset_prescale_def
      prescale_of_def ee_counting_def)

lemma ee_unit_run_latched:
  assumes "ee_timer_ok u" and "0 < n"
  shows "ee_unit_run ce n (u, r) =
    ee_unit_run ce n (ee_timer_reset (fst (clock_source (tm_val (tu_mode u)))) u, r)"
  using assms(2) ee_timer_tick_latched[OF assms(1), of ce r]
  by (cases n) (simp_all add: ee_unit_run_def)

lemma ee_unit_run_Suc:
  "ee_unit_run ce (Suc n) s = bind_res (ee_unit_run ce n s) (\<lambda>(u, r). ee_timer_tick ce u r)"
  unfolding ee_unit_run_def by (rule repeat_res_Suc_right)

lemma tim_key_insert_twice [simp]:
  "ee_stat_insert_field f x (ee_stat_insert_field f x r) = ee_stat_insert_field f x r"
  by (simp add: ee_stat_insert_field_def)

text \<open>Without zero return the unit runs freely.\<close>

definition free_irq :: "uword \<Rightarrow> uword \<Rightarrow> nat \<Rightarrow> bool" where
  "free_irq v cmp n \<longleftrightarrow>
     bit v 8 \<and> (\<exists>m\<in>{1..n}. wrapped 65535 (m div prescale_of v) = unat cmp) \<or>
     bit v 9 \<and> 65535 < n div prescale_of v"

lemma free_irq_Suc:
  "free_irq v cmp (Suc n) \<longleftrightarrow>
     free_irq v cmp n \<or> bit v 8 \<and> wrapped 65535 (Suc n div prescale_of v) = unat cmp \<or>
     bit v 9 \<and> 65535 < Suc n div prescale_of v"
proof -
  have "{1..Suc n} = insert (Suc n) {1..n}" by auto
  then show ?thesis unfolding free_irq_def by (auto intro: less_div_Suc)
qed

lemma ee_unit_free:
  assumes u: "unit_at v 0 0 u" and v: "counts_on ce v" "\<not> gate_blocks v" "\<not> bit v 6"
    and ov: "\<not> tc_overflowed (tu_count u)"
  shows "\<exists>u'. ee_unit_run ce n (u, r) =
      Inr (u', if free_irq v (tu_compare u) n then ee_stat_insert_field (BF (9 + tu_id u) 1) 1 r else r) \<and>
    unit_at v n (wrapped 65535 (n div prescale_of v)) u' \<and> tu_id u' = tu_id u \<and> tu_compare u' = tu_compare u \<and>
    (tc_overflowed (tu_count u') \<longleftrightarrow> \<not> bit v 9 \<and> 65535 < n div prescale_of v)"
proof (induction n)
  case 0
  then show ?case using u ov by (simp add: ee_unit_run_def free_irq_def)
next
  case (Suc n)
  define p where "p = prescale_of v"
  obtain u1 where u1: "ee_unit_run ce n (u, r) =
      Inr (u1, if free_irq v (tu_compare u) n then ee_stat_insert_field (BF (9 + tu_id u) 1) 1 r else r)"
    "unit_at v n (wrapped 65535 (n div p)) u1" "tu_id u1 = tu_id u" "tu_compare u1 = tu_compare u"
    "tc_overflowed (tu_count u1) \<longleftrightarrow> \<not> bit v 9 \<and> 65535 < n div p"
    using Suc unfolding p_def by blast
  have a: "ee_counter.at_tick p n (wrapped 65535 (n div p)) (tu_count u1)"
    using u1(2) by (simp add: unit_at_def p_def)
  obtain c where c: "ee_count_increment 1 (tu_count u1) = Inr c"
    "ee_counter.at_tick p (Suc n) (wrapped 65535 (Suc n div p)) c"
    "65535 < n div p \<or> tc_overflowed c \<longleftrightarrow> tc_overflowed (tu_count u1) \<or> 65535 < Suc n div p"
    "tc_overflowed (tu_count u1) \<longrightarrow> tc_overflowed c"
    using ee_counter.free_step[OF a] by blast
  let ?u2 = "after_irq (u1\<lparr>tu_count := c\<rparr>)"
  have m: "tu_mode u1 = \<lparr>tm_val = v, tm_write_latch = False\<rparr>" using u1(2) by (simp add: unit_at_def)
  have z: "handle_timer_zret ?u2 = ?u2" using v(3) by (simp add: handle_timer_zret_def mode_bits m)
  have cv: "unat (tc_val c) = wrapped 65535 (Suc n div p)" using c(2) by (simp add: ee_counter.at_tick_def)
  have irq: "free_irq v (tu_compare u) n \<or> tim_irq (u1\<lparr>tu_count := c\<rparr>) \<longleftrightarrow> free_irq v (tu_compare u) (Suc n)"
    using c(3) u1(4,5) cv unfolding free_irq_Suc p_def[symmetric]
    by (auto simp: tim_irq_def m word_unat_eq_iff free_irq_def p_def[symmetric])
  have "ee_unit_run ce (Suc n) (u, r) =
      Inr (?u2, if free_irq v (tu_compare u) (Suc n) then ee_stat_insert_field (BF (9 + tu_id u) 1) 1 r else r)"
    unfolding ee_unit_run_Suc u1(1) irq[symmetric]
    using ee_timer_tick_running[OF u1(2) v(1,2) c(1)] by (simp add: z u1(3))
  moreover have "unit_at v (Suc n) (wrapped 65535 (Suc n div p)) ?u2"
    using u1(2) c(2) by (simp add: unit_at_def ee_counter.at_tick_def p_def after_irq_def ee_counting_def)
  moreover have "tc_overflowed (tu_count ?u2) \<longleftrightarrow> \<not> bit v 9 \<and> 65535 < Suc n div p"
    using c(3,4) u1(5) by (auto simp: after_irq_def m intro: less_div_Suc)
  ultimately show ?case using u1(3,4) unfolding p_def[symmetric] by auto
qed

text \<open>With zero return the count repeats with the period of the compare value.\<close>

lemma ee_unit_return:
  assumes u: "unit_at v 0 0 u" and v: "counts_on ce v" "\<not> gate_blocks v" "bit v 6"
    and ov: "\<not> tc_overflowed (tu_count u)" and k: "k = unat (tu_compare u)" "0 < k" "k \<le> 65535"
  shows "\<exists>u'. ee_unit_run ce n (u, r) =
      Inr (u', if bit v 8 \<and> prescale_of v * k \<le> n then ee_stat_insert_field (BF (9 + tu_id u) 1) 1 r else r) \<and>
    unit_at v n (n div prescale_of v mod k) u' \<and> tu_id u' = tu_id u \<and> tu_compare u' = tu_compare u \<and>
    \<not> tc_overflowed (tu_count u')"
proof (induction n)
  case 0
  have "0 < prescale_of v" using clock_source_pos[of v] by (simp add: prescale_of_def)
  then show ?case using u ov k(2) by (simp add: ee_unit_run_def)
next
  case (Suc n)
  define p where "p = prescale_of v"
  obtain u1 where u1: "ee_unit_run ce n (u, r) =
      Inr (u1, if bit v 8 \<and> p * k \<le> n then ee_stat_insert_field (BF (9 + tu_id u) 1) 1 r else r)"
    "unit_at v n (n div p mod k) u1" "tu_id u1 = tu_id u" "tu_compare u1 = tu_compare u"
    "\<not> tc_overflowed (tu_count u1)"
    using Suc unfolding p_def by blast
  have a: "ee_counter.at_tick p n (n div p mod k) (tu_count u1)"
    using u1(2) by (simp add: unit_at_def p_def)
  have p: "0 < p" using a by (rule ee_counter.at_tick_pos)
  obtain c where c: "ee_count_increment 1 (tu_count u1) = Inr c" "\<not> tc_overflowed c"
    "if Suc n mod (p * k) = 0 then ee_counter.at_tick p (Suc n) k c
     else ee_counter.at_tick p (Suc n) (Suc n div p mod k) c \<and> Suc n div p mod k \<noteq> k"
    using ee_counter.return_step[OF a k(2,3)] u1(5) by blast
  have m: "tu_mode u1 = \<lparr>tm_val = v, tm_write_latch = False\<rparr>" using u1(2) by (simp add: unit_at_def)
  have hit: "tc_val c = tu_compare u \<longleftrightarrow> Suc n mod (p * k) = 0"
    using c(3) k(1) by (auto simp: ee_counter.at_tick_def word_unat_eq_iff split: if_splits)
  have irq: "(bit v 8 \<and> p * k \<le> n) \<or> tim_irq (u1\<lparr>tu_count := c\<rparr>) \<longleftrightarrow> bit v 8 \<and> p * k \<le> Suc n"
  proof -
    have t: "tim_irq (u1\<lparr>tu_count := c\<rparr>) \<longleftrightarrow> bit v 8 \<and> Suc n mod (p * k) = 0"
      by (simp add: tim_irq_def m u1(4) c(2) hit)
    show ?thesis unfolding t using p k(2) le_Suc_mod[of "p * k" n] by auto
  qed
  let ?u2 = "handle_timer_zret (after_irq (u1\<lparr>tu_count := c\<rparr>))"
  have "ee_unit_run ce (Suc n) (u, r) =
      Inr (?u2, if bit v 8 \<and> p * k \<le> Suc n then ee_stat_insert_field (BF (9 + tu_id u) 1) 1 r else r)"
    unfolding ee_unit_run_Suc u1(1) irq[symmetric]
    using ee_timer_tick_running[OF u1(2) v(1,2) c(1)] by (simp add: u1(3))
  moreover have "unit_at v (Suc n) (Suc n div p mod k) ?u2"
  proof (cases "Suc n mod (p * k) = 0")
    case True
    then have "Suc n div p mod k = 0" using p by (simp add: mod_mult2_eq)
    then show ?thesis
      using True c(3) hit u1(2,4) v(3)
      by (simp add: unit_at_def ee_counter.at_tick_def p_def after_irq_def handle_timer_zret_def mode_bits m
          ee_counting_def)
  next
    case False
    then show ?thesis
      using c(3) hit u1(2,4)
      by (simp add: unit_at_def ee_counter.at_tick_def p_def after_irq_def handle_timer_zret_def ee_counting_def)
  qed
  moreover have "\<not> tc_overflowed (tu_count ?u2)"
    using c(2) by (simp add: handle_timer_zret_def after_irq_def)
  ultimately show ?case using u1(3,4) unfolding p_def[symmetric] by auto
qed

section \<open>The four units together\<close>

definition steady :: "event_type \<Rightarrow> ee_timer \<Rightarrow> bool" where
  "steady ce u \<longleftrightarrow> ee_timer_ok u \<and> \<not> (counts_on ce (tm_val (tu_mode u)) \<and> gate_blocks (tm_val (tu_mode u)))"

lemma flag_raise_tim:
  "i < 4 \<Longrightarrow> bit (intc_stat (ee_stat_insert_field (BF (9 + i) (Suc 0)) 1 r)) k \<longleftrightarrow> bit (intc_stat r) k \<or> k = 9 + i"
  by (auto simp: ee_stat_insert_field_def bit_raise dest: bit_imp_le_length)

lemma steady_tick:
  assumes "steady ce u"
  shows "\<exists>u' b. steady ce u' \<and> 9 + tu_id u' = 9 + tu_id u \<and>
    (\<forall>r. \<exists>r'. ee_timer_tick ce u r = Inr (u', r') \<and> intc_mask r' = intc_mask r \<and>
      (\<forall>k. bit (intc_stat r') k \<longleftrightarrow> bit (intc_stat r) k \<or> b \<and> k = 9 + tu_id u))"
proof -
  let ?u1 = "ee_timer_reset (fst (clock_source (tm_val (tu_mode u)))) u"
  have ok: "ee_timer_ok u" and id: "tu_id u < 4" using assms by (simp_all add: steady_def ee_timer_ok_def)
  obtain c where c: "ee_count_increment 1 (tu_count ?u1) = Inr c"
    using ee_counter.inc ee_timer_reset_ok[OF ok clock_source_pos] by (auto simp: ee_timer_ok_def)
  let ?on = "counts_on ce (tm_val (tu_mode u))" and ?u2 = "?u1\<lparr>tu_count := c\<rparr>"
  let ?u' = "if ?on then handle_timer_zret (after_irq ?u2) else ?u1"
  let ?r' = "\<lambda>r. if ?on \<and> tim_irq ?u2 then ee_stat_insert_field (BF (9 + tu_id u) 1) 1 r else r"
  have t: "ee_timer_tick ce u r = Inr (?u', ?r' r)" for r
    using assms by (auto simp: ee_timer_tick_eq[OF ok] c steady_def)
  have "bit (intc_stat (?r' r)) k \<longleftrightarrow> bit (intc_stat r) k \<or> (?on \<and> tim_irq ?u2) \<and> k = 9 + tu_id u" for r k
    using flag_raise_tim[OF id] by auto
  moreover have "steady ce ?u' \<and> tu_id ?u' = tu_id u"
    using ee_timer_tick_cases[OF ok, of ce] assms t by (auto simp: steady_def)
  moreover have "intc_mask (?r' r) = intc_mask r" for r by (simp add: ee_stat_insert_field_def)
  ultimately show ?thesis using t by (intro exI[of _ ?u'] exI[of _ "?on \<and> tim_irq ?u2"]) simp
qed

interpretation ee_bank: timer_bank "ee_timer_tick ce" "ee_tick_units ce" "\<lambda>u. 9 + tu_id u"
  "\<lambda>r. bit (intc_stat r)" intc_mask "steady ce" for ce
  by unfold_locales (simp, simp, rule steady_tick)

text \<open>What an event of \<open>n\<close> ticks does to a unit whose mode was just written.\<close>

definition tim_count :: "uword \<Rightarrow> uword \<Rightarrow> nat \<Rightarrow> nat" where
  "tim_count v cmp n =
     (let m = n div prescale_of v in if bit v 6 then m mod unat cmp else wrapped 65535 m)"

definition tim_raised :: "uword \<Rightarrow> uword \<Rightarrow> nat \<Rightarrow> bool" where
  "tim_raised v cmp n \<longleftrightarrow>
     (if bit v 6 then bit v 8 \<and> prescale_of v * unat cmp \<le> n else free_irq v cmp n)"

definition programmed :: "event_type \<Rightarrow> uword \<Rightarrow> ee_timer \<Rightarrow> bool" where
  "programmed ce v u \<longleftrightarrow>
     tm_write_latch (tu_mode u) \<and> tm_val (tu_mode u) = v \<and> counts_on ce v \<and> \<not> tc_overflowed (tu_count u) \<and>
     (bit v 6 \<longrightarrow> 0 < unat (tu_compare u) \<and> unat (tu_compare u) \<le> 65535)"

lemma ee_programmed_run:
  assumes u: "programmed ce v u" "steady ce u" and n: "0 < n"
  shows "\<exists>u' r1. ee_unit_run ce n (u, r) = Inr (u', r1) \<and>
    unat (tc_val (tu_count u')) = tim_count v (tu_compare u) n \<and>
    (bit (intc_stat r1) (9 + tu_id u) \<longleftrightarrow> bit (intc_stat r) (9 + tu_id u) \<or> tim_raised v (tu_compare u) n)"
proof -
  let ?u = "ee_timer_reset (fst (clock_source v)) u"
  have v: "tm_val (tu_mode u) = v" "counts_on ce v" and g: "\<not> gate_blocks v" and ok: "ee_timer_ok u"
    using u by (auto simp: programmed_def steady_def)
  have at: "unit_at v 0 0 ?u" using unit_at_reset[OF ok _ v(1)] u(1) by (simp add: programmed_def)
  have ov: "\<not> tc_overflowed (tu_count ?u)"
    using u(1) by (simp add: programmed_def ee_timer_reset_def reset_prescale_def)
  have run: "ee_unit_run ce n (u, r) = ee_unit_run ce n (?u, r)"
    using ee_unit_run_latched[OF ok n] v(1) by simp
  have id: "tu_id u < 4" using ok by (simp add: ee_timer_ok_def)
  show ?thesis
  proof (cases "bit v 6")
    case True
    have k: "0 < unat (tu_compare ?u)" "unat (tu_compare ?u) \<le> 65535"
      using True u(1) by (simp_all add: programmed_def)
    obtain u' where u': "ee_unit_run ce n (?u, r) = Inr (u',
        if bit v 8 \<and> prescale_of v * unat (tu_compare u) \<le> n then ee_stat_insert_field (BF (9 + tu_id u) 1) 1 r else r)"
      "unit_at v n (n div prescale_of v mod unat (tu_compare u)) u'"
      using ee_unit_return[OF at v(2) g True ov refl k, of n r] by auto
    show ?thesis
      unfolding run u'(1) using flag_raise_tim[OF id] True unit_at_val[OF u'(2)]
      by (auto simp: tim_count_def tim_raised_def Let_def)
  next
    case False
    obtain u' where u': "ee_unit_run ce n (?u, r) = Inr (u',
        if free_irq v (tu_compare u) n then ee_stat_insert_field (BF (9 + tu_id u) 1) 1 r else r)"
      "unit_at v n (wrapped 65535 (n div prescale_of v)) u'"
      using ee_unit_free[OF at v(2) g False ov, of n r] by auto
    show ?thesis
      unfolding run u'(1) using flag_raise_tim[OF id] False unit_at_val[OF u'(2)]
      by (simp add: tim_count_def tim_raised_def Let_def)
  qed
qed

lemma ee_tick_timer_units: "ee_tick_timer ce = (\<lambda>(us, r). ee_tick_units ce us r)"
  by (auto simp: ee_tick_timer_def)

lemma ee_timers_event:
  assumes us: "list_all (steady ce) us" "distinct (map tu_id us)" and n: "0 < n"
    and i: "i < length us" "programmed ce v (us ! i)"
  shows "\<exists>us' r'. repeat_res n (ee_tick_timer ce) (us, r) = Inr (us', r') \<and> length us' = length us \<and>
    intc_mask r' = intc_mask r \<and> unat (tc_val (tu_count (us' ! i))) = tim_count v (tu_compare (us ! i)) n \<and>
    (bit (intc_stat r') (9 + tu_id (us ! i)) \<longleftrightarrow>
       bit (intc_stat r) (9 + tu_id (us ! i)) \<or> tim_raised v (tu_compare (us ! i)) n)"
proof -
  have d: "distinct (map (\<lambda>u. 9 + tu_id u) us)" using us(2) by (simp add: distinct_map inj_on_def)
  obtain us' r' r1 where r: "repeat_res n (ee_tick_timer ce) (us, r) = Inr (us', r')" "length us' = length us"
    "intc_mask r' = intc_mask r" "ee_unit_run ce n (us ! i, r) = Inr (us' ! i, r1)"
    "bit (intc_stat r1) (9 + tu_id (us ! i)) = bit (intc_stat r') (9 + tu_id (us ! i))"
    using ee_bank.bank_run[OF us(1) d, of n r] i(1) unfolding ee_tick_timer_units[symmetric] ee_unit_run_def
    by blast
  have "steady ce (us ! i)" using us(1) i(1) by (simp add: list_all_length)
  from ee_programmed_run[OF i(2) this n, of r] show ?thesis using r by auto
qed

section \<open>How the EE starts a timer\<close>

text \<open>
  A word write to the mode register from the EE keeps the old bits instead of the new ones.  The
  byte and halfword writes are those of every word register: they replace their lane.
\<close>

definition ee_mode_bus_write_uhword :: "nat \<Rightarrow> uhword \<Rightarrow> timer_mode \<Rightarrow> timer_mode res" where
  "ee_mode_bus_write_uhword offset v m =
     (if offset div 2 \<ge> 2 then Inl Invalid_offset
      else Inr (m\<lparr>tm_val := put_lane (offset div 2) v (tm_val m)\<rparr>))"

definition ee_mode_bus_write_ubyte :: "nat \<Rightarrow> ubyte \<Rightarrow> timer_mode \<Rightarrow> timer_mode res" where
  "ee_mode_bus_write_ubyte offset v m =
     (if offset \<ge> 4 then Inl Invalid_offset
      else Inr (m\<lparr>tm_val := put_lane offset v (tm_val m)\<rparr>))"

text \<open>
  What can happen to the timers: a tick of a clock, and a write of the EE to a register of unit
  \<open>i\<close>.  The count and compare registers are plain word registers, and a write of any width
  leaves some word in them.
\<close>

datatype timer_access =
    Tick event_type
  | Mode_uword nat uword
  | Mode_uhword nat nat uhword
  | Mode_ubyte nat nat ubyte
  | Count_any nat uword
  | Compare_any nat uword

definition at_timer :: "nat \<Rightarrow> (ee_timer \<Rightarrow> ee_timer res) \<Rightarrow> ee_timer list \<times> ee_intc \<Rightarrow> (ee_timer list \<times> ee_intc) res" where
  "at_timer i f s =
     (if i < length (fst s) then bind_res (f (fst s ! i)) (\<lambda>u. Inr ((fst s)[i := u], snd s))
      else Inl Out_of_bounds)"

fun access_timer :: "timer_access \<Rightarrow> ee_timer list \<times> ee_intc \<Rightarrow> (ee_timer list \<times> ee_intc) res" where
  "access_timer (Tick ce) s = ee_tick_timer ce s"
| "access_timer (Mode_uword i v) s =
     at_timer i (\<lambda>u. Inr (u\<lparr>tu_mode := ee_mode_bus_write Ee_context v (tu_mode u)\<rparr>)) s"
| "access_timer (Mode_uhword i off v) s =
     at_timer i (\<lambda>u. bind_res (ee_mode_bus_write_uhword off v (tu_mode u)) (\<lambda>m. Inr (u\<lparr>tu_mode := m\<rparr>))) s"
| "access_timer (Mode_ubyte i off v) s =
     at_timer i (\<lambda>u. bind_res (ee_mode_bus_write_ubyte off v (tu_mode u)) (\<lambda>m. Inr (u\<lparr>tu_mode := m\<rparr>))) s"
| "access_timer (Count_any i v) s =
     at_timer i (\<lambda>u. Inr (u\<lparr>tu_count := (tu_count u)\<lparr>tc_val := v\<rparr>\<rparr>)) s"
| "access_timer (Compare_any i v) s = at_timer i (\<lambda>u. Inr (u\<lparr>tu_compare := v\<rparr>)) s"

fun timer_accesses :: "timer_access list \<Rightarrow> ee_timer list \<times> ee_intc \<Rightarrow> (ee_timer list \<times> ee_intc) res" where
  "timer_accesses [] s = Inr s"
| "timer_accesses (a # as) s = bind_res (access_timer a s) (timer_accesses as)"

text \<open>A narrow write of a one to the enable bit of unit \<open>i\<close>.\<close>

fun starts_timer :: "nat \<Rightarrow> timer_access \<Rightarrow> bool" where
  "starts_timer i (Mode_uhword j off v) \<longleftrightarrow> j = i \<and> off div 2 = 0 \<and> bit v 7"
| "starts_timer i (Mode_ubyte j off v) \<longleftrightarrow> j = i \<and> off = 0 \<and> bit v 7"
| "starts_timer i _ \<longleftrightarrow> False"

definition enabled :: "ee_timer \<Rightarrow> bool" where
  "enabled u \<longleftrightarrow> bit (tm_val (tu_mode u)) 7"

lemma enabled_word_write:
  "bit (tm_val (ee_mode_bus_write Ee_context v m)) 7 = bit (tm_val m) 7"
proof -
  have "bit (0xFFFFF3FF :: uword) 7" "\<not> bit (0xC00 :: uword) 7"
    by (simp_all add: bit_numeral_rec)
  then show ?thesis by (simp add: ee_mode_bus_write_def Let_def bit_simps)
qed

lemma enabled_uhword_write:
  "ee_mode_bus_write_uhword off v m = Inr m' \<Longrightarrow>
   bit (tm_val m') 7 = (off div 2 = 0 \<and> bit v 7 \<or> bit (tm_val m) 7 \<and> \<not> (off div 2 = 0 \<and> \<not> bit v 7))"
  by (auto simp: ee_mode_bus_write_uhword_def bit_put_lane split: if_splits)

lemma enabled_ubyte_write:
  "ee_mode_bus_write_ubyte off v m = Inr m' \<Longrightarrow>
   bit (tm_val m') 7 = (off = 0 \<and> bit v 7 \<or> bit (tm_val m) 7 \<and> \<not> (off = 0 \<and> \<not> bit v 7))"
  by (cases off) (auto simp: ee_mode_bus_write_ubyte_def bit_put_lane split: if_splits)

text \<open>Ticks leave the mode alone, and those of a disabled unit do not reach the interrupts.\<close>

lemma timer_parts_keep_mode:
  "tm_val (tu_mode (ee_timer_reset p u)) = tm_val (tu_mode u)"
  "tm_val (tu_mode (handle_timer_zret u)) = tm_val (tu_mode u)"
  "handle_timer_interrupt u r = Inr (u', r') \<Longrightarrow> tm_val (tu_mode u') = tm_val (tu_mode u)"
  by (auto simp: ee_timer_reset_def handle_timer_zret_def handle_timer_interrupt_def Let_def
      split: if_splits prod.splits)

lemma ee_timer_tick_mode:
  assumes "ee_timer_tick ce u r = Inr (u', r')"
  shows "tm_val (tu_mode u') = tm_val (tu_mode u)"
proof -
  obtain p e where p: "ee_get_properties (tu_mode u) = Inr (p, e)"
    using ee_get_properties_eq by (metis surj_pair)
  let ?u1 = "ee_timer_reset p u"
  show ?thesis
  proof (cases "mode_field TIM_CUE (tu_mode ?u1) = 0 \<or> ce \<noteq> e")
    case True
    then show ?thesis using assms p timer_parts_keep_mode(1)[of p u] by (auto simp: ee_timer_tick_def Let_def)
  next
    case False
    then obtain c u2 r2 where "handle_timer_interrupt (?u1\<lparr>tu_count := c\<rparr>) r = Inr (u2, r2)"
      "u' = handle_timer_zret u2"
      using assms p by (auto simp: ee_timer_tick_def Let_def split: if_splits prod.splits)
    then show ?thesis
      using timer_parts_keep_mode(3)[of "?u1\<lparr>tu_count := c\<rparr>" r u2 r2] by (simp add: timer_parts_keep_mode(1,2))
  qed
qed

lemma ee_timer_tick_disabled:
  "\<not> enabled u \<Longrightarrow> ee_timer_tick ce u r = Inr (u', r') \<Longrightarrow> r' = r"
  by (auto simp: ee_timer_tick_def enabled_def ee_get_properties_eq mode_bits ee_timer_reset_def Let_def
      split: if_splits prod.splits)

lemma ee_tick_units_modes:
  "ee_tick_units ce us r = Inr (us', r') \<Longrightarrow>
   length us' = length us \<and> (\<forall>i<length us. enabled (us' ! i) = enabled (us ! i)) \<and>
   (list_all (\<lambda>u. \<not> enabled u) us \<longrightarrow> r' = r)"
proof (induction us arbitrary: r us' r')
  case (Cons u us)
  then obtain u' r1 us1 where t: "ee_timer_tick ce u r = Inr (u', r1)"
    "ee_tick_units ce us r1 = Inr (us1, r')" and us': "us' = u' # us1"
    by (auto split: prod.splits)
  from Cons.IH[OF t(2)] show ?case
    using ee_timer_tick_mode[OF t(1)] ee_timer_tick_disabled[OF _ t(1)]
    by (auto simp: us' nth_Cons enabled_def split: nat.splits)
qed simp

text \<open>One access: a unit enabled after it was enabled before or has just been started.\<close>

lemma at_timer_enabled:
  assumes "at_timer j f (us, r) = Inr (us', r')"
    and "\<And>u u'. f u = Inr u' \<Longrightarrow> enabled u' = (if starts then True else enabled u \<and> \<not> stops)"
  shows "length us' = length us \<and> r' = r \<and>
    (\<forall>i<length us. enabled (us' ! i) = (if i = j then starts \<or> enabled (us ! i) \<and> \<not> stops else enabled (us ! i)))"
  using assms by (auto simp: at_timer_def nth_list_update split: if_splits)

fun stops_timer :: "nat \<Rightarrow> timer_access \<Rightarrow> bool" where
  "stops_timer i (Mode_uhword j off v) \<longleftrightarrow> j = i \<and> off div 2 = 0 \<and> \<not> bit v 7"
| "stops_timer i (Mode_ubyte j off v) \<longleftrightarrow> j = i \<and> off = 0 \<and> \<not> bit v 7"
| "stops_timer i _ \<longleftrightarrow> False"

lemma timer_access_enabled:
  assumes "access_timer a (us, r) = Inr (us', r')"
  shows "length us' = length us \<and>
    (\<forall>i<length us. enabled (us' ! i) \<longleftrightarrow> starts_timer i a \<or> enabled (us ! i) \<and> \<not> stops_timer i a) \<and>
    (list_all (\<lambda>u. \<not> enabled u) us \<longrightarrow> r' = r)"
proof (cases a)
  case (Tick ce)
  then show ?thesis using assms ee_tick_units_modes[of ce us r us' r'] by (simp add: ee_tick_timer_def)
next
  case (Mode_uword j v)
  have "length us' = length us \<and> r' = r \<and> (\<forall>i<length us. enabled (us' ! i) =
      (if i = j then False \<or> enabled (us ! i) \<and> \<not> False else enabled (us ! i)))"
    by (rule at_timer_enabled[OF assms[unfolded Mode_uword access_timer.simps]])
      (auto simp: enabled_def enabled_word_write)
  then show ?thesis by (simp add: Mode_uword)
next
  case (Mode_uhword j off v)
  have "length us' = length us \<and> r' = r \<and> (\<forall>i<length us. enabled (us' ! i) =
      (if i = j then off div 2 = 0 \<and> bit v 7 \<or> enabled (us ! i) \<and> \<not> (off div 2 = 0 \<and> \<not> bit v 7) else enabled (us ! i)))"
    by (rule at_timer_enabled[OF assms[unfolded Mode_uhword access_timer.simps]])
      (auto simp: enabled_def dest!: enabled_uhword_write)
  then show ?thesis by (auto simp: Mode_uhword)
next
  case (Mode_ubyte j off v)
  have "length us' = length us \<and> r' = r \<and> (\<forall>i<length us. enabled (us' ! i) =
      (if i = j then off = 0 \<and> bit v 7 \<or> enabled (us ! i) \<and> \<not> (off = 0 \<and> \<not> bit v 7) else enabled (us ! i)))"
    by (rule at_timer_enabled[OF assms[unfolded Mode_ubyte access_timer.simps]])
      (auto simp: enabled_def dest!: enabled_ubyte_write)
  then show ?thesis by (auto simp: Mode_ubyte)
next
  case (Count_any j v)
  have "length us' = length us \<and> r' = r \<and> (\<forall>i<length us. enabled (us' ! i) =
      (if i = j then False \<or> enabled (us ! i) \<and> \<not> False else enabled (us ! i)))"
    by (rule at_timer_enabled[OF assms[unfolded Count_any access_timer.simps]]) (auto simp: enabled_def)
  then show ?thesis by (simp add: Count_any)
next
  case (Compare_any j v)
  have "length us' = length us \<and> r' = r \<and> (\<forall>i<length us. enabled (us' ! i) =
      (if i = j then False \<or> enabled (us ! i) \<and> \<not> False else enabled (us ! i)))"
    by (rule at_timer_enabled[OF assms[unfolded Compare_any access_timer.simps]]) (auto simp: enabled_def)
  then show ?thesis by (simp add: Compare_any)
qed

text \<open>A unit is enabled exactly when its last narrow write to the lane of the bit enabled it.\<close>

fun last_start :: "nat \<Rightarrow> bool \<Rightarrow> timer_access list \<Rightarrow> bool" where
  "last_start i b [] \<longleftrightarrow> b"
| "last_start i b (a # as) \<longleftrightarrow> last_start i (starts_timer i a \<or> b \<and> \<not> stops_timer i a) as"

lemma last_start_mono: "last_start i b as \<Longrightarrow> b \<or> (\<exists>a\<in>set as. starts_timer i a)"
  by (induction as arbitrary: b) force+

lemma timer_accesses_enabled:
  "timer_accesses as (us, r) = Inr (us', r') \<Longrightarrow>
   length us' = length us \<and> (\<forall>i<length us. enabled (us' ! i) \<longleftrightarrow> last_start i (enabled (us ! i)) as)"
proof (induction as arbitrary: us r)
  case (Cons a as)
  then obtain us1 r1 where a: "access_timer a (us, r) = Inr (us1, r1)" "timer_accesses as (us1, r1) = Inr (us', r')"
    by (auto split: prod.splits)
  from Cons.IH[OF a(2)] timer_access_enabled[OF a(1)] show ?case by simp
qed simp

lemma timer_accesses_silent:
  "timer_accesses as (us, r) = Inr (us', r') \<Longrightarrow> list_all (\<lambda>u. \<not> enabled u) us \<Longrightarrow>
   (\<forall>a\<in>set as. \<forall>i. \<not> starts_timer i a) \<Longrightarrow> r' = r"
proof (induction as arbitrary: us r)
  case (Cons a as)
  then obtain us1 r1 where a: "access_timer a (us, r) = Inr (us1, r1)" "timer_accesses as (us1, r1) = Inr (us', r')"
    by (auto split: prod.splits)
  have "list_all (\<lambda>u. \<not> enabled u) us1" "r1 = r"
    using timer_access_enabled[OF a(1)] Cons.prems(2,3) by (auto simp: list_all_length)
  then show ?case using Cons.IH[OF a(2)] Cons.prems(3) by simp
qed simp

lemma reset_timers: "length REeTimers_new = 4" "i < 4 \<Longrightarrow> \<not> enabled (REeTimers_new ! i)"
  "list_all (\<lambda>u. \<not> enabled u) REeTimers_new"
  by (auto simp: REeTimers_new_def EeTimersUnit_new_def enabled_def nth_Cons split: nat.splits)

text \<open>From reset: the enable bits, and silence when no narrow write has started a unit.\<close>

lemma timers_from_reset:
  assumes "timer_accesses as (REeTimers_new, r) = Inr (us, r')"
  shows "length us = 4 \<and>
    (\<forall>i<4. mode_field TIM_CUE (tu_mode (us ! i)) \<noteq> 0 \<longleftrightarrow> last_start i False as) \<and>
    ((\<forall>a\<in>set as. \<forall>i. \<not> starts_timer i a) \<longrightarrow> r' = r)"
  using timer_accesses_enabled[OF assms] timer_accesses_silent[OF assms reset_timers(3)]
  by (simp add: reset_timers mode_bits enabled_def[symmetric])

end
