(* ===== verification/IopTimers.thy ===== *)
theory IopTimers
  imports EeTimers
begin

text \<open>
  The six timers of the IOP: three 16-bit and three 32-bit counters, the mode register with its
  write latch, and the controller, which counts on time and H-blank events, returns the count to
  zero on overflow or on the target, and raises the timer's bit in the interrupt controller.
\<close>

section \<open>The registers of a unit\<close>

record iop_count =
  ic_val :: uword
  ic_using_32b_mode :: bool
  ic_overflowed :: bool
  ic_prescale_target :: int
  ic_prescale_count :: int

definition is_32b_count_mode :: "int \<Rightarrow> bool res" where
  "is_32b_count_mode unit_id =
     (if unit_id \<ge> 0 \<and> unit_id < 3 then Inr False
      else if unit_id \<ge> 3 \<and> unit_id < 6 then Inr True
      else Inl Runtime_error)"

definition IopTimersUnitRegister_Count_new :: "bool \<Rightarrow> iop_count" where
  "IopTimersUnitRegister_Count_new b32_mode =
     \<lparr>ic_val = 0, ic_using_32b_mode = b32_mode, ic_overflowed = False, ic_prescale_target = 1,
      ic_prescale_count = 0\<rparr>"

definition increment_16 :: "uhword \<Rightarrow> iop_count \<Rightarrow> iop_count res" where
  "increment_16 v c =
     (let prescale_count = ic_prescale_count c + uint v in
      if prescale_count \<ge> ic_prescale_target c then
        bind_res (prescale_loop (ic_prescale_target c) prescale_count (ic_val c)) (\<lambda>(p, count).
          Inr (if count > 0xFFFF
               then c\<lparr>ic_prescale_count := p, ic_val := count mod 0xFFFF, ic_overflowed := True\<rparr>
               else c\<lparr>ic_prescale_count := p, ic_val := count\<rparr>))
      else Inr (c\<lparr>ic_prescale_count := prescale_count\<rparr>))"

definition increment_32 :: "uword \<Rightarrow> iop_count \<Rightarrow> iop_count res" where
  "increment_32 v c =
     (let prescale_count = ic_prescale_count c + sint v in
      if prescale_count \<ge> ic_prescale_target c then
        bind_res (prescale_loop (ic_prescale_target c) prescale_count (ucast (ic_val c) :: udword)) (\<lambda>(p, count).
          Inr (if count > 0xFFFFFFFF
               then c\<lparr>ic_prescale_count := p, ic_val := ucast (count mod 0xFFFFFFFF), ic_overflowed := True\<rparr>
               else c\<lparr>ic_prescale_count := p, ic_val := ucast count\<rparr>))
      else Inr (c\<lparr>ic_prescale_count := prescale_count\<rparr>))"

definition iop_count_increment :: "uword \<Rightarrow> iop_count \<Rightarrow> iop_count res" where
  "iop_count_increment v c =
     (if \<not> ic_using_32b_mode c then increment_16 (ucast v) c else increment_32 v c)"

definition iop_is_overflowed_and_reset :: "iop_count \<Rightarrow> bool \<times> iop_count" where
  "iop_is_overflowed_and_reset c = (ic_overflowed c, c\<lparr>ic_overflowed := False\<rparr>)"

definition iop_reset_prescale :: "int \<Rightarrow> iop_count \<Rightarrow> iop_count" where
  "iop_reset_prescale prescale_target c =
     c\<lparr>ic_val := 0, ic_prescale_target := prescale_target, ic_prescale_count := 0\<rparr>"

definition ITIM_SYNC_ENABLE :: bitfield where [word_defs]: "ITIM_SYNC_ENABLE = BF 0 1"
definition ITIM_RESET_MODE :: bitfield where [word_defs]: "ITIM_RESET_MODE = BF 3 1"
definition ITIM_IRQ_ON_TARGET :: bitfield where [word_defs]: "ITIM_IRQ_ON_TARGET = BF 4 1"
definition ITIM_IRQ_ON_OF :: bitfield where [word_defs]: "ITIM_IRQ_ON_OF = BF 5 1"
definition ITIM_IRQ_REPEAT :: bitfield where [word_defs]: "ITIM_IRQ_REPEAT = BF 6 1"
definition ITIM_IRQ_TOGGLE :: bitfield where [word_defs]: "ITIM_IRQ_TOGGLE = BF 7 1"
definition ITIM_EVENT_SRC :: bitfield where [word_defs]: "ITIM_EVENT_SRC = BF 8 1"
definition ITIM_PRESCALE0 :: bitfield where [word_defs]: "ITIM_PRESCALE0 = BF 9 1"
definition ITIM_IRQ_REQUEST :: bitfield where [word_defs]: "ITIM_IRQ_REQUEST = BF 10 1"
definition ITIM_REACH_TARGET :: bitfield where [word_defs]: "ITIM_REACH_TARGET = BF 11 1"
definition ITIM_REACH_OF :: bitfield where [word_defs]: "ITIM_REACH_OF = BF 12 1"
definition ITIM_PRESCALE1 :: bitfield where [word_defs]: "ITIM_PRESCALE1 = BF 13 2"

definition mode_insert :: "bitfield \<Rightarrow> uword \<Rightarrow> timer_mode \<Rightarrow> timer_mode" where
  "mode_insert f v m = m\<lparr>tm_val := insert_into f (tm_val m) v\<rparr>"

definition iop_mode_bus_write_uhword :: "nat \<Rightarrow> uhword \<Rightarrow> timer_mode \<Rightarrow> timer_mode res" where
  "iop_mode_bus_write_uhword off v m =
     (if off \<noteq> 0 then Inl Runtime_error
      else Inr (m\<lparr>tm_val := put_lane off v (tm_val m), tm_write_latch := True\<rparr>))"

definition iop_mode_bus_write_uword :: "uword \<Rightarrow> timer_mode \<Rightarrow> timer_mode" where
  "iop_mode_bus_write_uword v m = m\<lparr>tm_val := v, tm_write_latch := True\<rparr>"

definition is_enabled :: "timer_mode \<Rightarrow> bool" where
  "is_enabled m \<longleftrightarrow> mode_field ITIM_IRQ_ON_OF m > 0 \<or> mode_field ITIM_IRQ_ON_TARGET m > 0"

definition iop_get_properties :: "nat \<Rightarrow> timer_mode \<Rightarrow> (int \<times> event_type) res" where
  "iop_get_properties unit_id m =
     (if unit_id > 5 then Inl Runtime_error
      else if unit_id < 3 then
        if mode_field ITIM_PRESCALE0 m > 0 then Inl Runtime_error
        else if mode_field ITIM_EVENT_SRC m = 0 then Inr (1, Time_type)
        else Inr (1, HBlank_type)
      else
        if mode_field ITIM_PRESCALE1 m > 0 then Inl Runtime_error
        else if mode_field ITIM_EVENT_SRC m = 0 then Inr (1, Time_type)
        else Inl Runtime_error)"

record iop_timer =
  iu_id :: nat
  iu_count :: iop_count
  iu_mode :: timer_mode
  iu_compare :: uword

definition IopTimersUnit_new :: "nat \<Rightarrow> iop_timer res" where
  "IopTimersUnit_new i =
     bind_res (is_32b_count_mode (int i)) (\<lambda>b32.
       Inr \<lparr>iu_id = i, iu_count = IopTimersUnitRegister_Count_new b32,
            iu_mode = \<lparr>tm_val = 0, tm_write_latch = False\<rparr>, iu_compare = 0\<rparr>)"

definition RIopTimers_new :: "iop_timer list res" where
  "RIopTimers_new =
     bind_res (IopTimersUnit_new 0) (\<lambda>unit_0. bind_res (IopTimersUnit_new 1) (\<lambda>unit_1.
     bind_res (IopTimersUnit_new 2) (\<lambda>unit_2. bind_res (IopTimersUnit_new 3) (\<lambda>unit_3.
     bind_res (IopTimersUnit_new 4) (\<lambda>unit_4. bind_res (IopTimersUnit_new 5) (\<lambda>unit_5.
       Inr [unit_0, unit_1, unit_2, unit_3, unit_4, unit_5]))))))"

section \<open>The controller\<close>

definition handle_timer_overflow :: "iop_timer \<Rightarrow> bool \<times> iop_timer" where
  "handle_timer_overflow u =
     (let (overflowed, c) = iop_is_overflowed_and_reset (iu_count u) in
      if overflowed then
        let c1 = (if mode_field ITIM_RESET_MODE (iu_mode u) = 0 then c\<lparr>ic_val := 0\<rparr> else c)
        in (True, u\<lparr>iu_count := c1, iu_mode := mode_insert ITIM_REACH_OF 1 (iu_mode u)\<rparr>)
      else (False, u\<lparr>iu_count := c\<rparr>))"

definition handle_timer_target :: "iop_timer \<Rightarrow> bool \<times> iop_timer" where
  "handle_timer_target u =
     (if ic_val (iu_count u) = iu_compare u then
        let c = (if mode_field ITIM_RESET_MODE (iu_mode u) > 0 then (iu_count u)\<lparr>ic_val := 0\<rparr> else iu_count u)
        in (True, u\<lparr>iu_count := c, iu_mode := mode_insert ITIM_REACH_TARGET 1 (iu_mode u)\<rparr>)
      else (False, u))"

definition raise_tmr :: "nat \<Rightarrow> iop_intc \<Rightarrow> iop_intc res" where
  "raise_tmr i r =
     (if i < length IOP_TMR_KEYS then Inr (iop_stat_insert_field (IOP_TMR_KEYS ! i) 1 r)
      else Inl Out_of_bounds)"

definition iop_handle_timer_interrupt ::
    "bool \<Rightarrow> bool \<Rightarrow> iop_timer \<Rightarrow> iop_intc \<Rightarrow> (iop_timer \<times> iop_intc) res" where
  "iop_handle_timer_interrupt has_overflowed has_reached_target u r =
     (if mode_field ITIM_IRQ_ON_TARGET (iu_mode u) \<noteq> 0 \<and> has_reached_target \<or>
         mode_field ITIM_IRQ_ON_OF (iu_mode u) \<noteq> 0 \<and> has_overflowed
      then
        if mode_field ITIM_IRQ_REPEAT (iu_mode u) = 0 then Inl Runtime_error
        else if mode_field ITIM_IRQ_TOGGLE (iu_mode u) \<noteq> 0 then Inl Runtime_error
        else
          let u1 = u\<lparr>iu_mode := mode_insert ITIM_IRQ_REQUEST 0 (iu_mode u)\<rparr> in
          if mode_field ITIM_IRQ_REQUEST (iu_mode u1) = 0
          then bind_res (raise_tmr (iu_id u1) r) (\<lambda>r1. Inr (u1, r1))
          else Inr (u1, r)
      else Inr (u, r))"

definition iop_timer_reset :: "int \<Rightarrow> iop_timer \<Rightarrow> iop_timer" where
  "iop_timer_reset prescale u =
     (if tm_write_latch (iu_mode u)
      then u\<lparr>iu_count := iop_reset_prescale prescale (iu_count u),
             iu_mode := (iu_mode u)\<lparr>tm_write_latch := False\<rparr>\<rparr>
      else u)"

definition iop_timer_tick :: "event_type \<Rightarrow> iop_timer \<Rightarrow> iop_intc \<Rightarrow> (iop_timer \<times> iop_intc) res" where
  "iop_timer_tick ce_type u r =
     bind_res (iop_get_properties (iu_id u) (iu_mode u)) (\<lambda>(prescale, event_type).
       let u1 = iop_timer_reset prescale u in
       if \<not> is_enabled (iu_mode u1) \<or> ce_type \<noteq> event_type then Inr (u1, r)
       else if mode_field ITIM_SYNC_ENABLE (iu_mode u1) > 0 then Inl Runtime_error
       else
         bind_res (iop_count_increment 1 (iu_count u1)) (\<lambda>c.
           let (has_overflowed, u2) = handle_timer_overflow (u1\<lparr>iu_count := c\<rparr>);
               (has_reached_target, u3) = handle_timer_target u2
           in iop_handle_timer_interrupt has_overflowed has_reached_target u3 r))"

fun iop_tick_units :: "event_type \<Rightarrow> iop_timer list \<Rightarrow> iop_intc \<Rightarrow> (iop_timer list \<times> iop_intc) res" where
  "iop_tick_units ce_type [] r = Inr ([], r)"
| "iop_tick_units ce_type (u # us) r =
     bind_res (iop_timer_tick ce_type u r) (\<lambda>(u', r1).
     bind_res (iop_tick_units ce_type us r1) (\<lambda>(us', r2). Inr (u' # us', r2)))"

definition iop_tick_timer ::
    "event_type \<Rightarrow> iop_timer list \<times> iop_intc \<Rightarrow> (iop_timer list \<times> iop_intc) res" where
  "iop_tick_timer ce_type s = iop_tick_units ce_type (fst s) (snd s)"

fun iop_timers_handle_event ::
    "('t \<Rightarrow> int) \<Rightarrow> 't controller_event \<Rightarrow> iop_timer list \<times> iop_intc \<Rightarrow> (iop_timer list \<times> iop_intc) res"
where
  "iop_timers_handle_event time_to_ticks (Time_event t) s =
     repeat_res (nat (time_to_ticks t)) (iop_tick_timer Time_type) s"
| "iop_timers_handle_event time_to_ticks (HBlank_event n) s =
     repeat_res (nat n) (iop_tick_timer HBlank_type) s"
| "iop_timers_handle_event time_to_ticks (VBlank_event n) s = Inl Runtime_error"

section \<open>The counters\<close>

definition iop_limit :: "bool \<Rightarrow> nat" where
  "iop_limit b32 = (if b32 then 4294967295 else 65535)"

definition iop_counting :: "bool \<Rightarrow> iop_count \<Rightarrow> bool" where
  "iop_counting b32 c \<longleftrightarrow>
     ic_using_32b_mode c = b32 \<and> 0 \<le> ic_prescale_count c \<and> ic_prescale_count c < ic_prescale_target c \<and>
     unat (ic_val c) \<le> iop_limit b32"

lemma count_step_32:
  fixes v :: uword
  shows "ucast v + 1 > (0xFFFFFFFF :: udword) \<longleftrightarrow> unat v = 4294967295"
    "unat (if ucast v + 1 > (0xFFFFFFFF :: udword) then ucast ((ucast v + 1 :: udword) mod 0xFFFFFFFF)
       else ucast (ucast v + 1 :: udword) :: uword) = (if unat v = 4294967295 then 1 else unat v + 1)"
proof -
  have "unat v < 2 ^ LENGTH(32)" by (rule unsigned_less)
  then have v: "unat v \<le> 4294967295" by simp
  then have s: "unat (ucast v + 1 :: udword) = unat v + 1"
    using v by (simp add: unat_word_ariths unsigned_ucast_eq take_bit_nat_eq_self)
  show a: "ucast v + 1 > (0xFFFFFFFF :: udword) \<longleftrightarrow> unat v = 4294967295"
    using v by (auto simp: word_less_nat_alt s)
  show "unat (if ucast v + 1 > (0xFFFFFFFF :: udword) then ucast ((ucast v + 1 :: udword) mod 0xFFFFFFFF)
       else ucast (ucast v + 1 :: udword) :: uword) = (if unat v = 4294967295 then 1 else unat v + 1)"
    unfolding a using v by (auto simp: unsigned_ucast_eq take_bit_nat_eq_self s unat_mod)
qed

lemma iop_count_increment_1:
  assumes "iop_counting b32 c"
  shows "\<exists>c'. iop_count_increment 1 c = Inr c' \<and> ic_using_32b_mode c' = b32 \<and>
    ic_prescale_target c' = ic_prescale_target c \<and>
    (if ic_prescale_count c + 1 < ic_prescale_target c
     then ic_prescale_count c' = ic_prescale_count c + 1 \<and> ic_val c' = ic_val c \<and> ic_overflowed c' = ic_overflowed c
     else ic_prescale_count c' = 0 \<and>
       unat (ic_val c') = (if unat (ic_val c) = iop_limit b32 then 1 else unat (ic_val c) + 1) \<and>
       ic_overflowed c' = (ic_overflowed c \<or> unat (ic_val c) = iop_limit b32))"
proof (cases b32)
  case True
  then show ?thesis
    using assms count_step_32[of "ic_val c"]
    by (auto simp: iop_count_increment_def increment_32_def iop_counting_def prescale_loop_once iop_limit_def Let_def)
next
  case False
  then have "ic_val c \<le> 0xFFFF" using assms by (simp add: iop_counting_def iop_limit_def word_le_nat_alt)
  from count_step_16[OF this] show ?thesis
    using assms False
    by (auto simp: iop_count_increment_def increment_16_def iop_counting_def prescale_loop_once iop_limit_def Let_def)
qed

interpretation iop_counter: wrapping_counter "iop_count_increment 1" "iop_counting b32" "\<lambda>c. unat (ic_val c)"
  ic_prescale_count ic_prescale_target ic_overflowed "iop_limit b32" for b32
proof
  show "0 < iop_limit b32" by (simp add: iop_limit_def)
  fix c :: iop_count
  assume c: "iop_counting b32 c"
  then show "0 \<le> ic_prescale_count c \<and> ic_prescale_count c < ic_prescale_target c \<and> unat (ic_val c) \<le> iop_limit b32"
    by (simp add: iop_counting_def)
  show "\<exists>c'. iop_count_increment 1 c = Inr c' \<and> iop_counting b32 c' \<and> ic_prescale_target c' = ic_prescale_target c \<and>
      (if ic_prescale_count c + 1 < ic_prescale_target c
       then ic_prescale_count c' = ic_prescale_count c + 1 \<and> unat (ic_val c') = unat (ic_val c) \<and>
         ic_overflowed c' = ic_overflowed c
       else ic_prescale_count c' = 0 \<and>
         unat (ic_val c') = (if unat (ic_val c) = iop_limit b32 then 1 else unat (ic_val c) + 1) \<and>
         ic_overflowed c' = (ic_overflowed c \<or> unat (ic_val c) = iop_limit b32))"
    using iop_count_increment_1[OF c] c by (auto simp: iop_counting_def iop_limit_def split: if_splits)
qed

section \<open>One tick of a unit\<close>

lemma iop_mode_bits:
  "mode_field ITIM_SYNC_ENABLE m > 0 \<longleftrightarrow> bit (tm_val m) 0" "mode_field ITIM_RESET_MODE m = 0 \<longleftrightarrow> \<not> bit (tm_val m) 3"
  "mode_field ITIM_RESET_MODE m > 0 \<longleftrightarrow> bit (tm_val m) 3"
  "mode_field ITIM_IRQ_ON_TARGET m = 0 \<longleftrightarrow> \<not> bit (tm_val m) 4" "mode_field ITIM_IRQ_ON_OF m = 0 \<longleftrightarrow> \<not> bit (tm_val m) 5"
  "mode_field ITIM_IRQ_REPEAT m = 0 \<longleftrightarrow> \<not> bit (tm_val m) 6" "mode_field ITIM_IRQ_TOGGLE m = 0 \<longleftrightarrow> \<not> bit (tm_val m) 7"
  "mode_field ITIM_EVENT_SRC m = 0 \<longleftrightarrow> \<not> bit (tm_val m) 8" "mode_field ITIM_PRESCALE0 m > 0 \<longleftrightarrow> bit (tm_val m) 9"
  "mode_field ITIM_IRQ_REQUEST m = 0 \<longleftrightarrow> \<not> bit (tm_val m) 10"
  by (simp_all add: mode_field_def word_defs extract_1_eq word_gt_0)

lemma iop_prescale1: "mode_field ITIM_PRESCALE1 m > 0 \<longleftrightarrow> bit (tm_val m) 13 \<or> bit (tm_val m) 14"
  using extract_2_eq[of 13 "tm_val m"]
  by (cases "bit (tm_val m) 13"; cases "bit (tm_val m) 14")
    (simp_all add: mode_field_def word_defs)

lemma is_enabled_eq: "is_enabled m \<longleftrightarrow> bit (tm_val m) 4 \<or> bit (tm_val m) 5"
  using iop_mode_bits(4,5)[of m] by (auto simp: is_enabled_def word_gt_0)

lemma mode_insert_bits:
  "bit (tm_val (mode_insert (BF k (Suc 0)) x m)) n \<longleftrightarrow> (if n = k then n < 32 \<and> bit x 0 else bit (tm_val m) n)"
  "tm_write_latch (mode_insert f x m) = tm_write_latch m"
  by (auto simp: mode_insert_def bit_insert_into dest: bit_imp_le_length)

text \<open>The event a unit follows, if its mode is one of those implemented.\<close>

definition iop_source :: "nat \<Rightarrow> uword \<Rightarrow> event_type option" where
  "iop_source i v =
     (if i < 3 then if bit v 9 then None else Some (if bit v 8 then HBlank_type else Time_type)
      else if i < 6 \<and> \<not> bit v 13 \<and> \<not> bit v 14 \<and> \<not> bit v 8 then Some Time_type else None)"

lemma iop_get_properties_eq:
  "iop_get_properties i m =
     (case iop_source i (tm_val m) of None \<Rightarrow> Inl Runtime_error | Some e \<Rightarrow> Inr (1, e))"
  by (auto simp: iop_get_properties_def iop_source_def iop_mode_bits iop_prescale1)

definition iop_timer_ok :: "iop_timer \<Rightarrow> bool" where
  "iop_timer_ok u \<longleftrightarrow> iu_id u < 6 \<and> iop_counting (3 \<le> iu_id u) (iu_count u)"

definition iop_counts_on :: "event_type \<Rightarrow> nat \<Rightarrow> uword \<Rightarrow> bool" where
  "iop_counts_on ce i v \<longleftrightarrow> (bit v 4 \<or> bit v 5) \<and> iop_source i v = Some ce"

definition repeating :: "uword \<Rightarrow> bool" where
  "repeating v \<longleftrightarrow> \<not> bit v 0 \<and> bit v 6 \<and> \<not> bit v 7"

text \<open>The mode but for its three result bits, which a tick may change.\<close>

definition mode_like :: "uword \<Rightarrow> timer_mode \<Rightarrow> bool" where
  "mode_like v m \<longleftrightarrow>
     \<not> tm_write_latch m \<and> (\<forall>k. k \<noteq> 10 \<and> k \<noteq> 11 \<and> k \<noteq> 12 \<longrightarrow> bit (tm_val m) k = bit v k)"

lemma mode_like_source: "mode_like v m \<Longrightarrow> iop_source i (tm_val m) = iop_source i v"
  by (simp add: mode_like_def iop_source_def)

definition tmr_key :: "nat \<Rightarrow> nat" where
  "tmr_key i = (if i < 3 then 4 + i else 11 + i)"

lemma raise_tmr_eq: "i < 6 \<Longrightarrow> raise_tmr i r = Inr (iop_stat_insert_field (BF (tmr_key i) 1) 1 r)"
  by (auto simp: raise_tmr_def IOP_TMR_KEYS_def tmr_key_def less_Suc_eq numeral_eq_Suc)

text \<open>The count a tick leaves, and whether it asks for an interrupt.\<close>

definition overflow_val :: "uword \<Rightarrow> iop_count \<Rightarrow> uword" where
  "overflow_val v c = (if ic_overflowed c \<and> \<not> bit v 3 then 0 else ic_val c)"

definition target_val :: "uword \<Rightarrow> uword \<Rightarrow> iop_count \<Rightarrow> uword" where
  "target_val v cmp c = (if overflow_val v c = cmp \<and> bit v 3 then 0 else overflow_val v c)"

definition tmr_irq :: "uword \<Rightarrow> uword \<Rightarrow> iop_count \<Rightarrow> bool" where
  "tmr_irq v cmp c \<longleftrightarrow> bit v 4 \<and> overflow_val v c = cmp \<or> bit v 5 \<and> ic_overflowed c"

lemma handle_timer_overflow_eq:
  "handle_timer_overflow u =
     (ic_overflowed (iu_count u),
      u\<lparr>iu_count := (iu_count u)\<lparr>ic_overflowed := False, ic_val := overflow_val (tm_val (iu_mode u)) (iu_count u)\<rparr>,
        iu_mode := (if ic_overflowed (iu_count u) then mode_insert ITIM_REACH_OF 1 (iu_mode u) else iu_mode u)\<rparr>)"
  by (cases u; cases "iu_count u")
    (auto simp: handle_timer_overflow_def iop_is_overflowed_and_reset_def iop_mode_bits overflow_val_def)

lemma handle_timer_target_eq:
  "handle_timer_target u =
     (ic_val (iu_count u) = iu_compare u,
      if ic_val (iu_count u) = iu_compare u
      then u\<lparr>iu_count := (if bit (tm_val (iu_mode u)) 3 then (iu_count u)\<lparr>ic_val := 0\<rparr> else iu_count u),
             iu_mode := mode_insert ITIM_REACH_TARGET 1 (iu_mode u)\<rparr>
      else u)"
  by (simp add: handle_timer_target_def iop_mode_bits)

lemma mode_like_insert:
  assumes "mode_like v m"
  shows "mode_like v (mode_insert ITIM_REACH_OF x m)" "mode_like v (mode_insert ITIM_REACH_TARGET x m)"
    "mode_like v (mode_insert ITIM_IRQ_REQUEST x m)"
  using assms by (simp_all add: mode_like_def mode_insert_bits word_defs)

lemma mode_like_bit: "mode_like v m \<Longrightarrow> k < 10 \<Longrightarrow> bit (tm_val m) k = bit v k"
  by (simp add: mode_like_def)

text \<open>The interrupt part, for a repeating timer.\<close>

lemma iop_handle_timer_interrupt_eq:
  assumes "mode_like v (iu_mode u)" and "repeating v" and "iu_id u < 6"
  shows "iop_handle_timer_interrupt ov hit u r =
    (if bit v 4 \<and> hit \<or> bit v 5 \<and> ov
     then Inr (u\<lparr>iu_mode := mode_insert ITIM_IRQ_REQUEST 0 (iu_mode u)\<rparr>,
               iop_stat_insert_field (BF (tmr_key (iu_id u)) 1) 1 r)
     else Inr (u, r))"
proof -
  have "\<not> bit (tm_val (mode_insert ITIM_IRQ_REQUEST 0 (iu_mode u))) 10" by (simp add: mode_insert_bits word_defs)
  then show ?thesis
    using assms(2) raise_tmr_eq[OF assms(3)] mode_like_bit[OF assms(1)]
    by (simp add: iop_handle_timer_interrupt_def iop_mode_bits repeating_def)
qed

lemma iop_timer_tick_running:
  assumes id: "iu_id u < 6" and m: "mode_like v (iu_mode u)" and v: "iop_counts_on ce (iu_id u) v" "repeating v"
    and c: "iop_count_increment 1 (iu_count u) = Inr c"
  shows "\<exists>u'. (\<forall>r. iop_timer_tick ce u r =
      Inr (u', if tmr_irq v (iu_compare u) c then iop_stat_insert_field (BF (tmr_key (iu_id u)) 1) 1 r else r)) \<and>
    iu_id u' = iu_id u \<and> iu_compare u' = iu_compare u \<and> mode_like v (iu_mode u') \<and>
    iu_count u' = c\<lparr>ic_overflowed := False, ic_val := target_val v (iu_compare u) c\<rparr>"
proof -
  note b = mode_like_bit[OF m]
  have s: "iop_source (iu_id u) (tm_val (iu_mode u)) = Some ce"
    using v(1) mode_like_source[OF m] by (simp add: iop_counts_on_def)
  have l: "\<not> tm_write_latch (iu_mode u)" using m by (simp add: mode_like_def)
  obtain u2 where u2: "handle_timer_overflow (u\<lparr>iu_count := c\<rparr>) = (ic_overflowed c, u2)" "iu_id u2 = iu_id u"
    "iu_compare u2 = iu_compare u" "mode_like v (iu_mode u2)"
    "iu_count u2 = c\<lparr>ic_overflowed := False, ic_val := overflow_val v c\<rparr>"
    using m b[of 3] mode_like_insert[OF m] by (auto simp: handle_timer_overflow_eq overflow_val_def)
  obtain u3 where u3: "handle_timer_target u2 = (overflow_val v c = iu_compare u, u3)" "iu_id u3 = iu_id u"
    "iu_compare u3 = iu_compare u" "mode_like v (iu_mode u3)"
    "iu_count u3 = c\<lparr>ic_overflowed := False, ic_val := target_val v (iu_compare u) c\<rparr>"
    using u2(2-5) mode_like_bit[OF u2(4), of 3] mode_like_insert[OF u2(4)]
    by (auto simp: handle_timer_target_eq target_val_def)
  have "iop_timer_tick ce u r = iop_handle_timer_interrupt (ic_overflowed c) (overflow_val v c = iu_compare u) u3 r" for r
    using v l s b[of 0] b[of 4] b[of 5] c u2(1) u3(1)
    by (auto simp: iop_timer_tick_def iop_get_properties_eq iop_timer_reset_def is_enabled_eq iop_mode_bits
        iop_counts_on_def repeating_def)
  then show ?thesis
    using iop_handle_timer_interrupt_eq[OF u3(4) v(2), of "ic_overflowed c" "overflow_val v c = iu_compare u"]
      id u3(2-5) mode_like_insert(3)[OF u3(4)]
    by (intro exI[of _ "if tmr_irq v (iu_compare u) c then u3\<lparr>iu_mode := mode_insert ITIM_IRQ_REQUEST 0 (iu_mode u3)\<rparr> else u3"])
      (auto simp: tmr_irq_def)
qed

lemma iop_timer_tick_latched:
  assumes "iop_source (iu_id u) (tm_val (iu_mode u)) = Some e"
  shows "iop_timer_tick ce u r = iop_timer_tick ce (iop_timer_reset 1 u) r"
  using assms by (simp add: iop_timer_tick_def iop_get_properties_eq iop_timer_reset_def)

lemma iop_timer_tick_idle:
  assumes "iop_source (iu_id u) (tm_val (iu_mode u)) = Some e" and "\<not> iop_counts_on ce (iu_id u) (tm_val (iu_mode u))"
  shows "iop_timer_tick ce u r = Inr (iop_timer_reset 1 u, r)"
  using assms
  by (auto simp: iop_timer_tick_def iop_get_properties_eq iop_timer_reset_def iop_counts_on_def is_enabled_eq)

lemma iop_reset_like: "mode_like (tm_val (iu_mode u)) (iu_mode (iop_timer_reset 1 u))"
  by (simp add: iop_timer_reset_def mode_like_def)

lemma iop_reset_frame [simp]:
  "iu_id (iop_timer_reset p u) = iu_id u" "iu_compare (iop_timer_reset p u) = iu_compare u"
  "tm_val (iu_mode (iop_timer_reset p u)) = tm_val (iu_mode u)"
  by (simp_all add: iop_timer_reset_def)

lemma iop_timer_reset_ok: "iop_timer_ok u \<Longrightarrow> iop_timer_ok (iop_timer_reset 1 u)"
  by (simp add: iop_timer_ok_def iop_timer_reset_def iop_reset_prescale_def iop_counting_def)

section \<open>Runs of a unit\<close>

definition iop_unit_run :: "event_type \<Rightarrow> nat \<Rightarrow> iop_timer \<times> iop_intc \<Rightarrow> (iop_timer \<times> iop_intc) res" where
  "iop_unit_run ce n = repeat_res n (\<lambda>(u, r). iop_timer_tick ce u r)"

definition iop_unit_at :: "uword \<Rightarrow> nat \<Rightarrow> nat \<Rightarrow> iop_timer \<Rightarrow> bool" where
  "iop_unit_at v n k u \<longleftrightarrow>
     iu_id u < 6 \<and> mode_like v (iu_mode u) \<and> \<not> ic_overflowed (iu_count u) \<and>
     iop_counter.at_tick (3 \<le> iu_id u) 1 n k (iu_count u)"

abbreviation unit_limit :: "iop_timer \<Rightarrow> nat" where
  "unit_limit u \<equiv> iop_limit (3 \<le> iu_id u)"

text \<open>
  The count after \<open>n\<close> ticks: modulo the target when the timer resets on the target, else modulo
  the full range; and whether an interrupt was asked for meanwhile.
\<close>

definition tmr_count :: "uword \<Rightarrow> nat \<Rightarrow> uword \<Rightarrow> nat \<Rightarrow> nat" where
  "tmr_count v limit cmp n = n mod (if bit v 3 then unat cmp else Suc limit)"

definition tmr_raised :: "uword \<Rightarrow> nat \<Rightarrow> uword \<Rightarrow> nat \<Rightarrow> bool" where
  "tmr_raised v limit cmp n \<longleftrightarrow>
     (if bit v 3 then bit v 4 \<and> unat cmp \<le> n
      else bit v 5 \<and> limit < n \<or> bit v 4 \<and> (\<exists>m\<in>{1..n}. m mod Suc limit = unat cmp))"

definition valid_target :: "uword \<Rightarrow> nat \<Rightarrow> uword \<Rightarrow> bool" where
  "valid_target v limit cmp \<longleftrightarrow> (bit v 3 \<longrightarrow> 0 < unat cmp \<and> unat cmp \<le> limit)"

text \<open>One tick moves the closed form by one.\<close>

lemma iop_tick_count:
  assumes c: "iop_counter.at_tick b32 1 n (tmr_count v (iop_limit b32) cmp n) c" and o: "\<not> ic_overflowed c"
    and cmp: "valid_target v (iop_limit b32) cmp"
  shows "\<exists>c'. iop_count_increment 1 c = Inr c' \<and>
    iop_counter.at_tick b32 1 (Suc n) (tmr_count v (iop_limit b32) cmp (Suc n))
      (c'\<lparr>ic_overflowed := False, ic_val := target_val v cmp c'\<rparr>) \<and>
    (tmr_raised v (iop_limit b32) cmp n \<or> tmr_irq v cmp c' \<longleftrightarrow> tmr_raised v (iop_limit b32) cmp (Suc n))"
proof (cases "bit v 3")
  case True
  let ?k = "unat cmp"
  have k: "0 < ?k" "?k \<le> iop_limit b32" using cmp True by (simp_all add: valid_target_def)
  have "iop_counter.at_tick b32 1 n (n div 1 mod ?k) c" using c True by (simp add: tmr_count_def)
  from iop_counter.return_step[OF this k, unfolded div_by_1 mult_1] obtain c' where c': "iop_count_increment 1 c = Inr c'" "\<not> ic_overflowed c'"
    "if Suc n mod ?k = 0 then iop_counter.at_tick b32 1 (Suc n) ?k c'
     else iop_counter.at_tick b32 1 (Suc n) (Suc n mod ?k) c' \<and> Suc n mod ?k \<noteq> ?k"
    using o by auto
  have hit: "ic_val c' = cmp \<longleftrightarrow> Suc n mod ?k = 0"
    using c'(3) by (auto simp: iop_counter.at_tick_def word_unat_eq_iff split: if_splits)
  have le: "?k \<le> n \<or> Suc n mod ?k = 0 \<longleftrightarrow> ?k \<le> Suc n"
    using le_Suc_mod[OF k(1)] by simp
  have "iop_counter.at_tick b32 1 (Suc n) (Suc n mod ?k) (c'\<lparr>ic_overflowed := False, ic_val := target_val v cmp c'\<rparr>)"
    using c'(2,3) hit True
    by (auto simp: iop_counter.at_tick_def iop_counting_def target_val_def overflow_val_def split: if_splits)
  moreover have "tmr_irq v cmp c' \<longleftrightarrow> bit v 4 \<and> Suc n mod ?k = 0"
    using c'(2) hit True by (simp add: tmr_irq_def overflow_val_def)
  ultimately show ?thesis using c'(1) True le by (auto simp: tmr_count_def tmr_raised_def)
next
  case False
  let ?L = "iop_limit b32"
  have "iop_counter.at_tick b32 1 n (n div 1 mod Suc ?L) c" using c False by (simp add: tmr_count_def)
  from iop_counter.full_step[OF this, unfolded div_by_1 mult_1] obtain c' where c': "iop_count_increment 1 c = Inr c'"
    "if Suc n mod Suc ?L = 0 then iop_counter.at_tick b32 1 (Suc n) 1 c' \<and> ic_overflowed c'
     else iop_counter.at_tick b32 1 (Suc n) (Suc n mod Suc ?L) c' \<and> \<not> ic_overflowed c'"
    using o by (auto cong: if_cong)
  have ov: "ic_overflowed c' \<longleftrightarrow> Suc n mod Suc ?L = 0" using c'(2) by (auto split: if_splits)
  have val: "unat (overflow_val v c') = Suc n mod Suc ?L"
    using c'(2) False by (auto simp: overflow_val_def iop_counter.at_tick_def split: if_splits)
  have at: "iop_counter.at_tick b32 1 (Suc n) (Suc n mod Suc ?L) (c'\<lparr>ic_overflowed := False, ic_val := target_val v cmp c'\<rparr>)"
    using c'(2) val False less_Suc_eq_le[of "Suc n mod Suc ?L" ?L]
    by (auto simp: iop_counter.at_tick_def iop_counting_def target_val_def split: if_splits)
  have "?L < n \<or> Suc n mod Suc ?L = 0 \<longleftrightarrow> ?L < Suc n"
    using le_Suc_mod[of "Suc ?L" n] by (simp only: Suc_le_eq zero_less_Suc)
  moreover have "overflow_val v c' = cmp \<longleftrightarrow> Suc n mod Suc ?L = unat cmp" by (simp add: word_unat_eq_iff val)
  moreover have "{1..Suc n} = insert (Suc n) {1..n}" by auto
  ultimately have "tmr_raised v ?L cmp n \<or> tmr_irq v cmp c' \<longleftrightarrow> tmr_raised v ?L cmp (Suc n)"
    using False ov unfolding tmr_raised_def tmr_irq_def by auto
  then show ?thesis using c'(1) at False by (simp add: tmr_count_def)
qed

lemma iop_unit_runs:
  assumes u: "iop_unit_at v 0 0 u" and v: "iop_counts_on ce (iu_id u) v" "repeating v"
    and cmp: "valid_target v (unit_limit u) (iu_compare u)"
  shows "\<exists>u'. iop_unit_run ce n (u, r) =
      Inr (u', if tmr_raised v (unit_limit u) (iu_compare u) n
               then iop_stat_insert_field (BF (tmr_key (iu_id u)) 1) 1 r else r) \<and>
    iop_unit_at v n (tmr_count v (unit_limit u) (iu_compare u) n) u' \<and> iu_id u' = iu_id u \<and>
    iu_compare u' = iu_compare u"
proof (induction n)
  case 0
  then show ?case
    using u cmp by (auto simp: iop_unit_run_def tmr_raised_def tmr_count_def valid_target_def)
next
  case (Suc n)
  let ?raise = "iop_stat_insert_field (BF (tmr_key (iu_id u)) 1) 1"
  obtain u1 where u1: "iop_unit_run ce n (u, r) =
      Inr (u1, if tmr_raised v (unit_limit u) (iu_compare u) n then ?raise r else r)"
    "iop_unit_at v n (tmr_count v (unit_limit u) (iu_compare u) n) u1" "iu_id u1 = iu_id u" "iu_compare u1 = iu_compare u"
    using Suc by blast
  have a: "iop_counter.at_tick (3 \<le> iu_id u) 1 n (tmr_count v (unit_limit u) (iu_compare u) n) (iu_count u1)"
    "\<not> ic_overflowed (iu_count u1)" "iu_id u1 < 6" "mode_like v (iu_mode u1)"
    using u1(2,3) by (simp_all add: iop_unit_at_def)
  obtain c where c: "iop_count_increment 1 (iu_count u1) = Inr c"
    "iop_counter.at_tick (3 \<le> iu_id u) 1 (Suc n) (tmr_count v (unit_limit u) (iu_compare u) (Suc n))
      (c\<lparr>ic_overflowed := False, ic_val := target_val v (iu_compare u) c\<rparr>)"
    "tmr_raised v (unit_limit u) (iu_compare u) n \<or> tmr_irq v (iu_compare u) c \<longleftrightarrow>
     tmr_raised v (unit_limit u) (iu_compare u) (Suc n)"
    using iop_tick_count[OF a(1,2) cmp] by blast
  have v1: "iop_counts_on ce (iu_id u1) v" using v(1) u1(3) by simp
  let ?q = "if tmr_raised v (unit_limit u) (iu_compare u) n then ?raise r else r"
  obtain u2 where u2: "iop_timer_tick ce u1 ?q = Inr (u2, if tmr_irq v (iu_compare u) c then ?raise ?q else ?q)"
    "iu_id u2 = iu_id u" "iu_compare u2 = iu_compare u" "mode_like v (iu_mode u2)"
    "iu_count u2 = c\<lparr>ic_overflowed := False, ic_val := target_val v (iu_compare u) c\<rparr>"
    using iop_timer_tick_running[OF a(3,4) v1 v(2) c(1)] u1(3,4) by auto
  have "iop_unit_run ce (Suc n) (u, r) = iop_timer_tick ce u1 ?q"
    using u1(1) unfolding iop_unit_run_def repeat_res_Suc_right by simp
  moreover have "(if tmr_irq v (iu_compare u) c then ?raise ?q else ?q) =
      (if tmr_raised v (unit_limit u) (iu_compare u) (Suc n) then ?raise r else r)"
    unfolding c(3)[symmetric] by (simp add: iop_stat_insert_field_def)
  moreover have "iop_unit_at v (Suc n) (tmr_count v (unit_limit u) (iu_compare u) (Suc n)) u2"
    using c(2) u2 a(3) u1(3) by (simp add: iop_unit_at_def)
  ultimately show ?case using u2(1-3) by auto
qed

section \<open>The six units together\<close>

text \<open>Units whose mode is implemented and, if they count, repeating: none of these ever fails.\<close>

definition iop_steady :: "event_type \<Rightarrow> iop_timer \<Rightarrow> bool" where
  "iop_steady ce u \<longleftrightarrow>
     iop_timer_ok u \<and> iop_source (iu_id u) (tm_val (iu_mode u)) \<noteq> None \<and>
     (iop_counts_on ce (iu_id u) (tm_val (iu_mode u)) \<longrightarrow> repeating (tm_val (iu_mode u)))"

lemma mode_like_steady:
  "mode_like v m \<Longrightarrow> iop_counts_on ce i (tm_val m) = iop_counts_on ce i v"
  "mode_like v m \<Longrightarrow> repeating (tm_val m) = repeating v"
  by (simp_all add: iop_counts_on_def repeating_def mode_like_bit mode_like_source)

lemma tmr_key_less: "i < 6 \<Longrightarrow> tmr_key i < 32"
  by (simp add: tmr_key_def)

lemma flag_raise_tmr:
  "k < 32 \<Longrightarrow> bit (iop_intc_stat (iop_stat_insert_field (BF k (Suc 0)) 1 r)) n \<longleftrightarrow> bit (iop_intc_stat r) n \<or> n = k"
  by (auto simp: iop_stat_insert_field_def bit_raise dest: bit_imp_le_length)

lemma target_val_le:
  "unat (ic_val c) \<le> iop_limit b \<Longrightarrow> unat (target_val v cmp c) \<le> iop_limit b"
  by (simp add: target_val_def overflow_val_def)

lemma iop_steady_tick:
  assumes "iop_steady ce u"
  shows "\<exists>u' b. iop_steady ce u' \<and> tmr_key (iu_id u') = tmr_key (iu_id u) \<and>
    (\<forall>r. \<exists>r'. iop_timer_tick ce u r = Inr (u', r') \<and>
      (iop_intc_ctrl r', iop_intc_mask r') = (iop_intc_ctrl r, iop_intc_mask r) \<and>
      (\<forall>k. bit (iop_intc_stat r') k \<longleftrightarrow> bit (iop_intc_stat r) k \<or> b \<and> k = tmr_key (iu_id u)))"
proof -
  let ?v = "tm_val (iu_mode u)" and ?u1 = "iop_timer_reset 1 u"
  have ok: "iop_timer_ok u" and ok1: "iop_timer_ok ?u1" using assms iop_timer_reset_ok by (simp_all add: iop_steady_def)
  obtain e where e: "iop_source (iu_id u) ?v = Some e" using assms by (auto simp: iop_steady_def)
  show ?thesis
  proof (cases "iop_counts_on ce (iu_id u) ?v")
    case False
    have "iop_steady ce ?u1" using assms ok1 by (simp add: iop_steady_def)
    then show ?thesis
      using iop_timer_tick_idle[OF e False] by (intro exI[of _ ?u1] exI[of _ False]) simp
  next
    case True
    have rep: "repeating ?v" using assms True by (simp add: iop_steady_def)
    obtain c where c: "iop_count_increment 1 (iu_count ?u1) = Inr c" "iop_counting (3 \<le> iu_id u) c"
      using ok1 iop_counter.inc[of "3 \<le> iu_id u" "iu_count ?u1"] by (auto simp: iop_timer_ok_def)
    have on1: "iop_counts_on ce (iu_id ?u1) ?v" and id1: "iu_id ?u1 < 6"
      using True ok by (simp_all add: iop_timer_ok_def)
    let ?irq = "tmr_irq ?v (iu_compare u) c"
    obtain u' where u': "\<And>r. iop_timer_tick ce u r =
        Inr (u', if ?irq then iop_stat_insert_field (BF (tmr_key (iu_id u)) 1) 1 r else r)"
      "iu_id u' = iu_id u" "mode_like ?v (iu_mode u')"
      "iu_count u' = c\<lparr>ic_overflowed := False, ic_val := target_val ?v (iu_compare u) c\<rparr>"
      using iop_timer_tick_running[OF id1 iop_reset_like on1 rep c(1)]
      unfolding iop_timer_tick_latched[OF e, symmetric] by auto
    have "iop_steady ce u'"
      using assms c(2) u'(2-4) target_val_le[of c]
      by (simp add: iop_steady_def iop_timer_ok_def mode_like_steady mode_like_source iop_counting_def)
    moreover have "bit (iop_intc_stat (if ?irq then iop_stat_insert_field (BF (tmr_key (iu_id u)) 1) 1 r else r)) k \<longleftrightarrow>
        bit (iop_intc_stat r) k \<or> ?irq \<and> k = tmr_key (iu_id u)" for r k
      using flag_raise_tmr[OF tmr_key_less] id1 by auto
    moreover have "iop_intc_ctrl (iop_stat_insert_field f x r) = iop_intc_ctrl r"
      "iop_intc_mask (iop_stat_insert_field f x r) = iop_intc_mask r" for f x r
      by (simp_all add: iop_stat_insert_field_def)
    ultimately show ?thesis using u'(1,2) by (intro exI[of _ u'] exI[of _ ?irq]) simp
  qed
qed

interpretation iop_bank: timer_bank "iop_timer_tick ce" "iop_tick_units ce" "\<lambda>u. tmr_key (iu_id u)"
  "\<lambda>r. bit (iop_intc_stat r)" "\<lambda>r. (iop_intc_ctrl r, iop_intc_mask r)" "iop_steady ce" for ce
  by unfold_locales (simp, simp, rule iop_steady_tick)

text \<open>What an event of \<open>n\<close> ticks does to a unit whose mode was just written.\<close>

definition iop_programmed :: "event_type \<Rightarrow> uword \<Rightarrow> iop_timer \<Rightarrow> bool" where
  "iop_programmed ce v u \<longleftrightarrow>
     tm_write_latch (iu_mode u) \<and> tm_val (iu_mode u) = v \<and> iop_counts_on ce (iu_id u) v \<and>
     \<not> ic_overflowed (iu_count u) \<and> valid_target v (unit_limit u) (iu_compare u)"

lemma iop_programmed_run:
  assumes u: "iop_programmed ce v u" "iop_steady ce u" and n: "0 < n"
  shows "\<exists>u' r1. iop_unit_run ce n (u, r) = Inr (u', r1) \<and>
    unat (ic_val (iu_count u')) = tmr_count v (unit_limit u) (iu_compare u) n \<and>
    (bit (iop_intc_stat r1) (tmr_key (iu_id u)) \<longleftrightarrow>
       bit (iop_intc_stat r) (tmr_key (iu_id u)) \<or> tmr_raised v (unit_limit u) (iu_compare u) n)"
proof -
  let ?u = "iop_timer_reset 1 u"
  have v: "tm_val (iu_mode u) = v" "iop_counts_on ce (iu_id u) v" "repeating v" and id: "iu_id u < 6"
    using u by (auto simp: iop_programmed_def iop_steady_def iop_timer_ok_def)
  have at: "iop_unit_at v 0 0 ?u"
    using u iop_reset_like[of u] iop_timer_reset_ok[of u] v(1)
    by (simp add: iop_unit_at_def iop_programmed_def iop_steady_def iop_timer_ok_def iop_timer_reset_def
        iop_reset_prescale_def iop_counter.at_tick_def)
  have "iop_source (iu_id u) (tm_val (iu_mode u)) = Some ce" using v by (simp add: iop_counts_on_def)
  then have run: "iop_unit_run ce n (u, r) = iop_unit_run ce n (?u, r)"
    using n iop_timer_tick_latched[of u ce ce r] by (cases n) (simp_all add: iop_unit_run_def)
  have on: "iop_counts_on ce (iu_id ?u) v" and cmp: "valid_target v (unit_limit ?u) (iu_compare ?u)"
    using v(2) u(1) by (simp_all add: iop_programmed_def)
  obtain u' where u': "iop_unit_run ce n (?u, r) =
      Inr (u', if tmr_raised v (unit_limit u) (iu_compare u) n
               then iop_stat_insert_field (BF (tmr_key (iu_id u)) 1) 1 r else r)"
    "iop_unit_at v n (tmr_count v (unit_limit u) (iu_compare u) n) u'"
    using iop_unit_runs[OF at on v(3) cmp, of n r] by auto
  then have "unat (ic_val (iu_count u')) = tmr_count v (unit_limit u) (iu_compare u) n"
    by (simp add: iop_unit_at_def iop_counter.at_tick_def)
  then show ?thesis unfolding run u'(1) using flag_raise_tmr[OF tmr_key_less[OF id]] by auto
qed

lemma iop_tick_timer_units: "iop_tick_timer ce = (\<lambda>(us, r). iop_tick_units ce us r)"
  by (auto simp: iop_tick_timer_def)

lemma tmr_key_inj: "i < 6 \<Longrightarrow> j < 6 \<Longrightarrow> tmr_key i = tmr_key j \<longleftrightarrow> i = j"
  by (auto simp: tmr_key_def split: if_splits)

lemma iop_timers_event:
  assumes us: "list_all (iop_steady ce) us" "distinct (map iu_id us)" and n: "0 < n"
    and i: "i < length us" "iop_programmed ce v (us ! i)"
  shows "\<exists>us' r'. repeat_res n (iop_tick_timer ce) (us, r) = Inr (us', r') \<and> length us' = length us \<and>
    iop_intc_ctrl r' = iop_intc_ctrl r \<and> iop_intc_mask r' = iop_intc_mask r \<and>
    unat (ic_val (iu_count (us' ! i))) = tmr_count v (unit_limit (us ! i)) (iu_compare (us ! i)) n \<and>
    (bit (iop_intc_stat r') (tmr_key (iu_id (us ! i))) \<longleftrightarrow>
       bit (iop_intc_stat r) (tmr_key (iu_id (us ! i))) \<or>
       tmr_raised v (unit_limit (us ! i)) (iu_compare (us ! i)) n)"
proof -
  have "iu_id u < 6" if "u \<in> set us" for u
    using us(1) that by (auto simp: list_all_iff iop_steady_def iop_timer_ok_def)
  then have d: "distinct (map (\<lambda>u. tmr_key (iu_id u)) us)"
    using us(2) by (simp add: distinct_map inj_on_def tmr_key_inj)
  obtain us' r' r1 where r: "repeat_res n (iop_tick_timer ce) (us, r) = Inr (us', r')" "length us' = length us"
    "iop_intc_ctrl r' = iop_intc_ctrl r" "iop_intc_mask r' = iop_intc_mask r" "iop_unit_run ce n (us ! i, r) = Inr (us' ! i, r1)"
    "bit (iop_intc_stat r1) (tmr_key (iu_id (us ! i))) = bit (iop_intc_stat r') (tmr_key (iu_id (us ! i)))"
    using iop_bank.bank_run[OF us(1) d, of n r] i(1) unfolding iop_tick_timer_units[symmetric] iop_unit_run_def
    by auto
  have "iop_steady ce (us ! i)" using us(1) i(1) by (simp add: list_all_length)
  from iop_programmed_run[OF i(2) this n, of r] show ?thesis using r by auto
qed

section \<open>From the timer to the core\<close>

text \<open>
  A timer programmed to interrupt on its target does interrupt the core: the event that makes it
  reach the target, a time slice of the interrupt controller and the core's next check end in
  the interrupt handler.
\<close>

lemma iop_timer_interrupts:
  assumes us: "list_all (iop_steady ce) us" "distinct (map iu_id us)"
    and i: "i < length us" "iop_programmed ce v (us ! i)" "bit v 3" "bit v 4"
    and n: "unat (iu_compare (us ! i)) \<le> n"
    and r: "iop_intc_ctrl r \<noteq> 0" "bit (iop_intc_mask r) (tmr_key (iu_id (us ! i)))"
    and s: "iop_ok s" "bit (i0_raw I0_STATUS (i_cop0 s)) 0" "bit (i0_raw I0_STATUS (i_cop0 s)) 10" and t: "0 < t"
  shows "\<exists>us' r' c s'. repeat_res n (iop_tick_timer ce) (us, r) = Inr (us', r') \<and>
    iop_intc_run t (r', i_cop0 s) = Inr (r', c) \<and>
    iop_handle_interrupt_check (s\<lparr>i_cop0 := c\<rparr>) = Inr s' \<and> iop_entry IEX_INTERRUPT s s'"
proof -
  have "0 < unat (iu_compare (us ! i))" using i by (simp add: iop_programmed_def valid_target_def)
  then have n0: "0 < n" using n by simp
  obtain us' r' where e: "repeat_res n (iop_tick_timer ce) (us, r) = Inr (us', r')"
    "iop_intc_ctrl r' = iop_intc_ctrl r" "iop_intc_mask r' = iop_intc_mask r"
    "bit (iop_intc_stat r') (tmr_key (iu_id (us ! i)))"
    using iop_timers_event[OF us n0 i(1,2), of r] i(3,4) n by (auto simp: tmr_raised_def)
  have "iu_id (us ! i) < 6" using us(1) i(1) by (auto simp: list_all_length iop_steady_def iop_timer_ok_def)
  from tmr_key_less[OF this] have "iop_intc_pending r'"
    using e r by (auto simp: iop_intc_pending_def)
  then have "accepts_line (i0_raw I0_STATUS (i_cop0 s)) (i0_irq_lines (i_cop0 s)) (iop_intc_pending r')"
    using s(3) by (auto simp: accepts_line_def intro!: exI[of _ 2])
  then show ?thesis using e(1) iop_intc_delivery[OF s(1) t, of r'] s(2) by auto
qed

end
