(* ===== verification/Sbus.thy ===== *)
theory Sbus
  imports Intc
begin

text \<open>
  The SBUS, the interface between the EE and the IOP: its registers, with the different
  meanings a write has on either side, and the three FIFO queues of the SIF channels both DMA
  controllers work on.
\<close>

section \<open>The registers\<close>

record sbus =
  sbus_mscom :: uword
  sbus_smcom :: uword
  sbus_msflg :: uword
  sbus_smflg :: uword
  sbus_f240 :: uword
  sbus_f250 :: uword
  sbus_f260 :: uword
  sbus_f300 :: uword
  sbus_f380 :: uword
  fifo_sif0 :: dma_fifo
  fifo_sif1 :: dma_fifo
  fifo_sif2 :: dma_fifo

definition sbus_new :: sbus where
  "sbus_new =
     \<lparr>sbus_mscom = 0, sbus_smcom = 0, sbus_msflg = 0, sbus_smflg = 0, sbus_f240 = 0, sbus_f250 = 0,
      sbus_f260 = 0, sbus_f300 = 0, sbus_f380 = 0,
      fifo_sif0 = DmaFifoQueue_new, fifo_sif1 = DmaFifoQueue_new, fifo_sif2 = DmaFifoQueue_new\<rparr>"

definition mscom_bus_write :: "BusContext \<Rightarrow> uword \<Rightarrow> sbus \<Rightarrow> sbus" where
  "mscom_bus_write context v b = (if context = Ee_context then b\<lparr>sbus_mscom := v\<rparr> else b)"

definition msflg_bus_write :: "BusContext \<Rightarrow> uword \<Rightarrow> sbus \<Rightarrow> sbus" where
  "msflg_bus_write context v b =
     b\<lparr>sbus_msflg := (case context of
        Ee_context \<Rightarrow> sbus_msflg b OR v
      | Iop_context \<Rightarrow> sbus_msflg b AND NOT v
      | Vu_context \<Rightarrow> v)\<rparr>"

definition smflg_bus_write :: "BusContext \<Rightarrow> uword \<Rightarrow> sbus \<Rightarrow> sbus" where
  "smflg_bus_write context v b =
     b\<lparr>sbus_smflg := (case context of
        Ee_context \<Rightarrow> sbus_smflg b AND NOT v
      | Iop_context \<Rightarrow> sbus_smflg b OR v
      | Vu_context \<Rightarrow> v)\<rparr>"

text \<open>
  Register F240.  The half word accesses work on the lane of the offset, and the lane of a
  register has the debug build's bounds check.
\<close>

definition f240_bus_read_uhword :: "BusContext \<Rightarrow> nat \<Rightarrow> sbus \<Rightarrow> uhword res" where
  "f240_bus_read_uhword context offset b =
     (if context = Iop_context \<and> offset = 0 then Inr (get_lane offset (sbus_f240 b) OR 0x2)
      else if offset div 2 \<ge> 2 then Inl Invalid_offset
      else Inr (get_lane (offset div 2) (sbus_f240 b)))"

definition f240_bus_read_uword :: "BusContext \<Rightarrow> sbus \<Rightarrow> uword" where
  "f240_bus_read_uword context b =
     (case context of
        Ee_context \<Rightarrow> sbus_f240 b OR 0xF0000102
      | Iop_context \<Rightarrow> sbus_f240 b OR 0xF0000002
      | Vu_context \<Rightarrow> sbus_f240 b)"

text \<open>What the IOP writes are requests: the arithmetic is the same for both widths.\<close>

definition f240_request :: "'a::len word \<Rightarrow> 'a word \<Rightarrow> 'a word" where
  "f240_request v old =
     (let temp = v AND 0xF0;
          reg = (if v AND 0x20 \<noteq> 0 \<or> v AND 0x80 \<noteq> 0 then (old AND NOT 0xF000) OR 0x2000 else old)
      in if reg AND temp \<noteq> 0 then reg AND NOT temp else reg OR temp)"

definition f240_bus_write_uhword :: "BusContext \<Rightarrow> nat \<Rightarrow> uhword \<Rightarrow> sbus \<Rightarrow> sbus res" where
  "f240_bus_write_uhword context offset v b =
     (if context = Iop_context \<and> offset = 0 then
        Inr (b\<lparr>sbus_f240 := put_lane offset (f240_request v (get_lane offset (sbus_f240 b))) (sbus_f240 b)\<rparr>)
      else if offset div 2 \<ge> 2 then Inl Invalid_offset
      else Inr (b\<lparr>sbus_f240 := put_lane (offset div 2) v (sbus_f240 b)\<rparr>))"

definition f240_bus_write_uword :: "BusContext \<Rightarrow> uword \<Rightarrow> sbus \<Rightarrow> sbus" where
  "f240_bus_write_uword context v b =
     b\<lparr>sbus_f240 := (case context of
        Ee_context \<Rightarrow> (sbus_f240 b AND 0xFFFFFEFF) OR (v AND 0x100)
      | Iop_context \<Rightarrow> f240_request v (sbus_f240 b)
      | Vu_context \<Rightarrow> v)\<rparr>"

definition f300_bus_read_uword :: "BusContext \<Rightarrow> sbus \<Rightarrow> uword res" where
  "f300_bus_read_uword context b = Inl Runtime_error"

definition f300_bus_write_uword :: "BusContext \<Rightarrow> uword \<Rightarrow> sbus \<Rightarrow> sbus res" where
  "f300_bus_write_uword context v b = Inl Runtime_error"

section \<open>The queue of SIF2\<close>

text \<open>This queue signals in bit 26 of F300 whether it is empty.\<close>

definition sif2_read_ubyte :: "sbus \<Rightarrow> (ubyte \<times> sbus) res" where
  "sif2_read_ubyte b =
     bind_res (fifo_read_ubyte (fifo_sif2 b)) (\<lambda>(data, q).
       Inr (data, b\<lparr>fifo_sif2 := q,
         sbus_f300 := (if queue_is_empty q then sbus_f300 b OR 0x04000000
                       else sbus_f300 b AND NOT 0x04000000)\<rparr>))"

definition sif2_write_ubyte :: "ubyte \<Rightarrow> sbus \<Rightarrow> sbus res" where
  "sif2_write_ubyte data b =
     bind_res (fifo_write_ubyte data (fifo_sif2 b)) (\<lambda>q.
       Inr (b\<lparr>fifo_sif2 := q, sbus_f300 := sbus_f300 b AND NOT 0x04000000\<rparr>))"

section \<open>The flags as a mailbox\<close>

text \<open>
  The EE raises bits of MSFLG and the IOP acknowledges them; SMFLG is the mirror image.  Each
  side can only raise its own bits and only lower the other's.
\<close>

lemma msflg_bits:
  "bit (sbus_msflg (msflg_bus_write Ee_context v b)) n \<longleftrightarrow> bit (sbus_msflg b) n \<or> bit v n"
  "bit (sbus_msflg (msflg_bus_write Iop_context v b)) n \<longleftrightarrow> bit (sbus_msflg b) n \<and> \<not> bit v n"
  by (auto simp: msflg_bus_write_def bit_or_iff bit_and_iff bit_not_iff_eq dest: bit_imp_le_length)

lemma smflg_bits:
  "bit (sbus_smflg (smflg_bus_write Iop_context v b)) n \<longleftrightarrow> bit (sbus_smflg b) n \<or> bit v n"
  "bit (sbus_smflg (smflg_bus_write Ee_context v b)) n \<longleftrightarrow> bit (sbus_smflg b) n \<and> \<not> bit v n"
  by (auto simp: smflg_bus_write_def bit_or_iff bit_and_iff bit_not_iff_eq dest: bit_imp_le_length)

lemma msflg_post_ack:
  "sbus_msflg b AND v = 0 \<Longrightarrow> msflg_bus_write Iop_context v (msflg_bus_write Ee_context v b) = b"
proof -
  assume a: "sbus_msflg b AND v = 0"
  have "(sbus_msflg b OR v) AND NOT v = sbus_msflg b"
    using a by (intro bit_word_eqI) (auto simp: bit_eq_iff bit_simps)
  then show ?thesis by (simp add: msflg_bus_write_def)
qed

lemma smflg_post_ack:
  "sbus_smflg b AND v = 0 \<Longrightarrow> smflg_bus_write Ee_context v (smflg_bus_write Iop_context v b) = b"
proof -
  assume a: "sbus_smflg b AND v = 0"
  have "(sbus_smflg b OR v) AND NOT v = sbus_smflg b"
    using a by (intro bit_word_eqI) (auto simp: bit_eq_iff bit_simps)
  then show ?thesis by (simp add: smflg_bus_write_def)
qed

text \<open>
  Bit 26 of F300 follows the SIF2 queue: it tells after every access whether the queue is
  empty.
\<close>

definition f300_signal :: "dma_fifo \<Rightarrow> uword \<Rightarrow> uword" where
  "f300_signal q v = (if queue_is_empty q then v OR 0x04000000 else v AND NOT 0x04000000)"

lemma f300_signal_twice [simp]: "f300_signal q (f300_signal q' v) = f300_signal q v"
  by (rule bit_word_eqI) (auto simp: f300_signal_def bit_simps)

lemma bit_f300_signal: "bit (f300_signal q v) 26 \<longleftrightarrow> queue_is_empty q"
  by (auto simp: f300_signal_def bit_simps bit_numeral_rec)

end
