(* ===== verification/Dma.thy ===== *)
theory Dma
  imports Sbus
begin

text \<open>
  What the two DMA controllers share: the bus and the queues a transfer goes between, the
  multi-byte accesses of a queue over its virtual byte accesses, and the lemmas that describe a
  transfer as an update of one memory and one queue.
\<close>

section \<open>The environment of a transfer\<close>

record dma_env =
  dma_bus :: "uptr byte_bus"
  dma_sbus :: sbus

text \<open>
  A channel points to its queue: a queue of the bus's store of objects, or one of the queues the
  two processors share, which no bus maps.
\<close>

datatype fifo_ref = Bus_fifo nat | Sif0_fifo | Sif1_fifo | Sif2_fifo

fun port_queue :: "fifo_ref \<Rightarrow> 'z dma_env_scheme \<Rightarrow> dma_fifo res" where
  "port_queue (Bus_fifo i) s =
     (if i < length (bus_objects (dma_bus s)) then
        case bus_objects (dma_bus s) ! i of Fifo_obj q \<Rightarrow> Inr q | _ \<Rightarrow> Inl Null_object
      else Inl Null_object)"
| "port_queue Sif0_fifo s = Inr (fifo_sif0 (dma_sbus s))"
| "port_queue Sif1_fifo s = Inr (fifo_sif1 (dma_sbus s))"
| "port_queue Sif2_fifo s = Inr (fifo_sif2 (dma_sbus s))"

fun port_read_ubyte :: "fifo_ref \<Rightarrow> 'z dma_env_scheme \<Rightarrow> (ubyte \<times> 'z dma_env_scheme) res" where
  "port_read_ubyte (Bus_fifo i) s =
     bind_res (port_queue (Bus_fifo i) s) (\<lambda>q. bind_res (fifo_read_ubyte q) (\<lambda>(data, q').
       Inr (data, s\<lparr>dma_bus := (dma_bus s)\<lparr>bus_objects := (bus_objects (dma_bus s))[i := Fifo_obj q']\<rparr>\<rparr>)))"
| "port_read_ubyte Sif0_fifo s =
     bind_res (fifo_read_ubyte (fifo_sif0 (dma_sbus s))) (\<lambda>(data, q).
       Inr (data, s\<lparr>dma_sbus := (dma_sbus s)\<lparr>fifo_sif0 := q\<rparr>\<rparr>))"
| "port_read_ubyte Sif1_fifo s =
     bind_res (fifo_read_ubyte (fifo_sif1 (dma_sbus s))) (\<lambda>(data, q).
       Inr (data, s\<lparr>dma_sbus := (dma_sbus s)\<lparr>fifo_sif1 := q\<rparr>\<rparr>))"
| "port_read_ubyte Sif2_fifo s =
     bind_res (sif2_read_ubyte (dma_sbus s)) (\<lambda>(data, b). Inr (data, s\<lparr>dma_sbus := b\<rparr>))"

fun port_write_ubyte :: "fifo_ref \<Rightarrow> ubyte \<Rightarrow> 'z dma_env_scheme \<Rightarrow> 'z dma_env_scheme res" where
  "port_write_ubyte (Bus_fifo i) data s =
     bind_res (port_queue (Bus_fifo i) s) (\<lambda>q. bind_res (fifo_write_ubyte data q) (\<lambda>q'.
       Inr (s\<lparr>dma_bus := (dma_bus s)\<lparr>bus_objects := (bus_objects (dma_bus s))[i := Fifo_obj q']\<rparr>\<rparr>)))"
| "port_write_ubyte Sif0_fifo data s =
     bind_res (fifo_write_ubyte data (fifo_sif0 (dma_sbus s))) (\<lambda>q.
       Inr (s\<lparr>dma_sbus := (dma_sbus s)\<lparr>fifo_sif0 := q\<rparr>\<rparr>))"
| "port_write_ubyte Sif1_fifo data s =
     bind_res (fifo_write_ubyte data (fifo_sif1 (dma_sbus s))) (\<lambda>q.
       Inr (s\<lparr>dma_sbus := (dma_sbus s)\<lparr>fifo_sif1 := q\<rparr>\<rparr>))"
| "port_write_ubyte Sif2_fifo data s =
     bind_res (sif2_write_ubyte data (dma_sbus s)) (\<lambda>b. Inr (s\<lparr>dma_sbus := b\<rparr>))"

text \<open>Multi-byte accesses of a queue call the virtual byte access for each byte.\<close>

fun read_bytes :: "('s \<Rightarrow> (ubyte \<times> 's) res) \<Rightarrow> nat \<Rightarrow> 's \<Rightarrow> (ubyte list \<times> 's) res" where
  "read_bytes rd 0 s = Inr ([], s)"
| "read_bytes rd (Suc n) s =
     bind_res (rd s) (\<lambda>(b, s1). bind_res (read_bytes rd n s1) (\<lambda>(bs, s2). Inr (b # bs, s2)))"

fun write_bytes :: "(ubyte \<Rightarrow> 's \<Rightarrow> 's res) \<Rightarrow> ubyte list \<Rightarrow> 's \<Rightarrow> 's res" where
  "write_bytes wr [] s = Inr s"
| "write_bytes wr (b # bs) s = bind_res (wr b s) (write_bytes wr bs)"

definition port_read :: "nat \<Rightarrow> fifo_ref \<Rightarrow> 'z dma_env_scheme \<Rightarrow> ('v::len word \<times> 'z dma_env_scheme) res" where
  "port_read n r s = bind_res (read_bytes (port_read_ubyte r) n s) (\<lambda>(bs, s'). Inr (join_bytes bs, s'))"

definition port_write :: "nat \<Rightarrow> fifo_ref \<Rightarrow> 'v::len word \<Rightarrow> 'z dma_env_scheme \<Rightarrow> 'z dma_env_scheme res" where
  "port_write n r v s = write_bytes (port_write_ubyte r) (split_bytes n v) s"

text \<open>A call through the pointer of a channel, which is null where the channel has no such part.\<close>

definition deref :: "'p option \<Rightarrow> 'p res" where
  "deref p = (case p of None \<Rightarrow> Inl Null_object | Some x \<Rightarrow> Inr x)"

lemma deref_simps [simp]: "deref None = Inl Null_object" "deref (Some x) = Inr x"
  by (simp_all add: deref_def)

definition port_has_read :: "nat \<Rightarrow> fifo_ref option \<Rightarrow> 'z dma_env_scheme \<Rightarrow> bool res" where
  "port_has_read n p s =
     bind_res (deref p) (\<lambda>r. bind_res (port_queue r s) (\<lambda>q. Inr (has_read_available n q)))"

definition port_has_write :: "nat \<Rightarrow> fifo_ref option \<Rightarrow> 'z dma_env_scheme \<Rightarrow> bool res" where
  "port_has_write n p s =
     bind_res (deref p) (\<lambda>r. bind_res (port_queue r s) (\<lambda>q. Inr (has_write_available n q)))"

definition port_is_empty :: "fifo_ref option \<Rightarrow> 'z dma_env_scheme \<Rightarrow> bool res" where
  "port_is_empty p s =
     bind_res (deref p) (\<lambda>r. bind_res (port_queue r s) (\<lambda>q. Inr (queue_is_empty q)))"

text \<open>
  A quad word of two words and zeros: what a tag becomes when it is sent along.
\<close>

definition lower_qword :: "uword \<Rightarrow> uword \<Rightarrow> uqword" where
  "lower_qword w0 w1 = put_lane 1 w1 (put_lane 0 w0 0)"

text \<open>The accesses of a controller to its bus.\<close>

definition env_read_uword :: "uptr \<Rightarrow> 'z dma_env_scheme \<Rightarrow> (uword \<times> 'z dma_env_scheme) res" where
  "env_read_uword a s = bind_res (bus_read_uword a (dma_bus s)) (\<lambda>(v, b). Inr (v, s\<lparr>dma_bus := b\<rparr>))"

definition env_write_uword :: "uptr \<Rightarrow> uword \<Rightarrow> 'z dma_env_scheme \<Rightarrow> 'z dma_env_scheme res" where
  "env_write_uword a v s = bind_res (bus_write_uword a v (dma_bus s)) (\<lambda>b. Inr (s\<lparr>dma_bus := b\<rparr>))"

definition env_read_uqword :: "uptr \<Rightarrow> 'z dma_env_scheme \<Rightarrow> (uqword \<times> 'z dma_env_scheme) res" where
  "env_read_uqword a s = bind_res (bus_read_uqword a (dma_bus s)) (\<lambda>(v, b). Inr (v, s\<lparr>dma_bus := b\<rparr>))"

definition env_write_uqword :: "uptr \<Rightarrow> uqword \<Rightarrow> 'z dma_env_scheme \<Rightarrow> 'z dma_env_scheme res" where
  "env_write_uqword a v s = bind_res (bus_write_uqword a v (dma_bus s)) (\<lambda>b. Inr (s\<lparr>dma_bus := b\<rparr>))"

section \<open>A queue behind its byte accesses\<close>

text \<open>
  The interface a transfer uses: what the byte accesses do is an update of the queue, and the
  update may carry other effects, as the signal of SIF2.  The multi-byte accesses are then the
  queue's own.
\<close>

locale byte_port =
  fixes get :: "'s \<Rightarrow> dma_fifo res" and put :: "dma_fifo \<Rightarrow> 's \<Rightarrow> 's"
    and rd :: "'s \<Rightarrow> (ubyte \<times> 's) res" and wr :: "ubyte \<Rightarrow> 's \<Rightarrow> 's res"
  assumes get_put: "get s = Inr q0 \<Longrightarrow> get (put q s) = Inr q"
    and put_put: "put q (put q' s) = put q s"
    and rd: "get s = Inr q \<Longrightarrow> rd s = bind_res (fifo_read_ubyte q) (\<lambda>(b, q'). Inr (b, put q' s))"
    and wr: "get s = Inr q \<Longrightarrow> wr b s = bind_res (fifo_write_ubyte b q) (\<lambda>q'. Inr (put q' s))"
begin

lemma read_bytes_queue:
  assumes "get s = Inr q"
  shows "read_bytes rd (Suc n) s = bind_res (fifo_read (Suc n) q) (\<lambda>(bs, q'). Inr (bs, put q' s))"
  using assms
proof (induction n arbitrary: s q)
  case 0
  then show ?case by (cases "fifo_read_ubyte q") (auto simp: rd)
next
  case (Suc n)
  show ?case
  proof (cases "fifo_read_ubyte q")
    case (Inr a)
    obtain b q1 where a: "a = (b, q1)" by fastforce
    have "get (put q1 s) = Inr q1" using Suc.prems by (rule get_put)
    from Suc.IH[OF this] show ?thesis
      unfolding read_bytes.simps(2)[of rd "Suc n" s] fifo_read.simps(2)[of "Suc n" q]
      by (cases "fifo_read (Suc n) q1") (auto simp: rd[OF Suc.prems] Inr a put_put)
  qed (simp add: rd[OF Suc.prems])
qed

lemma write_bytes_queue:
  assumes "get s = Inr q" and "bs \<noteq> []"
  shows "write_bytes wr bs s = bind_res (fifo_write bs q) (\<lambda>q'. Inr (put q' s))"
  using assms
proof (induction bs arbitrary: s q)
  case (Cons b bs)
  show ?case
  proof (cases "fifo_write_ubyte b q")
    case (Inr q1)
    have "get (put q1 s) = Inr q1" using Cons.prems(1) by (rule get_put)
    from Cons.IH[OF this] show ?thesis
      by (cases "bs = []"; cases "fifo_write bs q1") (auto simp: wr[OF Cons.prems(1)] Inr put_put)
  qed (simp add: wr[OF Cons.prems(1)])
qed simp

end

fun port_put :: "fifo_ref \<Rightarrow> dma_fifo \<Rightarrow> 'z dma_env_scheme \<Rightarrow> 'z dma_env_scheme" where
  "port_put (Bus_fifo i) q s =
     s\<lparr>dma_bus := (dma_bus s)\<lparr>bus_objects := (bus_objects (dma_bus s))[i := Fifo_obj q]\<rparr>\<rparr>"
| "port_put Sif0_fifo q s = s\<lparr>dma_sbus := (dma_sbus s)\<lparr>fifo_sif0 := q\<rparr>\<rparr>"
| "port_put Sif1_fifo q s = s\<lparr>dma_sbus := (dma_sbus s)\<lparr>fifo_sif1 := q\<rparr>\<rparr>"
| "port_put Sif2_fifo q s =
     s\<lparr>dma_sbus := (dma_sbus s)\<lparr>fifo_sif2 := q, sbus_f300 := f300_signal q (sbus_f300 (dma_sbus s))\<rparr>\<rparr>"

lemma port_get_put: "port_queue r s = Inr q0 \<Longrightarrow> port_queue r (port_put r q s) = Inr q"
  by (cases r) (auto split: if_splits)

lemma port_put_put [simp]: "port_put r q (port_put r q' s) = port_put r q s"
  by (cases r) simp_all

lemma sif2_accesses:
  "sif2_read_ubyte b = bind_res (fifo_read_ubyte (fifo_sif2 b)) (\<lambda>(d, q).
     Inr (d, b\<lparr>fifo_sif2 := q, sbus_f300 := f300_signal q (sbus_f300 b)\<rparr>))"
  "sif2_write_ubyte d b = bind_res (fifo_write_ubyte d (fifo_sif2 b)) (\<lambda>q.
     Inr (b\<lparr>fifo_sif2 := q, sbus_f300 := f300_signal q (sbus_f300 b)\<rparr>))"
  by (auto simp: sif2_read_ubyte_def sif2_write_ubyte_def f300_signal_def queue_defs
      intro!: arg_cong2[where f = bind_res])

interpretation port: byte_port "port_queue r" "port_put r" "port_read_ubyte r" "port_write_ubyte r" for r
proof unfold_locales
  fix s :: "'a dma_env_scheme" and q b
  assume q: "port_queue r s = Inr q"
  show "port_read_ubyte r s = bind_res (fifo_read_ubyte q) (\<lambda>(b, q'). Inr (b, port_put r q' s))"
    using q by (cases r; cases "fifo_read_ubyte q") (auto simp: sif2_accesses)
  show "port_write_ubyte r b s = bind_res (fifo_write_ubyte b q) (\<lambda>q'. Inr (port_put r q' s))"
    using q by (cases r; cases "fifo_write_ubyte b q") (auto simp: sif2_accesses)
qed (auto simp: port_get_put)

lemma port_read_queue:
  assumes "port_queue r s = Inr q" and "0 < n" and "n \<le> length (q_items q)"
  shows "port_read n r s = Inr (join_bytes (take n (q_items q)) :: 'v::len word, port_put r (q\<lparr>q_items := drop n (q_items q)\<rparr>) s)"
  using assms port.read_bytes_queue[OF assms(1), of "n - 1"] by (simp add: port_read_def fifo_read_eq)

lemma port_write_queue:
  assumes "port_queue r s = Inr q" and "0 < n" and "length (q_items q) + n \<le> q_capacity q"
  shows "port_write n r (v :: 'v::len word) s = Inr (port_put r (q\<lparr>q_items := q_items q @ split_bytes n v\<rparr>) s)"
proof -
  have "split_bytes n v \<noteq> []" using assms(2) by (metis length_split_bytes less_numeral_extra(3) list.size(3))
  from port.write_bytes_queue[OF assms(1) this] show ?thesis using assms by (simp add: port_write_def fifo_write_eq)
qed

section \<open>A memory behind the bus\<close>

definition overlay :: "nat \<Rightarrow> 'x list \<Rightarrow> 'x list \<Rightarrow> 'x list" where
  "overlay off ys xs = take off xs @ ys @ drop (off + length ys) xs"

lemma length_overlay [simp]: "off + length ys \<le> length xs \<Longrightarrow> length (overlay off ys xs) = length xs"
  by (simp add: overlay_def)

lemma overlay_overlay:
  "off + length ys \<le> length xs \<Longrightarrow>
   overlay (off + length ys) zs (overlay off ys xs) = overlay off (ys @ zs) xs"
  by (simp add: overlay_def add.left_commute add.commute)

lemma take_drop_overlay:
  "off + length ys \<le> length xs \<Longrightarrow> take (length ys) (drop off (overlay off ys xs)) = ys"
  by (simp add: overlay_def)

definition memory_at :: "nat \<Rightarrow> 'z dma_env_scheme \<Rightarrow> byte_memory option" where
  "memory_at i s =
     (if i < length (bus_objects (dma_bus s)) then
        case bus_objects (dma_bus s) ! i of Memory_obj m \<Rightarrow> Some m | _ \<Rightarrow> None
      else None)"

definition put_memory :: "nat \<Rightarrow> ubyte list \<Rightarrow> 'z dma_env_scheme \<Rightarrow> 'z dma_env_scheme" where
  "put_memory i bs s =
     (case memory_at i s of
        None \<Rightarrow> s
      | Some m \<Rightarrow> s\<lparr>dma_bus := (dma_bus s)\<lparr>bus_objects :=
                    (bus_objects (dma_bus s))[i := Memory_obj (m\<lparr>mem_bytes := bs\<rparr>)]\<rparr>\<rparr>)"

lemma memory_at_Some:
  "memory_at i s = Some m \<longleftrightarrow> i < length (bus_objects (dma_bus s)) \<and> bus_objects (dma_bus s) ! i = Memory_obj m"
  by (auto simp: memory_at_def split: bus_object.splits)

lemma same_object: "objs ! i = x \<Longrightarrow> objs[i := x] = objs"
  using list_update_id[of objs i] by simp

lemma put_memory_eq:
  "memory_at i s = Some m \<Longrightarrow> put_memory i bs s =
     s\<lparr>dma_bus := (dma_bus s)\<lparr>bus_objects := (bus_objects (dma_bus s))[i := Memory_obj (m\<lparr>mem_bytes := bs\<rparr>)]\<rparr>\<rparr>"
  by (simp add: put_memory_def)

lemma memory_at_put_memory:
  assumes "memory_at i s = Some m"
  shows "memory_at i (put_memory i bs s) = Some (m\<lparr>mem_bytes := bs\<rparr>)"
  using assms by (simp add: put_memory_eq[OF assms] memory_at_Some)

lemma put_memory_put_memory [simp]: "put_memory i bs (put_memory i bs' s) = put_memory i bs s"
proof (cases "memory_at i s")
  case (Some m)
  note put_memory_eq[OF Some] put_memory_eq[OF memory_at_put_memory[OF Some, of bs']]
  then show ?thesis by simp
qed (simp add: put_memory_def)

lemma put_memory_same [simp]:
  assumes "memory_at i s = Some m"
  shows "put_memory i (mem_bytes m) s = s"
  using assms by (simp add: put_memory_eq[OF assms] memory_at_Some same_object)

lemma port_not_memory: "port_queue r s = Inr q \<Longrightarrow> memory_at i s = Some m \<Longrightarrow> r \<noteq> Bus_fifo i"
  by (auto simp: memory_at_Some)

lemma memory_at_port_put [simp]: "r \<noteq> Bus_fifo i \<Longrightarrow> memory_at i (port_put r q s) = memory_at i s"
  by (cases r) (auto simp: memory_at_def)

lemma port_queue_put_memory [simp]: "r \<noteq> Bus_fifo i \<Longrightarrow> port_queue r (put_memory i bs s) = port_queue r s"
  by (cases r) (auto simp: put_memory_def split: option.split)

lemma port_put_put_memory:
  "r \<noteq> Bus_fifo i \<Longrightarrow> port_put r q (put_memory i bs s) = put_memory i bs (port_put r q s)"
  by (cases r) (auto simp: put_memory_def memory_at_Some memory_at_def list_update_swap split: option.splits if_splits)

text \<open>Neither changes where the bus finds an address.\<close>

lemma bus_locate_same:
  assumes "directory_mask b' = directory_mask b" and "bus_table b' = bus_table b"
    and "length (bus_objects b') = length (bus_objects b)"
  shows "bus_locate a b' = bus_locate a b"
  using assms by (simp add: bus_locate_def get_page_def get_vdn_def Let_def split: option.split)

lemma locate_put [simp]:
  "bus_locate a (dma_bus (put_memory i bs s)) = bus_locate a (dma_bus s)"
  "bus_locate a (dma_bus (port_put r q s)) = bus_locate a (dma_bus s)"
proof -
  show "bus_locate a (dma_bus (put_memory i bs s)) = bus_locate a (dma_bus s)"
    by (auto simp: put_memory_def split: option.split intro!: bus_locate_same)
  show "bus_locate a (dma_bus (port_put r q s)) = bus_locate a (dma_bus s)"
    by (cases r) (auto intro!: bus_locate_same)
qed

lemma env_write_qword_memory:
  assumes "bus_locate a (dma_bus s) = Inr (i, off)" and m: "memory_at i s = Some m"
    and "\<not> mem_read_only m" and "off + 16 \<le> mem_size m"
  shows "env_write_uqword a v s = Inr (put_memory i (overlay off (split_bytes 16 v) (mem_bytes m)) s)"
  using assms by (simp add: env_write_uqword_def bus_write_uqword_def bus_write_with_def memory_at_Some
      put_memory_eq[OF m] mem_defs mem_write_def overlay_def wrap_obj_def)

lemma env_read_qword_memory:
  assumes "bus_locate a (dma_bus s) = Inr (i, off)" and "memory_at i s = Some m" and "off + 16 \<le> mem_size m"
  shows "env_read_uqword a s = Inr (join_bytes (take 16 (drop off (mem_bytes m))), s)"
  using assms by (simp add: env_read_uqword_def bus_read_uqword_def bus_read_with_def memory_at_Some
      mem_defs mem_read_def mem_access_def same_obj_def same_object)

lemma env_write_word_memory:
  assumes "bus_locate a (dma_bus s) = Inr (i, off)" and m: "memory_at i s = Some m"
    and "\<not> mem_read_only m" and "off + 4 \<le> mem_size m"
  shows "env_write_uword a v s = Inr (put_memory i (overlay off (split_bytes 4 v) (mem_bytes m)) s)"
  using assms by (simp add: env_write_uword_def bus_write_uword_def bus_write_with_def memory_at_Some
      put_memory_eq[OF m] mem_defs mem_write_def overlay_def wrap_obj_def)

lemma env_read_word_memory:
  assumes "bus_locate a (dma_bus s) = Inr (i, off)" and "memory_at i s = Some m" and "off + 4 \<le> mem_size m"
  shows "env_read_uword a s = Inr (join_bytes (take 4 (drop off (mem_bytes m))), s)"
  using assms by (simp add: env_read_uword_def bus_read_uword_def bus_read_with_def memory_at_Some
      mem_defs mem_read_def mem_access_def same_obj_def same_object)

text \<open>A stretch of addresses the bus finds in one memory.\<close>

definition window :: "uptr byte_bus \<Rightarrow> uptr \<Rightarrow> nat \<Rightarrow> nat \<Rightarrow> nat \<Rightarrow> bool" where
  "window b a n i off \<longleftrightarrow> (\<forall>k<n. bus_locate (a + of_nat k) b = Inr (i, off + k))"

lemma windowD: "window b a n i off \<Longrightarrow> k < n \<Longrightarrow> bus_locate (a + of_nat k) b = Inr (i, off + k)"
  by (simp add: window_def)

lemma window_put [simp]:
  "window (dma_bus (put_memory i' bs s)) a n i off = window (dma_bus s) a n i off"
  "window (dma_bus (port_put r q s)) a n i off = window (dma_bus s) a n i off"
  by (simp_all add: window_def)

text \<open>
  A stretch of a writable memory: the addresses, and room for the bytes; and a queue whose
  signals agree with what it holds, as they do after every access.
\<close>

definition memory_window :: "uptr \<Rightarrow> nat \<Rightarrow> nat \<Rightarrow> nat \<Rightarrow> byte_memory \<Rightarrow> 'z dma_env_scheme \<Rightarrow> bool" where
  "memory_window a n i off m s \<longleftrightarrow>
     window (dma_bus s) a n i off \<and> memory_at i s = Some m \<and> off + n \<le> mem_size m"

definition steady_queue :: "fifo_ref \<Rightarrow> dma_fifo \<Rightarrow> 'z dma_env_scheme \<Rightarrow> bool" where
  "steady_queue r q s \<longleftrightarrow> port_queue r s = Inr q \<and> port_put r q s = s"

lemma steady_queueD: "steady_queue r q s \<Longrightarrow> port_queue r s = Inr q"
  by (simp add: steady_queue_def)

lemma steady_queue_put: "port_queue r s = Inr q0 \<Longrightarrow> steady_queue r q (port_put r q s)"
  by (simp add: steady_queue_def port_get_put)

lemma steady_queue_put_memory [simp]:
  "r \<noteq> Bus_fifo i \<Longrightarrow> steady_queue r q s \<Longrightarrow> steady_queue r q (put_memory i bs s)"
  by (simp add: steady_queue_def port_put_put_memory)

lemma memory_window_put_memory:
  "memory_window a n i off m s \<Longrightarrow> length bs = mem_size m \<Longrightarrow>
   memory_window a n i off (m\<lparr>mem_bytes := bs\<rparr>) (put_memory i bs s)"
  by (simp add: memory_window_def memory_at_put_memory mem_size_def)

lemma memory_window_port_put [simp]:
  "r \<noteq> Bus_fifo i \<Longrightarrow> memory_window a n i off m (port_put r q s) = memory_window a n i off m s"
  by (simp add: memory_window_def)

lemma windows_fit: "memory_window a n i off m s \<Longrightarrow> k \<le> n \<Longrightarrow> memory_window a k i off m s"
  by (auto simp: memory_window_def window_def)

text \<open>What memory holds at an address.\<close>

definition holds :: "'z dma_env_scheme \<Rightarrow> uptr \<Rightarrow> ubyte list \<Rightarrow> bool" where
  "holds s a bs \<longleftrightarrow>
     (\<exists>i off m. memory_window a (length bs) i off m s \<and> take (length bs) (drop off (mem_bytes m)) = bs)"

lemma read_held_word:
  assumes "holds s a bs" and "k + 4 \<le> length bs"
  shows "env_read_uword (a + of_nat k) s = Inr (join_bytes (take 4 (drop k bs)), s)"
proof -
  obtain i off m where w: "memory_window a (length bs) i off m s" "take (length bs) (drop off (mem_bytes m)) = bs"
    using assms(1) by (auto simp: holds_def)
  have "bus_locate (a + of_nat k) (dma_bus s) = Inr (i, off + k)"
    using w(1) assms(2) by (auto simp: memory_window_def intro: windowD)
  then have "env_read_uword (a + of_nat k) s = Inr (join_bytes (take 4 (drop (off + k) (mem_bytes m))), s)"
    by (rule env_read_word_memory) (use w(1) assms(2) in \<open>simp_all add: memory_window_def\<close>)
  moreover have "take 4 (drop k bs) = take 4 (drop (off + k) (mem_bytes m))"
  proof -
    have "take 4 (drop k bs) = take 4 (drop k (take (length bs) (drop off (mem_bytes m))))" by (simp only: w(2))
    also have "\<dots> = take 4 (drop (off + k) (mem_bytes m))"
      using assms(2) by (simp add: drop_take min_def add.commute)
    finally show ?thesis .
  qed
  ultimately show ?thesis by (simp only:)
qed

lemma holds_port_put:
  assumes "port_queue r s = Inr q0" and "holds s a bs"
  shows "holds (port_put r q s) a bs"
proof -
  obtain i off m where w: "memory_window a (length bs) i off m s" "take (length bs) (drop off (mem_bytes m)) = bs"
    using assms(2) by (auto simp: holds_def)
  have "r \<noteq> Bus_fifo i" using w(1) by (intro port_not_memory[OF assms(1)]) (simp add: memory_window_def)
  then have "memory_window a (length bs) i off m (port_put r q s)" using w(1) by simp
  then show ?thesis unfolding holds_def using w(2) by blast
qed

section \<open>Single bits of a register\<close>

lemma bit_clear: "bit (insert_into (BF k (Suc 0)) (v :: uword) 0) n \<longleftrightarrow> n < 32 \<and> n \<noteq> k \<and> bit v n"
  by (auto simp: bit_insert_into)

lemma field_bit: "extract_from (BF k (Suc 0)) (v :: uword) = of_bool (bit v k)"
  by (rule bit_word_eqI) (auto simp: bit_extract_from bit_1_iff dest: bit_imp_le_length)

lemma nonzero_bit: "(x :: 'a::len word) \<noteq> 0 \<longleftrightarrow> (\<exists>n. bit x n)"
  by (auto simp: bit_eq_iff[of x 0] dest: bit_imp_le_length)

end
