(* ===== verification/EeDmac.thy ===== *)
theory EeDmac
  imports Dma
begin

text \<open>
  The DMA controller of the EE: the registers of its ten channels with the side effects of the
  control registers, the wiring of the channels, normal and chain transfers, and the controller,
  which drives line 3 of the EE core.

  A channel is a record of its registers; the ones a channel does not have are the null pointers
  of the source.  The operations work on a channel and the environment, which holds the common
  registers, the bus, the queues and the COP0 of the core.
\<close>

section \<open>Tags\<close>

record ee_dmatag =
  et_tag0 :: uword
  et_tag1 :: uword

definition EeDmatag_new :: ee_dmatag where
  "EeDmatag_new = \<lparr>et_tag0 = 0, et_tag1 = 0\<rparr>"

definition ETAG_QWC :: bitfield where [word_defs]: "ETAG_QWC = BF 0 16"
definition ETAG_TAG :: bitfield where [word_defs]: "ETAG_TAG = BF 16 16"
definition ETAG_ID :: bitfield where [word_defs]: "ETAG_ID = BF 28 3"
definition ETAG_IRQ :: bitfield where [word_defs]: "ETAG_IRQ = BF 31 1"
definition ETAG_ADDR :: bitfield where [word_defs]: "ETAG_ADDR = BF 0 31"
definition ETAG_SPR :: bitfield where [word_defs]: "ETAG_SPR = BF 31 1"

definition tag_qwc :: "ee_dmatag \<Rightarrow> uword" where
  "tag_qwc t = extract_from ETAG_QWC (et_tag0 t)"
definition tag_tag :: "ee_dmatag \<Rightarrow> uword" where
  "tag_tag t = extract_from ETAG_TAG (et_tag0 t)"
definition tag_id :: "ee_dmatag \<Rightarrow> nat" where
  "tag_id t = unat (extract_from ETAG_ID (et_tag0 t))"
definition tag_irq_bit :: "ee_dmatag \<Rightarrow> bool" where
  "tag_irq_bit t \<longleftrightarrow> extract_from ETAG_IRQ (et_tag0 t) > 0"
definition tag_addr :: "ee_dmatag \<Rightarrow> uword" where
  "tag_addr t = extract_from ETAG_ADDR (et_tag1 t)"
definition tag_spr :: "ee_dmatag \<Rightarrow> uword" where
  "tag_spr t = (if extract_from ETAG_SPR (et_tag1 t) > 0 then 1 else 0)"

section \<open>The control register of a channel\<close>

datatype ee_chcr_kind = Chcr_plain | Chcr_sif0 | Chcr_sif1 | Chcr_sif2

record ee_chcr =
  chcr_kind :: ee_chcr_kind
  chcr_val :: uword
  dma_started :: bool
  tag_exit :: bool
  tag_stall :: bool
  tag_irq :: bool
  dma_tag :: ee_dmatag

datatype direction = FROM | TO

datatype logical_mode = NORMAL | CHAIN | INTERLEAVED

definition CHCR_DIR :: bitfield where [word_defs]: "CHCR_DIR = BF 0 1"
definition CHCR_MOD :: bitfield where [word_defs]: "CHCR_MOD = BF 2 2"
definition CHCR_ASP :: bitfield where [word_defs]: "CHCR_ASP = BF 4 2"
definition CHCR_TTE :: bitfield where [word_defs]: "CHCR_TTE = BF 6 1"
definition CHCR_TIE :: bitfield where [word_defs]: "CHCR_TIE = BF 7 1"
definition CHCR_STR :: bitfield where [word_defs]: "CHCR_STR = BF 8 1"
definition CHCR_TAG :: bitfield where [word_defs]: "CHCR_TAG = BF 16 16"

definition EeDmacChannelRegister_Chcr_new :: "ee_chcr_kind \<Rightarrow> ee_chcr" where
  "EeDmacChannelRegister_Chcr_new k =
     \<lparr>chcr_kind = k, chcr_val = 0, dma_started = False, tag_exit = False, tag_stall = False,
      tag_irq = False, dma_tag = EeDmatag_new\<rparr>"

definition chcr_extract_field :: "bitfield \<Rightarrow> ee_chcr \<Rightarrow> uword" where
  "chcr_extract_field f c = extract_from f (chcr_val c)"

text \<open>An enumeration cast from a field; \<open>None\<close> is a value outside the enumeration.\<close>

definition get_logical_mode :: "ee_chcr \<Rightarrow> logical_mode option" where
  "get_logical_mode c =
     (let v = chcr_extract_field CHCR_MOD c in
      if v = 0 then Some NORMAL else if v = 1 then Some CHAIN else if v = 2 then Some INTERLEAVED else None)"

definition get_direction :: "ee_chcr \<Rightarrow> direction option" where
  "get_direction c =
     (let v = chcr_extract_field CHCR_DIR c in
      if v = 0 then Some FROM else if v = 1 then Some TO else None)"

text \<open>The write of the base class, which resets the flags when a transfer is started.\<close>

definition chcr_base_write :: "uword \<Rightarrow> ee_chcr \<Rightarrow> ee_chcr" where
  "chcr_base_write v c =
     (let start_old = chcr_extract_field CHCR_STR c;
          c1 = c\<lparr>chcr_val := v\<rparr>;
          start_new = chcr_extract_field CHCR_STR c1
      in if start_old = 0 \<and> start_new \<noteq> 0
         then c1\<lparr>dma_started := False, tag_exit := False, tag_stall := False, tag_irq := False,
                 dma_tag := EeDmatag_new\<rparr>
         else c1)"

definition chcr_to_write :: "uword \<Rightarrow> ee_chcr \<Rightarrow> ee_chcr" where
  "chcr_to_write v c = chcr_base_write (v OR 1) c"

definition chcr_from_write :: "uword \<Rightarrow> ee_chcr \<Rightarrow> ee_chcr" where
  "chcr_from_write v c = chcr_base_write (v AND NOT 1) c"

definition sif0_update_finish :: "sbus \<Rightarrow> sbus" where
  "sif0_update_finish b = b\<lparr>sbus_f240 := sbus_f240 b AND NOT 0x20 AND NOT 0x2000\<rparr>"

definition sif1_update_start :: "sbus \<Rightarrow> sbus" where
  "sif1_update_start b = b\<lparr>sbus_f240 := sbus_f240 b OR 0x4000\<rparr>"

definition sif2_update_start :: "sbus \<Rightarrow> sbus" where
  "sif2_update_start b = b\<lparr>sbus_f240 := sbus_f240 b OR 0x8000\<rparr>"

definition sif2_update_finish :: "sbus \<Rightarrow> sbus" where
  "sif2_update_finish b = b\<lparr>sbus_f240 := sbus_f240 b AND NOT 0x80 AND NOT 0x8000\<rparr>"

definition chcr_sif0_write :: "uword \<Rightarrow> ee_chcr \<Rightarrow> sbus \<Rightarrow> ee_chcr \<times> sbus" where
  "chcr_sif0_write v c b =
     (let c1 = chcr_from_write v c in
      (c1, if chcr_extract_field CHCR_STR c1 = 0 \<and> get_direction c1 = Some FROM
           then sif0_update_finish b else b))"

definition chcr_sif1_write :: "uword \<Rightarrow> ee_chcr \<Rightarrow> sbus \<Rightarrow> ee_chcr \<times> sbus" where
  "chcr_sif1_write v c b =
     (let c1 = chcr_to_write v c in
      (c1, if chcr_extract_field CHCR_STR c1 > 0 \<and> get_direction c1 = Some TO
           then sif1_update_start b else b))"

definition chcr_sif2_write :: "uword \<Rightarrow> ee_chcr \<Rightarrow> sbus \<Rightarrow> ee_chcr \<times> sbus" where
  "chcr_sif2_write v c b =
     (let c1 = chcr_base_write v c in
      (c1, if chcr_extract_field CHCR_STR c1 > 0 \<and> get_direction c1 = Some TO then sif2_update_start b
           else if chcr_extract_field CHCR_STR c1 = 0 \<and> get_direction c1 = Some FROM
           then sif2_update_finish b else b))"

text \<open>The virtual write; the insertion of a field and the bus write go through it.\<close>

definition chcr_write_uword :: "uword \<Rightarrow> ee_chcr \<Rightarrow> sbus \<Rightarrow> ee_chcr \<times> sbus" where
  "chcr_write_uword v c b =
     (case chcr_kind c of
        Chcr_plain \<Rightarrow> (chcr_base_write v c, b)
      | Chcr_sif0 \<Rightarrow> chcr_sif0_write v c b
      | Chcr_sif1 \<Rightarrow> chcr_sif1_write v c b
      | Chcr_sif2 \<Rightarrow> chcr_sif2_write v c b)"

definition chcr_insert_field :: "bitfield \<Rightarrow> uword \<Rightarrow> ee_chcr \<Rightarrow> sbus \<Rightarrow> ee_chcr \<times> sbus" where
  "chcr_insert_field f v c b = chcr_write_uword (insert_into f (chcr_val c) v) c b"

definition chcr_bus_write_uword :: "BusContext \<Rightarrow> uword \<Rightarrow> ee_chcr \<Rightarrow> sbus \<Rightarrow> ee_chcr \<times> sbus" where
  "chcr_bus_write_uword context v c b = chcr_write_uword v c b"

section \<open>Channels\<close>

record ee_channel =
  channel_id :: nat
  dma_fifo_queue :: "fifo_ref option"
  madr :: uword
  qwc :: uword
  chcr :: ee_chcr
  tadr :: "uword option"
  asr :: "uword list option"
  sadr :: "uword option"

definition ADDR_ADDR :: bitfield where [word_defs]: "ADDR_ADDR = BF 0 31"
definition ADDR_SPR :: bitfield where [word_defs]: "ADDR_SPR = BF 31 1"

definition EeDmacChannel_Base_new :: "nat \<Rightarrow> fifo_ref option \<Rightarrow> ee_chcr_kind \<Rightarrow> ee_channel" where
  "EeDmacChannel_Base_new i q k =
     \<lparr>channel_id = i, dma_fifo_queue = q, madr = 0, qwc = 0, chcr = EeDmacChannelRegister_Chcr_new k,
      tadr = None, asr = None, sadr = None\<rparr>"

definition EeDmacChannel_Tadr_new :: "nat \<Rightarrow> fifo_ref option \<Rightarrow> ee_chcr_kind \<Rightarrow> ee_channel" where
  "EeDmacChannel_Tadr_new i q k = (EeDmacChannel_Base_new i q k)\<lparr>tadr := Some 0\<rparr>"

definition EeDmacChannel_Asr_new :: "nat \<Rightarrow> fifo_ref option \<Rightarrow> ee_chcr_kind \<Rightarrow> ee_channel" where
  "EeDmacChannel_Asr_new i q k = (EeDmacChannel_Tadr_new i q k)\<lparr>asr := Some [0, 0]\<rparr>"

definition EeDmacChannel_Sadr_new :: "nat \<Rightarrow> fifo_ref option \<Rightarrow> ee_chcr_kind \<Rightarrow> ee_channel" where
  "EeDmacChannel_Sadr_new i q k = (EeDmacChannel_Base_new i q k)\<lparr>sadr := Some 0\<rparr>"

definition EeDmacChannel_Tadr_Sadr_new :: "nat \<Rightarrow> fifo_ref option \<Rightarrow> ee_chcr_kind \<Rightarrow> ee_channel" where
  "EeDmacChannel_Tadr_Sadr_new i q k = (EeDmacChannel_Tadr_new i q k)\<lparr>sadr := Some 0\<rparr>"

text \<open>
  The channels as they are wired at start; the five queues the EE bus maps are given by their
  place in the store of the bus.
\<close>

definition initialise_ee_dmac ::
    "nat \<Rightarrow> nat \<Rightarrow> nat \<Rightarrow> nat \<Rightarrow> nat \<Rightarrow> ee_channel list" where
  "initialise_ee_dmac vif0 vif1 gif fromipu toipu =
     [EeDmacChannel_Asr_new 0 (Some (Bus_fifo vif0)) Chcr_plain,
      EeDmacChannel_Asr_new 1 (Some (Bus_fifo vif1)) Chcr_plain,
      EeDmacChannel_Asr_new 2 (Some (Bus_fifo gif)) Chcr_plain,
      EeDmacChannel_Base_new 3 (Some (Bus_fifo fromipu)) Chcr_plain,
      EeDmacChannel_Tadr_new 4 (Some (Bus_fifo toipu)) Chcr_plain,
      EeDmacChannel_Base_new 5 (Some Sif0_fifo) Chcr_sif0,
      EeDmacChannel_Tadr_new 6 (Some Sif1_fifo) Chcr_sif1,
      EeDmacChannel_Base_new 7 (Some Sif2_fifo) Chcr_sif2,
      EeDmacChannel_Sadr_new 8 None Chcr_plain,
      EeDmacChannel_Tadr_Sadr_new 9 None Chcr_plain]"

definition addr_field :: "bitfield \<Rightarrow> uword \<Rightarrow> uword" where
  "addr_field f r = extract_from f r"

section \<open>Common registers\<close>

record ee_dma = dma_env +
  d_ctrl :: uword
  d_stat :: uword
  d_pcr :: uword
  d_sqwc :: uword
  d_rbsr :: uword
  d_rbor :: uword
  d_stadr :: uword
  d_enable_r :: uword
  d_enable_w :: uword
  d_cop0 :: ee_cop0

definition DCTRL_DMAE :: bitfield where [word_defs]: "DCTRL_DMAE = BF 0 1"
definition DCTRL_STS :: bitfield where [word_defs]: "DCTRL_STS = BF 4 2"
definition DCTRL_STD :: bitfield where [word_defs]: "DCTRL_STD = BF 6 2"
definition DSTAT_SIS :: bitfield where [word_defs]: "DSTAT_SIS = BF 13 1"
definition DSTAT_BEIS :: bitfield where [word_defs]: "DSTAT_BEIS = BF 15 1"

definition CHANNEL_CIS_KEYS :: "bitfield list" where
  "CHANNEL_CIS_KEYS = [BF 0 1, BF 1 1, BF 2 1, BF 3 1, BF 4 1, BF 5 1, BF 6 1, BF 7 1, BF 8 1, BF 9 1]"

definition CHANNEL_CIM_KEYS :: "bitfield list" where
  "CHANNEL_CIM_KEYS =
    [BF 16 1, BF 17 1, BF 18 1, BF 19 1, BF 20 1, BF 21 1, BF 22 1, BF 23 1, BF 24 1, BF 25 1]"

definition STS_MAP :: "nat list" where "STS_MAP = [0, 5, 8, 3]"
definition STD_MAP :: "nat list" where "STD_MAP = [0, 1, 2, 6]"

definition stat_bus_write :: "BusContext \<Rightarrow> uword \<Rightarrow> uword \<Rightarrow> uword" where
  "stat_bus_write context v reg_value =
     (if context = Ee_context then
        ((reg_value AND 0xFFFF0000) XOR (v AND 0xFFFF0000)) OR ((reg_value AND 0xFFFF) AND NOT (v AND 0xFFFF))
      else v)"

definition is_interrupt_pending :: "uword \<Rightarrow> bool" where
  "is_interrupt_pending reg_value \<longleftrightarrow>
     (reg_value AND 0xFFFF) AND drop_bit 16 (reg_value AND 0xFFFF0000) \<noteq> 0 \<or>
     extract_from DSTAT_BEIS reg_value \<noteq> 0"

section \<open>Transfers of a data unit\<close>

definition chan_insert_field :: "bitfield \<Rightarrow> uword \<Rightarrow> ee_channel \<Rightarrow> ee_dma \<Rightarrow> ee_channel \<times> ee_dma" where
  "chan_insert_field f v c s =
     (case chcr_insert_field f v (chcr c) (dma_sbus s) of (r, b) \<Rightarrow> (c\<lparr>chcr := r\<rparr>, s\<lparr>dma_sbus := b\<rparr>))"

definition read_qword_memory :: "uptr \<Rightarrow> bool \<Rightarrow> ee_dma \<Rightarrow> (uqword \<times> ee_dma) res" where
  "read_qword_memory address spr_access s =
     env_read_uqword (if spr_access then 0x70000000 + address else address) s"

definition write_qword_memory :: "uptr \<Rightarrow> bool \<Rightarrow> uqword \<Rightarrow> ee_dma \<Rightarrow> ee_dma res" where
  "write_qword_memory address spr_access data s =
     env_write_uqword (if spr_access then 0x70000000 + address else address) data s"

definition transfer_data_spr :: "ee_channel \<Rightarrow> uptr \<Rightarrow> ee_dma \<Rightarrow> (int \<times> ee_channel \<times> ee_dma) res" where
  "transfer_data_spr c address s =
     bind_res (deref (sadr c)) (\<lambda>sa.
       let spr_address = sa AND 0x3FF0 in
       bind_res
         (case get_direction (chcr c) of
            Some FROM \<Rightarrow> bind_res (read_qword_memory spr_address True s) (\<lambda>(packet, s1).
              write_qword_memory address False packet s1)
          | Some TO \<Rightarrow> bind_res (read_qword_memory address False s) (\<lambda>(packet, s1).
              write_qword_memory spr_address True packet s1)
          | None \<Rightarrow> Inl Runtime_error)
         (\<lambda>s2. Inr (1, c\<lparr>madr := madr c + 16, sadr := Some (sa + 16), qwc := qwc c - 1\<rparr>, s2)))"

definition transfer_data_fifo :: "ee_channel \<Rightarrow> bool \<Rightarrow> uptr \<Rightarrow> ee_dma \<Rightarrow> (int \<times> ee_channel \<times> ee_dma) res" where
  "transfer_data_fifo c spr_flag address s =
     (case get_direction (chcr c) of
        Some FROM \<Rightarrow>
          bind_res (port_has_read 16 (dma_fifo_queue c) s) (\<lambda>available.
            if \<not> available then Inr (0, c, s)
            else bind_res (deref (dma_fifo_queue c)) (\<lambda>r.
              bind_res (port_read 16 r s) (\<lambda>(packet, s1).
              bind_res (write_qword_memory address spr_flag packet s1) (\<lambda>s2.
                Inr (1, c\<lparr>madr := madr c + 16, qwc := qwc c - 1\<rparr>, s2)))))
      | Some TO \<Rightarrow>
          bind_res (port_has_write 16 (dma_fifo_queue c) s) (\<lambda>available.
            if \<not> available then Inr (0, c, s)
            else bind_res (read_qword_memory address spr_flag s) (\<lambda>(packet, s1).
              bind_res (deref (dma_fifo_queue c)) (\<lambda>r.
              bind_res (port_write 16 r packet s1) (\<lambda>s2.
                Inr (1, c\<lparr>madr := madr c + 16, qwc := qwc c - 1\<rparr>, s2)))))
      | None \<Rightarrow> Inl Runtime_error)"

definition transfer_data :: "ee_channel \<Rightarrow> ee_dma \<Rightarrow> (int \<times> ee_channel \<times> ee_dma) res" where
  "transfer_data c s =
     (let spr_flag = addr_field ADDR_SPR (madr c) > 0;
          address = addr_field ADDR_ADDR (madr c) AND 0x1FFFFFF0
      in if channel_id c = 8 \<or> channel_id c = 9 then transfer_data_spr c address s
         else transfer_data_fifo c spr_flag address s)"

section \<open>Suspending and stalling\<close>

definition set_state_suspended :: "ee_channel \<Rightarrow> ee_dma \<Rightarrow> (ee_channel \<times> ee_dma) res" where
  "set_state_suspended c s =
     (if channel_id c < length CHANNEL_CIS_KEYS then
        Inr (chan_insert_field CHCR_STR 0 c
               (s\<lparr>d_stat := insert_into (CHANNEL_CIS_KEYS ! channel_id c) (d_stat s) 1\<rparr>))
      else Inl Out_of_bounds)"

definition set_state_failed_transfer :: "ee_channel \<Rightarrow> ee_dma \<Rightarrow> (ee_channel \<times> ee_dma) res" where
  "set_state_failed_transfer c s = Inl Runtime_error"

definition is_source_stall_control_on :: "ee_channel \<Rightarrow> ee_dma \<Rightarrow> bool" where
  "is_source_stall_control_on c s \<longleftrightarrow>
     get_direction (chcr c) = Some FROM \<and>
     channel_id c = STS_MAP ! unat (extract_from DCTRL_STS (d_ctrl s))"

definition is_drain_stall_control_on :: "ee_channel \<Rightarrow> ee_dma \<Rightarrow> bool" where
  "is_drain_stall_control_on c s \<longleftrightarrow>
     get_direction (chcr c) = Some TO \<and>
     channel_id c = STD_MAP ! unat (extract_from DCTRL_STD (d_ctrl s))"

definition set_dmac_stall_control_stadr :: "ee_channel \<Rightarrow> ee_dma \<Rightarrow> ee_dma" where
  "set_dmac_stall_control_stadr c s = s\<lparr>d_stadr := addr_field ADDR_ADDR (madr c)\<rparr>"

definition set_dmac_stall_control_sis :: "ee_dma \<Rightarrow> ee_dma" where
  "set_dmac_stall_control_sis s = s\<lparr>d_stat := insert_into DSTAT_SIS (d_stat s) 1\<rparr>"

definition is_drain_stall_control_waiting :: "ee_channel \<Rightarrow> ee_dma \<Rightarrow> bool" where
  "is_drain_stall_control_waiting c s \<longleftrightarrow>
     get_direction (chcr c) = Some TO \<and> addr_field ADDR_ADDR (madr c) + 8 > d_stadr s"

text \<open>
  The end of a transfer: one that fills a queue waits until the peripheral has emptied it (the
  transfer to the scratchpad does not).
\<close>

definition drain_pending :: "ee_channel \<Rightarrow> ee_dma \<Rightarrow> bool res" where
  "drain_pending c s =
     (if get_direction (chcr c) = Some TO \<and> channel_id c \<noteq> 9
      then bind_res (port_is_empty (dma_fifo_queue c) s) (\<lambda>empty. Inr (\<not> empty))
      else Inr False)"

definition finish_transfer :: "ee_channel \<Rightarrow> ee_dma \<Rightarrow> (bool \<times> ee_channel \<times> ee_dma) res" where
  "finish_transfer c s =
     bind_res (drain_pending c s) (\<lambda>wait.
       if wait then Inr (False, c, s)
       else bind_res (set_state_suspended c s) (\<lambda>(c1, s1). Inr (True, c1, s1)))"

text \<open>One data unit of either mode, with its stall control.\<close>

definition transfer_unit :: "bool \<Rightarrow> ee_channel \<Rightarrow> ee_dma \<Rightarrow> (bool \<times> ee_channel \<times> ee_dma) res" where
  "transfer_unit stalling c s =
     (if is_drain_stall_control_on c s \<and> is_drain_stall_control_waiting c s \<and> stalling
      then Inr (False, c, set_dmac_stall_control_sis s)
      else bind_res (transfer_data c s) (\<lambda>(count, c1, s1).
        if count = 0 then Inr (False, c1, s1)
        else if is_source_stall_control_on c1 s1 \<and> stalling
        then Inr (True, c1, set_dmac_stall_control_stadr c1 s1)
        else Inr (True, c1, s1)))"

definition start_transfer :: "ee_channel \<Rightarrow> ee_channel" where
  "start_transfer c = c\<lparr>chcr := (chcr c)\<lparr>dma_started := True\<rparr>\<rparr>"

section \<open>Normal mode\<close>

definition transfer_normal :: "ee_channel \<Rightarrow> ee_dma \<Rightarrow> (bool \<times> ee_channel \<times> ee_dma) res" where
  "transfer_normal c s =
     (if \<not> dma_started (chcr c) then
        if qwc c = 0 then bind_res (set_state_failed_transfer c s) (\<lambda>(c1, s1). Inr (False, c1, s1))
        else Inr (True, start_transfer c, s)
      else if qwc c = 0 then finish_transfer c s
      else transfer_unit True c s)"

section \<open>Chain mode\<close>

text \<open>The two fields of an address register, written one after the other.\<close>

definition set_address :: "uword \<Rightarrow> uword \<Rightarrow> uword \<Rightarrow> uword" where
  "set_address address spr r = insert_into ADDR_SPR (insert_into ADDR_ADDR r address) spr"

definition after_tag :: "uword \<Rightarrow> uword \<Rightarrow> uword" where
  "after_tag t r = set_address (addr_field ADDR_ADDR t + 0x10) (addr_field ADDR_SPR t) r"

type_synonym chain_handler = "ee_channel \<Rightarrow> ee_dma \<Rightarrow> (ee_channel \<times> ee_dma) res"

definition CHAIN_TAGID_UNKNOWN :: chain_handler where
  "CHAIN_TAGID_UNKNOWN c s = Inl Runtime_error"

definition CHAIN_SRC_CNT :: chain_handler where
  "CHAIN_SRC_CNT c s =
     (let tag = dma_tag (chcr c) in
      bind_res (deref (tadr c)) (\<lambda>t.
        let next_tag_addr = addr_field ADDR_ADDR t + (tag_qwc tag + 1) * 0x10 in
        Inr (c\<lparr>qwc := tag_qwc tag, madr := after_tag t (madr c),
               tadr := Some (insert_into ADDR_ADDR t next_tag_addr)\<rparr>, s)))"

definition CHAIN_SRC_NEXT :: chain_handler where
  "CHAIN_SRC_NEXT c s =
     (let tag = dma_tag (chcr c) in
      bind_res (deref (tadr c)) (\<lambda>t.
        Inr (c\<lparr>qwc := tag_qwc tag, madr := after_tag t (madr c),
               tadr := Some (set_address (tag_addr tag) (tag_spr tag) t)\<rparr>, s)))"

definition CHAIN_SRC_REF :: chain_handler where
  "CHAIN_SRC_REF c s =
     (let tag = dma_tag (chcr c) in
      bind_res (deref (tadr c)) (\<lambda>t.
        Inr (c\<lparr>qwc := tag_qwc tag, madr := set_address (tag_addr tag) (tag_spr tag) (madr c),
               tadr := Some (t + 16)\<rparr>, s)))"

definition CHAIN_SRC_REFS :: chain_handler where
  "CHAIN_SRC_REFS c s =
     (let tag = dma_tag (chcr c) in
      bind_res (deref (tadr c)) (\<lambda>t.
        Inr (c\<lparr>chcr := (chcr c)\<lparr>tag_stall := True\<rparr>, qwc := tag_qwc tag,
               madr := set_address (tag_addr tag) (tag_spr tag) (madr c), tadr := Some (t + 16)\<rparr>, s)))"

definition CHAIN_SRC_REFE :: chain_handler where
  "CHAIN_SRC_REFE c s =
     (let tag = dma_tag (chcr c) in
      bind_res (deref (tadr c)) (\<lambda>t.
        Inr (c\<lparr>qwc := tag_qwc tag, madr := set_address (tag_addr tag) (tag_spr tag) (madr c),
               tadr := Some (t + 16), chcr := (chcr c)\<lparr>tag_exit := True\<rparr>\<rparr>, s)))"

text \<open>An element of the address stack: the source indexes from the first of the two registers.\<close>

definition asr_get :: "ee_channel \<Rightarrow> nat \<Rightarrow> uword res" where
  "asr_get c n = bind_res (deref (asr c)) (\<lambda>a. if n < length a then Inr (a ! n) else Inl Out_of_bounds)"

definition asr_put :: "nat \<Rightarrow> uword \<Rightarrow> ee_channel \<Rightarrow> ee_channel res" where
  "asr_put n v c =
     bind_res (deref (asr c)) (\<lambda>a. if n < length a then Inr (c\<lparr>asr := Some (a[n := v])\<rparr>) else Inl Out_of_bounds)"

definition CHAIN_SRC_CALL :: chain_handler where
  "CHAIN_SRC_CALL c s =
     (let tag = dma_tag (chcr c) in
      bind_res (deref (tadr c)) (\<lambda>t.
        let t1 = set_address (tag_addr tag) (tag_spr tag) t;
            c1 = c\<lparr>qwc := tag_qwc tag, madr := after_tag t (madr c), tadr := Some t1\<rparr>;
            asp = chcr_extract_field CHCR_ASP (chcr c1)
        in if asp \<ge> 2 then Inr (c1\<lparr>chcr := (chcr c1)\<lparr>tag_exit := True\<rparr>\<rparr>, s)
           else bind_res (asr_get c1 (unat asp)) (\<lambda>a.
             bind_res (asr_put (unat asp) (after_tag t1 a) c1) (\<lambda>c2.
               Inr (chan_insert_field CHCR_ASP (asp + 1) c2 s)))))"

definition CHAIN_SRC_RET :: chain_handler where
  "CHAIN_SRC_RET c s =
     (let tag = dma_tag (chcr c);
          asp = chcr_extract_field CHCR_ASP (chcr c)
      in bind_res
           (if asp = 0 then Inr (c\<lparr>chcr := (chcr c)\<lparr>tag_exit := True\<rparr>\<rparr>, s)
            else bind_res (deref (tadr c)) (\<lambda>t. bind_res (asr_get c (unat asp)) (\<lambda>a.
              let t1 = insert_into ADDR_ADDR t (addr_field ADDR_ADDR a);
                  t2 = insert_into ADDR_ADDR t1 (addr_field ADDR_SPR a)
              in Inr (chan_insert_field CHCR_ASP (asp - 1) (c\<lparr>tadr := Some t2\<rparr>) s))))
           (\<lambda>(c1, s1). bind_res (deref (tadr c1)) (\<lambda>t.
              Inr (c1\<lparr>qwc := tag_qwc tag, madr := after_tag t (madr c1)\<rparr>, s1))))"

definition CHAIN_SRC_END :: chain_handler where
  "CHAIN_SRC_END c s =
     (let tag = dma_tag (chcr c) in
      bind_res (deref (tadr c)) (\<lambda>t.
        Inr (c\<lparr>qwc := tag_qwc tag, madr := after_tag t (madr c),
               chcr := (chcr c)\<lparr>tag_exit := True\<rparr>\<rparr>, s)))"

definition CHAIN_DST_CNT :: chain_handler where
  "CHAIN_DST_CNT c s =
     (let tag = dma_tag (chcr c) in
      Inr (c\<lparr>qwc := tag_qwc tag, madr := set_address (tag_addr tag) (tag_spr tag) (madr c)\<rparr>, s))"

definition CHAIN_DST_CNTS :: chain_handler where
  "CHAIN_DST_CNTS c s =
     (let tag = dma_tag (chcr c) in
      Inr (c\<lparr>chcr := (chcr c)\<lparr>tag_stall := True\<rparr>, qwc := tag_qwc tag,
             madr := set_address (tag_addr tag) (tag_spr tag) (madr c)\<rparr>, s))"

definition CHAIN_DST_END :: chain_handler where
  "CHAIN_DST_END c s =
     (let tag = dma_tag (chcr c) in
      Inr (c\<lparr>qwc := tag_qwc tag, madr := set_address (tag_addr tag) (tag_spr tag) (madr c),
             chcr := (chcr c)\<lparr>tag_exit := True\<rparr>\<rparr>, s))"

definition SRC_CHAIN_INSTRUCTION_TABLE :: "chain_handler list" where
  "SRC_CHAIN_INSTRUCTION_TABLE =
     [CHAIN_SRC_REFE, CHAIN_SRC_CNT, CHAIN_SRC_NEXT, CHAIN_SRC_REF, CHAIN_SRC_REFS, CHAIN_SRC_CALL,
      CHAIN_SRC_RET, CHAIN_SRC_END]"

definition DST_CHAIN_INSTRUCTION_TABLE :: "chain_handler list" where
  "DST_CHAIN_INSTRUCTION_TABLE =
     [CHAIN_DST_CNTS, CHAIN_DST_CNT, CHAIN_TAGID_UNKNOWN, CHAIN_TAGID_UNKNOWN, CHAIN_TAGID_UNKNOWN,
      CHAIN_TAGID_UNKNOWN, CHAIN_TAGID_UNKNOWN, CHAIN_DST_END]"

definition tag_words :: "uqword \<Rightarrow> ee_dmatag" where
  "tag_words tag = \<lparr>et_tag0 = get_lane 0 tag, et_tag1 = get_lane 1 tag\<rparr>"

text \<open>The upper half of the tag, sent in the lower half of a quad word.\<close>

definition send_tag :: "uqword \<Rightarrow> uqword" where
  "send_tag tag = lower_qword (get_lane 2 tag) (get_lane 3 tag)"

definition set_dma_tag :: "ee_dmatag \<Rightarrow> ee_channel \<Rightarrow> ee_channel" where
  "set_dma_tag t c = c\<lparr>chcr := (chcr c)\<lparr>dma_tag := t\<rparr>\<rparr>"

definition read_chain_source_tag :: "ee_channel \<Rightarrow> ee_dma \<Rightarrow> (bool \<times> ee_channel \<times> ee_dma) res" where
  "read_chain_source_tag c s =
     bind_res (deref (tadr c)) (\<lambda>t.
     bind_res (read_qword_memory (addr_field ADDR_ADDR t) (addr_field ADDR_SPR t > 0) s) (\<lambda>(tag, s1).
       if chcr_extract_field CHCR_TTE (chcr c) \<noteq> 0 then
         bind_res (port_has_write 16 (dma_fifo_queue c) s1) (\<lambda>available.
           if \<not> available then Inr (False, c, s1)
           else bind_res (deref (dma_fifo_queue c)) (\<lambda>r.
             bind_res (port_write 16 r (send_tag tag) s1) (\<lambda>s2.
               Inr (True, set_dma_tag (tag_words tag) c, s2))))
       else Inr (True, set_dma_tag (tag_words tag) c, s1)))"

definition read_chain_dest_tag :: "ee_channel \<Rightarrow> ee_dma \<Rightarrow> (bool \<times> ee_channel \<times> ee_dma) res" where
  "read_chain_dest_tag c s =
     bind_res (port_has_read 16 (dma_fifo_queue c) s) (\<lambda>available.
       if \<not> available then Inr (False, c, s)
       else bind_res (deref (dma_fifo_queue c)) (\<lambda>r.
         bind_res (port_read 16 r s) (\<lambda>(tag, s1).
           let c1 = set_dma_tag (tag_words tag) c in
           if chcr_extract_field CHCR_TTE (chcr c1) > 0 then Inl Runtime_error
           else Inr (True, c1, s1))))"

definition run_tag :: "chain_handler list \<Rightarrow> chain_handler" where
  "run_tag table c s =
     (let i = tag_id (dma_tag (chcr c)) in
      if i < length table then
        bind_res ((table ! i) c s) (\<lambda>(c1, s1).
          let c2 = c1\<lparr>chcr := (chcr c1)\<lparr>tag_irq := tag_irq_bit (dma_tag (chcr c1))\<rparr>\<rparr>
          in Inr (chan_insert_field CHCR_TAG (tag_tag (dma_tag (chcr c2))) c2 s1))
      else Inl Out_of_bounds)"

definition next_tag :: "ee_channel \<Rightarrow> ee_dma \<Rightarrow> (bool \<times> ee_channel \<times> ee_dma) res" where
  "next_tag c s =
     (case get_direction (chcr c) of
        Some TO \<Rightarrow> bind_res (read_chain_source_tag c s) (\<lambda>(b, c1, s1).
          if \<not> b then Inr (False, c1, s1)
          else bind_res (run_tag SRC_CHAIN_INSTRUCTION_TABLE c1 s1) (\<lambda>(c2, s2). Inr (True, c2, s2)))
      | Some FROM \<Rightarrow> bind_res (read_chain_dest_tag c s) (\<lambda>(b, c1, s1).
          if \<not> b then Inr (False, c1, s1)
          else bind_res (run_tag DST_CHAIN_INSTRUCTION_TABLE c1 s1) (\<lambda>(c2, s2). Inr (True, c2, s2)))
      | None \<Rightarrow> Inl Runtime_error)"

definition transfer_chain :: "ee_channel \<Rightarrow> ee_dma \<Rightarrow> (bool \<times> ee_channel \<times> ee_dma) res" where
  "transfer_chain c s =
     (if \<not> dma_started (chcr c) then Inr (True, start_transfer c, s)
      else if qwc c > 0 then transfer_unit (tag_stall (chcr c)) c s
      else
        let irq = chcr_extract_field CHCR_TIE (chcr c) > 0 \<and> tag_irq (chcr c)
        in if irq \<or> tag_exit (chcr c) then finish_transfer c s else next_tag c s)"

definition transfer_interleaved :: "ee_channel \<Rightarrow> ee_dma \<Rightarrow> (bool \<times> ee_channel \<times> ee_dma) res" where
  "transfer_interleaved c s = Inl Runtime_error"

section \<open>The controller\<close>

definition dmac_handle_interrupt_check :: "ee_dma \<Rightarrow> ee_dma res" where
  "dmac_handle_interrupt_check s =
     bind_res (if is_interrupt_pending (d_stat s) then cause_set_irq_line 3 (d_cop0 s)
               else cause_clear_irq_line 3 (d_cop0 s))
       (\<lambda>c0. Inr (s\<lparr>d_cop0 := c0\<rparr>))"

definition transfer_channel :: "ee_channel \<Rightarrow> ee_dma \<Rightarrow> (ee_channel \<times> ee_dma) res" where
  "transfer_channel c s =
     (if chcr_extract_field CHCR_STR (chcr c) \<noteq> 0 then
        bind_res
          (case get_logical_mode (chcr c) of
             Some NORMAL \<Rightarrow> transfer_normal c s
           | Some CHAIN \<Rightarrow> transfer_chain c s
           | Some INTERLEAVED \<Rightarrow> transfer_interleaved c s
           | None \<Rightarrow> Inl Runtime_error)
          (\<lambda>(b, c1, s1). Inr (c1, s1))
      else Inr (c, s))"

fun transfer_channels :: "ee_channel list \<Rightarrow> ee_dma \<Rightarrow> (ee_channel list \<times> ee_dma) res" where
  "transfer_channels [] s = Inr ([], s)"
| "transfer_channels (c # cs) s =
     bind_res (transfer_channel c s) (\<lambda>(c1, s1).
       bind_res (transfer_channels cs s1) (\<lambda>(cs1, s2). Inr (c1 # cs1, s2)))"

definition ee_dmac_time_step ::
    "int \<Rightarrow> ee_channel list \<times> ee_dma \<Rightarrow> (int \<times> ee_channel list \<times> ee_dma) res" where
  "ee_dmac_time_step ticks_available p =
     (case p of (cs, s) \<Rightarrow>
        if extract_from DCTRL_DMAE (d_ctrl s) = 0 then Inr (1, cs, s)
        else bind_res (transfer_channels cs s) (\<lambda>(cs1, s1).
          bind_res (dmac_handle_interrupt_check s1) (\<lambda>s2. Inr (1, cs1, s2))))"

lemma ee_dmac_step_cost: "ee_dmac_time_step t p = Inr (n, p') \<Longrightarrow> n = 1"
  by (auto simp: ee_dmac_time_step_def split: prod.splits if_splits)

function ee_dmac_run :: "int \<Rightarrow> ee_channel list \<times> ee_dma \<Rightarrow> (ee_channel list \<times> ee_dma) res" where
  "ee_dmac_run ticks_remaining p =
     (if ticks_remaining > 0 then
        case ee_dmac_time_step ticks_remaining p of
          Inl e \<Rightarrow> Inl e
        | Inr (n, p') \<Rightarrow> ee_dmac_run (ticks_remaining - n) p'
      else Inr p)"
  by pat_completeness auto

termination
  by (relation "measure (\<lambda>(t, p). nat t)") (auto dest: ee_dmac_step_cost)

declare ee_dmac_run.simps [simp del]

fun ee_dmac_handle_event ::
    "('t \<Rightarrow> int) \<Rightarrow> 't controller_event \<Rightarrow> ee_channel list \<times> ee_dma \<Rightarrow> (ee_channel list \<times> ee_dma) res" where
  "ee_dmac_handle_event time_to_ticks (Time_event t) p = ee_dmac_run (time_to_ticks t) p"
| "ee_dmac_handle_event time_to_ticks event p = Inl Runtime_error"

interpretation ee_dmac_loop: fixed_tick_loop ee_dmac_time_step ee_dmac_run 1
  by unfold_locales (auto dest: ee_dmac_step_cost simp: ee_dmac_run.simps)

end
