(* ===== verification/EeDmacTransfer.thy ===== *)
theory EeDmacTransfer
  imports EeDmac
begin

text \<open>
  What the transfers of the EE DMA controller do: the registers of a channel, the movement of
  data between a queue and a memory in both directions, in normal mode and in destination chain
  mode, and the completion interrupt.
\<close>

section \<open>The registers\<close>

lemma str_set: "chcr_extract_field CHCR_STR c = of_bool (bit (chcr_val c) 8)"
  by (simp add: chcr_extract_field_def CHCR_STR_def field_bit)

lemma direction_bit: "get_direction c = Some (if bit (chcr_val c) 0 then TO else FROM)"
  by (simp add: get_direction_def chcr_extract_field_def CHCR_DIR_def field_bit)

lemma tte_bit: "chcr_extract_field CHCR_TTE c = of_bool (bit (chcr_val c) 6)"
  by (simp add: chcr_extract_field_def CHCR_TTE_def field_bit)

lemma tie_bit: "chcr_extract_field CHCR_TIE c = of_bool (bit (chcr_val c) 7)"
  by (simp add: chcr_extract_field_def CHCR_TIE_def field_bit)

text \<open>
  The SIF registers have a fixed direction: whatever is written, the bit reads as the wire.
\<close>

definition wired :: "ee_chcr \<Rightarrow> bool" where
  "wired c \<longleftrightarrow> (chcr_kind c = Chcr_sif0 \<longrightarrow> \<not> bit (chcr_val c) 0) \<and> (chcr_kind c = Chcr_sif1 \<longrightarrow> bit (chcr_val c) 0)"

definition wire :: "ee_chcr_kind \<Rightarrow> uword \<Rightarrow> uword" where
  "wire k v = (if k = Chcr_sif0 then v AND NOT 1 else if k = Chcr_sif1 then v OR 1 else v)"

lemma chcr_base_write_simps [simp]:
  "chcr_val (chcr_base_write v c) = v" "chcr_kind (chcr_base_write v c) = chcr_kind c"
  by (simp_all add: chcr_base_write_def Let_def)

lemma chcr_write_fst: "fst (chcr_write_uword v c b) = chcr_base_write (wire (chcr_kind c) v) c"
  by (cases "chcr_kind c") (simp_all add: chcr_write_uword_def chcr_sif0_write_def chcr_sif1_write_def
      chcr_sif2_write_def chcr_to_write_def chcr_from_write_def wire_def Let_def)

lemma chcr_write_wired: "wired (fst (chcr_write_uword v c b))"
  by (cases "chcr_kind c") (simp_all add: chcr_write_fst wired_def wire_def bit_simps)

lemma wire_wired: "wired c \<Longrightarrow> bit v 0 = bit (chcr_val c) 0 \<Longrightarrow> wire (chcr_kind c) v = v"
  by (cases "chcr_kind c") (auto intro!: bit_word_eqI gr0I simp: wired_def wire_def bit_simps bit_1_iff)

text \<open>
  What the SBUS sees of a write: SIF0 and SIF2 lower their bits when they are stopped while
  receiving, SIF1 and SIF2 raise theirs when they are started while sending.
\<close>

definition sbus_after :: "ee_chcr_kind \<Rightarrow> uword \<Rightarrow> sbus \<Rightarrow> sbus" where
  "sbus_after k v b =
     (let str = bit v 8; to = bit v 0 in
      case k of
        Chcr_plain \<Rightarrow> b
      | Chcr_sif0 \<Rightarrow> (if \<not> str \<and> \<not> to then sif0_update_finish b else b)
      | Chcr_sif1 \<Rightarrow> (if str \<and> to then sif1_update_start b else b)
      | Chcr_sif2 \<Rightarrow> (if str \<and> to then sif2_update_start b
                     else if \<not> str \<and> \<not> to then sif2_update_finish b else b))"

lemma chcr_write_snd: "snd (chcr_write_uword v c b) = sbus_after (chcr_kind c) (wire (chcr_kind c) v) b"
  by (cases "chcr_kind c") (auto simp: chcr_write_uword_def chcr_sif0_write_def chcr_sif1_write_def
      chcr_sif2_write_def chcr_to_write_def chcr_from_write_def sbus_after_def wire_def Let_def
      str_set direction_bit word_gt_0)

lemma chcr_write_eq:
  "chcr_write_uword v c b =
     (chcr_base_write (wire (chcr_kind c) v) c, sbus_after (chcr_kind c) (wire (chcr_kind c) v) b)"
  by (rule prod_eqI) (simp_all add: chcr_write_fst chcr_write_snd)

lemma base_write_running:
  "bit (chcr_val c) 8 \<or> \<not> bit v 8 \<Longrightarrow> chcr_base_write v c = c\<lparr>chcr_val := v\<rparr>"
  by (auto simp: chcr_base_write_def Let_def str_set)

text \<open>Stopping a running channel clears its start bit and keeps its flags.\<close>

lemma insert_str:
  assumes "wired r"
  shows "chcr_insert_field CHCR_STR 0 r b =
    (r\<lparr>chcr_val := insert_into CHCR_STR (chcr_val r) 0\<rparr>,
     sbus_after (chcr_kind r) (insert_into CHCR_STR (chcr_val r) 0) b)"
proof -
  have "wire (chcr_kind r) (insert_into CHCR_STR (chcr_val r) 0) = insert_into CHCR_STR (chcr_val r) 0"
    using assms by (intro wire_wired) (simp_all add: CHCR_STR_def bit_clear)
  moreover have "\<not> bit (insert_into CHCR_STR (chcr_val r) 0) 8" by (simp add: CHCR_STR_def bit_clear)
  ultimately show ?thesis by (simp add: chcr_insert_field_def chcr_write_eq base_write_running)
qed

text \<open>Setting another field of a running channel has no side effect unless it sends on the SIF.\<close>

lemma insert_running:
  assumes "wired r" and "bit (chcr_val r) 8" and "\<not> bit (chcr_val r) 0"
    and "8 < bf_start f"
  shows "chcr_insert_field f v r b = (r\<lparr>chcr_val := insert_into f (chcr_val r) v\<rparr>, b)"
proof -
  let ?v = "insert_into f (chcr_val r) v"
  have b: "bit ?v 0 = bit (chcr_val r) 0" "bit ?v 8" using assms by (simp_all add: bit_insert_into)
  have "wire (chcr_kind r) ?v = ?v" using assms(1) b(1) by (intro wire_wired)
  moreover have "sbus_after (chcr_kind r) ?v b = b"
    using b assms(3) by (simp add: sbus_after_def Let_def split: ee_chcr_kind.split)
  ultimately show ?thesis using assms(2) by (simp add: chcr_insert_field_def chcr_write_eq base_write_running)
qed

subsection \<open>The status register\<close>

lemma halves: "(0xFFFF :: uword) = mask 16" "(0xFFFF0000 :: uword) = push_bit 16 (mask 16)"
  by (simp_all add: mask_eq_exp_minus_1)

lemma bit_halves:
  "bit (0xFFFF :: uword) n \<longleftrightarrow> n < 16" "bit (0xFFFF0000 :: uword) n \<longleftrightarrow> 16 \<le> n \<and> n < 32"
  "bit (- 65536 :: uword) n \<longleftrightarrow> 16 \<le> n \<and> n < 32"
proof -
  have e: "(- 65536 :: uword) = push_bit 16 (mask 16)" by (simp add: mask_eq_exp_minus_1)
  show "bit (0xFFFF :: uword) n \<longleftrightarrow> n < 16" "bit (0xFFFF0000 :: uword) n \<longleftrightarrow> 16 \<le> n \<and> n < 32"
    unfolding halves by (auto simp: bit_simps)
  show "bit (- 65536 :: uword) n \<longleftrightarrow> 16 \<le> n \<and> n < 32" unfolding e by (auto simp: bit_simps)
qed

lemma bit_stat_write:
  "bit (stat_bus_write Ee_context v r) n \<longleftrightarrow>
     (if n < 16 then bit r n \<and> \<not> bit v n else bit r n \<noteq> bit v n)"
  by (auto simp: stat_bus_write_def bit_or_iff bit_xor_iff bit_and_iff bit_not_iff_eq bit_halves
      simp del: bit_numeral_word_iff bit_neg_numeral_word_iff dest: bit_imp_le_length)

text \<open>An interrupt is pending when a status bit meets its mask, or on a bus error.\<close>

lemma pending_iff:
  "is_interrupt_pending r \<longleftrightarrow> (\<exists>n<16. bit r n \<and> bit r (16 + n)) \<or> bit r 15"
proof -
  have "bit ((r AND 0xFFFF) AND drop_bit 16 (r AND 0xFFFF0000)) n \<longleftrightarrow> n < 16 \<and> bit r n \<and> bit r (16 + n)" for n
    by (auto simp: bit_and_iff bit_drop_bit_eq bit_halves
        simp del: bit_numeral_word_iff dest: bit_imp_le_length)
  then have "(r AND 0xFFFF) AND drop_bit 16 (r AND 0xFFFF0000) \<noteq> 0 \<longleftrightarrow> (\<exists>n<16. bit r n \<and> bit r (16 + n))"
    unfolding nonzero_bit by blast
  then show ?thesis by (simp add: is_interrupt_pending_def DSTAT_BEIS_def field_bit)
qed

lemma cis_keys: "n < 10 \<Longrightarrow> CHANNEL_CIS_KEYS ! n = BF n (Suc 0)" "n < 10 \<Longrightarrow> CHANNEL_CIM_KEYS ! n = BF (16 + n) (Suc 0)"
  by (auto simp: CHANNEL_CIS_KEYS_def CHANNEL_CIM_KEYS_def less_Suc_eq numeral_eq_Suc)

section \<open>Addresses\<close>

definition dma_address :: "uword \<Rightarrow> uptr" where
  "dma_address r =
     (let a = addr_field ADDR_ADDR r AND 0x1FFFFFF0 in if bit r 31 then 0x70000000 + a else a)"

text \<open>A run of quad words that does not leave the 512 MB the address field keeps.\<close>

definition qword_run :: "uword \<Rightarrow> nat \<Rightarrow> bool" where
  "qword_run r n \<longleftrightarrow> 16 dvd unat r \<and> unat r div 16 mod 2 ^ 25 + n \<le> 2 ^ 25"

lemma masked_address: "unat (addr_field ADDR_ADDR r AND 0x1FFFFFF0) = 16 * (unat r div 16 mod 2 ^ 25)"
proof -
  have e: "(0x1FFFFFF0 :: uword) = push_bit 4 (mask 25)" by (simp add: mask_eq_exp_minus_1)
  have f: "addr_field ADDR_ADDR r AND 0x1FFFFFF0 = push_bit 4 (take_bit 25 (drop_bit 4 r))"
    unfolding e addr_field_def ADDR_ADDR_def by (intro bit_word_eqI) (auto simp: bit_simps bit_extract_from)
  have l: "unat r < 2 ^ 32" using unsigned_less[of r] by simp
  show ?thesis
    unfolding f unsigned_push_bit_eq unsigned_take_bit_eq unsigned_drop_bit_eq
    using l by (simp add: push_bit_eq_mult drop_bit_eq_div take_bit_eq_mod)
qed

lemma no_carry:
  fixes a k N :: nat
  assumes "a mod N + k < N"
  shows "(a + k) mod N = a mod N + k" "(a + k) div N = a div N"
proof -
  show "(a + k) mod N = a mod N + k" using mod_less[OF assms] by (simp only: mod_add_left_eq)
  have "N * (a div N) + a mod N = a" by (rule mult_div_mod_eq)
  with assms have "N * (a div N) \<le> a + k" "a + k < N * (a div N) + N" by linarith+
  then show "(a + k) div N = a div N" by (intro div_nat_eqI) simp_all
qed

lemma qword_run_add:
  assumes "qword_run r n" and "k < n"
  shows "dma_address (r + of_nat (16 * k)) = dma_address r + of_nat (16 * k)"
proof -
  obtain p where p: "unat r = 16 * p" using assms(1) by (auto simp: qword_run_def)
  have b: "p mod 2 ^ 25 + k < 2 ^ 25" using assms by (simp add: qword_run_def p)
  have "unat r < 2 ^ 32" using unsigned_less[of r] by simp
  then have "p < 2 ^ 28" by (simp add: p)
  then have "p div 2 ^ 25 < 8" by (simp add: less_mult_imp_div_less)
  note m = no_carry[OF b]
  have "p + k < 2 ^ 28" using b \<open>p div 2 ^ 25 < 8\<close> m(2) div_mult_mod_eq[of "p + k" "2 ^ 25"] m(1) by simp
  then have u: "unat (r + of_nat (16 * k)) = 16 * (p + k)"
    by (simp add: unat_word_ariths unat_of_nat p)
  have o: "bit w 31 \<longleftrightarrow> odd (unat w div 16 div 2 ^ 25 div 4)" for w :: uword
  proof -
    have "bit w 31 \<longleftrightarrow> bit (unat w) 31" by (simp add: bit_unsigned_iff)
    then show ?thesis by (simp add: bit_iff_odd flip: div_mult2_eq)
  qed
  have "bit (r + of_nat (16 * k)) 31 = bit r 31" unfolding o u p using m(2) by simp
  moreover have "addr_field ADDR_ADDR (r + of_nat (16 * k)) AND 0x1FFFFFF0 =
      (addr_field ADDR_ADDR r AND 0x1FFFFFF0) + of_nat (16 * k)"
    unfolding word_unat_eq_iff masked_address u
    by (simp add: masked_address p m(1)[simplified] unat_word_ariths unat_of_nat) (use b in simp)
  ultimately show ?thesis by (simp add: dma_address_def Let_def)
qed

section \<open>One data unit\<close>

text \<open>Moving data touches the bus and the queues only.\<close>

lemma d_frame [simp]:
  "d_ctrl (put_memory i bs s) = d_ctrl s" "d_ctrl (port_put r q s) = d_ctrl s"
  "d_stat (put_memory i bs s) = d_stat s" "d_stat (port_put r q s) = d_stat s"
  "d_cop0 (put_memory i bs s) = d_cop0 s" "d_cop0 (port_put r q s) = d_cop0 s"
  by (simp_all add: put_memory_def split: option.split) (cases r; simp)+

lemma d_updates:
  "put_memory i bs (s\<lparr>d_cop0 := x\<rparr>) = (put_memory i bs s)\<lparr>d_cop0 := x\<rparr>"
  "port_put r q (s\<lparr>d_cop0 := x\<rparr>) = (port_put r q s)\<lparr>d_cop0 := x\<rparr>"
  "put_memory i bs (s\<lparr>d_stat := y\<rparr>) = (put_memory i bs s)\<lparr>d_stat := y\<rparr>"
  "port_put r q (s\<lparr>d_stat := y\<rparr>) = (port_put r q s)\<lparr>d_stat := y\<rparr>"
proof -
  have "memory_at i (s\<lparr>d_cop0 := x\<rparr>) = memory_at i s" "memory_at i (s\<lparr>d_stat := y\<rparr>) = memory_at i s"
    by (simp_all add: memory_at_def)
  then show "put_memory i bs (s\<lparr>d_cop0 := x\<rparr>) = (put_memory i bs s)\<lparr>d_cop0 := x\<rparr>"
    "put_memory i bs (s\<lparr>d_stat := y\<rparr>) = (put_memory i bs s)\<lparr>d_stat := y\<rparr>"
    by (simp_all add: put_memory_def split: option.split)
  show "port_put r q (s\<lparr>d_cop0 := x\<rparr>) = (port_put r q s)\<lparr>d_cop0 := x\<rparr>"
    "port_put r q (s\<lparr>d_stat := y\<rparr>) = (port_put r q s)\<lparr>d_stat := y\<rparr>"
    by (cases r; simp)+
qed

lemma join_split_16: "length bs = 16 \<Longrightarrow> split_bytes 16 (join_bytes bs :: uqword) = bs"
  using split_join_bytes[of bs, where 'a = 128] by simp

lemma spr_flag: "addr_field ADDR_SPR r > 0 \<longleftrightarrow> bit r 31"
  by (simp add: addr_field_def ADDR_SPR_def field_bit word_gt_0)

definition after_unit :: "nat \<Rightarrow> ee_channel \<Rightarrow> ee_channel" where
  "after_unit n c = c\<lparr>madr := madr c + of_nat (16 * n), qwc := qwc c - of_nat n\<rparr>"

lemma after_unit_simps [simp]:
  "chcr (after_unit n c) = chcr c" "channel_id (after_unit n c) = channel_id c"
  "dma_fifo_queue (after_unit n c) = dma_fifo_queue c" "madr (after_unit n c) = madr c + of_nat (16 * n)"
  "qwc (after_unit n c) = qwc c - of_nat n" "after_unit 0 c = c"
  "after_unit m (after_unit n c) = after_unit (n + m) c"
  by (simp_all add: after_unit_def algebra_simps)

lemma transfer_data_from_fifo:
  assumes dir: "\<not> bit (chcr_val (chcr c)) 0" and id: "channel_id c < 8"
    and r: "dma_fifo_queue c = Some r" and q: "port_queue r s = Inr q" "16 \<le> length (q_items q)"
    and l: "bus_locate (dma_address (madr c)) (dma_bus s) = Inr (i, off)"
    and m: "memory_at i s = Some m" "\<not> mem_read_only m" "off + 16 \<le> mem_size m"
  shows "transfer_data c s = Inr (1, after_unit 1 c,
    put_memory i (overlay off (take 16 (q_items q)) (mem_bytes m))
      (port_put r (q\<lparr>q_items := drop 16 (q_items q)\<rparr>) s))"
proof -
  let ?s1 = "port_put r (q\<lparr>q_items := drop 16 (q_items q)\<rparr>) s"
  have ne: "r \<noteq> Bus_fifo i" by (rule port_not_memory[OF q(1) m(1)])
  have "port_read 16 r s = Inr (join_bytes (take 16 (q_items q)) :: uqword, ?s1)"
    using q by (intro port_read_queue) simp_all
  moreover have "env_write_uqword (dma_address (madr c)) (join_bytes (take 16 (q_items q))) ?s1 =
      Inr (put_memory i (overlay off (take 16 (q_items q)) (mem_bytes m)) ?s1)"
    using l m ne env_write_qword_memory[where s = ?s1 and i = i and m = m] q(2) by (simp add: join_split_16)
  ultimately show ?thesis
    using id q r dir
    by (simp add: transfer_data_def transfer_data_fifo_def direction_bit port_has_read_def
        has_read_available_def write_qword_memory_def spr_flag Let_def after_unit_def dma_address_def split: if_splits)
qed

lemma transfer_data_to_fifo:
  assumes dir: "bit (chcr_val (chcr c)) 0" and id: "channel_id c < 8"
    and r: "dma_fifo_queue c = Some r" and q: "port_queue r s = Inr q" "length (q_items q) + 16 \<le> q_capacity q"
    and l: "bus_locate (dma_address (madr c)) (dma_bus s) = Inr (i, off)"
    and m: "memory_at i s = Some m" "off + 16 \<le> mem_size m"
  shows "transfer_data c s = Inr (1, after_unit 1 c,
    port_put r (q\<lparr>q_items := q_items q @ take 16 (drop off (mem_bytes m))\<rparr>) s)"
proof -
  have "env_read_uqword (dma_address (madr c)) s = Inr (join_bytes (take 16 (drop off (mem_bytes m))), s)"
    using l m by (intro env_read_qword_memory)
  moreover have "port_write 16 r (join_bytes (take 16 (drop off (mem_bytes m))) :: uqword) s =
      Inr (port_put r (q\<lparr>q_items := q_items q @ take 16 (drop off (mem_bytes m))\<rparr>) s)"
    using port_write_queue[OF q(1), of 16, where v = "join_bytes (take 16 (drop off (mem_bytes m))) :: uqword"] q(2) m(2)
    by (simp add: join_split_16 mem_size_def)
  ultimately show ?thesis
    using id q r dir
    by (simp add: transfer_data_def transfer_data_fifo_def direction_bit port_has_write_def
        has_write_available_def read_qword_memory_def spr_flag Let_def after_unit_def dma_address_def split: if_splits)
qed

section \<open>Bursts\<close>

abbreviation chan_step :: "ee_channel \<times> ee_dma \<Rightarrow> (ee_channel \<times> ee_dma) res" where
  "chan_step p \<equiv> transfer_channel (fst p) (snd p)"

text \<open>A started channel with a queue, in a mode that moves data.\<close>

definition streaming :: "ee_channel \<Rightarrow> fifo_ref \<Rightarrow> bool" where
  "streaming c r \<longleftrightarrow> bit (chcr_val (chcr c)) 8 \<and> dma_started (chcr c) \<and> channel_id c < 8 \<and>
     dma_fifo_queue c = Some r \<and> get_logical_mode (chcr c) \<in> {Some NORMAL, Some CHAIN}"

lemma streaming_after_unit [simp]: "streaming (after_unit n c) r = streaming c r"
  by (simp add: streaming_def)

definition stall_free :: "ee_channel \<Rightarrow> ee_dma \<Rightarrow> bool" where
  "stall_free c s \<longleftrightarrow> \<not> is_source_stall_control_on c s \<and> \<not> is_drain_stall_control_on c s"

lemma stall_free_cong:
  "chcr c' = chcr c \<Longrightarrow> channel_id c' = channel_id c \<Longrightarrow> d_ctrl s' = d_ctrl s \<Longrightarrow> stall_free c' s' = stall_free c s"
  by (simp add: stall_free_def is_source_stall_control_on_def is_drain_stall_control_on_def)

lemma streaming_unit:
  assumes "streaming c r" and "qwc c \<noteq> 0" and "stall_free c s"
    and "transfer_data c s = Inr (1, after_unit 1 c, s1)" and "d_ctrl s1 = d_ctrl s"
  shows "transfer_channel c s = Inr (after_unit 1 c, s1)"
proof -
  have "stall_free (after_unit 1 c) s1" using assms(3,5) stall_free_cong[of "after_unit 1 c" c s1 s] by simp
  then have u: "transfer_unit b c s = Inr (True, after_unit 1 c, s1)" for b
    using assms(3,4) by (simp add: transfer_unit_def stall_free_def)
  show ?thesis using assms(1,2) u
    by (auto simp: transfer_channel_def streaming_def str_set transfer_normal_def transfer_chain_def word_gt_0)
qed

lemma qword_run_Suc: "qword_run r n \<Longrightarrow> k \<le> n \<Longrightarrow> qword_run r k"
  by (auto simp: qword_run_def)

text \<open>From the queue into memory: the bytes arrive in the order they were queued.\<close>

lemma receive_burst:
  assumes c: "streaming c r" "\<not> bit (chcr_val (chcr c)) 0" "stall_free c s" "n \<le> unat (qwc c)"
    and q: "steady_queue r q s" "16 * n \<le> length (q_items q)"
    and a: "qword_run (madr c) n" "memory_window (dma_address (madr c)) (16 * n) i off m s"
      "\<not> mem_read_only m"
  shows "repeat_res n chan_step (c, s) = Inr (after_unit n c,
    put_memory i (overlay off (take (16 * n) (q_items q)) (mem_bytes m))
      (port_put r (q\<lparr>q_items := drop (16 * n) (q_items q)\<rparr>) s))"
  using c(4) q(2) a(1,2)
proof (induction n)
  case 0
  then show ?case using q(1) by (simp add: overlay_def steady_queue_def memory_window_def)
next
  case (Suc n)
  let ?m = "m\<lparr>mem_bytes := overlay off (take (16 * n) (q_items q)) (mem_bytes m)\<rparr>"
  let ?q = "q\<lparr>q_items := drop (16 * n) (q_items q)\<rparr>"
  let ?s = "put_memory i (mem_bytes ?m) (port_put r ?q s)"
  have m: "memory_at i s = Some m" "off + 16 * Suc n \<le> mem_size m" using Suc.prems(4) by (simp_all add: memory_window_def)
  have ne: "r \<noteq> Bus_fifo i" by (rule port_not_memory[OF steady_queueD[OF q(1)] m(1)])
  have fit: "off + length (take (16 * n) (q_items q)) \<le> length (mem_bytes m)"
    using Suc.prems(2) m(2) by (simp add: mem_size_def)
  have IH: "repeat_res n chan_step (c, s) = Inr (after_unit n c, ?s)"
    using Suc.IH Suc.prems qword_run_Suc[of "madr c" "Suc n" n] windows_fit[OF Suc.prems(4), of "16 * n"] by simp
  have k: "n < unat (qwc c)" using Suc.prems(1) by simp
  moreover have "unat (qwc c) < 2 ^ 32" using unsigned_less[of "qwc c"] by simp
  ultimately have "unat (of_nat n :: uword) = n" by (simp add: unat_of_nat)
  then have z: "qwc c - of_nat n \<noteq> 0" using k by auto
  have "transfer_data (after_unit n c) ?s = Inr (1, after_unit 1 (after_unit n c),
     put_memory i (overlay (off + 16 * n) (take 16 (q_items ?q)) (mem_bytes ?m))
      (port_put r (?q\<lparr>q_items := drop 16 (q_items ?q)\<rparr>) ?s))"
  proof (rule transfer_data_from_fifo)
    show "\<not> bit (chcr_val (chcr (after_unit n c))) 0" "channel_id (after_unit n c) < 8"
      "dma_fifo_queue (after_unit n c) = Some r" using c by (simp_all add: streaming_def)
    show "port_queue r ?s = Inr ?q" using ne steady_queueD[OF q(1)] by (simp add: port_get_put)
    show "16 \<le> length (q_items ?q)" using Suc.prems(2) by simp
    have "dma_address (madr c + of_nat (16 * n)) = dma_address (madr c) + of_nat (16 * n)"
      using Suc.prems(3) by (rule qword_run_add) simp
    moreover have "bus_locate (dma_address (madr c) + of_nat (16 * n)) (dma_bus s) = Inr (i, off + 16 * n)"
      using windowD[of "dma_bus s" "dma_address (madr c)" "16 * Suc n" i off "16 * n"] Suc.prems(4)
      by (simp add: memory_window_def)
    ultimately show "bus_locate (dma_address (madr (after_unit n c))) (dma_bus ?s) = Inr (i, off + 16 * n)" by simp
    show "memory_at i ?s = Some ?m" using m(1) ne by (simp add: memory_at_put_memory)
    show "\<not> mem_read_only ?m" "off + 16 * n + 16 \<le> mem_size ?m"
      using a(3) m(2) fit by (simp_all add: mem_size_def)
  qed
  moreover have "16 * n + 16 = 16 * Suc n" by simp
  moreover have "overlay (off + 16 * n) (take 16 (q_items ?q)) (mem_bytes ?m) =
      overlay off (take (16 * Suc n) (q_items q)) (mem_bytes m)"
    using overlay_overlay[OF fit, of "take 16 (drop (16 * n) (q_items q))"] Suc.prems(2)
      take_add[of "16 * n" 16 "q_items q"] by (simp add: add.commute)
  ultimately have t: "transfer_data (after_unit n c) ?s = Inr (1, after_unit 1 (after_unit n c),
     put_memory i (overlay off (take (16 * Suc n) (q_items q)) (mem_bytes m))
      (port_put r (q\<lparr>q_items := drop (16 * Suc n) (q_items q)\<rparr>) s))"
    using ne by (simp add: port_put_put_memory add.commute)
  have sf: "stall_free (after_unit n c) ?s" using c(3) by (subst stall_free_cong[of _ c _ s]) simp_all
  have "transfer_channel (after_unit n c) ?s = Inr (after_unit 1 (after_unit n c),
     put_memory i (overlay off (take (16 * Suc n) (q_items q)) (mem_bytes m))
      (port_put r (q\<lparr>q_items := drop (16 * Suc n) (q_items q)\<rparr>) s))"
    by (rule streaming_unit[OF _ _ sf t]) (use c z in simp_all)
  then show ?case by (simp add: repeat_res_Suc_right IH del: repeat_res.simps)
qed

end
