(* ===== verification/EeDmacRun.thy ===== *)
theory EeDmacRun
  imports EeDmacTransfer
begin

text \<open>
  The channels do not look at the core: a time slice of the controller is the transfers of the
  channels followed by one update of line 3.
\<close>

section \<open>Transfers leave the core alone\<close>

definition map_res :: "('a \<Rightarrow> 'b) \<Rightarrow> 'a res \<Rightarrow> 'b res" where
  "map_res g m = bind_res m (\<lambda>a. Inr (g a))"

lemma map_res_simps [simp]: "map_res g (Inl e) = Inl e" "map_res g (Inr a) = Inr (g a)"
  by (simp_all add: map_res_def)

text \<open>
  An operation that commutes with a change of the core's registers and leaves the control
  register alone.  The operations return the state alone, with one value or with two; \<open>at\<close>
  tells how to change the state in such a result.
\<close>

definition core_free ::
    "((ee_dma \<Rightarrow> ee_dma) \<Rightarrow> 'r \<Rightarrow> 'r) \<Rightarrow> ('r \<Rightarrow> ee_dma) \<Rightarrow> (ee_dma \<Rightarrow> 'r res) \<Rightarrow> bool" where
  "core_free at st f \<longleftrightarrow>
     (\<forall>s x. f (s\<lparr>d_cop0 := x\<rparr>) = map_res (at (\<lambda>s. s\<lparr>d_cop0 := x\<rparr>)) (f s)) \<and>
     (\<forall>s r. f s = Inr r \<longrightarrow> d_ctrl (st r) = d_ctrl s)"

abbreviation "core_free1 \<equiv> core_free (\<lambda>g. g) (\<lambda>s. s)"
abbreviation "core_free2 \<equiv> core_free (\<lambda>g (v, s). (v, g s)) (\<lambda>(v, s). s)"
abbreviation "core_free3 \<equiv> core_free (\<lambda>g (u, v, s). (u, v, g s)) (\<lambda>(u, v, s). s)"

named_theorems core_free

lemma core_freeI:
  assumes "\<And>s x. f (s\<lparr>d_cop0 := x\<rparr>) = map_res (at (\<lambda>s. s\<lparr>d_cop0 := x\<rparr>)) (f s)"
    and "\<And>s r. f s = Inr r \<Longrightarrow> d_ctrl (st r) = d_ctrl s"
  shows "core_free at st f"
  using assms by (simp add: core_free_def)

lemma core_free_value [core_free]:
  "core_free1 (\<lambda>s. Inr s)" "core_free2 (\<lambda>s. Inr (v, s))" "core_free3 (\<lambda>s. Inr (u, v, s))"
  "core_free at st (\<lambda>s. Inl e)"
  by (auto intro: core_freeI)

lemma core_free_bind1 [core_free]:
  assumes "core_free1 f" and "core_free at st g"
  shows "core_free at st (\<lambda>s. bind_res (f s) g)"
proof (rule core_freeI)
  fix s x
  have f: "f (s\<lparr>d_cop0 := x\<rparr>) = map_res (\<lambda>s. s\<lparr>d_cop0 := x\<rparr>) (f s)" using assms(1) by (simp add: core_free_def)
  show "bind_res (f (s\<lparr>d_cop0 := x\<rparr>)) g = map_res (at (\<lambda>s. s\<lparr>d_cop0 := x\<rparr>)) (bind_res (f s) g)"
    using assms(2) unfolding f by (cases "f s") (auto simp: core_free_def)
qed (use assms in \<open>auto simp: core_free_def\<close>)

lemma core_free_bind2 [core_free]:
  assumes "core_free2 f" and "\<And>v. core_free at st (g v)"
  shows "core_free at st (\<lambda>s. bind_res (f s) (\<lambda>(v, s'). g v s'))"
proof (rule core_freeI)
  fix s x
  have f: "f (s\<lparr>d_cop0 := x\<rparr>) = map_res (\<lambda>(v, s). (v, s\<lparr>d_cop0 := x\<rparr>)) (f s)"
    using assms(1) by (simp add: core_free_def)
  show "bind_res (f (s\<lparr>d_cop0 := x\<rparr>)) (\<lambda>(v, s'). g v s') =
      map_res (at (\<lambda>s. s\<lparr>d_cop0 := x\<rparr>)) (bind_res (f s) (\<lambda>(v, s'). g v s'))"
    using assms(2) unfolding f by (cases "f s") (auto simp: core_free_def)
qed (use assms in \<open>fastforce simp: core_free_def\<close>)

lemma core_free_bind3 [core_free]:
  assumes "core_free3 f" and "\<And>u v. core_free at st (g u v)"
  shows "core_free at st (\<lambda>s. bind_res (f s) (\<lambda>(u, v, s'). g u v s'))"
proof (rule core_freeI)
  fix s x
  have f: "f (s\<lparr>d_cop0 := x\<rparr>) = map_res (\<lambda>(u, v, s). (u, v, s\<lparr>d_cop0 := x\<rparr>)) (f s)"
    using assms(1) by (simp add: core_free_def)
  show "bind_res (f (s\<lparr>d_cop0 := x\<rparr>)) (\<lambda>(u, v, s'). g u v s') =
      map_res (at (\<lambda>s. s\<lparr>d_cop0 := x\<rparr>)) (bind_res (f s) (\<lambda>(u, v, s'). g u v s'))"
    using assms(2) unfolding f by (cases "f s") (auto simp: core_free_def)
qed (use assms in \<open>fastforce simp: core_free_def\<close>)

lemma core_free_if [core_free]:
  assumes "\<And>s x. p (s\<lparr>d_cop0 := x\<rparr>) = p s" and "core_free at st f" and "core_free at st g"
  shows "core_free at st (\<lambda>s. if p s then f s else g s)"
  using assms by (auto simp: core_free_def)

text \<open>Looking something up in the state, and using a pointer.\<close>

lemma core_free_look:
  assumes "\<And>s x. r (s\<lparr>d_cop0 := x\<rparr>) = r s" and "\<And>v. core_free at st (g v)"
  shows "core_free at st (\<lambda>s. bind_res (r s) (\<lambda>v. g v s))"
proof (rule core_freeI)
  fix s x
  show "bind_res (r (s\<lparr>d_cop0 := x\<rparr>)) (\<lambda>v. g v (s\<lparr>d_cop0 := x\<rparr>)) =
      map_res (at (\<lambda>s. s\<lparr>d_cop0 := x\<rparr>)) (bind_res (r s) (\<lambda>v. g v s))"
    using assms(2) by (cases "r s") (auto simp: assms(1) core_free_def)
qed (use assms(2) in \<open>auto simp: core_free_def\<close>)

lemma core_free_res [core_free]:
  "(\<And>v. core_free at st (g v)) \<Longrightarrow> core_free at st (\<lambda>s. bind_res m (\<lambda>v. g v s))"
  by (cases m) (simp_all add: core_free_value)

subsection \<open>The accesses\<close>

lemma port_queue_cop0 [simp]: "port_queue r (s\<lparr>d_cop0 := x\<rparr>) = port_queue r s"
  by (cases r) simp_all

lemma cop0_last:
  "s\<lparr>d_cop0 := x, dma_bus := b\<rparr> = s\<lparr>dma_bus := b, d_cop0 := x\<rparr>"
  "s\<lparr>d_cop0 := x, dma_sbus := t\<rparr> = s\<lparr>dma_sbus := t, d_cop0 := x\<rparr>"
  "s\<lparr>d_cop0 := x, d_stat := v\<rparr> = s\<lparr>d_stat := v, d_cop0 := x\<rparr>"
  "s\<lparr>d_cop0 := x, d_stadr := v\<rparr> = s\<lparr>d_stadr := v, d_cop0 := x\<rparr>"
  by simp_all

lemma core_free_bus [core_free]:
  "core_free2 (env_read_uqword a)" "core_free1 (env_write_uqword a w)"
  by (rule core_freeI; auto simp: env_read_uqword_def env_write_uqword_def map_res_def bind_res_assoc case_prod_unfold cop0_last)+

lemma core_free_read_ubyte: "core_free2 (port_read_ubyte r)"
proof (rule core_freeI)
  fix s x
  show "port_read_ubyte r (s\<lparr>d_cop0 := x\<rparr>) = map_res (\<lambda>(v, s). (v, s\<lparr>d_cop0 := x\<rparr>)) (port_read_ubyte r s)"
    by (cases r) (simp_all add: map_res_def bind_res_assoc case_prod_unfold cop0_last)
qed (cases r; auto)

lemma core_free_write_ubyte: "core_free1 (port_write_ubyte r b)"
proof (rule core_freeI)
  fix s x
  show "port_write_ubyte r b (s\<lparr>d_cop0 := x\<rparr>) = map_res (\<lambda>s. s\<lparr>d_cop0 := x\<rparr>) (port_write_ubyte r b s)"
    by (cases r) (simp_all add: map_res_def bind_res_assoc cop0_last)
qed (cases r; auto)

lemma core_free_read_bytes: "core_free2 (read_bytes (port_read_ubyte r) n)"
proof (induction n)
  case (Suc n)
  then show ?case by (auto simp: fun_eq_iff intro!: core_free core_free_read_ubyte)
qed (simp add: core_free)

lemma core_free_write_bytes: "core_free1 (write_bytes (port_write_ubyte r) bs)"
proof (induction bs)
  case (Cons b bs)
  then show ?case by (auto simp: fun_eq_iff intro!: core_free core_free_write_ubyte)
qed (simp add: core_free)

lemma core_free_port [core_free]:
  "core_free2 (port_read n r)" "core_free1 (port_write n r v)"
  unfolding port_read_def[abs_def] port_write_def[abs_def]
  by (intro core_free core_free_read_bytes core_free_write_bytes)+

lemma core_free_qword [core_free]:
  "core_free2 (read_qword_memory a b)" "core_free1 (write_qword_memory a b v)"
  unfolding read_qword_memory_def[abs_def] write_qword_memory_def[abs_def] by (intro core_free)+

lemma core_free_available [core_free]:
  "(\<And>v. core_free at st (g v)) \<Longrightarrow> core_free at st (\<lambda>s. bind_res (port_has_read n p s) (\<lambda>v. g v s))"
  "(\<And>v. core_free at st (g v)) \<Longrightarrow> core_free at st (\<lambda>s. bind_res (port_has_write n p s) (\<lambda>v. g v s))"
  "(\<And>v. core_free at st (g v)) \<Longrightarrow> core_free at st (\<lambda>s. bind_res (drain_pending c s) (\<lambda>v. g v s))"
  by (rule core_free_look; simp add: port_has_read_def port_has_write_def drain_pending_def port_is_empty_def)+

subsection \<open>The channels\<close>

lemma core_free_chan_insert [core_free]: "core_free2 (\<lambda>s. Inr (chan_insert_field f v c s))"
  by (rule core_freeI; auto simp: chan_insert_field_def cop0_last split: prod.splits)

lemma core_free_case [core_free]:
  "core_free at st f \<Longrightarrow> (\<And>v. core_free at st (g v)) \<Longrightarrow>
    core_free at st (\<lambda>s. case p of None \<Rightarrow> f s | Some v \<Rightarrow> g v s)"
  "core_free at st f \<Longrightarrow> core_free at st h \<Longrightarrow> core_free at st (\<lambda>s. case d of FROM \<Rightarrow> f s | TO \<Rightarrow> h s)"
  "core_free at st f \<Longrightarrow> core_free at st h \<Longrightarrow> core_free at st k \<Longrightarrow>
    core_free at st (\<lambda>s. case m of NORMAL \<Rightarrow> f s | CHAIN \<Rightarrow> h s | INTERLEAVED \<Rightarrow> k s)"
  subgoal by (cases p) simp_all
  subgoal by (cases d) simp_all
  subgoal by (cases m) simp_all
  done

lemma core_free_data [core_free]: "core_free3 (transfer_data c)"
  unfolding transfer_data_def[abs_def] transfer_data_spr_def[abs_def] transfer_data_fifo_def[abs_def] Let_def
  by (intro core_free) simp_all

lemma core_free_suspended [core_free]: "core_free2 (set_state_suspended c)"
  by (rule core_freeI; auto simp: set_state_suspended_def chan_insert_field_def cop0_last split: prod.splits if_splits)

lemma core_free_finish [core_free]: "core_free3 (finish_transfer c)"
  unfolding finish_transfer_def[abs_def] by (intro core_free) simp_all

lemma core_free_stadr [core_free]:
  "core_free3 (\<lambda>s. Inr (b, c, set_dmac_stall_control_stadr d s))"
  "core_free3 (\<lambda>s. Inr (b, c, set_dmac_stall_control_sis s))"
  by (rule core_freeI; auto simp: set_dmac_stall_control_stadr_def set_dmac_stall_control_sis_def)+

lemma core_free_unit [core_free]: "core_free3 (transfer_unit b c)"
  unfolding transfer_unit_def[abs_def]
  by (intro core_free)
    (simp_all add: is_drain_stall_control_on_def is_drain_stall_control_waiting_def is_source_stall_control_on_def)

lemma core_free_normal [core_free]: "core_free3 (transfer_normal c)"
  unfolding transfer_normal_def[abs_def] set_state_failed_transfer_def[abs_def] by (intro core_free) simp_all

lemmas src_handlers = CHAIN_SRC_CNT_def CHAIN_SRC_NEXT_def CHAIN_SRC_REF_def CHAIN_SRC_REFS_def
  CHAIN_SRC_REFE_def CHAIN_SRC_CALL_def CHAIN_SRC_RET_def CHAIN_SRC_END_def

lemmas dst_handlers = CHAIN_DST_CNT_def CHAIN_DST_CNTS_def CHAIN_DST_END_def CHAIN_TAGID_UNKNOWN_def

lemma core_free_handler: "h \<in> set SRC_CHAIN_INSTRUCTION_TABLE \<union> set DST_CHAIN_INSTRUCTION_TABLE \<Longrightarrow> core_free2 (h c)"
  by (auto simp: SRC_CHAIN_INSTRUCTION_TABLE_def DST_CHAIN_INSTRUCTION_TABLE_def)
    (simp_all add: src_handlers[abs_def] dst_handlers[abs_def] Let_def, (intro core_free; simp)+)

lemma core_free_run_tag:
  "table = SRC_CHAIN_INSTRUCTION_TABLE \<or> table = DST_CHAIN_INSTRUCTION_TABLE \<Longrightarrow> core_free2 (run_tag table c)"
  unfolding run_tag_def[abs_def] Let_def
  by (cases "tag_id (dma_tag (chcr c)) < length table"; simp)
    (intro core_free core_free_handler; auto simp: nth_mem)+

lemma core_free_tags [core_free]:
  "core_free3 (read_chain_source_tag c)" "core_free3 (read_chain_dest_tag c)" "core_free3 (next_tag c)"
proof -
  show a: "core_free3 (read_chain_source_tag c)" "core_free3 (read_chain_dest_tag c)" for c
    unfolding read_chain_source_tag_def[abs_def] read_chain_dest_tag_def[abs_def] Let_def
    by (intro core_free; simp)+
  show "core_free3 (next_tag c)"
    unfolding next_tag_def[abs_def] by (intro core_free a core_free_run_tag) simp_all
qed

lemma core_free_channel [core_free]: "core_free2 (transfer_channel c)"
  unfolding transfer_channel_def[abs_def] transfer_chain_def[abs_def] transfer_interleaved_def[abs_def] Let_def
  by (intro core_free) simp_all

lemma core_free_channels [core_free]: "core_free2 (transfer_channels cs)"
proof (induction cs)
  case (Cons c cs)
  then show ?case by (auto simp: fun_eq_iff intro!: core_free)
qed (simp add: core_free)

lemma core_free_keeps:
  assumes "core_free2 f" and "f s = Inr (v, s')"
  shows "d_cop0 s' = d_cop0 s" "d_ctrl s' = d_ctrl s" "f (s\<lparr>d_cop0 := x\<rparr>) = Inr (v, s'\<lparr>d_cop0 := x\<rparr>)"
proof -
  have f: "f (s\<lparr>d_cop0 := x\<rparr>) = Inr (v, s'\<lparr>d_cop0 := x\<rparr>)" for x using assms by (simp add: core_free_def)
  have "s\<lparr>d_cop0 := d_cop0 s\<rparr> = s" by simp
  then have "(v, s') = (v, s'\<lparr>d_cop0 := d_cop0 s\<rparr>)" using f[of "d_cop0 s"] assms(2) by simp
  then have "d_cop0 s' = d_cop0 (s'\<lparr>d_cop0 := d_cop0 s\<rparr>)" by (metis prod.inject)
  then show "d_cop0 s' = d_cop0 s" by simp
  show "d_ctrl s' = d_ctrl s" "f (s\<lparr>d_cop0 := x\<rparr>) = Inr (v, s'\<lparr>d_cop0 := x\<rparr>)"
    using assms f by (auto simp: core_free_def)
qed

section \<open>A time slice\<close>

abbreviation channels_step :: "ee_channel list \<times> ee_dma \<Rightarrow> (ee_channel list \<times> ee_dma) res" where
  "channels_step p \<equiv> transfer_channels (fst p) (snd p)"

definition irq_line :: "ee_dma \<Rightarrow> ee_dma" where
  "irq_line s =
     s\<lparr>d_cop0 := (d_cop0 s)\<lparr>c0_irq_lines := (c0_irq_lines (d_cop0 s))[3 := is_interrupt_pending (d_stat s)]\<rparr>\<rparr>"

lemma irq_line_eq: "length (c0_irq_lines (d_cop0 s)) = 8 \<Longrightarrow> dmac_handle_interrupt_check s = Inr (irq_line s)"
  by (simp add: dmac_handle_interrupt_check_def irq_line_def cause_set_irq_line_def cause_clear_irq_line_def)

lemma irq_line_simps [simp]:
  "d_ctrl (irq_line s) = d_ctrl s" "d_stat (irq_line s) = d_stat s"
  "length (c0_irq_lines (d_cop0 (irq_line s))) = length (c0_irq_lines (d_cop0 s))"
  by (simp_all add: irq_line_def)

lemma irq_line_again: "d_cop0 s' = d_cop0 s \<Longrightarrow> irq_line (s'\<lparr>d_cop0 := d_cop0 (irq_line s)\<rparr>) = irq_line s'"
  by (simp add: irq_line_def)

lemma repeat_channels_core:
  "repeat_res n channels_step (cs, s\<lparr>d_cop0 := x\<rparr>) =
     map_res (\<lambda>(cs, s). (cs, s\<lparr>d_cop0 := x\<rparr>)) (repeat_res n channels_step (cs, s))"
  "repeat_res n channels_step (cs, s) = Inr (cs', s') \<Longrightarrow> d_cop0 s' = d_cop0 s"
proof (induction n arbitrary: cs s)
  case (Suc n)
  { case 1
    show ?case
    proof (cases "transfer_channels cs s")
      case (Inl e)
      have "transfer_channels cs (s\<lparr>d_cop0 := x\<rparr>) = map_res (\<lambda>(v, s). (v, s\<lparr>d_cop0 := x\<rparr>)) (transfer_channels cs s)"
        using core_free_channels[of cs] unfolding core_free_def by blast
      then show ?thesis by (simp add: Inl)
    next
      case (Inr p)
      obtain cs1 s1 where p: "p = (cs1, s1)" by fastforce
      show ?thesis using core_free_keeps(3)[OF core_free_channels Inr[unfolded p], of x] Suc.IH(1)[of cs1 s1] by (simp add: Inr p)
    qed
  next
    case 2
    then obtain cs1 s1 where 1: "transfer_channels cs s = Inr (cs1, s1)"
      "repeat_res n channels_step (cs1, s1) = Inr (cs', s')" by auto
    then show ?case using Suc.IH(2)[OF 1(2)] core_free_keeps(1)[OF core_free_channels 1(1)] by simp
  }
qed simp_all

theorem ee_dmac_run_channels:
  assumes "bit (d_ctrl s) 0" and "length (c0_irq_lines (d_cop0 s)) = 8" and "0 < t"
  shows "ee_dmac_run t (cs, s) =
    map_res (\<lambda>(cs', s'). (cs', irq_line s')) (repeat_res (nat t) channels_step (cs, s))"
  using assms
proof (induction "nat t" arbitrary: t cs s)
  case 0
  then show ?case by simp
next
  case (Suc n)
  have on: "extract_from DCTRL_DMAE (d_ctrl s) \<noteq> 0" using Suc.prems(1) by (simp add: DCTRL_DMAE_def field_bit)
  have t: "nat t = Suc n" "nat (t - 1) = n" using Suc.hyps(2) by simp_all
  show ?case
  proof (cases "transfer_channels cs s")
    case (Inl e)
    then have "ee_dmac_time_step t (cs, s) = Inl e" using on by (simp add: ee_dmac_time_step_def)
    then show ?thesis using ee_dmac_loop.run_fail[OF Suc.prems(3)] Inl by (simp add: t)
  next
    case (Inr p)
    obtain cs1 s1 where p: "p = (cs1, s1)" by fastforce
    note k = core_free_keeps[OF core_free_channels Inr[unfolded p]]
    have "ee_dmac_time_step t (cs, s) = Inr (1, cs1, irq_line s1)"
      using on Suc.prems(2) by (simp add: ee_dmac_time_step_def Inr p k irq_line_eq)
    from ee_dmac_loop.run_step[OF Suc.prems(3) this]
    have r: "ee_dmac_run t (cs, s) = ee_dmac_run (t - 1) (cs1, irq_line s1)" .
    have s1: "irq_line s1 = s1\<lparr>d_cop0 := d_cop0 (irq_line s1)\<rparr>" by (simp add: irq_line_def)
    show ?thesis
    proof (cases "0 < t - 1")
      case True
      have "ee_dmac_run (t - 1) (cs1, irq_line s1) =
          map_res (\<lambda>(cs', s'). (cs', irq_line s')) (repeat_res n channels_step (cs1, irq_line s1))"
        using Suc.hyps(1)[of "t - 1" "irq_line s1" cs1] t True Suc.prems k by simp
      also have "repeat_res n channels_step (cs1, irq_line s1) =
          map_res (\<lambda>(cs, s). (cs, s\<lparr>d_cop0 := d_cop0 (irq_line s1)\<rparr>)) (repeat_res n channels_step (cs1, s1))"
        by (subst s1, rule repeat_channels_core)
      also have "map_res (\<lambda>(cs', s'). (cs', irq_line s')) \<dots> =
          map_res (\<lambda>(cs', s'). (cs', irq_line s')) (repeat_res n channels_step (cs1, s1))"
        using repeat_channels_core(2)[of n cs1 s1] irq_line_again
        by (cases "repeat_res n channels_step (cs1, s1)") auto
      finally show ?thesis by (simp add: r t Inr p)
    next
      case False
      then have "n = 0" "ee_dmac_run (t - 1) (cs1, irq_line s1) = Inr (cs1, irq_line s1)"
        using t by (simp_all add: ee_dmac_loop.run_stop)
      then show ?thesis by (simp add: r t Inr p)
    qed
  qed
qed

text \<open>With one started channel, a tick is a step of that channel.\<close>

definition only_started :: "nat \<Rightarrow> ee_channel list \<Rightarrow> bool" where
  "only_started j cs \<longleftrightarrow> j < length cs \<and> (\<forall>k<length cs. k \<noteq> j \<longrightarrow> \<not> bit (chcr_val (chcr (cs ! k))) 8)"

lemma transfer_idle: "\<not> bit (chcr_val (chcr c)) 8 \<Longrightarrow> transfer_channel c s = Inr (c, s)"
  by (simp add: transfer_channel_def str_set)

lemma transfer_all_idle: "\<forall>c\<in>set cs. \<not> bit (chcr_val (chcr c)) 8 \<Longrightarrow> transfer_channels cs s = Inr (cs, s)"
  by (induction cs) (simp_all add: transfer_idle)

lemma transfer_channels_one:
  "only_started j cs \<Longrightarrow>
   transfer_channels cs s = map_res (\<lambda>(c, s). (cs[j := c], s)) (transfer_channel (cs ! j) s)"
proof (induction cs arbitrary: j s)
  case (Cons c cs)
  show ?case
  proof (cases j)
    case 0
    have "\<not> bit (chcr_val (chcr (cs ! k))) 8" if "k < length cs" for k
      using Cons.prems that 0 by (auto simp: only_started_def dest: spec[of _ "Suc k"])
    then have "\<forall>c\<in>set cs. \<not> bit (chcr_val (chcr c)) 8" by (auto simp: in_set_conv_nth)
    then show ?thesis using 0 by (cases "transfer_channel c s") (auto simp: transfer_all_idle)
  next
    case (Suc i)
    have "only_started i cs" "\<not> bit (chcr_val (chcr c)) 8"
      using Cons.prems Suc by (auto simp: only_started_def nth_Cons' dest: spec[of _ "Suc _"])
    then show ?thesis using Suc Cons.IH[of i s] by (cases "transfer_channel (cs ! i) s") (auto simp: transfer_idle)
  qed
qed (simp add: only_started_def)

lemma repeat_channels_one:
  assumes "only_started j cs"
  shows "repeat_res n channels_step (cs, s) =
    map_res (\<lambda>(c, s). (cs[j := c], s)) (repeat_res n chan_step (cs ! j, s))"
proof -
  have j: "j < length cs" using assms by (simp add: only_started_def)
  have "repeat_res n channels_step (cs[j := c], s) =
      map_res (\<lambda>(c, s). (cs[j := c], s)) (repeat_res n chan_step (c, s))" for c s
  proof (induction n arbitrary: c s)
    case (Suc n)
    have "only_started j (cs[j := c])" using assms by (simp add: only_started_def)
    from transfer_channels_one[OF this, of s] Suc.IH show ?case
      using j by (cases "transfer_channel c s") auto
  qed simp
  from this[of "cs ! j" s] show ?thesis by simp
qed

lemma ee_dmac_run_one:
  assumes "bit (d_ctrl s) 0" and "length (c0_irq_lines (d_cop0 s)) = 8" and "0 < t" and "only_started j cs"
    and "repeat_res (nat t) chan_step (cs ! j, s) = Inr (c', s')"
  shows "ee_dmac_run t (cs, s) = Inr (cs[j := c'], irq_line s')"
  using ee_dmac_run_channels[OF assms(1-3)] assms(5) by (simp add: repeat_channels_one[OF assms(4)])

section \<open>A normal transfer into memory\<close>

definition stopped_channel :: "ee_channel \<Rightarrow> ee_channel" where
  "stopped_channel c = c\<lparr>chcr := (chcr c)\<lparr>chcr_val := insert_into CHCR_STR (chcr_val (chcr c)) 0\<rparr>\<rparr>"

definition completed :: "ee_channel \<Rightarrow> ee_dma \<Rightarrow> ee_dma" where
  "completed c s =
     s\<lparr>d_stat := insert_into (BF (channel_id c) 1) (d_stat s) 1,
       dma_sbus := sbus_after (chcr_kind (chcr c)) (chcr_val (chcr (stopped_channel c))) (dma_sbus s)\<rparr>"

lemma stopped_idle: "\<not> bit (chcr_val (chcr (stopped_channel c))) 8"
  by (simp add: stopped_channel_def CHCR_STR_def bit_clear)

lemma suspended_eq:
  "wired (chcr c) \<Longrightarrow> channel_id c < 10 \<Longrightarrow> set_state_suspended c s = Inr (stopped_channel c, completed c s)"
  by (simp add: set_state_suspended_def chan_insert_field_def insert_str stopped_channel_def completed_def
      cis_keys CHANNEL_CIS_KEYS_def[THEN arg_cong[where f = length], simplified])

lemma finish_receive:
  assumes "bit (chcr_val (chcr c)) 8" "dma_started (chcr c)" "\<not> bit (chcr_val (chcr c)) 0" "wired (chcr c)"
    and "channel_id c < 10" and "qwc c = 0"
    and "get_logical_mode (chcr c) = Some NORMAL \<or> get_logical_mode (chcr c) = Some CHAIN \<and> tag_exit (chcr c)"
  shows "transfer_channel c s = Inr (stopped_channel c, completed c s)"
  using assms suspended_eq[of c s]
  by (auto simp: transfer_channel_def str_set transfer_normal_def transfer_chain_def finish_transfer_def
      drain_pending_def direction_bit)

lemma repeat_idle:
  "\<not> bit (chcr_val (chcr c)) 8 \<Longrightarrow> repeat_res n chan_step (c, s) = Inr (c, s)"
  by (induction n) (simp_all add: transfer_idle)

text \<open>
  A channel set up to receive \<open>n\<close> quad words: its queue holds them, its address is a stretch of
  a writable memory, and stall control does not concern it.
\<close>

definition receive_setup ::
    "ee_channel \<Rightarrow> nat \<Rightarrow> fifo_ref \<Rightarrow> dma_fifo \<Rightarrow> nat \<Rightarrow> nat \<Rightarrow> byte_memory \<Rightarrow> ee_dma \<Rightarrow> bool" where
  "receive_setup c n r q i off m s \<longleftrightarrow>
     bit (chcr_val (chcr c)) 8 \<and> \<not> dma_started (chcr c) \<and> \<not> bit (chcr_val (chcr c)) 0 \<and>
     get_logical_mode (chcr c) = Some NORMAL \<and> wired (chcr c) \<and>
     channel_id c < 8 \<and> dma_fifo_queue c = Some r \<and> qwc c = of_nat n \<and> 0 < n \<and> n < 2 ^ 32 \<and>
     steady_queue r q s \<and> 16 * n \<le> length (q_items q) \<and>
     qword_run (madr c) n \<and> memory_window (dma_address (madr c)) (16 * n) i off m s \<and>
     \<not> mem_read_only m \<and> stall_free c s"

definition received :: "nat \<Rightarrow> fifo_ref \<Rightarrow> dma_fifo \<Rightarrow> nat \<Rightarrow> nat \<Rightarrow> byte_memory \<Rightarrow> ee_dma \<Rightarrow> ee_dma" where
  "received n r q i off m s =
     put_memory i (overlay off (take (16 * n) (q_items q)) (mem_bytes m))
       (port_put r (q\<lparr>q_items := drop (16 * n) (q_items q)\<rparr>) s)"

lemma start_simps [simp]:
  "chcr_val (chcr (start_transfer c)) = chcr_val (chcr c)" "dma_started (chcr (start_transfer c))"
  "chcr_kind (chcr (start_transfer c)) = chcr_kind (chcr c)"
  "channel_id (start_transfer c) = channel_id c" "qwc (start_transfer c) = qwc c" "madr (start_transfer c) = madr c"
  "dma_fifo_queue (start_transfer c) = dma_fifo_queue c"
  "get_logical_mode (chcr (start_transfer c)) = get_logical_mode (chcr c)"
  "wired (chcr (start_transfer c)) = wired (chcr c)"
  by (simp_all add: start_transfer_def get_logical_mode_def wired_def chcr_extract_field_def)

lemma normal_receive:
  assumes "receive_setup c n r q i off m s"
  defines "c1 \<equiv> after_unit n (start_transfer c)"
  shows "repeat_res (n + 2 + k) chan_step (c, s) =
    Inr (stopped_channel c1, completed c1 (received n r q i off m s))"
proof -
  note A = assms(1)[unfolded receive_setup_def]
  have q: "qwc c \<noteq> 0" "unat (qwc c) = n" using A
    by (auto simp: unat_of_nat word_of_nat_eq_0_iff take_bit_eq_mod dvd_imp_le)
  have 1: "transfer_channel c s = Inr (start_transfer c, s)"
    using A q(1) by (simp add: transfer_channel_def str_set transfer_normal_def)
  have 2: "repeat_res n chan_step (start_transfer c, s) = Inr (c1, received n r q i off m s)"
    unfolding c1_def received_def
  proof (rule receive_burst)
    show "streaming (start_transfer c) r" using A by (simp add: streaming_def)
    show "stall_free (start_transfer c) s" using A
      by (simp add: stall_free_def is_source_stall_control_on_def is_drain_stall_control_on_def direction_bit)
  qed (use A q in simp_all)
  have 3: "transfer_channel c1 s' = Inr (stopped_channel c1, completed c1 s')" for s'
    using A q by (intro finish_receive) (simp_all add: c1_def)
  have split: "n + 2 + k = Suc (n + Suc k)" by simp
  show ?thesis
    unfolding split repeat_res.simps repeat_res_add by (simp add: 1 2 3 repeat_idle stopped_idle)
qed

theorem ee_dma_receive:
  assumes "receive_setup c n r q i off m s" and "only_started j cs" and "cs ! j = c"
    and "bit (d_ctrl s) 0" and "length (c0_irq_lines (d_cop0 s)) = 8" and "int n + 2 \<le> t"
  defines "c1 \<equiv> after_unit n (start_transfer c)"
  shows "ee_dmac_run t (cs, s) =
    Inr (cs[j := stopped_channel c1], irq_line (completed c1 (received n r q i off m s)))"
proof (rule ee_dmac_run_one[OF assms(4,5) _ assms(2)])
  obtain k where k: "nat t = n + 2 + k" using assms(6) that[of "nat t - (n + 2)"] by simp
  show "repeat_res (nat t) chan_step (cs ! j, s) =
      Inr (stopped_channel c1, completed c1 (received n r q i off m s))"
    unfolding k assms(3) c1_def by (rule normal_receive[OF assms(1)])
qed (use assms(6) in simp)

text \<open>What the memory, the queue, the status and the line hold then.\<close>

lemma received_memory:
  assumes "receive_setup c n r q i off m s"
  shows "\<exists>m'. memory_at i (received n r q i off m s) = Some m' \<and>
    take (16 * n) (drop off (mem_bytes m')) = take (16 * n) (q_items q) \<and>
    take off (mem_bytes m') = take off (mem_bytes m) \<and>
    drop (off + 16 * n) (mem_bytes m') = drop (off + 16 * n) (mem_bytes m)"
proof -
  have A: "memory_at i s = Some m" "off + 16 * n \<le> length (mem_bytes m)" "16 * n \<le> length (q_items q)"
    "port_queue r s = Inr q"
    using assms by (simp_all add: receive_setup_def memory_window_def mem_size_def steady_queue_def)
  have "r \<noteq> Bus_fifo i" by (rule port_not_memory[OF A(4,1)])
  then show ?thesis
    using A by (simp add: received_def memory_at_put_memory) (simp add: overlay_def)
qed

lemma received_queue:
  assumes "receive_setup c n r q i off m s"
  shows "port_queue r (received n r q i off m s) = Inr (q\<lparr>q_items := drop (16 * n) (q_items q)\<rparr>)"
proof -
  have "port_queue r s = Inr q" "memory_at i s = Some m"
    using assms by (simp_all add: receive_setup_def memory_window_def steady_queue_def)
  then show ?thesis using port_not_memory[of r s q i m] by (simp add: received_def port_get_put)
qed

lemma completed_line:
  assumes "length (c0_irq_lines (d_cop0 s)) = 8" and "channel_id c < 10"
  shows "c0_irq_lines (d_cop0 (irq_line (completed c s))) ! 3 \<longleftrightarrow>
    is_interrupt_pending (d_stat s) \<or> bit (d_stat s) (16 + channel_id c)"
proof -
  have b: "bit (d_stat (completed c s)) n \<longleftrightarrow> n < 32 \<and> (n = channel_id c \<or> bit (d_stat s) n)" for n
    by (simp add: completed_def bit_raise)
  have "is_interrupt_pending (d_stat (completed c s)) \<longleftrightarrow>
      is_interrupt_pending (d_stat s) \<or> bit (d_stat s) (16 + channel_id c)"
    using assms(2) unfolding pending_iff b by (auto intro: exI[of _ "channel_id c"])
  then show ?thesis using assms(1) by (simp add: irq_line_def completed_def)
qed

lemma sbus_after_fifos [simp]:
  "fifo_sif0 (sbus_after k v b) = fifo_sif0 b" "fifo_sif1 (sbus_after k v b) = fifo_sif1 b"
  "fifo_sif2 (sbus_after k v b) = fifo_sif2 b"
  by (simp_all add: sbus_after_def Let_def sif0_update_finish_def sif1_update_start_def sif2_update_start_def
      sif2_update_finish_def split: ee_chcr_kind.split)

lemma completed_frame [simp]:
  "memory_at i (irq_line (completed c s)) = memory_at i s" "port_queue r (irq_line (completed c s)) = port_queue r s"
  by (simp add: memory_at_def irq_line_def completed_def)
    (cases r; simp add: irq_line_def completed_def)

text \<open>
  The transfer as memory, queue and processor see it: the bytes move in order, nothing else in
  the memory changes, the channel stops, and the line of the core is raised when the channel is
  not masked.
\<close>

theorem ee_dma_received:
  assumes "receive_setup c n r q i off m s" and "only_started j cs" and "cs ! j = c"
    and "bit (d_ctrl s) 0" and "length (c0_irq_lines (d_cop0 s)) = 8" and "int n + 2 \<le> t"
  shows "\<exists>cs' s' m'. ee_dmac_run t (cs, s) = Inr (cs', s') \<and> \<not> bit (chcr_val (chcr (cs' ! j))) 8 \<and>
    memory_at i s' = Some m' \<and> take (16 * n) (drop off (mem_bytes m')) = take (16 * n) (q_items q) \<and>
    take off (mem_bytes m') = take off (mem_bytes m) \<and>
    drop (off + 16 * n) (mem_bytes m') = drop (off + 16 * n) (mem_bytes m) \<and>
    port_queue r s' = Inr (q\<lparr>q_items := drop (16 * n) (q_items q)\<rparr>) \<and>
    (c0_irq_lines (d_cop0 s') ! 3 \<longleftrightarrow> is_interrupt_pending (d_stat s) \<or> bit (d_stat s) (16 + channel_id c))"
proof -
  let ?c = "after_unit n (start_transfer c)" and ?s = "received n r q i off m s"
  have "j < length cs" "channel_id ?c < 10" using assms(1,2) by (simp_all add: only_started_def receive_setup_def)
  moreover have f: "d_stat ?s = d_stat s" "d_cop0 ?s = d_cop0 s" by (simp_all add: received_def)
  have "c0_irq_lines (d_cop0 (irq_line (completed ?c ?s))) ! 3 \<longleftrightarrow>
      is_interrupt_pending (d_stat s) \<or> bit (d_stat s) (16 + channel_id c)"
    using completed_line[of ?s ?c] calculation assms(5) by (simp add: f)
  moreover obtain m' where "memory_at i ?s = Some m'"
    "take (16 * n) (drop off (mem_bytes m')) = take (16 * n) (q_items q)"
    "take off (mem_bytes m') = take off (mem_bytes m)"
    "drop (off + 16 * n) (mem_bytes m') = drop (off + 16 * n) (mem_bytes m)"
    using received_memory[OF assms(1)] by blast
  ultimately show ?thesis
    unfolding ee_dma_receive[OF assms] by (simp add: stopped_idle received_queue[OF assms(1)])
qed

end
