(* ===== verification/EeDmacChain.thy ===== *)
theory EeDmacChain
  imports EeDmacRun
begin

text \<open>
  Chain mode of the EE DMA controller: what a destination chain of packets in a queue does to
  memory, and the address stack of source chains.
\<close>

section \<open>Tags\<close>

text \<open>The two fields of an address register make up the register.\<close>

lemma set_tag_address: "set_address (tag_addr t) (tag_spr t) r = et_tag1 t"
  by (rule bit_word_eqI)
    (auto simp: set_address_def tag_addr_def tag_spr_def bit_insert_into bit_extract_from word_defs
      field_bit bit_1_iff less_Suc_eq numeral_eq_Suc)

lemma addr_fields_eq:
  "r = r' \<longleftrightarrow> addr_field ADDR_ADDR r = addr_field ADDR_ADDR r' \<and> addr_field ADDR_SPR r = addr_field ADDR_SPR r'"
proof
  assume f: "addr_field ADDR_ADDR r = addr_field ADDR_ADDR r' \<and> addr_field ADDR_SPR r = addr_field ADDR_SPR r'"
  show "r = r'"
  proof (rule bit_word_eqI)
    fix n assume "n < LENGTH(32)"
    then consider "n < 31" | "n = 31" by fastforce
    then show "bit r n = bit r' n"
    proof cases
      case 1
      have "bit (addr_field ADDR_ADDR r) n = bit (addr_field ADDR_ADDR r') n" using f by simp
      with 1 show ?thesis by (simp add: addr_field_def ADDR_ADDR_def bit_extract_from)
    next
      case 2
      have "bit (addr_field ADDR_SPR r) 0 = bit (addr_field ADDR_SPR r') 0" using f by simp
      with 2 show ?thesis by (simp add: addr_field_def ADDR_SPR_def bit_extract_from)
    qed
  qed
qed simp

lemma set_address_fields [simp]:
  "addr_field ADDR_ADDR (set_address a p r) = take_bit 31 a"
  "addr_field ADDR_SPR (set_address a p r) = take_bit 1 p"
  by (rule bit_word_eqI; auto simp: set_address_def addr_field_def word_defs bit_insert_into bit_extract_from bit_simps bit_0)+

section \<open>The address stack\<close>

text \<open>
  A call pushes the address after the tag it calls, not the one after the tag that called: the
  pushed address does not depend on where the chain was.
\<close>

definition running_plain :: "ee_channel \<Rightarrow> bool" where
  "running_plain c \<longleftrightarrow> chcr_kind (chcr c) = Chcr_plain \<and> bit (chcr_val (chcr c)) 8"

lemma chan_insert_plain:
  "running_plain c \<Longrightarrow> 8 < bf_start f \<or> bf_start f + bf_length f \<le> 8 \<Longrightarrow>
   chan_insert_field f v c s =
     (c\<lparr>chcr := (chcr c)\<lparr>chcr_val := insert_into f (chcr_val (chcr c)) v\<rparr>\<rparr>, s)"
  by (simp add: chan_insert_field_def chcr_insert_field_def chcr_write_eq running_plain_def wire_def
      sbus_after_def base_write_running)

lemma asp_low [simp]: "bf_start CHCR_ASP + bf_length CHCR_ASP \<le> 8"
  by (simp add: CHCR_ASP_def)

lemma call_pushes_callee:
  assumes "running_plain c" and "asr c = Some a" and "length a = 2" and "tadr c = Some t"
    and "chcr_extract_field CHCR_ASP (chcr c) < 2"
  defines "asp \<equiv> unat (chcr_extract_field CHCR_ASP (chcr c))"
  shows "\<exists>c'. CHAIN_SRC_CALL c s = Inr (c', s) \<and>
    tadr c' = Some (et_tag1 (dma_tag (chcr c))) \<and>
    asr c' = Some (a[asp := set_address (tag_addr (dma_tag (chcr c)) + 0x10) (tag_spr (dma_tag (chcr c))) (a ! asp)])"
proof -
  have nle: "\<not> 2 \<le> chcr_extract_field CHCR_ASP (chcr c)" using assms(5) by (simp only: not_le)
  have l: "asp < 2" using assms(5) by (simp add: asp_def word_less_nat_alt)
  let ?t = "dma_tag (chcr c)"
  have f: "addr_field ADDR_ADDR (et_tag1 ?t) = tag_addr ?t" "addr_field ADDR_SPR (et_tag1 ?t) = tag_spr ?t"
    by (auto simp: addr_field_def tag_addr_def tag_spr_def word_defs field_bit)
  have r: "running_plain (c\<lparr>qwc := q, madr := w, tadr := v, asr := y\<rparr>)" for q w v y
    using assms(1) by (simp add: running_plain_def)
  show ?thesis
    using assms l f nle
    by (simp add: CHAIN_SRC_CALL_def Let_def set_tag_address asr_get_def asr_put_def after_tag_def
        chan_insert_plain[OF r])
qed

text \<open>
  A return reads the register above the top of the stack, and then overwrites the address with
  the scratchpad flag: the next tag is read from address 0 or 1, and with two entries on the
  stack the access is outside it.
\<close>

lemma return_loses_address:
  assumes "running_plain c" and "asr c = Some a" and "length a = 2" and "tadr c = Some t"
    and "chcr_extract_field CHCR_ASP (chcr c) = 1"
  shows "\<exists>c' t'. CHAIN_SRC_RET c s = Inr (c', s) \<and> tadr c' = Some t' \<and>
    addr_field ADDR_ADDR t' = addr_field ADDR_SPR (a ! 1)"
proof -
  have r: "running_plain (c\<lparr>tadr := v\<rparr>)" for v using assms(1) by (simp add: running_plain_def)
  have f: "addr_field ADDR_ADDR (insert_into ADDR_ADDR v (addr_field ADDR_SPR w)) = addr_field ADDR_SPR w" for v w
    by (rule bit_word_eqI) (auto simp: addr_field_def word_defs bit_insert_into bit_extract_from)
  show ?thesis
    using assms by (simp add: CHAIN_SRC_RET_def Let_def asr_get_def chan_insert_plain[OF r] CHCR_ASP_def f)
qed

lemma return_from_two:
  assumes "asr c = Some a" and "length a = 2" and "tadr c = Some t"
    and "chcr_extract_field CHCR_ASP (chcr c) \<ge> 2"
  shows "CHAIN_SRC_RET c s = Inl Out_of_bounds"
proof -
  have "chcr_extract_field CHCR_ASP (chcr c) \<noteq> 0" "\<not> unat (chcr_extract_field CHCR_ASP (chcr c)) < 2"
    using assms(4) by (auto simp: word_le_nat_alt)
  then show ?thesis using assms by (simp add: CHAIN_SRC_RET_def Let_def asr_get_def)
qed

section \<open>Destination chains\<close>

text \<open>
  A packet is a tag, the place in memory its address means, and its data; in the queue the data
  follows the tag.
\<close>

type_synonym packet = "uqword \<times> nat \<times> ubyte list"

definition packet_bytes :: "packet \<Rightarrow> ubyte list" where
  "packet_bytes p = (case p of (tag, off, data) \<Rightarrow> split_bytes 16 tag @ data)"

definition packet_qwords :: "packet \<Rightarrow> nat" where
  "packet_qwords p = (case p of (tag, off, data) \<Rightarrow> unat (tag_qwc (tag_words tag)))"

definition store_packets :: "packet list \<Rightarrow> ubyte list \<Rightarrow> ubyte list" where
  "store_packets ps bs = fold (\<lambda>(tag, off, data). overlay off data) ps bs"

text \<open>A channel in a destination chain.\<close>

definition in_dst_chain :: "ee_channel \<Rightarrow> fifo_ref \<Rightarrow> bool" where
  "in_dst_chain c r \<longleftrightarrow> bit (chcr_val (chcr c)) 8 \<and> \<not> bit (chcr_val (chcr c)) 0 \<and>
     get_logical_mode (chcr c) = Some CHAIN \<and> \<not> bit (chcr_val (chcr c)) 6 \<and> \<not> bit (chcr_val (chcr c)) 7 \<and>
     wired (chcr c) \<and> channel_id c < 8 \<and> dma_fifo_queue c = Some r"

definition take_tag :: "uqword \<Rightarrow> ee_channel \<Rightarrow> ee_channel" where
  "take_tag tag c =
     (let t = tag_words tag in
      c\<lparr>chcr := (chcr c)\<lparr>chcr_val := insert_into CHCR_TAG (chcr_val (chcr c)) (tag_tag t), dma_tag := t,
                         tag_irq := tag_irq_bit t, tag_exit := (tag_id t = 7) \<or> tag_exit (chcr c)\<rparr>,
        qwc := tag_qwc t, madr := et_tag1 t\<rparr>)"

lemma bit_tag_field: "n < 16 \<Longrightarrow> bit (insert_into CHCR_TAG v x) n = bit (v :: uword) n"
  by (simp add: CHCR_TAG_def bit_insert_into)

lemma mode_tag_field: "extract_from CHCR_MOD (insert_into CHCR_TAG (v :: uword) x) = extract_from CHCR_MOD v"
  by (rule bit_word_eqI) (auto simp: CHCR_MOD_def CHCR_TAG_def bit_extract_from bit_insert_into)

lemma take_tag_simps [simp]:
  "qwc (take_tag tag c) = tag_qwc (tag_words tag)" "madr (take_tag tag c) = et_tag1 (tag_words tag)"
  "channel_id (take_tag tag c) = channel_id c"
  "tag_exit (chcr (take_tag tag c)) = (tag_id (tag_words tag) = 7 \<or> tag_exit (chcr c))"
  "dma_started (chcr (take_tag tag c)) = dma_started (chcr c)"
  "chcr_kind (chcr (take_tag tag c)) = chcr_kind (chcr c)"
  "in_dst_chain (take_tag tag c) r = in_dst_chain c r"
  by (simp_all add: take_tag_def Let_def in_dst_chain_def bit_tag_field wired_def get_logical_mode_def
      chcr_extract_field_def mode_tag_field)

lemma in_dst_chain_unit [simp]: "in_dst_chain (after_unit n c) r = in_dst_chain c r"
  by (simp add: in_dst_chain_def)

lemma dst_tag_handler:
  assumes "tag_id t = (if final then 7 else 1)"
  shows "tag_id t < length DST_CHAIN_INSTRUCTION_TABLE"
    "(DST_CHAIN_INSTRUCTION_TABLE ! tag_id t) = (if final then CHAIN_DST_END else CHAIN_DST_CNT)"
  using assms by (simp_all add: DST_CHAIN_INSTRUCTION_TABLE_def)

lemma dst_read_tag:
  assumes c: "in_dst_chain c r" "dma_started (chcr c)" "qwc c = 0" "\<not> tag_exit (chcr c)"
    and t: "tag_id (tag_words tag) = (if final then 7 else 1)"
    and q: "port_queue r s = Inr q" "q_items q = split_bytes 16 tag @ rest"
  shows "transfer_channel c s = Inr (take_tag tag c, port_put r (q\<lparr>q_items := rest\<rparr>) s)"
proof -
  note C = c(1)[unfolded in_dst_chain_def]
  let ?s = "port_put r (q\<lparr>q_items := rest\<rparr>) s" and ?c = "set_dma_tag (tag_words tag) c"
  have "port_read 16 r s = Inr (tag, ?s)"
    using port_read_queue[OF q(1), of 16, where 'v = 128] q(2) by simp
  then have "read_chain_dest_tag c s = Inr (True, ?c, ?s)"
    using C q by (simp add: read_chain_dest_tag_def port_has_read_def has_read_available_def set_dma_tag_def tte_bit Let_def)
  moreover have "run_tag DST_CHAIN_INSTRUCTION_TABLE ?c ?s = Inr (take_tag tag c, ?s)"
  proof -
    let ?c1 = "?c\<lparr>qwc := tag_qwc (tag_words tag), madr := et_tag1 (tag_words tag),
      chcr := (if final then (chcr ?c)\<lparr>tag_exit := True\<rparr> else chcr ?c)\<lparr>tag_irq := tag_irq_bit (tag_words tag)\<rparr>\<rparr>"
    have "chan_insert_field CHCR_TAG (tag_tag (tag_words tag)) ?c1 ?s = (take_tag tag c, ?s)"
      using C c(4) t insert_running[of "chcr ?c1" CHCR_TAG "tag_tag (tag_words tag)" "dma_sbus ?s"]
      by (auto simp: chan_insert_field_def set_dma_tag_def wired_def take_tag_def Let_def CHCR_TAG_def)
    then show ?thesis
      using c(4) dst_tag_handler[OF t]
      by (cases final) (simp_all add: run_tag_def set_dma_tag_def CHAIN_DST_END_def CHAIN_DST_CNT_def
          Let_def set_tag_address)
  qed
  ultimately have "next_tag c s = Inr (True, take_tag tag c, ?s)"
    using C by (simp add: next_tag_def direction_bit)
  then show ?thesis using C c
    by (simp add: transfer_channel_def str_set transfer_chain_def tie_bit)
qed

text \<open>The memory a packet goes to: the run of addresses of its tag, found in memory \<open>i\<close>.\<close>

definition packet_fits :: "nat \<Rightarrow> nat \<Rightarrow> uptr byte_bus \<Rightarrow> packet \<Rightarrow> bool" where
  "packet_fits i sz b p \<longleftrightarrow> (case p of (tag, off, data) \<Rightarrow>
     let n = packet_qwords p; a = et_tag1 (tag_words tag) in
     length data = 16 * n \<and> qword_run a n \<and> window b (dma_address a) (16 * n) i off \<and> off + 16 * n \<le> sz)"

definition take_packet :: "packet \<Rightarrow> ee_channel \<Rightarrow> ee_channel" where
  "take_packet p c = after_unit (packet_qwords p) (take_tag (fst p) c)"

definition packet_id :: "packet \<Rightarrow> nat" where
  "packet_id p = tag_id (tag_words (fst p))"

lemma take_packet_simps [simp]:
  "qwc (take_packet p c) = 0" "channel_id (take_packet p c) = channel_id c"
  "tag_exit (chcr (take_packet p c)) = (packet_id p = 7 \<or> tag_exit (chcr c))"
  "dma_started (chcr (take_packet p c)) = dma_started (chcr c)"
  "chcr_kind (chcr (take_packet p c)) = chcr_kind (chcr c)"
  "in_dst_chain (take_packet p c) r = in_dst_chain c r"
  by (simp_all add: take_packet_def packet_qwords_def packet_id_def split_beta)

lemma stall_free_take:
  assumes "d_ctrl s' = d_ctrl s"
  shows "stall_free (take_tag tag c) s' = stall_free c s" "stall_free (take_packet p c) s' = stall_free c s"
proof -
  have "get_direction (chcr (take_tag tag c)) = get_direction (chcr c)" for tag
    by (simp add: take_tag_def Let_def direction_bit bit_tag_field)
  then show "stall_free (take_tag tag c) s' = stall_free c s" "stall_free (take_packet p c) s' = stall_free c s"
    using assms by (simp_all add: take_packet_def stall_free_def is_source_stall_control_on_def is_drain_stall_control_on_def)
qed

lemma dst_packet:
  assumes c: "in_dst_chain c r" "dma_started (chcr c)" "qwc c = 0" "\<not> tag_exit (chcr c)" "stall_free c s"
    and t: "packet_id p = (if final then 7 else 1)"
    and q: "port_queue r s = Inr q" "q_items q = packet_bytes p @ rest"
    and m: "memory_at i s = Some m" "\<not> mem_read_only m" "packet_fits i (mem_size m) (dma_bus s) p"
  shows "repeat_res (Suc (packet_qwords p)) chan_step (c, s) =
    Inr (take_packet p c, put_memory i (store_packets [p] (mem_bytes m)) (port_put r (q\<lparr>q_items := rest\<rparr>) s))"
proof -
  obtain tag off data where p: "p = (tag, off, data)" by (cases p)
  define n where "n = packet_qwords p"
  have F: "length data = 16 * n" "qword_run (et_tag1 (tag_words tag)) n"
    "window (dma_bus s) (dma_address (et_tag1 (tag_words tag))) (16 * n) i off" "off + 16 * n \<le> mem_size m"
    using m(3) by (simp_all add: packet_fits_def p n_def Let_def)
  let ?q = "q\<lparr>q_items := data @ rest\<rparr>"
  have ne: "r \<noteq> Bus_fifo i" by (rule port_not_memory[OF q(1) m(1)])
  have 1: "transfer_channel c s = Inr (take_tag tag c, port_put r ?q s)"
    using c t q dst_read_tag[of c r tag final s q "data @ rest"] by (simp add: p packet_id_def packet_bytes_def)
  have "repeat_res n chan_step (take_tag tag c, port_put r ?q s) = Inr (after_unit n (take_tag tag c),
     put_memory i (overlay off (take (16 * n) (q_items ?q)) (mem_bytes m))
      (port_put r (?q\<lparr>q_items := drop (16 * n) (q_items ?q)\<rparr>) (port_put r ?q s)))"
  proof (rule receive_burst)
    show "streaming (take_tag tag c) r" "\<not> bit (chcr_val (chcr (take_tag tag c))) 0"
      using c take_tag_simps(7)[of tag c r] by (simp_all add: streaming_def in_dst_chain_def del: take_tag_simps(7))
    show "stall_free (take_tag tag c) (port_put r ?q s)" using c(5) by (simp add: stall_free_take)
    show "n \<le> unat (qwc (take_tag tag c))" by (simp add: n_def packet_qwords_def p)
    show "steady_queue r ?q (port_put r ?q s)" using q(1) by (rule steady_queue_put)
    show "memory_window (dma_address (madr (take_tag tag c))) (16 * n) i off m (port_put r ?q s)"
      using F m(1) ne by (simp add: memory_window_def)
  qed (use F m in simp_all)
  then show ?thesis by (simp add: 1 n_def[symmetric] F(1) store_packets_def p) (simp add: take_packet_def n_def p)
qed

lemma packet_fits_put [simp]:
  "packet_fits i sz (dma_bus (put_memory i' bs s)) p = packet_fits i sz (dma_bus s) p"
  "packet_fits i sz (dma_bus (port_put r q s)) p = packet_fits i sz (dma_bus s) p"
  by (simp_all add: packet_fits_def)

lemma length_store_packet:
  "packet_fits i (length bs) b p \<Longrightarrow> length (store_packets [p] bs) = length bs"
  by (cases p) (simp add: packet_fits_def store_packets_def Let_def)

lemma store_packets_simps [simp]:
  "store_packets [] bs = bs" "store_packets (p # q # ps) bs = store_packets (q # ps) (store_packets [p] bs)"
  "store_packets (ps @ qs) bs = store_packets qs (store_packets ps bs)"
  by (simp_all add: store_packets_def)

definition packets_steps :: "packet list \<Rightarrow> nat" where
  "packets_steps ps = (\<Sum>p\<leftarrow>ps. Suc (packet_qwords p))"

lemma dst_packets:
  assumes "in_dst_chain c r" "dma_started (chcr c)" "qwc c = 0" "\<not> tag_exit (chcr c)" "stall_free c s"
    and "\<forall>p\<in>set ps. packet_id p = 1"
    and "steady_queue r q s" "q_items q = concat (map packet_bytes ps) @ rest"
    and "memory_at i s = Some m" "\<not> mem_read_only m" "\<forall>p\<in>set ps. packet_fits i (mem_size m) (dma_bus s) p"
  shows "repeat_res (packets_steps ps) chan_step (c, s) = Inr (fold take_packet ps c,
    put_memory i (store_packets ps (mem_bytes m)) (port_put r (q\<lparr>q_items := rest\<rparr>) s))"
  using assms
proof (induction ps arbitrary: c s q m)
  case Nil
  then have "rest = q_items q" by simp
  then have "q\<lparr>q_items := rest\<rparr> = q" by simp
  moreover have "port_put r q s = s" "memory_at i s = Some m" using Nil.prems by (simp_all add: steady_queue_def)
  ultimately show ?case by (simp add: packets_steps_def)
next
  case (Cons p ps)
  let ?q = "q\<lparr>q_items := concat (map packet_bytes ps) @ rest\<rparr>"
  let ?m = "m\<lparr>mem_bytes := store_packets [p] (mem_bytes m)\<rparr>"
  let ?s = "put_memory i (mem_bytes ?m) (port_put r ?q s)"
  have q: "port_queue r s = Inr q" by (rule steady_queueD[OF Cons.prems(7)])
  have ne: "r \<noteq> Bus_fifo i" by (rule port_not_memory[OF q Cons.prems(9)])
  have 1: "repeat_res (Suc (packet_qwords p)) chan_step (c, s) = Inr (take_packet p c, ?s)"
    using dst_packet[where c = c and r = r and s = s and p = p and final = False and q = q and i = i and m = m
        and rest = "concat (map packet_bytes ps) @ rest"] Cons.prems q by (simp del: repeat_res.simps)
  have sz: "mem_size ?m = mem_size m"
    using Cons.prems(11) length_store_packet[of i "mem_bytes m" "dma_bus s" p] by (simp add: mem_size_def)
  have 2: "repeat_res (packets_steps ps) chan_step (take_packet p c, ?s) = Inr (fold take_packet ps (take_packet p c),
    put_memory i (store_packets ps (mem_bytes ?m)) (port_put r (?q\<lparr>q_items := rest\<rparr>) ?s))"
  proof (rule Cons.IH)
    show "steady_queue r ?q ?s" using q ne by (simp add: steady_queue_put)
    show "memory_at i ?s = Some ?m" using Cons.prems(9) ne by (simp add: memory_at_put_memory)
    show "stall_free (take_packet p c) ?s" using Cons.prems(5) by (simp add: stall_free_take)
    show "\<forall>p\<in>set ps. packet_fits i (mem_size ?m) (dma_bus ?s) p" using Cons.prems(11) by (simp add: sz)
  qed (use Cons.prems in simp_all)
  have "store_packets ps (mem_bytes ?m) = store_packets (p # ps) (mem_bytes m)" by (cases ps) simp_all
  moreover have "repeat_res (packets_steps (p # ps)) chan_step (c, s) =
      bind_res (repeat_res (Suc (packet_qwords p)) chan_step (c, s)) (repeat_res (packets_steps ps) chan_step)"
    unfolding repeat_res_add[symmetric] by (simp add: packets_steps_def)
  ultimately show ?case using 2 ne by (simp add: 1 port_put_put_memory del: repeat_res.simps)
qed

lemma length_store_packets:
  "\<forall>x\<in>set ps. packet_fits i (length bs) b x \<Longrightarrow> length (store_packets ps bs) = length bs"
proof (induction ps arbitrary: bs)
  case (Cons x xs)
  then show ?case using length_store_packet[of i bs b x] by (cases xs) simp_all
qed simp

text \<open>
  A channel started on a chain whose packets are in its queue: tags that continue, then one that
  ends.
\<close>

definition chain_setup ::
    "ee_channel \<Rightarrow> packet list \<Rightarrow> packet \<Rightarrow> ubyte list \<Rightarrow> fifo_ref \<Rightarrow> dma_fifo \<Rightarrow> nat \<Rightarrow> byte_memory \<Rightarrow> ee_dma \<Rightarrow> bool"
where
  "chain_setup c ps p rest r q i m s \<longleftrightarrow>
     in_dst_chain c r \<and> \<not> dma_started (chcr c) \<and> qwc c = 0 \<and> \<not> tag_exit (chcr c) \<and> stall_free c s \<and>
     (\<forall>x\<in>set ps. packet_id x = 1) \<and> packet_id p = 7 \<and>
     steady_queue r q s \<and> q_items q = concat (map packet_bytes (ps @ [p])) @ rest \<and>
     memory_at i s = Some m \<and> \<not> mem_read_only m \<and>
     (\<forall>x\<in>set (ps @ [p]). packet_fits i (mem_size m) (dma_bus s) x)"

lemma fold_take [simp]:
  "qwc (fold take_packet ps c) = (if ps = [] then qwc c else 0)"
  "channel_id (fold take_packet ps c) = channel_id c"
  "dma_started (chcr (fold take_packet ps c)) = dma_started (chcr c)"
  "chcr_kind (chcr (fold take_packet ps c)) = chcr_kind (chcr c)"
  "tag_exit (chcr (fold take_packet ps c)) = (tag_exit (chcr c) \<or> (\<exists>x\<in>set ps. packet_id x = 7))"
  "in_dst_chain (fold take_packet ps c) r = in_dst_chain c r"
  by (induction ps arbitrary: c) auto

lemma stall_free_fold: "d_ctrl s' = d_ctrl s \<Longrightarrow> stall_free (fold take_packet ps c) s' = stall_free c s"
proof (induction ps arbitrary: c)
  case Nil
  then show ?case using stall_free_cong[of c c s' s] by simp
qed (simp add: stall_free_take(2)[OF refl])

lemma start_in_chain [simp]:
  "in_dst_chain (start_transfer c) r = in_dst_chain c r" "stall_free (start_transfer c) s = stall_free c s"
  "tag_exit (chcr (start_transfer c)) = tag_exit (chcr c)"
  by (simp_all add: in_dst_chain_def stall_free_def is_source_stall_control_on_def is_drain_stall_control_on_def
      direction_bit) (simp add: start_transfer_def)

lemma dst_chain:
  assumes "chain_setup c ps p rest r q i m s"
  defines "c1 \<equiv> fold take_packet (ps @ [p]) (start_transfer c)"
  shows "repeat_res (packets_steps (ps @ [p]) + 2 + k) chan_step (c, s) =
    Inr (stopped_channel c1,
      completed c1 (put_memory i (store_packets (ps @ [p]) (mem_bytes m)) (port_put r (q\<lparr>q_items := rest\<rparr>) s)))"
proof -
  note A = assms(1)[unfolded chain_setup_def]
  let ?c0 = "start_transfer c"
  let ?q = "q\<lparr>q_items := packet_bytes p @ rest\<rparr>"
  let ?m = "m\<lparr>mem_bytes := store_packets ps (mem_bytes m)\<rparr>"
  let ?s = "put_memory i (mem_bytes ?m) (port_put r ?q s)"
  have q: "port_queue r s = Inr q" using A by (simp add: steady_queue_def)
  have ne: "r \<noteq> Bus_fifo i" using A by (intro port_not_memory[OF q]) simp
  have C: "in_dst_chain ?c0 r" "stall_free ?c0 s" "\<not> tag_exit (chcr ?c0)" using A by simp_all
  have 1: "transfer_channel c s = Inr (?c0, s)"
    using A by (simp add: transfer_channel_def str_set transfer_chain_def in_dst_chain_def)
  have 2: "repeat_res (packets_steps ps) chan_step (?c0, s) = Inr (fold take_packet ps ?c0, ?s)"
    using dst_packets[where c = ?c0 and r = r and s = s and q = q and rest = "packet_bytes p @ rest" and m = m
        and i = i and ps = ps] A C by simp
  have sz: "mem_size ?m = mem_size m"
    using A length_store_packets[of ps i "mem_bytes m" "dma_bus s"] by (simp add: mem_size_def)
  have 3: "repeat_res (Suc (packet_qwords p)) chan_step (fold take_packet ps ?c0, ?s) = Inr (c1,
      put_memory i (store_packets [p] (mem_bytes ?m)) (port_put r (?q\<lparr>q_items := rest\<rparr>) ?s))"
    unfolding c1_def fold_append comp_apply fold.simps id_apply
  proof (rule dst_packet[where final = True])
    show "port_queue r ?s = Inr ?q" using q ne by (simp add: port_get_put)
    show "memory_at i ?s = Some ?m" using A ne by (simp add: memory_at_put_memory)
    show "stall_free (fold take_packet ps ?c0) ?s" using C(2) by (subst stall_free_fold[of ?s s]) simp_all
    show "packet_fits i (mem_size ?m) (dma_bus ?s) p" using A by (simp add: sz)
  qed (use A C in auto)
  have 4: "transfer_channel c1 s' = Inr (stopped_channel c1, completed c1 s')" for s'
  proof (rule finish_receive)
    have i: "in_dst_chain c1 r" using C by (simp add: c1_def)
    then show "bit (chcr_val (chcr c1)) 8" "\<not> bit (chcr_val (chcr c1)) 0" "wired (chcr c1)" "channel_id c1 < 10"
      by (simp_all add: in_dst_chain_def)
    show "get_logical_mode (chcr c1) = Some NORMAL \<or> get_logical_mode (chcr c1) = Some CHAIN \<and> tag_exit (chcr c1)"
      using i A by (simp add: c1_def in_dst_chain_def)
  qed (simp_all add: c1_def)
  have split: "packets_steps (ps @ [p]) + 2 + k = Suc (packets_steps ps + (Suc (packet_qwords p) + Suc k))"
    by (simp add: packets_steps_def)
  have 5: "repeat_res (Suc k) chan_step (c1, s') = Inr (stopped_channel c1, completed c1 s')" for s'
    by (simp add: 4 repeat_idle stopped_idle)
  show ?thesis unfolding split repeat_res.simps(2)[of "packets_steps ps + (Suc (packet_qwords p) + Suc k)"]
      repeat_res_add
    by (simp only: fst_conv snd_conv 1 2 3 5 bind_res_simps) (use ne in \<open>simp add: port_put_put_memory\<close>)
qed

theorem ee_dma_chain:
  assumes "chain_setup c ps p rest r q i m s" and "only_started j cs" and "cs ! j = c"
    and "bit (d_ctrl s) 0" and "length (c0_irq_lines (d_cop0 s)) = 8" and "int (packets_steps (ps @ [p])) + 2 \<le> t"
  defines "c1 \<equiv> fold take_packet (ps @ [p]) (start_transfer c)"
  shows "ee_dmac_run t (cs, s) = Inr (cs[j := stopped_channel c1],
    irq_line (completed c1 (put_memory i (store_packets (ps @ [p]) (mem_bytes m)) (port_put r (q\<lparr>q_items := rest\<rparr>) s))))"
proof (rule ee_dmac_run_one[OF assms(4,5) _ assms(2)])
  obtain k where k: "nat t = packets_steps (ps @ [p]) + 2 + k"
    using assms(6) that[of "nat t - (packets_steps (ps @ [p]) + 2)"] by simp
  show "repeat_res (nat t) chan_step (cs ! j, s) = Inr (stopped_channel c1,
    completed c1 (put_memory i (store_packets (ps @ [p]) (mem_bytes m)) (port_put r (q\<lparr>q_items := rest\<rparr>) s)))"
    unfolding k assms(3) c1_def by (rule dst_chain[OF assms(1)])
qed (use assms(6) in simp)

theorem ee_dma_chain_stored:
  assumes "chain_setup c ps p rest r q i m s" and "only_started j cs" and "cs ! j = c"
    and "bit (d_ctrl s) 0" and "length (c0_irq_lines (d_cop0 s)) = 8" and "int (packets_steps (ps @ [p])) + 2 \<le> t"
  shows "\<exists>cs' s'. ee_dmac_run t (cs, s) = Inr (cs', s') \<and> \<not> bit (chcr_val (chcr (cs' ! j))) 8 \<and>
    memory_at i s' = Some (m\<lparr>mem_bytes := store_packets (ps @ [p]) (mem_bytes m)\<rparr>) \<and>
    port_queue r s' = Inr (q\<lparr>q_items := rest\<rparr>) \<and> bit (d_stat s') (channel_id c)"
proof -
  let ?c = "fold take_packet (ps @ [p]) (start_transfer c)"
  have A: "in_dst_chain c r" "memory_at i s = Some m" "port_queue r s = Inr q" "j < length cs"
    using assms(1,2) by (simp_all add: chain_setup_def steady_queue_def only_started_def)
  have ne: "r \<noteq> Bus_fifo i" by (rule port_not_memory[OF A(3,2)])
  let ?s = "put_memory i (store_packets (ps @ [p]) (mem_bytes m)) (port_put r (q\<lparr>q_items := rest\<rparr>) s)"
  have "memory_at i ?s = Some (m\<lparr>mem_bytes := store_packets (ps @ [p]) (mem_bytes m)\<rparr>)"
    "port_queue r ?s = Inr (q\<lparr>q_items := rest\<rparr>)"
    using A ne by (simp_all add: memory_at_put_memory port_get_put)
  moreover have "bit (d_stat (irq_line (completed ?c ?s))) (channel_id c)"
    using A(1) by (simp add: completed_def bit_raise in_dst_chain_def)
  ultimately show ?thesis
    unfolding ee_dma_chain[OF assms] using A(4) by (simp add: stopped_idle del: fold_append)
qed

end
