(* ===== verification/IopDmac.thy ===== *)
theory IopDmac
  imports Dma
begin

text \<open>
  The DMA controller of the IOP: its tags, the registers of the thirteen channels with the side
  effects of the control registers, the priority and interrupt registers behind their wrappers,
  burst, slice and chain transfers, and the controller, which raises line DMAC of the interrupt
  controller.
\<close>

section \<open>Tags\<close>

record iop_dmatag =
  it_tag0 :: uword
  it_tag1 :: uword

definition IopDmatag_new :: iop_dmatag where
  "IopDmatag_new = \<lparr>it_tag0 = 0, it_tag1 = 0\<rparr>"

definition ITAG_ADDR :: bitfield where [word_defs]: "ITAG_ADDR = BF 0 24"
definition ITAG_IRQ :: bitfield where [word_defs]: "ITAG_IRQ = BF 30 1"
definition ITAG_ERT :: bitfield where [word_defs]: "ITAG_ERT = BF 31 1"
definition ITAG_LENGTH :: bitfield where [word_defs]: "ITAG_LENGTH = BF 0 24"

definition itag_addr :: "iop_dmatag \<Rightarrow> uword" where
  "itag_addr t = extract_from ITAG_ADDR (it_tag0 t)"
definition itag_irq :: "iop_dmatag \<Rightarrow> bool" where
  "itag_irq t \<longleftrightarrow> extract_from ITAG_IRQ (it_tag0 t) > 0"
definition itag_ert :: "iop_dmatag \<Rightarrow> bool" where
  "itag_ert t \<longleftrightarrow> extract_from ITAG_ERT (it_tag0 t) > 0"
definition itag_length :: "iop_dmatag \<Rightarrow> udword" where
  "itag_length t = ucast (extract_from ITAG_LENGTH (it_tag1 t))"

section \<open>The registers of a channel\<close>

datatype iop_chcr_kind = Iop_plain | Iop_sif0 | Iop_sif1 | Iop_sif2

datatype iop_direction = IOP_FROM | IOP_TO

datatype iop_logical_mode = NORMAL_BURST | NORMAL_SLICE | LINKEDLIST | IOP_CHAIN

record iop_chcr =
  ichcr_kind :: iop_chcr_kind
  ichcr_val :: uword
  ichcr_started :: bool
  ichcr_tag :: iop_dmatag

definition ICHCR_TD :: bitfield where [word_defs]: "ICHCR_TD = BF 0 1"
definition ICHCR_MAS :: bitfield where [word_defs]: "ICHCR_MAS = BF 1 1"
definition ICHCR_CE :: bitfield where [word_defs]: "ICHCR_CE = BF 8 1"
definition ICHCR_SM :: bitfield where [word_defs]: "ICHCR_SM = BF 9 2"
definition ICHCR_START :: bitfield where [word_defs]: "ICHCR_START = BF 24 1"

definition IopDmacChannelRegister_Chcr_new :: "iop_chcr_kind \<Rightarrow> iop_chcr" where
  "IopDmacChannelRegister_Chcr_new k =
     \<lparr>ichcr_kind = k, ichcr_val = 0, ichcr_started = False, ichcr_tag = IopDmatag_new\<rparr>"

definition ichcr_field :: "bitfield \<Rightarrow> iop_chcr \<Rightarrow> uword" where
  "ichcr_field f c = extract_from f (ichcr_val c)"

definition iop_get_logical_mode :: "iop_chcr \<Rightarrow> iop_logical_mode option" where
  "iop_get_logical_mode c =
     (let v = ichcr_field ICHCR_SM c in
      if v = 0 then Some NORMAL_BURST else if v = 1 then Some NORMAL_SLICE
      else if v = 2 then Some LINKEDLIST else if v = 3 then Some IOP_CHAIN else None)"

definition iop_get_direction :: "iop_chcr \<Rightarrow> iop_direction option" where
  "iop_get_direction c =
     (let v = ichcr_field ICHCR_TD c in
      if v = 0 then Some IOP_FROM else if v = 1 then Some IOP_TO else None)"

definition ichcr_base_write :: "uword \<Rightarrow> iop_chcr \<Rightarrow> iop_chcr" where
  "ichcr_base_write v c =
     (let start_old = ichcr_field ICHCR_START c;
          c1 = c\<lparr>ichcr_val := v\<rparr>;
          start_new = ichcr_field ICHCR_START c1
      in if start_old = 0 \<and> start_new \<noteq> 0 then c1\<lparr>ichcr_started := False, ichcr_tag := IopDmatag_new\<rparr>
         else c1)"

definition ichcr_to_write :: "uword \<Rightarrow> iop_chcr \<Rightarrow> iop_chcr" where
  "ichcr_to_write v c = ichcr_base_write (v OR 1) c"

definition ichcr_from_write :: "uword \<Rightarrow> iop_chcr \<Rightarrow> iop_chcr" where
  "ichcr_from_write v c = ichcr_base_write (v AND NOT 1) c"

definition iop_sif0_update_start :: "sbus \<Rightarrow> sbus" where
  "iop_sif0_update_start b = b\<lparr>sbus_f240 := sbus_f240 b OR 0x2000\<rparr>"

definition iop_sif1_update_finish :: "sbus \<Rightarrow> sbus" where
  "iop_sif1_update_finish b = b\<lparr>sbus_f240 := sbus_f240 b AND NOT 0x40 AND NOT 0x4000\<rparr>"

definition iop_sif2_update_start :: "sbus \<Rightarrow> sbus" where
  "iop_sif2_update_start b = b\<lparr>sbus_f240 := sbus_f240 b OR 0x8000\<rparr>"

definition iop_sif2_update_finish :: "sbus \<Rightarrow> sbus" where
  "iop_sif2_update_finish b = b\<lparr>sbus_f240 := sbus_f240 b AND NOT 0x80 AND NOT 0x8000\<rparr>"

definition ichcr_sif0_write :: "uword \<Rightarrow> iop_chcr \<Rightarrow> sbus \<Rightarrow> iop_chcr \<times> sbus" where
  "ichcr_sif0_write v c b =
     (let c1 = ichcr_to_write v c in
      (c1, if ichcr_field ICHCR_START c1 > 0 \<and> iop_get_direction c1 = Some IOP_TO
           then iop_sif0_update_start b else b))"

definition ichcr_sif1_write :: "uword \<Rightarrow> iop_chcr \<Rightarrow> sbus \<Rightarrow> iop_chcr \<times> sbus" where
  "ichcr_sif1_write v c b =
     (let c1 = ichcr_from_write v c in
      (c1, if ichcr_field ICHCR_START c1 = 0 \<and> iop_get_direction c1 = Some IOP_FROM
           then iop_sif1_update_finish b else b))"

definition ichcr_sif2_write :: "uword \<Rightarrow> iop_chcr \<Rightarrow> sbus \<Rightarrow> iop_chcr \<times> sbus" where
  "ichcr_sif2_write v c b =
     (let c1 = ichcr_base_write v c in
      (c1, if ichcr_field ICHCR_START c1 > 0 \<and> iop_get_direction c1 = Some IOP_TO then iop_sif2_update_start b
           else if ichcr_field ICHCR_START c1 = 0 \<and> iop_get_direction c1 = Some IOP_FROM
           then iop_sif2_update_finish b else b))"

definition ichcr_write_uword :: "uword \<Rightarrow> iop_chcr \<Rightarrow> sbus \<Rightarrow> iop_chcr \<times> sbus" where
  "ichcr_write_uword v c b =
     (case ichcr_kind c of
        Iop_plain \<Rightarrow> (ichcr_base_write v c, b)
      | Iop_sif0 \<Rightarrow> ichcr_sif0_write v c b
      | Iop_sif1 \<Rightarrow> ichcr_sif1_write v c b
      | Iop_sif2 \<Rightarrow> ichcr_sif2_write v c b)"

definition ichcr_insert_field :: "bitfield \<Rightarrow> uword \<Rightarrow> iop_chcr \<Rightarrow> sbus \<Rightarrow> iop_chcr \<times> sbus" where
  "ichcr_insert_field f v c b = ichcr_write_uword (insert_into f (ichcr_val c) v) c b"

definition ichcr_bus_write_uword :: "BusContext \<Rightarrow> uword \<Rightarrow> iop_chcr \<Rightarrow> sbus \<Rightarrow> iop_chcr \<times> sbus" where
  "ichcr_bus_write_uword context v c b =
     (if ichcr_kind c = Iop_sif1 \<and> context = Iop_context then ichcr_write_uword (v OR push_bit 10 1) c b
      else ichcr_write_uword v c b)"

record iop_bcr =
  bcr_val :: uword
  transfer_length :: udword

definition BCR_BS :: bitfield where [word_defs]: "BCR_BS = BF 0 16"
definition BCR_BA :: bitfield where [word_defs]: "BCR_BA = BF 16 16"

definition IopDmacChannelRegister_Bcr_new :: iop_bcr where
  "IopDmacChannelRegister_Bcr_new = \<lparr>bcr_val = 0, transfer_length = 0\<rparr>"

text \<open>The product is one of 32 bit words; only the result is widened.\<close>

definition bcr_calculate :: "bool \<Rightarrow> iop_bcr \<Rightarrow> iop_bcr" where
  "bcr_calculate use_blocks r =
     (let bs = extract_from BCR_BS (bcr_val r);
          bs' = (if bs > 0 then bs else 0x10000)
      in if use_blocks then
           let ba = extract_from BCR_BA (bcr_val r);
               ba' = (if ba > 0 then ba else 0x10000)
           in r\<lparr>transfer_length := ucast (ba' * bs')\<rparr>
         else r\<lparr>transfer_length := ucast bs'\<rparr>)"

section \<open>Channels\<close>

record iop_channel =
  ic_id :: nat
  ic_fifo :: "fifo_ref option"
  ic_madr :: uword
  ic_bcr :: iop_bcr
  ic_chcr :: iop_chcr
  ic_tadr :: "uword option"

definition IopDmacChannel_Base_new :: "nat \<Rightarrow> fifo_ref option \<Rightarrow> iop_chcr_kind \<Rightarrow> iop_channel" where
  "IopDmacChannel_Base_new i q k =
     \<lparr>ic_id = i, ic_fifo = q, ic_madr = 0, ic_bcr = IopDmacChannelRegister_Bcr_new,
      ic_chcr = IopDmacChannelRegister_Chcr_new k, ic_tadr = None\<rparr>"

definition IopDmacChannel_Tadr_new :: "nat \<Rightarrow> fifo_ref option \<Rightarrow> iop_chcr_kind \<Rightarrow> iop_channel" where
  "IopDmacChannel_Tadr_new i q k = (IopDmacChannel_Base_new i q k)\<lparr>ic_tadr := Some 0\<rparr>"

text \<open>The queues of the IOP, by their place in the store of its bus.\<close>

record iop_fifos =
  fifo_frommdec :: nat
  fifo_tomdec :: nat
  fifo_cdvd :: nat
  fifo_spu2c0 :: nat
  fifo_pio :: nat
  fifo_otclear :: nat
  fifo_spu2c1 :: nat
  fifo_dev9 :: nat
  fifo_fromsio2 :: nat
  fifo_tosio2 :: nat

definition initialise_iop_dmac :: "iop_fifos \<Rightarrow> iop_channel list" where
  "initialise_iop_dmac q =
     [IopDmacChannel_Base_new 0 (Some (Bus_fifo (fifo_frommdec q))) Iop_plain,
      IopDmacChannel_Base_new 1 (Some (Bus_fifo (fifo_tomdec q))) Iop_plain,
      IopDmacChannel_Base_new 2 (Some Sif2_fifo) Iop_sif2,
      IopDmacChannel_Base_new 3 (Some (Bus_fifo (fifo_cdvd q))) Iop_plain,
      IopDmacChannel_Tadr_new 4 (Some (Bus_fifo (fifo_spu2c0 q))) Iop_plain,
      IopDmacChannel_Base_new 5 (Some (Bus_fifo (fifo_pio q))) Iop_plain,
      IopDmacChannel_Base_new 6 (Some (Bus_fifo (fifo_otclear q))) Iop_plain,
      IopDmacChannel_Base_new 7 (Some (Bus_fifo (fifo_spu2c1 q))) Iop_plain,
      IopDmacChannel_Base_new 8 (Some (Bus_fifo (fifo_dev9 q))) Iop_plain,
      IopDmacChannel_Tadr_new 9 (Some Sif0_fifo) Iop_sif0,
      IopDmacChannel_Base_new 10 (Some Sif1_fifo) Iop_sif1,
      IopDmacChannel_Base_new 11 (Some (Bus_fifo (fifo_fromsio2 q))) Iop_plain,
      IopDmacChannel_Base_new 12 (Some (Bus_fifo (fifo_tosio2 q))) Iop_plain]"

section \<open>Common registers\<close>

record iop_dma = dma_env +
  pcr0 :: uword
  pcr1 :: uword
  icr0 :: uword
  icr1 :: uword
  gctrl :: uword
  p_intc :: iop_intc

definition ICR0_ERROR :: bitfield where [word_defs]: "ICR0_ERROR = BF 15 1"
definition ICR0_MASTER_ENABLE :: bitfield where [word_defs]: "ICR0_MASTER_ENABLE = BF 23 1"
definition ICR0_MASTER_INTERRUPT :: bitfield where [word_defs]: "ICR0_MASTER_INTERRUPT = BF 31 1"

text \<open>The keys of the channels: the two priority registers, and the two interrupt registers.\<close>

definition PCR_PRIORITY_KEYS :: "bitfield list" where
  "PCR_PRIORITY_KEYS = [BF 0 3, BF 4 3, BF 8 3, BF 12 3, BF 16 3, BF 20 3, BF 24 3]"
definition PCR_ENABLE_KEYS :: "bitfield list" where
  "PCR_ENABLE_KEYS = [BF 3 1, BF 7 1, BF 11 1, BF 15 1, BF 19 1, BF 23 1, BF 27 1]"
definition ICR0_IRM_KEYS :: "bitfield list" where
  "ICR0_IRM_KEYS = [BF 0 1, BF 1 1, BF 2 1, BF 3 1, BF 4 1, BF 5 1, BF 6 1]"
definition ICR_TCM_KEYS :: "bitfield list" where
  "ICR_TCM_KEYS = [BF 16 1, BF 17 1, BF 18 1, BF 19 1, BF 20 1, BF 21 1, BF 22 1]"
definition ICR_TCI_KEYS :: "bitfield list" where
  "ICR_TCI_KEYS = [BF 24 1, BF 25 1, BF 26 1, BF 27 1, BF 28 1, BF 29 1, BF 30 1]"
definition ICR1_IQE_KEYS :: "bitfield list" where
  "ICR1_IQE_KEYS =
    [BF 0 1, BF 1 1, BF 2 1, BF 3 1, BF 4 1, BF 5 1, BF 6 1, BF 7 1, BF 8 1, BF 9 1, BF 10 1, BF 11 1,
     BF 12 1, BF 13 1]"

definition icr_bus_write :: "BusContext \<Rightarrow> uword \<Rightarrow> uword \<Rightarrow> uword" where
  "icr_bus_write context v r =
     (if context = Iop_context
      then ((r AND 0xFF000000) OR (v AND 0xFFFFFF)) AND NOT (v AND 0x7F000000)
      else v)"

definition channel_interrupt :: "uword \<Rightarrow> bool" where
  "channel_interrupt reg_value \<longleftrightarrow>
     drop_bit 16 (reg_value AND 0x7F0000) AND drop_bit 24 (reg_value AND 0x7F000000) \<noteq> 0"

definition icr0_pending_and_set_master :: "iop_dma \<Rightarrow> bool \<times> iop_dma" where
  "icr0_pending_and_set_master s =
     (if channel_interrupt (icr0 s) \<and> extract_from ICR0_MASTER_ENABLE (icr0 s) \<noteq> 0 \<or>
         extract_from ICR0_ERROR (icr0 s) \<noteq> 0
      then (True, s\<lparr>icr0 := insert_into ICR0_MASTER_INTERRUPT (icr0 s) 1\<rparr>) else (False, s))"

definition icr1_pending_and_set_master :: "iop_dma \<Rightarrow> bool \<times> iop_dma" where
  "icr1_pending_and_set_master s =
     (if channel_interrupt (icr1 s) \<and> extract_from ICR0_MASTER_ENABLE (icr0 s) \<noteq> 0
      then (True, s\<lparr>icr0 := insert_into ICR0_MASTER_INTERRUPT (icr0 s) 1\<rparr>) else (False, s))"

definition icrw_pending_and_set_master :: "iop_dma \<Rightarrow> bool \<times> iop_dma" where
  "icrw_pending_and_set_master s =
     (case icr0_pending_and_set_master s of
        (True, s1) \<Rightarrow> (True, s1)
      | (False, s1) \<Rightarrow> icr1_pending_and_set_master s1)"

text \<open>The wrappers choose the register by the number of the channel.\<close>

definition get_channel_priority :: "iop_channel \<Rightarrow> iop_dma \<Rightarrow> uword res" where
  "get_channel_priority c s =
     (if ic_id c < 7 then Inr (extract_from (PCR_PRIORITY_KEYS ! ic_id c) (pcr0 s))
      else if ic_id c < 14 then Inr (extract_from (PCR_PRIORITY_KEYS ! (ic_id c mod 7)) (pcr1 s))
      else Inl Runtime_error)"

definition is_channel_enabled :: "iop_channel \<Rightarrow> iop_dma \<Rightarrow> bool res" where
  "is_channel_enabled c s =
     (if ic_id c < 7 then Inr (extract_from (PCR_ENABLE_KEYS ! ic_id c) (pcr0 s) > 0)
      else if ic_id c < 14 then Inr (extract_from (PCR_ENABLE_KEYS ! (ic_id c mod 7)) (pcr1 s) > 0)
      else Inl Runtime_error)"

definition get_channel_irm :: "iop_channel \<Rightarrow> iop_dma \<Rightarrow> uword res" where
  "get_channel_irm c s =
     (if ic_id c < 7 then Inr (extract_from (ICR0_IRM_KEYS ! ic_id c) (icr0 s)) else Inl Runtime_error)"

definition set_channel_irm :: "iop_channel \<Rightarrow> uword \<Rightarrow> iop_dma \<Rightarrow> iop_dma res" where
  "set_channel_irm c v s =
     (if ic_id c < 7 then Inr (s\<lparr>icr0 := insert_into (ICR0_IRM_KEYS ! ic_id c) (icr0 s) v\<rparr>)
      else Inl Runtime_error)"

definition get_channel_iqe :: "iop_channel \<Rightarrow> iop_dma \<Rightarrow> uword res" where
  "get_channel_iqe c s =
     (if ic_id c < 14 then Inr (extract_from (ICR1_IQE_KEYS ! ic_id c) (icr1 s)) else Inl Runtime_error)"

definition set_channel_iqe :: "iop_channel \<Rightarrow> uword \<Rightarrow> iop_dma \<Rightarrow> iop_dma res" where
  "set_channel_iqe c v s =
     (if ic_id c < 14 then Inr (s\<lparr>icr1 := insert_into (ICR1_IQE_KEYS ! ic_id c) (icr1 s) v\<rparr>)
      else Inl Runtime_error)"

definition get_channel_tcm :: "iop_channel \<Rightarrow> iop_dma \<Rightarrow> uword res" where
  "get_channel_tcm c s =
     (if ic_id c < 7 then Inr (extract_from (ICR_TCM_KEYS ! ic_id c) (icr0 s))
      else if ic_id c < 14 then Inr (extract_from (ICR_TCM_KEYS ! (ic_id c mod 7)) (icr1 s))
      else Inl Runtime_error)"

definition set_channel_tcm :: "iop_channel \<Rightarrow> uword \<Rightarrow> iop_dma \<Rightarrow> iop_dma res" where
  "set_channel_tcm c v s =
     (if ic_id c < 7 then Inr (s\<lparr>icr0 := insert_into (ICR_TCM_KEYS ! ic_id c) (icr0 s) v\<rparr>)
      else if ic_id c < 14 then Inr (s\<lparr>icr1 := insert_into (ICR_TCM_KEYS ! (ic_id c mod 7)) (icr1 s) v\<rparr>)
      else Inl Runtime_error)"

definition get_channel_tci :: "iop_channel \<Rightarrow> iop_dma \<Rightarrow> uword res" where
  "get_channel_tci c s =
     (if ic_id c < 7 then Inr (extract_from (ICR_TCI_KEYS ! ic_id c) (icr0 s))
      else if ic_id c < 14 then Inr (extract_from (ICR_TCI_KEYS ! (ic_id c mod 7)) (icr1 s))
      else Inl Runtime_error)"

definition set_channel_tci :: "iop_channel \<Rightarrow> uword \<Rightarrow> iop_dma \<Rightarrow> iop_dma res" where
  "set_channel_tci c v s =
     (if ic_id c < 7 then Inr (s\<lparr>icr0 := insert_into (ICR_TCI_KEYS ! ic_id c) (icr0 s) v\<rparr>)
      else if ic_id c < 14 then Inr (s\<lparr>icr1 := insert_into (ICR_TCI_KEYS ! (ic_id c mod 7)) (icr1 s) v\<rparr>)
      else Inl Runtime_error)"

section \<open>Transfers\<close>

definition iop_transfer_data :: "iop_channel \<Rightarrow> iop_dma \<Rightarrow> (int \<times> iop_channel \<times> iop_dma) res" where
  "iop_transfer_data c s =
     (let moved = (\<lambda>s. Inr (1,
            c\<lparr>ic_madr := (if ichcr_field ICHCR_MAS (ic_chcr c) = 0 then ic_madr c + 4 else ic_madr c - 4),
              ic_bcr := (ic_bcr c)\<lparr>transfer_length := transfer_length (ic_bcr c) - 1\<rparr>\<rparr>, s))
      in case iop_get_direction (ic_chcr c) of
        Some IOP_FROM \<Rightarrow>
          bind_res (port_has_read 4 (ic_fifo c) s) (\<lambda>available.
            if \<not> available then Inr (0, c, s)
            else bind_res (deref (ic_fifo c)) (\<lambda>r.
              bind_res (port_read 4 r s) (\<lambda>(packet, s1).
              bind_res (env_write_uword (ic_madr c) packet s1) moved)))
      | Some IOP_TO \<Rightarrow>
          bind_res (port_has_write 4 (ic_fifo c) s) (\<lambda>available.
            if \<not> available then Inr (0, c, s)
            else bind_res (env_read_uword (ic_madr c) s) (\<lambda>(packet, s1).
              bind_res (deref (ic_fifo c)) (\<lambda>r.
              bind_res (port_write 4 r packet s1) moved)))
      | None \<Rightarrow> Inl Runtime_error)"

definition iop_dmac_interrupt_check :: "iop_dma \<Rightarrow> iop_dma" where
  "iop_dmac_interrupt_check s =
     (case icrw_pending_and_set_master s of (pending, s1) \<Rightarrow>
        if pending then s1\<lparr>p_intc := iop_stat_insert_field (IOP_IRQ_KEYS ! 3) 1 (p_intc s1)\<rparr> else s1)"

definition iop_set_state_suspended :: "iop_channel \<Rightarrow> iop_dma \<Rightarrow> (iop_channel \<times> iop_dma) res" where
  "iop_set_state_suspended c s =
     (case ichcr_insert_field ICHCR_START 0 (ic_chcr c) (dma_sbus s) of (r, b) \<Rightarrow>
        let c1 = c\<lparr>ic_chcr := r\<rparr> in
        bind_res (set_channel_tci c1 1 (s\<lparr>dma_sbus := b\<rparr>)) (\<lambda>s1.
          Inr (c1, iop_dmac_interrupt_check s1)))"

text \<open>The end of a transfer: one that fills a queue waits until the peripheral has emptied it.\<close>

definition iop_finish_transfer :: "iop_channel \<Rightarrow> iop_dma \<Rightarrow> (bool \<times> iop_channel \<times> iop_dma) res" where
  "iop_finish_transfer c s =
     bind_res (if iop_get_direction (ic_chcr c) = Some IOP_TO then port_is_empty (ic_fifo c) s else Inr True)
       (\<lambda>empty. if \<not> empty then Inr (False, c, s)
                else bind_res (iop_set_state_suspended c s) (\<lambda>(c1, s1). Inr (True, c1, s1)))"

definition iop_transfer_unit :: "iop_channel \<Rightarrow> iop_dma \<Rightarrow> (bool \<times> iop_channel \<times> iop_dma) res" where
  "iop_transfer_unit c s =
     bind_res (iop_transfer_data c s) (\<lambda>(count, c1, s1). Inr (count \<noteq> 0, c1, s1))"

definition iop_start_transfer :: "iop_bcr \<Rightarrow> iop_channel \<Rightarrow> iop_channel" where
  "iop_start_transfer r c = c\<lparr>ic_bcr := r, ic_chcr := (ic_chcr c)\<lparr>ichcr_started := True\<rparr>\<rparr>"

definition transfer_normal_burst :: "iop_channel \<Rightarrow> iop_dma \<Rightarrow> (bool \<times> iop_channel \<times> iop_dma) res" where
  "transfer_normal_burst c s =
     (if \<not> ichcr_started (ic_chcr c) then Inr (True, iop_start_transfer (bcr_calculate False (ic_bcr c)) c, s)
      else if transfer_length (ic_bcr c) = 0 then iop_finish_transfer c s
      else iop_transfer_unit c s)"

definition transfer_normal_slice :: "iop_channel \<Rightarrow> iop_dma \<Rightarrow> (bool \<times> iop_channel \<times> iop_dma) res" where
  "transfer_normal_slice c s =
     (if \<not> ichcr_started (ic_chcr c) then Inr (True, iop_start_transfer (bcr_calculate True (ic_bcr c)) c, s)
      else if transfer_length (ic_bcr c) = 0 then iop_finish_transfer c s
      else iop_transfer_unit c s)"

text \<open>The four words of a tag in memory.\<close>

fun read_tag_words :: "nat \<Rightarrow> uptr \<Rightarrow> iop_dma \<Rightarrow> (uword list \<times> iop_dma) res" where
  "read_tag_words 0 a s = Inr ([], s)"
| "read_tag_words (Suc n) a s =
     bind_res (env_read_uword a s) (\<lambda>(w, s1).
       bind_res (read_tag_words n (a + 4) s1) (\<lambda>(ws, s2). Inr (w # ws, s2)))"

definition iop_set_tag :: "iop_dmatag \<Rightarrow> udword \<Rightarrow> iop_channel \<Rightarrow> iop_channel" where
  "iop_set_tag t n c =
     c\<lparr>ic_chcr := (ic_chcr c)\<lparr>ichcr_tag := t\<rparr>, ic_bcr := (ic_bcr c)\<lparr>transfer_length := n\<rparr>\<rparr>"

definition iop_read_chain_source_tag :: "iop_channel \<Rightarrow> iop_dma \<Rightarrow> (bool \<times> iop_channel \<times> iop_dma) res" where
  "iop_read_chain_source_tag c s =
     bind_res (deref (ic_tadr c)) (\<lambda>tadr.
     bind_res (read_tag_words 4 tadr s) (\<lambda>(tag, s1).
     bind_res
       (if ichcr_field ICHCR_CE (ic_chcr c) > 0 then
          bind_res (port_has_write 16 (ic_fifo c) s1) (\<lambda>available.
            if \<not> available then Inr (False, s1)
            else bind_res (deref (ic_fifo c)) (\<lambda>r.
              bind_res (port_write 16 r (lower_qword (tag ! 2) (tag ! 3)) s1) (\<lambda>s2. Inr (True, s2))))
        else Inr (True, s1))
       (\<lambda>(sent, s2).
          if \<not> sent then Inr (False, c, s2)
          else
            let t = \<lparr>it_tag0 = tag ! 0, it_tag1 = tag ! 1\<rparr>;
                c1 = (iop_set_tag t ((itag_length t + 3) AND 0xFFFFC) c)\<lparr>ic_tadr := Some (tadr + 16)\<rparr>
            in if ichcr_field ICHCR_CE (ic_chcr c1) = 0 then Inl Runtime_error else Inr (True, c1, s2))))"

definition iop_read_chain_dest_tag :: "iop_channel \<Rightarrow> iop_dma \<Rightarrow> (bool \<times> iop_channel \<times> iop_dma) res" where
  "iop_read_chain_dest_tag c s =
     bind_res (port_has_read 16 (ic_fifo c) s) (\<lambda>available.
       if \<not> available then Inr (False, c, s)
       else bind_res (deref (ic_fifo c)) (\<lambda>r.
         bind_res (port_read 16 r s) (\<lambda>(tag, s1).
           let t = \<lparr>it_tag0 = get_lane 0 (tag :: uqword), it_tag1 = get_lane 1 tag\<rparr>;
               c1 = iop_set_tag t (itag_length t) c
           in if ichcr_field ICHCR_CE (ic_chcr c1) = 0 then Inl Runtime_error else Inr (True, c1, s1))))"

definition iop_next_tag :: "iop_channel \<Rightarrow> iop_dma \<Rightarrow> (bool \<times> iop_channel \<times> iop_dma) res" where
  "iop_next_tag c s =
     bind_res
       (case iop_get_direction (ic_chcr c) of
          Some IOP_TO \<Rightarrow> iop_read_chain_source_tag c s
        | Some IOP_FROM \<Rightarrow> iop_read_chain_dest_tag c s
        | None \<Rightarrow> Inl Runtime_error)
       (\<lambda>(b, c1, s1).
          if \<not> b then Inr (False, c1, s1)
          else Inr (True, c1\<lparr>ic_madr := itag_addr (ichcr_tag (ic_chcr c1))\<rparr>, s1))"

definition iop_transfer_chain :: "iop_channel \<Rightarrow> iop_dma \<Rightarrow> (bool \<times> iop_channel \<times> iop_dma) res" where
  "iop_transfer_chain c s =
     (if \<not> ichcr_started (ic_chcr c) then
        Inr (True, iop_start_transfer ((ic_bcr c)\<lparr>transfer_length := 0\<rparr>) c, s)
      else if transfer_length (ic_bcr c) > 0 then iop_transfer_unit c s
      else bind_res (get_channel_iqe c s) (\<lambda>iqe.
        let tag = ichcr_tag (ic_chcr c) in
        if iqe > 0 \<and> itag_irq tag \<or> itag_ert tag then iop_finish_transfer c s else iop_next_tag c s))"

section \<open>The controller\<close>

definition iop_transfer_channel :: "iop_channel \<Rightarrow> iop_dma \<Rightarrow> (iop_channel \<times> iop_dma) res" where
  "iop_transfer_channel c s =
     bind_res (is_channel_enabled c s) (\<lambda>channel_enabled.
       if channel_enabled \<and> ichcr_field ICHCR_START (ic_chcr c) > 0 then
         bind_res
           (case iop_get_logical_mode (ic_chcr c) of
              Some NORMAL_BURST \<Rightarrow> transfer_normal_burst c s
            | Some NORMAL_SLICE \<Rightarrow> transfer_normal_slice c s
            | Some LINKEDLIST \<Rightarrow> Inl Runtime_error
            | Some IOP_CHAIN \<Rightarrow> iop_transfer_chain c s
            | None \<Rightarrow> Inl Runtime_error)
           (\<lambda>(b, c1, s1). Inr (c1, s1))
       else Inr (c, s))"

fun iop_transfer_channels :: "iop_channel list \<Rightarrow> iop_dma \<Rightarrow> (iop_channel list \<times> iop_dma) res" where
  "iop_transfer_channels [] s = Inr ([], s)"
| "iop_transfer_channels (c # cs) s =
     bind_res (iop_transfer_channel c s) (\<lambda>(c1, s1).
       bind_res (iop_transfer_channels cs s1) (\<lambda>(cs1, s2). Inr (c1 # cs1, s2)))"

definition iop_dmac_time_step ::
    "int \<Rightarrow> iop_channel list \<times> iop_dma \<Rightarrow> (int \<times> iop_channel list \<times> iop_dma) res" where
  "iop_dmac_time_step ticks_available p =
     (case p of (cs, s) \<Rightarrow>
        if gctrl s = 0 then Inr (1, cs, s)
        else bind_res (iop_transfer_channels cs s) (\<lambda>(cs1, s1). Inr (1, cs1, s1)))"

lemma iop_dmac_step_cost: "iop_dmac_time_step t p = Inr (n, p') \<Longrightarrow> n = 1"
  by (auto simp: iop_dmac_time_step_def split: prod.splits if_splits)

function iop_dmac_run :: "int \<Rightarrow> iop_channel list \<times> iop_dma \<Rightarrow> (iop_channel list \<times> iop_dma) res" where
  "iop_dmac_run ticks_remaining p =
     (if ticks_remaining > 0 then
        case iop_dmac_time_step ticks_remaining p of
          Inl e \<Rightarrow> Inl e
        | Inr (n, p') \<Rightarrow> iop_dmac_run (ticks_remaining - n) p'
      else Inr p)"
  by pat_completeness auto

termination
  by (relation "measure (\<lambda>(t, p). nat t)") (auto dest: iop_dmac_step_cost)

declare iop_dmac_run.simps [simp del]

fun iop_dmac_handle_event ::
    "('t \<Rightarrow> int) \<Rightarrow> 't controller_event \<Rightarrow> iop_channel list \<times> iop_dma \<Rightarrow> (iop_channel list \<times> iop_dma) res" where
  "iop_dmac_handle_event time_to_ticks (Time_event t) p = iop_dmac_run (time_to_ticks t) p"
| "iop_dmac_handle_event time_to_ticks event p = Inl Runtime_error"

interpretation iop_dmac_loop: fixed_tick_loop iop_dmac_time_step iop_dmac_run 1
  by unfold_locales (auto dest: iop_dmac_step_cost simp: iop_dmac_run.simps)

end
