(* ===== verification/IopDmacTransfer.thy ===== *)
theory IopDmacTransfer
  imports IopDmac
begin

text \<open>
  What the transfers of the IOP DMA controller do: the registers, the length of a transfer, the
  interrupt, and source chains, whose packets go from memory into a queue.
\<close>

section \<open>The registers\<close>

lemma start_bit: "ichcr_field ICHCR_START c = of_bool (bit (ichcr_val c) 24)"
  by (simp add: ichcr_field_def ICHCR_START_def field_bit)

lemma ce_bit: "ichcr_field ICHCR_CE c = of_bool (bit (ichcr_val c) 8)"
  by (simp add: ichcr_field_def ICHCR_CE_def field_bit)

lemma mas_bit: "ichcr_field ICHCR_MAS c = of_bool (bit (ichcr_val c) 1)"
  by (simp add: ichcr_field_def ICHCR_MAS_def field_bit)

lemma iop_direction_bit: "iop_get_direction c = Some (if bit (ichcr_val c) 0 then IOP_TO else IOP_FROM)"
  by (simp add: iop_get_direction_def ichcr_field_def ICHCR_TD_def field_bit)

text \<open>The SIF channels have a fixed direction, the other way round than on the EE.\<close>

definition iop_wired :: "iop_chcr \<Rightarrow> bool" where
  "iop_wired c \<longleftrightarrow>
     (ichcr_kind c = Iop_sif0 \<longrightarrow> bit (ichcr_val c) 0) \<and> (ichcr_kind c = Iop_sif1 \<longrightarrow> \<not> bit (ichcr_val c) 0)"

definition iop_wire :: "iop_chcr_kind \<Rightarrow> uword \<Rightarrow> uword" where
  "iop_wire k v = (if k = Iop_sif1 then v AND NOT 1 else if k = Iop_sif0 then v OR 1 else v)"

definition iop_sbus_after :: "iop_chcr_kind \<Rightarrow> uword \<Rightarrow> sbus \<Rightarrow> sbus" where
  "iop_sbus_after k v b =
     (let start = bit v 24; to = bit v 0 in
      case k of
        Iop_plain \<Rightarrow> b
      | Iop_sif0 \<Rightarrow> (if start \<and> to then iop_sif0_update_start b else b)
      | Iop_sif1 \<Rightarrow> (if \<not> start \<and> \<not> to then iop_sif1_update_finish b else b)
      | Iop_sif2 \<Rightarrow> (if start \<and> to then iop_sif2_update_start b
                    else if \<not> start \<and> \<not> to then iop_sif2_update_finish b else b))"

lemma ichcr_base_write_simps [simp]:
  "ichcr_val (ichcr_base_write v c) = v" "ichcr_kind (ichcr_base_write v c) = ichcr_kind c"
  by (simp_all add: ichcr_base_write_def Let_def)

lemma ichcr_write_eq:
  "ichcr_write_uword v c b =
     (ichcr_base_write (iop_wire (ichcr_kind c) v) c, iop_sbus_after (ichcr_kind c) (iop_wire (ichcr_kind c) v) b)"
  by (cases "ichcr_kind c") (auto simp: ichcr_write_uword_def ichcr_sif0_write_def ichcr_sif1_write_def
      ichcr_sif2_write_def ichcr_to_write_def ichcr_from_write_def iop_sbus_after_def iop_wire_def Let_def
      start_bit iop_direction_bit word_gt_0)

lemma ichcr_write_wired: "iop_wired (fst (ichcr_write_uword v c b))"
  by (cases "ichcr_kind c") (simp_all add: ichcr_write_eq iop_wired_def iop_wire_def bit_simps)

text \<open>The interface of SIF1 cannot be taken out of linked list or chain mode by the IOP.\<close>

lemma two_bits:
  "extract_from (BF k 2) (v :: uword) = of_bool (bit v k) OR push_bit 1 (of_bool (bit v (Suc k)))"
proof (rule bit_word_eqI)
  fix n :: nat
  consider "n = 0" | "n = 1" | "2 \<le> n" by fastforce
  then show "bit (extract_from (BF k 2) v) n = bit (of_bool (bit v k) OR push_bit 1 (of_bool (bit v (Suc k))) :: uword) n"
    by cases (auto simp: bit_extract_from bit_simps bit_1_iff dest: bit_imp_le_length)
qed

lemma sif1_mode:
  assumes "ichcr_kind c = Iop_sif1"
  shows "iop_get_logical_mode (fst (ichcr_bus_write_uword Iop_context v c b)) \<in> {Some LINKEDLIST, Some IOP_CHAIN}"
proof -
  let ?w = "iop_wire Iop_sif1 (v OR push_bit 10 1)"
  have "bit ?w 10" by (simp add: iop_wire_def bit_simps)
  then have "extract_from ICHCR_SM ?w = of_bool (bit ?w 9) OR push_bit 1 (of_bool True)"
    using two_bits[of 9 ?w] by (simp only: ICHCR_SM_def) simp
  then show ?thesis using assms
    by (auto simp: ichcr_bus_write_uword_def ichcr_write_eq iop_get_logical_mode_def ichcr_field_def Let_def)
qed

lemma ichcr_base_running:
  "bit (ichcr_val c) 24 \<or> \<not> bit v 24 \<Longrightarrow> ichcr_base_write v c = c\<lparr>ichcr_val := v\<rparr>"
  by (auto simp: ichcr_base_write_def Let_def start_bit)

lemma iop_insert_start:
  assumes "iop_wired r"
  shows "ichcr_insert_field ICHCR_START 0 r b =
    (r\<lparr>ichcr_val := insert_into ICHCR_START (ichcr_val r) 0\<rparr>,
     iop_sbus_after (ichcr_kind r) (insert_into ICHCR_START (ichcr_val r) 0) b)"
proof -
  let ?v = "insert_into ICHCR_START (ichcr_val r) 0"
  have "iop_wire (ichcr_kind r) ?v = ?v"
    using assms by (cases "ichcr_kind r")
      (auto intro!: bit_word_eqI gr0I simp: iop_wired_def iop_wire_def ICHCR_START_def bit_clear bit_simps bit_1_iff)
  moreover have "\<not> bit ?v 24" by (simp add: ICHCR_START_def bit_clear)
  ultimately show ?thesis by (simp add: ichcr_insert_field_def ichcr_write_eq ichcr_base_running)
qed

subsection \<open>The length of a transfer\<close>

text \<open>
  Zero stands for 0x10000 in either field.  The product is computed in 32 bits, so the largest
  block transfer, with both fields zero, has length zero.
\<close>

definition block_count :: "uword \<Rightarrow> nat" where
  "block_count v = (if v = 0 then 0x10000 else unat v)"

lemma slice_length:
  fixes r :: iop_bcr
  defines "bs \<equiv> extract_from BCR_BS (bcr_val r)" and "ba \<equiv> extract_from BCR_BA (bcr_val r)"
  shows "unat (transfer_length (bcr_calculate True r)) =
      (if ba = 0 \<and> bs = 0 then 0 else block_count ba * block_count bs)"
    and "unat (transfer_length (bcr_calculate False r)) = block_count bs"
proof -
  have l: "unat bs < 0x10000" "unat ba < 0x10000"
    using extract_from_less[of BCR_BS "bcr_val r"] extract_from_less[of BCR_BA "bcr_val r"]
    by (simp_all add: bs_def ba_def BCR_BS_def BCR_BA_def nat_less_iff flip: nat_uint_eq)
  have c: "unat (if v > 0 then v else 0x10000) = block_count v" for v :: uword
    by (auto simp: block_count_def word_gt_0)
  have le: "block_count bs \<le> 0x10000" "block_count ba \<le> 0x10000" using l by (simp_all add: block_count_def)
  have u: "unat (ucast (w :: uword) :: udword) = unat w" for w
  proof -
    have "unat w < 2 ^ 64" using unsigned_less[of w] by (rule less_trans) simp
    then show ?thesis by (simp add: unsigned_ucast_eq take_bit_nat_eq_self)
  qed
  show "unat (transfer_length (bcr_calculate False r)) = block_count bs"
    by (simp add: bcr_calculate_def Let_def u c flip: bs_def)
  have m: "unat (transfer_length (bcr_calculate True r)) = block_count ba * block_count bs mod 2 ^ 32"
    by (simp add: bcr_calculate_def Let_def u unat_word_ariths c flip: bs_def ba_def)
  show "unat (transfer_length (bcr_calculate True r)) =
      (if ba = 0 \<and> bs = 0 then 0 else block_count ba * block_count bs)"
  proof (cases "ba = 0 \<and> bs = 0")
    case True
    then show ?thesis unfolding m by (simp add: block_count_def)
  next
    case False
    then have "block_count ba \<le> 0xFFFF \<or> block_count bs \<le> 0xFFFF" using l by (auto simp: block_count_def)
    then have "block_count ba * block_count bs \<le> 0xFFFF * 0x10000"
    proof
      assume "block_count ba \<le> 0xFFFF"
      then show ?thesis using mult_le_mono[OF _ le(1)] by blast
    next
      assume "block_count bs \<le> 0xFFFF"
      from mult_le_mono[OF le(2) this] show ?thesis by simp
    qed
    then show ?thesis unfolding m if_not_P[OF False] by simp
  qed
qed

subsection \<open>Interrupts\<close>

text \<open>The mask and flag fields, seven channels each.\<close>

lemma channel_interrupt_iff: "channel_interrupt v \<longleftrightarrow> (\<exists>n<7. bit v (16 + n) \<and> bit v (24 + n))"
proof -
  have e: "(0x7F0000 :: uword) = push_bit 16 (mask 7)" "(0x7F000000 :: uword) = push_bit 24 (mask 7)"
    by (simp_all add: mask_eq_exp_minus_1)
  have "bit (drop_bit 16 (v AND 0x7F0000) AND drop_bit 24 (v AND 0x7F000000)) n \<longleftrightarrow>
      n < 7 \<and> bit v (16 + n) \<and> bit v (24 + n)" for n
    unfolding e by (auto simp: bit_simps dest: bit_imp_le_length)
  then show ?thesis unfolding channel_interrupt_def nonzero_bit by blast
qed

text \<open>A write of the IOP acknowledges flags by ones and sets the masks.\<close>

lemma bit_icr_write:
  "bit (icr_bus_write Iop_context v r) n \<longleftrightarrow>
     (if n < 24 then bit v n else if n < 31 then bit r n \<and> \<not> bit v n else bit r n)"
proof -
  have e: "(0xFFFFFF :: uword) = mask 24" "(0xFF000000 :: uword) = push_bit 24 (mask 8)"
    "(0x7F000000 :: uword) = push_bit 24 (mask 7)" by (simp_all add: mask_eq_exp_minus_1)
  show ?thesis unfolding icr_bus_write_def e by (auto simp: bit_simps dest: bit_imp_le_length)
qed

definition tci_set :: "nat \<Rightarrow> iop_dma \<Rightarrow> iop_dma" where
  "tci_set i s =
     (if i < 7 then s\<lparr>icr0 := insert_into (BF (24 + i) 1) (icr0 s) 1\<rparr>
      else s\<lparr>icr1 := insert_into (BF (24 + (i - 7)) 1) (icr1 s) 1\<rparr>)"

lemma tci_keys: "n < 7 \<Longrightarrow> ICR_TCI_KEYS ! n = BF (24 + n) 1"
  by (auto simp: ICR_TCI_KEYS_def less_Suc_eq numeral_eq_Suc)

lemma set_tci_eq: "ic_id c < 14 \<Longrightarrow> set_channel_tci c 1 s = Inr (tci_set (ic_id c) s)"
  by (auto simp: set_channel_tci_def tci_set_def tci_keys le_mod_geq)

definition iop_dma_pending :: "iop_dma \<Rightarrow> bool" where
  "iop_dma_pending s \<longleftrightarrow>
     bit (icr0 s) 15 \<or> (channel_interrupt (icr0 s) \<or> channel_interrupt (icr1 s)) \<and> bit (icr0 s) 23"

lemma iop_interrupt_check_eq:
  "iop_dmac_interrupt_check s =
     (if iop_dma_pending s
      then s\<lparr>icr0 := insert_into ICR0_MASTER_INTERRUPT (icr0 s) 1,
             p_intc := iop_stat_insert_field (BF 3 1) 1 (p_intc s)\<rparr>
      else s)"
  by (auto simp: iop_dmac_interrupt_check_def icrw_pending_and_set_master_def icr0_pending_and_set_master_def
      icr1_pending_and_set_master_def iop_dma_pending_def ICR0_MASTER_ENABLE_def ICR0_ERROR_def field_bit
      IOP_IRQ_KEYS_def)

section \<open>Sending from memory\<close>

lemma p_frame [simp]:
  "pcr0 (port_put r q s) = pcr0 s" "pcr1 (port_put r q s) = pcr1 s" "icr0 (port_put r q s) = icr0 s"
  "icr1 (port_put r q s) = icr1 s" "gctrl (port_put r q s) = gctrl s" "p_intc (port_put r q s) = p_intc s"
  by (cases r; simp)+

abbreviation iop_chan_step :: "iop_channel \<times> iop_dma \<Rightarrow> (iop_channel \<times> iop_dma) res" where
  "iop_chan_step p \<equiv> iop_transfer_channel (fst p) (snd p)"

text \<open>A channel in a source chain: enabled, sending, with its tags passed on.\<close>

definition in_src_chain :: "iop_channel \<Rightarrow> fifo_ref \<Rightarrow> bool" where
  "in_src_chain c r \<longleftrightarrow> bit (ichcr_val (ic_chcr c)) 24 \<and> bit (ichcr_val (ic_chcr c)) 0 \<and>
     \<not> bit (ichcr_val (ic_chcr c)) 1 \<and> bit (ichcr_val (ic_chcr c)) 8 \<and>
     iop_get_logical_mode (ic_chcr c) = Some IOP_CHAIN \<and> iop_wired (ic_chcr c) \<and>
     ic_id c < 13 \<and> ic_fifo c = Some r"

definition enabled :: "iop_channel \<Rightarrow> iop_dma \<Rightarrow> bool" where
  "enabled c s \<longleftrightarrow> is_channel_enabled c s = Inr True"

lemma enabled_cong: "ic_id c' = ic_id c \<Longrightarrow> pcr0 s' = pcr0 s \<Longrightarrow> pcr1 s' = pcr1 s \<Longrightarrow> enabled c' s' = enabled c s"
  by (simp add: enabled_def is_channel_enabled_def)

lemma chain_step:
  "in_src_chain c r \<Longrightarrow> enabled c s \<Longrightarrow>
   iop_transfer_channel c s = bind_res (iop_transfer_chain c s) (\<lambda>(b, c1, s1). Inr (c1, s1))"
  by (simp add: iop_transfer_channel_def in_src_chain_def enabled_def start_bit)

definition iop_after_unit :: "nat \<Rightarrow> iop_channel \<Rightarrow> iop_channel" where
  "iop_after_unit n c =
     c\<lparr>ic_madr := ic_madr c + of_nat (4 * n),
       ic_bcr := (ic_bcr c)\<lparr>transfer_length := transfer_length (ic_bcr c) - of_nat n\<rparr>\<rparr>"

lemma iop_after_unit_simps [simp]:
  "ic_chcr (iop_after_unit n c) = ic_chcr c" "ic_id (iop_after_unit n c) = ic_id c"
  "ic_fifo (iop_after_unit n c) = ic_fifo c" "ic_tadr (iop_after_unit n c) = ic_tadr c"
  "ic_madr (iop_after_unit n c) = ic_madr c + of_nat (4 * n)"
  "transfer_length (ic_bcr (iop_after_unit n c)) = transfer_length (ic_bcr c) - of_nat n"
  "iop_after_unit 0 c = c" "iop_after_unit m (iop_after_unit n c) = iop_after_unit (n + m) c"
  "in_src_chain (iop_after_unit n c) r = in_src_chain c r"
  by (simp_all add: iop_after_unit_def algebra_simps in_src_chain_def)

lemma join_split_4: "length bs = 4 \<Longrightarrow> split_bytes 4 (join_bytes bs :: uword) = bs"
  using split_join_bytes[of bs, where 'a = 32] by simp

lemma send_unit:
  assumes c: "in_src_chain c r" "ichcr_started (ic_chcr c)" "transfer_length (ic_bcr c) > 0" "enabled c s"
    and q: "port_queue r s = Inr q" "length (q_items q) + 4 \<le> q_capacity q"
    and h: "env_read_uword (ic_madr c) s = Inr (join_bytes bs, s)" "length bs = 4"
  shows "iop_transfer_channel c s = Inr (iop_after_unit 1 c, port_put r (q\<lparr>q_items := q_items q @ bs\<rparr>) s)"
proof -
  have "port_write 4 r (join_bytes bs :: uword) s = Inr (port_put r (q\<lparr>q_items := q_items q @ bs\<rparr>) s)"
    using port_write_queue[OF q(1), of 4, where v = "join_bytes bs :: uword"] q(2) h(2) by (simp add: join_split_4)
  then have "iop_transfer_data c s = Inr (1, iop_after_unit 1 c, port_put r (q\<lparr>q_items := q_items q @ bs\<rparr>) s)"
    using c(1) q h(1) by (simp add: iop_transfer_data_def iop_direction_bit in_src_chain_def port_has_write_def
        has_write_available_def mas_bit iop_after_unit_def)
  then show ?thesis using c by (simp add: chain_step[OF c(1,4)] iop_transfer_chain_def iop_transfer_unit_def)
qed

text \<open>A burst of words: memory goes into the queue in order.\<close>

lemma send_burst:
  assumes c: "in_src_chain c r" "ichcr_started (ic_chcr c)" "enabled c s"
    and n: "n \<le> unat (transfer_length (ic_bcr c))"
    and q: "steady_queue r q s" "length (q_items q) + 4 * n \<le> q_capacity q"
    and h: "holds s (ic_madr c) data" "4 * n \<le> length data"
  shows "repeat_res n iop_chan_step (c, s) =
    Inr (iop_after_unit n c, port_put r (q\<lparr>q_items := q_items q @ take (4 * n) data\<rparr>) s)"
  using n q(2) h(2)
proof (induction n)
  case 0
  then show ?case using q(1) by (simp add: steady_queue_def)
next
  case (Suc n)
  let ?q = "q\<lparr>q_items := q_items q @ take (4 * n) data\<rparr>"
  let ?s = "port_put r ?q s" and ?bs = "take 4 (drop (4 * n) data)"
  note pq = steady_queueD[OF q(1)]
  have IH: "repeat_res n iop_chan_step (c, s) = Inr (iop_after_unit n c, ?s)" using Suc by simp
  have "n < unat (transfer_length (ic_bcr c))" using Suc.prems(1) by simp
  moreover have "unat (transfer_length (ic_bcr c)) < 2 ^ 64" using unsigned_less[of "transfer_length (ic_bcr c)"] by simp
  ultimately have "unat (of_nat n :: udword) = n" by (simp add: unat_of_nat)
  then have z: "transfer_length (ic_bcr c) - of_nat n \<noteq> 0" using Suc.prems(1) by auto
  have "iop_transfer_channel (iop_after_unit n c) ?s =
      Inr (iop_after_unit 1 (iop_after_unit n c), port_put r (?q\<lparr>q_items := q_items ?q @ ?bs\<rparr>) ?s)"
  proof (rule send_unit)
    show "enabled (iop_after_unit n c) ?s" using c(3) enabled_cong[of "iop_after_unit n c" c ?s s] by simp
    show "transfer_length (ic_bcr (iop_after_unit n c)) > 0" using z by (simp add: word_gt_0)
    show "port_queue r ?s = Inr ?q" using pq by (rule port_get_put)
    show "env_read_uword (ic_madr (iop_after_unit n c)) ?s = Inr (join_bytes ?bs, ?s)"
      using read_held_word[OF holds_port_put[OF pq h(1)], of "4 * n" ?q] Suc.prems(3) by simp
  qed (use c Suc.prems in simp_all)
  moreover have "take (4 * n) data @ ?bs = take (4 * Suc n) data"
    using take_add[of "4 * n" 4 data] by (simp add: add.commute)
  ultimately show ?case
    by (simp only: repeat_res_Suc_right IH bind_res_simps fst_conv snd_conv) simp
qed

section \<open>Source chains\<close>

text \<open>A packet of a source chain: the four words of its tag and the data the tag points to.\<close>

type_synonym iop_packet = "(uword \<times> uword \<times> uword \<times> uword) \<times> ubyte list"

definition ip_tag :: "iop_packet \<Rightarrow> iop_dmatag" where
  "ip_tag p = (case p of ((w0, w1, w2, w3), data) \<Rightarrow> \<lparr>it_tag0 = w0, it_tag1 = w1\<rparr>)"

definition ip_length :: "iop_packet \<Rightarrow> udword" where
  "ip_length p = (itag_length (ip_tag p) + 3) AND 0xFFFFC"

text \<open>What it puts into the queue: the upper half of the tag as a quad word, and the data.\<close>

definition ip_bytes :: "iop_packet \<Rightarrow> ubyte list" where
  "ip_bytes p = (case p of ((w0, w1, w2, w3), data) \<Rightarrow> split_bytes 16 (lower_qword w2 w3) @ data)"

definition ip_tag_bytes :: "iop_packet \<Rightarrow> ubyte list" where
  "ip_tag_bytes p = (case p of ((w0, w1, w2, w3), data) \<Rightarrow> concat (map (split_bytes 4) [w0, w1, w2, w3]))"

fun packets_stored :: "iop_dma \<Rightarrow> uptr \<Rightarrow> iop_packet list \<Rightarrow> bool" where
  "packets_stored s a [] \<longleftrightarrow> True"
| "packets_stored s a (p # ps) \<longleftrightarrow>
     holds s a (ip_tag_bytes p) \<and> holds s (itag_addr (ip_tag p)) (snd p) \<and>
     length (snd p) = 4 * unat (ip_length p) \<and> packets_stored s (a + 16) ps"

lemma packets_stored_port_put:
  "port_queue r s = Inr q0 \<Longrightarrow> packets_stored s a ps \<Longrightarrow> packets_stored (port_put r q s) a ps"
  by (induction ps arbitrary: a) (auto intro: holds_port_put)

lemma packets_stored_append:
  "packets_stored s a (ps @ qs) \<longleftrightarrow> packets_stored s a ps \<and> packets_stored s (a + of_nat (16 * length ps)) qs"
  by (induction ps arbitrary: a) (auto simp: algebra_simps)

lemma read_tag_held:
  assumes "holds s a (ip_tag_bytes ((w0, w1, w2, w3), data))"
  shows "read_tag_words 4 a s = Inr ([w0, w1, w2, w3], s)"
proof -
  note r = read_held_word[OF assms]
  have "env_read_uword a s = Inr (w0, s)" "env_read_uword (a + 4) s = Inr (w1, s)"
    "env_read_uword (a + 8) s = Inr (w2, s)" "env_read_uword (a + 12) s = Inr (w3, s)"
    using r[of 0] r[of 4] r[of 8] r[of 12] by (simp_all add: ip_tag_bytes_def)
  moreover have "read_tag_words 4 a s = read_tag_words (Suc (Suc (Suc (Suc 0)))) a s" by (simp add: numeral_eq_Suc)
  ultimately show ?thesis by (simp add: add.commute[of a])
qed

definition iop_take_tag :: "iop_packet \<Rightarrow> uptr \<Rightarrow> iop_channel \<Rightarrow> iop_channel" where
  "iop_take_tag p a c =
     (iop_set_tag (ip_tag p) (ip_length p) c)\<lparr>ic_tadr := Some (a + 16), ic_madr := itag_addr (ip_tag p)\<rparr>"

lemma iop_take_tag_simps [simp]:
  "in_src_chain (iop_take_tag p a c) r = in_src_chain c r" "ic_id (iop_take_tag p a c) = ic_id c"
  "ichcr_started (ic_chcr (iop_take_tag p a c)) = ichcr_started (ic_chcr c)"
  "transfer_length (ic_bcr (iop_take_tag p a c)) = ip_length p" "ic_tadr (iop_take_tag p a c) = Some (a + 16)"
  "ichcr_tag (ic_chcr (iop_take_tag p a c)) = ip_tag p" "ic_madr (iop_take_tag p a c) = itag_addr (ip_tag p)"
  by (simp_all add: iop_take_tag_def iop_set_tag_def in_src_chain_def iop_wired_def iop_get_logical_mode_def ichcr_field_def)

definition exit_tag :: "iop_dmatag \<Rightarrow> bool" where
  "exit_tag t \<longleftrightarrow> itag_irq t \<or> itag_ert t"

lemma iqe_eq: "ic_id c < 13 \<Longrightarrow> \<exists>v. get_channel_iqe c s = Inr v"
  by (simp add: get_channel_iqe_def)

lemma src_read_tag:
  assumes c: "in_src_chain c r" "ichcr_started (ic_chcr c)" "transfer_length (ic_bcr c) = 0" "enabled c s"
    "\<not> exit_tag (ichcr_tag (ic_chcr c))" "ic_tadr c = Some a"
    and p: "p = ((w0, w1, w2, w3), data)" "holds s a (ip_tag_bytes p)"
    and q: "port_queue r s = Inr q" "length (q_items q) + 16 \<le> q_capacity q"
  shows "iop_transfer_channel c s = Inr (iop_take_tag p a c,
    port_put r (q\<lparr>q_items := q_items q @ split_bytes 16 (lower_qword w2 w3)\<rparr>) s)"
proof -
  let ?s = "port_put r (q\<lparr>q_items := q_items q @ split_bytes 16 (lower_qword w2 w3)\<rparr>) s"
  have "port_write 16 r (lower_qword w2 w3) s = Inr ?s" using q by (intro port_write_queue) simp_all
  moreover have room: "16 \<le> q_capacity q - length (q_items q)" using q(2) by simp
  ultimately have "iop_read_chain_source_tag c s =
      Inr (True, (iop_set_tag (ip_tag p) (ip_length p) c)\<lparr>ic_tadr := Some (a + 16)\<rparr>, ?s)"
    using c p q read_tag_held[of s a w0 w1 w2 w3 data] room
    by (simp add: iop_read_chain_source_tag_def ce_bit in_src_chain_def port_has_write_def has_write_available_def
        iop_set_tag_def ip_tag_def ip_length_def Let_def)
  then have "iop_next_tag c s = Inr (True, iop_take_tag p a c, ?s)"
    using c(1) by (simp add: iop_next_tag_def iop_direction_bit in_src_chain_def) (simp add: iop_take_tag_def iop_set_tag_def)
  moreover obtain v where "get_channel_iqe c s = Inr v" using c(1) iqe_eq[of c s] by (auto simp: in_src_chain_def)
  ultimately show ?thesis
    using c by (simp add: chain_step[OF c(1,4)] iop_transfer_chain_def exit_tag_def)
qed

definition iop_take_packet :: "iop_packet \<Rightarrow> uptr \<Rightarrow> iop_channel \<Rightarrow> iop_channel" where
  "iop_take_packet p a c = iop_after_unit (unat (ip_length p)) (iop_take_tag p a c)"

fun iop_take_packets :: "iop_packet list \<Rightarrow> uptr \<Rightarrow> iop_channel \<Rightarrow> iop_channel" where
  "iop_take_packets [] a c = c"
| "iop_take_packets (p # ps) a c = iop_take_packets ps (a + 16) (iop_take_packet p a c)"

lemma iop_take_packet_simps [simp]:
  "in_src_chain (iop_take_packet p a c) r = in_src_chain c r" "ic_id (iop_take_packet p a c) = ic_id c"
  "ichcr_started (ic_chcr (iop_take_packet p a c)) = ichcr_started (ic_chcr c)"
  "transfer_length (ic_bcr (iop_take_packet p a c)) = 0" "ic_tadr (iop_take_packet p a c) = Some (a + 16)"
  "ichcr_tag (ic_chcr (iop_take_packet p a c)) = ip_tag p"
  by (simp_all add: iop_take_packet_def)

lemma src_packet:
  assumes c: "in_src_chain c r" "ichcr_started (ic_chcr c)" "transfer_length (ic_bcr c) = 0" "enabled c s"
    "\<not> exit_tag (ichcr_tag (ic_chcr c))" "ic_tadr c = Some a"
    and p: "packets_stored s a [p]"
    and q: "port_queue r s = Inr q" "length (q_items q) + length (ip_bytes p) \<le> q_capacity q"
  shows "repeat_res (Suc (unat (ip_length p))) iop_chan_step (c, s) =
    Inr (iop_take_packet p a c, port_put r (q\<lparr>q_items := q_items q @ ip_bytes p\<rparr>) s)"
proof -
  obtain w0 w1 w2 w3 data where e: "p = ((w0, w1, w2, w3), data)" by (cases p) auto
  let ?n = "unat (ip_length p)"
  let ?q = "q\<lparr>q_items := q_items q @ split_bytes 16 (lower_qword w2 w3)\<rparr>"
  have l: "length data = 4 * ?n" using p by (simp add: e)
  have 1: "iop_transfer_channel c s = Inr (iop_take_tag p a c, port_put r ?q s)"
    using c p q by (intro src_read_tag[where data = data]) (simp_all add: e ip_bytes_def)
  have "repeat_res ?n iop_chan_step (iop_take_tag p a c, port_put r ?q s) = Inr (iop_after_unit ?n (iop_take_tag p a c),
      port_put r (?q\<lparr>q_items := q_items ?q @ take (4 * ?n) data\<rparr>) (port_put r ?q s))"
  proof (rule send_burst)
    show "enabled (iop_take_tag p a c) (port_put r ?q s)"
      using c(4) enabled_cong[of "iop_take_tag p a c" c "port_put r ?q s" s] by simp
    show "steady_queue r ?q (port_put r ?q s)" using q(1) by (rule steady_queue_put)
    show "holds (port_put r ?q s) (ic_madr (iop_take_tag p a c)) data"
      using p by (simp add: e holds_port_put[OF q(1)])
  qed (use c q l in \<open>simp_all add: e ip_bytes_def\<close>)
  then show ?thesis using l by (simp add: 1) (simp add: iop_take_packet_def ip_bytes_def e)
qed

definition ip_steps :: "iop_packet list \<Rightarrow> nat" where
  "ip_steps ps = (\<Sum>p\<leftarrow>ps. Suc (unat (ip_length p)))"

lemma src_packets:
  assumes "in_src_chain c r" "ichcr_started (ic_chcr c)" "transfer_length (ic_bcr c) = 0" "enabled c s"
    "\<not> exit_tag (ichcr_tag (ic_chcr c))" "ic_tadr c = Some a"
    and "packets_stored s a ps" and "\<forall>p\<in>set (butlast ps). \<not> exit_tag (ip_tag p)"
    and "steady_queue r q s" "length (q_items q) + length (concat (map ip_bytes ps)) \<le> q_capacity q"
  shows "repeat_res (ip_steps ps) iop_chan_step (c, s) =
    Inr (iop_take_packets ps a c, port_put r (q\<lparr>q_items := q_items q @ concat (map ip_bytes ps)\<rparr>) s)"
  using assms
proof (induction ps arbitrary: c s a q)
  case Nil
  then show ?case by (simp add: ip_steps_def steady_queue_def)
next
  case (Cons p ps)
  let ?q = "q\<lparr>q_items := q_items q @ ip_bytes p\<rparr>"
  let ?s = "port_put r ?q s" and ?c = "iop_take_packet p a c"
  have q: "port_queue r s = Inr q" using Cons.prems(9) by (rule steady_queueD)
  have 1: "repeat_res (Suc (unat (ip_length p))) iop_chan_step (c, s) = Inr (?c, ?s)"
    using Cons.prems q by (intro src_packet) simp_all
  have "repeat_res (ip_steps ps) iop_chan_step (?c, ?s) = Inr (iop_take_packets ps (a + 16) ?c,
      port_put r (?q\<lparr>q_items := q_items ?q @ concat (map ip_bytes ps)\<rparr>) ?s)"
  proof (cases "ps = []")
    case False
    show ?thesis
    proof (rule Cons.IH)
      show "enabled ?c ?s" using Cons.prems(4) enabled_cong[of ?c c ?s s] by simp
      show "packets_stored ?s (a + 16) ps" using Cons.prems(7) by (simp add: packets_stored_port_put[OF q])
      show "steady_queue r ?q ?s" using q by (rule steady_queue_put)
    qed (use Cons.prems False in simp_all)
  qed (simp add: ip_steps_def)
  moreover have "repeat_res (ip_steps (p # ps)) iop_chan_step (c, s) =
      bind_res (repeat_res (Suc (unat (ip_length p))) iop_chan_step (c, s)) (repeat_res (ip_steps ps) iop_chan_step)"
    unfolding repeat_res_add[symmetric] by (simp add: ip_steps_def)
  ultimately show ?case by (simp add: 1 del: repeat_res.simps)
qed

subsection \<open>The end of a chain\<close>

definition iop_stopped :: "iop_channel \<Rightarrow> iop_channel" where
  "iop_stopped c = c\<lparr>ic_chcr := (ic_chcr c)\<lparr>ichcr_val := insert_into ICHCR_START (ichcr_val (ic_chcr c)) 0\<rparr>\<rparr>"

definition iop_completed :: "iop_channel \<Rightarrow> iop_dma \<Rightarrow> iop_dma" where
  "iop_completed c s =
     iop_dmac_interrupt_check (tci_set (ic_id c) (s\<lparr>dma_sbus :=
       iop_sbus_after (ichcr_kind (ic_chcr c)) (ichcr_val (ic_chcr (iop_stopped c))) (dma_sbus s)\<rparr>))"

lemma iop_stopped_idle: "\<not> bit (ichcr_val (ic_chcr (iop_stopped c))) 24"
  by (simp add: iop_stopped_def ICHCR_START_def bit_clear)

lemma iop_suspended_eq:
  "iop_wired (ic_chcr c) \<Longrightarrow> ic_id c < 14 \<Longrightarrow>
   iop_set_state_suspended c s = Inr (iop_stopped c, iop_completed c s)"
  using set_tci_eq[of "iop_stopped c"]
  by (simp add: iop_set_state_suspended_def iop_insert_start iop_completed_def iop_stopped_def)

text \<open>After its last tag a channel waits for the other side to empty the queue.\<close>

lemma src_end:
  assumes "in_src_chain c r" "ichcr_started (ic_chcr c)" "transfer_length (ic_bcr c) = 0" "enabled c s"
    and "itag_ert (ichcr_tag (ic_chcr c))" "port_queue r s = Inr q"
  shows "iop_transfer_channel c s =
    Inr (if q_items q = [] then (iop_stopped c, iop_completed c s) else (c, s))"
proof -
  obtain v where "get_channel_iqe c s = Inr v" using assms(1) iqe_eq[of c s] by (auto simp: in_src_chain_def)
  then have "iop_transfer_chain c s = iop_finish_transfer c s"
    using assms by (simp add: iop_transfer_chain_def)
  moreover have "queue_is_empty q \<longleftrightarrow> q_items q = []"
    by (auto simp: queue_is_empty_def has_read_available_def Suc_le_eq)
  ultimately show ?thesis using assms iop_suspended_eq[of c s]
    by (cases "q_items q = []") (simp_all add: chain_step[OF assms(1,4)] iop_finish_transfer_def
        iop_direction_bit in_src_chain_def port_is_empty_def)
qed

text \<open>
  A channel started on a source chain: tags that continue, then one that ends, with room in its
  queue for all of it.
\<close>

definition src_setup ::
    "iop_channel \<Rightarrow> uptr \<Rightarrow> iop_packet list \<Rightarrow> iop_packet \<Rightarrow> fifo_ref \<Rightarrow> dma_fifo \<Rightarrow> iop_dma \<Rightarrow> bool" where
  "src_setup c a ps p r q s \<longleftrightarrow>
     in_src_chain c r \<and> \<not> ichcr_started (ic_chcr c) \<and> ichcr_tag (ic_chcr c) = IopDmatag_new \<and>
     ic_tadr c = Some a \<and> enabled c s \<and> packets_stored s a (ps @ [p]) \<and>
     (\<forall>x\<in>set ps. \<not> exit_tag (ip_tag x)) \<and> itag_ert (ip_tag p) \<and> steady_queue r q s \<and>
     length (q_items q) + length (concat (map ip_bytes (ps @ [p]))) \<le> q_capacity q"

definition iop_chain_start :: "iop_channel \<Rightarrow> iop_channel" where
  "iop_chain_start c = iop_start_transfer ((ic_bcr c)\<lparr>transfer_length := 0\<rparr>) c"

lemma iop_chain_start_simps [simp]:
  "in_src_chain (iop_chain_start c) r = in_src_chain c r" "ic_id (iop_chain_start c) = ic_id c"
  "ichcr_started (ic_chcr (iop_chain_start c))" "transfer_length (ic_bcr (iop_chain_start c)) = 0"
  "ichcr_tag (ic_chcr (iop_chain_start c)) = ichcr_tag (ic_chcr c)" "ic_tadr (iop_chain_start c) = ic_tadr c"
  by (simp_all add: iop_chain_start_def iop_start_transfer_def in_src_chain_def iop_wired_def
      iop_get_logical_mode_def ichcr_field_def)

lemma new_tag_continues [simp]: "\<not> exit_tag IopDmatag_new"
  by (simp add: exit_tag_def itag_irq_def itag_ert_def IopDmatag_new_def ITAG_IRQ_def
      ITAG_ERT_def field_bit)

lemma iop_take_packets_simps [simp]:
  "in_src_chain (iop_take_packets ps a c) r = in_src_chain c r" "ic_id (iop_take_packets ps a c) = ic_id c"
  "ichcr_started (ic_chcr (iop_take_packets ps a c)) = ichcr_started (ic_chcr c)"
  "transfer_length (ic_bcr (iop_take_packets ps a c)) = (if ps = [] then transfer_length (ic_bcr c) else 0)"
  by (induction ps arbitrary: a c) auto

lemma iop_take_packets_tag:
  "ichcr_tag (ic_chcr (iop_take_packets (ps @ [p]) a c)) = ip_tag p"
  by (induction ps arbitrary: a c) simp_all

lemma iop_src_chain:
  assumes "src_setup c a ps p r q s"
  defines "c1 \<equiv> iop_take_packets (ps @ [p]) a (iop_chain_start c)"
  shows "repeat_res (ip_steps (ps @ [p]) + 1 + k) iop_chan_step (c, s) =
    Inr (c1, port_put r (q\<lparr>q_items := q_items q @ concat (map ip_bytes (ps @ [p]))\<rparr>) s)"
proof -
  note A = assms(1)[unfolded src_setup_def]
  let ?c0 = "iop_chain_start c"
  let ?q = "q\<lparr>q_items := q_items q @ concat (map ip_bytes (ps @ [p]))\<rparr>"
  let ?s = "port_put r ?q s"
  have 1: "iop_transfer_channel c s = Inr (?c0, s)"
    using A by (simp add: chain_step[where r = r] iop_transfer_chain_def iop_chain_start_def)
  have 2: "repeat_res (ip_steps (ps @ [p])) iop_chan_step (?c0, s) = Inr (c1, ?s)"
    unfolding c1_def
  proof (rule src_packets)
    show "enabled ?c0 s" using A enabled_cong[of ?c0 c s s] by simp
  qed (use A in auto)
  have 3: "iop_transfer_channel c1 ?s = Inr (c1, ?s)"
  proof -
    have "port_queue r ?s = Inr ?q" using A port_get_put[of r s q ?q] by (simp add: steady_queue_def)
    moreover have ne: "ip_bytes p \<noteq> []"
      by (cases p) (auto simp: ip_bytes_def split_bytes_def lanes_def split: prod.splits)
    moreover have "enabled c1 ?s" using A enabled_cong[of c1 c ?s s] by (simp add: c1_def)
    ultimately show ?thesis using A src_end[of c1 r ?s ?q]
      by (simp add: c1_def iop_take_packets_tag)
  qed
  have 4: "repeat_res n iop_chan_step (c1, ?s) = Inr (c1, ?s)" for n
    by (induction n) (simp_all only: repeat_res.simps fst_conv snd_conv 3 bind_res_simps)
  have split: "ip_steps (ps @ [p]) + 1 + k = Suc (ip_steps (ps @ [p]) + k)" by simp
  show ?thesis unfolding split repeat_res.simps(2)[of "ip_steps (ps @ [p]) + k"] repeat_res_add
    by (simp only: fst_conv snd_conv 1 2 4 bind_res_simps)
qed

end
