(* ===== verification/Sif.thy ===== *)
theory Sif
  imports EeDmacChain IopDmacTransfer
begin

text \<open>
  The two DMA controllers joined by the queue of SIF0: a time slice of the IOP's controller, a
  source chain sent through the queue into the memory of the EE, and the interrupts on both
  sides.
\<close>

section \<open>A time slice of the IOP's controller\<close>

text \<open>No transfer changes the global control register.\<close>

lemma gctrl_read_ubyte: "port_read_ubyte r s = Inr (v, s') \<Longrightarrow> gctrl s' = gctrl (s :: iop_dma)"
  by (cases r) auto

lemma gctrl_write_ubyte: "port_write_ubyte r b s = Inr s' \<Longrightarrow> gctrl s' = gctrl (s :: iop_dma)"
  by (cases r) auto

lemma gctrl_read_bytes: "read_bytes (port_read_ubyte r) n s = Inr (v, s') \<Longrightarrow> gctrl s' = gctrl (s :: iop_dma)"
  by (induction n arbitrary: s v) (auto dest: gctrl_read_ubyte)

lemma gctrl_write_bytes: "write_bytes (port_write_ubyte r) bs s = Inr s' \<Longrightarrow> gctrl s' = gctrl (s :: iop_dma)"
  by (induction bs arbitrary: s) (auto dest: gctrl_write_ubyte)

lemma gctrl_port:
  "port_read n r s = Inr (v, s') \<Longrightarrow> gctrl s' = gctrl (s :: iop_dma)"
  "port_write n r w s = Inr s' \<Longrightarrow> gctrl s' = gctrl (s :: iop_dma)"
  by (auto simp: port_read_def port_write_def dest: gctrl_read_bytes gctrl_write_bytes)

lemma gctrl_bus:
  "env_read_uword a s = Inr (v, s') \<Longrightarrow> gctrl s' = gctrl (s :: iop_dma)"
  "env_write_uword a w s = Inr s' \<Longrightarrow> gctrl s' = gctrl (s :: iop_dma)"
  by (auto simp: env_read_uword_def env_write_uword_def)

lemma gctrl_unit: "iop_transfer_unit c s = Inr (b, c', s') \<Longrightarrow> gctrl s' = gctrl s"
  by (auto simp: iop_transfer_unit_def iop_transfer_data_def Let_def dest!: gctrl_port gctrl_bus
      split: option.splits iop_direction.splits if_splits)

lemma gctrl_check: "gctrl (iop_dmac_interrupt_check s) = gctrl s"
  by (simp add: iop_interrupt_check_eq)

lemma gctrl_finish: "iop_finish_transfer c s = Inr (b, c', s') \<Longrightarrow> gctrl s' = gctrl s"
  by (auto simp: iop_finish_transfer_def iop_set_state_suspended_def set_channel_tci_def gctrl_check Let_def
      split: prod.splits if_splits)

lemma gctrl_tag_words: "read_tag_words n a s = Inr (ws, s') \<Longrightarrow> gctrl s' = gctrl s"
  by (induction n arbitrary: a s ws) (auto dest: gctrl_bus)

lemma gctrl_next_tag: "iop_next_tag c s = Inr (b, c', s') \<Longrightarrow> gctrl s' = gctrl s"
  by (auto simp: iop_next_tag_def iop_read_chain_source_tag_def iop_read_chain_dest_tag_def Let_def
      dest!: gctrl_port gctrl_tag_words split: option.splits iop_direction.splits if_splits)

lemma gctrl_channel: "iop_transfer_channel c s = Inr (c', s') \<Longrightarrow> gctrl s' = gctrl s"
  by (auto simp: iop_transfer_channel_def transfer_normal_burst_def transfer_normal_slice_def iop_transfer_chain_def
      Let_def dest!: gctrl_unit gctrl_finish gctrl_next_tag
      split: option.splits iop_logical_mode.splits if_splits)

lemma gctrl_channels: "iop_transfer_channels cs s = Inr (cs', s') \<Longrightarrow> gctrl s' = gctrl s"
  by (induction cs arbitrary: s cs') (auto dest!: gctrl_channel)

abbreviation iop_channels_step :: "iop_channel list \<times> iop_dma \<Rightarrow> (iop_channel list \<times> iop_dma) res" where
  "iop_channels_step p \<equiv> iop_transfer_channels (fst p) (snd p)"

lemma iop_dmac_run_channels:
  "gctrl s \<noteq> 0 \<Longrightarrow> iop_dmac_run t (cs, s) = repeat_res (nat t) iop_channels_step (cs, s)"
proof (induction "nat t" arbitrary: t cs s)
  case 0
  then show ?case by (simp add: iop_dmac_loop.run_stop)
next
  case (Suc n)
  have t: "0 < t" "nat t = Suc n" "n = nat (t - 1)" using Suc.hyps(2) by simp_all
  show ?case
  proof (cases "iop_transfer_channels cs s")
    case (Inl e)
    then have "iop_dmac_time_step t (cs, s) = Inl e" using Suc.prems by (simp add: iop_dmac_time_step_def)
    then show ?thesis using iop_dmac_loop.run_fail[OF t(1)] Inl by (simp add: t)
  next
    case (Inr p)
    obtain cs1 s1 where p: "p = (cs1, s1)" by fastforce
    have "iop_dmac_time_step t (cs, s) = Inr (1, cs1, s1)" using Suc.prems by (simp add: iop_dmac_time_step_def Inr p)
    from iop_dmac_loop.run_step[OF t(1) this]
    have "iop_dmac_run t (cs, s) = iop_dmac_run (t - 1) (cs1, s1)" .
    also have "\<dots> = repeat_res n iop_channels_step (cs1, s1)"
      using Suc.hyps(1)[OF t(3)] Suc.prems gctrl_channels[of cs s cs1 s1] t(3) Inr p by simp
    finally show ?thesis by (simp add: t(2) Inr p)
  qed
qed

text \<open>The channels that are not started have no part in it.\<close>

definition iop_only_started :: "nat \<Rightarrow> iop_channel list \<Rightarrow> bool" where
  "iop_only_started j cs \<longleftrightarrow> j < length cs \<and> (\<forall>c\<in>set cs. ic_id c < 14) \<and>
     (\<forall>k<length cs. k \<noteq> j \<longrightarrow> \<not> bit (ichcr_val (ic_chcr (cs ! k))) 24)"

lemma iop_transfer_idle:
  "\<not> bit (ichcr_val (ic_chcr c)) 24 \<Longrightarrow> ic_id c < 14 \<Longrightarrow> iop_transfer_channel c s = Inr (c, s)"
  by (simp add: iop_transfer_channel_def start_bit is_channel_enabled_def)

lemma iop_transfer_all_idle:
  "\<forall>c\<in>set cs. \<not> bit (ichcr_val (ic_chcr c)) 24 \<and> ic_id c < 14 \<Longrightarrow> iop_transfer_channels cs s = Inr (cs, s)"
  by (induction cs) (simp_all add: iop_transfer_idle)

lemma iop_channels_one:
  "iop_only_started j cs \<Longrightarrow>
   iop_transfer_channels cs s = map_res (\<lambda>(c, s). (cs[j := c], s)) (iop_transfer_channel (cs ! j) s)"
proof (induction cs arbitrary: j s)
  case (Cons c cs)
  show ?case
  proof (cases j)
    case 0
    have "\<not> bit (ichcr_val (ic_chcr (cs ! k))) 24" if "k < length cs" for k
      using Cons.prems that 0 by (auto simp: iop_only_started_def dest: spec[of _ "Suc k"])
    then have "\<forall>c\<in>set cs. \<not> bit (ichcr_val (ic_chcr c)) 24 \<and> ic_id c < 14"
      using Cons.prems by (auto simp: in_set_conv_nth iop_only_started_def)
    then show ?thesis using 0 by (cases "iop_transfer_channel c s") (auto simp: iop_transfer_all_idle)
  next
    case (Suc i)
    have "iop_only_started i cs" "\<not> bit (ichcr_val (ic_chcr c)) 24" "ic_id c < 14"
      using Cons.prems Suc by (auto simp: iop_only_started_def nth_Cons' dest: spec[of _ "Suc _"])
    then show ?thesis
      using Suc Cons.IH[of i s] by (cases "iop_transfer_channel (cs ! i) s") (auto simp: iop_transfer_idle)
  qed
qed (simp add: iop_only_started_def)

lemma iop_unit_id: "iop_transfer_unit c s = Inr (b, c', s') \<Longrightarrow> ic_id c' = ic_id c"
  by (auto simp: iop_transfer_unit_def iop_transfer_data_def Let_def
      split: option.splits iop_direction.splits if_splits)

lemma iop_finish_id: "iop_finish_transfer c s = Inr (b, c', s') \<Longrightarrow> ic_id c' = ic_id c"
  by (auto simp: iop_finish_transfer_def iop_set_state_suspended_def Let_def split: prod.splits if_splits)

lemma iop_next_tag_id: "iop_next_tag c s = Inr (b, c', s') \<Longrightarrow> ic_id c' = ic_id c"
  by (auto simp: iop_next_tag_def iop_read_chain_source_tag_def iop_read_chain_dest_tag_def iop_set_tag_def Let_def
      split: option.splits iop_direction.splits if_splits)

lemma iop_transfer_id: "iop_transfer_channel c s = Inr (c', s') \<Longrightarrow> ic_id c' = ic_id c"
  by (auto simp: iop_transfer_channel_def transfer_normal_burst_def transfer_normal_slice_def iop_transfer_chain_def
      iop_start_transfer_def Let_def dest!: iop_unit_id iop_finish_id iop_next_tag_id
      split: option.splits iop_logical_mode.splits if_splits)

lemma iop_channels_one_repeat:
  assumes "iop_only_started j cs"
  shows "repeat_res n iop_channels_step (cs, s) =
    map_res (\<lambda>(c, s). (cs[j := c], s)) (repeat_res n iop_chan_step (cs ! j, s))"
proof -
  have j: "j < length cs" using assms by (simp add: iop_only_started_def)
  have "ic_id c < 14 \<Longrightarrow> repeat_res n iop_channels_step (cs[j := c], s) =
      map_res (\<lambda>(c, s). (cs[j := c], s)) (repeat_res n iop_chan_step (c, s))" for c s
  proof (induction n arbitrary: c s)
    case (Suc n)
    have "set (cs[j := c]) \<subseteq> insert c (set cs)" by (rule set_update_subset_insert)
    then have "iop_only_started j (cs[j := c])"
      using assms Suc.prems unfolding iop_only_started_def by (fastforce simp: nth_list_update)
    from iop_channels_one[OF this, of s]
    have 1: "iop_transfer_channels (cs[j := c]) s = map_res (\<lambda>(c, s). (cs[j := c], s)) (iop_transfer_channel c s)"
      using j by simp
    show ?case
    proof (cases "iop_transfer_channel c s")
      case (Inr p)
      obtain c1 s1 where p: "p = (c1, s1)" by fastforce
      have "ic_id c1 < 14" using iop_transfer_id[OF Inr[unfolded p]] Suc.prems by simp
      from Suc.IH[OF this, of s1] show ?thesis by (simp add: 1 Inr p)
    qed (simp add: 1)
  qed simp
  from this[of "cs ! j" s] show ?thesis using assms j by (simp add: iop_only_started_def)
qed

lemma iop_dmac_run_one:
  assumes "gctrl s \<noteq> 0" and "iop_only_started j cs" and "repeat_res (nat t) iop_chan_step (cs ! j, s) = Inr (c', s')"
  shows "iop_dmac_run t (cs, s) = Inr (cs[j := c'], s')"
  using iop_dmac_run_channels[OF assms(1)] assms(3) by (simp add: iop_channels_one_repeat[OF assms(2)])

theorem iop_dma_chain:
  assumes "src_setup c a ps p r q s" and "iop_only_started j cs" and "cs ! j = c" and "gctrl s \<noteq> 0"
    and "int (ip_steps (ps @ [p])) + 1 \<le> t"
  defines "c1 \<equiv> iop_take_packets (ps @ [p]) a (iop_chain_start c)"
  shows "iop_dmac_run t (cs, s) =
    Inr (cs[j := c1], port_put r (q\<lparr>q_items := q_items q @ concat (map ip_bytes (ps @ [p]))\<rparr>) s)"
proof (rule iop_dmac_run_one[OF assms(4,2)])
  obtain k where k: "nat t = ip_steps (ps @ [p]) + 1 + k"
    using assms(5) that[of "nat t - (ip_steps (ps @ [p]) + 1)"] by simp
  show "repeat_res (nat t) iop_chan_step (cs ! j, s) =
      Inr (c1, port_put r (q\<lparr>q_items := q_items q @ concat (map ip_bytes (ps @ [p]))\<rparr>) s)"
    unfolding k assms(3) c1_def by (rule iop_src_chain[OF assms(1)])
qed

section \<open>From the memory of the IOP to that of the EE\<close>

text \<open>
  The EE finds each packet in the queue as the upper half of the IOP's tag and the data: a packet
  is the same on both sides when the EE's tag is that half.
\<close>

definition same_packet :: "iop_packet \<Rightarrow> packet \<Rightarrow> bool" where
  "same_packet p x \<longleftrightarrow> (case p of ((w0, w1, w2, w3), data) \<Rightarrow> case x of (tag, off, data') \<Rightarrow>
     tag = lower_qword w2 w3 \<and> data' = data)"

lemma same_packets_bytes:
  "list_all2 same_packet ps xs \<Longrightarrow> concat (map ip_bytes ps) = concat (map packet_bytes xs)"
  by (induction rule: list_all2_induct) (auto simp: same_packet_def ip_bytes_def packet_bytes_def split: prod.splits)

text \<open>A channel of the EE ready for those packets, whatever its queue holds.\<close>

definition dst_ready ::
    "ee_channel \<Rightarrow> packet list \<Rightarrow> packet \<Rightarrow> fifo_ref \<Rightarrow> nat \<Rightarrow> byte_memory \<Rightarrow> ee_dma \<Rightarrow> bool" where
  "dst_ready d xs x r i m e \<longleftrightarrow>
     in_dst_chain d r \<and> \<not> dma_started (chcr d) \<and> qwc d = 0 \<and> \<not> tag_exit (chcr d) \<and> stall_free d e \<and>
     (\<forall>y\<in>set xs. packet_id y = 1) \<and> packet_id x = 7 \<and>
     memory_at i e = Some m \<and> \<not> mem_read_only m \<and>
     (\<forall>y\<in>set (xs @ [x]). packet_fits i (mem_size m) (dma_bus e) y)"

text \<open>The SBUS is one object: a controller that runs sees what the other has left there.\<close>

definition sif_sees :: "'z dma_env_scheme \<Rightarrow> sbus \<Rightarrow> 'z dma_env_scheme" where
  "sif_sees s b = s\<lparr>dma_sbus := b\<rparr>"

lemma sif_sees_simps [simp]:
  "dma_bus (sif_sees s b) = dma_bus s" "dma_sbus (sif_sees s b) = b" "memory_at i (sif_sees s b) = memory_at i s"
  "port_queue Sif0_fifo (sif_sees s b) = Inr (fifo_sif0 b)"
  by (simp_all add: sif_sees_def memory_at_def)

lemma sif_sees_frame [simp]:
  "gctrl (sif_sees s b) = gctrl s" "pcr0 (sif_sees s b) = pcr0 s" "pcr1 (sif_sees s b) = pcr1 s"
  "icr0 (sif_sees s b) = icr0 s" "icr1 (sif_sees s b) = icr1 s" "p_intc (sif_sees s b) = p_intc s"
  "d_ctrl (sif_sees e b) = d_ctrl e" "d_stat (sif_sees e b) = d_stat e" "d_cop0 (sif_sees e b) = d_cop0 e"
  by (simp_all add: sif_sees_def)

lemma dst_ready_chain:
  assumes "dst_ready d xs x Sif0_fifo i m e" and "q_items (fifo_sif0 b) = concat (map packet_bytes (xs @ [x]))"
  shows "chain_setup d xs x [] Sif0_fifo (fifo_sif0 b) i m (sif_sees e b)"
proof -
  have "stall_free d (sif_sees e b) = stall_free d e" by (rule stall_free_cong) simp_all
  moreover have "steady_queue Sif0_fifo (fifo_sif0 b) (sif_sees e b)"
    by (simp add: steady_queue_def sif_sees_def)
  ultimately show ?thesis using assms by (simp add: dst_ready_def chain_setup_def)
qed

text \<open>Once the queue is empty the IOP's channel ends, and stays ended.\<close>

lemma iop_repeat_idle:
  "\<not> bit (ichcr_val (ic_chcr c)) 24 \<Longrightarrow> ic_id c < 14 \<Longrightarrow> repeat_res n iop_chan_step (c, s) = Inr (c, s)"
  by (induction n) (simp_all add: iop_transfer_idle)

lemma iop_run_end:
  assumes "in_src_chain c r" "ichcr_started (ic_chcr c)" "transfer_length (ic_bcr c) = 0" "enabled c s"
    and "itag_ert (ichcr_tag (ic_chcr c))" "port_queue r s = Inr q" "q_items q = []"
    and "iop_only_started j cs" "cs ! j = c" "gctrl s \<noteq> 0" "0 < t"
  shows "iop_dmac_run t (cs, s) = Inr (cs[j := iop_stopped c], iop_completed c s)"
proof (rule iop_dmac_run_one[OF assms(10,8)])
  have "nat t = Suc (nat t - 1)" using assms(11) by simp
  moreover have "repeat_res (Suc k) iop_chan_step (c, s) = Inr (iop_stopped c, iop_completed c s)" for k
    using assms src_end[OF assms(1-6)] iop_stopped_idle[of c]
    by (simp add: iop_repeat_idle in_src_chain_def iop_stopped_def)
  ultimately show "repeat_res (nat t) iop_chan_step (cs ! j, s) = Inr (iop_stopped c, iop_completed c s)"
    using assms(9) by metis
qed

lemma pending_sbus: "iop_dma_pending (tci_set n (s\<lparr>dma_sbus := b\<rparr>)) = iop_dma_pending (tci_set n s)"
  by (simp add: iop_dma_pending_def tci_set_def)

lemma memory_at_bus: "dma_bus s' = dma_bus s \<Longrightarrow> memory_at i s' = memory_at i s"
  by (simp add: memory_at_def)

lemma iop_completed_simps [simp]:
  "dma_bus (iop_completed c s) = dma_bus s"
  "p_intc (iop_completed c s) =
     (if iop_dma_pending (tci_set (ic_id c) s) then iop_stat_insert_field (BF 3 1) 1 (p_intc s) else p_intc s)"
  "fifo_sif0 (dma_sbus (iop_completed c s)) = fifo_sif0 (dma_sbus s)"
proof -
  have b: "fifo_sif0 (iop_sbus_after k v b) = fifo_sif0 b" for k v b
    by (cases k) (simp_all add: iop_sbus_after_def Let_def iop_sif0_update_start_def iop_sif1_update_finish_def
        iop_sif2_update_start_def iop_sif2_update_finish_def)
  have t: "dma_bus (tci_set n s) = dma_bus s" "dma_sbus (tci_set n s) = dma_sbus s" "p_intc (tci_set n s) = p_intc s"
    for n s by (simp_all add: tci_set_def)
  show "dma_bus (iop_completed c s) = dma_bus s"
    "p_intc (iop_completed c s) =
       (if iop_dma_pending (tci_set (ic_id c) s) then iop_stat_insert_field (BF 3 1) 1 (p_intc s) else p_intc s)"
    "fifo_sif0 (dma_sbus (iop_completed c s)) = fifo_sif0 (dma_sbus s)"
    by (simp_all add: iop_completed_def iop_interrupt_check_eq t b pending_sbus)
qed

text \<open>
  The whole transfer: the IOP's controller fills the queue from its memory, the EE's controller
  empties it into its own and flags its channel, and the IOP's controller then stops the sending
  channel and raises its interrupt when the channel is not masked.
\<close>

theorem sif0_transfer:
  assumes iop: "src_setup c a ps p Sif0_fifo (fifo_sif0 (dma_sbus s)) s" "q_items (fifo_sif0 (dma_sbus s)) = []"
      "iop_only_started j cs" "cs ! j = c" "gctrl s \<noteq> 0"
    and ee: "dst_ready d xs x Sif0_fifo i m e" "only_started k ds" "ds ! k = d" "bit (d_ctrl e) 0"
      "length (c0_irq_lines (d_cop0 e)) = 8"
    and same: "list_all2 same_packet (ps @ [p]) (xs @ [x])"
    and time: "int (ip_steps (ps @ [p])) + 1 \<le> t1" "int (packets_steps (xs @ [x])) + 2 \<le> t2" "0 < t3"
  shows "\<exists>cs1 s1 ds1 e1 cs2 s2.
    iop_dmac_run t1 (cs, s) = Inr (cs1, s1) \<and>
    ee_dmac_run t2 (ds, sif_sees e (dma_sbus s1)) = Inr (ds1, e1) \<and>
    iop_dmac_run t3 (cs1, sif_sees s1 (dma_sbus e1)) = Inr (cs2, s2) \<and>
    memory_at i e1 = Some (m\<lparr>mem_bytes := store_packets (xs @ [x]) (mem_bytes m)\<rparr>) \<and>
    dma_bus s2 = dma_bus s \<and> q_items (fifo_sif0 (dma_sbus s2)) = [] \<and>
    \<not> bit (ichcr_val (ic_chcr (cs2 ! j))) 24 \<and> \<not> bit (chcr_val (chcr (ds1 ! k))) 8 \<and>
    bit (d_stat e1) (channel_id d) \<and>
    p_intc s2 =
      (if iop_dma_pending (tci_set (ic_id c) s) then iop_stat_insert_field (BF 3 1) 1 (p_intc s) else p_intc s)"
proof -
  note I = iop(1)[unfolded src_setup_def]
  define q where "q = fifo_sif0 (dma_sbus s)"
  define c1 where "c1 = iop_take_packets (ps @ [p]) a (iop_chain_start c)"
  define q1 where "q1 = q\<lparr>q_items := concat (map ip_bytes (ps @ [p]))\<rparr>"
  define s1 where "s1 = port_put Sif0_fifo q1 s"
  have b1: "fifo_sif0 (dma_sbus s1) = q1" by (simp add: s1_def)
  have 1: "iop_dmac_run t1 (cs, s) = Inr (cs[j := c1], s1)"
    using iop_dma_chain[OF iop(1,3,4,5) time(1)] iop(2) by (simp add: c1_def s1_def q1_def q_def)
  define d1 where "d1 = fold take_packet (xs @ [x]) (start_transfer d)"
  define e0 where "e0 = put_memory i (store_packets (xs @ [x]) (mem_bytes m))
    (port_put Sif0_fifo (q1\<lparr>q_items := []\<rparr>) (sif_sees e (dma_sbus s1)))"
  define e1 where "e1 = irq_line (completed d1 e0)"
  have items: "q_items (fifo_sif0 (dma_sbus s1)) = concat (map packet_bytes (xs @ [x]))"
    unfolding b1 using same_packets_bytes[OF same] by (simp add: q1_def)
  have 2: "ee_dmac_run t2 (ds, sif_sees e (dma_sbus s1)) = Inr (ds[k := stopped_channel d1], e1)"
    using ee_dma_chain[OF dst_ready_chain[OF ee(1) items] ee(2,3) _ _ time(2)] ee(4,5)
    by (simp add: d1_def e1_def e0_def b1)
  have D: "channel_id d1 = channel_id d" "in_dst_chain d Sif0_fifo" "memory_at i e = Some m"
    using ee(1) by (simp_all add: d1_def dst_ready_def)
  have q2: "fifo_sif0 (dma_sbus e1) = q1\<lparr>q_items := []\<rparr>"
    by (simp add: e1_def irq_line_def completed_def e0_def put_memory_def split: option.split)
  have jk: "j < length cs" "k < length ds" using iop(3) ee(2) by (simp_all add: iop_only_started_def only_started_def)
  let ?s = "sif_sees s1 (dma_sbus e1)"
  have 3: "iop_dmac_run t3 (cs[j := c1], ?s) = Inr (cs[j := iop_stopped c1], iop_completed c1 ?s)"
  proof -
    have "enabled c1 ?s" using I enabled_cong[of c1 c ?s s] by (simp add: c1_def s1_def)
    moreover have "iop_only_started j (cs[j := c1])"
    proof -
      have "set (cs[j := c1]) \<subseteq> insert c1 (set cs)" by (rule set_update_subset_insert)
      moreover have "ic_id c1 < 14" using I by (simp add: c1_def in_src_chain_def)
      ultimately show ?thesis using iop(3) unfolding iop_only_started_def by (fastforce simp: nth_list_update)
    qed
    ultimately show ?thesis
      using iop_run_end[of c1 Sif0_fifo ?s "q1\<lparr>q_items := []\<rparr>" j "cs[j := c1]" t3] I jk iop(5) time(3)
      by (simp add: c1_def iop_take_packets_tag q2 s1_def)
  qed
  have "memory_at i e1 = Some (m\<lparr>mem_bytes := store_packets (xs @ [x]) (mem_bytes m)\<rparr>)"
  proof -
    have "memory_at i (port_put Sif0_fifo (q1\<lparr>q_items := []\<rparr>) (sif_sees e (dma_sbus s1))) = Some m"
      using D(3) memory_at_port_put[of Sif0_fifo i "q1\<lparr>q_items := []\<rparr>" "sif_sees e (dma_sbus s1)"] by simp
    then have "memory_at i e0 = Some (m\<lparr>mem_bytes := store_packets (xs @ [x]) (mem_bytes m)\<rparr>)"
      unfolding e0_def by (rule memory_at_put_memory)
    moreover have "memory_at i e1 = memory_at i e0"
      by (rule memory_at_bus) (simp add: e1_def irq_line_def completed_def)
    ultimately show ?thesis by simp
  qed
  moreover have "bit (d_stat e1) (channel_id d)"
    using D by (simp add: e1_def completed_def bit_raise in_dst_chain_def)
  moreover have "dma_bus ?s = dma_bus s" "p_intc ?s = p_intc s" by (simp_all add: s1_def)
  moreover have "iop_dma_pending (tci_set n ?s) = iop_dma_pending (tci_set n s)" for n
    by (simp add: sif_sees_def pending_sbus s1_def)
  moreover have "ic_id c1 = ic_id c" by (simp add: c1_def)
  ultimately show ?thesis
    using 1 2 3 jk by (simp add: q2 iop_stopped_idle stopped_idle)
qed

end
