(* ===== verification/AddressMap.thy ===== *)
theory AddressMap
  imports BusMap
begin

text \<open>
  Physical address maps as data: what the start of the emulator maps onto a bus, and when such a
  map can be built.  A map is a list of mappings in the order of the calls; an object mapped
  twice is one object of the bus.
\<close>

section \<open>Mappings\<close>

text \<open>
  The mapped objects by their path in the resources; the registers of the 24 voices of a core of
  the SPU2 by core, voice and register.
\<close>

datatype resource = Named string | Voice nat nat string

datatype map_kind = Memory nat | Queue | Byte_reg | Hword_reg | Word_reg | Dword_reg

type_synonym mapping = "uptr \<times> resource \<times> map_kind"

fun kind_size :: "map_kind \<Rightarrow> nat" where
  "kind_size (Memory n) = n"
| "kind_size Queue = 1"
| "kind_size Byte_reg = 1"
| "kind_size Hword_reg = 2"
| "kind_size Word_reg = 4"
| "kind_size Dword_reg = 8"

fun kind_object :: "map_kind \<Rightarrow> bus_object" where
  "kind_object (Memory n) = Memory_obj (ArrayByteMemory_new n 0 False)"
| "kind_object Queue = Fifo_obj DmaFifoQueue_new"
| "kind_object Byte_reg = Byte_obj (SizedRegister_new 0 False)"
| "kind_object Hword_reg = Hword_obj (SizedRegister_new 0 False)"
| "kind_object Word_reg = Word_obj (SizedRegister_new 0 False)"
| "kind_object Dword_reg = Dword_obj (SizedRegister_new 0 False)"

lemma kind_object_size [simp]: "byte_bus_map_size (kind_object k) = kind_size k"
  by (cases k) (simp_all add: mem_size_def ArrayByteMemory_new_def)

text \<open>The objects of a map, each once, and the calls with their numbers.\<close>

definition map_resources :: "mapping list \<Rightarrow> (resource \<times> map_kind) list" where
  "map_resources ms = remdups (map snd ms)"

fun index_of :: "'x \<Rightarrow> 'x list \<Rightarrow> nat" where
  "index_of x [] = 0"
| "index_of x (y # ys) = (if x = y then 0 else Suc (index_of x ys))"

lemma index_of_nth: "x \<in> set xs \<Longrightarrow> index_of x xs < length xs \<and> xs ! index_of x xs = x"
  by (induction xs) auto

definition map_objects :: "mapping list \<Rightarrow> bus_object list" where
  "map_objects ms = map (\<lambda>x. kind_object (snd x)) (map_resources ms)"

definition map_calls :: "mapping list \<Rightarrow> (uptr \<times> nat) list" where
  "map_calls ms = map (\<lambda>(a, x). (a, index_of x (map_resources ms))) ms"

definition initialise_bus :: "nat \<Rightarrow> mapping list \<Rightarrow> uptr byte_bus res" where
  "initialise_bus D ms = bus_build (map_calls ms) (ByteBus_new D (map_objects ms))"

section \<open>Segments\<close>

text \<open>
  A segment is a part of a map in ascending order between two bounds.  A map is well placed when
  it is a concatenation of segments whose bounds do not overlap, in whatever order.
\<close>

fun ascending :: "nat \<Rightarrow> mapping list \<Rightarrow> nat \<Rightarrow> bool" where
  "ascending lo [] hi \<longleftrightarrow> lo \<le> hi"
| "ascending lo ((a, nm, k) # ms) hi \<longleftrightarrow>
     lo \<le> unat a \<and> 0 < kind_size k \<and> ascending (unat a + kind_size k) ms hi"

type_synonym segment = "nat \<times> mapping list \<times> nat"

definition well_placed :: "segment list \<Rightarrow> bool" where
  "well_placed ss \<longleftrightarrow> (\<forall>(lo, ms, hi)\<in>set ss. ascending lo ms hi \<and> hi \<le> 2 ^ 32) \<and>
     sorted_wrt (\<lambda>(lo, _, hi) (lo', _, hi'). hi \<le> lo' \<or> hi' \<le> lo) ss"

definition mappings :: "segment list \<Rightarrow> mapping list" where
  "mappings ss = concat (map (\<lambda>(lo, ms, hi). ms) ss)"

definition apart :: "mapping \<Rightarrow> mapping \<Rightarrow> bool" where
  "apart m m' \<longleftrightarrow> unat (fst m) + kind_size (snd (snd m)) \<le> unat (fst m') \<or>
     unat (fst m') + kind_size (snd (snd m')) \<le> unat (fst m)"

lemma ascending_le: "ascending lo ms hi \<Longrightarrow> lo \<le> hi"
  by (induction lo ms hi rule: ascending.induct) auto

lemma ascending_append: "ascending lo xs mid \<Longrightarrow> ascending mid ys hi \<Longrightarrow> ascending lo (xs @ ys) hi"
proof (induction lo xs mid rule: ascending.induct)
  case (1 lo mid)
  then show ?case by (cases ys) (auto intro: ascending_le order_trans)
qed simp

lemma ascending_bounds:
  "ascending lo ms hi \<Longrightarrow> m \<in> set ms \<Longrightarrow>
   lo \<le> unat (fst m) \<and> 0 < kind_size (snd (snd m)) \<and> unat (fst m) + kind_size (snd (snd m)) \<le> hi"
proof (induction lo ms hi rule: ascending.induct)
  case (2 lo a nm k ms hi)
  then show ?case using ascending_le[of "unat a + kind_size k" ms hi] by (cases "m \<in> set ms") fastforce+
qed simp

lemma ascending_apart: "ascending lo ms hi \<Longrightarrow> sorted_wrt apart ms"
proof (induction lo ms hi rule: ascending.induct)
  case (2 lo a nm k ms hi)
  moreover have "apart (a, nm, k) m" if "m \<in> set ms" for m
    using ascending_bounds[of "unat a + kind_size k" ms hi m] 2 that by (simp add: apart_def)
  ultimately show ?case by simp
qed simp

lemma well_placed_apart: "well_placed ss \<Longrightarrow> sorted_wrt apart (mappings ss)"
proof (induction ss)
  case (Cons s ss)
  obtain lo ms hi where s: "s = (lo, ms, hi)" by (cases s)
  have "apart m m'" if m: "m \<in> set ms" and m': "m' \<in> set (mappings ss)" for m m'
  proof -
    obtain lo' ms' hi' where t: "(lo', ms', hi') \<in> set ss" "m' \<in> set ms'" using m' by (auto simp: mappings_def)
    have "ascending lo ms hi" "ascending lo' ms' hi'" "hi \<le> lo' \<or> hi' \<le> lo"
      using Cons.prems t(1) by (auto simp: well_placed_def s)
    then show ?thesis using ascending_bounds[of lo ms hi m] ascending_bounds[of lo' ms' hi' m'] m t(2)
      by (auto simp: apart_def)
  qed
  moreover have "sorted_wrt apart ms" "sorted_wrt apart (mappings ss)"
    using Cons ascending_apart[of lo ms hi] by (auto simp: well_placed_def s)
  ultimately show ?case by (simp add: mappings_def s sorted_wrt_append)
qed (simp add: mappings_def)

lemma well_placed_bounds:
  "well_placed ss \<Longrightarrow> m \<in> set (mappings ss) \<Longrightarrow>
   0 < kind_size (snd (snd m)) \<and> unat (fst m) + kind_size (snd (snd m)) \<le> 2 ^ 32"
  by (fastforce simp: well_placed_def mappings_def dest: ascending_bounds)

lemma mapped_object:
  assumes "(a, x) \<in> set ms"
  shows "index_of x (map_resources ms) < length (map_objects ms)"
    and "map_objects ms ! index_of x (map_resources ms) = kind_object (snd x)"
proof -
  have "x \<in> set (map_resources ms)" using assms by (force simp: map_resources_def)
  from index_of_nth[OF this]
  show "index_of x (map_resources ms) < length (map_objects ms)"
    "map_objects ms ! index_of x (map_resources ms) = kind_object (snd x)"
    by (simp_all add: map_objects_def)
qed

lemma sorted_wrt_map_mono:
  "sorted_wrt P xs \<Longrightarrow> (\<And>x y. x \<in> set xs \<Longrightarrow> y \<in> set xs \<Longrightarrow> P x y \<Longrightarrow> Q (f x) (f y)) \<Longrightarrow> sorted_wrt Q (map f xs)"
  by (induction xs) auto

lemma ByteBus_new_objects [simp]: "bus_objects (ByteBus_new D objs) = objs"
  by (simp add: ByteBus_new_def)

text \<open>
  A well placed map can be built, and the built bus finds every object at every one of its
  addresses, with the offset in it.
\<close>

theorem initialise_bus_correct:
  assumes "D \<le> 32" and "well_placed ss"
  shows "\<exists>b. initialise_bus D (mappings ss) = Inr b \<and> bus_objects b = map_objects (mappings ss) \<and>
    (\<forall>(a, x)\<in>set (mappings ss). \<forall>k<kind_size (snd x).
       bus_locate (a + of_nat k) b = Inr (index_of x (map_resources (mappings ss)), k))"
proof -
  let ?ms = "mappings ss"
  let ?b0 = "ByteBus_new D (map_objects ?ms) :: uptr byte_bus"
  have m: "\<forall>m\<in>set (map_calls ?ms). mappable ?b0 m"
    using mapped_object[of _ _ ?ms] well_placed_bounds[OF assms(2)]
    by (force simp: map_calls_def mappable_def)
  have d: "sorted_wrt (ranges_disjoint ?b0) (map_calls ?ms)"
    unfolding map_calls_def using well_placed_apart[OF assms(2)]
    by (rule sorted_wrt_map_mono) (auto simp: ranges_disjoint_def apart_def mapped_object(2))
  obtain b where b: "initialise_bus D ?ms = Inr b"
    using bus_build_total[OF assms(1) m d] by (auto simp: initialise_bus_def)
  have "bus_locate (a + of_nat k) b = Inr (index_of x (map_resources ?ms), k)"
    if e: "(a, x) \<in> set ?ms" and k: "k < kind_size (snd x)" for a x k
  proof -
    have n: "unat a + k < 2 ^ 32" using well_placed_bounds[OF assms(2) e] k by simp
    then have u: "unat (a + of_nat k) = unat a + k" by (simp add: unat_word_ariths unat_of_nat)
    have "(a, index_of x (map_resources ?ms)) \<in> set (map_calls ?ms)" using e by (force simp: map_calls_def)
    moreover have "object_range ?b0 a (index_of x (map_resources ?ms)) (unat (a + of_nat k))"
      using k by (simp add: object_range_def u mapped_object(2)[OF e])
    ultimately show ?thesis
      using bus_build_locate[OF assms(1) m, of b a "index_of x (map_resources ?ms)" "a + of_nat k"] b
      by (simp add: initialise_bus_def u)
  qed
  moreover have "bus_objects b = map_objects ?ms"
    using b bus_map_all_keeps[OF bus_fresh_new[OF assms(1)] m]
    by (auto simp: initialise_bus_def bus_build_def optimise_def)
  ultimately show ?thesis using b by auto
qed

end
