(* ===== verification/EeAddressMap.thy ===== *)
theory EeAddressMap
  imports AddressMap
begin

text \<open>
  The physical address map of the EE (\<open>initialise_ee\<close>): memories, the registers of the
  peripherals, the queues, and the resources of the IOP and the CDVD the EE sees.
\<close>

section \<open>The mappings\<close>

definition ee_main_memory_map :: "mapping list" where
  "ee_main_memory_map =
    [(0x00000000, Named ''ee.main_memory'', Memory 0x2000000)]"

definition ee_scratchpad_memory_map :: "mapping list" where
  "ee_scratchpad_memory_map =
    [(0x70000000, Named ''ee.core.scratchpad_memory'', Memory 0x4000)]"

definition ee_various_roms_map :: "mapping list" where
  "ee_various_roms_map =
    [(0x1FC00000, Named ''boot_rom'', Memory 0x400000)]"

definition ee_various_roms_map_2 :: "mapping list" where
  "ee_various_roms_map_2 =
    [(0x1E000000, Named ''rom1'', Memory 0x40000), (0x1E040000, Named ''erom'', Memory 0x1C0000),
     (0x1E400000, Named ''rom2'', Memory 0x80000)]"

definition ee_unknown_memory_map :: "mapping list" where
  "ee_unknown_memory_map =
    [(0x1A000000, Named ''ee.unknown_1a000000'', Memory 0x10000)]"

definition ee_misc_ee_registers_map :: "mapping list" where
  "ee_misc_ee_registers_map =
    [(0x1000F100, Named ''ee.memory_sio'', Memory 0x100)]"

definition ee_misc_ee_registers_map_2 :: "mapping list" where
  "ee_misc_ee_registers_map_2 =
    [(0x1000F400, Named ''ee.register_f400'', Word_reg),
     (0x1000F410, Named ''ee.memory_f410'', Memory 0x4),
     (0x1000F420, Named ''ee.register_f420'', Word_reg),
     (0x1000F430, Named ''ee.memory_mch'', Memory 0x20),
     (0x1000F450, Named ''ee.memory_f450'', Memory 0xB0)]"

definition ee_timers_registers_map :: "mapping list" where
  "ee_timers_registers_map =
    [(0x10000000, Named ''ee.timers.unit_0.count'', Word_reg),
     (0x10000010, Named ''ee.timers.unit_0.mode'', Word_reg),
     (0x10000020, Named ''ee.timers.unit_0.compare'', Word_reg),
     (0x10000030, Named ''ee.timers.unit_0.hold'', Word_reg),
     (0x10000800, Named ''ee.timers.unit_1.count'', Word_reg),
     (0x10000810, Named ''ee.timers.unit_1.mode'', Word_reg),
     (0x10000820, Named ''ee.timers.unit_1.compare'', Word_reg),
     (0x10000830, Named ''ee.timers.unit_1.hold'', Word_reg),
     (0x10001000, Named ''ee.timers.unit_2.count'', Word_reg),
     (0x10001010, Named ''ee.timers.unit_2.mode'', Word_reg),
     (0x10001020, Named ''ee.timers.unit_2.compare'', Word_reg),
     (0x10001800, Named ''ee.timers.unit_3.count'', Word_reg),
     (0x10001810, Named ''ee.timers.unit_3.mode'', Word_reg),
     (0x10001820, Named ''ee.timers.unit_3.compare'', Word_reg)]"

definition ee_ipu_registers_map :: "mapping list" where
  "ee_ipu_registers_map =
    [(0x10002000, Named ''ee.ipu.cmd'', Dword_reg), (0x10002010, Named ''ee.ipu.ctrl'', Word_reg),
     (0x10002020, Named ''ee.ipu.bp'', Word_reg), (0x10002030, Named ''ee.ipu.top'', Dword_reg)]"

definition ee_gif_registers_map :: "mapping list" where
  "ee_gif_registers_map =
    [(0x10003000, Named ''ee.gif.ctrl'', Word_reg), (0x10003010, Named ''ee.gif.mode'', Word_reg),
     (0x10003020, Named ''ee.gif.stat'', Word_reg), (0x10003040, Named ''ee.gif.tag0'', Word_reg),
     (0x10003050, Named ''ee.gif.tag1'', Word_reg), (0x10003060, Named ''ee.gif.tag2'', Word_reg),
     (0x10003070, Named ''ee.gif.tag3'', Word_reg), (0x10003080, Named ''ee.gif.cnt'', Word_reg),
     (0x10003090, Named ''ee.gif.p3cnt'', Word_reg), (0x100030A0, Named ''ee.gif.p3tag'', Word_reg)]"

definition ee_vif0_registers_map :: "mapping list" where
  "ee_vif0_registers_map =
    [(0x10003800, Named ''ee.vpu.vif.unit_0.stat'', Word_reg),
     (0x10003810, Named ''ee.vpu.vif.unit_0.fbrst'', Word_reg),
     (0x10003820, Named ''ee.vpu.vif.unit_0.err'', Word_reg),
     (0x10003830, Named ''ee.vpu.vif.unit_0.mark'', Word_reg),
     (0x10003840, Named ''ee.vpu.vif.unit_0.cycle'', Word_reg),
     (0x10003850, Named ''ee.vpu.vif.unit_0.mode'', Word_reg),
     (0x10003860, Named ''ee.vpu.vif.unit_0.num'', Word_reg),
     (0x10003870, Named ''ee.vpu.vif.unit_0.mask'', Word_reg),
     (0x10003880, Named ''ee.vpu.vif.unit_0.code'', Word_reg),
     (0x10003890, Named ''ee.vpu.vif.unit_0.itops'', Word_reg),
     (0x100038D0, Named ''ee.vpu.vif.unit_0.itop'', Word_reg),
     (0x10003900, Named ''ee.vpu.vif.unit_0.r0'', Word_reg),
     (0x10003910, Named ''ee.vpu.vif.unit_0.r1'', Word_reg),
     (0x10003920, Named ''ee.vpu.vif.unit_0.r2'', Word_reg),
     (0x10003930, Named ''ee.vpu.vif.unit_0.r3'', Word_reg),
     (0x10003940, Named ''ee.vpu.vif.unit_0.c0'', Word_reg),
     (0x10003950, Named ''ee.vpu.vif.unit_0.c1'', Word_reg),
     (0x10003960, Named ''ee.vpu.vif.unit_0.c2'', Word_reg),
     (0x10003970, Named ''ee.vpu.vif.unit_0.c3'', Word_reg)]"

definition ee_vif1_registers_map :: "mapping list" where
  "ee_vif1_registers_map =
    [(0x10003C00, Named ''ee.vpu.vif.unit_1.stat'', Word_reg),
     (0x10003C10, Named ''ee.vpu.vif.unit_1.fbrst'', Word_reg),
     (0x10003C20, Named ''ee.vpu.vif.unit_1.err'', Word_reg),
     (0x10003C30, Named ''ee.vpu.vif.unit_1.mark'', Word_reg),
     (0x10003C40, Named ''ee.vpu.vif.unit_1.cycle'', Word_reg),
     (0x10003C50, Named ''ee.vpu.vif.unit_1.mode'', Word_reg),
     (0x10003C60, Named ''ee.vpu.vif.unit_1.num'', Word_reg),
     (0x10003C70, Named ''ee.vpu.vif.unit_1.mask'', Word_reg),
     (0x10003C80, Named ''ee.vpu.vif.unit_1.code'', Word_reg),
     (0x10003C90, Named ''ee.vpu.vif.unit_1.itops'', Word_reg),
     (0x10003CA0, Named ''ee.vpu.vif.unit_1.base'', Word_reg),
     (0x10003CB0, Named ''ee.vpu.vif.unit_1.ofst'', Word_reg),
     (0x10003CC0, Named ''ee.vpu.vif.unit_1.tops'', Word_reg),
     (0x10003CD0, Named ''ee.vpu.vif.unit_1.itop'', Word_reg),
     (0x10003CE0, Named ''ee.vpu.vif.unit_1.top'', Word_reg),
     (0x10003D00, Named ''ee.vpu.vif.unit_1.r0'', Word_reg),
     (0x10003D10, Named ''ee.vpu.vif.unit_1.r1'', Word_reg),
     (0x10003D20, Named ''ee.vpu.vif.unit_1.r2'', Word_reg),
     (0x10003D30, Named ''ee.vpu.vif.unit_1.r3'', Word_reg),
     (0x10003D40, Named ''ee.vpu.vif.unit_1.c0'', Word_reg),
     (0x10003D50, Named ''ee.vpu.vif.unit_1.c1'', Word_reg),
     (0x10003D60, Named ''ee.vpu.vif.unit_1.c2'', Word_reg),
     (0x10003D70, Named ''ee.vpu.vif.unit_1.c3'', Word_reg)]"

definition ee_fifo_registers_map :: "mapping list" where
  "ee_fifo_registers_map =
    [(0x10004000, Named ''fifo_vif0'', Queue), (0x10005000, Named ''fifo_vif1'', Queue),
     (0x10006000, Named ''fifo_gif'', Queue), (0x10007000, Named ''fifo_fromipu'', Queue),
     (0x10007010, Named ''fifo_toipu'', Queue)]"

definition ee_dmac_registers_map :: "mapping list" where
  "ee_dmac_registers_map =
    [(0x10008000, Named ''ee.dmac.channel_vif0.chcr'', Word_reg),
     (0x10008010, Named ''ee.dmac.channel_vif0.madr'', Word_reg),
     (0x10008020, Named ''ee.dmac.channel_vif0.qwc'', Word_reg),
     (0x10008030, Named ''ee.dmac.channel_vif0.tadr'', Word_reg),
     (0x10008040, Named ''ee.dmac.channel_vif0.asr[0]'', Word_reg),
     (0x10008050, Named ''ee.dmac.channel_vif0.asr[1]'', Word_reg),
     (0x10008060, Named ''ee.dmac.memory_8060'', Memory 0xFA0),
     (0x10009000, Named ''ee.dmac.channel_vif1.chcr'', Word_reg),
     (0x10009010, Named ''ee.dmac.channel_vif1.madr'', Word_reg),
     (0x10009020, Named ''ee.dmac.channel_vif1.qwc'', Word_reg),
     (0x10009030, Named ''ee.dmac.channel_vif1.tadr'', Word_reg),
     (0x10009040, Named ''ee.dmac.channel_vif1.asr[0]'', Word_reg),
     (0x10009050, Named ''ee.dmac.channel_vif1.asr[1]'', Word_reg),
     (0x10009060, Named ''ee.dmac.memory_9060'', Memory 0xFA0),
     (0x1000A000, Named ''ee.dmac.channel_gif.chcr'', Word_reg),
     (0x1000A010, Named ''ee.dmac.channel_gif.madr'', Word_reg),
     (0x1000A020, Named ''ee.dmac.channel_gif.qwc'', Word_reg),
     (0x1000A030, Named ''ee.dmac.channel_gif.tadr'', Word_reg),
     (0x1000A040, Named ''ee.dmac.channel_gif.asr[0]'', Word_reg),
     (0x1000A050, Named ''ee.dmac.channel_gif.asr[1]'', Word_reg),
     (0x1000A060, Named ''ee.dmac.memory_a060'', Memory 0xFA0),
     (0x1000B000, Named ''ee.dmac.channel_fromipu.chcr'', Word_reg),
     (0x1000B010, Named ''ee.dmac.channel_fromipu.madr'', Word_reg),
     (0x1000B020, Named ''ee.dmac.channel_fromipu.qwc'', Word_reg),
     (0x1000B030, Named ''ee.dmac.memory_b030'', Memory 0x3D0),
     (0x1000B400, Named ''ee.dmac.channel_toipu.chcr'', Word_reg),
     (0x1000B410, Named ''ee.dmac.channel_toipu.madr'', Word_reg),
     (0x1000B420, Named ''ee.dmac.channel_toipu.qwc'', Word_reg),
     (0x1000B430, Named ''ee.dmac.channel_toipu.tadr'', Word_reg),
     (0x1000B440, Named ''ee.dmac.memory_b440'', Memory 0xBC0),
     (0x1000C000, Named ''ee.dmac.channel_sif0.chcr'', Word_reg),
     (0x1000C010, Named ''ee.dmac.channel_sif0.madr'', Word_reg),
     (0x1000C020, Named ''ee.dmac.channel_sif0.qwc'', Word_reg),
     (0x1000C030, Named ''ee.dmac.memory_c030'', Memory 0x3D0),
     (0x1000C400, Named ''ee.dmac.channel_sif1.chcr'', Word_reg),
     (0x1000C410, Named ''ee.dmac.channel_sif1.madr'', Word_reg),
     (0x1000C420, Named ''ee.dmac.channel_sif1.qwc'', Word_reg),
     (0x1000C430, Named ''ee.dmac.channel_sif1.tadr'', Word_reg),
     (0x1000C440, Named ''ee.dmac.memory_c440'', Memory 0x3C0),
     (0x1000C800, Named ''ee.dmac.channel_sif2.chcr'', Word_reg),
     (0x1000C810, Named ''ee.dmac.channel_sif2.madr'', Word_reg),
     (0x1000C820, Named ''ee.dmac.channel_sif2.qwc'', Word_reg),
     (0x1000C830, Named ''ee.dmac.memory_c830'', Memory 0x7D0),
     (0x1000D000, Named ''ee.dmac.channel_fromspr.chcr'', Word_reg),
     (0x1000D010, Named ''ee.dmac.channel_fromspr.madr'', Word_reg),
     (0x1000D020, Named ''ee.dmac.channel_fromspr.qwc'', Word_reg),
     (0x1000D030, Named ''ee.dmac.memory_d030'', Memory 0x50),
     (0x1000D080, Named ''ee.dmac.channel_fromspr.sadr'', Word_reg),
     (0x1000D090, Named ''ee.dmac.memory_d090'', Memory 0x370),
     (0x1000D400, Named ''ee.dmac.channel_tospr.chcr'', Word_reg),
     (0x1000D410, Named ''ee.dmac.channel_tospr.madr'', Word_reg),
     (0x1000D420, Named ''ee.dmac.channel_tospr.qwc'', Word_reg),
     (0x1000D430, Named ''ee.dmac.channel_tospr.tadr'', Word_reg),
     (0x1000D440, Named ''ee.dmac.memory_d440'', Memory 0x40),
     (0x1000D480, Named ''ee.dmac.channel_tospr.sadr'', Word_reg),
     (0x1000D490, Named ''ee.dmac.memory_d490'', Memory 0xB70),
     (0x1000E000, Named ''ee.dmac.ctrl'', Word_reg), (0x1000E010, Named ''ee.dmac.stat'', Word_reg),
     (0x1000E020, Named ''ee.dmac.pcr'', Word_reg), (0x1000E030, Named ''ee.dmac.sqwc'', Word_reg),
     (0x1000E040, Named ''ee.dmac.rbsr'', Word_reg), (0x1000E050, Named ''ee.dmac.rbor'', Word_reg),
     (0x1000E060, Named ''ee.dmac.stadr'', Word_reg)]"

definition ee_intc_registers_map :: "mapping list" where
  "ee_intc_registers_map =
    [(0x1000F000, Named ''ee.intc.stat'', Word_reg), (0x1000F010, Named ''ee.intc.mask'', Word_reg)]"

definition ee_dmac_registers_map_2 :: "mapping list" where
  "ee_dmac_registers_map_2 =
    [(0x1000F500, Named ''ee.dmac.memory_f500'', Memory 0x20),
     (0x1000F520, Named ''ee.dmac.enable_r'', Word_reg),
     (0x1000F590, Named ''ee.dmac.enable_w'', Word_reg)]"

definition ee_vu0_1_memory_map :: "mapping list" where
  "ee_vu0_1_memory_map =
    [(0x11000000, Named ''ee.vpu.vu.unit_0.memory_micro'', Memory 0x1000),
     (0x11004000, Named ''ee.vpu.vu.unit_0.memory_mem'', Memory 0x1000),
     (0x11008000, Named ''ee.vpu.vu.unit_1.memory_micro'', Memory 0x4000),
     (0x1100C000, Named ''ee.vpu.vu.unit_1.memory_mem'', Memory 0x4000)]"

definition ee_gs_privileged_registers_map :: "mapping list" where
  "ee_gs_privileged_registers_map =
    [(0x12000000, Named ''gs.pmode'', Dword_reg), (0x12000010, Named ''gs.smode1'', Dword_reg),
     (0x12000020, Named ''gs.smode2'', Dword_reg), (0x12000030, Named ''gs.srfsh'', Dword_reg),
     (0x12000040, Named ''gs.synch1'', Dword_reg), (0x12000050, Named ''gs.synch2'', Dword_reg),
     (0x12000060, Named ''gs.syncv'', Dword_reg), (0x12000070, Named ''gs.dispfb1'', Dword_reg),
     (0x12000080, Named ''gs.display1'', Dword_reg), (0x12000090, Named ''gs.dispfb2'', Dword_reg),
     (0x120000A0, Named ''gs.display2'', Dword_reg), (0x120000B0, Named ''gs.extbuf'', Dword_reg),
     (0x120000C0, Named ''gs.extdata'', Dword_reg), (0x120000D0, Named ''gs.extwrite'', Dword_reg),
     (0x120000E0, Named ''gs.bgcolor'', Dword_reg), (0x12001000, Named ''gs.csr'', Dword_reg),
     (0x12001010, Named ''gs.imr'', Dword_reg), (0x12001040, Named ''gs.busdir'', Dword_reg),
     (0x12001080, Named ''gs.siglblid'', Dword_reg)]"

definition ee_misc_iop_registers_map :: "mapping list" where
  "ee_misc_iop_registers_map =
    [(0x1F80141C, Named ''iop.hw_ssbus_dev9_delay3'', Word_reg),
     (0x1F801470, Named ''iop.register_1470'', Word_reg),
     (0x1F803800, Named ''iop.register_3800'', Word_reg)]"

definition ee_main_memory_map_2 :: "mapping list" where
  "ee_main_memory_map_2 =
    [(0x1C000000, Named ''iop.main_memory'', Memory 0x200000)]"

definition ee_sif_registers_map :: "mapping list" where
  "ee_sif_registers_map =
    [(0x1000F200, Named ''sbus_mscom'', Word_reg), (0x1000F210, Named ''sbus_smcom'', Word_reg),
     (0x1000F220, Named ''sbus_msflg'', Word_reg), (0x1000F230, Named ''sbus_smflg'', Word_reg),
     (0x1000F240, Named ''sbus_f240'', Word_reg), (0x1000F250, Named ''sbus_f250'', Word_reg),
     (0x1000F260, Named ''sbus_f260'', Word_reg), (0x1000F300, Named ''sbus_f300'', Word_reg),
     (0x1000F380, Named ''sbus_f380'', Word_reg)]"

definition ee_cdvd_registers_map :: "mapping list" where
  "ee_cdvd_registers_map =
    [(0x1F402004, Named ''cdvd.n_command'', Byte_reg),
     (0x1F402005, Named ''cdvd.n_rdy_din'', Byte_reg), (0x1F402006, Named ''cdvd.n_data_out'', Queue),
     (0x1F402007, Named ''cdvd.break_'', Byte_reg), (0x1F402008, Named ''cdvd.intr_stat'', Byte_reg),
     (0x1F40200A, Named ''cdvd.status'', Byte_reg), (0x1F40200B, Named ''cdvd.tray_state'', Byte_reg),
     (0x1F40200C, Named ''cdvd.crt_minute'', Byte_reg),
     (0x1F40200D, Named ''cdvd.crt_second'', Byte_reg),
     (0x1F40200E, Named ''cdvd.crt_frame'', Byte_reg), (0x1F40200F, Named ''cdvd.type'', Byte_reg),
     (0x1F402013, Named ''cdvd.register_2013'', Byte_reg), (0x1F402015, Named ''cdvd.rsv'', Byte_reg),
     (0x1F402016, Named ''cdvd.s_command'', Byte_reg),
     (0x1F402017, Named ''cdvd.s_rdy_din'', Byte_reg), (0x1F402018, Named ''cdvd.s_data_out'', Queue),
     (0x1F402020, Named ''cdvd.key_20'', Byte_reg), (0x1F402021, Named ''cdvd.key_21'', Byte_reg),
     (0x1F402022, Named ''cdvd.key_22'', Byte_reg), (0x1F402023, Named ''cdvd.key_23'', Byte_reg),
     (0x1F402024, Named ''cdvd.key_24'', Byte_reg), (0x1F402028, Named ''cdvd.key_28'', Byte_reg),
     (0x1F402029, Named ''cdvd.key_29'', Byte_reg), (0x1F40202A, Named ''cdvd.key_2a'', Byte_reg),
     (0x1F40202B, Named ''cdvd.key_2b'', Byte_reg), (0x1F40202C, Named ''cdvd.key_2c'', Byte_reg),
     (0x1F402030, Named ''cdvd.key_30'', Byte_reg), (0x1F402031, Named ''cdvd.key_31'', Byte_reg),
     (0x1F402032, Named ''cdvd.key_32'', Byte_reg), (0x1F402033, Named ''cdvd.key_33'', Byte_reg),
     (0x1F402034, Named ''cdvd.key_34'', Byte_reg), (0x1F402038, Named ''cdvd.key_38'', Byte_reg),
     (0x1F402039, Named ''cdvd.key_xor'', Byte_reg), (0x1F40203A, Named ''cdvd.dec_set'', Byte_reg)]"

text \<open>The whole map, in the order of the calls, and the bounds of its parts.\<close>

definition ee_segments :: "segment list" where
  "ee_segments =
    [(0x0, ee_main_memory_map, 0x2000000),
     (0x70000000, ee_scratchpad_memory_map, 0x70004000),
     (0x1FC00000, ee_various_roms_map, 0x20000000),
     (0x1E000000, ee_various_roms_map_2, 0x1E480000),
     (0x1A000000, ee_unknown_memory_map, 0x1A010000),
     (0x1000F100, ee_misc_ee_registers_map, 0x1000F200),
     (0x1000F400, ee_misc_ee_registers_map_2, 0x1000F500),
     (0x10000000, ee_timers_registers_map, 0x10001824),
     (0x10002000, ee_ipu_registers_map, 0x10002038),
     (0x10003000, ee_gif_registers_map, 0x100030A4),
     (0x10003800, ee_vif0_registers_map, 0x10003974),
     (0x10003C00, ee_vif1_registers_map, 0x10003D74),
     (0x10004000, ee_fifo_registers_map, 0x10007011),
     (0x10008000, ee_dmac_registers_map, 0x1000E064),
     (0x1000F000, ee_intc_registers_map, 0x1000F014),
     (0x1000F500, ee_dmac_registers_map_2, 0x1000F594),
     (0x11000000, ee_vu0_1_memory_map, 0x11010000),
     (0x12000000, ee_gs_privileged_registers_map, 0x12001088),
     (0x1F80141C, ee_misc_iop_registers_map, 0x1F803804),
     (0x1C000000, ee_main_memory_map_2, 0x1C200000),
     (0x1000F200, ee_sif_registers_map, 0x1000F384),
     (0x1F402004, ee_cdvd_registers_map, 0x1F40203B)]"

definition ee_map :: "mapping list" where
  "ee_map = mappings ee_segments"

section \<open>The parts are in order\<close>

lemma ascending_ee_main_memory_map: "ascending 0x0 ee_main_memory_map 0x2000000"
  by (simp add: ee_main_memory_map_def)

lemma ascending_ee_scratchpad_memory_map: "ascending 0x70000000 ee_scratchpad_memory_map 0x70004000"
  by (simp add: ee_scratchpad_memory_map_def)

lemma ascending_ee_various_roms_map: "ascending 0x1FC00000 ee_various_roms_map 0x20000000"
  by (simp add: ee_various_roms_map_def)

lemma ascending_ee_various_roms_map_2: "ascending 0x1E000000 ee_various_roms_map_2 0x1E480000"
  by (simp add: ee_various_roms_map_2_def)

lemma ascending_ee_unknown_memory_map: "ascending 0x1A000000 ee_unknown_memory_map 0x1A010000"
  by (simp add: ee_unknown_memory_map_def)

lemma ascending_ee_misc_ee_registers_map: "ascending 0x1000F100 ee_misc_ee_registers_map 0x1000F200"
  by (simp add: ee_misc_ee_registers_map_def)

lemma ascending_ee_misc_ee_registers_map_2: "ascending 0x1000F400 ee_misc_ee_registers_map_2 0x1000F500"
  by (simp add: ee_misc_ee_registers_map_2_def)

lemma ascending_ee_timers_registers_map: "ascending 0x10000000 ee_timers_registers_map 0x10001824"
  by (simp add: ee_timers_registers_map_def)

lemma ascending_ee_ipu_registers_map: "ascending 0x10002000 ee_ipu_registers_map 0x10002038"
  by (simp add: ee_ipu_registers_map_def)

lemma ascending_ee_gif_registers_map: "ascending 0x10003000 ee_gif_registers_map 0x100030A4"
  by (simp add: ee_gif_registers_map_def)

lemma ascending_ee_vif0_registers_map: "ascending 0x10003800 ee_vif0_registers_map 0x10003974"
  by (simp add: ee_vif0_registers_map_def)

lemma ascending_ee_vif1_registers_map: "ascending 0x10003C00 ee_vif1_registers_map 0x10003D74"
  by (simp add: ee_vif1_registers_map_def)

lemma ascending_ee_fifo_registers_map: "ascending 0x10004000 ee_fifo_registers_map 0x10007011"
  by (simp add: ee_fifo_registers_map_def)

lemma ascending_ee_dmac_registers_map: "ascending 0x10008000 ee_dmac_registers_map 0x1000E064"
  by (simp add: ee_dmac_registers_map_def)

lemma ascending_ee_intc_registers_map: "ascending 0x1000F000 ee_intc_registers_map 0x1000F014"
  by (simp add: ee_intc_registers_map_def)

lemma ascending_ee_dmac_registers_map_2: "ascending 0x1000F500 ee_dmac_registers_map_2 0x1000F594"
  by (simp add: ee_dmac_registers_map_2_def)

lemma ascending_ee_vu0_1_memory_map: "ascending 0x11000000 ee_vu0_1_memory_map 0x11010000"
  by (simp add: ee_vu0_1_memory_map_def)

lemma ascending_ee_gs_privileged_registers_map: "ascending 0x12000000 ee_gs_privileged_registers_map 0x12001088"
  by (simp add: ee_gs_privileged_registers_map_def)

lemma ascending_ee_misc_iop_registers_map: "ascending 0x1F80141C ee_misc_iop_registers_map 0x1F803804"
  by (simp add: ee_misc_iop_registers_map_def)

lemma ascending_ee_main_memory_map_2: "ascending 0x1C000000 ee_main_memory_map_2 0x1C200000"
  by (simp add: ee_main_memory_map_2_def)

lemma ascending_ee_sif_registers_map: "ascending 0x1000F200 ee_sif_registers_map 0x1000F384"
  by (simp add: ee_sif_registers_map_def)

lemma ascending_ee_cdvd_registers_map: "ascending 0x1F402004 ee_cdvd_registers_map 0x1F40203B"
  by (simp add: ee_cdvd_registers_map_def)

lemmas ee_ascending =
  ascending_ee_main_memory_map ascending_ee_scratchpad_memory_map ascending_ee_various_roms_map
  ascending_ee_various_roms_map_2 ascending_ee_unknown_memory_map ascending_ee_misc_ee_registers_map
  ascending_ee_misc_ee_registers_map_2 ascending_ee_timers_registers_map ascending_ee_ipu_registers_map
  ascending_ee_gif_registers_map ascending_ee_vif0_registers_map ascending_ee_vif1_registers_map
  ascending_ee_fifo_registers_map ascending_ee_dmac_registers_map ascending_ee_intc_registers_map
  ascending_ee_dmac_registers_map_2 ascending_ee_vu0_1_memory_map ascending_ee_gs_privileged_registers_map
  ascending_ee_misc_iop_registers_map ascending_ee_main_memory_map_2 ascending_ee_sif_registers_map
  ascending_ee_cdvd_registers_map

lemma ee_well_placed: "well_placed ee_segments"
  unfolding well_placed_def ee_segments_def
  by (simp add: ee_ascending)

definition ee_bus :: "uptr byte_bus res" where
  "ee_bus = initialise_bus 16 ee_map"

theorem ee_bus_correct:
  "\<exists>b. ee_bus = Inr b \<and> bus_objects b = map_objects ee_map \<and>
    (\<forall>(a, x)\<in>set ee_map. \<forall>k<kind_size (snd x).
       bus_locate (a + of_nat k) b = Inr (index_of x (map_resources ee_map), k))"
  unfolding ee_bus_def ee_map_def by (rule initialise_bus_correct[OF _ ee_well_placed]) simp

end
