(* ===== verification/IopAddressMap.thy ===== *)
theory IopAddressMap
  imports AddressMap
begin

text \<open>
  The physical address map of the IOP (\<open>initialise_iop\<close>): memories, the registers of its
  peripherals, the CDVD, the SPU2 and the SBUS.
\<close>

section \<open>The mappings\<close>

text \<open>
  The registers of the 24 voices of a core of the SPU2 lie one after the other, first the volume
  and envelope registers of every voice, elsewhere the addresses of every voice.
\<close>

definition VOICE_REGISTERS :: "string list" where
  "VOICE_REGISTERS = [''voll'', ''volr'', ''pitch'', ''adsr1'', ''adsr2'', ''envx'', ''volxl'', ''volxr'']"

definition VOICE_ADDRESSES :: "string list" where
  "VOICE_ADDRESSES = [''ssah'', ''ssal'', ''lsaxh'', ''lsaxl'', ''naxh'', ''naxl'']"

definition voice_registers :: "nat \<Rightarrow> uptr \<Rightarrow> string list \<Rightarrow> mapping list" where
  "voice_registers core base regs =
     concat (map (\<lambda>v. map (\<lambda>i. (base + of_nat (2 * (length regs * v + i)), Voice core v (regs ! i), Hword_reg))
       [0..<length regs]) [0..<24])"

lemma ascending_row:
  assumes "unat (base :: uptr) + 2 * (k + n) \<le> 2 ^ 32"
  shows "ascending (unat base + 2 * k) (map (\<lambda>i. (base + of_nat (2 * (k + i)), nm i, Hword_reg)) [0..<n])
    (unat base + 2 * (k + n))"
  using assms
proof (induction n)
  case (Suc n)
  have "unat (base + of_nat (2 * (k + n))) = unat base + 2 * (k + n)"
    using Suc.prems by (simp add: unat_word_ariths unat_of_nat)
  then have "ascending (unat base + 2 * (k + n)) [(base + of_nat (2 * (k + n)), nm n, Hword_reg)]
      (unat base + 2 * (k + Suc n))"
    by (simp del: of_nat_mult of_nat_add)
  with Suc show ?case
    by (simp del: of_nat_mult of_nat_add ascending.simps add: ascending_append)
qed simp

lemma ascending_rows:
  assumes "unat (base :: uptr) + 2 * (n * m) \<le> 2 ^ 32"
  shows "ascending (unat base) (concat (map (\<lambda>v. map (\<lambda>i. (base + of_nat (2 * (n * v + i)), nm v i, Hword_reg))
    [0..<n]) [0..<m])) (unat base + 2 * (n * m))"
  using assms
proof (induction m)
  case (Suc m)
  have "ascending (unat base + 2 * (n * m)) (map (\<lambda>i. (base + of_nat (2 * (n * m + i)), nm m i, Hword_reg)) [0..<n])
      (unat base + 2 * (n * m + n))"
    using Suc.prems by (intro ascending_row) simp
  with Suc show ?case
    by (simp del: of_nat_mult of_nat_add add: ascending_append add.commute)
qed simp

lemma ascending_voices:
  "lo = unat base \<Longrightarrow> lo + 48 * length regs \<le> 2 ^ 32 \<Longrightarrow> hi = lo + 48 * length regs \<Longrightarrow>
   ascending lo (voice_registers core base regs) hi"
  using ascending_rows[of base "length regs" 24 "\<lambda>v i. Voice core v (regs ! i)"]
  by (simp add: voice_registers_def del: of_nat_mult of_nat_add)

definition iop_main_memory_map :: "mapping list" where
  "iop_main_memory_map =
    [(0x00000000, Named ''iop.main_memory'', Memory 0x200000)]"

definition iop_various_roms_map :: "mapping list" where
  "iop_various_roms_map =
    [(0x1FC00000, Named ''boot_rom'', Memory 0x400000)]"

definition iop_various_roms_map_2 :: "mapping list" where
  "iop_various_roms_map_2 =
    [(0x1E000000, Named ''rom1'', Memory 0x40000)]"

definition iop_mirror_of_the_boot_map :: "mapping list" where
  "iop_mirror_of_the_boot_map =
    [(0xFFC00000, Named ''boot_rom'', Memory 0x400000)]"

definition iop_scratchpad_memory_map :: "mapping list" where
  "iop_scratchpad_memory_map =
    [(0x1F800000, Named ''iop.core.scratchpad_memory'', Memory 0x400)]"

definition iop_misc_iop_registers_map :: "mapping list" where
  "iop_misc_iop_registers_map =
    [(0x1F801000, Named ''iop.hw_ssbus_spd_addr'', Word_reg),
     (0x1F801004, Named ''iop.hw_ssbus_pio_addr'', Word_reg),
     (0x1F801008, Named ''iop.hw_ssbus_spd_delay'', Word_reg),
     (0x1F80100C, Named ''iop.hw_ssbus_dev1_delay'', Word_reg),
     (0x1F801010, Named ''iop.hw_ssbus_rom_delay'', Word_reg),
     (0x1F801014, Named ''iop.hw_ssbus_spu_delay'', Word_reg),
     (0x1F801018, Named ''iop.hw_ssbus_dev5_delay'', Word_reg),
     (0x1F80101C, Named ''iop.hw_ssbus_pio_delay'', Word_reg),
     (0x1F801020, Named ''iop.hw_ssbus_com_delay'', Word_reg)]"

definition iop_misc_iop_registers_map_2 :: "mapping list" where
  "iop_misc_iop_registers_map_2 =
    [(0x1F801060, Named ''iop.hw_ram_size'', Word_reg)]"

definition iop_misc_iop_registers_map_3 :: "mapping list" where
  "iop_misc_iop_registers_map_3 =
    [(0x1F801400, Named ''iop.hw_ssbus_dev1_addr'', Word_reg),
     (0x1F801404, Named ''iop.hw_ssbus_spu_addr'', Word_reg),
     (0x1F801408, Named ''iop.hw_ssbus_dev5_addr'', Word_reg),
     (0x1F80140C, Named ''iop.hw_ssbus_spu1_addr'', Word_reg),
     (0x1F801410, Named ''iop.hw_ssbus_dev9_addr3'', Word_reg),
     (0x1F801414, Named ''iop.hw_ssbus_spu1_delay'', Word_reg),
     (0x1F801418, Named ''iop.hw_ssbus_dev9_delay2'', Word_reg),
     (0x1F80141C, Named ''iop.hw_ssbus_dev9_delay3'', Word_reg),
     (0x1F801420, Named ''iop.hw_ssbus_dev9_delay1'', Word_reg),
     (0x1F801450, Named ''iop.hw_icfg'', Word_reg)]"

definition iop_misc_iop_registers_map_4 :: "mapping list" where
  "iop_misc_iop_registers_map_4 =
    [(0x1F801560, Named ''iop.register_1560'', Word_reg),
     (0x1F801564, Named ''iop.register_1564'', Word_reg),
     (0x1F801568, Named ''iop.register_1568'', Word_reg)]"

definition iop_misc_iop_registers_map_5 :: "mapping list" where
  "iop_misc_iop_registers_map_5 =
    [(0x1F8015F0, Named ''iop.register_15f0'', Word_reg),
     (0x1F802070, Named ''iop.register_2070'', Word_reg)]"

definition iop_dmac_registers_map :: "mapping list" where
  "iop_dmac_registers_map =
    [(0x1F801080, Named ''iop.dmac.channel_tomdec.madr'', Word_reg),
     (0x1F801084, Named ''iop.dmac.channel_tomdec.bcr'', Word_reg),
     (0x1F801088, Named ''iop.dmac.channel_tomdec.chcr'', Word_reg),
     (0x1F801090, Named ''iop.dmac.channel_frommdec.madr'', Word_reg),
     (0x1F801094, Named ''iop.dmac.channel_frommdec.bcr'', Word_reg),
     (0x1F801098, Named ''iop.dmac.channel_frommdec.chcr'', Word_reg),
     (0x1F8010A0, Named ''iop.dmac.channel_sif2.madr'', Word_reg),
     (0x1F8010A4, Named ''iop.dmac.channel_sif2.bcr'', Word_reg),
     (0x1F8010A8, Named ''iop.dmac.channel_sif2.chcr'', Word_reg),
     (0x1F8010B0, Named ''iop.dmac.channel_cdvd.madr'', Word_reg),
     (0x1F8010B4, Named ''iop.dmac.channel_cdvd.bcr'', Word_reg),
     (0x1F8010B8, Named ''iop.dmac.channel_cdvd.chcr'', Word_reg),
     (0x1F8010C0, Named ''iop.dmac.channel_spu2c0.madr'', Word_reg),
     (0x1F8010C4, Named ''iop.dmac.channel_spu2c0.bcr'', Word_reg),
     (0x1F8010C8, Named ''iop.dmac.channel_spu2c0.chcr'', Word_reg),
     (0x1F8010CC, Named ''iop.dmac.channel_spu2c0.tadr'', Word_reg),
     (0x1F8010D0, Named ''iop.dmac.channel_pio.madr'', Word_reg),
     (0x1F8010D4, Named ''iop.dmac.channel_pio.bcr'', Word_reg),
     (0x1F8010D8, Named ''iop.dmac.channel_pio.chcr'', Word_reg),
     (0x1F8010E0, Named ''iop.dmac.channel_otclear.madr'', Word_reg),
     (0x1F8010E4, Named ''iop.dmac.channel_otclear.bcr'', Word_reg),
     (0x1F8010E8, Named ''iop.dmac.channel_otclear.chcr'', Word_reg)]"

definition iop_dmac_registers_map_2 :: "mapping list" where
  "iop_dmac_registers_map_2 =
    [(0x1F801500, Named ''iop.dmac.channel_spu2c1.madr'', Word_reg),
     (0x1F801504, Named ''iop.dmac.channel_spu2c1.bcr'', Word_reg),
     (0x1F801508, Named ''iop.dmac.channel_spu2c1.chcr'', Word_reg),
     (0x1F801510, Named ''iop.dmac.channel_dev9.madr'', Word_reg),
     (0x1F801514, Named ''iop.dmac.channel_dev9.bcr'', Word_reg),
     (0x1F801518, Named ''iop.dmac.channel_dev9.chcr'', Word_reg),
     (0x1F801520, Named ''iop.dmac.channel_sif0.madr'', Word_reg),
     (0x1F801524, Named ''iop.dmac.channel_sif0.bcr'', Word_reg),
     (0x1F801528, Named ''iop.dmac.channel_sif0.chcr'', Word_reg),
     (0x1F80152C, Named ''iop.dmac.channel_sif0.tadr'', Word_reg),
     (0x1F801530, Named ''iop.dmac.channel_sif1.madr'', Word_reg),
     (0x1F801534, Named ''iop.dmac.channel_sif1.bcr'', Word_reg),
     (0x1F801538, Named ''iop.dmac.channel_sif1.chcr'', Word_reg),
     (0x1F801540, Named ''iop.dmac.channel_tosio2.madr'', Word_reg),
     (0x1F801544, Named ''iop.dmac.channel_tosio2.bcr'', Word_reg),
     (0x1F801548, Named ''iop.dmac.channel_tosio2.chcr'', Word_reg),
     (0x1F801550, Named ''iop.dmac.channel_fromsio2.madr'', Word_reg),
     (0x1F801554, Named ''iop.dmac.channel_fromsio2.bcr'', Word_reg),
     (0x1F801558, Named ''iop.dmac.channel_fromsio2.chcr'', Word_reg)]"

definition iop_dmac_registers_map_3 :: "mapping list" where
  "iop_dmac_registers_map_3 =
    [(0x1F8010F0, Named ''iop.dmac.pcr0'', Word_reg), (0x1F8010F4, Named ''iop.dmac.icr0'', Word_reg)]"

definition iop_dmac_registers_map_4 :: "mapping list" where
  "iop_dmac_registers_map_4 =
    [(0x1F801570, Named ''iop.dmac.pcr1'', Word_reg), (0x1F801574, Named ''iop.dmac.icr1'', Word_reg),
     (0x1F801578, Named ''iop.dmac.gctrl'', Word_reg)]"

definition iop_intc_registers_map :: "mapping list" where
  "iop_intc_registers_map =
    [(0x1F801070, Named ''iop.intc.stat'', Word_reg), (0x1F801074, Named ''iop.intc.mask'', Word_reg),
     (0x1F801078, Named ''iop.intc.ctrl'', Word_reg)]"

definition iop_cdvd_registers_map :: "mapping list" where
  "iop_cdvd_registers_map =
    [(0x1F402004, Named ''cdvd.n_command'', Byte_reg),
     (0x1F402005, Named ''cdvd.n_rdy_din'', Byte_reg), (0x1F402006, Named ''cdvd.n_data_out'', Queue),
     (0x1F402007, Named ''cdvd.break_'', Byte_reg), (0x1F402008, Named ''cdvd.intr_stat'', Byte_reg),
     (0x1F40200A, Named ''cdvd.status'', Byte_reg), (0x1F40200B, Named ''cdvd.tray_state'', Byte_reg),
     (0x1F40200C, Named ''cdvd.crt_minute'', Byte_reg),
     (0x1F40200D, Named ''cdvd.crt_second'', Byte_reg),
     (0x1F40200E, Named ''cdvd.crt_frame'', Byte_reg), (0x1F40200F, Named ''cdvd.type'', Byte_reg),
     (0x1F402013, Named ''cdvd.register_2013'', Byte_reg), (0x1F402015, Named ''cdvd.rsv'', Byte_reg),
     (0x1F402016, Named ''cdvd.s_command'', Byte_reg),
     (0x1F402017, Named ''cdvd.s_rdy_din'', Byte_reg), (0x1F402018, Named ''cdvd.s_data_out'', Queue),
     (0x1F402020, Named ''cdvd.key_20'', Byte_reg), (0x1F402021, Named ''cdvd.key_21'', Byte_reg),
     (0x1F402022, Named ''cdvd.key_22'', Byte_reg), (0x1F402023, Named ''cdvd.key_23'', Byte_reg),
     (0x1F402024, Named ''cdvd.key_24'', Byte_reg), (0x1F402028, Named ''cdvd.key_28'', Byte_reg),
     (0x1F402029, Named ''cdvd.key_29'', Byte_reg), (0x1F40202A, Named ''cdvd.key_2a'', Byte_reg),
     (0x1F40202B, Named ''cdvd.key_2b'', Byte_reg), (0x1F40202C, Named ''cdvd.key_2c'', Byte_reg),
     (0x1F402030, Named ''cdvd.key_30'', Byte_reg), (0x1F402031, Named ''cdvd.key_31'', Byte_reg),
     (0x1F402032, Named ''cdvd.key_32'', Byte_reg), (0x1F402033, Named ''cdvd.key_33'', Byte_reg),
     (0x1F402034, Named ''cdvd.key_34'', Byte_reg), (0x1F402038, Named ''cdvd.key_38'', Byte_reg),
     (0x1F402039, Named ''cdvd.key_xor'', Byte_reg), (0x1F40203A, Named ''cdvd.dec_set'', Byte_reg)]"

definition iop_spu2_core_0_voice_registers :: "mapping list" where
  "iop_spu2_core_0_voice_registers = voice_registers 0 0x1F900000 VOICE_REGISTERS"

definition iop_spu2_core_0_map :: "mapping list" where
  "iop_spu2_core_0_map =
    [(0x1F900180, Named ''spu2.core_0.pmon0'', Hword_reg),
     (0x1F900182, Named ''spu2.core_0.pmon1'', Hword_reg),
     (0x1F900184, Named ''spu2.core_0.non0'', Hword_reg),
     (0x1F900186, Named ''spu2.core_0.non1'', Hword_reg),
     (0x1F900188, Named ''spu2.core_0.vmixl0'', Hword_reg),
     (0x1F90018A, Named ''spu2.core_0.vmixl1'', Hword_reg),
     (0x1F90018C, Named ''spu2.core_0.vmixel0'', Hword_reg),
     (0x1F90018E, Named ''spu2.core_0.vmixel1'', Hword_reg),
     (0x1F900190, Named ''spu2.core_0.vmixr0'', Hword_reg),
     (0x1F900192, Named ''spu2.core_0.vmixr1'', Hword_reg),
     (0x1F900194, Named ''spu2.core_0.vmixer0'', Hword_reg),
     (0x1F900196, Named ''spu2.core_0.vmixer1'', Hword_reg),
     (0x1F900198, Named ''spu2.core_0.mmix'', Hword_reg),
     (0x1F90019A, Named ''spu2.core_0.attr'', Hword_reg),
     (0x1F90019C, Named ''spu2.core_0.irqah'', Hword_reg),
     (0x1F90019E, Named ''spu2.core_0.irqal'', Hword_reg),
     (0x1F9001A0, Named ''spu2.core_0.kon0'', Hword_reg),
     (0x1F9001A2, Named ''spu2.core_0.kon1'', Hword_reg),
     (0x1F9001A4, Named ''spu2.core_0.kof0'', Hword_reg),
     (0x1F9001A6, Named ''spu2.core_0.kof1'', Hword_reg),
     (0x1F9001A8, Named ''spu2.core_0.tsah'', Hword_reg),
     (0x1F9001AA, Named ''spu2.core_0.tsal'', Hword_reg),
     (0x1F9001AC, Named ''spu2.core_0.data0'', Hword_reg),
     (0x1F9001AE, Named ''spu2.core_0.data1'', Hword_reg),
     (0x1F9001B0, Named ''spu2.core_0.admas'', Hword_reg)]"

definition iop_spu2_core_0_voice_addresses :: "mapping list" where
  "iop_spu2_core_0_voice_addresses = voice_registers 0 0x1F9001C0 VOICE_ADDRESSES"

definition iop_spu2_core_0_map_2 :: "mapping list" where
  "iop_spu2_core_0_map_2 =
    [(0x1F9002E0, Named ''spu2.core_0.esah'', Hword_reg),
     (0x1F9002E2, Named ''spu2.core_0.esal'', Hword_reg),
     (0x1F9002E4, Named ''spu2.core_0.apf1_sizeh'', Hword_reg),
     (0x1F9002E6, Named ''spu2.core_0.apf1_sizel'', Hword_reg),
     (0x1F9002E8, Named ''spu2.core_0.apf2_sizeh'', Hword_reg),
     (0x1F9002EA, Named ''spu2.core_0.apf2_sizel'', Hword_reg),
     (0x1F9002EC, Named ''spu2.core_0.same_l_dsth'', Hword_reg),
     (0x1F9002EE, Named ''spu2.core_0.same_l_dstl'', Hword_reg),
     (0x1F9002F0, Named ''spu2.core_0.same_r_dsth'', Hword_reg),
     (0x1F9002F2, Named ''spu2.core_0.same_r_dstl'', Hword_reg),
     (0x1F9002F4, Named ''spu2.core_0.comb1_l_srch'', Hword_reg),
     (0x1F9002F6, Named ''spu2.core_0.comb1_l_srcl'', Hword_reg),
     (0x1F9002F8, Named ''spu2.core_0.comb1_r_srch'', Hword_reg),
     (0x1F9002FA, Named ''spu2.core_0.comb1_r_srcl'', Hword_reg),
     (0x1F9002FC, Named ''spu2.core_0.comb2_l_srch'', Hword_reg),
     (0x1F9002FE, Named ''spu2.core_0.comb2_l_srcl'', Hword_reg),
     (0x1F900300, Named ''spu2.core_0.comb2_r_srch'', Hword_reg),
     (0x1F900302, Named ''spu2.core_0.comb2_r_srcl'', Hword_reg),
     (0x1F900304, Named ''spu2.core_0.same_l_srch'', Hword_reg),
     (0x1F900306, Named ''spu2.core_0.same_l_srcl'', Hword_reg),
     (0x1F900308, Named ''spu2.core_0.same_r_srch'', Hword_reg),
     (0x1F90030A, Named ''spu2.core_0.same_r_srcl'', Hword_reg),
     (0x1F90030C, Named ''spu2.core_0.diff_l_dsth'', Hword_reg),
     (0x1F90030E, Named ''spu2.core_0.diff_l_dstl'', Hword_reg),
     (0x1F900310, Named ''spu2.core_0.diff_r_dsth'', Hword_reg),
     (0x1F900312, Named ''spu2.core_0.diff_r_dstl'', Hword_reg),
     (0x1F900314, Named ''spu2.core_0.comb3_l_srch'', Hword_reg),
     (0x1F900316, Named ''spu2.core_0.comb3_l_srcl'', Hword_reg),
     (0x1F900318, Named ''spu2.core_0.comb3_r_srch'', Hword_reg),
     (0x1F90031A, Named ''spu2.core_0.comb3_r_srcl'', Hword_reg),
     (0x1F90031C, Named ''spu2.core_0.comb4_l_srch'', Hword_reg),
     (0x1F90031E, Named ''spu2.core_0.comb4_l_srcl'', Hword_reg),
     (0x1F900320, Named ''spu2.core_0.comb4_r_srch'', Hword_reg),
     (0x1F900322, Named ''spu2.core_0.comb4_r_srcl'', Hword_reg),
     (0x1F900324, Named ''spu2.core_0.diff_l_srch'', Hword_reg),
     (0x1F900326, Named ''spu2.core_0.diff_l_srcl'', Hword_reg),
     (0x1F900328, Named ''spu2.core_0.diff_r_srch'', Hword_reg),
     (0x1F90032A, Named ''spu2.core_0.diff_r_srcl'', Hword_reg),
     (0x1F90032C, Named ''spu2.core_0.apf1_l_dsth'', Hword_reg),
     (0x1F90032E, Named ''spu2.core_0.apf1_l_dstl'', Hword_reg),
     (0x1F900330, Named ''spu2.core_0.apf1_r_dsth'', Hword_reg),
     (0x1F900332, Named ''spu2.core_0.apf1_r_dstl'', Hword_reg),
     (0x1F900334, Named ''spu2.core_0.apf2_l_dsth'', Hword_reg),
     (0x1F900336, Named ''spu2.core_0.apf2_l_dstl'', Hword_reg),
     (0x1F900338, Named ''spu2.core_0.apf2_r_dsth'', Hword_reg),
     (0x1F90033A, Named ''spu2.core_0.apf2_r_dstl'', Hword_reg),
     (0x1F90033C, Named ''spu2.core_0.eeah'', Hword_reg),
     (0x1F90033E, Named ''spu2.core_0.eeal'', Hword_reg),
     (0x1F900340, Named ''spu2.core_0.endx0'', Hword_reg),
     (0x1F900342, Named ''spu2.core_0.endx1'', Hword_reg),
     (0x1F900344, Named ''spu2.core_0.statx'', Hword_reg)]"

definition iop_spu2_misc_map :: "mapping list" where
  "iop_spu2_misc_map =
    [(0x1F900346, Named ''spu2.memory_0346'', Memory 0xBA)]"

definition iop_spu2_core_1_voice_registers :: "mapping list" where
  "iop_spu2_core_1_voice_registers = voice_registers 1 0x1F900400 VOICE_REGISTERS"

definition iop_spu2_core_1_map :: "mapping list" where
  "iop_spu2_core_1_map =
    [(0x1F900580, Named ''spu2.core_1.pmon0'', Hword_reg),
     (0x1F900582, Named ''spu2.core_1.pmon1'', Hword_reg),
     (0x1F900584, Named ''spu2.core_1.non0'', Hword_reg),
     (0x1F900586, Named ''spu2.core_1.non1'', Hword_reg),
     (0x1F900588, Named ''spu2.core_1.vmixl0'', Hword_reg),
     (0x1F90058A, Named ''spu2.core_1.vmixl1'', Hword_reg),
     (0x1F90058C, Named ''spu2.core_1.vmixel0'', Hword_reg),
     (0x1F90058E, Named ''spu2.core_1.vmixel1'', Hword_reg),
     (0x1F900590, Named ''spu2.core_1.vmixr0'', Hword_reg),
     (0x1F900592, Named ''spu2.core_1.vmixr1'', Hword_reg),
     (0x1F900594, Named ''spu2.core_1.vmixer0'', Hword_reg),
     (0x1F900596, Named ''spu2.core_1.vmixer1'', Hword_reg),
     (0x1F900598, Named ''spu2.core_1.mmix'', Hword_reg),
     (0x1F90059A, Named ''spu2.core_1.attr'', Hword_reg),
     (0x1F90059C, Named ''spu2.core_1.irqah'', Hword_reg),
     (0x1F90059E, Named ''spu2.core_1.irqal'', Hword_reg),
     (0x1F9005A0, Named ''spu2.core_1.kon0'', Hword_reg),
     (0x1F9005A2, Named ''spu2.core_1.kon1'', Hword_reg),
     (0x1F9005A4, Named ''spu2.core_1.kof0'', Hword_reg),
     (0x1F9005A6, Named ''spu2.core_1.kof1'', Hword_reg),
     (0x1F9005A8, Named ''spu2.core_1.tsah'', Hword_reg),
     (0x1F9005AA, Named ''spu2.core_1.tsal'', Hword_reg),
     (0x1F9005AC, Named ''spu2.core_1.data0'', Hword_reg),
     (0x1F9005AE, Named ''spu2.core_1.data1'', Hword_reg),
     (0x1F9005B0, Named ''spu2.core_1.admas'', Hword_reg)]"

definition iop_spu2_core_1_voice_addresses :: "mapping list" where
  "iop_spu2_core_1_voice_addresses = voice_registers 1 0x1F9005C0 VOICE_ADDRESSES"

definition iop_spu2_core_1_map_2 :: "mapping list" where
  "iop_spu2_core_1_map_2 =
    [(0x1F9006E0, Named ''spu2.core_1.esah'', Hword_reg),
     (0x1F9006E2, Named ''spu2.core_1.esal'', Hword_reg),
     (0x1F9006E4, Named ''spu2.core_1.apf1_sizeh'', Hword_reg),
     (0x1F9006E6, Named ''spu2.core_1.apf1_sizel'', Hword_reg),
     (0x1F9006E8, Named ''spu2.core_1.apf2_sizeh'', Hword_reg),
     (0x1F9006EA, Named ''spu2.core_1.apf2_sizel'', Hword_reg),
     (0x1F9006EC, Named ''spu2.core_1.same_l_dsth'', Hword_reg),
     (0x1F9006EE, Named ''spu2.core_1.same_l_dstl'', Hword_reg),
     (0x1F9006F0, Named ''spu2.core_1.same_r_dsth'', Hword_reg),
     (0x1F9006F2, Named ''spu2.core_1.same_r_dstl'', Hword_reg),
     (0x1F9006F4, Named ''spu2.core_1.comb1_l_srch'', Hword_reg),
     (0x1F9006F6, Named ''spu2.core_1.comb1_l_srcl'', Hword_reg),
     (0x1F9006F8, Named ''spu2.core_1.comb1_r_srch'', Hword_reg),
     (0x1F9006FA, Named ''spu2.core_1.comb1_r_srcl'', Hword_reg),
     (0x1F9006FC, Named ''spu2.core_1.comb2_l_srch'', Hword_reg),
     (0x1F9006FE, Named ''spu2.core_1.comb2_l_srcl'', Hword_reg),
     (0x1F900700, Named ''spu2.core_1.comb2_r_srch'', Hword_reg),
     (0x1F900702, Named ''spu2.core_1.comb2_r_srcl'', Hword_reg),
     (0x1F900704, Named ''spu2.core_1.same_l_srch'', Hword_reg),
     (0x1F900706, Named ''spu2.core_1.same_l_srcl'', Hword_reg),
     (0x1F900708, Named ''spu2.core_1.same_r_srch'', Hword_reg),
     (0x1F90070A, Named ''spu2.core_1.same_r_srcl'', Hword_reg),
     (0x1F90070C, Named ''spu2.core_1.diff_l_dsth'', Hword_reg),
     (0x1F90070E, Named ''spu2.core_1.diff_l_dstl'', Hword_reg),
     (0x1F900710, Named ''spu2.core_1.diff_r_dsth'', Hword_reg),
     (0x1F900712, Named ''spu2.core_1.diff_r_dstl'', Hword_reg),
     (0x1F900714, Named ''spu2.core_1.comb3_l_srch'', Hword_reg),
     (0x1F900716, Named ''spu2.core_1.comb3_l_srcl'', Hword_reg),
     (0x1F900718, Named ''spu2.core_1.comb3_r_srch'', Hword_reg),
     (0x1F90071A, Named ''spu2.core_1.comb3_r_srcl'', Hword_reg),
     (0x1F90071C, Named ''spu2.core_1.comb4_l_srch'', Hword_reg),
     (0x1F90071E, Named ''spu2.core_1.comb4_l_srcl'', Hword_reg),
     (0x1F900720, Named ''spu2.core_1.comb4_r_srch'', Hword_reg),
     (0x1F900722, Named ''spu2.core_1.comb4_r_srcl'', Hword_reg),
     (0x1F900724, Named ''spu2.core_1.diff_l_srch'', Hword_reg),
     (0x1F900726, Named ''spu2.core_1.diff_l_srcl'', Hword_reg),
     (0x1F900728, Named ''spu2.core_1.diff_r_srch'', Hword_reg),
     (0x1F90072A, Named ''spu2.core_1.diff_r_srcl'', Hword_reg),
     (0x1F90072C, Named ''spu2.core_1.apf1_l_dsth'', Hword_reg),
     (0x1F90072E, Named ''spu2.core_1.apf1_l_dstl'', Hword_reg),
     (0x1F900730, Named ''spu2.core_1.apf1_r_dsth'', Hword_reg),
     (0x1F900732, Named ''spu2.core_1.apf1_r_dstl'', Hword_reg),
     (0x1F900734, Named ''spu2.core_1.apf2_l_dsth'', Hword_reg),
     (0x1F900736, Named ''spu2.core_1.apf2_l_dstl'', Hword_reg),
     (0x1F900738, Named ''spu2.core_1.apf2_r_dsth'', Hword_reg),
     (0x1F90073A, Named ''spu2.core_1.apf2_r_dstl'', Hword_reg),
     (0x1F90073C, Named ''spu2.core_1.eeah'', Hword_reg),
     (0x1F90073E, Named ''spu2.core_1.eeal'', Hword_reg),
     (0x1F900740, Named ''spu2.core_1.endx0'', Hword_reg),
     (0x1F900742, Named ''spu2.core_1.endx1'', Hword_reg),
     (0x1F900744, Named ''spu2.core_1.statx'', Hword_reg)]"

definition iop_spu2_misc_map_2 :: "mapping list" where
  "iop_spu2_misc_map_2 =
    [(0x1F900746, Named ''spu2.memory_0746'', Memory 0x1A)]"

definition iop_spu2_core_0_map_3 :: "mapping list" where
  "iop_spu2_core_0_map_3 =
    [(0x1F900760, Named ''spu2.core_0.mvoll'', Hword_reg),
     (0x1F900762, Named ''spu2.core_0.mvolr'', Hword_reg),
     (0x1F900764, Named ''spu2.core_0.evoll'', Hword_reg),
     (0x1F900766, Named ''spu2.core_0.evolr'', Hword_reg),
     (0x1F900768, Named ''spu2.core_0.avoll'', Hword_reg),
     (0x1F90076A, Named ''spu2.core_0.avolr'', Hword_reg),
     (0x1F90076C, Named ''spu2.core_0.bvoll'', Hword_reg),
     (0x1F90076E, Named ''spu2.core_0.bvolr'', Hword_reg),
     (0x1F900770, Named ''spu2.core_0.mvolxl'', Hword_reg),
     (0x1F900772, Named ''spu2.core_0.mvolxr'', Hword_reg),
     (0x1F900774, Named ''spu2.core_0.iir_vol'', Hword_reg),
     (0x1F900776, Named ''spu2.core_0.comb1_vol'', Hword_reg),
     (0x1F900778, Named ''spu2.core_0.comb2_vol'', Hword_reg),
     (0x1F90077A, Named ''spu2.core_0.comb3_vol'', Hword_reg),
     (0x1F90077C, Named ''spu2.core_0.comb4_vol'', Hword_reg),
     (0x1F90077E, Named ''spu2.core_0.wall_vol'', Hword_reg),
     (0x1F900780, Named ''spu2.core_0.apf1_vol'', Hword_reg),
     (0x1F900782, Named ''spu2.core_0.apf2_vol'', Hword_reg),
     (0x1F900784, Named ''spu2.core_0.in_coef_l'', Hword_reg),
     (0x1F900786, Named ''spu2.core_0.in_coef_r'', Hword_reg)]"

definition iop_spu2_core_1_map_3 :: "mapping list" where
  "iop_spu2_core_1_map_3 =
    [(0x1F900788, Named ''spu2.core_1.mvoll'', Hword_reg),
     (0x1F90078A, Named ''spu2.core_1.mvolr'', Hword_reg),
     (0x1F90078C, Named ''spu2.core_1.evoll'', Hword_reg),
     (0x1F90078E, Named ''spu2.core_1.evolr'', Hword_reg),
     (0x1F900790, Named ''spu2.core_1.avoll'', Hword_reg),
     (0x1F900792, Named ''spu2.core_1.avolr'', Hword_reg),
     (0x1F900794, Named ''spu2.core_1.bvoll'', Hword_reg),
     (0x1F900796, Named ''spu2.core_1.bvolr'', Hword_reg),
     (0x1F900798, Named ''spu2.core_1.mvolxl'', Hword_reg),
     (0x1F90079A, Named ''spu2.core_1.mvolxr'', Hword_reg),
     (0x1F90079C, Named ''spu2.core_1.iir_vol'', Hword_reg),
     (0x1F90079E, Named ''spu2.core_1.comb1_vol'', Hword_reg),
     (0x1F9007A0, Named ''spu2.core_1.comb2_vol'', Hword_reg),
     (0x1F9007A2, Named ''spu2.core_1.comb3_vol'', Hword_reg),
     (0x1F9007A4, Named ''spu2.core_1.comb4_vol'', Hword_reg),
     (0x1F9007A6, Named ''spu2.core_1.wall_vol'', Hword_reg),
     (0x1F9007A8, Named ''spu2.core_1.apf1_vol'', Hword_reg),
     (0x1F9007AA, Named ''spu2.core_1.apf2_vol'', Hword_reg),
     (0x1F9007AC, Named ''spu2.core_1.in_coef_l'', Hword_reg),
     (0x1F9007AE, Named ''spu2.core_1.in_coef_r'', Hword_reg)]"

definition iop_spu2_misc_map_3 :: "mapping list" where
  "iop_spu2_misc_map_3 =
    [(0x1F9007B0, Named ''spu2.memory_07b0'', Memory 0x10),
     (0x1F9007C0, Named ''spu2.spdif_out'', Hword_reg),
     (0x1F9007C2, Named ''spu2.spdif_irqinfo'', Hword_reg),
     (0x1F9007C4, Named ''spu2.spdif_07c4'', Hword_reg),
     (0x1F9007C6, Named ''spu2.spdif_mode'', Hword_reg),
     (0x1F9007C8, Named ''spu2.spdif_media'', Hword_reg),
     (0x1F9007CA, Named ''spu2.spdif_07ca'', Hword_reg),
     (0x1F9007CC, Named ''spu2.spdif_protect'', Hword_reg),
     (0x1F9007CE, Named ''spu2.memory_07ce'', Memory 0x32),
     (0x1F900B46, Named ''spu2.memory_0346'', Memory 0xBA)]"

definition iop_timers_registers_map :: "mapping list" where
  "iop_timers_registers_map =
    [(0x1F801100, Named ''iop.timers.unit_0.count'', Word_reg),
     (0x1F801104, Named ''iop.timers.unit_0.mode'', Word_reg),
     (0x1F801108, Named ''iop.timers.unit_0.compare'', Word_reg),
     (0x1F801110, Named ''iop.timers.unit_1.count'', Word_reg),
     (0x1F801114, Named ''iop.timers.unit_1.mode'', Word_reg),
     (0x1F801118, Named ''iop.timers.unit_1.compare'', Word_reg),
     (0x1F801120, Named ''iop.timers.unit_2.count'', Word_reg),
     (0x1F801124, Named ''iop.timers.unit_2.mode'', Word_reg),
     (0x1F801128, Named ''iop.timers.unit_2.compare'', Word_reg)]"

definition iop_timers_registers_map_2 :: "mapping list" where
  "iop_timers_registers_map_2 =
    [(0x1F801480, Named ''iop.timers.unit_3.count'', Word_reg),
     (0x1F801484, Named ''iop.timers.unit_3.mode'', Word_reg),
     (0x1F801488, Named ''iop.timers.unit_3.compare'', Word_reg),
     (0x1F801490, Named ''iop.timers.unit_4.count'', Word_reg),
     (0x1F801494, Named ''iop.timers.unit_4.mode'', Word_reg),
     (0x1F801498, Named ''iop.timers.unit_4.compare'', Word_reg),
     (0x1F8014A0, Named ''iop.timers.unit_5.count'', Word_reg),
     (0x1F8014A4, Named ''iop.timers.unit_5.mode'', Word_reg),
     (0x1F8014A8, Named ''iop.timers.unit_5.compare'', Word_reg)]"

definition iop_parallel_port_map :: "mapping list" where
  "iop_parallel_port_map =
    [(0x1F000000, Named ''iop.parallel_port'', Memory 0x10000)]"

definition iop_sio_registers_map :: "mapping list" where
  "iop_sio_registers_map =
    [(0x1F801040, Named ''iop.sio0.data'', Byte_reg), (0x1F801044, Named ''iop.sio0.stat'', Hword_reg),
     (0x1F801048, Named ''iop.sio0.mode'', Hword_reg),
     (0x1F80104C, Named ''iop.sio0.ctrl'', Hword_reg)]"

definition iop_sio2_registers_map :: "mapping list" where
  "iop_sio2_registers_map =
    [(0x1F808200, Named ''iop.sio2.port_0.ctrl_3'', Word_reg),
     (0x1F808204, Named ''iop.sio2.port_1.ctrl_3'', Word_reg),
     (0x1F808208, Named ''iop.sio2.port_2.ctrl_3'', Word_reg),
     (0x1F80820C, Named ''iop.sio2.port_3.ctrl_3'', Word_reg),
     (0x1F808210, Named ''iop.sio2.port_4.ctrl_3'', Word_reg),
     (0x1F808214, Named ''iop.sio2.port_5.ctrl_3'', Word_reg),
     (0x1F808218, Named ''iop.sio2.port_6.ctrl_3'', Word_reg),
     (0x1F80821C, Named ''iop.sio2.port_7.ctrl_3'', Word_reg),
     (0x1F808220, Named ''iop.sio2.port_8.ctrl_3'', Word_reg),
     (0x1F808224, Named ''iop.sio2.port_9.ctrl_3'', Word_reg),
     (0x1F808228, Named ''iop.sio2.port_a.ctrl_3'', Word_reg),
     (0x1F80822C, Named ''iop.sio2.port_b.ctrl_3'', Word_reg),
     (0x1F808230, Named ''iop.sio2.port_c.ctrl_3'', Word_reg),
     (0x1F808234, Named ''iop.sio2.port_d.ctrl_3'', Word_reg),
     (0x1F808238, Named ''iop.sio2.port_e.ctrl_3'', Word_reg),
     (0x1F80823C, Named ''iop.sio2.port_f.ctrl_3'', Word_reg),
     (0x1F808240, Named ''iop.sio2.port_0.ctrl_1'', Word_reg),
     (0x1F808244, Named ''iop.sio2.port_0.ctrl_2'', Word_reg),
     (0x1F808248, Named ''iop.sio2.port_1.ctrl_1'', Word_reg),
     (0x1F80824C, Named ''iop.sio2.port_1.ctrl_2'', Word_reg),
     (0x1F808250, Named ''iop.sio2.port_2.ctrl_1'', Word_reg),
     (0x1F808254, Named ''iop.sio2.port_2.ctrl_2'', Word_reg),
     (0x1F808258, Named ''iop.sio2.port_3.ctrl_1'', Word_reg),
     (0x1F80825C, Named ''iop.sio2.port_3.ctrl_2'', Word_reg),
     (0x1F808260, Named ''fifo_tosio2'', Queue), (0x1F808264, Named ''fifo_fromsio2'', Queue),
     (0x1F808268, Named ''iop.sio2.ctrl'', Word_reg), (0x1F80826C, Named ''iop.sio2.recv1'', Word_reg),
     (0x1F808270, Named ''iop.sio2.recv2'', Word_reg),
     (0x1F808274, Named ''iop.sio2.recv3'', Word_reg),
     (0x1F808278, Named ''iop.sio2.register_8278'', Word_reg),
     (0x1F80827C, Named ''iop.sio2.register_827c'', Word_reg),
     (0x1F808280, Named ''iop.sio2.intr'', Word_reg)]"

definition iop_sif_registers_map :: "mapping list" where
  "iop_sif_registers_map =
    [(0x1D000000, Named ''sbus_mscom'', Word_reg), (0x1D000010, Named ''sbus_smcom'', Word_reg),
     (0x1D000020, Named ''sbus_msflg'', Word_reg), (0x1D000030, Named ''sbus_smflg'', Word_reg),
     (0x1D000040, Named ''sbus_f240'', Word_reg), (0x1D000060, Named ''sbus_f260'', Word_reg)]"

text \<open>The whole map, in the order of the calls, and the bounds of its parts.\<close>

definition iop_segments :: "segment list" where
  "iop_segments =
    [(0x0, iop_main_memory_map, 0x200000),
     (0x1FC00000, iop_various_roms_map, 0x20000000),
     (0x1E000000, iop_various_roms_map_2, 0x1E040000),
     (0xFFC00000, iop_mirror_of_the_boot_map, 0x100000000),
     (0x1F800000, iop_scratchpad_memory_map, 0x1F800400),
     (0x1F801000, iop_misc_iop_registers_map, 0x1F801024),
     (0x1F801060, iop_misc_iop_registers_map_2, 0x1F801064),
     (0x1F801400, iop_misc_iop_registers_map_3, 0x1F801454),
     (0x1F801560, iop_misc_iop_registers_map_4, 0x1F80156C),
     (0x1F8015F0, iop_misc_iop_registers_map_5, 0x1F802074),
     (0x1F801080, iop_dmac_registers_map, 0x1F8010EC),
     (0x1F801500, iop_dmac_registers_map_2, 0x1F80155C),
     (0x1F8010F0, iop_dmac_registers_map_3, 0x1F8010F8),
     (0x1F801570, iop_dmac_registers_map_4, 0x1F80157C),
     (0x1F801070, iop_intc_registers_map, 0x1F80107C),
     (0x1F402004, iop_cdvd_registers_map, 0x1F40203B),
     (0x1F900000, iop_spu2_core_0_voice_registers, 0x1F900180),
     (0x1F900180, iop_spu2_core_0_map, 0x1F9001B2),
     (0x1F9001C0, iop_spu2_core_0_voice_addresses, 0x1F9002E0),
     (0x1F9002E0, iop_spu2_core_0_map_2, 0x1F900346),
     (0x1F900346, iop_spu2_misc_map, 0x1F900400),
     (0x1F900400, iop_spu2_core_1_voice_registers, 0x1F900580),
     (0x1F900580, iop_spu2_core_1_map, 0x1F9005B2),
     (0x1F9005C0, iop_spu2_core_1_voice_addresses, 0x1F9006E0),
     (0x1F9006E0, iop_spu2_core_1_map_2, 0x1F900746),
     (0x1F900746, iop_spu2_misc_map_2, 0x1F900760),
     (0x1F900760, iop_spu2_core_0_map_3, 0x1F900788),
     (0x1F900788, iop_spu2_core_1_map_3, 0x1F9007B0),
     (0x1F9007B0, iop_spu2_misc_map_3, 0x1F900C00),
     (0x1F801100, iop_timers_registers_map, 0x1F80112C),
     (0x1F801480, iop_timers_registers_map_2, 0x1F8014AC),
     (0x1F000000, iop_parallel_port_map, 0x1F010000),
     (0x1F801040, iop_sio_registers_map, 0x1F80104E),
     (0x1F808200, iop_sio2_registers_map, 0x1F808284),
     (0x1D000000, iop_sif_registers_map, 0x1D000064)]"

definition iop_map :: "mapping list" where
  "iop_map = mappings iop_segments"

section \<open>The parts are in order\<close>

lemma ascending_iop_main_memory_map: "ascending 0x0 iop_main_memory_map 0x200000"
  by (simp add: iop_main_memory_map_def)

lemma ascending_iop_various_roms_map: "ascending 0x1FC00000 iop_various_roms_map 0x20000000"
  by (simp add: iop_various_roms_map_def)

lemma ascending_iop_various_roms_map_2: "ascending 0x1E000000 iop_various_roms_map_2 0x1E040000"
  by (simp add: iop_various_roms_map_2_def)

lemma ascending_iop_mirror_of_the_boot_map: "ascending 0xFFC00000 iop_mirror_of_the_boot_map 0x100000000"
  by (simp add: iop_mirror_of_the_boot_map_def)

lemma ascending_iop_scratchpad_memory_map: "ascending 0x1F800000 iop_scratchpad_memory_map 0x1F800400"
  by (simp add: iop_scratchpad_memory_map_def)

lemma ascending_iop_misc_iop_registers_map: "ascending 0x1F801000 iop_misc_iop_registers_map 0x1F801024"
  by (simp add: iop_misc_iop_registers_map_def)

lemma ascending_iop_misc_iop_registers_map_2: "ascending 0x1F801060 iop_misc_iop_registers_map_2 0x1F801064"
  by (simp add: iop_misc_iop_registers_map_2_def)

lemma ascending_iop_misc_iop_registers_map_3: "ascending 0x1F801400 iop_misc_iop_registers_map_3 0x1F801454"
  by (simp add: iop_misc_iop_registers_map_3_def)

lemma ascending_iop_misc_iop_registers_map_4: "ascending 0x1F801560 iop_misc_iop_registers_map_4 0x1F80156C"
  by (simp add: iop_misc_iop_registers_map_4_def)

lemma ascending_iop_misc_iop_registers_map_5: "ascending 0x1F8015F0 iop_misc_iop_registers_map_5 0x1F802074"
  by (simp add: iop_misc_iop_registers_map_5_def)

lemma ascending_iop_dmac_registers_map: "ascending 0x1F801080 iop_dmac_registers_map 0x1F8010EC"
  by (simp add: iop_dmac_registers_map_def)

lemma ascending_iop_dmac_registers_map_2: "ascending 0x1F801500 iop_dmac_registers_map_2 0x1F80155C"
  by (simp add: iop_dmac_registers_map_2_def)

lemma ascending_iop_dmac_registers_map_3: "ascending 0x1F8010F0 iop_dmac_registers_map_3 0x1F8010F8"
  by (simp add: iop_dmac_registers_map_3_def)

lemma ascending_iop_dmac_registers_map_4: "ascending 0x1F801570 iop_dmac_registers_map_4 0x1F80157C"
  by (simp add: iop_dmac_registers_map_4_def)

lemma ascending_iop_intc_registers_map: "ascending 0x1F801070 iop_intc_registers_map 0x1F80107C"
  by (simp add: iop_intc_registers_map_def)

lemma ascending_iop_cdvd_registers_map: "ascending 0x1F402004 iop_cdvd_registers_map 0x1F40203B"
  by (simp add: iop_cdvd_registers_map_def)

lemma ascending_iop_spu2_core_0_voice_registers: "ascending 0x1F900000 iop_spu2_core_0_voice_registers 0x1F900180"
  unfolding iop_spu2_core_0_voice_registers_def by (rule ascending_voices) (simp_all add: VOICE_REGISTERS_def)

lemma ascending_iop_spu2_core_0_map: "ascending 0x1F900180 iop_spu2_core_0_map 0x1F9001B2"
  by (simp add: iop_spu2_core_0_map_def)

lemma ascending_iop_spu2_core_0_voice_addresses: "ascending 0x1F9001C0 iop_spu2_core_0_voice_addresses 0x1F9002E0"
  unfolding iop_spu2_core_0_voice_addresses_def by (rule ascending_voices) (simp_all add: VOICE_ADDRESSES_def)

lemma ascending_iop_spu2_core_0_map_2: "ascending 0x1F9002E0 iop_spu2_core_0_map_2 0x1F900346"
  by (simp add: iop_spu2_core_0_map_2_def)

lemma ascending_iop_spu2_misc_map: "ascending 0x1F900346 iop_spu2_misc_map 0x1F900400"
  by (simp add: iop_spu2_misc_map_def)

lemma ascending_iop_spu2_core_1_voice_registers: "ascending 0x1F900400 iop_spu2_core_1_voice_registers 0x1F900580"
  unfolding iop_spu2_core_1_voice_registers_def by (rule ascending_voices) (simp_all add: VOICE_REGISTERS_def)

lemma ascending_iop_spu2_core_1_map: "ascending 0x1F900580 iop_spu2_core_1_map 0x1F9005B2"
  by (simp add: iop_spu2_core_1_map_def)

lemma ascending_iop_spu2_core_1_voice_addresses: "ascending 0x1F9005C0 iop_spu2_core_1_voice_addresses 0x1F9006E0"
  unfolding iop_spu2_core_1_voice_addresses_def by (rule ascending_voices) (simp_all add: VOICE_ADDRESSES_def)

lemma ascending_iop_spu2_core_1_map_2: "ascending 0x1F9006E0 iop_spu2_core_1_map_2 0x1F900746"
  by (simp add: iop_spu2_core_1_map_2_def)

lemma ascending_iop_spu2_misc_map_2: "ascending 0x1F900746 iop_spu2_misc_map_2 0x1F900760"
  by (simp add: iop_spu2_misc_map_2_def)

lemma ascending_iop_spu2_core_0_map_3: "ascending 0x1F900760 iop_spu2_core_0_map_3 0x1F900788"
  by (simp add: iop_spu2_core_0_map_3_def)

lemma ascending_iop_spu2_core_1_map_3: "ascending 0x1F900788 iop_spu2_core_1_map_3 0x1F9007B0"
  by (simp add: iop_spu2_core_1_map_3_def)

lemma ascending_iop_spu2_misc_map_3: "ascending 0x1F9007B0 iop_spu2_misc_map_3 0x1F900C00"
  by (simp add: iop_spu2_misc_map_3_def)

lemma ascending_iop_timers_registers_map: "ascending 0x1F801100 iop_timers_registers_map 0x1F80112C"
  by (simp add: iop_timers_registers_map_def)

lemma ascending_iop_timers_registers_map_2: "ascending 0x1F801480 iop_timers_registers_map_2 0x1F8014AC"
  by (simp add: iop_timers_registers_map_2_def)

lemma ascending_iop_parallel_port_map: "ascending 0x1F000000 iop_parallel_port_map 0x1F010000"
  by (simp add: iop_parallel_port_map_def)

lemma ascending_iop_sio_registers_map: "ascending 0x1F801040 iop_sio_registers_map 0x1F80104E"
  by (simp add: iop_sio_registers_map_def)

lemma ascending_iop_sio2_registers_map: "ascending 0x1F808200 iop_sio2_registers_map 0x1F808284"
  by (simp add: iop_sio2_registers_map_def)

lemma ascending_iop_sif_registers_map: "ascending 0x1D000000 iop_sif_registers_map 0x1D000064"
  by (simp add: iop_sif_registers_map_def)

lemmas iop_ascending =
  ascending_iop_main_memory_map ascending_iop_various_roms_map ascending_iop_various_roms_map_2
  ascending_iop_mirror_of_the_boot_map ascending_iop_scratchpad_memory_map ascending_iop_misc_iop_registers_map
  ascending_iop_misc_iop_registers_map_2 ascending_iop_misc_iop_registers_map_3 ascending_iop_misc_iop_registers_map_4
  ascending_iop_misc_iop_registers_map_5 ascending_iop_dmac_registers_map ascending_iop_dmac_registers_map_2
  ascending_iop_dmac_registers_map_3 ascending_iop_dmac_registers_map_4 ascending_iop_intc_registers_map
  ascending_iop_cdvd_registers_map ascending_iop_spu2_core_0_voice_registers ascending_iop_spu2_core_0_map
  ascending_iop_spu2_core_0_voice_addresses ascending_iop_spu2_core_0_map_2 ascending_iop_spu2_misc_map
  ascending_iop_spu2_core_1_voice_registers ascending_iop_spu2_core_1_map ascending_iop_spu2_core_1_voice_addresses
  ascending_iop_spu2_core_1_map_2 ascending_iop_spu2_misc_map_2 ascending_iop_spu2_core_0_map_3
  ascending_iop_spu2_core_1_map_3 ascending_iop_spu2_misc_map_3 ascending_iop_timers_registers_map
  ascending_iop_timers_registers_map_2 ascending_iop_parallel_port_map ascending_iop_sio_registers_map
  ascending_iop_sio2_registers_map ascending_iop_sif_registers_map

lemma iop_well_placed: "well_placed iop_segments"
  unfolding well_placed_def iop_segments_def
  by (simp add: iop_ascending)

definition iop_bus :: "uptr byte_bus res" where
  "iop_bus = initialise_bus 16 iop_map"

theorem iop_bus_correct:
  "\<exists>b. iop_bus = Inr b \<and> bus_objects b = map_objects iop_map \<and>
    (\<forall>(a, x)\<in>set iop_map. \<forall>k<kind_size (snd x).
       bus_locate (a + of_nat k) b = Inr (index_of x (map_resources iop_map), k))"
  unfolding iop_bus_def iop_map_def by (rule initialise_bus_correct[OF _ iop_well_placed]) simp

end
