(* ===== verification/Queues.thy ===== *)
theory Queues
  imports Memory
begin

text \<open>
  The queue classes as the code has them: \<open>MpmcQueue\<close> (\<open>utilities/src/Queues.hpp\<close>), whose storage is
  a \<open>boost::lockfree::spsc_queue\<close>, and \<open>DmaFifoQueue\<close> and \<open>FifoQueue\<close> over it
  (\<open>Common/Types/FifoQueue/*.hpp\<close>), seen from one thread and with the default arguments (no
  timeout, no callback).  The boost queue is not code of the repository: it is a record of its
  five operations, and what its documentation promises of them is the locale \<open>spsc_queue\<close>.  For
  every queue that keeps the promise the classes answer, operation by operation and errors
  included, what the \<open>bounded_queue\<close> of the theory Memory answers, on which the buses and the
  DMA controllers are modelled.
\<close>

section \<open>The storage\<close>

record ('a, 'q) spsc =
  spsc_push :: "'a \<Rightarrow> 'q \<Rightarrow> bool \<times> 'q"
  spsc_pop :: "'q \<Rightarrow> 'a option \<times> 'q"
  spsc_read_available :: "'q \<Rightarrow> nat"
  spsc_write_available :: "'q \<Rightarrow> nat"
  spsc_reset :: "'q \<Rightarrow> 'q"

text \<open>
  A queue of capacity \<open>cap\<close>: a push fails exactly when the queue is full and a pop exactly when it
  is empty, the elements come out in the order they went in, and the two counts are those of
  the elements held and of the room left.
\<close>

locale spsc_queue =
  fixes store :: "('a, 'q) spsc" and cap :: nat and held :: "'q \<Rightarrow> 'a list" and valid :: "'q \<Rightarrow> bool"
  assumes fits: "valid q \<Longrightarrow> length (held q) \<le> cap"
    and push_room: "valid q \<Longrightarrow> length (held q) < cap \<Longrightarrow>
      \<exists>q'. spsc_push store x q = (True, q') \<and> valid q' \<and> held q' = held q @ [x]"
    and push_full: "valid q \<Longrightarrow> length (held q) = cap \<Longrightarrow> fst (spsc_push store x q) = False"
    and pop_item: "valid q \<Longrightarrow> held q = x # xs \<Longrightarrow>
      \<exists>q'. spsc_pop store q = (Some x, q') \<and> valid q' \<and> held q' = xs"
    and pop_empty: "valid q \<Longrightarrow> held q = [] \<Longrightarrow> fst (spsc_pop store q) = None"
    and read_count: "valid q \<Longrightarrow> spsc_read_available store q = length (held q)"
    and write_count: "valid q \<Longrightarrow> spsc_write_available store q = cap - length (held q)"
    and reset_empty: "valid q \<Longrightarrow> valid (spsc_reset store q) \<and> held (spsc_reset store q) = []"

section \<open>MpmcQueue\<close>

definition mpmc_has_read_available :: "('a, 'q) spsc \<Rightarrow> nat \<Rightarrow> 'q \<Rightarrow> bool" where
  "mpmc_has_read_available store n_items queue \<longleftrightarrow> spsc_read_available store queue \<ge> n_items"

definition mpmc_has_write_available :: "('a, 'q) spsc \<Rightarrow> nat \<Rightarrow> 'q \<Rightarrow> bool" where
  "mpmc_has_write_available store n_items queue \<longleftrightarrow> spsc_write_available store queue \<ge> n_items"

definition mpmc_is_empty :: "('a, 'q) spsc \<Rightarrow> 'q \<Rightarrow> bool" where
  "mpmc_is_empty store queue \<longleftrightarrow> \<not> mpmc_has_read_available store 1 queue"

definition mpmc_is_full :: "('a, 'q) spsc \<Rightarrow> 'q \<Rightarrow> bool" where
  "mpmc_is_full store queue \<longleftrightarrow> \<not> mpmc_has_write_available store 1 queue"

definition mpmc_pop_locked :: "('a, 'q) spsc \<Rightarrow> 'q \<Rightarrow> ('a \<times> 'q) res" where
  "mpmc_pop_locked store queue =
     (case spsc_pop store queue of
        (None, queue') \<Rightarrow> Inl Runtime_error
      | (Some item, queue') \<Rightarrow> Inr (item, queue'))"

definition mpmc_push_locked :: "('a, 'q) spsc \<Rightarrow> 'a \<Rightarrow> 'q \<Rightarrow> 'q res" where
  "mpmc_push_locked store item queue =
     (let (pushed, queue') = spsc_push store item queue
      in if \<not> pushed then Inl Runtime_error else Inr queue')"

definition mpmc_try_pop :: "('a, 'q) spsc \<Rightarrow> 'q \<Rightarrow> ('a option \<times> 'q) res" where
  "mpmc_try_pop store queue =
     (if \<not> mpmc_is_empty store queue
      then bind_res (mpmc_pop_locked store queue) (\<lambda>(item, queue'). Inr (Some item, queue'))
      else Inr (None, queue))"

definition mpmc_try_push :: "('a, 'q) spsc \<Rightarrow> 'a \<Rightarrow> 'q \<Rightarrow> (bool \<times> 'q) res" where
  "mpmc_try_push store item queue =
     (if \<not> mpmc_is_full store queue
      then bind_res (mpmc_push_locked store item queue) (\<lambda>queue'. Inr (True, queue'))
      else Inr (False, queue))"

definition mpmc_reset :: "('a, 'q) spsc \<Rightarrow> 'q \<Rightarrow> 'q" where
  "mpmc_reset store queue = spsc_reset store queue"

section \<open>DmaFifoQueue and FifoQueue\<close>

definition dma_queue_initialize :: "(ubyte, 'q) spsc \<Rightarrow> 'q \<Rightarrow> 'q" where
  "dma_queue_initialize store fifo_queue = mpmc_reset store fifo_queue"

definition dma_queue_read_ubyte :: "(ubyte, 'q) spsc \<Rightarrow> 'q \<Rightarrow> (ubyte \<times> 'q) res" where
  "dma_queue_read_ubyte store fifo_queue =
     bind_res (mpmc_try_pop store fifo_queue) (\<lambda>(popped, fifo_queue').
       case popped of None \<Rightarrow> Inl Runtime_error | Some data \<Rightarrow> Inr (data, fifo_queue'))"

definition dma_queue_write_ubyte :: "(ubyte, 'q) spsc \<Rightarrow> ubyte \<Rightarrow> 'q \<Rightarrow> 'q res" where
  "dma_queue_write_ubyte store data fifo_queue =
     bind_res (mpmc_try_push store data fifo_queue) (\<lambda>(pushed, fifo_queue').
       if \<not> pushed then Inl Runtime_error else Inr fifo_queue')"

definition dma_queue_has_read_available :: "(ubyte, 'q) spsc \<Rightarrow> nat \<Rightarrow> 'q \<Rightarrow> bool" where
  "dma_queue_has_read_available store n_bytes = mpmc_has_read_available store n_bytes"

definition dma_queue_has_write_available :: "(ubyte, 'q) spsc \<Rightarrow> nat \<Rightarrow> 'q \<Rightarrow> bool" where
  "dma_queue_has_write_available store n_bytes = mpmc_has_write_available store n_bytes"

fun dma_queue_read :: "(ubyte, 'q) spsc \<Rightarrow> nat \<Rightarrow> 'q \<Rightarrow> (ubyte list \<times> 'q) res" where
  "dma_queue_read store 0 q = Inr ([], q)"
| "dma_queue_read store (Suc n) q =
     bind_res (dma_queue_read_ubyte store q) (\<lambda>(b, q1).
       bind_res (dma_queue_read store n q1) (\<lambda>(bs, q2). Inr (b # bs, q2)))"

fun dma_queue_write :: "(ubyte, 'q) spsc \<Rightarrow> ubyte list \<Rightarrow> 'q \<Rightarrow> 'q res" where
  "dma_queue_write store [] q = Inr q"
| "dma_queue_write store (b # bs) q =
     bind_res (dma_queue_write_ubyte store b q) (dma_queue_write store bs)"

section \<open>Sequences of operations\<close>

datatype queue_op = Op_write "ubyte list" | Op_read nat | Op_initialize | Op_has_read nat | Op_has_write nat

datatype queue_answer = Done | Bytes "ubyte list" | Answer bool

fun dma_queue_op :: "(ubyte, 'q) spsc \<Rightarrow> queue_op \<Rightarrow> 'q \<Rightarrow> (queue_answer \<times> 'q) res" where
  "dma_queue_op store (Op_write bs) q = bind_res (dma_queue_write store bs q) (\<lambda>q'. Inr (Done, q'))"
| "dma_queue_op store (Op_read n) q = bind_res (dma_queue_read store n q) (\<lambda>(bs, q'). Inr (Bytes bs, q'))"
| "dma_queue_op store Op_initialize q = Inr (Done, dma_queue_initialize store q)"
| "dma_queue_op store (Op_has_read n) q = Inr (Answer (dma_queue_has_read_available store n q), q)"
| "dma_queue_op store (Op_has_write n) q = Inr (Answer (dma_queue_has_write_available store n q), q)"

fun fifo_op :: "queue_op \<Rightarrow> dma_fifo \<Rightarrow> (queue_answer \<times> dma_fifo) res" where
  "fifo_op (Op_write bs) q = bind_res (fifo_write bs q) (\<lambda>q'. Inr (Done, q'))"
| "fifo_op (Op_read n) q = bind_res (fifo_read n q) (\<lambda>(bs, q'). Inr (Bytes bs, q'))"
| "fifo_op Op_initialize q = Inr (Done, queue_reset q)"
| "fifo_op (Op_has_read n) q = Inr (Answer (has_read_available n q), q)"
| "fifo_op (Op_has_write n) q = Inr (Answer (has_write_available n q), q)"

fun run_ops :: "('o \<Rightarrow> 'q \<Rightarrow> ('r \<times> 'q) res) \<Rightarrow> 'o list \<Rightarrow> 'q \<Rightarrow> ('r list \<times> 'q) res" where
  "run_ops f [] q = Inr ([], q)"
| "run_ops f (p # ps) q =
     bind_res (f p q) (\<lambda>(r, q1). bind_res (run_ops f ps q1) (\<lambda>(rs, q2). Inr (r # rs, q2)))"

text \<open>Two results agree: the same error, or the same answer and storage that holds the model's queue.\<close>

definition same_answer ::
    "('q \<Rightarrow> 'm \<Rightarrow> bool) \<Rightarrow> ('r \<times> 'q) res \<Rightarrow> ('r \<times> 'm) res \<Rightarrow> bool" where
  "same_answer R x y \<longleftrightarrow>
     (case (x, y) of
        (Inl e, Inl e') \<Rightarrow> e = e'
      | (Inr (r, q), Inr (r', m)) \<Rightarrow> r = r' \<and> R q m
      | _ \<Rightarrow> False)"

lemma same_answer_simps [simp]:
  "same_answer R (Inl e) (Inl e') \<longleftrightarrow> e = e'"
  "same_answer R (Inr (r, q)) (Inr (r', m)) \<longleftrightarrow> r = r' \<and> R q m"
  "\<not> same_answer R (Inl e) (Inr y)" "\<not> same_answer R (Inr x) (Inl e)"
  by (simp_all add: same_answer_def split: prod.split)

lemma same_answer_bind:
  assumes "same_answer R x y" and "\<And>r q m. R q m \<Longrightarrow> same_answer S (f (r, q)) (g (r, m))"
  shows "same_answer S (bind_res x f) (bind_res y g)"
  using assms by (cases x; cases y) auto

lemma run_ops_same:
  assumes "\<And>p q m. R q m \<Longrightarrow> same_answer R (f p q) (g p m)" and "R q m"
  shows "same_answer R (run_ops f ps q) (run_ops g ps m)"
  using assms(2)
proof (induction ps arbitrary: q m)
  case (Cons p ps)
  show ?case
    unfolding run_ops.simps
  proof (rule same_answer_bind[OF assms(1)[OF Cons.prems]], unfold split)
    fix r q m assume "R q m"
    from Cons.IH[OF this]
    show "same_answer R (bind_res (run_ops f ps q) (\<lambda>(rs, q2). Inr (r # rs, q2)))
        (bind_res (run_ops g ps m) (\<lambda>(rs, q2). Inr (r # rs, q2)))"
      by (rule same_answer_bind) simp
  qed
qed simp

section \<open>The classes over a lawful storage\<close>

text \<open>The storage holds the elements of the model's queue, of the same capacity.\<close>

definition queue_stands_for ::
    "nat \<Rightarrow> ('q \<Rightarrow> 'a list) \<Rightarrow> ('q \<Rightarrow> bool) \<Rightarrow> 'q \<Rightarrow> 'a bounded_queue \<Rightarrow> bool" where
  "queue_stands_for cap held valid q m \<longleftrightarrow> valid q \<and> m = \<lparr>q_items = held q, q_capacity = cap\<rparr>"

context spsc_queue
begin

abbreviation stands_for :: "'q \<Rightarrow> 'a bounded_queue \<Rightarrow> bool" where
  "stands_for \<equiv> queue_stands_for cap held valid"

lemmas stands_for_def = queue_stands_for_def

lemma mpmc_counts:
  assumes "stands_for q m"
  shows "mpmc_has_read_available store n q = has_read_available n m"
    and "mpmc_has_write_available store n q = has_write_available n m"
    and "mpmc_is_empty store q = queue_is_empty m" and "mpmc_is_full store q = queue_is_full m"
  using assms
  by (simp_all add: stands_for_def mpmc_has_read_available_def mpmc_has_write_available_def mpmc_is_empty_def
      mpmc_is_full_def queue_defs read_count write_count)

text \<open>A pop of the model's queue is a successful \<open>try_pop\<close>; the inner throw is never reached.\<close>

lemma try_pop_same:
  assumes "stands_for q m"
  shows "case queue_try_pop m of
      None \<Rightarrow> mpmc_try_pop store q = Inr (None, q)
    | Some (x, m') \<Rightarrow> \<exists>q'. mpmc_try_pop store q = Inr (Some x, q') \<and> stands_for q' m'"
proof (cases "held q")
  case Nil
  then show ?thesis
    using assms by (simp add: mpmc_try_pop_def mpmc_counts(3)[OF assms] queue_defs stands_for_def)
next
  case (Cons x xs)
  then obtain q' where "spsc_pop store q = (Some x, q')" "valid q'" "held q' = xs"
    using pop_item assms unfolding stands_for_def by blast
  then show ?thesis
    using assms Cons by (simp add: mpmc_try_pop_def mpmc_counts(3)[OF assms] mpmc_pop_locked_def queue_defs stands_for_def)
qed

lemma try_push_same:
  assumes "stands_for q m"
  shows "case queue_try_push x m of
      None \<Rightarrow> mpmc_try_push store x q = Inr (False, q)
    | Some m' \<Rightarrow> \<exists>q'. mpmc_try_push store x q = Inr (True, q') \<and> stands_for q' m'"
proof (cases "length (held q) < cap")
  case False
  then show ?thesis
    using assms by (simp add: mpmc_try_push_def mpmc_counts(4)[OF assms] queue_defs stands_for_def)
next
  case True
  then obtain q' where "spsc_push store x q = (True, q')" "valid q'" "held q' = held q @ [x]"
    using push_room assms unfolding stands_for_def by blast
  then show ?thesis
    using assms True by (simp add: mpmc_try_push_def mpmc_counts(4)[OF assms] mpmc_push_locked_def queue_defs stands_for_def)
qed

end

text \<open>The byte queue.\<close>

locale dma_queue = spsc_queue store cap held valid
  for store :: "(ubyte, 'q) spsc" and cap :: nat and held :: "'q \<Rightarrow> ubyte list" and valid :: "'q \<Rightarrow> bool"
begin

lemma read_ubyte_same:
  "stands_for q m \<Longrightarrow> same_answer stands_for (dma_queue_read_ubyte store q) (fifo_read_ubyte m)"
  using try_pop_same[of q m]
  by (auto simp: dma_queue_read_ubyte_def fifo_read_ubyte_def split: option.splits)

lemma write_ubyte_same:
  assumes "stands_for q m"
  shows "same_answer stands_for (bind_res (dma_queue_write_ubyte store b q) (\<lambda>q. Inr ((), q)))
    (bind_res (fifo_write_ubyte b m) (\<lambda>m. Inr ((), m)))"
  using try_push_same[OF assms, of b]
  by (auto simp: dma_queue_write_ubyte_def fifo_write_ubyte_def split: option.splits)

lemma read_same: "stands_for q m \<Longrightarrow> same_answer stands_for (dma_queue_read store n q) (fifo_read n m)"
proof (induction n arbitrary: q m)
  case (Suc n)
  show ?case
    unfolding dma_queue_read.simps fifo_read.simps
  proof (rule same_answer_bind[OF read_ubyte_same[OF Suc.prems]], unfold split)
    fix b q m assume "stands_for q m"
    from Suc.IH[OF this]
    show "same_answer stands_for (bind_res (dma_queue_read store n q) (\<lambda>(bs, q2). Inr (b # bs, q2)))
        (bind_res (fifo_read n m) (\<lambda>(bs, q2). Inr (b # bs, q2)))"
      by (rule same_answer_bind) simp
  qed
qed simp

lemma write_same:
  "stands_for q m \<Longrightarrow> same_answer stands_for (bind_res (dma_queue_write store bs q) (\<lambda>q. Inr (r, q)))
    (bind_res (fifo_write bs m) (\<lambda>m. Inr (r, m)))"
proof (induction bs arbitrary: q m)
  case (Cons b bs)
  show ?case
    using write_ubyte_same[OF Cons.prems, of b] Cons.IH
    by (cases "dma_queue_write_ubyte store b q"; cases "fifo_write_ubyte b m") auto
qed simp

lemma op_same: "stands_for q m \<Longrightarrow> same_answer stands_for (dma_queue_op store p q) (fifo_op p m)"
proof (cases p)
  case (Op_write bs)
  then show "stands_for q m \<Longrightarrow> same_answer stands_for (dma_queue_op store p q) (fifo_op p m)"
    by (simp add: write_same)
next
  case (Op_read n)
  then show "stands_for q m \<Longrightarrow> same_answer stands_for (dma_queue_op store p q) (fifo_op p m)"
    by (auto intro: same_answer_bind[OF read_same])
next
  case Op_initialize
  then show "stands_for q m \<Longrightarrow> same_answer stands_for (dma_queue_op store p q) (fifo_op p m)"
    using reset_empty[of q] by (simp add: dma_queue_initialize_def mpmc_reset_def queue_reset_def stands_for_def)
qed (simp_all add: dma_queue_has_read_available_def dma_queue_has_write_available_def mpmc_counts)

lemma ops_same: "stands_for q m \<Longrightarrow> same_answer stands_for (run_ops (dma_queue_op store) ps q) (run_ops fifo_op ps m)"
  by (rule run_ops_same[OF op_same])

end

section \<open>Storages that keep the promise\<close>

text \<open>The list of the model, and a ring with one slot more than its capacity.\<close>

definition list_store :: "nat \<Rightarrow> ('a, 'a list) spsc" where
  "list_store cap =
     \<lparr>spsc_push = (\<lambda>x q. if length q < cap then (True, q @ [x]) else (False, q)),
      spsc_pop = (\<lambda>q. case q of [] \<Rightarrow> (None, []) | x # xs \<Rightarrow> (Some x, xs)),
      spsc_read_available = length, spsc_write_available = (\<lambda>q. cap - length q), spsc_reset = (\<lambda>_. [])\<rparr>"

interpretation listq: dma_queue "list_store cap" cap "\<lambda>q. q" "\<lambda>q. length q \<le> cap" for cap
  by unfold_locales (auto simp: list_store_def)

record 'a ring =
  ring_slots :: "'a list"
  ring_read :: nat
  ring_count :: nat

definition ring_items :: "'a ring \<Rightarrow> 'a list" where
  "ring_items r = map (\<lambda>i. ring_slots r ! ((ring_read r + i) mod length (ring_slots r))) [0..<ring_count r]"

definition ring_valid :: "nat \<Rightarrow> 'a ring \<Rightarrow> bool" where
  "ring_valid cap r \<longleftrightarrow> length (ring_slots r) = Suc cap \<and> ring_count r \<le> cap"

definition ring_store :: "nat \<Rightarrow> ('a, 'a ring) spsc" where
  "ring_store cap =
     \<lparr>spsc_push = (\<lambda>x r.
        if ring_count r = cap then (False, r)
        else (True, r\<lparr>ring_slots := (ring_slots r)[(ring_read r + ring_count r) mod Suc cap := x],
                     ring_count := ring_count r + 1\<rparr>)),
      spsc_pop = (\<lambda>r.
        if ring_count r = 0 then (None, r)
        else (Some (ring_slots r ! (ring_read r mod Suc cap)),
              r\<lparr>ring_read := (ring_read r + 1) mod Suc cap, ring_count := ring_count r - 1\<rparr>)),
      spsc_read_available = ring_count, spsc_write_available = (\<lambda>r. cap - ring_count r),
      spsc_reset = (\<lambda>r. r\<lparr>ring_read := 0, ring_count := 0\<rparr>)\<rparr>"

lemma length_ring_items [simp]: "length (ring_items r) = ring_count r"
  by (simp add: ring_items_def)

lemma ring_positions: "i < k \<Longrightarrow> k \<le> cap \<Longrightarrow> (a + i) mod Suc cap \<noteq> (a + k) mod Suc cap"
proof
  assume "i < k" "k \<le> cap" and e: "(a + i) mod Suc cap = (a + k) mod Suc cap"
  then have "Suc cap dvd (a + k) - (a + i)" by (metis mod_eq_dvd_iff_nat less_imp_le nat_add_left_cancel_le)
  then have "Suc cap dvd k - i" by simp
  then have "Suc cap \<le> k - i" using \<open>i < k\<close> by (meson dvd_imp_le zero_less_diff)
  then show False using \<open>k \<le> cap\<close> by simp
qed

interpretation ringq: dma_queue "ring_store cap" cap ring_items "ring_valid cap" for cap
proof unfold_locales
  fix q :: "ubyte ring" and x xs
  assume v: "ring_valid cap q"
  show "length (ring_items q) \<le> cap" using v by (simp add: ring_valid_def)
  show "\<exists>q'. spsc_push (ring_store cap) x q = (True, q') \<and> ring_valid cap q' \<and> ring_items q' = ring_items q @ [x]"
    if "length (ring_items q) < cap"
    using that v not_sym[OF ring_positions[of _ "ring_count q" cap "ring_read q"]]
    by (auto simp: ring_store_def ring_valid_def ring_items_def nth_list_update)
  show "\<exists>q'. spsc_pop (ring_store cap) q = (Some x, q') \<and> ring_valid cap q' \<and> ring_items q' = xs"
    if "ring_items q = x # xs"
  proof -
    have n: "ring_count q = Suc (length xs)" using length_ring_items[of q] unfolding that by simp
    have "x # xs = ring_slots q ! (ring_read q mod Suc cap) #
        map (\<lambda>i. ring_slots q ! ((ring_read q + Suc i) mod Suc cap)) [0..<length xs]"
      using that v unfolding ring_items_def n ring_valid_def upt_rec[of 0 "Suc (length xs)"]
      by (simp add: map_Suc_upt[symmetric] comp_def del: upt_Suc)
    then show ?thesis using v n by (simp add: ring_store_def ring_valid_def ring_items_def mod_simps)
  qed
qed (auto simp: ring_store_def ring_valid_def simp flip: length_0_conv)

end
