(* ===== verification/EeUnaligned.thy ===== *)
theory EeUnaligned
  imports EeMemory
begin

text \<open>
  The pairs of instructions a compiler emits for an unaligned load (\<open>LWR\<close> and \<open>LWL\<close>, \<open>LDR\<close> and
  \<open>LDL\<close> of \<open>CEeCoreInterpreter_LOAD_MEM.cpp\<close>): run one after the other they load the value at
  the unaligned address.
\<close>

section \<open>One load from array memory\<close>

lemma bus_read_memory:
  assumes "bus_locate pa b = Inr (x, off)" and "bus_objects b ! x = Memory_obj m"
  shows "mem_read_uword off m = Inr v \<Longrightarrow> bus_read_uword pa b = Inr (v, b)"
    and "mem_read_udword off m = Inr w \<Longrightarrow> bus_read_udword pa b = Inr (w, b)"
  using assms list_update_id[of "bus_objects b" x]
  by (simp_all add: bus_read_uword_def bus_read_udword_def bus_read_with_def same_obj_def)

lemma load_step:
  assumes "translate_address_data va READ s = Inr (Some pa, s0)" and "rd pa (e_bus s) = Inr (v, e_bus s)"
    and "s0 = s\<lparr>e_tcd := c\<rparr>"
  shows "with_address va READ (\<lambda>pa. ee_read rd pa (\<lambda>v s. Inr (f v s))) s = Inr (f v (s\<lparr>e_tcd := c\<rparr>))"
  using assms by (simp add: with_address_def ee_read_def)

lemma read_low_word: "src_w n 0 s = ucast (src_d n 0 s)"
  by (simp add: q_defs reg_read_lane_def get_lane_def) (rule bit_word_eqI, simp add: bit_simps)

lemma dest_low_word: "ee_ok s \<Longrightarrow> n \<noteq> 0 \<Longrightarrow> src_w n 0 (dest_d n (scast (v :: uword)) s) = v"
  unfolding read_low_word dest_get(5) by (rule bit_word_eqI) (auto simp: bit_simps)

text \<open>The shifts of the two instructions at an address that is not aligned.\<close>

lemma and_mod: "unat (va AND 3) = unat (va :: uptr) mod 4" "unat (va AND 7) = unat va mod 8"
proof -
  have "va AND 3 = take_bit 2 va" "va AND 7 = take_bit 3 va"
    by (simp_all add: take_bit_eq_mask mask_eq_exp_minus_1)
  then show "unat (va AND 3) = unat va mod 4" "unat (va AND 7) = unat va mod 8"
    by (simp_all add: unat_mod take_bit_eq_mod)
qed

lemma shifts:
  "word_shift va = 8 * (unat va mod 4)" "dword_shift va = 8 * (unat va mod 8)"
proof -
  have "unat va mod 4 < 4" "unat va mod 8 < 8" by simp_all
  then show "word_shift va = 8 * (unat va mod 4)" "dword_shift va = 8 * (unat va mod 8)"
    unfolding word_shift_def dword_shift_def push_bit_eq_mult unat_word_ariths
    by (simp_all add: and_mod)
qed

lemma next_mod:
  "unat (va :: uptr) mod 4 \<noteq> 0 \<Longrightarrow> unat (va + 3) mod 4 = unat va mod 4 - 1"
  "unat va mod 8 \<noteq> 0 \<Longrightarrow> unat (va + 7) mod 8 = unat va mod 8 - 1"
  by (simp_all add: unat_word_ariths mod_mod_cancel) presburger+

section \<open>The pair\<close>

text \<open>
  The setting: two instructions with the same base and target, the second with an immediate
  larger by \<open>n - 1\<close>; an address that is not a multiple of \<open>n\<close>; and the two aligned words around
  it next to each other in one memory, the first translated in the state \<open>s\<close> before the pair,
  the second in the state \<open>s1\<close> between the two.  \<open>al\<close> is the mask that aligns an address.
\<close>

definition unaligned_pair ::
    "nat \<Rightarrow> uptr \<Rightarrow> instruction \<Rightarrow> instruction \<Rightarrow> ee_state \<Rightarrow> ee_state \<Rightarrow> nat \<Rightarrow> byte_memory \<Rightarrow> bool" where
  "unaligned_pair n al i j s s1 off m \<longleftrightarrow>
     inst_rs j = inst_rs i \<and> inst_rt j = inst_rt i \<and> inst_rt i \<noteq> 0 \<and> inst_rs i \<noteq> inst_rt i \<and>
     (scast (inst_s_imm j) :: uptr) = scast (inst_s_imm i) + of_nat (n - 1) \<and>
     unat (effective_address i s) mod n \<noteq> 0 \<and>
     (\<exists>pa0 s0 pa1 s2 x.
       translate_address_data (effective_address i s AND al) READ s = Inr (Some pa0, s0) \<and>
       bus_locate pa0 (e_bus s) = Inr (x, off) \<and>
       translate_address_data ((effective_address i s + of_nat (n - 1)) AND al) READ s1 = Inr (Some pa1, s2) \<and>
       bus_locate pa1 (e_bus s) = Inr (x, off + n) \<and>
       bus_objects (e_bus s) ! x = Memory_obj m \<and> off + 2 * n \<le> mem_size m)"

lemma LWR_then_LWL:
  assumes ok: "ee_ok s" and r: "LWR i s = Inr s1" and p: "unaligned_pair 4 0xFFFFFFFC i j s s1 off m"
  shows "\<exists>s2 w. LWL j s1 = Inr s2 \<and> mem_read_uword (off + unat (effective_address i s) mod 4) m = Inr w \<and>
    src_d (inst_rt i) 0 s2 = scast w"
proof -
  let ?va = "effective_address i s" and ?t = "inst_rt i"
  let ?k = "unat ?va mod 4"
  obtain pa0 s0 pa1 s2 x where
    t0: "translate_address_data (?va AND 0xFFFFFFFC) READ s = Inr (Some pa0, s0)"
    and l0: "bus_locate pa0 (e_bus s) = Inr (x, off)"
    and t1: "translate_address_data ((?va + 3) AND 0xFFFFFFFC) READ s1 = Inr (Some pa1, s2)"
    and l1: "bus_locate pa1 (e_bus s) = Inr (x, off + 4)"
    and m: "bus_objects (e_bus s) ! x = Memory_obj m" "off + 8 \<le> mem_size m"
    and j: "inst_rs j = inst_rs i" "inst_rt j = ?t" "?t \<noteq> 0" "inst_rs i \<noteq> ?t"
      "(scast (inst_s_imm j) :: uptr) = scast (inst_s_imm i) + 3" and k: "?k \<noteq> 0"
    using p by (auto simp: unaligned_pair_def)
  obtain w0 w1 where w: "mem_read_uword off m = Inr w0" "mem_read_uword (off + 4) m = Inr w1"
    using mem_read_ex[of off 4 m] mem_read_ex[of "off + 4" 4 m] m(2) by (auto simp: mem_read_uword_def)
  obtain c where c: "s0 = s\<lparr>e_tcd := c\<rparr>" "ts_invar TC_SIZE c"
    using translate_fills[OF ee_okD(9)[OF ok] t0] by blast
  have ok0: "ee_ok (s\<lparr>e_tcd := c\<rparr>)" using ok c(2) by (auto intro: ee_ok_upd)
  let ?v0 = "LWR_merge (8 * ?k) (src_w ?t 0 s) w0"
  have "LWR i s = Inr (dest_d ?t (scast ?v0) (s\<lparr>e_tcd := c\<rparr>))"
    unfolding LWR_def Let_def load_step[where rd=bus_read_uword, OF t0 bus_read_memory(1)[OF l0 m(1) w(1)] c(1)] shifts by simp
  then have s1: "s1 = dest_d ?t (scast ?v0) (s\<lparr>e_tcd := c\<rparr>)" using r by simp
  have ok1: "ee_ok s1" unfolding s1 using ok0 by (intro ee_ok_gpr_upd) simp_all
  have b: "e_bus s1 = e_bus s" by (simp add: s1 gpr_upd_def)
  have ea: "effective_address j s1 = ?va + 3"
    using j by (simp add: effective_address_def s1 gpr_upd_def)
  have v: "src_w ?t 0 s1 = ?v0" unfolding s1 by (rule dest_low_word[OF ok0 j(3)])
  obtain c' where c': "s2 = s1\<lparr>e_tcd := c'\<rparr>" "ts_invar TC_SIZE c'"
    using translate_fills[OF ee_okD(9)[OF ok1] t1] by blast
  have ok2: "ee_ok (s1\<lparr>e_tcd := c'\<rparr>)" using ok1 c'(2) by (auto intro: ee_ok_upd)
  have rd: "bus_read_uword pa1 (e_bus s1) = Inr (w1, e_bus s1)"
    unfolding b by (rule bus_read_memory(1)[OF l1 m(1) w(2)])
  have "LWL j s1 = Inr (dest_d ?t (scast (LWL_merge (8 * (?k - 1)) (src_w ?t 0 (s1\<lparr>e_tcd := c'\<rparr>)) w1)) (s1\<lparr>e_tcd := c'\<rparr>))"
    unfolding LWL_def Let_def ea load_step[where rd=bus_read_uword, OF t1 rd c'(1)] shifts next_mod(1)[OF k] j(2) by simp
  moreover have "src_w ?t 0 (s1\<lparr>e_tcd := c'\<rparr>) = ?v0" using v by simp
  moreover have "mem_read_uword (off + ?k) m = Inr (LWL_merge (8 * (?k - 1)) ?v0 w1)"
    using k by (intro unaligned_load_word w) simp_all
  ultimately show ?thesis using dest_get(5)[OF ok2 j(3)] by (intro exI conjI) simp_all
qed

lemma LDR_then_LDL:
  assumes ok: "ee_ok s" and r: "LDR i s = Inr s1" and p: "unaligned_pair 8 0xFFFFFFF8 i j s s1 off m"
  shows "\<exists>s2 w. LDL j s1 = Inr s2 \<and> mem_read_udword (off + unat (effective_address i s) mod 8) m = Inr w \<and>
    src_d (inst_rt i) 0 s2 = w"
proof -
  let ?va = "effective_address i s" and ?t = "inst_rt i"
  let ?k = "unat ?va mod 8"
  obtain pa0 s0 pa1 s2 x where
    t0: "translate_address_data (?va AND 0xFFFFFFF8) READ s = Inr (Some pa0, s0)"
    and l0: "bus_locate pa0 (e_bus s) = Inr (x, off)"
    and t1: "translate_address_data ((?va + 7) AND 0xFFFFFFF8) READ s1 = Inr (Some pa1, s2)"
    and l1: "bus_locate pa1 (e_bus s) = Inr (x, off + 8)"
    and m: "bus_objects (e_bus s) ! x = Memory_obj m" "off + 16 \<le> mem_size m"
    and j: "inst_rs j = inst_rs i" "inst_rt j = ?t" "?t \<noteq> 0" "inst_rs i \<noteq> ?t"
      "(scast (inst_s_imm j) :: uptr) = scast (inst_s_imm i) + 7" and k: "?k \<noteq> 0"
    using p by (auto simp: unaligned_pair_def)
  obtain w0 w1 where w: "mem_read_udword off m = Inr w0" "mem_read_udword (off + 8) m = Inr w1"
    using mem_read_ex[of off 8 m] mem_read_ex[of "off + 8" 8 m] m(2) by (auto simp: mem_read_udword_def)
  obtain c where c: "s0 = s\<lparr>e_tcd := c\<rparr>" "ts_invar TC_SIZE c"
    using translate_fills[OF ee_okD(9)[OF ok] t0] by blast
  have ok0: "ee_ok (s\<lparr>e_tcd := c\<rparr>)" using ok c(2) by (auto intro: ee_ok_upd)
  let ?v0 = "LDR_merge (8 * ?k) (src_d ?t 0 s) w0"
  have "LDR i s = Inr (dest_d ?t ?v0 (s\<lparr>e_tcd := c\<rparr>))"
    unfolding LDR_def Let_def load_step[where rd=bus_read_udword, OF t0 bus_read_memory(2)[OF l0 m(1) w(1)] c(1)] shifts by simp
  then have s1: "s1 = dest_d ?t ?v0 (s\<lparr>e_tcd := c\<rparr>)" using r by simp
  have ok1: "ee_ok s1" unfolding s1 using ok0 by (intro ee_ok_gpr_upd) simp_all
  have b: "e_bus s1 = e_bus s" by (simp add: s1 gpr_upd_def)
  have ea: "effective_address j s1 = ?va + 7"
    using j by (simp add: effective_address_def s1 gpr_upd_def)
  have v: "src_d ?t 0 s1 = ?v0" unfolding s1 by (rule dest_get(5)[OF ok0 j(3)])
  obtain c' where c': "s2 = s1\<lparr>e_tcd := c'\<rparr>" "ts_invar TC_SIZE c'"
    using translate_fills[OF ee_okD(9)[OF ok1] t1] by blast
  have ok2: "ee_ok (s1\<lparr>e_tcd := c'\<rparr>)" using ok1 c'(2) by (auto intro: ee_ok_upd)
  have rd: "bus_read_udword pa1 (e_bus s1) = Inr (w1, e_bus s1)"
    unfolding b by (rule bus_read_memory(2)[OF l1 m(1) w(2)])
  let ?v1 = "LDL_merge (8 * (?k - 1)) ?v0 w1"
  have "LDL j s1 = Inr (dest_d ?t (LDL_merge (8 * (?k - 1)) (src_d ?t 0 (s1\<lparr>e_tcd := c'\<rparr>)) w1) (s1\<lparr>e_tcd := c'\<rparr>))"
    unfolding LDL_def Let_def ea load_step[where rd=bus_read_udword, OF t1 rd c'(1)] shifts next_mod(2)[OF k] j(2) by simp
  moreover have "src_d ?t 0 (s1\<lparr>e_tcd := c'\<rparr>) = ?v0" using v by simp
  ultimately have ldl: "LDL j s1 = Inr (dest_d ?t ?v1 (s1\<lparr>e_tcd := c'\<rparr>))" by simp
  have rd: "mem_read_udword (off + ?k) m = Inr ?v1"
    using k by (intro unaligned_load_dword w) simp_all
  show ?thesis
    by (intro exI conjI, rule ldl, rule rd, rule dest_get(5)[OF ok2 j(3)])
qed

end
