(* ===== verification/CachedRuns.thy ===== *)
theory CachedRuns
  imports EeUnaligned EeTransfer IopCore
begin

text \<open>
  The translation caches over a run.  What is in a cache is what the full lookup gives as long as
  nothing the lookup depends on has changed since the cache was emptied; so a run from a flush
  (\<open>CEeCore::handle_exception\<close>, a TLB write, construction) over translations and steps that
  leave those things alone sees no difference between the cached and the full lookup.  A write
  of Status with \<open>MTC0\<close> is not such a step, and what it leaves behind is shown last.
\<close>

section \<open>Runs since a flush\<close>

inductive cached_run ::
    "('s \<Rightarrow> bool) \<Rightarrow> ('s \<Rightarrow> trans_cache) \<Rightarrow> (uptr \<Rightarrow> MmuRwAccess \<Rightarrow> 's \<Rightarrow> (uptr option \<times> 's) res) \<Rightarrow>
     ('s \<Rightarrow> 's \<Rightarrow> bool) \<Rightarrow> 's \<Rightarrow> bool"
  for good cache translate alike where
  flushed: "good s \<Longrightarrow> cache s = TranslationCache_new \<Longrightarrow> cached_run good cache translate alike s"
| translated: "cached_run good cache translate alike s \<Longrightarrow> translate va rw s = Inr (Some pa, s') \<Longrightarrow>
    cached_run good cache translate alike s'"
| other: "cached_run good cache translate alike s \<Longrightarrow> good s' \<Longrightarrow> cache s' = cache s \<Longrightarrow> alike s s' \<Longrightarrow>
    cached_run good cache translate alike s'"

locale cached_runs = paged_translation ok cache set_cache fb wf
  for ok :: "'s \<Rightarrow> bool" and cache :: "'s \<Rightarrow> trans_cache" and set_cache :: "trans_cache \<Rightarrow> 's \<Rightarrow> 's"
    and fb :: "uptr \<Rightarrow> MmuRwAccess \<Rightarrow> 's \<Rightarrow> (uptr option \<times> 's) res" and wf :: "'s \<Rightarrow> bool" +
  fixes alike :: "'s \<Rightarrow> 's \<Rightarrow> bool"
  assumes page_ok: "wf s \<Longrightarrow> fb va rw s = Inr (Some pa, s') \<Longrightarrow> \<exists>pa'. fb (page_of va) rw s = Inr (Some pa', s)"
    and alike_read: "alike s s' \<Longrightarrow> fb va READ s = Inr (Some pa, s) \<Longrightarrow> fb va READ s' = Inr (Some pa, s')"
    and wf_set_cache: "wf (set_cache c s) = wf s"
    and set_cache_id: "set_cache (cache s) s = s"
begin

lemma lookup_miss:
  assumes ok: "ok s" and m: "ts_view (cache s) (page_of va) = None"
  shows "tc_lookup cache set_cache fb va rw s =
    bind_res (handle_fallback cache set_cache fb (page_of va) rw s)
      (\<lambda>(r, s'). Inr (map_option (\<lambda>pa. pa OR (va AND cache_mask)) r, s'))"
  using ts_get_miss[OF cache_ok[OF ok] m] by (simp add: tc_lookup_def set_cache_id)

text \<open>A lookup that answers leaves the cache sound, and its answer is the full lookup's for a read.\<close>

lemma lookup_sound:
  assumes ok: "ok s" and wf: "wf s" and sound: "cache_sound cache fb s"
    and t: "tc_lookup cache set_cache fb va rw s = Inr (Some pa, s')"
  shows "fb va READ s = Inr (Some pa, s) \<and> ok s' \<and> wf s' \<and> cache_sound cache fb s'"
proof (cases "ts_view (cache s) (page_of va)")
  case (Some pa0)
  from hit[OF ok wf sound Some, of rw] t lookup_ok[OF ok, of va rw] wf
  show ?thesis by (auto simp: wf_set_cache)
next
  case None
  then obtain pa0 s1 where "fb (page_of va) rw s = Inr (Some pa0, s1)"
    using t by (auto simp: lookup_miss[OF ok] handle_fallback_def split: option.splits)
  then have f: "fb (page_of va) rw s = Inr (Some pa0, s)" using fallback_hit by blast
  from miss[OF ok wf sound None f] t lookup_ok[OF ok, of va rw] wf
  show ?thesis by (auto simp: wf_set_cache)
qed

text \<open>The lookup answers whenever the full lookup does.\<close>

lemma lookup_complete:
  assumes ok: "ok s" and wf: "wf s" and sound: "cache_sound cache fb s"
    and f: "fb va rw s = Inr (Some pa, s)"
  shows "\<exists>s'. tc_lookup cache set_cache fb va rw s = Inr (Some pa, s')"
proof -
  have r: "fb va READ s = Inr (Some pa, s)" using f by (rule read_if)
  show ?thesis
  proof (cases "ts_view (cache s) (page_of va)")
    case (Some pa0)
    from hit[OF ok wf sound Some, of rw] r show ?thesis by auto
  next
    case None
    obtain pa0 where "fb (page_of va) rw s = Inr (Some pa0, s)" using page_ok[OF wf f] by blast
    from miss[OF ok wf sound None this] r show ?thesis by auto
  qed
qed

text \<open>A lookup that raises does so in the full lookup of the page's address.\<close>

lemma lookup_raises:
  assumes ok: "ok s" and t: "tc_lookup cache set_cache fb va rw s = Inr (None, s')"
  shows "fb (page_of va) rw s = Inr (None, s')"
proof (cases "ts_view (cache s) (page_of va)")
  case (Some pa0)
  then show ?thesis
    using t ts_get_spec[OF cache_ok[OF ok], of "page_of va"] by (auto simp: tc_lookup_def Let_def split: prod.splits)
next
  case None
  then show ?thesis using t by (auto simp: lookup_miss[OF ok] handle_fallback_def split: option.splits)
qed

lemma alike_sound:
  "cache_sound cache fb s \<Longrightarrow> cache s' = cache s \<Longrightarrow> alike s s' \<Longrightarrow> cache_sound cache fb s'"
  by (auto simp: cache_sound_def dest: alike_read)

lemma run_sound:
  assumes "cached_run (\<lambda>s. ok s \<and> wf s) cache translate alike s"
    and "\<And>va rw s pa s'. translate va rw s = Inr (Some pa, s') \<Longrightarrow>
      s' = s \<or> tc_lookup cache set_cache fb va rw s = Inr (Some pa, s')"
  shows "ok s \<and> wf s \<and> cache_sound cache fb s"
  using assms(1)
proof (induction rule: cached_run.induct)
  case (flushed s)
  then show ?case by (simp add: cache_sound_flushed)
next
  case (translated s va rw pa s')
  then show ?case using assms(2)[of va rw s pa s'] lookup_sound by blast
next
  case (other s s')
  then show ?case using alike_sound by blast
qed

end

section \<open>The EE core\<close>

text \<open>What a read translation depends on.\<close>

definition ee_alike :: "ee_state \<Rightarrow> ee_state \<Rightarrow> bool" where
  "ee_alike s s' \<longleftrightarrow>
     e_tlb s' = e_tlb s \<and> c0_operating_context (e_cop0 s') = c0_operating_context (e_cop0 s) \<and>
     status_field STATUS_ERL (e_cop0 s') = status_field STATUS_ERL (e_cop0 s) \<and>
     c0_extract_field C0_ENTRYHI ENTRYHI_ASID (e_cop0 s') = c0_extract_field C0_ENTRYHI ENTRYHI_ASID (e_cop0 s)"

definition ee_data_run :: "ee_state \<Rightarrow> bool" where
  "ee_data_run = cached_run (\<lambda>s. ee_ok s \<and> tlb_wf (e_tlb s)) e_tcd translate_address_data ee_alike"

definition ee_inst_run :: "ee_state \<Rightarrow> bool" where
  "ee_inst_run = cached_run (\<lambda>s. ee_ok s \<and> tlb_wf (e_tlb s)) e_tci (\<lambda>va rw. translate_address_inst va) ee_alike"

lemma fallback_alike:
  assumes "ee_alike s s'" and "translate_address_fallback va READ s = Inr (Some pa, s)"
  shows "translate_address_fallback va READ s' = Inr (Some pa, s')"
proof -
  have u: "unmapped_address s' va = unmapped_address s va"
    using assms(1) by (simp add: ee_alike_def unmapped_address_def)
  show ?thesis
    using assms u
    by (cases "tlb_entry_at (nat (find_tlb_entry_index va (e_tlb s))) (e_tlb s)")
      (auto simp: translate_address_fallback_def Let_def ee_alike_def split: if_splits option.splits sum.splits)
qed

lemma fallback_tci:
  "translate_address_fallback va rw s = Inr (Some pa, s) \<longleftrightarrow>
   translate_address_fallback va rw (s\<lparr>e_tci := c\<rparr>) = Inr (Some pa, s\<lparr>e_tci := c\<rparr>)"
  by (cases "tlb_entry_at (nat (find_tlb_entry_index va (e_tlb s))) (e_tlb s)")
    (auto simp: translate_address_fallback_def Let_def unmapped_address_def
      split: if_splits option.splits sum.splits)

interpretation ee_data_runs: cached_runs ee_ok e_tcd "\<lambda>c s. s\<lparr>e_tcd := c\<rparr>" translate_address_fallback
    "\<lambda>s. tlb_wf (e_tlb s)" ee_alike
  by unfold_locales (auto dest: fallback_page_ok fallback_alike)

interpretation ee_inst_runs: cached_runs ee_ok e_tci "\<lambda>c s. s\<lparr>e_tci := c\<rparr>" translate_address_fallback
    "\<lambda>s. tlb_wf (e_tlb s)" ee_alike
  by unfold_locales
    (auto dest: fallback_page_ok fallback_alike fallback_page fallback_read_if simp: fallback_tci[symmetric])

lemma ee_data_run_sound:
  "ee_data_run s \<Longrightarrow> ee_ok s \<and> tlb_wf (e_tlb s) \<and> cache_sound e_tcd translate_address_fallback s"
  unfolding ee_data_run_def by (erule ee_data_runs.run_sound) (simp add: translate_address_data_def)

lemma ee_data_run_agrees:
  assumes "ee_data_run s"
  shows "translate_address_fallback va rw s = Inr (Some pa, s) \<Longrightarrow>
      \<exists>s'. translate_address_data va rw s = Inr (Some pa, s')"
    and "translate_address_data va rw s = Inr (Some pa, s') \<Longrightarrow>
      translate_address_fallback va READ s = Inr (Some pa, s)"
    and "translate_address_data va rw s = Inr (None, s') \<Longrightarrow>
      translate_address_fallback (page_of va) rw s = Inr (None, s')"
proof -
  have s: "ee_ok s" "tlb_wf (e_tlb s)" "cache_sound e_tcd translate_address_fallback s"
    using ee_data_run_sound[OF assms] by simp_all
  show "translate_address_fallback va rw s = Inr (Some pa, s) \<Longrightarrow>
      \<exists>s'. translate_address_data va rw s = Inr (Some pa, s')"
    unfolding translate_address_data_def by (rule ee_data_runs.lookup_complete[OF s])
  show "translate_address_data va rw s = Inr (Some pa, s') \<Longrightarrow>
      translate_address_fallback va READ s = Inr (Some pa, s)"
    using ee_data_runs.lookup_sound[OF s] unfolding translate_address_data_def by blast
  show "translate_address_data va rw s = Inr (None, s') \<Longrightarrow>
      translate_address_fallback (page_of va) rw s = Inr (None, s')"
    unfolding translate_address_data_def by (rule ee_data_runs.lookup_raises[OF s(1)])
qed

lemma ee_inst_run_agrees:
  assumes "ee_inst_run s"
  shows "(\<exists>s'. translate_address_inst va s = Inr (Some pa, s')) \<longleftrightarrow>
      translate_address_fallback va READ s = Inr (Some pa, s)"
    and "translate_address_inst va s = Inr (None, s') \<Longrightarrow>
      translate_address_fallback (page_of va) READ s = Inr (None, s')"
proof -
  have "ee_ok s \<and> tlb_wf (e_tlb s) \<and> cache_sound e_tci translate_address_fallback s"
    using assms unfolding ee_inst_run_def
  proof (induction rule: cached_run.induct)
    case (flushed s)
    then show ?case by (simp add: cache_sound_flushed)
  next
    case (translated s va rw pa s')
    then show ?case using ee_inst_runs.lookup_sound unfolding translate_address_inst_def by blast
  next
    case (other s s')
    then show ?case using ee_inst_runs.alike_sound by blast
  qed
  then have s: "ee_ok s" "tlb_wf (e_tlb s)" "cache_sound e_tci translate_address_fallback s" by simp_all
  show "(\<exists>s'. translate_address_inst va s = Inr (Some pa, s')) \<longleftrightarrow>
      translate_address_fallback va READ s = Inr (Some pa, s)"
    using ee_inst_runs.lookup_sound[OF s] ee_inst_runs.lookup_complete[OF s]
    unfolding translate_address_inst_def by blast
  show "translate_address_inst va s = Inr (None, s') \<Longrightarrow>
      translate_address_fallback (page_of va) READ s = Inr (None, s')"
    unfolding translate_address_inst_def by (rule ee_inst_runs.lookup_raises[OF s(1)])
qed

text \<open>
  What a change of Status leaves behind.  In kernel mode an address above the user segment is
  translated; the program then enters user mode with \<open>MTC0\<close>, which writes Status and leaves the
  caches as they are: the cached lookup still answers, where the full lookup raises the
  address error.
\<close>

lemma kernel_MTC0_tcd:
  assumes "c0_operating_context (e_cop0 s) = Kernel" and "MTC0 inst s = Inr s'"
  shows "\<exists>c. s' = s\<lparr>e_cop0 := c\<rparr>"
  using assms
  by (auto simp: MTC0_def guarded_def handle_cop0_usable_def cop0_is_usable_def cop0_res_def
      split: if_splits sum.splits)

lemma kernel_page_stale:
  assumes ok: "ee_ok s" and k: "c0_operating_context (e_cop0 s) = Kernel"
    and t: "translate_address_data va rw s = Inr (Some pa, s1)"
    and m: "MTC0 inst s1 = Inr s2"
    and u: "c0_operating_context (e_cop0 s2) = User" and va: "0x7FFFFFFF < va"
  shows "(\<exists>s3. translate_address_data va rw' s2 = Inr (Some pa, s3)) \<and>
    translate_address_fallback va rw' s2 =
      bind_res (handle_mmu_error va (address_error rw') (-1) s2) (\<lambda>s3. Inr (None, s3))"
proof -
  obtain c pa0 where s1: "s1 = s\<lparr>e_tcd := c\<rparr>" and c: "ts_invar TC_SIZE c"
    and view: "ts_view c (page_of va) = Some pa0" and pa: "pa = pa0 OR (va AND cache_mask)"
    using translate_fills[OF ee_okD(9)[OF ok] t] by blast
  obtain c0 where s2: "s2 = s1\<lparr>e_cop0 := c0\<rparr>"
    using kernel_MTC0_tcd[OF _ m] k s1 by auto
  have "\<not> context_allows User va" using va by (simp add: context_allows_def)
  then show ?thesis
    using translate_hit_view[of s2 va pa0 rw'] c view u
    by (auto simp: s2 s1 pa translate_address_fallback_def Let_def)
qed

section \<open>The I/O processor\<close>

definition iop_alike :: "iop_state \<Rightarrow> iop_state \<Rightarrow> bool" where
  "iop_alike s s' \<longleftrightarrow> i0_operating_context (i_cop0 s') = i0_operating_context (i_cop0 s)"

definition iop_data_run :: "iop_state \<Rightarrow> bool" where
  "iop_data_run = cached_run (\<lambda>s. iop_ok s \<and> True) i_tcd iop_translate_address_data iop_alike"

definition iop_inst_run :: "iop_state \<Rightarrow> bool" where
  "iop_inst_run = cached_run (\<lambda>s. iop_ok s \<and> True) i_tci (\<lambda>va rw. iop_translate_address_inst va) iop_alike"

lemma iop_fallback_page_ok:
  "iop_translate_address_fallback va rw s = Inr (Some pa, s') \<Longrightarrow>
   \<exists>pa'. iop_translate_address_fallback (page_of va) rw s = Inr (Some pa', s)"
  by (auto simp: iop_translate_address_fallback_def page_of_le page_of_ge split: if_splits)

lemma iop_fallback_alike:
  "iop_alike s s' \<Longrightarrow> iop_translate_address_fallback va READ s = Inr (Some pa, s) \<Longrightarrow>
   iop_translate_address_fallback va READ s' = Inr (Some pa, s')"
  by (auto simp: iop_alike_def iop_translate_address_fallback_def split: if_splits)

interpretation iop_data_runs: cached_runs iop_ok i_tcd "\<lambda>c s. s\<lparr>i_tcd := c\<rparr>"
    iop_translate_address_fallback "\<lambda>s. True" iop_alike
  by unfold_locales (auto dest: iop_fallback_page_ok iop_fallback_alike)

interpretation iop_inst_runs: cached_runs iop_ok i_tci "\<lambda>c s. s\<lparr>i_tci := c\<rparr>"
    iop_translate_address_fallback "\<lambda>s. True" iop_alike
  by unfold_locales (auto dest: iop_fallback_page_ok iop_fallback_alike)

text \<open>
  A write that the isolated cache swallows takes the full lookup; every other access is the
  full lookup's whatever its kind, so both caches answer exactly what the segments do.
\<close>

lemma iop_fallback_rw:
  "\<not> (rw = WRITE \<and> istatus_field ISTATUS_ISC (i_cop0 s) \<noteq> 0) \<Longrightarrow>
   iop_translate_address_fallback va rw s = iop_translate_address_fallback va READ s"
  by (auto simp: iop_translate_address_fallback_def)

lemma iop_data_run_agrees:
  assumes "iop_data_run s"
  shows "(\<exists>s'. iop_translate_address_data va rw s = Inr (Some pa, s')) \<longleftrightarrow>
    iop_translate_address_fallback va rw s = Inr (Some pa, s)"
proof -
  have "iop_ok s \<and> True \<and> cache_sound i_tcd iop_translate_address_fallback s"
    using assms unfolding iop_data_run_def
    by (rule iop_data_runs.run_sound)
      (auto simp: iop_translate_address_data_def dest: iop_fallback_state split: if_splits)
  then have s: "iop_ok s" True "cache_sound i_tcd iop_translate_address_fallback s" by simp_all
  show ?thesis
  proof (cases "rw = WRITE \<and> istatus_field ISTATUS_ISC (i_cop0 s) \<noteq> 0")
    case True
    then show ?thesis by (auto simp: iop_translate_address_data_def dest: iop_fallback_state)
  next
    case False
    have d: "iop_translate_address_data va rw s =
        tc_lookup i_tcd (\<lambda>c s. s\<lparr>i_tcd := c\<rparr>) iop_translate_address_fallback va rw s"
      unfolding iop_translate_address_data_def by (rule if_not_P) (rule False)
    show ?thesis
      unfolding d iop_fallback_rw[OF False]
      using iop_data_runs.lookup_sound[OF s] iop_data_runs.lookup_complete[OF s] iop_fallback_rw[OF False]
      by metis
  qed
qed

lemma iop_data_keeps_cop0:
  "iop_translate_address_data va rw s = Inr (r, s') \<Longrightarrow> i_cop0 s' = i_cop0 s"
  by (auto simp: iop_translate_address_data_def tc_lookup_def handle_fallback_def Let_def
      dest!: iop_fallback_state split: if_splits option.splits prod.splits)

lemma iop_inst_run_agrees:
  assumes "iop_inst_run s"
  shows "(\<exists>s'. iop_translate_address_inst va s = Inr (Some pa, s')) \<longleftrightarrow>
    iop_translate_address_fallback va READ s = Inr (Some pa, s)"
proof -
  have "iop_ok s \<and> True \<and> cache_sound i_tci iop_translate_address_fallback s"
    using assms unfolding iop_inst_run_def
  proof (induction rule: cached_run.induct)
    case (flushed s)
    then show ?case by (simp add: cache_sound_flushed)
  next
    case (translated s va rw pa s')
    then show ?case using iop_inst_runs.lookup_sound unfolding iop_translate_address_inst_def by blast
  next
    case (other s s')
    then show ?case using iop_inst_runs.alike_sound by blast
  qed
  then have s: "iop_ok s" True "cache_sound i_tci iop_translate_address_fallback s" by simp_all
  show ?thesis
    using iop_inst_runs.lookup_sound[OF s] iop_inst_runs.lookup_complete[OF s]
    unfolding iop_translate_address_inst_def by blast
qed

end
