(* ===== verification/EeTlbOps.thy ===== *)
theory EeTlbOps
  imports EeOthers
begin

text \<open>
  The TLB instructions together with the handler of a TLB miss
  (\<open>CEeCoreInterpreter_OTHERS.cpp\<close>, \<open>CEeCore::handle_mmu_error\<close>): what \<open>TLBR\<close> gives back of an
  entry that \<open>TLBWI\<close> wrote, whatever COP0 holds by then, where \<open>TLBP\<close> finds it, and what
  becomes of an entry that a refill handler writes with \<open>TLBWR\<close>.
\<close>

section \<open>Fields of the registers\<close>

lemma extract_inserted_same:
  "cop0_inv c \<Longrightarrow> n \<noteq> C0_PRID \<Longrightarrow> bf_within g 32 \<Longrightarrow>
   c0_extract_field n g (c0_insert_field n g v c) = take_bit (bf_length g) v"
  by (simp add: c0_extract_field_def c0_insert_field_def c0_raw_write_get extract_insert_same)

lemma extract_inserted_other:
  "cop0_inv c \<Longrightarrow> m \<noteq> n \<or> bf_disjoint f g \<Longrightarrow>
   c0_extract_field m f (c0_insert_field n g v c) = c0_extract_field m f c"
  by (auto simp: c0_extract_field_def c0_insert_field_def c0_raw_write_get extract_insert_other)

lemma raw_inserted_other: "m \<noteq> n \<Longrightarrow> c0_raw m (c0_insert_field n g v c) = c0_raw m c"
  by (simp add: c0_insert_field_def c0_raw_write_other)

lemmas inserted_fields = extract_inserted_same extract_inserted_other raw_inserted_other cop0_inv_insert
  bf_within_def bf_disjoint_def

lemma take_extract: "take_bit (bf_length f) (c0_extract_field n f c) = c0_extract_field n f c"
  by (simp add: c0_extract_field_def extract_from_eq)

text \<open>The fields of COP0 that make up an entry, and what an entry keeps of them.\<close>

definition tlb_fields :: "ee_cop0 \<Rightarrow> uword list" where
  "tlb_fields c =
     [c0_extract_field C0_PAGEMASK PAGEMASK_MASK c, c0_extract_field C0_ENTRYHI ENTRYHI_VPN2 c,
      c0_extract_field C0_ENTRYHI ENTRYHI_ASID c, c0_extract_field C0_ENTRYLO0 ENTRYLO0_S c,
      c0_extract_field C0_ENTRYLO0 ENTRYLO_G c, c0_extract_field C0_ENTRYLO0 ENTRYLO_V c,
      c0_extract_field C0_ENTRYLO0 ENTRYLO_D c, c0_extract_field C0_ENTRYLO0 ENTRYLO_C c,
      c0_extract_field C0_ENTRYLO0 ENTRYLO_PFN c, c0_extract_field C0_ENTRYLO1 ENTRYLO_G c,
      c0_extract_field C0_ENTRYLO1 ENTRYLO_V c, c0_extract_field C0_ENTRYLO1 ENTRYLO_D c,
      c0_extract_field C0_ENTRYLO1 ENTRYLO_C c, c0_extract_field C0_ENTRYLO1 ENTRYLO_PFN c]"

definition stored_fields :: "ee_cop0 \<Rightarrow> uword list" where
  "stored_fields c =
     (let g = c0_extract_field C0_ENTRYLO0 ENTRYLO_G c AND c0_extract_field C0_ENTRYLO1 ENTRYLO_G c in
     [c0_extract_field C0_PAGEMASK PAGEMASK_MASK c, c0_extract_field C0_ENTRYHI ENTRYHI_VPN2 c,
      c0_extract_field C0_ENTRYHI ENTRYHI_ASID c, c0_extract_field C0_ENTRYLO0 ENTRYLO0_S c,
      g, c0_extract_field C0_ENTRYLO0 ENTRYLO_V c,
      c0_extract_field C0_ENTRYLO0 ENTRYLO_D c, min 1 (c0_extract_field C0_ENTRYLO0 ENTRYLO_C c),
      c0_extract_field C0_ENTRYLO0 ENTRYLO_PFN c, g,
      c0_extract_field C0_ENTRYLO1 ENTRYLO_V c, c0_extract_field C0_ENTRYLO1 ENTRYLO_D c,
      min 1 (c0_extract_field C0_ENTRYLO1 ENTRYLO_C c), c0_extract_field C0_ENTRYLO1 ENTRYLO_PFN c])"

lemma take_flag: "0 < n \<Longrightarrow> take_bit n (flag_word b) = flag_word b"
  by (cases n) (simp_all add: take_bit_Suc)

lemma extract_entry_lo:
  assumes "cop0_inv c" and "n = C0_ENTRYLO0 \<or> n = C0_ENTRYLO1"
  shows "c0_extract_field n ENTRYLO_G (entry_lo e i n c) = flag_word (te_g e)"
    "c0_extract_field n ENTRYLO_V (entry_lo e i n c) = flag_word (pi_v i)"
    "c0_extract_field n ENTRYLO_D (entry_lo e i n c) = flag_word (pi_d i)"
    "c0_extract_field n ENTRYLO_C (entry_lo e i n c) = flag_word (pi_c i)"
    "c0_extract_field n ENTRYLO_PFN (entry_lo e i n c) = take_bit 20 (pi_pfn i)"
    "c0_extract_field n ENTRYLO0_S (entry_lo e i n c) = c0_extract_field n ENTRYLO0_S c"
    "m \<noteq> n \<Longrightarrow> c0_extract_field m f (entry_lo e i n c) = c0_extract_field m f c"
    "m \<noteq> n \<Longrightarrow> c0_raw m (entry_lo e i n c) = c0_raw m c"
proof -
  have nz: "n \<noteq> C0_PRID" "n \<noteq> C0_STATUS" using assms(2) by auto
  note s = entry_lo_def inserted_fields word_defs take_flag assms(1) nz
  show "c0_extract_field n ENTRYLO_G (entry_lo e i n c) = flag_word (te_g e)"
    "c0_extract_field n ENTRYLO_V (entry_lo e i n c) = flag_word (pi_v i)"
    "c0_extract_field n ENTRYLO_D (entry_lo e i n c) = flag_word (pi_d i)"
    "c0_extract_field n ENTRYLO_C (entry_lo e i n c) = flag_word (pi_c i)"
    "c0_extract_field n ENTRYLO_PFN (entry_lo e i n c) = take_bit 20 (pi_pfn i)"
    "c0_extract_field n ENTRYLO0_S (entry_lo e i n c) = c0_extract_field n ENTRYLO0_S c"
    "m \<noteq> n \<Longrightarrow> c0_extract_field m f (entry_lo e i n c) = c0_extract_field m f c"
    "m \<noteq> n \<Longrightarrow> c0_raw m (entry_lo e i n c) = c0_raw m c"
    by (simp_all add: s)
qed

lemma read_entry_fields:
  assumes c: "cop0_inv c" and e: "cop0_entry c0 = Inr e"
  shows "tlb_fields (read_entry e c) = stored_fields c0"
    "n \<notin> {C0_PAGEMASK, C0_ENTRYHI, C0_ENTRYLO0, C0_ENTRYLO1} \<Longrightarrow> c0_raw n (read_entry e c) = c0_raw n c"
proof -
  have v: "Mask_new (c0_extract_field C0_PAGEMASK PAGEMASK_MASK c0) = Inr (te_mask e)"
    "te_vpn2 e = c0_extract_field C0_ENTRYHI ENTRYHI_VPN2 c0"
    "te_asid e = ucast (c0_extract_field C0_ENTRYHI ENTRYHI_ASID c0)"
    "te_s e = (c0_extract_field C0_ENTRYLO0 ENTRYLO0_S c0 > 0)"
    "te_g e = (c0_extract_field C0_ENTRYLO0 ENTRYLO_G c0 AND c0_extract_field C0_ENTRYLO1 ENTRYLO_G c0 > 0)"
    "te_even e = lo_info C0_ENTRYLO0 c0" "te_odd e = lo_info C0_ENTRYLO1 c0"
    using e by (auto simp: cop0_entry_def)
  have m: "pagemask (te_mask e) = c0_extract_field C0_PAGEMASK PAGEMASK_MASK c0"
    using v(1) by (rule Mask_new_pagemask)
  have a: "ucast (te_asid e) = c0_extract_field C0_ENTRYHI ENTRYHI_ASID c0"
    unfolding v(3) by (rule asid_field)
  have one: "c0_extract_field n f c0 = 0 \<or> c0_extract_field n f c0 = 1" if "bf_length f = 1" for n f
    using flag_word_extract[OF that, of n c0] by (metis (full_types))
  have g: "flag_word (te_g e) = c0_extract_field C0_ENTRYLO0 ENTRYLO_G c0 AND c0_extract_field C0_ENTRYLO1 ENTRYLO_G c0"
    using one[of ENTRYLO_G C0_ENTRYLO0] one[of ENTRYLO_G C0_ENTRYLO1] by (auto simp: v(5) ENTRYLO_G_def)
  have s: "flag_word (te_s e) = c0_extract_field C0_ENTRYLO0 ENTRYLO0_S c0"
    unfolding v(4) by (rule flag_word_extract) (simp add: ENTRYLO0_S_def)
  have i: "flag_word (pi_v (lo_info n c0)) = c0_extract_field n ENTRYLO_V c0"
    "flag_word (pi_d (lo_info n c0)) = c0_extract_field n ENTRYLO_D c0"
    "flag_word (pi_c (lo_info n c0)) = min 1 (c0_extract_field n ENTRYLO_C c0)"
    "take_bit 20 (pi_pfn (lo_info n c0)) = c0_extract_field n ENTRYLO_PFN c0" for n
    using flag_word_extract[of ENTRYLO_V n c0] flag_word_extract[of ENTRYLO_D n c0] take_extract[of ENTRYLO_PFN n c0]
    by (simp_all add: lo_info_def word_defs min_def word_gt_0 word_le_1 not_le word_less_1)
  define c1 where "c1 = c0_insert_field C0_PAGEMASK PAGEMASK_MASK (pagemask (te_mask e)) c"
  define c3 where "c3 = c0_insert_field C0_ENTRYHI ENTRYHI_VPN2 (te_vpn2 e)
    (c0_insert_field C0_ENTRYHI ENTRYHI_ASID (ucast (te_asid e)) c1)"
  define c4 where "c4 = c0_insert_field C0_ENTRYLO0 ENTRYLO0_S (flag_word (te_s e)) c3"
  define c5 where "c5 = entry_lo e (physical_info e 0) C0_ENTRYLO0 c4"
  have r: "read_entry e c = entry_lo e (physical_info e 1) C0_ENTRYLO1 c5"
    by (simp add: read_entry_def Let_def c1_def c3_def c4_def c5_def)
  have inv: "cop0_inv c1" "cop0_inv c3" "cop0_inv c4" "cop0_inv c5"
    using c by (auto simp: c1_def c3_def c4_def c5_def intro!: cop0_inv_insert cop0_inv_entry_lo)
  have f1: "c0_extract_field C0_PAGEMASK PAGEMASK_MASK c1 = c0_extract_field C0_PAGEMASK PAGEMASK_MASK c0"
    using take_extract[of PAGEMASK_MASK C0_PAGEMASK c0]
    by (simp add: c1_def m extract_inserted_same c bf_within_def PAGEMASK_MASK_def)
  have f3: "c0_extract_field C0_ENTRYHI ENTRYHI_VPN2 c3 = c0_extract_field C0_ENTRYHI ENTRYHI_VPN2 c0"
    "c0_extract_field C0_ENTRYHI ENTRYHI_ASID c3 = c0_extract_field C0_ENTRYHI ENTRYHI_ASID c0"
    "c0_extract_field C0_PAGEMASK PAGEMASK_MASK c3 = c0_extract_field C0_PAGEMASK PAGEMASK_MASK c1"
    using take_extract[of ENTRYHI_VPN2 C0_ENTRYHI c0] take_extract[of ENTRYHI_ASID C0_ENTRYHI c0]
    by (simp_all add: c3_def v(2) a inserted_fields inv(1) ENTRYHI_VPN2_def ENTRYHI_ASID_def)
  have f4: "c0_extract_field C0_ENTRYLO0 ENTRYLO0_S c4 = flag_word (te_s e)"
    "k \<noteq> C0_ENTRYLO0 \<Longrightarrow> c0_extract_field k f c4 = c0_extract_field k f c3" for k f
    by (simp_all add: c4_def inserted_fields inv(2) ENTRYLO0_S_def take_flag)
  note lo0 = extract_entry_lo[OF inv(3), where n=C0_ENTRYLO0 and e=e and i="physical_info e 0", folded c5_def]
  note lo1 = extract_entry_lo[OF inv(4), where n=C0_ENTRYLO1 and e=e and i="physical_info e 1", folded r]
  show "tlb_fields (read_entry e c) = stored_fields c0"
    by (simp add: tlb_fields_def stored_fields_def Let_def lo0 lo1 f1 f3 f4 g s physical_info_def v(6,7) i)
  show "c0_raw n (read_entry e c) = c0_raw n c" if "n \<notin> {C0_PAGEMASK, C0_ENTRYHI, C0_ENTRYLO0, C0_ENTRYLO1}"
    using that by (simp add: lo0(8) lo1(8) c4_def c3_def c1_def raw_inserted_other)
qed

section \<open>Writing an entry, reading it back, probing it\<close>

lemma TLBWI_effect:
  assumes "cop0_is_usable (e_cop0 s)" and "TLBWI inst s = Inr s1"
  obtains e where "cop0_entry (e_cop0 s) = Inr e"
    "unat (c0_extract_field C0_INDEX INDEX_INDEX (e_cop0 s)) < length (e_tlb s)"
    "e_tlb s1 = (e_tlb s)[unat (c0_extract_field C0_INDEX INDEX_INDEX (e_cop0 s)) := e]"
    "e_cop0 s1 = e_cop0 s"
  using assms
  by (auto simp: TLBWI_def guarded_def handle_cop0_usable_def write_entry_def set_tlb_entry_at_def
      flush_translation_caches_def split: if_splits)

text \<open>Whatever COP0 holds by then, \<open>TLBR\<close> at the same index restores the fields of the entry.\<close>

lemma TLBWI_TLBR:
  assumes u: "cop0_is_usable (e_cop0 s)" and w: "TLBWI inst s = Inr s1"
    and c: "cop0_inv c" "cop0_is_usable c"
      "c0_extract_field C0_INDEX INDEX_INDEX c = c0_extract_field C0_INDEX INDEX_INDEX (e_cop0 s)"
  shows "\<exists>c'. TLBR inst' (s1\<lparr>e_cop0 := c\<rparr>) = Inr (s1\<lparr>e_cop0 := c'\<rparr>) \<and>
    tlb_fields c' = stored_fields (e_cop0 s) \<and>
    (\<forall>n. n \<notin> {C0_PAGEMASK, C0_ENTRYHI, C0_ENTRYLO0, C0_ENTRYLO1} \<longrightarrow> c0_raw n c' = c0_raw n c)"
proof -
  obtain e where e: "cop0_entry (e_cop0 s) = Inr e"
    "unat (c0_extract_field C0_INDEX INDEX_INDEX (e_cop0 s)) < length (e_tlb s)"
    "e_tlb s1 = (e_tlb s)[unat (c0_extract_field C0_INDEX INDEX_INDEX (e_cop0 s)) := e]"
    using TLBWI_effect[OF u w] by blast
  have "TLBR inst' (s1\<lparr>e_cop0 := c\<rparr>) = Inr (s1\<lparr>e_cop0 := read_entry e c\<rparr>)"
    using c(2,3) e(2,3) by (simp add: TLBR_def guarded_def handle_cop0_usable_def tlb_entry_at_def cop0_upd_def)
  then show ?thesis using read_entry_fields[OF c(1) e(1)] by blast
qed

text \<open>\<open>TLBP\<close> with the same page and address space sets the index field and nothing else.\<close>

lemma TLBWI_TLBP:
  fixes inst :: instruction
  assumes u: "cop0_is_usable (e_cop0 s)" and w: "TLBWI inst s = Inr s1"
  defines "i \<equiv> unat (c0_extract_field C0_INDEX INDEX_INDEX (e_cop0 s))"
    and "va \<equiv> push_bit 13 (c0_extract_field C0_ENTRYHI ENTRYHI_VPN2 (e_cop0 s))"
  assumes i: "i < 47" and pm: "c0_extract_field C0_PAGEMASK PAGEMASK_MASK (e_cop0 s) = 0"
    and free: "\<And>j. j < 47 \<Longrightarrow> is_match (e_tlb s) va j \<Longrightarrow> j = i"
    and c: "cop0_is_usable c" "c0_extract_field C0_ENTRYHI ENTRYHI_VPN2 c = c0_extract_field C0_ENTRYHI ENTRYHI_VPN2 (e_cop0 s)"
      "c0_extract_field C0_ENTRYHI ENTRYHI_ASID c = c0_extract_field C0_ENTRYHI ENTRYHI_ASID (e_cop0 s)"
  shows "TLBP inst' (s1\<lparr>e_cop0 := c\<rparr>) =
    Inr (s1\<lparr>e_cop0 := c0_insert_field C0_INDEX INDEX_INDEX (of_nat i) c\<rparr>)"
proof -
  obtain e where e: "cop0_entry (e_cop0 s) = Inr e" and len: "i < length (e_tlb s)"
    and t: "e_tlb s1 = (e_tlb s)[i := e]"
    using TLBWI_effect[OF u w] unfolding i_def by blast
  have f: "find_tlb_entry_index va (e_tlb s1) = int i"
    unfolding t va_def by (rule written_entry_found[OF e pm len i]) (rule free[unfolded va_def])
  have "ucast (te_asid e) = c0_extract_field C0_ENTRYHI ENTRYHI_ASID c"
    using e asid_field[of "e_cop0 s"] by (auto simp: c(3) cop0_entry_def)
  then show ?thesis
    using c(1) f len
    by (simp add: TLBP_def guarded_def handle_cop0_usable_def c(2) va_def[symmetric] t tlb_entry_at_def cop0_upd_def)
qed

section \<open>A refill that has no effect\<close>

text \<open>An exception leaves the TLB and all of COP0 but Status, Cause and the two PCs alone.\<close>

lemma status_insert_frame:
  assumes "status_insert_field f v c = Inr c'" and "n \<noteq> C0_STATUS"
  shows "c0_raw n c' = c0_raw n c"
  using assms
  by (auto simp: status_insert_field_def status_write_uword_def handle_interrupts_masked_update_def
      handle_operating_context_update_def handle_count_interrupt_state_update_def c0_raw_write_def
      c0_raw_def Let_def split: if_splits)

definition exception_registers :: "nat set" where
  "exception_registers = {C0_STATUS, C0_CAUSE, C0_EPC, C0_ERROREPC}"

lemma set_error_address_other:
  "n \<notin> exception_registers \<Longrightarrow> c0_raw n (e_cop0 (set_error_address ex s)) = c0_raw n (e_cop0 s)"
  by (auto simp: set_error_address_cop0 exception_registers_def c0_raw_write_other)

lemma enter_handler_frame:
  assumes "enter_handler ex base s = Inr s'"
  shows "e_tlb s' = e_tlb s" "n \<notin> exception_registers \<Longrightarrow> c0_raw n (e_cop0 s') = c0_raw n (e_cop0 s)"
proof -
  obtain off s2 where a: "(if status_field STATUS_EXL (e_cop0 s) \<noteq> 0 then Inr (0x00000180, s)
        else bind_res (cop0_res (status_insert_field STATUS_EXL 1) (set_error_address ex s))
               (\<lambda>s1. Inr (exception_vector_offset ex, s1))) = Inr (off, s2)"
    and s': "e_tlb s' = e_tlb s2" "e_cop0 s' = e_cop0 s2"
    using assms by (auto simp: enter_handler_def Let_def flush_translation_caches_def split: if_splits prod.splits)
  have "e_tlb s2 = e_tlb s \<and> (n \<notin> exception_registers \<longrightarrow> c0_raw n (e_cop0 s2) = c0_raw n (e_cop0 s))"
    using a status_insert_frame[of STATUS_EXL 1 "e_cop0 (set_error_address ex s)" _ n]
      set_error_address_other[of n ex s]
    by (auto simp: cop0_res_def exception_registers_def split: if_splits)
  then show "e_tlb s' = e_tlb s" "n \<notin> exception_registers \<Longrightarrow> c0_raw n (e_cop0 s') = c0_raw n (e_cop0 s)"
    by (simp_all add: s')
qed

lemma handle_exception_frame:
  assumes "handle_exception ex s = Inr s'"
  shows "e_tlb s' = e_tlb s" "n \<notin> exception_registers \<Longrightarrow> c0_raw n (e_cop0 s') = c0_raw n (e_cop0 s)"
proof -
  obtain c1 where c1: "status_insert_field STATUS_ERL (if is_level2 ex then 1 else 0) (e_cop0 s) = Inr c1"
    using assms by (auto simp: handle_exception_def cop0_res_def)
  let ?s2 = "cop0_upd (cause_insert_field (if is_level2 ex then CAUSE_EXC2 else CAUSE_EXCCODE) (exccode ex))
    (s\<lparr>e_cop0 := c1\<rparr>)"
  have h: "(if ex = EX_RESET \<or> ex = EX_NMI then Inr (pc_upd (w_write_uword 0xBFC00000) (set_error_address ex ?s2))
      else enter_handler ex (exception_vector_base ?s2) ?s2) = Inr s'"
    using assms by (simp add: handle_exception_def cop0_res_def c1 Let_def)
  have s2: "e_tlb ?s2 = e_tlb s" "n \<notin> exception_registers \<Longrightarrow> c0_raw n (e_cop0 ?s2) = c0_raw n (e_cop0 s)"
    using status_insert_frame[OF c1, of n] by (auto simp: exception_registers_def)
  show "e_tlb s' = e_tlb s"
    using h s2(1) enter_handler_frame(1)[of ex _ ?s2 s'] by (auto split: if_splits)
  show "c0_raw n (e_cop0 s') = c0_raw n (e_cop0 s)" if "n \<notin> exception_registers"
    using h s2(2)[OF that] enter_handler_frame(2)[of ex _ ?s2 s' n] set_error_address_other[OF that, of ex ?s2] that
    by (auto split: if_splits)
qed

lemma handle_mmu_error_frame:
  assumes "handle_mmu_error va ex (-1) s = Inr s1" and "cop0_inv (e_cop0 s)"
  shows "e_tlb s1 = e_tlb s" "c0_extract_field C0_RANDOM RANDOM_RANDOM (e_cop0 s1) = 47"
proof -
  obtain c where h: "handle_exception ex (s\<lparr>e_cop0 := c0_insert_field C0_RANDOM RANDOM_RANDOM (of_nat generate_new_tlb_index) c\<rparr>) = Inr s1"
    and c: "cop0_inv c"
    by (rule that[of "c0_insert_field C0_ENTRYHI ENTRYHI_VPN2 (extract_from (BF 13 19) va)
        (c0_insert_field C0_CONTEXT BADVPN2 (extract_from (BF 13 19) va) (c0_raw_write C0_BADVADDR va (e_cop0 s)))"])
      (use assms in \<open>auto simp: handle_mmu_error_def Let_def intro!: cop0_inv_insert cop0_inv_raw_write\<close>)
  show "e_tlb s1 = e_tlb s" using handle_exception_frame(1)[OF h] by simp
  have "c0_raw C0_RANDOM (e_cop0 s1) = c0_raw C0_RANDOM (c0_insert_field C0_RANDOM RANDOM_RANDOM (of_nat generate_new_tlb_index) c)"
    using handle_exception_frame(2)[OF h, of C0_RANDOM] by (simp add: exception_registers_def)
  then have "c0_extract_field C0_RANDOM RANDOM_RANDOM (e_cop0 s1) =
      c0_extract_field C0_RANDOM RANDOM_RANDOM (c0_insert_field C0_RANDOM RANDOM_RANDOM (of_nat generate_new_tlb_index) c)"
    by (simp add: c0_extract_field_def)
  also have "\<dots> = 47"
    using c by (simp add: extract_inserted_same bf_within_def RANDOM_RANDOM_def generate_new_tlb_index_def)
  finally show "c0_extract_field C0_RANDOM RANDOM_RANDOM (e_cop0 s1) = 47" .
qed

text \<open>
  The miss, the handler's \<open>TLBWR\<close>, and the access again: the entry goes to slot 47, which the
  search never reaches, so every search gives what it gave, and the access misses again.
\<close>

lemma TLBWR_47:
  assumes "tlb_ok (e_tlb s)" and "cop0_is_usable (e_cop0 s)"
    and "c0_extract_field C0_RANDOM RANDOM_RANDOM (e_cop0 s) = 47" and "TLBWR inst s = Inr s'"
  shows "\<exists>e. cop0_entry (e_cop0 s) = Inr e \<and> e_tlb s' = (e_tlb s)[47 := e]"
    and "find_tlb_entry_index va (e_tlb s') = find_tlb_entry_index va (e_tlb s)"
proof -
  obtain e where e: "cop0_entry (e_cop0 s) = Inr e" "set_tlb_entry_at e 47 (e_tlb s) = Inr (e_tlb s')"
    using assms(2-4) by (auto simp: TLBWR_def guarded_def handle_cop0_usable_def write_entry_def flush_translation_caches_def)
  then show "\<exists>e. cop0_entry (e_cop0 s) = Inr e \<and> e_tlb s' = (e_tlb s)[47 := e]"
    by (auto simp: set_tlb_entry_at_def split: if_splits)
  show "find_tlb_entry_index va (e_tlb s') = find_tlb_entry_index va (e_tlb s)"
    using find_tlb_set_unsearched[OF assms(1)] e(2) by (simp add: generate_new_tlb_index_def)
qed

lemma miss_raises:
  assumes "context_allows (c0_operating_context (e_cop0 s)) va" and "unmapped_address s va = None"
    and "find_tlb_entry_index va (e_tlb s) = -1"
  shows "translate_address_fallback va rw s =
    bind_res (handle_mmu_error va (refill_error rw) (-1) s) (\<lambda>s1. Inr (None, s1))"
  using assms by (simp add: translate_address_fallback_def Let_def)

lemma refill_futile:
  assumes ok: "ee_ok s" and a: "context_allows (c0_operating_context (e_cop0 s)) va" "unmapped_address s va = None"
    and miss: "find_tlb_entry_index va (e_tlb s) = -1"
    and f: "translate_address_fallback va rw s = Inr (None, s1)"
    and h: "e_tlb s2 = e_tlb s1" "cop0_is_usable (e_cop0 s2)"
      "c0_extract_field C0_RANDOM RANDOM_RANDOM (e_cop0 s2) = c0_extract_field C0_RANDOM RANDOM_RANDOM (e_cop0 s1)"
    and w: "TLBWR inst s2 = Inr s3"
    and r: "e_tlb s4 = e_tlb s3" "c0_operating_context (e_cop0 s4) = c0_operating_context (e_cop0 s)"
      "status_field STATUS_ERL (e_cop0 s4) = status_field STATUS_ERL (e_cop0 s)"
  shows "(\<exists>e. cop0_entry (e_cop0 s2) = Inr e \<and> e_tlb s3 = (e_tlb s)[47 := e]) \<and>
    (\<forall>va'. find_tlb_entry_index va' (e_tlb s3) = find_tlb_entry_index va' (e_tlb s)) \<and>
    translate_address_fallback va rw s4 =
      bind_res (handle_mmu_error va (refill_error rw) (-1) s4) (\<lambda>s5. Inr (None, s5))"
proof -
  have m: "handle_mmu_error va (refill_error rw) (-1) s = Inr s1"
    using f unfolding miss_raises[OF a miss] by (auto simp: bind_res_def split: sum.splits)
  note fr = handle_mmu_error_frame[OF m ee_okD(1)[OF ok]]
  have t: "tlb_ok (e_tlb s2)" using ee_okD(2)[OF ok] by (simp add: h(1) fr(1))
  note wr = TLBWR_47[OF t h(2) _ w, unfolded h(3) fr(2), OF refl]
  have u: "unmapped_address s4 va = None" using a(2) unfolding unmapped_address_def r(2,3) .
  have "find_tlb_entry_index va (e_tlb s4) = -1" using miss wr(2)[of va] by (simp add: r(1) h(1) fr(1))
  from miss_raises[OF _ u this] show ?thesis
    using wr a(1) by (simp add: r(2) h(1) fr(1))
qed

end
