(* ===== verification/Examples.thy ===== *)
theory Examples
  imports EeTranslate BusMap EeBranch CachedRuns EeTlbOps CoreAgreement
begin

text \<open>
  Concrete machines on which the properties are shown to apply: an EE core straight out of
  reset, a bus of two small memories, a TLB of 48 global 4 KB entries for page pair 0 and the
  instruction word \<open>rs = 1, rt = 2, rd = 3\<close>.
\<close>

section \<open>TLB and bus\<close>

definition demo_entry :: tlb_entry where
  "demo_entry =
     \<lparr>te_mask = \<lparr>pagemask = 0, evenodd_mask = 0x1000, vpn_mask = 0xFFFFE000\<rparr>, te_vpn2 = 0,
      te_g = True, te_asid = 0, te_s = False,
      te_even = \<lparr>pi_pfn = 2, pi_c = False, pi_d = True, pi_v = True\<rparr>,
      te_odd = \<lparr>pi_pfn = 3, pi_c = False, pi_d = True, pi_v = True\<rparr>\<rparr>"

definition demo_tlb :: ee_tlb where
  "demo_tlb = replicate 48 demo_entry"

definition demo_memory :: byte_memory where
  "demo_memory = ArrayByteMemory_new 16 0x5A False"

definition demo_objects :: "bus_object list" where
  "demo_objects = [Memory_obj demo_memory, Memory_obj demo_memory]"

definition demo_maps :: "(uptr \<times> nat) list" where
  "demo_maps = [(0x0, 0), (0x20, 1)]"

text \<open>The bus one gets from one directory and one page, which holds the first memory.\<close>

definition demo_bus :: "uptr byte_bus" where
  "demo_bus =
     \<lparr>directory_mask = BF 32 0,
      bus_table = [\<lparr>page_mask = BF 32 0, optimal_alignment = 32,
                    page_table = [\<lparr>base_address = 0, page_object = Some 0\<rparr>]\<rparr>],
      bus_objects = demo_objects\<rparr>"

text \<open>A full cache of two entries; the one for key 2 was used last.\<close>

definition demo_lru :: "(uword, uword) TimestampLruCache" where
  "demo_lru =
     \<lparr>ts_total_cache_access = 2, ts_current_cache_size = 2, ts_cache = [(1, 10, 1), (2, 20, 2)]\<rparr>"

lemma demo_lru_facts:
  "ts_invar 2 demo_lru" "ts_stamped demo_lru" "ts_total_cache_access demo_lru = 2"
  "ts_current_cache_size demo_lru = 2" "ts_view demo_lru 1 = Some 10" "ts_view demo_lru 3 = None"
  by (simp_all add: demo_lru_def ts_invar_def ts_stamped_def ts_used_def keys_of_def ts_view_def view_of_def
      eval_nat_numeral)

section \<open>Machines\<close>

definition demo_state :: ee_state where
  "demo_state =
     gpr_upd 1 (q_write_uqword 0x00010002000300040005000600070000)
       (gpr_upd 2 (q_write_uqword 0x00090002000A0004FFFBFFFA7FFFFFFF) (ee_state_new demo_tlb demo_bus))"

definition demo_inst :: instruction where
  "demo_inst = 0x221800"

lemma demo_tlb_ok: "tlb_ok demo_tlb"
  by (simp add: tlb_ok_def demo_tlb_def)

lemma demo_tlb_wf: "tlb_wf demo_tlb"
proof -
  have "Mask_new 0 = Inr (te_mask demo_entry)"
    by (simp add: Mask_new_def demo_entry_def)
  then show ?thesis
    by (auto simp: tlb_wf_def demo_tlb_def)
qed

lemma demo_ok: "ee_ok demo_state"
  by (simp add: demo_state_def ee_ok_gpr_upd ee_ok_new demo_tlb_ok)

lemma demo_cop0: "e_cop0 demo_state = EeCoreCop0_new"
  by (simp add: demo_state_def ee_state_new_def)

lemma demo_status: "c0_raw C0_STATUS (e_cop0 demo_state) = 0x00400004"
  by (simp add: demo_cop0 EeCoreCop0_new_def c0_raw_def SizedRegister_new_def w_defs reg_read_def)

lemma demo_parts:
  "e_tlb demo_state = demo_tlb" "e_bus demo_state = demo_bus"
  "e_tcd demo_state = TranslationCache_new" "e_bdelay demo_state = BranchDelaySlot_new"
  "pc_val demo_state = 0xBFC00000"
  by (simp_all add: demo_state_def ee_state_new_def w_defs reg_read_def SizedRegister_new_def)

lemma demo_fields:
  "inst_rs demo_inst = 1" "inst_rt demo_inst = 2" "inst_rd demo_inst = 3"
  by (simp_all add: demo_inst_def inst_defs extract_from_def shifted_mask_def unshifted_mask_def mask_eq_exp_minus_1)

text \<open>The same COP0 after \<open>MTC0\<close> of a Status with EXL set and ERL clear.\<close>

definition demo_exl_cop0 :: ee_cop0 where
  "demo_exl_cop0 = (case status_write_uword 0x00400002 EeCoreCop0_new of Inr c \<Rightarrow> c | Inl e \<Rightarrow> EeCoreCop0_new)"

definition demo_exl :: ee_state where
  "demo_exl = demo_state\<lparr>e_cop0 := demo_exl_cop0\<rparr>"

lemma demo_exl_cop0: "status_write_uword 0x00400002 EeCoreCop0_new = Inr demo_exl_cop0"
proof -
  have a: "length (c0_irq_lines EeCoreCop0_new) = 8"
    and b: "\<forall>n. reg_read_only (c0_reg EeCoreCop0_new n) \<longleftrightarrow> n = C0_PRID"
    using cop0_inv_init by (simp_all add: cop0_inv_def)
  show ?thesis
    by (simp add: status_write_spec[OF a b] demo_exl_cop0_def status_context_def bit_numeral_rec)
qed

lemma demo_exl_ok:
  "ee_ok demo_exl" "c0_raw C0_STATUS (e_cop0 demo_exl) = 0x00400002" "e_bdelay demo_exl = BranchDelaySlot_new"
  using status_write_inv[OF cop0_inv_init demo_exl_cop0]
  by (simp_all add: demo_exl_def ee_ok_upd demo_ok demo_parts)

text \<open>COP1 usable and the float registers 0 and 1 at 1.5 and 1.\<close>

definition demo_fpu_cop0 :: ee_cop0 where
  "demo_fpu_cop0 = (case status_write_uword 0x20400002 EeCoreCop0_new of Inr c \<Rightarrow> c | Inl e \<Rightarrow> EeCoreCop0_new)"

definition demo_fpu :: ee_state where
  "demo_fpu = fpr_upd 1 (\<lambda>_. SizedRegister_new 0x3F800000 False)
     (fpr_upd 0 (\<lambda>_. SizedRegister_new 0x3FC00000 False) (demo_state\<lparr>e_cop0 := demo_fpu_cop0\<rparr>))"

lemma demo_fpu_cop0: "status_write_uword 0x20400002 EeCoreCop0_new = Inr demo_fpu_cop0"
proof -
  have a: "length (c0_irq_lines EeCoreCop0_new) = 8"
    and b: "\<forall>n. reg_read_only (c0_reg EeCoreCop0_new n) \<longleftrightarrow> n = C0_PRID"
    using cop0_inv_init by (simp_all add: cop0_inv_def)
  show ?thesis
    by (simp add: status_write_spec[OF a b] demo_fpu_cop0_def status_context_def bit_numeral_rec)
qed

lemma demo_fpu_ok: "ee_ok demo_fpu" "fpu_is_usable (e_cop0 demo_fpu)"
proof -
  have "c0_raw C0_STATUS demo_fpu_cop0 = 0x20400002" "cop0_inv demo_fpu_cop0"
    using status_write_inv[OF cop0_inv_init demo_fpu_cop0] by simp_all
  then show "fpu_is_usable (e_cop0 demo_fpu)"
    by (simp add: demo_fpu_def fpu_is_usable_def fpr_upd_def status_field_def extract_from_eq STATUS_CU_def
        Bitfield_new_def)
  show "ee_ok demo_fpu"
    unfolding demo_fpu_def using \<open>cop0_inv demo_fpu_cop0\<close> demo_ok
    by (intro ee_ok_upd) (simp_all add: SizedRegister_new_def)
qed

lemma demo_fpu_regs:
  "e_fpr demo_fpu 0 = SizedRegister_new 0x3FC00000 False"
  "e_fpr demo_fpu 1 = SizedRegister_new 0x3F800000 False"
  "w_read_uword (e_acc demo_fpu) = 0"
  by (simp_all add: demo_fpu_def fpr_upd_def demo_state_def ee_state_new_def SizedRegister_new_def
      EeCoreFpuRegister_Irr_new_def w_read_uword_def reg_read_def)

lemma demo_sizes:
  "bus_objects (ByteBus_new n objs :: uptr byte_bus) = objs"
  "length demo_objects = 2"
  "byte_bus_map_size (demo_objects ! 0) = 16" "byte_bus_map_size (demo_objects ! Suc 0) = 16"
  by (simp_all add: ByteBus_new_def demo_objects_def demo_memory_def mem_size_def ArrayByteMemory_new_def)

lemma demo_maps_ok: "\<forall>m\<in>set demo_maps. mappable (ByteBus_new n demo_objects) m"
  by (simp add: demo_maps_def mappable_def demo_sizes)

lemma demo_maps_disjoint: "sorted_wrt (ranges_disjoint (ByteBus_new n demo_objects)) demo_maps"
  by (simp add: demo_maps_def ranges_disjoint_def demo_sizes)

text \<open>A store and a load at address 8, which reset state leaves unmapped.\<close>

definition demo_store :: instruction where
  "demo_store = 0x00020008"

definition demo_load :: instruction where
  "demo_load = 0x00030008"

lemma demo_memory_fields:
  "inst_rs demo_store = 0" "inst_rt demo_store = 2" "inst_s_imm demo_store = 8"
  "inst_rs demo_load = 0" "inst_rt demo_load = 3" "inst_s_imm demo_load = 8"
  by (simp_all add: demo_store_def demo_load_def inst_defs extract_from_def shifted_mask_def
      unshifted_mask_def mask_eq_exp_minus_1)

lemma demo_gpr:
  "reg_val (e_gpr demo_state 0) = 0"
  "reg_val (e_gpr demo_state 1) = 0x00010002000300040005000600070000"
  "reg_val (e_gpr demo_state (Suc 0)) = 0x00010002000300040005000600070000"
  "reg_val (e_gpr demo_state 2) = 0x00090002000A0004FFFBFFFA7FFFFFFF"
  by (simp_all add: demo_state_def gpr_upd_def ee_state_new_def EeCoreR5900_gpr_new_def
      SizedRegister_new_def q_defs reg_write_def)

lemmas demo_eval = demo_gpr q_defs reg_read_lane_def get_lane_def Let_def

text \<open>Register 4 holds a Status for user mode, and the word is \<open>MTC0 $4, Status\<close>.\<close>

definition demo_to_user :: ee_state where
  "demo_to_user = dest_d 4 (scast (0x10 :: uword)) demo_state"

definition demo_MTC0 :: instruction where
  "demo_MTC0 = 0x46000"

lemma demo_to_user:
  "ee_ok demo_to_user" "c0_operating_context (e_cop0 demo_to_user) = Kernel"
  "\<exists>c s3. translate_address_data 0x80000010 READ demo_to_user = Inr (Some 0x10, demo_to_user\<lparr>e_tcd := c\<rparr>) \<and>
     MTC0 demo_MTC0 (demo_to_user\<lparr>e_tcd := c\<rparr>) = Inr s3 \<and> c0_operating_context (e_cop0 s3) = User"
proof -
  show ok: "ee_ok demo_to_user" unfolding demo_to_user_def using demo_ok by (rule ee_ok_gpr_upd) simp
  have c0: "e_cop0 demo_to_user = EeCoreCop0_new" by (simp add: demo_to_user_def gpr_upd_def demo_cop0)
  then show k: "c0_operating_context (e_cop0 demo_to_user) = Kernel" by (simp add: EeCoreCop0_new_def)
  have "ee_data_run demo_to_user"
    unfolding ee_data_run_def
    by (rule flushed) (use ok in \<open>simp_all add: demo_to_user_def demo_parts(1,3) demo_tlb_wf\<close>)
  moreover have "translate_address_fallback 0x80000010 READ demo_to_user = Inr (Some 0x10, demo_to_user)"
    by (simp add: translate_address_fallback_def context_allows_def unmapped_address_def k Let_def)
  ultimately obtain s1 where s1: "translate_address_data 0x80000010 READ demo_to_user = Inr (Some 0x10, s1)"
    using ee_data_run_agrees(1) by blast
  then obtain c where c: "s1 = demo_to_user\<lparr>e_tcd := c\<rparr>"
    using translate_fills[OF ee_okD(9)[OF ok]] by blast
  have f: "inst_rt demo_MTC0 = 4" "inst_rd demo_MTC0 = C0_STATUS"
    by (simp_all add: demo_MTC0_def inst_defs extract_from_eq)
  have v0: "src_w 4 0 demo_to_user = 0x10"
    unfolding demo_to_user_def by (rule dest_low_word[OF demo_ok]) simp
  have l: "length (c0_irq_lines EeCoreCop0_new) = 8"
    and ro: "\<forall>n. reg_read_only (c0_reg EeCoreCop0_new n) \<longleftrightarrow> n = C0_PRID"
    using cop0_inv_init by (simp_all add: cop0_inv_def)
  have "\<exists>s3. MTC0 demo_MTC0 (demo_to_user\<lparr>e_tcd := c\<rparr>) = Inr s3 \<and> c0_operating_context (e_cop0 s3) = User"
    by (simp add: MTC0_def guarded_def handle_cop0_usable_def cop0_is_usable_def c0 k[unfolded c0] f v0 cop0_res_def
        cop0_write_uword_def status_write_spec[OF l ro] status_context_def bit_numeral_rec)
  with s1 c show "\<exists>c s3. translate_address_data 0x80000010 READ demo_to_user = Inr (Some 0x10, demo_to_user\<lparr>e_tcd := c\<rparr>) \<and>
     MTC0 demo_MTC0 (demo_to_user\<lparr>e_tcd := c\<rparr>) = Inr s3 \<and> c0_operating_context (e_cop0 s3) = User"
    by blast
qed

lemma demo_kernel: "c0_operating_context (e_cop0 demo_state) = Kernel"
  by (simp add: demo_cop0 EeCoreCop0_new_def)

lemma demo_empty_cache: "ts_view (e_tcd demo_state) k = None"
  by (simp add: demo_parts TranslationCache_new_def TimestampLruCache_new_def ts_view_def
      ts_used_def view_of_def)

lemma demo_sound: "data_cache_sound demo_state" "tlb_wf (e_tlb demo_state)"
  by (simp_all add: data_cache_sound_def cache_sound_def demo_empty_cache demo_parts(1) demo_tlb_wf)

lemma demo_address: "effective_address demo_store demo_state = 8"
  by (simp add: effective_address_def demo_memory_fields demo_gpr q_defs reg_read_lane_def get_lane_def)

lemma demo_translate: "\<exists>s0. translate_address_data 8 WRITE demo_state = Inr (Some 8, s0)"
proof -
  have "status_field STATUS_ERL (e_cop0 demo_state) = 1"
    by (simp add: status_field_def demo_status STATUS_ERL_def extract_from_eq)
  then have "translate_address_fallback (page_of 8) WRITE demo_state = Inr (Some 0, demo_state)"
    by (simp add: translate_address_fallback_def context_allows_def unmapped_address_def
        demo_kernel cache_mask_def Let_def)
  from translate_data_miss[OF demo_ok demo_sound(2,1) demo_empty_cache this] show ?thesis
    by (auto simp: cache_mask_def)
qed

lemma demo_locate: "bus_locate 8 (e_bus demo_state) = Inr (0, 8)"
  by (simp add: demo_parts demo_bus_def bus_locate_def get_page_def get_vdn_def extract_from_eq
      demo_sizes)

lemma demo_writable:
  "0 < length (bus_objects (e_bus demo_state))"
  "bus_objects (e_bus demo_state) ! 0 = Memory_obj demo_memory" "\<not> mem_read_only demo_memory"
  "8 + 4 \<le> mem_size demo_memory" "mem_size demo_memory = 16"
  by (simp_all add: demo_parts demo_bus_def demo_objects_def demo_memory_def
      ArrayByteMemory_new_def mem_size_def)

lemma replicate_4_8: "replicate 4 x = [x, x, x, x]" "replicate 8 x = [x, x, x, x, x, x, x, x]"
  by (simp_all add: eval_nat_numeral)

lemma demo_reads:
  "mem_read_uword 0 demo_memory = Inr 0x5A5A5A5A" "mem_read_uword 4 demo_memory = Inr 0x5A5A5A5A"
  "mem_read_udword 0 demo_memory = Inr 0x5A5A5A5A5A5A5A5A"
  "mem_read_udword 8 demo_memory = Inr 0x5A5A5A5A5A5A5A5A"
  by (simp_all add: demo_memory_def ArrayByteMemory_new_def mem_read_uword_def mem_read_udword_def
      mem_read_def mem_access_def mem_size_def replicate_4_8)

section \<open>An unaligned load\<close>

text \<open>Sixteen different bytes, and \<open>LWR\<close>, \<open>LWL\<close> of register 3 from offsets 1 and 4 of register 0.\<close>

definition demo_bytes :: byte_memory where
  "demo_bytes =
     \<lparr>mem_bytes = [0x10, 0x11, 0x12, 0x13, 0x14, 0x15, 0x16, 0x17, 0x18, 0x19, 0x1A, 0x1B, 0x1C, 0x1D, 0x1E, 0x1F],
      mem_initial = 0, mem_read_only = False\<rparr>"

definition demo_unaligned :: ee_state where
  "demo_unaligned = demo_state\<lparr>e_bus := demo_bus\<lparr>bus_objects := [Memory_obj demo_bytes]\<rparr>\<rparr>"

definition demo_LWR :: instruction where "demo_LWR = 0x98030001"
definition demo_LWL :: instruction where "demo_LWL = 0x88030004"

lemma demo_unaligned_fields:
  "inst_rs demo_LWR = 0" "inst_rt demo_LWR = 3" "inst_s_imm demo_LWR = 1"
  "inst_rs demo_LWL = 0" "inst_rt demo_LWL = 3" "inst_s_imm demo_LWL = 4"
  by (simp_all add: demo_LWR_def demo_LWL_def inst_defs extract_from_def shifted_mask_def
      unshifted_mask_def mask_eq_exp_minus_1)

lemma demo_unaligned_ok: "ee_ok demo_unaligned"
  unfolding demo_unaligned_def by (rule ee_ok_upd[OF demo_ok])

lemma demo_unaligned_parts:
  "e_cop0 demo_unaligned = e_cop0 demo_state" "e_tcd demo_unaligned = e_tcd demo_state"
  "e_tlb demo_unaligned = demo_tlb" "e_gpr demo_unaligned = e_gpr demo_state"
  "bus_objects (e_bus demo_unaligned) = [Memory_obj demo_bytes]" "mem_size demo_bytes = 16"
  "effective_address demo_LWR demo_unaligned = 1"
  by (simp_all add: demo_unaligned_def demo_parts demo_bytes_def mem_size_def effective_address_def
      demo_unaligned_fields demo_gpr q_defs reg_read_lane_def get_lane_def)

lemma demo_unaligned_locate:
  "bus_locate 0 (e_bus demo_unaligned) = Inr (0, 0)" "bus_locate 4 (e_bus demo_unaligned) = Inr (0, 4)"
  by (simp_all add: demo_unaligned_def demo_bus_def bus_locate_def get_page_def get_vdn_def extract_from_eq)

lemma demo_unaligned_reads: "mem_read_uword 1 demo_bytes = Inr 0x14131211"
  by (simp add: mem_read_uword_def mem_read_def mem_access_def mem_size_def demo_bytes_def)

lemma demo_unaligned_translate: "\<exists>s0. translate_address_data 0 READ demo_unaligned = Inr (Some 0, s0)"
proof -
  have "status_field STATUS_ERL (e_cop0 demo_state) = 1"
    by (simp add: status_field_def demo_status STATUS_ERL_def extract_from_eq)
  then have f: "translate_address_fallback (page_of 0) READ demo_unaligned = Inr (Some 0, demo_unaligned)"
    by (simp add: translate_address_fallback_def context_allows_def unmapped_address_def
        demo_kernel Let_def demo_unaligned_parts)
  have v: "ts_view (e_tcd demo_unaligned) k = None" for k by (simp add: demo_unaligned_parts demo_empty_cache)
  have w: "tlb_wf (e_tlb demo_unaligned)" "data_cache_sound demo_unaligned"
    by (simp_all add: demo_unaligned_parts(3) demo_tlb_wf data_cache_sound_def cache_sound_def v)
  from translate_data_miss[OF demo_unaligned_ok w v f] show ?thesis by auto
qed

lemma demo_unaligned_pair:
  "\<exists>s1. LWR demo_LWR demo_unaligned = Inr s1 \<and>
     unaligned_pair 4 0xFFFFFFFC demo_LWR demo_LWL demo_unaligned s1 0 demo_bytes"
proof -
  obtain s0 where t0: "translate_address_data 0 READ demo_unaligned = Inr (Some 0, s0)"
    using demo_unaligned_translate by blast
  obtain c pa0 where c: "s0 = demo_unaligned\<lparr>e_tcd := c\<rparr>" "ts_invar TC_SIZE c" "ts_view c (page_of 0) = Some pa0"
    "0 = pa0 OR (0 AND cache_mask)"
    using translate_fills[OF ee_okD(9)[OF demo_unaligned_ok] t0] by blast
  have pa0: "pa0 = 0" using c(4) by simp
  have m: "bus_objects (e_bus demo_unaligned) ! 0 = Memory_obj demo_bytes" by (simp add: demo_unaligned_parts)
  obtain w0 where w0: "mem_read_uword 0 demo_bytes = Inr w0"
    using mem_read_ex[of 0 4 demo_bytes] by (auto simp: mem_read_uword_def demo_unaligned_parts)
  let ?s1 = "dest_d 3 (scast (LWR_merge (word_shift 1) (src_w 3 0 (demo_unaligned\<lparr>e_tcd := c\<rparr>)) w0)) (demo_unaligned\<lparr>e_tcd := c\<rparr>)"
  have r: "LWR demo_LWR demo_unaligned = Inr ?s1"
    using load_step[where rd = bus_read_uword, OF t0 bus_read_memory(1)[OF demo_unaligned_locate(1) m w0] c(1)]
    by (simp add: LWR_def demo_unaligned_parts(7) demo_unaligned_fields)
  have "page_of 4 = page_of 0" by (simp add: cache_mask_def)
  then obtain c' where "translate_address_data 4 READ ?s1 = Inr (Some (0 OR (4 AND cache_mask)), ?s1\<lparr>e_tcd := c'\<rparr>)"
    using translate_hit_view[of ?s1 4 0 READ] c(2,3) pa0 by (auto simp: gpr_upd_def)
  then have t1: "translate_address_data 4 READ ?s1 = Inr (Some 4, ?s1\<lparr>e_tcd := c'\<rparr>)"
    by (simp add: cache_mask_def)
  have "unaligned_pair 4 0xFFFFFFFC demo_LWR demo_LWL demo_unaligned ?s1 0 demo_bytes"
    unfolding unaligned_pair_def demo_unaligned_parts(7) demo_unaligned_fields
    by (intro conjI exI[of _ 0] exI[of _ s0] exI[of _ 4] exI[of _ "?s1\<lparr>e_tcd := c'\<rparr>"])
      (use t0 t1 m in \<open>simp_all add: demo_unaligned_locate demo_unaligned_parts(6)\<close>)
  then show ?thesis using r by blast
qed

section \<open>A running machine\<close>

text \<open>
  The word at address 0 is \<open>ADDIU $3, $0, 5\<close>, the next is a no-operation; the PC is at 0, where
  the reset state (ERL set) is not mapped.
\<close>

definition demo_program :: byte_memory where
  "demo_program = \<lparr>mem_bytes = [5, 0, 3, 0x24, 0, 0, 0, 0], mem_initial = 0, mem_read_only = False\<rparr>"

definition demo_run :: ee_state where
  "demo_run = pc_upd (w_write_uword 0)
     (demo_state\<lparr>e_bus := demo_bus\<lparr>bus_objects := [Memory_obj demo_program, Memory_obj demo_memory]\<rparr>\<rparr>)"

definition demo_sys :: ee_sys where
  "demo_sys =
     (let r = SizedRegister_new 0 False
      in \<lparr>sys_ee = demo_run, sys_vu0 = VuUnit_new 0 [], sys_fbrst = r, sys_vpu_stat = r, sys_cmsar1 = r\<rparr>)"

lemma demo_run_ok: "ee_ok demo_run" "sys_ok demo_sys"
proof -
  show "ee_ok demo_run"
    unfolding demo_run_def using demo_ok by (intro ee_ok_pc_write ee_ok_upd)
  then show "sys_ok demo_sys"
    by (simp add: demo_sys_def sys_ok_def vu_ok_new SizedRegister_new_def Let_def)
qed

lemma demo_run_parts:
  "pc_val demo_run = 0" "e_tci demo_run = TranslationCache_new" "e_cop0 demo_run = e_cop0 demo_state"
  "e_gpr demo_run = e_gpr demo_state" "e_bdelay demo_run = BranchDelaySlot_new"
  "e_bus demo_run = demo_bus\<lparr>bus_objects := [Memory_obj demo_program, Memory_obj demo_memory]\<rparr>"
  "sys_ee demo_sys = demo_run"
  by (simp_all add: demo_run_def demo_sys_def demo_state_def pc_upd_def ee_state_new_def w_defs
      reg_read_def reg_write_def SizedRegister_new_def Let_def)

lemma e_tci_same: "demo_run\<lparr>e_tci := TranslationCache_new\<rparr> = demo_run"
  unfolding demo_run_parts(2)[symmetric] by simp

lemma demo_run_translate:
  "\<exists>c. translate_address_inst 0 demo_run = Inr (Some 0, demo_run\<lparr>e_tci := c\<rparr>)"
proof -
  have miss: "ts_view TranslationCache_new k = None" for k
    using demo_empty_cache by (simp add: demo_parts)
  have "translate_address_fallback 0 READ demo_run = Inr (Some 0, demo_run)"
    by (simp add: translate_address_fallback_def context_allows_def unmapped_address_def Let_def
        demo_run_parts(3) demo_kernel status_field_def demo_status STATUS_ERL_def extract_from_eq)
  moreover have "ts_get 0 TranslationCache_new = (None, TranslationCache_new :: trans_cache)"
    by (rule ts_get_miss[OF tc_new_invar miss])
  moreover obtain c where "ts_insert 0 0 TranslationCache_new = Inr (c :: trans_cache)"
    using ts_insert_spec[OF tc_new_invar miss] by blast
  ultimately have "translate_address_inst 0 demo_run = Inr (Some 0, demo_run\<lparr>e_tci := c\<rparr>)"
    unfolding translate_address_inst_def tc_lookup_def handle_fallback_def demo_run_parts(2)
    by (simp add: Let_def e_tci_same demo_run_parts(2))
  then show ?thesis by blast
qed

lemma demo_program_word:
  "mem_read_uword 0 demo_program = Inr 0x24030005" "mem_size demo_program = 8"
  by (simp_all add: demo_program_def mem_read_uword_def mem_read_def mem_access_def mem_size_def)

lemma demo_run_read: "bus_read_uword 0 (e_bus demo_run) = Inr (0x24030005, e_bus demo_run)"
  by (simp add: demo_run_parts demo_bus_def bus_read_uword_def bus_read_with_def bus_locate_def
      get_page_def get_vdn_def extract_from_eq same_obj_def demo_program_word)

lemma e_bus_same: "demo_run\<lparr>e_tci := c, e_bus := e_bus demo_run\<rparr> = demo_run\<lparr>e_tci := c\<rparr>"
  by simp

lemma demo_run_fetch:
  "\<exists>c. fetch demo_sys = Inr (0x24030005, demo_sys\<lparr>sys_ee := demo_run\<lparr>e_tci := c\<rparr>\<rparr>)"
proof -
  obtain c where "translate_address_inst 0 demo_run = Inr (Some 0, demo_run\<lparr>e_tci := c\<rparr>)"
    using demo_run_translate by blast
  then have "fetch demo_sys = Inr (0x24030005, demo_sys\<lparr>sys_ee := demo_run\<lparr>e_tci := c\<rparr>\<rparr>)"
    unfolding fetch_def demo_run_parts(1,7) by (simp add: demo_run_read e_bus_same)
  then show ?thesis by blast
qed

lemma demo_run_word:
  "inst_opcode 0x24030005 = 9" "inst_rt 0x24030005 = 3" "inst_rs 0x24030005 = 0" "inst_s_imm 0x24030005 = 5"
  by (simp_all add: inst_defs extract_from_eq)

lemma demo_run_step: "\<exists>s'. ee_step (1, demo_sys) (- 2, s')"
proof -
  obtain s1 where s1: "fetch demo_sys = Inr (0x24030005, s1)" using demo_run_fetch by blast
  obtain info where "ee_lookup 0x24030005 = Inr info" "execute info 0x24030005 = lift_total ADDIU 0x24030005"
    using ADDIU_lookup[OF demo_run_word(1)] by blast
  then have "\<exists>s'. time_step 1 demo_sys = Inr (3, s')"
    using time_step_quiet[OF _ s1, of 1] by (simp add: lift_total_def)
  then show ?thesis by (auto simp: ee_step_3)
qed

section \<open>A TLB entry to write, a vector unit\<close>

definition demo_refill :: ee_state where
  "demo_refill = cop0_upd (c0_insert_field C0_ENTRYHI ENTRYHI_VPN2 1) demo_state"

lemma demo_refill_raw:
  "c0_raw n (e_cop0 demo_refill) = (if n = C0_ENTRYHI then 0x2000 else c0_raw n EeCoreCop0_new)"
  "c0_operating_context (e_cop0 demo_refill) = Kernel" "e_tlb demo_refill = demo_tlb"
  by (simp_all add: demo_refill_def demo_parts cop0_upd_def demo_cop0 c0_insert_field_def c0_raw_write_def
      EeCoreCop0_new_def c0_raw_def word_defs w_defs reg_read_def reg_write_def SizedRegister_new_def
      insert_into_def unshifted_mask_eq mask_eq_exp_minus_1 shifted_mask_def)

lemma demo_reset_raw:
  "c0_raw C0_INDEX EeCoreCop0_new = 0" "c0_raw C0_PAGEMASK EeCoreCop0_new = 0"
  "c0_raw C0_ENTRYLO0 EeCoreCop0_new = 0" "c0_raw C0_ENTRYLO1 EeCoreCop0_new = 0"
  by (simp_all add: EeCoreCop0_new_def c0_raw_def word_defs w_defs reg_read_def SizedRegister_new_def)

lemma demo_refill_fields:
  "c0_extract_field C0_ENTRYHI ENTRYHI_VPN2 (e_cop0 demo_refill) = 1"
  "c0_extract_field C0_INDEX INDEX_INDEX (e_cop0 demo_refill) = 0"
  "c0_extract_field C0_PAGEMASK PAGEMASK_MASK (e_cop0 demo_refill) = 0"
  "cop0_is_usable (e_cop0 demo_refill)"
  by (simp_all add: c0_extract_field_def demo_refill_raw cop0_is_usable_def
      demo_reset_raw extract_from_eq) (simp_all add: word_defs)

definition demo_probe :: ee_cop0 where
  "demo_probe = c0_insert_field C0_INDEX INDEX_INDEX 5 (e_cop0 demo_refill)"

lemma demo_probe_fields:
  "c0_extract_field C0_ENTRYHI f demo_probe = c0_extract_field C0_ENTRYHI f (e_cop0 demo_refill)"
  "cop0_is_usable demo_probe" "cop0_is_usable EeCoreCop0_new"
  "c0_extract_field C0_INDEX INDEX_INDEX EeCoreCop0_new = 0"
  "c0_extract_field C0_ENTRYHI ENTRYHI_VPN2 EeCoreCop0_new = 0"
proof -
  show "c0_extract_field C0_ENTRYHI f demo_probe = c0_extract_field C0_ENTRYHI f (e_cop0 demo_refill)"
    by (simp add: demo_probe_def c0_extract_field_def raw_inserted_other)
  show "cop0_is_usable demo_probe"
    by (simp add: demo_probe_def cop0_is_usable_def c0_insert_field_def demo_refill_raw)
qed (simp_all add: cop0_is_usable_def EeCoreCop0_new_def c0_extract_field_def c0_raw_def w_defs reg_read_def
    SizedRegister_new_def extract_from_eq)

lemma demo_refill_write: "\<exists>s. TLBWI 0 demo_refill = Inr s"
  using Mask_new_pagemask[of 0]
  by (auto simp: TLBWI_def guarded_def handle_cop0_usable_def write_entry_def set_tlb_entry_at_def
      cop0_entry_def demo_refill_fields demo_refill_raw demo_tlb_def Mask_new_def)

lemma demo_refill_unmatched: "j < 48 \<Longrightarrow> \<not> is_match (e_tlb demo_refill) 0x2000 j"
  by (simp add: demo_refill_raw is_match_def demo_tlb_def entry_match_def demo_entry_def)

text \<open>A miss in the kernel's mapped segment and the write of the refill handler.\<close>

lemma demo_miss:
  "context_allows (c0_operating_context (e_cop0 demo_state)) 0xC0002000"
  "unmapped_address demo_state 0xC0002000 = None" "find_tlb_entry_index 0xC0002000 demo_tlb = -1"
  by (simp_all add: demo_cop0 EeCoreCop0_new_def context_allows_def unmapped_address_def find_tlb_miss
      is_match_def demo_tlb_def entry_match_def demo_entry_def)

lemma demo_miss_refilled:
  "\<exists>s1 s3. translate_address_fallback 0xC0002000 READ demo_state = Inr (None, s1) \<and>
     cop0_is_usable (e_cop0 s1) \<and> TLBWR 0 s1 = Inr s3"
proof -
  let ?ex = EX_TLB_REFILL_INVALID_INSTRUCTION_FETCH_LOAD
  let ?c = "c0_insert_field C0_RANDOM RANDOM_RANDOM (of_nat generate_new_tlb_index)
    (c0_insert_field C0_ENTRYHI ENTRYHI_VPN2 (extract_from (BF 13 19) 0xC0002000)
      (c0_insert_field C0_CONTEXT BADVPN2 (extract_from (BF 13 19) 0xC0002000)
        (c0_raw_write C0_BADVADDR 0xC0002000 (e_cop0 demo_state))))"
  let ?s = "demo_state\<lparr>e_cop0 := ?c\<rparr>"
  have ok: "ee_ok ?s"
    by (rule ee_ok_upd(8)[OF demo_ok]) (intro cop0_inv_insert cop0_inv_raw_write ee_okD(1)[OF demo_ok]; simp)
  have st: "c0_raw C0_STATUS (e_cop0 ?s) = 0x00400004"
    by (simp add: raw_inserted_other c0_raw_write_other demo_status)
  have b: "\<not> bit (c0_raw C0_STATUS (e_cop0 ?s)) 1"
    "\<not> (bit (c0_raw C0_STATUS (e_cop0 ?s)) 3 \<and> bit (c0_raw C0_STATUS (e_cop0 ?s)) 4)"
    unfolding st by (simp_all add: bit_numeral_rec)
  have "\<not> is_level2 ?ex" by (simp add: is_level2_def)
  then obtain s1 where s1: "handle_exception ?ex ?s = Inr s1" "level1_entry ?ex ?s s1"
    using handle_exception_level1_fresh[OF ok _ b, of ?ex] by blast
  have h: "handle_mmu_error 0xC0002000 ?ex (-1) demo_state = Inr s1"
    using s1(1) by (simp add: handle_mmu_error_def Let_def)
  then have f: "translate_address_fallback 0xC0002000 READ demo_state = Inr (None, s1)"
    using miss_raises[OF demo_miss(1,2), of READ] by (simp add: demo_parts demo_miss(3) refill_error_def)
  have u: "cop0_is_usable (e_cop0 s1)"
    using s1(2) by (simp add: level1_entry_def cop0_is_usable_def)
  have "c0_raw C0_PAGEMASK (e_cop0 s1) = 0"
    using handle_exception_frame(2)[OF s1(1), of C0_PAGEMASK]
    by (simp add: exception_registers_def raw_inserted_other c0_raw_write_other demo_cop0 demo_reset_raw)
  then have "c0_extract_field C0_PAGEMASK PAGEMASK_MASK (e_cop0 s1) = 0"
    by (simp add: c0_extract_field_def extract_from_eq)
  then have "\<exists>s3. TLBWR 0 s1 = Inr s3"
    using handle_mmu_error_frame[OF h ee_okD(1)[OF demo_ok]] u
    by (simp add: TLBWR_def guarded_def handle_cop0_usable_def write_entry_def cop0_entry_def Mask_new_def
        set_tlb_entry_at_def demo_parts demo_tlb_def)
  then show ?thesis using f u by blast
qed

definition demo_vu :: vu_unit where
  "demo_vu = vf_put 1 FW 0x3F800000 (vf_put 1 FX 0x3FC00000 (vf_put 3 FX 0x3F800000 (VuUnit_new 0 [])))"

lemma demo_vu_ok: "vu_ok demo_vu"
  by (simp add: demo_vu_def vu_ok_new)

lemma demo_vu_lanes:
  "vf_lane 1 FX demo_vu = 0x3FC00000" "vf_lane (Suc 0) FX demo_vu = 0x3FC00000" "vf_lane 3 FX demo_vu = 0x3F800000" "vf_lane 1 FW demo_vu = 0x3F800000"
  by (simp_all add: demo_vu_def vf_put_lane vu_ok_new)

section \<open>The I/O processor\<close>

text \<open>Out of reset, and with interrupts enabled and line 2 raised and unmasked.\<close>

definition demo_iop :: iop_state where
  "demo_iop = iop_state_new demo_bus"

definition demo_iop_irq :: iop_state where
  "demo_iop_irq = demo_iop\<lparr>i_cop0 := (i0_raw_write I0_STATUS 0x401 IopCoreCop0_new)
     \<lparr>i0_interrupts_masked := False, i0_irq_lines := (replicate 8 False)[2 := True]\<rparr>\<rparr>"

lemma demo_iop_ok: "iop_ok demo_iop"
  by (simp add: demo_iop_def iop_ok_new)

lemma demo_iop_parts:
  "i_cop0 demo_iop = IopCoreCop0_new" "iop_pc demo_iop = 0xBFC00000" "i_bdelay demo_iop = BranchDelaySlot_new"
  "i_tcd demo_iop = TranslationCache_new" "i0_raw I0_STATUS IopCoreCop0_new = 0x00400000"
  "i0_operating_context IopCoreCop0_new = Kernel"
  by (simp_all add: demo_iop_def iop_state_new_def w_defs reg_read_def SizedRegister_new_def
      IopCoreCop0_new_def i0_raw_def)

lemma demo_iop_irq_cop0:
  "i0_raw I0_STATUS (i_cop0 demo_iop_irq) = 0x401" "i0_irq_lines (i_cop0 demo_iop_irq) ! 2"
  "iop_cop0_inv (i_cop0 demo_iop_irq)"
proof -
  show st: "i0_raw I0_STATUS (i_cop0 demo_iop_irq) = 0x401" "i0_irq_lines (i_cop0 demo_iop_irq) ! 2"
    using i0_raw_write_get[OF iop_cop0_inv_new, of I0_STATUS I0_STATUS "0x401"]
    by (simp_all add: demo_iop_irq_def)
  have "iop_cop0_inv (i0_raw_write I0_STATUS 0x401 IopCoreCop0_new
      \<lparr>i0_interrupts_masked := False, i0_operating_context := Kernel\<rparr>)"
    using istatus_write_inv[OF iop_cop0_inv_new, of "0x401"] istatus_write_spec[OF iop_cop0_inv_new, of "0x401"]
    by (simp add: bit_numeral_rec)
  then show "iop_cop0_inv (i_cop0 demo_iop_irq)"
    using st(1) by (simp add: iop_cop0_inv_def demo_iop_irq_def demo_iop_parts(6))
qed

lemma demo_iop_irq_ok: "iop_ok demo_iop_irq"
  using iop_ok_upd(4)[OF demo_iop_ok demo_iop_irq_cop0(3)] by (simp add: demo_iop_irq_def)

lemma demo_iop_irq_pending: "iop_interrupt_pending demo_iop_irq"
  unfolding iop_interrupt_pending_def demo_iop_irq_cop0(1)
  using demo_iop_irq_cop0(2) by (auto simp: bit_numeral_rec intro!: exI[of _ 2])

lemma demo_agree: "cores_agree demo_iop (ee_state_new demo_tlb demo_bus)"
  unfolding demo_iop_def by (rule reset_agrees[OF demo_tlb_ok])

lemma demo_iop_isc: "istatus_field ISTATUS_ISC (i_cop0 demo_iop) = 0"
  by (simp add: demo_iop_parts istatus_field_def ISTATUS_ISC_def extract_from_eq)

text \<open>The program of \<open>demo_program\<close>, at address 0 of the I/O processor.\<close>

definition demo_iop_run :: iop_state where
  "demo_iop_run = demo_iop\<lparr>i_pc := SizedRegister_new 0 False,
     i_bus := demo_bus\<lparr>bus_objects := [Memory_obj demo_program, Memory_obj demo_memory]\<rparr>\<rparr>"

lemma demo_iop_run_parts:
  "i_cop0 demo_iop_run = IopCoreCop0_new" "iop_pc demo_iop_run = 0" "i_tci demo_iop_run = TranslationCache_new"
  "i_bus demo_iop_run = e_bus demo_run" "i_bdelay demo_iop_run = BranchDelaySlot_new"
  by (simp_all add: demo_iop_run_def demo_iop_def iop_state_new_def demo_run_parts w_defs reg_read_def
      SizedRegister_new_def)

lemma demo_iop_run_ok: "iop_ok demo_iop_run"
  using demo_iop_ok by (simp add: demo_iop_run_def iop_ok_def SizedRegister_new_def)

lemma demo_iop_fetch: "\<exists>c. iop_fetch demo_iop_run = Inr (0x24030005, demo_iop_run\<lparr>i_tci := c\<rparr>)"
proof -
  have "iop_translate_address_fallback 0 READ demo_iop_run = Inr (Some 0, demo_iop_run)"
    by (simp add: iop_translate_address_fallback_def demo_iop_run_parts demo_iop_parts(6))
  moreover have "iop_inst_run demo_iop_run"
    unfolding iop_inst_run_def by (auto intro: flushed simp: demo_iop_run_ok demo_iop_run_parts)
  ultimately obtain s where s: "iop_translate_address_inst 0 demo_iop_run = Inr (Some 0, s)"
    using iop_inst_run_agrees by blast
  then obtain c where "s = demo_iop_run\<lparr>i_tci := c\<rparr>"
    by (auto simp: iop_translate_address_inst_def tc_lookup_def handle_fallback_def Let_def
        dest!: iop_fallback_state split: option.splits prod.splits)
  moreover have "bus_read_uword 0 (i_bus demo_iop_run) = Inr (0x24030005, i_bus demo_iop_run)"
    by (simp add: demo_iop_run_parts(4) demo_run_read)
  ultimately show ?thesis using s by (auto simp: iop_fetch_def demo_iop_run_parts(2))
qed

lemma demo_ADDIU_lookup: "iop_lookup 0x24030005 = Inr (IOP_CORE_INSTRUCTION_TABLE ! 69)"
  by (simp add: iop_lookup_def iop_lookup_defs inst_defs extract_from_eq)

text \<open>The step runs \<open>ADDIU\<close>: register 3 becomes 5 and the PC advances.\<close>

lemma demo_iop_step:
  "\<exists>s'. iop_time_step 3 demo_iop_run = Inr (3, s') \<and> iop_gpr_read 3 s' = 5 \<and> iop_pc s' = 4"
proof -
  obtain c where f: "iop_fetch demo_iop_run = Inr (0x24030005, demo_iop_run\<lparr>i_tci := c\<rparr>)"
    using demo_iop_fetch by blast
  have e: "iop_execute (IOP_CORE_INSTRUCTION_TABLE ! 69) 0x24030005 = iop_total IOP_ADDIU 0x24030005"
    unfolding iop_execute_def
    by (simp add: IOP_CORE_INSTRUCTION_TABLE_def nth_append iop_segment_lengths iop_segment_defs
        iop_handler_defs iop_handler_segment_defs)
  have i: "iop_handle_interrupt_check demo_iop_run = Inr demo_iop_run"
    by (simp add: iop_handle_interrupt_check_def demo_iop_run_parts IopCoreCop0_new_def)
  let ?s = "demo_iop_run\<lparr>i_tci := c\<rparr>"
  have t: "iop_time_step 3 demo_iop_run = Inr (3, iop_advance_pc (IOP_ADDIU 0x24030005 ?s))"
    using f i e by (simp add: iop_time_step_def demo_ADDIU_lookup iop_total_def)
  have c: "iop_ok ?s" using iop_fetch_ok[OF demo_iop_run_ok] f by simp
  have g: "iop_gpr_read 3 (IOP_ADDIU 0x24030005 ?s) = 5"
    using iop_okD(8)[OF c] by (simp add: IOP_ADDIU_def iop_rt_def iop_gpr_read_write[OF c] demo_run_word)
  have "iop_pc (iop_advance_pc (IOP_ADDIU 0x24030005 ?s)) = 4"
    by (simp add: IOP_ADDIU_def iop_rt_def iop_advance_pc_def advance_pc_def demo_iop_run_parts Let_def w_defs
        BranchDelaySlot_new_def) (simp add: demo_iop_run_def SizedRegister_new_def w_defs reg_read_def reg_write_def)
  with t g show ?thesis by (simp add: iop_advance_pc_def split_beta iop_gpr_read_def)
qed

text \<open>\<open>ADDIU $3, $0, 5; SUBU $4, $0, $3; SLT $5, $4, $3\<close>\<close>

definition demo_words :: "instruction list" where
  "demo_words = [0x24030005, 0x00032023, 0x0083282A]"

lemma demo_words_shared: "list_all shared_word demo_words"
proof -
  have l: "iop_lookup 0x24030005 = Inr (IOP_CORE_INSTRUCTION_TABLE ! 69)"
    "iop_lookup 0x00032023 = Inr (IOP_CORE_INSTRUCTION_TABLE ! 21)"
    "iop_lookup 0x0083282A = Inr (IOP_CORE_INSTRUCTION_TABLE ! 26)"
    by (simp_all add: iop_lookup_def iop_lookup_defs inst_defs extract_from_eq)
  have "map impl_index IOP_CORE_INSTRUCTION_TABLE ! 69 = 8"
    "map impl_index IOP_CORE_INSTRUCTION_TABLE ! 21 = 50" "map impl_index IOP_CORE_INSTRUCTION_TABLE ! 26 = 55"
    unfolding iop_index_runs by (simp_all add: nth_append del: upt_rec_numeral)
  then show ?thesis
    by (simp add: demo_words_def shared_word_def l iop_table_length shared_instructions_def)
qed

end
