(* ===== verification/ExamplesIo.thy ===== *)
theory ExamplesIo
  imports Examples IopTimers
begin

text \<open>
  Concrete peripherals for the witnesses: an EE core that accepts interrupts on line 2, an
  interrupt controller with one line raised, and timers that have just been programmed.
\<close>

section \<open>Interrupts\<close>

definition demo_irq_cop0 :: ee_cop0 where
  "demo_irq_cop0 = (case status_write_uword 0x00010401 EeCoreCop0_new of Inr c \<Rightarrow> c | Inl e \<Rightarrow> EeCoreCop0_new)"

definition demo_irq :: ee_state where
  "demo_irq = demo_state\<lparr>e_cop0 := demo_irq_cop0\<rparr>"

lemma demo_irq_cop0: "status_write_uword 0x00010401 EeCoreCop0_new = Inr demo_irq_cop0"
proof -
  have a: "length (c0_irq_lines EeCoreCop0_new) = 8"
    and b: "\<forall>n. reg_read_only (c0_reg EeCoreCop0_new n) \<longleftrightarrow> n = C0_PRID"
    using cop0_inv_init by (simp_all add: cop0_inv_def)
  show ?thesis
    by (simp add: status_write_spec[OF a b] demo_irq_cop0_def status_context_def bit_numeral_rec)
qed

lemma demo_irq_ok: "ee_ok demo_irq" "c0_raw C0_STATUS (e_cop0 demo_irq) = 0x00010401"
proof -
  have "cop0_inv demo_irq_cop0 \<and> c0_raw C0_STATUS demo_irq_cop0 = 0x00010401"
    using status_write_inv[OF cop0_inv_init demo_irq_cop0] by simp
  then show "ee_ok demo_irq" "c0_raw C0_STATUS (e_cop0 demo_irq) = 0x00010401"
    by (simp_all add: demo_irq_def ee_ok_upd demo_ok)
qed

definition demo_intc :: ee_intc where
  "demo_intc = \<lparr>intc_mask = 0x400, intc_stat = 0x400\<rparr>"

lemma demo_accepts:
  "\<not> status_masked 0x00010401" "ee_intc_pending demo_intc" "accepts_line 0x00010401 ls True"
proof -
  show "\<not> status_masked 0x00010401" by (simp add: status_masked_def bit_numeral_rec)
  show "ee_intc_pending demo_intc"
    unfolding ee_intc_pending_def by (rule exI[of _ 10]) (simp add: demo_intc_def bit_numeral_rec)
  show "accepts_line 0x00010401 ls True"
    unfolding accepts_line_def by (rule exI[of _ 2]) (simp add: bit_numeral_rec)
qed

section \<open>Timers\<close>

text \<open>Timer 1 of the EE: counts every 16 ticks, interrupts and returns to zero at 100.\<close>

definition demo_timer :: ee_timer where
  "demo_timer = (EeTimersUnit_new 1)\<lparr>tu_mode := \<lparr>tm_val = 0x1C1, tm_write_latch = True\<rparr>, tu_compare := 100\<rparr>"

definition demo_timers :: "ee_timer list" where
  "demo_timers = [EeTimersUnit_new 0, demo_timer, EeTimersUnit_new 2, EeTimersUnit_new 3]"

lemmas demo_timer_defs = demo_timers_def demo_timer_def EeTimersUnit_new_def EeTimersUnitRegister_Count_new_def
  clock_source_def counts_on_def gate_blocks_def bit_numeral_rec

lemma demo_timers_ok:
  "list_all (steady Time_type) demo_timers" "distinct (map tu_id demo_timers)"
  "demo_timers ! 1 = demo_timer" "length demo_timers = 4" "programmed Time_type 0x1C1 demo_timer"
  "tu_id demo_timer = 1" "tu_compare demo_timer = 100"
  by (simp_all add: demo_timer_defs steady_def ee_timer_ok_def ee_counting_def programmed_def)

text \<open>Accesses from reset: a word write and a halfword write of the enable bit, a tick, a word write.\<close>

lemma demo_timer_accesses:
  "\<exists>us r. timer_accesses [Mode_uword 0 0x80, Mode_uhword 1 0 0x80, Tick Time_type, Mode_uword 1 0]
     (REeTimers_new, REeIntc_new) = Inr (us, r)"
  by (simp add: at_timer_def REeTimers_new_def EeTimersUnit_new_def ee_mode_bus_write_def
      ee_mode_bus_write_uhword_def put_lane_def lane_mask_def ee_tick_timer_def ee_timer_tick_def
      EeTimersUnitRegister_Count_new_def ee_timer_reset_def ee_get_properties_eq clock_source_def
      ee_count_increment_1 ee_counting_def handle_timer_interrupt_def handle_timer_zret_def mode_bits
      bit_numeral_rec)

lemma demo_timer_run: "tim_count 0x1C1 100 2000 = 25" "tim_raised 0x1C1 100 2000"
  by (simp_all add: tim_count_def tim_raised_def prescale_of_def clock_source_def bit_numeral_rec)

text \<open>Timer 3 of the IOP: interrupts and returns to zero at 1000.\<close>

definition demo_iop_timer :: iop_timer where
  "demo_iop_timer =
     \<lparr>iu_id = 3, iu_count = IopTimersUnitRegister_Count_new True,
      iu_mode = \<lparr>tm_val = 0x58, tm_write_latch = True\<rparr>, iu_compare = 1000\<rparr>"

definition demo_iop_timers :: "iop_timer list" where
  "demo_iop_timers = (case RIopTimers_new of Inr us \<Rightarrow> us[3 := demo_iop_timer] | Inl e \<Rightarrow> [])"

lemmas demo_iop_timer_defs = demo_iop_timers_def demo_iop_timer_def RIopTimers_new_def IopTimersUnit_new_def
  is_32b_count_mode_def IopTimersUnitRegister_Count_new_def iop_counts_on_def iop_source_def bit_numeral_rec

lemma demo_iop_timers_ok:
  "list_all (iop_steady Time_type) demo_iop_timers" "distinct (map iu_id demo_iop_timers)"
  "demo_iop_timers ! 3 = demo_iop_timer" "length demo_iop_timers = 6" "iop_programmed Time_type 0x58 demo_iop_timer"
  "iu_id demo_iop_timer = 3" "iu_compare demo_iop_timer = 1000"
  by (simp_all add: demo_iop_timer_defs iop_steady_def iop_timer_ok_def iop_counting_def iop_limit_def
      iop_programmed_def valid_target_def repeating_def)

lemma demo_iop_timer_run: "tmr_count 0x58 4294967295 1000 2500 = 500" "tmr_raised 0x58 4294967295 1000 2500"
  by (simp_all add: tmr_count_def tmr_raised_def bit_numeral_rec)

definition demo_iop_intc :: iop_intc where
  "demo_iop_intc = \<lparr>iop_intc_ctrl = 1, iop_intc_mask = 0x4000, iop_intc_stat = 0\<rparr>"

end
