(* ===== verification/ExamplesDma.thy ===== *)
theory ExamplesDma
  imports Examples Sif
begin

text \<open>
  Concrete transfers for the witnesses: a bus of one small memory for each processor, channels
  that have just been started, and a packet of one quad word on its way from one to the other.
\<close>

section \<open>Buses\<close>

definition demo_dma_bus :: "byte_memory \<Rightarrow> uptr byte_bus" where
  "demo_dma_bus m = demo_bus\<lparr>bus_objects := [Memory_obj m]\<rparr>"

lemma demo_dma_locate: "bus_locate a (demo_dma_bus m) = Inr (0, unat a)"
  by (simp add: demo_dma_bus_def demo_bus_def bus_locate_def get_page_def get_vdn_def extract_from_eq)

lemma demo_window: "n \<le> 2 ^ 32 - unat a \<Longrightarrow> window (demo_dma_bus m) a n 0 (unat a)"
  by (auto simp: window_def demo_dma_locate unat_word_ariths unat_of_nat)

lemma demo_memory_at: "dma_bus s = demo_dma_bus m \<Longrightarrow> memory_at 0 s = Some m"
  by (simp add: memory_at_def demo_dma_bus_def)

lemma demo_holds:
  assumes "dma_bus s = demo_dma_bus m" and "unat a + length bs \<le> length (mem_bytes m)"
    and "length (mem_bytes m) \<le> 2 ^ 32" and "take (length bs) (drop (unat a) (mem_bytes m)) = bs"
  shows "holds s a bs"
  unfolding holds_def memory_window_def
  using assms demo_window[of "length bs" a m] demo_memory_at[OF assms(1)]
  by (intro exI[of _ 0] exI[of _ "unat a"] exI[of _ m]) (simp add: mem_size_def)

section \<open>A normal transfer\<close>

text \<open>Channel 5 of the EE takes one quad word from the SIF0 queue to address 0.\<close>

definition demo_ram :: byte_memory where
  "demo_ram = ArrayByteMemory_new 32 0xFF False"

definition demo_data :: "ubyte list" where
  "demo_data = map of_nat [1 ..< 17]"

definition demo_ee_dma :: "ubyte list \<Rightarrow> ee_dma" where
  "demo_ee_dma items =
     \<lparr>dma_bus = demo_dma_bus demo_ram, dma_sbus = sbus_new\<lparr>fifo_sif0 := DmaFifoQueue_new\<lparr>q_items := items\<rparr>\<rparr>,
      d_ctrl = 1, d_stat = 0x00200000, d_pcr = 0, d_sqwc = 0, d_rbsr = 0, d_rbor = 0, d_stadr = 0,
      d_enable_r = 0, d_enable_w = 0, d_cop0 = EeCoreCop0_new\<rparr>"

definition demo_channels :: "uword \<Rightarrow> uword \<Rightarrow> ee_channel list" where
  "demo_channels v n = (initialise_ee_dmac 0 0 0 0 0)[5 := (EeDmacChannel_Base_new 5 (Some Sif0_fifo) Chcr_sif0)
     \<lparr>chcr := (EeDmacChannelRegister_Chcr_new Chcr_sif0)\<lparr>chcr_val := v\<rparr>, qwc := n\<rparr>]"

lemma demo_ee_dma_simps [simp]:
  "dma_bus (demo_ee_dma items) = demo_dma_bus demo_ram" "d_ctrl (demo_ee_dma items) = 1"
  "d_stat (demo_ee_dma items) = 0x00200000"
  "fifo_sif0 (dma_sbus (demo_ee_dma items)) = DmaFifoQueue_new\<lparr>q_items := items\<rparr>"
  "length (c0_irq_lines (d_cop0 (demo_ee_dma items))) = 8"
  using cop0_inv_init by (simp_all add: demo_ee_dma_def cop0_inv_def)

lemma demo_channel: "demo_channels v n ! 5 = (EeDmacChannel_Base_new 5 (Some Sif0_fifo) Chcr_sif0)
     \<lparr>chcr := (EeDmacChannelRegister_Chcr_new Chcr_sif0)\<lparr>chcr_val := v\<rparr>, qwc := n\<rparr>"
  by (simp add: demo_channels_def initialise_ee_dmac_def)

lemma demo_only_started: "only_started 5 (demo_channels v n)"
  unfolding only_started_def
  by (simp add: demo_channels_def initialise_ee_dmac_def less_Suc_eq numeral_eq_Suc EeDmacChannel_Base_new_def
      EeDmacChannel_Tadr_new_def EeDmacChannel_Asr_new_def EeDmacChannel_Sadr_new_def
      EeDmacChannel_Tadr_Sadr_new_def EeDmacChannelRegister_Chcr_new_def)

lemmas demo_channel_defs = EeDmacChannel_Base_new_def EeDmacChannelRegister_Chcr_new_def wired_def
  get_logical_mode_def chcr_extract_field_def CHCR_MOD_def extract_from_eq bit_numeral_rec

lemma demo_stall_free: "stall_free (demo_channels v n ! 5) (demo_ee_dma items)"
  unfolding demo_channel
  by (simp add: stall_free_def is_source_stall_control_on_def is_drain_stall_control_on_def STS_MAP_def STD_MAP_def
      DCTRL_STS_def DCTRL_STD_def extract_from_eq EeDmacChannel_Base_new_def)

lemma demo_receive:
  "receive_setup (demo_channels 0x100 1 ! 5) 1 Sif0_fifo (DmaFifoQueue_new\<lparr>q_items := demo_data\<rparr>) 0 0 demo_ram
     (demo_ee_dma demo_data)"
proof -
  have "memory_window (dma_address 0) (16 * 1) 0 0 demo_ram (demo_ee_dma demo_data)"
    using demo_window[of 16 "dma_address 0" demo_ram] demo_memory_at[of "demo_ee_dma demo_data" demo_ram]
    by (simp add: memory_window_def dma_address_def addr_field_def ADDR_ADDR_def extract_from_eq demo_ram_def
        ArrayByteMemory_new_def mem_size_def)
  moreover have "steady_queue Sif0_fifo (DmaFifoQueue_new\<lparr>q_items := demo_data\<rparr>) (demo_ee_dma demo_data)"
    by (simp add: steady_queue_def demo_ee_dma_def)
  ultimately show ?thesis
    using demo_stall_free[of "0x100" 1 demo_data] unfolding receive_setup_def demo_channel
    by (simp add: demo_channel_defs qword_run_def demo_data_def demo_ram_def ArrayByteMemory_new_def)
qed

section \<open>A chain of one packet\<close>

definition demo_tag :: uqword where
  "demo_tag = lower_qword 0x70000001 0"

definition demo_packet :: packet where
  "demo_packet = (demo_tag, 0, demo_data)"

lemma demo_tag_fields: "tag_id (tag_words demo_tag) = 7" "tag_qwc (tag_words demo_tag) = 1" "et_tag1 (tag_words demo_tag) = 0"
  by (simp_all add: demo_tag_def tag_words_def lower_qword_def tag_id_def tag_qwc_def ETAG_ID_def ETAG_QWC_def
      get_put_lane_other extract_from_eq)

lemma demo_packet_simps:
  "packet_id demo_packet = 7" "packet_qwords demo_packet = 1" "packet_bytes demo_packet = split_bytes 16 demo_tag @ demo_data"
  "packets_steps [demo_packet] = 2" "store_packets [demo_packet] bs = overlay 0 demo_data bs"
  by (simp_all add: demo_packet_def packet_id_def packet_qwords_def packet_bytes_def packets_steps_def store_packets_def
      demo_tag_fields)

lemma demo_packet_fits: "packet_fits 0 (mem_size demo_ram) (demo_dma_bus demo_ram) demo_packet"
proof -
  have "length demo_data = 16" by (simp add: demo_data_def)
  then show ?thesis
    using demo_window[of 16 "dma_address 0" demo_ram] demo_packet_simps(2)
    by (simp add: packet_fits_def demo_packet_def demo_tag_fields qword_run_def dma_address_def addr_field_def
        ADDR_ADDR_def extract_from_eq demo_ram_def ArrayByteMemory_new_def mem_size_def)
qed

lemma demo_dst_ready: "dst_ready (demo_channels 0x104 0 ! 5) [] demo_packet Sif0_fifo 0 demo_ram (demo_ee_dma items)"
  using demo_stall_free[of "0x104" 0 items] demo_packet_fits demo_packet_simps(1)
    demo_memory_at[of "demo_ee_dma items" demo_ram]
  unfolding dst_ready_def in_dst_chain_def demo_channel
  by (simp add: demo_channel_defs demo_ram_def ArrayByteMemory_new_def)

lemma demo_chain:
  "chain_setup (demo_channels 0x104 0 ! 5) [] demo_packet [] Sif0_fifo
     (DmaFifoQueue_new\<lparr>q_items := packet_bytes demo_packet\<rparr>) 0 demo_ram (demo_ee_dma (packet_bytes demo_packet))"
proof -
  have "sif_sees (demo_ee_dma items) (dma_sbus (demo_ee_dma items)) = demo_ee_dma items" for items
    by (simp add: sif_sees_def)
  then show ?thesis
    using dst_ready_chain[OF demo_dst_ready, of "dma_sbus (demo_ee_dma (packet_bytes demo_packet))"
        "packet_bytes demo_packet"] by simp
qed

section \<open>The packet in the memory of the IOP\<close>

text \<open>Its tag is the last one of the chain and points to the four words of data behind it.\<close>

definition demo_iop_packet :: iop_packet where
  "demo_iop_packet = ((0x80000010, 4, 0x70000001, 0), demo_data)"

definition demo_iop_ram :: byte_memory where
  "demo_iop_ram = (ArrayByteMemory_new 32 0 False)\<lparr>mem_bytes := ip_tag_bytes demo_iop_packet @ demo_data\<rparr>"

definition demo_iop_dma :: iop_dma where
  "demo_iop_dma =
     \<lparr>dma_bus = demo_dma_bus demo_iop_ram, dma_sbus = sbus_new, pcr0 = 0, pcr1 = 0x800, icr0 = 0x00800000,
      icr1 = 0x00040000, gctrl = 1, p_intc = \<lparr>iop_intc_ctrl = 1, iop_intc_mask = 8, iop_intc_stat = 0\<rparr>\<rparr>"

definition demo_iop_channels :: "iop_channel list" where
  "demo_iop_channels = (initialise_iop_dmac \<lparr>fifo_frommdec = 0, fifo_tomdec = 0, fifo_cdvd = 0, fifo_spu2c0 = 0,
      fifo_pio = 0, fifo_otclear = 0, fifo_spu2c1 = 0, fifo_dev9 = 0, fifo_fromsio2 = 0, fifo_tosio2 = 0\<rparr>)
    [9 := (IopDmacChannel_Tadr_new 9 (Some Sif0_fifo) Iop_sif0)
      \<lparr>ic_chcr := (IopDmacChannelRegister_Chcr_new Iop_sif0)\<lparr>ichcr_val := 0x01000701\<rparr>\<rparr>]"

lemma demo_iop_channel: "demo_iop_channels ! 9 = (IopDmacChannel_Tadr_new 9 (Some Sif0_fifo) Iop_sif0)
      \<lparr>ic_chcr := (IopDmacChannelRegister_Chcr_new Iop_sif0)\<lparr>ichcr_val := 0x01000701\<rparr>\<rparr>"
  by (simp add: demo_iop_channels_def initialise_iop_dmac_def)

lemma demo_iop_only_started: "iop_only_started 9 demo_iop_channels"
  unfolding iop_only_started_def
  by (simp add: demo_iop_channels_def initialise_iop_dmac_def less_Suc_eq numeral_eq_Suc IopDmacChannel_Base_new_def
      IopDmacChannel_Tadr_new_def IopDmacChannelRegister_Chcr_new_def)

lemma demo_iop_packet_simps:
  "itag_ert (ip_tag demo_iop_packet)" "itag_addr (ip_tag demo_iop_packet) = 16" "ip_length demo_iop_packet = 4"
  "ip_bytes demo_iop_packet = packet_bytes demo_packet" "same_packet demo_iop_packet demo_packet"
  "ip_steps [demo_iop_packet] = 5" "length (ip_tag_bytes demo_iop_packet) = 16"
  by (simp_all add: demo_iop_packet_def ip_tag_def itag_ert_def itag_addr_def ip_length_def itag_length_def
      ITAG_ERT_def ITAG_ADDR_def ITAG_LENGTH_def extract_from_eq ip_bytes_def packet_bytes_def demo_packet_def
      demo_tag_def same_packet_def ip_steps_def ip_tag_bytes_def)

lemma demo_iop_stored: "packets_stored demo_iop_dma 0 [demo_iop_packet]"
proof -
  have l: "length demo_data = 16" by (simp add: demo_data_def)
  have d: "dma_bus demo_iop_dma = demo_dma_bus demo_iop_ram" by (simp add: demo_iop_dma_def)
  have b: "mem_bytes demo_iop_ram = ip_tag_bytes demo_iop_packet @ demo_data" by (simp add: demo_iop_ram_def)
  have "holds demo_iop_dma 0 (ip_tag_bytes demo_iop_packet)" "holds demo_iop_dma 16 demo_data"
    by (rule demo_holds[OF d]; simp add: b l demo_iop_packet_simps)+
  then show ?thesis by (simp add: demo_iop_packet_simps l) (simp add: demo_iop_packet_def l)
qed

lemma demo_src_setup:
  "src_setup (demo_iop_channels ! 9) 0 [] demo_iop_packet Sif0_fifo (fifo_sif0 (dma_sbus demo_iop_dma)) demo_iop_dma"
proof -
  have "enabled (demo_iop_channels ! 9) demo_iop_dma"
    unfolding demo_iop_channel
    by (simp add: enabled_def is_channel_enabled_def demo_iop_dma_def PCR_ENABLE_KEYS_def extract_from_eq
        IopDmacChannel_Tadr_new_def IopDmacChannel_Base_new_def)
  moreover have "in_src_chain (demo_iop_channels ! 9) Sif0_fifo"
    unfolding demo_iop_channel
    by (simp add: in_src_chain_def iop_get_logical_mode_def ichcr_field_def ICHCR_SM_def extract_from_eq bit_numeral_rec
        iop_wired_def IopDmacChannel_Tadr_new_def IopDmacChannel_Base_new_def IopDmacChannelRegister_Chcr_new_def)
  moreover have "length (ip_bytes demo_iop_packet) = 32"
    by (simp add: demo_iop_packet_simps demo_packet_simps demo_data_def)
  moreover have "steady_queue Sif0_fifo (fifo_sif0 (dma_sbus demo_iop_dma)) demo_iop_dma"
    by (simp add: steady_queue_def)
  ultimately show ?thesis
    using demo_iop_stored demo_iop_packet_simps(1) unfolding src_setup_def demo_iop_channel
    by (simp add: IopDmacChannel_Tadr_new_def IopDmacChannel_Base_new_def IopDmacChannelRegister_Chcr_new_def
        demo_iop_dma_def sbus_new_def DmaFifoQueue_new_def queue_new_def)
qed

end
