(* ===== verification/Spec2Isabelle.thy ===== *)
theory Spec2Isabelle
  imports BusMap EeTranslate EeAddSub EeLogicShift EeCompare EeBranch EeMultDiv EeTransfer
    EeReorder EeMemory EeFloat VuOther EeOthers EeCop2 EeDecode EeInterpreter EeStep IopStep
    CoreAgreement Intc Counter EeTimers IopTimers EeDmacChain IopDmacTransfer Sif EeAddressMap IopAddressMap
    Queues Examples ExamplesIo ExamplesDma
begin

text \<open>
  A verification development for orbum, a PlayStation 2 emulator in C++ (sources under
  \<open>src/liborbum\<close> and \<open>src/utilities\<close>).

  \<^bold>\<open>The program.\<close>  Every processor of the console is a controller that steps over a shared
  store of resources.  The EE core (a MIPS R5900 with a TLB, a COP0 and an FPU) fetches through
  a cached address translation, reads and writes memory and devices through a byte bus, and
  interprets instructions one by one; exceptions and interrupts redirect its PC.  The I/O
  processor (a MIPS R3000) does the same on a bus of its own.  Timers count bus clocks and H-blanks
  and set bits of an interrupt controller, whose time step drives an interrupt line of its core.
  A DMA controller on either side moves data between memory and the queues of the peripherals,
  following chains of tags; the two sides meet in the SBUS, whose queues and mailbox registers
  carry what one processor sends to the other.  Two memory maps say at which addresses all of
  this is found.

  \<^bold>\<open>Theories.\<close>
  Prelude: error values, the result monad, lanes of words.
  Bitfield, Utilities: \<open>Bitfield.hpp\<close>, \<open>Utilities.cpp\<close> (bit counts, saturation, overflow
  tests, sign extension, float normalisation).
  Registers: the sized registers, the instruction word, the branch delay slot.
  Caches: \<open>TimestampLruCache\<close> against a locale of sound caches.
  Memory, Bus, BusMap: array memory, the specification of the byte queues, the page-table bus and
  its correctness against the map of address ranges it is built from.
  Queues: the queue classes as the code has them (\<open>Queues.hpp\<close>, \<open>DmaFifoQueue.hpp\<close>), over a
  storage that is a parameter with the laws its library documents (locale \<open>spsc_queue\<close>), and that
  they refine the bounded list of Memory.
  EeCop0, EeTlb, EeState, EeCore, EeTranslate: COP0 with its overridden registers, the TLB, the
  state of the core with the invariant \<open>ee_ok\<close>, exceptions, interrupts and translation
  (\<open>CEeCore.cpp\<close>), and the equivalence of the cached with the full lookup.
  EeLanes, EeAddSub, EeLogicShift, EeCompare, EeBranch, EeMultDiv, EeTransfer, EeReorder,
  EeMemory: the instructions of \<open>CEeCoreInterpreter_*.cpp\<close>, one definition per instruction and
  named like it, each group with the lemma that every instruction keeps \<open>ee_ok\<close>.
  Float32, EeFloat: an executable model of IEEE single precision and the float instructions.
  VuUnit, VuFloat, VuOther: the registers, flags and delay slot of a vector unit and the
  instructions of \<open>CVuInterpreter_*.cpp\<close>; the lane loops are handled by two locales, one for
  loops over the fields and one for those that also collect flags.
  EeUnaligned: the pairs of unaligned loads.
  EeOthers, EeTlbOps, EeCop2: the TLB and interrupt-enable instructions, what a TLB write leaves for
  \<open>TLBR\<close>, \<open>TLBP\<close> and the next lookup, and COP2: the EE core joined with VU0, whose macro
  instructions run on the objects of the EE bus (invariant \<open>sys_ok\<close>).
  TickLoop: the loop of a time event, which every controller runs, as a locale: a run is the
  closure of the step relation.
  Decode, EeDecode, EeInterpreter, EeStep: decoding trees and their paths, the instruction table
  and \<open>lookup\<close>, the dispatch table, \<open>time_step\<close>, the step relation and its reachable states.
  Translation: page-granular translation through a cache, a locale of both cores.
  IopCore, IopInstructions, IopDecode, IopStep: the I/O processor (an R3000): COP0, exceptions,
  segments, instructions, decoding and stepping.
  CachedRuns: runs of translations and steps since a cache was emptied, of both cores, on which the
  cached lookup is the full one, and what a change of mode without a flush leaves cached.
  CoreAgreement: words of the instructions both cores share keep their states related.
  Intc: the interrupt controllers of both processors (\<open>CEeIntc.cpp\<close>, \<open>CIopIntc.cpp\<close>, their
  registers) and the path from a status bit to the interrupt handler of the core.
  Counter, EeTimers, IopTimers: the timers (\<open>CEeTimers.cpp\<close>, \<open>CIopTimers.cpp\<close>); the counting law is a
  locale with the three counters as instances, the bank of timers that report to one status
  register a second one.
  Sbus, Dma: the registers of the SBUS with what each context reads and writes
  (\<open>Resources/Sbus\<close>), and the accesses of a channel to its queue and its bus.
  EeDmac, EeDmacTransfer, EeDmacRun, EeDmacChain: the DMA controller of the EE (\<open>CEeDmac.cpp\<close>,
  \<open>Resources/Ee/Dmac\<close>), what one step of a transfer does, the run of a normal transfer and of a
  destination chain, and what the handlers of the call stack do.
  IopDmac, IopDmacTransfer, Sif: the DMA controller of the IOP (\<open>CIopDmac.cpp\<close>), its source chains,
  and the transfer through SIF0 from one memory to the other.
  AddressMap, EeAddressMap, IopAddressMap: the addresses of \<open>RResources.cpp\<close>, as lists of mappings,
  and the busses built from them; a map given as ascending segments is placed without overlap.
  Examples, ExamplesIo, ExamplesDma: the concrete machines of the witnesses.

  \<^bold>\<open>Conventions.\<close>  Machine integers are words of their width.  Errors (thrown exceptions,
  accesses outside an array, which C++ leaves undefined, and calls through a null pointer) are
  values of \<open>emu_error\<close>; an operation that can fail returns \<open>emu_error + 'a\<close>.  Mapped objects
  are indices into the object list of the bus, so aliasing through the bus is explicit.
  Offset checks of the debug build are kept.  A signed addition or subtraction that overflows,
  undefined in C++ (the sum that \<open>ADD\<close> forms for its overflow test), is taken to wrap.
  The access counter of the LRU cache is the 64-bit \<open>size_t\<close> of
  the code and wraps.  The name strings in the dispatch tables (\<open>EECORE_INSTRUCTION_TABLE\<close>,
  \<open>IOP_INSTRUCTION_TABLE\<close>) annotate the rows; the tables of the source hold member pointers only.
  Loops are recursions over lists or numbers; no fuel is needed.

  \<^bold>\<open>Not modelled.\<close>  Host I/O, threads and serialisation; micro programs of the vector units
  (\<open>CVuInterpreter::time_step\<close> is empty in the source); the conversion of a time to ticks, a
  floating-point product on the host, which is a parameter; the sine, arc tangent and exponential
  of the EFU, parameters too; the debug hook that prints IOP kernel messages; the pointers
  between resources that \<open>RResources.cpp\<close> sets, which the model has as arguments; the threads of
  \<open>Core.cpp\<close> that run the controllers, each of whose steps is one step here; the peripherals
  behind the queues (GIF, IPU, VIF, SIO, CDVD, SPU2) and the GS.
\<close>

section \<open>Exceptions and the delay slot\<close>

text \<open>C1: a level 1 exception taken with EXL clear, and KSU not the reserved encoding 3 (a write of
  which throws), saves the PC and the delay-slot bit, sets
  the cause code and EXL and clears ERL, enters the kernel context with interrupts masked,
  cancels a pending branch, points the PC at the vector for its cause and flushes both
  translation caches; the general registers and the bus are as before and the state is
  well-formed.\<close>

corollary exception_entry:
  assumes "ee_ok s" and "\<not> is_level2 ex"
    and "\<not> bit (c0_raw C0_STATUS (e_cop0 s)) 1"
    and "\<not> (bit (c0_raw C0_STATUS (e_cop0 s)) 3 \<and> bit (c0_raw C0_STATUS (e_cop0 s)) 4)"
  shows "\<exists>s'. handle_exception ex s = Inr s' \<and> level1_entry ex s s' \<and> ee_ok s'"
  using assms by (rule handle_exception_level1_fresh)

theorem exception_entry_witness:
  "\<exists>s'. handle_exception EX_OVERFLOW demo_state = Inr s' \<and> level1_entry EX_OVERFLOW demo_state s' \<and> ee_ok s'"
  by (rule exception_entry) (simp_all add: demo_ok demo_status is_level2_def bit_simps)

text \<open>C2: an \<open>ERET\<close> right after such an exception returns to the instruction that raised it
  (the branch before it when it sat in a delay slot), with the general registers as they
  were.\<close>

corollary exception_return:
  assumes "ee_ok s" and "\<not> is_level2 ex"
    and "\<not> bit (c0_raw C0_STATUS (e_cop0 s)) 1"
    and "\<not> (bit (c0_raw C0_STATUS (e_cop0 s)) 3 \<and> bit (c0_raw C0_STATUS (e_cop0 s)) 4)"
  shows "\<exists>s1 s2. handle_exception ex s = Inr s1 \<and> ERET inst s1 = Inr s2 \<and>
    pc_val (ee_advance_pc s2) = error_pc s \<and> e_gpr s2 = e_gpr s"
  using assms by (rule exception_then_ERET)

theorem exception_return_witness:
  "\<exists>s1 s2. handle_exception EX_OVERFLOW demo_state = Inr s1 \<and> ERET 0 s1 = Inr s2 \<and>
    pc_val (ee_advance_pc s2) = 0xBFC00000 \<and> e_gpr s2 = e_gpr demo_state"
  using exception_return[of demo_state EX_OVERFLOW 0]
  by (simp add: demo_ok demo_status is_level2_def bit_simps error_pc_def demo_parts is_branch_pending_def BranchDelaySlot_new_def)

text \<open>C3: a taken branch runs the instruction after it and then the target: the PC advances
  by 4 with the branch pending, and then to the PC-relative target.\<close>

corollary branch_delay:
  assumes "ee_ok s"
  shows "pc_val (ee_advance_pc (branch_itype inst s)) = pc_val s + 4 \<and>
    is_branch_pending (e_bdelay (ee_advance_pc (branch_itype inst s))) \<and>
    pc_val (ee_advance_pc (ee_advance_pc (branch_itype inst s))) = branch_target inst (pc_val s) \<and>
    \<not> is_branch_pending (e_bdelay (ee_advance_pc (ee_advance_pc (branch_itype inst s))))"
  using branch_taken[OF assms] by simp

theorem branch_delay_witness:
  "pc_val (ee_advance_pc (ee_advance_pc (branch_itype demo_inst demo_state))) = branch_target demo_inst 0xBFC00000"
  using branch_delay[OF demo_ok, of demo_inst] by (simp add: demo_parts)

section \<open>Address translation\<close>

text \<open>C4: between two flushes the translation caches of the EE core answer what the full lookup
  answers.  The claim is about a state reached, since the data (instruction) cache was last
  emptied, by translations through that cache and by steps that keep the TLB, the operating
  context, Status.ERL and EntryHi.ASID; nothing is assumed of the cache.  There, an address the
  full lookup gives is the one the cached lookup gives; an address the cached lookup gives is the
  full lookup's for a read; and a cached lookup that raises does what the full lookup of the
  page's address does.  A write of Status or EntryHi that changes those fields without a flush is
  outside the claim (C20 shows what happens after one).\<close>

corollary translation_cache_transparent:
  assumes "ee_data_run s" and "ee_inst_run t"
  shows "(translate_address_fallback va rw s = Inr (Some pa, s) \<longrightarrow>
      (\<exists>s'. translate_address_data va rw s = Inr (Some pa, s'))) \<and>
    (translate_address_data va rw s = Inr (Some pa, s1) \<longrightarrow>
      translate_address_fallback va READ s = Inr (Some pa, s)) \<and>
    (translate_address_data va rw s = Inr (None, s1) \<longrightarrow>
      translate_address_fallback (page_of va) rw s = Inr (None, s1)) \<and>
    ((\<exists>t'. translate_address_inst va t = Inr (Some pa, t')) \<longleftrightarrow>
      translate_address_fallback va READ t = Inr (Some pa, t)) \<and>
    (translate_address_inst va t = Inr (None, t1) \<longrightarrow>
      translate_address_fallback (page_of va) READ t = Inr (None, t1))"
  using ee_data_run_agrees[OF assms(1)] ee_inst_run_agrees[OF assms(2)] by blast

text \<open>A miss that fills the cache, then a hit of the same page.\<close>

theorem translation_cache_transparent_witness:
  "\<exists>s1 s2. translate_address_data 0x80001234 READ demo_state = Inr (Some 0x1234, s1) \<and>
     ts_view (e_tcd s1) (page_of 0x80001FF0) \<noteq> None \<and>
     translate_address_data 0x80001FF0 WRITE s1 = Inr (Some 0x1FF0, s2)"
proof -
  have k: "c0_operating_context (e_cop0 demo_state) = Kernel"
    by (simp add: demo_cop0 EeCoreCop0_new_def)
  have r: "ee_data_run demo_state" and r': "ee_inst_run demo_state"
    unfolding ee_data_run_def ee_inst_run_def
    using demo_ok by (auto intro!: flushed simp: demo_parts(1,3) demo_tlb_wf) (simp add: demo_state_def ee_state_new_def)
  have "translate_address_fallback 0x80001234 READ demo_state = Inr (Some 0x1234, demo_state)"
    by (simp add: translate_address_fallback_def context_allows_def unmapped_address_def k Let_def)
  then obtain s1 where s1: "translate_address_data 0x80001234 READ demo_state = Inr (Some 0x1234, s1)"
    using translation_cache_transparent[OF r r', of "0x80001234" READ "0x1234"] by blast
  obtain c pa0 where c: "s1 = demo_state\<lparr>e_tcd := c\<rparr>" "ts_view c (page_of 0x80001234) = Some pa0"
      "0x1234 = pa0 OR (0x80001234 AND cache_mask)"
    using translate_fills[OF ee_okD(9)[OF demo_ok] s1] by blast
  have "ee_data_run s1"
    using translated[OF r[unfolded ee_data_run_def] s1] by (simp add: ee_data_run_def)
  moreover have "translate_address_fallback 0x80001FF0 WRITE s1 = Inr (Some 0x1FF0, s1)"
    by (simp add: c(1) translate_address_fallback_def context_allows_def unmapped_address_def k Let_def)
  ultimately obtain s2 where s2: "translate_address_data 0x80001FF0 WRITE s1 = Inr (Some 0x1FF0, s2)"
    using translation_cache_transparent[OF _ r', of s1 "0x80001FF0" WRITE "0x1FF0"] by blast
  show ?thesis using s1 s2 c by (auto simp: cache_mask_def)
qed

text \<open>C5: the TLB search finds a matching entry among entries 0 to 46 when there is one and
  answers -1 exactly when there is none; its order of regions decides only between several
  matches.\<close>

corollary tlb_search:
  "(find_tlb_entry_index va t = -1 \<longleftrightarrow> (\<forall>i<47. \<not> is_match t va i)) \<and>
   (find_tlb_entry_index va t \<noteq> -1 \<longrightarrow>
      0 \<le> find_tlb_entry_index va t \<and> find_tlb_entry_index va t < 47 \<and>
      is_match t va (nat (find_tlb_entry_index va t)))"
  using find_tlb_hit[of va t] find_tlb_miss[of va t] by blast

theorem tlb_search_witness:
  "0 \<le> find_tlb_entry_index 0x1234 demo_tlb \<and> is_match demo_tlb 0x1234 (nat (find_tlb_entry_index 0x1234 demo_tlb))"
proof -
  have "is_match demo_tlb 0x1234 0"
    by (simp add: is_match_def demo_tlb_def entry_match_def demo_entry_def)
  then show ?thesis
    using tlb_search[of "0x1234" demo_tlb] by (metis zero_less_numeral)
qed

text \<open>C6: a TLB refill has no effect.  When an access that the context allows and that is not
  unmapped misses the TLB, the miss sets Random to 47; if the handler then writes an entry with
  \<open>TLBWR\<close>, having changed COP0 as it likes but not Random, the entry made of COP0 goes to slot 47,
  every search of the TLB finds what it found before, and the access made again, in the same
  context, raises the same exception.\<close>

corollary tlb_refill_futile:
  assumes "ee_ok s" and "context_allows (c0_operating_context (e_cop0 s)) va"
    and "unmapped_address s va = None" and "find_tlb_entry_index va (e_tlb s) = -1"
    and "translate_address_fallback va rw s = Inr (None, s1)"
    and "e_tlb s2 = e_tlb s1" and "cop0_is_usable (e_cop0 s2)"
    and "c0_extract_field C0_RANDOM RANDOM_RANDOM (e_cop0 s2) = c0_extract_field C0_RANDOM RANDOM_RANDOM (e_cop0 s1)"
    and "TLBWR inst s2 = Inr s3"
    and "e_tlb s4 = e_tlb s3" and "c0_operating_context (e_cop0 s4) = c0_operating_context (e_cop0 s)"
    and "status_field STATUS_ERL (e_cop0 s4) = status_field STATUS_ERL (e_cop0 s)"
  shows "(\<exists>e. cop0_entry (e_cop0 s2) = Inr e \<and> e_tlb s3 = (e_tlb s)[47 := e]) \<and>
    (\<forall>va'. find_tlb_entry_index va' (e_tlb s3) = find_tlb_entry_index va' (e_tlb s)) \<and>
    translate_address_fallback va rw s4 =
      bind_res (handle_mmu_error va (refill_error rw) (-1) s4) (\<lambda>s5. Inr (None, s5))"
  using assms by (rule refill_futile)

text \<open>Witness: out of reset, a load from \<open>0xC0002000\<close>, the \<open>TLBWR\<close> of its handler, the load again.\<close>

theorem tlb_refill_futile_witness:
  "\<exists>s1 s3. translate_address_fallback 0xC0002000 READ demo_state = Inr (None, s1) \<and> TLBWR 0 s1 = Inr s3 \<and>
     translate_address_fallback 0xC0002000 READ (demo_state\<lparr>e_tlb := e_tlb s3\<rparr>) =
       bind_res (handle_mmu_error 0xC0002000 EX_TLB_REFILL_INVALID_INSTRUCTION_FETCH_LOAD (-1)
         (demo_state\<lparr>e_tlb := e_tlb s3\<rparr>)) (\<lambda>s5. Inr (None, s5))"
proof -
  obtain s1 s3 where s: "translate_address_fallback 0xC0002000 READ demo_state = Inr (None, s1)"
    "cop0_is_usable (e_cop0 s1)" "TLBWR 0 s1 = Inr s3"
    using demo_miss_refilled by blast
  have m: "find_tlb_entry_index 0xC0002000 (e_tlb demo_state) = -1" by (simp only: demo_parts demo_miss(3))
  from tlb_refill_futile[OF demo_ok demo_miss(1,2) m s(1) refl s(2) refl s(3), of "demo_state\<lparr>e_tlb := e_tlb s3\<rparr>"] s
  show ?thesis by (simp add: refill_error_def)
qed

section \<open>The bus\<close>

text \<open>C7: mapping one object on a bus not yet optimised either fails, exactly when an address
  of its range is taken, or makes its range, and nothing else, answer with it.\<close>

corollary bus_map_one:
  assumes "bus_fresh D b" and "0 < byte_bus_map_size (bus_objects b ! object)"
    and "unat address + byte_bus_map_size (bus_objects b ! object) \<le> 2 ^ 32"
  shows "if \<exists>n. object_range b address object n \<and> mapped (bus_page b n)
    then bus_map address object b = Inl Runtime_error
    else \<exists>b'. bus_map address object b = Inr b' \<and> bus_fresh D b' \<and> bus_objects b' = bus_objects b \<and>
      (\<forall>n<2 ^ 32. bus_page b' n =
         (if object_range b address object n
          then \<lparr>base_address = address, page_object = Some object\<rparr> else bus_page b n))"
  using assms by (rule bus_map_spec)

theorem bus_map_one_witness:
  "\<exists>b'. bus_map (0x10 :: uptr) 0 (ByteBus_new 10 demo_objects) = Inr b' \<and> bus_fresh 10 b'"
proof -
  have free: "\<not> (\<exists>n. object_range (ByteBus_new 10 demo_objects) 0x10 0 n \<and>
      mapped (bus_page (ByteBus_new 10 demo_objects) n))"
    by (auto simp: object_range_def demo_sizes bus_page_new empty_page_def)
  show ?thesis
    using bus_map_one[of 10 "ByteBus_new 10 demo_objects" 0 "0x10"] unfolding if_not_P[OF free]
    by (auto simp: demo_sizes bus_fresh_new)
qed

text \<open>C8: after a list of mappings and \<open>optimise\<close>, every address inside a mapped range is
  dispatched to that object at its offset from the start of the range, whatever page sizes
  were chosen.\<close>

corollary bus_lookup:
  assumes "D \<le> 32" and "\<forall>m\<in>set ms. mappable (ByteBus_new D objs) m"
    and "bus_build ms (ByteBus_new D objs) = Inr b" and "(address, object) \<in> set ms"
    and "object_range (ByteBus_new D objs) address object (unat a)"
  shows "bus_locate a b = Inr (object, unat a - unat address) \<and> bus_objects b = objs"
  using assms by (rule bus_build_locate)

theorem bus_lookup_witness:
  "\<exists>b. bus_build demo_maps (ByteBus_new 10 demo_objects) = Inr b \<and> bus_locate 0x25 b = Inr (1, 5)"
proof -
  obtain b where b: "bus_build demo_maps (ByteBus_new 10 demo_objects) = Inr b"
    using bus_build_total[of 10, OF _ demo_maps_ok demo_maps_disjoint] by auto
  have "object_range (ByteBus_new 10 demo_objects) 0x20 1 (unat (0x25 :: uptr))"
    by (simp add: object_range_def demo_sizes)
  then show ?thesis
    using bus_lookup[OF _ demo_maps_ok b, of "0x20" 1 "0x25"] b by (simp add: demo_maps_def)
qed

section \<open>Memory accesses\<close>

text \<open>C9: a word stored by \<open>SW\<close> to writable memory is what an \<open>LW\<close> of the same address then
  loads, sign-extended, through the translation cache and the bus.\<close>

corollary store_then_load:
  assumes "ee_ok s"
    and "translate_address_data (effective_address i s) WRITE s = Inr (Some pa, s0)"
    and "bus_locate pa (e_bus s) = Inr (n, off)" "n < length (bus_objects (e_bus s))"
    and "bus_objects (e_bus s) ! n = Memory_obj m" "\<not> mem_read_only m" "off + 4 \<le> mem_size m"
    and "inst_rs j = inst_rs i" "inst_s_imm j = inst_s_imm i" "inst_rt j \<noteq> 0"
  shows "\<exists>s1 s2. SW i s = Inr s1 \<and> LW j s1 = Inr s2 \<and>
    src_d (inst_rt j) 0 s2 = scast (src_w (inst_rt i) 0 s)"
  using assms by (rule SW_then_LW)

theorem store_then_load_witness:
  "\<exists>s1 s2. SW demo_store demo_state = Inr s1 \<and> LW demo_load s1 = Inr s2 \<and> src_d 3 0 s2 = 0x7FFFFFFF"
proof -
  obtain s0 where "translate_address_data (effective_address demo_store demo_state) WRITE demo_state = Inr (Some 8, s0)"
    using demo_translate demo_address by auto
  from store_then_load[OF demo_ok this demo_locate demo_writable(1-4), of demo_load]
  show ?thesis
    by (simp add: demo_memory_fields demo_eval)
qed

text \<open>C10: array memory behind a bus is one array of bytes, little endian, at every width.  At an
  address that the bus maps to offset \<open>off\<close> of a memory with 16 bytes left there, a read of 2, 4,
  8 or 16 bytes gives the value whose bytes are what byte reads of those addresses give and
  changes nothing; and if the memory is writable, a write of 1, 2, 4, 8 or 16 bytes makes byte
  reads of exactly those places give the bytes of the value, while a byte read of any other
  mapped address, of this object or another, gives what it gave before.\<close>

corollary bus_memory_widths:
  assumes "bus_locate a b = Inr (i, off)" and "i < length (bus_objects b)"
    and "bus_objects b ! i = Memory_obj m" and "off + 16 \<le> mem_size m"
  shows "bytes_read 2 i off b (bus_read_uhword a b) \<and> bytes_read 4 i off b (bus_read_uword a b) \<and>
    bytes_read 8 i off b (bus_read_udword a b) \<and> bytes_read 16 i off b (bus_read_uqword a b) \<and>
    (\<not> mem_read_only m \<longrightarrow>
      bytes_written 1 i off v1 b (bus_write_ubyte a v1 b) \<and>
      bytes_written 2 i off v2 b (bus_write_uhword a v2 b) \<and>
      bytes_written 4 i off v4 b (bus_write_uword a v4 b) \<and>
      bytes_written 8 i off v8 b (bus_write_udword a v8 b) \<and>
      bytes_written 16 i off v16 b (bus_write_uqword a v16 b))"
  using assms unfolding bus_defs
  by (intro conjI impI bytes_uhword.bus_bytes_read bytes_uword.bus_bytes_read bytes_udword.bus_bytes_read
      bytes_uqword.bus_bytes_read bytes_ubyte.bus_bytes_written bytes_uhword.bus_bytes_written
      bytes_uword.bus_bytes_written bytes_udword.bus_bytes_written bytes_uqword.bus_bytes_written) auto

text \<open>Witness: of the word \<open>0x12345678\<close> written at 0, byte 1 is \<open>0x56\<close>, and byte 4 is untouched.\<close>

theorem bus_memory_widths_witness:
  "\<exists>b. bus_write_uword 0 0x12345678 demo_bus = Inr b \<and>
     map_sum id fst (bus_read_ubyte 1 b) = Inr 0x56 \<and>
     map_sum id fst (bus_read_ubyte 4 b) = map_sum id fst (bus_read_ubyte 4 demo_bus)"
proof -
  have l: "bus_locate 0 demo_bus = Inr (0, 0)" "bus_locate 1 demo_bus = Inr (0, 1)"
    "bus_locate 4 demo_bus = Inr (0, 4)"
    by (simp_all add: demo_bus_def bus_locate_def get_page_def get_vdn_def extract_from_eq demo_sizes)
  have "bytes_written 4 0 0 (0x12345678 :: uword) demo_bus (bus_write_uword 0 0x12345678 demo_bus)"
    using bus_memory_widths[OF l(1), of demo_memory] demo_writable by (simp add: demo_parts)
  then obtain b where "bus_write_uword 0 0x12345678 demo_bus = Inr b"
    and r: "\<And>a j p. bus_locate a demo_bus = Inr (j, p) \<Longrightarrow> map_sum id fst (bus_read_ubyte a b) =
      (if j = 0 \<and> 0 \<le> p \<and> p < 0 + 4 then Inr (get_lane (p - 0) (0x12345678 :: uword))
       else map_sum id fst (bus_read_ubyte a demo_bus))"
    unfolding bytes_written_def by blast
  then show ?thesis using r[OF l(2)] r[OF l(3)] by (simp add: get_lane_def)
qed

text \<open>C11: the instruction pairs for unaligned loads load the unaligned value.  With the same
  base and target register, which differ, and a second offset larger by 3, an \<open>LWR\<close> that has run
  at an address that is not a multiple of 4 is completed by the \<open>LWL\<close>: it succeeds, and the
  target is the sign-extended word at the unaligned place in memory, where the two aligned words
  around it translate to neighbours in one array memory.  The same for \<open>LDR\<close> and \<open>LDL\<close>, with an
  offset larger by 7, and doublewords.\<close>

corollary unaligned_loads:
  assumes "ee_ok s"
  shows "(LWR i s = Inr s1 \<and> unaligned_pair 4 0xFFFFFFFC i j s s1 off m \<longrightarrow>
      (\<exists>s2 w. LWL j s1 = Inr s2 \<and> mem_read_uword (off + unat (effective_address i s) mod 4) m = Inr w \<and>
        src_d (inst_rt i) 0 s2 = scast w)) \<and>
    (LDR i s = Inr s1 \<and> unaligned_pair 8 0xFFFFFFF8 i j s s1 off m \<longrightarrow>
      (\<exists>s2 w. LDL j s1 = Inr s2 \<and> mem_read_udword (off + unat (effective_address i s) mod 8) m = Inr w \<and>
        src_d (inst_rt i) 0 s2 = w))"
  using LWR_then_LWL[OF assms] LDR_then_LDL[OF assms] by blast

text \<open>Witness: the word at address 1 of the bytes \<open>0x10, 0x11, 0x12, ...\<close>.\<close>

theorem unaligned_loads_witness:
  "\<exists>s1 s2. LWR demo_LWR demo_unaligned = Inr s1 \<and> LWL demo_LWL s1 = Inr s2 \<and> src_d 3 0 s2 = 0x14131211"
proof -
  obtain s1 where s1: "LWR demo_LWR demo_unaligned = Inr s1"
    "unaligned_pair 4 0xFFFFFFFC demo_LWR demo_LWL demo_unaligned s1 0 demo_bytes"
    using demo_unaligned_pair by blast
  obtain s2 w where "LWL demo_LWL s1 = Inr s2"
    "mem_read_uword (0 + unat (effective_address demo_LWR demo_unaligned) mod 4) demo_bytes = Inr w"
    "src_d (inst_rt demo_LWR) 0 s2 = scast w"
    using unaligned_loads[OF demo_unaligned_ok, of demo_LWR s1 demo_LWL 0 demo_bytes] s1 by blast
  then show ?thesis using s1(1) by (auto simp: demo_unaligned_parts demo_unaligned_fields demo_unaligned_reads[simplified])
qed

text \<open>C12: the DMA queue classes answer as the bounded list the rest of the development uses.  For
  any storage that keeps what the library documents of its queue (\<open>spsc_queue\<close>: order, capacity
  and the two counts), any sequence of writes, reads, resets and availability tests of
  \<open>DmaFifoQueue\<close>, through \<open>try_push\<close> and \<open>try_pop\<close> of \<open>MpmcQueue\<close>, gives the bytes, the answers and
  the throw (a read of an empty, a write to a full queue) that the bounded list gives, and leaves a
  storage that holds the list.  One thread, no timeout.\<close>

corollary dma_queue_refines:
  assumes "spsc_queue store cap held valid" and "queue_stands_for cap held valid q m"
  shows "same_answer (queue_stands_for cap held valid)
    (run_ops (dma_queue_op store) ops q) (run_ops fifo_op ops m)"
  using dma_queue.ops_same[OF dma_queue.intro[OF assms(1)] assms(2)] .

text \<open>A ring of capacity two, whose positions wrap.\<close>

theorem dma_queue_refines_witness:
  "\<exists>q. run_ops (dma_queue_op (ring_store 2))
      [Op_write [1, 2], Op_has_write 1, Op_read 1, Op_write [3], Op_read 2, Op_write [4], Op_read 1]
      \<lparr>ring_slots = [0, 0, 0], ring_read = 0, ring_count = 0\<rparr> =
    Inr ([Done, Answer False, Bytes [1], Done, Bytes [2, 3], Done, Bytes [4]], q)"
proof -
  let ?ops = "[Op_write [1, 2], Op_has_write 1, Op_read 1, Op_write [3], Op_read 2, Op_write [4], Op_read 1]"
  let ?q = "\<lparr>ring_slots = [0, 0, 0], ring_read = 0, ring_count = 0\<rparr> :: ubyte ring"
  have "queue_stands_for 2 ring_items (ring_valid 2) ?q (queue_new 2)"
    by (simp add: queue_stands_for_def ring_valid_def ring_items_def queue_new_def)
  from dma_queue_refines[OF ringq.spsc_queue_axioms this, of ?ops]
  have "same_answer (queue_stands_for 2 ring_items (ring_valid 2)) (run_ops (dma_queue_op (ring_store 2)) ?ops ?q)
      (Inr ([Done, Answer False, Bytes [1], Done, Bytes [2, 3], Done, Bytes [4]], queue_new 2))"
    by (simp add: fifo_write_eq fifo_read_eq queue_new_def has_write_available_def eval_nat_numeral
        del: fifo_write.simps fifo_read.simps)
  then show ?thesis
    by (cases "run_ops (dma_queue_op (ring_store 2)) ?ops ?q") auto
qed

section \<open>The LRU cache\<close>

text \<open>C13: the timestamp LRU cache is sound, and evicts the right entry until its counter wraps.
  A lookup answers from the map the cache stands for and changes nothing of it; an insertion of a
  missing key never fails, adds it and drops at most other keys.  Both hold also once the 64-bit
  access counter has wrapped.  As long as it has not (no timestamp is ahead of the counter, which
  the two operations keep, and the counter is below its greatest value), an insertion after a hit
  in a cache of more than one entry does not evict the entry just hit.\<close>

corollary lru_cache:
  assumes "ts_invar sz c" and "ts_view c k' = None"
  shows "fst (ts_get k c) = ts_view c k \<and> ts_view (snd (ts_get k c)) = ts_view c \<and>
    (\<exists>c'. ts_insert k' v' (snd (ts_get k c)) = Inr c' \<and> ts_invar sz c' \<and> ts_view c' k' = Some v' \<and>
       ts_view c' \<subseteq>\<^sub>m (ts_view c)(k' \<mapsto> v') \<and>
       (ts_stamped c \<and> ts_total_cache_access c < - 1 \<longrightarrow>
          ts_stamped c' \<and>
          (1 < ts_current_cache_size c \<and> ts_view c k = Some v \<longrightarrow> ts_view c' k = Some v)))"
proof -
  note g = ts_get_spec[OF assms(1), of k]
  have miss: "ts_view (snd (ts_get k c)) k' = None" using g assms(2) by simp
  obtain c' where c': "ts_insert k' v' (snd (ts_get k c)) = Inr c'" "ts_invar sz c'" "ts_view c' k' = Some v'"
    "ts_view c' \<subseteq>\<^sub>m (ts_view c)(k' \<mapsto> v')"
    using ts_insert_spec[OF _ miss, of sz v'] g by metis
  have "ts_stamped c'" if "ts_stamped c" "ts_total_cache_access c < - 1"
    using ts_stamped_insert[OF _ ts_stamped_get[OF assms(1) that] c'(1)] g by blast
  then show ?thesis
    using g c' ts_hit_survives[OF assms(1) _ _ _ _ assms(2) c'(1)] by blast
qed

text \<open>Witness: after a hit on key 1, the insertion of key 3 into a full cache keeps key 1.\<close>

theorem lru_cache_witness:
  "\<exists>c'. ts_insert 3 30 (snd (ts_get 1 demo_lru)) = Inr c' \<and> ts_view c' 3 = Some 30 \<and> ts_view c' 1 = Some 10"
  using lru_cache[OF demo_lru_facts(1,6), of 1 30 10] by (auto simp: demo_lru_facts)

section \<open>Integer arithmetic\<close>

text \<open>C14: \<open>ADD\<close> writes the exact signed sum of the low words when it fits and otherwise
  raises the overflow exception with no register changed by the instruction.\<close>

corollary add_exact_or_trap:
  assumes "ee_ok s" and "inst_rd inst \<noteq> 0"
  shows "let x = sint (src_w (inst_rs inst) 0 s); y = sint (src_w (inst_rt inst) 0 s) in
    (if VALUE_SWORD_MIN \<le> x + y \<and> x + y \<le> VALUE_SWORD_MAX
     then \<exists>s'. ADD inst s = Inr s' \<and> sint (src_d (inst_rd inst) 0 s') = x + y \<and>
            src_d (inst_rd inst) 1 s' = src_d (inst_rd inst) 1 s \<and>
            (\<forall>n. n \<noteq> inst_rd inst \<longrightarrow> e_gpr s' n = e_gpr s n)
     else ADD inst s = handle_exception EX_OVERFLOW s)"
  using assms by (rule ADD_exact_or_trap)

theorem add_exact_or_trap_witness:
  "ADD demo_inst demo_state = handle_exception EX_OVERFLOW demo_state"
  using add_exact_or_trap[of demo_state demo_inst]
  by (simp add: demo_ok demo_fields demo_eval)

text \<open>C15: \<open>SUB\<close> decides its overflow exception on the sum of the operands, not on their
  difference: it traps exactly when the sum does not fit and otherwise writes the wrapped
  difference.\<close>

corollary sub_traps_on_the_sum:
  "SUB inst s =
     (let x = src_w (inst_rs inst) 0 s; y = src_w (inst_rt inst) 0 s in
      if VALUE_SWORD_MIN \<le> sint x + sint y \<and> sint x + sint y \<le> VALUE_SWORD_MAX
      then Inr (dest_d (inst_rd inst) (scast (x - y)) s)
      else handle_exception EX_OVERFLOW s)"
  by (rule SUB_traps_on_sum)

text \<open>C16: the saturating parallel additions and subtractions compute, lane by lane, the exact
  signed result clamped to the range of the lane.\<close>

corollary signed_saturation:
  assumes "ee_ok s" and "inst_rd inst \<noteq> 0"
  shows "(\<forall>i<16. sint (src_b (inst_rd inst) i (PADDSB inst s)) =
       clamp_int (-128) 127 (sint (src_b (inst_rs inst) i s) + sint (src_b (inst_rt inst) i s))) \<and>
    (\<forall>i<8. sint (src_h (inst_rd inst) i (PADDSH inst s)) =
       clamp_int (-32768) 32767 (sint (src_h (inst_rs inst) i s) + sint (src_h (inst_rt inst) i s))) \<and>
    (\<forall>i<4. sint (src_w (inst_rd inst) i (PADDSW inst s)) =
       clamp_int (-2147483648) 2147483647 (sint (src_w (inst_rs inst) i s) + sint (src_w (inst_rt inst) i s))) \<and>
    (\<forall>i<16. sint (src_b (inst_rd inst) i (PSUBSB inst s)) =
       clamp_int (-128) 127 (sint (src_b (inst_rs inst) i s) - sint (src_b (inst_rt inst) i s))) \<and>
    (\<forall>i<8. sint (src_h (inst_rd inst) i (PSUBSH inst s)) =
       clamp_int (-32768) 32767 (sint (src_h (inst_rs inst) i s) - sint (src_h (inst_rt inst) i s))) \<and>
    (\<forall>i<4. sint (src_w (inst_rd inst) i (PSUBSW inst s)) =
       clamp_int (-2147483648) 2147483647 (sint (src_w (inst_rs inst) i s) - sint (src_w (inst_rt inst) i s)))"
  using parallel_signed_saturation[OF assms] by blast

theorem signed_saturation_witness:
  "sint (src_w 3 0 (PADDSW demo_inst demo_state)) = 2147483647"
proof -
  have "sint (src_w (inst_rd demo_inst) 0 (PADDSW demo_inst demo_state)) =
    clamp_int (-2147483648) 2147483647
      (sint (src_w (inst_rs demo_inst) 0 demo_state) + sint (src_w (inst_rt demo_inst) 0 demo_state))"
    using signed_saturation[OF demo_ok, of demo_inst] by (simp add: demo_fields)
  then show ?thesis
    by (simp add: demo_fields demo_eval clamp_int_def)
qed

section \<open>Moving data between lanes\<close>

section \<open>Coprocessor 0, fields and floats\<close>

text \<open>C17: every write of Status that succeeds leaves the cached interrupt mask, operating
  context and count-interrupt flag equal to what the new bits say.\<close>

corollary status_cache_consistent:
  assumes "cop0_inv c" and "status_write_uword v c = Inr c'"
  shows "cop0_inv c' \<and> c0_raw C0_STATUS c' = v"
  using assms by (rule status_write_inv)

theorem status_cache_consistent_witness:
  "c0_raw C0_STATUS demo_exl_cop0 = 0x00400002 \<and> cop0_inv demo_exl_cop0"
  using status_cache_consistent[OF cop0_inv_init demo_exl_cop0] by simp

text \<open>C18: converting a float to the console's format leaves no infinity, NaN or subnormal,
  and converting twice is converting once.\<close>

corollary ps2_float_format:
  "ps2_float (fst (to_ps2_float v)) \<and> fst (to_ps2_float (fst (to_ps2_float v))) = fst (to_ps2_float v)"
  using to_ps2_float_range to_ps2_float_idem by simp

text \<open>C19: with COP1 usable \<open>MADD.S\<close> never fails: its destination gets the accumulator plus
  the product, each rounded to nearest even in single precision and brought into the
  console's format, and the flags of the control register follow that last step, the sticky
  ones accumulating.\<close>

corollary float_multiply_add:
  fixes inst :: instruction
  assumes "ee_ok s" and "fpu_is_usable (e_cop0 s)"
  defines "v \<equiv> f32_add (acc_val s) (f32_mul (fs_val inst s) (ft_val inst s))"
  shows "\<exists>s'. MADD_S inst s = Inr s' \<and> ee_ok s' \<and>
    w_read_uword (e_fpr s' (inst_shamt inst)) = fst (to_ps2_float v) \<and>
    ps2_float (w_read_uword (e_fpr s' (inst_shamt inst))) \<and>
    fpu_flags_after (snd (to_ps2_float v)) (reg_val (e_csr s)) (reg_val (e_csr s'))"
  unfolding v_def using assms(1,2) by (rule MADD_S_spec)

theorem float_multiply_add_witness:
  "\<exists>s'. MADD_S 0x00010000 demo_fpu = Inr s' \<and> w_read_uword (e_fpr s' 0) = 0x3FC00000"
proof -
  have "f32_add 0 (f32_mul 0x3FC00000 0x3F800000) = 0x3FC00000"
    by (simp add: f32_mul_one f32_add_zero f32_add_commute[of 0] f32_defs)
  moreover have "inst_rd 0x00010000 = 0" "inst_rt 0x00010000 = 1" "inst_shamt 0x00010000 = 0"
    by (simp_all add: inst_defs extract_from_eq)
  moreover have "fst (to_ps2_float 0x3FC00000) = 0x3FC00000"
    by (simp add: to_ps2_float_def f32_defs f32_less_zero_def)
  moreover have "w_read_uword (e_fpr demo_fpu 0) = 0x3FC00000" "w_read_uword (e_fpr demo_fpu 1) = 0x3F800000"
    using demo_fpu_regs(1,2) by (simp_all add: w_read_uword_def reg_read_def SizedRegister_new_def)
  ultimately show ?thesis
    using float_multiply_add[of demo_fpu "0x00010000"]
    by (auto simp: demo_fpu_ok demo_fpu_regs(3))
qed

section \<open>The interpreter\<close>

text \<open>C20: a translation outlives the mode it was made in.  An address above the user segment is
  translated for a data access in kernel mode; \<open>MTC0\<close> then takes the core to user mode.  The
  cached lookup still answers the address, whatever the access, where the full lookup raises the
  address error: the write of Status flushes no translation.\<close>

corollary stale_translation_after_MTC0:
  assumes "ee_ok s" and "c0_operating_context (e_cop0 s) = Kernel"
    and "translate_address_data va rw s = Inr (Some pa, s1)" and "MTC0 inst s1 = Inr s2"
    and "c0_operating_context (e_cop0 s2) = User" and "0x7FFFFFFF < va"
  shows "(\<exists>s3. translate_address_data va rw' s2 = Inr (Some pa, s3)) \<and>
    translate_address_fallback va rw' s2 =
      bind_res (handle_mmu_error va (address_error rw') (-1) s2) (\<lambda>s3. Inr (None, s3))"
  using assms by (rule kernel_page_stale)

theorem stale_translation_after_MTC0_witness:
  "\<exists>s1 s2 s3. translate_address_data 0x80000010 READ demo_to_user = Inr (Some 0x10, s1) \<and>
     MTC0 demo_MTC0 s1 = Inr s2 \<and> c0_operating_context (e_cop0 s2) = User \<and>
     translate_address_data 0x80000010 WRITE s2 = Inr (Some 0x10, s3)"
  using stale_translation_after_MTC0[OF demo_to_user(1,2), of "0x80000010" READ] demo_to_user(3) by fastforce

text \<open>C21: every instruction word is handled: it decodes to an entry with an implementation and a
  positive cost, and running that implementation on a well-formed system gives a well-formed
  system or an error value; a word that does not decode is an error of the decoder.\<close>

corollary every_word_is_handled:
  assumes "sys_ok s"
  shows "case ee_lookup inst of
      Inl e \<Rightarrow> e = Runtime_error
    | Inr info \<Rightarrow> impl_index info < length EECORE_INSTRUCTION_TABLE \<and> 0 < cpi info \<and>
        ok_res sys_ok (execute info inst s)"
  using ee_lookup_entry[of inst] ee_lookup_error[of inst] execute_ok[OF assms, of inst]
  by (auto simp: handlers_length split: sum.split)

theorem every_word_is_handled_witness:
  "case ee_lookup 0x24030005 of Inl e \<Rightarrow> e = Runtime_error
   | Inr info \<Rightarrow> impl_index info < length EECORE_INSTRUCTION_TABLE \<and> 0 < cpi info \<and>
       ok_res sys_ok (execute info 0x24030005 demo_sys)"
  using every_word_is_handled[OF demo_run_ok(2), of "0x24030005"] .

text \<open>C22: every state the interpreter reaches from a well-formed one is well-formed, and general
  register 0 reads as zero there.\<close>

corollary reachable_states_ok:
  assumes "ee_step\<^sup>*\<^sup>* (t, s) (t', s')" and "sys_ok s"
  shows "sys_ok s' \<and> q_read_uqword (e_gpr (sys_ee s') 0) = 0"
  using reachable_ok[OF assms] reachable_zero[OF assms] by simp

theorem reachable_states_ok_witness:
  "\<exists>s'. ee_step (1, demo_sys) (- 2, s') \<and> sys_ok s' \<and> q_read_uqword (e_gpr (sys_ee s') 0) = 0"
proof -
  obtain s' where "ee_step (1, demo_sys) (- 2, s')" using demo_run_step by blast
  with reachable_states_ok[OF r_into_rtranclp demo_run_ok(2)] show ?thesis by blast
qed

text \<open>C23: the run of a time slice of \<open>t\<close> ticks always ends: it succeeds in a state exactly when
  that state is reached by \<open>(t + 2) div 3\<close> steps, three ticks each, and otherwise fails with the
  error of the step it got to.\<close>

corollary run_is_the_closure:
  "(ee_run t s = Inr s' \<longleftrightarrow> (ee_step ^^ ee_steps t) (t, s) (t - 3 * int (ee_steps t), s')) \<and>
   (ee_run t s = Inl e \<longleftrightarrow>
      (\<exists>t1 s1. ee_step\<^sup>*\<^sup>* (t, s) (t1, s1) \<and> 0 < t1 \<and> time_step t1 s1 = Inl e))"
  by (simp only: ee_run_steps ee_run_failure)



section \<open>The vector units\<close>

text \<open>C25: the vector additions, subtractions and multiplications work lane by lane: a lane in the
  destination mask gets the result for its own lanes of the sources in the console's format, with
  the flags of that conversion in its MAC field; the other lanes keep their value and clear their
  MAC field.\<close>

corollary vector_lanewise:
  assumes "vu_ok u"
  shows "lane_and_flags (To_vf (vu_fd inst)) f (VU_ADD inst u) =
      (if test_dest_field inst f
       then to_ps2_float (f32_add (vf_lane (vu_fs inst) f u) (vf_lane (vu_ft inst) f u))
       else (vf_lane (vu_fd inst) f u, no_flags)) \<and>
    lane_and_flags (To_vf (vu_fd inst)) f (VU_SUB inst u) =
      (if test_dest_field inst f
       then to_ps2_float (f32_sub (vf_lane (vu_fs inst) f u) (vf_lane (vu_ft inst) f u))
       else (vf_lane (vu_fd inst) f u, no_flags)) \<and>
    lane_and_flags (To_vf (vu_fd inst)) f (VU_MUL inst u) =
      (if test_dest_field inst f
       then to_ps2_float (f32_mul (vf_lane (vu_fs inst) f u) (vf_lane (vu_ft inst) f u))
       else (vf_lane (vu_fd inst) f u, no_flags))"
  using fmac_loop_spec(2)[OF assms, of "To_vf (vu_fd inst)" "Of_vf (vu_ft inst)"]
  by (simp add: VU_ADD_def VU_SUB_def VU_MUL_def fmac_result_def)

theorem vector_lanewise_witness:
  "lane_and_flags (To_vf 2) FX (VU_MUL 0x01030880 demo_vu) = to_ps2_float 0x3FC00000"
proof -
  have "vu_fd 0x01030880 = 2" "vu_fs 0x01030880 = 1" "vu_ft 0x01030880 = 3" "test_dest_field 0x01030880 FX"
    by (simp_all add: vu_fd_def vu_fs_def vu_ft_def vu_dest_def extract_from_eq)
  then show ?thesis
    using vector_lanewise[OF demo_vu_ok, of "0x01030880" FX] by (simp add: demo_vu_lanes f32_mul_one f32_defs)
qed

section \<open>The I/O processor\<close>

text \<open>C26: an exception of the I/O processor saves the PC (of the branch, in a delay slot) in EPC and
  the delay-slot bit and the code in Cause, pushes the mode stack of Status, which masks
  interrupts and enters kernel mode, cancels a pending branch, flushes the translation caches and
  continues at the vector, with every general register, HI, LO and the bus as they were.\<close>

corollary iop_exception_taken:
  assumes "iop_ok s" and "ex \<noteq> IEX_RESET"
  shows "\<exists>s'. iop_handle_exception ex s = Inr s' \<and> iop_entry ex s s' \<and> iop_ok s'"
  using assms by (rule iop_handle_exception_entry)

theorem iop_exception_taken_witness:
  "\<exists>s'. iop_handle_exception IEX_SYSTEMCALL demo_iop = Inr s' \<and> i0_raw I0_EPC (i_cop0 s') = 0xBFC00000 \<and>
    iop_pc s' = 0xBFC0017C"
proof -
  obtain s' where s': "iop_handle_exception IEX_SYSTEMCALL demo_iop = Inr s'"
    "iop_entry IEX_SYSTEMCALL demo_iop s'"
    using iop_exception_taken[OF demo_iop_ok, of IEX_SYSTEMCALL] by auto
  have "\<not> is_branch_pending (i_bdelay demo_iop)"
    by (simp add: demo_iop_parts is_branch_pending_def BranchDelaySlot_new_def)
  moreover have "iop_vector IEX_SYSTEMCALL (i_cop0 demo_iop) = 0xBFC00180"
    by (simp add: iop_vector_def istatus_field_def demo_iop_parts ISTATUS_BEV_def extract_from_eq)
  ultimately show ?thesis
    using s' by (simp add: iop_entry_def iop_error_pc_def demo_iop_parts)
qed

text \<open>C27: \<open>RFE\<close> undoes what an exception did to Status: interrupt mask and mode are those before
  the exception and so are all bits but the third level of the stack; EPC still says where to go
  on, and every interrupt line is cleared.\<close>

corollary iop_exception_return:
  assumes "iop_ok s" and "ex \<noteq> IEX_RESET"
  shows "\<exists>s'. bind_res (iop_handle_exception ex s) (IOP_RFE inst) = Inr s' \<and> iop_ok s' \<and>
    i0_interrupts_masked (i_cop0 s') = i0_interrupts_masked (i_cop0 s) \<and>
    i0_operating_context (i_cop0 s') = i0_operating_context (i_cop0 s) \<and>
    (\<forall>n. n \<noteq> 4 \<and> n \<noteq> 5 \<longrightarrow>
       bit (i0_raw I0_STATUS (i_cop0 s')) n = bit (i0_raw I0_STATUS (i_cop0 s)) n) \<and>
    i0_raw I0_EPC (i_cop0 s') = iop_error_pc s \<and> i0_irq_lines (i_cop0 s') = replicate 8 False"
  using assms by (rule exception_then_RFE)

theorem iop_exception_return_witness:
  "\<exists>s'. bind_res (iop_handle_exception IEX_INTERRUPT demo_iop_irq) (IOP_RFE 0) = Inr s' \<and>
    \<not> i0_interrupts_masked (i_cop0 s') \<and> bit (i0_raw I0_STATUS (i_cop0 s')) 10"
  using iop_exception_return[OF demo_iop_irq_ok, of IEX_INTERRUPT 0]
  by (auto simp: demo_iop_irq_cop0(1) bit_numeral_rec) (auto simp: demo_iop_irq_def)

text \<open>C28: the I/O processor's two translation caches answer exactly what its segments do.  The claim
  is about states reached, since the cache was last emptied, by translations through it and by
  steps that keep the operating context (whatever they do to Status.ISC: a store while the cache
  is isolated goes past the translation cache).  An address that only a change of context makes
  unreachable is outside it.\<close>

corollary iop_translation_transparent:
  assumes "iop_data_run s" and "iop_inst_run t"
  shows "((\<exists>s'. iop_translate_address_data va rw s = Inr (Some pa, s')) \<longleftrightarrow>
      iop_translate_address_fallback va rw s = Inr (Some pa, s)) \<and>
    ((\<exists>t'. iop_translate_address_inst va t = Inr (Some pa, t')) \<longleftrightarrow>
      iop_translate_address_fallback va READ t = Inr (Some pa, t))"
  using iop_data_run_agrees[OF assms(1)] iop_inst_run_agrees[OF assms(2)] by blast

theorem iop_translation_transparent_witness:
  "\<exists>s1 s2. iop_translate_address_data 0xA0000010 WRITE demo_iop = Inr (Some 0x10, s1) \<and>
     iop_translate_address_data 0xA0000FFC READ s1 = Inr (Some 0xFFC, s2) \<and>
     (\<exists>t. iop_translate_address_inst 0xBFC00004 demo_iop = Inr (Some 0x1FC00004, t))"
proof -
  have r: "iop_data_run demo_iop" and r': "iop_inst_run demo_iop"
    unfolding iop_data_run_def iop_inst_run_def
    using demo_iop_ok by (auto intro!: flushed simp: demo_iop_def iop_state_new_def)
  have isc: "istatus_field ISTATUS_ISC (i_cop0 demo_iop) = 0" by (simp add: demo_iop_isc)
  have "iop_translate_address_fallback 0xA0000010 WRITE demo_iop = Inr (Some 0x10, demo_iop)"
    and f: "iop_translate_address_fallback 0xBFC00004 READ demo_iop = Inr (Some 0x1FC00004, demo_iop)"
    by (simp_all add: iop_translate_address_fallback_def demo_iop_parts isc)
  then obtain s1 where s1: "iop_translate_address_data 0xA0000010 WRITE demo_iop = Inr (Some 0x10, s1)"
    using iop_translation_transparent[OF r r', of "0xA0000010" WRITE "0x10"] by blast
  have "iop_data_run s1"
    using translated[OF r[unfolded iop_data_run_def] s1] by (simp add: iop_data_run_def)
  moreover have "iop_translate_address_fallback 0xA0000FFC READ s1 = Inr (Some 0xFFC, s1)"
    using iop_data_keeps_cop0[OF s1] demo_iop_parts by (simp add: iop_translate_address_fallback_def)
  ultimately show ?thesis
    using s1 f iop_translation_transparent[OF _ r', of s1 "0xA0000FFC" READ "0xFFC"]
      iop_translation_transparent[OF r r', of "0xBFC00004" READ "0x1FC00004"] by blast
qed

text \<open>C29: a time slice of the I/O processor always ends, after \<open>(t + 2) div 3\<close> steps when it
  succeeds, and every state it reaches from a well-formed one is well-formed with register 0 zero.\<close>

corollary iop_run_reaches:
  assumes "iop_ok s"
  shows "(iop_run t s = Inr s' \<longleftrightarrow>
      (iop_step ^^ nat ((t + 2) div 3)) (t, s) (t - 3 * int (nat ((t + 2) div 3)), s')) \<and>
    (\<forall>t1 s1. iop_step\<^sup>*\<^sup>* (t, s) (t1, s1) \<longrightarrow> iop_ok s1 \<and> iop_gpr_read 0 s1 = 0)"
  using iop_loop.run_steps[of t s s'] iop_reachable_ok[OF _ assms] iop_okD(8) by auto

text \<open>One step, of \<open>ADDIU $3, $0, 5\<close>.\<close>

theorem iop_run_reaches_witness:
  "\<exists>s'. iop_run 3 demo_iop_run = Inr s' \<and> iop_step (3, demo_iop_run) (0, s') \<and>
     iop_ok s' \<and> iop_gpr_read 3 s' = 5 \<and> iop_gpr_read 0 s' = 0 \<and> iop_pc s' = 4"
proof -
  obtain s' where t: "iop_time_step 3 demo_iop_run = Inr (3, s')" "iop_gpr_read 3 s' = 5" "iop_pc s' = 4"
    using demo_iop_step by blast
  then have step: "iop_step (3, demo_iop_run) (0, s')" by (simp add: slice_step.simps)
  have "iop_run 3 demo_iop_run = Inr s'"
    using iop_run_reaches[OF demo_iop_run_ok, of 3 s'] step by (simp add: eq_OO)
  moreover have "iop_ok s'" "iop_gpr_read 0 s' = 0"
    using iop_run_reaches[OF demo_iop_run_ok, of 3 s'] r_into_rtranclp[of iop_step, OF step] by blast+
  ultimately show ?thesis using t step by blast
qed

text \<open>C30: the two MIPS cores agree on the code they share.  From states where the EE's registers are
  the sign extensions of the I/O processor's, any sequence of words of the 35 shared
  instructions decodes on both cores and leaves them in such states, PC and pending branch
  included.\<close>

corollary cores_agree_on_shared_code:
  assumes "list_all shared_word ws" and "cores_agree s (sys_ee S)"
  shows "\<exists>s' e'. iop_exec ws s = Inr s' \<and> ee_exec ws S = Inr (S\<lparr>sys_ee := e'\<rparr>) \<and> cores_agree s' e'"
  using assms by (rule sequences_agree)

theorem cores_agree_on_shared_code_witness:
  "\<exists>s' e'. iop_exec demo_words demo_iop = Inr s' \<and>
    ee_exec demo_words (demo_sys\<lparr>sys_ee := ee_state_new demo_tlb demo_bus\<rparr>) =
      Inr (demo_sys\<lparr>sys_ee := e'\<rparr>) \<and> cores_agree s' e'"
  using cores_agree_on_shared_code[OF demo_words_shared, of demo_iop "demo_sys\<lparr>sys_ee := ee_state_new demo_tlb demo_bus\<rparr>"]
    demo_agree by simp

section \<open>Interrupt controllers and timers\<close>

text \<open>C31: interrupts reach the EE core: a time slice of the interrupt controller leaves its
  registers alone and sets line 2 of the core, and the core's next check enters the interrupt
  handler exactly when it accepts interrupts and a line whose mask bit is set is up: line 2 when a
  status bit is unmasked, the others as they were.\<close>

corollary ee_interrupt_delivered:
  assumes "ee_ok s" and "0 < t"
  shows "\<exists>c s'. ee_intc_run t (r, e_cop0 s) = Inr (r, c) \<and>
    handle_interrupt_check (s\<lparr>e_cop0 := c\<rparr>) = Inr s' \<and> ee_ok s' \<and>
    (if \<not> status_masked (c0_raw C0_STATUS (e_cop0 s)) \<and>
        accepts_line (c0_raw C0_STATUS (e_cop0 s)) (c0_irq_lines (e_cop0 s)) (ee_intc_pending r)
     then level1_entry EX_INTERRUPT s s'
     else pc_val s' = pc_val s \<and> c0_raw C0_STATUS (e_cop0 s') = c0_raw C0_STATUS (e_cop0 s))"
  using assms by (rule ee_intc_delivery)

theorem ee_interrupt_delivered_witness:
  "\<exists>c s'. ee_intc_run 4 (demo_intc, e_cop0 demo_irq) = Inr (demo_intc, c) \<and>
    handle_interrupt_check (demo_irq\<lparr>e_cop0 := c\<rparr>) = Inr s' \<and> level1_entry EX_INTERRUPT demo_irq s'"
  using ee_interrupt_delivered[OF demo_irq_ok(1), of 4 demo_intc] demo_accepts
  unfolding demo_irq_ok(2) by auto

text \<open>C32: the same for the I/O processor, whose controller also asks for its control register to
  be nonzero.\<close>

corollary iop_interrupt_delivered:
  assumes "iop_ok s" and "0 < t"
  shows "\<exists>c s'. iop_intc_run t (r, i_cop0 s) = Inr (r, c) \<and>
    iop_handle_interrupt_check (s\<lparr>i_cop0 := c\<rparr>) = Inr s' \<and> iop_ok s' \<and>
    (if bit (i0_raw I0_STATUS (i_cop0 s)) 0 \<and>
        accepts_line (i0_raw I0_STATUS (i_cop0 s)) (i0_irq_lines (i_cop0 s)) (iop_intc_pending r)
     then iop_entry IEX_INTERRUPT s s'
     else iop_pc s' = iop_pc s \<and> i0_raw I0_STATUS (i_cop0 s') = i0_raw I0_STATUS (i_cop0 s))"
  using assms by (rule iop_intc_delivery)

theorem iop_interrupt_delivered_witness:
  "\<exists>c s'. iop_intc_run 3 (demo_iop_intc, i_cop0 demo_iop_irq) = Inr (demo_iop_intc, c) \<and>
    iop_handle_interrupt_check (demo_iop_irq\<lparr>i_cop0 := c\<rparr>) = Inr s' \<and> iop_ok s'"
  using iop_interrupt_delivered[OF demo_iop_irq_ok, of 3 demo_iop_intc] by auto

text \<open>C33: what a time event of n > 0 ticks does to an EE timer, in closed form.  The units have
  different numbers and sane counters, and none of them is both enabled on the bus clock and
  gated (for such a unit the source throws).  The unit's mode is enabled on the bus clock and its
  write latch is set, so that its count starts from zero; no overflow is left over, and if the
  count is to return to zero at the compare value, that value is between 1 and 65535.  Then the
  event succeeds; the count is n divided by the prescale, wrapped by the compare value or by the
  counter's own rule, and the unit's bit of the interrupt status is set exactly if it was set
  before or the count met the compare value or overflowed with that interrupt enabled.\<close>

corollary ee_timer_event:
  assumes "list_all (steady Time_type) us" and "distinct (map tu_id us)" and "0 < time_to_ticks t"
    and "i < length us" and "programmed Time_type v (us ! i)"
  shows "\<exists>us' r'. ee_timers_handle_event time_to_ticks (Time_event t) (us, r) = Inr (us', r') \<and>
    unat (tc_val (tu_count (us' ! i))) = tim_count v (tu_compare (us ! i)) (nat (time_to_ticks t)) \<and>
    (bit (intc_stat r') (9 + tu_id (us ! i)) \<longleftrightarrow>
       bit (intc_stat r) (9 + tu_id (us ! i)) \<or>
       tim_raised v (tu_compare (us ! i)) (nat (time_to_ticks t)))"
  using ee_timers_event[OF assms(1,2) _ assms(4,5), of "nat (time_to_ticks t)" r] assms(3) by auto

theorem ee_timer_event_witness:
  "\<exists>us' r'. ee_timers_handle_event (\<lambda>t. 2 * t) (Time_event 1000) (demo_timers, REeIntc_new) = Inr (us', r') \<and>
    unat (tc_val (tu_count (us' ! 1))) = 25 \<and> bit (intc_stat r') 10"
  using ee_timer_event[OF demo_timers_ok(1,2), of "\<lambda>t. 2 * t" 1000 1 "0x1C1" REeIntc_new]
  by (simp only: demo_timers_ok) (simp add: demo_timer_run[simplified])

text \<open>C34: only byte and halfword writes of the EE start a timer.  From reset, after any sequence of
  clock ticks and writes of every width to the mode, count and compare registers, a timer is
  enabled exactly when the last byte or halfword write that covered the enable bit of its mode
  set it: word writes never change the bit.  If no such write set one, no timer interrupt was
  raised.\<close>

corollary ee_timer_starts:
  assumes "timer_accesses as (REeTimers_new, r) = Inr (us, r')"
  shows "length us = 4 \<and>
    (\<forall>i<4. mode_field TIM_CUE (tu_mode (us ! i)) \<noteq> 0 \<longleftrightarrow> last_start i False as) \<and>
    ((\<forall>a\<in>set as. \<forall>i. \<not> starts_timer i a) \<longrightarrow> r' = r)"
  using assms by (rule timers_from_reset)

text \<open>Witness: the word write of the enable bit does nothing, the halfword write starts timer 1,
  and a word write of zero does not stop it.\<close>

theorem ee_timer_starts_witness:
  "\<exists>us r'. timer_accesses [Mode_uword 0 0x80, Mode_uhword 1 0 0x80, Tick Time_type, Mode_uword 1 0]
      (REeTimers_new, REeIntc_new) = Inr (us, r') \<and>
    mode_field TIM_CUE (tu_mode (us ! 0)) = 0 \<and> mode_field TIM_CUE (tu_mode (us ! 1)) \<noteq> 0"
proof -
  let ?as = "[Mode_uword 0 0x80, Mode_uhword 1 0 0x80, Tick Time_type, Mode_uword 1 0]"
  obtain us r' where r: "timer_accesses ?as (REeTimers_new, REeIntc_new) = Inr (us, r')"
    using demo_timer_accesses by blast
  from ee_timer_starts[OF r] have c: "mode_field TIM_CUE (tu_mode (us ! i)) \<noteq> 0 \<longleftrightarrow> last_start i False ?as"
    if "i < 4" for i using that by blast
  show ?thesis
    by (intro exI conjI, rule r) (use c[of 0] c[of 1] in \<open>simp_all add: bit_numeral_rec\<close>)
qed

text \<open>C35: an IOP timer programmed to interrupt on its target does interrupt the core.  The timer's
  mode has just been written and makes it count the bus clock, reset at its target (bit 3),
  interrupt on it (bit 4) and repeat; the target is in range and no overflow is left over; the
  other timers have sane counters and sources the source implements, and those that count the
  bus clock are in repeat mode too (else the source throws).  After an event of at least as many
  ticks as the target, a time slice of the interrupt controller (with the timer's mask bit and
  the control register set) and the core's next check, the core, if it accepts interrupts on
  line 2, is in the interrupt handler.\<close>

corollary iop_timer_interrupts_core:
  assumes "list_all (iop_steady Time_type) us" and "distinct (map iu_id us)"
    and "i < length us" and "iop_programmed Time_type v (us ! i)" and "bit v 3" and "bit v 4"
    and "unat (iu_compare (us ! i)) \<le> nat (time_to_ticks d)"
    and "iop_intc_ctrl r \<noteq> 0" and "bit (iop_intc_mask r) (tmr_key (iu_id (us ! i)))"
    and "iop_ok s" and "bit (i0_raw I0_STATUS (i_cop0 s)) 0" and "bit (i0_raw I0_STATUS (i_cop0 s)) 10"
    and "0 < t"
  shows "\<exists>us' r' c s'. iop_timers_handle_event time_to_ticks (Time_event d) (us, r) = Inr (us', r') \<and>
    iop_intc_run t (r', i_cop0 s) = Inr (r', c) \<and>
    iop_handle_interrupt_check (s\<lparr>i_cop0 := c\<rparr>) = Inr s' \<and> iop_entry IEX_INTERRUPT s s'"
  using iop_timer_interrupts[OF assms] by simp

theorem iop_timer_interrupts_core_witness:
  "\<exists>us' r' c s'. iop_timers_handle_event (\<lambda>d. d) (Time_event 2500) (demo_iop_timers, demo_iop_intc) = Inr (us', r') \<and>
    iop_intc_run 1 (r', i_cop0 demo_iop_irq) = Inr (r', c) \<and>
    iop_handle_interrupt_check (demo_iop_irq\<lparr>i_cop0 := c\<rparr>) = Inr s' \<and> iop_entry IEX_INTERRUPT demo_iop_irq s'"
proof (rule iop_timer_interrupts_core[OF demo_iop_timers_ok(1,2), of 3 "0x58"])
  show "bit (i0_raw I0_STATUS (i_cop0 demo_iop_irq)) 0" "bit (i0_raw I0_STATUS (i_cop0 demo_iop_irq)) 10"
    by (simp_all add: demo_iop_irq_cop0(1) bit_numeral_rec)
qed (simp_all add: demo_iop_timers_ok demo_iop_irq_ok demo_iop_intc_def tmr_key_def bit_numeral_rec)

section \<open>DMA\<close>

text \<open>C36: a normal transfer of the EE's DMA controller delivers: a channel set up to receive \<open>n\<close>
  quad words from its queue has, within \<open>n + 2\<close> ticks, put exactly those bytes in order at its
  address, changed nothing else in that memory, taken them off the queue and stopped; and line 3
  of the core is up if another interrupt is pending or the channel is unmasked.\<close>

corollary dma_receive:
  assumes "receive_setup c n r q i off m s" and "only_started j cs" and "cs ! j = c"
    and "bit (d_ctrl s) 0" and "length (c0_irq_lines (d_cop0 s)) = 8" and "int n + 2 \<le> t"
  shows "\<exists>cs' s' m'. ee_dmac_run t (cs, s) = Inr (cs', s') \<and> \<not> bit (chcr_val (chcr (cs' ! j))) 8 \<and>
    memory_at i s' = Some m' \<and> take (16 * n) (drop off (mem_bytes m')) = take (16 * n) (q_items q) \<and>
    take off (mem_bytes m') = take off (mem_bytes m) \<and>
    drop (off + 16 * n) (mem_bytes m') = drop (off + 16 * n) (mem_bytes m) \<and>
    port_queue r s' = Inr (q\<lparr>q_items := drop (16 * n) (q_items q)\<rparr>) \<and>
    (c0_irq_lines (d_cop0 s') ! 3 \<longleftrightarrow> is_interrupt_pending (d_stat s) \<or> bit (d_stat s) (16 + channel_id c))"
  by (rule ee_dma_received[OF assms])

theorem dma_receive_witness:
  "\<exists>cs' s' m'. ee_dmac_run 3 (demo_channels 0x100 1, demo_ee_dma demo_data) = Inr (cs', s') \<and>
    memory_at 0 s' = Some m' \<and> take 16 (mem_bytes m') = demo_data \<and> c0_irq_lines (d_cop0 s') ! 3"
proof -
  have "take 16 demo_data = demo_data" "channel_id (demo_channels 0x100 1 ! 5) = 5"
    by (simp_all add: demo_data_def demo_channel EeDmacChannel_Base_new_def)
  then show ?thesis
    using dma_receive[OF demo_receive demo_only_started refl, of 3] by (auto simp: bit_numeral_rec)
qed

text \<open>C37: a destination chain of the EE's DMA controller stores its packets: tags that continue,
  each followed by its data, and a last one that ends the chain are read from the queue of the
  channel, and the memory then holds the data of each packet, in order, at the address of its
  tag; the channel stops and its status flag is set.\<close>

corollary dma_chain:
  assumes "chain_setup c ps p rest r q i m s" and "only_started j cs" and "cs ! j = c"
    and "bit (d_ctrl s) 0" and "length (c0_irq_lines (d_cop0 s)) = 8" and "int (packets_steps (ps @ [p])) + 2 \<le> t"
  shows "\<exists>cs' s'. ee_dmac_run t (cs, s) = Inr (cs', s') \<and> \<not> bit (chcr_val (chcr (cs' ! j))) 8 \<and>
    memory_at i s' = Some (m\<lparr>mem_bytes := store_packets (ps @ [p]) (mem_bytes m)\<rparr>) \<and>
    port_queue r s' = Inr (q\<lparr>q_items := rest\<rparr>) \<and> bit (d_stat s') (channel_id c)"
  by (rule ee_dma_chain_stored[OF assms])

theorem dma_chain_witness:
  "\<exists>cs' s'. ee_dmac_run 4 (demo_channels 0x104 0, demo_ee_dma (packet_bytes demo_packet)) = Inr (cs', s') \<and>
    memory_at 0 s' = Some (demo_ram\<lparr>mem_bytes := overlay 0 demo_data (mem_bytes demo_ram)\<rparr>)"
  using dma_chain[OF demo_chain demo_only_started refl, of 4] by (auto simp: demo_packet_simps)

text \<open>C38: the transfer from the IOP to the EE.  With a source chain in the memory of the IOP whose
  packets fit the SIF0 queue, and the two channels started, a slice of the IOP's controller and
  one of the EE's leave the memory of the EE holding the data of every packet at the address of
  its tag; the EE's channel is stopped and flagged; and a further slice of the IOP's controller
  stops the sending channel and raises its interrupt when it is enabled.\<close>

corollary sif0_delivers:
  assumes "src_setup c a ps p Sif0_fifo (fifo_sif0 (dma_sbus s)) s" and "q_items (fifo_sif0 (dma_sbus s)) = []"
    and "iop_only_started j cs" and "cs ! j = c" and "gctrl s \<noteq> 0"
    and "dst_ready d xs x Sif0_fifo i m e" and "only_started k ds" and "ds ! k = d" and "bit (d_ctrl e) 0"
    and "length (c0_irq_lines (d_cop0 e)) = 8" and "list_all2 same_packet (ps @ [p]) (xs @ [x])"
    and "int (ip_steps (ps @ [p])) + 1 \<le> t1" and "int (packets_steps (xs @ [x])) + 2 \<le> t2" and "0 < t3"
  shows "\<exists>cs1 s1 ds1 e1 cs2 s2.
    iop_dmac_run t1 (cs, s) = Inr (cs1, s1) \<and>
    ee_dmac_run t2 (ds, sif_sees e (dma_sbus s1)) = Inr (ds1, e1) \<and>
    iop_dmac_run t3 (cs1, sif_sees s1 (dma_sbus e1)) = Inr (cs2, s2) \<and>
    memory_at i e1 = Some (m\<lparr>mem_bytes := store_packets (xs @ [x]) (mem_bytes m)\<rparr>) \<and>
    dma_bus s2 = dma_bus s \<and> q_items (fifo_sif0 (dma_sbus s2)) = [] \<and>
    \<not> bit (ichcr_val (ic_chcr (cs2 ! j))) 24 \<and> \<not> bit (chcr_val (chcr (ds1 ! k))) 8 \<and>
    bit (d_stat e1) (channel_id d) \<and>
    p_intc s2 =
      (if iop_dma_pending (tci_set (ic_id c) s) then iop_stat_insert_field (BF 3 1) 1 (p_intc s) else p_intc s)"
  by (rule sif0_transfer[OF assms])

theorem sif0_delivers_witness:
  "\<exists>cs1 s1 ds1 e1 cs2 s2.
    iop_dmac_run 6 (demo_iop_channels, demo_iop_dma) = Inr (cs1, s1) \<and>
    ee_dmac_run 4 (demo_channels 0x104 0, sif_sees (demo_ee_dma []) (dma_sbus s1)) = Inr (ds1, e1) \<and>
    iop_dmac_run 1 (cs1, sif_sees s1 (dma_sbus e1)) = Inr (cs2, s2) \<and>
    memory_at 0 e1 = Some (demo_ram\<lparr>mem_bytes := overlay 0 demo_data (mem_bytes demo_ram)\<rparr>)"
  using sif0_delivers[OF demo_src_setup _ demo_iop_only_started refl _ demo_dst_ready[of "[]"] demo_only_started refl,
      of 6 4 1]
  by (auto simp: demo_packet_simps demo_iop_packet_simps demo_iop_dma_def sbus_new_def DmaFifoQueue_new_def queue_new_def)

text \<open>C39: the SBUS flags are a mailbox: what the EE posts in MSFLG, of bits that are free, the IOP
  takes back by writing the same bits, and the register is as before; between the two the IOP
  sees exactly the old and the posted bits.\<close>

corollary mailbox_round_trip:
  assumes "sbus_msflg b AND v = 0"
  shows "msflg_bus_write Iop_context v (msflg_bus_write Ee_context v b) = b \<and>
    sbus_msflg (msflg_bus_write Ee_context v b) = sbus_msflg b OR v"
  using msflg_post_ack[OF assms] by (simp add: msflg_bus_write_def)

theorem mailbox_round_trip_witness:
  "msflg_bus_write Iop_context 6 (msflg_bus_write Ee_context 6 (sbus_new\<lparr>sbus_msflg := 1\<rparr>)) = sbus_new\<lparr>sbus_msflg := 1\<rparr>"
  using mailbox_round_trip[of "sbus_new\<lparr>sbus_msflg := 1\<rparr>" 6] by simp

section \<open>The physical memory maps\<close>

text \<open>C40: the memory maps of both processors are sound.  The busses that \<open>initialise_ee\<close> and
  \<open>initialise_iop\<close> build out of the addresses they list are built without an error, and every
  object listed is found at every one of its addresses, with the offset in it: no register or
  memory hides another.\<close>

corollary physical_maps:
  "(\<exists>b. ee_bus = Inr b \<and> bus_objects b = map_objects ee_map \<and>
      (\<forall>(a, x)\<in>set ee_map. \<forall>k<kind_size (snd x).
         bus_locate (a + of_nat k) b = Inr (index_of x (map_resources ee_map), k))) \<and>
   (\<exists>b. iop_bus = Inr b \<and> bus_objects b = map_objects iop_map \<and>
      (\<forall>(a, x)\<in>set iop_map. \<forall>k<kind_size (snd x).
         bus_locate (a + of_nat k) b = Inr (index_of x (map_resources iop_map), k)))"
  using ee_bus_correct iop_bus_correct by blast

text \<open>Witness: byte 2 of the mask register of the interrupt controller of the EE.\<close>

theorem physical_maps_witness:
  "\<exists>b. ee_bus = Inr b \<and>
     bus_locate 0x1000F012 b = Inr (index_of (Named ''ee.intc.mask'', Word_reg) (map_resources ee_map), 2)"
proof -
  have m: "(0x1000F010, Named ''ee.intc.mask'', Word_reg) \<in> set ee_map"
    by (simp add: ee_map_def mappings_def ee_segments_def ee_intc_registers_map_def)
  from physical_maps obtain b where b: "ee_bus = Inr b"
    and l: "\<forall>(a, x)\<in>set ee_map. \<forall>k<kind_size (snd x).
      bus_locate (a + of_nat k) b = Inr (index_of x (map_resources ee_map), k)"
    by blast
  have "bus_locate (0x1000F010 + of_nat 2) b =
      Inr (index_of (Named ''ee.intc.mask'', Word_reg) (map_resources ee_map), 2)"
    using bspec[OF l m] by (simp del: of_nat_numeral)
  then have "bus_locate 0x1000F012 b =
      Inr (index_of (Named ''ee.intc.mask'', Word_reg) (map_resources ee_map), 2)"
    by simp
  with b show ?thesis by blast
qed

end
